(* ===== verification/Prelude.thy ===== *)
theory Prelude
  imports Main
begin

text \<open>
  Shared vocabulary of the development: the result type of code that may raise, the HTTP
  errors of the control plane, Python's string helpers as far as the source uses them, and
  the row operations that stand for the SQL the source issues (\<open>select\<close>, \<open>where\<close>,
  \<open>order_by\<close>, \<open>update\<close>) on tables kept as lists of rows in insertion order.
\<close>

named_theorems row_simps \<open>rewrites for the row operations\<close>
named_theorems model_defs \<open>definitions that a component proof unfolds\<close>

section \<open>Results and errors\<close>

datatype py_error =
    ValueError string
  | PermissionError string
  | KeyError string
  | RuntimeError string
  | TypeError string
  | IntegrityError string
  | AttributeError string
  | OSError string
  | TimeoutExpired string
  | ServiceControlError string
  | Win32Error nat string
  | IndexError string
  | ApiError string

datatype http_error = HTTPException nat string

type_synonym 'a http = "http_error + 'a"

fun is_ok :: "'e + 'a \<Rightarrow> bool" where
  "is_ok (Inl _) = False"
| "is_ok (Inr _) = True"

lemma is_ok_iff: "is_ok r \<longleftrightarrow> (\<exists>a. r = Inr a)"
  by (cases r) auto

text \<open>\<open>[f(x) for x in xs]\<close> where \<open>f\<close> may raise: the first error wins.\<close>

fun traverse :: "('a \<Rightarrow> 'e + 'b) \<Rightarrow> 'a list \<Rightarrow> 'e + 'b list" where
  "traverse f [] = Inr []"
| "traverse f (x # xs) =
     (case f x of Inl e \<Rightarrow> Inl e
      | Inr y \<Rightarrow> (case traverse f xs of Inl e \<Rightarrow> Inl e | Inr ys \<Rightarrow> Inr (y # ys)))"

lemma traverse_in: "traverse f xs = Inr ys \<Longrightarrow> y \<in> set ys \<Longrightarrow> \<exists>x \<in> set xs. f x = Inr y"
  by (induction xs arbitrary: ys) (auto split: sum.splits)

lemma traverse_all: "traverse f xs = Inr ys \<Longrightarrow> x \<in> set xs \<Longrightarrow> \<exists>y \<in> set ys. f x = Inr y"
  by (induction xs arbitrary: ys) (auto split: sum.splits)

lemma traverse_total: "(\<And>x. x \<in> set xs \<Longrightarrow> f x = Inr (g x)) \<Longrightarrow> traverse f xs = Inr (map g xs)"
  by (induction xs) auto

section \<open>Strings\<close>

type_synonym time = int

definition lower_char :: "char \<Rightarrow> char" where
  "lower_char c = (let n = of_char c :: nat in
     if (65 \<le> n \<and> n \<le> 90) \<or> (192 \<le> n \<and> n \<le> 222 \<and> n \<noteq> 215) then char_of (n + 32) else c)"

definition lower :: "string \<Rightarrow> string" where
  "lower s = map lower_char s"

lemma lower_char_idem [simp]: "lower_char (lower_char c) = lower_char c"
proof -
  have "(of_char (char_of (of_char c + 32 :: nat) :: char) :: nat) = (of_char c + 32) mod 256"
    by (simp add: of_char_of)
  then show ?thesis by (auto simp: lower_char_def Let_def)
qed

lemma lower_idem [simp]: "lower (lower s) = lower s"
  by (simp add: lower_def)

definition is_space :: "char \<Rightarrow> bool" where
  "is_space c = (let n = of_char c :: nat in
     (9 \<le> n \<and> n \<le> 13) \<or> (28 \<le> n \<and> n \<le> 32) \<or> n = 133 \<or> n = 160)"

definition strip :: "string \<Rightarrow> string" where
  "strip s = rev (dropWhile is_space (rev (dropWhile is_space s)))"

definition starts_with :: "string \<Rightarrow> string \<Rightarrow> bool" where
  "starts_with s p = (take (length p) s = p)"

definition remove_prefix :: "string \<Rightarrow> string \<Rightarrow> string" where
  "remove_prefix s p = (if starts_with s p then drop (length p) s else s)"

text \<open>\<open>s.replace("_", " ")\<close>.\<close>

definition spaced_name :: "string \<Rightarrow> string" where
  "spaced_name s = map (\<lambda>c. if c = CHR ''_'' then CHR '' '' else c) s"

text \<open>\<open>truthy\<close> is Python's truth value of an optional string: \<open>None\<close> and the empty string are false.\<close>

definition truthy :: "string option \<Rightarrow> bool" where
  "truthy x = (case x of None \<Rightarrow> False | Some s \<Rightarrow> s \<noteq> [])"

lemma truthy_simps [simp]: "truthy None = False" "truthy (Some s) = (s \<noteq> [])"
  by (simp_all add: truthy_def)

lemma starts_with_append [simp]: "starts_with (p @ s) p"
  by (simp add: starts_with_def)

lemma starts_withE:
  assumes "starts_with s p"
  obtains t where "s = p @ t"
  using assms unfolding starts_with_def by (metis append_take_drop_id)

lemma remove_prefix_append [simp]: "remove_prefix (p @ s) p = s"
  by (simp add: remove_prefix_def)

text \<open>Decimal rendering of a natural number, as \<open>str(n)\<close>.\<close>

fun digit_char :: "nat \<Rightarrow> char" where
  "digit_char d = char_of (48 + d)"

function show_nat :: "nat \<Rightarrow> string" where
  "show_nat n = (if n < 10 then [digit_char n] else show_nat (n div 10) @ [digit_char (n mod 10)])"
  by pat_completeness auto
termination
  by (relation "measure id") auto

declare show_nat.simps [simp del]

definition show_int :: "int \<Rightarrow> string" where
  "show_int i = (if i < 0 then CHR ''-'' # show_nat (nat (- i)) else show_nat (nat i))"

fun val_nat :: "string \<Rightarrow> nat" where
  "val_nat s = foldl (\<lambda>a c. 10 * a + (of_char c - 48)) 0 s"

definition is_digit :: "char \<Rightarrow> bool" where
  "is_digit c = (let n = of_char c :: nat in 48 \<le> n \<and> n \<le> 57)"

lemma of_char_digit [simp]: "d < 10 \<Longrightarrow> (of_char (digit_char d) :: nat) = 48 + d"
  by (simp add: of_char_of)

lemma is_digit_digit_char [simp]: "d < 10 \<Longrightarrow> is_digit (digit_char d)"
  by (simp add: is_digit_def of_char_of Let_def)

lemma show_nat_digits: "\<forall>c \<in> set (show_nat n). is_digit c"
proof (induction n rule: show_nat.induct)
  case (1 n)
  show ?case
  proof (cases "n < 10")
    case True
    then show ?thesis by (subst show_nat.simps) (simp del: digit_char.simps)
  next
    case False
    with 1 have "\<forall>c \<in> set (show_nat (n div 10)). is_digit c" by simp
    with False show ?thesis
      by (subst show_nat.simps) (simp del: digit_char.simps)
  qed
qed

lemma show_nat_nonempty [simp]: "show_nat n \<noteq> []"
  by (subst show_nat.simps) simp

lemma val_show_nat [simp]: "val_nat (show_nat n) = n"
proof (induction n rule: show_nat.induct)
  case (1 n)
  show ?case
  proof (cases "n < 10")
    case True
    then show ?thesis
      by (subst show_nat.simps) (simp del: digit_char.simps)
  next
    case False
    have d: "n mod 10 < 10" by simp
    from 1 False have "val_nat (show_nat (n div 10)) = n div 10" by simp
    then have "val_nat (show_nat n) = 10 * (n div 10) + n mod 10"
      using False d by (subst show_nat.simps) (simp del: digit_char.simps)
    then show ?thesis by simp
  qed
qed

lemma show_nat_inj [simp]: "show_nat m = show_nat n \<longleftrightarrow> m = n"
  by (metis val_show_nat)

section \<open>Rows\<close>

text \<open>
  \<open>scalar P rows\<close> is \<open>session.scalar(select(T).where(P))\<close>: the first matching row or \<open>None\<close>.
  \<open>update_where P f rows\<close> is an \<open>UPDATE\<close> (or the mutation of an ORM object found by \<open>P\<close>).
\<close>

definition scalar :: "('r \<Rightarrow> bool) \<Rightarrow> 'r list \<Rightarrow> 'r option" where
  "scalar P rows = List.find P rows"

definition update_where :: "('r \<Rightarrow> bool) \<Rightarrow> ('r \<Rightarrow> 'r) \<Rightarrow> 'r list \<Rightarrow> 'r list" where
  "update_where P f rows = map (\<lambda>r. if P r then f r else r) rows"

text \<open>\<open>order_by(k.desc())\<close> and the first row: the first row whose key is maximal.\<close>

fun first_max :: "('r \<Rightarrow> 'k::linorder) \<Rightarrow> 'r list \<Rightarrow> 'r option" where
  "first_max k [] = None"
| "first_max k (r # rs) =
     (case first_max k rs of None \<Rightarrow> Some r | Some m \<Rightarrow> if k m > k r then Some m else Some r)"

definition clamp :: "int \<Rightarrow> int \<Rightarrow> int \<Rightarrow> int" where
  "clamp lo hi n = min (max n lo) hi"

lemma scalar_SomeD: "scalar P rows = Some r \<Longrightarrow> r \<in> set rows \<and> P r"
  by (auto simp: scalar_def find_Some_iff)

lemma scalar_None_iff: "scalar P rows = None \<longleftrightarrow> (\<forall>r \<in> set rows. \<not> P r)"
  by (auto simp: scalar_def find_None_iff)

lemma scalar_Cons [row_simps]: "scalar P (r # rs) = (if P r then Some r else scalar P rs)"
  by (simp add: scalar_def)

lemma scalar_Nil [row_simps]: "scalar P [] = None"
  by (simp add: scalar_def)

lemma scalar_append [row_simps]:
  "scalar P (xs @ ys) = (case scalar P xs of None \<Rightarrow> scalar P ys | Some r \<Rightarrow> Some r)"
  by (induction xs) (auto simp: row_simps)

lemma update_where_Nil [row_simps]: "update_where P f [] = []"
  by (simp add: update_where_def)

lemma update_where_Cons [row_simps]:
  "update_where P f (r # rs) = (if P r then f r else r) # update_where P f rs"
  by (simp add: update_where_def)

lemma update_where_append [row_simps]:
  "update_where P f (xs @ ys) = update_where P f xs @ update_where P f ys"
  by (simp add: update_where_def)

lemma length_update_where [simp]: "length (update_where P f rows) = length rows"
  by (simp add: update_where_def)

lemma set_update_where:
  "r \<in> set (update_where P f rows) \<longleftrightarrow> (\<exists>q \<in> set rows. r = (if P q then f q else q))"
  by (auto simp: update_where_def)

lemma update_where_none: "(\<And>r. r \<in> set rows \<Longrightarrow> \<not> P r) \<Longrightarrow> update_where P f rows = rows"
  unfolding update_where_def by (induction rows) auto

lemma map_update_where_id:
  "(\<And>r. k (f r) = k r) \<Longrightarrow> map k (update_where P f rows) = map k rows"
  by (auto simp: update_where_def)

lemma filter_update_where_other:
  assumes "\<And>r. Q r \<Longrightarrow> \<not> P r" and "\<And>r. P r \<Longrightarrow> \<not> Q (f r)"
  shows "filter Q (update_where P f rows) = filter Q rows"
  using assms unfolding update_where_def by (induction rows) auto

lemma scalar_update_where:
  assumes "\<And>r. P r \<Longrightarrow> P (f r)"
  shows "scalar P (update_where P f rows) = map_option f (scalar P rows)"
  using assms by (induction rows) (auto simp: row_simps)

lemma scalar_update_other:
  assumes "\<And>r. P r \<Longrightarrow> Q (f r) = Q r" and "\<And>r. P r \<Longrightarrow> \<not> Q r"
  shows "scalar Q (update_where P f rows) = scalar Q rows"
  using assms by (induction rows) (auto simp: row_simps)

lemma first_max_None [simp]: "first_max k rs = None \<longleftrightarrow> rs = []"
  by (cases rs) (auto split: option.splits if_splits)

lemma first_max_in: "first_max k rs = Some r \<Longrightarrow> r \<in> set rs"
  by (induction rs arbitrary: r) (auto split: option.splits if_splits)

lemma first_max_ge: "first_max k rs = Some r \<Longrightarrow> q \<in> set rs \<Longrightarrow> k q \<le> k r"
proof (induction rs arbitrary: r)
  case (Cons a rs)
  show ?case
  proof (cases "first_max k rs")
    case None
    with Cons.prems show ?thesis by simp
  next
    case (Some m)
    with Cons show ?thesis by (fastforce split: if_splits)
  qed
qed simp

lemma clamp_bounds: "lo \<le> hi \<Longrightarrow> lo \<le> clamp lo hi n \<and> clamp lo hi n \<le> hi"
  by (auto simp: clamp_def)

lemma find_unique:
  assumes "distinct (map k xs)" and "x \<in> set xs" and "k x = a"
  shows "List.find (\<lambda>r. k r = a) xs = Some x"
  using assms by (induction xs) (auto simp: image_iff)

lemma scalar_unique:
  assumes "distinct (map k xs)" and "x \<in> set xs" and "k x = a"
  shows "scalar (\<lambda>r. k r = a) xs = Some x"
  using find_unique [OF assms] by (simp add: scalar_def)

end
