(* ===== verification/Json.thy ===== *)
theory Json
  imports Complex_Main Prelude "HOL-Library.List_Lexorder" "HOL-Library.Char_ord" "HOL-Library.Multiset"
begin

text \<open>
  JSON values as the source builds them (\<open>details\<close>, \<open>parameters\<close>, envelopes), the canonical
  rendering \<open>json.dumps(..., sort_keys=True, separators=...)\<close> that every hash and signature of
  the program is computed over, and the redaction of \<open>events.sanitize_event_data\<close>.  The main
  result is that the canonical text determines the value: two values with the same text are
  the same up to the order of the keys of their dictionaries.  Characters are code points
  below 256; the text of a float is a parameter (\<open>frepr\<close>).
\<close>

datatype json =
    JNull
  | JBool bool
  | JInt int
  | JFloat rat
  | JStr string
  | JList "json list"
  | JObj "(string \<times> json) list"

text \<open>
  What the program takes from the Python runtime and its packages: digests, the text of a
  float, the ISO form of a timestamp (\<open>fromisoformat\<close> gives \<open>None\<close> for its \<open>ValueError\<close>, and
  with the instant whether it carries a time zone), \<open>str(v)\<close> of a value that is no string, and
  \<open>json.loads\<close> (\<open>None\<close> for its \<open>JSONDecodeError\<close>).
\<close>

record host =
  sha256_hex :: "string \<Rightarrow> string"
  hmac_sha256_hex :: "string \<Rightarrow> string \<Rightarrow> string"
  float_repr :: "rat \<Rightarrow> string"
  isoformat :: "time \<Rightarrow> string"
  fromisoformat :: "string \<Rightarrow> (time \<times> bool) option"
  str_value :: "json \<Rightarrow> string"
  json_loads :: "string \<Rightarrow> json option"

section \<open>Rendering\<close>

definition hexdig :: "nat \<Rightarrow> char" where
  "hexdig d = (if d < 10 then char_of (48 + d) else char_of (87 + d))"

definition unhex :: "char \<Rightarrow> nat" where
  "unhex c = (let n = of_char c in if n < 58 then n - 48 else n - 87)"

text \<open>The escapes of \<open>json.dumps\<close> with \<open>ensure_ascii=True\<close>.\<close>

definition esc :: "char \<Rightarrow> string" where
  "esc c = (let n = of_char c :: nat in
     if n = 34 then [CHR 0x5C, CHR 0x22]
     else if n = 92 then [CHR 0x5C, CHR 0x5C]
     else if n = 10 then [CHR 0x5C, CHR ''n'']
     else if n = 13 then [CHR 0x5C, CHR ''r'']
     else if n = 9 then [CHR 0x5C, CHR ''t'']
     else if n = 12 then [CHR 0x5C, CHR ''f'']
     else if n = 8 then [CHR 0x5C, CHR ''b'']
     else if 32 \<le> n \<and> n \<le> 126 then [c]
     else [CHR 0x5C, CHR ''u'', CHR ''0'', CHR ''0'', hexdig (n div 16), hexdig (n mod 16)])"

definition quote :: "string \<Rightarrow> string" where
  "quote s = CHR 0x22 # concat (map esc s) @ [CHR 0x22]"

fun join :: "string \<Rightarrow> string list \<Rightarrow> string" where
  "join sep [] = []"
| "join sep [x] = x"
| "join sep (x # y # ys) = x @ sep @ join sep (y # ys)"

primrec canon :: "json \<Rightarrow> json" where
  "canon JNull = JNull"
| "canon (JBool b) = JBool b"
| "canon (JInt i) = JInt i"
| "canon (JFloat q) = JFloat q"
| "canon (JStr s) = JStr s"
| "canon (JList xs) = JList (map canon xs)"
| "canon (JObj kvs) = JObj (sort_key fst (map (map_prod id canon) kvs))"

primrec render :: "string \<Rightarrow> string \<Rightarrow> (rat \<Rightarrow> string) \<Rightarrow> json \<Rightarrow> string" where
  "render isep ksep fr JNull = ''null''"
| "render isep ksep fr (JBool b) = (if b then ''true'' else ''false'')"
| "render isep ksep fr (JInt i) = show_int i"
| "render isep ksep fr (JFloat q) = fr q"
| "render isep ksep fr (JStr s) = quote s"
| "render isep ksep fr (JList xs) = ''['' @ join isep (map (render isep ksep fr) xs) @ '']''"
| "render isep ksep fr (JObj kvs) =
     ''{'' @ join isep (map (\<lambda>(k, t). quote k @ ksep @ t)
                         (map (map_prod id (render isep ksep fr)) kvs)) @ ''}''"

text \<open>\<open>separators=(",", ":")\<close>, and the default separators.\<close>

definition dumps_tight :: "(rat \<Rightarrow> string) \<Rightarrow> json \<Rightarrow> string" where
  "dumps_tight fr j = render '','' '':'' fr (canon j)"

definition dumps_default :: "(rat \<Rightarrow> string) \<Rightarrow> json \<Rightarrow> string" where
  "dumps_default fr j = render '', '' '': '' fr (canon j)"

section \<open>The text determines the value\<close>

definition num_char :: "char \<Rightarrow> bool" where
  "num_char c \<longleftrightarrow> is_digit c \<or> c \<in> set ''-+.e''"

definition delimited :: "string \<Rightarrow> bool" where
  "delimited r \<longleftrightarrow> (case r of [] \<Rightarrow> True | c # _ \<Rightarrow> \<not> num_char c)"

text \<open>
  What \<open>repr(float)\<close> guarantees: distinct finite floats have distinct texts, made of digits,
  signs, a point and an exponent mark, starting with a digit or a minus, and never the text of
  an integer.
\<close>

definition float_text :: "string \<Rightarrow> bool" where
  "float_text t \<longleftrightarrow> t \<noteq> [] \<and> (\<forall>c \<in> set t. num_char c)
     \<and> (is_digit (hd t) \<or> hd t = CHR ''-'') \<and> (\<exists>c \<in> set t. c \<in> set ''.e'')"

definition float_repr_ok :: "(rat \<Rightarrow> string) \<Rightarrow> bool" where
  "float_repr_ok fr \<longleftrightarrow> inj fr \<and> (\<forall>q. float_text (fr q))"

lemma unhex_hexdig: "d < 16 \<Longrightarrow> unhex (hexdig d) = d"
  by (auto simp: unhex_def hexdig_def of_char_of Let_def)

fun unesc :: "string \<Rightarrow> (char \<times> string) option" where
  "unesc [] = None"
| "unesc (x # r) =
     (if x = CHR 0x22 then None
      else if x \<noteq> CHR 0x5C then Some (x, r)
      else case r of [] \<Rightarrow> None
        | y # r1 \<Rightarrow>
          (if y = CHR 0x22 \<or> y = CHR 0x5C then Some (y, r1)
           else if y = CHR ''n'' then Some (char_of (10::nat), r1)
           else if y = CHR ''r'' then Some (char_of (13::nat), r1)
           else if y = CHR ''t'' then Some (char_of (9::nat), r1)
           else if y = CHR ''f'' then Some (char_of (12::nat), r1)
           else if y = CHR ''b'' then Some (char_of (8::nat), r1)
           else if 4 \<le> length r1
             then Some (char_of (16 * unhex (r1 ! 2) + unhex (r1 ! 3)), drop 4 r1)
           else None))"

lemma char_code: "of_char c = (n::nat) \<Longrightarrow> c = char_of n"
  by (metis char_of_char)

lemma of_char_less_256: "(of_char c :: nat) < 256"
proof -
  have "(of_char c :: nat) mod 256 = of_char (char_of (of_char c :: nat) :: char)"
    by (simp add: of_char_of)
  then show ?thesis by simp
qed

lemma unesc_esc: "unesc (esc c @ r) = Some (c, r)"
proof -
  let ?n = "of_char c :: nat"
  have n: "?n < 256" by (rule of_char_less_256)
  have hex: "char_of (16 * unhex (hexdig (?n div 16)) + unhex (hexdig (?n mod 16))) = c"
  proof -
    have "?n div 16 < 16" using n by (intro less_mult_imp_div_less) simp
    then show ?thesis by (simp add: unhex_hexdig)
  qed
  have quote_code: "char_of (34::nat) = CHR 0x22" "char_of (92::nat) = CHR 0x5C"
    by (rule char_code [symmetric], simp)+
  have plain: "c \<noteq> CHR 0x22 \<and> c \<noteq> CHR 0x5C" if "?n \<noteq> 34" "?n \<noteq> 92"
    using that by auto
  consider "?n \<in> {34, 92, 10, 13, 9, 12, 8}" | "?n \<notin> {34, 92, 10, 13, 9, 12, 8}" by blast
  then show ?thesis
  proof cases
    case 1
    then show ?thesis using quote_code by (auto simp: esc_def dest!: char_code)
  next
    case 2
    then show ?thesis using plain hex by (auto simp: esc_def Let_def)
  qed
qed

lemma esc_not_quote: "esc c @ x = CHR 0x22 # y \<Longrightarrow> False"
  using unesc_esc [of c x] by simp

lemma escs_inj:
  "concat (map esc s) @ CHR 0x22 # r = concat (map esc t) @ CHR 0x22 # q \<Longrightarrow> s = t \<and> r = q"
proof (induction s arbitrary: t)
  case Nil
  then show ?case by (cases t) (auto dest: esc_not_quote sym)
next
  case (Cons c s)
  show ?case
  proof (cases t)
    case Nil
    with Cons.prems show ?thesis by (auto dest: esc_not_quote)
  next
    case (Cons d t')
    with Cons.prems have "esc c @ (concat (map esc s) @ CHR 0x22 # r)
        = esc d @ (concat (map esc t') @ CHR 0x22 # q)" by simp
    then have "c = d" and "concat (map esc s) @ CHR 0x22 # r = concat (map esc t') @ CHR 0x22 # q"
      using unesc_esc by (metis Pair_inject option.inject)+
    with Cons.IH Cons show ?thesis by blast
  qed
qed

lemma quote_inj: "quote s @ r = quote t @ q \<Longrightarrow> s = t \<and> r = q"
  using escs_inj [of s r t q] by (simp add: quote_def)


lemma show_nat_num: "c \<in> set (show_nat n) \<Longrightarrow> is_digit c"
  using show_nat_digits by blast

lemma minus_not_digit [simp]: "\<not> is_digit (CHR ''-'')"
  by (simp add: is_digit_def)

lemma show_int_chars: "c \<in> set (show_int i) \<Longrightarrow> is_digit c \<or> c = CHR ''-''"
  by (auto simp: show_int_def dest: show_nat_num split: if_splits)

lemma show_int_nonempty [simp]: "show_int i \<noteq> []"
  by (simp add: show_int_def)

lemma show_int_inj [simp]: "show_int i = show_int j \<longleftrightarrow> i = j"
proof -
  have "show_nat m \<noteq> CHR ''-'' # t" for m t
    using show_nat_num [of "CHR ''-''" m] by auto
  moreover from this have "CHR ''-'' # t \<noteq> show_nat m" for m t by metis
  ultimately show ?thesis by (auto simp: show_int_def)
qed

lemma token_inj:
  assumes "s @ r = t @ q" and "\<forall>c \<in> set s. P c" and "\<forall>c \<in> set t. P c"
    and "r = [] \<or> \<not> P (hd r)" and "q = [] \<or> \<not> P (hd q)"
  shows "s = t \<and> r = q"
proof -
  have "takeWhile P (s @ r) = s" using assms(2,4) by (cases r) (auto simp: takeWhile_append)
  moreover have "takeWhile P (t @ q) = t" using assms(3,5) by (cases q) (auto simp: takeWhile_append)
  ultimately show ?thesis using assms(1) by auto
qed

lemma num_inj:
  assumes "s @ r = t @ q" and "\<forall>c \<in> set s. num_char c" and "\<forall>c \<in> set t. num_char c"
    and "delimited r" and "delimited q"
  shows "s = t \<and> r = q"
  using assms by (intro token_inj [where P = num_char]) (auto simp: delimited_def split: list.splits)

lemma join_Cons: "join sep (x # xs) = x @ (if xs = [] then [] else sep @ join sep xs)"
  by (cases xs) auto

lemma join_inj:
  assumes "\<And>x y r q. x \<in> set xs \<Longrightarrow> f x @ r = f y @ q \<Longrightarrow> delimited r \<Longrightarrow> delimited q
             \<Longrightarrow> x = y \<and> r = q"
    and "\<And>x r q. f x @ r \<noteq> cl # q" and "cl \<noteq> CHR '',''" and "\<not> num_char cl"
    and "join (CHR '','' # sp) (map f xs) @ cl # r = join (CHR '','' # sp) (map f ys) @ cl # q"
  shows "xs = ys \<and> r = q"
  using assms(1,5)
proof (induction xs arbitrary: ys)
  case Nil
  then show ?case using assms(2) by (cases ys) (auto simp: join_Cons dest: sym)
next
  case (Cons x xs)
  define R where "R zs = (if zs = [] then [] else (CHR '','' # sp) @ join (CHR '','' # sp) (map f zs))" for zs
  have d: "delimited (R zs @ cl # w)" for zs w
    using assms(4) by (auto simp: R_def delimited_def num_char_def is_digit_def)
  show ?case
  proof (cases ys)
    case Nil
    with Cons.prems(2) assms(2) show ?thesis by (auto simp: join_Cons)
  next
    case (Cons y ys')
    with Cons.prems(2) have "f x @ (R xs @ cl # r) = f y @ (R ys' @ cl # q)"
      by (simp add: join_Cons R_def split: if_splits)
    with Cons.prems(1) d have "x = y \<and> R xs @ cl # r = R ys' @ cl # q"
      by (meson list.set_intros(1))
    then have eq: "x = y" and rest: "R xs @ cl # r = R ys' @ cl # q" by simp_all
    show ?thesis
    proof (cases "xs = [] \<or> ys' = []")
      case True
      with rest assms(3) eq \<open>ys = y # ys'\<close> show ?thesis by (auto simp: R_def split: if_splits)
    next
      case False
      with rest have "join (CHR '','' # sp) (map f xs) @ cl # r = join (CHR '','' # sp) (map f ys') @ cl # q"
        by (simp add: R_def)
      then have "xs = ys' \<and> r = q"
        by (rule Cons.IH [rotated]) (rule Cons.prems(1), simp_all)
      with eq \<open>ys = y # ys'\<close> show ?thesis by simp
    qed
  qed
qed

lemma render_obj:
  "render isep ksep fr (JObj kvs) =
     ''{'' @ join isep (map (\<lambda>kv. quote (fst kv) @ ksep @ render isep ksep fr (snd kv)) kvs) @ ''}''"
proof -
  have "map (\<lambda>(k, t). quote k @ ksep @ t) (map (map_prod id (render isep ksep fr)) kvs)
      = map (\<lambda>kv. quote (fst kv) @ ksep @ render isep ksep fr (snd kv)) kvs"
    by (simp add: case_prod_beta)
  then show ?thesis by (simp only: render.simps)
qed

text \<open>Both separator styles: a comma and a colon, each followed by the text \<open>sp\<close>.\<close>

definition rend :: "string \<Rightarrow> (rat \<Rightarrow> string) \<Rightarrow> json \<Rightarrow> string" where
  "rend sp fr j = render (CHR '','' # sp) (CHR '':'' # sp) fr j"

definition item :: "string \<Rightarrow> (rat \<Rightarrow> string) \<Rightarrow> string \<times> json \<Rightarrow> string" where
  "item sp fr kv = quote (fst kv) @ (CHR '':'' # sp) @ rend sp fr (snd kv)"

lemma rend_simps:
  "rend sp fr JNull = ''null''"
  "rend sp fr (JBool b) = (if b then ''true'' else ''false'')"
  "rend sp fr (JInt i) = show_int i"
  "rend sp fr (JFloat x) = fr x"
  "rend sp fr (JStr s) = quote s"
  "rend sp fr (JList xs) = ''['' @ join (CHR '','' # sp) (map (rend sp fr) xs) @ '']''"
  "rend sp fr (JObj kvs) = ''{'' @ join (CHR '','' # sp) (map (item sp fr) kvs) @ ''}''"
proof -
  have eq: "rend sp fr = render (CHR '','' # sp) (CHR '':'' # sp) fr" by (rule ext) (simp add: rend_def)
  show "rend sp fr JNull = ''null''"
    "rend sp fr (JBool b) = (if b then ''true'' else ''false'')"
    "rend sp fr (JInt i) = show_int i" "rend sp fr (JFloat x) = fr x" "rend sp fr (JStr s) = quote s"
    "rend sp fr (JList xs) = ''['' @ join (CHR '','' # sp) (map (rend sp fr) xs) @ '']''"
    by (simp_all add: eq)
  show "rend sp fr (JObj kvs) = ''{'' @ join (CHR '','' # sp) (map (item sp fr) kvs) @ ''}''"
    by (simp only: eq render_obj item_def [abs_def])
qed

lemma quote_Cons: "quote s = CHR 0x22 # concat (map esc s) @ [CHR 0x22]"
  by (simp add: quote_def)

text \<open>The first character of a text tells which kind of value it renders.\<close>

definition tag :: "json \<Rightarrow> nat" where
  "tag j = (case j of JNull \<Rightarrow> 0 | JBool b \<Rightarrow> (if b then 1 else 2) | JInt _ \<Rightarrow> 3 | JFloat _ \<Rightarrow> 3
            | JStr _ \<Rightarrow> 4 | JList _ \<Rightarrow> 5 | JObj _ \<Rightarrow> 6)"

definition head_tag :: "char \<Rightarrow> nat" where
  "head_tag c = (if is_digit c \<or> c = CHR ''-'' then 3 else if c = CHR ''n'' then 0
     else if c = CHR ''t'' then 1 else if c = CHR ''f'' then 2 else if c = CHR 0x22 then 4
     else if c = CHR ''['' then 5 else if c = CHR ''{'' then 6 else 7)"

lemma show_int_hd: "is_digit (hd (show_int i)) \<or> hd (show_int i) = CHR ''-''"
  using show_int_chars [of "hd (show_int i)" i] by simp

lemma rend_head:
  assumes "float_repr_ok fr"
  shows "rend sp fr j \<noteq> [] \<and> head_tag (hd (rend sp fr j)) = tag j"
proof (cases j)
  case (JInt i)
  then show ?thesis using show_int_hd [of i] by (simp add: rend_simps head_tag_def tag_def)
next
  case (JFloat q)
  then show ?thesis using assms
    by (auto simp: rend_simps head_tag_def tag_def float_repr_ok_def float_text_def)
qed (auto simp: rend_simps head_tag_def tag_def quote_Cons is_digit_def)

lemma rend_not_close:
  assumes "float_repr_ok fr" and "head_tag c = 7"
  shows "rend sp fr j @ r \<noteq> c # q"
proof
  assume eq: "rend sp fr j @ r = c # q"
  obtain x xs where "rend sp fr j = x # xs" using rend_head [OF assms(1), of sp j] by (cases "rend sp fr j") auto
  with eq rend_head [OF assms(1), of sp j] assms(2) show False
    by (cases j) (auto simp: tag_def split: if_splits)
qed


lemma float_not_int:
  assumes "float_repr_ok fr" shows "fr q \<noteq> show_int i"
proof
  assume eq: "fr q = show_int i"
  from assms obtain c where c: "c \<in> set (fr q)" "c \<in> set ''.e''"
    by (auto simp: float_repr_ok_def float_text_def)
  with eq have "is_digit c \<or> c = CHR ''-''" using show_int_chars by metis
  with c(2) show False by (auto simp: is_digit_def)
qed

lemma num_texts:
  assumes "float_repr_ok fr"
  shows "\<forall>c \<in> set (show_int i). num_char c" and "\<forall>c \<in> set (fr q). num_char c"
  using assms show_int_chars [of _ i]
  by (auto simp: num_char_def float_repr_ok_def float_text_def)

lemma rend_tag_eq:
  assumes "float_repr_ok fr" and "rend sp fr j @ r = rend sp fr j' @ q"
  shows "tag j = tag j'"
proof -
  have "hd (rend sp fr j @ r) = hd (rend sp fr j' @ q)" using assms(2) by simp
  then show ?thesis using rend_head [OF assms(1), of sp j] rend_head [OF assms(1), of sp j'] by simp
qed

lemma tag_simps [simp]:
  "tag JNull = 0" "tag (JBool b) = (if b then 1 else 2)" "tag (JInt i) = 3" "tag (JFloat x) = 3"
  "tag (JStr s) = 4" "tag (JList xs) = 5" "tag (JObj kvs) = 6"
  by (simp_all add: tag_def)

theorem rend_inj:
  assumes ok: "float_repr_ok fr"
  shows "rend sp fr j @ r = rend sp fr j' @ q \<Longrightarrow> delimited r \<Longrightarrow> delimited q \<Longrightarrow> j = j' \<and> r = q"
proof (induction j arbitrary: j' r q)
  case JNull
  with rend_tag_eq [OF ok JNull(1)] show ?case
    by (cases j') (auto simp: rend_simps split: if_splits)
next
  case (JBool b)
  with rend_tag_eq [OF ok JBool(1)] show ?case
    by (cases j') (auto simp: rend_simps split: if_splits)
next
  case (JInt i)
  from rend_tag_eq [OF ok JInt(1)] consider i' where "j' = JInt i'" | x where "j' = JFloat x"
    by (cases j') (auto split: if_splits)
  then show ?case
  proof cases
    case 1
    with JInt num_inj [OF _ num_texts(1) [OF ok] num_texts(1) [OF ok], of i r i' q]
    show ?thesis by (simp add: rend_simps)
  next
    case 2
    with JInt num_inj [OF _ num_texts(1) [OF ok] num_texts(2) [OF ok], of i r x q]
    show ?thesis using float_not_int [OF ok, of x i] by (simp add: rend_simps)
  qed
next
  case (JFloat y)
  from rend_tag_eq [OF ok JFloat(1)] consider i' where "j' = JInt i'" | x where "j' = JFloat x"
    by (cases j') (auto split: if_splits)
  then show ?case
  proof cases
    case 1
    with JFloat num_inj [OF _ num_texts(2) [OF ok] num_texts(1) [OF ok], of y r i' q]
    show ?thesis using float_not_int [OF ok, of y i'] by (simp add: rend_simps)
  next
    case 2
    have "inj fr" using ok by (simp add: float_repr_ok_def)
    with 2 JFloat num_inj [OF _ num_texts(2) [OF ok] num_texts(2) [OF ok], of y r x q]
    show ?thesis by (simp add: rend_simps inj_eq)
  qed
next
  case (JStr s)
  from rend_tag_eq [OF ok JStr(1)] obtain t where "j' = JStr t"
    by (cases j') (auto split: if_splits)
  with JStr quote_inj [of s r t q] show ?case by (simp add: rend_simps)
next
  case (JList xs)
  from rend_tag_eq [OF ok JList(2)] obtain ys where j': "j' = JList ys"
    by (cases j') (auto split: if_splits)
  have cl: "head_tag (CHR '']'') = 7" "\<not> num_char (CHR '']'')"
    by (auto simp: head_tag_def num_char_def is_digit_def)
  from JList(2) j' have "join (CHR '','' # sp) (map (rend sp fr) xs) @ CHR '']'' # r
      = join (CHR '','' # sp) (map (rend sp fr) ys) @ CHR '']'' # q" by (simp add: rend_simps)
  from join_inj [OF _ rend_not_close [OF ok cl(1)] _ cl(2) this] JList(1) j' show ?case by simp
next
  case (JObj kvs)
  from rend_tag_eq [OF ok JObj(2)] obtain lws where j': "j' = JObj lws"
    by (cases j') (auto split: if_splits)
  have cl: "\<not> num_char (CHR ''}'')" by (auto simp: num_char_def is_digit_def)
  have nc: "item sp fr x @ r \<noteq> CHR ''}'' # q" for x r q by (simp add: item_def quote_def)
  have IH: "x = y \<and> r = q" if "x \<in> set kvs" "item sp fr x @ r = item sp fr y @ q"
    "delimited r" "delimited q" for x y r q
  proof -
    from that(2) have "quote (fst x) @ (CHR '':'' # sp) @ rend sp fr (snd x) @ r
        = quote (fst y) @ (CHR '':'' # sp) @ rend sp fr (snd y) @ q" by (simp add: item_def)
    from quote_inj [OF this] have k: "fst x = fst y" and "rend sp fr (snd x) @ r = rend sp fr (snd y) @ q"
      by simp_all
    with JObj(1) [of x "snd x"] that(1,3,4) have "snd x = snd y \<and> r = q"
      by (cases x) auto
    with k show ?thesis by (simp add: prod_eq_iff)
  qed
  from JObj(2) j' have "join (CHR '','' # sp) (map (item sp fr) kvs) @ CHR ''}'' # r
      = join (CHR '','' # sp) (map (item sp fr) lws) @ CHR ''}'' # q" by (simp add: rend_simps)
  from join_inj [OF IH nc _ cl this] j' show ?case by simp
qed

lemma dumps_tight_inj:
  assumes "float_repr_ok fr" and "dumps_tight fr a = dumps_tight fr b"
  shows "canon a = canon b"
  using rend_inj [OF assms(1), of "[]" "canon a" "[]" "canon b" "[]"] assms(2)
  by (simp add: dumps_tight_def rend_def delimited_def)

lemma dumps_default_inj:
  assumes "float_repr_ok fr" and "dumps_default fr a = dumps_default fr b"
  shows "canon a = canon b"
  using rend_inj [OF assms(1), of "'' ''" "canon a" "[]" "canon b" "[]"] assms(2)
  by (simp add: dumps_default_def rend_def delimited_def)


lemma map_of_sort_key: "distinct (map fst xs) \<Longrightarrow> map_of (sort_key fst xs) = map_of xs"
proof -
  assume d: "distinct (map fst xs)"
  have "mset (map fst (sort_key fst xs)) = mset (map fst xs)" by (metis mset_map mset_sort)
  then have "distinct (map fst (sort_key fst xs))" using d using mset_eq_imp_distinct_iff by blast
  with d show ?thesis by (simp add: map_of_inject_set)
qed

lemma canon_obj_lookup:
  assumes "canon (JObj a) = canon (JObj b)" and "distinct (map fst a)" and "distinct (map fst b)"
  shows "map_option canon (map_of a k) = map_option canon (map_of b k)"
proof -
  have lk: "map_of (sort_key fst (map (map_prod id canon) c)) k = map_option canon (map_of c k)"
    if "distinct (map fst c)" for c
  proof -
    have "map fst (map (map_prod id canon) c) = map fst c" by simp
    with that have "map_of (sort_key fst (map (map_prod id canon) c)) = map_of (map (map_prod id canon) c)"
      by (simp only: map_of_sort_key)
    moreover have "map_of (map (map_prod id canon) c) k = map_option canon (map_of c k)"
      by (induction c) auto
    ultimately show ?thesis by simp
  qed
  from assms(1) have "sort_key fst (map (map_prod id canon) a) = sort_key fst (map (map_prod id canon) b)"
    by simp
  with lk [OF assms(2)] lk [OF assms(3)] show ?thesis by simp
qed

lemma canon_atoms [simp]:
  "canon x = JInt i \<longleftrightarrow> x = JInt i" "canon x = JStr s \<longleftrightarrow> x = JStr s"
  "canon x = JNull \<longleftrightarrow> x = JNull" "canon x = JBool b \<longleftrightarrow> x = JBool b"
  by (cases x; auto)+

text \<open>\<open>str(v)\<close>.\<close>

definition py_str :: "host \<Rightarrow> json \<Rightarrow> string" where
  "py_str h v = (case v of JStr s \<Rightarrow> s | _ \<Rightarrow> str_value h v)"

text \<open>What the code relies on: an aware timestamp survives its ISO text.\<close>

definition iso_ok :: "host \<Rightarrow> bool" where
  "iso_ok h \<longleftrightarrow> (\<forall>t. fromisoformat h (isoformat h t) = Some (t, True))"

section \<open>Numbers in text\<close>

text \<open>\<open>int(text)\<close>: digits with single underscores between them, a sign, surrounding space.\<close>

fun digits_ok :: "string \<Rightarrow> bool" where
  "digits_ok [] = False"
| "digits_ok [c] = is_digit c"
| "digits_ok (c # d # cs) = (is_digit c \<and> (if d = CHR ''_'' then digits_ok cs else digits_ok (d # cs)))"

definition parse_int :: "string \<Rightarrow> py_error + int" where
  "parse_int text =
     (let t = strip text; signed = t \<noteq> [] \<and> hd t \<in> {CHR ''+'', CHR ''-''};
          ds = (if signed then tl t else t);
          n = int (val_nat (filter (\<lambda>c. c \<noteq> CHR ''_'') ds))
      in if digits_ok ds then Inr (if signed \<and> hd t = CHR ''-'' then - n else n)
         else Inl (ValueError ''invalid literal for int()''))"

lemma digit_chars: "is_digit c \<Longrightarrow> \<not> is_space c \<and> c \<noteq> CHR ''_'' \<and> c \<noteq> CHR ''+'' \<and> c \<noteq> CHR ''-''"
  by (auto simp: is_digit_def is_space_def Let_def)

lemma digits_ok_digits: "cs \<noteq> [] \<Longrightarrow> \<forall>c \<in> set cs. is_digit c \<Longrightarrow> digits_ok cs"
  by (induction cs rule: digits_ok.induct) (auto dest: digit_chars)

lemma strip_clean:
  assumes "\<forall>c \<in> set s. \<not> is_space c"
  shows "strip s = s"
proof -
  have "dropWhile is_space xs = xs" if "\<forall>c \<in> set xs. \<not> is_space c" for xs
    using that by (cases xs) auto
  from this [OF assms] this [of "rev s"] assms show ?thesis by (simp add: strip_def)
qed

lemma show_nat_ne [simp]: "show_nat n \<noteq> []"
  by (subst show_nat.simps) (simp del: show_nat.simps)

lemma parse_show_int [simp]: "parse_int (show_int i) = Inr i"
proof -
  let ?ds = "show_nat (nat \<bar>i\<bar>)"
  have d: "\<forall>c \<in> set ?ds. is_digit c" by (rule show_nat_digits)
  from d have f: "filter (\<lambda>c. c \<noteq> CHR ''_'') ?ds = ?ds" using digit_chars by (intro filter_True ballI) blast
  have ok: "digits_ok ?ds" using d by (simp add: digits_ok_digits del: show_nat.simps)
  have s: "strip ?ds = ?ds" "strip (CHR ''-'' # ?ds) = CHR ''-'' # ?ds"
    using d digit_chars by (intro strip_clean ballI; force simp: is_space_def simp del: show_nat.simps)+
  show ?thesis
  proof (cases "i < 0")
    case True
    then have "show_int i = CHR ''-'' # ?ds" by (simp add: show_int_def del: show_nat.simps)
    with True s(2) ok f show ?thesis by (simp add: parse_int_def Let_def del: val_nat.simps show_nat.simps)
  next
    case False
    then have e: "show_int i = ?ds" by (simp add: show_int_def del: show_nat.simps)
    have "hd ?ds \<noteq> CHR ''+''" "hd ?ds \<noteq> CHR ''-''"
      using d digit_chars hd_in_set [OF show_nat_ne] by metis+
    with False e s(1) ok f show ?thesis by (simp add: parse_int_def Let_def del: val_nat.simps show_nat.simps)
  qed
qed

text \<open>\<open>int(v)\<close>.\<close>

definition int_of_json :: "json \<Rightarrow> py_error + int" where
  "int_of_json v = (case v of JInt n \<Rightarrow> Inr n | JBool b \<Rightarrow> Inr (if b then 1 else 0) | JStr s \<Rightarrow> parse_int s
     | JFloat q \<Rightarrow> Inr (if q < 0 then - \<lfloor>- q\<rfloor> else \<lfloor>q\<rfloor>) | _ \<Rightarrow> Inl (TypeError ''int() argument''))"

end
