(* ===== verification/Events.thy ===== *)
theory Events
  imports Json
begin

text \<open>
  \<open>helpdesktool/events.py\<close>: the canonical domain events, the map from audit event names to
  them, and the redaction applied to event data before it leaves the control plane.
\<close>

section \<open>Event types\<close>

datatype EventType =
    DEVICE_REGISTERED
  | DEVICE_ONLINE
  | DEVICE_OFFLINE
  | DEVICE_HEALTH_WARNING
  | INCIDENT_CREATED
  | INCIDENT_UPDATED
  | INCIDENT_RESOLVED
  | INCIDENT_REOPENED
  | REMEDIATION_REQUESTED
  | REMEDIATION_STARTED
  | REMEDIATION_SUCCEEDED
  | REMEDIATION_FAILED
  | REMEDIATION_ROLLED_BACK
  | APPROVAL_REQUIRED
  | APPROVAL_APPROVED
  | APPROVAL_DENIED
  | TICKET_CREATED
  | TICKET_UPDATED
  | TICKET_RESOLVED
  | TICKET_ESCALATED
  | SECURITY_ALERT

fun EventType_value :: "EventType \<Rightarrow> string" where
  "EventType_value DEVICE_REGISTERED = ''device.registered''"
| "EventType_value DEVICE_ONLINE = ''device.online''"
| "EventType_value DEVICE_OFFLINE = ''device.offline''"
| "EventType_value DEVICE_HEALTH_WARNING = ''device.health.warning''"
| "EventType_value INCIDENT_CREATED = ''incident.created''"
| "EventType_value INCIDENT_UPDATED = ''incident.updated''"
| "EventType_value INCIDENT_RESOLVED = ''incident.resolved''"
| "EventType_value INCIDENT_REOPENED = ''incident.reopened''"
| "EventType_value REMEDIATION_REQUESTED = ''remediation.requested''"
| "EventType_value REMEDIATION_STARTED = ''remediation.started''"
| "EventType_value REMEDIATION_SUCCEEDED = ''remediation.succeeded''"
| "EventType_value REMEDIATION_FAILED = ''remediation.failed''"
| "EventType_value REMEDIATION_ROLLED_BACK = ''remediation.rolled_back''"
| "EventType_value APPROVAL_REQUIRED = ''approval.required''"
| "EventType_value APPROVAL_APPROVED = ''approval.approved''"
| "EventType_value APPROVAL_DENIED = ''approval.denied''"
| "EventType_value TICKET_CREATED = ''ticket.created''"
| "EventType_value TICKET_UPDATED = ''ticket.updated''"
| "EventType_value TICKET_RESOLVED = ''ticket.resolved''"
| "EventType_value TICKET_ESCALATED = ''ticket.escalated''"
| "EventType_value SECURITY_ALERT = ''security.alert''"

definition EventType_members :: "EventType list" where
  "EventType_members = [DEVICE_REGISTERED, DEVICE_ONLINE, DEVICE_OFFLINE, DEVICE_HEALTH_WARNING, INCIDENT_CREATED, INCIDENT_UPDATED, INCIDENT_RESOLVED, INCIDENT_REOPENED, REMEDIATION_REQUESTED, REMEDIATION_STARTED, REMEDIATION_SUCCEEDED, REMEDIATION_FAILED, REMEDIATION_ROLLED_BACK, APPROVAL_REQUIRED, APPROVAL_APPROVED, APPROVAL_DENIED, TICKET_CREATED, TICKET_UPDATED, TICKET_RESOLVED, TICKET_ESCALATED, SECURITY_ALERT]"

definition parse_EventType :: "string \<Rightarrow> EventType option" where
  "parse_EventType s = List.find (\<lambda>m. EventType_value m = s) EventType_members"

lemma parse_EventType_value [simp]: "parse_EventType (EventType_value m) = Some m"
  by (cases m) (simp_all add: parse_EventType_def EventType_members_def)

lemma EventType_value_inj [simp]: "EventType_value a = EventType_value b \<longleftrightarrow> a = b"
  by (metis option.inject parse_EventType_value)


definition AUDIT_EVENT_MAPPING :: "(string \<times> EventType) list" where
  "AUDIT_EVENT_MAPPING =
    [(''device.enrolled'', DEVICE_REGISTERED),
     (''policy.evaluated'', REMEDIATION_REQUESTED),
     (''action.approved'', APPROVAL_APPROVED),
     (''action.denied'', APPROVAL_DENIED),
     (''execution.queued'', REMEDIATION_STARTED),
     (''execution.verified'', REMEDIATION_SUCCEEDED),
     (''execution.failed'', REMEDIATION_FAILED),
     (''rollback.completed'', REMEDIATION_ROLLED_BACK),
     (''ticket.created'', TICKET_CREATED),
     (''ticket.updated'', TICKET_UPDATED),
     (''ticket.resolved'', TICKET_RESOLVED),
     (''incident.created'', INCIDENT_CREATED),
     (''incident.updated'', INCIDENT_UPDATED),
     (''incident.reopened'', INCIDENT_REOPENED),
     (''incident.resolved'', INCIDENT_RESOLVED),
     (''action.escalation_required'', TICKET_ESCALATED)]"

section \<open>Redaction\<close>

definition SENSITIVE_KEYS :: "string set" where
  "SENSITIVE_KEYS = {''authorization'', ''password'', ''secret'', ''token'', ''agent_token'', ''claim_token''}"

definition redact :: "string \<times> json \<Rightarrow> string \<times> json" where
  "redact kv = (fst kv, if lower (fst kv) \<in> SENSITIVE_KEYS then JStr ''[REDACTED]'' else snd kv)"

primrec sanitize_event_data :: "json \<Rightarrow> json" where
  "sanitize_event_data JNull = JNull"
| "sanitize_event_data (JBool b) = JBool b"
| "sanitize_event_data (JInt i) = JInt i"
| "sanitize_event_data (JFloat q) = JFloat q"
| "sanitize_event_data (JStr s) = JStr s"
| "sanitize_event_data (JList xs) = JList (map sanitize_event_data xs)"
| "sanitize_event_data (JObj kvs) =
     JObj (map redact (map (map_prod id sanitize_event_data) kvs))"

text \<open>
  \<open>exposes v\<close>: at some depth of \<open>v\<close> a sensitive key holds something else than the redaction
  mark; \<open>mentions v\<close>: at some depth there is a sensitive key.
\<close>

fun exposes :: "json \<Rightarrow> bool" where
  "exposes (JList xs) = list_ex exposes xs"
| "exposes (JObj kvs) = list_ex (\<lambda>(k, v). (lower k \<in> SENSITIVE_KEYS \<and> v \<noteq> JStr ''[REDACTED]'')
                                   \<or> exposes v) kvs"
| "exposes _ = False"

fun mentions :: "json \<Rightarrow> bool" where
  "mentions (JList xs) = list_ex mentions xs"
| "mentions (JObj kvs) = list_ex (\<lambda>(k, v). lower k \<in> SENSITIVE_KEYS \<or> mentions v) kvs"
| "mentions _ = False"

lemma sanitize_not_exposes: "\<not> exposes (sanitize_event_data v)"
proof (induction v)
  case (JObj kvs)
  have "\<not> exposes (sanitize_event_data v)" if "(k, v) \<in> set kvs" for k v
    using JObj [of "(k, v)" v] that by simp
  then show ?case by (auto simp: list_ex_iff redact_def split: if_splits)
qed (auto simp: list_ex_iff)

lemma sanitize_id: "\<not> mentions v \<Longrightarrow> sanitize_event_data v = v"
proof (induction v)
  case (JList xs)
  then show ?case by (auto simp: list_ex_iff intro: map_idI)
next
  case (JObj kvs)
  have "redact (map_prod id sanitize_event_data kv) = kv" if "kv \<in> set kvs" for kv
    using JObj that by (cases kv) (force simp: list_ex_iff redact_def)
  then show ?case by (auto simp: intro!: map_idI)
qed auto

lemma sanitize_idem: "sanitize_event_data (sanitize_event_data v) = sanitize_event_data v"
proof (induction v)
  case (JList xs)
  then show ?case by simp
next
  case (JObj kvs)
  have "redact (map_prod id sanitize_event_data (redact (map_prod id sanitize_event_data kv)))
      = redact (map_prod id sanitize_event_data kv)" if "kv \<in> set kvs" for kv
    using JObj that by (cases kv) (force simp: redact_def)
  then show ?case by auto
qed auto

section \<open>The event envelope\<close>

record DomainEvent =
  de_id :: string
  de_tenant_id :: string
  de_event_type :: EventType
  de_subject_id :: string
  de_occurred_at :: time
  de_data :: "(string \<times> json) list"
  de_schema_version :: int

definition DomainEvent_create ::
  "string \<Rightarrow> time \<Rightarrow> string \<Rightarrow> EventType \<Rightarrow> string \<Rightarrow> (string \<times> json) list \<Rightarrow> DomainEvent" where
  "DomainEvent_create new_id now tenant ty subject d =
     \<lparr>de_id = new_id, de_tenant_id = tenant, de_event_type = ty, de_subject_id = subject,
      de_occurred_at = now, de_data = d, de_schema_version = 1\<rparr>"

definition envelope :: "host \<Rightarrow> DomainEvent \<Rightarrow> json" where
  "envelope h e = JObj
     [(''id'', JStr (de_id e)),
      (''tenant_id'', JStr (de_tenant_id e)),
      (''type'', JStr (EventType_value (de_event_type e))),
      (''subject_id'', JStr (de_subject_id e)),
      (''occurred_at'', JStr (isoformat h (de_occurred_at e))),
      (''schema_version'', JInt (de_schema_version e)),
      (''data'', JObj (de_data e))]"

end
