(* ===== verification/Domain.thy ===== *)
theory Domain
  imports Events
begin

text \<open>
  \<open>helpdesktool/models.py\<close>: the closed vocabularies of the control plane (each \<open>StrEnum\<close> with
  its stored string and the constructor that reads the string back), and the typed contracts
  of actions and skills with the checks their \<open>__post_init__\<close> makes.
\<close>

section \<open>Vocabularies\<close>

datatype RiskLevel =
    RISK_READ_ONLY
  | RISK_LOW
  | RISK_MEDIUM
  | RISK_HIGH
  | RISK_PROHIBITED

fun RiskLevel_value :: "RiskLevel \<Rightarrow> string" where
  "RiskLevel_value RISK_READ_ONLY = ''read_only''"
| "RiskLevel_value RISK_LOW = ''low''"
| "RiskLevel_value RISK_MEDIUM = ''medium''"
| "RiskLevel_value RISK_HIGH = ''high''"
| "RiskLevel_value RISK_PROHIBITED = ''prohibited''"

definition RiskLevel_members :: "RiskLevel list" where
  "RiskLevel_members = [RISK_READ_ONLY, RISK_LOW, RISK_MEDIUM, RISK_HIGH, RISK_PROHIBITED]"

definition parse_RiskLevel :: "string \<Rightarrow> RiskLevel option" where
  "parse_RiskLevel s = List.find (\<lambda>m. RiskLevel_value m = s) RiskLevel_members"

lemma parse_RiskLevel_value [simp]: "parse_RiskLevel (RiskLevel_value m) = Some m"
  by (cases m) (simp_all add: parse_RiskLevel_def RiskLevel_members_def)

lemma RiskLevel_value_inj [simp]: "RiskLevel_value a = RiskLevel_value b \<longleftrightarrow> a = b"
  by (metis option.inject parse_RiskLevel_value)


datatype CommandType =
    CMD_READ_ONLY
  | LOW_RISK_CHANGE
  | PRIVILEGED_CHANGE
  | SECURITY_CONTAINMENT
  | DESTRUCTIVE

fun CommandType_value :: "CommandType \<Rightarrow> string" where
  "CommandType_value CMD_READ_ONLY = ''read_only''"
| "CommandType_value LOW_RISK_CHANGE = ''low_risk_change''"
| "CommandType_value PRIVILEGED_CHANGE = ''privileged_change''"
| "CommandType_value SECURITY_CONTAINMENT = ''security_containment''"
| "CommandType_value DESTRUCTIVE = ''destructive''"

definition CommandType_members :: "CommandType list" where
  "CommandType_members = [CMD_READ_ONLY, LOW_RISK_CHANGE, PRIVILEGED_CHANGE, SECURITY_CONTAINMENT, DESTRUCTIVE]"

definition parse_CommandType :: "string \<Rightarrow> CommandType option" where
  "parse_CommandType s = List.find (\<lambda>m. CommandType_value m = s) CommandType_members"

lemma parse_CommandType_value [simp]: "parse_CommandType (CommandType_value m) = Some m"
  by (cases m) (simp_all add: parse_CommandType_def CommandType_members_def)

lemma CommandType_value_inj [simp]: "CommandType_value a = CommandType_value b \<longleftrightarrow> a = b"
  by (metis option.inject parse_CommandType_value)


datatype AutomationLevel =
    L0_OBSERVE_ONLY
  | L1_SAFE_AUTOMATIC
  | L2_AUTOMATIC_VERIFY_ROLLBACK
  | L3_USER_APPROVAL
  | L4_ADMIN_APPROVAL
  | L5_SECURITY_INCIDENT

fun AutomationLevel_value :: "AutomationLevel \<Rightarrow> string" where
  "AutomationLevel_value L0_OBSERVE_ONLY = ''l0_observe_only''"
| "AutomationLevel_value L1_SAFE_AUTOMATIC = ''l1_safe_automatic''"
| "AutomationLevel_value L2_AUTOMATIC_VERIFY_ROLLBACK = ''l2_automatic_verify_rollback''"
| "AutomationLevel_value L3_USER_APPROVAL = ''l3_user_approval''"
| "AutomationLevel_value L4_ADMIN_APPROVAL = ''l4_admin_approval''"
| "AutomationLevel_value L5_SECURITY_INCIDENT = ''l5_security_incident''"

definition AutomationLevel_members :: "AutomationLevel list" where
  "AutomationLevel_members = [L0_OBSERVE_ONLY, L1_SAFE_AUTOMATIC, L2_AUTOMATIC_VERIFY_ROLLBACK, L3_USER_APPROVAL, L4_ADMIN_APPROVAL, L5_SECURITY_INCIDENT]"

definition parse_AutomationLevel :: "string \<Rightarrow> AutomationLevel option" where
  "parse_AutomationLevel s = List.find (\<lambda>m. AutomationLevel_value m = s) AutomationLevel_members"

lemma parse_AutomationLevel_value [simp]: "parse_AutomationLevel (AutomationLevel_value m) = Some m"
  by (cases m) (simp_all add: parse_AutomationLevel_def AutomationLevel_members_def)

lemma AutomationLevel_value_inj [simp]: "AutomationLevel_value a = AutomationLevel_value b \<longleftrightarrow> a = b"
  by (metis option.inject parse_AutomationLevel_value)


datatype SecurityClassification =
    NORMAL
  | UNKNOWN
  | MISCONFIGURATION
  | POLICY_VIOLATION
  | SUSPICIOUS
  | LIKELY_COMPROMISED
  | CONFIRMED_COMPROMISE

fun SecurityClassification_value :: "SecurityClassification \<Rightarrow> string" where
  "SecurityClassification_value NORMAL = ''normal''"
| "SecurityClassification_value UNKNOWN = ''unknown''"
| "SecurityClassification_value MISCONFIGURATION = ''misconfiguration''"
| "SecurityClassification_value POLICY_VIOLATION = ''policy_violation''"
| "SecurityClassification_value SUSPICIOUS = ''suspicious''"
| "SecurityClassification_value LIKELY_COMPROMISED = ''likely_compromised''"
| "SecurityClassification_value CONFIRMED_COMPROMISE = ''confirmed_compromise''"

definition SecurityClassification_members :: "SecurityClassification list" where
  "SecurityClassification_members = [NORMAL, UNKNOWN, MISCONFIGURATION, POLICY_VIOLATION, SUSPICIOUS, LIKELY_COMPROMISED, CONFIRMED_COMPROMISE]"

definition parse_SecurityClassification :: "string \<Rightarrow> SecurityClassification option" where
  "parse_SecurityClassification s = List.find (\<lambda>m. SecurityClassification_value m = s) SecurityClassification_members"

lemma parse_SecurityClassification_value [simp]: "parse_SecurityClassification (SecurityClassification_value m) = Some m"
  by (cases m) (simp_all add: parse_SecurityClassification_def SecurityClassification_members_def)

lemma SecurityClassification_value_inj [simp]: "SecurityClassification_value a = SecurityClassification_value b \<longleftrightarrow> a = b"
  by (metis option.inject parse_SecurityClassification_value)


datatype BaselineScope =
    GENERIC_BEST_PRACTICE
  | ORGANIZATIONAL_POLICY
  | DEVICE_BASELINE
  | USER_BASELINE
  | CURRENT_STATE

fun BaselineScope_value :: "BaselineScope \<Rightarrow> string" where
  "BaselineScope_value GENERIC_BEST_PRACTICE = ''generic_best_practice''"
| "BaselineScope_value ORGANIZATIONAL_POLICY = ''organizational_policy''"
| "BaselineScope_value DEVICE_BASELINE = ''device_baseline''"
| "BaselineScope_value USER_BASELINE = ''user_baseline''"
| "BaselineScope_value CURRENT_STATE = ''current_state''"

definition BaselineScope_members :: "BaselineScope list" where
  "BaselineScope_members = [GENERIC_BEST_PRACTICE, ORGANIZATIONAL_POLICY, DEVICE_BASELINE, USER_BASELINE, CURRENT_STATE]"

definition parse_BaselineScope :: "string \<Rightarrow> BaselineScope option" where
  "parse_BaselineScope s = List.find (\<lambda>m. BaselineScope_value m = s) BaselineScope_members"

lemma parse_BaselineScope_value [simp]: "parse_BaselineScope (BaselineScope_value m) = Some m"
  by (cases m) (simp_all add: parse_BaselineScope_def BaselineScope_members_def)

lemma BaselineScope_value_inj [simp]: "BaselineScope_value a = BaselineScope_value b \<longleftrightarrow> a = b"
  by (metis option.inject parse_BaselineScope_value)


datatype ActionStatus =
    REQUESTED
  | PENDING_APPROVAL
  | APPROVED
  | QUEUED
  | CLAIMED
  | RUNNING
  | SUCCEEDED
  | FAILED
  | ROLLED_BACK
  | ROLLBACK_FAILED
  | DENIED

fun ActionStatus_value :: "ActionStatus \<Rightarrow> string" where
  "ActionStatus_value REQUESTED = ''requested''"
| "ActionStatus_value PENDING_APPROVAL = ''pending_approval''"
| "ActionStatus_value APPROVED = ''approved''"
| "ActionStatus_value QUEUED = ''queued''"
| "ActionStatus_value CLAIMED = ''claimed''"
| "ActionStatus_value RUNNING = ''running''"
| "ActionStatus_value SUCCEEDED = ''succeeded''"
| "ActionStatus_value FAILED = ''failed''"
| "ActionStatus_value ROLLED_BACK = ''rolled_back''"
| "ActionStatus_value ROLLBACK_FAILED = ''rollback_failed''"
| "ActionStatus_value DENIED = ''denied''"

definition ActionStatus_members :: "ActionStatus list" where
  "ActionStatus_members = [REQUESTED, PENDING_APPROVAL, APPROVED, QUEUED, CLAIMED, RUNNING, SUCCEEDED, FAILED, ROLLED_BACK, ROLLBACK_FAILED, DENIED]"

definition parse_ActionStatus :: "string \<Rightarrow> ActionStatus option" where
  "parse_ActionStatus s = List.find (\<lambda>m. ActionStatus_value m = s) ActionStatus_members"

lemma parse_ActionStatus_value [simp]: "parse_ActionStatus (ActionStatus_value m) = Some m"
  by (cases m) (simp_all add: parse_ActionStatus_def ActionStatus_members_def)

lemma ActionStatus_value_inj [simp]: "ActionStatus_value a = ActionStatus_value b \<longleftrightarrow> a = b"
  by (metis option.inject parse_ActionStatus_value)



section \<open>Actions and skills\<close>

type_synonym dict = "(string \<times> json) list"

record ActionRequest =
  rq_tenant_id :: string
  rq_device_id :: string
  rq_skill_id :: string
  rq_requested_by :: string
  rq_parameters :: dict
  rq_correlation_id :: string

definition blank :: "string \<Rightarrow> bool" where
  "blank s = (strip s = [])"

definition ActionRequest_init :: "ActionRequest \<Rightarrow> py_error + ActionRequest" where
  "ActionRequest_init r =
     (if blank (rq_tenant_id r) then Inl (ValueError ''tenant_id must not be empty'')
      else if blank (rq_device_id r) then Inl (ValueError ''device_id must not be empty'')
      else if blank (rq_skill_id r) then Inl (ValueError ''skill_id must not be empty'')
      else if blank (rq_requested_by r) then Inl (ValueError ''requested_by must not be empty'')
      else Inr r)"

record SkillDefinition =
  sk_skill_id :: string
  sk_risk :: RiskLevel
  sk_supported_os :: "string set"
  sk_timeout_seconds :: int
  sk_rollback_skill_id :: "string option"
  sk_command_type :: CommandType
  sk_requires_user_approval :: bool
  sk_requires_admin_approval :: bool
  sk_security_sensitive :: bool
  sk_reversible :: bool

definition SkillDefinition_init :: "SkillDefinition \<Rightarrow> py_error + SkillDefinition" where
  "SkillDefinition_init s =
     (if sk_skill_id s = [] \<or> sk_supported_os s = {}
      then Inl (ValueError ''skill_id and supported_os are required'')
      else if \<not> (1 \<le> sk_timeout_seconds s \<and> sk_timeout_seconds s \<le> 300)
      then Inl (ValueError ''timeout_seconds must be between 1 and 300'')
      else Inr s)"

record ExecutionResult =
  er_success :: bool
  er_output :: dict
  er_error :: "string option"

record ActionRecord =
  ac_request :: ActionRequest
  ac_device_os :: string
  ac_risk :: RiskLevel
  ac_status :: ActionStatus
  ac_approved_by :: "string option"
  ac_result :: "ExecutionResult option"

definition new_record :: "ActionRequest \<Rightarrow> string \<Rightarrow> RiskLevel \<Rightarrow> ActionStatus \<Rightarrow> ActionRecord" where
  "new_record req os risk st =
     \<lparr>ac_request = req, ac_device_os = os, ac_risk = risk, ac_status = st,
      ac_approved_by = None, ac_result = None\<rparr>"

definition skill_ok :: "SkillDefinition \<Rightarrow> bool" where
  "skill_ok s \<longleftrightarrow> sk_skill_id s \<noteq> [] \<and> sk_supported_os s \<noteq> {}
     \<and> 1 \<le> sk_timeout_seconds s \<and> sk_timeout_seconds s \<le> 300"

lemma SkillDefinition_init_ok: "SkillDefinition_init s = Inr t \<longleftrightarrow> t = s \<and> skill_ok s"
  by (auto simp: SkillDefinition_init_def skill_ok_def)

definition opt_str :: "string option \<Rightarrow> json" where
  "opt_str x = (case x of None \<Rightarrow> JNull | Some s \<Rightarrow> JStr s)"

text \<open>\<open>d.get(k)\<close> on a dictionary kept as an association list.\<close>

definition dict_get :: "dict \<Rightarrow> string \<Rightarrow> json option" where
  "dict_get d k = map_of d k"

text \<open>\<open>d[k] = v\<close> keeps the place of a key that is there; \<open>{**d, **e}\<close> sets the items of \<open>e\<close> in turn.\<close>

fun dict_set :: "dict \<Rightarrow> string \<Rightarrow> json \<Rightarrow> dict" where
  "dict_set [] k v = [(k, v)]"
| "dict_set ((k', w) # d) k v = (if k' = k then (k, v) # d else (k', w) # dict_set d k v)"

definition dict_merge :: "dict \<Rightarrow> dict \<Rightarrow> dict" where
  "dict_merge d e = foldl (\<lambda>a (k, v). dict_set a k v) d e"

lemma dict_get_set [simp]: "dict_get (dict_set d k v) k' = (if k' = k then Some v else dict_get d k')"
  by (induction d) (auto simp: dict_get_def)

end
