(* ===== verification/Policy.thy ===== *)
theory Policy
  imports Domain
begin

text \<open>
  \<open>helpdesktool/policy.py\<close>: default-deny evaluation of registered skills.  \<open>policy_engine\<close> is
  the dictionary \<open>_skills\<close>; \<open>evaluate\<close> is \<open>PolicyEngine.evaluate\<close> branch by branch.  The
  lemmas characterise exactly when an action is allowed, when it needs approval, and which
  automation level is recorded with the decision.
\<close>

section \<open>The model\<close>

record PolicyDecision =
  pd_allowed :: bool
  pd_approval_required :: bool
  pd_reason :: string
  pd_skill :: "SkillDefinition option"
  pd_automation_level :: AutomationLevel

definition automation_level_for :: "SkillDefinition \<Rightarrow> bool \<Rightarrow> AutomationLevel" where
  "automation_level_for skill approval_required =
     (if sk_risk skill = RISK_READ_ONLY \<and> sk_command_type skill = CMD_READ_ONLY then L0_OBSERVE_ONLY
      else if sk_security_sensitive skill \<or> sk_command_type skill = SECURITY_CONTAINMENT
      then L5_SECURITY_INCIDENT
      else if sk_requires_admin_approval skill then L4_ADMIN_APPROVAL
      else if approval_required \<or> sk_requires_user_approval skill then L3_USER_APPROVAL
      else if sk_reversible skill \<and> truthy (sk_rollback_skill_id skill)
      then L2_AUTOMATIC_VERIFY_ROLLBACK
      else L1_SAFE_AUTOMATIC)"

type_synonym policy_engine = "(string \<times> SkillDefinition) list"

definition PolicyEngine_init :: "SkillDefinition list \<Rightarrow> py_error + policy_engine" where
  "PolicyEngine_init skills =
     (if \<not> distinct (map sk_skill_id skills) then Inl (ValueError ''duplicate skill_id'')
      else Inr (map (\<lambda>s. (sk_skill_id s, s)) skills))"

definition refuse :: "string \<Rightarrow> SkillDefinition option \<Rightarrow> PolicyDecision" where
  "refuse reason skill = \<lparr>pd_allowed = False, pd_approval_required = False, pd_reason = reason,
     pd_skill = skill, pd_automation_level = L0_OBSERVE_ONLY\<rparr>"

definition approval_needed :: "SkillDefinition \<Rightarrow> bool" where
  "approval_needed s \<longleftrightarrow> sk_risk s \<in> {RISK_MEDIUM, RISK_HIGH} \<or> sk_requires_user_approval s
     \<or> sk_requires_admin_approval s \<or> sk_security_sensitive s"

definition os_supported :: "SkillDefinition \<Rightarrow> string \<Rightarrow> bool" where
  "os_supported s os \<longleftrightarrow> lower os \<in> lower ` sk_supported_os s"

definition evaluate :: "policy_engine \<Rightarrow> ActionRequest \<Rightarrow> string \<Rightarrow> PolicyDecision" where
  "evaluate p request device_os =
     (case map_of p (rq_skill_id request) of
        None \<Rightarrow> refuse ''skill is not allowlisted'' None
      | Some skill \<Rightarrow>
          if sk_risk skill = RISK_PROHIBITED
          then refuse ''skill is prohibited by policy'' (Some skill)
          else if sk_command_type skill = DESTRUCTIVE
          then refuse ''destructive skills can never execute autonomously'' (Some skill)
          else if \<not> os_supported skill device_os
          then refuse ''skill does not support device OS'' (Some skill)
          else \<lparr>pd_allowed = True, pd_approval_required = approval_needed skill,
                pd_reason = ''allowed by registered skill policy'', pd_skill = Some skill,
                pd_automation_level = automation_level_for skill (approval_needed skill)\<rparr>)"

section \<open>Laws\<close>

text \<open>A skill that policy may let run on an operating system.\<close>

definition admissible :: "SkillDefinition \<Rightarrow> string \<Rightarrow> bool" where
  "admissible s os \<longleftrightarrow> sk_risk s \<noteq> RISK_PROHIBITED \<and> sk_command_type s \<noteq> DESTRUCTIVE
     \<and> os_supported s os"

lemma refuse_simps [simp]:
  "\<not> pd_allowed (refuse r s)" "\<not> pd_approval_required (refuse r s)" "pd_reason (refuse r s) = r"
  "pd_skill (refuse r s) = s" "pd_automation_level (refuse r s) = L0_OBSERVE_ONLY"
  by (simp_all add: refuse_def)

lemma evaluate_skill [simp]: "pd_skill (evaluate p rq os) = map_of p (rq_skill_id rq)"
  by (simp add: evaluate_def split: option.split)

lemma evaluate_allowed_iff:
  "pd_allowed (evaluate p rq os) \<longleftrightarrow>
     (\<exists>s. map_of p (rq_skill_id rq) = Some s \<and> admissible s os)"
  by (auto simp: evaluate_def admissible_def split: option.splits)

lemma evaluate_approval_iff:
  "pd_approval_required (evaluate p rq os) \<longleftrightarrow>
     (\<exists>s. map_of p (rq_skill_id rq) = Some s \<and> admissible s os \<and> approval_needed s)"
  by (auto simp: evaluate_def admissible_def split: option.splits)

lemma approval_allowed: "pd_approval_required (evaluate p rq os) \<Longrightarrow> pd_allowed (evaluate p rq os)"
  by (auto simp: evaluate_approval_iff evaluate_allowed_iff)

lemma evaluate_level:
  "pd_automation_level (evaluate p rq os) =
     (case map_of p (rq_skill_id rq) of None \<Rightarrow> L0_OBSERVE_ONLY
      | Some s \<Rightarrow> if admissible s os then automation_level_for s (approval_needed s)
                 else L0_OBSERVE_ONLY)"
  by (auto simp: evaluate_def admissible_def split: option.splits)

lemma level_L2_unattended:
  "automation_level_for s (approval_needed s) = L2_AUTOMATIC_VERIFY_ROLLBACK \<longleftrightarrow>
     \<not> (sk_risk s = RISK_READ_ONLY \<and> sk_command_type s = CMD_READ_ONLY)
     \<and> sk_command_type s \<noteq> SECURITY_CONTAINMENT
     \<and> \<not> approval_needed s \<and> sk_reversible s \<and> truthy (sk_rollback_skill_id s)"
  by (auto simp: automation_level_for_def approval_needed_def)

lemma PolicyEngine_init_lookup:
  assumes "PolicyEngine_init skills = Inr p"
  shows "map_of p k = Some s \<longleftrightarrow> s \<in> set skills \<and> sk_skill_id s = k"
proof -
  from assms have d: "distinct (map sk_skill_id skills)" and p: "p = map (\<lambda>s. (sk_skill_id s, s)) skills"
    by (auto simp: PolicyEngine_init_def split: if_splits)
  from d have "distinct (map fst p)" by (simp add: p comp_def)
  then show ?thesis by (auto simp: p image_iff)
qed

text \<open>
  C9.  Default deny.  With an engine built from a list of skills, an action is allowed exactly
  when a skill of that list has the requested id, is neither prohibited nor destructive and
  supports the device's operating system up to letter case; approval is asked for exactly when
  that skill is medium or high risk, flagged as requiring a user's or an administrator's
  approval, or security sensitive; and a refusal never asks for approval.
\<close>

theorem policy_default_deny:
  fixes rq :: ActionRequest and os :: string
  assumes "PolicyEngine_init skills = Inr p"
  defines "d \<equiv> evaluate p rq os"
  defines "fit \<equiv> (\<lambda>s. s \<in> set skills \<and> sk_skill_id s = rq_skill_id rq \<and> sk_risk s \<noteq> RISK_PROHIBITED
     \<and> sk_command_type s \<noteq> DESTRUCTIVE \<and> lower os \<in> lower ` sk_supported_os s)"
  shows "(pd_allowed d \<longleftrightarrow> (\<exists>s. fit s))
    \<and> (pd_approval_required d \<longleftrightarrow> (\<exists>s. fit s \<and> (sk_risk s \<in> {RISK_MEDIUM, RISK_HIGH}
         \<or> sk_requires_user_approval s \<or> sk_requires_admin_approval s \<or> sk_security_sensitive s)))
    \<and> (pd_skill d = None \<longleftrightarrow> rq_skill_id rq \<notin> sk_skill_id ` set skills)"
proof -
  have none: "map_of p k = None \<longleftrightarrow> k \<notin> sk_skill_id ` set skills" for k
  proof (cases "map_of p k")
    case None
    have "sk_skill_id x \<noteq> k" if "x \<in> set skills" for x
      using PolicyEngine_init_lookup [OF assms(1), of k x] None that by simp
    with None show ?thesis by blast
  next
    case (Some s)
    then have "s \<in> set skills" "sk_skill_id s = k"
      using PolicyEngine_init_lookup [OF assms(1), of k s] by simp_all
    with Some show ?thesis by auto
  qed
  show ?thesis
    unfolding d_def fit_def evaluate_allowed_iff evaluate_approval_iff evaluate_skill none
      PolicyEngine_init_lookup [OF assms(1)] admissible_def os_supported_def approval_needed_def
    by blast
qed

definition skill_clear_temp :: SkillDefinition where
  "skill_clear_temp = \<lparr>sk_skill_id = ''clear_temp'', sk_risk = RISK_MEDIUM,
     sk_supported_os = {''Windows''}, sk_timeout_seconds = 30, sk_rollback_skill_id = None,
     sk_command_type = LOW_RISK_CHANGE, sk_requires_user_approval = False,
     sk_requires_admin_approval = False, sk_security_sensitive = False, sk_reversible = True\<rparr>"

definition request_clear_temp :: ActionRequest where
  "request_clear_temp = \<lparr>rq_tenant_id = ''t'', rq_device_id = ''d'', rq_skill_id = ''clear_temp'',
     rq_requested_by = ''alice'', rq_parameters = [], rq_correlation_id = ''c1''\<rparr>"

lemma lower_windows: "lower ''Windows'' = ''windows''" "lower ''windows'' = ''windows''"
  by code_simp+

theorem policy_default_deny_witness:
  "pd_allowed (evaluate [(''clear_temp'', skill_clear_temp)] request_clear_temp ''windows'')"
proof -
  have "PolicyEngine_init [skill_clear_temp] = Inr [(''clear_temp'', skill_clear_temp)]"
    by (simp add: PolicyEngine_init_def skill_clear_temp_def)
  from policy_default_deny [OF this, of request_clear_temp "''windows''"] show ?thesis
    by (simp add: skill_clear_temp_def request_clear_temp_def lower_windows)
qed

text \<open>
  What the recorded automation level says about how an allowed action runs: at L2 the
  action runs unattended and its skill is reversible with a rollback skill; L3 and L4 are
  recorded only for actions that wait for approval; and a read-only skill of read-only risk is
  recorded at L0 even when it is flagged security sensitive, the case the function's own
  description assigns to L5.
\<close>

theorem automation_level_meaning:
  assumes "pd_allowed (evaluate p rq os)"
  defines "d \<equiv> evaluate p rq os" and "s \<equiv> the (map_of p (rq_skill_id rq))"
  shows "(pd_automation_level d = L2_AUTOMATIC_VERIFY_ROLLBACK
            \<longrightarrow> \<not> pd_approval_required d \<and> sk_reversible s \<and> truthy (sk_rollback_skill_id s))
    \<and> (pd_automation_level d \<in> {L3_USER_APPROVAL, L4_ADMIN_APPROVAL} \<longrightarrow> pd_approval_required d)
    \<and> (sk_risk s = RISK_READ_ONLY \<and> sk_command_type s = CMD_READ_ONLY
            \<longrightarrow> pd_automation_level d = L0_OBSERVE_ONLY)
    \<and> (pd_automation_level d = L5_SECURITY_INCIDENT \<longrightarrow>
         sk_security_sensitive s \<or> sk_command_type s = SECURITY_CONTAINMENT)"
proof -
  from assms(1) obtain t where t: "map_of p (rq_skill_id rq) = Some t" "admissible t os"
    by (auto simp: evaluate_allowed_iff)
  then have "s = t" "pd_automation_level d = automation_level_for t (approval_needed t)"
    "pd_approval_required d = approval_needed t"
    by (auto simp: s_def d_def evaluate_level evaluate_approval_iff)
  then show ?thesis
    by (auto simp: automation_level_for_def approval_needed_def split: if_splits)
qed

theorem automation_level_meaning_witness:
  "pd_approval_required (evaluate [(''clear_temp'', skill_clear_temp)] request_clear_temp ''Windows'')"
proof -
  have "pd_allowed (evaluate [(''clear_temp'', skill_clear_temp)] request_clear_temp ''Windows'')"
    and "pd_automation_level (evaluate [(''clear_temp'', skill_clear_temp)] request_clear_temp ''Windows'')
         = L3_USER_APPROVAL"
    by (simp_all add: evaluate_def request_clear_temp_def skill_clear_temp_def os_supported_def
        automation_level_for_def approval_needed_def)
  with automation_level_meaning show ?thesis by blast
qed

end
