(* ===== verification/AuditLog.thy ===== *)
theory AuditLog
  imports Policy
begin

text \<open>
  \<open>helpdesktool/audit.py\<close>: the hash-chained audit trail.  \<open>mem_append\<close> and \<open>verify_chain\<close> are
  \<open>InMemoryAuditLog.append\<close> and \<open>verify_chain\<close>; the locale \<open>audit_sink\<close> is the protocol
  \<open>AuditSink\<close> that the orchestrator and the handlers write to, with its promise that every
  append extends one chain.  The lemmas show that a trail grown by appends verifies, and that
  under a collision-free digest a trail that verifies is determined by its last hash.
\<close>

section \<open>Events and their digests\<close>

record AuditEvent =
  ae_sequence :: int
  ae_occurred_at :: string
  ae_tenant_id :: string
  ae_correlation_id :: string
  ae_event_type :: string
  ae_actor_id :: string
  ae_details :: dict
  ae_previous_hash :: string
  ae_event_hash :: string

text \<open>The keyword arguments of \<open>append\<close>.\<close>

record audit_msg =
  am_tenant_id :: string
  am_correlation_id :: string
  am_event_type :: string
  am_actor_id :: string
  am_details :: dict

definition zero_hash :: string where
  "zero_hash = replicate 64 (CHR ''0'')"

definition event_payload :: "AuditEvent \<Rightarrow> dict" where
  "event_payload e =
     [(''sequence'', JInt (ae_sequence e)),
      (''occurred_at'', JStr (ae_occurred_at e)),
      (''tenant_id'', JStr (ae_tenant_id e)),
      (''correlation_id'', JStr (ae_correlation_id e)),
      (''event_type'', JStr (ae_event_type e)),
      (''actor_id'', JStr (ae_actor_id e)),
      (''details'', JObj (ae_details e)),
      (''previous_hash'', JStr (ae_previous_hash e))]"

definition event_digest :: "host \<Rightarrow> AuditEvent \<Rightarrow> string" where
  "event_digest h e = sha256_hex h (dumps_tight (float_repr h) (JObj (event_payload e)))"

text \<open>The event that \<open>append\<close> makes from a message, the sequence number and the previous hash.\<close>

definition make_event :: "host \<Rightarrow> int \<Rightarrow> time \<Rightarrow> string \<Rightarrow> audit_msg \<Rightarrow> AuditEvent" where
  "make_event h sequence now previous_hash m =
     (let e = \<lparr>ae_sequence = sequence, ae_occurred_at = isoformat h now,
               ae_tenant_id = am_tenant_id m, ae_correlation_id = am_correlation_id m,
               ae_event_type = am_event_type m, ae_actor_id = am_actor_id m,
               ae_details = am_details m, ae_previous_hash = previous_hash, ae_event_hash = []\<rparr>
      in e\<lparr>ae_event_hash := event_digest h e\<rparr>)"

section \<open>The in-memory log\<close>

definition last_hash :: "AuditEvent list \<Rightarrow> string" where
  "last_hash es = (if es = [] then zero_hash else ae_event_hash (last es))"

definition mem_append :: "host \<Rightarrow> time \<Rightarrow> audit_msg \<Rightarrow> AuditEvent list \<Rightarrow> AuditEvent list" where
  "mem_append h now m events =
     events @ [make_event h (int (length events) + 1) now (last_hash events) m]"

fun verify_from :: "host \<Rightarrow> string \<Rightarrow> AuditEvent list \<Rightarrow> bool" where
  "verify_from h previous_hash [] = True"
| "verify_from h previous_hash (e # es) =
     (if ae_previous_hash e \<noteq> previous_hash then False
      else if event_digest h e \<noteq> ae_event_hash e then False
      else verify_from h (ae_event_hash e) es)"

definition verify_chain :: "host \<Rightarrow> AuditEvent list \<Rightarrow> bool" where
  "verify_chain h events = verify_from h zero_hash events"

section \<open>Laws of a chain\<close>

lemma event_digest_hash_irrelevant [simp]:
  "event_digest h (e\<lparr>ae_event_hash := x\<rparr>) = event_digest h e"
  by (simp add: event_digest_def event_payload_def)

lemma make_event_simps [simp]:
  "ae_sequence (make_event h n now p m) = n"
  "ae_previous_hash (make_event h n now p m) = p"
  "ae_tenant_id (make_event h n now p m) = am_tenant_id m"
  "ae_correlation_id (make_event h n now p m) = am_correlation_id m"
  "ae_event_type (make_event h n now p m) = am_event_type m"
  "ae_actor_id (make_event h n now p m) = am_actor_id m"
  "ae_details (make_event h n now p m) = am_details m"
  "ae_occurred_at (make_event h n now p m) = isoformat h now"
  "event_digest h (make_event h n now p m) = ae_event_hash (make_event h n now p m)"
  by (simp_all add: make_event_def Let_def event_digest_def event_payload_def)

lemma last_hash_append [simp]:
  "last_hash [] = zero_hash" "last_hash (es @ [e]) = ae_event_hash e"
  by (simp_all add: last_hash_def)

lemma verify_from_append:
  "verify_from h p (es @ [e]) \<longleftrightarrow> verify_from h p es
     \<and> ae_previous_hash e = (if es = [] then p else ae_event_hash (last es))
     \<and> event_digest h e = ae_event_hash e"
  by (induction es arbitrary: p) auto

lemma verify_chain_snoc:
  "verify_chain h (es @ [e]) \<longleftrightarrow> verify_chain h es
     \<and> ae_previous_hash e = last_hash es \<and> event_digest h e = ae_event_hash e"
  by (simp add: verify_chain_def verify_from_append last_hash_def)

lemma verify_chain_Nil [simp]: "verify_chain h []"
  by (simp add: verify_chain_def)

lemma verify_chain_prefix: "verify_chain h (es @ fs) \<Longrightarrow> verify_chain h es"
  by (induction fs rule: rev_induct) (auto simp: verify_chain_snoc simp flip: append_assoc)

text \<open>Two events that differ at most in the order of the keys inside their details.\<close>

definition same_event :: "AuditEvent \<Rightarrow> AuditEvent \<Rightarrow> bool" where
  "same_event e f \<longleftrightarrow> ae_sequence e = ae_sequence f \<and> ae_occurred_at e = ae_occurred_at f
     \<and> ae_tenant_id e = ae_tenant_id f \<and> ae_correlation_id e = ae_correlation_id f
     \<and> ae_event_type e = ae_event_type f \<and> ae_actor_id e = ae_actor_id f
     \<and> canon (JObj (ae_details e)) = canon (JObj (ae_details f))
     \<and> ae_previous_hash e = ae_previous_hash f \<and> ae_event_hash e = ae_event_hash f"

text \<open>What the chain needs of the digest: no collisions, and never the 64 zeros of the start.\<close>

definition digest_ok :: "host \<Rightarrow> bool" where
  "digest_ok h \<longleftrightarrow> inj (sha256_hex h) \<and> (\<forall>t. sha256_hex h t \<noteq> zero_hash) \<and> float_repr_ok (float_repr h)"

lemma event_payload_keys: "distinct (map fst (event_payload e))"
  by (simp add: event_payload_def)

lemma event_digest_inj:
  assumes "digest_ok h" and "event_digest h e = event_digest h f"
  shows "same_event (e\<lparr>ae_event_hash := x\<rparr>) (f\<lparr>ae_event_hash := x\<rparr>)"
proof -
  from assms have "dumps_tight (float_repr h) (JObj (event_payload e))
      = dumps_tight (float_repr h) (JObj (event_payload f))"
    by (auto simp: event_digest_def digest_ok_def inj_eq)
  with assms(1) have "canon (JObj (event_payload e)) = canon (JObj (event_payload f))"
    by (intro dumps_tight_inj) (auto simp: digest_ok_def)
  then have lk: "map_option canon (map_of (event_payload e) k) = map_option canon (map_of (event_payload f) k)" for k
    by (intro canon_obj_lookup event_payload_keys)
  show ?thesis
    using lk [of "''sequence''"] lk [of "''occurred_at''"] lk [of "''tenant_id''"]
      lk [of "''correlation_id''"] lk [of "''event_type''"] lk [of "''actor_id''"]
      lk [of "''details''"] lk [of "''previous_hash''"]
    by (simp add: event_payload_def same_event_def del: canon.simps(7))
qed

lemma chain_determined:
  assumes "digest_ok h"
  shows "verify_chain h es \<Longrightarrow> verify_chain h fs \<Longrightarrow> last_hash es = last_hash fs
     \<Longrightarrow> list_all2 same_event es fs"
proof (induction es arbitrary: fs rule: rev_induct)
  case Nil
  show ?case
  proof (cases fs rule: rev_cases)
    case (snoc fs' f)
    with Nil assms show ?thesis
      by (auto simp: verify_chain_snoc digest_ok_def event_digest_def dest: sym)
  qed simp
next
  case (snoc e es)
  then have e: "verify_chain h es" "ae_previous_hash e = last_hash es" "event_digest h e = ae_event_hash e"
    by (auto simp: verify_chain_snoc)
  show ?case
  proof (cases fs rule: rev_cases)
    case Nil
    with snoc.prems e assms show ?thesis
      by (auto simp: digest_ok_def event_digest_def)
  next
    case (snoc fs' f)
    with snoc.prems have f: "verify_chain h fs'" "ae_previous_hash f = last_hash fs'"
      "event_digest h f = ae_event_hash f" "ae_event_hash e = ae_event_hash f"
      by (auto simp: verify_chain_snoc)
    with e have "event_digest h e = event_digest h f" by simp
    from event_digest_inj [OF assms this] have "same_event e f"
      using f by (auto simp: same_event_def)
    moreover from this have "last_hash es = last_hash fs'" using e f by (simp add: same_event_def)
    ultimately show ?thesis using \<open>fs = fs' @ [f]\<close> snoc.IH e f by (simp add: list_all2_appendI)
  qed
qed

section \<open>The protocol AuditSink\<close>

type_synonym 'au append_op = "time \<Rightarrow> audit_msg \<Rightarrow> 'au \<Rightarrow> 'au"

definition appends :: "'au append_op \<Rightarrow> (time \<times> audit_msg) list \<Rightarrow> 'au \<Rightarrow> 'au" where
  "appends push ms a = fold (\<lambda>(now, m). push now m) ms a"

lemma appends_simps [simp]:
  "appends push [] a = a"
  "appends push ((now, m) # ms) a = appends push ms (push now m a)"
  "appends push (ms @ ns) a = appends push ns (appends push ms a)"
  by (simp_all add: appends_def)

text \<open>What an event says, without the chain's own fields.\<close>

definition event_msg :: "AuditEvent \<Rightarrow> audit_msg" where
  "event_msg e = \<lparr>am_tenant_id = ae_tenant_id e, am_correlation_id = ae_correlation_id e,
     am_event_type = ae_event_type e, am_actor_id = ae_actor_id e, am_details = ae_details e\<rparr>"

lemma event_msg_make [simp]: "event_msg (make_event h n now p m) = m"
  by (simp add: event_msg_def)

text \<open>
  \<open>trail k a\<close> is the chain \<open>k\<close> that the store \<open>a\<close> holds and \<open>chain m\<close> the chain a message goes
  to: the in-memory log has one chain, the database one for each tenant.
\<close>

locale audit_sink =
  fixes push :: "time \<Rightarrow> audit_msg \<Rightarrow> 'au \<Rightarrow> 'au"
    and trail :: "'k \<Rightarrow> 'au \<Rightarrow> AuditEvent list"
    and chain :: "audit_msg \<Rightarrow> 'k"
    and ok :: "'au \<Rightarrow> bool"
    and h :: host
  assumes append_trail: "ok a \<Longrightarrow> trail (chain m) (push now m a) = trail (chain m) a @
      [make_event h (int (length (trail (chain m) a)) + 1) now (last_hash (trail (chain m) a)) m]"
    and append_other: "ok a \<Longrightarrow> k \<noteq> chain m \<Longrightarrow> trail k (push now m a) = trail k a"
    and append_ok: "ok a \<Longrightarrow> ok (push now m a)"
begin

lemma append_verifies:
  assumes "ok a" and "verify_chain h (trail k a)"
  shows "verify_chain h (trail k (push now m a))"
  using assms by (cases "k = chain m") (simp_all add: append_trail append_other verify_chain_snoc)

lemma append_msgs:
  assumes "ok a"
  shows "map event_msg (trail k (push now m a)) =
    map event_msg (trail k a) @ (if chain m = k then [m] else [])"
  using assms by (cases "k = chain m") (auto simp add: append_trail append_other)

lemma appends_ok: "ok a \<Longrightarrow> ok (appends push ms a)"
  by (induction ms arbitrary: a) (auto simp: append_ok)

lemma appends_verify:
  "ok a \<Longrightarrow> verify_chain h (trail k a) \<Longrightarrow> verify_chain h (trail k (appends push ms a))"
  by (induction ms arbitrary: a) (auto simp: append_ok append_verifies)

lemma appends_msgs:
  "ok a \<Longrightarrow> map event_msg (trail k (appends push ms a)) =
     map event_msg (trail k a) @ filter (\<lambda>m. chain m = k) (map snd ms)"
  by (induction ms arbitrary: a) (auto simp: append_ok append_msgs)

lemma appends_prefix:
  "ok a \<Longrightarrow> \<exists>es. trail k (appends push ms a) = trail k a @ es"
proof (induction ms arbitrary: a)
  case (Cons p ms)
  obtain now m where p: "p = (now, m)" by (cases p)
  have "\<exists>es. trail k (push now m a) = trail k a @ es"
    using Cons.prems by (cases "k = chain m") (auto simp: append_trail append_other)
  then show ?case using Cons.IH [OF append_ok [OF Cons.prems]] by (metis append_assoc appends_simps(2) p)
qed simp

end

definition mem_trail :: "unit \<Rightarrow> AuditEvent list \<Rightarrow> AuditEvent list" where
  "mem_trail k a = a"

interpretation memlog: audit_sink "mem_append h" mem_trail "\<lambda>_. ()" "\<lambda>_. True" h for h
  by unfold_locales (simp_all add: mem_trail_def mem_append_def)

definition mem_grow :: "host \<Rightarrow> (time \<times> audit_msg) list \<Rightarrow> AuditEvent list" where
  "mem_grow h ms = appends (mem_append h) ms []"

text \<open>A log written only by \<open>InMemoryAuditLog.append\<close> always passes \<open>verify_chain\<close>, holds
  exactly the messages appended to it in the order they came, and numbers them from 1.
\<close>

theorem mem_log_verifies:
  "verify_chain h (mem_grow h ms) \<and> map event_msg (mem_grow h ms) = map snd ms
   \<and> map ae_sequence (mem_grow h ms) = map int [1..<Suc (length ms)]"
proof -
  have "map ae_sequence (mem_grow h ms) = map int [1..<Suc (length ms)]
      \<and> length (mem_grow h ms) = length ms"
    unfolding mem_grow_def
    by (induction ms rule: rev_induct) (auto simp: mem_append_def split: prod.split)
  with memlog.appends_verify [where h = h and a = "[]" and k = "()" and ms = ms]
    memlog.appends_msgs [where h = h and a = "[]" and k = "()" and ms = ms]
  show ?thesis by (simp add: mem_grow_def mem_trail_def)
qed

section \<open>Tampering\<close>

text \<open>A runtime whose digest is injective, for the witnesses.\<close>

definition ratio_text :: "rat \<Rightarrow> string" where
  "ratio_text q = show_int (fst (quotient_of q)) @ ''.'' @ show_int (snd (quotient_of q))"

definition val_int :: "string \<Rightarrow> int" where
  "val_int s = (if hd s = CHR ''-'' then - int (val_nat (tl s)) else int (val_nat s))"

lemma val_show_int: "val_int (show_int i) = i"
proof -
  have "hd (show_nat n) \<noteq> CHR ''-''" for n
    using show_nat_num [of "hd (show_nat n)" n] by auto
  then show ?thesis
    by (auto simp: val_int_def show_int_def simp del: val_nat.simps)
qed

definition demo_host :: host where
  "demo_host = \<lparr>sha256_hex = (\<lambda>t. CHR ''h'' # t), hmac_sha256_hex = (\<lambda>k t. quote k @ t),
     float_repr = ratio_text, isoformat = show_int,
     fromisoformat = (\<lambda>s. if s = [] then None else Some (val_int s, True)),
     str_value = (\<lambda>v. []), json_loads = (\<lambda>s. None)\<rparr>"

lemma ratio_text_inj: "inj ratio_text"
proof (rule injI)
  fix p q :: rat
  assume "ratio_text p = ratio_text q"
  then have eq: "show_int (fst (quotient_of p)) @ CHR ''.'' # show_int (snd (quotient_of p))
      = show_int (fst (quotient_of q)) @ CHR ''.'' # show_int (snd (quotient_of q))"
    by (simp add: ratio_text_def)
  let ?P = "\<lambda>c. is_digit c \<or> c = CHR ''-''"
  have "show_int (fst (quotient_of p)) = show_int (fst (quotient_of q)) \<and>
      CHR ''.'' # show_int (snd (quotient_of p)) = CHR ''.'' # show_int (snd (quotient_of q))"
    by (rule token_inj [OF eq, where P = ?P]) (use show_int_chars in \<open>auto simp: is_digit_def\<close>)
  then have "quotient_of p = quotient_of q" by (simp add: prod_eq_iff)
  then show "p = q" by (metis Fract_of_int_quotient prod.collapse quotient_of_inject)
qed

lemma demo_host_ok: "digest_ok demo_host"
proof -
  have "float_text (ratio_text q)" for q
  proof -
    have "\<forall>c \<in> set (ratio_text q). num_char c"
      using show_int_chars by (fastforce simp: ratio_text_def num_char_def)
    moreover have "hd (ratio_text q) = hd (show_int (fst (quotient_of q)))"
      by (simp add: ratio_text_def)
    ultimately show ?thesis
      using show_int_hd [of "fst (quotient_of q)"] by (auto simp: float_text_def ratio_text_def)
  qed
  then show ?thesis
    by (auto simp: digest_ok_def demo_host_def float_repr_ok_def ratio_text_inj zero_hash_def
        numeral_eq_Suc intro: injI)
qed

lemma demo_host_iso: "iso_ok demo_host"
  by (simp add: iso_ok_def demo_host_def val_show_int)

text \<open>
  C11.  Tamper evidence.  Under a collision-free digest, two logs that pass \<open>verify_chain\<close> and
  end in the same hash are the same log, event by event, up to the order of the keys inside
  the details; in particular no event of a verified log can be changed, inserted, removed or
  reordered without changing the last hash.
\<close>

theorem chain_tamper_evident:
  assumes "digest_ok h" and "verify_chain h es" and "verify_chain h fs"
    and "last_hash es = last_hash fs"
  shows "list_all2 same_event es fs \<and> length es = length fs"
  using chain_determined [OF assms] by (simp add: list_all2_lengthD)

definition demo_msg :: audit_msg where
  "demo_msg = \<lparr>am_tenant_id = ''t'', am_correlation_id = ''c'', am_event_type = ''ticket.created'',
     am_actor_id = ''alice'', am_details = [(''n'', JInt 1)]\<rparr>"

lemma mem_grow_verifies: "verify_chain h (mem_grow h ms)"
  using memlog.appends_verify [where h = h and a = "[]" and k = "()" and ms = ms]
  by (simp add: mem_grow_def mem_trail_def)

theorem chain_tamper_evident_witness:
  "last_hash (mem_grow demo_host [(1, demo_msg), (2, demo_msg)]) \<noteq> last_hash (mem_grow demo_host [(1, demo_msg), (3, demo_msg)])"
proof
  assume "last_hash (mem_grow demo_host [(1, demo_msg), (2, demo_msg)]) = last_hash (mem_grow demo_host [(1, demo_msg), (3, demo_msg)])"
  from chain_tamper_evident [OF demo_host_ok mem_grow_verifies mem_grow_verifies this] show False
    by (simp add: mem_grow_def mem_append_def make_event_def same_event_def demo_host_def Let_def)
qed

text \<open>What the chain alone does not show: dropping any number of events from the end leaves a
  log that still passes \<open>verify_chain\<close>, so the last hash has to be kept elsewhere.
\<close>

theorem chain_truncation_undetected:
  "verify_chain h es \<Longrightarrow> verify_chain h (take n es)"
  using verify_chain_prefix [of h "take n es" "drop n es"] by simp

theorem chain_truncation_undetected_witness:
  "verify_chain demo_host (take 1 (mem_grow demo_host [(1, demo_msg), (2, demo_msg)]))"
  by (rule chain_truncation_undetected)
     (simp add: mem_grow_def mem_append_def verify_chain_def last_hash_def)

end
