(* ===== verification/Orchestrator.thy ===== *)
theory Orchestrator
  imports AuditLog
begin

text \<open>
  \<open>helpdesktool/orchestrator.py\<close>: the safety state machine that ties policy, approval,
  execution and rollback together.  Every operation takes the orchestrator's state (its
  \<open>_actions\<close>, the action store, the audit sink and the endpoint the executor acts on) and
  returns the result or the exception together with the state left behind, because the code
  mutates the record before calls that may raise.  A record fetched from \<open>_actions\<close> is the
  stored object itself, so \<open>touch\<close> writes each mutation through to \<open>_actions\<close>; a record
  fetched from the action store is a copy, which only \<open>_persist\<close> writes back.
\<close>

section \<open>Interfaces\<close>

text \<open>\<open>SkillExecutor\<close> (a client-supplied object acting on an endpoint \<open>'x\<close>) and \<open>ActionStore\<close>.\<close>

record 'x skill_executor =
  ex_execute :: "SkillDefinition \<Rightarrow> ActionRequest \<Rightarrow> 'x \<Rightarrow> (py_error + ExecutionResult) \<times> 'x"
  ex_verify :: "SkillDefinition \<Rightarrow> ActionRequest \<Rightarrow> ExecutionResult \<Rightarrow> 'x \<Rightarrow> (py_error + bool) \<times> 'x"
  ex_rollback :: "SkillDefinition \<Rightarrow> ActionRequest \<Rightarrow> ExecutionResult \<Rightarrow> 'x
                  \<Rightarrow> (py_error + ExecutionResult) \<times> 'x"

record 'st action_store_ops =
  so_add :: "ActionRecord \<Rightarrow> 'st \<Rightarrow> py_error + 'st"
  so_get :: "string \<Rightarrow> string \<Rightarrow> 'st \<Rightarrow> py_error + ActionRecord option"
  so_update :: "ActionRecord \<Rightarrow> 'st \<Rightarrow> py_error + 'st"

record ('x, 'st, 'au) orchestrator =
  oe_policy :: policy_engine
  oe_executor :: "'x skill_executor"
  oe_audit :: "'au append_op"
  oe_store :: "'st action_store_ops option"
  oe_execute_immediately :: bool

record ('x, 'st, 'au) orch_state =
  os_actions :: "string \<Rightarrow> ActionRecord option"
  os_store :: 'st
  os_audit :: 'au
  os_world :: 'x

type_synonym ('x, 'st, 'au, 'a) orch_result = "(py_error + 'a) \<times> ('x, 'st, 'au) orch_state"

section \<open>Helpers\<close>

definition touch :: "ActionRecord \<Rightarrow> ('x, 'st, 'au) orch_state \<Rightarrow> ('x, 'st, 'au) orch_state" where
  "touch r st = (let c = rq_correlation_id (ac_request r) in
     if os_actions st c = None then st else st\<lparr>os_actions := (os_actions st)(c \<mapsto> r)\<rparr>)"

definition orch_msg :: "ActionRecord \<Rightarrow> string \<Rightarrow> string \<Rightarrow> dict \<Rightarrow> audit_msg" where
  "orch_msg r event_type actor_id details =
     \<lparr>am_tenant_id = rq_tenant_id (ac_request r),
      am_correlation_id = rq_correlation_id (ac_request r),
      am_event_type = event_type, am_actor_id = actor_id, am_details = details\<rparr>"

definition orch_event ::
  "('x, 'st, 'au) orchestrator \<Rightarrow> time \<Rightarrow> ActionRecord \<Rightarrow> string \<Rightarrow> string \<Rightarrow> dict
   \<Rightarrow> ('x, 'st, 'au) orch_state \<Rightarrow> ('x, 'st, 'au) orch_state" where
  "orch_event o' now r event_type actor_id details st =
     st\<lparr>os_audit := oe_audit o' now (orch_msg r event_type actor_id details) (os_audit st)\<rparr>"

definition persist ::
  "('x, 'st, 'au) orchestrator \<Rightarrow> ActionRecord \<Rightarrow> ('x, 'st, 'au) orch_state
   \<Rightarrow> ('x, 'st, 'au, ActionRecord) orch_result" where
  "persist o' r st =
     (case oe_store o' of None \<Rightarrow> (Inr r, st)
      | Some s \<Rightarrow>
          (case so_update s r (os_store st) of
             Inl e \<Rightarrow> (Inl e, st)
           | Inr s' \<Rightarrow> (Inr r, st\<lparr>os_store := s'\<rparr>)))"

definition get_for_tenant ::
  "('x, 'st, 'au) orchestrator \<Rightarrow> string \<Rightarrow> string \<Rightarrow> ('x, 'st, 'au) orch_state
   \<Rightarrow> py_error + ActionRecord" where
  "get_for_tenant o' tenant_id correlation_id st =
     (let found =
        (case os_actions st correlation_id of
           Some r \<Rightarrow> Inr (Some r)
         | None \<Rightarrow> (case oe_store o' of None \<Rightarrow> Inr None
                    | Some s \<Rightarrow> so_get s tenant_id correlation_id (os_store st)))
      in case found of
           Inl e \<Rightarrow> Inl e
         | Inr None \<Rightarrow> Inl (KeyError ''action not found'')
         | Inr (Some r) \<Rightarrow>
             if rq_tenant_id (ac_request r) \<noteq> tenant_id then Inl (KeyError ''action not found'')
             else Inr r)"

section \<open>Execution\<close>

definition roll_back ::
  "('x, 'st, 'au) orchestrator \<Rightarrow> time \<Rightarrow> SkillDefinition \<Rightarrow> ExecutionResult \<Rightarrow> ActionRecord
   \<Rightarrow> ('x, 'st, 'au) orch_state \<Rightarrow> ('x, 'st, 'au, ActionRecord) orch_result" where
  "roll_back o' now skill result r st =
     (if sk_reversible skill \<and> sk_rollback_skill_id skill \<noteq> None then
        (case ex_rollback (oe_executor o') skill (ac_request r) result (os_world st) of
           (Inl e, w) \<Rightarrow> (Inl e, st\<lparr>os_world := w\<rparr>)
         | (Inr rb, w) \<Rightarrow>
             let r' = r\<lparr>ac_status := if er_success rb then ROLLED_BACK else ROLLBACK_FAILED\<rparr>
             in (Inr r', orch_event o' now r' ''rollback.completed'' ''system''
                   [(''success'', JBool (er_success rb)), (''error'', opt_str (er_error rb))]
                   (touch r' (st\<lparr>os_world := w\<rparr>))))
      else (Inr r, st))"

definition after_execute ::
  "('x, 'st, 'au) orchestrator \<Rightarrow> time \<Rightarrow> SkillDefinition \<Rightarrow> ExecutionResult \<Rightarrow> bool
   \<Rightarrow> ActionRecord \<Rightarrow> ('x, 'st, 'au) orch_state \<Rightarrow> ('x, 'st, 'au, ActionRecord) orch_result" where
  "after_execute o' now skill result verified r st =
     (if verified then
        let r' = r\<lparr>ac_status := SUCCEEDED\<rparr>
        in (Inr r', orch_event o' now r' ''execution.verified'' ''system''
              [(''success'', JBool True)] (touch r' st))
      else
        let r' = r\<lparr>ac_status := FAILED\<rparr>;
            st' = orch_event o' now r' ''execution.failed'' ''system''
                    [(''executor_success'', JBool (er_success result)),
                     (''error'', opt_str (er_error result))] (touch r' st)
        in roll_back o' now skill result r' st')"

definition orch_run ::
  "('x, 'st, 'au) orchestrator \<Rightarrow> time \<Rightarrow> SkillDefinition option \<Rightarrow> ActionRecord
   \<Rightarrow> ('x, 'st, 'au) orch_state \<Rightarrow> ('x, 'st, 'au, ActionRecord) orch_result" where
  "orch_run o' now sk r st =
     (case sk of
        None \<Rightarrow> (Inl (RuntimeError ''approved action has no registered skill''), st)
      | Some skill \<Rightarrow>
          let r1 = r\<lparr>ac_status := RUNNING\<rparr>;
              st1 = orch_event o' now r1 ''execution.started'' ''system''
                      [(''skill_id'', JStr (sk_skill_id skill))] (touch r1 st)
          in case ex_execute (oe_executor o') skill (ac_request r) (os_world st1) of
               (Inl e, w) \<Rightarrow> (Inl e, st1\<lparr>os_world := w\<rparr>)
             | (Inr result, w) \<Rightarrow>
                 let r2 = r1\<lparr>ac_result := Some result\<rparr>;
                     st2 = touch r2 (st1\<lparr>os_world := w\<rparr>)
                 in if er_success result then
                      (case ex_verify (oe_executor o') skill (ac_request r) result (os_world st2) of
                         (Inl e, w') \<Rightarrow> (Inl e, st2\<lparr>os_world := w'\<rparr>)
                       | (Inr ok, w') \<Rightarrow>
                           after_execute o' now skill result ok r2 (st2\<lparr>os_world := w'\<rparr>))
                    else after_execute o' now skill result False r2 st2)"

definition execute_or_queue ::
  "('x, 'st, 'au) orchestrator \<Rightarrow> time \<Rightarrow> SkillDefinition option \<Rightarrow> ActionRecord
   \<Rightarrow> ('x, 'st, 'au) orch_state \<Rightarrow> ('x, 'st, 'au, ActionRecord) orch_result" where
  "execute_or_queue o' now sk r st =
     (if oe_execute_immediately o' then orch_run o' now sk r st
      else let r' = r\<lparr>ac_status := QUEUED\<rparr>
           in (Inr r', orch_event o' now r' ''execution.queued'' ''system''
                 [(''skill_id'', JStr (rq_skill_id (ac_request r))),
                  (''previous_status'', JStr (ActionStatus_value APPROVED)),
                  (''new_status'', JStr (ActionStatus_value QUEUED))] (touch r' st)))"

text \<open>\<open>self._execute_or_queue(...)\<close> followed by \<open>self._persist(record)\<close>.\<close>

definition then_persist ::
  "('x, 'st, 'au) orchestrator \<Rightarrow> ('x, 'st, 'au, ActionRecord) orch_result
   \<Rightarrow> ('x, 'st, 'au, ActionRecord) orch_result" where
  "then_persist o' res = (case res of (Inl e, st) \<Rightarrow> (Inl e, st) | (Inr r, st) \<Rightarrow> persist o' r st)"

section \<open>Operations\<close>

definition decision_status :: "PolicyDecision \<Rightarrow> ActionStatus" where
  "decision_status d = (if pd_approval_required d then PENDING_APPROVAL
     else if pd_allowed d then APPROVED else DENIED)"

definition decision_risk :: "PolicyDecision \<Rightarrow> RiskLevel" where
  "decision_risk d = (case pd_skill d of Some s \<Rightarrow> sk_risk s | None \<Rightarrow> RISK_PROHIBITED)"

definition submit ::
  "('x, 'st, 'au) orchestrator \<Rightarrow> time \<Rightarrow> ActionRequest \<Rightarrow> string
   \<Rightarrow> ('x, 'st, 'au) orch_state \<Rightarrow> ('x, 'st, 'au, ActionRecord) orch_result" where
  "submit o' now request device_os st =
     (if os_actions st (rq_correlation_id request) \<noteq> None
      then (Inl (ValueError ''correlation_id already exists''), st)
      else
        let d = evaluate (oe_policy o') request device_os;
            r = new_record request device_os (decision_risk d) (decision_status d);
            st1 = st\<lparr>os_actions := (os_actions st)(rq_correlation_id request \<mapsto> r)\<rparr>;
            added = (case oe_store o' of None \<Rightarrow> Inr (os_store st1)
                     | Some s \<Rightarrow> so_add s r (os_store st1))
        in case added of
             Inl e \<Rightarrow> (Inl e, st1)
           | Inr s' \<Rightarrow>
               let st2 = orch_event o' now r ''policy.evaluated'' (rq_requested_by request)
                     [(''allowed'', JBool (pd_allowed d)),
                      (''approval_required'', JBool (pd_approval_required d)),
                      (''reason'', JStr (pd_reason d)),
                      (''risk'', JStr (RiskLevel_value (decision_risk d))),
                      (''automation_level'', JStr (AutomationLevel_value (pd_automation_level d)))]
                     (st1\<lparr>os_store := s'\<rparr>)
               in if decision_status d = APPROVED
                  then then_persist o' (execute_or_queue o' now (pd_skill d) r st2)
                  else persist o' r st2)"

definition approve ::
  "('x, 'st, 'au) orchestrator \<Rightarrow> time \<Rightarrow> string \<Rightarrow> string \<Rightarrow> string
   \<Rightarrow> ('x, 'st, 'au) orch_state \<Rightarrow> ('x, 'st, 'au, ActionRecord) orch_result" where
  "approve o' now tenant_id correlation_id approver_id st =
     (case get_for_tenant o' tenant_id correlation_id st of
        Inl e \<Rightarrow> (Inl e, st)
      | Inr r \<Rightarrow>
          if ac_status r \<noteq> PENDING_APPROVAL
          then (Inl (ValueError ''action is not pending approval''), st)
          else if approver_id = rq_requested_by (ac_request r)
          then (Inl (PermissionError ''requester cannot approve their own action''), st)
          else
            let d = evaluate (oe_policy o') (ac_request r) (ac_device_os r)
            in if \<not> pd_allowed d \<or> pd_skill d = None then
                 let r' = r\<lparr>ac_status := DENIED\<rparr>
                 in persist o' r' (orch_event o' now r' ''approval.invalidated'' approver_id
                      [(''reason'', JStr (pd_reason d))] (touch r' st))
               else
                 let r' = r\<lparr>ac_approved_by := Some approver_id, ac_status := APPROVED\<rparr>;
                     st' = orch_event o' now r' ''action.approved'' approver_id
                       [(''previous_status'', JStr (ActionStatus_value PENDING_APPROVAL)),
                        (''new_status'', JStr (ActionStatus_value APPROVED))] (touch r' st)
                 in then_persist o' (execute_or_queue o' now (pd_skill d) r' st'))"

definition deny ::
  "('x, 'st, 'au) orchestrator \<Rightarrow> time \<Rightarrow> string \<Rightarrow> string \<Rightarrow> string \<Rightarrow> string
   \<Rightarrow> ('x, 'st, 'au) orch_state \<Rightarrow> ('x, 'st, 'au, ActionRecord) orch_result" where
  "deny o' now tenant_id correlation_id actor_id reason st =
     (case get_for_tenant o' tenant_id correlation_id st of
        Inl e \<Rightarrow> (Inl e, st)
      | Inr r \<Rightarrow>
          if ac_status r \<noteq> PENDING_APPROVAL
          then (Inl (ValueError ''action is not pending approval''), st)
          else let r' = r\<lparr>ac_status := DENIED\<rparr>
               in persist o' r' (orch_event o' now r' ''action.denied'' actor_id
                    [(''reason'', JStr reason),
                     (''previous_status'', JStr (ActionStatus_value PENDING_APPROVAL)),
                     (''new_status'', JStr (ActionStatus_value DENIED))] (touch r' st)))"

section \<open>Approval before execution\<close>

text \<open>
  \<open>cleared p r\<close>: the policy allows the action of \<open>r\<close>, and where it asks for approval someone
  other than the requester has given it.  \<open>safe_record\<close>: an action that is neither waiting nor
  denied is cleared.
\<close>

definition cleared :: "policy_engine \<Rightarrow> ActionRecord \<Rightarrow> bool" where
  "cleared p r \<longleftrightarrow> (let d = evaluate p (ac_request r) (ac_device_os r) in
     pd_allowed d \<and> (pd_approval_required d \<longrightarrow>
       (\<exists>a. ac_approved_by r = Some a \<and> a \<noteq> rq_requested_by (ac_request r))))"

definition safe_record :: "policy_engine \<Rightarrow> ActionRecord \<Rightarrow> bool" where
  "safe_record p r \<longleftrightarrow> ac_status r \<in> {PENDING_APPROVAL, DENIED} \<or> cleared p r"

definition acts_ok :: "(ActionRecord \<Rightarrow> bool) \<Rightarrow> ('x, 'st, 'au) orch_state \<Rightarrow> bool" where
  "acts_ok P st \<longleftrightarrow> (\<forall>c r. os_actions st c = Some r \<longrightarrow> rq_correlation_id (ac_request r) = c \<and> P r)"

lemma cleared_update [simp]:
  "cleared p (r\<lparr>ac_status := s\<rparr>) = cleared p r"
  "cleared p (r\<lparr>ac_result := e\<rparr>) = cleared p r"
  by (simp_all add: cleared_def)

lemma cleared_safe: "cleared p r \<Longrightarrow> safe_record p r"
  by (simp add: safe_record_def)

lemma safe_status [simp]:
  "safe_record p (r\<lparr>ac_status := DENIED\<rparr>)"
  by (simp add: safe_record_def)

lemma acts_ok_frame [simp]:
  "acts_ok P (orch_event o' now r ty a d st) = acts_ok P st"
  "acts_ok P (st\<lparr>os_world := w\<rparr>) = acts_ok P st"
  "acts_ok P (st\<lparr>os_store := s\<rparr>) = acts_ok P st"
  "acts_ok P (st\<lparr>os_store := s, os_world := w\<rparr>) = acts_ok P st"
  by (simp_all add: acts_ok_def orch_event_def)

lemma acts_ok_touch: "acts_ok P st \<Longrightarrow> P r \<Longrightarrow> acts_ok P (touch r st)"
  by (auto simp: acts_ok_def touch_def Let_def)

lemma acts_ok_persist: "acts_ok P st \<Longrightarrow> acts_ok P (snd (persist o' r st))"
  by (auto simp: persist_def split: option.splits sum.splits)

lemma acts_ok_then_persist: "acts_ok P (snd res) \<Longrightarrow> acts_ok P (snd (then_persist o' res))"
  by (auto simp: then_persist_def split: prod.splits sum.splits)
     (metis acts_ok_persist snd_conv)

lemmas acts_ok_intros = acts_ok_touch acts_ok_persist acts_ok_then_persist cleared_safe

lemma acts_ok_roll_back:
  "acts_ok (safe_record p) st \<Longrightarrow> cleared p r
   \<Longrightarrow> acts_ok (safe_record p) (snd (roll_back o' now skill result r st))"
  by (auto simp: roll_back_def Let_def intro!: acts_ok_intros split: prod.splits sum.splits)

lemma acts_ok_after_execute:
  "acts_ok (safe_record p) st \<Longrightarrow> cleared p r
   \<Longrightarrow> acts_ok (safe_record p) (snd (after_execute o' now skill result v r st))"
  by (auto simp: after_execute_def Let_def intro!: acts_ok_intros acts_ok_roll_back)

lemma acts_ok_run:
  "acts_ok (safe_record p) st \<Longrightarrow> cleared p r
   \<Longrightarrow> acts_ok (safe_record p) (snd (orch_run o' now sk r st))"
  by (auto simp: orch_run_def Let_def intro!: acts_ok_intros acts_ok_after_execute
      split: option.splits prod.splits sum.splits)

lemma acts_ok_execute_or_queue:
  "acts_ok (safe_record p) st \<Longrightarrow> cleared p r
   \<Longrightarrow> acts_ok (safe_record p) (snd (execute_or_queue o' now sk r st))"
  by (auto simp: execute_or_queue_def Let_def intro!: acts_ok_intros acts_ok_run)

lemma new_record_simps [simp]:
  "ac_request (new_record rq os k s) = rq" "ac_device_os (new_record rq os k s) = os"
  "ac_status (new_record rq os k s) = s" "ac_approved_by (new_record rq os k s) = None"
  "ac_risk (new_record rq os k s) = k" "ac_result (new_record rq os k s) = None"
  by (simp_all add: new_record_def)

lemma submitted_safe:
  "d = evaluate p rq os \<Longrightarrow> safe_record p (new_record rq os k (decision_status d))"
  by (auto simp: safe_record_def cleared_def decision_status_def)

lemma submitted_cleared:
  "decision_status (evaluate p rq os) = APPROVED \<Longrightarrow> cleared p (new_record rq os k APPROVED)"
  by (auto simp: cleared_def decision_status_def split: if_splits)

lemma acts_ok_submit:
  assumes "acts_ok (safe_record (oe_policy o')) st"
  shows "acts_ok (safe_record (oe_policy o')) (snd (submit o' now rq os st))"
proof -
  let ?d = "evaluate (oe_policy o') rq os"
  let ?r = "new_record rq os (decision_risk ?d) (decision_status ?d)"
  have st1: "acts_ok (safe_record (oe_policy o')) (st\<lparr>os_actions := (os_actions st)(rq_correlation_id rq \<mapsto> ?r)\<rparr>)"
    using assms submitted_safe by (auto simp: acts_ok_def)
  then show ?thesis
    using assms submitted_cleared [of "oe_policy o'" rq os "decision_risk ?d"]
    by (auto simp: submit_def Let_def intro!: acts_ok_intros acts_ok_execute_or_queue
        split: option.splits sum.splits)
qed

lemma approved_cleared:
  assumes "pd_allowed (evaluate p (ac_request r) (ac_device_os r))"
    and "a \<noteq> rq_requested_by (ac_request r)"
  shows "cleared p (r\<lparr>ac_approved_by := Some a, ac_status := s\<rparr>)"
  using assms by (simp add: cleared_def)

lemma acts_ok_approve:
  "acts_ok (safe_record (oe_policy o')) st
   \<Longrightarrow> acts_ok (safe_record (oe_policy o')) (snd (approve o' now t c a st))"
  by (auto simp: approve_def Let_def intro!: acts_ok_touch acts_ok_persist acts_ok_then_persist
      acts_ok_execute_or_queue approved_cleared cleared_safe [OF approved_cleared] split: sum.splits)

lemma acts_ok_deny:
  "acts_ok (safe_record (oe_policy o')) st
   \<Longrightarrow> acts_ok (safe_record (oe_policy o')) (snd (deny o' now t c a reason st))"
  by (auto simp: deny_def Let_def intro!: acts_ok_touch acts_ok_persist split: sum.splits)

section \<open>Steps of the orchestrator\<close>

inductive orch_step ::
  "('x, 'st, 'au) orchestrator \<Rightarrow> ('x, 'st, 'au) orch_state \<Rightarrow> ('x, 'st, 'au) orch_state \<Rightarrow> bool"
  for o' where
  step_submit: "orch_step o' st (snd (submit o' now rq os st))"
| step_approve: "orch_step o' st (snd (approve o' now t c a st))"
| step_deny: "orch_step o' st (snd (deny o' now t c a reason st))"

inductive orch_reach ::
  "('x, 'st, 'au) orchestrator \<Rightarrow> ('x, 'st, 'au) orch_state \<Rightarrow> ('x, 'st, 'au) orch_state \<Rightarrow> bool"
  for o' st0 where
  reach_refl: "orch_reach o' st0 st0"
| reach_step: "orch_reach o' st0 st \<Longrightarrow> orch_step o' st st' \<Longrightarrow> orch_reach o' st0 st'"

inductive_cases orch_stepE: "orch_step o' st st'"

lemma orch_step_acts_ok:
  "orch_step o' st st' \<Longrightarrow> acts_ok (safe_record (oe_policy o')) st
   \<Longrightarrow> acts_ok (safe_record (oe_policy o')) st'"
  by (erule orch_stepE) (simp_all add: acts_ok_submit acts_ok_approve acts_ok_deny)

lemma orch_reach_acts_ok:
  "orch_reach o' st0 st \<Longrightarrow> acts_ok (safe_record (oe_policy o')) st0
   \<Longrightarrow> acts_ok (safe_record (oe_policy o')) st"
  by (induction rule: orch_reach.induct) (auto intro: orch_step_acts_ok)

section \<open>What an operation writes and touches\<close>

text \<open>Every operation extends the audit trail by appends only, and leaves the endpoint alone
  unless the action may run.\<close>

definition logs :: "'au append_op \<Rightarrow> 'au \<Rightarrow> 'au \<Rightarrow> bool" where
  "logs push a b \<longleftrightarrow> (\<exists>ms. b = appends push ms a)"

lemma logs_refl [simp, intro]: "logs push a a"
  unfolding logs_def by (rule exI [of _ "[]"]) simp

lemma logs_trans: "logs push a b \<Longrightarrow> logs push b c \<Longrightarrow> logs push a c"
  unfolding logs_def using appends_simps(3) by metis

lemma logs_push: "logs push a b \<Longrightarrow> logs push a (push now m b)"
proof -
  assume "logs push a b"
  then obtain ms where "b = appends push ms a" by (auto simp: logs_def)
  then have "push now m b = appends push (ms @ [(now, m)]) a" by simp
  then show ?thesis unfolding logs_def by blast
qed

lemma frame_simps [simp]:
  "os_audit (touch r st) = os_audit st" "os_world (touch r st) = os_world st"
  "os_store (touch r st) = os_store st"
  "os_world (orch_event o' now r ty a d st) = os_world st"
  "os_store (orch_event o' now r ty a d st) = os_store st"
  "os_actions (orch_event o' now r ty a d st) = os_actions st"
  "os_audit (orch_event o' now r ty a d st)
     = oe_audit o' now (orch_msg r ty a d) (os_audit st)"
  by (simp_all add: touch_def orch_event_def Let_def)

lemma persist_frame [simp]:
  "os_audit (snd (persist o' r st)) = os_audit st"
  "os_world (snd (persist o' r st)) = os_world st"
  "os_actions (snd (persist o' r st)) = os_actions st"
  by (auto simp: persist_def split: option.splits sum.splits)

lemma then_persist_frame [simp]:
  "os_audit (snd (then_persist o' res)) = os_audit (snd res)"
  "os_world (snd (then_persist o' res)) = os_world (snd res)"
  "os_actions (snd (then_persist o' res)) = os_actions (snd res)"
  by (cases res; auto simp: then_persist_def split: sum.splits)+

lemma logs_roll_back:
  "logs (oe_audit o') a (os_audit st) \<Longrightarrow> logs (oe_audit o') a (os_audit (snd (roll_back o' now sk e r st)))"
  by (auto simp: roll_back_def Let_def intro!: logs_push split: prod.splits sum.splits)

lemma logs_after_execute:
  "logs (oe_audit o') a (os_audit st)
   \<Longrightarrow> logs (oe_audit o') a (os_audit (snd (after_execute o' now sk e v r st)))"
  by (auto simp: after_execute_def Let_def intro!: logs_push logs_roll_back)

lemma logs_execute_or_queue:
  "logs (oe_audit o') a (os_audit st)
   \<Longrightarrow> logs (oe_audit o') a (os_audit (snd (execute_or_queue o' now sk r st)))"
  by (auto simp: execute_or_queue_def orch_run_def Let_def intro!: logs_push logs_after_execute
      split: option.splits prod.splits sum.splits)

lemma logs_submit: "logs (oe_audit o') (os_audit st) (os_audit (snd (submit o' now rq os st)))"
  by (auto simp: submit_def Let_def intro!: logs_push logs_execute_or_queue
      split: option.splits sum.splits)

lemma logs_approve: "logs (oe_audit o') (os_audit st) (os_audit (snd (approve o' now t c a st)))"
  by (auto simp: approve_def Let_def intro!: logs_push logs_execute_or_queue split: sum.splits)

lemma logs_deny: "logs (oe_audit o') (os_audit st) (os_audit (snd (deny o' now t c a reason st)))"
  by (auto simp: deny_def Let_def intro!: logs_push split: sum.splits)

lemma orch_reach_logs:
  "orch_reach o' st0 st \<Longrightarrow> logs (oe_audit o') (os_audit st0) (os_audit st)"
proof (induction rule: orch_reach.induct)
  case (reach_step st st')
  from reach_step.hyps(2) have "logs (oe_audit o') (os_audit st) (os_audit st')"
    by (rule orch_stepE) (simp_all add: logs_submit logs_approve logs_deny)
  with reach_step.IH show ?case by (rule logs_trans)
qed simp

section \<open>Properties\<close>

definition demo_executor :: "nat skill_executor" where
  "demo_executor = \<lparr>
     ex_execute = (\<lambda>s rq w. (Inr \<lparr>er_success = True, er_output = [], er_error = None\<rparr>, w + 1)),
     ex_verify = (\<lambda>s rq e w. (Inr False, w)),
     ex_rollback = (\<lambda>s rq e w. (Inr \<lparr>er_success = True, er_output = [], er_error = None\<rparr>, w + 10))\<rparr>"

definition demo_skill :: "RiskLevel \<Rightarrow> SkillDefinition" where
  "demo_skill k = skill_clear_temp\<lparr>sk_risk := k, sk_rollback_skill_id := Some ''undo''\<rparr>"

definition demo_orch :: "RiskLevel \<Rightarrow> bool \<Rightarrow> (nat, unit, AuditEvent list) orchestrator" where
  "demo_orch k now' = \<lparr>oe_policy = [(''clear_temp'', demo_skill k)], oe_executor = demo_executor,
     oe_audit = mem_append demo_host, oe_store = None, oe_execute_immediately = now'\<rparr>"

definition demo_state :: "(nat, unit, AuditEvent list) orch_state" where
  "demo_state = \<lparr>os_actions = (\<lambda>_. None), os_store = (), os_audit = [], os_world = 0\<rparr>"

lemma demo_evaluate:
  "evaluate [(''clear_temp'', demo_skill k)] request_clear_temp ''Windows'' =
     (if k = RISK_PROHIBITED then refuse ''skill is prohibited by policy'' (Some (demo_skill k))
      else \<lparr>pd_allowed = True, pd_approval_required = (k \<in> {RISK_MEDIUM, RISK_HIGH}),
        pd_reason = ''allowed by registered skill policy'', pd_skill = Some (demo_skill k),
        pd_automation_level = (if k \<in> {RISK_MEDIUM, RISK_HIGH} then L3_USER_APPROVAL
                               else L2_AUTOMATIC_VERIFY_ROLLBACK)\<rparr>)"
  by (simp add: evaluate_def request_clear_temp_def demo_skill_def skill_clear_temp_def
      os_supported_def approval_needed_def automation_level_for_def)

lemmas demo_defs = submit_def approve_def deny_def demo_state_def demo_orch_def demo_executor_def
  execute_or_queue_def orch_run_def after_execute_def roll_back_def then_persist_def persist_def
  get_for_tenant_def touch_def orch_event_def decision_status_def new_record_def Let_def

text \<open>
  C1.  No action gets past approval.  In every state the orchestrator can reach from one with no
  actions, by any sequence of submissions, approvals and denials, with any executor, store and
  audit sink, an action that is neither waiting for approval nor denied (so every action that
  was queued or executed) is allowed by policy, and where policy asks for approval it carries
  the approval of someone other than its requester.
\<close>

theorem no_unapproved_action:
  assumes "orch_reach o' st0 st" and "os_actions st0 = (\<lambda>_. None)"
    and "os_actions st c = Some r" and "ac_status r \<noteq> PENDING_APPROVAL" and "ac_status r \<noteq> DENIED"
  shows "pd_allowed (evaluate (oe_policy o') (ac_request r) (ac_device_os r))
    \<and> (pd_approval_required (evaluate (oe_policy o') (ac_request r) (ac_device_os r))
         \<longrightarrow> (\<exists>a. ac_approved_by r = Some a \<and> a \<noteq> rq_requested_by (ac_request r)))"
proof -
  have "acts_ok (safe_record (oe_policy o')) st0" using assms(2) by (simp add: acts_ok_def)
  with assms(1) have "acts_ok (safe_record (oe_policy o')) st" by (rule orch_reach_acts_ok)
  with assms(3-5) show ?thesis by (auto simp: acts_ok_def safe_record_def cleared_def Let_def)
qed

theorem no_unapproved_action_witness:
  "\<exists>r. os_actions (snd (approve (demo_orch RISK_HIGH False) 2 ''t'' ''c1'' ''bob''
         (snd (submit (demo_orch RISK_HIGH False) 1 request_clear_temp ''Windows'' demo_state)))) ''c1''
       = Some r \<and> ac_status r = QUEUED \<and> ac_approved_by r = Some ''bob''
     \<and> pd_allowed (evaluate (oe_policy (demo_orch RISK_HIGH False)) (ac_request r) (ac_device_os r))"
proof -
  let ?o = "demo_orch RISK_HIGH False"
  let ?s1 = "snd (submit ?o 1 request_clear_temp ''Windows'' demo_state)"
  let ?s2 = "snd (approve ?o 2 ''t'' ''c1'' ''bob'' ?s1)"
  have reach: "orch_reach ?o demo_state ?s2"
    by (meson reach_refl reach_step step_submit step_approve)
  let ?r0 = "new_record request_clear_temp ''Windows'' RISK_HIGH PENDING_APPROVAL"
  have ev: "evaluate (oe_policy ?o) request_clear_temp ''Windows'' =
    \<lparr>pd_allowed = True, pd_approval_required = True,
        pd_reason = ''allowed by registered skill policy'', pd_skill = Some (demo_skill RISK_HIGH),
        pd_automation_level = L3_USER_APPROVAL\<rparr>"
    by (simp add: demo_orch_def demo_evaluate)
  have k: "decision_risk (evaluate (oe_policy ?o) request_clear_temp ''Windows'') = RISK_HIGH"
    unfolding ev by (simp add: decision_risk_def demo_skill_def)
  have k2: "decision_status (evaluate (oe_policy ?o) request_clear_temp ''Windows'') = PENDING_APPROVAL"
    unfolding ev by (simp add: decision_status_def)
  have c: "rq_correlation_id request_clear_temp = ''c1''" by (simp add: request_clear_temp_def)
  have im: "\<not> oe_execute_immediately ?o" "oe_store ?o = None" by (simp_all add: demo_orch_def)
  have s1: "os_actions ?s1 ''c1'' = Some ?r0"
    by (simp add: submit_def Let_def k k2 im c demo_state_def persist_def)
  have g: "get_for_tenant ?o ''t'' ''c1'' ?s1 = Inr ?r0"
    using s1 by (simp add: get_for_tenant_def request_clear_temp_def)
  have "os_actions ?s2 ''c1'' =
      Some (?r0\<lparr>ac_approved_by := Some ''bob'', ac_status := QUEUED\<rparr>)"
    unfolding approve_def g
    using s1 im ev by (simp add: execute_or_queue_def then_persist_def persist_def touch_def Let_def
        request_clear_temp_def)
  with no_unapproved_action [OF reach _ this] show ?thesis by (simp add: demo_state_def)
qed

text \<open>
  The endpoint is touched only by cleared actions.  A submission changes the endpoint only
  when the orchestrator runs in immediate mode and policy allows the action without approval;
  an approval changes it, or returns an action that is not denied, only when the action was
  pending, the approver is not the requester and policy, evaluated again, still allows it; a
  denial never changes it.
\<close>

theorem endpoint_touched_only_when_cleared:
  "(os_world (snd (submit o' now rq os st)) \<noteq> os_world st \<longrightarrow>
      oe_execute_immediately o' \<and> pd_allowed (evaluate (oe_policy o') rq os)
      \<and> \<not> pd_approval_required (evaluate (oe_policy o') rq os))
   \<and> (os_world (snd (approve o' now t c a st)) \<noteq> os_world st
      \<or> (\<exists>r'. fst (approve o' now t c a st) = Inr r' \<and> ac_status r' \<noteq> DENIED) \<longrightarrow>
      (\<exists>r. get_for_tenant o' t c st = Inr r \<and> ac_status r = PENDING_APPROVAL
         \<and> a \<noteq> rq_requested_by (ac_request r)
         \<and> pd_allowed (evaluate (oe_policy o') (ac_request r) (ac_device_os r))))
   \<and> os_world (snd (deny o' now t c a reason st)) = os_world st"
proof (intro conjI impI)
  assume w: "os_world (snd (submit o' now rq os st)) \<noteq> os_world st"
  then have "decision_status (evaluate (oe_policy o') rq os) = APPROVED"
    by (auto simp: submit_def Let_def split: if_splits option.splits sum.splits)
  then show "pd_allowed (evaluate (oe_policy o') rq os)"
    "\<not> pd_approval_required (evaluate (oe_policy o') rq os)"
    by (auto simp: decision_status_def split: if_splits)
  from w show "oe_execute_immediately o'"
    by (auto simp: submit_def execute_or_queue_def Let_def split: if_splits option.splits sum.splits)
next
  assume "os_world (snd (approve o' now t c a st)) \<noteq> os_world st
      \<or> (\<exists>r'. fst (approve o' now t c a st) = Inr r' \<and> ac_status r' \<noteq> DENIED)"
  then show "\<exists>r. get_for_tenant o' t c st = Inr r \<and> ac_status r = PENDING_APPROVAL
         \<and> a \<noteq> rq_requested_by (ac_request r)
         \<and> pd_allowed (evaluate (oe_policy o') (ac_request r) (ac_device_os r))"
    by (auto simp: approve_def Let_def persist_def split: sum.splits if_splits option.splits)
next
  show "os_world (snd (deny o' now t c a reason st)) = os_world st"
    by (auto simp: deny_def Let_def split: sum.splits)
qed

lemma demo_submit_world:
  "os_world (snd (submit (demo_orch RISK_LOW True) 1 request_clear_temp ''Windows'' demo_state)) = 11"
proof -
  let ?o = "demo_orch RISK_LOW True"
  have ev: "evaluate (oe_policy ?o) request_clear_temp ''Windows'' =
    \<lparr>pd_allowed = True, pd_approval_required = False,
        pd_reason = ''allowed by registered skill policy'', pd_skill = Some (demo_skill RISK_LOW),
        pd_automation_level = L2_AUTOMATIC_VERIFY_ROLLBACK\<rparr>"
    by (simp add: demo_orch_def demo_evaluate)
  have d: "decision_status (evaluate (oe_policy ?o) request_clear_temp ''Windows'') = APPROVED"
    unfolding ev by (simp add: decision_status_def)
  have o: "oe_store ?o = None" "oe_execute_immediately ?o" "oe_executor ?o = demo_executor"
    by (simp_all add: demo_orch_def)
  have sk: "sk_reversible (demo_skill RISK_LOW)" "sk_rollback_skill_id (demo_skill RISK_LOW) = Some ''undo''"
    by (simp_all add: demo_skill_def skill_clear_temp_def)
  show ?thesis
    by (simp add: submit_def d [unfolded ev] o ev demo_state_def execute_or_queue_def orch_run_def demo_executor_def
        after_execute_def roll_back_def sk Let_def)
qed

theorem endpoint_touched_witness:
  "pd_allowed (evaluate (oe_policy (demo_orch RISK_LOW True)) request_clear_temp ''Windows'')"
  using endpoint_touched_only_when_cleared [of "demo_orch RISK_LOW True" 1 request_clear_temp
      "''Windows''" demo_state] demo_submit_world
  by (simp add: demo_state_def)

text \<open>
  The run of an approved action.  When the executor's calls return, the action ends
  \<open>succeeded\<close> exactly if execution reported success and verification passed; otherwise it is
  rolled back when the skill is reversible and declares a rollback skill, ending
  \<open>rolled_back\<close> or \<open>rollback_failed\<close> as the rollback says, and ends \<open>failed\<close> when it is not;
  verification runs only after a reported success, and the audit trail gets exactly the
  events of the path taken.
\<close>

theorem orch_run_outcome:
  assumes "ex_execute (oe_executor o') sk (ac_request r) (os_world st) = (Inr res, w1)"
    and "ex_verify (oe_executor o') sk (ac_request r) res w1 = (Inr ok, w2)"
    and "w' = (if er_success res then w2 else w1)"
    and "ex_rollback (oe_executor o') sk (ac_request r) res w' = (Inr rb, w3)"
  defines "verified \<equiv> er_success res \<and> ok"
    and "rolls \<equiv> sk_reversible sk \<and> sk_rollback_skill_id sk \<noteq> None"
  shows "\<exists>r' st'. orch_run o' now (Some sk) r st = (Inr r', st')
    \<and> r' = r\<lparr>ac_result := Some res, ac_status :=
        if verified then SUCCEEDED else if \<not> rolls then FAILED
        else if er_success rb then ROLLED_BACK else ROLLBACK_FAILED\<rparr>
    \<and> os_world st' = (if verified \<or> \<not> rolls then w' else w3)
    \<and> os_audit st' = appends (oe_audit o')
        ([(now, orch_msg r ''execution.started'' ''system'' [(''skill_id'', JStr (sk_skill_id sk))])]
         @ (if verified
            then [(now, orch_msg r ''execution.verified'' ''system'' [(''success'', JBool True)])]
            else [(now, orch_msg r ''execution.failed'' ''system''
                     [(''executor_success'', JBool (er_success res)), (''error'', opt_str (er_error res))])])
         @ (if \<not> verified \<and> rolls
            then [(now, orch_msg r ''rollback.completed'' ''system''
                     [(''success'', JBool (er_success rb)), (''error'', opt_str (er_error rb))])]
            else [])) (os_audit st)"
  using assms(1-4) unfolding verified_def rolls_def
  by (cases "er_success res"; cases ok)
     (auto simp: orch_run_def after_execute_def roll_back_def Let_def orch_msg_def)

theorem orch_run_outcome_witness:
  "\<exists>r' st'. orch_run (demo_orch RISK_LOW True) 1 (Some (demo_skill RISK_LOW))
     (new_record request_clear_temp ''Windows'' RISK_LOW APPROVED) demo_state = (Inr r', st')
     \<and> ac_status r' = ROLLED_BACK \<and> os_world st' = 11"
proof -
  let ?ok = "\<lparr>er_success = True, er_output = [], er_error = None\<rparr>"
  let ?r = "new_record request_clear_temp ''Windows'' RISK_LOW APPROVED"
  have h: "ex_execute (oe_executor (demo_orch RISK_LOW True)) (demo_skill RISK_LOW) (ac_request ?r)
        (os_world demo_state) = (Inr ?ok, 1)"
    "ex_verify (oe_executor (demo_orch RISK_LOW True)) (demo_skill RISK_LOW) (ac_request ?r) ?ok 1
        = (Inr False, 1)"
    "(1::nat) = (if er_success ?ok then 1 else 1)"
    "ex_rollback (oe_executor (demo_orch RISK_LOW True)) (demo_skill RISK_LOW) (ac_request ?r) ?ok 1
        = (Inr ?ok, 11)"
    by (simp_all add: demo_orch_def demo_executor_def demo_state_def)
  have sk: "sk_reversible (demo_skill RISK_LOW)" "sk_rollback_skill_id (demo_skill RISK_LOW) = Some ''undo''"
    by (simp_all add: demo_skill_def skill_clear_temp_def)
  from orch_run_outcome [OF h, of 1] sk show ?thesis by auto
qed

text \<open>With the in-memory audit log, whatever sequence of submissions, approvals and denials the
  orchestrator serves, failing calls included, the log stays a verified chain and only grows.
\<close>

theorem orch_audit_chain:
  fixes st0 :: "('x, 'st, AuditEvent list) orch_state"
  assumes "orch_reach o' st0 st" and "oe_audit o' = mem_append h" and "verify_chain h (os_audit st0)"
  shows "verify_chain h (os_audit st) \<and> (\<exists>es. os_audit st = os_audit st0 @ es)"
proof -
  from orch_reach_logs [OF assms(1)] assms(2)
  obtain ms where "os_audit st = appends (mem_append h) ms (os_audit st0)" by (auto simp: logs_def)
  then show ?thesis
    using memlog.appends_verify [where h = h and k = "()" and ms = ms and a = "os_audit st0"]
      memlog.appends_prefix [where h = h and k = "()" and ms = ms and a = "os_audit st0"] assms(3)
    by (simp add: mem_trail_def)
qed

theorem orch_audit_chain_witness:
  "verify_chain demo_host (os_audit (snd (submit (demo_orch RISK_HIGH False) 1
     request_clear_temp ''Windows'' demo_state)))"
proof -
  have "orch_reach (demo_orch RISK_HIGH False) demo_state
      (snd (submit (demo_orch RISK_HIGH False) 1 request_clear_temp ''Windows'' demo_state))"
    by (meson reach_refl reach_step step_submit)
  from orch_audit_chain [OF this, of demo_host] show ?thesis
    by (simp add: demo_orch_def demo_state_def)
qed

end
