(* ===== verification/Signing.thy ===== *)
theory Signing
  imports AuditLog
begin

text \<open>
  \<open>agent_common/signing.py\<close> and \<open>helpdesktool/job_signing.py\<close>: the signed job envelope.  The
  control plane signs the canonical text of twelve fields with a key derived from a seed and
  a version; the agent checks an envelope in a fixed order before it executes anything.  The
  Ed25519 operations are parameters (\<open>crypto\<close>); what the code relies on of them is
  \<open>signature_binding\<close>.
\<close>

section \<open>Keys and signatures\<close>

text \<open>
  \<open>ed_public seed\<close>: the PEM text of the public key of a private seed; \<open>ed_sign seed m\<close>: the
  base64 text of the signature of \<open>m\<close>; \<open>ed_verify pem m s\<close>: the key loads, the signature
  decodes and verifies, where every exception the code catches counts as failure.
\<close>

record crypto =
  ed_public :: "string \<Rightarrow> string"
  ed_sign :: "string \<Rightarrow> string \<Rightarrow> string"
  ed_verify :: "string \<Rightarrow> string \<Rightarrow> string \<Rightarrow> bool"

definition signature_binding :: "crypto \<Rightarrow> bool" where
  "signature_binding c \<longleftrightarrow> (\<forall>k m m'. ed_verify c (ed_public c k) m' (ed_sign c k m) \<longleftrightarrow> m' = m)"

definition private_key :: "host \<Rightarrow> string \<Rightarrow> int \<Rightarrow> string" where
  "private_key h seed_secret version =
     sha256_hex h (''helpdesktool-job-signing-key-v'' @ show_int version @ '':'' @ seed_secret)"

definition public_key_pem :: "host \<Rightarrow> crypto \<Rightarrow> string \<Rightarrow> int \<Rightarrow> string" where
  "public_key_pem h c seed_secret version = ed_public c (private_key h seed_secret version)"

definition active_public_keys :: "host \<Rightarrow> crypto \<Rightarrow> string \<Rightarrow> int \<Rightarrow> int \<Rightarrow> (int \<times> string) list" where
  "active_public_keys h c seed_secret current_version window =
     (let lowest = max 1 (current_version - window)
      in map (\<lambda>v. (v, public_key_pem h c seed_secret v)) [lowest..current_version])"

section \<open>The envelope\<close>

definition ENVELOPE_SIGNED_FIELDS :: "string list" where
  "ENVELOPE_SIGNED_FIELDS =
     [''job_id'', ''action_id'', ''device_id'', ''tenant_id'', ''skill_id'', ''skill_version'',
      ''parameters'', ''device_os'', ''issued_at'', ''expires_at'', ''nonce'', ''key_version'']"

definition REQUIRED_ENVELOPE_FIELDS :: "string list" where
  "REQUIRED_ENVELOPE_FIELDS = ENVELOPE_SIGNED_FIELDS @ [''signature'', ''claim_token'', ''attempt'']"

definition missing_fields :: "string list \<Rightarrow> dict \<Rightarrow> string list" where
  "missing_fields ks e = filter (\<lambda>k. dict_get e k = None) ks"

definition signed_body :: "dict \<Rightarrow> dict" where
  "signed_body e = map (\<lambda>k. (k, the (dict_get e k))) ENVELOPE_SIGNED_FIELDS"

text \<open>\<open>EnvelopeError\<close> is a \<open>RuntimeError\<close>.\<close>

definition canonical_payload :: "host \<Rightarrow> dict \<Rightarrow> py_error + string" where
  "canonical_payload h e =
     (if missing_fields ENVELOPE_SIGNED_FIELDS e \<noteq> []
      then Inl (RuntimeError (''malformed job envelope: missing '' @ hd (missing_fields ENVELOPE_SIGNED_FIELDS e)))
      else Inr (dumps_tight (float_repr h) (JObj (signed_body e))))"

definition sign_envelope :: "host \<Rightarrow> crypto \<Rightarrow> dict \<Rightarrow> string \<Rightarrow> int \<Rightarrow> py_error + string" where
  "sign_envelope h c e seed_secret version =
     (case canonical_payload h e of Inl x \<Rightarrow> Inl x
      | Inr m \<Rightarrow> Inr (ed_sign c (private_key h seed_secret version) m))"

definition verify_signature :: "host \<Rightarrow> crypto \<Rightarrow> dict \<Rightarrow> string \<Rightarrow> string \<Rightarrow> bool" where
  "verify_signature h c e signature pem =
     (case canonical_payload h e of Inl _ \<Rightarrow> False | Inr m \<Rightarrow> ed_verify c pem m signature)"

text \<open>
  A JSON value as the key of a dictionary keyed by integers: Python's equality identifies an
  integral float and a boolean with an integer, and lists and dictionaries are unhashable.
\<close>

definition int_key :: "json \<Rightarrow> py_error + int option" where
  "int_key v = (case v of JInt n \<Rightarrow> Inr (Some n) | JBool b \<Rightarrow> Inr (Some (if b then 1 else 0))
     | JFloat q \<Rightarrow> Inr (if q = of_int \<lfloor>q\<rfloor> then Some \<lfloor>q\<rfloor> else None)
     | JList _ \<Rightarrow> Inl (TypeError ''unhashable type'') | JObj _ \<Rightarrow> Inl (TypeError ''unhashable type'')
     | _ \<Rightarrow> Inr None)"

definition check_version :: "host \<Rightarrow> (string \<times> int set) list \<Rightarrow> dict \<Rightarrow> py_error + unit" where
  "check_version h supported e =
     (let skill_id = py_str h (the (dict_get e ''skill_id''));
          version = the (dict_get e ''skill_version'');
          unsupported = Inl (RuntimeError
             (''unsupported skill version: '' @ skill_id @ '' v'' @ py_str h version))
      in case map_of supported skill_id of
           None \<Rightarrow> unsupported
         | Some allowed \<Rightarrow>
             if allowed = {} then unsupported
             else (case int_key version of
                     Inl x \<Rightarrow> Inl x
                   | Inr None \<Rightarrow> unsupported
                   | Inr (Some v) \<Rightarrow> if v \<in> allowed then Inr () else unsupported))"

definition verify_envelope ::
  "host \<Rightarrow> crypto \<Rightarrow> dict \<Rightarrow> (int \<times> string) list \<Rightarrow> string \<Rightarrow> string
   \<Rightarrow> (string \<times> int set) list \<Rightarrow> time \<Rightarrow> py_error + unit" where
  "verify_envelope h c e public_keys expected_device_id expected_tenant_id supported moment =
     (if missing_fields REQUIRED_ENVELOPE_FIELDS e \<noteq> []
      then Inl (RuntimeError (''malformed job envelope: missing '' @
             join '', '' (sort (missing_fields REQUIRED_ENVELOPE_FIELDS e))))
      else case int_key (the (dict_get e ''key_version'')) of
        Inl x \<Rightarrow> Inl x
      | Inr kv \<Rightarrow>
          let candidate = (case kv of None \<Rightarrow> None | Some v \<Rightarrow> map_of public_keys v) in
          if (case candidate of None \<Rightarrow> True
              | Some pem \<Rightarrow> \<not> verify_signature h c e (py_str h (the (dict_get e ''signature''))) pem)
          then Inl (RuntimeError ''invalid job envelope signature'')
          else if dict_get e ''device_id'' \<noteq> Some (JStr expected_device_id)
          then Inl (RuntimeError ''job envelope is addressed to a different device'')
          else if dict_get e ''tenant_id'' \<noteq> Some (JStr expected_tenant_id)
          then Inl (RuntimeError ''job envelope is addressed to a different tenant'')
          else case fromisoformat h (py_str h (the (dict_get e ''expires_at''))) of
            None \<Rightarrow> Inl (RuntimeError ''malformed job envelope expiration'')
          | Some (expires_at, aware) \<Rightarrow>
              if \<not> aware then Inl (RuntimeError ''malformed job envelope expiration'')
              else if expires_at \<le> moment then Inl (RuntimeError ''job envelope has expired'')
              else check_version h supported e)"

section \<open>Laws\<close>

lemma missing_fields_Nil [simp]:
  "missing_fields ks e = [] \<longleftrightarrow> (\<forall>k \<in> set ks. dict_get e k \<noteq> None)"
  by (auto simp: missing_fields_def filter_empty_conv)

lemma signed_keys: "distinct (map fst (signed_body e))"
  by (simp add: signed_body_def ENVELOPE_SIGNED_FIELDS_def)

lemma signed_lookup:
  "k \<in> set ENVELOPE_SIGNED_FIELDS \<Longrightarrow> map_of (signed_body e) k = Some (the (dict_get e k))"
  by (auto simp: signed_body_def map_of_map_restrict)

lemma canonical_determines:
  assumes "float_repr_ok (float_repr h)" and "canonical_payload h e = Inr m"
    and "canonical_payload h e' = Inr m" and "k \<in> set ENVELOPE_SIGNED_FIELDS"
  shows "map_option canon (dict_get e k) = map_option canon (dict_get e' k)"
proof -
  from assms(2,3) have "dumps_tight (float_repr h) (JObj (signed_body e))
      = dumps_tight (float_repr h) (JObj (signed_body e'))"
    by (auto simp: canonical_payload_def split: if_splits)
  from dumps_tight_inj [OF assms(1) this]
  have "map_option canon (map_of (signed_body e) k) = map_option canon (map_of (signed_body e') k)"
    by (intro canon_obj_lookup signed_keys)
  moreover have "dict_get e k \<noteq> None" "dict_get e' k \<noteq> None"
    using assms(2-4) by (auto simp: canonical_payload_def split: if_splits)
  ultimately show ?thesis by (auto simp: signed_lookup [OF assms(4)])
qed

lemma map_of_active_keys:
  "map_of (active_public_keys h c seed current window) v =
     (if max 1 (current - window) \<le> v \<and> v \<le> current then Some (public_key_pem h c seed v) else None)"
proof -
  have "map_of (map (\<lambda>v. (v, f v)) vs) v = (if v \<in> set vs then Some (f v) else None)" for f :: "int \<Rightarrow> string" and vs
    by (induction vs) auto
  then show ?thesis by (auto simp: active_public_keys_def Let_def)
qed

lemma accepted_iff:
  "verify_envelope h c e keys dev ten supported now = Inr () \<longleftrightarrow>
     (\<forall>k \<in> set REQUIRED_ENVELOPE_FIELDS. dict_get e k \<noteq> None)
     \<and> (\<exists>v pem. int_key (the (dict_get e ''key_version'')) = Inr (Some v) \<and> map_of keys v = Some pem
          \<and> verify_signature h c e (py_str h (the (dict_get e ''signature''))) pem)
     \<and> dict_get e ''device_id'' = Some (JStr dev) \<and> dict_get e ''tenant_id'' = Some (JStr ten)
     \<and> (\<exists>t. fromisoformat h (py_str h (the (dict_get e ''expires_at''))) = Some (t, True) \<and> now < t)
     \<and> (\<exists>vs v. map_of supported (py_str h (the (dict_get e ''skill_id''))) = Some vs
          \<and> int_key (the (dict_get e ''skill_version'')) = Inr (Some v) \<and> v \<in> vs)"
  unfolding verify_envelope_def check_version_def Let_def
  by (auto split: sum.splits option.splits if_splits prod.splits simp: not_le)

text \<open>
  C6.  An agent accepts an envelope exactly when it carries every required field, its signature
  verifies under the trusted key of the version it names, it is addressed to the agent's own
  device and tenant, its expiry is a time with a zone that lies in the future, and its skill
  version is one the agent supports.
\<close>

theorem verify_envelope_exact:
  "verify_envelope h c e keys dev ten supported now = Inr () \<longleftrightarrow>
     (\<forall>k \<in> set REQUIRED_ENVELOPE_FIELDS. dict_get e k \<noteq> None)
     \<and> (\<exists>v pem. int_key (the (dict_get e ''key_version'')) = Inr (Some v) \<and> map_of keys v = Some pem
          \<and> verify_signature h c e (py_str h (the (dict_get e ''signature''))) pem)
     \<and> dict_get e ''device_id'' = Some (JStr dev) \<and> dict_get e ''tenant_id'' = Some (JStr ten)
     \<and> (\<exists>t. fromisoformat h (py_str h (the (dict_get e ''expires_at''))) = Some (t, True) \<and> now < t)
     \<and> (\<exists>vs v. map_of supported (py_str h (the (dict_get e ''skill_id''))) = Some vs
          \<and> int_key (the (dict_get e ''skill_version'')) = Inr (Some v) \<and> v \<in> vs)"
  by (rule accepted_iff)

definition demo_crypto :: crypto where
  "demo_crypto = \<lparr>ed_public = (\<lambda>k. k), ed_sign = (\<lambda>k m. quote k @ m),
     ed_verify = (\<lambda>k m s. s = quote k @ m)\<rparr>"

lemma demo_crypto_binding: "signature_binding demo_crypto"
  by (auto simp: signature_binding_def demo_crypto_def)

definition demo_envelope :: dict where
  "demo_envelope =
     [(''job_id'', JStr ''a:1''), (''action_id'', JStr ''a''), (''device_id'', JStr ''d''),
      (''tenant_id'', JStr ''t''), (''skill_id'', JStr ''dns.flush_cache''),
      (''skill_version'', JInt 1), (''parameters'', JObj []), (''device_os'', JStr ''linux''),
      (''issued_at'', JStr (show_int 5)), (''expires_at'', JStr (show_int 65)),
      (''nonce'', JStr ''n''), (''key_version'', JInt 1)]"

definition complete_envelope :: "dict \<Rightarrow> string \<Rightarrow> dict" where
  "complete_envelope e sig = e @ [(''signature'', JStr sig), (''claim_token'', JStr ''c''), (''attempt'', JInt 1)]"

lemma dict_get_complete:
  assumes "k \<in> set ENVELOPE_SIGNED_FIELDS" and "dict_get e k \<noteq> None"
  shows "dict_get (complete_envelope e sig) k = dict_get e k"
  using assms by (auto simp: dict_get_def complete_envelope_def map_add_def split: option.split)

lemma demo_envelope_fields: "\<forall>k \<in> set ENVELOPE_SIGNED_FIELDS. dict_get demo_envelope k \<noteq> None"
  by (simp add: ENVELOPE_SIGNED_FIELDS_def demo_envelope_def dict_get_def)

lemma signed_accepted:
  assumes "signature_binding c" and "sign_envelope h c e seed ver = Inr sig"
    and "map_of keys ver = Some (public_key_pem h c seed ver)"
    and same: "\<And>k. k \<in> set ENVELOPE_SIGNED_FIELDS \<Longrightarrow> dict_get e' k = dict_get e k"
    and extra: "dict_get e' ''signature'' = Some (JStr sig)" "dict_get e' ''claim_token'' \<noteq> None"
      "dict_get e' ''attempt'' \<noteq> None"
    and "dict_get e ''key_version'' = Some (JInt ver)"
    and "dict_get e ''device_id'' = Some (JStr dev)" and "dict_get e ''tenant_id'' = Some (JStr ten)"
    and "dict_get e ''expires_at'' = Some (JStr (isoformat h t))" and "iso_ok h" and "now < t"
    and "dict_get e ''skill_id'' = Some (JStr sk)" and "dict_get e ''skill_version'' = Some (JInt v)"
    and "map_of supported sk = Some vs" and "v \<in> vs"
  shows "verify_envelope h c e' keys dev ten supported now = Inr ()"
proof -
  have in_signed: "''key_version'' \<in> set ENVELOPE_SIGNED_FIELDS" "''device_id'' \<in> set ENVELOPE_SIGNED_FIELDS"
    "''tenant_id'' \<in> set ENVELOPE_SIGNED_FIELDS" "''expires_at'' \<in> set ENVELOPE_SIGNED_FIELDS"
    "''skill_id'' \<in> set ENVELOPE_SIGNED_FIELDS" "''skill_version'' \<in> set ENVELOPE_SIGNED_FIELDS"
    by (simp_all add: ENVELOPE_SIGNED_FIELDS_def)
  from assms(2) obtain m where m: "canonical_payload h e = Inr m" "sig = ed_sign c (private_key h seed ver) m"
    by (auto simp: sign_envelope_def split: sum.splits)
  then have all: "\<forall>k \<in> set ENVELOPE_SIGNED_FIELDS. dict_get e k \<noteq> None"
    by (auto simp: canonical_payload_def split: if_splits)
  have "signed_body e' = signed_body e" using same by (simp add: signed_body_def)
  then have m': "canonical_payload h e' = Inr m" using m(1) same all
    by (auto simp: canonical_payload_def split: if_splits)
  have vs: "verify_signature h c e' sig (public_key_pem h c seed ver)"
    using assms(1) m(2) m' by (simp add: verify_signature_def public_key_pem_def signature_binding_def)
  have req: "\<forall>k \<in> set REQUIRED_ENVELOPE_FIELDS. dict_get e' k \<noteq> None"
    using all same extra by (auto simp: REQUIRED_ENVELOPE_FIELDS_def)
  show ?thesis
    unfolding accepted_iff
    using req vs assms in_signed by (simp add: int_key_def py_str_def iso_ok_def)
qed

text \<open>
  C33.  Signing and verification agree, also across a key rotation: an envelope signed with a
  key version inside the window the control plane publishes, sent with its signature, claim
  token and attempt, is accepted by the device and tenant it names until it expires, as long
  as the agent supports the skill version.
\<close>

theorem sign_then_verify:
  assumes "signature_binding c" and "sign_envelope h c e seed ver = Inr sig"
    and "max 1 (current - window) \<le> ver" and "ver \<le> current"
    and same: "\<And>k. k \<in> set ENVELOPE_SIGNED_FIELDS \<Longrightarrow> dict_get e' k = dict_get e k"
    and extra: "dict_get e' ''signature'' = Some (JStr sig)" "dict_get e' ''claim_token'' \<noteq> None"
      "dict_get e' ''attempt'' \<noteq> None"
    and "dict_get e ''key_version'' = Some (JInt ver)"
    and "dict_get e ''device_id'' = Some (JStr dev)" and "dict_get e ''tenant_id'' = Some (JStr ten)"
    and "dict_get e ''expires_at'' = Some (JStr (isoformat h t))" and "iso_ok h" and "now < t"
    and "dict_get e ''skill_id'' = Some (JStr sk)" and "dict_get e ''skill_version'' = Some (JInt v)"
    and "map_of supported sk = Some vs" and "v \<in> vs"
  shows "verify_envelope h c e' (active_public_keys h c seed current window) dev ten supported now = Inr ()"
proof (rule signed_accepted [OF assms(1,2) _ same extra])
  show "map_of (active_public_keys h c seed current window) ver = Some (public_key_pem h c seed ver)"
    using assms(3,4) by (simp add: map_of_active_keys)
qed (use assms in auto)

theorem sign_then_verify_witness:
  "\<exists>sig. sign_envelope demo_host demo_crypto demo_envelope ''seed'' 1 = Inr sig
     \<and> verify_envelope demo_host demo_crypto (complete_envelope demo_envelope sig)
         (active_public_keys demo_host demo_crypto ''seed'' 2 1) ''d'' ''t''
         [(''dns.flush_cache'', {1})] 6 = Inr ()"
proof -
  obtain sig where sig: "sign_envelope demo_host demo_crypto demo_envelope ''seed'' 1 = Inr sig"
    using demo_envelope_fields by (auto simp: sign_envelope_def canonical_payload_def)
  have ex: "dict_get (complete_envelope demo_envelope sig) ''signature'' = Some (JStr sig)"
    "dict_get (complete_envelope demo_envelope sig) ''claim_token'' \<noteq> None"
    "dict_get (complete_envelope demo_envelope sig) ''attempt'' \<noteq> None"
    by (simp_all add: complete_envelope_def demo_envelope_def dict_get_def)
  have f: "dict_get demo_envelope ''key_version'' = Some (JInt 1)"
    "dict_get demo_envelope ''device_id'' = Some (JStr ''d'')"
    "dict_get demo_envelope ''tenant_id'' = Some (JStr ''t'')"
    "dict_get demo_envelope ''expires_at'' = Some (JStr (isoformat demo_host 65))"
    "dict_get demo_envelope ''skill_id'' = Some (JStr ''dns.flush_cache'')"
    "dict_get demo_envelope ''skill_version'' = Some (JInt 1)"
    by (simp_all add: demo_envelope_def dict_get_def demo_host_def)
  have same: "dict_get (complete_envelope demo_envelope sig) k = dict_get demo_envelope k"
    if "k \<in> set ENVELOPE_SIGNED_FIELDS" for k
    using that demo_envelope_fields by (intro dict_get_complete) auto
  have "verify_envelope demo_host demo_crypto (complete_envelope demo_envelope sig)
         (active_public_keys demo_host demo_crypto ''seed'' 2 1) ''d'' ''t''
         [(''dns.flush_cache'', {1})] 6 = Inr ()"
    using sign_then_verify [OF demo_crypto_binding sig _ _ same ex f(1-4) demo_host_iso _ f(5,6),
        of 2 1 6 "[(''dns.flush_cache'', {1})]" "{1}"] by simp
  with sig show ?thesis by blast
qed

theorem verify_envelope_exact_witness:
  "\<forall>sig. verify_envelope demo_host demo_crypto (complete_envelope demo_envelope sig) []
     ''d'' ''t'' [(''dns.flush_cache'', {1})] 6 \<noteq> Inr ()"
  by (simp add: verify_envelope_exact)

lemma demo_accepted:
  assumes "map_of keys 1 = Some (public_key_pem demo_host demo_crypto ''seed'' 1)"
    and "map_of supported ''dns.flush_cache'' = Some {1}"
    and "sign_envelope demo_host demo_crypto demo_envelope ''seed'' 1 = Inr sig"
  shows "verify_envelope demo_host demo_crypto (complete_envelope demo_envelope sig) keys ''d'' ''t'' supported 6 = Inr ()"
proof (rule signed_accepted [where v = 1 and vs = "{1}" and sk = "''dns.flush_cache''", OF demo_crypto_binding assms(3,1)])
  show "dict_get (complete_envelope demo_envelope sig) k = dict_get demo_envelope k"
    if "k \<in> set ENVELOPE_SIGNED_FIELDS" for k
    using that demo_envelope_fields by (intro dict_get_complete) auto
  show "dict_get demo_envelope ''expires_at'' = Some (JStr (isoformat demo_host 65))"
    by (simp add: demo_envelope_def dict_get_def demo_host_def)
qed (use assms(2) demo_host_iso in \<open>simp_all add: complete_envelope_def demo_envelope_def dict_get_def\<close>)

text \<open>
  A signature is good for one envelope: when the signature made for one envelope is
  accepted for another, every signed field of the two is the same, so none of the action,
  device, tenant, skill and its version, parameters, expiry, nonce or key version can be
  replaced.  The claim token and the attempt are not among the signed fields.
\<close>

theorem signature_covers_fields:
  assumes "signature_binding c" and "float_repr_ok (float_repr h)"
    and "sign_envelope h c e seed ver = Inr sig"
    and "verify_signature h c e' sig (public_key_pem h c seed ver)"
  shows "\<forall>k \<in> set ENVELOPE_SIGNED_FIELDS. map_option canon (dict_get e' k) = map_option canon (dict_get e k)"
proof -
  from assms(3) obtain m where m: "canonical_payload h e = Inr m" "sig = ed_sign c (private_key h seed ver) m"
    by (auto simp: sign_envelope_def split: sum.splits)
  moreover from assms(4) obtain m' where "canonical_payload h e' = Inr m'"
    "ed_verify c (ed_public c (private_key h seed ver)) m' sig"
    by (auto simp: verify_signature_def public_key_pem_def split: sum.splits)
  ultimately have "canonical_payload h e' = Inr m" using assms(1) by (simp add: signature_binding_def)
  with canonical_determines [OF assms(2)] m(1) show ?thesis by blast
qed

theorem signature_covers_fields_witness:
  "\<not> verify_signature demo_host demo_crypto (dict_set demo_envelope ''device_id'' (JStr ''x''))
     (quote (private_key demo_host ''seed'' 1)
        @ dumps_tight (float_repr demo_host) (JObj (signed_body demo_envelope)))
     (public_key_pem demo_host demo_crypto ''seed'' 1)"
proof
  assume v: "verify_signature demo_host demo_crypto (dict_set demo_envelope ''device_id'' (JStr ''x''))
     (quote (private_key demo_host ''seed'' 1)
        @ dumps_tight (float_repr demo_host) (JObj (signed_body demo_envelope)))
     (public_key_pem demo_host demo_crypto ''seed'' 1)"
  have s: "sign_envelope demo_host demo_crypto demo_envelope ''seed'' 1 =
      Inr (quote (private_key demo_host ''seed'' 1)
        @ dumps_tight (float_repr demo_host) (JObj (signed_body demo_envelope)))"
    using demo_envelope_fields by (auto simp: sign_envelope_def canonical_payload_def demo_crypto_def)
  have "float_repr_ok (float_repr demo_host)" using demo_host_ok by (simp add: digest_ok_def)
  from signature_covers_fields [OF demo_crypto_binding this s v] show False
    by (simp add: ENVELOPE_SIGNED_FIELDS_def demo_envelope_def dict_get_def)
qed

end
