(* ===== verification/Rows.thy ===== *)
theory Rows
  imports Orchestrator Signing Settings
begin

text \<open>
  \<open>helpdesktool/db_models.py\<close>: one record per table, one field per column (an integer
  primary key takes the next value of the counter of fresh identifiers), and the database as a record of tables,
  each the list of its rows in insertion order.  \<open>server\<close> holds what a request handler reads
  besides the database: the runtime, the stream of fresh identifiers and the settings.
\<close>

section \<open>Tables\<close>

record Tenant =
  tn_id :: string
  tn_name :: string
  tn_created_at :: time

record SkillManifestRow =
  sm_id :: string
  sm_skill_id :: string
  sm_version :: int
  sm_risk :: string
  sm_supported_os :: "string list"
  sm_timeout_seconds :: int
  sm_rollback_skill_id :: "string option"
  sm_parameters :: dict
  sm_command_type :: string
  sm_requires_user_approval :: bool
  sm_requires_admin_approval :: bool
  sm_security_sensitive :: bool
  sm_reversible :: bool
  sm_required_privilege :: string
  sm_preconditions :: dict
  sm_expected_output :: string
  sm_success_condition :: string
  sm_failure_condition :: string
  sm_side_effects :: string
  sm_requires_reboot :: bool
  sm_allowed_execution_context :: string
  sm_content_hash :: string
  sm_active :: bool
  sm_created_by :: string
  sm_created_at :: time

record WorkerHeartbeatRow =
  wh_worker_name :: string
  wh_last_heartbeat_at :: time
  wh_last_batch_size :: int

record User =
  us_id :: string
  us_tenant_id :: string
  us_email :: string
  us_role :: string
  us_active :: bool

record Device =
  dv_id :: string
  dv_tenant_id :: string
  dv_external_id :: string
  dv_hostname :: string
  dv_os :: string
  dv_agent_key_hash :: string
  dv_active :: bool
  dv_revoked_at :: "time option"
  dv_revoked_reason :: "string option"
  dv_credential_rotated_at :: "time option"
  dv_enrolled_at :: time
  dv_last_seen_at :: "time option"

record EnrollmentToken =
  et_id :: string
  et_tenant_id :: string
  et_token_hash :: string
  et_created_by :: string
  et_label :: string
  et_expires_at :: time
  et_used_at :: "time option"
  et_used_by_device_id :: "string option"
  et_revoked_at :: "time option"
  et_created_at :: time

record DeviceInventory =
  di_id :: nat
  di_tenant_id :: string
  di_device_id :: string
  di_collected_at :: time
  di_payload :: dict

record HeartbeatRow =
  hb_id :: nat
  hb_tenant_id :: string
  hb_device_id :: string
  hb_received_at :: time
  hb_status :: dict

record Ticket =
  tk_id :: string
  tk_tenant_id :: string
  tk_device_id :: "string option"
  tk_title :: string
  tk_description :: string
  tk_status :: string
  tk_priority :: string
  tk_created_by :: string
  tk_created_at :: time
  tk_updated_at :: time

record Incident =
  ic_id :: string
  ic_tenant_id :: string
  ic_device_id :: string
  ic_ticket_id :: "string option"
  ic_incident_type :: string
  ic_severity :: string
  ic_status :: string
  ic_summary :: string
  ic_evidence :: dict
  ic_correlation_key :: string
  ic_occurrence_count :: int
  ic_first_observed_at :: time
  ic_last_observed_at :: time
  ic_resolved_at :: "time option"
  ic_created_at :: time
  ic_updated_at :: time

record Action =
  at_id :: string
  at_tenant_id :: string
  at_device_id :: string
  at_ticket_id :: "string option"
  at_skill_id :: string
  at_requested_by :: string
  at_parameters :: dict
  at_device_os :: string
  at_risk :: string
  at_status :: string
  at_approved_by :: "string option"
  at_claim_token_hash :: "string option"
  at_claimed_at :: "time option"
  at_lease_expires_at :: "time option"
  at_attempt :: int
  at_created_at :: time
  at_updated_at :: time

record Approval =
  ap_id :: string
  ap_tenant_id :: string
  ap_action_id :: string
  ap_decided_by :: string
  ap_decision :: string
  ap_reason :: "string option"
  ap_decided_at :: time

record Diagnosis =
  dg_id :: string
  dg_tenant_id :: string
  dg_incident_id :: string
  dg_requested_by :: string
  dg_provider_name :: string
  dg_model :: string
  dg_fallback_used :: bool
  dg_summary :: string
  dg_likely_root_cause :: string
  dg_confidence :: rat
  dg_suggested_skill_id :: "string option"
  dg_suggested_parameters :: dict
  dg_escalate :: bool
  dg_escalation_reason :: string
  dg_latency_ms :: int
  dg_created_at :: time

record ExecutionResultRow =
  xr_id :: string
  xr_tenant_id :: string
  xr_action_id :: string
  xr_success :: bool
  xr_output :: dict
  xr_error :: "string option"
  xr_verified :: bool
  xr_rollback_attempted :: bool
  xr_rollback_succeeded :: "bool option"
  xr_created_at :: time

record AuditEventRow =
  au_id :: string
  au_sequence :: int
  au_occurred_at :: time
  au_tenant_id :: string
  au_correlation_id :: string
  au_event_type :: string
  au_actor_id :: string
  au_details :: dict
  au_previous_hash :: string
  au_event_hash :: string

record IdempotencyRecord =
  ir_id :: string
  ir_tenant_id :: string
  ir_scope :: string
  ir_key :: string
  ir_request_hash :: string
  ir_response :: dict
  ir_status_code :: int
  ir_created_at :: time

record DomainEventRow =
  dr_id :: string
  dr_tenant_id :: string
  dr_event_type :: string
  dr_subject_id :: string
  dr_schema_version :: int
  dr_data :: dict
  dr_occurred_at :: time

record WebhookSubscription =
  ws_id :: string
  ws_tenant_id :: string
  ws_name :: string
  ws_url :: string
  ws_secret_ref :: string
  ws_event_types :: "string list"
  ws_active :: bool
  ws_created_by :: string
  ws_created_at :: time

record WebhookDelivery =
  wd_id :: string
  wd_tenant_id :: string
  wd_event_id :: string
  wd_subscription_id :: string
  wd_status :: string
  wd_attempt_count :: int
  wd_next_attempt_at :: time
  wd_last_attempt_at :: "time option"
  wd_delivered_at :: "time option"
  wd_response_status :: "int option"
  wd_last_error :: "string option"

record ApplicationConnectorConfig =
  cn_id :: string
  cn_tenant_id :: string
  cn_application_id :: string
  cn_display_name :: string
  cn_connector_type :: string
  cn_config :: dict
  cn_credential_ref :: string
  cn_active :: bool
  cn_created_by :: string
  cn_created_at :: time

record Conversation =
  cv_id :: string
  cv_tenant_id :: string
  cv_channel :: string
  cv_channel_thread_id :: string
  cv_user_id :: string
  cv_status :: string
  cv_ticket_id :: "string option"
  cv_created_at :: time
  cv_updated_at :: time

record ConversationMessage =
  cm_id :: string
  cm_tenant_id :: string
  cm_conversation_id :: string
  cm_role :: string
  cm_content :: string
  cm_intent :: "string option"
  cm_created_at :: time

record ConnectorRequest =
  cr_id :: string
  cr_tenant_id :: string
  cr_conversation_id :: "string option"
  cr_connector_id :: string
  cr_operation :: string
  cr_target_email :: string
  cr_requested_by :: string
  cr_risk :: string
  cr_status :: string
  cr_decided_by :: "string option"
  cr_decision_reason :: "string option"
  cr_decided_at :: "time option"
  cr_result_success :: "bool option"
  cr_result_detail :: "string option"
  cr_verified :: bool
  cr_step_up_code_hash :: "string option"
  cr_step_up_code_expires_at :: "time option"
  cr_created_at :: time
  cr_updated_at :: time

record OrganizationalBaselineRow =
  ob_id :: string
  ob_tenant_id :: string
  ob_scope :: string
  ob_key :: string
  ob_value :: json
  ob_device_id :: "string option"
  ob_user_id :: "string option"
  ob_description :: string
  ob_active :: bool
  ob_created_by :: string
  ob_created_at :: time

record ChannelWorkspaceLink =
  wl_id :: string
  wl_tenant_id :: string
  wl_channel :: string
  wl_workspace_id :: string
  wl_signing_secret_ref :: string
  wl_active :: bool
  wl_created_by :: string
  wl_created_at :: time

record ChannelIdentityLink =
  il_id :: string
  il_tenant_id :: string
  il_channel :: string
  il_provider_user_id :: string
  il_user_id :: string
  il_created_by :: string
  il_created_at :: time

record KnowledgeSourceRow =
  ks_id :: string
  ks_source_organization :: string
  ks_source_url :: string
  ks_retrieval_date :: time
  ks_last_verified_date :: "time option"
  ks_source_reliability :: rat
  ks_deprecated :: bool
  ks_superseded_by :: "string option"
  ks_created_by :: string
  ks_created_at :: time

record IssueDefinitionRow =
  is_id :: string
  is_issue_key :: string
  is_version :: int
  is_title :: string
  is_description :: string
  is_category :: string
  is_applicable_os :: "string list"
  is_applicable_software_versions :: dict
  is_evidence_requirements :: "json list"
  is_mitre_mappings :: "json list"
  is_cve_references :: "json list"
  is_escalation_policy :: "dict option"
  is_source_id :: "string option"
  is_validated :: bool
  is_content_hash :: string
  is_active :: bool
  is_created_by :: string
  is_created_at :: time

record DiagnosticWorkflowRow =
  dw_id :: string
  dw_issue_definition_id :: string
  dw_version :: int
  dw_active :: bool
  dw_created_by :: string
  dw_created_at :: time

record DiagnosticStepRow =
  ds_id :: string
  ds_workflow_id :: string
  ds_step_order :: int
  ds_step_type :: string
  ds_description :: string
  ds_remediation_skill_id :: "string option"
  ds_verification_description :: string
  ds_rollback_skill_id :: "string option"
  ds_reference_description :: string

section \<open>The database\<close>

record db =
  tenants :: "Tenant list"
  skills :: "SkillManifestRow list"
  worker_heartbeats :: "WorkerHeartbeatRow list"
  users :: "User list"
  devices :: "Device list"
  enrollment_tokens :: "EnrollmentToken list"
  device_inventory :: "DeviceInventory list"
  heartbeats :: "HeartbeatRow list"
  tickets :: "Ticket list"
  incidents :: "Incident list"
  actions :: "Action list"
  approvals :: "Approval list"
  diagnoses :: "Diagnosis list"
  execution_results :: "ExecutionResultRow list"
  audit_events :: "AuditEventRow list"
  idempotency_records :: "IdempotencyRecord list"
  domain_events :: "DomainEventRow list"
  webhook_subscriptions :: "WebhookSubscription list"
  webhook_deliveries :: "WebhookDelivery list"
  application_connectors :: "ApplicationConnectorConfig list"
  conversations :: "Conversation list"
  conversation_messages :: "ConversationMessage list"
  connector_requests :: "ConnectorRequest list"
  organizational_baselines :: "OrganizationalBaselineRow list"
  channel_workspace_links :: "ChannelWorkspaceLink list"
  channel_identity_links :: "ChannelIdentityLink list"
  knowledge_sources :: "KnowledgeSourceRow list"
  issue_definitions :: "IssueDefinitionRow list"
  diagnostic_workflows :: "DiagnosticWorkflowRow list"
  diagnostic_steps :: "DiagnosticStepRow list"
  next_id :: nat

definition empty_db :: db where
  "empty_db = \<lparr>tenants = [], skills = [], worker_heartbeats = [], users = [], devices = [], enrollment_tokens = [], device_inventory = [], heartbeats = [], tickets = [], incidents = [], actions = [], approvals = [], diagnoses = [], execution_results = [], audit_events = [], idempotency_records = [], domain_events = [], webhook_subscriptions = [], webhook_deliveries = [], application_connectors = [], conversations = [], conversation_messages = [], connector_requests = [], organizational_baselines = [], channel_workspace_links = [], channel_identity_links = [], knowledge_sources = [], issue_definitions = [], diagnostic_workflows = [], diagnostic_steps = [], next_id = 0\<rparr>"

record server =
  sv_host :: host
  sv_uuid :: "nat \<Rightarrow> string"
  sv_settings :: settings
  sv_crypto :: crypto
  sv_token :: "nat \<Rightarrow> string"

text \<open>
  \<open>str(uuid4())\<close>: the next identifier of the stream \<open>sv_uuid\<close>; \<open>secrets.token_hex\<close> and its
  like draw the value of \<open>sv_token\<close> at the same counter.
\<close>

definition new_id :: "server \<Rightarrow> db \<Rightarrow> string \<times> db" where
  "new_id sv d = (sv_uuid sv (next_id d), d\<lparr>next_id := Suc (next_id d)\<rparr>)"

lemma fst_new_id [simp]: "fst (new_id sv d) = sv_uuid sv (next_id d)"
  by (simp add: new_id_def)

lemma snd_new_id [simp]: "snd (new_id sv d) = d\<lparr>next_id := Suc (next_id d)\<rparr>"
  by (simp add: new_id_def)

definition some_time :: "server \<Rightarrow> time option \<Rightarrow> json" where
  "some_time sv x = (case x of None \<Rightarrow> JNull | Some t \<Rightarrow> JStr (isoformat (sv_host sv) t))"

text \<open>An exception that no handler catches is answered with status 500.\<close>

definition unhandled :: "http_error" where
  "unhandled = HTTPException 500 ''Internal Server Error''"

text \<open>\<open>tenant_row(session, model, row_id, tenant_id)\<close>, and \<open>_clamp_pagination\<close>.\<close>

definition tenant_row ::
  "('r \<Rightarrow> string) \<Rightarrow> ('r \<Rightarrow> string) \<Rightarrow> 'r list \<Rightarrow> string \<Rightarrow> string \<Rightarrow> 'r http" where
  "tenant_row rid rtenant rows row_id tenant_id =
     (case scalar (\<lambda>r. rid r = row_id \<and> rtenant r = tenant_id) rows of
        None \<Rightarrow> Inl (HTTPException 404 ''resource not found'')
      | Some r \<Rightarrow> Inr r)"

definition clamp_pagination :: "int \<Rightarrow> int \<Rightarrow> int \<times> int" where
  "clamp_pagination limit offset = (max 1 (min limit 500), max 0 offset)"

lemma tenant_row_Inr:
  "tenant_row rid rt rows i t = Inr r \<Longrightarrow> r \<in> set rows \<and> rid r = i \<and> rt r = t"
  by (auto simp: tenant_row_def split: option.splits dest: scalar_SomeD)

end
