(* ===== verification/Persistence.thy ===== *)
theory Persistence
  imports Rows
begin

text \<open>
  \<open>helpdesktool/persistence.py\<close>: the SQL implementations of the audit sink and the action
  store.  \<open>sql_append\<close> is \<open>SqlAuditLog.append\<close> with the domain events and webhook deliveries
  it publishes in the same transaction; \<open>sql_add\<close>, \<open>sql_get\<close> and \<open>sql_update\<close> are
  \<open>SqlActionStore\<close>.  Both are shown to be instances of the interfaces the orchestrator is
  written against: \<open>audit_sink\<close> with one chain for each tenant, and \<open>action_store\<close>.
\<close>

section \<open>Publication\<close>

definition sanitize_dict :: "dict \<Rightarrow> dict" where
  "sanitize_dict d = (case sanitize_event_data (JObj d) of JObj e \<Rightarrow> e | _ \<Rightarrow> [])"

lemma sanitize_dict_obj: "JObj (sanitize_dict d) = sanitize_event_data (JObj d)"
  by (simp add: sanitize_dict_def)

definition add_delivery :: "server \<Rightarrow> time \<Rightarrow> DomainEvent \<Rightarrow> WebhookSubscription \<Rightarrow> db \<Rightarrow> db" where
  "add_delivery sv now e sub d =
     (snd (new_id sv d))\<lparr>webhook_deliveries := webhook_deliveries d @
       [\<lparr>wd_id = fst (new_id sv d), wd_tenant_id = de_tenant_id e, wd_event_id = de_id e,
         wd_subscription_id = ws_id sub, wd_status = ''pending'', wd_attempt_count = 0,
         wd_next_attempt_at = now, wd_last_attempt_at = None, wd_delivered_at = None,
         wd_response_status = None, wd_last_error = None\<rparr>]\<rparr>"

definition wants :: "DomainEvent \<Rightarrow> WebhookSubscription \<Rightarrow> bool" where
  "wants e sub \<longleftrightarrow> ws_tenant_id sub = de_tenant_id e \<and> ws_active sub
     \<and> EventType_value (de_event_type e) \<in> set (ws_event_types sub)"

definition publish :: "server \<Rightarrow> time \<Rightarrow> DomainEvent \<Rightarrow> db \<Rightarrow> db" where
  "publish sv now e d =
     (let d1 = d\<lparr>domain_events := domain_events d @
           [\<lparr>dr_id = de_id e, dr_tenant_id = de_tenant_id e,
             dr_event_type = EventType_value (de_event_type e), dr_subject_id = de_subject_id e,
             dr_schema_version = de_schema_version e, dr_data = de_data e,
             dr_occurred_at = de_occurred_at e\<rparr>]\<rparr>
      in fold (add_delivery sv now e) (filter (wants e) (webhook_subscriptions d1)) d1)"

text \<open>\<open>DomainEvent.create(...)\<close> and \<open>_publish\<close> for an audit message.\<close>

definition publish_msg :: "server \<Rightarrow> time \<Rightarrow> EventType \<Rightarrow> audit_msg \<Rightarrow> db \<Rightarrow> db" where
  "publish_msg sv now ty m d =
     publish sv now
       (DomainEvent_create (fst (new_id sv d)) now (am_tenant_id m) ty (am_correlation_id m)
          (dict_merge [(''actor_id'', JStr (am_actor_id m))] (sanitize_dict (am_details m))))
       (snd (new_id sv d))"

section \<open>The audit log\<close>

definition audit_row_event :: "server \<Rightarrow> AuditEventRow \<Rightarrow> AuditEvent" where
  "audit_row_event sv r =
     \<lparr>ae_sequence = au_sequence r, ae_occurred_at = isoformat (sv_host sv) (au_occurred_at r),
      ae_tenant_id = au_tenant_id r, ae_correlation_id = au_correlation_id r,
      ae_event_type = au_event_type r, ae_actor_id = au_actor_id r, ae_details = au_details r,
      ae_previous_hash = au_previous_hash r, ae_event_hash = au_event_hash r\<rparr>"

definition tenant_audit :: "string \<Rightarrow> db \<Rightarrow> AuditEventRow list" where
  "tenant_audit t d = filter (\<lambda>r. au_tenant_id r = t) (audit_events d)"

definition new_audit_row :: "server \<Rightarrow> time \<Rightarrow> audit_msg \<Rightarrow> db \<Rightarrow> AuditEventRow" where
  "new_audit_row sv now m d =
     (let last = first_max au_sequence (tenant_audit (am_tenant_id m) d);
          sequence = (case last of None \<Rightarrow> 1 | Some r \<Rightarrow> au_sequence r + 1);
          previous_hash = (case last of None \<Rightarrow> zero_hash | Some r \<Rightarrow> au_event_hash r);
          e = make_event (sv_host sv) sequence now previous_hash m
      in \<lparr>au_id = fst (new_id sv d), au_sequence = sequence, au_occurred_at = now,
          au_tenant_id = am_tenant_id m, au_correlation_id = am_correlation_id m,
          au_event_type = am_event_type m, au_actor_id = am_actor_id m,
          au_details = am_details m, au_previous_hash = previous_hash,
          au_event_hash = ae_event_hash e\<rparr>)"

definition sql_append :: "server \<Rightarrow> db append_op" where
  "sql_append sv now m d =
     (let d1 = (snd (new_id sv d))\<lparr>audit_events := audit_events d @ [new_audit_row sv now m d]\<rparr>;
          d2 = (case map_of AUDIT_EVENT_MAPPING (am_event_type m) of
                  None \<Rightarrow> d1 | Some ty \<Rightarrow> publish_msg sv now ty m d1)
      in if am_event_type m = ''policy.evaluated''
            \<and> dict_get (am_details m) ''approval_required'' = Some (JBool True)
         then publish_msg sv now APPROVAL_REQUIRED m d2 else d2)"

section \<open>The action store\<close>

definition sql_add :: "server \<Rightarrow> time \<Rightarrow> string option \<Rightarrow> ActionRecord \<Rightarrow> db \<Rightarrow> py_error + db" where
  "sql_add sv now ticket_id r d =
     (if rq_correlation_id (ac_request r) \<in> at_id ` set (actions d)
      then Inl (IntegrityError ''actions.id'')
      else Inr (d\<lparr>actions := actions d @
        [\<lparr>at_id = rq_correlation_id (ac_request r), at_tenant_id = rq_tenant_id (ac_request r),
          at_device_id = rq_device_id (ac_request r), at_ticket_id = ticket_id,
          at_skill_id = rq_skill_id (ac_request r), at_requested_by = rq_requested_by (ac_request r),
          at_parameters = rq_parameters (ac_request r), at_device_os = ac_device_os r,
          at_risk = RiskLevel_value (ac_risk r), at_status = ActionStatus_value (ac_status r),
          at_approved_by = None, at_claim_token_hash = None, at_claimed_at = None,
          at_lease_expires_at = None, at_attempt = 0, at_created_at = now,
          at_updated_at = now\<rparr>]\<rparr>))"

definition action_of_row :: "Action \<Rightarrow> ExecutionResult option \<Rightarrow> py_error + ActionRecord" where
  "action_of_row row result =
     (case ActionRequest_init
        \<lparr>rq_tenant_id = at_tenant_id row, rq_device_id = at_device_id row,
         rq_skill_id = at_skill_id row, rq_requested_by = at_requested_by row,
         rq_parameters = at_parameters row, rq_correlation_id = at_id row\<rparr> of
        Inl e \<Rightarrow> Inl e
      | Inr rq \<Rightarrow>
          (case parse_RiskLevel (at_risk row) of
             None \<Rightarrow> Inl (ValueError ''not a valid RiskLevel'')
           | Some risk \<Rightarrow>
               (case parse_ActionStatus (at_status row) of
                  None \<Rightarrow> Inl (ValueError ''not a valid ActionStatus'')
                | Some st \<Rightarrow>
                    Inr \<lparr>ac_request = rq, ac_device_os = at_device_os row, ac_risk = risk,
                         ac_status = st, ac_approved_by = at_approved_by row,
                         ac_result = result\<rparr>)))"

definition sql_get :: "string \<Rightarrow> string \<Rightarrow> db \<Rightarrow> py_error + ActionRecord option" where
  "sql_get tenant_id correlation_id d =
     (case scalar (\<lambda>r. at_id r = correlation_id \<and> at_tenant_id r = tenant_id) (actions d) of
        None \<Rightarrow> Inr None
      | Some row \<Rightarrow>
          let result = map_option
                (\<lambda>x. \<lparr>er_success = xr_success x, er_output = xr_output x, er_error = xr_error x\<rparr>)
                (first_max xr_created_at
                   (filter (\<lambda>x. xr_action_id x = at_id row) (execution_results d)))
          in case action_of_row row result of Inl e \<Rightarrow> Inl e | Inr r \<Rightarrow> Inr (Some r))"

definition sql_update :: "server \<Rightarrow> time \<Rightarrow> ActionRecord \<Rightarrow> db \<Rightarrow> py_error + db" where
  "sql_update sv now r d =
     (let c = rq_correlation_id (ac_request r) in
      case scalar (\<lambda>q. at_id q = c) (actions d) of
        None \<Rightarrow> Inl (KeyError ''action not found'')
      | Some row \<Rightarrow>
          if at_tenant_id row \<noteq> rq_tenant_id (ac_request r)
          then Inl (KeyError ''action not found'')
          else
            let d1 = d\<lparr>actions := update_where (\<lambda>q. at_id q = c)
                  (\<lambda>q. q\<lparr>at_status := ActionStatus_value (ac_status r),
                         at_approved_by := ac_approved_by r, at_updated_at := now\<rparr>) (actions d)\<rparr>
            in Inr (case ac_result r of None \<Rightarrow> d1
                 | Some e \<Rightarrow>
                     if scalar (\<lambda>x. xr_action_id x = c) (execution_results d1) = None
                     then (snd (new_id sv d1))\<lparr>execution_results := execution_results d1 @
                        [\<lparr>xr_id = fst (new_id sv d1), xr_tenant_id = at_tenant_id row,
                          xr_action_id = c, xr_success = er_success e, xr_output = er_output e,
                          xr_error = er_error e, xr_verified = False,
                          xr_rollback_attempted = False, xr_rollback_succeeded = None,
                          xr_created_at = now\<rparr>]\<rparr>
                     else d1))"

definition record_worker_heartbeat :: "time \<Rightarrow> string \<Rightarrow> int \<Rightarrow> db \<Rightarrow> db" where
  "record_worker_heartbeat now worker_name batch_size d =
     (if scalar (\<lambda>w. wh_worker_name w = worker_name) (worker_heartbeats d) = None
      then d\<lparr>worker_heartbeats := worker_heartbeats d @
             [\<lparr>wh_worker_name = worker_name, wh_last_heartbeat_at = now,
               wh_last_batch_size = batch_size\<rparr>]\<rparr>
      else d\<lparr>worker_heartbeats := update_where (\<lambda>w. wh_worker_name w = worker_name)
             (\<lambda>w. w\<lparr>wh_last_heartbeat_at := now, wh_last_batch_size := batch_size\<rparr>)
             (worker_heartbeats d)\<rparr>)"

section \<open>The audit log is an audit sink\<close>

lemma fold_delivery_frame [simp]:
  "audit_events (fold (add_delivery sv now e) subs d) = audit_events d"
  "actions (fold (add_delivery sv now e) subs d) = actions d"
  "idempotency_records (fold (add_delivery sv now e) subs d) = idempotency_records d"
  "execution_results (fold (add_delivery sv now e) subs d) = execution_results d"
  "domain_events (fold (add_delivery sv now e) subs d) = domain_events d"
  "skills (fold (add_delivery sv now e) subs d) = skills d"
  by (induction subs arbitrary: d) (auto simp: add_delivery_def)

lemma publish_frame [simp]:
  "audit_events (publish_msg sv now ty m d) = audit_events d"
  "actions (publish_msg sv now ty m d) = actions d"
  "idempotency_records (publish_msg sv now ty m d) = idempotency_records d"
  "execution_results (publish_msg sv now ty m d) = execution_results d"
  "skills (publish_msg sv now ty m d) = skills d"
  by (auto simp: publish_msg_def publish_def Let_def)

lemma sql_append_frame [simp]:
  "actions (sql_append sv now m d) = actions d"
  "idempotency_records (sql_append sv now m d) = idempotency_records d"
  "execution_results (sql_append sv now m d) = execution_results d"
  "skills (sql_append sv now m d) = skills d"
  "audit_events (sql_append sv now m d) = audit_events d @ [new_audit_row sv now m d]"
  by (auto simp: sql_append_def Let_def split: option.splits)

definition sql_trail :: "server \<Rightarrow> string \<Rightarrow> db \<Rightarrow> AuditEvent list" where
  "sql_trail sv t d = map (audit_row_event sv) (tenant_audit t d)"

text \<open>The rows of every tenant are numbered 1, 2, ... in insertion order.\<close>

definition sql_audit_ok :: "db \<Rightarrow> bool" where
  "sql_audit_ok d \<longleftrightarrow> (\<forall>t. map au_sequence (tenant_audit t d) = map int [1..<Suc (length (tenant_audit t d))])"

lemma first_max_last:
  fixes k :: "'r \<Rightarrow> int"
  shows "map k rs = map int [Suc n..<Suc n + length rs] \<Longrightarrow> rs \<noteq> [] \<Longrightarrow> first_max k rs = Some (last rs)"
proof (induction rs arbitrary: n)
  case (Cons r rs)
  have up: "[Suc n..<Suc n + length (r # rs)] = Suc n # [Suc (Suc n)..<Suc (Suc n) + length rs]"
    by (simp add: upt_rec)
  from Cons.prems(1) have "k r # map k rs = int (Suc n) # map int [Suc (Suc n)..<Suc (Suc n) + length rs]"
    by (simp only: up list.map)
  then have r: "k r = int (Suc n)" and rs: "map k rs = map int [Suc (Suc n)..<Suc (Suc n) + length rs]"
    by (simp_all del: upt_Suc)
  show ?case
  proof (cases "rs = []")
    case False
    with Cons.IH rs have m: "first_max k rs = Some (last rs)" by blast
    have "k (last rs) = last (map k rs)" using False by (simp add: last_map)
    also have "\<dots> = int (Suc n + length rs)"
      using False unfolding rs by (cases rs) (auto simp: last_map)
    finally show ?thesis using m r False by auto
  qed simp
qed simp

lemma sql_audit_last:
  assumes "sql_audit_ok d"
  shows "first_max au_sequence (tenant_audit t d) =
      (if tenant_audit t d = [] then None else Some (last (tenant_audit t d)))"
    and "tenant_audit t d \<noteq> [] \<Longrightarrow> au_sequence (last (tenant_audit t d)) = int (length (tenant_audit t d))"
proof -
  from assms have m: "map au_sequence (tenant_audit t d) = map int [1..<Suc (length (tenant_audit t d))]"
    by (simp add: sql_audit_ok_def)
  then show "first_max au_sequence (tenant_audit t d) =
      (if tenant_audit t d = [] then None else Some (last (tenant_audit t d)))"
    using first_max_last [of au_sequence "tenant_audit t d" 0] by simp
  assume ne: "tenant_audit t d \<noteq> []"
  have "au_sequence (last (tenant_audit t d)) = last (map au_sequence (tenant_audit t d))"
    using ne by (simp add: last_map)
  also have "\<dots> = int (length (tenant_audit t d))"
    using ne unfolding m by (cases "tenant_audit t d") (auto simp: last_map)
  finally show "au_sequence (last (tenant_audit t d)) = int (length (tenant_audit t d))" .
qed

lemma tenant_audit_append:
  "tenant_audit t (sql_append sv now m d) =
     tenant_audit t d @ (if am_tenant_id m = t then [new_audit_row sv now m d] else [])"
  by (simp add: tenant_audit_def new_audit_row_def Let_def)

lemma new_audit_row_event:
  assumes "sql_audit_ok d"
  shows "audit_row_event sv (new_audit_row sv now m d) =
    make_event (sv_host sv) (int (length (sql_trail sv (am_tenant_id m) d)) + 1) now
      (last_hash (sql_trail sv (am_tenant_id m) d)) m"
    and "au_sequence (new_audit_row sv now m d) = int (length (tenant_audit (am_tenant_id m) d)) + 1"
  using sql_audit_last [OF assms, of "am_tenant_id m"]
  by (auto simp: new_audit_row_def Let_def audit_row_event_def make_event_def sql_trail_def
      last_hash_def last_map)

lemma sql_append_ok: "sql_audit_ok d \<Longrightarrow> sql_audit_ok (sql_append sv now m d)"
  using new_audit_row_event(2) [of d sv now m]
  by (auto simp: sql_audit_ok_def tenant_audit_append)

interpretation sqllog: audit_sink "sql_append sv" "sql_trail sv" am_tenant_id sql_audit_ok "sv_host sv"
  for sv
  by unfold_locales
     (auto simp: sql_trail_def tenant_audit_append new_audit_row_event sql_append_ok [unfolded sql_trail_def])

section \<open>The protocol ActionStore\<close>

text \<open>
  What the orchestrator relies on: a record that was added or updated can be read back under
  its tenant and correlation id with the same request, status and approver.
\<close>

locale action_store =
  fixes ops :: "'st action_store_ops" and good :: "'st \<Rightarrow> bool"
  assumes get_key: "so_get ops t c s = Inr (Some r) \<Longrightarrow>
      rq_tenant_id (ac_request r) = t \<and> rq_correlation_id (ac_request r) = c"
    and add_get: "good s \<Longrightarrow> so_add ops r s = Inr s' \<Longrightarrow> ac_approved_by r = None \<Longrightarrow>
      ActionRequest_init (ac_request r) = Inr (ac_request r) \<Longrightarrow>
      \<exists>q. so_get ops (rq_tenant_id (ac_request r)) (rq_correlation_id (ac_request r)) s' = Inr (Some q)
        \<and> ac_request q = ac_request r \<and> ac_device_os q = ac_device_os r
        \<and> ac_status q = ac_status r \<and> ac_approved_by q = None"
    and update_get: "good s \<Longrightarrow> so_get ops t c s = Inr (Some r0) \<Longrightarrow> ac_request r = ac_request r0 \<Longrightarrow>
      \<exists>s' q. so_update ops r s = Inr s' \<and> so_get ops t c s' = Inr (Some q)
        \<and> ac_request q = ac_request r \<and> ac_device_os q = ac_device_os r0
        \<and> ac_status q = ac_status r \<and> ac_approved_by q = ac_approved_by r"
    and add_good: "good s \<Longrightarrow> so_add ops r s = Inr s' \<Longrightarrow> good s'"
    and update_good: "good s \<Longrightarrow> so_update ops r s = Inr s' \<Longrightarrow> good s'"
begin

lemma get_for_tenant_fresh:
  assumes "oe_store o' = Some ops" and "os_actions st c = None"
    and "so_get ops t c (os_store st) = Inr (Some r)"
  shows "get_for_tenant o' t c st = Inr r"
  using assms get_key by (auto simp: get_for_tenant_def)

lemma get_for_tenant_store:
  assumes "oe_store o' = Some ops" and "os_actions st c = None"
    and "get_for_tenant o' t c st = Inr r"
  shows "so_get ops t c (os_store st) = Inr (Some r)"
  using assms by (auto simp: get_for_tenant_def split: sum.splits option.splits if_splits)

lemma persist_reads_back:
  assumes "oe_store o' = Some ops" and "good (os_store st)"
    and "so_get ops t c (os_store st) = Inr (Some r0)" and "ac_request r = ac_request r0"
  shows "\<exists>st' q. persist o' r st = (Inr r, st') \<and> so_get ops t c (os_store st') = Inr (Some q)
    \<and> ac_request q = ac_request r \<and> ac_status q = ac_status r \<and> ac_approved_by q = ac_approved_by r
    \<and> os_actions st' = os_actions st \<and> good (os_store st')"
  using update_get [OF assms(2-4)] assms(1,2) update_good
  by (fastforce simp: persist_def)

lemma not_pending_refused:
  assumes "oe_store o' = Some ops" and "os_actions st c = None"
    and "so_get ops t c (os_store st) = Inr (Some r)" and "ac_status r \<noteq> PENDING_APPROVAL"
  shows "approve o' now t c a st = (Inl (ValueError ''action is not pending approval''), st)"
    and "deny o' now t c a reason st = (Inl (ValueError ''action is not pending approval''), st)"
  using get_for_tenant_fresh [OF assms(1-3)] assms(4) by (simp_all add: approve_def deny_def)

end

section \<open>The SQL store is an action store\<close>

definition sql_store_ops :: "server \<Rightarrow> time \<Rightarrow> string option \<Rightarrow> db action_store_ops" where
  "sql_store_ops sv now ticket_id =
     \<lparr>so_add = sql_add sv now ticket_id, so_get = sql_get, so_update = sql_update sv now\<rparr>"

text \<open>The primary key of \<open>actions\<close>.\<close>

definition actions_keyed :: "db \<Rightarrow> bool" where
  "actions_keyed d \<longleftrightarrow> distinct (map at_id (actions d))"

lemma ActionRequest_init_same: "ActionRequest_init r = Inr q \<Longrightarrow> q = r"
  by (auto simp: ActionRequest_init_def split: if_splits)

lemma action_of_row_Inr:
  assumes "action_of_row row res = Inr r"
  shows "ac_request r = \<lparr>rq_tenant_id = at_tenant_id row, rq_device_id = at_device_id row,
         rq_skill_id = at_skill_id row, rq_requested_by = at_requested_by row,
         rq_parameters = at_parameters row, rq_correlation_id = at_id row\<rparr>"
    and "ActionRequest_init (ac_request r) = Inr (ac_request r)"
    and "ac_device_os r = at_device_os row" and "ac_approved_by r = at_approved_by row"
    and "parse_ActionStatus (at_status row) = Some (ac_status r)"
    and "parse_RiskLevel (at_risk row) = Some (ac_risk r)"
proof -
  let ?q = "\<lparr>rq_tenant_id = at_tenant_id row, rq_device_id = at_device_id row,
         rq_skill_id = at_skill_id row, rq_requested_by = at_requested_by row,
         rq_parameters = at_parameters row, rq_correlation_id = at_id row\<rparr>"
  from assms obtain rq where rq: "ActionRequest_init ?q = Inr rq"
    by (auto simp: action_of_row_def split: sum.splits)
  then have same: "rq = ?q" by (rule ActionRequest_init_same)
  from assms rq show "ac_request r = ?q" "ac_device_os r = at_device_os row"
    "ac_approved_by r = at_approved_by row" "parse_ActionStatus (at_status row) = Some (ac_status r)"
    "parse_RiskLevel (at_risk row) = Some (ac_risk r)"
    by (auto simp: action_of_row_def same split: option.splits)
  with rq same show "ActionRequest_init (ac_request r) = Inr (ac_request r)" by simp
qed

lemma sql_getE:
  assumes "sql_get t c d = Inr (Some r)"
  obtains row res where "scalar (\<lambda>q. at_id q = c \<and> at_tenant_id q = t) (actions d) = Some row"
    and "action_of_row row res = Inr r" and "row \<in> set (actions d)" and "at_id row = c"
    and "at_tenant_id row = t"
  using assms by (auto simp: sql_get_def Let_def split: option.splits sum.splits dest: scalar_SomeD)

lemma action_of_row_update:
  assumes "action_of_row row res = Inr r0" and "ac_request r = ac_request r0"
  shows "\<exists>q. action_of_row (row\<lparr>at_status := ActionStatus_value (ac_status r),
                         at_approved_by := ac_approved_by r, at_updated_at := now\<rparr>) res' = Inr q
     \<and> ac_request q = ac_request r0 \<and> ac_device_os q = ac_device_os r0
     \<and> ac_status q = ac_status r \<and> ac_approved_by q = ac_approved_by r"
  using action_of_row_Inr [OF assms(1)] by (simp add: action_of_row_def)

lemma sql_update_keyed:
  assumes "actions_keyed d" and "sql_update sv now r d = Inr d'"
  shows "actions_keyed d'"
  using assms
  by (auto simp: sql_update_def actions_keyed_def Let_def map_update_where_id split: option.splits if_splits)

lemma sql_update_get:
  assumes keyed: "actions_keyed d" and get: "sql_get t c d = Inr (Some r0)"
    and rq: "ac_request r = ac_request r0"
  shows "\<exists>d' q. sql_update sv now r d = Inr d' \<and> sql_get t c d' = Inr (Some q)
    \<and> ac_request q = ac_request r \<and> ac_device_os q = ac_device_os r0
    \<and> ac_status q = ac_status r \<and> ac_approved_by q = ac_approved_by r"
proof -
  let ?f = "\<lambda>q. q\<lparr>at_status := ActionStatus_value (ac_status r),
                  at_approved_by := ac_approved_by r, at_updated_at := now\<rparr>"
  from get obtain row res where row: "scalar (\<lambda>q. at_id q = c \<and> at_tenant_id q = t) (actions d) = Some row"
    "action_of_row row res = Inr r0" "row \<in> set (actions d)" "at_id row = c" "at_tenant_id row = t"
    by (rule sql_getE)
  from action_of_row_Inr(1) [OF row(2)] row rq
  have k: "rq_correlation_id (ac_request r) = c" "rq_tenant_id (ac_request r) = t" by simp_all
  have byid: "scalar (\<lambda>q. at_id q = c) (actions d) = Some row"
    using keyed row by (intro scalar_unique) (auto simp: actions_keyed_def)
  obtain d' where d': "sql_update sv now r d = Inr d'"
    and acts: "actions d' = update_where (\<lambda>q. at_id q = c) ?f (actions d)"
    using byid k row(5) by (auto simp: sql_update_def Let_def split: option.split)
  have "scalar (\<lambda>q. at_id q = c \<and> at_tenant_id q = t) (update_where (\<lambda>q. at_id q = c) ?f rows)
      = map_option ?f (scalar (\<lambda>q. at_id q = c \<and> at_tenant_id q = t) rows)" for rows :: "Action list"
    by (induction rows) (auto simp: row_simps)
  then have sc: "scalar (\<lambda>q. at_id q = c \<and> at_tenant_id q = t) (actions d') = Some (?f row)"
    using acts row(1) by simp
  let ?res = "map_option
      (\<lambda>x. \<lparr>er_success = xr_success x, er_output = xr_output x, er_error = xr_error x\<rparr>)
      (first_max xr_created_at (filter (\<lambda>x. xr_action_id x = at_id (?f row)) (execution_results d')))"
  from action_of_row_update [OF row(2) rq, of now ?res] obtain q where
    q: "action_of_row (?f row) ?res = Inr q" "ac_request q = ac_request r0"
      "ac_device_os q = ac_device_os r0" "ac_status q = ac_status r"
      "ac_approved_by q = ac_approved_by r" by blast
  from sc q(1) have "sql_get t c d' = Inr (Some q)" unfolding sql_get_def Let_def by simp
  with d' q rq show ?thesis by auto
qed

lemma request_eta [simp]:
  fixes q :: ActionRequest
  shows "\<lparr>rq_tenant_id = rq_tenant_id q, rq_device_id = rq_device_id q, rq_skill_id = rq_skill_id q,
     rq_requested_by = rq_requested_by q, rq_parameters = rq_parameters q,
     rq_correlation_id = rq_correlation_id q\<rparr> = q"
  by (cases q) simp

lemma sql_add_get:
  assumes "sql_add sv now tk r d = Inr d'" and "ac_approved_by r = None"
    and "ActionRequest_init (ac_request r) = Inr (ac_request r)"
  shows "\<exists>q. sql_get (rq_tenant_id (ac_request r)) (rq_correlation_id (ac_request r)) d' = Inr (Some q)
        \<and> ac_request q = ac_request r \<and> ac_device_os q = ac_device_os r
        \<and> ac_status q = ac_status r \<and> ac_approved_by q = None"
proof -
  from assms(1) have new: "rq_correlation_id (ac_request r) \<notin> at_id ` set (actions d)"
    by (auto simp: sql_add_def split: if_splits)
  then have "scalar (\<lambda>q. at_id q = rq_correlation_id (ac_request r) \<and> P q) (actions d) = None" for P
    by (auto simp: scalar_None_iff image_iff)
  with assms new show ?thesis
    by (auto simp: sql_add_def sql_get_def row_simps action_of_row_def Let_def
        simp del: ActionRequest.simps) 
qed

interpretation sqlstore: action_store "sql_store_ops sv now tk" actions_keyed for sv now tk
proof
  fix t c d and r :: ActionRecord
  assume "so_get (sql_store_ops sv now tk) t c d = Inr (Some r)"
  then show "rq_tenant_id (ac_request r) = t \<and> rq_correlation_id (ac_request r) = c"
    by (auto simp: sql_store_ops_def elim!: sql_getE dest: action_of_row_Inr)
next
  fix d d' and r :: ActionRecord
  assume "actions_keyed d" and a: "so_add (sql_store_ops sv now tk) r d = Inr d'"
  then show "actions_keyed d'"
    by (auto simp: sql_store_ops_def sql_add_def actions_keyed_def split: if_splits)
  assume "ac_approved_by r = None" and "ActionRequest_init (ac_request r) = Inr (ac_request r)"
  with a show "\<exists>q. so_get (sql_store_ops sv now tk) (rq_tenant_id (ac_request r))
         (rq_correlation_id (ac_request r)) d' = Inr (Some q)
        \<and> ac_request q = ac_request r \<and> ac_device_os q = ac_device_os r
        \<and> ac_status q = ac_status r \<and> ac_approved_by q = None"
    using sql_add_get by (simp add: sql_store_ops_def)
next
  fix d d' and r :: ActionRecord
  assume "actions_keyed d" and "so_update (sql_store_ops sv now tk) r d = Inr d'"
  then show "actions_keyed d'" using sql_update_keyed by (simp add: sql_store_ops_def)
next
  fix d t c r0 and r :: ActionRecord
  assume "actions_keyed d" and "so_get (sql_store_ops sv now tk) t c d = Inr (Some r0)"
    and "ac_request r = ac_request r0"
  then show "\<exists>s' q. so_update (sql_store_ops sv now tk) r d = Inr s'
        \<and> so_get (sql_store_ops sv now tk) t c s' = Inr (Some q)
        \<and> ac_request q = ac_request r \<and> ac_device_os q = ac_device_os r0
        \<and> ac_status q = ac_status r \<and> ac_approved_by q = ac_approved_by r"
    using sql_update_get by (simp add: sql_store_ops_def)
qed

end
