(* ===== verification/Skills.thy ===== *)
theory Skills
  imports Persistence
begin

text \<open>
  \<open>helpdesktool/skills.py\<close> and the registry functions of \<open>helpdesktool/api.py\<close>: versioned skill
  manifests, the hash over their policy fields, the shape check of parameters, registration of
  a new version, and loading, which fails closed when a stored hash does not match.  The
  lemmas show that what registration stores is exactly what loading returns, that the hash
  covers every field policy reads, and that the shape check accepts exactly the declared shape.
\<close>

section \<open>Manifests\<close>

record ParameterSpec =
  ps_type :: string
  ps_required :: bool

definition ALLOWED_PARAMETER_TYPES :: "string set" where
  "ALLOWED_PARAMETER_TYPES = {''string'', ''number'', ''boolean''}"

definition ParameterSpec_init :: "string \<Rightarrow> bool \<Rightarrow> py_error + ParameterSpec" where
  "ParameterSpec_init ty req =
     (if ty \<notin> ALLOWED_PARAMETER_TYPES then Inl (ValueError ''unsupported parameter type'')
      else Inr \<lparr>ps_type = ty, ps_required = req\<rparr>)"

record SkillManifest =
  mf_skill_id :: string
  mf_version :: int
  mf_risk :: RiskLevel
  mf_supported_os :: "string set"
  mf_timeout_seconds :: int
  mf_rollback_skill_id :: "string option"
  mf_parameters :: "(string \<times> ParameterSpec) list"
  mf_command_type :: CommandType
  mf_requires_user_approval :: bool
  mf_requires_admin_approval :: bool
  mf_security_sensitive :: bool
  mf_reversible :: bool
  mf_required_privilege :: string
  mf_preconditions :: dict
  mf_expected_output :: string
  mf_success_condition :: string
  mf_failure_condition :: string
  mf_side_effects :: string
  mf_requires_reboot :: bool
  mf_allowed_execution_context :: string

definition to_skill_definition :: "SkillManifest \<Rightarrow> py_error + SkillDefinition" where
  "to_skill_definition m = SkillDefinition_init
     \<lparr>sk_skill_id = mf_skill_id m, sk_risk = mf_risk m, sk_supported_os = mf_supported_os m,
      sk_timeout_seconds = mf_timeout_seconds m, sk_rollback_skill_id = mf_rollback_skill_id m,
      sk_command_type = mf_command_type m,
      sk_requires_user_approval = mf_requires_user_approval m,
      sk_requires_admin_approval = mf_requires_admin_approval m,
      sk_security_sensitive = mf_security_sensitive m, sk_reversible = mf_reversible m\<rparr>"

definition spec_json :: "ParameterSpec \<Rightarrow> json" where
  "spec_json p = JObj [(''type'', JStr (ps_type p)), (''required'', JBool (ps_required p))]"

definition manifest_fields :: "SkillManifest \<Rightarrow> dict" where
  "manifest_fields m =
     [(''skill_id'', JStr (mf_skill_id m)),
      (''version'', JInt (mf_version m)),
      (''risk'', JStr (RiskLevel_value (mf_risk m))),
      (''supported_os'', JList (map JStr (sorted_list_of_set (mf_supported_os m)))),
      (''timeout_seconds'', JInt (mf_timeout_seconds m)),
      (''rollback_skill_id'', opt_str (mf_rollback_skill_id m)),
      (''parameters'', JObj (map (\<lambda>(k, p). (k, spec_json p)) (mf_parameters m))),
      (''command_type'', JStr (CommandType_value (mf_command_type m))),
      (''requires_user_approval'', JBool (mf_requires_user_approval m)),
      (''requires_admin_approval'', JBool (mf_requires_admin_approval m)),
      (''security_sensitive'', JBool (mf_security_sensitive m)),
      (''reversible'', JBool (mf_reversible m))]"

definition compute_manifest_hash :: "host \<Rightarrow> SkillManifest \<Rightarrow> string" where
  "compute_manifest_hash h m = sha256_hex h (dumps_tight (float_repr h) (JObj (manifest_fields m)))"

section \<open>The shape of parameters\<close>

definition has_type :: "string \<Rightarrow> json \<Rightarrow> bool" where
  "has_type ty v \<longleftrightarrow> (case v of JStr _ \<Rightarrow> ty = ''string'' | JInt _ \<Rightarrow> ty = ''number''
     | JFloat _ \<Rightarrow> ty = ''number'' | JBool _ \<Rightarrow> ty = ''boolean'' | _ \<Rightarrow> False)"

fun check_types :: "(string \<times> ParameterSpec) list \<Rightarrow> dict \<Rightarrow> string option" where
  "check_types specs [] = None"
| "check_types specs ((name, value) # rest) =
     (case map_of specs name of
        None \<Rightarrow> Some (''unexpected parameter(s): '' @ name)
      | Some spec \<Rightarrow>
          if ps_type spec = ''number'' \<and> (\<exists>b. value = JBool b)
          then Some (name @ '' must be a number'')
          else if \<not> has_type (ps_type spec) value
          then Some (name @ '' must be a '' @ ps_type spec)
          else check_types specs rest)"

definition validate_parameters :: "(string \<times> ParameterSpec) list \<Rightarrow> dict \<Rightarrow> string option" where
  "validate_parameters specs parameters =
     (let provided = fst ` set parameters;
          unexpected = provided - fst ` set specs;
          missing = fst ` {kp \<in> set specs. ps_required (snd kp) \<and> fst kp \<notin> provided}
      in if unexpected \<noteq> {}
         then Some (''unexpected parameter(s): '' @ join '', '' (sorted_list_of_set unexpected))
         else if missing \<noteq> {}
         then Some (''missing required parameter(s): '' @ join '', '' (sorted_list_of_set missing))
         else check_types specs parameters)"

section \<open>The registry\<close>

definition repr_str :: "string \<Rightarrow> string" where
  "repr_str s = CHR 0x27 # s @ [CHR 0x27]"

definition parse_spec :: "json \<Rightarrow> ParameterSpec option" where
  "parse_spec j = (case j of
     JObj d \<Rightarrow> (case (dict_get d ''type'', dict_get d ''required'') of
                  (Some (JStr ty), Some (JBool b)) \<Rightarrow>
                    (case ParameterSpec_init ty b of Inl _ \<Rightarrow> None | Inr p \<Rightarrow> Some p)
                | _ \<Rightarrow> None)
   | _ \<Rightarrow> None)"

fun parse_specs :: "dict \<Rightarrow> (string \<times> ParameterSpec) list option" where
  "parse_specs [] = Some []"
| "parse_specs ((k, j) # d) =
     (case parse_spec j of None \<Rightarrow> None
      | Some p \<Rightarrow> map_option (\<lambda>ps. (k, p) # ps) (parse_specs d))"

text \<open>\<open>None\<close>: a value of the row is not of the vocabulary, and the constructor raises.\<close>

definition manifest_from_row :: "SkillManifestRow \<Rightarrow> SkillManifest option" where
  "manifest_from_row r =
     (case (parse_RiskLevel (sm_risk r), parse_CommandType (sm_command_type r), parse_specs (sm_parameters r)) of
        (Some risk, Some cmd, Some specs) \<Rightarrow> Some
          \<lparr>mf_skill_id = sm_skill_id r, mf_version = sm_version r, mf_risk = risk,
           mf_supported_os = set (sm_supported_os r), mf_timeout_seconds = sm_timeout_seconds r,
           mf_rollback_skill_id = sm_rollback_skill_id r, mf_parameters = specs,
           mf_command_type = cmd,
           mf_requires_user_approval = sm_requires_user_approval r,
           mf_requires_admin_approval = sm_requires_admin_approval r,
           mf_security_sensitive = sm_security_sensitive r, mf_reversible = sm_reversible r,
           mf_required_privilege = sm_required_privilege r, mf_preconditions = sm_preconditions r,
           mf_expected_output = sm_expected_output r, mf_success_condition = sm_success_condition r,
           mf_failure_condition = sm_failure_condition r, mf_side_effects = sm_side_effects r,
           mf_requires_reboot = sm_requires_reboot r,
           mf_allowed_execution_context = sm_allowed_execution_context r\<rparr>
      | _ \<Rightarrow> None)"

definition verified_manifest :: "host \<Rightarrow> SkillManifestRow \<Rightarrow> SkillManifest http" where
  "verified_manifest h r =
     (case manifest_from_row r of
        None \<Rightarrow> Inl unhandled
      | Some m \<Rightarrow>
          if compute_manifest_hash h m \<noteq> sm_content_hash r
          then Inl (HTTPException 500 (''skill registry integrity check failed for '' @ repr_str (sm_skill_id r)))
          else Inr m)"

fun verified_manifests :: "host \<Rightarrow> SkillManifestRow list \<Rightarrow> SkillManifest list http" where
  "verified_manifests h [] = Inr []"
| "verified_manifests h (r # rs) =
     (case verified_manifest h r of Inl e \<Rightarrow> Inl e
      | Inr m \<Rightarrow> (case verified_manifests h rs of Inl e \<Rightarrow> Inl e | Inr ms \<Rightarrow> Inr (m # ms)))"

definition load_active_skill_manifests :: "server \<Rightarrow> db \<Rightarrow> SkillManifest list http" where
  "load_active_skill_manifests sv d = verified_manifests (sv_host sv) (filter sm_active (skills d))"

definition get_active_manifest :: "server \<Rightarrow> string \<Rightarrow> db \<Rightarrow> SkillManifest option http" where
  "get_active_manifest sv skill_id d =
     (case scalar (\<lambda>r. sm_skill_id r = skill_id \<and> sm_active r) (skills d) of
        None \<Rightarrow> Inr None
      | Some r \<Rightarrow> (case verified_manifest (sv_host sv) r of Inl e \<Rightarrow> Inl e | Inr m \<Rightarrow> Inr (Some m)))"

section \<open>Registration\<close>

record Principal =
  pr_tenant_id :: string
  pr_actor_id :: string
  pr_role :: string

text \<open>The validated request body (\<open>schemas.SkillManifestCreate\<close>): a manifest without a version.\<close>

definition manifest_row ::
  "server \<Rightarrow> time \<Rightarrow> Principal \<Rightarrow> SkillManifest \<Rightarrow> string list \<Rightarrow> db \<Rightarrow> SkillManifestRow" where
  "manifest_row sv now p m os d =
     \<lparr>sm_id = fst (new_id sv d), sm_skill_id = mf_skill_id m, sm_version = mf_version m,
      sm_risk = RiskLevel_value (mf_risk m), sm_supported_os = sort os,
      sm_timeout_seconds = mf_timeout_seconds m, sm_rollback_skill_id = mf_rollback_skill_id m,
      sm_parameters = map (\<lambda>(k, ps). (k, spec_json ps)) (mf_parameters m),
      sm_command_type = CommandType_value (mf_command_type m),
      sm_requires_user_approval = mf_requires_user_approval m,
      sm_requires_admin_approval = mf_requires_admin_approval m,
      sm_security_sensitive = mf_security_sensitive m, sm_reversible = mf_reversible m,
      sm_required_privilege = mf_required_privilege m, sm_preconditions = mf_preconditions m,
      sm_expected_output = mf_expected_output m, sm_success_condition = mf_success_condition m,
      sm_failure_condition = mf_failure_condition m, sm_side_effects = mf_side_effects m,
      sm_requires_reboot = mf_requires_reboot m,
      sm_allowed_execution_context = mf_allowed_execution_context m,
      sm_content_hash = compute_manifest_hash (sv_host sv) m, sm_active = True,
      sm_created_by = pr_actor_id p, sm_created_at = now\<rparr>"

definition msg :: "string \<Rightarrow> string \<Rightarrow> string \<Rightarrow> string \<Rightarrow> dict \<Rightarrow> audit_msg" where
  "msg tenant_id correlation_id event_type actor_id details =
     \<lparr>am_tenant_id = tenant_id, am_correlation_id = correlation_id, am_event_type = event_type,
      am_actor_id = actor_id, am_details = details\<rparr>"

text \<open>The version a new manifest gets, and the registry with the previous version retired.\<close>

definition previous_version :: "string \<Rightarrow> db \<Rightarrow> SkillManifestRow option" where
  "previous_version skill_id d = first_max sm_version (filter (\<lambda>r. sm_skill_id r = skill_id) (skills d))"

definition next_version :: "string \<Rightarrow> db \<Rightarrow> int" where
  "next_version skill_id d = (case previous_version skill_id d of None \<Rightarrow> 1 | Some r \<Rightarrow> sm_version r + 1)"

definition create_skill_manifest ::
  "server \<Rightarrow> time \<Rightarrow> Principal \<Rightarrow> SkillManifest \<Rightarrow> string list \<Rightarrow> db \<Rightarrow> (SkillManifestRow \<times> db) http" where
  "create_skill_manifest sv now p body os d =
     (if \<exists>kp \<in> set (mf_parameters body). ps_type (snd kp) \<notin> ALLOWED_PARAMETER_TYPES then Inl unhandled
      else
        let m = body\<lparr>mf_version := next_version (mf_skill_id body) d, mf_supported_os := set os\<rparr>;
            retired = (case previous_version (mf_skill_id body) d of
                 Some q \<Rightarrow> if sm_active q
                   then update_where (\<lambda>r. sm_id r = sm_id q) (\<lambda>r. r\<lparr>sm_active := False\<rparr>) (skills d) else skills d
               | None \<Rightarrow> skills d);
            row = manifest_row sv now p m os d;
            d1 = (snd (new_id sv d))\<lparr>skills := retired @ [row]\<rparr>
        in Inr (row, sql_append sv now
             (msg (pr_tenant_id p) (sm_id row) ''skill.registered'' (pr_actor_id p)
                [(''skill_id'', JStr (sm_skill_id row)), (''version'', JInt (sm_version row)),
                 (''risk'', JStr (sm_risk row))]) d1))"

section \<open>Laws of the shape check\<close>

lemma check_types_None:
  "fst ` set ps \<subseteq> fst ` set specs \<Longrightarrow> check_types specs ps = None \<longleftrightarrow>
     (\<forall>(k, v) \<in> set ps. \<exists>sp. map_of specs k = Some sp \<and> has_type (ps_type sp) v)"
proof (induction ps)
  case (Cons kv ps)
  obtain k v where kv: "kv = (k, v)" by (cases kv)
  with Cons.prems have "map_of specs k \<noteq> None" by (auto simp: map_of_eq_None_iff)
  then obtain sp where sp: "map_of specs k = Some sp" by auto
  have "has_type (ps_type sp) v \<Longrightarrow> \<not> (ps_type sp = ''number'' \<and> (\<exists>b. v = JBool b))"
    by (auto simp: has_type_def)
  then show ?case using Cons sp by (auto simp: kv)
qed simp

text \<open>
  The shape check accepts a request's parameters exactly when every name is declared by
  the manifest, every required name is there, and every value has its declared type, where a
  boolean is no number.
\<close>

theorem validate_parameters_exact:
  "validate_parameters specs ps = None \<longleftrightarrow>
     (\<forall>k \<in> fst ` set ps. k \<in> fst ` set specs)
     \<and> (\<forall>(k, sp) \<in> set specs. ps_required sp \<longrightarrow> k \<in> fst ` set ps)
     \<and> (\<forall>(k, v) \<in> set ps. \<exists>sp. map_of specs k = Some sp \<and> has_type (ps_type sp) v)"
proof (cases "fst ` set ps \<subseteq> fst ` set specs")
  case False
  then show ?thesis by (auto simp: validate_parameters_def Let_def)
next
  case True
  then have "fst ` set ps - fst ` set specs = {}" by auto
  then show ?thesis
    using check_types_None [OF True] True
    by (auto simp: validate_parameters_def Let_def split: if_splits)
qed

theorem validate_parameters_exact_witness:
  "validate_parameters [(''service'', \<lparr>ps_type = ''string'', ps_required = True\<rparr>)]
     [(''service'', JStr ''nginx'')] = None"
  unfolding validate_parameters_exact by (simp add: has_type_def)

section \<open>Laws of the hash\<close>

lemma map_JStr_canon [simp]: "map canon (map JStr xs) = map JStr xs"
  by (simp add: comp_def)

lemma canon_JStr_list: "canon (JList (map JStr xs)) = JList (map JStr xs)"
  by (simp add: comp_def)

lemma inj_JStr_map [simp]: "map JStr xs = map JStr ys \<longleftrightarrow> xs = ys"
  by (rule inj_map_eq_map) (simp add: inj_def)

lemma canon_opt_str [simp]: "canon (opt_str x) = opt_str x"
  by (cases x) (auto simp: opt_str_def)

lemma opt_str_inj [simp]: "opt_str x = opt_str y \<longleftrightarrow> x = y"
  by (cases x; cases y) (auto simp: opt_str_def)

lemma spec_json_canon_inj: "canon (spec_json p) = canon (spec_json q) \<Longrightarrow> p = q"
proof -
  assume eq: "canon (spec_json p) = canon (spec_json q)"
  have "map_option canon (map_of [(''type'', JStr (ps_type p)), (''required'', JBool (ps_required p))] k)
      = map_option canon (map_of [(''type'', JStr (ps_type q)), (''required'', JBool (ps_required q))] k)" for k
    using eq unfolding spec_json_def by (rule canon_obj_lookup) simp_all
  from this [of "''type''"] this [of "''required''"] show "p = q"
    by (cases p; cases q) simp
qed

lemma manifest_fields_keys: "distinct (map fst (manifest_fields m))"
  by (simp add: manifest_fields_def)

lemma manifest_hash_fields:
  assumes "digest_ok h" and "compute_manifest_hash h m = compute_manifest_hash h m'"
  shows "map_option canon (map_of (manifest_fields m) k) = map_option canon (map_of (manifest_fields m') k)"
proof -
  from assms have "dumps_tight (float_repr h) (JObj (manifest_fields m))
      = dumps_tight (float_repr h) (JObj (manifest_fields m'))"
    by (auto simp: compute_manifest_hash_def digest_ok_def inj_eq)
  with assms(1) have "canon (JObj (manifest_fields m)) = canon (JObj (manifest_fields m'))"
    by (intro dumps_tight_inj) (auto simp: digest_ok_def)
  then show ?thesis by (intro canon_obj_lookup manifest_fields_keys)
qed

lemma parameters_determined:
  assumes "canon (JObj (map (\<lambda>(k, p). (k, spec_json p)) a)) = canon (JObj (map (\<lambda>(k, p). (k, spec_json p)) b))"
    and "distinct (map fst a)" and "distinct (map fst b)"
  shows "map_of a = map_of b"
proof
  fix k :: string
  have mo: "map_of (map (\<lambda>(k, p). (k, spec_json p)) c) k = map_option spec_json (map_of c k)"
    for c :: "(string \<times> ParameterSpec) list"
    by (induction c) auto
  have d: "map fst (map (\<lambda>(k, p). (k, spec_json p)) c) = map fst c"
    for c :: "(string \<times> ParameterSpec) list"
    by (induction c) auto
  have "map_option canon (map_option spec_json (map_of a k))
      = map_option canon (map_option spec_json (map_of b k))"
    using canon_obj_lookup [OF assms(1), of k] assms(2,3) by (simp only: mo d)
  then show "map_of a k = map_of b k"
    by (cases "map_of a k"; cases "map_of b k") (auto dest: spec_json_canon_inj)
qed

definition manifest_wf :: "SkillManifest \<Rightarrow> bool" where
  "manifest_wf m \<longleftrightarrow> finite (mf_supported_os m) \<and> distinct (map fst (mf_parameters m))"

text \<open>The hash of a manifest covers what policy reads.  Under a collision-free digest two
  manifests with the same hash give the same skill definition (id, risk, systems, timeout,
  rollback skill and every safety flag) and have the same version and the same parameters.
\<close>

theorem manifest_hash_covers_policy:
  assumes "digest_ok h" and "manifest_wf m" and "manifest_wf m'"
    and "compute_manifest_hash h m = compute_manifest_hash h m'"
  shows "to_skill_definition m = to_skill_definition m' \<and> mf_version m = mf_version m'
    \<and> map_of (mf_parameters m) = map_of (mf_parameters m')"
proof -
  note lk = manifest_hash_fields [OF assms(1,4)]
  have "mf_skill_id m = mf_skill_id m'" using lk [of "''skill_id''"] by (simp add: manifest_fields_def)
  moreover have "mf_version m = mf_version m'" using lk [of "''version''"] by (simp add: manifest_fields_def)
  moreover have "mf_risk m = mf_risk m'" using lk [of "''risk''"] by (simp add: manifest_fields_def)
  moreover have "mf_supported_os m = mf_supported_os m'"
  proof -
    have "sorted_list_of_set (mf_supported_os m) = sorted_list_of_set (mf_supported_os m')"
      using lk [of "''supported_os''"] by (simp add: manifest_fields_def canon_JStr_list del: canon.simps(6))
    then show ?thesis using assms(2,3) unfolding manifest_wf_def
      by (metis sorted_list_of_set.set_sorted_key_list_of_set)
  qed
  moreover have "mf_timeout_seconds m = mf_timeout_seconds m'"
    using lk [of "''timeout_seconds''"] by (simp add: manifest_fields_def)
  moreover have "mf_rollback_skill_id m = mf_rollback_skill_id m'"
    using lk [of "''rollback_skill_id''"] by (simp add: manifest_fields_def)
  moreover have "map_of (mf_parameters m) = map_of (mf_parameters m')"
    using lk [of "''parameters''"] assms(2,3)
    by (intro parameters_determined) (simp_all add: manifest_fields_def manifest_wf_def del: canon.simps)
  moreover have "mf_command_type m = mf_command_type m'"
    using lk [of "''command_type''"] by (simp add: manifest_fields_def)
  moreover have "mf_requires_user_approval m = mf_requires_user_approval m'"
    "mf_requires_admin_approval m = mf_requires_admin_approval m'"
    "mf_security_sensitive m = mf_security_sensitive m'" "mf_reversible m = mf_reversible m'"
    using lk [of "''requires_user_approval''"] lk [of "''requires_admin_approval''"]
      lk [of "''security_sensitive''"] lk [of "''reversible''"]
    by (simp_all add: manifest_fields_def)
  ultimately show ?thesis by (simp add: to_skill_definition_def)
qed

definition demo_manifest :: SkillManifest where
  "demo_manifest = \<lparr>mf_skill_id = ''service.restart'', mf_version = 1, mf_risk = RISK_MEDIUM,
     mf_supported_os = {''linux''}, mf_timeout_seconds = 30, mf_rollback_skill_id = None,
     mf_parameters = [(''service'', \<lparr>ps_type = ''string'', ps_required = True\<rparr>)],
     mf_command_type = LOW_RISK_CHANGE, mf_requires_user_approval = False,
     mf_requires_admin_approval = False, mf_security_sensitive = False, mf_reversible = True,
     mf_required_privilege = [], mf_preconditions = [], mf_expected_output = [],
     mf_success_condition = [], mf_failure_condition = [], mf_side_effects = [],
     mf_requires_reboot = False, mf_allowed_execution_context = []\<rparr>"

theorem manifest_hash_covers_policy_witness:
  "to_skill_definition demo_manifest
     = to_skill_definition (demo_manifest\<lparr>mf_expected_output := ''active''\<rparr>)"
proof -
  have "manifest_wf demo_manifest" "manifest_wf (demo_manifest\<lparr>mf_expected_output := ''active''\<rparr>)"
    "compute_manifest_hash demo_host demo_manifest
       = compute_manifest_hash demo_host (demo_manifest\<lparr>mf_expected_output := ''active''\<rparr>)"
    by (simp_all add: manifest_wf_def demo_manifest_def compute_manifest_hash_def manifest_fields_def)
  with manifest_hash_covers_policy [OF demo_host_ok] show ?thesis by blast
qed

section \<open>The registry's invariant\<close>

text \<open>
  Every active row verifies and is the latest version of its skill, by a version number no
  other row of the skill reaches; rows have distinct ids, all issued before \<open>next_id\<close>.
\<close>

definition registry_ok :: "server \<Rightarrow> db \<Rightarrow> bool" where
  "registry_ok sv d \<longleftrightarrow>
     (\<forall>r \<in> set (skills d). sm_active r \<longrightarrow> is_ok (verified_manifest (sv_host sv) r)
        \<and> (\<forall>q \<in> set (skills d). sm_skill_id q = sm_skill_id r \<longrightarrow> q = r \<or> sm_version q < sm_version r))
     \<and> (\<forall>r \<in> set (skills d). \<exists>n < next_id d. sm_id r = sv_uuid sv n)
     \<and> distinct (map sm_id (skills d))"

definition body_ok :: "SkillManifest \<Rightarrow> bool" where
  "body_ok m \<longleftrightarrow> (\<forall>kp \<in> set (mf_parameters m). ps_type (snd kp) \<in> ALLOWED_PARAMETER_TYPES)"

lemma parse_spec_json [simp]:
  "ps_type p \<in> ALLOWED_PARAMETER_TYPES \<Longrightarrow> parse_spec (spec_json p) = Some p"
  by (simp add: parse_spec_def spec_json_def dict_get_def ParameterSpec_init_def)

lemma parse_specs_json:
  "\<forall>kp \<in> set ps. ps_type (snd kp) \<in> ALLOWED_PARAMETER_TYPES
   \<Longrightarrow> parse_specs (map (\<lambda>(k, p). (k, spec_json p)) ps) = Some ps"
  by (induction ps) auto

lemma manifest_row_verifies:
  assumes "body_ok m" and "mf_supported_os m = set os"
  shows "verified_manifest (sv_host sv) (manifest_row sv now p m os d) = Inr m"
proof -
  have "manifest_from_row (manifest_row sv now p m os d) = Some m"
    using assms parse_specs_json [of "mf_parameters m"]
    by (cases m) (simp add: manifest_from_row_def manifest_row_def body_ok_def)
  then show ?thesis by (simp add: verified_manifest_def manifest_row_def)
qed

lemma publish_msg_next_id: "next_id d \<le> next_id (publish_msg sv now ty m d)"
proof -
  have f: "next_id d \<le> next_id (fold (add_delivery sv now e) subs d)" for e subs and d :: db
  proof -
    have "next_id (fold (add_delivery sv now e) subs d) = next_id d + length subs"
      by (induction subs arbitrary: d) (auto simp: add_delivery_def)
    then show ?thesis by simp
  qed
  have "Suc (next_id d) \<le> next_id (publish_msg sv now ty m d)"
    unfolding publish_msg_def publish_def Let_def
    by (rule order_trans [OF _ f]) simp
  then show ?thesis by simp
qed

lemma sql_append_next_id: "next_id d < next_id (sql_append sv now m d)"
proof -
  define d1 where "d1 = (snd (new_id sv d))\<lparr>audit_events := audit_events d @ [new_audit_row sv now m d]\<rparr>"
  have "next_id d < next_id d1" by (simp add: d1_def)
  moreover have "next_id x \<le> next_id (publish_msg sv now ty m x)" for x ty by (rule publish_msg_next_id)
  ultimately show ?thesis
    unfolding sql_append_def Let_def d1_def [symmetric]
    by (auto split: option.split intro: less_le_trans order_trans)
qed

text \<open>The rows after the previous version is retired.\<close>

definition retire_previous :: "string \<Rightarrow> db \<Rightarrow> SkillManifestRow list" where
  "retire_previous skill_id d = (case previous_version skill_id d of
       Some q \<Rightarrow> if sm_active q
         then update_where (\<lambda>r. sm_id r = sm_id q) (\<lambda>r. r\<lparr>sm_active := False\<rparr>) (skills d) else skills d
     | None \<Rightarrow> skills d)"

lemma active_is_previous:
  assumes "registry_ok sv d" and "r \<in> set (skills d)" and "sm_active r"
  shows "previous_version (sm_skill_id r) d = Some r"
proof -
  let ?rs = "filter (\<lambda>q. sm_skill_id q = sm_skill_id r) (skills d)"
  have ne: "?rs \<noteq> []" using assms(2) by (auto simp: filter_empty_conv)
  then obtain q where q: "first_max sm_version ?rs = Some q" by (cases "first_max sm_version ?rs") auto
  from first_max_in [OF this] have qin: "q \<in> set (skills d)" "sm_skill_id q = sm_skill_id r" by auto
  from first_max_ge [OF q, of r] assms(2) have "sm_version r \<le> sm_version q" by simp
  moreover have "q = r \<or> sm_version q < sm_version r"
    using assms qin unfolding registry_ok_def by blast
  ultimately have "q = r" by auto
  with q show ?thesis by (simp add: previous_version_def)
qed

lemma scalar_update_hidden:
  "(\<And>r. r \<in> set rows \<Longrightarrow> P r \<Longrightarrow> \<not> Q r \<and> \<not> Q (f r)) \<Longrightarrow>
     scalar Q (update_where P f rows) = scalar Q rows"
  by (induction rows) (auto simp: row_simps)

lemma update_where_key:
  "r \<in> set (update_where P f rows) \<Longrightarrow> (\<And>q. key (f q) = key q) \<Longrightarrow> \<exists>q \<in> set rows. key r = key q"
  by (auto simp: set_update_where)

lemma retire_previous_props:
  assumes ok: "registry_ok sv d"
  shows "r \<in> set (retire_previous k d) \<Longrightarrow> sm_active r \<Longrightarrow> r \<in> set (skills d) \<and> sm_skill_id r \<noteq> k"
    and "r \<in> set (retire_previous k d) \<Longrightarrow>
      \<exists>q \<in> set (skills d). sm_id r = sm_id q \<and> sm_skill_id r = sm_skill_id q \<and> sm_version r = sm_version q"
    and "map sm_id (retire_previous k d) = map sm_id (skills d)"
proof -
  have dist: "distinct (map sm_id (skills d))" using ok by (simp add: registry_ok_def)
  have inj: "x = y" if "x \<in> set (skills d)" "y \<in> set (skills d)" "sm_id x = sm_id y" for x y
    using dist that by (auto simp: distinct_map inj_on_def)
  have pin: "q \<in> set (skills d)" if "previous_version k d = Some q" for q
    using first_max_in that by (fastforce simp: previous_version_def)
  { assume r: "r \<in> set (retire_previous k d)" "sm_active r"
    then have rin: "r \<in> set (skills d)"
      by (auto simp: retire_previous_def set_update_where split: option.splits if_splits)
    moreover have "sm_skill_id r \<noteq> k"
    proof
      assume "sm_skill_id r = k"
      with active_is_previous [OF ok rin r(2)] r show False
        by (auto simp: retire_previous_def set_update_where split: if_splits
            dest!: arg_cong [where f = sm_active])
    qed
    ultimately show "r \<in> set (skills d) \<and> sm_skill_id r \<noteq> k" by simp }
  show "r \<in> set (retire_previous k d) \<Longrightarrow>
      \<exists>q \<in> set (skills d). sm_id r = sm_id q \<and> sm_skill_id r = sm_skill_id q \<and> sm_version r = sm_version q"
  proof -
    let ?key = "\<lambda>r. (sm_id r, sm_skill_id r, sm_version r)"
    assume "r \<in> set (retire_previous k d)"
    then have "?key r \<in> ?key ` set (skills d)"
      by (cases "previous_version k d")
         (auto simp: retire_previous_def image_iff split: if_splits dest: update_where_key [where key = ?key])
    then show ?thesis by auto
  qed
  show "map sm_id (retire_previous k d) = map sm_id (skills d)"
    by (auto simp: retire_previous_def map_update_where_id split: option.split)
qed

lemma next_version_above:
  assumes "q \<in> set (skills d)" and "sm_skill_id q = k"
  shows "sm_version q < next_version k d"
proof -
  let ?rs = "filter (\<lambda>r. sm_skill_id r = k) (skills d)"
  have "q \<in> set ?rs" using assms by simp
  then obtain m where m: "first_max sm_version ?rs = Some m"
    by (cases "first_max sm_version ?rs") (auto simp: filter_empty_conv)
  from first_max_ge [OF this] \<open>q \<in> set ?rs\<close> have "sm_version q \<le> sm_version m" by blast
  with m show ?thesis by (simp add: next_version_def previous_version_def)
qed

lemma manifest_row_simps [simp]:
  "sm_id (manifest_row sv now p m os d) = sv_uuid sv (next_id d)"
  "sm_skill_id (manifest_row sv now p m os d) = mf_skill_id m"
  "sm_version (manifest_row sv now p m os d) = mf_version m"
  "sm_active (manifest_row sv now p m os d)"
  by (simp_all add: manifest_row_def)

lemma previous_in: "previous_version k d = Some p \<Longrightarrow> p \<in> set (skills d) \<and> sm_skill_id p = k"
  using first_max_in by (fastforce simp: previous_version_def)

lemma retire_previous_kept:
  assumes ok: "registry_ok sv d" and "q \<in> set (retire_previous k d)" and "sm_skill_id q \<noteq> k"
  shows "q \<in> set (skills d)"
proof (cases "previous_version k d")
  case (Some p)
  have p: "p \<in> set (skills d)" "sm_skill_id p = k" using previous_in [OF Some] by simp_all
  show ?thesis
  proof (cases "sm_active p")
    case True
    with assms(2) Some have "q \<in> set (update_where (\<lambda>r. sm_id r = sm_id p)
        (\<lambda>r. r\<lparr>sm_active := False\<rparr>) (skills d))" by (simp add: retire_previous_def)
    then obtain r where r: "r \<in> set (skills d)"
      "q = (if sm_id r = sm_id p then r\<lparr>sm_active := False\<rparr> else r)"
      unfolding set_update_where by blast
    show ?thesis
    proof (cases "sm_id r = sm_id p")
      case True
      with ok p(1) r(1) have "r = p" by (simp add: registry_ok_def distinct_map inj_on_def)
      with r(2) p(2) assms(3) show ?thesis by auto
    next
      case False
      with r show ?thesis by simp
    qed
  next
    case False
    with assms(2) Some show ?thesis by (simp add: retire_previous_def)
  qed
next
  case None
  with assms(2) show ?thesis by (simp add: retire_previous_def)
qed

text \<open>
  Registering a skill.  On a registry whose active rows all verify and are the latest
  versions, registration succeeds, the manifest just stored is the one that loading returns
  from then on, with a version above every earlier one of the skill, every other skill's
  active manifest is unchanged, and the registry keeps the invariant, so no sequence of
  registrations can make loading fail or leave two versions of a skill active.
\<close>

theorem create_skill_manifest_ok:
  fixes os :: "string list"
  assumes ok: "registry_ok sv d" and body: "body_ok body" and uuid: "inj (sv_uuid sv)"
  defines "m \<equiv> body\<lparr>mf_version := next_version (mf_skill_id body) d, mf_supported_os := set os\<rparr>"
  shows "\<exists>row d'. create_skill_manifest sv now p body os d = Inr (row, d')
    \<and> registry_ok sv d'
    \<and> get_active_manifest sv (mf_skill_id body) d' = Inr (Some m)
    \<and> (\<forall>q \<in> set (skills d). sm_skill_id q = mf_skill_id body \<longrightarrow> sm_version q < mf_version m)
    \<and> (\<forall>k. k \<noteq> mf_skill_id body \<longrightarrow> get_active_manifest sv k d' = get_active_manifest sv k d)"
proof -
  let ?k = "mf_skill_id body"
  let ?row = "manifest_row sv now p m os d"
  let ?old = "retire_previous ?k d"
  have k: "mf_skill_id m = ?k" "mf_version m = next_version ?k d" by (simp_all add: m_def)
  have bm: "body_ok m" using body by (simp add: m_def body_ok_def)
  have v: "verified_manifest (sv_host sv) ?row = Inr m"
    by (rule manifest_row_verifies [OF bm]) (simp add: m_def)
  define am where "am = msg (pr_tenant_id p) (sm_id ?row) ''skill.registered'' (pr_actor_id p)
                [(''skill_id'', JStr (sm_skill_id ?row)), (''version'', JInt (sm_version ?row)),
                 (''risk'', JStr (sm_risk ?row))]"
  define d1 where "d1 = (snd (new_id sv d))\<lparr>skills := ?old @ [?row]\<rparr>"
  define d' where "d' = sql_append sv now am d1"
  have d': "create_skill_manifest sv now p body os d = Inr (?row, d')"
    using body unfolding create_skill_manifest_def body_ok_def Let_def d'_def d1_def am_def m_def
      retire_previous_def by auto
  have sk: "skills d' = ?old @ [?row]" by (simp add: d'_def d1_def)
  have nid: "next_id d < next_id d'"
    using sql_append_next_id [of d1 sv now am] by (simp add: d'_def d1_def)
  note old = retire_previous_props [OF ok, where k = ?k]
  have none: "scalar (\<lambda>r. sm_skill_id r = ?k \<and> sm_active r) ?old = None"
    using old(1) by (auto simp: scalar_None_iff)
  have g1: "get_active_manifest sv ?k d' = Inr (Some m)"
    by (simp add: get_active_manifest_def sk row_simps none k v)
  have upd: "scalar (\<lambda>r. sm_skill_id r = k' \<and> sm_active r) ?old
      = scalar (\<lambda>r. sm_skill_id r = k' \<and> sm_active r) (skills d)" if "k' \<noteq> ?k" for k'
  proof (cases "previous_version ?k d")
    case (Some q)
    then have q: "q \<in> set (skills d)" "sm_skill_id q = ?k"
      using first_max_in by (fastforce simp: previous_version_def)+
    have "sm_skill_id r \<noteq> k'" if "r \<in> set (skills d)" "sm_id r = sm_id q" for r
    proof -
      have "r = q" using ok that q by (auto simp: registry_ok_def distinct_map inj_on_def)
      with q \<open>k' \<noteq> ?k\<close> show ?thesis by simp
    qed
    then have "scalar (\<lambda>r. sm_skill_id r = k' \<and> sm_active r)
        (update_where (\<lambda>r. sm_id r = sm_id q) (\<lambda>r. r\<lparr>sm_active := False\<rparr>) (skills d))
      = scalar (\<lambda>r. sm_skill_id r = k' \<and> sm_active r) (skills d)"
      by (intro scalar_update_hidden) auto
    with Some show ?thesis by (simp add: retire_previous_def)
  qed (simp add: retire_previous_def)
  have g2: "get_active_manifest sv k' d' = get_active_manifest sv k' d" if "k' \<noteq> ?k" for k'
    using that by (simp add: get_active_manifest_def sk row_simps upd k split: option.split)
  note unkept = retire_previous_kept [OF ok]
  have new_id_fresh: "sv_uuid sv (next_id d) \<notin> sm_id ` set (skills d)"
    using ok uuid by (force simp: registry_ok_def dest: injD)
  have "registry_ok sv d'"
    unfolding registry_ok_def sk
  proof (intro conjI ballI impI)
    fix r assume r: "r \<in> set (?old @ [?row])" "sm_active r"
    show "is_ok (verified_manifest (sv_host sv) r)"
      using r ok v old(1) [of r] by (auto simp: registry_ok_def)
    fix q assume q: "q \<in> set (?old @ [?row])" "sm_skill_id q = sm_skill_id r"
    show "q = r \<or> sm_version q < sm_version r"
    proof (cases "r = ?row")
      case True
      with q old(2) [of q] next_version_above show ?thesis by (auto simp: k)
    next
      case False
      with r old(1) [of r] have r': "r \<in> set (skills d)" "sm_skill_id r \<noteq> ?k" by auto
      with q old(2) [of q] have qo: "q \<in> set ?old" by (auto simp: k)
      then have "q \<in> set (skills d)"
        using r' q(2) unkept [OF qo] by auto
      with ok r(2) r'(1) q(2) show ?thesis unfolding registry_ok_def by blast
    qed
  next
    fix r assume "r \<in> set (?old @ [?row])"
    then consider "r = ?row" | "r \<in> set ?old" by auto
    then show "\<exists>n < next_id d'. sm_id r = sv_uuid sv n"
    proof cases
      case 1
      with nid show ?thesis by auto
    next
      case 2
      from old(2) [OF this] obtain q where "q \<in> set (skills d)" "sm_id r = sm_id q" by blast
      with ok nid show ?thesis unfolding registry_ok_def by (metis order_less_trans)
    qed
  next
    show "distinct (map sm_id (?old @ [?row]))"
    proof -
      have "map sm_id (?old @ [?row]) = map sm_id (skills d) @ [sv_uuid sv (next_id d)]"
        using old(3) by simp
      moreover have "distinct (map sm_id (skills d))" using ok by (simp add: registry_ok_def)
      ultimately show ?thesis using new_id_fresh by simp
    qed
  qed
  with d' g1 g2 next_version_above k(2) show ?thesis by auto
qed

definition demo_settings :: settings where
  "demo_settings = default_settings\<lparr>job_claim_secret := ''claim'', job_signing_seed := ''seed'',
     service_allowlist := ''nginx''\<rparr>"

definition demo_server :: server where
  "demo_server = \<lparr>sv_host = demo_host, sv_uuid = show_nat, sv_settings = demo_settings,
     sv_crypto = demo_crypto, sv_token = show_nat\<rparr>"

definition demo_admin :: Principal where
  "demo_admin = \<lparr>pr_tenant_id = ''t'', pr_actor_id = ''bob'', pr_role = ''admin''\<rparr>"

lemma demo_uuid_inj: "inj (sv_uuid demo_server)"
  by (simp add: demo_server_def inj_def)

theorem create_skill_manifest_ok_witness:
  "\<exists>row d'. create_skill_manifest demo_server 1 demo_admin demo_manifest [''linux''] empty_db = Inr (row, d')
     \<and> get_active_manifest demo_server ''service.restart'' d'
         = Inr (Some (demo_manifest\<lparr>mf_version := 1, mf_supported_os := {''linux''}\<rparr>))"
proof -
  have "registry_ok demo_server empty_db" "body_ok demo_manifest"
    "next_version (mf_skill_id demo_manifest) empty_db = 1"
    "mf_skill_id demo_manifest = ''service.restart''"
    by (simp_all add: registry_ok_def empty_db_def body_ok_def demo_manifest_def
        ALLOWED_PARAMETER_TYPES_def next_version_def previous_version_def)
  with create_skill_manifest_ok [OF this(1,2) demo_uuid_inj, of 1 demo_admin "[''linux'']"]
  show ?thesis by (metis list.set(1) list.set(2))
qed

end
