(* ===== verification/Jobs.thy ===== *)
theory Jobs
  imports Skills "HOL-Library.Product_Lexorder"
begin

text \<open>
  The life of an endpoint action in the control plane (\<open>helpdesktool/api.py\<close>,
  \<open>helpdesktool/lease_reaper.py\<close>): idempotency records, creating and deciding an action,
  polling, claiming and reporting a job, and the reaper that recovers abandoned claims.  A
  handler maps the database to an HTTP error (the session is rolled back) or to its response
  and the committed database; \<open>now\<close> is the reading of the clock during the request.
\<close>

section \<open>Idempotency\<close>

definition payload_digest :: "server \<Rightarrow> dict \<Rightarrow> string" where
  "payload_digest sv payload =
     sha256_hex (sv_host sv) (dumps_default (float_repr (sv_host sv)) (JObj payload))"

definition ir_match :: "string \<Rightarrow> string \<Rightarrow> string \<Rightarrow> IdempotencyRecord \<Rightarrow> bool" where
  "ir_match tenant_id scope key r \<longleftrightarrow> ir_tenant_id r = tenant_id \<and> ir_scope r = scope \<and> ir_key r = key"

definition idempotency_lookup ::
  "server \<Rightarrow> string \<Rightarrow> string \<Rightarrow> string \<Rightarrow> dict \<Rightarrow> db \<Rightarrow> dict option http" where
  "idempotency_lookup sv tenant_id scope key payload d =
     (case scalar (ir_match tenant_id scope key) (idempotency_records d) of
        None \<Rightarrow> Inr None
      | Some r \<Rightarrow>
          if ir_request_hash r \<noteq> payload_digest sv payload
          then Inl (HTTPException 409 ''idempotency key reused with different payload'')
          else Inr (Some (ir_response r)))"

definition remember ::
  "server \<Rightarrow> time \<Rightarrow> string \<Rightarrow> string \<Rightarrow> string \<Rightarrow> dict \<Rightarrow> dict \<Rightarrow> int \<Rightarrow> db \<Rightarrow> db" where
  "remember sv now tenant_id scope key payload response status_code d =
     (snd (new_id sv d))\<lparr>idempotency_records := idempotency_records d @
       [\<lparr>ir_id = fst (new_id sv d), ir_tenant_id = tenant_id, ir_scope = scope, ir_key = key,
         ir_request_hash = payload_digest sv payload, ir_response = response,
         ir_status_code = status_code, ir_created_at = now\<rparr>]\<rparr>"

section \<open>Views\<close>

definition action_json :: "server \<Rightarrow> Action \<Rightarrow> dict" where
  "action_json sv r =
     [(''id'', JStr (at_id r)), (''device_id'', JStr (at_device_id r)),
      (''ticket_id'', opt_str (at_ticket_id r)), (''skill_id'', JStr (at_skill_id r)),
      (''parameters'', JObj (at_parameters r)), (''device_os'', JStr (at_device_os r)),
      (''risk'', JStr (at_risk r)), (''status'', JStr (at_status r)),
      (''requested_by'', JStr (at_requested_by r)), (''approved_by'', opt_str (at_approved_by r)),
      (''attempt'', JInt (at_attempt r)), (''claimed_at'', some_time sv (at_claimed_at r)),
      (''lease_expires_at'', some_time sv (at_lease_expires_at r)),
      (''created_at'', some_time sv (Some (at_created_at r))),
      (''updated_at'', some_time sv (Some (at_updated_at r)))]"

section \<open>Creating and deciding an action\<close>

text \<open>\<open>NoLocalExecutor\<close>, and the orchestrator of a request.\<close>

definition no_local_executor :: "unit skill_executor" where
  "no_local_executor = \<lparr>
     ex_execute = (\<lambda>sk rq w. (Inl (RuntimeError ''control-plane execution is disabled''), w)),
     ex_verify = (\<lambda>sk rq e w. (Inr False, w)),
     ex_rollback = (\<lambda>sk rq e w. (Inl (RuntimeError ''control-plane rollback is disabled''), w))\<rparr>"

fun skill_definitions :: "SkillManifest list \<Rightarrow> SkillDefinition list http" where
  "skill_definitions [] = Inr []"
| "skill_definitions (m # ms) =
     (case to_skill_definition m of Inl _ \<Rightarrow> Inl unhandled
      | Inr s \<Rightarrow> (case skill_definitions ms of Inl e \<Rightarrow> Inl e | Inr ss \<Rightarrow> Inr (s # ss)))"

definition request_orchestrator ::
  "server \<Rightarrow> time \<Rightarrow> string option \<Rightarrow> db \<Rightarrow> (unit, db, db) orchestrator http" where
  "request_orchestrator sv now ticket_id d =
     (case load_active_skill_manifests sv d of
        Inl e \<Rightarrow> Inl e
      | Inr ms \<Rightarrow>
          (case skill_definitions ms of
             Inl e \<Rightarrow> Inl e
           | Inr ss \<Rightarrow>
               (case PolicyEngine_init ss of
                  Inl _ \<Rightarrow> Inl unhandled
                | Inr p \<Rightarrow> Inr \<lparr>oe_policy = p, oe_executor = no_local_executor,
                                oe_audit = sql_append sv,
                                oe_store = Some (sql_store_ops sv now ticket_id),
                                oe_execute_immediately = False\<rparr>)))"

text \<open>
  The session is one database that the action store and the audit log both write: the store
  and the audit component of the orchestrator's state are merged after the operation, each
  contributing the tables it owns (in queue mode, the only mode used here, the store draws no
  identifiers, so the counter is the audit log's).
\<close>

definition merge_session :: "(unit, db, db) orch_state \<Rightarrow> db" where
  "merge_session st = (os_audit st)\<lparr>actions := actions (os_store st),
     execution_results := execution_results (os_store st)\<rparr>"

definition session_state :: "db \<Rightarrow> (unit, db, db) orch_state" where
  "session_state d = \<lparr>os_actions = (\<lambda>_. None), os_store = d, os_audit = d, os_world = ()\<rparr>"

definition action_key :: "string \<Rightarrow> Action \<Rightarrow> bool" where
  "action_key action_id r \<longleftrightarrow> at_id r = action_id"

text \<open>The control plane's own policy on \<open>service.restart\<close>: lists and dictionaries are unhashable.\<close>

definition service_check :: "server \<Rightarrow> string \<Rightarrow> dict \<Rightarrow> http_error option" where
  "service_check sv skill_id parameters =
     (if skill_id \<noteq> ''service.restart'' then None
      else case dict_get parameters ''service'' of
        Some (JStr s) \<Rightarrow> if s \<in> allowed_services (sv_settings sv) then None
                         else Some (HTTPException 403 ''service is not allowlisted by control plane'')
      | Some (JList _) \<Rightarrow> Some unhandled
      | Some (JObj _) \<Rightarrow> Some unhandled
      | _ \<Rightarrow> Some (HTTPException 403 ''service is not allowlisted by control plane''))"

record ActionCreate =
  ac_body_device_id :: string
  ac_body_skill_id :: string
  ac_body_parameters :: dict
  ac_body_ticket_id :: "string option"

definition action_create_json :: "ActionCreate \<Rightarrow> dict" where
  "action_create_json b =
     [(''device_id'', JStr (ac_body_device_id b)), (''skill_id'', JStr (ac_body_skill_id b)),
      (''parameters'', JObj (ac_body_parameters b)), (''ticket_id'', opt_str (ac_body_ticket_id b))]"

text \<open>The guards of \<open>create_action\<close> that stand before the policy evaluation.\<close>

definition create_action_guard :: "server \<Rightarrow> Principal \<Rightarrow> ActionCreate \<Rightarrow> db \<Rightarrow> Device http" where
  "create_action_guard sv p b d =
     (case get_active_manifest sv (ac_body_skill_id b) d of
        Inl e \<Rightarrow> Inl e
      | Inr manifest \<Rightarrow>
          (case (case manifest of None \<Rightarrow> None
                 | Some m \<Rightarrow> validate_parameters (mf_parameters m) (ac_body_parameters b)) of
             Some shape_error \<Rightarrow> Inl (HTTPException 422 shape_error)
           | None \<Rightarrow>
               (case service_check sv (ac_body_skill_id b) (ac_body_parameters b) of
                  Some e \<Rightarrow> Inl e
                | None \<Rightarrow>
                    (case tenant_row dv_id dv_tenant_id (devices d) (ac_body_device_id b) (pr_tenant_id p) of
                       Inl e \<Rightarrow> Inl e
                     | Inr device \<Rightarrow>
                         (case ac_body_ticket_id b of
                            None \<Rightarrow> Inr device
                          | Some t \<Rightarrow>
                              if t = [] then Inr device
                              else (case tenant_row tk_id tk_tenant_id (tickets d) t (pr_tenant_id p) of
                                      Inl e \<Rightarrow> Inl e | Inr _ \<Rightarrow> Inr device))))))"

definition create_action ::
  "server \<Rightarrow> time \<Rightarrow> Principal \<Rightarrow> string \<Rightarrow> ActionCreate \<Rightarrow> db \<Rightarrow> (dict \<times> db) http" where
  "create_action sv now p key b d =
     (let payload = action_create_json b in
      case idempotency_lookup sv (pr_tenant_id p) ''action'' key payload d of
        Inl e \<Rightarrow> Inl e
      | Inr cached \<Rightarrow>
          if cached \<noteq> None \<and> cached \<noteq> Some [] then Inr (the cached, d)
          else
            (case create_action_guard sv p b d of
               Inl e \<Rightarrow> Inl e
             | Inr device \<Rightarrow>
                 (case ActionRequest_init
                    \<lparr>rq_tenant_id = pr_tenant_id p, rq_device_id = dv_id device,
                     rq_skill_id = ac_body_skill_id b, rq_requested_by = pr_actor_id p,
                     rq_parameters = ac_body_parameters b, rq_correlation_id = fst (new_id sv d)\<rparr> of
                    Inl _ \<Rightarrow> Inl unhandled
                  | Inr request \<Rightarrow>
                      let d0 = snd (new_id sv d) in
                      (case request_orchestrator sv now (ac_body_ticket_id b) d0 of
                         Inl e \<Rightarrow> Inl e
                       | Inr o' \<Rightarrow>
                           (case submit o' now request (dv_os device) (session_state d0) of
                              (Inl _, _) \<Rightarrow> Inl unhandled
                            | (Inr record, st) \<Rightarrow>
                                let d1 = merge_session st in
                                (case scalar (action_key (rq_correlation_id (ac_request record))) (actions d1) of
                                   None \<Rightarrow> Inl (HTTPException 500 ''action was not persisted'')
                                 | Some row \<Rightarrow>
                                     let result = action_json sv row in
                                     Inr (result, remember sv now (pr_tenant_id p) ''action'' key
                                                    payload result 201 d1)))))))"

record ApprovalDecision =
  ad_approve :: bool
  ad_reason :: string

definition decision_error :: "py_error \<Rightarrow> http_error" where
  "decision_error e = (case e of PermissionError m \<Rightarrow> HTTPException 403 m
     | ValueError m \<Rightarrow> HTTPException 409 m | _ \<Rightarrow> unhandled)"

definition decide_action ::
  "server \<Rightarrow> time \<Rightarrow> Principal \<Rightarrow> string \<Rightarrow> ApprovalDecision \<Rightarrow> db \<Rightarrow> (dict \<times> db) http" where
  "decide_action sv now p action_id b d =
     (case tenant_row at_id at_tenant_id (actions d) action_id (pr_tenant_id p) of
        Inl e \<Rightarrow> Inl e
      | Inr _ \<Rightarrow>
          (case request_orchestrator sv now None d of
             Inl e \<Rightarrow> Inl e
           | Inr o' \<Rightarrow>
               (case (if ad_approve b
                      then approve o' now (pr_tenant_id p) action_id (pr_actor_id p) (session_state d)
                      else deny o' now (pr_tenant_id p) action_id (pr_actor_id p) (ad_reason b)
                             (session_state d)) of
                  (Inl e, _) \<Rightarrow> Inl (decision_error e)
                | (Inr record, st) \<Rightarrow>
                    let d1 = merge_session st;
                        d2 = (snd (new_id sv d1))\<lparr>approvals := approvals d1 @
                          [\<lparr>ap_id = fst (new_id sv d1), ap_tenant_id = pr_tenant_id p,
                            ap_action_id = action_id, ap_decided_by = pr_actor_id p,
                            ap_decision = (if ad_approve b then ''approve'' else ''deny''),
                            ap_reason = (if ad_reason b = [] then None else Some (ad_reason b)),
                            ap_decided_at = now\<rparr>]\<rparr>
                    in (case scalar (action_key (rq_correlation_id (ac_request record))) (actions d2) of
                          None \<Rightarrow> Inl (HTTPException 500 ''action was not persisted'')
                        | Some row \<Rightarrow> Inr (action_json sv row, d2)))))"

section \<open>Polling and claiming\<close>

fun insert_by :: "('r \<Rightarrow> 'k::linorder) \<Rightarrow> 'r \<Rightarrow> 'r list \<Rightarrow> 'r list" where
  "insert_by k r [] = [r]"
| "insert_by k r (q # rs) = (if k r \<le> k q then r # q # rs else q # insert_by k r rs)"

text \<open>\<open>order_by(k)\<close>: stable insertion sort.\<close>

definition order_by :: "('r \<Rightarrow> 'k::linorder) \<Rightarrow> 'r list \<Rightarrow> 'r list" where
  "order_by k rs = foldr (insert_by k) rs []"

definition poll_jobs :: "Principal \<Rightarrow> string \<Rightarrow> db \<Rightarrow> json list" where
  "poll_jobs p device_id d =
     map (\<lambda>r. JObj [(''id'', JStr (at_id r)), (''skill_id'', JStr (at_skill_id r)), (''risk'', JStr (at_risk r))])
       (take 10 (order_by at_created_at
          (filter (\<lambda>r. at_tenant_id r = pr_tenant_id p \<and> at_device_id r = device_id
                     \<and> at_status r = ''queued'') (actions d))))"

definition claim_token :: "server \<Rightarrow> string \<Rightarrow> int \<Rightarrow> string \<Rightarrow> string" where
  "claim_token sv action_id attempt key =
     hmac_sha256_hex (sv_host sv) (job_claim_secret (sv_settings sv))
       (action_id @ '':'' @ show_int attempt @ '':'' @ key)"

definition claimable :: "Principal \<Rightarrow> string \<Rightarrow> string \<Rightarrow> Action \<Rightarrow> bool" where
  "claimable p device_id action_id r \<longleftrightarrow> at_id r = action_id \<and> at_tenant_id r = pr_tenant_id p
     \<and> at_device_id r = device_id \<and> at_status r = ''queued''"

definition lease_seconds :: time where
  "lease_seconds = 60"

definition claim_update :: "server \<Rightarrow> time \<Rightarrow> string \<Rightarrow> Action \<Rightarrow> Action" where
  "claim_update sv now token r = r\<lparr>at_status := ''claimed'',
     at_claim_token_hash := Some (sha256_hex (sv_host sv) token), at_claimed_at := Some now,
     at_lease_expires_at := Some (now + lease_seconds), at_attempt := at_attempt r + 1,
     at_updated_at := now\<rparr>"

definition job_envelope :: "server \<Rightarrow> time \<Rightarrow> Principal \<Rightarrow> Action \<Rightarrow> int \<Rightarrow> time \<Rightarrow> string \<Rightarrow> dict" where
  "job_envelope sv now p row skill_version expires_at nonce =
     [(''job_id'', JStr (at_id row @ '':'' @ show_int (at_attempt row))),
      (''action_id'', JStr (at_id row)), (''device_id'', JStr (at_device_id row)),
      (''tenant_id'', JStr (pr_tenant_id p)), (''skill_id'', JStr (at_skill_id row)),
      (''skill_version'', JInt skill_version), (''parameters'', JObj (at_parameters row)),
      (''device_os'', JStr (at_device_os row)),
      (''issued_at'', JStr (isoformat (sv_host sv) now)),
      (''expires_at'', JStr (isoformat (sv_host sv) expires_at)),
      (''nonce'', JStr nonce),
      (''key_version'', JInt (job_signing_key_version (sv_settings sv)))]"

definition claim_payload :: "string \<Rightarrow> string \<Rightarrow> dict" where
  "claim_payload action_id device_id =
     [(''action_id'', JStr action_id), (''device_id'', JStr device_id)]"

text \<open>The skill version of the envelope, or the refusal of a job whose skill is gone.\<close>

definition claim_skill_version :: "server \<Rightarrow> Principal \<Rightarrow> Action option \<Rightarrow> db \<Rightarrow> int http" where
  "claim_skill_version sv p current d =
     (case current of
        None \<Rightarrow> Inr 0
      | Some r \<Rightarrow>
          if at_tenant_id r \<noteq> pr_tenant_id p then Inr 0
          else case get_active_manifest sv (at_skill_id r) d of
                 Inl e \<Rightarrow> Inl e
               | Inr None \<Rightarrow> Inl (HTTPException 409 ''skill is no longer registered; job cannot be claimed'')
               | Inr (Some m) \<Rightarrow> Inr (mf_version m))"

text \<open>The claim of a queued row: the signed envelope, the response and the committed database.\<close>

definition claim_fresh ::
  "server \<Rightarrow> time \<Rightarrow> Principal \<Rightarrow> string \<Rightarrow> string \<Rightarrow> string \<Rightarrow> int \<Rightarrow> int \<Rightarrow> db \<Rightarrow> (dict \<times> db) http" where
  "claim_fresh sv now p device_id action_id key skill_version next_attempt d =
     (let token = claim_token sv action_id next_attempt key;
          changed = length (filter (claimable p device_id action_id) (actions d));
          d1 = d\<lparr>actions := update_where (claimable p device_id action_id)
                   (claim_update sv now token) (actions d)\<rparr>
      in if changed \<noteq> 1 then Inl (HTTPException 409 ''job is unavailable'')
         else case scalar (action_key action_id) (actions d1) of
                None \<Rightarrow> Inl (HTTPException 500 ''claimed job vanished unexpectedly'')
              | Some row \<Rightarrow>
                  (case at_lease_expires_at row of
                     None \<Rightarrow> Inl (HTTPException 500 ''claimed job vanished unexpectedly'')
                   | Some expires_at \<Rightarrow>
                       let nonce = sv_token sv (next_id d1);
                           d2 = snd (new_id sv d1);
                           e = job_envelope sv now p row skill_version expires_at nonce
                       in case sign_envelope (sv_host sv) (sv_crypto sv) e
                                 (job_signing_seed (sv_settings sv))
                                 (job_signing_key_version (sv_settings sv)) of
                            Inl _ \<Rightarrow> Inl unhandled
                          | Inr sig \<Rightarrow>
                              let lease = JStr (isoformat (sv_host sv) expires_at);
                                  stored = e @ [(''signature'', JStr sig), (''id'', JStr (at_id row)),
                                     (''attempt'', JInt (at_attempt row)), (''lease_expires_at'', lease)];
                                  d3 = sql_append sv now
                                    (msg (pr_tenant_id p) action_id ''execution.claimed'' device_id
                                       [(''job_id'', JStr (at_id row @ '':'' @ show_int (at_attempt row))),
                                        (''attempt'', JInt (at_attempt row)), (''lease_expires_at'', lease),
                                        (''previous_status'', JStr ''queued''), (''new_status'', JStr ''claimed'')]) d2
                              in Inr (stored @ [(''claim_token'', JStr token)],
                                   remember sv now (pr_tenant_id p) ''job-claim'' key
                                     (claim_payload action_id device_id) stored 200 d3)))"

definition claim_job ::
  "server \<Rightarrow> time \<Rightarrow> Principal \<Rightarrow> string \<Rightarrow> string \<Rightarrow> string \<Rightarrow> db \<Rightarrow> (dict \<times> db) http" where
  "claim_job sv now p device_id action_id key d =
     (case idempotency_lookup sv (pr_tenant_id p) ''job-claim'' key (claim_payload action_id device_id) d of
        Inl e \<Rightarrow> Inl e
      | Inr (Some cached) \<Rightarrow>
          (case dict_get cached ''attempt'' of
             Some (JInt attempt) \<Rightarrow>
               Inr (dict_set cached ''claim_token'' (JStr (claim_token sv action_id attempt key)), d)
           | _ \<Rightarrow> Inl unhandled)
      | Inr None \<Rightarrow>
          let current = scalar (action_key action_id) (actions d) in
          (case claim_skill_version sv p current d of
             Inl e \<Rightarrow> Inl e
           | Inr skill_version \<Rightarrow>
               claim_fresh sv now p device_id action_id key skill_version
                 (case current of None \<Rightarrow> 1 | Some r \<Rightarrow> at_attempt r + 1) d))"

section \<open>Reporting\<close>

record JobResult =
  jr_success :: bool
  jr_verified :: bool
  jr_output :: dict
  jr_error :: "string option"
  jr_rollback_attempted :: bool
  jr_rollback_succeeded :: "bool option"

definition opt_bool :: "bool option \<Rightarrow> json" where
  "opt_bool x = (case x of None \<Rightarrow> JNull | Some b \<Rightarrow> JBool b)"

definition job_result_json :: "JobResult \<Rightarrow> dict" where
  "job_result_json b =
     [(''success'', JBool (jr_success b)), (''verified'', JBool (jr_verified b)),
      (''output'', JObj (jr_output b)), (''error'', opt_str (jr_error b)),
      (''rollback_attempted'', JBool (jr_rollback_attempted b)),
      (''rollback_succeeded'', opt_bool (jr_rollback_succeeded b))]"

definition report_status :: "JobResult \<Rightarrow> ActionStatus" where
  "report_status b =
     (if jr_success b \<and> jr_verified b then SUCCEEDED
      else if jr_rollback_attempted b \<and> jr_rollback_succeeded b = Some True then ROLLED_BACK
      else if jr_rollback_attempted b \<and> jr_rollback_succeeded b \<noteq> Some True then ROLLBACK_FAILED
      else FAILED)"

text \<open>The guards of \<open>report_job_result\<close>, in the order of the code.\<close>

definition report_guard ::
  "server \<Rightarrow> time \<Rightarrow> Principal \<Rightarrow> string \<Rightarrow> string \<Rightarrow> string \<Rightarrow> db \<Rightarrow> Action http" where
  "report_guard sv now p device_id action_id token d =
     (case tenant_row at_id at_tenant_id (actions d) action_id (pr_tenant_id p) of
        Inl e \<Rightarrow> Inl e
      | Inr row \<Rightarrow>
          if at_device_id row \<noteq> device_id \<or> at_status row \<noteq> ''claimed''
             \<or> \<not> truthy (at_claim_token_hash row)
          then Inl (HTTPException 409 ''job is not claimable by this device'')
          else if at_claim_token_hash row \<noteq> Some (sha256_hex (sv_host sv) token)
          then Inl (HTTPException 401 ''invalid claim token'')
          else if (case at_lease_expires_at row of None \<Rightarrow> False | Some t \<Rightarrow> t < now)
          then Inl (HTTPException 409 ''job claim expired'')
          else Inr row)"

text \<open>The audit messages of a report, in order.\<close>

definition report_msgs :: "Principal \<Rightarrow> string \<Rightarrow> string \<Rightarrow> JobResult \<Rightarrow> audit_msg list" where
  "report_msgs p device_id action_id b =
     (let st = ActionStatus_value (report_status b); t = pr_tenant_id p in
      [msg t action_id ''execution.reported'' device_id
         [(''status'', JStr st), (''success'', JBool (jr_success b)), (''verified'', JBool (jr_verified b)),
          (''rollback_attempted'', JBool (jr_rollback_attempted b)),
          (''rollback_succeeded'', opt_bool (jr_rollback_succeeded b)),
          (''previous_status'', JStr ''claimed''), (''new_status'', JStr st)]]
      @ (if jr_verified b
         then [msg t action_id ''execution.verified'' device_id [(''success'', JBool (jr_success b))]] else [])
      @ (if jr_rollback_attempted b
         then [msg t action_id ''rollback.completed'' device_id
                 [(''success'', opt_bool (jr_rollback_succeeded b))]] else [])
      @ (if report_status b \<notin> {SUCCEEDED, ROLLED_BACK}
         then [msg t action_id ''action.escalation_required'' ''system''
                 [(''status'', JStr st), (''error'', opt_str (jr_error b))]] else []))"

definition report_payload :: "string \<Rightarrow> string \<Rightarrow> JobResult \<Rightarrow> dict" where
  "report_payload action_id device_id b =
     [(''action_id'', JStr action_id), (''device_id'', JStr device_id)] @ job_result_json b"

definition apply_report ::
  "server \<Rightarrow> time \<Rightarrow> Principal \<Rightarrow> string \<Rightarrow> string \<Rightarrow> JobResult \<Rightarrow> db \<Rightarrow> db" where
  "apply_report sv now p device_id action_id b d =
     (let d1 = d\<lparr>actions := update_where (\<lambda>r. at_id r = action_id \<and> at_tenant_id r = pr_tenant_id p)
            (\<lambda>r. r\<lparr>at_status := ActionStatus_value (report_status b), at_updated_at := now\<rparr>) (actions d)\<rparr>;
          d2 = (snd (new_id sv d1))\<lparr>execution_results := execution_results d1 @
            [\<lparr>xr_id = fst (new_id sv d1), xr_tenant_id = pr_tenant_id p, xr_action_id = action_id,
              xr_success = jr_success b, xr_output = jr_output b, xr_error = jr_error b,
              xr_verified = jr_verified b, xr_rollback_attempted = jr_rollback_attempted b,
              xr_rollback_succeeded = jr_rollback_succeeded b, xr_created_at = now\<rparr>]\<rparr>
      in appends (sql_append sv) (map (Pair now) (report_msgs p device_id action_id b)) d2)"

definition report_job_result ::
  "server \<Rightarrow> time \<Rightarrow> Principal \<Rightarrow> string \<Rightarrow> string \<Rightarrow> string \<Rightarrow> string \<Rightarrow> JobResult \<Rightarrow> db
   \<Rightarrow> (dict \<times> db) http" where
  "report_job_result sv now p device_id action_id token key b d =
     (let payload = report_payload action_id device_id b in
      case idempotency_lookup sv (pr_tenant_id p) ''job-result'' key payload d of
        Inl e \<Rightarrow> Inl e
      | Inr (Some cached) \<Rightarrow> Inr (cached, d)
      | Inr None \<Rightarrow>
          (case report_guard sv now p device_id action_id token d of
             Inl e \<Rightarrow> Inl e
           | Inr _ \<Rightarrow>
               let result = [(''accepted'', JBool True), (''action_id'', JStr action_id),
                             (''status'', JStr (ActionStatus_value (report_status b)))]
               in Inr (result, remember sv now (pr_tenant_id p) ''job-result'' key payload result 200
                         (apply_report sv now p device_id action_id b d))))"

section \<open>The lease reaper\<close>

definition lease_expired :: "time \<Rightarrow> Action \<Rightarrow> bool" where
  "lease_expired now r \<longleftrightarrow> at_status r = ''claimed''
     \<and> (case at_lease_expires_at r of None \<Rightarrow> False | Some t \<Rightarrow> t < now)"

definition reaped :: "server \<Rightarrow> time \<Rightarrow> Action \<Rightarrow> Action" where
  "reaped sv now r = r\<lparr>at_claim_token_hash := None, at_claimed_at := None, at_lease_expires_at := None,
     at_status := if at_attempt r \<ge> lease_reaper_max_attempts (sv_settings sv) then ''failed'' else ''queued'',
     at_updated_at := now\<rparr>"

definition reap_msg :: "server \<Rightarrow> Action \<Rightarrow> audit_msg" where
  "reap_msg sv r =
     (if at_attempt r \<ge> lease_reaper_max_attempts (sv_settings sv)
      then msg (at_tenant_id r) (at_id r) ''action.escalation_required'' ''system:lease_reaper''
             [(''status'', JStr ''failed''),
              (''error'', JStr ''job lease expired and retry attempts were exhausted''),
              (''attempt'', JInt (at_attempt r)), (''previous_status'', JStr (at_status r))]
      else msg (at_tenant_id r) (at_id r) ''execution.lease_expired_requeued'' ''system:lease_reaper''
             [(''attempt'', JInt (at_attempt r)), (''previous_status'', JStr (at_status r)),
              (''new_status'', JStr ''queued'')])"

definition reap :: "server \<Rightarrow> time \<Rightarrow> Action \<Rightarrow> db \<Rightarrow> db" where
  "reap sv now r d = sql_append sv now (reap_msg sv r)
     (d\<lparr>actions := update_where (action_key (at_id r)) (reaped sv now) (actions d)\<rparr>)"

text \<open>\<open>claimed_at\<close> orders the batch; in SQL's ascending order a null sorts last.\<close>

definition claimed_key :: "Action \<Rightarrow> bool \<times> time" where
  "claimed_key r = (case at_claimed_at r of None \<Rightarrow> (True, 0) | Some t \<Rightarrow> (False, t))"

definition expired_claims :: "time \<Rightarrow> int \<Rightarrow> db \<Rightarrow> Action list" where
  "expired_claims now limit d =
     take (nat (min (max limit 1) 100)) (order_by claimed_key (filter (lease_expired now) (actions d)))"

definition process_batch :: "server \<Rightarrow> time \<Rightarrow> int \<Rightarrow> db \<Rightarrow> nat \<times> db" where
  "process_batch sv now limit d =
     (let expired = expired_claims now limit d in (length expired, fold (reap sv now) expired d))"

end
