(* ===== verification/Effects.thy ===== *)
theory Effects
  imports Prelude
begin

text \<open>
  Code that acts on its surroundings: an \<open>('s, 'a) io\<close> is run on a state \<open>'s\<close> and ends with a
  value, with a Python exception, or not at all because the process died (\<open>Crashed\<close>), leaving
  the state it reached.  \<open>bind\<close> is sequencing, \<open>catch p\<close> is a \<open>try\<close> whose \<open>except\<close> clause takes the
  exceptions in \<open>p\<close>; a crash passes every handler.  \<open>keeps R m\<close> says that every run of \<open>m\<close>,
  however it ends, relates the states before and after by \<open>R\<close>.
\<close>

section \<open>Runs\<close>

datatype 'a outcome = Done 'a | Raised py_error | Crashed

type_synonym ('s, 'a) io = "'s \<Rightarrow> 'a outcome \<times> 's"

definition ret :: "'a \<Rightarrow> ('s, 'a) io" where
  "ret a s = (Done a, s)"

definition raise :: "py_error \<Rightarrow> ('s, 'a) io" where
  "raise e s = (Raised e, s)"

definition bind :: "('s, 'a) io \<Rightarrow> ('a \<Rightarrow> ('s, 'b) io) \<Rightarrow> ('s, 'b) io" where
  "bind m f s = (case m s of (Done a, t) \<Rightarrow> f a t | (Raised e, t) \<Rightarrow> (Raised e, t)
     | (Crashed, t) \<Rightarrow> (Crashed, t))"

definition seq :: "('s, unit) io \<Rightarrow> ('s, 'b) io \<Rightarrow> ('s, 'b) io" where
  "seq m n = bind m (\<lambda>_. n)"

definition catch :: "(py_error \<Rightarrow> bool) \<Rightarrow> ('s, 'a) io \<Rightarrow> (py_error \<Rightarrow> ('s, 'a) io) \<Rightarrow> ('s, 'a) io" where
  "catch p m h s = (case m s of (Raised e, t) \<Rightarrow> if p e then h e t else (Raised e, t) | r \<Rightarrow> r)"

definition lift_result :: "py_error + 'a \<Rightarrow> ('s, 'a) io" where
  "lift_result r = (case r of Inl e \<Rightarrow> raise e | Inr a \<Rightarrow> ret a)"

definition modify :: "('s \<Rightarrow> 's) \<Rightarrow> ('s, unit) io" where
  "modify f s = (Done (), f s)"

definition gets :: "('s \<Rightarrow> 'a) \<Rightarrow> ('s, 'a) io" where
  "gets f s = (Done (f s), s)"

text \<open>\<open>for x in xs: body(x)\<close>: an exception or a crash leaves the loop.\<close>

fun for_each :: "'a list \<Rightarrow> ('a \<Rightarrow> ('s, unit) io) \<Rightarrow> ('s, unit) io" where
  "for_each [] f = ret ()"
| "for_each (x # xs) f = seq (f x) (for_each xs f)"

lemmas io_defs = ret_def raise_def bind_def seq_def catch_def lift_result_def modify_def gets_def

lemma bind_Done: "bind m f s = (Done b, u) \<longleftrightarrow> (\<exists>a t. m s = (Done a, t) \<and> f a t = (Done b, u))"
  by (auto simp: bind_def split: prod.splits outcome.splits)

lemma catch_Done:
  "catch p m h s = (Done a, t) \<longleftrightarrow>
     m s = (Done a, t) \<or> (\<exists>e u. m s = (Raised e, u) \<and> p e \<and> h e u = (Done a, t))"
  by (auto simp: catch_def split: prod.splits outcome.splits)

lemma ret_Done [simp]: "ret a s = (Done b, t) \<longleftrightarrow> b = a \<and> t = s"
  by (auto simp: ret_def)

lemma raise_not_Done [simp]: "raise e s \<noteq> (Done a, t)"
  by (simp add: raise_def)

section \<open>Frames\<close>

definition keeps :: "('s \<Rightarrow> 's \<Rightarrow> bool) \<Rightarrow> ('s, 'a) io \<Rightarrow> bool" where
  "keeps R m \<longleftrightarrow> (\<forall>s. R s (snd (m s)))"

lemma keepsD: "keeps R m \<Longrightarrow> m s = (r, t) \<Longrightarrow> R s t"
  by (metis keeps_def snd_conv)

lemma keepsI: "(\<And>s r t. m s = (r, t) \<Longrightarrow> R s t) \<Longrightarrow> keeps R m"
  by (metis keeps_def prod.collapse)

named_theorems keeps_rules \<open>introduction rules for frames\<close>

lemma keeps_ret [keeps_rules]: "reflp R \<Longrightarrow> keeps R (ret a)"
  by (simp add: keeps_def ret_def reflp_def)

lemma keeps_raise [keeps_rules]: "reflp R \<Longrightarrow> keeps R (raise e)"
  by (simp add: keeps_def raise_def reflp_def)

lemma keeps_lift [keeps_rules]: "reflp R \<Longrightarrow> keeps R (lift_result r)"
  by (cases r) (simp_all add: lift_result_def keeps_ret keeps_raise)

lemma keeps_gets [keeps_rules]: "reflp R \<Longrightarrow> keeps R (gets f)"
  by (simp add: keeps_def gets_def reflp_def)

lemma keeps_bind [keeps_rules]:
  assumes "transp R" and "keeps R m" and "\<And>a. keeps R (f a)"
  shows "keeps R (bind m f)"
proof (rule keepsI)
  fix s r t
  assume b: "bind m f s = (r, t)"
  obtain r1 s1 where m: "m s = (r1, s1)" by (cases "m s")
  with assms(2) have "R s s1" by (rule keepsD)
  moreover have "R s1 t \<or> t = s1"
    using b m assms(3) by (auto simp: bind_def split: outcome.splits dest: keepsD)
  ultimately show "R s t" using assms(1) by (auto dest: transpD)
qed

lemma keeps_seq [keeps_rules]: "transp R \<Longrightarrow> keeps R m \<Longrightarrow> keeps R n \<Longrightarrow> keeps R (seq m n)"
  by (simp add: seq_def keeps_bind)

lemma keeps_catch [keeps_rules]:
  assumes "transp R" and "keeps R m" and "\<And>e. keeps R (h e)"
  shows "keeps R (catch p m h)"
proof (rule keepsI)
  fix s r t
  assume b: "catch p m h s = (r, t)"
  obtain r1 s1 where m: "m s = (r1, s1)" by (cases "m s")
  with assms(2) have "R s s1" by (rule keepsD)
  moreover have "R s1 t \<or> t = s1"
    using b m assms(3) by (auto simp: catch_def split: outcome.splits if_splits dest: keepsD)
  ultimately show "R s t" using assms(1) by (auto dest: transpD)
qed

lemma keeps_for_each [keeps_rules]:
  "reflp R \<Longrightarrow> transp R \<Longrightarrow> (\<And>x. x \<in> set xs \<Longrightarrow> keeps R (f x)) \<Longrightarrow> keeps R (for_each xs f)"
  by (induction xs) (auto intro!: keeps_ret keeps_seq)

lemma keeps_if [keeps_rules]: "(P \<Longrightarrow> keeps R m) \<Longrightarrow> (\<not> P \<Longrightarrow> keeps R n) \<Longrightarrow> keeps R (if P then m else n)"
  by simp

section \<open>Results\<close>

definition yields :: "('a \<Rightarrow> bool) \<Rightarrow> ('s, 'a) io \<Rightarrow> bool" where
  "yields Q m \<longleftrightarrow> (\<forall>s a t. m s = (Done a, t) \<longrightarrow> Q a)"

lemma yieldsD: "yields Q m \<Longrightarrow> m s = (Done a, t) \<Longrightarrow> Q a"
  by (auto simp: yields_def)

named_theorems yields_rules \<open>introduction rules for results\<close>

lemma yields_ret [yields_rules]: "Q a \<Longrightarrow> yields Q (ret a)"
  by (simp add: yields_def)

lemma yields_raise [yields_rules]: "yields Q (raise e)"
  by (simp add: yields_def)

lemma yields_bind [yields_rules]: "(\<And>a. yields Q (f a)) \<Longrightarrow> yields Q (bind m f)"
  by (auto simp: yields_def bind_Done)

lemma yields_seq [yields_rules]: "yields Q n \<Longrightarrow> yields Q (seq m n)"
  by (simp add: seq_def yields_bind)

lemma yields_catch [yields_rules]: "yields Q m \<Longrightarrow> (\<And>e. yields Q (h e)) \<Longrightarrow> yields Q (catch p m h)"
  unfolding yields_def catch_Done by blast

lemma yields_if [yields_rules]: "(P \<Longrightarrow> yields Q m) \<Longrightarrow> (\<not> P \<Longrightarrow> yields Q n) \<Longrightarrow> yields Q (if P then m else n)"
  by simp

lemma yields_option [yields_rules]:
  "yields Q m \<Longrightarrow> (\<And>a. yields Q (f a)) \<Longrightarrow> yields Q (case x of None \<Rightarrow> m | Some a \<Rightarrow> f a)"
  by (cases x) auto

lemma yields_prod [yields_rules]: "(\<And>a b. yields Q (f a b)) \<Longrightarrow> yields Q (case x of (a, b) \<Rightarrow> f a b)"
  by (cases x) auto

lemma keeps_option [keeps_rules]:
  "keeps R m \<Longrightarrow> (\<And>a. x = Some a \<Longrightarrow> keeps R (f a)) \<Longrightarrow> keeps R (case x of None \<Rightarrow> m | Some a \<Rightarrow> f a)"
  by (cases x) auto

lemma keeps_prod [keeps_rules]: "(\<And>a b. keeps R (f a b)) \<Longrightarrow> keeps R (case x of (a, b) \<Rightarrow> f a b)"
  by (cases x) auto

lemma bind_cong: "(\<And>a s t. m s = (Done a, t) \<Longrightarrow> f a t = g a t) \<Longrightarrow> bind m f = bind m g"
  by (rule ext) (auto simp: bind_def split: prod.split outcome.split)

end
