(* ===== verification/Executors.thy ===== *)
theory Executors
  imports Jobs Effects
begin

text \<open>
  \<open>linux_agent/executor.py\<close> and \<open>windows_agent/executor.py\<close>: the executors of
  \<open>service.restart\<close> and \<open>dns.flush_cache\<close>.  The process runner of the Linux executors and the
  service manager and DNS resolver of the Windows ones (the operating system's interface) are
  parameters: effects on an endpoint state \<open>'w\<close>.  \<open>job_executor\<close> is the contract all four share
  towards the agent and the control plane.
\<close>

section \<open>Reports\<close>

definition failure_report :: "dict \<Rightarrow> string \<Rightarrow> JobResult" where
  "failure_report output error =
     \<lparr>jr_success = False, jr_verified = False, jr_output = output, jr_error = Some error,
      jr_rollback_attempted = False, jr_rollback_succeeded = None\<rparr>"

definition success_report :: "dict \<Rightarrow> JobResult" where
  "success_report output =
     \<lparr>jr_success = True, jr_verified = True, jr_output = output, jr_error = None,
      jr_rollback_attempted = False, jr_rollback_succeeded = None\<rparr>"

definition rollback_report :: "dict \<Rightarrow> string \<Rightarrow> bool \<Rightarrow> JobResult" where
  "rollback_report output error restored =
     \<lparr>jr_success = False, jr_verified = False, jr_output = output, jr_error = Some error,
      jr_rollback_attempted = True, jr_rollback_succeeded = Some restored\<rparr>"

section \<open>Linux: reading systemctl\<close>

text \<open>The runner returns a return code and the standard output.\<close>

type_synonym 'w runner = "string list \<Rightarrow> rat \<Rightarrow> ('w, int \<times> string) io"

record ServiceState =
  ss_load :: string
  ss_active :: string
  ss_sub :: string

definition service_state_json :: "ServiceState \<Rightarrow> json" where
  "service_state_json s = JObj [(''load'', JStr (ss_load s)), (''active'', JStr (ss_active s)),
     (''sub'', JStr (ss_sub s))]"

definition unknown_state :: ServiceState where
  "unknown_state = \<lparr>ss_load = ''unknown'', ss_active = ''unknown'', ss_sub = ''unknown''\<rparr>"

text \<open>\<open>str.splitlines()\<close>.\<close>

definition is_line_break :: "char \<Rightarrow> bool" where
  "is_line_break c = (let n = of_char c :: nat in (10 \<le> n \<and> n \<le> 13) \<or> (28 \<le> n \<and> n \<le> 30) \<or> n = 133)"

fun splitlines_from :: "string \<Rightarrow> string \<Rightarrow> string list" where
  "splitlines_from line [] = (if line = [] then [] else [rev line])"
| "splitlines_from line (c # cs) =
     (if c = CHR 0x0D \<and> cs \<noteq> [] \<and> hd cs = CHR 0x0A then splitlines_from line cs
      else if is_line_break c then rev line # splitlines_from [] cs
      else splitlines_from (c # line) cs)"

definition splitlines :: "string \<Rightarrow> string list" where
  "splitlines s = splitlines_from [] s"

text \<open>\<open>line.split("=", 1)\<close>, and \<open>dict\<close> of the pairs, where a later line wins.\<close>

definition split_eq :: "string \<Rightarrow> string \<times> string" where
  "split_eq line = (takeWhile (\<lambda>c. c \<noteq> CHR ''='') line, tl (dropWhile (\<lambda>c. c \<noteq> CHR ''='') line))"

definition show_values :: "string \<Rightarrow> string \<Rightarrow> string option" where
  "show_values stdout =
     map_of (rev (map split_eq (filter (\<lambda>l. CHR ''='' \<in> set l) (splitlines stdout))))"

definition get_or :: "string \<Rightarrow> string option \<Rightarrow> string" where
  "get_or d x = (case x of None \<Rightarrow> d | Some v \<Rightarrow> v)"

definition parse_state :: "string \<Rightarrow> ServiceState" where
  "parse_state stdout =
     \<lparr>ss_load = get_or ''unknown'' (show_values stdout ''LoadState''),
      ss_active = get_or ''unknown'' (show_values stdout ''ActiveState''),
      ss_sub = get_or ''unknown'' (show_values stdout ''SubState'')\<rparr>"

definition show_command :: "string \<Rightarrow> string list" where
  "show_command service = [''systemctl'', ''show'', service,
     ''--property=LoadState,ActiveState,SubState'', ''--no-pager'']"

definition unit_command :: "string \<Rightarrow> string \<Rightarrow> string list" where
  "unit_command verb service = [''systemctl'', verb, service]"

text \<open>\<open>except (OSError, subprocess.TimeoutExpired)\<close> and \<open>except subprocess.TimeoutExpired\<close>.\<close>

definition run_failed :: "py_error \<Rightarrow> bool" where
  "run_failed e = (case e of OSError _ \<Rightarrow> True | TimeoutExpired _ \<Rightarrow> True | _ \<Rightarrow> False)"

definition timed_out :: "py_error \<Rightarrow> bool" where
  "timed_out e = (case e of TimeoutExpired _ \<Rightarrow> True | _ \<Rightarrow> False)"

section \<open>Linux: service.restart\<close>

record 'w restart_executor =
  re_allowed :: "string list"
  re_runner :: "'w runner"
  re_timeout :: rat

definition service_char :: "char \<Rightarrow> bool" where
  "service_char c = (let n = of_char c :: nat in (65 \<le> n \<and> n \<le> 90) \<or> (97 \<le> n \<and> n \<le> 122) \<or> (48 \<le> n \<and> n \<le> 57)
     \<or> c \<in> {CHR ''_'', CHR ''.'', CHR ''@'', CHR ''-''})"

definition service_name :: "string \<Rightarrow> bool" where
  "service_name s \<longleftrightarrow> 1 \<le> length s \<and> length s \<le> 128 \<and> list_all service_char s"

definition restart_executor_init ::
  "string list \<Rightarrow> 'w runner \<Rightarrow> rat \<Rightarrow> py_error + 'w restart_executor" where
  "restart_executor_init services runner timeout_seconds =
     (if services = [] \<or> \<not> list_all service_name services
      then Inl (ValueError ''a valid, non-empty service allowlist is required'')
      else Inr \<lparr>re_allowed = services, re_runner = runner, re_timeout = timeout_seconds\<rparr>)"

definition service_state :: "'w restart_executor \<Rightarrow> string \<Rightarrow> ('w, ServiceState) io" where
  "service_state x service =
     bind (re_runner x (show_command service) (min (re_timeout x) 5))
       (\<lambda>(_, stdout). ret (parse_state stdout))"

definition restart_rollback ::
  "'w restart_executor \<Rightarrow> string \<Rightarrow> ServiceState \<Rightarrow> string \<Rightarrow> ('w, JobResult) io" where
  "restart_rollback x service before error =
     bind (catch run_failed
             (bind (re_runner x (unit_command (if ss_active before = ''active'' then ''restart'' else ''stop'')
                                   service) (re_timeout x))
               (\<lambda>(code, _). bind (service_state x service)
                 (\<lambda>current. ret (code = 0 \<and> ss_active current = ss_active before))))
             (\<lambda>_. ret False))
       (\<lambda>restored. ret (rollback_report [(''service'', JStr service), (''before'', service_state_json before)]
                          error restored))"

definition restart_failure :: "string \<Rightarrow> ServiceState \<Rightarrow> JobResult" where
  "restart_failure error before = failure_report [(''before'', service_state_json before)] error"

text \<open>\<open>Some v\<close>: the call returned \<open>v\<close>; \<open>None\<close>: it raised an exception the \<open>try\<close> takes.\<close>

definition attempt :: "(py_error \<Rightarrow> bool) \<Rightarrow> ('w, 'a) io \<Rightarrow> ('w, 'a option) io" where
  "attempt p m = catch p (bind m (\<lambda>a. ret (Some a))) (\<lambda>_. ret None)"

definition running_state :: "ServiceState \<Rightarrow> bool" where
  "running_state st \<longleftrightarrow> ss_active st = ''active'' \<and> ss_sub st = ''running''"

text \<open>The observation after the restart, the restart, and the whole call.\<close>

definition restart_check :: "'w restart_executor \<Rightarrow> string \<Rightarrow> ServiceState \<Rightarrow> ('w, JobResult) io" where
  "restart_check x service before =
     bind (attempt run_failed (service_state x service)) (\<lambda>after.
       case after of
         None \<Rightarrow> restart_rollback x service before ''post-restart verification failed''
       | Some after \<Rightarrow>
           if running_state after
           then ret (success_report [(''service'', JStr service), (''before'', service_state_json before),
                  (''after'', service_state_json after)])
           else restart_rollback x service before ''post-restart verification failed'')"

definition restart_apply :: "'w restart_executor \<Rightarrow> string \<Rightarrow> ServiceState \<Rightarrow> ('w, JobResult) io" where
  "restart_apply x service before =
     bind (attempt timed_out (re_runner x (unit_command ''restart'' service) (re_timeout x))) (\<lambda>restarted.
       case restarted of
         None \<Rightarrow> restart_rollback x service before ''restart timed out''
       | Some (code, _) \<Rightarrow>
           if code \<noteq> 0 then restart_rollback x service before ''restart failed''
           else restart_check x service before)"

definition restart_execute :: "'w restart_executor \<Rightarrow> dict \<Rightarrow> ('w, JobResult) io" where
  "restart_execute x parameters =
     (case dict_get parameters ''service'' of
        Some (JStr service) \<Rightarrow>
          if fst ` set parameters \<noteq> {''service''}
          then raise (ValueError ''service.restart accepts only a string service parameter'')
          else if service \<notin> set (re_allowed x) then raise (PermissionError ''service is not allowlisted'')
          else bind (attempt run_failed (service_state x service)) (\<lambda>before.
            case before of
              None \<Rightarrow> ret (restart_failure ''service precheck failed'' unknown_state)
            | Some before \<Rightarrow>
                if ss_load before \<noteq> ''loaded'' then ret (restart_failure ''service unit is not loaded'' before)
                else restart_apply x service before)
      | _ \<Rightarrow> raise (ValueError ''service.restart accepts only a string service parameter''))"

definition restart_verify_only :: "'w restart_executor \<Rightarrow> string \<Rightarrow> ('w, JobResult) io" where
  "restart_verify_only x service =
     bind (attempt run_failed (service_state x service)) (\<lambda>st.
       case st of
         None \<Rightarrow> ret (restart_failure ''post-interruption verification failed'' unknown_state)
       | Some st \<Rightarrow>
           if running_state st
           then ret (success_report [(''service'', JStr service), (''after'', service_state_json st),
                  (''recovered'', JBool True)])
           else ret (restart_failure
             ''service not healthy after an interrupted execution; manual verification required'' st))"

section \<open>Linux: dns.flush\_cache\<close>

record 'w dns_executor =
  dx_runner :: "'w runner"
  dx_timeout :: rat

definition resolver_state :: "'w dns_executor \<Rightarrow> ('w, ServiceState) io" where
  "resolver_state x =
     bind (dx_runner x (show_command ''systemd-resolved'') (min (dx_timeout x) 5))
       (\<lambda>(_, stdout). ret (parse_state stdout))"

definition flush_command :: "string list" where
  "flush_command = [''resolvectl'', ''flush-caches'']"

definition dns_execute :: "'w dns_executor \<Rightarrow> dict \<Rightarrow> ('w, JobResult) io" where
  "dns_execute x parameters =
     (if parameters \<noteq> [] then raise (ValueError ''dns.flush_cache accepts no parameters'')
      else bind (attempt run_failed (dx_runner x flush_command (dx_timeout x))) (\<lambda>flushed.
        case flushed of
          None \<Rightarrow> ret (failure_report [] ''flush-caches command failed to run'')
        | Some (code, _) \<Rightarrow>
            if code \<noteq> 0 then ret (failure_report [] ''flush-caches returned a non-zero exit code'')
            else bind (attempt run_failed (resolver_state x)) (\<lambda>after.
              case after of
                None \<Rightarrow> ret (failure_report [] ''post-flush verification failed'')
              | Some after \<Rightarrow>
                  if running_state after
                  then ret (success_report [(''resolver'', service_state_json after)])
                  else ret (failure_report [] ''resolver service unhealthy after cache flush''))))"

section \<open>Windows: service.restart\<close>

text \<open>The service manager raises \<open>ServiceControlError\<close> when an operation fails.\<close>

record WinServiceState =
  wss_exists :: bool
  wss_state :: string

record 'w service_manager =
  wm_query_state :: "string \<Rightarrow> ('w, WinServiceState) io"
  wm_restart :: "string \<Rightarrow> rat \<Rightarrow> ('w, unit) io"
  wm_stop :: "string \<Rightarrow> rat \<Rightarrow> ('w, unit) io"
  wm_start :: "string \<Rightarrow> rat \<Rightarrow> ('w, unit) io"

definition control_failed :: "py_error \<Rightarrow> bool" where
  "control_failed e = (case e of ServiceControlError _ \<Rightarrow> True | _ \<Rightarrow> False)"

definition win_state_json :: "WinServiceState \<Rightarrow> json" where
  "win_state_json s = JObj [(''exists'', JBool (wss_exists s)), (''state'', JStr (wss_state s))]"

definition win_unknown :: WinServiceState where
  "win_unknown = \<lparr>wss_exists = False, wss_state = ''unknown''\<rparr>"

record 'w win_restart_executor =
  we_allowed :: "string list"
  we_manager :: "'w service_manager"
  we_timeout :: rat

definition win_service_char :: "char \<Rightarrow> bool" where
  "win_service_char c = (let n = of_char c :: nat in (65 \<le> n \<and> n \<le> 90) \<or> (97 \<le> n \<and> n \<le> 122) \<or> (48 \<le> n \<and> n \<le> 57)
     \<or> c \<in> {CHR ''_'', CHR ''.'', CHR ''-'', CHR '' ''})"

definition win_service_name :: "string \<Rightarrow> bool" where
  "win_service_name s \<longleftrightarrow> 1 \<le> length s \<and> length s \<le> 256 \<and> list_all win_service_char s"

definition win_restart_executor_init ::
  "string list \<Rightarrow> 'w service_manager \<Rightarrow> rat \<Rightarrow> py_error + 'w win_restart_executor" where
  "win_restart_executor_init services manager timeout_seconds =
     (if services = [] \<or> \<not> list_all win_service_name services
      then Inl (ValueError ''a valid, non-empty service allowlist is required'')
      else Inr \<lparr>we_allowed = services, we_manager = manager, we_timeout = timeout_seconds\<rparr>)"

definition win_rollback ::
  "'w win_restart_executor \<Rightarrow> string \<Rightarrow> WinServiceState \<Rightarrow> string \<Rightarrow> ('w, JobResult) io" where
  "win_rollback x service before error =
     bind (catch control_failed
             (seq (if wss_state before = ''running'' then wm_start (we_manager x) service (we_timeout x)
                   else wm_stop (we_manager x) service (we_timeout x))
               (bind (wm_query_state (we_manager x) service)
                 (\<lambda>current. ret (wss_state current = wss_state before))))
             (\<lambda>_. ret False))
       (\<lambda>restored. ret (rollback_report [(''service'', JStr service), (''before'', win_state_json before)]
                          error restored))"

definition win_failure :: "string \<Rightarrow> WinServiceState \<Rightarrow> JobResult" where
  "win_failure error before = failure_report [(''before'', win_state_json before)] error"

definition win_check :: "'w win_restart_executor \<Rightarrow> string \<Rightarrow> WinServiceState \<Rightarrow> ('w, JobResult) io" where
  "win_check x service before =
     bind (attempt control_failed (wm_query_state (we_manager x) service)) (\<lambda>after.
       case after of
         None \<Rightarrow> win_rollback x service before ''post-restart verification failed''
       | Some after \<Rightarrow>
           if wss_state after = ''running''
           then ret (success_report [(''service'', JStr service), (''before'', win_state_json before),
                  (''after'', win_state_json after)])
           else win_rollback x service before ''post-restart verification failed'')"

definition win_apply :: "'w win_restart_executor \<Rightarrow> string \<Rightarrow> WinServiceState \<Rightarrow> ('w, JobResult) io" where
  "win_apply x service before =
     bind (attempt control_failed (wm_restart (we_manager x) service (we_timeout x))) (\<lambda>restarted.
       case restarted of
         None \<Rightarrow> win_rollback x service before ''restart failed''
       | Some _ \<Rightarrow> win_check x service before)"

definition win_restart_execute :: "'w win_restart_executor \<Rightarrow> dict \<Rightarrow> ('w, JobResult) io" where
  "win_restart_execute x parameters =
     (case dict_get parameters ''service'' of
        Some (JStr service) \<Rightarrow>
          if fst ` set parameters \<noteq> {''service''}
          then raise (ValueError ''service.restart accepts only a string service parameter'')
          else if service \<notin> set (we_allowed x) then raise (PermissionError ''service is not allowlisted'')
          else bind (attempt control_failed (wm_query_state (we_manager x) service)) (\<lambda>before.
            case before of
              None \<Rightarrow> ret (win_failure ''service precheck failed'' win_unknown)
            | Some before \<Rightarrow>
                if \<not> wss_exists before then ret (win_failure ''service is not installed'' before)
                else win_apply x service before)
      | _ \<Rightarrow> raise (ValueError ''service.restart accepts only a string service parameter''))"

definition win_verify_only :: "'w win_restart_executor \<Rightarrow> string \<Rightarrow> ('w, JobResult) io" where
  "win_verify_only x service =
     bind (attempt control_failed (wm_query_state (we_manager x) service)) (\<lambda>st.
       case st of
         None \<Rightarrow> ret (win_failure ''post-interruption verification failed'' win_unknown)
       | Some st \<Rightarrow>
           if wss_state st = ''running''
           then ret (success_report [(''service'', JStr service), (''after'', win_state_json st),
                  (''recovered'', JBool True)])
           else ret (win_failure
             ''service not healthy after an interrupted execution; manual verification required'' st))"

section \<open>Windows: dns.flush\_cache\<close>

type_synonym 'w dns_resolver = "('w, bool) io"

definition win_dns_execute :: "'w dns_resolver \<Rightarrow> dict \<Rightarrow> ('w, JobResult) io" where
  "win_dns_execute resolver parameters =
     (if parameters \<noteq> [] then raise (ValueError ''dns.flush_cache accepts no parameters'')
      else catch control_failed
        (bind resolver (\<lambda>flushed.
           ret (if flushed then success_report [(''flushed'', JBool True)]
                else failure_report [] ''DnsFlushResolverCache reported failure'')))
        (\<lambda>e. ret (failure_report []
           (''DnsFlushResolverCache failed: '' @ (case e of ServiceControlError m \<Rightarrow> m | _ \<Rightarrow> [])))))"

section \<open>The contract\<close>

text \<open>
  What an executor owes the control plane: verification is never claimed without success, a
  success has no error and no rollback, and a rollback's outcome is reported exactly when one
  was attempted.
\<close>

definition honest :: "JobResult \<Rightarrow> bool" where
  "honest r \<longleftrightarrow> (jr_success r \<longleftrightarrow> jr_verified r) \<and> (jr_success r \<longleftrightarrow> jr_error r = None)
     \<and> (jr_success r \<longrightarrow> \<not> jr_rollback_attempted r)
     \<and> (jr_rollback_attempted r \<longleftrightarrow> jr_rollback_succeeded r \<noteq> None)"

lemma honest_reports [simp]:
  "honest (failure_report out e)" "honest (success_report out)" "honest (rollback_report out e b)"
  by (simp_all add: honest_def failure_report_def success_report_def rollback_report_def)

lemma verified_msg:
  assumes "m \<in> set (report_msgs p device_id action_id b)" and "am_event_type m = ''execution.verified''"
  shows "jr_verified b"
  using assms by (auto simp: report_msgs_def msg_def Let_def split: if_splits)

locale job_executor =
  fixes execute :: "dict \<Rightarrow> ('w, JobResult) io"
  assumes reports_honestly: "execute ps w = (Done r, w') \<Longrightarrow> honest r"
begin

lemma status_of_report:
  assumes "execute ps w = (Done r, w')"
  shows "(report_status r = SUCCEEDED \<longleftrightarrow> jr_success r)
    \<and> (report_status r = FAILED \<longleftrightarrow> \<not> jr_success r \<and> \<not> jr_rollback_attempted r)
    \<and> (report_status r = ROLLED_BACK \<longleftrightarrow> jr_rollback_succeeded r = Some True)"
  using reports_honestly [OF assms] by (auto simp: honest_def report_status_def)

text \<open>A report of an honest executor announces a success only when the action succeeded.\<close>

lemma verified_event_means_success:
  assumes "execute ps w = (Done r, w')"
    and "m \<in> set (report_msgs p device_id action_id r)" and "am_event_type m = ''execution.verified''"
  shows "report_status r = SUCCEEDED"
  using reports_honestly [OF assms(1)] verified_msg [OF assms(2,3)]
  by (simp add: honest_def report_status_def)

end

lemma yields_json [yields_rules]:
  "(\<And>s. v = JStr s \<Longrightarrow> yields Q (f s)) \<Longrightarrow> yields Q m
   \<Longrightarrow> yields Q (case v of JStr s \<Rightarrow> f s | _ \<Rightarrow> m)"
  by (cases v) auto

lemma restart_execute_honest: "yields honest (restart_execute x ps)"
  unfolding restart_execute_def restart_apply_def restart_check_def restart_failure_def restart_rollback_def
  by (intro yields_rules) simp_all

lemma restart_verify_honest: "yields honest (restart_verify_only x service)"
  unfolding restart_verify_only_def restart_failure_def by (intro yields_rules) simp_all

lemma dns_execute_honest: "yields honest (dns_execute x ps)"
  unfolding dns_execute_def by (intro yields_rules) simp_all

lemma win_restart_execute_honest: "yields honest (win_restart_execute x ps)"
  unfolding win_restart_execute_def win_apply_def win_check_def win_failure_def win_rollback_def
  by (intro yields_rules) simp_all

lemma win_verify_honest: "yields honest (win_verify_only x service)"
  unfolding win_verify_only_def win_failure_def by (intro yields_rules) simp_all

lemma win_dns_execute_honest: "yields honest (win_dns_execute x ps)"
  unfolding win_dns_execute_def by (intro yields_rules) simp_all

interpretation linux_restart: job_executor "restart_execute x" for x
  by unfold_locales (rule yieldsD [OF restart_execute_honest])

interpretation linux_dns: job_executor "dns_execute x" for x
  by unfold_locales (rule yieldsD [OF dns_execute_honest])

interpretation windows_restart: job_executor "win_restart_execute x" for x
  by unfold_locales (rule yieldsD [OF win_restart_execute_honest])

interpretation windows_dns: job_executor "win_dns_execute x" for x
  by unfold_locales (rule yieldsD [OF win_dns_execute_honest])

section \<open>What a restart reports\<close>

lemma attempt_Some: "attempt p m w = (Done (Some a), w') \<longleftrightarrow> m w = (Done a, w')"
  by (auto simp: attempt_def catch_Done bind_Done)

lemma attempt_None: "attempt p m w = (Done None, w') \<longleftrightarrow> (\<exists>e. m w = (Raised e, w') \<and> p e)"
  by (auto simp: attempt_def catch_Done bind_def ret_def split: prod.splits outcome.splits)

lemma attempt_bindE:
  assumes "bind (attempt p m) k w = (Done r, w')"
  obtains (failed) e u where "m w = (Raised e, u)" and "p e" and "k None u = (Done r, w')"
  | (returned) a u where "m w = (Done a, u)" and "k (Some a) u = (Done r, w')"
proof -
  from assms obtain b u where b: "attempt p m w = (Done b, u)" and k: "k b u = (Done r, w')"
    by (auto simp: bind_Done)
  show thesis
  proof (cases b)
    case None
    with b k failed show thesis by (auto simp: attempt_None)
  next
    case (Some a)
    with b k returned show thesis by (auto simp: attempt_Some)
  qed
qed

lemma report_simps [simp]:
  "jr_success (success_report out)" "\<not> jr_success (failure_report out e)" "\<not> jr_success (rollback_report out e b)"
  "jr_rollback_succeeded (success_report out) = None" "jr_rollback_succeeded (failure_report out e) = None"
  "jr_rollback_succeeded (rollback_report out e b) = Some b"
  by (simp_all add: success_report_def failure_report_def rollback_report_def)

lemma restart_rollback_Done:
  assumes "restart_rollback x service before e w = (Done r, w')"
  obtains b where "r = rollback_report [(''service'', JStr service), (''before'', service_state_json before)] e b"
    and "b \<longrightarrow> (\<exists>w1 current. service_state x service w1 = (Done current, w') \<and> ss_active current = ss_active before)"
  using assms that unfolding restart_rollback_def by (auto simp: bind_Done catch_Done split: prod.splits)

lemma win_rollback_Done:
  assumes "win_rollback x service before e w = (Done r, w')"
  obtains b where "r = rollback_report [(''service'', JStr service), (''before'', win_state_json before)] e b"
    and "b \<longrightarrow> (\<exists>w1 current. wm_query_state (we_manager x) service w1 = (Done current, w')
           \<and> wss_state current = wss_state before)"
  using assms that unfolding win_rollback_def by (auto simp: bind_Done catch_Done seq_def)

lemma restart_check_Done:
  assumes "restart_check x service before w = (Done r, w')"
  shows "(\<exists>after. service_state x service w = (Done after, w') \<and> running_state after \<and> jr_success r
      \<and> jr_rollback_succeeded r = None)
    \<or> ((\<exists>w2 e. restart_rollback x service before e w2 = (Done r, w'))
      \<and> \<not> (\<exists>after w4. service_state x service w = (Done after, w4) \<and> running_state after))"
  using assms unfolding restart_check_def
  by (elim attempt_bindE) (auto split: if_splits)

lemma restart_apply_Done:
  assumes "restart_apply x service before w = (Done r, w')"
  shows "(\<exists>out w1 after. re_runner x (unit_command ''restart'' service) (re_timeout x) w = (Done (0, out), w1)
        \<and> service_state x service w1 = (Done after, w') \<and> running_state after
        \<and> jr_success r \<and> jr_rollback_succeeded r = None)
    \<or> ((\<exists>w2 e. restart_rollback x service before e w2 = (Done r, w'))
      \<and> \<not> (\<exists>out w1 after w4. re_runner x (unit_command ''restart'' service) (re_timeout x) w = (Done (0, out), w1)
              \<and> service_state x service w1 = (Done after, w4) \<and> running_state after))"
  using assms unfolding restart_apply_def
proof (elim attempt_bindE)
  fix e u
  assume "re_runner x (unit_command ''restart'' service) (re_timeout x) w = (Raised e, u)"
    and "(case None of None \<Rightarrow> restart_rollback x service before ''restart timed out''
       | Some (code, _) \<Rightarrow> if code \<noteq> (0 :: int) then restart_rollback x service before ''restart failed''
           else restart_check x service before) u = (Done r, w')"
  then show ?thesis by auto
next
  fix a u
  assume a: "re_runner x (unit_command ''restart'' service) (re_timeout x) w = (Done a, u)"
    and k: "(case Some a of None \<Rightarrow> restart_rollback x service before ''restart timed out''
       | Some (code, _) \<Rightarrow> if code \<noteq> (0 :: int) then restart_rollback x service before ''restart failed''
           else restart_check x service before) u = (Done r, w')"
  obtain code out where [simp]: "a = (code, out)" by (cases a)
  show ?thesis
  proof (cases "code = 0")
    case True
    with k have "restart_check x service before u = (Done r, w')" by simp
    from restart_check_Done [OF this] a True show ?thesis by auto
  next
    case False
    with k a show ?thesis by auto
  qed
qed

lemma restart_execute_Done:
  assumes "restart_execute x ps w = (Done r, w')"
  obtains service where "dict_get ps ''service'' = Some (JStr service)" and "fst ` set ps = {''service''}"
    and "service \<in> set (re_allowed x)"
    and "(\<exists>e. service_state x service w = (Raised e, w') \<and> r = restart_failure ''service precheck failed'' unknown_state)
      \<or> (\<exists>before. service_state x service w = (Done before, w') \<and> ss_load before \<noteq> ''loaded''
          \<and> r = restart_failure ''service unit is not loaded'' before)
      \<or> (\<exists>before w1. service_state x service w = (Done before, w1) \<and> ss_load before = ''loaded''
          \<and> restart_apply x service before w1 = (Done r, w'))"
proof -
  from assms obtain service where d: "dict_get ps ''service'' = Some (JStr service)" "fst ` set ps = {''service''}"
      "service \<in> set (re_allowed x)"
    by (auto simp: restart_execute_def split: option.splits json.splits if_splits)
  with assms have "bind (attempt run_failed (service_state x service)) (\<lambda>before.
            case before of
              None \<Rightarrow> ret (restart_failure ''service precheck failed'' unknown_state)
            | Some before \<Rightarrow>
                if ss_load before \<noteq> ''loaded'' then ret (restart_failure ''service unit is not loaded'' before)
                else restart_apply x service before) w = (Done r, w')"
    by (simp add: restart_execute_def)
  then show thesis
    by (elim attempt_bindE) (auto intro!: that [OF d] split: if_splits)
qed

text \<open>
  What a restart on Linux reports.  A completed \<open>service.restart\<close> was for a single service
  of the executor's allowlist; it reports success exactly when the unit was loaded, \<open>systemctl
  restart\<close> returned zero and the last thing the executor did was to observe the service active
  and running; and it reports a successful rollback only when its last observation showed the
  activity the service had before.
\<close>

theorem restart_success_observed:
  assumes "restart_execute x ps w = (Done r, w')"
  shows "\<exists>service. dict_get ps ''service'' = Some (JStr service) \<and> service \<in> set (re_allowed x)
    \<and> (jr_success r \<longleftrightarrow>
        (\<exists>before w1 out w2 after. service_state x service w = (Done before, w1) \<and> ss_load before = ''loaded''
          \<and> re_runner x (unit_command ''restart'' service) (re_timeout x) w1 = (Done (0, out), w2)
          \<and> service_state x service w2 = (Done after, w') \<and> running_state after))
    \<and> (jr_rollback_succeeded r = Some True \<longrightarrow>
        (\<exists>before w1 w2 current. service_state x service w = (Done before, w1)
          \<and> service_state x service w2 = (Done current, w') \<and> ss_active current = ss_active before))"
proof -
  from assms obtain service where
    d: "dict_get ps ''service'' = Some (JStr service)" "fst ` set ps = {''service''}" "service \<in> set (re_allowed x)"
    and c: "(\<exists>e. service_state x service w = (Raised e, w') \<and> r = restart_failure ''service precheck failed'' unknown_state)
      \<or> (\<exists>before. service_state x service w = (Done before, w') \<and> ss_load before \<noteq> ''loaded''
          \<and> r = restart_failure ''service unit is not loaded'' before)
      \<or> (\<exists>before w1. service_state x service w = (Done before, w1) \<and> ss_load before = ''loaded''
          \<and> restart_apply x service before w1 = (Done r, w'))" by (rule restart_execute_Done)
  from c consider (refused) "\<not> jr_success r" "jr_rollback_succeeded r = None"
      "\<not> (\<exists>before w1. service_state x service w = (Done before, w1) \<and> ss_load before = ''loaded'')"
    | (applied) before w1 where "service_state x service w = (Done before, w1)" "ss_load before = ''loaded''"
      "restart_apply x service before w1 = (Done r, w')"
    by (auto simp: restart_failure_def)
  then show ?thesis
  proof cases
    case refused
    then show ?thesis using d by (intro exI [of _ service]) auto
  next
    case applied
    from restart_apply_Done [OF applied(3)] show ?thesis
    proof
      assume "\<exists>out w2 after. re_runner x (unit_command ''restart'' service) (re_timeout x) w1 = (Done (0, out), w2)
        \<and> service_state x service w2 = (Done after, w') \<and> running_state after
        \<and> jr_success r \<and> jr_rollback_succeeded r = None"
      then show ?thesis using d applied by (intro exI [of _ service]) auto
    next
      assume n: "(\<exists>w2 e. restart_rollback x service before e w2 = (Done r, w'))
        \<and> \<not> (\<exists>out w2 after w4. re_runner x (unit_command ''restart'' service) (re_timeout x) w1 = (Done (0, out), w2)
              \<and> service_state x service w2 = (Done after, w4) \<and> running_state after)"
      then obtain w2 e where "restart_rollback x service before e w2 = (Done r, w')" by blast
      then obtain b where
        b: "r = rollback_report [(''service'', JStr service), (''before'', service_state_json before)] e b"
          "b \<longrightarrow> (\<exists>w1 current. service_state x service w1 = (Done current, w') \<and> ss_active current = ss_active before)"
        by (rule restart_rollback_Done)
      have f: "\<not> jr_success r" and rb: "jr_rollback_succeeded r = Some b" using b(1) by simp_all
      have no: "\<not> (\<exists>before w1 out w2 after. service_state x service w = (Done before, w1) \<and> ss_load before = ''loaded''
          \<and> re_runner x (unit_command ''restart'' service) (re_timeout x) w1 = (Done (0, out), w2)
          \<and> service_state x service w2 = (Done after, w') \<and> running_state after)"
        using n applied(1) by (metis Pair_inject outcome.inject(1))
      have undone: "\<exists>before w1 w2 current. service_state x service w = (Done before, w1)
          \<and> service_state x service w2 = (Done current, w') \<and> ss_active current = ss_active before"
        if "jr_rollback_succeeded r = Some True"
      proof -
        from that rb b(2) obtain w3 current where "service_state x service w3 = (Done current, w')"
          "ss_active current = ss_active before" by auto
        with applied(1) show ?thesis by (intro exI conjI)
      qed
      show ?thesis
        by (intro exI [of _ service] conjI impI iffI, rule d(1), rule d(3))
           (use f in simp, use no in simp, rule undone)
    qed
  qed
qed

text \<open>A scripted machine: the commands answered in turn, and the ones issued so far.\<close>

definition demo_run :: "(int \<times> string) list \<Rightarrow> string list list runner" where
  "demo_run answers cmd timeout issued =
     (if length issued < length answers then (Done (answers ! length issued), issued @ [cmd])
      else (Raised (OSError ''no answer''), issued @ [cmd]))"

definition demo_show :: "string \<Rightarrow> string \<Rightarrow> string" where
  "demo_show active sub = ''LoadState=loaded'' @ [CHR 0x0A] @ ''ActiveState='' @ active @ [CHR 0x0A]
     @ ''SubState='' @ sub"

definition demo_restart :: "string list list restart_executor" where
  "demo_restart = \<lparr>re_allowed = [''nginx''],
     re_runner = demo_run [(0, demo_show ''failed'' ''dead''), (0, []), (0, demo_show ''active'' ''running'')],
     re_timeout = 15\<rparr>"

lemma demo_states:
  "parse_state (demo_show ''failed'' ''dead'') = \<lparr>ss_load = ''loaded'', ss_active = ''failed'', ss_sub = ''dead''\<rparr>"
  "parse_state (demo_show ''active'' ''running'') = \<lparr>ss_load = ''loaded'', ss_active = ''active'', ss_sub = ''running''\<rparr>"
  by code_simp+

theorem restart_success_observed_witness:
  "\<exists>r w'. restart_execute demo_restart [(''service'', JStr ''nginx'')] [] = (Done r, w') \<and> jr_success r
     \<and> w' = [show_command ''nginx'', unit_command ''restart'' ''nginx'', show_command ''nginx'']"
proof -
  have "\<exists>r w'. restart_execute demo_restart [(''service'', JStr ''nginx'')] [] = (Done r, w')
     \<and> w' = [show_command ''nginx'', unit_command ''restart'' ''nginx'', show_command ''nginx'']"
    by (simp add: restart_execute_def dict_get_def demo_restart_def service_state_def attempt_def demo_run_def
        io_defs restart_apply_def restart_check_def demo_states running_state_def)
  then obtain r w' where r: "restart_execute demo_restart [(''service'', JStr ''nginx'')] [] = (Done r, w')"
    "w' = [show_command ''nginx'', unit_command ''restart'' ''nginx'', show_command ''nginx'']" by blast
  have "jr_success r"
    using restart_success_observed [OF r(1)] r(2)
    by (simp add: dict_get_def demo_restart_def service_state_def demo_run_def io_defs demo_states running_state_def)
  with r show ?thesis by blast
qed

section \<open>Windows\<close>

lemma win_apply_Done:
  assumes "win_apply x service before w = (Done r, w')"
  shows "(\<exists>w1 after. wm_restart (we_manager x) service (we_timeout x) w = (Done (), w1)
        \<and> wm_query_state (we_manager x) service w1 = (Done after, w') \<and> wss_state after = ''running''
        \<and> jr_success r \<and> jr_rollback_succeeded r = None)
    \<or> ((\<exists>w2 e. win_rollback x service before e w2 = (Done r, w'))
      \<and> \<not> (\<exists>w1 after w4. wm_restart (we_manager x) service (we_timeout x) w = (Done (), w1)
              \<and> wm_query_state (we_manager x) service w1 = (Done after, w4) \<and> wss_state after = ''running''))"
  using assms unfolding win_apply_def
proof (elim attempt_bindE)
  fix a u
  assume a: "wm_restart (we_manager x) service (we_timeout x) w = (Done a, u)"
    and "(case Some a of None \<Rightarrow> win_rollback x service before ''restart failed''
       | Some _ \<Rightarrow> win_check x service before) u = (Done r, w')"
  then have "win_check x service before u = (Done r, w')" by simp
  then have "(\<exists>after. wm_query_state (we_manager x) service u = (Done after, w') \<and> wss_state after = ''running''
        \<and> jr_success r \<and> jr_rollback_succeeded r = None)
    \<or> ((\<exists>w2 e. win_rollback x service before e w2 = (Done r, w'))
      \<and> \<not> (\<exists>after w4. wm_query_state (we_manager x) service u = (Done after, w4) \<and> wss_state after = ''running''))"
    unfolding win_check_def by (elim attempt_bindE) (auto split: if_splits)
  with a show ?thesis by auto
qed auto

text \<open>
  What a restart on Windows reports.  A completed \<open>service.restart\<close> was for a single
  service of the executor's allowlist; it reports success exactly when the service was installed,
  the service manager restarted it without an error and the last thing the executor did was to
  observe it running; and it reports a successful rollback only when its last observation showed
  the state the service had before.
\<close>

theorem windows_restart_success_observed:
  assumes "win_restart_execute x ps w = (Done r, w')"
  shows "\<exists>service. dict_get ps ''service'' = Some (JStr service) \<and> service \<in> set (we_allowed x)
    \<and> (jr_success r \<longleftrightarrow>
        (\<exists>before w1 w2 after. wm_query_state (we_manager x) service w = (Done before, w1) \<and> wss_exists before
          \<and> wm_restart (we_manager x) service (we_timeout x) w1 = (Done (), w2)
          \<and> wm_query_state (we_manager x) service w2 = (Done after, w') \<and> wss_state after = ''running''))
    \<and> (jr_rollback_succeeded r = Some True \<longrightarrow>
        (\<exists>before w1 w2 current. wm_query_state (we_manager x) service w = (Done before, w1)
          \<and> wm_query_state (we_manager x) service w2 = (Done current, w') \<and> wss_state current = wss_state before))"
proof -
  from assms obtain service where d: "dict_get ps ''service'' = Some (JStr service)" "fst ` set ps = {''service''}"
      "service \<in> set (we_allowed x)"
    by (auto simp: win_restart_execute_def split: option.splits json.splits if_splits)
  let ?q = "wm_query_state (we_manager x) service"
  from d assms have "bind (attempt control_failed ?q) (\<lambda>before.
            case before of
              None \<Rightarrow> ret (win_failure ''service precheck failed'' win_unknown)
            | Some before \<Rightarrow>
                if \<not> wss_exists before then ret (win_failure ''service is not installed'' before)
                else win_apply x service before) w = (Done r, w')"
    by (simp add: win_restart_execute_def)
  then consider (refused) "\<not> jr_success r" "jr_rollback_succeeded r = None"
      "\<not> (\<exists>before w1. ?q w = (Done before, w1) \<and> wss_exists before)"
    | (applied) before w1 where "?q w = (Done before, w1)" "wss_exists before" "win_apply x service before w1 = (Done r, w')"
    by (elim attempt_bindE) (auto simp: win_failure_def split: if_splits)
  then show ?thesis
  proof cases
    case refused
    then show ?thesis using d by (intro exI [of _ service]) auto
  next
    case applied
    from win_apply_Done [OF applied(3)] show ?thesis
    proof
      assume "\<exists>w2 after. wm_restart (we_manager x) service (we_timeout x) w1 = (Done (), w2)
        \<and> ?q w2 = (Done after, w') \<and> wss_state after = ''running'' \<and> jr_success r \<and> jr_rollback_succeeded r = None"
      then show ?thesis using d applied by (intro exI [of _ service]) auto
    next
      assume n: "(\<exists>w2 e. win_rollback x service before e w2 = (Done r, w'))
        \<and> \<not> (\<exists>w2 after w4. wm_restart (we_manager x) service (we_timeout x) w1 = (Done (), w2)
              \<and> ?q w2 = (Done after, w4) \<and> wss_state after = ''running'')"
      then obtain w2 e where "win_rollback x service before e w2 = (Done r, w')" by blast
      then obtain b where
        b: "r = rollback_report [(''service'', JStr service), (''before'', win_state_json before)] e b"
          "b \<longrightarrow> (\<exists>w1 current. ?q w1 = (Done current, w') \<and> wss_state current = wss_state before)"
        by (rule win_rollback_Done)
      have f: "\<not> jr_success r" and rb: "jr_rollback_succeeded r = Some b" using b(1) by simp_all
      have no: "\<not> (\<exists>before w1 w2 after. ?q w = (Done before, w1) \<and> wss_exists before
          \<and> wm_restart (we_manager x) service (we_timeout x) w1 = (Done (), w2)
          \<and> ?q w2 = (Done after, w') \<and> wss_state after = ''running'')"
        using n applied(1) by (metis Pair_inject outcome.inject(1))
      have undone: "\<exists>before w1 w2 current. ?q w = (Done before, w1)
          \<and> ?q w2 = (Done current, w') \<and> wss_state current = wss_state before"
        if "jr_rollback_succeeded r = Some True"
      proof -
        from that rb b(2) obtain w3 current where "?q w3 = (Done current, w')" "wss_state current = wss_state before" by auto
        with applied(1) show ?thesis by (intro exI conjI)
      qed
      show ?thesis
        by (intro exI [of _ service] conjI impI iffI, rule d(1), rule d(3))
           (use f in simp, use no in simp, rule undone)
    qed
  qed
qed

text \<open>A scripted service manager: the state of one service, and whether a restart works.\<close>

definition demo_manager :: "bool \<Rightarrow> string service_manager" where
  "demo_manager works =
     \<lparr>wm_query_state = (\<lambda>_ st. (Done \<lparr>wss_exists = True, wss_state = st\<rparr>, st)),
      wm_restart = (\<lambda>_ _ st. if works then (Done (), ''running'')
                             else (Raised (ServiceControlError ''stop timed out''), ''stop_pending'')),
      wm_stop = (\<lambda>_ _ _. (Done (), ''stopped'')), wm_start = (\<lambda>_ _ _. (Done (), ''running''))\<rparr>"

definition demo_win :: "bool \<Rightarrow> string win_restart_executor" where
  "demo_win works = \<lparr>we_allowed = [''Spooler''], we_manager = demo_manager works, we_timeout = 20\<rparr>"

theorem windows_restart_success_observed_witness:
  "\<exists>r. win_restart_execute (demo_win False) [(''service'', JStr ''Spooler'')] ''running'' = (Done r, ''running'')
     \<and> \<not> jr_success r \<and> jr_rollback_succeeded r = Some True"
proof -
  have "\<exists>r. win_restart_execute (demo_win False) [(''service'', JStr ''Spooler'')] ''running'' = (Done r, ''running'')
     \<and> jr_rollback_succeeded r = Some True"
    by (simp add: win_restart_execute_def dict_get_def demo_win_def demo_manager_def attempt_def io_defs win_apply_def
        win_rollback_def control_failed_def)
  then obtain r where r: "win_restart_execute (demo_win False) [(''service'', JStr ''Spooler'')] ''running'' = (Done r, ''running'')"
    "jr_rollback_succeeded r = Some True" by blast
  have "\<not> jr_success r"
    using windows_restart_success_observed [OF r(1)] by (simp add: dict_get_def demo_win_def demo_manager_def)
  with r show ?thesis by blast
qed

section \<open>Which commands are run\<close>

lemma keeps_attempt [keeps_rules]: "reflp R \<Longrightarrow> transp R \<Longrightarrow> keeps R m \<Longrightarrow> keeps R (attempt p m)"
  unfolding attempt_def by (intro keeps_rules)

lemma keeps_service_state [keeps_rules]:
  "reflp R \<Longrightarrow> transp R \<Longrightarrow> (\<And>t. keeps R (re_runner x (show_command service) t)) \<Longrightarrow> keeps R (service_state x service)"
  unfolding service_state_def by (intro keeps_rules)

definition permitted :: "string list \<Rightarrow> string list \<Rightarrow> bool" where
  "permitted services cmd \<longleftrightarrow> (\<exists>s \<in> set services.
     cmd = show_command s \<or> cmd = unit_command ''restart'' s \<or> cmd = unit_command ''stop'' s)"

text \<open>
  C39.  Which commands the Linux executors run.  Every relation between endpoint states that is
  kept by showing, restarting and stopping the services of the allowlist is kept by a call of
  \<open>service.restart\<close> with any parameters; every one kept by showing a service is kept by
  \<open>verify_only\<close> of that service; and every one kept by flushing the resolver's cache and
  showing its state is kept by \<open>dns.flush_cache\<close>.  So no other command is ever run, whatever the
  parameters of the job, and recovery after an interruption only observes.
\<close>

theorem linux_commands_confined:
  assumes R: "reflp R" "transp R"
  shows "((\<forall>cmd t. permitted (re_allowed x) cmd \<longrightarrow> keeps R (re_runner x cmd t)) \<longrightarrow> keeps R (restart_execute x ps))
    \<and> ((\<forall>t. keeps R (re_runner x (show_command service) t)) \<longrightarrow> keeps R (restart_verify_only x service))
    \<and> ((\<forall>t. keeps R (dx_runner y flush_command t) \<and> keeps R (dx_runner y (show_command ''systemd-resolved'') t))
          \<longrightarrow> keeps R (dns_execute y ps))"
proof (intro conjI impI)
  assume p: "\<forall>cmd t. permitted (re_allowed x) cmd \<longrightarrow> keeps R (re_runner x cmd t)"
  have roll: "keeps R (restart_rollback x s before e)" if "s \<in> set (re_allowed x)" for s before e
    unfolding restart_rollback_def using p that R
    by (intro keeps_rules) (auto simp: permitted_def)
  have run: "keeps R (restart_apply x s before)" if "s \<in> set (re_allowed x)" for s before
    unfolding restart_apply_def restart_check_def using p that R
    by (intro keeps_rules roll) (auto simp: permitted_def)
  have show': "keeps R (service_state x s)" if "s \<in> set (re_allowed x)" for s
    using p that R by (intro keeps_rules) (auto simp: permitted_def)
  show "keeps R (restart_execute x ps)"
  proof (cases "\<exists>s. dict_get ps ''service'' = Some (JStr s)")
    case True
    then show ?thesis unfolding restart_execute_def using R
      by (auto intro!: keeps_rules run show')
  next
    case False
    then show ?thesis unfolding restart_execute_def using R
      by (auto intro!: keeps_raise split: option.split json.split)
  qed
next
  assume "\<forall>t. keeps R (re_runner x (show_command service) t)"
  with R show "keeps R (restart_verify_only x service)"
    unfolding restart_verify_only_def by (intro keeps_rules) auto
next
  assume "\<forall>t. keeps R (dx_runner y flush_command t) \<and> keeps R (dx_runner y (show_command ''systemd-resolved'') t)"
  with R show "keeps R (dns_execute y ps)"
    unfolding dns_execute_def resolver_state_def by (intro keeps_rules) auto
qed

definition logged :: "string list list \<Rightarrow> string list list \<Rightarrow> bool" where
  "logged w w' \<longleftrightarrow> (\<exists>new. w' = w @ new \<and> list_all (permitted [''nginx'']) new)"

lemma logged_order: "reflp logged" "transp logged"
  by (auto simp: logged_def intro!: reflpI transpI)

theorem linux_commands_confined_witness:
  "list_all (permitted [''nginx'']) (snd (restart_execute demo_restart [(''service'', JStr ''nginx'')] []))
   \<and> snd (restart_execute demo_restart [(''service'', JStr ''nginx'')] []) \<noteq> []"
proof -
  have run: "keeps logged (demo_run a cmd t)" if "permitted [''nginx''] cmd" for a cmd t
    using that by (auto intro!: keepsI simp: demo_run_def logged_def split: if_splits)
  have "keeps logged (restart_execute demo_restart [(''service'', JStr ''nginx'')])"
    using linux_commands_confined [OF logged_order, where x = demo_restart] run
    by (simp add: demo_restart_def)
  moreover have "snd (restart_execute demo_restart [(''service'', JStr ''nginx'')] []) \<noteq> []"
    by (simp add: restart_execute_def dict_get_def demo_restart_def service_state_def attempt_def demo_run_def
        io_defs restart_apply_def restart_check_def demo_states running_state_def)
  ultimately show ?thesis unfolding keeps_def logged_def by (metis append_Nil)
qed

end
