(* ===== verification/Journal.thy ===== *)
theory Journal
  imports Domain "HOL-Library.AList"
begin

text \<open>
  \<open>agent_common/journal.py\<close>: the durable execution journal of the endpoint agents.  The entries
  are an association list in the order of the Python dictionary; the file is the JSON value
  that is written (\<open>json.dumps\<close> and \<open>json.loads\<close> are inverse on the values an agent writes).
  Writing the file is an effect of the agent and modelled there.
\<close>

section \<open>Entries\<close>

datatype JournalState = J_CLAIMED | J_EXECUTING | J_EXECUTED | J_REPORTED

fun JournalState_value :: "JournalState \<Rightarrow> string" where
  "JournalState_value J_CLAIMED = ''claimed''"
| "JournalState_value J_EXECUTING = ''executing''"
| "JournalState_value J_EXECUTED = ''executed''"
| "JournalState_value J_REPORTED = ''reported''"

definition parse_JournalState :: "string \<Rightarrow> JournalState option" where
  "parse_JournalState v = List.find (\<lambda>x. JournalState_value x = v) [J_CLAIMED, J_EXECUTING, J_EXECUTED, J_REPORTED]"

lemma parse_JournalState_value [simp]: "parse_JournalState (JournalState_value x) = Some x"
  by (cases x) (simp_all add: parse_JournalState_def)

record JournalEntry =
  jn_job_id :: string
  jn_action_id :: string
  jn_attempt :: int
  jn_nonce :: string
  jn_claim_token :: string
  jn_idempotency_key :: string
  jn_skill_id :: string
  jn_parameters :: dict
  jn_state :: JournalState
  jn_result :: "dict option"
  jn_updated_at :: string

type_synonym entries = "(string \<times> JournalEntry) list"

section \<open>The file\<close>

datatype journal_file = Missing | Garbled | Json json

definition opt_obj :: "dict option \<Rightarrow> json" where
  "opt_obj x = (case x of None \<Rightarrow> JNull | Some d \<Rightarrow> JObj d)"

text \<open>\<open>asdict(entry)\<close>.\<close>

definition entry_json :: "JournalEntry \<Rightarrow> json" where
  "entry_json e = JObj
     [(''job_id'', JStr (jn_job_id e)), (''action_id'', JStr (jn_action_id e)),
      (''attempt'', JInt (jn_attempt e)), (''nonce'', JStr (jn_nonce e)),
      (''claim_token'', JStr (jn_claim_token e)), (''idempotency_key'', JStr (jn_idempotency_key e)),
      (''skill_id'', JStr (jn_skill_id e)), (''parameters'', JObj (jn_parameters e)),
      (''state'', JStr (JournalState_value (jn_state e))), (''result'', opt_obj (jn_result e)),
      (''updated_at'', JStr (jn_updated_at e))]"

definition journal_json :: "entries \<Rightarrow> journal_file" where
  "journal_json es = Json (JObj (map (\<lambda>(k, e). (k, entry_json e)) es))"

text \<open>
  \<open>JournalEntry(**value)\<close>: unknown and missing names are a \<open>TypeError\<close>, which skips the entry;
  the last two fields have defaults.  (A field of another type, which no agent writes, is
  skipped as well.)
\<close>

definition entry_fields :: "string list" where
  "entry_fields = [''job_id'', ''action_id'', ''attempt'', ''nonce'', ''claim_token'', ''idempotency_key'',
     ''skill_id'', ''parameters'', ''state'', ''result'', ''updated_at'']"

definition get_str :: "dict \<Rightarrow> string \<Rightarrow> string option" where
  "get_str d k = (case dict_get d k of Some (JStr s) \<Rightarrow> Some s | _ \<Rightarrow> None)"

definition get_obj :: "dict \<Rightarrow> string \<Rightarrow> dict option" where
  "get_obj d k = (case dict_get d k of Some (JObj s) \<Rightarrow> Some s | _ \<Rightarrow> None)"

definition get_int :: "dict \<Rightarrow> string \<Rightarrow> int option" where
  "get_int d k = (case dict_get d k of Some (JInt s) \<Rightarrow> Some s | _ \<Rightarrow> None)"

definition entry_of_dict :: "dict \<Rightarrow> JournalEntry option" where
  "entry_of_dict d =
     (if \<not> fst ` set d \<subseteq> set entry_fields then None
      else case (get_str d ''job_id'', get_str d ''action_id'', get_int d ''attempt'', get_str d ''nonce'',
             get_str d ''claim_token'', get_str d ''idempotency_key'', get_str d ''skill_id'', get_obj d ''parameters'',
             Option.bind (get_str d ''state'') parse_JournalState) of
        (Some j, Some a, Some n, Some nc, Some tk, Some ik, Some sk, Some ps, Some st) \<Rightarrow>
          Some \<lparr>jn_job_id = j, jn_action_id = a, jn_attempt = n, jn_nonce = nc, jn_claim_token = tk,
            jn_idempotency_key = ik, jn_skill_id = sk, jn_parameters = ps, jn_state = st,
            jn_result = get_obj d ''result'',
            jn_updated_at = (case get_str d ''updated_at'' of None \<Rightarrow> [] | Some u \<Rightarrow> u)\<rparr>
      | _ \<Rightarrow> None)"

fun load_items :: "dict \<Rightarrow> entries" where
  "load_items [] = []"
| "load_items ((k, v) # kvs) =
     (case v of
        JObj d \<Rightarrow> (case entry_of_dict d of None \<Rightarrow> load_items kvs | Some e \<Rightarrow> (k, e) # load_items kvs)
      | _ \<Rightarrow> load_items kvs)"

definition journal_load :: "journal_file \<Rightarrow> py_error + entries" where
  "journal_load f =
     (case f of
        Json (JObj kvs) \<Rightarrow> Inr (load_items kvs)
      | Json _ \<Rightarrow> Inl (AttributeError ''items'')
      | _ \<Rightarrow> Inr [])"

section \<open>Operations\<close>

definition seen :: "string \<Rightarrow> entries \<Rightarrow> bool" where
  "seen job_id es \<longleftrightarrow> job_id \<in> fst ` set es"

definition record_claimed ::
  "string \<Rightarrow> string \<Rightarrow> int \<Rightarrow> string \<Rightarrow> string \<Rightarrow> string \<Rightarrow> string \<Rightarrow> dict \<Rightarrow> string \<Rightarrow> entries \<Rightarrow> entries" where
  "record_claimed job_id action_id attempt nonce claim_token idempotency_key skill_id parameters now es =
     AList.update job_id
       \<lparr>jn_job_id = job_id, jn_action_id = action_id, jn_attempt = attempt, jn_nonce = nonce,
        jn_claim_token = claim_token, jn_idempotency_key = idempotency_key, jn_skill_id = skill_id,
        jn_parameters = parameters, jn_state = J_CLAIMED, jn_result = None, jn_updated_at = now\<rparr> es"

definition mark_executing :: "string \<Rightarrow> string \<Rightarrow> entries \<Rightarrow> entries option" where
  "mark_executing job_id now es =
     (case map_of es job_id of None \<Rightarrow> None
      | Some e \<Rightarrow> Some (AList.update job_id (e\<lparr>jn_state := J_EXECUTING, jn_updated_at := now\<rparr>) es))"

definition mark_executed :: "string \<Rightarrow> dict \<Rightarrow> string \<Rightarrow> entries \<Rightarrow> entries option" where
  "mark_executed job_id result now es =
     (case map_of es job_id of None \<Rightarrow> None
      | Some e \<Rightarrow> Some (AList.update job_id
          (e\<lparr>jn_state := J_EXECUTED, jn_result := Some result, jn_updated_at := now\<rparr>) es))"

definition mark_reported :: "string \<Rightarrow> string \<Rightarrow> entries \<Rightarrow> entries option" where
  "mark_reported job_id now es =
     (case map_of es job_id of None \<Rightarrow> None
      | Some e \<Rightarrow> Some (AList.update job_id (e\<lparr>jn_state := J_REPORTED, jn_updated_at := now\<rparr>) es))"

definition pending :: "entries \<Rightarrow> JournalEntry list" where
  "pending es = sort_key jn_updated_at (filter (\<lambda>e. jn_state e \<noteq> J_REPORTED) (map snd es))"

fun prune_entries :: "JournalEntry list \<Rightarrow> entries \<Rightarrow> py_error + entries" where
  "prune_entries [] es = Inr es"
| "prune_entries (e # r) es =
     (if \<not> seen (jn_job_id e) es then Inl (KeyError (jn_job_id e))
      else prune_entries r (AList.delete (jn_job_id e) es))"

text \<open>\<open>None\<close>: nothing to prune, and nothing is written.\<close>

definition prune_reported :: "nat \<Rightarrow> entries \<Rightarrow> (py_error + entries) option" where
  "prune_reported keep es =
     (let reported = sort_key jn_updated_at (filter (\<lambda>e. jn_state e = J_REPORTED) (map snd es))
      in if length reported \<le> keep then None
         else Some (prune_entries (take (length reported - keep) reported) es))"

section \<open>Laws\<close>

lemma get_simps [simp]:
  "get_str ((k, v) # d) k' = (if k = k' then (case v of JStr s \<Rightarrow> Some s | _ \<Rightarrow> None) else get_str d k')"
  "get_obj ((k, v) # d) k' = (if k = k' then (case v of JObj s \<Rightarrow> Some s | _ \<Rightarrow> None) else get_obj d k')"
  "get_int ((k, v) # d) k' = (if k = k' then (case v of JInt s \<Rightarrow> Some s | _ \<Rightarrow> None) else get_int d k')"
  by (simp_all add: get_str_def get_obj_def get_int_def dict_get_def)

lemma entry_json_dict: "\<exists>d. entry_json e = JObj d \<and> entry_of_dict d = Some e"
proof -
  have o: "(case opt_obj (jn_result e) of JObj s \<Rightarrow> Some s | _ \<Rightarrow> None) = jn_result e"
    by (cases "jn_result e") (simp_all add: opt_obj_def)
  show ?thesis by (simp add: entry_json_def entry_of_dict_def entry_fields_def o)
qed

lemma load_items_json: "load_items (map (\<lambda>(k, e). (k, entry_json e)) es) = es"
proof (induction es)
  case (Cons p es)
  obtain k e where p: "p = (k, e)" by (cases p)
  from entry_json_dict obtain d where "entry_json e = JObj d" "entry_of_dict d = Some e" by blast
  with Cons p show ?case by simp
qed simp

lemma journal_load_json [simp]: "journal_load (journal_json es) = Inr es"
  by (simp add: journal_load_def journal_json_def load_items_json)

lemma seen_update [simp]: "seen j (AList.update k e es) \<longleftrightarrow> j = k \<or> seen j es"
  by (auto simp: seen_def dom_update)

lemma seen_iff: "seen j es \<longleftrightarrow> map_of es j \<noteq> None"
  by (simp add: seen_def map_of_eq_None_iff)

lemma map_of_entry_update [simp]: "map_of (AList.update k e es) j = (if j = k then Some e else map_of es j)"
  by (simp add: update_conv')

text \<open>Every entry is filed under its own job.\<close>

definition keyed :: "entries \<Rightarrow> bool" where
  "keyed es \<longleftrightarrow> distinct (map fst es) \<and> (\<forall>k e. map_of es k = Some e \<longrightarrow> jn_job_id e = k)"

lemma keyed_Nil [simp]: "keyed []"
  by (simp add: keyed_def)

lemma keyed_update: "keyed es \<Longrightarrow> jn_job_id e = k \<Longrightarrow> keyed (AList.update k e es)"
  by (simp add: keyed_def distinct_update)

lemma keyed_record_claimed: "keyed es \<Longrightarrow> keyed (record_claimed j a n nc tk ik sk ps now es)"
  by (simp add: record_claimed_def keyed_update)

lemma map_of_entry_delete: "map_of (AList.delete k es) j = (if j = k then None else map_of es j)"
  by (simp add: delete_conv')

lemma keyed_delete: "keyed es \<Longrightarrow> keyed (AList.delete k es)"
  by (auto simp: keyed_def distinct_delete map_of_entry_delete)

lemma keyed_entries:
  assumes "keyed es" and "e \<in> snd ` set es"
  shows "map_of es (jn_job_id e) = Some e"
proof -
  from assms(2) obtain k where k: "(k, e) \<in> set es" by auto
  with assms(1) have "map_of es k = Some e" by (simp add: keyed_def)
  with assms(1) show ?thesis by (auto simp: keyed_def)
qed

lemma keyed_distinct: "keyed es \<Longrightarrow> distinct (map jn_job_id (map snd es))"
proof -
  assume k: "keyed es"
  have "map jn_job_id (map snd es) = map fst es"
  proof (rule nth_equalityI)
    fix i assume "i < length (map jn_job_id (map snd es))"
    then have i: "i < length es" by simp
    then have "(fst (es ! i), snd (es ! i)) \<in> set es" by simp
    with k have "map_of es (fst (es ! i)) = Some (snd (es ! i))" unfolding keyed_def by (metis map_of_is_SomeI)
    with k i show "map jn_job_id (map snd es) ! i = map fst es ! i" by (simp add: keyed_def)
  qed simp
  then show ?thesis using k unfolding keyed_def by metis
qed

lemma prune_entries_keyed:
  assumes "keyed es" and "distinct (map jn_job_id r)" and "\<And>e. e \<in> set r \<Longrightarrow> map_of es (jn_job_id e) = Some e"
  shows "\<exists>es'. prune_entries r es = Inr es' \<and> keyed es'
    \<and> (\<forall>j. map_of es' j = (if j \<in> jn_job_id ` set r then None else map_of es j))"
  using assms
proof (induction r arbitrary: es)
  case (Cons e r)
  let ?es = "AList.delete (jn_job_id e) es"
  have "keyed ?es" using Cons.prems(1) by (rule keyed_delete)
  moreover have "map_of ?es (jn_job_id a) = Some a" if "a \<in> set r" for a
  proof -
    have "jn_job_id a \<noteq> jn_job_id e" using Cons.prems(2) that by (metis distinct.simps(2) image_eqI list.simps(9) set_map)
    with Cons.prems(3) that show ?thesis by (simp add: map_of_entry_delete)
  qed
  ultimately obtain es' where es': "prune_entries r ?es = Inr es'" "keyed es'"
    "\<forall>j. map_of es' j = (if j \<in> jn_job_id ` set r then None else map_of ?es j)"
    using Cons.IH [of ?es] Cons.prems(2) by auto
  have "seen (jn_job_id e) es" using Cons.prems(3) [of e] by (simp add: seen_iff)
  with es' show ?case by (auto simp: map_of_entry_delete)
qed simp

definition reported :: "entries \<Rightarrow> JournalEntry list" where
  "reported es = sort_key jn_updated_at (filter (\<lambda>e. jn_state e = J_REPORTED) (map snd es))"

lemma set_reported: "set (reported es) = {e \<in> snd ` set es. jn_state e = J_REPORTED}"
  by (auto simp: reported_def)

lemma distinct_reported: "keyed es \<Longrightarrow> distinct (map jn_job_id (reported es))"
proof -
  assume "keyed es"
  then have "distinct (map jn_job_id (filter (\<lambda>e. jn_state e = J_REPORTED) (map snd es)))"
    by (intro distinct_map_filter keyed_distinct)
  moreover have "mset (map jn_job_id (reported es))
      = mset (map jn_job_id (filter (\<lambda>e. jn_state e = J_REPORTED) (map snd es)))"
    by (simp add: reported_def)
  ultimately show ?thesis by (metis mset_eq_imp_distinct_iff)
qed

lemma snd_entries:
  assumes "keyed es"
  shows "snd ` set es = {e. map_of es (jn_job_id e) = Some e}"
  using keyed_entries [OF assms] by (force dest: map_of_SomeD)

text \<open>
  The journal survives a restart and pruning.  What was written is what a restarted agent
  reads; pruning a journal whose entries are filed under their own jobs never fails, removes
  only reported entries, each no newer than any reported entry it leaves, keeps the given number
  of those and every entry that is not reported yet, the ones recovery needs.
\<close>

theorem journal_prune_keeps_pending:
  assumes "keyed es" and "prune_reported keep es = Some result"
  shows "\<exists>es'. result = Inr es' \<and> keyed es' \<and> journal_load (journal_json es') = Inr es'
    \<and> (\<forall>j e. map_of es j = Some e \<and> jn_state e \<noteq> J_REPORTED \<longrightarrow> map_of es' j = Some e)
    \<and> length (reported es') = keep
    \<and> (\<forall>old \<in> set (reported es) - set (reported es'). \<forall>new \<in> set (reported es'). jn_updated_at old \<le> jn_updated_at new)"
proof -
  let ?n = "length (reported es) - keep"
  let ?r = "take ?n (reported es)"
  from assms(2) have n: "keep < length (reported es)" and res: "result = prune_entries ?r es"
    by (auto simp: prune_reported_def reported_def Let_def split: if_splits)
  have d: "distinct (map jn_job_id (reported es))" using assms(1) by (rule distinct_reported)
  have inr: "map_of es (jn_job_id e) = Some e" if "e \<in> set ?r" for e
    using keyed_entries [OF assms(1)] that set_take_subset [of ?n "reported es"] set_reported [of es] by blast
  from d have dr: "distinct (map jn_job_id ?r)" by (simp flip: take_map)
  from prune_entries_keyed [OF assms(1) dr inr] obtain es' where
    es': "prune_entries ?r es = Inr es'" "keyed es'"
      "\<And>j. map_of es' j = (if j \<in> jn_job_id ` set ?r then None else map_of es j)" by auto
  have gone: "e \<in> set ?r" if "map_of es (jn_job_id e) = Some e" "jn_job_id e \<in> jn_job_id ` set ?r" for e
    using that inr by fastforce
  have left: "set (reported es') = set (drop ?n (reported es))"
  proof -
    have "set (reported es') = {e. map_of es' (jn_job_id e) = Some e \<and> jn_state e = J_REPORTED}"
      by (auto simp: set_reported snd_entries [OF es'(2)])
    also have "\<dots> = {e. map_of es (jn_job_id e) = Some e \<and> jn_state e = J_REPORTED} - set ?r"
      using gone by (auto simp: es'(3))
    also have "\<dots> = set (reported es) - set ?r"
      by (auto simp: set_reported snd_entries [OF assms(1)])
    also have "\<dots> = set (drop ?n (reported es))"
    proof -
      have "distinct (?r @ drop ?n (reported es))" using d by (simp add: distinct_map)
      then have "set ?r \<inter> set (drop ?n (reported es)) = {}" unfolding distinct_append by blast
      moreover have "set (reported es) = set ?r \<union> set (drop ?n (reported es))"
        by (metis append_take_drop_id set_append)
      ultimately show ?thesis by auto
    qed
    finally show ?thesis .
  qed
  have "length (reported es') = length (drop ?n (reported es))"
    using d distinct_reported [OF es'(2)] left by (metis distinct_card distinct_drop distinct_map)
  with n have len: "length (reported es') = keep" by simp
  have "sorted (map jn_updated_at (reported es))" by (simp add: reported_def)
  then have "sorted_wrt (\<lambda>a b. jn_updated_at a \<le> jn_updated_at b) (?r @ drop ?n (reported es))"
    by (simp add: sorted_wrt_map)
  then have order: "jn_updated_at old \<le> jn_updated_at new"
    if "old \<in> set ?r" "new \<in> set (drop ?n (reported es))" for old new
    using that unfolding sorted_wrt_append by blast
  have olds: "old \<in> set ?r" if "old \<in> set (reported es) - set (reported es')" for old
    using that left by (metis DiffD1 DiffD2 Un_iff append_take_drop_id set_append)
  have kept: "map_of es' j = Some e" if e: "map_of es j = Some e" "jn_state e \<noteq> J_REPORTED" for j e
  proof -
    have j: "jn_job_id e = j" using assms(1) e(1) by (simp add: keyed_def)
    have "j \<notin> jn_job_id ` set ?r"
    proof
      assume "j \<in> jn_job_id ` set ?r"
      then have "e \<in> set ?r" using gone [of e] e(1) j by simp
      then have "e \<in> set (reported es)" by (rule in_set_takeD)
      with e(2) show False by (simp add: set_reported)
    qed
    with e(1) show ?thesis by (simp add: es'(3))
  qed
  show ?thesis
    by (intro exI [of _ es'] conjI allI impI ballI)
       (use res es'(1) in simp, fact es'(2), simp, use kept in blast, fact len, use order olds left in blast)
qed

definition demo_entry :: "string \<Rightarrow> JournalState \<Rightarrow> string \<Rightarrow> JournalEntry" where
  "demo_entry j st at' = \<lparr>jn_job_id = j, jn_action_id = ''a'', jn_attempt = 1, jn_nonce = ''n'', jn_claim_token = ''c'',
     jn_idempotency_key = ''k'', jn_skill_id = ''service.restart'', jn_parameters = [], jn_state = st,
     jn_result = None, jn_updated_at = at'\<rparr>"

definition demo_entries :: entries where
  "demo_entries = [(''j1'', demo_entry ''j1'' J_REPORTED ''2''), (''j2'', demo_entry ''j2'' J_EXECUTING ''1''),
     (''j3'', demo_entry ''j3'' J_REPORTED ''1'')]"

theorem journal_prune_keeps_pending_witness:
  "\<exists>es'. prune_reported 1 demo_entries = Some (Inr es') \<and> seen ''j2'' es' \<and> length (reported es') = 1"
proof -
  have k: "keyed demo_entries" by (simp add: keyed_def demo_entries_def demo_entry_def)
  obtain r where r: "prune_reported 1 demo_entries = Some r"
    by (simp add: prune_reported_def demo_entries_def demo_entry_def Let_def)
  have "map_of demo_entries ''j2'' = Some (demo_entry ''j2'' J_EXECUTING ''1'')" by (simp add: demo_entries_def)
  then show ?thesis using journal_prune_keeps_pending [OF k r] r
    by (fastforce simp: seen_iff demo_entry_def)
qed

end
