(* ===== verification/AgentConfig.thy ===== *)
theory AgentConfig
  imports Effects Journal
begin

text \<open>
  \<open>linux_agent/config.py\<close> (the Windows agent's is the same): the configuration of an agent, the
  JSON value it is saved as, and loading it, with the migration of a configuration that still
  has a single signing key.  A field that is no text where the code expects one, which no agent
  writes, is a \<open>TypeError\<close> here; the code would keep it until it is used.
\<close>

record agent_config =
  cf_server_url :: string
  cf_external_id :: string
  cf_tenant_id :: string
  cf_user_id :: string
  cf_device_id :: "string option"
  cf_agent_token :: "string option"
  cf_heartbeat_seconds :: int
  cf_inventory_seconds :: int
  cf_allowed_services :: "string list"
  cf_monitored_services :: "string list"
  cf_signing_public_keys :: "(int \<times> string) list"

section \<open>Saving and loading\<close>

definition opt_str :: "string option \<Rightarrow> json" where
  "opt_str x = (case x of None \<Rightarrow> JNull | Some s \<Rightarrow> JStr s)"

text \<open>\<open>json.dumps(asdict(self))\<close>: the keys of \<open>signing_public_keys\<close> become text.\<close>

definition config_json :: "agent_config \<Rightarrow> json" where
  "config_json cf = JObj
     [(''server_url'', JStr (cf_server_url cf)), (''external_id'', JStr (cf_external_id cf)),
      (''tenant_id'', JStr (cf_tenant_id cf)), (''user_id'', JStr (cf_user_id cf)),
      (''device_id'', opt_str (cf_device_id cf)), (''agent_token'', opt_str (cf_agent_token cf)),
      (''heartbeat_seconds'', JInt (cf_heartbeat_seconds cf)),
      (''inventory_seconds'', JInt (cf_inventory_seconds cf)),
      (''allowed_services'', JList (map JStr (cf_allowed_services cf))),
      (''monitored_services'', JList (map JStr (cf_monitored_services cf))),
      (''signing_public_keys'', JObj (map (\<lambda>(v, pem). (show_int v, JStr pem)) (cf_signing_public_keys cf)))]"

definition config_error :: "py_error + 'a" where
  "config_error = Inl (TypeError ''AgentConfig'')"

definition to_str :: "json \<Rightarrow> string option" where
  "to_str v = (case v of JStr s \<Rightarrow> Some s | _ \<Rightarrow> None)"

fun all_some :: "'a option list \<Rightarrow> 'a list option" where
  "all_some [] = Some []"
| "all_some (x # xs) = (case (x, all_some xs) of (Some a, Some as) \<Rightarrow> Some (a # as) | _ \<Rightarrow> None)"

text \<open>\<open>tuple(values.get(key, ()))\<close>.\<close>

definition tuple_field :: "dict \<Rightarrow> string \<Rightarrow> string list option" where
  "tuple_field values k =
     (case dict_get values k of
        None \<Rightarrow> Some []
      | Some (JList xs) \<Rightarrow> all_some (map to_str xs)
      | Some (JStr s) \<Rightarrow> Some (map (\<lambda>c. [c]) s)
      | Some (JObj d) \<Rightarrow> Some (map fst d)
      | _ \<Rightarrow> None)"

fun load_keys :: "host \<Rightarrow> dict \<Rightarrow> (int \<times> string) list \<Rightarrow> py_error + (int \<times> string) list" where
  "load_keys h [] ks = Inr ks"
| "load_keys h ((version, pem) # rest) ks =
     (case parse_int version of
        Inl e \<Rightarrow> Inl e
      | Inr n \<Rightarrow> load_keys h rest (AList.update n (py_str h pem) ks))"

text \<open>\<open>if legacy_pem and legacy_version is not None: setdefault(int(legacy_version), legacy_pem)\<close>.\<close>

definition add_legacy :: "dict \<Rightarrow> (int \<times> string) list \<Rightarrow> py_error + (int \<times> string) list" where
  "add_legacy values ks =
     (case (get_str values ''signing_public_key_pem'', dict_get values ''signing_key_version'') of
        (Some pem, Some version) \<Rightarrow>
          if pem = [] \<or> version = JNull then Inr ks
          else (case int_of_json version of
                  Inl e \<Rightarrow> Inl e
                | Inr n \<Rightarrow> Inr (if map_of ks n = None then ks @ [(n, pem)] else ks))
      | _ \<Rightarrow> Inr ks)"

definition keys_field :: "host \<Rightarrow> dict \<Rightarrow> py_error + (int \<times> string) list" where
  "keys_field h values =
     (case dict_get values ''signing_public_keys'' of
        None \<Rightarrow> Inr []
      | Some (JObj d) \<Rightarrow> load_keys h d []
      | _ \<Rightarrow> Inl (AttributeError ''items''))"

text \<open>The names \<open>cls(**values)\<close> takes, and the two that were popped before.\<close>

definition config_names :: "string list" where
  "config_names = [''server_url'', ''external_id'', ''tenant_id'', ''user_id'', ''device_id'', ''agent_token'',
     ''heartbeat_seconds'', ''inventory_seconds'', ''allowed_services'', ''monitored_services'',
     ''signing_public_keys'', ''signing_public_key_pem'', ''signing_key_version'']"

definition int_field :: "dict \<Rightarrow> string \<Rightarrow> int \<Rightarrow> int option" where
  "int_field values k n0 = (case dict_get values k of None \<Rightarrow> Some n0 | Some (JInt n) \<Rightarrow> Some n | _ \<Rightarrow> None)"

definition opt_field :: "dict \<Rightarrow> string \<Rightarrow> string option option" where
  "opt_field values k = (case dict_get values k of None \<Rightarrow> Some None | Some JNull \<Rightarrow> Some None
     | Some (JStr s) \<Rightarrow> Some (Some s) | _ \<Rightarrow> None)"

definition config_of :: "dict \<Rightarrow> (int \<times> string) list \<Rightarrow> py_error + agent_config" where
  "config_of values ks =
     (if \<not> fst ` set values \<subseteq> set config_names then config_error
      else case (get_str values ''server_url'', get_str values ''external_id'', get_str values ''tenant_id'',
             get_str values ''user_id'', opt_field values ''device_id'', opt_field values ''agent_token'',
             int_field values ''heartbeat_seconds'' 60, int_field values ''inventory_seconds'' 3600,
             tuple_field values ''allowed_services'', tuple_field values ''monitored_services'') of
        (Some url, Some ext, Some ten, Some usr, Some dev, Some tok, Some hb, Some iv, Some al, Some mon) \<Rightarrow>
          Inr \<lparr>cf_server_url = url, cf_external_id = ext, cf_tenant_id = ten, cf_user_id = usr, cf_device_id = dev,
               cf_agent_token = tok, cf_heartbeat_seconds = hb, cf_inventory_seconds = iv,
               cf_allowed_services = al, cf_monitored_services = mon, cf_signing_public_keys = ks\<rparr>
      | _ \<Rightarrow> config_error)"

definition config_load :: "host \<Rightarrow> json \<Rightarrow> py_error + agent_config" where
  "config_load h v =
     (case v of
        JObj values \<Rightarrow>
          (case keys_field h values of
             Inl e \<Rightarrow> Inl e
           | Inr ks \<Rightarrow> (case add_legacy values ks of Inl e \<Rightarrow> Inl e | Inr ks' \<Rightarrow> config_of values ks'))
      | _ \<Rightarrow> Inl (AttributeError ''get''))"

section \<open>What is saved is loaded\<close>

lemma all_some_map [simp]: "all_some (map (to_str \<circ> JStr) xs) = Some xs"
  by (induction xs) (simp_all add: to_str_def)

lemma load_keys_saved:
  "distinct (map fst (acc @ ks)) \<Longrightarrow>
     load_keys h (map (\<lambda>(v, pem). (show_int v, JStr pem)) ks) acc = Inr (acc @ ks)"
proof (induction ks arbitrary: acc)
  case (Cons k ks)
  obtain v pem where k: "k = (v, pem)" by (cases k)
  with Cons.prems have "v \<notin> fst ` set acc" by auto
  then have "AList.update v pem acc = acc @ [(v, pem)]" by (induction acc) auto
  with Cons k show ?case by (simp add: py_str_def)
qed simp

text \<open>The dictionary of a configuration, without the keys and with them.\<close>

definition plain_fields :: "agent_config \<Rightarrow> dict" where
  "plain_fields cf =
     [(''server_url'', JStr (cf_server_url cf)), (''external_id'', JStr (cf_external_id cf)),
      (''tenant_id'', JStr (cf_tenant_id cf)), (''user_id'', JStr (cf_user_id cf)),
      (''device_id'', opt_str (cf_device_id cf)), (''agent_token'', opt_str (cf_agent_token cf)),
      (''heartbeat_seconds'', JInt (cf_heartbeat_seconds cf)),
      (''inventory_seconds'', JInt (cf_inventory_seconds cf)),
      (''allowed_services'', JList (map JStr (cf_allowed_services cf))),
      (''monitored_services'', JList (map JStr (cf_monitored_services cf)))]"

lemma dict_get_Cons: "dict_get ((k', v) # d) k = (if k' = k then Some v else dict_get d k)" "dict_get [] k = None"
  by (simp_all add: dict_get_def)

lemma plain_fields_get:
  "k \<notin> fst ` set (plain_fields cf) \<Longrightarrow> dict_get (plain_fields cf @ d) k = dict_get d k"
  by (simp add: plain_fields_def dict_get_def)

lemma opt_field_opt_str: "opt_field ((k, opt_str x) # d) k = Some x"
  by (simp add: opt_field_def opt_str_def dict_get_def split: option.split)

lemma config_of_plain:
  assumes "fst ` set d \<subseteq> {''signing_public_keys'', ''signing_public_key_pem'', ''signing_key_version''}"
  shows "config_of (plain_fields cf @ d) ks = Inr (cf\<lparr>cf_signing_public_keys := ks\<rparr>)"
proof -
  have n: "fst ` set (plain_fields cf @ d) \<subseteq> set config_names"
    using assms by (auto simp: plain_fields_def config_names_def)
  have "get_str (plain_fields cf @ d) ''server_url'' = Some (cf_server_url cf)"
    "get_str (plain_fields cf @ d) ''external_id'' = Some (cf_external_id cf)"
    "get_str (plain_fields cf @ d) ''tenant_id'' = Some (cf_tenant_id cf)"
    "get_str (plain_fields cf @ d) ''user_id'' = Some (cf_user_id cf)"
    "int_field (plain_fields cf @ d) ''heartbeat_seconds'' 60 = Some (cf_heartbeat_seconds cf)"
    "int_field (plain_fields cf @ d) ''inventory_seconds'' 3600 = Some (cf_inventory_seconds cf)"
    "tuple_field (plain_fields cf @ d) ''allowed_services'' = Some (cf_allowed_services cf)"
    "tuple_field (plain_fields cf @ d) ''monitored_services'' = Some (cf_monitored_services cf)"
    by (simp_all add: plain_fields_def get_str_def int_field_def tuple_field_def dict_get_def)
  moreover have "opt_field (plain_fields cf @ d) ''device_id'' = Some (cf_device_id cf)"
    "opt_field (plain_fields cf @ d) ''agent_token'' = Some (cf_agent_token cf)"
    by (cases "cf_device_id cf"; cases "cf_agent_token cf"; simp add: plain_fields_def opt_field_def opt_str_def dict_get_def)+
  ultimately show ?thesis using n by (simp add: config_of_def)
qed

lemma config_json_plain:
  "config_json cf = JObj (plain_fields cf @ [(''signing_public_keys'',
     JObj (map (\<lambda>(v, pem). (show_int v, JStr pem)) (cf_signing_public_keys cf)))])"
  by (simp add: config_json_def plain_fields_def)

lemma config_load_saved:
  assumes "distinct (map fst (cf_signing_public_keys cf))"
  shows "config_load h (config_json cf) = Inr cf"
proof -
  let ?ks = "map (\<lambda>(v, pem). (show_int v, JStr pem)) (cf_signing_public_keys cf)"
  have g: "dict_get (plain_fields cf @ d) ''signing_public_keys'' = dict_get d ''signing_public_keys''"
    "dict_get (plain_fields cf @ d) ''signing_public_key_pem'' = dict_get d ''signing_public_key_pem''" for d
    by (rule plain_fields_get, simp add: plain_fields_def)+
  have "load_keys h ?ks [] = Inr (cf_signing_public_keys cf)"
    using load_keys_saved [of "[]"] assms by simp
  then show ?thesis
    by (simp add: config_json_plain config_load_def keys_field_def add_legacy_def get_str_def g dict_get_Cons config_of_plain)
qed

text \<open>
  A saved configuration is loaded as it was.  Whatever the configuration, with distinct
  key versions (it is a dictionary), loading what saving wrote gives it back, the numbers of the
  key versions, which JSON turns into text, included; and the configuration of an agent from
  before key rotation, with one key and its version instead of the dictionary, keeps that key.
\<close>

theorem config_roundtrip:
  assumes "distinct (map fst (cf_signing_public_keys cf))" and "pem \<noteq> []"
  shows "config_load h (config_json cf) = Inr cf
    \<and> config_json cf = JObj (plain_fields cf @ [(''signing_public_keys'',
        JObj (map (\<lambda>(v, pem). (show_int v, JStr pem)) (cf_signing_public_keys cf)))])
    \<and> config_load h (JObj (plain_fields cf @ [(''signing_public_key_pem'', JStr pem), (''signing_key_version'', JInt n)]))
        = Inr (cf\<lparr>cf_signing_public_keys := [(n, pem)]\<rparr>)"
proof -
  have g: "dict_get (plain_fields cf @ d) ''signing_public_keys'' = dict_get d ''signing_public_keys''"
    "dict_get (plain_fields cf @ d) ''signing_public_key_pem'' = dict_get d ''signing_public_key_pem''"
    "dict_get (plain_fields cf @ d) ''signing_key_version'' = dict_get d ''signing_key_version''" for d
    by (rule plain_fields_get, simp add: plain_fields_def)+
  have "config_load h (JObj (plain_fields cf @ [(''signing_public_key_pem'', JStr pem), (''signing_key_version'', JInt n)]))
      = Inr (cf\<lparr>cf_signing_public_keys := [(n, pem)]\<rparr>)"
    using assms(2)
    by (simp add: config_load_def keys_field_def add_legacy_def get_str_def g dict_get_Cons int_of_json_def config_of_plain)
  with config_load_saved [OF assms(1)] config_json_plain show ?thesis by blast
qed

definition demo_config :: agent_config where
  "demo_config = \<lparr>cf_server_url = ''https://hd'', cf_external_id = ''host-1'', cf_tenant_id = ''t'', cf_user_id = [],
     cf_device_id = Some ''d'', cf_agent_token = Some ''k'', cf_heartbeat_seconds = 60, cf_inventory_seconds = 3600,
     cf_allowed_services = [''nginx''], cf_monitored_services = [], cf_signing_public_keys = [(1, ''one''), (12, ''two'')]\<rparr>"

theorem config_roundtrip_witness: "\<exists>h. config_load h (config_json demo_config) = Inr demo_config"
  by (rule exI, rule conjunct1 [OF config_roundtrip [where pem = "''pem''"]]) (simp_all add: demo_config_def)

end
