(* ===== verification/Agent.thy ===== *)
theory Agent
  imports Executors AgentConfig
begin

text \<open>
  \<open>linux_agent/agent.py\<close> (and \<open>windows_agent/agent.py\<close>, whose code from \<open>enroll\<close> on is the same):
  the cycle of an endpoint agent.  The agent's state is its configuration, the journal in
  memory and the journal file, the endpoint (\<open>ag_world\<close>) and everything behind the HTTP client
  (\<open>ag_net\<close>).  The client, the executors and the disk are parameters: effects that may return,
  raise, or be cut off by the death of the process, so that a run may end after any of its
  effects.  Requests carry what the client is called with.  The command line is not modelled, the
  loop of \<open>main\<close> is (\<open>agent_main\<close>).
\<close>

section \<open>State\<close>

record request =
  hr_method :: string
  hr_path :: string
  hr_payload :: "dict option"
  hr_headers :: "(string \<times> string) list"

record ('w, 'n) agent_state =
  ag_config :: agent_config
  ag_config_file :: "json option"
  ag_last_inventory :: rat
  ag_entries :: entries
  ag_disk :: journal_file
  ag_writes :: nat
  ag_ticks :: nat
  ag_world :: 'w
  ag_net :: 'n

text \<open>
  \<open>an_disk n\<close> is what becomes of the \<open>n\<close>-th write of a file: done, refused by the system, or
  cut off by the death of the process (the file is replaced atomically, so it is the old one).
  \<open>an_clock n\<close> is the \<open>n\<close>-th reading of the clock, \<open>an_monotonic n\<close> of the monotonic one, and
  \<open>an_uuid n\<close> the \<open>n\<close>-th fresh identifier.
\<close>

record ('w, 'n) agent =
  an_host :: host
  an_crypto :: crypto
  an_os :: string
  an_hostname :: string
  an_monotonic :: "nat \<Rightarrow> rat"
  an_uuid :: "nat \<Rightarrow> string"
  an_collect :: "string list \<Rightarrow> ('w, json) io"
  an_clock :: "nat \<Rightarrow> time"
  an_disk :: "nat \<Rightarrow> unit outcome"
  an_client :: "request \<Rightarrow> ('n, json) io"
  an_restart :: "((dict \<Rightarrow> ('w, JobResult) io) \<times> (string \<Rightarrow> ('w, JobResult) io)) option"
  an_dns :: "dict \<Rightarrow> ('w, JobResult) io"

type_synonym ('w, 'n, 'a) agent_io = "(('w, 'n) agent_state, 'a) io"

definition on_world :: "('w, 'a) io \<Rightarrow> ('w, 'n, 'a) agent_io" where
  "on_world m s = (case m (ag_world s) of (r, w) \<Rightarrow> (r, s\<lparr>ag_world := w\<rparr>))"

definition on_net :: "('n, 'a) io \<Rightarrow> ('w, 'n, 'a) agent_io" where
  "on_net m s = (case m (ag_net s) of (r, n) \<Rightarrow> (r, s\<lparr>ag_net := n\<rparr>))"

definition read_clock :: "('w, 'n) agent \<Rightarrow> ('w, 'n, time) agent_io" where
  "read_clock a s = (Done (an_clock a (ag_ticks s)), s\<lparr>ag_ticks := Suc (ag_ticks s)\<rparr>)"

definition read_monotonic :: "('w, 'n) agent \<Rightarrow> ('w, 'n, rat) agent_io" where
  "read_monotonic a s = (Done (an_monotonic a (ag_ticks s)), s\<lparr>ag_ticks := Suc (ag_ticks s)\<rparr>)"

definition fresh_uuid :: "('w, 'n) agent \<Rightarrow> ('w, 'n, string) agent_io" where
  "fresh_uuid a s = (Done (an_uuid a (ag_ticks s)), s\<lparr>ag_ticks := Suc (ag_ticks s)\<rparr>)"

text \<open>\<open>AgentConfig.save\<close>.\<close>

definition save_config :: "('w, 'n) agent \<Rightarrow> ('w, 'n, unit) agent_io" where
  "save_config a s =
     (let s' = s\<lparr>ag_writes := Suc (ag_writes s)\<rparr>
      in case an_disk a (ag_writes s) of
           Done _ \<Rightarrow> (Done (), s'\<lparr>ag_config_file := Some (config_json (ag_config s))\<rparr>)
         | Raised e \<Rightarrow> (Raised e, s')
         | Crashed \<Rightarrow> (Crashed, s'))"

definition now_text :: "('w, 'n) agent \<Rightarrow> ('w, 'n, string) agent_io" where
  "now_text a = bind (read_clock a) (\<lambda>t. ret (isoformat (an_host a) t))"

definition save_journal :: "('w, 'n) agent \<Rightarrow> ('w, 'n, unit) agent_io" where
  "save_journal a s =
     (let s' = s\<lparr>ag_writes := Suc (ag_writes s)\<rparr>
      in case an_disk a (ag_writes s) of
           Done _ \<Rightarrow> (Done (), s'\<lparr>ag_disk := journal_json (ag_entries s)\<rparr>)
         | Raised e \<Rightarrow> (Raised e, s')
         | Crashed \<Rightarrow> (Crashed, s'))"

definition write_entries :: "('w, 'n) agent \<Rightarrow> entries \<Rightarrow> ('w, 'n, unit) agent_io" where
  "write_entries a es = seq (modify (\<lambda>s. s\<lparr>ag_entries := es\<rparr>)) (save_journal a)"

text \<open>A marking operation of the journal: no entry, nothing written.\<close>

definition journal_mark ::
  "('w, 'n) agent \<Rightarrow> (string \<Rightarrow> entries \<Rightarrow> entries option) \<Rightarrow> ('w, 'n, unit) agent_io" where
  "journal_mark a f =
     bind (now_text a) (\<lambda>now. bind (gets ag_entries) (\<lambda>es.
       case f now es of None \<Rightarrow> ret () | Some es' \<Rightarrow> write_entries a es'))"

definition journal_prune :: "('w, 'n) agent \<Rightarrow> ('w, 'n, unit) agent_io" where
  "journal_prune a = bind (gets ag_entries) (\<lambda>es.
     case prune_reported 500 es of
       None \<Rightarrow> ret ()
     | Some r \<Rightarrow> bind (lift_result r) (\<lambda>es'. write_entries a es'))"

section \<open>Requests\<close>

definition agent_headers :: "string \<Rightarrow> string option \<Rightarrow> (string \<times> string) list" where
  "agent_headers token idempotency_key =
     (''Authorization'', ''Bearer '' @ token)
     # (if truthy idempotency_key then [(''Idempotency-Key'', the idempotency_key)] else [])"

definition identity :: "('w, 'n, string \<times> string) agent_io" where
  "identity s =
     (case (cf_device_id (ag_config s), cf_agent_token (ag_config s)) of
        (Some d, Some t) \<Rightarrow> if d = [] \<or> t = [] then (Raised (RuntimeError ''agent is not enrolled''), s)
                            else (Done (d, t), s)
      | _ \<Rightarrow> (Raised (RuntimeError ''agent is not enrolled''), s))"

definition report_result ::
  "('w, 'n) agent \<Rightarrow> string \<Rightarrow> string \<Rightarrow> string \<Rightarrow> string \<Rightarrow> string \<Rightarrow> dict \<Rightarrow> ('w, 'n, unit) agent_io" where
  "report_result a device_id token action_id idempotency_key ctoken result =
     bind (on_net (an_client a
       \<lparr>hr_method = ''POST'',
        hr_path = ''/v1/devices/'' @ device_id @ ''/jobs/'' @ action_id @ ''/result'',
        hr_payload = Some result,
        hr_headers = agent_headers token (Some idempotency_key) @ [(''X-Claim-Token'', ctoken)]\<rparr>))
       (\<lambda>_. ret ())"

section \<open>Keys\<close>

text \<open>\<open>keys or {}\<close> as a dictionary.\<close>

definition keys_dict :: "json \<Rightarrow> py_error + dict" where
  "keys_dict v = (case v of JObj d \<Rightarrow> Inr d
     | _ \<Rightarrow> if v \<in> {JNull, JBool False, JInt 0, JStr [], JList []} \<or> v = JFloat 0 then Inr []
            else Inl (AttributeError ''items''))"

text \<open>
  A key version is added, never replaced; the value is whether anything changed.  (A key that is
  no string is kept as its text.)
\<close>

definition merge_key :: "('w, 'n) agent \<Rightarrow> string \<times> json \<Rightarrow> ('w, 'n, bool) agent_io" where
  "merge_key a = (\<lambda>(version_str, pem). bind (lift_result (parse_int version_str)) (\<lambda>version.
     bind (gets ag_config) (\<lambda>cf. let ks = cf_signing_public_keys cf
       in if map_of ks version = None
          then seq (modify (ag_config_update (\<lambda>_. cf\<lparr>cf_signing_public_keys := ks @ [(version, py_str (an_host a) pem)]\<rparr>)))
                 (ret True)
          else ret False)))"

fun merge_keys :: "('w, 'n) agent \<Rightarrow> dict \<Rightarrow> bool \<Rightarrow> ('w, 'n, bool) agent_io" where
  "merge_keys a [] changed = ret changed"
| "merge_keys a (kv # kvs) changed = bind (merge_key a kv) (\<lambda>new. merge_keys a kvs (new \<or> changed))"

definition merge_signing_keys :: "('w, 'n) agent \<Rightarrow> json \<Rightarrow> ('w, 'n, bool) agent_io" where
  "merge_signing_keys a keys = bind (lift_result (keys_dict keys)) (\<lambda>d. merge_keys a d False)"

definition api_failed :: "py_error \<Rightarrow> bool" where
  "api_failed e = (case e of ApiError _ \<Rightarrow> True | _ \<Rightarrow> False)"

definition json_or_null :: "json option \<Rightarrow> json" where
  "json_or_null x = (case x of None \<Rightarrow> JNull | Some v \<Rightarrow> v)"

text \<open>\<open>.get\<close> on a JSON value.\<close>

definition json_dict :: "json \<Rightarrow> py_error + dict" where
  "json_dict v = (case v of JObj d \<Rightarrow> Inr d | _ \<Rightarrow> Inl (AttributeError ''get''))"

definition ensure_signing_key :: "('w, 'n) agent \<Rightarrow> ('w, 'n, unit) agent_io" where
  "ensure_signing_key a =
     bind identity (\<lambda>(device_id, token).
       bind (catch api_failed
               (bind (on_net (an_client a
                  \<lparr>hr_method = ''GET'', hr_path = ''/v1/devices/'' @ device_id @ ''/signing-key'',
                   hr_payload = None, hr_headers = agent_headers token None\<rparr>)) (\<lambda>v. ret (Some v)))
               (\<lambda>e. bind (gets ag_config) (\<lambda>cf.
                  if cf_signing_public_keys cf \<noteq> [] then ret None else raise e)))
         (\<lambda>response. case response of
            None \<Rightarrow> ret ()
          | Some v \<Rightarrow> bind (lift_result (json_dict v)) (\<lambda>d.
              bind (merge_signing_keys a (json_or_null (dict_get d ''signing_public_keys''))) (\<lambda>changed.
                if changed then save_config a else ret ()))))"

section \<open>Enrollment\<close>

text \<open>\<open>result[key]\<close>, as text.\<close>

definition result_str :: "('w, 'n) agent \<Rightarrow> json \<Rightarrow> string \<Rightarrow> py_error + string" where
  "result_str a v k = (case v of
     JObj d \<Rightarrow> (case dict_get d k of None \<Rightarrow> Inl (KeyError k) | Some x \<Rightarrow> Inr (py_str (an_host a) x))
   | _ \<Rightarrow> Inl (TypeError ''subscript''))"

definition enroll_request :: "('w, 'n) agent \<Rightarrow> agent_config \<Rightarrow> request" where
  "enroll_request a cf =
     \<lparr>hr_method = ''POST'', hr_path = ''/v1/devices/enroll'',
      hr_payload = Some [(''external_id'', JStr (cf_external_id cf)), (''hostname'', JStr (an_hostname a)),
        (''os'', JStr (an_os a))],
      hr_headers = [(''X-Tenant-ID'', cf_tenant_id cf), (''X-User-ID'', cf_user_id cf)]\<rparr>"

definition enroll_token_request :: "('w, 'n) agent \<Rightarrow> agent_config \<Rightarrow> string \<Rightarrow> request" where
  "enroll_token_request a cf token =
     \<lparr>hr_method = ''POST'', hr_path = ''/v1/devices/enroll-with-token'',
      hr_payload = Some [(''external_id'', JStr (cf_external_id cf)), (''hostname'', JStr (an_hostname a)),
        (''os'', JStr (an_os a))],
      hr_headers = [(''X-Enrollment-Token'', token)]\<rparr>"

definition is_enrolled :: "agent_config \<Rightarrow> bool" where
  "is_enrolled cf \<longleftrightarrow> truthy (cf_device_id cf) \<and> truthy (cf_agent_token cf)"

definition set_config :: "(agent_config \<Rightarrow> agent_config) \<Rightarrow> ('w, 'n, unit) agent_io" where
  "set_config f = modify (ag_config_update f)"

text \<open>Each field is assigned as soon as it is read from the result.\<close>

definition enroll :: "('w, 'n) agent \<Rightarrow> ('w, 'n, unit) agent_io" where
  "enroll a = bind (gets ag_config) (\<lambda>cf.
     if is_enrolled cf then ret ()
     else bind (on_net (an_client a (enroll_request a cf))) (\<lambda>v.
       bind (lift_result (result_str a v ''device_id'')) (\<lambda>dev.
         seq (set_config (cf_device_id_update (\<lambda>_. Some dev)))
           (bind (lift_result (result_str a v ''agent_token'')) (\<lambda>tok.
             seq (set_config (cf_agent_token_update (\<lambda>_. Some tok)))
               (bind (lift_result (json_dict v)) (\<lambda>d.
                 bind (merge_signing_keys a (json_or_null (dict_get d ''signing_public_keys''))) (\<lambda>_.
                   save_config a))))))))"

definition enroll_with_token :: "('w, 'n) agent \<Rightarrow> string \<Rightarrow> ('w, 'n, unit) agent_io" where
  "enroll_with_token a token = bind (gets ag_config) (\<lambda>cf.
     if is_enrolled cf then ret ()
     else bind (on_net (an_client a (enroll_token_request a cf token))) (\<lambda>v.
       bind (lift_result (result_str a v ''device_id'')) (\<lambda>dev.
         seq (set_config (cf_device_id_update (\<lambda>_. Some dev)))
           (bind (lift_result (result_str a v ''agent_token'')) (\<lambda>tok.
             seq (set_config (cf_agent_token_update (\<lambda>_. Some tok)))
               (bind (lift_result (result_str a v ''tenant_id'')) (\<lambda>ten.
                 seq (set_config (cf_tenant_id_update (\<lambda>_. ten)))
                   (bind (lift_result (json_dict v)) (\<lambda>d.
                     bind (merge_signing_keys a (json_or_null (dict_get d ''signing_public_keys''))) (\<lambda>_.
                       save_config a))))))))))"

section \<open>Jobs\<close>

definition SUPPORTED_SKILL_VERSIONS :: "(string \<times> int set) list" where
  "SUPPORTED_SKILL_VERSIONS = [(''service.restart'', {1}), (''dns.flush_cache'', {1})]"

definition invalid :: "string \<Rightarrow> dict" where
  "invalid error = job_result_json (failure_report [] error)"

definition executor_for :: "('w, 'n) agent \<Rightarrow> string \<Rightarrow> (dict \<Rightarrow> ('w, JobResult) io) option" where
  "executor_for a skill_id =
     (if skill_id = ''service.restart'' then map_option fst (an_restart a)
      else if skill_id = ''dns.flush_cache'' then Some (an_dns a) else None)"

definition refused :: "py_error \<Rightarrow> bool" where
  "refused e = (case e of PermissionError _ \<Rightarrow> True | ValueError _ \<Rightarrow> True | _ \<Rightarrow> False)"

fun error_text :: "py_error \<Rightarrow> string" where
  "error_text (PermissionError m) = m"
| "error_text (ValueError m) = m"
| "error_text (RuntimeError m) = m"
| "error_text _ = []"

text \<open>\<open>dict.get(key, default)\<close> as text, \<open>str(env.get(key, ""))\<close>.\<close>

definition text_field :: "('w, 'n) agent \<Rightarrow> dict \<Rightarrow> string \<Rightarrow> string" where
  "text_field a e k = (case dict_get e k of None \<Rightarrow> [] | Some v \<Rightarrow> py_str (an_host a) v)"

definition run_executor ::
  "('w, 'n) agent \<Rightarrow> (dict \<Rightarrow> ('w, JobResult) io) \<Rightarrow> dict \<Rightarrow> string option \<Rightarrow> ('w, 'n, dict) agent_io" where
  "run_executor a execute parameters job_id =
     seq (if truthy job_id then journal_mark a (mark_executing (the job_id)) else ret ())
       (bind (catch refused (on_world (bind (execute parameters) (\<lambda>r. ret (job_result_json r))))
               (\<lambda>e. ret (invalid (error_text e))))
         (\<lambda>result. seq (if truthy job_id then journal_mark a (mark_executed (the job_id) result) else ret ())
                    (ret result)))"

definition execute_job :: "('w, 'n) agent \<Rightarrow> dict \<Rightarrow> string option \<Rightarrow> ('w, 'n, dict) agent_io" where
  "execute_job a env job_id =
     bind identity (\<lambda>(device_id, _). bind (gets ag_config) (\<lambda>cf.
       if cf_signing_public_keys cf = [] then ret (invalid ''no pinned job-signing key available'')
       else bind (read_clock a) (\<lambda>now.
         case verify_envelope (an_host a) (an_crypto a) env (cf_signing_public_keys cf) device_id
                (cf_tenant_id cf) SUPPORTED_SKILL_VERSIONS now of
           Inl (RuntimeError m) \<Rightarrow> ret (invalid m)
         | Inl e \<Rightarrow> raise e
         | Inr _ \<Rightarrow>
             (case executor_for a (text_field a env ''skill_id'') of
                None \<Rightarrow> ret (invalid
                  ''no executor available for this skill (allowlist empty or unknown skill)'')
              | Some execute \<Rightarrow>
                  (case dict_get env ''parameters'' of
                     Some (JObj parameters) \<Rightarrow> run_executor a execute parameters job_id
                   | _ \<Rightarrow> ret (invalid ''invalid parameters''))))))"

definition attempt_number :: "json \<Rightarrow> int" where
  "attempt_number v = (case v of JInt n \<Rightarrow> n | JBool b \<Rightarrow> (if b then 1 else 0) | _ \<Rightarrow> 0)"

definition str_json :: "json option \<Rightarrow> string option" where
  "str_json x = (case x of Some (JStr s) \<Rightarrow> Some s | _ \<Rightarrow> None)"

text \<open>The phases of \<open>_handle_claimed_job\<close>: the claim is recorded, the job run, its result reported.\<close>

definition result_key :: "('w, 'n) agent \<Rightarrow> string \<Rightarrow> dict \<Rightarrow> string" where
  "result_key a action_id env =
     ''result-'' @ action_id @ ''-'' @ py_str (an_host a) (json_or_null (dict_get env ''attempt''))"

definition record_claim :: "('w, 'n) agent \<Rightarrow> string \<Rightarrow> dict \<Rightarrow> string option \<Rightarrow> ('w, 'n, unit) agent_io" where
  "record_claim a action_id env job_id =
     (case job_id of None \<Rightarrow> ret ()
      | Some j \<Rightarrow> bind (now_text a) (\<lambda>now. bind (gets ag_entries) (\<lambda>es.
          write_entries a (record_claimed j action_id (attempt_number (json_or_null (dict_get env ''attempt'')))
            (text_field a env ''nonce'') (text_field a env ''claim_token'') (result_key a action_id env)
            (text_field a env ''skill_id'')
            (case dict_get env ''parameters'' of Some (JObj d) \<Rightarrow> d | _ \<Rightarrow> []) now es))))"

definition finish_job ::
  "('w, 'n) agent \<Rightarrow> string \<Rightarrow> string \<Rightarrow> string \<Rightarrow> dict \<Rightarrow> string option \<Rightarrow> dict \<Rightarrow> ('w, 'n, unit) agent_io" where
  "finish_job a device_id token action_id env job_id result =
     seq (report_result a device_id token action_id (result_key a action_id env)
            (text_field a env ''claim_token'') result)
       (seq (case job_id of None \<Rightarrow> ret () | Some j \<Rightarrow> journal_mark a (mark_reported j))
          (journal_prune a))"

definition handle_claimed_job ::
  "('w, 'n) agent \<Rightarrow> string \<Rightarrow> string \<Rightarrow> string \<Rightarrow> dict \<Rightarrow> string option \<Rightarrow> ('w, 'n, unit) agent_io" where
  "handle_claimed_job a device_id token action_id env job_id =
     seq (record_claim a action_id env job_id)
       (bind (execute_job a env job_id) (finish_job a device_id token action_id env job_id))"

section \<open>Recovery\<close>

definition verify_only_result :: "('w, 'n) agent \<Rightarrow> string \<Rightarrow> dict \<Rightarrow> ('w, 'n, dict) agent_io" where
  "verify_only_result a skill_id parameters =
     (let unknown = invalid ''interrupted before completion; unable to safely verify outcome''
      in case an_restart a of
           None \<Rightarrow> ret unknown
         | Some (_, verify_only) \<Rightarrow>
             if skill_id \<noteq> ''service.restart'' then ret unknown
             else (case dict_get parameters ''service'' of
                     Some (JStr service) \<Rightarrow>
                       on_world (bind (verify_only service) (\<lambda>r. ret (job_result_json r)))
                   | _ \<Rightarrow> ret unknown))"

definition recover_entry ::
  "('w, 'n) agent \<Rightarrow> string \<Rightarrow> string \<Rightarrow> JournalEntry \<Rightarrow> ('w, 'n, unit) agent_io" where
  "recover_entry a device_id token e =
     bind (if jn_state e = J_EXECUTED \<and> jn_result e \<noteq> None then ret (the (jn_result e))
           else verify_only_result a (jn_skill_id e) (jn_parameters e)) (\<lambda>result.
       bind (attempt api_failed (report_result a device_id token (jn_action_id e) (jn_idempotency_key e)
               (jn_claim_token e) result)) (\<lambda>sent.
         if sent = None then ret () else journal_mark a (mark_reported (jn_job_id e))))"

definition recover_interrupted_jobs :: "('w, 'n) agent \<Rightarrow> ('w, 'n, unit) agent_io" where
  "recover_interrupted_jobs a =
     bind (gets ag_entries) (\<lambda>es.
       if pending es = [] then ret ()
       else bind identity (\<lambda>(device_id, token).
         seq (for_each (pending es) (recover_entry a device_id token)) (journal_prune a)))"

section \<open>The cycle\<close>

text \<open>Iteration over a JSON value.\<close>

definition json_items :: "json \<Rightarrow> py_error + json list" where
  "json_items v = (case v of JList xs \<Rightarrow> Inr xs | JObj d \<Rightarrow> Inr (map (\<lambda>(k, _). JStr k) d)
     | JStr s \<Rightarrow> Inr (map (\<lambda>c. JStr [c]) s) | _ \<Rightarrow> Inl (TypeError ''not iterable''))"

definition claim_request :: "string \<Rightarrow> string \<Rightarrow> string \<Rightarrow> request" where
  "claim_request device_id token action_id =
     \<lparr>hr_method = ''POST'', hr_path = ''/v1/devices/'' @ device_id @ ''/jobs/'' @ action_id @ ''/claim'',
      hr_payload = Some [], hr_headers = agent_headers token (Some (''claim-'' @ action_id))\<rparr>"

definition process_summary ::
  "('w, 'n) agent \<Rightarrow> string \<Rightarrow> string \<Rightarrow> json \<Rightarrow> ('w, 'n, unit) agent_io" where
  "process_summary a device_id token summary =
     bind (lift_result (json_dict summary)) (\<lambda>d.
       case dict_get d ''id'' of
         Some (JStr action_id) \<Rightarrow>
           bind (on_net (an_client a (claim_request device_id token action_id))) (\<lambda>v.
             bind (lift_result (json_dict v)) (\<lambda>env.
               bind (gets ag_entries) (\<lambda>es.
                 let job_id = str_json (dict_get env ''job_id'')
                 in if job_id \<noteq> None \<and> seen (the job_id) es then ret ()
                    else handle_claimed_job a device_id token action_id env job_id)))
       | _ \<Rightarrow> ret ())"

definition process_jobs :: "('w, 'n) agent \<Rightarrow> ('w, 'n, unit) agent_io" where
  "process_jobs a =
     seq (recover_interrupted_jobs a)
       (bind identity (\<lambda>(device_id, token).
          bind (on_net (an_client a
            \<lparr>hr_method = ''GET'', hr_path = ''/v1/devices/'' @ device_id @ ''/jobs'', hr_payload = None,
             hr_headers = agent_headers token None\<rparr>)) (\<lambda>jobs.
            bind (lift_result (json_items jobs)) (\<lambda>xs. for_each xs (process_summary a device_id token)))))"

definition send_heartbeat :: "('w, 'n) agent \<Rightarrow> string \<Rightarrow> string \<Rightarrow> ('w, 'n, unit) agent_io" where
  "send_heartbeat a device_id token = bind (fresh_uuid a) (\<lambda>key.
     bind (on_net (an_client a
       \<lparr>hr_method = ''POST'', hr_path = ''/v1/devices/'' @ device_id @ ''/heartbeat'',
        hr_payload = Some [(''status'', JObj [(''agent_version'', JStr ''0.1.0'')])],
        hr_headers = agent_headers token (Some key)\<rparr>)) (\<lambda>_. ret ()))"

definition send_inventory :: "('w, 'n) agent \<Rightarrow> string \<Rightarrow> string \<Rightarrow> ('w, 'n, unit) agent_io" where
  "send_inventory a device_id token = bind (gets ag_config) (\<lambda>cf.
     bind (on_world (an_collect a (cf_monitored_services cf))) (\<lambda>inventory.
       bind (now_text a) (\<lambda>now. bind (fresh_uuid a) (\<lambda>key.
         bind (on_net (an_client a
           \<lparr>hr_method = ''POST'', hr_path = ''/v1/devices/'' @ device_id @ ''/inventory'',
            hr_payload = Some [(''collected_at'', JStr now), (''payload'', inventory)],
            hr_headers = agent_headers token (Some key)\<rparr>)) (\<lambda>_.
           bind (read_monotonic a) (\<lambda>t. modify (\<lambda>s. s\<lparr>ag_last_inventory := t\<rparr>)))))))"

definition run_once :: "('w, 'n) agent \<Rightarrow> ('w, 'n, unit) agent_io" where
  "run_once a =
     seq (enroll a) (seq (ensure_signing_key a)
       (bind identity (\<lambda>(device_id, token).
          seq (send_heartbeat a device_id token)
            (bind (read_monotonic a) (\<lambda>t. bind (gets ag_last_inventory) (\<lambda>last. bind (gets ag_config) (\<lambda>cf.
               seq (if of_int (cf_inventory_seconds cf) \<le> t - last then send_inventory a device_id token else ret ())
                 (process_jobs a))))))))"

text \<open>
  \<open>main\<close>: an API or system error of a cycle is logged and the next cycle goes on; any other
  exception ends the process.  \<open>n\<close> is the number of cycles before the process is stopped (the
  code's loop has no end, or one round with \<open>--once\<close>).
\<close>

definition cycle_failed :: "py_error \<Rightarrow> bool" where
  "cycle_failed e = (case e of ApiError _ \<Rightarrow> True | OSError _ \<Rightarrow> True | _ \<Rightarrow> False)"

fun cycles :: "('w, 'n) agent \<Rightarrow> nat \<Rightarrow> ('w, 'n, unit) agent_io" where
  "cycles a 0 = ret ()"
| "cycles a (Suc n) = seq (catch cycle_failed (run_once a) (\<lambda>_. ret ())) (cycles a n)"

definition agent_main :: "('w, 'n) agent \<Rightarrow> string option \<Rightarrow> nat \<Rightarrow> ('w, 'n, unit) agent_io" where
  "agent_main a enrollment_token n =
     bind (gets ag_config) (\<lambda>cf.
       seq (if truthy enrollment_token \<and> \<not> is_enrolled cf then enroll_with_token a (the enrollment_token) else ret ())
         (cycles a n))"

section \<open>Construction\<close>

text \<open>
  The constructors: the restart executor exists only for a configuration that allows services,
  the DNS executor always.
\<close>

definition linux_agent_init ::
  "('w, 'n) agent \<Rightarrow> agent_config \<Rightarrow> 'w runner \<Rightarrow> py_error + ('w, 'n) agent" where
  "linux_agent_init a cf runner =
     (let b = a\<lparr>an_os := ''linux'', an_restart := None,
                an_dns := dns_execute \<lparr>dx_runner = runner, dx_timeout = 10\<rparr>\<rparr>
      in if cf_allowed_services cf = [] then Inr b
         else (case restart_executor_init (cf_allowed_services cf) runner 15 of
                 Inl e \<Rightarrow> Inl e
               | Inr x \<Rightarrow> Inr (b\<lparr>an_restart := Some (restart_execute x, restart_verify_only x)\<rparr>)))"

definition windows_agent_init ::
  "('w, 'n) agent \<Rightarrow> agent_config \<Rightarrow> 'w service_manager \<Rightarrow> 'w dns_resolver \<Rightarrow> py_error + ('w, 'n) agent" where
  "windows_agent_init a cf manager resolver =
     (let b = a\<lparr>an_os := ''windows'', an_restart := None, an_dns := win_dns_execute resolver\<rparr>
      in if cf_allowed_services cf = [] then Inr b
         else (case win_restart_executor_init (cf_allowed_services cf) manager 20 of
                 Inl e \<Rightarrow> Inl e
               | Inr x \<Rightarrow> Inr (b\<lparr>an_restart := Some (win_restart_execute x, win_verify_only x)\<rparr>)))"

text \<open>The state a process starts in, in the same constructors: the journal is read from its file.\<close>

definition restart_agent :: "agent_config \<Rightarrow> ('w, 'n, unit) agent_io" where
  "restart_agent cf = bind (gets ag_disk) (\<lambda>f. bind (lift_result (journal_load f)) (\<lambda>es.
     modify (\<lambda>s. s\<lparr>ag_config := cf, ag_last_inventory := 0, ag_entries := es\<rparr>)))"

end
