(* ===== verification/AgentProps.thy ===== *)
theory AgentProps
  imports Agent
begin

text \<open>
  What an agent guarantees, for any endpoint, control plane, clock and disk: the endpoint is
  changed by verified jobs only; the journal is written ahead, so that an interrupted job is
  observed and never repeated; the trusted keys, in memory and in the configuration file, only grow.
\<close>

section \<open>What leaves the endpoint alone\<close>

definition still :: "('w, 'n) agent_state \<Rightarrow> ('w, 'n) agent_state \<Rightarrow> bool" where
  "still s t \<longleftrightarrow> ag_world t = ag_world s"

lemma still_order [simp]: "reflp still" "transp still"
  by (auto simp: still_def intro!: reflpI transpI)

lemma still_effects [keeps_rules]:
  "keeps still (on_net m)" "keeps still (read_clock a)" "keeps still (save_journal a)" "keeps still identity"
  "keeps still (save_config a)" "keeps still (read_monotonic a)" "keeps still (fresh_uuid a)"
  "(\<And>s. ag_world (f s) = ag_world s) \<Longrightarrow> keeps still (modify f)"
  by (auto intro!: keepsI simp: still_def on_net_def read_clock_def save_journal_def save_config_def read_monotonic_def fresh_uuid_def
      identity_def modify_def Let_def
      split: prod.splits outcome.splits option.splits if_splits)

lemma still_write [keeps_rules]: "keeps still (write_entries a es)"
  unfolding write_entries_def by (intro keeps_rules) simp_all

lemma still_mark [keeps_rules]: "keeps still (journal_mark a f)"
  unfolding journal_mark_def now_text_def by (intro keeps_rules) simp_all

lemma still_prune [keeps_rules]: "keeps still (journal_prune a)"
  unfolding journal_prune_def by (intro keeps_rules) simp_all

lemma still_report [keeps_rules]: "keeps still (report_result a d tok aid ik ct res)"
  unfolding report_result_def by (intro keeps_rules) simp_all

lemma keeps_on_world:
  assumes "keeps R m"
  shows "keeps (\<lambda>s t. R (ag_world s) (ag_world t)) (on_world m)"
  using assms by (auto simp: keeps_def on_world_def split: prod.splits) (metis snd_conv)

text \<open>Unfolding a sequence at a state.\<close>

lemma bind_run: "m s = (Done a, t) \<Longrightarrow> bind m f s = f a t"
  by (simp add: bind_def)

lemma seq_run: "m s = (Done (), t) \<Longrightarrow> seq m n s = n t"
  by (simp add: seq_def bind_run)

lemma bindE:
  assumes "bind m f s = (r, t)"
  obtains (ends) r' where "m s = (r', t)" and "\<And>a. r' \<noteq> Done a" and "\<And>a. r \<noteq> Done a"
  | (goes) a u where "m s = (Done a, u)" and "f a u = (r, t)"
  using assms by (auto simp: bind_def split: prod.splits outcome.splits)

lemma seqE:
  assumes "seq m n s = (r, t)"
  obtains (ends) r' where "m s = (r', t)" and "r' \<noteq> Done ()" and "\<And>b. r \<noteq> Done b"
  | (goes) u where "m s = (Done (), u)" and "n u = (r, t)"
  using assms unfolding seq_def by (elim bindE) auto

lemma still_record_claim [keeps_rules]: "keeps still (record_claim a action_id env job_id)"
  unfolding record_claim_def now_text_def by (intro keeps_rules) simp_all

lemma still_finish [keeps_rules]: "keeps still (finish_job a d tok aid env job_id res)"
  unfolding finish_job_def by (intro keeps_rules) simp_all

text \<open>The configuration is touched by the keys only.\<close>

definition same_config :: "('w, 'n) agent_state \<Rightarrow> ('w, 'n) agent_state \<Rightarrow> bool" where
  "same_config s t \<longleftrightarrow> ag_config t = ag_config s \<and> ag_config_file t = ag_config_file s"

lemma same_config_order [simp]: "reflp same_config" "transp same_config"
  by (auto simp: same_config_def intro!: reflpI transpI)

lemma same_config_effects [keeps_rules]:
  "keeps same_config (on_net m)" "keeps same_config (on_world m')" "keeps same_config (read_clock a)"
  "keeps same_config (save_journal a)" "keeps same_config (read_monotonic a)" "keeps same_config (fresh_uuid a)"
  "keeps same_config identity" "(\<And>s. ag_config (f s) = ag_config s \<and> ag_config_file (f s) = ag_config_file s)
     \<Longrightarrow> keeps same_config (modify f)"
  by (auto intro!: keepsI simp: same_config_def on_net_def on_world_def read_clock_def save_journal_def
      read_monotonic_def fresh_uuid_def identity_def modify_def Let_def
      split: prod.splits outcome.splits option.splits if_splits)

lemma same_config_write [keeps_rules]: "keeps same_config (write_entries a es)"
  unfolding write_entries_def by (intro keeps_rules) simp_all

lemma same_config_mark [keeps_rules]: "keeps same_config (journal_mark a f)"
  unfolding journal_mark_def now_text_def by (intro keeps_rules) simp_all

lemma same_config_prune [keeps_rules]: "keeps same_config (journal_prune a)"
  unfolding journal_prune_def by (intro keeps_rules) simp_all

lemma same_config_report [keeps_rules]: "keeps same_config (report_result a d tok aid ik ct res)"
  unfolding report_result_def by (intro keeps_rules) simp_all

lemma same_config_record_claim [keeps_rules]: "keeps same_config (record_claim a action_id env job_id)"
  unfolding record_claim_def now_text_def by (intro keeps_rules) simp_all

lemma handle_phases:
  assumes "handle_claimed_job a d tok aid env job_id s = (r, t)"
  obtains (early) r' where "record_claim a aid env job_id s = (r', t)" and "r \<noteq> Done ()"
  | (stopped) s1 r2 where "record_claim a aid env job_id s = (Done (), s1)"
      and "execute_job a env job_id s1 = (r2, t)" and "r \<noteq> Done ()"
  | (finished) s1 res t2 where "record_claim a aid env job_id s = (Done (), s1)"
      and "execute_job a env job_id s1 = (Done res, t2)" and "finish_job a d tok aid env job_id res t2 = (r, t)"
  using assms unfolding handle_claimed_job_def
proof (cases rule: seqE)
  case (ends r')
  with early show thesis by blast
next
  case (goes u)
  from goes(2) show thesis
  proof (cases rule: bindE)
    case (ends r')
    with goes(1) stopped show thesis by blast
  next
    case (goes res t2)
    with \<open>record_claim a aid env job_id s = (Done (), u)\<close> finished show thesis by blast
  qed
qed

section \<open>Only verified jobs reach the endpoint\<close>

lemma verified_before_run:
  assumes "execute_job a env job_id s = (r, t)" and "ag_world t \<noteq> ag_world s"
  shows "\<exists>dev now execute ps u. cf_device_id (ag_config s) = Some dev
    \<and> cf_signing_public_keys (ag_config s) \<noteq> []
    \<and> verify_envelope (an_host a) (an_crypto a) env (cf_signing_public_keys (ag_config s)) dev
        (cf_tenant_id (ag_config s)) SUPPORTED_SKILL_VERSIONS now = Inr ()
    \<and> executor_for a (text_field a env ''skill_id'') = Some execute
    \<and> dict_get env ''parameters'' = Some (JObj ps)
    \<and> u = s\<lparr>ag_ticks := Suc (ag_ticks s)\<rparr> \<and> run_executor a execute ps job_id u = (r, t)
    \<and> now = an_clock a (ag_ticks s)"
proof -
  obtain dev tok where i: "identity s = (Done (dev, tok), s)" "cf_device_id (ag_config s) = Some dev"
  proof (cases "cf_device_id (ag_config s)")
    case None
    with assms show ?thesis by (auto simp: execute_job_def bind_def identity_def)
  next
    case (Some d)
    show ?thesis
    proof (cases "cf_agent_token (ag_config s)")
      case None
      with Some assms show ?thesis by (auto simp: execute_job_def bind_def identity_def)
    next
      case (Some t')
      with \<open>cf_device_id (ag_config s) = Some d\<close> assms that [of d t'] show ?thesis
        by (cases "d = [] \<or> t' = []") (auto simp: execute_job_def bind_def identity_def)
    qed
  qed
  let ?cf = "ag_config s" and ?u = "s\<lparr>ag_ticks := Suc (ag_ticks s)\<rparr>" and ?now = "an_clock a (ag_ticks s)"
  have g: "gets ag_config s = (Done ?cf, s)" by (simp add: gets_def)
  have k: "cf_signing_public_keys ?cf \<noteq> []"
    using assms by (auto simp: execute_job_def bind_run [where m = identity, OF i(1)] bind_run [where m = "gets ag_config", OF g] ret_def)
  have c: "read_clock a s = (Done ?now, ?u)" by (simp add: read_clock_def)
  let ?v = "verify_envelope (an_host a) (an_crypto a) env (cf_signing_public_keys ?cf) dev (cf_tenant_id ?cf)
    SUPPORTED_SKILL_VERSIONS ?now"
  have e: "execute_job a env job_id s = (case ?v of
           Inl (RuntimeError m) \<Rightarrow> ret (invalid m)
         | Inl e \<Rightarrow> raise e
         | Inr _ \<Rightarrow>
             (case executor_for a (text_field a env ''skill_id'') of
                None \<Rightarrow> ret (invalid
                  ''no executor available for this skill (allowlist empty or unknown skill)'')
              | Some execute \<Rightarrow>
                  (case dict_get env ''parameters'' of
                     Some (JObj parameters) \<Rightarrow> run_executor a execute parameters job_id
                   | _ \<Rightarrow> ret (invalid ''invalid parameters'')))) ?u"
    using k by (simp add: execute_job_def bind_run [where m = identity, OF i(1)] bind_run [where m = "gets ag_config", OF g] bind_run [where m = "read_clock a", OF c])
  have v: "?v = Inr ()"
  proof (cases ?v)
    case (Inl x)
    with e assms show ?thesis by (cases x) (auto simp: ret_def raise_def)
  qed simp
  show ?thesis
  proof (cases "executor_for a (text_field a env ''skill_id'')")
    case None
    with e v assms show ?thesis by (auto simp: ret_def)
  next
    case (Some execute)
    show ?thesis
    proof (cases "\<exists>ps. dict_get env ''parameters'' = Some (JObj ps)")
      case True
      then obtain ps where "dict_get env ''parameters'' = Some (JObj ps)" by blast
      with e v Some assms(1) i k show ?thesis by auto
    next
      case False
      with e v Some assms show ?thesis
        by (auto simp: ret_def split: option.splits json.splits)
    qed
  qed
qed

text \<open>
  C7.  The endpoint is changed only for verified jobs.  When the handling of a claimed job
  changes the endpoint, the agent is enrolled and has pinned a signing key, the envelope was
  accepted under the pinned keys at a reading of the clock (so it carries a valid signature, is
  addressed to this device and tenant and has not expired), and it names one of the two skills
  the agent has an executor for, in a supported version.
\<close>

theorem endpoint_changed_only_by_verified_job:
  assumes "handle_claimed_job a device_id token action_id env job_id s = (r, t)" and "ag_world t \<noteq> ag_world s"
  shows "\<exists>dev n. cf_device_id (ag_config s) = Some dev \<and> cf_signing_public_keys (ag_config s) \<noteq> []
    \<and> verify_envelope (an_host a) (an_crypto a) env (cf_signing_public_keys (ag_config s)) dev
        (cf_tenant_id (ag_config s)) SUPPORTED_SKILL_VERSIONS (an_clock a n) = Inr ()
    \<and> text_field a env ''skill_id'' \<in> {''service.restart'', ''dns.flush_cache''}"
proof -
  from assms(1) consider (early) r' where "record_claim a action_id env job_id s = (r', t)"
    | (started) s1 r2 t2 where "record_claim a action_id env job_id s = (Done (), s1)"
        "execute_job a env job_id s1 = (r2, t2)" "ag_world t = ag_world t2"
    by (rule handle_phases) (auto dest: keepsD [OF still_finish] simp: still_def)
  then show ?thesis
  proof cases
    case early
    then have "ag_world t = ag_world s" using keepsD [OF still_record_claim early] by (simp add: still_def)
    with assms(2) show ?thesis by simp
  next
    case (started s1 r2 t2)
    have w: "ag_world s1 = ag_world s" and cf: "ag_config s1 = ag_config s"
      using keepsD [OF still_record_claim started(1)] keepsD [OF same_config_record_claim started(1)]
      by (simp_all add: still_def same_config_def)
    from assms(2) w started(3) have "ag_world t2 \<noteq> ag_world s1" by simp
    with verified_before_run [OF started(2)] cf obtain dev execute where
      "cf_device_id (ag_config s) = Some dev" "cf_signing_public_keys (ag_config s) \<noteq> []"
      "verify_envelope (an_host a) (an_crypto a) env (cf_signing_public_keys (ag_config s)) dev
        (cf_tenant_id (ag_config s)) SUPPORTED_SKILL_VERSIONS (an_clock a (ag_ticks s1)) = Inr ()"
      and x: "executor_for a (text_field a env ''skill_id'') = Some execute" by auto
    moreover from x have "text_field a env ''skill_id'' \<in> {''service.restart'', ''dns.flush_cache''}"
      by (auto simp: executor_for_def split: if_splits)
    ultimately show ?thesis by blast
  qed
qed

text \<open>An enrolled agent with one pinned key whose DNS executor counts its runs.\<close>

definition demo_agent_code :: "(nat, unit) agent" where
  "demo_agent_code = \<lparr>an_host = demo_host, an_crypto = demo_crypto, an_os = ''linux'', an_hostname = ''h'',
     an_monotonic = of_nat, an_uuid = (\<lambda>_. ''u''), an_collect = (\<lambda>_. ret (JObj [])), an_clock = (\<lambda>_. 6), an_disk = (\<lambda>_. Done ()),
     an_client = (\<lambda>_ n. (Done JNull, n)), an_restart = None,
     an_dns = (\<lambda>_ w. (Done (success_report []), Suc w))\<rparr>"

definition demo_agent_start :: "(nat, unit) agent_state" where
  "demo_agent_start = \<lparr>ag_config = demo_config\<lparr>cf_signing_public_keys := [(1, public_key_pem demo_host demo_crypto ''seed'' 1)]\<rparr>,
     ag_config_file = None, ag_last_inventory = 0,
     ag_entries = [], ag_disk = Missing, ag_writes = 0, ag_ticks = 0, ag_world = 0, ag_net = ()\<rparr>"

lemma demo_signature: "\<exists>sig. sign_envelope demo_host demo_crypto demo_envelope ''seed'' 1 = Inr sig"
  using demo_envelope_fields by (auto simp: sign_envelope_def Signing.canonical_payload_def)

lemma demo_fields [simp]:
  "dict_get (complete_envelope demo_envelope sig) ''skill_id'' = Some (JStr ''dns.flush_cache'')"
  "dict_get (complete_envelope demo_envelope sig) ''parameters'' = Some (JObj [])"
  "dict_get (complete_envelope demo_envelope sig) ''job_id'' = Some (JStr ''a:1'')"
  by (simp_all add: complete_envelope_def demo_envelope_def dict_get_def)

lemma demo_handled:
  assumes "sign_envelope demo_host demo_crypto demo_envelope ''seed'' 1 = Inr sig"
  shows "\<exists>t. handle_claimed_job demo_agent_code ''d'' ''k'' ''a'' (complete_envelope demo_envelope sig) (Some ''a:1'')
      demo_agent_start = (Done (), t) \<and> ag_world t = 1 \<and> seen ''a:1'' (ag_entries t)"
proof -
  have v: "verify_envelope demo_host demo_crypto (complete_envelope demo_envelope sig)
      [(1, public_key_pem demo_host demo_crypto ''seed'' 1)] ''d'' ''t'' SUPPORTED_SKILL_VERSIONS 6 = Inr ()"
    by (rule demo_accepted [OF _ _ assms]) (simp_all add: SUPPORTED_SKILL_VERSIONS_def)
  show ?thesis
    by (simp add: handle_claimed_job_def record_claim_def execute_job_def finish_job_def demo_agent_code_def
        demo_agent_start_def demo_config_def io_defs now_text_def read_clock_def write_entries_def save_journal_def identity_def Let_def
        v executor_for_def text_field_def py_str_def run_executor_def journal_mark_def record_claimed_def
        mark_executing_def mark_executed_def mark_reported_def on_world_def on_net_def report_result_def
        journal_prune_def prune_reported_def seen_def)
qed

theorem endpoint_changed_only_by_verified_job_witness:
  "\<exists>sig t dev n. handle_claimed_job demo_agent_code ''d'' ''k'' ''a'' (complete_envelope demo_envelope sig)
      (Some ''a:1'') demo_agent_start = (Done (), t) \<and> ag_world t = 1
    \<and> verify_envelope demo_host demo_crypto (complete_envelope demo_envelope sig)
        [(1, public_key_pem demo_host demo_crypto ''seed'' 1)] dev ''t'' SUPPORTED_SKILL_VERSIONS n = Inr ()"
proof -
  obtain sig where "sign_envelope demo_host demo_crypto demo_envelope ''seed'' 1 = Inr sig" using demo_signature by blast
  from demo_handled [OF this] obtain t where
    t: "handle_claimed_job demo_agent_code ''d'' ''k'' ''a'' (complete_envelope demo_envelope sig) (Some ''a:1'')
      demo_agent_start = (Done (), t)" "ag_world t = 1" by blast
  have "ag_world t \<noteq> ag_world demo_agent_start" using t(2) by (simp add: demo_agent_start_def demo_config_def)
  from endpoint_changed_only_by_verified_job [OF t(1) this] t show ?thesis
    by (auto simp: demo_agent_start_def demo_config_def demo_agent_code_def)
qed

section \<open>The journal is written ahead\<close>

definition started :: "string \<Rightarrow> entries \<Rightarrow> bool" where
  "started j es \<longleftrightarrow> (\<exists>e. map_of es j = Some e \<and> jn_state e \<noteq> J_CLAIMED)"

definition on_disk :: "string \<Rightarrow> ('w, 'n) agent_state \<Rightarrow> bool" where
  "on_disk j s \<longleftrightarrow> (\<exists>es. journal_load (ag_disk s) = Inr es \<and> started j es)"

definition noted :: "string \<Rightarrow> ('w, 'n) agent_state \<Rightarrow> bool" where
  "noted j s \<longleftrightarrow> started j (ag_entries s) \<and> on_disk j s"

definition keeps_note :: "string \<Rightarrow> ('w, 'n) agent_state \<Rightarrow> ('w, 'n) agent_state \<Rightarrow> bool" where
  "keeps_note j s t \<longleftrightarrow> (noted j s \<longrightarrow> noted j t)"

lemma keeps_note_order [simp]: "reflp (keeps_note j)" "transp (keeps_note j)"
  by (auto simp: keeps_note_def intro!: reflpI transpI)

lemma note_effects [keeps_rules]:
  "keeps (keeps_note j) (on_net m)" "keeps (keeps_note j) (on_world m')" "keeps (keeps_note j) (read_clock a)"
  by (auto intro!: keepsI simp: keeps_note_def noted_def on_disk_def on_net_def on_world_def read_clock_def
      split: prod.splits)

lemma write_entries_run:
  "write_entries a es s = (let s' = s\<lparr>ag_entries := es, ag_writes := Suc (ag_writes s)\<rparr>
     in case an_disk a (ag_writes s) of Done _ \<Rightarrow> (Done (), s'\<lparr>ag_disk := journal_json es\<rparr>)
        | Raised e \<Rightarrow> (Raised e, s') | Crashed \<Rightarrow> (Crashed, s'))"
  by (auto simp: write_entries_def io_defs save_journal_def Let_def split: outcome.split)

lemma journal_mark_run:
  "journal_mark a f s = (let s' = s\<lparr>ag_ticks := Suc (ag_ticks s)\<rparr> in
     case f (isoformat (an_host a) (an_clock a (ag_ticks s))) (ag_entries s) of
       None \<Rightarrow> (Done (), s') | Some es \<Rightarrow> write_entries a es s')"
  by (auto simp: journal_mark_def now_text_def io_defs read_clock_def Let_def split: option.split)

lemma note_write:
  assumes "started j es"
  shows "noted j s \<Longrightarrow> noted j (snd (write_entries a es s))"
    and "write_entries a es s = (Done (), t) \<Longrightarrow> noted j t"
  using assms by (auto simp: write_entries_run noted_def on_disk_def Let_def split: outcome.splits)

lemma note_mark [keeps_rules]:
  assumes "\<And>now es es'. f now es = Some es' \<Longrightarrow> started j es \<Longrightarrow> started j es'"
  shows "keeps (keeps_note j) (journal_mark a f)"
proof -
  have "noted j (snd (journal_mark a f s))" if n: "noted j s" for s
  proof (cases "f (isoformat (an_host a) (an_clock a (ag_ticks s))) (ag_entries s)")
    case None
    with n show ?thesis by (simp add: journal_mark_run noted_def on_disk_def)
  next
    case (Some es)
    moreover have "started j es" using assms [OF Some] n by (simp add: noted_def)
    moreover have "noted j (s\<lparr>ag_ticks := Suc (ag_ticks s)\<rparr>)" using n by (simp add: noted_def on_disk_def)
    ultimately show ?thesis using note_write(1) by (simp add: journal_mark_run Let_def)
  qed
  then show ?thesis by (simp add: keeps_def keeps_note_def)
qed

lemma started_marks:
  "mark_executed k res now es = Some es' \<Longrightarrow> started j es \<Longrightarrow> started j es'"
  "mark_reported k now es = Some es' \<Longrightarrow> started j es \<Longrightarrow> started j es'"
  "mark_executing j now es = Some es' \<Longrightarrow> started j es'"
  by (auto simp: started_def mark_executed_def mark_reported_def mark_executing_def split: option.splits)

lemma record_claim_seen:
  assumes "record_claim a aid env (Some j) s = (Done (), t)"
  shows "seen j (ag_entries t)"
  using assms
  by (auto simp: record_claim_def now_text_def io_defs read_clock_def write_entries_run Let_def record_claimed_def
      split: outcome.splits)

lemma mark_executing_notes:
  assumes "journal_mark a (mark_executing j) s = (Done (), t)" and "seen j (ag_entries s)"
  shows "noted j t"
proof -
  from assms(2) obtain es where es: "mark_executing j (isoformat (an_host a) (an_clock a (ag_ticks s))) (ag_entries s) = Some es"
    by (auto simp: mark_executing_def seen_iff)
  with assms(1) have "write_entries a es (s\<lparr>ag_ticks := Suc (ag_ticks s)\<rparr>) = (Done (), t)"
    by (simp add: journal_mark_run Let_def)
  with note_write(2) [OF started_marks(3) [OF es]] show ?thesis by blast
qed

lemma run_executor_noted:
  assumes "run_executor a execute ps (Some j) s = (r, t)" and "seen j (ag_entries s)" and "j \<noteq> []"
    and "ag_world t \<noteq> ag_world s"
  shows "noted j t"
  using assms(1) unfolding run_executor_def
proof (cases rule: seqE)
  case (ends r')
  with assms(3) have "journal_mark a (mark_executing j) s = (r', t)" by simp
  from keepsD [OF still_mark this] assms(4) show ?thesis by (simp add: still_def)
next
  case (goes u)
  with assms(3) have "journal_mark a (mark_executing j) s = (Done (), u)" by simp
  then have "noted j u" using assms(2) by (rule mark_executing_notes)
  moreover have m: "keeps (keeps_note j) (journal_mark a (mark_executed j res))" for res
    by (intro note_mark) (rule started_marks)
  have k: "keeps (keeps_note j) (bind (catch refused (on_world (bind (execute ps) (\<lambda>r. ret (job_result_json r))))
               (\<lambda>e. ret (invalid (error_text e))))
         (\<lambda>result. seq (if truthy (Some j) then journal_mark a (mark_executed (the (Some j)) result) else ret ())
                    (ret result)))"
    by (intro keeps_bind keeps_catch keeps_seq keeps_ret keeps_if note_effects) (simp_all add: m)
  ultimately show ?thesis using keepsD [OF k goes(2)] by (simp add: keeps_note_def)
qed

lemma finish_job_noted:
  assumes "finish_job a d tok aid env (Some j) res s = (r, t)" and "noted j s"
  shows "r = Done () \<or> on_disk j t"
  using assms(1) unfolding finish_job_def
proof (cases rule: seqE)
  case (ends r')
  have "keeps (keeps_note j) (report_result a d tok aid (result_key a aid env) (text_field a env ''claim_token'') res)"
    unfolding report_result_def by (intro keeps_rules) simp_all
  from keepsD [OF this ends(1)] assms(2) show ?thesis by (simp add: keeps_note_def noted_def)
next
  case (goes u)
  have "keeps (keeps_note j) (report_result a d tok aid (result_key a aid env) (text_field a env ''claim_token'') res)"
    unfolding report_result_def by (intro keeps_rules) simp_all
  from keepsD [OF this goes(1)] assms(2) have u: "noted j u" by (simp add: keeps_note_def)
  have m: "keeps (keeps_note j) (journal_mark a (mark_reported j))" by (intro keeps_rules) (rule started_marks)
  from goes(2) show ?thesis
  proof (cases rule: seqE)
    case (ends r')
    then have "journal_mark a (mark_reported j) u = (r', t)" by simp
    from keepsD [OF m this] u show ?thesis by (simp add: keeps_note_def noted_def)
  next
    case (goes v)
    then have "journal_mark a (mark_reported j) u = (Done (), v)" by simp
    from keepsD [OF m this] u have v: "on_disk j v" by (simp add: keeps_note_def noted_def)
    from goes(2) show ?thesis
      using v by (auto simp: journal_prune_def io_defs write_entries_run Let_def on_disk_def
          split: option.splits sum.splits outcome.splits)
  qed
qed

lemma handle_on_disk:
  assumes "handle_claimed_job a d tok aid env (Some j) s = (r, t)" and "j \<noteq> []" and "ag_world t \<noteq> ag_world s"
  shows "r = Done () \<or> on_disk j t"
proof -
  have noted_if: "noted j v" if c: "record_claim a aid env (Some j) s = (Done (), s1)"
    and e: "execute_job a env (Some j) s1 = (r2, v)" and w: "ag_world v \<noteq> ag_world s" for s1 r2 v
  proof -
    from keepsD [OF still_record_claim c] w have "ag_world v \<noteq> ag_world s1" by (simp add: still_def)
    from verified_before_run [OF e this] obtain execute ps u where
      u: "u = s1\<lparr>ag_ticks := Suc (ag_ticks s1)\<rparr>" and x: "run_executor a execute ps (Some j) u = (r2, v)" by blast
    from record_claim_seen [OF c] u have "seen j (ag_entries u)" by simp
    moreover from u \<open>ag_world v \<noteq> ag_world s1\<close> have "ag_world v \<noteq> ag_world u" by simp
    ultimately show ?thesis using run_executor_noted [OF x _ assms(2)] by blast
  qed
  from assms(1) show ?thesis
  proof (cases rule: handle_phases)
    case (early r')
    with keepsD [OF still_record_claim early(1)] assms(3) show ?thesis by (simp add: still_def)
  next
    case (stopped s1 r2)
    with noted_if assms(3) show ?thesis by (auto simp: noted_def)
  next
    case (finished s1 res t2)
    from keepsD [OF still_finish finished(3)] assms(3) have "ag_world t2 \<noteq> ag_world s" by (simp add: still_def)
    with noted_if [OF finished(1,2)] have "noted j t2" by blast
    with finish_job_noted finished(3) show ?thesis by blast
  qed
qed

lemma seen_claim_ignored:
  assumes "seen j (ag_entries u)" and "dict_get d ''id'' = Some (JStr aid)"
    and "an_client a (claim_request dev tok aid) (ag_net u) = (Done (JObj env), n)"
    and "dict_get env ''job_id'' = Some (JStr j)"
  shows "process_summary a dev tok (JObj d) u = (Done (), u\<lparr>ag_net := n\<rparr>)"
  using assms by (simp add: process_summary_def io_defs json_dict_def on_net_def str_json_def Let_def)

section \<open>Recovery observes\<close>

lemma still_lift: "reflp R \<Longrightarrow> keeps still m \<Longrightarrow> keeps (\<lambda>s t. R (ag_world s) (ag_world t)) m"
  by (simp add: keeps_def still_def reflp_def)

text \<open>
  Recovery only observes.  Whatever a recovery of interrupted jobs does to the endpoint is
  done by the \<open>verify_only\<close> of the restart executor: every relation between endpoint states that
  \<open>verify_only\<close> keeps is kept by the whole of recovery, for any journal and any answers of the
  control plane; and an entry whose result is known is reported with exactly that result, under
  the idempotency key of its claim.
\<close>

theorem recovery_only_observes:
  assumes "reflp R" and "transp R" and "\<And>x v service. an_restart a = Some (x, v) \<Longrightarrow> keeps R (v service)"
  shows "R (ag_world s) (ag_world (snd (recover_interrupted_jobs a s)))
    \<and> (jn_state e = J_EXECUTED \<and> jn_result e = Some res \<longrightarrow>
        recover_entry a device_id token e = bind (attempt api_failed (report_result a device_id token
            (jn_action_id e) (jn_idempotency_key e) (jn_claim_token e) res))
          (\<lambda>sent. if sent = None then ret () else journal_mark a (mark_reported (jn_job_id e))))"
proof -
  let ?R = "\<lambda>s t :: ('a, 'b) agent_state. R (ag_world s) (ag_world t)"
  have o: "reflp ?R" "transp ?R" using assms(1,2) by (auto simp: reflp_def intro!: transpI dest: transpD)
  note lift = still_lift [OF assms(1)]
  have v: "keeps ?R (verify_only_result a sk ps)" for sk ps
    unfolding verify_only_result_def Let_def
    by (auto simp: assms(1,2) split: option.split json.split
        intro!: keeps_ret keeps_on_world keeps_bind assms(3) o)
  have e: "keeps ?R (recover_entry a d tok e)" for d tok e
    unfolding recover_entry_def
    by (intro keeps_bind keeps_if keeps_ret v lift [OF still_mark] o keeps_attempt lift [OF still_report])
  have "keeps ?R (recover_interrupted_jobs a)"
    unfolding recover_interrupted_jobs_def
    by (intro keeps_bind keeps_if keeps_ret keeps_prod keeps_seq keeps_for_each e o keeps_gets
        lift [OF still_prune] lift [OF still_effects(4)])
  then have "R (ag_world s) (ag_world (snd (recover_interrupted_jobs a s)))" by (simp add: keeps_def)
  moreover have "recover_entry a device_id token e = bind (attempt api_failed (report_result a device_id token
            (jn_action_id e) (jn_idempotency_key e) (jn_claim_token e) res))
          (\<lambda>sent. if sent = None then ret () else journal_mark a (mark_reported (jn_job_id e)))"
    if "jn_state e = J_EXECUTED" "jn_result e = Some res"
    using that by (simp add: recover_entry_def bind_def ret_def fun_eq_iff)
  ultimately show ?thesis by blast
qed

text \<open>An agent with the scripted machine of the executors behind it, interrupted while executing.\<close>

definition recovering_agent :: "(string list list, unit) agent" where
  "recovering_agent = \<lparr>an_host = demo_host, an_crypto = demo_crypto, an_os = ''linux'', an_hostname = ''h'',
     an_monotonic = of_nat, an_uuid = (\<lambda>_. ''u''), an_collect = (\<lambda>_. ret (JObj [])), an_clock = (\<lambda>_. 6), an_disk = (\<lambda>_. Done ()),
     an_client = (\<lambda>_ n. (Done JNull, n)),
     an_restart = Some (restart_execute demo_restart, restart_verify_only demo_restart),
     an_dns = (\<lambda>_. ret (success_report []))\<rparr>"

definition recovering_state :: "(string list list, unit) agent_state" where
  "recovering_state = \<lparr>ag_config = demo_config\<lparr>cf_signing_public_keys := []\<rparr>, ag_config_file = None, ag_last_inventory = 0,
     ag_entries = [(''j'', (demo_entry ''j'' J_EXECUTING ''1'')\<lparr>jn_parameters := [(''service'', JStr ''nginx'')]\<rparr>)],
     ag_disk = Missing, ag_writes = 0, ag_ticks = 0, ag_world = [], ag_net = ()\<rparr>"

theorem recovery_only_observes_witness:
  "set (ag_world (snd (recover_interrupted_jobs recovering_agent recovering_state))) \<subseteq> range show_command"
proof -
  define R where "R = (\<lambda>w w' :: string list list. \<exists>new. w' = w @ new \<and> set new \<subseteq> range show_command)"
  have o: "reflp R" "transp R" by (auto simp: R_def intro!: reflpI transpI)
  have run: "keeps R (demo_run a (show_command s) t)" for a s t
    by (auto intro!: keepsI simp: demo_run_def R_def split: if_splits)
  have "keeps R (restart_verify_only demo_restart s)" for s
    unfolding restart_verify_only_def using o run
    by (intro keeps_rules) (auto simp: demo_restart_def)
  then have k: "an_restart recovering_agent = Some (x, v) \<Longrightarrow> keeps R (v service)" for x v service
    by (auto simp: recovering_agent_def)
  have "R (ag_world recovering_state) (ag_world (snd (recover_interrupted_jobs recovering_agent recovering_state)))"
    by (rule conjunct1 [OF recovery_only_observes]) (use o k in auto)
  then show ?thesis by (auto simp: R_def recovering_state_def)
qed

section \<open>Pinned keys\<close>

text \<open>Handling and recovering jobs leaves the configuration alone.\<close>

lemma same_config_job [keeps_rules]: "keeps same_config (execute_job a env job_id)"
  unfolding execute_job_def run_executor_def
  by (auto split: sum.split py_error.split option.split json.split intro!: keeps_rules)

lemma same_config_handle [keeps_rules]: "keeps same_config (handle_claimed_job a d tok aid env job_id)"
  unfolding handle_claimed_job_def finish_job_def by (intro keeps_rules) simp_all

lemma same_config_verify [keeps_rules]: "keeps same_config (verify_only_result a sk ps)"
  unfolding verify_only_result_def Let_def
  by (auto split: option.split json.split intro!: keeps_ret keeps_bind same_config_effects)

lemma same_config_recover [keeps_rules]: "keeps same_config (recover_interrupted_jobs a)"
  unfolding recover_interrupted_jobs_def recover_entry_def
  by (intro keeps_rules keeps_attempt; simp)

lemma same_config_summary [keeps_rules]: "keeps same_config (process_summary a d tok x)"
  unfolding process_summary_def Let_def
  by (auto split: option.split json.split intro!: keeps_rules)

lemma same_config_process [keeps_rules]: "keeps same_config (process_jobs a)"
  unfolding process_jobs_def by (intro keeps_rules) simp_all

lemma same_config_heartbeat [keeps_rules]: "keeps same_config (send_heartbeat a d tok)"
  unfolding send_heartbeat_def by (intro keeps_rules) simp_all

lemma same_config_inventory [keeps_rules]: "keeps same_config (send_inventory a d tok)"
  unfolding send_inventory_def now_text_def by (intro keeps_rules) simp_all

abbreviation trusted :: "('w, 'n) agent_state \<Rightarrow> int \<rightharpoonup> string" where
  "trusted s \<equiv> map_of (cf_signing_public_keys (ag_config s))"

text \<open>The keys an agent that is started from the configuration file trusts.\<close>

definition file_keys :: "host \<Rightarrow> ('w, 'n) agent_state \<Rightarrow> int \<rightharpoonup> string" where
  "file_keys h s = (case ag_config_file s of None \<Rightarrow> Map.empty
     | Some v \<Rightarrow> (case config_load h v of Inl _ \<Rightarrow> Map.empty | Inr cf \<Rightarrow> map_of (cf_signing_public_keys cf)))"

definition keys_ok :: "host \<Rightarrow> ('w, 'n) agent_state \<Rightarrow> bool" where
  "keys_ok h s \<longleftrightarrow> distinct (map fst (cf_signing_public_keys (ag_config s))) \<and> file_keys h s \<subseteq>\<^sub>m trusted s"

definition keys_grow :: "host \<Rightarrow> ('w, 'n) agent_state \<Rightarrow> ('w, 'n) agent_state \<Rightarrow> bool" where
  "keys_grow h s t \<longleftrightarrow> (keys_ok h s \<longrightarrow> keys_ok h t \<and> trusted s \<subseteq>\<^sub>m trusted t \<and> file_keys h s \<subseteq>\<^sub>m file_keys h t)"

lemma keys_grow_order [simp]: "reflp (keys_grow h)" "transp (keys_grow h)"
  by (auto simp: keys_grow_def intro!: reflpI transpI dest: map_le_trans)

lemma keys_grow_same: "keeps same_config m \<Longrightarrow> keeps (keys_grow h) m"
  by (auto simp: keeps_def same_config_def keys_grow_def keys_ok_def file_keys_def)

lemma keys_grow_save: "keeps (keys_grow (an_host a)) (save_config a)"
proof (rule keepsI)
  fix s r t
  assume "save_config a s = (r, t)"
  then have c: "ag_config t = ag_config s"
    and f: "ag_config_file t \<in> {ag_config_file s, Some (config_json (ag_config s))}"
    by (auto simp: save_config_def Let_def split: outcome.splits)
  show "keys_grow (an_host a) s t"
    unfolding keys_grow_def
  proof
    assume k: "keys_ok (an_host a) s"
    then have "config_load (an_host a) (config_json (ag_config s)) = Inr (ag_config s)"
      by (simp add: keys_ok_def config_load_saved)
    with k c f show "keys_ok (an_host a) t \<and> trusted s \<subseteq>\<^sub>m trusted t \<and> file_keys (an_host a) s \<subseteq>\<^sub>m file_keys (an_host a) t"
      by (auto simp: keys_ok_def file_keys_def)
  qed
qed

lemma keys_grow_set:
  "(\<And>cf. cf_signing_public_keys (f cf) = cf_signing_public_keys cf) \<Longrightarrow> keeps (keys_grow h) (set_config f)"
  by (auto intro!: keepsI simp: set_config_def modify_def keys_grow_def keys_ok_def file_keys_def)

lemma keys_grow_merge_key: "keeps (keys_grow h) (merge_key a kv)"
proof (rule keepsI)
  fix s r t
  assume m: "merge_key a kv s = (r, t)"
  have g: "map_of ks \<subseteq>\<^sub>m map_of (ks @ [(k, v)])" for ks :: "(int \<times> string) list" and k v
    by (auto simp: map_le_def map_add_def split: option.split)
  have d: "map_of ks k = None \<Longrightarrow> k \<notin> fst ` set ks" for ks :: "(int \<times> string) list" and k
    by (simp add: map_of_eq_None_iff)
  from m have "t = s \<or> (\<exists>k v. trusted s k = None \<and> ag_config_file t = ag_config_file s
      \<and> cf_signing_public_keys (ag_config t) = cf_signing_public_keys (ag_config s) @ [(k, v)])"
    by (cases kv) (auto simp: merge_key_def io_defs Let_def split: sum.splits if_splits)
  then show "keys_grow h s t"
    using g d by (auto simp: keys_grow_def keys_ok_def file_keys_def intro: map_le_trans)
qed

lemma keys_grow_merge: "keeps (keys_grow h) (merge_signing_keys a v)"
proof -
  have "keeps (keys_grow h) (merge_keys a kvs b)" for kvs b
  proof (induction kvs arbitrary: b)
    case (Cons kv kvs)
    then show ?case
      using keys_grow_merge_key keys_grow_order keeps_bind by (metis merge_keys.simps(2))
  qed (simp add: keeps_ret)
  then show ?thesis unfolding merge_signing_keys_def by (intro keeps_rules) simp_all
qed

lemmas keys_grow_rules = keys_grow_save keys_grow_merge keys_grow_set keys_grow_same [OF same_config_effects(1)]
  keys_grow_same [OF same_config_effects(7)] keys_grow_same [OF same_config_process]
  keys_grow_same [OF same_config_heartbeat] keys_grow_same [OF same_config_inventory]
  keys_grow_same [OF same_config_effects(5)]

lemma keys_grow_main: "keeps (keys_grow (an_host a)) (agent_main a token n)"
proof -
  have e: "keeps (keys_grow (an_host a)) (enroll a)" "keeps (keys_grow (an_host a)) (enroll_with_token a tk)"
    "keeps (keys_grow (an_host a)) (ensure_signing_key a)" for tk
    unfolding enroll_def enroll_with_token_def ensure_signing_key_def
    by (intro keeps_rules keys_grow_rules; simp)+
  have r: "keeps (keys_grow (an_host a)) (run_once a)"
    unfolding run_once_def by (intro keeps_rules keys_grow_rules e; simp)
  have "keeps (keys_grow (an_host a)) (cycles a n)" for n
    by (induction n) (auto intro!: keeps_rules r)
  with e(2) show ?thesis unfolding agent_main_def by (intro keeps_rules) simp_all
qed

text \<open>
  C35.  A pinned key is never replaced, over the whole life of an agent.  Whatever the control
  plane answers, and wherever the run of the main loop ends (an exception, the death of the
  process), the keys the agent trusts in memory keep their versions and values and only grow; so
  do the keys in the configuration file, which are always among those in memory, so that a
  restart forgets no key that was pinned before the run; and an envelope the pinned keys accept
  is still accepted.
\<close>

theorem pinned_keys_never_replaced:
  assumes "agent_main a enrollment_token n s = (r, t)"
    and "distinct (map fst (cf_signing_public_keys (ag_config s)))" and "file_keys (an_host a) s \<subseteq>\<^sub>m trusted s"
  shows "trusted s \<subseteq>\<^sub>m trusted t
    \<and> file_keys (an_host a) s \<subseteq>\<^sub>m file_keys (an_host a) t \<and> file_keys (an_host a) t \<subseteq>\<^sub>m trusted t
    \<and> (verify_envelope h c env (cf_signing_public_keys (ag_config s)) dev ten supported now = Inr ()
        \<longrightarrow> verify_envelope h c env (cf_signing_public_keys (ag_config t)) dev ten supported now = Inr ())"
proof -
  from keepsD [OF keys_grow_main assms(1)] assms(2,3) have k: "keys_ok (an_host a) t" "trusted s \<subseteq>\<^sub>m trusted t"
    "file_keys (an_host a) s \<subseteq>\<^sub>m file_keys (an_host a) t"
    by (simp_all add: keys_grow_def keys_ok_def)
  from k(2) have "trusted s v = Some pem \<Longrightarrow> trusted t v = Some pem" for v pem
    by (metis domI map_le_def)
  with k show ?thesis unfolding accepted_iff keys_ok_def by blast
qed

text \<open>A control plane that answers every request with a replaced first key and a new one.\<close>

definition replacing_agent :: "(nat, unit) agent" where
  "replacing_agent = demo_agent_code\<lparr>an_client := (\<lambda>_ n. (Done (JObj [(''signing_public_keys'',
        JObj [(''1'', JStr ''evil''), (''3'', JStr ''new'')])]), n))\<rparr>"

definition pinned_start :: "(nat, unit) agent_state" where
  "pinned_start = demo_agent_start\<lparr>ag_config := demo_config, ag_config_file := Some (config_json demo_config)\<rparr>"

theorem pinned_keys_never_replaced_witness:
  "\<exists>r t. agent_main replacing_agent None 2 pinned_start = (r, t)
     \<and> trusted t 1 = Some ''one'' \<and> file_keys demo_host t 1 = Some ''one''"
proof -
  obtain r t where t: "agent_main replacing_agent None 2 pinned_start = (r, t)" by (cases "agent_main replacing_agent None 2 pinned_start")
  have h: "an_host replacing_agent = demo_host" by (simp add: replacing_agent_def demo_agent_code_def)
  have d: "distinct (map fst (cf_signing_public_keys demo_config))" by (simp add: demo_config_def)
  have f: "file_keys demo_host pinned_start = map_of (cf_signing_public_keys demo_config)"
    using config_load_saved [OF d] by (simp add: file_keys_def pinned_start_def)
  have c: "ag_config pinned_start = demo_config" by (simp add: pinned_start_def)
  have "trusted pinned_start \<subseteq>\<^sub>m trusted t \<and> file_keys demo_host pinned_start \<subseteq>\<^sub>m file_keys demo_host t"
    using pinned_keys_never_replaced [OF t] d f c h by simp
  moreover have "map_of (cf_signing_public_keys demo_config) 1 = Some ''one''" by (simp add: demo_config_def)
  ultimately have "trusted t 1 = Some ''one'' \<and> file_keys demo_host t 1 = Some ''one''"
    using f c by (metis domI map_le_def)
  with t show ?thesis by blast
qed

end
