(* ===== verification/AgentLife.thy ===== *)
theory AgentLife
  imports AgentProps
begin

text \<open>
  An interrupted job over the later life of the agent: its journal through recovery, further cycles and further
  restarts.  The entry of a job leaves the journal only when pruning does it, and pruning leaves 500 reported
  jobs behind; until then the job is not executed again, and recovery executes nothing at all.
\<close>

section \<open>What the journal remembers\<close>

definition remembers :: "string \<Rightarrow> entries \<Rightarrow> bool" where
  "remembers j es \<longleftrightarrow> keyed es \<and> (seen j es \<or> 500 \<le> length (reported es))"

text \<open>A job that is in memory has not been reported.\<close>

definition unreported :: "string \<Rightarrow> entries \<Rightarrow> bool" where
  "unreported k es \<longleftrightarrow> (\<forall>e. map_of es k = Some e \<longrightarrow> jn_state e \<noteq> J_REPORTED)"

lemma length_reported: "length (reported es) = length (filter (\<lambda>e. jn_state e = J_REPORTED) (map snd es))"
  by (simp add: reported_def)

lemma reported_update:
  "unreported k es \<or> jn_state e = J_REPORTED \<Longrightarrow> length (reported es) \<le> length (reported (AList.update k e es))"
  unfolding length_reported by (induction es) (auto simp: unreported_def)

lemma remembers_update:
  "remembers j es \<Longrightarrow> jn_job_id e = k \<Longrightarrow> unreported k es \<or> jn_state e = J_REPORTED \<Longrightarrow> remembers j (AList.update k e es)"
  using reported_update [of k es e] by (auto simp: remembers_def keyed_update)

lemma remembers_prune:
  assumes "remembers j es" and "prune_reported 500 es = Some (Inr es')"
  shows "remembers j es'"
proof -
  from assms(1) have "keyed es" by (simp add: remembers_def)
  from journal_prune_keeps_pending [OF this assms(2)] show ?thesis by (auto simp: remembers_def)
qed

section \<open>Memory and file\<close>

text \<open>What holds of the entries in memory, and of those in the file.\<close>

definition journal_sat :: "(entries \<Rightarrow> bool) \<Rightarrow> (entries \<Rightarrow> bool) \<Rightarrow> ('w, 'n) agent_state \<Rightarrow> bool" where
  "journal_sat P Q s \<longleftrightarrow> P (ag_entries s) \<and> (\<exists>es. journal_load (ag_disk s) = Inr es \<and> Q es)"

definition keeps_sat :: "(entries \<Rightarrow> bool) \<Rightarrow> (entries \<Rightarrow> bool) \<Rightarrow> ('w, 'n) agent_state \<Rightarrow> ('w, 'n) agent_state \<Rightarrow> bool" where
  "keeps_sat P Q s t \<longleftrightarrow> (journal_sat P Q s \<longrightarrow> journal_sat P Q t)"

lemma keeps_sat_order [simp]: "reflp (keeps_sat P Q)" "transp (keeps_sat P Q)"
  by (auto simp: keeps_sat_def intro!: reflpI transpI)

text \<open>Most of the agent does not touch the journal.\<close>

definition same_journal :: "('w, 'n) agent_state \<Rightarrow> ('w, 'n) agent_state \<Rightarrow> bool" where
  "same_journal s t \<longleftrightarrow> ag_entries t = ag_entries s \<and> ag_disk t = ag_disk s"

lemma same_journal_order [simp]: "reflp same_journal" "transp same_journal"
  by (auto simp: same_journal_def intro!: reflpI transpI)

lemma same_journal_effects [keeps_rules]:
  "keeps same_journal (on_net m)" "keeps same_journal (on_world m')" "keeps same_journal (read_clock a)"
  "keeps same_journal (read_monotonic a)" "keeps same_journal (fresh_uuid a)" "keeps same_journal identity"
  "keeps same_journal (save_config a)" "keeps same_journal (set_config f)" "keeps same_journal (merge_key a kv)"
  "(\<And>s. ag_entries (f' s) = ag_entries s \<and> ag_disk (f' s) = ag_disk s) \<Longrightarrow> keeps same_journal (modify f')"
  by (auto intro!: keepsI simp: same_journal_def on_net_def on_world_def read_clock_def read_monotonic_def fresh_uuid_def
      identity_def modify_def save_config_def set_config_def merge_key_def io_defs Let_def
      split: prod.splits outcome.splits option.splits if_splits sum.splits)

lemma same_journal_merge [keeps_rules]: "keeps same_journal (merge_signing_keys a v)"
proof -
  have "keeps same_journal (merge_keys a kvs b)" for kvs b
    by (induction kvs arbitrary: b) (auto intro!: keeps_rules)
  then show ?thesis unfolding merge_signing_keys_def by (intro keeps_rules) simp_all
qed

lemma same_journal_verify [keeps_rules]: "keeps same_journal (verify_only_result a sk ps)"
  unfolding verify_only_result_def Let_def
  by (auto split: option.split json.split intro!: keeps_ret keeps_bind same_journal_effects)

lemma same_journal_parts [keeps_rules]:
  "keeps same_journal (now_text a)" "keeps same_journal (report_result a d tok aid ik ct res)"
  "keeps same_journal (enroll a)" "keeps same_journal (enroll_with_token a tk)" "keeps same_journal (ensure_signing_key a)"
  "keeps same_journal (send_heartbeat a d tok)" "keeps same_journal (send_inventory a d tok)"
  unfolding enroll_def enroll_with_token_def ensure_signing_key_def send_heartbeat_def send_inventory_def
    report_result_def now_text_def
  by ((intro keeps_rules; simp)+)

lemma keeps_sat_same: "keeps same_journal m \<Longrightarrow> keeps (keeps_sat P Q) m"
  by (auto simp: keeps_def same_journal_def keeps_sat_def journal_sat_def)

lemma sat_write:
  assumes "journal_sat P' Q s" and "P es" and "Q es"
  shows "journal_sat P Q (snd (write_entries a es s))"
  using assms by (auto simp: write_entries_run journal_sat_def Let_def split: outcome.splits)

text \<open>A marking that takes what holds of memory before to what is to hold after.\<close>

lemma sat_mark:
  assumes "journal_sat P' Q s" and "\<And>now es es'. f now es = Some es' \<Longrightarrow> P' es \<Longrightarrow> P es' \<and> Q es'" and "\<And>es. P' es \<Longrightarrow> P es"
  shows "journal_sat P Q (snd (journal_mark a f s))"
proof (cases "f (isoformat (an_host a) (an_clock a (ag_ticks s))) (ag_entries s)")
  case None
  with assms(1,3) show ?thesis by (auto simp: journal_mark_run journal_sat_def)
next
  case (Some es)
  moreover have "journal_sat P' Q (s\<lparr>ag_ticks := Suc (ag_ticks s)\<rparr>)" using assms(1) by (simp add: journal_sat_def)
  moreover have "P es" "Q es" using assms(2) [OF Some] assms(1) by (simp_all add: journal_sat_def)
  ultimately show ?thesis using sat_write by (simp add: journal_mark_run Let_def)
qed

section \<open>Handling a job\<close>

lemma remembers_mark:
  assumes "remembers j es" and "map_of es k = Some e" and "es' = AList.update k e' es" and "jn_job_id e' = jn_job_id e"
    and "unreported k es \<or> jn_state e' = J_REPORTED"
  shows "remembers j es'"
proof -
  from assms(1,2) have "jn_job_id e = k" by (simp add: remembers_def keyed_def)
  with assms show ?thesis by (simp add: remembers_update)
qed

definition noting :: "string \<Rightarrow> string option \<Rightarrow> entries \<Rightarrow> bool" where
  "noting j k es \<longleftrightarrow> remembers j es \<and> (\<forall>i. k = Some i \<longrightarrow> unreported i es)"

lemma noting_remembers: "noting j k es \<Longrightarrow> remembers j es"
  by (simp add: noting_def)

lemma noting_marks:
  assumes "noting j (Some k) es"
  shows "mark_executing k now es = Some es' \<Longrightarrow> noting j (Some k) es'"
    and "mark_executed k res now es = Some es' \<Longrightarrow> noting j (Some k) es'"
proof -
  from assms have r: "remembers j es" and u: "unreported k es" by (simp_all add: noting_def)
  have n: "noting j (Some k) (AList.update k e' es)"
    if "map_of es k = Some e" "jn_job_id e' = jn_job_id e" "jn_state e' \<noteq> J_REPORTED" for e e'
    using remembers_mark [OF r that(1) refl that(2)] u that(3) by (simp add: noting_def unreported_def)
  show "mark_executing k now es = Some es' \<Longrightarrow> noting j (Some k) es'" "mark_executed k res now es = Some es' \<Longrightarrow> noting j (Some k) es'"
    by (auto simp: mark_executing_def mark_executed_def split: option.splits intro!: n)
qed

lemma remembers_mark_reported: "remembers j es \<Longrightarrow> mark_reported k now es = Some es' \<Longrightarrow> remembers j es'"
  unfolding mark_reported_def by (auto split: option.splits elim!: remembers_mark)

text \<open>From here on, memory and file both remember the job \<open>j\<close>, and the job \<open>k\<close> at hand is not reported.\<close>

lemma sat_record_claim:
  assumes "journal_sat (remembers j) (remembers j) s" and "\<And>i. k = Some i \<Longrightarrow> \<not> seen i (ag_entries s)"
  shows "journal_sat (noting j k) (remembers j) (snd (record_claim a aid env k s))"
proof (cases k)
  case None
  with assms(1) show ?thesis by (simp add: record_claim_def ret_def journal_sat_def noting_def)
next
  case (Some i)
  let ?s = "s\<lparr>ag_ticks := Suc (ag_ticks s)\<rparr>"
  obtain nc tk ik sk ps n now where w: "record_claim a aid env k s = write_entries a (record_claimed i aid n nc tk ik sk ps now (ag_entries s)) ?s"
    by (simp add: record_claim_def Some now_text_def io_defs read_clock_def)
  from assms(2) Some have u: "unreported i (ag_entries s)" by (auto simp: unreported_def seen_iff)
  from assms(1) have r: "remembers j (ag_entries s)" and s: "journal_sat (remembers j) (remembers j) ?s" by (simp_all add: journal_sat_def)
  from r u have m: "remembers j (record_claimed i aid n nc tk ik sk ps now (ag_entries s))"
    unfolding record_claimed_def by (intro remembers_update) simp_all
  have "unreported i (record_claimed i aid n nc tk ik sk ps now (ag_entries s))" by (simp add: unreported_def record_claimed_def)
  with m have "noting j k (record_claimed i aid n nc tk ik sk ps now (ag_entries s))" by (simp add: noting_def Some)
  with s m show ?thesis unfolding w by (intro sat_write)
qed

text \<open>Recording a claim puts its own job into memory and file.\<close>

lemma claim_noted:
  assumes "record_claim a aid env (Some j) s = (Done (), t)" and "keyed (ag_entries s)"
  shows "journal_sat (noting j (Some j)) (remembers j) t"
proof -
  let ?s = "s\<lparr>ag_ticks := Suc (ag_ticks s)\<rparr>"
  obtain nc tk ik sk ps n now where
    w: "record_claim a aid env (Some j) s = write_entries a (record_claimed j aid n nc tk ik sk ps now (ag_entries s)) ?s"
    by (simp add: record_claim_def now_text_def io_defs read_clock_def)
  let ?es = "record_claimed j aid n nc tk ik sk ps now (ag_entries s)"
  have "remembers j ?es" using keyed_record_claimed [OF assms(2)] by (simp add: remembers_def) (simp add: record_claimed_def)
  moreover have "unreported j ?es" by (simp add: unreported_def record_claimed_def)
  ultimately show ?thesis using assms(1) unfolding w
    by (auto simp: write_entries_run journal_sat_def noting_def Let_def split: outcome.splits)
qed

lemma sat_execute: "keeps (keeps_sat (noting j k) (remembers j)) (execute_job a env k)"
proof -
  have mark: "keeps (keeps_sat (noting j k) (remembers j)) (if truthy k then journal_mark a (f (the k)) else ret ())"
    if "\<And>i now es es'. noting j (Some i) es \<Longrightarrow> f i now es = Some es' \<Longrightarrow> noting j (Some i) es'" for f
  proof (cases k)
    case None
    then show ?thesis by (simp add: truthy_def keeps_ret)
  next
    case (Some i)
    have "keeps (keeps_sat (noting j (Some i)) (remembers j)) (journal_mark a (f i))"
      unfolding keeps_def keeps_sat_def
      by (intro allI impI, rule sat_mark [where P' = "noting j (Some i)"]) (use that noting_remembers in blast)+
    with Some show ?thesis by (simp add: keeps_ret)
  qed
  note m = mark [of mark_executing, OF noting_marks(1)] mark [of "\<lambda>i. mark_executed i res" for res, OF noting_marks(2)]
  have "keeps (keeps_sat (noting j k) (remembers j)) (run_executor a execute ps k)" for execute ps
    unfolding run_executor_def
    by (intro keeps_seq keeps_bind keeps_catch keeps_ret m keeps_sat_same [OF same_journal_effects(2)]) simp_all
  then show ?thesis unfolding execute_job_def
    by (auto split: sum.split py_error.split option.split json.split
        intro!: keeps_ret keeps_raise keeps_bind keeps_if keeps_prod keeps_sat_same [OF same_journal_effects(6)]
          keeps_sat_same [OF same_journal_effects(3)] keeps_gets)
qed

lemma sat_prune: "keeps (keeps_sat (remembers j) (remembers j)) (journal_prune a)"
proof (rule keepsI)
  fix s r t
  assume p: "journal_prune a s = (r, t)"
  show "keeps_sat (remembers j) (remembers j) s t" unfolding keeps_sat_def
  proof
    assume s: "journal_sat (remembers j) (remembers j) s"
    then have m: "remembers j (ag_entries s)" by (simp add: journal_sat_def)
    show "journal_sat (remembers j) (remembers j) t"
    proof (cases "prune_reported 500 (ag_entries s)")
      case None
      with p s show ?thesis by (simp add: journal_prune_def io_defs)
    next
      case (Some x)
      show ?thesis
      proof (cases x)
        case (Inl e)
        with p s Some show ?thesis by (simp add: journal_prune_def io_defs)
      next
        case (Inr es)
        with p Some have "write_entries a es s = (r, t)" by (simp add: journal_prune_def io_defs)
        moreover have "remembers j es" using remembers_prune m Some Inr by simp
        ultimately show ?thesis using sat_write [OF s, of "remembers j" es a] by simp
      qed
    qed
  qed
qed

lemma sat_mark_reported: "keeps (keeps_sat (remembers j) (remembers j)) (journal_mark a (mark_reported k))"
  unfolding keeps_def keeps_sat_def
  by (intro allI impI, rule sat_mark [where P' = "remembers j"]) (use remembers_mark_reported in blast)+

lemma sat_finish: "keeps (keeps_sat (remembers j) (remembers j)) (finish_job a d tok aid env k res)"
  unfolding finish_job_def
  by (intro keeps_seq keeps_option keeps_ret sat_prune sat_mark_reported keeps_sat_same [OF same_journal_parts(2)]) simp_all

lemma sat_weaken: "journal_sat (noting j k) Q s \<Longrightarrow> journal_sat (remembers j) Q s"
  by (simp add: journal_sat_def noting_def)

lemma sat_handle:
  assumes "journal_sat (remembers j) (remembers j) s" and "\<And>i. k = Some i \<Longrightarrow> \<not> seen i (ag_entries s)"
    and "handle_claimed_job a d tok aid env k s = (r, t)"
  shows "journal_sat (remembers j) (remembers j) t"
proof -
  have c: "journal_sat (noting j k) (remembers j) s1" if "record_claim a aid env k s = (r1, s1)" for r1 s1
    using sat_record_claim [OF assms(1,2), of k a aid env] that by simp
  from assms(3) show ?thesis
  proof (cases rule: handle_phases)
    case (early r')
    with c show ?thesis by (blast intro: sat_weaken)
  next
    case (stopped s1 r2)
    with c keepsD [OF sat_execute stopped(2)] show ?thesis by (auto simp: keeps_sat_def intro: sat_weaken)
  next
    case (finished s1 res t2)
    from c [OF finished(1)] keepsD [OF sat_execute finished(2)] have "journal_sat (remembers j) (remembers j) t2"
      by (auto simp: keeps_sat_def intro: sat_weaken)
    with keepsD [OF sat_finish finished(3)] show ?thesis by (simp add: keeps_sat_def)
  qed
qed

section \<open>The later life of the agent\<close>

abbreviation keeps_job :: "string \<Rightarrow> ('w, 'n, 'a) agent_io \<Rightarrow> bool" where
  "keeps_job j \<equiv> keeps (keeps_sat (remembers j) (remembers j))"

lemma sat_summary: "keeps_job j (process_summary a d tok x)"
proof -
  have "keeps_job j (bind (gets ag_entries) (\<lambda>es. let i = str_json (dict_get env ''job_id'')
      in if i \<noteq> None \<and> seen (the i) es then ret () else handle_claimed_job a d tok aid env i))" for env aid
  proof (rule keepsI)
    fix s r t
    let ?i = "str_json (dict_get env ''job_id'')"
    assume "bind (gets ag_entries) (\<lambda>es. let i = str_json (dict_get env ''job_id'')
      in if i \<noteq> None \<and> seen (the i) es then ret () else handle_claimed_job a d tok aid env i) s = (r, t)"
    then have run: "(if ?i \<noteq> None \<and> seen (the ?i) (ag_entries s) then ret () else handle_claimed_job a d tok aid env ?i) s = (r, t)"
      by (simp add: io_defs Let_def)
    show "keeps_sat (remembers j) (remembers j) s t"
    proof (cases "?i \<noteq> None \<and> seen (the ?i) (ag_entries s)")
      case True
      with run show ?thesis by (simp add: ret_def keeps_sat_def)
    next
      case False
      then have "\<not> seen i (ag_entries s)" if "?i = Some i" for i using that by simp
      moreover from run False have "handle_claimed_job a d tok aid env ?i s = (r, t)" by (simp only: if_False)
      ultimately show ?thesis unfolding keeps_sat_def using sat_handle by blast
    qed
  qed
  note tail = this
  have n: "keeps_job j (bind (on_net m) f)" if "\<And>v. keeps_job j (f v)" for m and f :: "json \<Rightarrow> ('a, 'b, unit) agent_io"
    by (intro keeps_bind keeps_sat_same [OF same_journal_effects(1)] that) simp
  have l: "keeps_job j (bind (lift_result v) f)" if "\<And>v. keeps_job j (f v)" for v and f :: "dict \<Rightarrow> ('a, 'b, unit) agent_io"
    by (intro keeps_bind keeps_lift that) simp_all
  show ?thesis unfolding process_summary_def
    by (rule l, split option.split, split json.split, intro conjI allI impI) ((rule keeps_ret, simp) | (rule n, rule l, rule tail))+
qed

lemma sat_recover: "keeps_job j (recover_interrupted_jobs a)"
  unfolding recover_interrupted_jobs_def recover_entry_def
  by (intro keeps_bind keeps_if keeps_ret keeps_gets keeps_prod keeps_seq keeps_for_each keeps_attempt sat_prune sat_mark_reported
      keeps_sat_same [OF same_journal_effects(6)] keeps_sat_same [OF same_journal_verify]
      keeps_sat_same [OF same_journal_parts(2)] keeps_sat_order)

lemma sat_process: "keeps_job j (process_jobs a)"
  unfolding process_jobs_def
  by (intro keeps_bind keeps_lift keeps_prod keeps_seq keeps_for_each sat_recover sat_summary
      keeps_sat_same [OF same_journal_effects(6)] keeps_sat_same [OF same_journal_effects(1)] keeps_sat_order)

lemma sat_run_once: "keeps_job j (run_once a)"
  unfolding run_once_def
  by (intro keeps_bind keeps_if keeps_ret keeps_gets keeps_prod keeps_seq sat_process keeps_sat_order
      keeps_sat_same [OF same_journal_effects(6)] keeps_sat_same [OF same_journal_effects(4)]
      keeps_sat_same [OF same_journal_parts(3)] keeps_sat_same [OF same_journal_parts(5)]
      keeps_sat_same [OF same_journal_parts(6)] keeps_sat_same [OF same_journal_parts(7)])

lemma sat_cycles: "keeps_job j (cycles a n)"
  by (induction n) (simp_all add: keeps_ret keeps_seq keeps_catch sat_run_once)

lemma sat_main: "keeps_job j (agent_main a tk n)"
  unfolding agent_main_def
  by (intro keeps_bind keeps_if keeps_ret keeps_gets keeps_seq sat_cycles keeps_sat_order keeps_sat_same [OF same_journal_parts(4)])

lemma sat_restart: "keeps_job j (restart_agent cf)"
  by (auto simp: keeps_def keeps_sat_def journal_sat_def restart_agent_def io_defs)

text \<open>
  The states an agent can come to: every stage of a cycle is a step, ended in whatever way; so is a whole run of
  \<open>main\<close>; and so is the start of a new process.  The clock, the disk, the network and the executors may be others
  at each step.
\<close>

inductive agent_step :: "('w, 'n) agent_state \<Rightarrow> ('w, 'n) agent_state \<Rightarrow> bool" where
  step_enroll: "enroll a s = (r, t) \<Longrightarrow> agent_step s t"
| step_enroll_token: "enroll_with_token a tk s = (r, t) \<Longrightarrow> agent_step s t"
| step_keys: "ensure_signing_key a s = (r, t) \<Longrightarrow> agent_step s t"
| step_heartbeat: "send_heartbeat a d tok s = (r, t) \<Longrightarrow> agent_step s t"
| step_inventory: "send_inventory a d tok s = (r, t) \<Longrightarrow> agent_step s t"
| step_recover: "recover_interrupted_jobs a s = (r, t) \<Longrightarrow> agent_step s t"
| step_jobs: "on_net (an_client (a :: ('w, 'n) agent) rq) s = (r, t) \<Longrightarrow> agent_step s t"
| step_summary: "process_summary a d tok x s = (r, t) \<Longrightarrow> agent_step s t"
| step_main: "agent_main a tk' n s = (r, t) \<Longrightarrow> agent_step s t"
| step_restart: "restart_agent cf s = (r, t) \<Longrightarrow> agent_step s t"

lemma step_remembers:
  assumes "agent_step s t"
  shows "keeps_sat (remembers j) (remembers j) s t"
  using assms
  by (cases rule: agent_step.cases)
    (erule keepsD [rotated], rule sat_recover sat_summary sat_main sat_restart keeps_sat_same [OF same_journal_effects(1)]
      keeps_sat_same [OF same_journal_parts(3)] keeps_sat_same [OF same_journal_parts(4)] keeps_sat_same [OF same_journal_parts(5)]
      keeps_sat_same [OF same_journal_parts(6)] keeps_sat_same [OF same_journal_parts(7)])+

lemma steps_remember:
  "agent_step\<^sup>*\<^sup>* s t \<Longrightarrow> journal_sat (remembers j) (remembers j) s \<Longrightarrow> journal_sat (remembers j) (remembers j) t"
  by (induction rule: rtranclp_induct) (auto dest: step_remembers [of _ _ j] simp: keeps_sat_def)

text \<open>An interrupted job is remembered in the state it was interrupted in, by memory and by the file.\<close>

lemma interrupted_remembered:
  assumes "handle_claimed_job a d tok aid env (Some j) s = (r, t)" and "keyed (ag_entries s)" and "ag_world t \<noteq> ag_world s"
  shows "journal_sat (remembers j) (remembers j) t"
proof -
  have x: "journal_sat (remembers j) (remembers j) v"
    if "record_claim a aid env (Some j) s = (Done (), s1)" "execute_job a env (Some j) s1 = (r2, v)" for s1 r2 v
    using keepsD [OF sat_execute that(2)] claim_noted [OF that(1) assms(2)] unfolding keeps_sat_def by (blast intro: sat_weaken)
  from assms(1) show ?thesis
  proof (cases rule: handle_phases)
    case (early r')
    with keepsD [OF still_record_claim early(1)] assms(3) show ?thesis by (simp add: still_def)
  next
    case (stopped s1 r2)
    with x show ?thesis by blast
  next
    case (finished s1 res t2)
    from keepsD [OF sat_finish finished(3)] x [OF finished(1,2)] show ?thesis unfolding keeps_sat_def by blast
  qed
qed

text \<open>Recovery uses no executor: with other ones in their place it is the same function.\<close>

definition other_executors :: "(dict \<Rightarrow> ('w, JobResult) io) \<Rightarrow> (dict \<Rightarrow> ('w, JobResult) io) \<Rightarrow> ('w, 'n) agent \<Rightarrow> ('w, 'n) agent" where
  "other_executors restart dns a = a\<lparr>an_restart := map_option (\<lambda>(_, verify_only). (restart, verify_only)) (an_restart a), an_dns := dns\<rparr>"

lemma recovery_executes_nothing: "recover_interrupted_jobs (other_executors x y a) = recover_interrupted_jobs a"
proof -
  let ?b = "other_executors x y a"
  have v: "verify_only_result ?b sk ps = verify_only_result a sk ps" for sk ps
    by (cases "an_restart a") (auto simp: verify_only_result_def other_executors_def)
  have "save_journal ?b = save_journal a" by (intro ext) (simp add: save_journal_def other_executors_def)
  then have w: "write_entries ?b = write_entries a" by (intro ext) (simp add: write_entries_def)
  have m: "journal_mark ?b f = journal_mark a f" for f
    unfolding journal_mark_def now_text_def read_clock_def w by (simp add: other_executors_def)
  have p: "journal_prune ?b = journal_prune a" unfolding journal_prune_def w ..
  have r: "report_result ?b d tok aid ik ct res = report_result a d tok aid ik ct res" for d tok aid ik ct res
    by (simp add: report_result_def other_executors_def)
  show ?thesis unfolding recover_interrupted_jobs_def recover_entry_def v m p r ..
qed

text \<open>
  C8.  An interrupted job is not executed again while the journal remembers it.  Let the journal in memory have its
  entries under their own jobs, as every run of the agent keeps it.  When the handling of a claimed job has changed
  the endpoint and is then cut off, by the death of the process or by an exception, after any of its effects, the
  journal file already has an entry for the job past the claimed state, and an agent restarted from the file loads
  exactly that.  Recovery, which the next cycle does first, runs no executor: with any other
  executors in their place it does the same.  In every state the agent comes to afterwards, through the stages of
  its cycles ended in whatever way, whole runs of \<open>main\<close> and further restarts, with any clock, disk, network and
  executors, the job is still in the journal, unless 500 other jobs, all of them reported, are: pruning keeps the
  500 newest reported entries, so the entry of the job can be forgotten then, and only then.  And whenever it is in
  the journal, a response to a claim that carries the job, a replay by the control plane for instance, is ignored:
  the request was sent, and nothing else has happened.
\<close>

theorem interrupted_job_not_repeated:
  assumes "handle_claimed_job a device_id token action_id env (Some j) s = (r, t)" and "j \<noteq> []"
    and "ag_world t \<noteq> ag_world s" and "r \<noteq> Done ()" and "keyed (ag_entries s)"
  shows "(\<exists>es e. journal_load (ag_disk t) = Inr es \<and> map_of es j = Some e \<and> jn_state e \<noteq> J_CLAIMED
      \<and> (\<forall>cf. restart_agent cf t = (Done (), t\<lparr>ag_config := cf, ag_last_inventory := 0, ag_entries := es\<rparr>)))
    \<and> (\<forall>b restart dns. recover_interrupted_jobs b
        = recover_interrupted_jobs (b\<lparr>an_restart := map_option (\<lambda>(_, verify_only). (restart, verify_only)) (an_restart b), an_dns := dns\<rparr>))
    \<and> (\<forall>u. agent_step\<^sup>*\<^sup>* t u \<longrightarrow> seen j (ag_entries u)
        \<or> 500 \<le> length (reported (ag_entries u)) \<and> distinct (map jn_job_id (reported (ag_entries u)))
          \<and> j \<notin> set (map jn_job_id (reported (ag_entries u))))
    \<and> (\<forall>b dev tok aid d u env' n. seen j (ag_entries u) \<and> dict_get d ''id'' = Some (JStr aid)
         \<and> an_client b (claim_request dev tok aid) (ag_net u) = (Done (JObj env'), n)
         \<and> dict_get env' ''job_id'' = Some (JStr j)
         \<longrightarrow> process_summary b dev tok (JObj d) u = (Done (), u\<lparr>ag_net := n\<rparr>))"
proof (intro conjI)
  from handle_on_disk [OF assms(1-3)] assms(4) obtain es e where
    es: "journal_load (ag_disk t) = Inr es" "map_of es j = Some e" "jn_state e \<noteq> J_CLAIMED"
    by (auto simp: on_disk_def started_def)
  moreover have "\<forall>cf. restart_agent cf t = (Done (), t\<lparr>ag_config := cf, ag_last_inventory := 0, ag_entries := es\<rparr>)"
    using es(1) by (simp add: restart_agent_def io_defs)
  ultimately show "\<exists>es e. journal_load (ag_disk t) = Inr es \<and> map_of es j = Some e \<and> jn_state e \<noteq> J_CLAIMED
      \<and> (\<forall>cf. restart_agent cf t = (Done (), t\<lparr>ag_config := cf, ag_last_inventory := 0, ag_entries := es\<rparr>))" by blast
next
  show "\<forall>b restart dns. recover_interrupted_jobs b
        = recover_interrupted_jobs (b\<lparr>an_restart := map_option (\<lambda>(_, verify_only). (restart, verify_only)) (an_restart b), an_dns := dns\<rparr>)"
    using recovery_executes_nothing unfolding other_executors_def by metis
next
  show "\<forall>u. agent_step\<^sup>*\<^sup>* t u \<longrightarrow> seen j (ag_entries u)
        \<or> 500 \<le> length (reported (ag_entries u)) \<and> distinct (map jn_job_id (reported (ag_entries u)))
          \<and> j \<notin> set (map jn_job_id (reported (ag_entries u)))"
  proof (intro allI impI)
    fix u
    assume "agent_step\<^sup>*\<^sup>* t u"
    from steps_remember [OF this interrupted_remembered [OF assms(1,5,3)]] have r: "remembers j (ag_entries u)"
      by (simp add: journal_sat_def)
    then have k: "keyed (ag_entries u)" by (simp add: remembers_def)
    have "j \<notin> set (map jn_job_id (reported (ag_entries u)))" if "\<not> seen j (ag_entries u)"
      using that keyed_entries [OF k] set_reported [of "ag_entries u"] by (force simp: seen_iff)
    with r distinct_reported [OF k] show "seen j (ag_entries u)
        \<or> 500 \<le> length (reported (ag_entries u)) \<and> distinct (map jn_job_id (reported (ag_entries u)))
          \<and> j \<notin> set (map jn_job_id (reported (ag_entries u)))"
      by (auto simp: remembers_def)
  qed
qed (auto simp: seen_claim_ignored)

text \<open>The same agent on a machine that dies at the third write of the journal, after the executor ran.\<close>

definition crashing_agent :: "dict \<Rightarrow> (nat, unit) agent" where
  "crashing_agent env = demo_agent_code\<lparr>an_disk := (\<lambda>n. if n = 2 then Crashed else Done ()),
     an_client := (\<lambda>_ n. (Done (JObj env), n))\<rparr>"

lemma demo_crash:
  assumes "sign_envelope demo_host demo_crypto demo_envelope ''seed'' 1 = Inr sig"
  defines "env \<equiv> complete_envelope demo_envelope sig"
  shows "\<exists>t. handle_claimed_job (crashing_agent env) ''d'' ''k'' ''a'' env (Some ''a:1'') demo_agent_start = (Crashed, t)
    \<and> ag_world t = 1"
proof -
  have v: "verify_envelope demo_host demo_crypto (complete_envelope demo_envelope sig)
      [(1, public_key_pem demo_host demo_crypto ''seed'' 1)] ''d'' ''t'' SUPPORTED_SKILL_VERSIONS 6 = Inr ()"
    by (rule demo_accepted [OF _ _ assms(1)]) (simp_all add: SUPPORTED_SKILL_VERSIONS_def)
  show ?thesis
    by (simp add: handle_claimed_job_def record_claim_def execute_job_def crashing_agent_def demo_agent_code_def env_def
        demo_agent_start_def demo_config_def io_defs now_text_def read_clock_def write_entries_def save_journal_def identity_def Let_def
        v executor_for_def text_field_def py_str_def run_executor_def journal_mark_def record_claimed_def
        mark_executing_def mark_executed_def on_world_def)
qed

theorem interrupted_job_not_repeated_witness:
  "\<exists>env t u n. handle_claimed_job (crashing_agent env) ''d'' ''k'' ''a'' env (Some ''a:1'') demo_agent_start = (Crashed, t)
     \<and> ag_world t = 1 \<and> restart_agent (ag_config t) t = (Done (), u) \<and> seen ''a:1'' (ag_entries u)
     \<and> process_summary (crashing_agent env) ''d'' ''k'' (JObj [(''id'', JStr ''a'')]) u = (Done (), u\<lparr>ag_net := n\<rparr>)"
proof -
  obtain sig where sig: "sign_envelope demo_host demo_crypto demo_envelope ''seed'' 1 = Inr sig" using demo_signature by blast
  let ?env = "complete_envelope demo_envelope sig"
  from demo_crash [OF sig] obtain t where
    t: "handle_claimed_job (crashing_agent ?env) ''d'' ''k'' ''a'' ?env (Some ''a:1'') demo_agent_start = (Crashed, t)"
      "ag_world t = 1" by blast
  have c: "an_client (crashing_agent ?env) rq n = (Done (JObj ?env), n)" for rq n by (simp add: crashing_agent_def)
  have k: "ag_world t \<noteq> ag_world demo_agent_start" "keyed (ag_entries demo_agent_start)"
    using t(2) by (simp_all add: demo_agent_start_def demo_config_def)
  note life = interrupted_job_not_repeated [OF t(1) _ k(1) _ k(2)]
  from life obtain es e where es: "restart_agent (ag_config t) t = (Done (), t\<lparr>ag_last_inventory := 0, ag_entries := es\<rparr>)"
      "map_of es ''a:1'' = Some e" by auto
  let ?u = "t\<lparr>ag_last_inventory := 0, ag_entries := es\<rparr>"
  have u: "seen ''a:1'' (ag_entries ?u)" using es(2) by (simp add: seen_iff)
  have "process_summary (crashing_agent ?env) ''d'' ''k'' (JObj [(''id'', JStr ''a'')]) ?u = (Done (), ?u\<lparr>ag_net := ag_net ?u\<rparr>)"
    by (rule conjunct2 [OF conjunct2 [OF conjunct2 [OF life]], rule_format, where aid = "''a''" and env' = ?env])
      (use u c demo_fields(3) in \<open>simp_all add: dict_get_def [of "[(''id'', JStr ''a'')]"]\<close>)
  with t es u show ?thesis by blast
qed

end
