(* ===== verification/ServiceHost.thy ===== *)
theory ServiceHost
  imports AgentProps
begin

text \<open>
  The Windows service around the agent (\<open>windows_agent/service.py\<close>): the thread of the service manager
  (\<open>SvcDoRun\<close>, \<open>SvcStop\<close>) and the worker thread (\<open>_run\<close>), as a step relation of the two.  The results: the service takes the
  agent through the cycles of its main loop and no others, so it keeps the pinned keys too; it ends only
  when it is asked to stop; and a worker that died leaves a service that runs on and does nothing.
\<close>

section \<open>The service\<close>

datatype worker = NotStarted | Cycling | Finished | Died py_error

datatype service_status = Running | StopPending | Stopped

record ('w, 'n) service =
  sh_agent :: "('w, 'n) agent_state"
  sh_status :: service_status
  sh_stopping :: bool
  sh_stop_event :: bool
  sh_worker :: worker

definition SvcStop :: "('w, 'n) service \<Rightarrow> ('w, 'n) service" where
  "SvcStop s = s\<lparr>sh_status := StopPending, sh_stopping := True, sh_stop_event := True\<rparr>"

text \<open>
  \<open>loaded\<close> is the outcome of loading the configuration and building the agent, at the start of \<open>_run\<close>.  An exception that
  no code of the thread catches ends the thread.
\<close>

definition start_worker :: "py_error + unit \<Rightarrow> ('w, 'n) service \<Rightarrow> ('w, 'n) service" where
  "start_worker loaded s = s\<lparr>sh_worker := (case loaded of Inl e \<Rightarrow> Died e | Inr _ \<Rightarrow> Cycling)\<rparr>"

text \<open>One round of the loop of \<open>_run\<close>; \<open>None\<close> is the death of the process.\<close>

definition worker_cycle :: "('w, 'n) agent \<Rightarrow> ('w, 'n) service \<Rightarrow> ('w, 'n) service option" where
  "worker_cycle a s =
     (if sh_stopping s then Some (s\<lparr>sh_worker := Finished\<rparr>)
      else (case catch cycle_failed (run_once a) (\<lambda>_. ret ()) (sh_agent s) of
              (Done _, t) \<Rightarrow> Some (s\<lparr>sh_agent := t\<rparr>)
            | (Raised e, t) \<Rightarrow> Some (s\<lparr>sh_agent := t, sh_worker := Died e\<rparr>)
            | (Crashed, t) \<Rightarrow> None))"

text \<open>\<open>SvcDoRun\<close> waits for the event, then for the worker, but not for longer than thirty seconds.\<close>

inductive service_step :: "('w, 'n) agent \<Rightarrow> py_error + unit \<Rightarrow> ('w, 'n) service \<Rightarrow> ('w, 'n) service \<Rightarrow> bool"
  for a :: "('w, 'n) agent" and loaded :: "py_error + unit" where
  start: "sh_worker s = NotStarted \<Longrightarrow> service_step a loaded s (start_worker loaded s)"
| stop: "sh_status s \<noteq> Stopped \<Longrightarrow> service_step a loaded s (SvcStop s)"
| cycle: "sh_worker s = Cycling \<Longrightarrow> worker_cycle a s = Some t \<Longrightarrow> sh_status s \<noteq> Stopped \<Longrightarrow> service_step a loaded s t"
| finish: "sh_stop_event s \<Longrightarrow> sh_status s \<noteq> Stopped \<Longrightarrow> service_step a loaded s (s\<lparr>sh_status := Stopped\<rparr>)"

inductive_cases service_stepE: "service_step a loaded s t"

definition service_start :: "('w, 'n) agent_state \<Rightarrow> ('w, 'n) service" where
  "service_start g = \<lparr>sh_agent = g, sh_status = Running, sh_stopping = False, sh_stop_event = False, sh_worker = NotStarted\<rparr>"

section \<open>The cycles of the main loop\<close>

lemma seq_assoc: "seq (seq m n) k = seq m (seq n k)"
  by (rule ext) (auto simp: seq_def bind_def split: prod.splits outcome.splits)

lemma seq_ret [simp]: "seq (ret ()) m = m"
  by (rule ext) (simp add: seq_def bind_def ret_def)

lemma seq_ret_right [simp]: "seq m (ret ()) = m"
  by (rule ext) (auto simp: seq_def bind_def ret_def split: prod.splits outcome.splits)

lemma cycles_snoc: "cycles a (Suc n) = seq (cycles a n) (catch cycle_failed (run_once a) (\<lambda>_. ret ()))"
proof (induction n)
  case (Suc n)
  have "cycles a (Suc (Suc n)) = seq (catch cycle_failed (run_once a) (\<lambda>_. ret ())) (cycles a (Suc n))" by simp
  also have "\<dots> = seq (catch cycle_failed (run_once a) (\<lambda>_. ret ())) (seq (cycles a n) (catch cycle_failed (run_once a) (\<lambda>_. ret ())))"
    by (simp only: Suc)
  also have "\<dots> = seq (cycles a (Suc n)) (catch cycle_failed (run_once a) (\<lambda>_. ret ()))" by (simp add: seq_assoc)
  finally show ?case .
qed simp

text \<open>Where the agent is, the main loop comes to as well, and while the worker cycles the loop has not ended.\<close>

definition in_main_loop :: "('w, 'n) agent \<Rightarrow> ('w, 'n) agent_state \<Rightarrow> ('w, 'n) service \<Rightarrow> bool" where
  "in_main_loop a g s \<longleftrightarrow> (\<exists>n r. cycles a n g = (r, sh_agent s) \<and> (sh_worker s \<in> {NotStarted, Cycling} \<longrightarrow> r = Done ()))"

lemma in_main_loop_cycle:
  assumes "in_main_loop a g s" and "sh_worker s = Cycling" and "worker_cycle a s = Some t"
  shows "in_main_loop a g t"
proof (cases "sh_stopping s")
  case True
  with assms show ?thesis by (auto simp: worker_cycle_def in_main_loop_def) blast
next
  case False
  from assms(1,2) obtain n where n: "cycles a n g = (Done (), sh_agent s)" by (auto simp: in_main_loop_def)
  obtain r u where r: "catch cycle_failed (run_once a) (\<lambda>_. ret ()) (sh_agent s) = (r, u)" by fastforce
  then have "cycles a (Suc n) g = (r, u)" unfolding cycles_snoc by (auto simp: seq_def bind_def n split: outcome.split)
  with assms(3) False r show ?thesis unfolding in_main_loop_def
    by (intro exI [of _ "Suc n"]) (auto simp: worker_cycle_def simp del: cycles.simps split: outcome.splits)
qed

lemma service_in_main_loop:
  assumes "(service_step a loaded)\<^sup>*\<^sup>* (service_start g) s"
  shows "in_main_loop a g s"
  using assms
proof (induction rule: rtranclp_induct)
  case base
  have "cycles a 0 g = (Done (), g)" by (simp add: ret_def)
  then show ?case unfolding in_main_loop_def by (intro exI [of _ 0] exI [of _ "Done ()"]) (simp add: service_start_def)
next
  case (step s t)
  from step(2) show ?case
  proof cases
    case cycle
    with step(3) show ?thesis by (blast intro: in_main_loop_cycle)
  qed (use step(3) in \<open>auto simp: in_main_loop_def start_worker_def SvcStop_def split: sum.split\<close>)
qed

theorem service_keeps_pinned_keys:
  assumes "(service_step a loaded)\<^sup>*\<^sup>* (service_start g) s"
    and "distinct (map fst (cf_signing_public_keys (ag_config g)))" and "file_keys (an_host a) g \<subseteq>\<^sub>m trusted g"
  shows "trusted g \<subseteq>\<^sub>m trusted (sh_agent s) \<and> file_keys (an_host a) g \<subseteq>\<^sub>m file_keys (an_host a) (sh_agent s)"
proof -
  from service_in_main_loop [OF assms(1)] obtain n r where "cycles a n g = (r, sh_agent s)" by (auto simp: in_main_loop_def)
  then have "agent_main a None n g = (r, sh_agent s)" by (simp add: agent_main_def bind_def gets_def)
  from keepsD [OF keys_grow_main this] assms(2,3) show ?thesis by (simp add: keys_grow_def keys_ok_def)
qed

section \<open>Stopping\<close>

text \<open>A service that has stopped was asked to.\<close>

lemma stopped_when_asked:
  assumes "(service_step a loaded)\<^sup>*\<^sup>* (service_start g) s"
  shows "sh_status s \<noteq> Running \<longleftrightarrow> sh_stop_event s"
    and "sh_stop_event s \<longleftrightarrow> sh_stopping s"
proof -
  from assms have "(sh_status s \<noteq> Running \<longleftrightarrow> sh_stop_event s) \<and> (sh_stop_event s \<longleftrightarrow> sh_stopping s)"
  proof (induction rule: rtranclp_induct)
    case base
    show ?case by (simp add: service_start_def)
  next
    case (step s t)
    from step(2,3) show ?case
      by (auto elim!: service_stepE simp: start_worker_def SvcStop_def worker_cycle_def split: if_splits prod.splits outcome.splits)
  qed
  then show "sh_status s \<noteq> Running \<longleftrightarrow> sh_stop_event s" "sh_stop_event s \<longleftrightarrow> sh_stopping s" by blast+
qed

text \<open>
  The worker's death goes unnoticed: an exception other than an API or system error ends the worker, and from then on, until
  somebody stops it, the service is in the state \<open>Running\<close> and nothing changes any more.
\<close>

theorem dead_worker_unnoticed:
  assumes "run_once a g = (Raised e, g')" and "\<not> cycle_failed e"
  shows "\<exists>s. (service_step a (Inr ()))\<^sup>*\<^sup>* (service_start g) s \<and> sh_worker s = Died e \<and> sh_status s = Running
    \<and> (\<forall>t. service_step a (Inr ()) s t \<longrightarrow> t = SvcStop s)"
proof -
  let ?s1 = "(service_start g)\<lparr>sh_worker := Cycling\<rparr>"
  let ?s = "?s1\<lparr>sh_agent := g', sh_worker := Died e\<rparr>"
  have "service_step a (Inr ()) (service_start g) ?s1"
    using service_step.start [of "service_start g" a "Inr ()"] by (simp add: start_worker_def service_start_def)
  moreover have "service_step a (Inr ()) ?s1 ?s"
    by (rule service_step.cycle) (use assms in \<open>simp_all add: worker_cycle_def service_start_def catch_def\<close>)
  ultimately have "(service_step a (Inr ()))\<^sup>*\<^sup>* (service_start g) ?s" by (meson r_into_rtranclp rtranclp_trans)
  moreover have "t = SvcStop ?s" if "service_step a (Inr ()) ?s t" for t
    using that by (auto elim!: service_stepE simp: service_start_def)
  ultimately show ?thesis by (intro exI [of _ ?s]) (auto simp: service_start_def)
qed

text \<open>It takes one answer of the control plane that is JSON but no object, here a number.\<close>

theorem dead_worker_unnoticed_witness:
  "\<exists>s. (service_step (demo_agent_code\<lparr>an_client := \<lambda>_ n. (Done (JInt 5), n)\<rparr>) (Inr ()))\<^sup>*\<^sup>* (service_start pinned_start) s
     \<and> sh_worker s = Died (AttributeError ''get'') \<and> sh_status s = Running"
proof -
  let ?a = "demo_agent_code\<lparr>an_client := \<lambda>_ n. (Done (JInt 5), n)\<rparr>"
  have "fst (run_once ?a pinned_start) = Raised (AttributeError ''get'')" by code_simp
  then obtain g where "run_once ?a pinned_start = (Raised (AttributeError ''get''), g)" by (metis prod.collapse)
  from dead_worker_unnoticed [OF this] show ?thesis by (auto simp: cycle_failed_def)
qed

end
