(* ===== verification/SqlAudit.thy ===== *)
theory SqlAudit
  imports Skills
begin

text \<open>
  The two implementations of the audit sink compared: \<open>SqlAuditLog\<close> of \<open>helpdesktool/persistence.py\<close>
  and \<open>InMemoryAuditLog\<close> of \<open>helpdesktool/audit.py\<close>.  The trail of a tenant in the table is the
  abstraction; the SQL log refines the in-memory log under it.
\<close>

lemma sql_append_trail:
  assumes "sql_audit_ok d"
  shows "sql_trail sv t (sql_append sv now m d)
    = (if am_tenant_id m = t then mem_append (sv_host sv) now m (sql_trail sv t d) else sql_trail sv t d)"
  using sqllog.append_trail [OF assms, of sv m now] sqllog.append_other [OF assms, of t m sv now]
  by (auto simp: mem_append_def)

text \<open>
  C12.  The SQL audit log refines the in-memory one.  Whatever messages are appended, of whatever
  tenants and in whatever order, the trail that the table holds for a tenant is the log that the
  in-memory implementation computes from that tenant's messages alone, event for event and hash for
  hash.
\<close>

theorem sql_log_refines_memory_log:
  assumes "sql_audit_ok d"
  shows "sql_trail sv t (appends (sql_append sv) ms d)
    = appends (mem_append (sv_host sv)) (filter (\<lambda>(now, m). am_tenant_id m = t) ms) (sql_trail sv t d)"
  using assms
proof (induction ms arbitrary: d)
  case (Cons a ms)
  obtain now m where a: "a = (now, m)" by (cases a)
  from Cons.prems have "sql_audit_ok (sql_append sv now m d)" by (rule sql_append_ok)
  from Cons.IH [OF this] show ?case by (simp add: a sql_append_trail [OF Cons.prems])
qed simp

definition demo_message :: "string \<Rightarrow> audit_msg" where
  "demo_message t = \<lparr>am_tenant_id = t, am_correlation_id = ''c'', am_event_type = ''device.enrolled'',
     am_actor_id = ''a'', am_details = []\<rparr>"

theorem sql_log_refines_memory_log_witness:
  "length (sql_trail demo_server ''t''
     (appends (sql_append demo_server) [(1, demo_message ''t''), (2, demo_message ''u''), (3, demo_message ''t'')] empty_db)) = 2"
proof -
  have ok: "sql_audit_ok empty_db" by (simp add: sql_audit_ok_def tenant_audit_def empty_db_def)
  have "sql_trail demo_server ''t'' empty_db = []" by (simp add: sql_trail_def tenant_audit_def empty_db_def)
  then show ?thesis
    unfolding sql_log_refines_memory_log [OF ok] by (simp add: mem_append_def demo_message_def)
qed

end
