(* ===== verification/Classification.thy ===== *)
theory Classification
  imports Skills
begin

text \<open>
  Classification of security evidence (\<open>helpdesktool/security_classification.py\<close>).  Weights are exact
  rationals.  \<open>two_digits\<close> stands for the format \<open>.2f\<close>, which only appears in the explanation.  The
  result: suspicion needs evidence of two categories, compromise is never concluded from signals, and
  more evidence never lowers the classification.
\<close>

record SecuritySignal =
  sg_category :: string
  sg_name :: string
  sg_weight :: rat

definition SecuritySignal_init :: "SecuritySignal \<Rightarrow> py_error + SecuritySignal" where
  "SecuritySignal_init s =
     (if strip (sg_category s) = [] \<or> strip (sg_name s) = []
      then Inl (ValueError ''category and name must not be empty'')
      else if \<not> (0 \<le> sg_weight s \<and> sg_weight s \<le> 1) then Inl (ValueError ''weight must be within [0, 1]'')
      else Inr s)"

record SecurityClassificationResult =
  sc_classification :: SecurityClassification
  sc_distinct_categories :: nat
  sc_total_weight :: rat
  sc_rationale :: string

definition categories :: "SecuritySignal list \<Rightarrow> string list" where
  "categories signals = remdups (map sg_category signals)"

definition total_weight :: "SecuritySignal list \<Rightarrow> rat" where
  "total_weight signals = sum_list (map sg_weight signals)"

definition correlated_text :: "(rat \<Rightarrow> string) \<Rightarrow> SecuritySignal list \<Rightarrow> string" where
  "correlated_text two_digits signals =
     show_nat (length (categories signals)) @ '' distinct correlated evidence categories, total weight ''
       @ two_digits (total_weight signals)"

definition classify_security_state ::
  "(rat \<Rightarrow> string) \<Rightarrow> SecuritySignal list \<Rightarrow> bool \<Rightarrow> bool \<Rightarrow> SecurityClassificationResult" where
  "classify_security_state two_digits signals policy_violation confirmed_by_authoritative_source =
     (let n = length (categories signals); weight = total_weight signals in
      if confirmed_by_authoritative_source
      then \<lparr>sc_classification = CONFIRMED_COMPROMISE, sc_distinct_categories = n, sc_total_weight = weight,
            sc_rationale = ''confirmed by an authoritative source (explicit human/EDR determination, not derived from signal accumulation)''\<rparr>
      else if signals = []
      then (if policy_violation
            then \<lparr>sc_classification = POLICY_VIOLATION, sc_distinct_categories = 0, sc_total_weight = 0,
                  sc_rationale = ''no anomalous signals; explicit policy violation only''\<rparr>
            else \<lparr>sc_classification = NORMAL, sc_distinct_categories = 0, sc_total_weight = 0,
                  sc_rationale = ''no signals observed''\<rparr>)
      else if n < 2
      then \<lparr>sc_classification = (if policy_violation then POLICY_VIOLATION else MISCONFIGURATION),
            sc_distinct_categories = n, sc_total_weight = weight,
            sc_rationale = ''signals confined to a single category ('' @ repr_str (hd (categories signals))
              @ '') -- correlation across categories is required to elevate beyond this''\<rparr>
      else if n \<ge> 3 \<and> weight \<ge> 2
      then \<lparr>sc_classification = LIKELY_COMPROMISED, sc_distinct_categories = n, sc_total_weight = weight,
            sc_rationale = correlated_text two_digits signals\<rparr>
      else \<lparr>sc_classification = SUSPICIOUS, sc_distinct_categories = n, sc_total_weight = weight,
            sc_rationale = correlated_text two_digits signals @ '' -- below the threshold for LIKELY_COMPROMISED''\<rparr>)"

section \<open>Order of the classifications\<close>

fun severity :: "SecurityClassification \<Rightarrow> nat" where
  "severity NORMAL = 0"
| "severity UNKNOWN = 1"
| "severity MISCONFIGURATION = 2"
| "severity POLICY_VIOLATION = 3"
| "severity SUSPICIOUS = 4"
| "severity LIKELY_COMPROMISED = 5"
| "severity CONFIRMED_COMPROMISE = 6"

lemma length_categories: "length (categories signals) = card (sg_category ` set signals)"
  by (simp add: categories_def length_remdups_card_conv)

lemma categories_append: "length (categories signals) \<le> length (categories (signals @ further))"
  unfolding length_categories by (rule card_mono) auto

lemma weight_append:
  "\<forall>s \<in> set further. SecuritySignal_init s = Inr s \<Longrightarrow> total_weight signals \<le> total_weight (signals @ further)"
  by (induction further) (auto simp: total_weight_def SecuritySignal_init_def split: if_splits)

text \<open>
  Whatever the signals, more than a policy violation is concluded exactly when they span two
  categories or an authoritative source confirmed the compromise, and a confirmed compromise is
  concluded only from that confirmation.  Adding well-formed signals, or the two flags, never lowers
  the classification.
\<close>

theorem classification_monotone:
  assumes "\<forall>s \<in> set further. SecuritySignal_init s = Inr s"
  shows "(severity (sc_classification (classify_security_state fmt signals violation confirmed)) > severity POLICY_VIOLATION
            \<longleftrightarrow> confirmed \<or> card (sg_category ` set signals) \<ge> 2)
     \<and> (sc_classification (classify_security_state fmt signals violation confirmed) = CONFIRMED_COMPROMISE \<longleftrightarrow> confirmed)
     \<and> severity (sc_classification (classify_security_state fmt signals violation confirmed))
         \<le> severity (sc_classification (classify_security_state fmt (signals @ further) (violation \<or> v) (confirmed \<or> c)))"
proof (intro conjI)
  have empty: "signals = [] \<Longrightarrow> length (categories signals) = 0" by (simp add: categories_def)
  show "severity (sc_classification (classify_security_state fmt signals violation confirmed)) > severity POLICY_VIOLATION
      \<longleftrightarrow> confirmed \<or> card (sg_category ` set signals) \<ge> 2"
    using empty by (auto simp: classify_security_state_def Let_def length_categories [symmetric])
  show "sc_classification (classify_security_state fmt signals violation confirmed) = CONFIRMED_COMPROMISE \<longleftrightarrow> confirmed"
    by (simp add: classify_security_state_def Let_def)
  have n: "length (categories signals) \<le> length (categories (signals @ further))" by (rule categories_append)
  have w: "total_weight signals \<le> total_weight (signals @ further)" using assms by (rule weight_append)
  show "severity (sc_classification (classify_security_state fmt signals violation confirmed))
      \<le> severity (sc_classification (classify_security_state fmt (signals @ further) (violation \<or> v) (confirmed \<or> c)))"
    using n w empty by (auto simp: classify_security_state_def Let_def)
qed

theorem classification_monotone_witness:
  "sc_classification (classify_security_state ratio_text
     [\<lparr>sg_category = ''process'', sg_name = ''a'', sg_weight = 1\<rparr>, \<lparr>sg_category = ''network'', sg_name = ''b'', sg_weight = 1\<rparr>]
     False False) = SUSPICIOUS"
proof -
  let ?s = "\<lparr>sg_category = ''process'', sg_name = ''a'', sg_weight = 1\<rparr>"
  let ?t = "\<lparr>sg_category = ''network'', sg_name = ''b'', sg_weight = 1 :: rat\<rparr>"
  have "\<forall>s \<in> set [?t]. SecuritySignal_init s = Inr s" by (simp add: SecuritySignal_init_def strip_def is_space_def)
  from classification_monotone [OF this, of ratio_text "[?s]" False False False False]
  show ?thesis by (simp add: classify_security_state_def categories_def total_weight_def)
qed

end
