(* ===== verification/Hardening.thy ===== *)
theory Hardening
  imports Skills "HOL-Library.AList"
begin

text \<open>
  The HTTP middleware (\<open>helpdesktool/hardening.py\<close> and the stack that \<open>helpdesktool/api.py\<close> puts in
  front of the application): security headers, the limit on the declared body size, the sliding-window
  rate limiter with its pruning, and the request identifier.  The routed application (with the CORS
  middleware of Starlette) is a parameter; it answers or raises.  The results: the limiter agrees with a
  reference that never forgets, so a client is never admitted more often than allowed in any window,
  and what is rejected never reaches the application.
\<close>

section \<open>Requests and responses\<close>

record http_request =
  hr_method :: string
  hr_path :: string
  hr_client :: "string option"
  hr_content_length :: "string option"
  hr_request_id :: "string option"

record http_response =
  hp_status :: int
  hp_headers :: "(string \<times> string) list"
  hp_body :: string

text \<open>\<open>response.headers[name] = value\<close>: names are kept in lower case.\<close>

definition set_header :: "string \<Rightarrow> string \<Rightarrow> http_response \<Rightarrow> http_response" where
  "set_header name v r = r\<lparr>hp_headers := AList.update (lower name) v (hp_headers r)\<rparr>"

definition json_response :: "int \<Rightarrow> string \<Rightarrow> http_response" where
  "json_response code detail = \<lparr>hp_status = code, hp_headers = [], hp_body = ''{'' @ quote ''detail'' @ '':'' @ quote detail @ ''}''\<rparr>"

definition EXEMPT_PATHS :: "string set" where
  "EXEMPT_PATHS = {''/health/live'', ''/health/ready'', ''/metrics''}"

section \<open>Headers and size\<close>

definition security_headers :: "bool \<Rightarrow> http_response \<Rightarrow> http_response" where
  "security_headers hsts r =
     (let r = set_header ''X-Content-Type-Options'' ''nosniff'' r;
          r = set_header ''X-Frame-Options'' ''DENY'' r;
          r = set_header ''Referrer-Policy'' ''strict-origin-when-cross-origin'' r;
          r = set_header ''Content-Security-Policy''
                (''default-src '' @ repr_str ''none'' @ ''; frame-ancestors '' @ repr_str ''none'') r;
          r = set_header ''Permissions-Policy'' ''geolocation=(), microphone=(), camera=()'' r
      in if hsts then set_header ''Strict-Transport-Security'' ''max-age=63072000; includeSubDomains'' r else r)"

definition size_limit :: "int \<Rightarrow> http_request \<Rightarrow> http_response option" where
  "size_limit max_bytes q =
     (case hr_content_length q of
        None \<Rightarrow> None
      | Some text \<Rightarrow>
          (case parse_int text of
             Inl _ \<Rightarrow> None
           | Inr declared \<Rightarrow>
               if declared > max_bytes then Some (json_response 413 ''request too large'') else None))"

section \<open>The rate limiter\<close>

text \<open>\<open>self._hits\<close>: the admission times of a client, oldest first.  The clock is \<open>time.monotonic()\<close>.\<close>

type_synonym hits = "(string \<times> rat list) list"

record rate_limiter =
  rl_max_requests :: nat
  rl_window_seconds :: rat
  rl_enabled :: bool

definition hits_of :: "string \<Rightarrow> hits \<Rightarrow> rat list" where
  "hits_of ip hits = (case map_of hits ip of None \<Rightarrow> [] | Some ts \<Rightarrow> ts)"

definition prune :: "rate_limiter \<Rightarrow> rat \<Rightarrow> hits \<Rightarrow> hits" where
  "prune rl now hits =
     filter (\<lambda>(ip, ts). \<not> (ts = [] \<or> now - last ts > rl_window_seconds rl * 2)) hits"

definition client_ip :: "http_request \<Rightarrow> string" where
  "client_ip q = (case hr_client q of None \<Rightarrow> ''unknown'' | Some host \<Rightarrow> host)"

definition exempt :: "rate_limiter \<Rightarrow> http_request \<Rightarrow> bool" where
  "exempt rl q \<longleftrightarrow> \<not> rl_enabled rl \<or> hr_method q = ''OPTIONS'' \<or> hr_path q \<in> EXEMPT_PATHS"

text \<open>The answer is \<open>None\<close> when the request goes on to the next layer.\<close>

definition rate_limit :: "rate_limiter \<Rightarrow> rat \<Rightarrow> http_request \<Rightarrow> hits \<Rightarrow> http_response option \<times> hits" where
  "rate_limit rl now q hits =
     (if exempt rl q then (None, hits)
      else
        let ip = client_ip q;
            window = dropWhile (\<lambda>t. now - t > rl_window_seconds rl) (hits_of ip hits)
        in if length window \<ge> rl_max_requests rl
           then (Some (json_response 429 ''rate limit exceeded''), AList.update ip window hits)
           else let hits' = AList.update ip (window @ [now]) hits
                in (None, if length hits' > 10000 then prune rl now hits' else hits'))"

section \<open>The stack\<close>

record hardening =
  hd_limiter :: rate_limiter
  hd_max_bytes :: int
  hd_hsts :: bool

definition hardening_of :: "settings \<Rightarrow> hardening" where
  "hardening_of st =
     \<lparr>hd_limiter = \<lparr>rl_max_requests = nat (rate_limit_max_requests st), rl_window_seconds = rate_limit_window_seconds st,
        rl_enabled = (environment st \<noteq> ''development'')\<rparr>,
      hd_max_bytes = request_max_body_bytes st, hd_hsts = (environment st \<noteq> ''development'')\<rparr>"

text \<open>\<open>RequestIdMiddleware\<close>: an empty header counts as none; \<open>fresh\<close> is \<open>str(uuid.uuid4())\<close>.\<close>

definition request_id :: "string \<Rightarrow> http_request \<Rightarrow> string" where
  "request_id fresh q = (if truthy (hr_request_id q) then the (hr_request_id q) else fresh)"

text \<open>
  One request through the layers, outermost first.  An application that raises (\<open>None\<close>) is answered
  by the framework outside of all of them.
\<close>

definition serve ::
  "hardening \<Rightarrow> (http_request \<Rightarrow> 's \<Rightarrow> http_response option \<times> 's) \<Rightarrow> rat \<Rightarrow> string \<Rightarrow> http_request
   \<Rightarrow> hits \<times> 's \<Rightarrow> http_response option \<times> hits \<times> 's" where
  "serve cfg app now fresh q st =
     (let (limited, hits') = rate_limit (hd_limiter cfg) now q (fst st);
          (answer, s') =
            (case limited of
               Some r \<Rightarrow> (Some r, snd st)
             | None \<Rightarrow>
                 (case size_limit (hd_max_bytes cfg) q of
                    Some r \<Rightarrow> (Some r, snd st)
                  | None \<Rightarrow> map_prod (map_option (set_header ''X-Request-ID'' (request_id fresh q))) id (app q (snd st))))
      in (map_option (security_headers (hd_hsts cfg)) answer, hits', s'))"

section \<open>The reference limiter\<close>

text \<open>The clients and times that the limiter let through, over a sequence of requests with their clock readings.\<close>

fun admissions :: "rate_limiter \<Rightarrow> (rat \<times> http_request) list \<Rightarrow> hits \<Rightarrow> (string \<times> rat) list" where
  "admissions rl [] hits = []"
| "admissions rl ((now, q) # rs) hits =
     (let (answer, hits') = rate_limit rl now q hits
      in (if answer = None \<and> \<not> exempt rl q then [(client_ip q, now)] else []) @ admissions rl rs hits')"

text \<open>
  The reference keeps every admission for ever and counts, for a request, those of its client in the
  window that ends now.
\<close>

definition in_window :: "rat \<Rightarrow> string \<Rightarrow> rat \<Rightarrow> (string \<times> rat) list \<Rightarrow> nat" where
  "in_window w ip now adm = length (filter (\<lambda>(i, t). i = ip \<and> now - t \<le> w) adm)"

fun reference :: "rate_limiter \<Rightarrow> (string \<times> rat) list \<Rightarrow> (rat \<times> http_request) list \<Rightarrow> (string \<times> rat) list" where
  "reference rl adm [] = adm"
| "reference rl adm ((now, q) # rs) =
     reference rl (if exempt rl q \<or> in_window (rl_window_seconds rl) (client_ip q) now adm \<ge> rl_max_requests rl
                   then adm else adm @ [(client_ip q, now)]) rs"

definition times :: "string \<Rightarrow> (string \<times> rat) list \<Rightarrow> rat list" where
  "times ip adm = map snd (filter (\<lambda>(i, t). i = ip) adm)"

lemma in_window_times: "in_window w ip now adm = length (filter (\<lambda>t. now - t \<le> w) (times ip adm))"
  by (induction adm) (auto simp: in_window_def times_def)

lemma times_snoc: "times ip (adm @ [(i, t)]) = times ip adm @ (if i = ip then [t] else [])"
  by (simp add: times_def)

text \<open>What the stored windows are to the admissions so far: suffixes, with only expired times in front.\<close>

definition window_of :: "rate_limiter \<Rightarrow> rat \<Rightarrow> hits \<Rightarrow> (string \<times> rat) list \<Rightarrow> bool" where
  "window_of rl c hits adm \<longleftrightarrow> distinct (map fst hits) \<and>
     (\<forall>ip. sorted (times ip adm) \<and> (\<forall>t \<in> set (times ip adm). t \<le> c)
        \<and> (\<exists>old. times ip adm = old @ hits_of ip hits \<and> (\<forall>t \<in> set old. c - t > rl_window_seconds rl)))"

lemma window_ofE:
  assumes "window_of rl c hits adm"
  obtains old where "sorted (times ip adm)" "\<forall>t \<in> set (times ip adm). t \<le> c"
    "times ip adm = old @ hits_of ip hits" "\<forall>t \<in> set old. c - t > rl_window_seconds rl" "distinct (map fst hits)"
  using assms unfolding window_of_def by metis

lemma hits_of_update [simp]: "hits_of ip (AList.update k ts hits) = (if ip = k then ts else hits_of ip hits)"
  by (simp add: hits_of_def update_conv')

lemma map_of_filter:
  "distinct (map fst al) \<Longrightarrow> map_of (filter (\<lambda>(k, v). P v) al) k
     = (case map_of al k of None \<Rightarrow> None | Some v \<Rightarrow> if P v then Some v else None)"
proof (induction al)
  case (Cons kv al)
  obtain k' v where kv: "kv = (k', v)" by (cases kv)
  from Cons.prems have "k = k' \<Longrightarrow> map_of al k = None" by (simp add: kv map_of_eq_None_iff)
  with Cons show ?case by (auto simp: kv)
qed simp

lemma hits_of_prune:
  "distinct (map fst hits) \<Longrightarrow> hits_of ip (prune rl now hits)
     = (if hits_of ip hits = [] \<or> now - last (hits_of ip hits) > rl_window_seconds rl * 2 then [] else hits_of ip hits)"
  by (auto simp: hits_of_def prune_def map_of_filter split: option.splits)

lemma distinct_prune: "distinct (map fst hits) \<Longrightarrow> distinct (map fst (prune rl now hits))"
  by (simp add: prune_def distinct_map_filter)

lemma expired_front:
  fixes ts :: "rat list"
  assumes "sorted ts"
  shows "dropWhile (\<lambda>t. now - t > w) ts = filter (\<lambda>t. now - t \<le> w) ts"
  using assms by (induction ts) (force simp: filter_id_conv intro!: filter_True [symmetric])+

lemma sorted_le_last: "sorted ts \<Longrightarrow> t \<in> set ts \<Longrightarrow> t \<le> last ts"
  by (induction ts) auto

lemma window_of_prune:
  assumes "window_of rl c hits adm" and "0 \<le> rl_window_seconds rl"
  shows "window_of rl c (prune rl c hits) adm"
  unfolding window_of_def
proof (intro conjI allI)
  show "distinct (map fst (prune rl c hits))" using assms(1) by (simp add: window_of_def distinct_prune)
  fix ip
  from assms(1) obtain old where s: "sorted (times ip adm)" "\<forall>t \<in> set (times ip adm). t \<le> c"
    and old: "times ip adm = old @ hits_of ip hits" "\<forall>t \<in> set old. c - t > rl_window_seconds rl"
    and d: "distinct (map fst hits)" by (rule window_ofE)
  show "sorted (times ip adm)" "\<forall>t \<in> set (times ip adm). t \<le> c" by (fact s)+
  show "\<exists>old. times ip adm = old @ hits_of ip (prune rl c hits) \<and> (\<forall>t \<in> set old. c - t > rl_window_seconds rl)"
  proof (cases "hits_of ip hits = [] \<or> c - last (hits_of ip hits) > rl_window_seconds rl * 2")
    case True
    have "c - t > rl_window_seconds rl" if t: "t \<in> set (hits_of ip hits)" for t
    proof -
      from s(1) old(1) have "sorted (hits_of ip hits)" by (simp add: sorted_append)
      then have "t \<le> last (hits_of ip hits)" using t by (rule sorted_le_last)
      moreover have "c - last (hits_of ip hits) > rl_window_seconds rl * 2" using True t by auto
      ultimately show ?thesis using assms(2) by linarith
    qed
    with True old d show ?thesis by (intro exI [of _ "times ip adm"]) (auto simp: hits_of_prune)
  next
    case False
    with old d show ?thesis by (auto simp: hits_of_prune)
  qed
qed

text \<open>One request: the stored window is the part of the log that still counts.\<close>

lemma live_window:
  assumes "window_of rl c hits adm" and "c \<le> now"
  shows "dropWhile (\<lambda>t. now - t > rl_window_seconds rl) (hits_of ip hits)
    = filter (\<lambda>t. now - t \<le> rl_window_seconds rl) (times ip adm)"
proof -
  from assms(1) obtain old where s: "sorted (times ip adm)"
    and old: "times ip adm = old @ hits_of ip hits" "\<forall>t \<in> set old. c - t > rl_window_seconds rl" by (rule window_ofE)
  from s old(1) have "sorted (hits_of ip hits)" by (simp add: sorted_append)
  moreover have "filter (\<lambda>t. now - t \<le> rl_window_seconds rl) old = []"
    using old(2) assms(2) by (fastforce simp: filter_empty_conv)
  ultimately show ?thesis by (simp add: expired_front old(1))
qed

lemma window_of_replace:
  assumes w: "window_of rl c hits adm" and "c \<le> now" and "extra = [] \<or> extra = [now]"
  shows "window_of rl now (AList.update ip (filter (\<lambda>t. now - t \<le> rl_window_seconds rl) (times ip adm) @ extra) hits)
           (adm @ map (Pair ip) extra)"
  unfolding window_of_def
proof (intro conjI allI)
  from w have "distinct (map fst hits)" by (simp add: window_of_def)
  then show "distinct (map fst (AList.update ip (filter (\<lambda>t. now - t \<le> rl_window_seconds rl) (times ip adm) @ extra) hits))"
    by (rule distinct_update)
  fix i
  let ?h = "AList.update ip (filter (\<lambda>t. now - t \<le> rl_window_seconds rl) (times ip adm) @ extra) hits"
  have times': "times i (adm @ map (Pair ip) extra) = times i adm @ (if i = ip then extra else [])"
    using assms(3) by (auto simp: times_snoc)
  from w obtain old where s: "sorted (times i adm)" "\<forall>t \<in> set (times i adm). t \<le> c"
    and old: "times i adm = old @ hits_of i hits" "\<forall>t \<in> set old. c - t > rl_window_seconds rl" by (rule window_ofE)
  have le: "t \<le> now" if "t \<in> set (times i adm)" for t using s(2) assms(2) that by fastforce
  then show "sorted (times i (adm @ map (Pair ip) extra))" "\<forall>t \<in> set (times i (adm @ map (Pair ip) extra)). t \<le> now"
    using s(1) assms(3) unfolding times' by (auto simp: sorted_append)
  show "\<exists>old. times i (adm @ map (Pair ip) extra) = old @ hits_of i ?h \<and> (\<forall>t \<in> set old. now - t > rl_window_seconds rl)"
  proof (cases "i = ip")
    case True
    let ?ts = "times ip adm"
    let ?old = "takeWhile (\<lambda>t. now - t > rl_window_seconds rl) ?ts"
    have "filter (\<lambda>t. now - t \<le> rl_window_seconds rl) ?ts = dropWhile (\<lambda>t. now - t > rl_window_seconds rl) ?ts"
      using expired_front [where ts = ?ts and now = now and w = "rl_window_seconds rl"] s(1) True by simp
    then have "?old @ filter (\<lambda>t. now - t \<le> rl_window_seconds rl) ?ts = ?ts" by simp
    then have "times i (adm @ map (Pair ip) extra) = ?old @ hits_of i ?h" unfolding times' using True by simp
    moreover have "\<forall>t \<in> set ?old. now - t > rl_window_seconds rl" by (auto dest: set_takeWhileD)
    ultimately show ?thesis by blast
  next
    case False
    with old assms(2) show ?thesis unfolding times' by (intro exI [of _ old]) fastforce
  qed
qed

lemma rate_limit_step:
  assumes w: "window_of rl c hits adm" and now: "c \<le> now" and pos: "0 \<le> rl_window_seconds rl"
    and r: "rate_limit rl now q hits = (answer, hits')"
  shows "answer = None \<longleftrightarrow> exempt rl q \<or> in_window (rl_window_seconds rl) (client_ip q) now adm < rl_max_requests rl"
    and "window_of rl now hits' (adm @ (if answer = None \<and> \<not> exempt rl q then [(client_ip q, now)] else []))"
proof -
  note live = live_window [OF w now, of "client_ip q"]
  have later: "window_of rl now hits adm"
    using w now unfolding window_of_def by (metis (no_types, opaque_lifting) diff_right_mono less_le_trans order_trans)
  have n: "length (filter (\<lambda>t. now - t \<le> rl_window_seconds rl) (times (client_ip q) adm))
      = in_window (rl_window_seconds rl) (client_ip q) now adm" by (simp add: in_window_times)
  show "answer = None \<longleftrightarrow> exempt rl q \<or> in_window (rl_window_seconds rl) (client_ip q) now adm < rl_max_requests rl"
    using r by (auto simp: rate_limit_def Let_def live n split: if_splits)
  show "window_of rl now hits' (adm @ (if answer = None \<and> \<not> exempt rl q then [(client_ip q, now)] else []))"
    using r later window_of_replace [OF w now, of "[]" "client_ip q"] window_of_replace [OF w now, of "[now]" "client_ip q"]
      window_of_prune [OF _ pos]
    by (auto simp: rate_limit_def Let_def live split: if_splits)
qed

lemma admissions_reference:
  assumes "window_of rl c hits adm" and "sorted (c # map fst rs)" and "0 \<le> rl_window_seconds rl"
  shows "adm @ admissions rl rs hits = reference rl adm rs"
  using assms(1,2)
proof (induction rs arbitrary: c hits adm)
  case (Cons r rs)
  obtain now q where r: "r = (now, q)" by (cases r)
  obtain answer hits' where a: "rate_limit rl now q hits = (answer, hits')" by (cases "rate_limit rl now q hits")
  from Cons.prems(2) r have "c \<le> now" "sorted (now # map fst rs)" by auto
  note step = rate_limit_step [OF Cons.prems(1) this(1) assms(3) a]
  from Cons.IH [OF step(2) \<open>sorted (now # map fst rs)\<close>] step(1) show ?case by (auto simp: r a not_less)
qed simp

lemma admissions_from_start:
  assumes "sorted (map fst rs)" and "0 \<le> rl_window_seconds rl"
  shows "admissions rl rs [] = reference rl [] rs"
proof (cases rs)
  case (Cons r rest)
  have w: "window_of rl (fst r) [] []" by (simp add: window_of_def times_def hits_of_def)
  from assms(1) Cons have "sorted (fst r # map fst rs)" by simp
  from admissions_reference [OF w this assms(2)] show ?thesis by simp
qed simp

text \<open>
  C21.  The rate limiter, which forgets expired admissions and prunes idle clients, lets through exactly
  what the reference lets through that keeps every admission for ever: for every sequence of requests of
  any clients at clock readings that do not decrease, both admit the same requests.
\<close>

theorem limiter_is_sliding_window:
  assumes "sorted (map fst rs)" and "0 \<le> rl_window_seconds rl"
  shows "admissions rl rs [] = reference rl [] rs"
  using assms by (rule admissions_from_start)

definition burst :: "(rat \<times> http_request) list" where
  "burst = map (\<lambda>t. (t, \<lparr>hr_method = ''GET'', hr_path = ''/v1/devices'', hr_client = Some ''10.0.0.1'',
     hr_content_length = None, hr_request_id = None\<rparr>)) [0, 1, 2, 10]"

definition two_in_five :: rate_limiter where
  "two_in_five = \<lparr>rl_max_requests = 2, rl_window_seconds = 5, rl_enabled = True\<rparr>"

lemma burst_times: "map fst burst = [0, 1, 2, 10]"
  by (simp add: burst_def)

theorem limiter_is_sliding_window_witness:
  "admissions two_in_five burst [] = [(''10.0.0.1'', 0), (''10.0.0.1'', 1), (''10.0.0.1'', 10)]"
proof -
  have "sorted (map fst burst)" "0 \<le> rl_window_seconds two_in_five" by (simp_all add: burst_times two_in_five_def)
  from limiter_is_sliding_window [OF this] show ?thesis
    by (simp add: burst_def two_in_five_def exempt_def EXEMPT_PATHS_def client_ip_def in_window_def)
qed

section \<open>The bound\<close>

text \<open>The admissions of a client in the window that starts at a time.\<close>

definition window_count :: "rat \<Rightarrow> string \<Rightarrow> rat \<Rightarrow> (string \<times> rat) list \<Rightarrow> nat" where
  "window_count w ip s adm = length (filter (\<lambda>(i, t). i = ip \<and> s \<le> t \<and> t \<le> s + w) adm)"

lemma length_filter_mono: "(\<And>x. P x \<Longrightarrow> Q x) \<Longrightarrow> length (filter P xs) \<le> length (filter Q xs)"
  by (induction xs) auto

lemma reference_bounded:
  assumes "\<forall>ip s. window_count (rl_window_seconds rl) ip s adm \<le> rl_max_requests rl"
  shows "window_count (rl_window_seconds rl) ip s (reference rl adm rs) \<le> rl_max_requests rl"
  using assms
proof (induction rl adm rs rule: reference.induct)
  case (2 rl adm now q rs)
  let ?w = "rl_window_seconds rl" and ?ip = "client_ip q"
  have "window_count ?w i s' (adm @ [(?ip, now)]) \<le> rl_max_requests rl"
    if room: "in_window ?w ?ip now adm < rl_max_requests rl" for i s'
  proof (cases "i = ?ip \<and> s' \<le> now \<and> now \<le> s' + ?w")
    case True
    have "window_count ?w ?ip s' adm \<le> in_window ?w ?ip now adm"
      unfolding window_count_def in_window_def using True by (intro length_filter_mono) auto
    with room True show ?thesis by (simp add: window_count_def)
  next
    case False
    then have "window_count ?w i s' (adm @ [(?ip, now)]) = window_count ?w i s' adm" by (auto simp: window_count_def)
    with 2(2) show ?thesis by simp
  qed
  with 2(2) have "\<forall>ip s. window_count ?w ip s
      (if exempt rl q \<or> in_window ?w ?ip now adm \<ge> rl_max_requests rl then adm else adm @ [(?ip, now)])
        \<le> rl_max_requests rl" by (simp add: not_le)
  from 2(1) [OF this] show ?case by simp
qed simp

text \<open>
  In every interval as long as the window, the rate limiter admits at most the configured number
  of requests of a client, whatever the requests of this and other clients, when the clock readings do
  not decrease.
\<close>

theorem rate_limit_bound:
  assumes "sorted (map fst rs)" and "0 \<le> rl_window_seconds rl"
  shows "window_count (rl_window_seconds rl) ip s (admissions rl rs []) \<le> rl_max_requests rl"
  unfolding admissions_from_start [OF assms] using reference_bounded [of rl "[]"] by (simp add: window_count_def)

theorem rate_limit_bound_witness:
  "window_count 5 ''10.0.0.1'' 1 (admissions two_in_five burst []) \<le> 2"
proof -
  have "sorted (map fst burst)" "0 \<le> rl_window_seconds two_in_five" by (simp_all add: burst_times two_in_five_def)
  from rate_limit_bound [OF this, of "''10.0.0.1''" 1] show ?thesis by (simp add: two_in_five_def)
qed

section \<open>What reaches the application\<close>

lemma header_names:
  "lower ''X-Frame-Options'' = ''x-frame-options''" "lower ''X-Content-Type-Options'' = ''x-content-type-options''"
  "lower ''Strict-Transport-Security'' = ''strict-transport-security''" "lower ''Referrer-Policy'' = ''referrer-policy''"
  "lower ''Content-Security-Policy'' = ''content-security-policy''" "lower ''Permissions-Policy'' = ''permissions-policy''"
       apply code_simp
      apply code_simp
     apply code_simp
    apply code_simp
   apply code_simp
  apply code_simp
  done

text \<open>The headers in full, as the dictionary of a response has them.\<close>

lemma security_headers_all:
  "map_of (hp_headers (security_headers h r)) ''x-content-type-options'' = Some ''nosniff''"
  "map_of (hp_headers (security_headers h r)) ''x-frame-options'' = Some ''DENY''"
  "map_of (hp_headers (security_headers h r)) ''referrer-policy'' = Some ''strict-origin-when-cross-origin''"
  "map_of (hp_headers (security_headers h r)) ''content-security-policy''
     = Some (''default-src '' @ [CHR 0x27] @ ''none'' @ [CHR 0x27] @ ''; frame-ancestors '' @ [CHR 0x27] @ ''none'' @ [CHR 0x27])"
  "map_of (hp_headers (security_headers h r)) ''permissions-policy'' = Some ''geolocation=(), microphone=(), camera=()''"
  "h \<Longrightarrow> map_of (hp_headers (security_headers h r)) ''strict-transport-security'' = Some ''max-age=63072000; includeSubDomains''"
  "hp_status (security_headers h r) = hp_status r" "hp_body (security_headers h r) = hp_body r"
proof -
  have n: "repr_str ''none'' = [CHR 0x27] @ ''none'' @ [CHR 0x27]" by code_simp
  show "map_of (hp_headers (security_headers h r)) ''x-content-type-options'' = Some ''nosniff''"
    "map_of (hp_headers (security_headers h r)) ''x-frame-options'' = Some ''DENY''"
    "map_of (hp_headers (security_headers h r)) ''referrer-policy'' = Some ''strict-origin-when-cross-origin''"
    "map_of (hp_headers (security_headers h r)) ''content-security-policy''
     = Some (''default-src '' @ [CHR 0x27] @ ''none'' @ [CHR 0x27] @ ''; frame-ancestors '' @ [CHR 0x27] @ ''none'' @ [CHR 0x27])"
    "map_of (hp_headers (security_headers h r)) ''permissions-policy'' = Some ''geolocation=(), microphone=(), camera=()''"
    "h \<Longrightarrow> map_of (hp_headers (security_headers h r)) ''strict-transport-security'' = Some ''max-age=63072000; includeSubDomains''"
    "hp_status (security_headers h r) = hp_status r" "hp_body (security_headers h r) = hp_body r"
    by (simp_all add: security_headers_def set_header_def header_names Let_def update_conv' n)
qed

lemma size_limit_iff:
  "size_limit m q = (if \<exists>n k. hr_content_length q = Some n \<and> parse_int n = Inr k \<and> k > m
     then Some (json_response 413 ''request too large'') else None)"
  by (auto simp: size_limit_def split: option.split sum.split)

lemma limited_status: "fst (rate_limit rl now q hits) = Some r \<Longrightarrow> hp_status r = 429"
  by (auto simp: rate_limit_def json_response_def Let_def split: if_splits)

text \<open>The layers inside the security headers.\<close>

lemma serve_layers:
  assumes "serve c app now fresh q (hits, s) = (answer, hits', s')"
  obtains inner where "answer = map_option (security_headers (hd_hsts c)) inner"
    and "(inner, s') = (case fst (rate_limit (hd_limiter c) now q hits) of
        Some r \<Rightarrow> (Some r, s)
      | None \<Rightarrow> (case size_limit (hd_max_bytes c) q of Some r \<Rightarrow> (Some r, s)
          | None \<Rightarrow> map_prod (map_option (set_header ''X-Request-ID'' (request_id fresh q))) id (app q s)))"
proof -
  let ?x = "case fst (rate_limit (hd_limiter c) now q hits) of
        Some r \<Rightarrow> (Some r, s)
      | None \<Rightarrow> (case size_limit (hd_max_bytes c) q of Some r \<Rightarrow> (Some r, s)
          | None \<Rightarrow> map_prod (map_option (set_header ''X-Request-ID'' (request_id fresh q))) id (app q s))"
  have "answer = map_option (security_headers (hd_hsts c)) (fst ?x)" and "s' = snd ?x"
    using assms unfolding serve_def case_prod_beta fst_conv snd_conv Let_def by simp_all
  with that [of "fst ?x"] show thesis by simp
qed

text \<open>
  C37.  A request that the limiter rejects is answered with 429; one it admits that declares more bytes than allowed, with
  413; either way the application does not run.  Any other request gets the status and the body that the application
  answers it with.  And every answer that leaves the stack carries all the security headers:
  \<open>X-Content-Type-Options\<close>, \<open>X-Frame-Options\<close>, \<open>Referrer-Policy\<close>, \<open>Content-Security-Policy\<close> and \<open>Permissions-Policy\<close> with their
  values, and in an environment other than development also \<open>Strict-Transport-Security\<close>.
\<close>

theorem rejected_before_application:
  assumes "serve (hardening_of st) app now fresh q (hits, s) = (answer, hits', s')"
  defines "limited \<equiv> fst (rate_limit (hd_limiter (hardening_of st)) now q hits) \<noteq> None"
    and "oversize \<equiv> \<exists>n k. hr_content_length q = Some n \<and> parse_int n = Inr k \<and> k > request_max_body_bytes st"
  shows "(limited \<longrightarrow> s' = s \<and> map_option hp_status answer = Some 429)
     \<and> (\<not> limited \<and> oversize \<longrightarrow> s' = s \<and> map_option hp_status answer = Some 413)
     \<and> (\<not> limited \<and> \<not> oversize \<longrightarrow> s' = snd (app q s)
          \<and> map_option (\<lambda>r. (hp_status r, hp_body r)) answer = map_option (\<lambda>r. (hp_status r, hp_body r)) (fst (app q s)))
     \<and> (\<forall>r. answer = Some r \<longrightarrow>
           map_of (hp_headers r) ''x-content-type-options'' = Some ''nosniff''
         \<and> map_of (hp_headers r) ''x-frame-options'' = Some ''DENY''
         \<and> map_of (hp_headers r) ''referrer-policy'' = Some ''strict-origin-when-cross-origin''
         \<and> map_of (hp_headers r) ''content-security-policy''
             = Some (''default-src '' @ [CHR 0x27] @ ''none'' @ [CHR 0x27] @ ''; frame-ancestors '' @ [CHR 0x27] @ ''none'' @ [CHR 0x27])
         \<and> map_of (hp_headers r) ''permissions-policy'' = Some ''geolocation=(), microphone=(), camera=()''
         \<and> (environment st \<noteq> ''development'' \<longrightarrow>
              map_of (hp_headers r) ''strict-transport-security'' = Some ''max-age=63072000; includeSubDomains''))"
proof -
  let ?c = "hardening_of st"
  obtain inner where inner: "answer = map_option (security_headers (hd_hsts ?c)) inner"
    and i: "(inner, s') = (case fst (rate_limit (hd_limiter ?c) now q hits) of
        Some r \<Rightarrow> (Some r, s)
      | None \<Rightarrow> (case size_limit (hd_max_bytes ?c) q of Some r \<Rightarrow> (Some r, s)
          | None \<Rightarrow> map_prod (map_option (set_header ''X-Request-ID'' (request_id fresh q))) id (app q s)))"
    using assms(1) by (rule serve_layers)
  have h: "hd_hsts ?c \<longleftrightarrow> environment st \<noteq> ''development''" and m: "hd_max_bytes ?c = request_max_body_bytes st"
    by (simp_all add: hardening_of_def)
  have stat: "map_option hp_status answer = map_option hp_status inner"
    "map_option (\<lambda>r. (hp_status r, hp_body r)) answer = map_option (\<lambda>r. (hp_status r, hp_body r)) inner"
    by (simp_all add: inner option.map_comp comp_def security_headers_all)
  have "limited \<longrightarrow> s' = s \<and> map_option hp_status answer = Some 429"
    using i by (auto simp: limited_def stat dest: limited_status)
  moreover have "\<not> limited \<and> oversize \<longrightarrow> s' = s \<and> map_option hp_status answer = Some 413"
  proof
    assume lo: "\<not> limited \<and> oversize"
    then have "size_limit (hd_max_bytes ?c) q = Some (json_response 413 ''request too large'')"
      unfolding size_limit_iff m oversize_def by simp
    with lo i have "inner = Some (json_response 413 ''request too large'') \<and> s' = s" by (simp add: limited_def)
    then show "s' = s \<and> map_option hp_status answer = Some 413" by (simp add: stat json_response_def)
  qed
  moreover have "\<not> limited \<and> \<not> oversize \<longrightarrow> s' = snd (app q s)
          \<and> map_option (\<lambda>r. (hp_status r, hp_body r)) answer = map_option (\<lambda>r. (hp_status r, hp_body r)) (fst (app q s))"
  proof
    assume lo: "\<not> limited \<and> \<not> oversize"
    then have "size_limit (hd_max_bytes ?c) q = None" unfolding size_limit_iff m oversize_def by simp
    with lo i have "(inner, s') = map_prod (map_option (set_header ''X-Request-ID'' (request_id fresh q))) id (app q s)"
      by (simp add: limited_def)
    then have "inner = map_option (set_header ''X-Request-ID'' (request_id fresh q)) (fst (app q s))" "s' = snd (app q s)"
      by (simp_all add: map_prod_def case_prod_beta)
    then show "s' = snd (app q s)
          \<and> map_option (\<lambda>r. (hp_status r, hp_body r)) answer = map_option (\<lambda>r. (hp_status r, hp_body r)) (fst (app q s))"
      unfolding stat by (simp add: option.map_comp comp_def set_header_def)
  qed
  ultimately show ?thesis by (auto simp: inner security_headers_all h)
qed

definition oversized :: http_request where
  "oversized = \<lparr>hr_method = ''POST'', hr_path = ''/v1/actions'', hr_client = None, hr_content_length = Some ''9'',
     hr_request_id = None\<rparr>"

definition tiny_settings :: settings where
  "tiny_settings = default_settings\<lparr>request_max_body_bytes := 3\<rparr>"

theorem rejected_before_application_witness:
  "\<exists>r hits'. serve (hardening_of tiny_settings) (\<lambda>q s. (None, s + 1)) 0 ''id'' oversized ([], 7 :: nat) = (Some r, hits', 7)
     \<and> hp_status r = 413 \<and> map_of (hp_headers r) ''x-frame-options'' = Some ''DENY''"
proof -
  obtain answer hits' s' where r: "serve (hardening_of tiny_settings) (\<lambda>q s. (None, s + 1)) 0 ''id'' oversized ([], 7 :: nat)
      = (answer, hits', s')" by (metis surj_pair)
  have big: "\<exists>n k. hr_content_length oversized = Some n \<and> parse_int n = Inr k \<and> k > request_max_body_bytes tiny_settings"
  proof (intro exI conjI)
    show "hr_content_length oversized = Some ''9''" by (simp add: oversized_def)
    show "parse_int ''9'' = Inr 9" by code_simp
    show "9 > request_max_body_bytes tiny_settings" by (simp add: tiny_settings_def)
  qed
  have "fst (rate_limit (hd_limiter (hardening_of tiny_settings)) 0 oversized []) = None"
    by (simp add: rate_limit_def hardening_of_def tiny_settings_def default_settings_def exempt_def)
  with rejected_before_application [OF r] big have "s' = 7" "map_option hp_status answer = Some 413"
    "\<forall>r. answer = Some r \<longrightarrow> map_of (hp_headers r) ''x-frame-options'' = Some ''DENY''"
    by blast+
  with r show ?thesis by auto
qed

end
