(* ===== verification/Auth.thy ===== *)
theory Auth
  imports Skills
begin

text \<open>
  \<open>helpdesktool/auth.py\<close> and \<open>development_auth.py\<close>: who a request comes from.  A development
  session is a base64 payload and an HMAC over it; a principal is the row of an active user or
  device that a verified credential leads to.  The OIDC verifier (package code) is a parameter:
  it gives \<open>None\<close> for a token it rejects, and otherwise the email claim, if any.  The row-level
  security settings of the database session are not part of the model.
\<close>

section \<open>Base64\<close>

definition b64_alphabet :: string where
  "b64_alphabet = ''ABCDEFGHIJKLMNOPQRSTUVWXYZabcdefghijklmnopqrstuvwxyz0123456789-_''"

definition b64_char :: "nat \<Rightarrow> char" where
  "b64_char n = b64_alphabet ! n"

definition byte :: "nat \<Rightarrow> char" where
  "byte n = char_of n"

abbreviation ordc :: "char \<Rightarrow> nat" where
  "ordc c \<equiv> of_char c"

text \<open>\<open>urlsafe_b64encode(s).rstrip(b"=")\<close>.\<close>

fun b64_encode :: "string \<Rightarrow> string" where
  "b64_encode (a # b # c # s) =
     b64_char (ordc a div 4) # b64_char (ordc a mod 4 * 16 + ordc b div 16)
     # b64_char (ordc b mod 16 * 4 + ordc c div 64) # b64_char (ordc c mod 64) # b64_encode s"
| "b64_encode [a, b] =
     [b64_char (ordc a div 4), b64_char (ordc a mod 4 * 16 + ordc b div 16), b64_char (ordc b mod 16 * 4)]"
| "b64_encode [a] = [b64_char (ordc a div 4), b64_char (ordc a mod 4 * 16)]"
| "b64_encode [] = []"

text \<open>The value of a digit; the URL-safe alphabet is translated to the standard one, which is read as well.\<close>

fun index_of :: "'a \<Rightarrow> 'a list \<Rightarrow> nat \<Rightarrow> nat option" where
  "index_of x [] n = None"
| "index_of x (y # ys) n = (if x = y then Some n else index_of x ys (Suc n))"

definition b64_val :: "char \<Rightarrow> nat option" where
  "b64_val c = (if c = CHR ''+'' then Some 62 else if c = CHR ''/'' then Some 63 else index_of c b64_alphabet 0)"

text \<open>
  \<open>binascii.a2b_base64\<close>: \<open>q\<close> is the position in the group of four, \<open>l\<close> the bits left over,
  \<open>pads\<close> the number of padding characters since the last digit.  Enough padding ends the data;
  characters that are no digits are skipped; data that ends within a group is an error.
\<close>

fun b64_loop :: "nat \<Rightarrow> nat \<Rightarrow> nat \<Rightarrow> string \<Rightarrow> string option" where
  "b64_loop q l pads [] = (if q = 0 then Some [] else None)"
| "b64_loop q l pads (c # s) =
     (if c = CHR ''='' then
        (if q \<ge> 2 then (if q + Suc pads \<ge> 4 then Some [] else b64_loop q l (Suc pads) s)
         else b64_loop q l pads s)
      else case b64_val c of
             None \<Rightarrow> b64_loop q l pads s
           | Some v \<Rightarrow>
               (if q = 0 then b64_loop 1 v 0 s
                else if q = 1 then map_option ((#) (byte (l * 4 + v div 16))) (b64_loop 2 (v mod 16) 0 s)
                else if q = 2 then map_option ((#) (byte (l * 16 + v div 4))) (b64_loop 3 (v mod 4) 0 s)
                else map_option ((#) (byte (l * 64 + v))) (b64_loop 0 0 0 s)))"

definition padding :: "nat \<Rightarrow> nat" where
  "padding n = (4 - n mod 4) mod 4"

text \<open>\<open>_decode\<close>; text outside ASCII is a \<open>ValueError\<close>.\<close>

definition decode :: "string \<Rightarrow> string option" where
  "decode value = (if list_all (\<lambda>c. ordc c < 128) value
     then b64_loop 0 0 0 (value @ replicate (padding (length value)) (CHR ''='')) else None)"

section \<open>Development sessions\<close>

fun bytes_of_hex :: "string \<Rightarrow> string" where
  "bytes_of_hex (a # b # s) = byte (16 * unhex a + unhex b) # bytes_of_hex s"
| "bytes_of_hex s = []"

definition hmac_digest :: "host \<Rightarrow> string \<Rightarrow> string \<Rightarrow> string" where
  "hmac_digest h secret payload = bytes_of_hex (hmac_sha256_hex h secret payload)"

definition session_claims :: "string \<Rightarrow> string \<Rightarrow> time \<Rightarrow> dict" where
  "session_claims user_id tenant_id expires =
     [(''exp'', JInt expires), (''sub'', JStr user_id), (''tenant'', JStr tenant_id)]"

definition issue_session :: "host \<Rightarrow> string \<Rightarrow> string \<Rightarrow> string \<Rightarrow> int \<Rightarrow> time \<Rightarrow> string" where
  "issue_session h user_id tenant_id secret minutes now =
     (let payload = b64_encode (dumps_tight (float_repr h)
            (JObj (session_claims user_id tenant_id (now + 60 * minutes))))
      in payload @ ''.'' @ b64_encode (hmac_digest h secret payload))"

text \<open>\<open>token.split(".", 1)\<close>.\<close>

fun split_dot :: "string \<Rightarrow> (string \<times> string) option" where
  "split_dot [] = None"
| "split_dot (c # s) = (if c = CHR ''.'' then Some ([], s)
     else case split_dot s of None \<Rightarrow> None | Some (p, r) \<Rightarrow> Some (c # p, r))"

text \<open>Every failure is an \<open>InvalidDevelopmentSession\<close>, here with its message.\<close>

definition claims_error :: string where
  "claims_error = ''invalid development session''"

definition check_claims :: "json \<Rightarrow> time \<Rightarrow> string + dict" where
  "check_claims v now =
     (case v of
        JObj claims \<Rightarrow>
          (case dict_get claims ''exp'' of
             None \<Rightarrow> Inl claims_error
           | Some e \<Rightarrow>
               (case int_of_json e of
                  Inl _ \<Rightarrow> Inl claims_error
                | Inr expires \<Rightarrow>
                    if expires \<le> now then Inl ''development session expired''
                    else (case (dict_get claims ''sub'', dict_get claims ''tenant'') of
                            (Some (JStr _), Some (JStr _)) \<Rightarrow> Inr claims
                          | _ \<Rightarrow> Inl claims_error)))
      | _ \<Rightarrow> Inl claims_error)"

definition verify_session :: "host \<Rightarrow> string \<Rightarrow> string \<Rightarrow> time \<Rightarrow> string + dict" where
  "verify_session h token secret now =
     (case split_dot token of
        None \<Rightarrow> Inl claims_error
      | Some (payload_text, signature_text) \<Rightarrow>
          (case decode signature_text of
             None \<Rightarrow> Inl claims_error
           | Some supplied \<Rightarrow>
               if hmac_digest h secret payload_text \<noteq> supplied then Inl claims_error
               else (case Option.bind (decode payload_text) (json_loads h) of
                       None \<Rightarrow> Inl claims_error
                     | Some v \<Rightarrow> check_claims v now)))"

section \<open>Principals\<close>

definition user_principal :: "User \<Rightarrow> Principal" where
  "user_principal u = \<lparr>pr_tenant_id = us_tenant_id u, pr_actor_id = us_id u, pr_role = us_role u\<rparr>"

definition load_principal :: "string \<Rightarrow> string \<Rightarrow> db \<Rightarrow> Principal http" where
  "load_principal tenant_id user_id d =
     (case scalar (\<lambda>u. us_id u = user_id \<and> us_tenant_id u = tenant_id \<and> us_active u) (users d) of
        None \<Rightarrow> Inl (HTTPException 401 ''invalid tenant or user'')
      | Some u \<Rightarrow> Inr (user_principal u))"

type_synonym oidc_verifier = "string \<Rightarrow> string option option"

definition resolve_oidc_principal ::
  "settings \<Rightarrow> oidc_verifier \<Rightarrow> string \<Rightarrow> string option \<Rightarrow> db \<Rightarrow> Principal http" where
  "resolve_oidc_principal st verify token requested_tenant_id d =
     (if \<not> oidc_configured st then Inl (HTTPException 503 ''identity provider is not configured'')
      else case verify token of
        None \<Rightarrow> Inl (HTTPException 401 ''invalid identity token'')
      | Some email \<Rightarrow>
          if \<not> truthy email then Inl (HTTPException 401 ''identity token is missing an email claim'')
          else (case filter (\<lambda>u. Some (us_email u) = email \<and> us_active u) (users d) of
                  [] \<Rightarrow> Inl (HTTPException 403 ''identity is not provisioned in any tenant'')
                | [u] \<Rightarrow> Inr (user_principal u)
                | candidates \<Rightarrow>
                    if \<not> truthy requested_tenant_id
                    then Inl (HTTPException 409 ''identity belongs to multiple tenants; specify X-Tenant-ID'')
                    else (case filter (\<lambda>u. Some (us_tenant_id u) = requested_tenant_id) candidates of
                            [] \<Rightarrow> Inl (HTTPException 403 ''identity is not provisioned in the requested tenant'')
                          | u # _ \<Rightarrow> Inr (user_principal u))))"

definition bearer :: "string option \<Rightarrow> string option" where
  "bearer authorization = (case authorization of
     Some a \<Rightarrow> if starts_with a ''Bearer '' then Some (drop 7 a) else None | None \<Rightarrow> None)"

definition require_user ::
  "server \<Rightarrow> oidc_verifier \<Rightarrow> time \<Rightarrow> string option \<Rightarrow> string option \<Rightarrow> string option \<Rightarrow> db \<Rightarrow> Principal http" where
  "require_user sv verify now tenant_id user_id authorization d =
     (let st = sv_settings sv in
      case bearer authorization of
        Some token \<Rightarrow>
          if environment st = ''development'' \<and> development_login_enabled st
          then (case verify_session (sv_host sv) token (development_session_secret st) now of
                  Inl e \<Rightarrow> Inl (HTTPException 401 e)
                | Inr claims \<Rightarrow>
                    (case (dict_get claims ''tenant'', dict_get claims ''sub'') of
                       (Some (JStr ten), Some (JStr sub)) \<Rightarrow> load_principal ten sub d
                     | _ \<Rightarrow> Inl unhandled))
          else resolve_oidc_principal st verify token tenant_id d
      | None \<Rightarrow>
          if \<not> allow_insecure_header_auth st
          then Inl (HTTPException 503 ''human authentication is not configured'')
          else if \<not> truthy tenant_id \<or> \<not> truthy user_id
          then Inl (HTTPException 401 ''authentication required'')
          else load_principal (the tenant_id) (the user_id) d)"

definition require_roles :: "string list \<Rightarrow> Principal http \<Rightarrow> Principal http" where
  "require_roles roles r =
     (case r of
        Inl e \<Rightarrow> Inl e
      | Inr p \<Rightarrow> if pr_role p \<notin> set roles then Inl (HTTPException 403 ''insufficient role'') else Inr p)"

definition device_principal :: "Device \<Rightarrow> Principal" where
  "device_principal v = \<lparr>pr_tenant_id = dv_tenant_id v, pr_actor_id = dv_id v, pr_role = ''agent''\<rparr>"

definition require_agent :: "server \<Rightarrow> string \<Rightarrow> string \<Rightarrow> db \<Rightarrow> Principal http" where
  "require_agent sv device_id authorization d =
     (if \<not> starts_with authorization ''Bearer '' then Inl (HTTPException 401 ''missing agent bearer token'')
      else let supplied = sha256_hex (sv_host sv) (drop 7 authorization)
           in case scalar (\<lambda>v. dv_id v = device_id) (devices d) of
                None \<Rightarrow> Inl (HTTPException 401 ''invalid agent credentials'')
              | Some v \<Rightarrow>
                  if \<not> dv_active v \<or> dv_agent_key_hash v \<noteq> supplied
                  then Inl (HTTPException 401 ''invalid agent credentials'')
                  else Inr (device_principal v))"

section \<open>Decoding inverts encoding\<close>

lemma b64_val_char: "n < 64 \<Longrightarrow> b64_val (b64_char n) = Some n \<and> b64_char n \<noteq> CHR ''=''
    \<and> b64_char n \<noteq> CHR ''.'' \<and> ordc (b64_char n) < 128"
proof -
  have "\<forall>n \<in> set [0..<64]. b64_val (b64_char n) = Some n \<and> b64_char n \<noteq> CHR ''=''
    \<and> b64_char n \<noteq> CHR ''.'' \<and> (of_char (b64_char n) :: nat) < 128"
    by code_simp
  then show "n < 64 \<Longrightarrow> ?thesis" by simp
qed

lemma ordc_less: "ordc c < 256"
  by (rule of_char_less_256) 

lemma byte_ordc [simp]: "byte (ordc c) = c"
  by (simp add: byte_def)

lemma quotients: "x < 256 \<Longrightarrow> x div 4 < 64 \<and> x div 16 < 16 \<and> x div 64 < (4::nat)"
  by auto

lemma digit_bounds:
  "ordc a div 4 < 64" "ordc a mod 4 * 16 + ordc b div 16 < 64" "ordc b mod 16 * 4 + ordc c div 64 < 64"
  "ordc c mod 64 < 64" "ordc a mod 4 * 16 < 64" "ordc b mod 16 * 4 < 64"
proof -
  have "ordc a mod 4 \<le> 3" "ordc b mod 16 \<le> 15"
    by (simp_all add: less_Suc_eq_le [symmetric])
  then show "ordc a mod 4 * 16 + ordc b div 16 < 64" "ordc b mod 16 * 4 + ordc c div 64 < 64"
    "ordc a mod 4 * 16 < 64" "ordc b mod 16 * 4 < 64"
    using quotients [OF ordc_less [of b]] quotients [OF ordc_less [of c]] by linarith+
qed (use quotients [OF ordc_less [of a]] in auto)

lemma regroup:
  "ordc a div 4 * 4 + (ordc a mod 4 * 16 + ordc b div 16) div 16 = ordc a"
  "(ordc a mod 4 * 16 + ordc b div 16) mod 16 * 16 + (ordc b mod 16 * 4 + ordc c div 64) div 4 = ordc b"
  "(ordc b mod 16 * 4 + ordc c div 64) mod 4 * 64 + ordc c mod 64 = ordc c"
  "ordc a div 4 * 4 + (ordc a mod 4 * 16) div 16 = ordc a"
  "(ordc a mod 4 * 16 + ordc b div 16) mod 16 * 16 + (ordc b mod 16 * 4) div 4 = ordc b"
proof -
  have b: "ordc b div 16 < 16" and c: "ordc c div 64 < 4"
    using quotients [OF ordc_less [of b]] quotients [OF ordc_less [of c]] by simp_all
  then show "ordc a div 4 * 4 + (ordc a mod 4 * 16 + ordc b div 16) div 16 = ordc a"
    "(ordc a mod 4 * 16 + ordc b div 16) mod 16 * 16 + (ordc b mod 16 * 4 + ordc c div 64) div 4 = ordc b"
    "(ordc b mod 16 * 4 + ordc c div 64) mod 4 * 64 + ordc c mod 64 = ordc c"
    "(ordc a mod 4 * 16 + ordc b div 16) mod 16 * 16 + (ordc b mod 16 * 4) div 4 = ordc b"
    by simp_all
qed simp

lemma small_quotients [simp]: "ordc b div 16 < 16" "ordc c div 64 < 4"
  using quotients [OF ordc_less [of b]] quotients [OF ordc_less [of c]] by simp_all

lemma padding_step: "padding (Suc (Suc (Suc (Suc n)))) = padding n"
  by (simp add: padding_def mod_Suc)

lemma replicate_two: "replicate 2 x = [x, x]"
  by (simp add: numeral_2_eq_2)

lemma loop_encode:
  "b64_loop 0 0 0 (b64_encode s @ replicate (padding (length (b64_encode s))) (CHR ''='')) = Some s"
proof (induction s rule: b64_encode.induct)
  case (1 a b c s)
  then show ?case
    by (simp add: digit_bounds regroup b64_val_char padding_step)
next
  case (2 a b)
  show ?case
    by (simp add: digit_bounds regroup b64_val_char padding_def)
next
  case (3 a)
  show ?case
    by (simp add: digit_bounds regroup b64_val_char padding_def replicate_two)
qed (simp add: padding_def)

lemma encode_chars: "\<forall>c \<in> set (b64_encode s). ordc c < 128 \<and> c \<noteq> CHR ''.''"
  by (induction s rule: b64_encode.induct) (simp_all add: digit_bounds b64_val_char)

lemma decode_encode [simp]: "decode (b64_encode s) = Some s"
  using encode_chars [of s] by (simp add: decode_def loop_encode list_all_iff)

lemma split_dot_append: "CHR ''.'' \<notin> set p \<Longrightarrow> split_dot (p @ ''.'' @ r) = Some (p, r)"
  by (induction p) auto

lemma split_dot_Some: "split_dot t = Some (p, r) \<Longrightarrow> t = p @ ''.'' @ r"
  by (induction t arbitrary: p) (auto split: if_splits option.splits)

section \<open>Sessions and principals\<close>

lemma verify_session_cases:
  "verify_session h token secret now = Inr claims \<longleftrightarrow>
     (\<exists>p sg t e. split_dot token = Some (p, sg) \<and> decode sg = Some (hmac_digest h secret p)
        \<and> decode p = Some t \<and> json_loads h t = Some (JObj claims)
        \<and> dict_get claims ''exp'' = Some e \<and> (\<exists>x. int_of_json e = Inr x \<and> now < x)
        \<and> (\<exists>u. dict_get claims ''sub'' = Some (JStr u)) \<and> (\<exists>u. dict_get claims ''tenant'' = Some (JStr u)))"
  (is "?l \<longleftrightarrow> ?r")
proof
  assume ?l
  then show ?r
    by (auto simp: verify_session_def check_claims_def not_le bind_eq_Some_conv
        split: option.splits if_splits json.splits sum.splits)
next
  assume ?r
  then show ?l by (auto simp: verify_session_def check_claims_def)
qed

text \<open>
  A development session that was issued is accepted under the secret it was issued with,
  with the claims it was issued for, exactly until it expires; and whatever token is accepted
  carries, after the first dot, the HMAC of its payload under the secret of the server, and claims
  in that payload that name a user and a tenant and expire in the future.  (\<open>json.loads\<close> is taken
  to read back the claims that were written.)
\<close>

theorem session_roundtrip:
  assumes "json_loads h (dumps_tight (float_repr h) (JObj (session_claims user_id tenant_id (now + 60 * minutes))))
      = Some (JObj (session_claims user_id tenant_id (now + 60 * minutes)))"
  shows "verify_session h (issue_session h user_id tenant_id secret minutes now) secret later
       = (if later < now + 60 * minutes then Inr (session_claims user_id tenant_id (now + 60 * minutes))
          else Inl ''development session expired'')
    \<and> (verify_session h token secret later = Inr claims \<longrightarrow>
         (\<exists>payload sg text x e. token = payload @ ''.'' @ sg \<and> decode sg = Some (hmac_digest h secret payload)
            \<and> decode payload = Some text \<and> json_loads h text = Some (JObj claims)
            \<and> dict_get claims ''exp'' = Some e \<and> int_of_json e = Inr x \<and> later < x))"
proof
  let ?t = "dumps_tight (float_repr h) (JObj (session_claims user_id tenant_id (now + 60 * minutes)))"
  have "CHR ''.'' \<notin> set (b64_encode ?t)" using encode_chars by blast
  then show "verify_session h (issue_session h user_id tenant_id secret minutes now) secret later
       = (if later < now + 60 * minutes then Inr (session_claims user_id tenant_id (now + 60 * minutes))
          else Inl ''development session expired'')"
    using assms split_dot_append [of "b64_encode ?t"]
    by (simp add: verify_session_def issue_session_def Let_def check_claims_def)
      (simp add: session_claims_def dict_get_def int_of_json_def)
  show "verify_session h token secret later = Inr claims \<longrightarrow>
         (\<exists>payload sg text x e. token = payload @ ''.'' @ sg \<and> decode sg = Some (hmac_digest h secret payload)
            \<and> decode payload = Some text \<and> json_loads h text = Some (JObj claims)
            \<and> dict_get claims ''exp'' = Some e \<and> int_of_json e = Inr x \<and> later < x)"
    unfolding verify_session_cases using split_dot_Some by blast
qed

text \<open>A runtime that reads back what it wrote: its \<open>json.loads\<close> knows one text.\<close>

definition session_host :: host where
  "session_host = demo_host\<lparr>json_loads := (\<lambda>t. if t = dumps_tight ratio_text (JObj (session_claims ''u'' ''t'' 160))
     then Some (JObj (session_claims ''u'' ''t'' 160)) else None)\<rparr>"

theorem session_roundtrip_witness:
  "verify_session session_host (issue_session session_host ''u'' ''t'' ''key'' 1 100) ''key'' 159
     = Inr (session_claims ''u'' ''t'' 160)
   \<and> verify_session session_host (issue_session session_host ''u'' ''t'' ''key'' 1 100) ''key'' 160
     = Inl ''development session expired''"
proof -
  have h: "json_loads session_host (dumps_tight (float_repr session_host) (JObj (session_claims ''u'' ''t'' (100 + 60 * 1))))
      = Some (JObj (session_claims ''u'' ''t'' (100 + 60 * 1)))"
    by (simp add: session_host_def demo_host_def)
  show ?thesis
    using conjunct1 [OF session_roundtrip [OF h, of "''key''" 159]]
      conjunct1 [OF session_roundtrip [OF h, of "''key''" 160]] by simp
qed

text \<open>
  C15.  No principal without a verified credential.  A user request that is let through comes
  with the tenant, identity and role of the row of an active user, and that row was found by a
  session signed with the secret of the server (development only), by an email the identity
  provider vouched for, or by the development-only headers.  Settings that pass the security
  check outside development leave the identity provider as the only way.  An agent request that
  is let through comes from an active device whose stored hash is the hash of the bearer secret.
\<close>

theorem principal_verified:
  assumes "require_user sv verify now tenant_id user_id authorization d = Inr p"
  shows "(\<exists>u \<in> set (users d). us_active u \<and> p = user_principal u
    \<and> ((environment (sv_settings sv) = ''development'' \<and> development_login_enabled (sv_settings sv)
          \<and> (\<exists>token claims. bearer authorization = Some token
              \<and> verify_session (sv_host sv) token (development_session_secret (sv_settings sv)) now = Inr claims
              \<and> dict_get claims ''sub'' = Some (JStr (us_id u)) \<and> dict_get claims ''tenant'' = Some (JStr (us_tenant_id u))))
      \<or> (\<exists>token. bearer authorization = Some token \<and> verify token = Some (Some (us_email u)))
      \<or> (allow_insecure_header_auth (sv_settings sv) \<and> tenant_id = Some (us_tenant_id u) \<and> user_id = Some (us_id u)))
    \<and> (validate_security (sv_settings sv) = Inr () \<and> environment (sv_settings sv) \<noteq> ''development'' \<longrightarrow>
         (\<exists>token. bearer authorization = Some token \<and> verify token = Some (Some (us_email u)))))
    \<and> (require_agent sv device_id agent_authorization d = Inr q \<longrightarrow>
         (\<exists>v \<in> set (devices d). dv_id v = device_id \<and> dv_active v \<and> q = device_principal v
            \<and> dv_agent_key_hash v = sha256_hex (sv_host sv) (drop 7 agent_authorization)))"
proof (rule conjI)
  show "require_agent sv device_id agent_authorization d = Inr q \<longrightarrow>
         (\<exists>v \<in> set (devices d). dv_id v = device_id \<and> dv_active v \<and> q = device_principal v
            \<and> dv_agent_key_hash v = sha256_hex (sv_host sv) (drop 7 agent_authorization))"
    by (auto simp: require_agent_def Let_def split: option.splits if_splits dest: scalar_SomeD)
next
  let ?st = "sv_settings sv"
  have load: "\<exists>u \<in> set (users d). us_active u \<and> p = user_principal u \<and> us_tenant_id u = ten \<and> us_id u = i"
    if "load_principal ten i d = Inr p" for ten i
    using that by (auto simp: load_principal_def split: option.splits dest: scalar_SomeD)
  have oidc: "\<exists>u \<in> set (users d). us_active u \<and> p = user_principal u \<and> verify token = Some (Some (us_email u))"
    if "resolve_oidc_principal ?st verify token tenant_id d = Inr p" for token
  proof -
    from that obtain e where v: "verify token = Some e" and
      "(\<exists>u. filter (\<lambda>u. Some (us_email u) = e \<and> us_active u) (users d) = [u] \<and> p = user_principal u)
       \<or> (\<exists>u us. filter (\<lambda>u. Some (us_tenant_id u) = tenant_id) (filter (\<lambda>u. Some (us_email u) = e \<and> us_active u) (users d)) = u # us
            \<and> p = user_principal u)"
      by (auto simp: resolve_oidc_principal_def simp del: filter_filter split: if_splits option.splits list.splits)
    then obtain u where "u \<in> set (users d)" "Some (us_email u) = e" "us_active u" "p = user_principal u"
      by (elim disjE exE conjE) (auto simp del: filter_filter dest!: arg_cong [where f = set] simp: set_eq_iff, blast+)
    with v show ?thesis by auto
  qed
  let ?goal = "\<exists>u \<in> set (users d). us_active u \<and> p = user_principal u
    \<and> ((environment ?st = ''development'' \<and> development_login_enabled ?st
          \<and> (\<exists>token claims. bearer authorization = Some token
              \<and> verify_session (sv_host sv) token (development_session_secret ?st) now = Inr claims
              \<and> dict_get claims ''sub'' = Some (JStr (us_id u)) \<and> dict_get claims ''tenant'' = Some (JStr (us_tenant_id u))))
      \<or> (\<exists>token. bearer authorization = Some token \<and> verify token = Some (Some (us_email u)))
      \<or> (allow_insecure_header_auth ?st \<and> tenant_id = Some (us_tenant_id u) \<and> user_id = Some (us_id u)))
    \<and> (validate_security ?st = Inr () \<and> environment ?st \<noteq> ''development'' \<longrightarrow>
         (\<exists>token. bearer authorization = Some token \<and> verify token = Some (Some (us_email u))))"
  show ?goal
  proof (cases "bearer authorization")
    case None
    with assms have h: "allow_insecure_header_auth ?st" "truthy tenant_id" "truthy user_id"
        "load_principal (the tenant_id) (the user_id) d = Inr p"
      by (auto simp: require_user_def Let_def split: if_splits)
    from load [OF h(4)] obtain u where u: "u \<in> set (users d)" "us_active u" "p = user_principal u"
      "us_tenant_id u = the tenant_id" "us_id u = the user_id" by blast
    with h have i: "tenant_id = Some (us_tenant_id u)" "user_id = Some (us_id u)"
      by (auto simp: truthy_def split: option.splits)
    from h(1) have "\<not> (validate_security ?st = Inr () \<and> environment ?st \<noteq> ''development'')"
      using validated_production(1) by blast
    with u i h(1) show ?goal by blast
  next
    case (Some token)
    show ?goal
    proof (cases "environment ?st = ''development'' \<and> development_login_enabled ?st")
      case True
      with Some assms obtain claims ten i where
        c: "verify_session (sv_host sv) token (development_session_secret ?st) now = Inr claims"
          "dict_get claims ''tenant'' = Some (JStr ten)" "dict_get claims ''sub'' = Some (JStr i)"
          "load_principal ten i d = Inr p"
        by (auto simp: require_user_def split: sum.splits option.splits json.splits)
      from load [OF c(4)] obtain u where "u \<in> set (users d)" "us_active u" "p = user_principal u"
        "us_tenant_id u = ten" "us_id u = i" by blast
      with c True Some show ?goal by blast
    next
      case False
      with Some assms have "resolve_oidc_principal ?st verify token tenant_id d = Inr p"
        by (auto simp: require_user_def Let_def)
      from oidc [OF this] Some show ?goal by blast
    qed
  qed
qed

text \<open>A production server and an identity provider that knows one token.\<close>

definition production_server :: server where
  "production_server = demo_server\<lparr>sv_settings := demo_settings\<lparr>environment := ''production'',
     allow_insecure_header_auth := False, development_login_enabled := False, oidc_issuer := ''i'',
     oidc_audience := ''a'', oidc_jwks_url := ''j'', bootstrap_token := ''b'', development_session_secret := ''s'',
     app_role_password := ''p''\<rparr>\<rparr>"

definition demo_identity :: oidc_verifier where
  "demo_identity token = (if token = ''tok'' then Some (Some ''bob@x'') else None)"

definition bob :: User where
  "bob = \<lparr>us_id = ''bob'', us_tenant_id = ''t'', us_email = ''bob@x'', us_role = ''admin'', us_active = True\<rparr>"

theorem principal_verified_witness:
  "require_user production_server demo_identity 0 (Some ''other'') (Some ''root'') (Some ''Bearer tok'')
       (empty_db\<lparr>users := [bob]\<rparr>) = Inr (user_principal bob)
   \<and> validate_security (sv_settings production_server) = Inr ()
   \<and> demo_identity ''tok'' = Some (Some (us_email bob))"
proof -
  have r: "require_user production_server demo_identity 0 (Some ''other'') (Some ''root'') (Some ''Bearer tok'')
       (empty_db\<lparr>users := [bob]\<rparr>) = Inr (user_principal bob)"
    by (simp add: require_user_def bearer_def starts_with_def production_server_def resolve_oidc_principal_def
        oidc_configured_def demo_identity_def empty_db_def bob_def)
  have v: "validate_security (sv_settings production_server) = Inr ()"
    "environment (sv_settings production_server) \<noteq> ''development''"
    by (simp_all add: production_server_def validate_security_def demo_settings_def default_settings_def
        oidc_configured_def placeholder_def)
  from principal_verified [OF r] v have "\<exists>u \<in> set [bob]. demo_identity ''tok'' = Some (Some (us_email u))"
    by (auto simp: empty_db_def bearer_def starts_with_def)
  with r v show ?thesis by simp
qed

end
