(* ===== verification/Views.thy ===== *)
theory Views
  imports Jobs Auth
begin

text \<open>
  The read side of \<open>helpdesktool/api.py\<close>: the JSON views of the rows and the handlers that only
  read.  A handler is a function of the caller, its parameters and the database; \<open>now\<close> is the
  reading of the clock.  The result of the file is that a reader sees its own tenant only: every
  read handler gives the same response on the database and on the slice of the caller's tenant.
\<close>

section \<open>Queries\<close>

text \<open>\<open>order_by(k.desc())\<close>, and \<open>.offset(offset).limit(limit)\<close> after \<open>_clamp_pagination\<close>.\<close>

definition order_desc :: "('r \<Rightarrow> int) \<Rightarrow> 'r list \<Rightarrow> 'r list" where
  "order_desc k rs = order_by (\<lambda>r. - k r) rs"

definition page :: "int \<Rightarrow> int \<Rightarrow> 'r list \<Rightarrow> 'r list" where
  "page limit offset rs =
     (case clamp_pagination limit offset of (l, f) \<Rightarrow> take (nat l) (drop (nat f) rs))"

definition count_rows :: "('r \<Rightarrow> string) \<Rightarrow> string \<Rightarrow> ('r \<Rightarrow> bool) \<Rightarrow> 'r list \<Rightarrow> nat" where
  "count_rows tenant tenant_id condition rs = length (filter (\<lambda>r. tenant r = tenant_id \<and> condition r) rs)"

section \<open>Rows as JSON\<close>

definition iso :: "server \<Rightarrow> time \<Rightarrow> json" where
  "iso sv t = JStr (isoformat (sv_host sv) t)"

definition device_online_threshold :: time where
  "device_online_threshold = 300"

definition online :: "time \<Rightarrow> Device \<Rightarrow> bool" where
  "online now r \<longleftrightarrow> (case dv_last_seen_at r of None \<Rightarrow> False | Some t \<Rightarrow> now - device_online_threshold \<le> t)"

definition device_json :: "server \<Rightarrow> time \<Rightarrow> Device \<Rightarrow> dict" where
  "device_json sv now r =
     [(''id'', JStr (dv_id r)), (''external_id'', JStr (dv_external_id r)), (''hostname'', JStr (dv_hostname r)),
      (''os'', JStr (dv_os r)), (''enrolled_at'', iso sv (dv_enrolled_at r)),
      (''last_seen_at'', some_time sv (dv_last_seen_at r)),
      (''status'', JStr (if online now r then ''online'' else ''offline'')),
      (''agent_status'', JStr (if online now r then ''connected'' else ''disconnected'')),
      (''active'', JBool (dv_active r)), (''revoked_at'', some_time sv (dv_revoked_at r)),
      (''revoked_reason'', opt_str (dv_revoked_reason r)),
      (''credential_rotated_at'', some_time sv (dv_credential_rotated_at r))]"

definition open_incident :: "Incident \<Rightarrow> bool" where
  "open_incident r \<longleftrightarrow> ic_status r \<in> {''open'', ''investigating''}"

definition device_summary :: "server \<Rightarrow> time \<Rightarrow> string \<Rightarrow> db \<Rightarrow> Device \<Rightarrow> dict" where
  "device_summary sv now tenant_id d r =
     device_json sv now r @ [(''open_incidents'', JInt (int (count_rows ic_tenant_id tenant_id
        (\<lambda>i. ic_device_id i = dv_id r \<and> open_incident i) (incidents d))))]"

definition ticket_json :: "server \<Rightarrow> Ticket \<Rightarrow> dict" where
  "ticket_json sv r =
     [(''id'', JStr (tk_id r)), (''device_id'', opt_str (tk_device_id r)), (''title'', JStr (tk_title r)),
      (''description'', JStr (tk_description r)), (''status'', JStr (tk_status r)),
      (''priority'', JStr (tk_priority r)), (''created_by'', JStr (tk_created_by r)),
      (''created_at'', iso sv (tk_created_at r)), (''updated_at'', iso sv (tk_updated_at r))]"

definition incident_json :: "server \<Rightarrow> Incident \<Rightarrow> dict" where
  "incident_json sv r =
     [(''id'', JStr (ic_id r)), (''device_id'', JStr (ic_device_id r)), (''ticket_id'', opt_str (ic_ticket_id r)),
      (''incident_type'', JStr (ic_incident_type r)), (''severity'', JStr (ic_severity r)),
      (''status'', JStr (ic_status r)), (''summary'', JStr (ic_summary r)), (''evidence'', JObj (ic_evidence r)),
      (''correlation_key'', JStr (ic_correlation_key r)), (''occurrence_count'', JInt (ic_occurrence_count r)),
      (''first_observed_at'', iso sv (ic_first_observed_at r)), (''last_observed_at'', iso sv (ic_last_observed_at r)),
      (''resolved_at'', some_time sv (ic_resolved_at r)), (''created_at'', iso sv (ic_created_at r)),
      (''updated_at'', iso sv (ic_updated_at r))]"

definition diagnosis_json :: "server \<Rightarrow> Diagnosis \<Rightarrow> dict" where
  "diagnosis_json sv r =
     [(''id'', JStr (dg_id r)), (''incident_id'', JStr (dg_incident_id r)), (''requested_by'', JStr (dg_requested_by r)),
      (''provider_name'', JStr (dg_provider_name r)), (''model'', JStr (dg_model r)),
      (''fallback_used'', JBool (dg_fallback_used r)), (''summary'', JStr (dg_summary r)),
      (''likely_root_cause'', JStr (dg_likely_root_cause r)), (''confidence'', JFloat (dg_confidence r)),
      (''suggested_skill_id'', opt_str (dg_suggested_skill_id r)),
      (''suggested_parameters'', JObj (dg_suggested_parameters r)), (''escalate'', JBool (dg_escalate r)),
      (''escalation_reason'', JStr (dg_escalation_reason r)), (''latency_ms'', JInt (dg_latency_ms r)),
      (''created_at'', iso sv (dg_created_at r))]"

definition skill_manifest_json :: "server \<Rightarrow> SkillManifestRow \<Rightarrow> dict" where
  "skill_manifest_json sv r =
     [(''id'', JStr (sm_id r)), (''skill_id'', JStr (sm_skill_id r)), (''version'', JInt (sm_version r)),
      (''risk'', JStr (sm_risk r)), (''supported_os'', JList (map JStr (sm_supported_os r))),
      (''timeout_seconds'', JInt (sm_timeout_seconds r)), (''rollback_skill_id'', opt_str (sm_rollback_skill_id r)),
      (''parameters'', JObj (sm_parameters r)), (''command_type'', JStr (sm_command_type r)),
      (''requires_user_approval'', JBool (sm_requires_user_approval r)),
      (''requires_admin_approval'', JBool (sm_requires_admin_approval r)),
      (''security_sensitive'', JBool (sm_security_sensitive r)), (''reversible'', JBool (sm_reversible r)),
      (''required_privilege'', JStr (sm_required_privilege r)), (''preconditions'', JObj (sm_preconditions r)),
      (''expected_output'', JStr (sm_expected_output r)), (''success_condition'', JStr (sm_success_condition r)),
      (''failure_condition'', JStr (sm_failure_condition r)), (''side_effects'', JStr (sm_side_effects r)),
      (''requires_reboot'', JBool (sm_requires_reboot r)),
      (''allowed_execution_context'', JStr (sm_allowed_execution_context r)),
      (''content_hash'', JStr (sm_content_hash r)), (''active'', JBool (sm_active r)),
      (''created_by'', JStr (sm_created_by r)), (''created_at'', iso sv (sm_created_at r))]"

definition webhook_json :: "server \<Rightarrow> WebhookSubscription \<Rightarrow> dict" where
  "webhook_json sv r =
     [(''id'', JStr (ws_id r)), (''name'', JStr (ws_name r)), (''url'', JStr (ws_url r)),
      (''event_types'', JList (map JStr (ws_event_types r))), (''active'', JBool (ws_active r)),
      (''created_at'', iso sv (ws_created_at r))]"

definition user_json :: "User \<Rightarrow> dict" where
  "user_json r =
     [(''id'', JStr (us_id r)), (''tenant_id'', JStr (us_tenant_id r)), (''email'', JStr (us_email r)),
      (''role'', JStr (us_role r)), (''active'', JBool (us_active r))]"

definition audit_json :: "server \<Rightarrow> AuditEventRow \<Rightarrow> dict" where
  "audit_json sv r =
     [(''sequence'', JInt (au_sequence r)), (''occurred_at'', iso sv (au_occurred_at r)),
      (''correlation_id'', JStr (au_correlation_id r)), (''event_type'', JStr (au_event_type r)),
      (''actor_id'', JStr (au_actor_id r)), (''details'', JObj (au_details r)),
      (''previous_hash'', JStr (au_previous_hash r)), (''event_hash'', JStr (au_event_hash r))]"

definition approval_json :: "server \<Rightarrow> Approval \<Rightarrow> dict" where
  "approval_json sv r =
     [(''decision'', JStr (ap_decision r)), (''decided_by'', JStr (ap_decided_by r)), (''reason'', opt_str (ap_reason r)),
      (''decided_at'', iso sv (ap_decided_at r))]"

definition execution_json :: "server \<Rightarrow> ExecutionResultRow \<Rightarrow> dict" where
  "execution_json sv r =
     [(''success'', JBool (xr_success r)), (''verified'', JBool (xr_verified r)), (''output'', JObj (xr_output r)),
      (''error'', opt_str (xr_error r)), (''rollback_attempted'', JBool (xr_rollback_attempted r)),
      (''rollback_succeeded'', opt_bool (xr_rollback_succeeded r)), (''created_at'', iso sv (xr_created_at r))]"

definition opt_int :: "int option \<Rightarrow> json" where
  "opt_int x = (case x of None \<Rightarrow> JNull | Some n \<Rightarrow> JInt n)"

definition delivery_json :: "server \<Rightarrow> WebhookDelivery \<Rightarrow> dict" where
  "delivery_json sv r =
     [(''id'', JStr (wd_id r)), (''event_id'', JStr (wd_event_id r)), (''subscription_id'', JStr (wd_subscription_id r)),
      (''status'', JStr (wd_status r)), (''attempt_count'', JInt (wd_attempt_count r)),
      (''last_attempt_at'', some_time sv (wd_last_attempt_at r)), (''delivered_at'', some_time sv (wd_delivered_at r)),
      (''response_status'', opt_int (wd_response_status r)), (''last_error'', opt_str (wd_last_error r))]"

definition objs :: "dict list \<Rightarrow> json" where
  "objs xs = JList (map JObj xs)"

definition audit_for :: "server \<Rightarrow> string \<Rightarrow> string list \<Rightarrow> db \<Rightarrow> dict list" where
  "audit_for sv tenant_id correlation_ids d =
     map (audit_json sv) (take 50 (order_desc au_sequence
       (filter (\<lambda>r. au_tenant_id r = tenant_id \<and> au_correlation_id r \<in> set correlation_ids) (audit_events d))))"

section \<open>Devices\<close>

definition list_devices :: "server \<Rightarrow> time \<Rightarrow> Principal \<Rightarrow> int \<Rightarrow> int \<Rightarrow> db \<Rightarrow> dict list" where
  "list_devices sv now p limit offset d =
     map (device_summary sv now (pr_tenant_id p) d) (page limit offset (order_desc dv_enrolled_at
       (filter (\<lambda>r. dv_tenant_id r = pr_tenant_id p) (devices d))))"

definition opt_payload :: "DeviceInventory option \<Rightarrow> json" where
  "opt_payload x = (case x of None \<Rightarrow> JNull | Some r \<Rightarrow> JObj (di_payload r))"

definition opt_heartbeat :: "server \<Rightarrow> HeartbeatRow option \<Rightarrow> json" where
  "opt_heartbeat sv x = (case x of None \<Rightarrow> JNull
     | Some r \<Rightarrow> JObj [(''received_at'', iso sv (hb_received_at r)), (''status'', JObj (hb_status r))])"

text \<open>The rows of a device, newest first.\<close>

definition device_incidents :: "Principal \<Rightarrow> string \<Rightarrow> db \<Rightarrow> Incident list" where
  "device_incidents p device_id d = take 10 (order_desc ic_last_observed_at
     (filter (\<lambda>r. ic_tenant_id r = pr_tenant_id p \<and> ic_device_id r = device_id) (incidents d)))"

definition device_tickets :: "Principal \<Rightarrow> string \<Rightarrow> db \<Rightarrow> Ticket list" where
  "device_tickets p device_id d = take 10 (order_desc tk_updated_at
     (filter (\<lambda>r. tk_tenant_id r = pr_tenant_id p \<and> tk_device_id r = Some device_id) (tickets d)))"

definition device_actions :: "Principal \<Rightarrow> string \<Rightarrow> db \<Rightarrow> Action list" where
  "device_actions p device_id d = take 10 (order_desc at_created_at
     (filter (\<lambda>r. at_tenant_id r = pr_tenant_id p \<and> at_device_id r = device_id) (actions d)))"

definition get_device :: "server \<Rightarrow> time \<Rightarrow> Principal \<Rightarrow> string \<Rightarrow> db \<Rightarrow> dict http" where
  "get_device sv now p device_id d =
     (case tenant_row dv_id dv_tenant_id (devices d) device_id (pr_tenant_id p) of
        Inl e \<Rightarrow> Inl e
      | Inr row \<Rightarrow>
          let inventory = first_max di_collected_at
                (filter (\<lambda>r. di_tenant_id r = pr_tenant_id p \<and> di_device_id r = device_id) (device_inventory d));
              beat = first_max hb_received_at
                (filter (\<lambda>r. hb_tenant_id r = pr_tenant_id p \<and> hb_device_id r = device_id) (heartbeats d));
              ics = device_incidents p device_id d; tks = device_tickets p device_id d;
              ats = device_actions p device_id d
          in Inr (device_json sv now row @
               [(''inventory'', opt_payload inventory), (''incidents'', objs (map (incident_json sv) ics)),
                (''tickets'', objs (map (ticket_json sv) tks)), (''actions'', objs (map (action_json sv) ats)),
                (''latest_heartbeat'', opt_heartbeat sv beat),
                (''audit'', objs (audit_for sv (pr_tenant_id p)
                   (device_id # map ic_id ics @ map tk_id tks @ map at_id ats) d))]))"

definition dashboard :: "server \<Rightarrow> time \<Rightarrow> Principal \<Rightarrow> db \<Rightarrow> dict" where
  "dashboard sv now p d =
     (let t = pr_tenant_id p; own = filter (\<lambda>r. dv_tenant_id r = t) (devices d);
          n = (\<lambda>k. JInt (int k))
      in [(''counts'', JObj
            [(''devices'', n (length own)), (''online_devices'', n (length (filter (online now) own))),
             (''offline_devices'', n (length (filter (\<lambda>r. \<not> online now r) own))),
             (''open_tickets'', n (count_rows tk_tenant_id t (\<lambda>r. tk_status r \<in> {''open'', ''in_progress''}) (tickets d))),
             (''open_incidents'', n (count_rows ic_tenant_id t open_incident (incidents d))),
             (''pending_approvals'', n (count_rows at_tenant_id t (\<lambda>r. at_status r = ''pending_approval'') (actions d))),
             (''failed_actions'', n (count_rows at_tenant_id t
                (\<lambda>r. at_status r \<in> {''failed'', ''rollback_failed''}) (actions d)))]),
          (''recent_incidents'', objs (map (incident_json sv) (take 5 (order_desc ic_last_observed_at
             (filter (\<lambda>r. ic_tenant_id r = t) (incidents d)))))),
          (''recent_tickets'', objs (map (ticket_json sv) (take 5 (order_desc tk_updated_at
             (filter (\<lambda>r. tk_tenant_id r = t) (tickets d)))))),
          (''recent_actions'', objs (map (action_json sv) (take 5 (order_desc at_created_at
             (filter (\<lambda>r. at_tenant_id r = t) (actions d))))))])"

section \<open>Incidents, tickets, actions\<close>

definition list_incidents :: "server \<Rightarrow> Principal \<Rightarrow> int \<Rightarrow> int \<Rightarrow> db \<Rightarrow> dict list" where
  "list_incidents sv p limit offset d =
     map (incident_json sv) (page limit offset (order_desc ic_last_observed_at
       (filter (\<lambda>r. ic_tenant_id r = pr_tenant_id p) (incidents d))))"

text \<open>\<open>Action.ticket_id == None\<close> is \<open>IS NULL\<close>: an incident without a ticket shows the actions without one.\<close>

definition ticket_actions :: "Principal \<Rightarrow> string option \<Rightarrow> db \<Rightarrow> Action list" where
  "ticket_actions p ticket_id d =
     filter (\<lambda>r. at_tenant_id r = pr_tenant_id p \<and> at_ticket_id r = ticket_id) (actions d)"

definition some_ids :: "string option \<Rightarrow> string list" where
  "some_ids x = (if truthy x then [the x] else [])"

definition get_incident :: "server \<Rightarrow> Principal \<Rightarrow> string \<Rightarrow> db \<Rightarrow> dict http" where
  "get_incident sv p incident_id d =
     (case tenant_row ic_id ic_tenant_id (incidents d) incident_id (pr_tenant_id p) of
        Inl e \<Rightarrow> Inl e
      | Inr row \<Rightarrow>
          (case (if truthy (ic_ticket_id row)
                 then (case tenant_row tk_id tk_tenant_id (tickets d) (the (ic_ticket_id row)) (pr_tenant_id p) of
                         Inl e \<Rightarrow> Inl e | Inr t \<Rightarrow> Inr (JObj (ticket_json sv t)))
                 else Inr JNull) of
             Inl e \<Rightarrow> Inl e
           | Inr ticket \<Rightarrow>
               let acts = ticket_actions p (ic_ticket_id row) d
               in Inr (incident_json sv row @
                    [(''ticket'', ticket), (''actions'', objs (map (action_json sv) acts)),
                     (''timeline'', objs (audit_for sv (pr_tenant_id p)
                        (ic_id row # some_ids (ic_ticket_id row) @ map at_id acts) d)),
                     (''diagnoses'', objs (map (diagnosis_json sv) (order_desc dg_created_at
                        (filter (\<lambda>r. dg_tenant_id r = pr_tenant_id p \<and> dg_incident_id r = ic_id row) (diagnoses d)))))])))"

definition list_tickets :: "server \<Rightarrow> Principal \<Rightarrow> int \<Rightarrow> int \<Rightarrow> db \<Rightarrow> dict list" where
  "list_tickets sv p limit offset d =
     map (ticket_json sv) (page limit offset (order_desc tk_updated_at
       (filter (\<lambda>r. tk_tenant_id r = pr_tenant_id p) (tickets d))))"

definition ticket_incident :: "Principal \<Rightarrow> string \<Rightarrow> db \<Rightarrow> Incident option" where
  "ticket_incident p ticket_id d =
     scalar (\<lambda>r. ic_tenant_id r = pr_tenant_id p \<and> ic_ticket_id r = Some ticket_id) (incidents d)"

definition opt_incident :: "server \<Rightarrow> Incident option \<Rightarrow> json" where
  "opt_incident sv x = (case x of None \<Rightarrow> JNull | Some r \<Rightarrow> JObj (incident_json sv r))"

definition incident_ids :: "Incident option \<Rightarrow> string list" where
  "incident_ids x = (case x of None \<Rightarrow> [] | Some r \<Rightarrow> [ic_id r])"

definition get_ticket :: "server \<Rightarrow> Principal \<Rightarrow> string \<Rightarrow> db \<Rightarrow> dict http" where
  "get_ticket sv p ticket_id d =
     (case tenant_row tk_id tk_tenant_id (tickets d) ticket_id (pr_tenant_id p) of
        Inl e \<Rightarrow> Inl e
      | Inr row \<Rightarrow>
          let incident = ticket_incident p (tk_id row) d; acts = ticket_actions p (Some (tk_id row)) d
          in Inr (ticket_json sv row @
               [(''incident'', opt_incident sv incident), (''actions'', objs (map (action_json sv) acts)),
                (''timeline'', objs (audit_for sv (pr_tenant_id p)
                   (tk_id row # map at_id acts @ incident_ids incident) d))]))"

definition list_actions :: "server \<Rightarrow> Principal \<Rightarrow> int \<Rightarrow> int \<Rightarrow> db \<Rightarrow> dict list" where
  "list_actions sv p limit offset d =
     map (action_json sv) (page limit offset (order_desc at_created_at
       (filter (\<lambda>r. at_tenant_id r = pr_tenant_id p) (actions d))))"

definition list_approvals :: "server \<Rightarrow> Principal \<Rightarrow> db \<Rightarrow> dict list" where
  "list_approvals sv p d =
     map (action_json sv) (order_by at_created_at
       (filter (\<lambda>r. at_tenant_id r = pr_tenant_id p \<and> at_status r = ''pending_approval'') (actions d)))"

definition get_action :: "server \<Rightarrow> Principal \<Rightarrow> string \<Rightarrow> db \<Rightarrow> dict http" where
  "get_action sv p action_id d =
     (case tenant_row at_id at_tenant_id (actions d) action_id (pr_tenant_id p) of
        Inl e \<Rightarrow> Inl e
      | Inr row \<Rightarrow>
          let aps = filter (\<lambda>r. ap_tenant_id r = pr_tenant_id p \<and> ap_action_id r = at_id row) (approvals d);
              xrs = filter (\<lambda>r. xr_tenant_id r = pr_tenant_id p \<and> xr_action_id r = at_id row) (execution_results d);
              incident = (if truthy (at_ticket_id row) then ticket_incident p (the (at_ticket_id row)) d else None)
          in Inr (action_json sv row @
               [(''approvals'', objs (map (approval_json sv) aps)),
                (''execution_results'', objs (map (execution_json sv) xrs)),
                (''timeline'', objs (audit_for sv (pr_tenant_id p)
                   (at_id row # some_ids (at_ticket_id row) @ incident_ids incident) d))]))"

section \<open>Skills, audit, settings, webhooks\<close>

text \<open>Ordered by skill and, within a skill, by falling version.\<close>

definition list_skills :: "server \<Rightarrow> bool \<Rightarrow> db \<Rightarrow> dict list" where
  "list_skills sv active_only d =
     map (skill_manifest_json sv) (order_by sm_skill_id (order_desc sm_version
       (filter (\<lambda>r. active_only \<longrightarrow> sm_active r) (skills d))))"

definition get_audit ::
  "server \<Rightarrow> Principal \<Rightarrow> int \<Rightarrow> string option \<Rightarrow> string option \<Rightarrow> db \<Rightarrow> dict list" where
  "get_audit sv p limit event_type correlation_id d =
     map (audit_json sv) (take (nat (max 1 (min limit 500))) (order_desc au_sequence
       (filter (\<lambda>r. au_tenant_id r = pr_tenant_id p
          \<and> (truthy event_type \<longrightarrow> au_event_type r = the event_type)
          \<and> (truthy correlation_id \<longrightarrow> au_correlation_id r = the correlation_id)) (audit_events d))))"

definition list_webhook_subscriptions :: "server \<Rightarrow> Principal \<Rightarrow> db \<Rightarrow> dict list" where
  "list_webhook_subscriptions sv p d =
     map (webhook_json sv) (order_by ws_created_at
       (filter (\<lambda>r. ws_tenant_id r = pr_tenant_id p) (webhook_subscriptions d)))"

definition list_webhook_deliveries :: "server \<Rightarrow> Principal \<Rightarrow> db \<Rightarrow> dict list" where
  "list_webhook_deliveries sv p d =
     map (delivery_json sv) (take 100 (order_desc wd_next_attempt_at
       (filter (\<lambda>r. wd_tenant_id r = pr_tenant_id p) (webhook_deliveries d))))"

text \<open>\<open>sorted(settings.allowed_services)\<close>.\<close>

definition settings_summary :: "server \<Rightarrow> Principal \<Rightarrow> db \<Rightarrow> dict http" where
  "settings_summary sv p d =
     (case scalar (\<lambda>t. tn_id t = pr_tenant_id p) (tenants d) of
        None \<Rightarrow> Inl (HTTPException 404 ''tenant not found'')
      | Some tenant \<Rightarrow>
          let st = sv_settings sv in
          Inr [(''tenant'', JObj [(''id'', JStr (tn_id tenant)), (''name'', JStr (tn_name tenant))]),
               (''users'', objs (map user_json (order_by us_email
                  (filter (\<lambda>r. us_tenant_id r = pr_tenant_id p) (users d))))),
               (''environment'', JStr (environment st)),
               (''development_login_enabled'', JBool (development_login_enabled st)),
               (''low_disk_threshold_percent'', JFloat (low_disk_threshold_percent st)),
               (''allowed_services'', JList (map JStr (sort (remdups (csv_items (service_allowlist st)))))),
               (''supported_events'', JList (map (\<lambda>e. JStr (EventType_value e)) EventType_members))])"

definition signing_keys_json :: "server \<Rightarrow> json" where
  "signing_keys_json sv = JObj (map (\<lambda>(v, pem). (show_int v, JStr pem))
     (active_public_keys (sv_host sv) (sv_crypto sv) (job_signing_seed (sv_settings sv))
        (job_signing_key_version (sv_settings sv)) (job_signing_key_rotation_window (sv_settings sv))))"

definition agent_signing_key :: "server \<Rightarrow> dict" where
  "agent_signing_key sv = [(''signing_public_keys'', signing_keys_json sv)]"

section \<open>Action preview\<close>

text \<open>\<open>helpdesktool/action_preview.py\<close>; \<open>repr\<close> of a dictionary is its \<open>str\<close>.\<close>

record ActionPreview =
  pv_skill_id :: string
  pv_skill_version :: int
  pv_command_type :: string
  pv_risk :: string
  pv_required_privilege :: string
  pv_timeout_seconds :: int
  pv_parameters :: dict
  pv_preconditions :: dict
  pv_expected_output :: string
  pv_success_condition :: string
  pv_failure_condition :: string
  pv_side_effects :: string
  pv_requires_reboot :: bool
  pv_reversible :: bool
  pv_rollback_skill_id :: "string option"
  pv_automation_level :: AutomationLevel
  pv_policy_allowed :: bool
  pv_approval_required :: bool
  pv_policy_reason :: string
  pv_what_would_execute :: string
  pv_verification_plan :: string
  pv_rollback_plan :: string

definition execution_text :: "server \<Rightarrow> SkillManifest \<Rightarrow> dict \<Rightarrow> string" where
  "execution_text sv m parameters =
     ''The agent would run the registered '' @ repr_str (mf_skill_id m) @ '' skill (version ''
     @ show_int (mf_version m) @ '', '' @ CommandType_value (mf_command_type m)
     @ '') against the target device with parameters '' @ str_value (sv_host sv) (JObj parameters)
     @ '', timing out after '' @ show_int (mf_timeout_seconds m) @ ''s if it does not complete.''"

definition verification_text :: "SkillManifest \<Rightarrow> string" where
  "verification_text m =
     (if strip (mf_success_condition m) \<noteq> [] then strip (mf_success_condition m)
      else ''No explicit success_condition is registered for this skill; the agent'' @ CHR 0x27 #
        ''s own hardcoded post-execution check determines success (see the agent executor''
        @ CHR 0x27 # ''s verify logic).'')"

definition rollback_text :: "SkillManifest \<Rightarrow> string" where
  "rollback_text m =
     (if mf_reversible m \<and> truthy (mf_rollback_skill_id m)
      then ''On verification failure, the agent attempts rollback via the ''
        @ repr_str (the (mf_rollback_skill_id m))
        @ '' label -- the actual rollback logic lives inside the agent'' @ CHR 0x27 #
        ''s own executor code, not a separate registered skill (see skills.py'' @ CHR 0x27 # ''s module docstring).''
      else if mf_reversible m
      then ''This skill is marked reversible but declares no rollback_skill_id label; rollback, if any, ''
        @ ''is handled entirely inside the agent'' @ CHR 0x27 # ''s own executor code.''
      else ''This skill is not marked reversible -- no automated rollback will be attempted on failure; ''
        @ ''a failure here requires manual operator follow-up.'')"

definition build_action_preview ::
  "server \<Rightarrow> SkillManifest \<Rightarrow> dict \<Rightarrow> PolicyDecision \<Rightarrow> AutomationLevel \<Rightarrow> ActionPreview" where
  "build_action_preview sv m parameters decision level =
     \<lparr>pv_skill_id = mf_skill_id m, pv_skill_version = mf_version m,
      pv_command_type = CommandType_value (mf_command_type m), pv_risk = RiskLevel_value (mf_risk m),
      pv_required_privilege = mf_required_privilege m, pv_timeout_seconds = mf_timeout_seconds m,
      pv_parameters = parameters, pv_preconditions = mf_preconditions m, pv_expected_output = mf_expected_output m,
      pv_success_condition = mf_success_condition m, pv_failure_condition = mf_failure_condition m,
      pv_side_effects = mf_side_effects m, pv_requires_reboot = mf_requires_reboot m,
      pv_reversible = mf_reversible m, pv_rollback_skill_id = mf_rollback_skill_id m,
      pv_automation_level = level, pv_policy_allowed = pd_allowed decision,
      pv_approval_required = pd_approval_required decision, pv_policy_reason = pd_reason decision,
      pv_what_would_execute = execution_text sv m parameters, pv_verification_plan = verification_text m,
      pv_rollback_plan = rollback_text m\<rparr>"

definition preview_json :: "Action \<Rightarrow> ActionPreview \<Rightarrow> dict" where
  "preview_json row v =
     [(''action_id'', JStr (at_id row)), (''action_status'', JStr (at_status row)),
      (''skill_id'', JStr (pv_skill_id v)), (''skill_version'', JInt (pv_skill_version v)),
      (''command_type'', JStr (pv_command_type v)), (''risk'', JStr (pv_risk v)),
      (''required_privilege'', JStr (pv_required_privilege v)), (''timeout_seconds'', JInt (pv_timeout_seconds v)),
      (''parameters'', JObj (pv_parameters v)), (''preconditions'', JObj (pv_preconditions v)),
      (''expected_output'', JStr (pv_expected_output v)), (''success_condition'', JStr (pv_success_condition v)),
      (''failure_condition'', JStr (pv_failure_condition v)), (''side_effects'', JStr (pv_side_effects v)),
      (''requires_reboot'', JBool (pv_requires_reboot v)), (''reversible'', JBool (pv_reversible v)),
      (''rollback_skill_id'', opt_str (pv_rollback_skill_id v)),
      (''automation_level'', JStr (AutomationLevel_value (pv_automation_level v))),
      (''policy_allowed'', JBool (pv_policy_allowed v)), (''approval_required'', JBool (pv_approval_required v)),
      (''policy_reason'', JStr (pv_policy_reason v)), (''what_would_execute'', JStr (pv_what_would_execute v)),
      (''verification_plan'', JStr (pv_verification_plan v)), (''rollback_plan'', JStr (pv_rollback_plan v))]"

text \<open>The policy is that of the one skill, as it is registered now.\<close>

definition preview_decision :: "SkillManifest \<Rightarrow> Principal \<Rightarrow> Action \<Rightarrow> py_error + PolicyDecision \<times> AutomationLevel" where
  "preview_decision m p row =
     (case to_skill_definition m of
        Inl e \<Rightarrow> Inl e
      | Inr sk \<Rightarrow>
          (case (PolicyEngine_init [sk], ActionRequest_init
             \<lparr>rq_tenant_id = pr_tenant_id p, rq_device_id = at_device_id row, rq_skill_id = at_skill_id row,
              rq_requested_by = at_requested_by row, rq_parameters = at_parameters row, rq_correlation_id = []\<rparr>) of
             (Inr engine, Inr rq) \<Rightarrow>
               let decision = evaluate engine rq (at_device_os row)
               in Inr (decision, automation_level_for sk (pd_approval_required decision))
           | (Inl e, _) \<Rightarrow> Inl e
           | (_, Inl e) \<Rightarrow> Inl e))"

definition preview_action :: "server \<Rightarrow> Principal \<Rightarrow> string \<Rightarrow> db \<Rightarrow> dict http" where
  "preview_action sv p action_id d =
     (case tenant_row at_id at_tenant_id (actions d) action_id (pr_tenant_id p) of
        Inl e \<Rightarrow> Inl e
      | Inr row \<Rightarrow>
          (case get_active_manifest sv (at_skill_id row) d of
             Inl e \<Rightarrow> Inl e
           | Inr None \<Rightarrow> Inl (HTTPException 404
               (''skill '' @ repr_str (at_skill_id row) @ '' is no longer an active registered skill''))
           | Inr (Some m) \<Rightarrow>
               (case preview_decision m p row of
                  Inl _ \<Rightarrow> Inl unhandled
                | Inr (decision, level) \<Rightarrow>
                    Inr (preview_json row (build_action_preview sv m (at_parameters row) decision level)))))"

section \<open>Readers see their own tenant\<close>

text \<open>
  The slice of a tenant: its rows in every table that has tenants; the tables without (the skill
  registry, the knowledge base, the heartbeats of the workers) are shared.
\<close>

definition tenant_slice :: "string \<Rightarrow> db \<Rightarrow> db" where
  "tenant_slice t d = d\<lparr>
     tenants := filter (\<lambda>r. tn_id r = t) (tenants d), users := filter (\<lambda>r. us_tenant_id r = t) (users d),
     devices := filter (\<lambda>r. dv_tenant_id r = t) (devices d),
     enrollment_tokens := filter (\<lambda>r. et_tenant_id r = t) (enrollment_tokens d),
     device_inventory := filter (\<lambda>r. di_tenant_id r = t) (device_inventory d),
     heartbeats := filter (\<lambda>r. hb_tenant_id r = t) (heartbeats d),
     tickets := filter (\<lambda>r. tk_tenant_id r = t) (tickets d),
     incidents := filter (\<lambda>r. ic_tenant_id r = t) (incidents d),
     actions := filter (\<lambda>r. at_tenant_id r = t) (actions d),
     approvals := filter (\<lambda>r. ap_tenant_id r = t) (approvals d),
     diagnoses := filter (\<lambda>r. dg_tenant_id r = t) (diagnoses d),
     execution_results := filter (\<lambda>r. xr_tenant_id r = t) (execution_results d),
     audit_events := filter (\<lambda>r. au_tenant_id r = t) (audit_events d),
     idempotency_records := filter (\<lambda>r. ir_tenant_id r = t) (idempotency_records d),
     domain_events := filter (\<lambda>r. dr_tenant_id r = t) (domain_events d),
     webhook_subscriptions := filter (\<lambda>r. ws_tenant_id r = t) (webhook_subscriptions d),
     webhook_deliveries := filter (\<lambda>r. wd_tenant_id r = t) (webhook_deliveries d),
     application_connectors := filter (\<lambda>r. cn_tenant_id r = t) (application_connectors d),
     conversations := filter (\<lambda>r. cv_tenant_id r = t) (conversations d),
     conversation_messages := filter (\<lambda>r. cm_tenant_id r = t) (conversation_messages d),
     connector_requests := filter (\<lambda>r. cr_tenant_id r = t) (connector_requests d),
     organizational_baselines := filter (\<lambda>r. ob_tenant_id r = t) (organizational_baselines d),
     channel_workspace_links := filter (\<lambda>r. wl_tenant_id r = t) (channel_workspace_links d),
     channel_identity_links := filter (\<lambda>r. il_tenant_id r = t) (channel_identity_links d)\<rparr>"

named_theorems slice_simps \<open>what a query of the caller's tenant finds in the slice\<close>

lemma filter_slice [slice_simps]:
  "filter (\<lambda>r. tenant r = t \<and> Q r) (filter (\<lambda>r. tenant r = t) xs) = filter (\<lambda>r. tenant r = t \<and> Q r) xs"
  "filter (\<lambda>r. tenant r = t) (filter (\<lambda>r. tenant r = t) xs) = filter (\<lambda>r. tenant r = t) xs"
  by (induction xs) auto

lemma scalar_slice [slice_simps]:
  "scalar (\<lambda>r. tenant r = t \<and> Q r) (filter (\<lambda>r. tenant r = t) xs) = scalar (\<lambda>r. tenant r = t \<and> Q r) xs"
  "scalar (\<lambda>r. tenant r = t) (filter (\<lambda>r. tenant r = t) xs) = scalar (\<lambda>r. tenant r = t) xs"
  by (induction xs) (auto simp: row_simps)

lemma tenant_row_slice [slice_simps]:
  "tenant_row rid tenant (filter (\<lambda>r. tenant r = t) xs) i t = tenant_row rid tenant xs i t"
proof -
  have "scalar (\<lambda>r. rid r = i \<and> tenant r = t) (filter (\<lambda>r. tenant r = t) xs) = scalar (\<lambda>r. rid r = i \<and> tenant r = t) xs"
    by (induction xs) (auto simp: row_simps)
  then show ?thesis by (simp add: tenant_row_def)
qed

lemma count_slice [slice_simps]: "count_rows tenant t c (filter (\<lambda>r. tenant r = t) xs) = count_rows tenant t c xs"
  by (simp add: count_rows_def filter_slice)

lemma audit_for_slice [slice_simps]: "audit_for sv t cs (tenant_slice t d) = audit_for sv t cs d"
  by (simp add: audit_for_def tenant_slice_def filter_slice)

lemma device_summary_slice [slice_simps]: "device_summary sv now t (tenant_slice t d) = device_summary sv now t d"
  by (simp add: fun_eq_iff device_summary_def tenant_slice_def count_slice)

lemma slice_rows [slice_simps]:
  "device_incidents p i (tenant_slice (pr_tenant_id p) d) = device_incidents p i d"
  "device_tickets p i (tenant_slice (pr_tenant_id p) d) = device_tickets p i d"
  "device_actions p i (tenant_slice (pr_tenant_id p) d) = device_actions p i d"
  "ticket_actions p j (tenant_slice (pr_tenant_id p) d) = ticket_actions p j d"
  "ticket_incident p i (tenant_slice (pr_tenant_id p) d) = ticket_incident p i d"
  by (simp_all add: device_incidents_def device_tickets_def device_actions_def ticket_actions_def ticket_incident_def
      tenant_slice_def filter_slice scalar_slice)

text \<open>The read requests of a user, and the job poll of an agent.\<close>

datatype read_op =
    List_devices int int
  | Get_device string
  | Dashboard
  | List_incidents int int
  | Get_incident string
  | List_tickets int int
  | Get_ticket string
  | List_actions int int
  | List_approvals
  | Get_action string
  | Preview_action string
  | Get_audit int "string option" "string option"
  | List_skills bool
  | List_webhook_subscriptions
  | List_webhook_deliveries
  | Settings_summary
  | Poll_jobs string

fun read_view :: "server \<Rightarrow> time \<Rightarrow> Principal \<Rightarrow> read_op \<Rightarrow> db \<Rightarrow> json http" where
  "read_view sv now p (List_devices limit offset) d = Inr (objs (list_devices sv now p limit offset d))"
| "read_view sv now p (Get_device i) d = map_sum id JObj (get_device sv now p i d)"
| "read_view sv now p Dashboard d = Inr (JObj (dashboard sv now p d))"
| "read_view sv now p (List_incidents limit offset) d = Inr (objs (list_incidents sv p limit offset d))"
| "read_view sv now p (Get_incident i) d = map_sum id JObj (get_incident sv p i d)"
| "read_view sv now p (List_tickets limit offset) d = Inr (objs (list_tickets sv p limit offset d))"
| "read_view sv now p (Get_ticket i) d = map_sum id JObj (get_ticket sv p i d)"
| "read_view sv now p (List_actions limit offset) d = Inr (objs (list_actions sv p limit offset d))"
| "read_view sv now p List_approvals d = Inr (objs (list_approvals sv p d))"
| "read_view sv now p (Get_action i) d = map_sum id JObj (get_action sv p i d)"
| "read_view sv now p (Preview_action i) d = map_sum id JObj (preview_action sv p i d)"
| "read_view sv now p (Get_audit limit event_type correlation_id) d = Inr (objs (get_audit sv p limit event_type correlation_id d))"
| "read_view sv now p (List_skills active_only) d = Inr (objs (list_skills sv active_only d))"
| "read_view sv now p List_webhook_subscriptions d = Inr (objs (list_webhook_subscriptions sv p d))"
| "read_view sv now p List_webhook_deliveries d = Inr (objs (list_webhook_deliveries sv p d))"
| "read_view sv now p Settings_summary d = map_sum id JObj (settings_summary sv p d)"
| "read_view sv now p (Poll_jobs i) d = Inr (JList (poll_jobs p i d))"

lemma manifest_slice [slice_simps]: "get_active_manifest sv k (tenant_slice t d) = get_active_manifest sv k d"
  by (simp add: get_active_manifest_def tenant_slice_def)

lemma slice_tables [slice_simps]:
  "devices (tenant_slice t d) = filter (\<lambda>r. dv_tenant_id r = t) (devices d)"
  "incidents (tenant_slice t d) = filter (\<lambda>r. ic_tenant_id r = t) (incidents d)"
  "tickets (tenant_slice t d) = filter (\<lambda>r. tk_tenant_id r = t) (tickets d)"
  "actions (tenant_slice t d) = filter (\<lambda>r. at_tenant_id r = t) (actions d)"
  "approvals (tenant_slice t d) = filter (\<lambda>r. ap_tenant_id r = t) (approvals d)"
  "execution_results (tenant_slice t d) = filter (\<lambda>r. xr_tenant_id r = t) (execution_results d)"
  "diagnoses (tenant_slice t d) = filter (\<lambda>r. dg_tenant_id r = t) (diagnoses d)"
  "device_inventory (tenant_slice t d) = filter (\<lambda>r. di_tenant_id r = t) (device_inventory d)"
  "heartbeats (tenant_slice t d) = filter (\<lambda>r. hb_tenant_id r = t) (heartbeats d)"
  "audit_events (tenant_slice t d) = filter (\<lambda>r. au_tenant_id r = t) (audit_events d)"
  "users (tenant_slice t d) = filter (\<lambda>r. us_tenant_id r = t) (users d)"
  "tenants (tenant_slice t d) = filter (\<lambda>r. tn_id r = t) (tenants d)"
  "webhook_subscriptions (tenant_slice t d) = filter (\<lambda>r. ws_tenant_id r = t) (webhook_subscriptions d)"
  "webhook_deliveries (tenant_slice t d) = filter (\<lambda>r. wd_tenant_id r = t) (webhook_deliveries d)"
  "skills (tenant_slice t d) = skills d"
  by (simp_all add: tenant_slice_def)

lemma read_view_slice: "read_view sv now p op (tenant_slice (pr_tenant_id p) d) = read_view sv now p op d"
  by (cases op) (simp_all add: slice_simps get_action_def list_devices_def get_device_def dashboard_def list_incidents_def get_incident_def
    list_tickets_def get_ticket_def list_actions_def list_approvals_def preview_action_def get_audit_def
    list_skills_def list_webhook_subscriptions_def list_webhook_deliveries_def settings_summary_def poll_jobs_def
    Let_def cong: sum.case_cong if_cong option.case_cong)

text \<open>
  Readers see their own tenant only.  If two databases have the same rows for the tenant of
  the caller (and the same shared tables), every read request of a user, and the job poll of an
  agent, gets the same response on both: nothing another tenant stores, and no identifier of
  another tenant's row that a caller supplies, can change what it is shown.
\<close>

theorem reads_see_own_tenant:
  assumes "tenant_slice (pr_tenant_id p) d = tenant_slice (pr_tenant_id p) d'"
  shows "read_view sv now p op d = read_view sv now p op d'"
  using assms read_view_slice by metis

theorem reads_see_own_tenant_witness:
  "read_view demo_server 0 demo_admin (Get_ticket ''k'')
     (empty_db\<lparr>tickets := [\<lparr>tk_id = ''k'', tk_tenant_id = ''other'', tk_device_id = None, tk_title = ''secret'',
        tk_description = [], tk_status = ''open'', tk_priority = ''high'', tk_created_by = ''eve'', tk_created_at = 0,
        tk_updated_at = 0\<rparr>]\<rparr>)
   = Inl (HTTPException 404 ''resource not found'')"
proof -
  let ?d = "empty_db\<lparr>tickets := [\<lparr>tk_id = ''k'', tk_tenant_id = ''other'', tk_device_id = None, tk_title = ''secret'',
        tk_description = [], tk_status = ''open'', tk_priority = ''high'', tk_created_by = ''eve'', tk_created_at = 0,
        tk_updated_at = 0\<rparr>]\<rparr>"
  have "tenant_slice (pr_tenant_id demo_admin) ?d = tenant_slice (pr_tenant_id demo_admin) empty_db"
    by (simp add: tenant_slice_def empty_db_def demo_admin_def)
  from reads_see_own_tenant [OF this, of demo_server 0 "Get_ticket ''k''"] show ?thesis
    by (simp add: get_ticket_def tenant_row_def empty_db_def scalar_def)
qed

end
