(* ===== verification/Enrollment.thy ===== *)
theory Enrollment
  imports Views
begin

text \<open>
  Tenants, logins and devices (\<open>helpdesktool/api.py\<close>, from \<open>development_users\<close> to \<open>heartbeat\<close>):
  creating a tenant, the one-time enrollment tokens, enrolling a device with a user's session or
  with a token, and the life of a device's credential.  The results: an enrollment token admits
  one device, and a revoked device or a replaced credential is locked out for good.
\<close>

section \<open>Shared pieces\<close>

definition audit :: "server \<Rightarrow> time \<Rightarrow> string \<Rightarrow> string \<Rightarrow> string \<Rightarrow> string \<Rightarrow> dict \<Rightarrow> db \<Rightarrow> db" where
  "audit sv now tenant_id correlation_id event_type actor_id details d =
     sql_append sv now (msg tenant_id correlation_id event_type actor_id details) d"

text \<open>The tables an audit append and an idempotency record leave alone.\<close>

lemma fold_delivery_rest:
  "tenants (fold (add_delivery sv now e) subs d) = tenants d"
  "worker_heartbeats (fold (add_delivery sv now e) subs d) = worker_heartbeats d"
  "users (fold (add_delivery sv now e) subs d) = users d"
  "devices (fold (add_delivery sv now e) subs d) = devices d"
  "enrollment_tokens (fold (add_delivery sv now e) subs d) = enrollment_tokens d"
  "device_inventory (fold (add_delivery sv now e) subs d) = device_inventory d"
  "heartbeats (fold (add_delivery sv now e) subs d) = heartbeats d"
  "tickets (fold (add_delivery sv now e) subs d) = tickets d"
  "incidents (fold (add_delivery sv now e) subs d) = incidents d"
  "approvals (fold (add_delivery sv now e) subs d) = approvals d"
  "diagnoses (fold (add_delivery sv now e) subs d) = diagnoses d"
  "webhook_subscriptions (fold (add_delivery sv now e) subs d) = webhook_subscriptions d"
  "application_connectors (fold (add_delivery sv now e) subs d) = application_connectors d"
  "conversations (fold (add_delivery sv now e) subs d) = conversations d"
  "conversation_messages (fold (add_delivery sv now e) subs d) = conversation_messages d"
  "connector_requests (fold (add_delivery sv now e) subs d) = connector_requests d"
  "organizational_baselines (fold (add_delivery sv now e) subs d) = organizational_baselines d"
  "channel_workspace_links (fold (add_delivery sv now e) subs d) = channel_workspace_links d"
  "channel_identity_links (fold (add_delivery sv now e) subs d) = channel_identity_links d"
  "knowledge_sources (fold (add_delivery sv now e) subs d) = knowledge_sources d"
  "issue_definitions (fold (add_delivery sv now e) subs d) = issue_definitions d"
  "diagnostic_workflows (fold (add_delivery sv now e) subs d) = diagnostic_workflows d"
  "diagnostic_steps (fold (add_delivery sv now e) subs d) = diagnostic_steps d"
  by (induction subs arbitrary: d) (auto simp: add_delivery_def)

lemma publish_rest:
  "tenants (publish_msg sv now ty m d) = tenants d"
  "worker_heartbeats (publish_msg sv now ty m d) = worker_heartbeats d"
  "users (publish_msg sv now ty m d) = users d"
  "devices (publish_msg sv now ty m d) = devices d"
  "enrollment_tokens (publish_msg sv now ty m d) = enrollment_tokens d"
  "device_inventory (publish_msg sv now ty m d) = device_inventory d"
  "heartbeats (publish_msg sv now ty m d) = heartbeats d"
  "tickets (publish_msg sv now ty m d) = tickets d"
  "incidents (publish_msg sv now ty m d) = incidents d"
  "approvals (publish_msg sv now ty m d) = approvals d"
  "diagnoses (publish_msg sv now ty m d) = diagnoses d"
  "webhook_subscriptions (publish_msg sv now ty m d) = webhook_subscriptions d"
  "application_connectors (publish_msg sv now ty m d) = application_connectors d"
  "conversations (publish_msg sv now ty m d) = conversations d"
  "conversation_messages (publish_msg sv now ty m d) = conversation_messages d"
  "connector_requests (publish_msg sv now ty m d) = connector_requests d"
  "organizational_baselines (publish_msg sv now ty m d) = organizational_baselines d"
  "channel_workspace_links (publish_msg sv now ty m d) = channel_workspace_links d"
  "channel_identity_links (publish_msg sv now ty m d) = channel_identity_links d"
  "knowledge_sources (publish_msg sv now ty m d) = knowledge_sources d"
  "issue_definitions (publish_msg sv now ty m d) = issue_definitions d"
  "diagnostic_workflows (publish_msg sv now ty m d) = diagnostic_workflows d"
  "diagnostic_steps (publish_msg sv now ty m d) = diagnostic_steps d"
  by (auto simp: publish_msg_def publish_def Let_def fold_delivery_rest)

lemma audit_rest [simp]:
  "tenants (audit sv now t c ty a ds d) = tenants d"
  "worker_heartbeats (audit sv now t c ty a ds d) = worker_heartbeats d"
  "users (audit sv now t c ty a ds d) = users d"
  "devices (audit sv now t c ty a ds d) = devices d"
  "enrollment_tokens (audit sv now t c ty a ds d) = enrollment_tokens d"
  "device_inventory (audit sv now t c ty a ds d) = device_inventory d"
  "heartbeats (audit sv now t c ty a ds d) = heartbeats d"
  "tickets (audit sv now t c ty a ds d) = tickets d"
  "incidents (audit sv now t c ty a ds d) = incidents d"
  "approvals (audit sv now t c ty a ds d) = approvals d"
  "diagnoses (audit sv now t c ty a ds d) = diagnoses d"
  "webhook_subscriptions (audit sv now t c ty a ds d) = webhook_subscriptions d"
  "application_connectors (audit sv now t c ty a ds d) = application_connectors d"
  "conversations (audit sv now t c ty a ds d) = conversations d"
  "conversation_messages (audit sv now t c ty a ds d) = conversation_messages d"
  "connector_requests (audit sv now t c ty a ds d) = connector_requests d"
  "organizational_baselines (audit sv now t c ty a ds d) = organizational_baselines d"
  "channel_workspace_links (audit sv now t c ty a ds d) = channel_workspace_links d"
  "channel_identity_links (audit sv now t c ty a ds d) = channel_identity_links d"
  "knowledge_sources (audit sv now t c ty a ds d) = knowledge_sources d"
  "issue_definitions (audit sv now t c ty a ds d) = issue_definitions d"
  "diagnostic_workflows (audit sv now t c ty a ds d) = diagnostic_workflows d"
  "diagnostic_steps (audit sv now t c ty a ds d) = diagnostic_steps d"
  by (auto simp: audit_def sql_append_def Let_def publish_rest split: option.splits)

lemma audit_frame [simp]:
  "actions (audit sv now t c ty a ds d) = actions d"
  "idempotency_records (audit sv now t c ty a ds d) = idempotency_records d"
  "execution_results (audit sv now t c ty a ds d) = execution_results d"
  "skills (audit sv now t c ty a ds d) = skills d"
  by (simp_all add: audit_def)

lemma remember_rest [simp]:
  "tenants (remember sv now t sc k pl rs st d) = tenants d"
  "worker_heartbeats (remember sv now t sc k pl rs st d) = worker_heartbeats d"
  "users (remember sv now t sc k pl rs st d) = users d"
  "devices (remember sv now t sc k pl rs st d) = devices d"
  "enrollment_tokens (remember sv now t sc k pl rs st d) = enrollment_tokens d"
  "device_inventory (remember sv now t sc k pl rs st d) = device_inventory d"
  "heartbeats (remember sv now t sc k pl rs st d) = heartbeats d"
  "tickets (remember sv now t sc k pl rs st d) = tickets d"
  "incidents (remember sv now t sc k pl rs st d) = incidents d"
  "approvals (remember sv now t sc k pl rs st d) = approvals d"
  "diagnoses (remember sv now t sc k pl rs st d) = diagnoses d"
  "webhook_subscriptions (remember sv now t sc k pl rs st d) = webhook_subscriptions d"
  "application_connectors (remember sv now t sc k pl rs st d) = application_connectors d"
  "conversations (remember sv now t sc k pl rs st d) = conversations d"
  "conversation_messages (remember sv now t sc k pl rs st d) = conversation_messages d"
  "connector_requests (remember sv now t sc k pl rs st d) = connector_requests d"
  "organizational_baselines (remember sv now t sc k pl rs st d) = organizational_baselines d"
  "channel_workspace_links (remember sv now t sc k pl rs st d) = channel_workspace_links d"
  "channel_identity_links (remember sv now t sc k pl rs st d) = channel_identity_links d"
  "knowledge_sources (remember sv now t sc k pl rs st d) = knowledge_sources d"
  "issue_definitions (remember sv now t sc k pl rs st d) = issue_definitions d"
  "diagnostic_workflows (remember sv now t sc k pl rs st d) = diagnostic_workflows d"
  "diagnostic_steps (remember sv now t sc k pl rs st d) = diagnostic_steps d"
  by (auto simp: remember_def)

text \<open>\<open>secrets.token_urlsafe\<close>: the value of the token stream at the counter.\<close>

definition new_token :: "server \<Rightarrow> db \<Rightarrow> string \<times> db" where
  "new_token sv d = (sv_token sv (next_id d), d\<lparr>next_id := Suc (next_id d)\<rparr>)"

definition require_development_login :: "settings \<Rightarrow> unit http" where
  "require_development_login st =
     (if environment st \<noteq> ''development'' \<or> \<not> development_login_enabled st
      then Inl (HTTPException 404 ''not found'') else Inr ())"

definition optional_str :: "string option \<Rightarrow> string" where
  "optional_str x = (case x of None \<Rightarrow> [] | Some s \<Rightarrow> s)"

section \<open>Health, metrics, login\<close>

definition liveness :: dict where
  "liveness = [(''status'', JStr ''ok'')]"

text \<open>The guard of \<open>/metrics\<close>; the exporter itself is a package.\<close>

definition metrics_guard :: "settings \<Rightarrow> string option \<Rightarrow> unit http" where
  "metrics_guard st authorization =
     (let token = metrics_token st; supplied = remove_prefix (optional_str authorization) ''Bearer ''
      in if token \<noteq> [] \<and> (\<not> truthy authorization \<or> \<not> starts_with (optional_str authorization) ''Bearer ''
                          \<or> supplied \<noteq> token)
         then Inl (HTTPException 401 ''invalid metrics token'') else Inr ())"

definition development_users :: "server \<Rightarrow> db \<Rightarrow> dict list http" where
  "development_users sv d =
     (case require_development_login (sv_settings sv) of
        Inl e \<Rightarrow> Inl e
      | Inr _ \<Rightarrow>
          Inr (concat (map (\<lambda>u. map (\<lambda>t. [(''id'', JStr (us_id u)), (''email'', JStr (us_email u)),
                   (''role'', JStr (us_role u)), (''tenant'', JStr (tn_name t))])
                 (filter (\<lambda>t. tn_id t = us_tenant_id u) (tenants d)))
               (order_by us_email (filter us_active (users d))))))"

definition development_login :: "server \<Rightarrow> time \<Rightarrow> string \<Rightarrow> db \<Rightarrow> dict http" where
  "development_login sv now user_id d =
     (case require_development_login (sv_settings sv) of
        Inl e \<Rightarrow> Inl e
      | Inr _ \<Rightarrow>
          (case scalar (\<lambda>u. us_id u = user_id \<and> us_active u) (users d) of
             None \<Rightarrow> Inl (HTTPException 401 ''invalid development user'')
           | Some u \<Rightarrow>
               Inr [(''access_token'', JStr (issue_session (sv_host sv) (us_id u) (us_tenant_id u)
                      (development_session_secret (sv_settings sv)) (development_session_minutes (sv_settings sv)) now)),
                    (''token_type'', JStr ''bearer''), (''user'', JObj (user_json u))]))"

definition current_user :: "Principal \<Rightarrow> db \<Rightarrow> dict http" where
  "current_user p d = map_sum id user_json (tenant_row us_id us_tenant_id (users d) (pr_actor_id p) (pr_tenant_id p))"

text \<open>\<open>Tenant.name\<close> is unique; the violation is not caught.\<close>

definition create_tenant :: "server \<Rightarrow> time \<Rightarrow> string \<Rightarrow> string \<Rightarrow> string \<Rightarrow> db \<Rightarrow> (dict \<times> db) http" where
  "create_tenant sv now name admin_email x_bootstrap_token d =
     (if x_bootstrap_token \<noteq> bootstrap_token (sv_settings sv)
      then Inl (HTTPException 401 ''invalid bootstrap token'')
      else if \<exists>t \<in> set (tenants d). tn_name t = name then Inl unhandled
      else
        let (tenant_id, d1) = new_id sv d;
            d2 = d1\<lparr>tenants := tenants d1 @ [\<lparr>tn_id = tenant_id, tn_name = name, tn_created_at = now\<rparr>]\<rparr>;
            (user_id, d3) = new_id sv d2;
            d4 = d3\<lparr>users := users d3 @ [\<lparr>us_id = user_id, us_tenant_id = tenant_id, us_email = admin_email,
                   us_role = ''owner'', us_active = True\<rparr>]\<rparr>
        in Inr ([(''tenant_id'', JStr tenant_id), (''admin_user_id'', JStr user_id)],
                audit sv now tenant_id tenant_id ''tenant.created'' user_id
                  [(''name'', JStr name), (''admin_user_id'', JStr user_id)] d4))"

section \<open>Enrollment\<close>

record DeviceEnroll =
  den_external_id :: string
  den_hostname :: string
  den_os :: string

text \<open>The row of a new device, inserted unless the tenant has the external identifier already.\<close>

definition add_device :: "server \<Rightarrow> time \<Rightarrow> string \<Rightarrow> DeviceEnroll \<Rightarrow> string \<Rightarrow> db \<Rightarrow> (string \<times> db) http" where
  "add_device sv now tenant_id b token d =
     (let (device_id, d1) = new_id sv d
      in if \<exists>r \<in> set (devices d). dv_tenant_id r = tenant_id \<and> dv_external_id r = den_external_id b
         then Inl (HTTPException 409 ''device already enrolled'')
         else Inr (device_id, d1\<lparr>devices := devices d1 @
           [\<lparr>dv_id = device_id, dv_tenant_id = tenant_id, dv_external_id = den_external_id b,
             dv_hostname = den_hostname b, dv_os = den_os b, dv_agent_key_hash = sha256_hex (sv_host sv) token,
             dv_active = True, dv_revoked_at = None, dv_revoked_reason = None, dv_credential_rotated_at = None,
             dv_enrolled_at = now, dv_last_seen_at = None\<rparr>]\<rparr>))"

definition enroll_device :: "server \<Rightarrow> time \<Rightarrow> Principal \<Rightarrow> DeviceEnroll \<Rightarrow> db \<Rightarrow> (dict \<times> db) http" where
  "enroll_device sv now p b d =
     (let (token, d1) = new_token sv d in
      case add_device sv now (pr_tenant_id p) b token d1 of
        Inl e \<Rightarrow> Inl e
      | Inr (device_id, d2) \<Rightarrow>
          Inr ([(''device_id'', JStr device_id), (''agent_token'', JStr token),
                (''signing_public_keys'', signing_keys_json sv)],
               audit sv now (pr_tenant_id p) device_id ''device.enrolled'' (pr_actor_id p)
                 [(''hostname'', JStr (den_hostname b)), (''os'', JStr (den_os b))] d2))"

definition create_enrollment_token ::
  "server \<Rightarrow> time \<Rightarrow> Principal \<Rightarrow> string \<Rightarrow> int \<Rightarrow> db \<Rightarrow> (dict \<times> db) http" where
  "create_enrollment_token sv now p label ttl_minutes d =
     (let (token, d1) = new_token sv d; (row_id, d2) = new_id sv d1; expires_at = now + 60 * ttl_minutes;
          token_hash = sha256_hex (sv_host sv) token
      in if token_hash \<in> et_token_hash ` set (enrollment_tokens d) then Inl unhandled
         else let d3 = d2\<lparr>enrollment_tokens := enrollment_tokens d2 @
               [\<lparr>et_id = row_id, et_tenant_id = pr_tenant_id p, et_token_hash = token_hash,
                 et_created_by = pr_actor_id p, et_label = label, et_expires_at = expires_at, et_used_at = None,
                 et_used_by_device_id = None, et_revoked_at = None, et_created_at = now\<rparr>]\<rparr>
              in Inr ([(''enrollment_token_id'', JStr row_id), (''token'', JStr token), (''expires_at'', iso sv expires_at)],
                   audit sv now (pr_tenant_id p) row_id ''enrollment_token.created'' (pr_actor_id p)
                     [(''label'', JStr label), (''expires_at'', iso sv expires_at)] d3))"

definition token_status :: "time \<Rightarrow> EnrollmentToken \<Rightarrow> string" where
  "token_status now r =
     (if et_used_at r \<noteq> None then ''used'' else if et_revoked_at r \<noteq> None then ''revoked''
      else if et_expires_at r < now then ''expired'' else ''active'')"

definition enrollment_token_json :: "server \<Rightarrow> time \<Rightarrow> EnrollmentToken \<Rightarrow> dict" where
  "enrollment_token_json sv now r =
     [(''id'', JStr (et_id r)), (''label'', JStr (et_label r)), (''created_by'', JStr (et_created_by r)),
      (''expires_at'', iso sv (et_expires_at r)), (''used_at'', some_time sv (et_used_at r)),
      (''used_by_device_id'', opt_str (et_used_by_device_id r)), (''revoked_at'', some_time sv (et_revoked_at r)),
      (''status'', JStr (token_status now r)), (''created_at'', iso sv (et_created_at r))]"

definition list_enrollment_tokens :: "server \<Rightarrow> time \<Rightarrow> Principal \<Rightarrow> db \<Rightarrow> dict list" where
  "list_enrollment_tokens sv now p d =
     map (enrollment_token_json sv now) (order_desc et_created_at
       (filter (\<lambda>r. et_tenant_id r = pr_tenant_id p) (enrollment_tokens d)))"

definition revoke_enrollment_token :: "server \<Rightarrow> time \<Rightarrow> Principal \<Rightarrow> string \<Rightarrow> db \<Rightarrow> db http" where
  "revoke_enrollment_token sv now p token_id d =
     (case tenant_row et_id et_tenant_id (enrollment_tokens d) token_id (pr_tenant_id p) of
        Inl e \<Rightarrow> Inl e
      | Inr row \<Rightarrow>
          Inr (audit sv now (pr_tenant_id p) (et_id row) ''enrollment_token.revoked'' (pr_actor_id p)
                 [(''label'', JStr (et_label row))]
                 (d\<lparr>enrollment_tokens := update_where (\<lambda>r. et_id r = token_id)
                    (\<lambda>r. r\<lparr>et_revoked_at := Some now\<rparr>) (enrollment_tokens d)\<rparr>)))"

definition enroll_device_with_token ::
  "server \<Rightarrow> time \<Rightarrow> DeviceEnroll \<Rightarrow> string \<Rightarrow> db \<Rightarrow> (dict \<times> db) http" where
  "enroll_device_with_token sv now b x_enrollment_token d =
     (let token_hash = sha256_hex (sv_host sv) x_enrollment_token in
      case scalar (\<lambda>r. et_token_hash r = token_hash) (enrollment_tokens d) of
        None \<Rightarrow> Inl (HTTPException 401 ''invalid or expired enrollment token'')
      | Some e \<Rightarrow>
          if et_used_at e \<noteq> None \<or> et_revoked_at e \<noteq> None \<or> et_expires_at e < now
          then Inl (HTTPException 401 ''invalid or expired enrollment token'')
          else
            let (device_token, d1) = new_token sv d in
            (case add_device sv now (et_tenant_id e) b device_token d1 of
               Inl err \<Rightarrow> Inl err
             | Inr (device_id, d2) \<Rightarrow>
                 let d3 = d2\<lparr>enrollment_tokens := update_where (\<lambda>r. et_id r = et_id e)
                       (\<lambda>r. r\<lparr>et_used_at := Some now, et_used_by_device_id := Some device_id\<rparr>)
                       (enrollment_tokens d2)\<rparr>
                 in Inr ([(''device_id'', JStr device_id), (''tenant_id'', JStr (et_tenant_id e)),
                          (''agent_token'', JStr device_token), (''signing_public_keys'', signing_keys_json sv)],
                      audit sv now (et_tenant_id e) device_id ''device.enrolled'' (''enrollment-token:'' @ et_id e)
                        [(''hostname'', JStr (den_hostname b)), (''os'', JStr (den_os b)),
                         (''via'', JStr ''enrollment_token'')] d3)))"

section \<open>Credentials\<close>

definition set_credential :: "server \<Rightarrow> time \<Rightarrow> string \<Rightarrow> string \<Rightarrow> db \<Rightarrow> db" where
  "set_credential sv now device_id token d =
     d\<lparr>devices := update_where (\<lambda>r. dv_id r = device_id)
        (\<lambda>r. r\<lparr>dv_agent_key_hash := sha256_hex (sv_host sv) token, dv_credential_rotated_at := Some now\<rparr>) (devices d)\<rparr>"

definition credential_json :: "string \<Rightarrow> string \<Rightarrow> dict" where
  "credential_json device_id token = [(''device_id'', JStr device_id), (''agent_token'', JStr token)]"

definition rotate_device_credential :: "server \<Rightarrow> time \<Rightarrow> Principal \<Rightarrow> string \<Rightarrow> db \<Rightarrow> (dict \<times> db) http" where
  "rotate_device_credential sv now p device_id d =
     (case tenant_row dv_id dv_tenant_id (devices d) device_id (pr_tenant_id p) of
        Inl e \<Rightarrow> Inl e
      | Inr row \<Rightarrow>
          if \<not> dv_active row then Inl (HTTPException 409 ''device is revoked'')
          else let (token, d1) = new_token sv d in
            Inr (credential_json (dv_id row) token,
                 audit sv now (pr_tenant_id p) (dv_id row) ''device.credential_rotated'' (pr_actor_id p)
                   [(''via'', JStr ''admin'')] (set_credential sv now device_id token d1)))"

definition renew_device_credential :: "server \<Rightarrow> time \<Rightarrow> Principal \<Rightarrow> string \<Rightarrow> db \<Rightarrow> (dict \<times> db) http" where
  "renew_device_credential sv now p device_id d =
     (case tenant_row dv_id dv_tenant_id (devices d) device_id (pr_tenant_id p) of
        Inl e \<Rightarrow> Inl e
      | Inr row \<Rightarrow>
          let (token, d1) = new_token sv d in
            Inr (credential_json (dv_id row) token,
                 audit sv now (pr_tenant_id p) (dv_id row) ''device.credential_rotated'' (dv_id row)
                   [(''via'', JStr ''self_service'')] (set_credential sv now device_id token d1)))"

definition revoked :: "time \<Rightarrow> string \<Rightarrow> Device \<Rightarrow> Device" where
  "revoked now reason r = r\<lparr>dv_active := False, dv_revoked_at := Some now, dv_revoked_reason := Some reason\<rparr>"

definition revoke_device :: "server \<Rightarrow> time \<Rightarrow> Principal \<Rightarrow> string \<Rightarrow> string \<Rightarrow> db \<Rightarrow> (dict \<times> db) http" where
  "revoke_device sv now p device_id reason d =
     (case tenant_row dv_id dv_tenant_id (devices d) device_id (pr_tenant_id p) of
        Inl e \<Rightarrow> Inl e
      | Inr row \<Rightarrow>
          Inr (device_json sv now (revoked now reason row),
               audit sv now (pr_tenant_id p) (dv_id row) ''device.revoked'' (pr_actor_id p) [(''reason'', JStr reason)]
                 (d\<lparr>devices := update_where (\<lambda>r. dv_id r = device_id) (revoked now reason) (devices d)\<rparr>)))"

section \<open>Heartbeat\<close>

definition heartbeat :: "server \<Rightarrow> time \<Rightarrow> Principal \<Rightarrow> string \<Rightarrow> dict \<Rightarrow> string \<Rightarrow> db \<Rightarrow> (dict \<times> db) http" where
  "heartbeat sv now p device_id status key d =
     (let payload = [(''device_id'', JStr device_id), (''status'', JObj status)] in
      case idempotency_lookup sv (pr_tenant_id p) ''heartbeat'' key payload d of
        Inl e \<Rightarrow> Inl e
      | Inr (Some cached) \<Rightarrow> Inr (cached, d)
      | Inr None \<Rightarrow>
          (case scalar (\<lambda>r. dv_id r = device_id) (devices d) of
             None \<Rightarrow> Inl (HTTPException 404 ''device not found'')
           | Some _ \<Rightarrow>
               let result = [(''accepted'', JBool True), (''received_at'', iso sv now)];
                   d1 = d\<lparr>devices := update_where (\<lambda>r. dv_id r = device_id) (\<lambda>r. r\<lparr>dv_last_seen_at := Some now\<rparr>) (devices d),
                          heartbeats := heartbeats d @ [\<lparr>hb_id = next_id d, hb_tenant_id = pr_tenant_id p,
                            hb_device_id = device_id, hb_received_at = now, hb_status = status\<rparr>],
                          next_id := Suc (next_id d)\<rparr>
               in Inr (result, remember sv now (pr_tenant_id p) ''heartbeat'' key payload result 200 d1)))"

section \<open>One-time tokens and lockout\<close>

text \<open>The operations on devices and tokens, in any order, and anything that leaves both tables alone.\<close>

inductive credential_step :: "server \<Rightarrow> db \<Rightarrow> db \<Rightarrow> bool" for sv where
  enrolled: "enroll_device sv now p b d = Inr (r, d') \<Longrightarrow> credential_step sv d d'"
| token_created: "create_enrollment_token sv now p label ttl d = Inr (r, d') \<Longrightarrow> credential_step sv d d'"
| token_revoked: "revoke_enrollment_token sv now p i d = Inr d' \<Longrightarrow> credential_step sv d d'"
| token_used: "enroll_device_with_token sv now b tok d = Inr (r, d') \<Longrightarrow> credential_step sv d d'"
| rotated: "rotate_device_credential sv now p i d = Inr (r, d') \<Longrightarrow> credential_step sv d d'"
| renewed: "renew_device_credential sv now p i d = Inr (r, d') \<Longrightarrow> credential_step sv d d'"
| device_revoked: "revoke_device sv now p i reason d = Inr (r, d') \<Longrightarrow> credential_step sv d d'"
| beat: "heartbeat sv now p i st key d = Inr (r, d') \<Longrightarrow> credential_step sv d d'"
| other: "devices d' = devices d \<Longrightarrow> enrollment_tokens d' = enrollment_tokens d \<Longrightarrow> credential_step sv d d'"

definition spent :: "EnrollmentToken \<Rightarrow> bool" where
  "spent r \<longleftrightarrow> et_used_at r \<noteq> None \<or> et_revoked_at r \<noteq> None"

text \<open>The tables grow at the end, and a row is updated in place: tokens stay spent, devices inactive.\<close>

definition tokens_grow :: "EnrollmentToken list \<Rightarrow> EnrollmentToken list \<Rightarrow> bool" where
  "tokens_grow ts us \<longleftrightarrow> (\<exists>f new. us = map f ts @ new
     \<and> (\<forall>r. et_token_hash (f r) = et_token_hash r \<and> (spent r \<longrightarrow> spent (f r))))"

definition devices_grow :: "Device list \<Rightarrow> Device list \<Rightarrow> bool" where
  "devices_grow vs us \<longleftrightarrow> (\<exists>f new. us = map f vs @ new
     \<and> (\<forall>r. dv_id (f r) = dv_id r \<and> (\<not> dv_active r \<longrightarrow> \<not> dv_active (f r))))"

lemma tokens_growI:
  assumes "\<And>r. et_token_hash (f r) = et_token_hash r" and "\<And>r. spent r \<Longrightarrow> spent (f r)"
  shows "tokens_grow ts (update_where P f ts @ new)" and "tokens_grow ts (update_where P f ts)"
    and "tokens_grow ts (ts @ new)" and "tokens_grow ts ts"
proof -
  show "tokens_grow ts (update_where P f ts @ new)" for new
    unfolding tokens_grow_def update_where_def
    by (rule exI [of _ "\<lambda>r. if P r then f r else r"], rule exI [of _ new]) (auto simp: assms)
  from this [of "[]"] show "tokens_grow ts (update_where P f ts)" by simp
  show "tokens_grow ts (ts @ new)" for new
    unfolding tokens_grow_def by (rule exI [of _ id], rule exI [of _ new]) simp
  from this [of "[]"] show "tokens_grow ts ts" by simp
qed

lemma devices_growI:
  assumes "\<And>r. dv_id (f r) = dv_id r" and "\<And>r. \<not> dv_active r \<Longrightarrow> \<not> dv_active (f r)"
  shows "devices_grow vs (update_where P f vs)" and "devices_grow vs (vs @ new)" and "devices_grow vs vs"
proof -
  show "devices_grow vs (update_where P f vs)"
    unfolding devices_grow_def update_where_def
    by (rule exI [of _ "\<lambda>r. if P r then f r else r"], rule exI [of _ "[]"]) (auto simp: assms)
  show "devices_grow vs (vs @ new)" for new
    unfolding devices_grow_def by (rule exI [of _ id], rule exI [of _ new]) simp
  from this [of "[]"] show "devices_grow vs vs" by simp
qed

lemma scalar_map: "(\<And>r. P (f r) = P r) \<Longrightarrow> scalar P (map f xs) = map_option f (scalar P xs)"
  by (induction xs) (auto simp: row_simps)

lemma tokens_grow_spent:
  assumes "tokens_grow ts us" and "scalar (\<lambda>r. et_token_hash r = h) ts = Some r" and "spent r"
  shows "\<exists>q. scalar (\<lambda>r. et_token_hash r = h) us = Some q \<and> spent q"
  using assms by (auto simp: tokens_grow_def row_simps scalar_map)

lemma devices_grow_inactive:
  assumes "devices_grow vs us" and "scalar (\<lambda>r. dv_id r = i) vs = Some r" and "\<not> dv_active r"
  shows "\<exists>q. scalar (\<lambda>r. dv_id r = i) us = Some q \<and> \<not> dv_active q"
  using assms by (auto simp: devices_grow_def row_simps scalar_map)

lemma credential_step_grows:
  assumes "credential_step sv d d'"
  shows "tokens_grow (enrollment_tokens d) (enrollment_tokens d') \<and> devices_grow (devices d) (devices d')"
proof -
  note g = tokens_growI(1,2) [where f = "\<lambda>r. r\<lparr>et_revoked_at := Some now\<rparr>" for now]
    tokens_growI(1,2) [where f = "\<lambda>r. r\<lparr>et_used_at := Some now, et_used_by_device_id := Some i\<rparr>" for now i]
    tokens_growI(3,4) [where f = id] devices_growI(2,3) [where f = id]
    devices_growI(1) [where f = "revoked now reason" for now reason]
    devices_growI(1) [where f = "\<lambda>r. r\<lparr>dv_agent_key_hash := h, dv_credential_rotated_at := Some now\<rparr>" for h now]
    devices_growI(1) [where f = "\<lambda>r. r\<lparr>dv_last_seen_at := Some now\<rparr>" for now]
  from assms show ?thesis
    by cases (auto simp: enroll_device_def create_enrollment_token_def revoke_enrollment_token_def
        enroll_device_with_token_def rotate_device_credential_def renew_device_credential_def revoke_device_def
        heartbeat_def add_device_def set_credential_def new_token_def new_id_def Let_def spent_def revoked_def
        intro!: g split: sum.splits option.splits if_splits)
qed

lemma tokens_grow_trans: "tokens_grow a b \<Longrightarrow> tokens_grow b c \<Longrightarrow> tokens_grow a c"
proof -
  assume "tokens_grow a b" "tokens_grow b c"
  then obtain f n g m where "b = map f a @ n" "c = map g b @ m"
    "\<forall>r. et_token_hash (f r) = et_token_hash r \<and> (spent r \<longrightarrow> spent (f r))"
    "\<forall>r. et_token_hash (g r) = et_token_hash r \<and> (spent r \<longrightarrow> spent (g r))"
    unfolding tokens_grow_def by blast
  then show ?thesis
    unfolding tokens_grow_def by (intro exI [of _ "g \<circ> f"] exI [of _ "map g n @ m"]) simp
qed

lemma devices_grow_trans: "devices_grow a b \<Longrightarrow> devices_grow b c \<Longrightarrow> devices_grow a c"
proof -
  assume "devices_grow a b" "devices_grow b c"
  then obtain f n g m where "b = map f a @ n" "c = map g b @ m"
    "\<forall>r. dv_id (f r) = dv_id r \<and> (\<not> dv_active r \<longrightarrow> \<not> dv_active (f r))"
    "\<forall>r. dv_id (g r) = dv_id r \<and> (\<not> dv_active r \<longrightarrow> \<not> dv_active (g r))"
    unfolding devices_grow_def by blast
  then show ?thesis
    unfolding devices_grow_def by (intro exI [of _ "g \<circ> f"] exI [of _ "map g n @ m"]) simp
qed

lemma credential_steps_grow:
  "(credential_step sv)\<^sup>*\<^sup>* d d' \<Longrightarrow>
     tokens_grow (enrollment_tokens d) (enrollment_tokens d') \<and> devices_grow (devices d) (devices d')"
proof (induction rule: rtranclp_induct)
  case base
  show ?case using tokens_growI(4) [where f = id] devices_growI(3) [where f = id] by simp
next
  case (step y z)
  with credential_step_grows [OF step(2)] tokens_grow_trans devices_grow_trans show ?case by blast
qed

text \<open>
  C34.  An enrollment token admits one device.  A token that enrolls a device is one the list of
  the tenant shows as active at that moment; the device is entered in the tenant of the token,
  whatever the request says; and after that, and any further operations on devices and tokens by
  anybody, in any order, the same token is refused for good.
\<close>

theorem enrollment_token_single_use:
  assumes "enroll_device_with_token sv now b tok d = Inr (response, d1)" and "(credential_step sv)\<^sup>*\<^sup>* d1 d2"
  shows "(\<exists>e v. e \<in> set (enrollment_tokens d) \<and> et_token_hash e = sha256_hex (sv_host sv) tok
            \<and> token_status now e = ''active'' \<and> devices d1 = devices d @ [v] \<and> dv_tenant_id v = et_tenant_id e
            \<and> dict_get response ''device_id'' = Some (JStr (dv_id v)))
    \<and> enroll_device_with_token sv later b' tok d2 = Inl (HTTPException 401 ''invalid or expired enrollment token'')"
proof -
  let ?h = "sha256_hex (sv_host sv) tok"
  from assms(1) obtain e where e: "scalar (\<lambda>r. et_token_hash r = ?h) (enrollment_tokens d) = Some e"
    "et_used_at e = None" "et_revoked_at e = None" "\<not> et_expires_at e < now"
    by (auto simp: enroll_device_with_token_def Let_def split: option.splits if_splits)
  have v: "\<exists>v. devices d1 = devices d @ [v] \<and> dv_tenant_id v = et_tenant_id e
      \<and> dict_get response ''device_id'' = Some (JStr (dv_id v))"
    using assms(1) e
    by (auto simp: enroll_device_with_token_def Let_def add_device_def new_token_def new_id_def dict_get_def
        split: if_splits)
  have t: "enrollment_tokens d1 = update_where (\<lambda>r. et_id r = et_id e)
      (\<lambda>r. r\<lparr>et_used_at := Some now, et_used_by_device_id := Some (sv_uuid sv (Suc (next_id d)))\<rparr>) (enrollment_tokens d)"
    using assms(1) e
    by (auto simp: enroll_device_with_token_def Let_def add_device_def new_token_def new_id_def split: if_splits)
  have s: "scalar (\<lambda>r. et_token_hash r = ?h) (enrollment_tokens d1)
      = Some (e\<lparr>et_used_at := Some now, et_used_by_device_id := Some (sv_uuid sv (Suc (next_id d)))\<rparr>)"
    using e(1) unfolding t update_where_def by (subst scalar_map) auto
  have g: "tokens_grow (enrollment_tokens d1) (enrollment_tokens d2)"
    using credential_steps_grow [OF assms(2)] by blast
  have "spent (e\<lparr>et_used_at := Some now, et_used_by_device_id := Some (sv_uuid sv (Suc (next_id d)))\<rparr>)"
    by (simp add: spent_def)
  from tokens_grow_spent [OF g s this] have "enroll_device_with_token sv later b' tok d2 = Inl (HTTPException 401 ''invalid or expired enrollment token'')"
    by (auto simp: enroll_device_with_token_def Let_def spent_def)
  moreover have "token_status now e = ''active''" using e by (simp add: token_status_def)
  ultimately show ?thesis using v scalar_SomeD [OF e(1)] by blast
qed

text \<open>
  A revoked device is locked out for good, and a replaced credential at once.  After a
  device was revoked no credential opens a session for it, whatever operations follow; and after
  its credential was rotated or renewed exactly the credential in the response does, as long as
  the device is active.
\<close>

theorem revoked_device_locked_out:
  assumes "revoke_device sv now p i reason d = Inr (response, d1)" and "(credential_step sv)\<^sup>*\<^sup>* d1 d2"
    and "rotate_device_credential sv now p' i' d = Inr (response', d') \<or> renew_device_credential sv now p' i' d = Inr (response', d')"
  shows "is_ok (require_agent sv i authorization d2) = False
    \<and> (\<exists>token v. response' = credential_json i' token \<and> scalar (\<lambda>r. dv_id r = i') (devices d) = Some v
         \<and> (is_ok (require_agent sv i' authorization d') \<longleftrightarrow> starts_with authorization ''Bearer '' \<and> dv_active v
              \<and> sha256_hex (sv_host sv) (drop 7 authorization) = sha256_hex (sv_host sv) token))"
proof
  from assms(1) obtain r where r: "r \<in> set (devices d)" "dv_id r = i"
    and t: "devices d1 = update_where (\<lambda>r. dv_id r = i) (revoked now reason) (devices d)"
    by (auto simp: revoke_device_def split: sum.splits dest: tenant_row_Inr)
  from r obtain q where "scalar (\<lambda>r. dv_id r = i) (devices d) = Some q"
    by (metis (mono_tags, lifting) not_None_eq scalar_None_iff)
  then have "scalar (\<lambda>r. dv_id r = i) (devices d1) = Some (revoked now reason q)"
    unfolding t by (subst scalar_update_where) (auto simp: revoked_def)
  moreover have "devices_grow (devices d1) (devices d2)" using credential_steps_grow [OF assms(2)] by blast
  ultimately obtain q' where "scalar (\<lambda>r. dv_id r = i) (devices d2) = Some q'" "\<not> dv_active q'"
    using devices_grow_inactive [of "devices d1" "devices d2" i "revoked now reason q"] by (auto simp: revoked_def)
  then show "is_ok (require_agent sv i authorization d2) = False"
    by (auto simp: require_agent_def Let_def)
next
  let ?tok = "sv_token sv (next_id d)"
  from assms(3) obtain r where r: "tenant_row dv_id dv_tenant_id (devices d) i' (pr_tenant_id p') = Inr r"
    and t: "response' = credential_json i' ?tok" "devices d' = devices (set_credential sv now i' ?tok d)"
    by (auto simp: rotate_device_credential_def renew_device_credential_def new_token_def Let_def set_credential_def
        split: sum.splits if_splits dest: tenant_row_Inr)
  from tenant_row_Inr [OF r] obtain v where v: "scalar (\<lambda>r. dv_id r = i') (devices d) = Some v"
    by (metis (mono_tags, lifting) not_None_eq scalar_None_iff)
  then have "scalar (\<lambda>r. dv_id r = i') (devices d')
      = Some (v\<lparr>dv_agent_key_hash := sha256_hex (sv_host sv) ?tok, dv_credential_rotated_at := Some now\<rparr>)"
    unfolding t set_credential_def by simp (subst scalar_update_where, auto)
  with t(1) v show "\<exists>token v. response' = credential_json i' token \<and> scalar (\<lambda>r. dv_id r = i') (devices d) = Some v
         \<and> (is_ok (require_agent sv i' authorization d') \<longleftrightarrow> starts_with authorization ''Bearer '' \<and> dv_active v
              \<and> sha256_hex (sv_host sv) (drop 7 authorization) = sha256_hex (sv_host sv) token)"
    by (intro exI [of _ ?tok] exI [of _ v]) (auto simp: require_agent_def Let_def)
qed

text \<open>A tenant with one open enrollment token.\<close>

definition demo_enroll :: DeviceEnroll where
  "demo_enroll = \<lparr>den_external_id = ''host-1'', den_hostname = ''h'', den_os = ''linux''\<rparr>"

definition enrolling_db :: db where
  "enrolling_db = empty_db\<lparr>enrollment_tokens := [\<lparr>et_id = ''e'', et_tenant_id = ''t'',
     et_token_hash = ''htok'', et_created_by = ''bob'', et_label = [], et_expires_at = 60, et_used_at = None,
     et_used_by_device_id = None, et_revoked_at = None, et_created_at = 0\<rparr>]\<rparr>"

lemma demo_enrolled: "\<exists>response d1 v. enroll_device_with_token demo_server 10 demo_enroll ''tok'' enrolling_db = Inr (response, d1)
    \<and> devices d1 = [v] \<and> dv_id v = show_nat 1 \<and> dv_tenant_id v = ''t'' \<and> dv_active v"
  by (simp add: enroll_device_with_token_def enrolling_db_def empty_db_def demo_server_def demo_host_def scalar_def
      new_token_def add_device_def new_id_def demo_enroll_def Let_def)

theorem enrollment_token_single_use_witness:
  "\<exists>response d1. enroll_device_with_token demo_server 10 demo_enroll ''tok'' enrolling_db = Inr (response, d1)
     \<and> enroll_device_with_token demo_server 11 (demo_enroll\<lparr>den_external_id := ''host-2''\<rparr>) ''tok'' d1
         = Inl (HTTPException 401 ''invalid or expired enrollment token'')"
proof -
  obtain response d1 where e: "enroll_device_with_token demo_server 10 demo_enroll ''tok'' enrolling_db = Inr (response, d1)"
    using demo_enrolled by blast
  from enrollment_token_single_use [OF e rtranclp.rtrancl_refl] e show ?thesis by blast
qed

theorem revoked_device_locked_out_witness:
  "\<exists>d0 response d1 response' d'. revoke_device demo_server 20 demo_admin (show_nat 1) ''lost'' d0 = Inr (response, d1)
     \<and> rotate_device_credential demo_server 20 demo_admin (show_nat 1) d0 = Inr (response', d')
     \<and> is_ok (require_agent demo_server (show_nat 1) ''Bearer x'' d1) = False"
proof -
  obtain d0 :: db and v where d0: "devices d0 = [v]" "dv_id v = show_nat 1" "dv_tenant_id v = ''t''" "dv_active v"
    using demo_enrolled by blast
  obtain response d1 where r: "revoke_device demo_server 20 demo_admin (show_nat 1) ''lost'' d0 = Inr (response, d1)"
    using d0 by (simp add: revoke_device_def tenant_row_def scalar_def demo_admin_def del: show_nat.simps)
  obtain response' d' where q: "rotate_device_credential demo_server 20 demo_admin (show_nat 1) d0 = Inr (response', d')"
    using d0 by (simp add: rotate_device_credential_def tenant_row_def scalar_def demo_admin_def new_token_def del: show_nat.simps)
  from revoked_device_locked_out [OF r rtranclp.rtrancl_refl disjI1 [OF q]] r q show ?thesis by blast
qed

end
