(* ===== verification/Confidence.thy ===== *)
theory Confidence
  imports Domain
begin

text \<open>
  \<open>helpdesktool/confidence.py\<close>: the deterministic confidence score.  Scores are exact rational
  numbers where the code has floats; \<open>round\<close> is Python's, to the even neighbour on a tie.  The
  results: the score is a probability and never above the reliability of its sources (rounded),
  more support never lowers it, more contradiction never raises it, and a contradicted
  diagnosis stays below the default band HIGH.
\<close>

section \<open>Rounding\<close>

definition round_even :: "rat \<Rightarrow> int" where
  "round_even q = (let f = \<lfloor>q\<rfloor>; r = q - of_int f
     in if r < 1 / 2 then f else if 1 / 2 < r then f + 1 else if even f then f else f + 1)"

definition py_round :: "nat \<Rightarrow> rat \<Rightarrow> rat" where
  "py_round n q = of_int (round_even (q * 10 ^ n)) / 10 ^ n"

text \<open>\<open>f"{q:.2f}"\<close>.\<close>

definition fixed2 :: "rat \<Rightarrow> string" where
  "fixed2 q = (let n = round_even (q * 100); m = nat \<bar>n\<bar>
     in (if n < 0 then ''-'' else []) @ show_nat (m div 100) @ ''.'' @ show_nat (m mod 100 div 10) @ show_nat (m mod 10))"

section \<open>The score\<close>

record ConfidenceThresholds =
  ct_medium :: rat
  ct_high :: rat
  ct_very_high :: rat

definition ConfidenceThresholds_init :: "ConfidenceThresholds \<Rightarrow> py_error + ConfidenceThresholds" where
  "ConfidenceThresholds_init t =
     (if 0 < ct_medium t \<and> ct_medium t < ct_high t \<and> ct_high t < ct_very_high t \<and> ct_very_high t \<le> 1
      then Inr t else Inl (ValueError ''thresholds must be strictly increasing and within (0, 1]''))"

definition default_thresholds :: ConfidenceThresholds where
  "default_thresholds = \<lparr>ct_medium = 40 / 100, ct_high = 70 / 100, ct_very_high = 90 / 100\<rparr>"

record ConfidenceInput =
  ci_required_signals_present :: int
  ci_required_signals_total :: int
  ci_supporting_signals :: int
  ci_contradicting_signals :: int
  ci_missing_signals :: int
  ci_source_reliability :: rat
  ci_telemetry_reliability :: rat
  ci_historical_baseline_matches :: int
  ci_evidence_notes :: "string list"

definition ConfidenceInput_init :: "ConfidenceInput \<Rightarrow> py_error + ConfidenceInput" where
  "ConfidenceInput_init e =
     (if \<not> (0 \<le> ci_source_reliability e \<and> ci_source_reliability e \<le> 1)
      then Inl (ValueError ''source_reliability must be within [0, 1]'')
      else if \<not> (0 \<le> ci_telemetry_reliability e \<and> ci_telemetry_reliability e \<le> 1)
      then Inl (ValueError ''telemetry_reliability must be within [0, 1]'')
      else case List.find (\<lambda>(name, n). n < 0)
             [(''required_signals_present'', ci_required_signals_present e),
              (''required_signals_total'', ci_required_signals_total e),
              (''supporting_signals'', ci_supporting_signals e),
              (''contradicting_signals'', ci_contradicting_signals e),
              (''missing_signals'', ci_missing_signals e),
              (''historical_baseline_matches'', ci_historical_baseline_matches e)] of
        Some (name, _) \<Rightarrow> Inl (ValueError (name @ '' must not be negative''))
      | None \<Rightarrow>
          if ci_required_signals_total e < ci_required_signals_present e
          then Inl (ValueError ''required_signals_present cannot exceed required_signals_total'')
          else Inr e)"

record ConfidenceResult =
  co_score :: rat
  co_band :: string
  co_evidence_summary :: string

definition band_for :: "rat \<Rightarrow> ConfidenceThresholds \<Rightarrow> string" where
  "band_for score t =
     (if ct_very_high t \<le> score then ''VERY_HIGH'' else if ct_high t \<le> score then ''HIGH''
      else if ct_medium t \<le> score then ''MEDIUM'' else ''LOW'')"

definition diminishing :: "int \<Rightarrow> rat" where
  "diminishing n = (if 0 < n then of_int n / of_int (n + 2) else 0)"

definition confidence_raw :: "ConfidenceInput \<Rightarrow> rat" where
  "confidence_raw e =
     (let base = (if 0 < ci_required_signals_total e
                  then of_int (ci_required_signals_present e) / of_int (ci_required_signals_total e) else 1 / 2)
      in max 0 (min 1 (base + 35 / 100 * diminishing (ci_supporting_signals e)
           + 1 / 10 * diminishing (ci_historical_baseline_matches e)
           - 1 / 2 * diminishing (ci_contradicting_signals e) - 1 / 10 * diminishing (ci_missing_signals e))))"

definition confidence_score :: "ConfidenceInput \<Rightarrow> rat" where
  "confidence_score e =
     (let score = py_round 4 (confidence_raw e * (ci_source_reliability e * ci_telemetry_reliability e))
      in if 0 < ci_contradicting_signals e then min score (69 / 100) else score)"

definition evidence_text :: "ConfidenceInput \<Rightarrow> string" where
  "evidence_text e =
     show_int (ci_required_signals_present e) @ ''/'' @ show_int (ci_required_signals_total e)
     @ '' required signal(s) present, '' @ show_int (ci_supporting_signals e) @ '' supporting, ''
     @ show_int (ci_contradicting_signals e) @ '' contradicting, '' @ show_int (ci_missing_signals e)
     @ '' missing; source reliability '' @ fixed2 (ci_source_reliability e) @ '', telemetry reliability ''
     @ fixed2 (ci_telemetry_reliability e)
     @ (if ci_evidence_notes e = [] then [] else ''; '' @ join ''; '' (ci_evidence_notes e))"

definition compute_confidence :: "ConfidenceInput \<Rightarrow> ConfidenceThresholds \<Rightarrow> ConfidenceResult" where
  "compute_confidence e t =
     \<lparr>co_score = confidence_score e, co_band = band_for (confidence_score e) t, co_evidence_summary = evidence_text e\<rparr>"

section \<open>Order\<close>

lemma round_even_bounds: "\<lfloor>q\<rfloor> \<le> round_even q" "round_even q \<le> \<lfloor>q\<rfloor> + 1"
  by (auto simp: round_even_def Let_def)

lemma round_even_mono: "x \<le> y \<Longrightarrow> round_even x \<le> round_even y"
proof (cases "\<lfloor>x\<rfloor> = \<lfloor>y\<rfloor>")
  case True
  assume "x \<le> y"
  with True show ?thesis by (auto simp: round_even_def Let_def)
next
  case False
  assume "x \<le> y"
  with False have "\<lfloor>x\<rfloor> + 1 \<le> \<lfloor>y\<rfloor>" using floor_mono [of x y] by simp
  with round_even_bounds(2) [of x] round_even_bounds(1) [of y] show ?thesis by linarith
qed

lemma round_even_int [simp]: "round_even (of_int n) = n"
  by (simp add: round_even_def)

lemma py_round_mono: "x \<le> y \<Longrightarrow> py_round n x \<le> py_round n y"
  unfolding py_round_def by (intro divide_right_mono) (simp_all add: round_even_mono mult_right_mono)

lemma py_round_0 [simp]: "py_round n 0 = 0"
  using round_even_int [of 0] by (simp add: py_round_def)

lemma py_round_1 [simp]: "py_round n 1 = 1"
  using round_even_int [of "10 ^ n"] by (simp add: py_round_def)

lemma diminishing_range: "0 \<le> diminishing n" "diminishing n \<le> 1"
  by (simp_all add: diminishing_def)

lemma diminishing_mono: "m \<le> n \<Longrightarrow> diminishing m \<le> diminishing n"
proof -
  have f: "diminishing k = 1 - 2 / of_int (k + 2)" if "0 < k" for k
    using that by (simp add: diminishing_def field_simps)
  assume "m \<le> n"
  show ?thesis
  proof (cases "0 < m")
    case True
    with \<open>m \<le> n\<close> have "(2 :: rat) / of_int (n + 2) \<le> 2 / of_int (m + 2)"
      by (intro divide_left_mono) simp_all
    with True \<open>m \<le> n\<close> show ?thesis by (simp add: f)
  next
    case False
    then have "diminishing m = 0" by (simp add: diminishing_def)
    with diminishing_range(1) show ?thesis by simp
  qed
qed

lemma input_ok:
  assumes "ConfidenceInput_init e = Inr e'"
  shows "e' = e" and "0 \<le> ci_source_reliability e" and "ci_source_reliability e \<le> 1"
    and "0 \<le> ci_telemetry_reliability e" and "ci_telemetry_reliability e \<le> 1"
  using assms by (auto simp: ConfidenceInput_init_def split: if_splits option.splits prod.splits)

lemma raw_range: "0 \<le> confidence_raw e" "confidence_raw e \<le> 1"
  by (simp_all add: confidence_raw_def Let_def)

lemma raw_mono:
  assumes "ci_supporting_signals e \<le> s" and "c \<le> ci_contradicting_signals e"
  shows "confidence_raw e \<le> confidence_raw (e\<lparr>ci_supporting_signals := s, ci_contradicting_signals := c\<rparr>)"
  using diminishing_mono [OF assms(1)] diminishing_mono [OF assms(2)]
  by (auto simp: confidence_raw_def Let_def intro!: max.mono min.mono)

text \<open>
  The confidence score is sound.  For any evidence the constructor accepts, the score is
  between 0 and 1 and not above the (rounded) product of the reliabilities of its sources; one
  contradicting signal caps it at 0.69, which the default thresholds call MEDIUM at best; more
  supporting signals never lower it, and more contradicting signals never raise it.
\<close>

theorem confidence_sound:
  assumes "ConfidenceInput_init e = Inr e'"
    and "ci_supporting_signals e \<le> s" and "c \<le> ci_contradicting_signals e"
  shows "0 \<le> co_score (compute_confidence e' t) \<and> co_score (compute_confidence e' t) \<le> 1
    \<and> co_score (compute_confidence e' t) \<le> py_round 4 (ci_source_reliability e * ci_telemetry_reliability e)
    \<and> (0 < ci_contradicting_signals e \<longrightarrow> co_score (compute_confidence e' t) \<le> 69 / 100
         \<and> co_band (compute_confidence e' default_thresholds) \<in> {''LOW'', ''MEDIUM''})
    \<and> co_score (compute_confidence e' t)
        \<le> co_score (compute_confidence (e\<lparr>ci_supporting_signals := s, ci_contradicting_signals := c\<rparr>) t)"
proof -
  note ok = input_ok [OF assms(1)]
  let ?rel = "ci_source_reliability e * ci_telemetry_reliability e"
  have r: "0 \<le> ?rel" "?rel \<le> 1" using ok mult_le_one by auto
  let ?p = "py_round 4 (confidence_raw e * ?rel)"
  have low: "0 \<le> ?p" using py_round_mono [of 0 "confidence_raw e * ?rel" 4] r(1) raw_range by simp
  have "confidence_raw e * ?rel \<le> ?rel" using r(1) raw_range mult_left_le_one_le by blast
  then have rel: "?p \<le> py_round 4 ?rel" by (rule py_round_mono)
  also have "\<dots> \<le> 1" using py_round_mono [OF r(2), of 4] by simp
  finally have one: "?p \<le> 1" .
  have sc: "0 \<le> confidence_score e" "confidence_score e \<le> ?p"
    using low by (auto simp: confidence_score_def Let_def)
  have cap: "0 < ci_contradicting_signals e \<Longrightarrow> confidence_score e \<le> 69 / 100"
    by (simp add: confidence_score_def Let_def)
  have band: "band_for (confidence_score e) default_thresholds \<in> {''LOW'', ''MEDIUM''}"
    if "0 < ci_contradicting_signals e"
  proof -
    from cap [OF that] have "\<not> 70 / 100 \<le> confidence_score e" "\<not> 90 / 100 \<le> confidence_score e" by simp_all
    then show ?thesis by (simp add: band_for_def default_thresholds_def)
  qed
  let ?e = "e\<lparr>ci_supporting_signals := s, ci_contradicting_signals := c\<rparr>"
  have "confidence_raw e * ?rel \<le> confidence_raw ?e * ?rel"
    using raw_mono [OF assms(2,3)] r(1) by (rule mult_right_mono)
  then have "?p \<le> py_round 4 (confidence_raw ?e * ?rel)" by (rule py_round_mono)
  then have "confidence_score e \<le> confidence_score ?e"
    using assms(3) by (auto simp: confidence_score_def Let_def)
  with ok sc rel one cap band show ?thesis by (auto simp: compute_confidence_def)
qed

definition demo_evidence :: ConfidenceInput where
  "demo_evidence = \<lparr>ci_required_signals_present = 1, ci_required_signals_total = 1, ci_supporting_signals = 1,
     ci_contradicting_signals = 1, ci_missing_signals = 0, ci_source_reliability = 1, ci_telemetry_reliability = 1,
     ci_historical_baseline_matches = 0, ci_evidence_notes = []\<rparr>"

theorem confidence_sound_witness:
  "ConfidenceInput_init demo_evidence = Inr demo_evidence
   \<and> co_score (compute_confidence demo_evidence default_thresholds) = 69 / 100
   \<and> co_band (compute_confidence demo_evidence default_thresholds) \<in> {''LOW'', ''MEDIUM''}
   \<and> 69 / 100 \<le> co_score (compute_confidence (demo_evidence\<lparr>ci_supporting_signals := 2, ci_contradicting_signals := 0\<rparr>)
        default_thresholds)"
proof -
  have i: "ConfidenceInput_init demo_evidence = Inr demo_evidence"
    by (simp add: ConfidenceInput_init_def demo_evidence_def)
  have s: "co_score (compute_confidence demo_evidence default_thresholds) = 69 / 100"
    by (simp add: compute_confidence_def confidence_score_def confidence_raw_def demo_evidence_def diminishing_def
        py_round_def round_even_def Let_def)
  have g: "0 < ci_contradicting_signals demo_evidence" "ci_supporting_signals demo_evidence \<le> 2"
    "0 \<le> ci_contradicting_signals demo_evidence" by (simp_all add: demo_evidence_def)
  from confidence_sound [OF i g(2,3), of default_thresholds] i s g(1) show ?thesis by auto
qed

end
