(* ===== verification/Incidents.thy ===== *)
theory Incidents
  imports Enrollment Confidence
begin

text \<open>
  \<open>helpdesktool/incidents.py\<close> and the handlers that feed it (\<open>inventory\<close>, \<open>simulate_low_disk\<close>):
  low-disk detection on an inventory, the correlation of an observation with an earlier incident,
  and recovery.  A row whose columns get the values they already have is not updated, so its
  \<open>updated_at\<close> stays.  The results: a storm of observations is one incident with one ticket; the
  incidents of the detector stay well-formed; and reopening an incident leaves its ticket resolved.
\<close>

section \<open>Correlation\<close>

definition detector :: string where
  "detector = ''system:detector''"

record observation =
  obs_device_id :: string
  obs_incident_type :: string
  obs_severity :: string
  obs_summary :: string
  obs_correlation_key :: string
  obs_evidence :: dict
  obs_observed_at :: time

text \<open>The recent incident an observation belongs to, the newest first.\<close>

definition same_incident :: "string \<Rightarrow> observation \<Rightarrow> Incident \<Rightarrow> bool" where
  "same_incident tenant_id ob r \<longleftrightarrow> ic_tenant_id r = tenant_id \<and> ic_device_id r = obs_device_id ob
     \<and> ic_incident_type r = obs_incident_type ob \<and> ic_correlation_key r = obs_correlation_key ob"

definition recent :: "string \<Rightarrow> int \<Rightarrow> observation \<Rightarrow> Incident \<Rightarrow> bool" where
  "recent tenant_id correlation_hours ob r \<longleftrightarrow> same_incident tenant_id ob r
     \<and> obs_observed_at ob - 3600 * correlation_hours \<le> ic_last_observed_at r"

definition observed_again :: "time \<Rightarrow> observation \<Rightarrow> Incident \<Rightarrow> Incident" where
  "observed_again now ob r =
     (let r1 = r\<lparr>ic_last_observed_at := obs_observed_at ob, ic_occurrence_count := ic_occurrence_count r + 1,
                 ic_evidence := obs_evidence ob, ic_severity := obs_severity ob, ic_updated_at := now\<rparr>
      in if ic_status r \<in> {''resolved'', ''closed''} then r1\<lparr>ic_status := ''open'', ic_resolved_at := None\<rparr> else r1)"

definition update_incident :: "string \<Rightarrow> (Incident \<Rightarrow> Incident) \<Rightarrow> db \<Rightarrow> db" where
  "update_incident i f d = d\<lparr>incidents := update_where (\<lambda>r. ic_id r = i) f (incidents d)\<rparr>"

definition seen_again :: "server \<Rightarrow> time \<Rightarrow> string \<Rightarrow> observation \<Rightarrow> Incident \<Rightarrow> db \<Rightarrow> db" where
  "seen_again sv now tenant_id ob row d =
     (let row' = observed_again now ob row in
      audit sv now tenant_id (ic_id row)
        (if ic_status row \<in> {''resolved'', ''closed''} then ''incident.reopened'' else ''incident.updated'') detector
        [(''device_id'', JStr (obs_device_id ob)), (''previous_status'', JStr (ic_status row)),
         (''new_status'', JStr (ic_status row')), (''occurrence_count'', JInt (ic_occurrence_count row')),
         (''severity'', JStr (obs_severity ob)), (''evidence'', JObj (obs_evidence ob))]
        (update_incident (ic_id row) (observed_again now ob) d))"

text \<open>\<open>order_by((User.role == "owner").desc())\<close>: an owner if there is one.\<close>

definition tenant_owner :: "string \<Rightarrow> db \<Rightarrow> User option" where
  "tenant_owner tenant_id d =
     (let active = filter (\<lambda>u. us_tenant_id u = tenant_id \<and> us_active u) (users d)
      in case List.find (\<lambda>u. us_role u = ''owner'') active of
           Some u \<Rightarrow> Some u | None \<Rightarrow> (case active of [] \<Rightarrow> None | u # _ \<Rightarrow> Some u))"

definition new_ticket :: "time \<Rightarrow> string \<Rightarrow> string \<Rightarrow> observation \<Rightarrow> string \<Rightarrow> Ticket" where
  "new_ticket now tenant_id ticket_id ob owner_id =
     \<lparr>tk_id = ticket_id, tk_tenant_id = tenant_id, tk_device_id = Some (obs_device_id ob), tk_title = obs_summary ob,
      tk_description = ''Automatically created from deterministic endpoint telemetry.'', tk_status = ''open'',
      tk_priority = (if obs_severity ob = ''critical'' then ''critical'' else ''high''), tk_created_by = owner_id,
      tk_created_at = now, tk_updated_at = now\<rparr>"

definition new_incident :: "time \<Rightarrow> string \<Rightarrow> string \<Rightarrow> string \<Rightarrow> observation \<Rightarrow> Incident" where
  "new_incident now tenant_id incident_id ticket_id ob =
     \<lparr>ic_id = incident_id, ic_tenant_id = tenant_id, ic_device_id = obs_device_id ob, ic_ticket_id = Some ticket_id,
      ic_incident_type = obs_incident_type ob, ic_severity = obs_severity ob, ic_status = ''open'',
      ic_summary = obs_summary ob, ic_evidence = obs_evidence ob, ic_correlation_key = obs_correlation_key ob,
      ic_occurrence_count = 1, ic_first_observed_at = obs_observed_at ob, ic_last_observed_at = obs_observed_at ob,
      ic_resolved_at = None, ic_created_at = now, ic_updated_at = now\<rparr>"

definition first_seen :: "server \<Rightarrow> time \<Rightarrow> string \<Rightarrow> observation \<Rightarrow> db \<Rightarrow> (string \<times> db) http" where
  "first_seen sv now tenant_id ob d =
     (case tenant_owner tenant_id d of
        None \<Rightarrow> Inl unhandled
      | Some owner \<Rightarrow>
          let (ticket_id, d1) = new_id sv d;
              ticket = new_ticket now tenant_id ticket_id ob (us_id owner);
              d2 = d1\<lparr>tickets := tickets d1 @ [ticket]\<rparr>;
              (incident_id, d3) = new_id sv d2;
              d4 = d3\<lparr>incidents := incidents d3 @ [new_incident now tenant_id incident_id ticket_id ob]\<rparr>;
              d5 = audit sv now tenant_id ticket_id ''ticket.created'' detector
                     [(''device_id'', JStr (obs_device_id ob)), (''title'', JStr (obs_summary ob)),
                      (''priority'', JStr (tk_priority ticket))] d4
          in Inr (incident_id, audit sv now tenant_id incident_id ''incident.created'' detector
                     [(''device_id'', JStr (obs_device_id ob)), (''ticket_id'', JStr ticket_id),
                      (''severity'', JStr (obs_severity ob)), (''evidence'', JObj (obs_evidence ob))] d5))"

definition correlate_incident ::
  "server \<Rightarrow> time \<Rightarrow> string \<Rightarrow> int \<Rightarrow> observation \<Rightarrow> db \<Rightarrow> (string \<times> db) http" where
  "correlate_incident sv now tenant_id correlation_hours ob d =
     (case first_max ic_last_observed_at (filter (recent tenant_id correlation_hours ob) (incidents d)) of
        Some row \<Rightarrow> Inr (ic_id row, seen_again sv now tenant_id ob row d)
      | None \<Rightarrow> first_seen sv now tenant_id ob d)"

section \<open>Recovery\<close>

definition ticket_resolved :: "time \<Rightarrow> Ticket \<Rightarrow> Ticket" where
  "ticket_resolved now t = (if tk_status t = ''resolved'' then t else t\<lparr>tk_status := ''resolved'', tk_updated_at := now\<rparr>)"

definition incident_resolved :: "time \<Rightarrow> time \<Rightarrow> dict \<Rightarrow> Incident \<Rightarrow> Incident" where
  "incident_resolved now observed_at evidence r =
     r\<lparr>ic_status := ''resolved'', ic_resolved_at := Some observed_at, ic_last_observed_at := observed_at,
       ic_evidence := evidence, ic_updated_at := now\<rparr>"

definition resolve_ticket :: "server \<Rightarrow> time \<Rightarrow> string \<Rightarrow> string \<Rightarrow> Incident \<Rightarrow> db \<Rightarrow> db" where
  "resolve_ticket sv now tenant_id device_id row d =
     (if \<not> truthy (ic_ticket_id row) then d
      else let ticket_id = the (ic_ticket_id row) in
        case scalar (\<lambda>t. tk_id t = ticket_id \<and> tk_tenant_id t = tenant_id) (tickets d) of
          None \<Rightarrow> d
        | Some t \<Rightarrow>
            audit sv now tenant_id (tk_id t) ''ticket.resolved'' detector
              [(''device_id'', JStr device_id), (''incident_id'', JStr (ic_id row)),
               (''reason'', JStr ''linked incident recovered'')]
              (d\<lparr>tickets := update_where (\<lambda>t. tk_id t = ticket_id) (ticket_resolved now) (tickets d)\<rparr>))"

definition recovering :: "string \<Rightarrow> string \<Rightarrow> string \<Rightarrow> Incident \<Rightarrow> bool" where
  "recovering tenant_id device_id correlation_key r \<longleftrightarrow> ic_tenant_id r = tenant_id \<and> ic_device_id r = device_id
     \<and> ic_correlation_key r = correlation_key \<and> open_incident r"

definition resolve_recovered_incident ::
  "server \<Rightarrow> time \<Rightarrow> string \<Rightarrow> string \<Rightarrow> string \<Rightarrow> time \<Rightarrow> dict \<Rightarrow> db \<Rightarrow> db" where
  "resolve_recovered_incident sv now tenant_id device_id correlation_key observed_at evidence d =
     (case first_max ic_last_observed_at (filter (recovering tenant_id device_id correlation_key) (incidents d)) of
        None \<Rightarrow> d
      | Some row \<Rightarrow>
          audit sv now tenant_id (ic_id row) ''incident.resolved'' detector
            [(''device_id'', JStr device_id), (''ticket_id'', opt_str (ic_ticket_id row)),
             (''reason'', JStr ''filesystem utilization recovered below threshold''), (''evidence'', JObj evidence)]
            (resolve_ticket sv now tenant_id device_id row
              (update_incident (ic_id row) (incident_resolved now observed_at evidence) d)))"

section \<open>Detection\<close>

text \<open>\<open>isinstance(v, (int, float))\<close>, which a boolean passes.\<close>

definition number :: "json \<Rightarrow> rat option" where
  "number v = (case v of JInt n \<Rightarrow> Some (of_int n) | JFloat q \<Rightarrow> Some q | JBool b \<Rightarrow> Some (if b then 1 else 0) | _ \<Rightarrow> None)"

definition disk_evidence ::
  "server \<Rightarrow> string \<Rightarrow> string \<Rightarrow> rat \<Rightarrow> rat \<Rightarrow> rat \<Rightarrow> time \<Rightarrow> dict" where
  "disk_evidence sv device_id mountpoint used_percent avail capacity observed_at =
     [(''device_id'', JStr device_id), (''filesystem'', JStr mountpoint), (''used_percent'', JFloat used_percent),
      (''free_bytes'', JInt \<lfloor>avail\<rfloor>), (''total_bytes'', JInt \<lfloor>capacity\<rfloor>),
      (''threshold_percent'', JFloat (low_disk_threshold_percent (sv_settings sv))),
      (''observed_at'', iso sv observed_at)]"

definition low_disk_observation :: "string \<Rightarrow> string \<Rightarrow> rat \<Rightarrow> dict \<Rightarrow> time \<Rightarrow> observation" where
  "low_disk_observation device_id mountpoint used_percent evidence observed_at =
     \<lparr>obs_device_id = device_id, obs_incident_type = ''low_disk_space'',
      obs_severity = (if 95 \<le> used_percent then ''critical'' else ''high''),
      obs_summary = ''Low disk space on '' @ mountpoint, obs_correlation_key = ''low_disk_space:'' @ mountpoint,
      obs_evidence = evidence, obs_observed_at = observed_at\<rparr>"

text \<open>The readings of one filesystem that pass the checks: mountpoint, use in percent, free and total bytes.\<close>

definition disk_reading :: "server \<Rightarrow> json \<Rightarrow> (string \<times> rat \<times> rat \<times> rat) option" where
  "disk_reading sv filesystem =
     (case filesystem of
        JObj fs \<Rightarrow>
          (case (Option.bind (dict_get fs ''total_bytes'') number, Option.bind (dict_get fs ''free_bytes'') number) of
             (Some capacity, Some avail) \<Rightarrow>
               if capacity \<le> 0 \<or> avail < 0 \<or> capacity < avail then None
               else Some (take 180 (case dict_get fs ''mountpoint'' of None \<Rightarrow> ''unknown'' | Some v \<Rightarrow> py_str (sv_host sv) v),
                          py_round 2 ((capacity - avail) * 100 / capacity), avail, capacity)
           | _ \<Rightarrow> None)
      | _ \<Rightarrow> None)"

fun detect_filesystems ::
  "server \<Rightarrow> time \<Rightarrow> string \<Rightarrow> string \<Rightarrow> time \<Rightarrow> json list \<Rightarrow> db \<Rightarrow> (string list \<times> db) http" where
  "detect_filesystems sv now tenant_id device_id observed_at [] d = Inr ([], d)"
| "detect_filesystems sv now tenant_id device_id observed_at (f # fs) d =
     (case disk_reading sv f of
        None \<Rightarrow> detect_filesystems sv now tenant_id device_id observed_at fs d
      | Some (mountpoint, used_percent, avail, capacity) \<Rightarrow>
          let evidence = disk_evidence sv device_id mountpoint used_percent avail capacity observed_at
          in if used_percent < low_disk_threshold_percent (sv_settings sv)
             then detect_filesystems sv now tenant_id device_id observed_at fs
                    (resolve_recovered_incident sv now tenant_id device_id (''low_disk_space:'' @ mountpoint)
                       observed_at evidence d)
             else (case correlate_incident sv now tenant_id (incident_correlation_hours (sv_settings sv))
                          (low_disk_observation device_id mountpoint used_percent evidence observed_at) d of
                     Inl e \<Rightarrow> Inl e
                   | Inr (i, d1) \<Rightarrow>
                       map_sum id (map_prod ((#) i) id)
                         (detect_filesystems sv now tenant_id device_id observed_at fs d1)))"

definition detect_inventory_incidents ::
  "server \<Rightarrow> time \<Rightarrow> string \<Rightarrow> string \<Rightarrow> dict \<Rightarrow> time \<Rightarrow> db \<Rightarrow> (string list \<times> db) http" where
  "detect_inventory_incidents sv now tenant_id device_id payload observed_at d =
     (case dict_get payload ''filesystems'' of
        Some (JList fs) \<Rightarrow> detect_filesystems sv now tenant_id device_id observed_at fs d
      | _ \<Rightarrow> Inr ([], d))"

section \<open>Inventories\<close>

definition add_inventory :: "time \<Rightarrow> string \<Rightarrow> string \<Rightarrow> dict \<Rightarrow> db \<Rightarrow> nat \<times> db" where
  "add_inventory collected_at tenant_id device_id payload d =
     (next_id d, d\<lparr>next_id := Suc (next_id d), device_inventory := device_inventory d @
        [\<lparr>di_id = next_id d, di_tenant_id = tenant_id, di_device_id = device_id, di_collected_at = collected_at,
          di_payload = payload\<rparr>]\<rparr>)"

definition inventory ::
  "server \<Rightarrow> time \<Rightarrow> Principal \<Rightarrow> string \<Rightarrow> time \<Rightarrow> dict \<Rightarrow> string \<Rightarrow> db \<Rightarrow> (dict \<times> db) http" where
  "inventory sv now p device_id collected_at payload key d =
     (let body = [(''device_id'', JStr device_id), (''collected_at'', iso sv collected_at), (''payload'', JObj payload)] in
      case idempotency_lookup sv (pr_tenant_id p) ''inventory'' key body d of
        Inl e \<Rightarrow> Inl e
      | Inr (Some cached) \<Rightarrow> Inr (cached, d)
      | Inr None \<Rightarrow>
          (case add_inventory collected_at (pr_tenant_id p) device_id payload d of
             (inventory_id, d1) \<Rightarrow>
               (case detect_inventory_incidents sv now (pr_tenant_id p) device_id payload collected_at d1 of
                  Inl e \<Rightarrow> Inl e
                | Inr (ids, d2) \<Rightarrow>
                    let result = [(''accepted'', JBool True), (''inventory_id'', JInt (int inventory_id)),
                                  (''incident_ids'', JList (map JStr ids))]
                    in Inr (result, remember sv now (pr_tenant_id p) ''inventory'' key body result 202 d2))))"

definition simulated_payload :: "string \<Rightarrow> rat \<Rightarrow> dict" where
  "simulated_payload mountpoint used_percent =
     (let total_bytes = 100 * 1024 ^ 3 in
      [(''simulation'', JBool True),
       (''filesystems'', JList [JObj [(''device'', JStr ''/dev/simulated''), (''mountpoint'', JStr mountpoint),
          (''filesystem'', JStr ''ext4''), (''total_bytes'', JInt total_bytes),
          (''free_bytes'', JInt \<lfloor>of_int total_bytes * (100 - used_percent) / 100\<rfloor>)]])])"

definition simulate_low_disk ::
  "server \<Rightarrow> time \<Rightarrow> Principal \<Rightarrow> string \<Rightarrow> string \<Rightarrow> rat \<Rightarrow> db \<Rightarrow> (dict \<times> db) http" where
  "simulate_low_disk sv now p device_id mountpoint used_percent d =
     (case require_development_login (sv_settings sv) of
        Inl e \<Rightarrow> Inl e
      | Inr _ \<Rightarrow>
          (case tenant_row dv_id dv_tenant_id (devices d) device_id (pr_tenant_id p) of
             Inl e \<Rightarrow> Inl e
           | Inr device \<Rightarrow>
               if dv_os device \<noteq> ''linux''
               then Inl (HTTPException 422 ''low-disk simulation requires a Linux device'')
               else let payload = simulated_payload mountpoint used_percent;
                        (inventory_id, d1) = add_inventory now (pr_tenant_id p) (dv_id device) payload d
                    in case detect_inventory_incidents sv now (pr_tenant_id p) (dv_id device) payload now d1 of
                         Inl e \<Rightarrow> Inl e
                       | Inr (ids, d2) \<Rightarrow>
                           let d3 = audit sv now (pr_tenant_id p) (dv_id device) ''development.low_disk.simulated''
                                 (pr_actor_id p) [(''inventory_id'', JInt (int inventory_id)),
                                   (''mountpoint'', JStr mountpoint), (''used_percent'', JFloat used_percent)] d2;
                               current = first_max ic_last_observed_at (filter (\<lambda>r. ic_tenant_id r = pr_tenant_id p
                                 \<and> ic_device_id r = dv_id device
                                 \<and> ic_correlation_key r = ''low_disk_space:'' @ mountpoint) (incidents d3))
                           in Inr ([(''accepted'', JBool True), (''inventory_id'', JInt (int inventory_id)),
                                    (''incident_ids'', JList (map JStr ids)), (''incident'', opt_incident sv current)], d3)))"

section \<open>A storm is one incident\<close>

lemma audit_incidents [simp]: "incidents (audit sv now t c ty a ds d) = incidents d"
  by simp

lemma same_incident_again:
  "same_incident t ob r \<Longrightarrow> same_incident t ob (observed_again now ob' r)"
  by (auto simp: same_incident_def observed_again_def Let_def)

lemma observed_again_simps [simp]:
  "ic_id (observed_again now ob r) = ic_id r"
  "ic_ticket_id (observed_again now ob r) = ic_ticket_id r"
  "ic_occurrence_count (observed_again now ob r) = ic_occurrence_count r + 1"
  "ic_last_observed_at (observed_again now ob r) = obs_observed_at ob"
  "ic_first_observed_at (observed_again now ob r) = ic_first_observed_at r"
  by (auto simp: observed_again_def Let_def)

lemma observed_again_open: "ic_status r = ''open'' \<Longrightarrow> ic_status (observed_again now ob r) = ''open''"
  by (simp add: observed_again_def Let_def)

text \<open>An observation is one of the storm of another when it is of the same device, kind and key.\<close>

definition same_storm :: "observation \<Rightarrow> observation \<Rightarrow> bool" where
  "same_storm ob ob' \<longleftrightarrow> obs_device_id ob' = obs_device_id ob \<and> obs_incident_type ob' = obs_incident_type ob
     \<and> obs_correlation_key ob' = obs_correlation_key ob"

lemma same_storm_incident: "same_storm ob ob' \<Longrightarrow> same_incident t ob' r = same_incident t ob r"
  by (auto simp: same_storm_def same_incident_def)

lemma correlate_again:
  assumes "incidents d = base @ [r]" and "\<And>q. q \<in> set base \<Longrightarrow> \<not> same_incident t ob q \<and> ic_id q \<noteq> ic_id r"
    and "same_incident t ob r" and "obs_observed_at ob - 3600 * hours \<le> ic_last_observed_at r"
  shows "\<exists>d1. correlate_incident sv now t hours ob d = Inr (ic_id r, d1)
     \<and> incidents d1 = base @ [observed_again now ob r] \<and> tickets d1 = tickets d \<and> users d1 = users d"
proof -
  have "filter (recent t hours ob) (incidents d) = [r]"
    using assms by (auto simp: recent_def filter_empty_conv)
  moreover have "update_where (\<lambda>q. ic_id q = ic_id r) (observed_again now ob) (base @ [r]) = base @ [observed_again now ob r]"
    using assms(2) by (simp add: row_simps update_where_none)
  ultimately show ?thesis
    using assms(1) by (simp add: correlate_incident_def seen_again_def update_incident_def Let_def)
qed

lemma correlate_first:
  assumes "\<And>q. q \<in> set (incidents d) \<Longrightarrow> \<not> same_incident t ob q" and "\<exists>u \<in> set (users d). us_tenant_id u = t \<and> us_active u"
  shows "\<exists>owner d1. correlate_incident sv now t hours ob d = Inr (sv_uuid sv (Suc (next_id d)), d1)
     \<and> incidents d1 = incidents d @ [new_incident now t (sv_uuid sv (Suc (next_id d))) (sv_uuid sv (next_id d)) ob]
     \<and> tickets d1 = tickets d @ [new_ticket now t (sv_uuid sv (next_id d)) ob owner] \<and> users d1 = users d"
proof -
  have "filter (recent t hours ob) (incidents d) = []" using assms(1) by (simp add: recent_def filter_empty_conv)
  moreover have "filter (\<lambda>u. us_tenant_id u = t \<and> us_active u) (users d) \<noteq> []"
    using assms(2) by (auto simp: filter_empty_conv)
  then have "tenant_owner t d \<noteq> None"
    by (auto simp: tenant_owner_def Let_def split: option.split list.split)
  then obtain owner where "tenant_owner t d = Some owner" by blast
  ultimately show ?thesis
    by (intro exI [of _ "us_id owner"]) (simp add: correlate_incident_def first_seen_def new_id_def Let_def)
qed

fun observe_all :: "server \<Rightarrow> string \<Rightarrow> int \<Rightarrow> (time \<times> observation) list \<Rightarrow> db \<Rightarrow> db http" where
  "observe_all sv t hours [] d = Inr d"
| "observe_all sv t hours ((now, ob) # obs) d =
     (case correlate_incident sv now t hours ob d of Inl e \<Rightarrow> Inl e | Inr (_, d1) \<Rightarrow> observe_all sv t hours obs d1)"

text \<open>No gap between two observations is longer than the correlation window.\<close>

fun no_gap :: "int \<Rightarrow> time \<Rightarrow> (time \<times> observation) list \<Rightarrow> bool" where
  "no_gap hours t0 [] = True"
| "no_gap hours t0 ((_, ob) # obs) =
     (obs_observed_at ob - 3600 * hours \<le> t0 \<and> no_gap hours (obs_observed_at ob) obs)"

lemma storm_continues:
  assumes "incidents d = base @ [r]" and "\<And>q. q \<in> set base \<Longrightarrow> \<not> same_incident t ob q \<and> ic_id q \<noteq> ic_id r"
    and "same_incident t ob r" and "ic_status r = ''open''" and "no_gap hours (ic_last_observed_at r) obs"
    and "\<And>x. x \<in> set obs \<Longrightarrow> same_storm ob (snd x)"
  shows "\<exists>d' r'. observe_all sv t hours obs d = Inr d' \<and> incidents d' = base @ [r'] \<and> tickets d' = tickets d
     \<and> ic_id r' = ic_id r \<and> ic_ticket_id r' = ic_ticket_id r \<and> ic_status r' = ''open''
     \<and> ic_occurrence_count r' = ic_occurrence_count r + int (length obs)"
  using assms
proof (induction obs arbitrary: d r)
  case (Cons x obs)
  obtain now ob' where x: "x = (now, ob')" by (cases x)
  with Cons.prems(6) have st: "same_storm ob ob'" by fastforce
  have m: "same_incident t ob' q = same_incident t ob q" for q by (rule same_storm_incident [OF st])
  have "\<exists>d1. correlate_incident sv now t hours ob' d = Inr (ic_id r, d1)
     \<and> incidents d1 = base @ [observed_again now ob' r] \<and> tickets d1 = tickets d \<and> users d1 = users d"
    by (rule correlate_again) (use Cons.prems m x in auto)
  then obtain d1 where d1: "correlate_incident sv now t hours ob' d = Inr (ic_id r, d1)"
    "incidents d1 = base @ [observed_again now ob' r]" "tickets d1 = tickets d" by blast
  have "\<exists>d' r'. observe_all sv t hours obs d1 = Inr d' \<and> incidents d' = base @ [r'] \<and> tickets d' = tickets d1
     \<and> ic_id r' = ic_id (observed_again now ob' r) \<and> ic_ticket_id r' = ic_ticket_id (observed_again now ob' r)
     \<and> ic_status r' = ''open'' \<and> ic_occurrence_count r' = ic_occurrence_count (observed_again now ob' r) + int (length obs)"
    by (rule Cons.IH)
       (use Cons.prems x d1(2) in \<open>auto intro: same_incident_again observed_again_open\<close>)
  with d1 x show ?case by auto
qed auto

lemma correlate_nobody:
  assumes "\<And>q. q \<in> set (incidents d) \<Longrightarrow> \<not> same_incident t ob q" and "\<not> (\<exists>u \<in> set (users d). us_tenant_id u = t \<and> us_active u)"
  shows "correlate_incident sv now t hours ob d = Inl unhandled"
proof -
  have "filter (recent t hours ob) (incidents d) = []" using assms(1) by (simp add: recent_def filter_empty_conv)
  moreover have "filter (\<lambda>u. us_tenant_id u = t \<and> us_active u) (users d) = []" using assms(2) by (auto simp: filter_empty_conv)
  then have "tenant_owner t d = None" by (auto simp: tenant_owner_def Let_def)
  ultimately show ?thesis by (simp add: correlate_incident_def first_seen_def)
qed

text \<open>
  C36.  A storm of observations is one incident.  However often a condition of a device is
  observed, as long as no gap is longer than the correlation window and the tenant had no incident
  of it before: if the tenant has an active user, no observation fails and the whole storm makes exactly one incident, which is
  open and has counted every observation, and exactly one ticket, which the incident is linked to.  If it has
  none, the ticket would have no owner, and already the first observation fails, with an error no handler expects.
\<close>

theorem incident_storm_one_ticket:
  assumes "\<And>q. q \<in> set (incidents d) \<Longrightarrow> \<not> same_incident t ob q"
    and "sv_uuid sv (Suc (next_id d)) \<notin> ic_id ` set (incidents d)"
    and "no_gap hours (obs_observed_at ob) obs" and "\<And>x. x \<in> set obs \<Longrightarrow> same_storm ob (snd x)"
  shows "if \<exists>u \<in> set (users d). us_tenant_id u = t \<and> us_active u
    then \<exists>d' r k. observe_all sv t hours ((now, ob) # obs) d = Inr d'
      \<and> incidents d' = incidents d @ [r] \<and> ic_status r = ''open'' \<and> ic_occurrence_count r = 1 + int (length obs)
      \<and> tickets d' = tickets d @ [k] \<and> ic_ticket_id r = Some (tk_id k) \<and> tk_status k = ''open''
    else observe_all sv t hours ((now, ob) # obs) d = Inl unhandled"
proof (cases "\<exists>u \<in> set (users d). us_tenant_id u = t \<and> us_active u")
  case False
  with correlate_nobody [OF assms(1) False, of sv now hours] show ?thesis by simp
next
  case True
  let ?r = "new_incident now t (sv_uuid sv (Suc (next_id d))) (sv_uuid sv (next_id d)) ob"
  obtain owner d1 where d1: "correlate_incident sv now t hours ob d = Inr (sv_uuid sv (Suc (next_id d)), d1)"
    "incidents d1 = incidents d @ [?r]" "tickets d1 = tickets d @ [new_ticket now t (sv_uuid sv (next_id d)) ob owner]"
    using correlate_first [OF assms(1) True, of sv now hours] by auto
  have "\<exists>d' r'. observe_all sv t hours obs d1 = Inr d' \<and> incidents d' = incidents d @ [r'] \<and> tickets d' = tickets d1
     \<and> ic_id r' = ic_id ?r \<and> ic_ticket_id r' = ic_ticket_id ?r \<and> ic_status r' = ''open''
     \<and> ic_occurrence_count r' = ic_occurrence_count ?r + int (length obs)"
  proof (rule storm_continues [where ob = ob])
    show "\<not> same_incident t ob q \<and> ic_id q \<noteq> ic_id ?r" if "q \<in> set (incidents d)" for q
    proof -
      have "ic_id q \<in> ic_id ` set (incidents d)" using that by (rule imageI)
      with assms(2) have "ic_id q \<noteq> sv_uuid sv (Suc (next_id d))" by metis
      with assms(1) [OF that] show ?thesis by (simp add: new_incident_def)
    qed
    show "same_incident t ob ?r" "ic_status ?r = ''open''" "no_gap hours (ic_last_observed_at ?r) obs"
      using assms(3) by (simp_all add: new_incident_def same_incident_def)
    show "same_storm ob (snd x)" if "x \<in> set obs" for x using that by (rule assms(4))
  qed (rule d1(2))
  with d1 True show ?thesis by (auto simp: new_incident_def new_ticket_def)
qed

definition disk_full :: observation where
  "disk_full = low_disk_observation ''d1'' ''/'' 96 [] 0"

theorem incident_storm_one_ticket_witness:
  "\<exists>d' r. observe_all demo_server ''t'' 24 [(0, disk_full), (60, disk_full\<lparr>obs_observed_at := 60\<rparr>)]
       (empty_db\<lparr>users := [bob]\<rparr>) = Inr d'
     \<and> incidents d' = [r] \<and> ic_occurrence_count r = 2 \<and> length (tickets d') = 1"
proof -
  have a: "\<not> same_incident ''t'' disk_full q" if "q \<in> set (incidents (empty_db\<lparr>users := [bob]\<rparr>))" for q
    using that by (simp add: empty_db_def)
  have b: "\<exists>u \<in> set (users (empty_db\<lparr>users := [bob]\<rparr>)). us_tenant_id u = ''t'' \<and> us_active u" by (simp add: bob_def)
  have c: "sv_uuid demo_server (Suc (next_id (empty_db\<lparr>users := [bob]\<rparr>))) \<notin> ic_id ` set (incidents (empty_db\<lparr>users := [bob]\<rparr>))"
    by (simp add: empty_db_def)
  have e: "no_gap 24 (obs_observed_at disk_full) [(60, disk_full\<lparr>obs_observed_at := 60\<rparr>)]"
    by (simp add: disk_full_def low_disk_observation_def)
  have f: "same_storm disk_full (snd x)" if "x \<in> set [(60 :: time, disk_full\<lparr>obs_observed_at := 60\<rparr>)]" for x
    using that by (simp add: same_storm_def)
  from incident_storm_one_ticket [OF a c e f, of 0] b show ?thesis by (auto simp: empty_db_def)
qed

section \<open>Well-formed incidents\<close>

definition incident_ok :: "Incident \<Rightarrow> bool" where
  "incident_ok r \<longleftrightarrow> 1 \<le> ic_occurrence_count r
     \<and> (ic_status r \<in> {''open'', ''investigating''} \<and> ic_resolved_at r = None
        \<or> ic_status r \<in> {''resolved'', ''closed''} \<and> ic_resolved_at r \<noteq> None)"

definition incidents_ok :: "db \<Rightarrow> bool" where
  "incidents_ok d \<longleftrightarrow> (\<forall>r \<in> set (incidents d). incident_ok r)"

lemma observed_again_ok: "incident_ok r \<Longrightarrow> incident_ok (observed_again now ob r)"
  by (auto simp: incident_ok_def observed_again_def Let_def)

lemma incident_resolved_ok: "incident_ok r \<Longrightarrow> incident_ok (incident_resolved now t e r)"
  by (auto simp: incident_ok_def incident_resolved_def)

lemma update_incident_ok:
  "incidents_ok d \<Longrightarrow> (\<And>r. incident_ok r \<Longrightarrow> incident_ok (f r)) \<Longrightarrow> incidents_ok (update_incident i f d)"
  by (auto simp: incidents_ok_def update_incident_def set_update_where)

lemma correlate_ok: "correlate_incident sv now t hours ob d = Inr (i, d1) \<Longrightarrow> incidents_ok d \<Longrightarrow> incidents_ok d1"
proof -
  assume c: "correlate_incident sv now t hours ob d = Inr (i, d1)" and ok: "incidents_ok d"
  show "incidents_ok d1"
  proof (cases "first_max ic_last_observed_at (filter (recent t hours ob) (incidents d))")
    case None
    with c ok show ?thesis
      by (auto simp: correlate_incident_def first_seen_def new_id_def Let_def incidents_ok_def new_incident_def
          incident_ok_def split: option.splits)
  next
    case (Some row)
    with c have "d1 = seen_again sv now t ob row d" by (simp add: correlate_incident_def)
    then have "incidents d1 = incidents (update_incident (ic_id row) (observed_again now ob) d)"
      by (simp add: seen_again_def Let_def)
    with update_incident_ok [OF ok observed_again_ok] show ?thesis by (simp add: incidents_ok_def)
  qed
qed

lemma resolve_ticket_incidents [simp]: "incidents (resolve_ticket sv now t i row d) = incidents d"
  by (simp add: resolve_ticket_def Let_def split: option.split)

lemma resolve_ok:
  assumes "incidents_ok d"
  shows "incidents_ok (resolve_recovered_incident sv now t dev key ts e d)"
proof (cases "first_max ic_last_observed_at (filter (recovering t dev key) (incidents d))")
  case None
  with assms show ?thesis by (simp add: resolve_recovered_incident_def)
next
  case (Some row)
  then have "incidents (resolve_recovered_incident sv now t dev key ts e d)
      = incidents (update_incident (ic_id row) (incident_resolved now ts e) d)"
    by (simp add: resolve_recovered_incident_def)
  with update_incident_ok [OF assms incident_resolved_ok] show ?thesis by (simp add: incidents_ok_def)
qed

lemma detect_filesystems_ok:
  "detect_filesystems sv now t dev ts fs d = Inr (ids, d1) \<Longrightarrow> incidents_ok d \<Longrightarrow> incidents_ok d1"
proof (induction fs arbitrary: d ids)
  case (Cons f fs)
  show ?case
  proof (cases "disk_reading sv f")
    case None
    with Cons show ?thesis by simp
  next
    case (Some x)
    obtain mp used avail cap where x: "x = (mp, used, avail, cap)" by (metis prod_cases4)
    let ?e = "disk_evidence sv dev mp used avail cap ts"
    show ?thesis
    proof (cases "used < low_disk_threshold_percent (sv_settings sv)")
      case True
      with Some x Cons.prems have "detect_filesystems sv now t dev ts fs
          (resolve_recovered_incident sv now t dev (''low_disk_space:'' @ mp) ts ?e d) = Inr (ids, d1)"
        by (simp add: Let_def)
      with Cons.IH resolve_ok [OF Cons.prems(2)] show ?thesis by blast
    next
      case False
      with Some x Cons.prems obtain i d2 ids' where
        c: "correlate_incident sv now t (incident_correlation_hours (sv_settings sv))
              (low_disk_observation dev mp used ?e ts) d = Inr (i, d2)"
        and "detect_filesystems sv now t dev ts fs d2 = Inr (ids', d1)"
        by (auto simp: Let_def map_sum_def split: sum.splits)
      with Cons.IH correlate_ok [OF c Cons.prems(2)] show ?thesis by blast
    qed
  qed
qed simp

lemma detect_ok: "detect_inventory_incidents sv now t dev pl ts d = Inr (ids, d1) \<Longrightarrow> incidents_ok d \<Longrightarrow> incidents_ok d1"
  by (auto simp: detect_inventory_incidents_def split: option.splits json.splits dest: detect_filesystems_ok)

text \<open>What an accepted inventory does to the incidents is what detection does.\<close>

lemma inventory_detects:
  assumes "inventory sv now p dev ts pl key d = Inr (response, d')"
  obtains "d' = d"
  | ids d1 where "detect_inventory_incidents sv now (pr_tenant_id p) dev pl ts (snd (add_inventory ts (pr_tenant_id p) dev pl d))
        = Inr (ids, d1)" and "incidents d' = incidents d1"
  using assms by (auto simp: inventory_def Let_def case_prod_beta split: sum.splits option.splits)

lemma simulation_detects:
  assumes "simulate_low_disk sv now p dev mp used d = Inr (response, d')"
  obtains dev' pl ids d1 where "detect_inventory_incidents sv now (pr_tenant_id p) dev' pl now
        (snd (add_inventory now (pr_tenant_id p) dev' pl d)) = Inr (ids, d1)" and "incidents d' = incidents d1"
  using assms by (auto simp: simulate_low_disk_def Let_def case_prod_beta split: sum.splits if_splits)

text \<open>
  C36.  Incidents stay well-formed.  Whatever an inventory or a simulation contains (no
  filesystems, no numbers, a free space above the total), after it every incident still counts at
  least one occurrence, has one of the four states, and has a time of resolution exactly when it
  is resolved or closed.
\<close>

theorem incidents_stay_ok:
  assumes "\<forall>r \<in> set (incidents d). incident_ok r"
    and "inventory sv now p dev ts pl key d = Inr (response, d')
      \<or> simulate_low_disk sv now p dev mountpoint used d = Inr (response, d')"
  shows "\<forall>r \<in> set (incidents d'). incident_ok r"
proof -
  have start: "incidents_ok d" using assms(1) by (simp add: incidents_ok_def)
  then have add: "incidents_ok (snd (add_inventory ts' t dev' pl' d))" for ts' t dev' pl'
    by (simp add: add_inventory_def incidents_ok_def)
  have "incidents_ok d'"
    using assms(2)
  proof
    assume "inventory sv now p dev ts pl key d = Inr (response, d')"
    then show ?thesis
    proof (cases rule: inventory_detects)
      case 1
      with start show ?thesis by simp
    next
      case (2 ids d1)
      from detect_ok [OF 2(1) add] 2(2) show ?thesis by (simp add: incidents_ok_def)
    qed
  next
    assume "simulate_low_disk sv now p dev mountpoint used d = Inr (response, d')"
    then show ?thesis
    proof (cases rule: simulation_detects)
      case (1 dev' pl' ids d1)
      from detect_ok [OF 1(1) add] 1(2) show ?thesis by (simp add: incidents_ok_def)
    qed
  qed
  then show ?thesis by (simp add: incidents_ok_def)
qed

text \<open>An inventory with a full filesystem, for a tenant with one user.\<close>

definition full_inventory :: dict where
  "full_inventory = [(''filesystems'', JList [JObj [(''mountpoint'', JStr ''/''), (''total_bytes'', JInt 100),
     (''free_bytes'', JInt 4)], JObj [(''total_bytes'', JStr ''x'')]])]"

theorem incidents_stay_ok_witness:
  "\<exists>response d' r. inventory demo_server 10 demo_admin ''d1'' 5 full_inventory ''k'' (empty_db\<lparr>users := [bob]\<rparr>) = Inr (response, d')
     \<and> incidents d' = [r] \<and> ic_severity r = ''critical'' \<and> incident_ok r"
proof -
  let ?d = "empty_db\<lparr>users := [bob]\<rparr>"
  have r: "\<exists>response d' r. inventory demo_server 10 demo_admin ''d1'' 5 full_inventory ''k'' ?d = Inr (response, d')
     \<and> incidents d' = [r] \<and> ic_severity r = ''critical''"
    by (simp add: inventory_def idempotency_lookup_def empty_db_def scalar_def add_inventory_def
        detect_inventory_incidents_def full_inventory_def dict_get_def disk_reading_def number_def py_str_def
        py_round_def round_even_def demo_server_def demo_settings_def default_settings_def correlate_incident_def
        first_seen_def tenant_owner_def bob_def demo_admin_def new_id_def low_disk_observation_def new_incident_def Let_def)
  then obtain response d' r where d': "inventory demo_server 10 demo_admin ''d1'' 5 full_inventory ''k'' ?d = Inr (response, d')"
    "incidents d' = [r]" "ic_severity r = ''critical''" by blast
  have s: "\<forall>r \<in> set (incidents ?d). incident_ok r" by (simp add: empty_db_def)
  from incidents_stay_ok [OF s disjI1 [OF d'(1)]] d' show ?thesis by auto
qed

section \<open>Reopening\<close>

text \<open>
  A reopened incident keeps its resolved ticket.  When an observation belongs to an incident
  that had recovered, the incident is open again and counts the observation, but the table of
  tickets stays as it is: the ticket that recovery resolved remains resolved.
\<close>

theorem reopened_incident_keeps_resolved_ticket:
  assumes "first_max ic_last_observed_at (filter (recent t hours ob) (incidents d)) = Some row"
    and "ic_status row = ''resolved''" and "distinct (map ic_id (incidents d))"
    and "correlate_incident sv now t hours ob d = Inr (i, d')"
  shows "i = ic_id row \<and> tickets d' = tickets d
    \<and> scalar (\<lambda>r. ic_id r = i) (incidents d') = Some (observed_again now ob row)
    \<and> ic_status (observed_again now ob row) = ''open'' \<and> ic_resolved_at (observed_again now ob row) = None
    \<and> ic_ticket_id (observed_again now ob row) = ic_ticket_id row"
proof -
  from assms(1,4) have d': "i = ic_id row" "d' = seen_again sv now t ob row d" by (simp_all add: correlate_incident_def)
  have "row \<in> set (incidents d)" using first_max_in [OF assms(1)] by simp
  then have "scalar (\<lambda>r. ic_id r = ic_id row) (incidents d) = Some row"
    using assms(3) by (intro scalar_unique) auto
  then have "scalar (\<lambda>r. ic_id r = ic_id row) (incidents d') = Some (observed_again now ob row)"
    unfolding d' by (simp add: seen_again_def update_incident_def Let_def scalar_update_where)
  moreover have "tickets d' = tickets d" unfolding d' by (simp add: seen_again_def update_incident_def Let_def)
  moreover have "ic_status (observed_again now ob row) = ''open''" "ic_resolved_at (observed_again now ob row) = None"
    using assms(2) by (simp_all add: observed_again_def Let_def)
  ultimately show ?thesis using d'(1) by simp
qed

definition recovered_db :: db where
  "recovered_db = empty_db\<lparr>
     tickets := [(new_ticket 0 ''t'' ''k'' disk_full ''bob'')\<lparr>tk_status := ''resolved''\<rparr>],
     incidents := [incident_resolved 5 5 [] (new_incident 0 ''t'' ''i'' ''k'' disk_full)]\<rparr>"

theorem reopened_incident_keeps_resolved_ticket_witness:
  "\<exists>d'. correlate_incident demo_server 10 ''t'' 24 (disk_full\<lparr>obs_observed_at := 10\<rparr>) recovered_db = Inr (''i'', d')
     \<and> map tk_status (tickets d') = [''resolved''] \<and> map ic_status (incidents d') = [''open'']"
proof -
  let ?ob = "disk_full\<lparr>obs_observed_at := 10\<rparr>"
  have r: "first_max ic_last_observed_at (filter (recent ''t'' 24 ?ob) (incidents recovered_db))
      = Some (incident_resolved 5 5 [] (new_incident 0 ''t'' ''i'' ''k'' disk_full))"
    by (simp add: recovered_db_def empty_db_def recent_def same_incident_def incident_resolved_def new_incident_def
        disk_full_def low_disk_observation_def)
  then have c: "correlate_incident demo_server 10 ''t'' 24 ?ob recovered_db = Inr (''i'',
      seen_again demo_server 10 ''t'' ?ob (incident_resolved 5 5 [] (new_incident 0 ''t'' ''i'' ''k'' disk_full)) recovered_db)"
    by (simp add: correlate_incident_def incident_resolved_def new_incident_def)
  have "distinct (map ic_id (incidents recovered_db))" by (simp add: recovered_db_def empty_db_def)
  from reopened_incident_keeps_resolved_ticket [OF r _ this c]
  have t: "tickets (seen_again demo_server 10 ''t'' ?ob (incident_resolved 5 5 [] (new_incident 0 ''t'' ''i'' ''k'' disk_full)) recovered_db)
      = tickets recovered_db" by (simp add: incident_resolved_def)
  show ?thesis
    by (rule exI, rule conjI [OF c], unfold t)
      (simp add: recovered_db_def empty_db_def seen_again_def update_incident_def Let_def update_where_def
        observed_again_def incident_resolved_def new_incident_def)
qed

end
