(* ===== verification/Knowledge.thy ===== *)
theory Knowledge
  imports Diagnosis
begin

text \<open>
  Reference knowledge (\<open>helpdesktool/knowledge.py\<close> and the \<open>/v1/knowledge\<close> handlers of
  \<open>helpdesktool/api.py\<close>): issue definitions with their evidence, technique and vulnerability records and
  the hash over the fields that matter, and diagnostic workflows whose remediation steps may only name
  registered skills.  The results: what registration stores is always accepted by the integrity check
  of reading, one version of an issue is active, and a stored workflow remediates with no unregistered skill.
\<close>

section \<open>Records and their checks\<close>

text \<open>\<open>^T\d{4}(\.\d{3})?$\<close> and \<open>^CVE-\d{4}-\d{4,}$\<close> as \<open>re.match\<close> reads them: \<open>$\<close> also matches before a final newline.\<close>

definition digits :: "string \<Rightarrow> bool" where
  "digits s = list_all is_digit s"

definition chomp :: "string \<Rightarrow> string" where
  "chomp s = (if s \<noteq> [] \<and> last s = CHR 0x0A then butlast s else s)"

definition MITRE_TECHNIQUE_RE :: "string \<Rightarrow> bool" where
  "MITRE_TECHNIQUE_RE text =
     (let s = chomp text in
      starts_with s ''T'' \<and> length s \<ge> 5 \<and> digits (take 4 (drop 1 s))
      \<and> (length s = 5 \<or> length s = 9 \<and> s ! 5 = CHR ''.'' \<and> digits (drop 6 s)))"

definition CVE_RE :: "string \<Rightarrow> bool" where
  "CVE_RE text =
     (let s = chomp text in
      starts_with s ''CVE-'' \<and> length s \<ge> 13 \<and> digits (take 4 (drop 4 s)) \<and> s ! 8 = CHR ''-'' \<and> digits (drop 9 s))"

definition STEP_TYPES :: "string set" where
  "STEP_TYPES = {''collect_evidence'', ''check_precondition'', ''remediate'', ''verify'', ''escalate''}"

record EvidenceRequirement =
  ev_name :: string
  ev_description :: string
  ev_required :: bool

definition EvidenceRequirement_init :: "EvidenceRequirement \<Rightarrow> py_error + EvidenceRequirement" where
  "EvidenceRequirement_init e =
     (if strip (ev_name e) = [] then Inl (ValueError ''evidence requirement name must not be empty'') else Inr e)"

record MitreMapping =
  mm_technique_id :: string
  mm_tactic :: string
  mm_mapping_confidence :: rat
  mm_mapping_evidence :: string

definition MitreMapping_init :: "MitreMapping \<Rightarrow> py_error + MitreMapping" where
  "MitreMapping_init m =
     (if \<not> MITRE_TECHNIQUE_RE (mm_technique_id m)
      then Inl (ValueError (''malformed MITRE technique id: '' @ repr_str (mm_technique_id m)))
      else if \<not> (0 \<le> mm_mapping_confidence m \<and> mm_mapping_confidence m \<le> 1)
      then Inl (ValueError ''mapping_confidence must be within [0, 1]'')
      else Inr m)"

record CveReference =
  ce_cve_id :: string
  ce_applicable_versions :: string

definition CveReference_init :: "CveReference \<Rightarrow> py_error + CveReference" where
  "CveReference_init c =
     (if \<not> CVE_RE (ce_cve_id c) then Inl (ValueError (''malformed CVE id: '' @ repr_str (ce_cve_id c))) else Inr c)"

record EscalationPolicy =
  ep_condition :: string
  ep_escalate_to_role :: string
  ep_priority :: string

definition EscalationPolicy_init :: "EscalationPolicy \<Rightarrow> py_error + EscalationPolicy" where
  "EscalationPolicy_init p =
     (if strip (ep_condition p) = [] then Inl (ValueError ''escalation condition must not be empty'')
      else if ep_escalate_to_role p \<notin> {''operator'', ''admin'', ''owner'', ''security_team''}
      then Inl (ValueError (''unknown escalate_to_role: '' @ repr_str (ep_escalate_to_role p)))
      else Inr p)"

record IssueDefinition =
  id_issue_key :: string
  id_version :: int
  id_title :: string
  id_description :: string
  id_category :: string
  id_applicable_os :: "string set"
  id_source_id :: "string option"
  id_applicable_software_versions :: dict
  id_evidence_requirements :: "EvidenceRequirement list"
  id_mitre_mappings :: "MitreMapping list"
  id_cve_references :: "CveReference list"
  id_escalation_policy :: "EscalationPolicy option"

definition IssueDefinition_init :: "IssueDefinition \<Rightarrow> py_error + IssueDefinition" where
  "IssueDefinition_init i =
     (if strip (id_issue_key i) = [] then Inl (ValueError ''issue_key must not be empty'')
      else if id_applicable_os i = {} then Inl (ValueError ''at least one applicable_os is required'')
      else if strip (id_title i) = [] then Inl (ValueError ''title must not be empty'')
      else Inr i)"

section \<open>The content hash\<close>

text \<open>The list entries are given by the parts that count: name and flag, technique, identifier.\<close>

definition compute_issue_definition_hash ::
  "host \<Rightarrow> string \<Rightarrow> int \<Rightarrow> string \<Rightarrow> string set \<Rightarrow> (string \<times> bool) list \<Rightarrow> string list \<Rightarrow> string list \<Rightarrow> string" where
  "compute_issue_definition_hash h issue_key version category applicable_os evidence mitre cve =
     sha256_hex h (dumps_tight (float_repr h) (JObj
       [(''issue_key'', JStr issue_key), (''version'', JInt version), (''category'', JStr category),
        (''applicable_os'', JList (map JStr (sorted_list_of_set applicable_os))),
        (''evidence_requirements'',
           JList (map (\<lambda>(n, r). JObj [(''name'', JStr n), (''required'', JBool r)]) (sort_key fst evidence))),
        (''mitre_mappings'', JList (map (\<lambda>t. JObj [(''technique_id'', JStr t)]) (sort mitre))),
        (''cve_references'', JList (map (\<lambda>c. JObj [(''cve_id'', JStr c)]) (sort cve)))]))"

definition content_hash :: "host \<Rightarrow> IssueDefinition \<Rightarrow> string" where
  "content_hash h i = compute_issue_definition_hash h (id_issue_key i) (id_version i) (id_category i) (id_applicable_os i)
     (map (\<lambda>e. (ev_name e, ev_required e)) (id_evidence_requirements i))
     (map mm_technique_id (id_mitre_mappings i)) (map ce_cve_id (id_cve_references i))"

section \<open>Workflow steps\<close>

record DiagnosticStep =
  dt_step_order :: int
  dt_step_type :: string
  dt_description :: string
  dt_remediation_skill_id :: "string option"
  dt_verification_description :: string
  dt_rollback_skill_id :: "string option"
  dt_reference_description :: string

definition DiagnosticStep_init :: "DiagnosticStep \<Rightarrow> py_error + DiagnosticStep" where
  "DiagnosticStep_init s =
     (if dt_step_type s \<notin> STEP_TYPES then Inl (ValueError (''unknown step_type: '' @ repr_str (dt_step_type s)))
      else if dt_step_order s < 0 then Inl (ValueError ''step_order must not be negative'')
      else if dt_step_type s = ''remediate'' \<and> \<not> truthy (dt_remediation_skill_id s)
      then Inl (ValueError (''a '' @ repr_str ''remediate'' @ '' step must reference a remediation_skill_id''))
      else Inr s)"

fun validate_remediation_skill_references :: "DiagnosticStep list \<Rightarrow> string set \<Rightarrow> py_error + unit" where
  "validate_remediation_skill_references [] known = Inr ()"
| "validate_remediation_skill_references (s # ss) known =
     (case dt_remediation_skill_id s of
        Some i \<Rightarrow>
          if i \<notin> known
          then Inl (ValueError (''step '' @ show_int (dt_step_order s) @ '' references unregistered skill id ''
            @ repr_str i @ '' -- knowledge may only reference real, registered skills, never invent one''))
          else validate_remediation_skill_references ss known
      | None \<Rightarrow> validate_remediation_skill_references ss known)"

section \<open>Sources\<close>

record KnowledgeSourceCreate =
  kc_source_organization :: string
  kc_source_url :: string
  kc_retrieval_date :: time
  kc_last_verified_date :: "time option"
  kc_source_reliability :: rat

definition knowledge_source_json :: "server \<Rightarrow> KnowledgeSourceRow \<Rightarrow> dict" where
  "knowledge_source_json sv r =
     [(''id'', JStr (ks_id r)), (''source_organization'', JStr (ks_source_organization r)),
      (''source_url'', JStr (ks_source_url r)), (''retrieval_date'', iso sv (ks_retrieval_date r)),
      (''last_verified_date'', some_time sv (ks_last_verified_date r)),
      (''source_reliability'', JFloat (ks_source_reliability r)), (''deprecated'', JBool (ks_deprecated r)),
      (''superseded_by'', opt_str (ks_superseded_by r)), (''created_by'', JStr (ks_created_by r)),
      (''created_at'', iso sv (ks_created_at r))]"

definition create_knowledge_source ::
  "server \<Rightarrow> time \<Rightarrow> Principal \<Rightarrow> KnowledgeSourceCreate \<Rightarrow> db \<Rightarrow> dict \<times> db" where
  "create_knowledge_source sv now p b d =
     (let (row_id, d1) = new_id sv d;
          row = \<lparr>ks_id = row_id, ks_source_organization = kc_source_organization b, ks_source_url = kc_source_url b,
                 ks_retrieval_date = kc_retrieval_date b, ks_last_verified_date = kc_last_verified_date b,
                 ks_source_reliability = kc_source_reliability b, ks_deprecated = False, ks_superseded_by = None,
                 ks_created_by = pr_actor_id p, ks_created_at = now\<rparr>
      in (knowledge_source_json sv row,
          audit sv now (pr_tenant_id p) row_id ''knowledge_source.registered'' (pr_actor_id p)
            [(''source_organization'', JStr (ks_source_organization row))]
            (d1\<lparr>knowledge_sources := knowledge_sources d1 @ [row]\<rparr>)))"

definition list_knowledge_sources :: "server \<Rightarrow> db \<Rightarrow> dict list" where
  "list_knowledge_sources sv d = map (knowledge_source_json sv) (order_desc ks_created_at (knowledge_sources d))"

section \<open>Issue definitions as rows\<close>

text \<open>\<open>item.model_dump()\<close> of the entries of a request.\<close>

definition evidence_json :: "EvidenceRequirement \<Rightarrow> json" where
  "evidence_json e = JObj [(''name'', JStr (ev_name e)), (''description'', JStr (ev_description e)), (''required'', JBool (ev_required e))]"

definition mitre_json :: "MitreMapping \<Rightarrow> json" where
  "mitre_json m = JObj [(''technique_id'', JStr (mm_technique_id m)), (''tactic'', JStr (mm_tactic m)),
     (''mapping_confidence'', JFloat (mm_mapping_confidence m)), (''mapping_evidence'', JStr (mm_mapping_evidence m))]"

definition cve_json :: "CveReference \<Rightarrow> json" where
  "cve_json c = JObj [(''cve_id'', JStr (ce_cve_id c)), (''applicable_versions'', JStr (ce_applicable_versions c))]"

definition escalation_dict :: "EscalationPolicy \<Rightarrow> dict" where
  "escalation_dict p = [(''condition'', JStr (ep_condition p)), (''escalate_to_role'', JStr (ep_escalate_to_role p)),
     (''priority'', JStr (ep_priority p))]"

text \<open>
  Reading an entry back; a missing key, or a value of another type than registration writes, is a \<open>KeyError\<close>,
  which no caller handles.
\<close>

definition text_of :: "dict \<Rightarrow> string \<Rightarrow> string \<Rightarrow> string" where
  "text_of f k fallback = (case dict_get f k of Some (JStr s) \<Rightarrow> s | _ \<Rightarrow> fallback)"

definition evidence_of_json :: "json \<Rightarrow> py_error + EvidenceRequirement" where
  "evidence_of_json j =
     (case j of
        JObj f \<Rightarrow>
          (case (dict_get f ''name'', dict_get f ''required'') of
             (Some (JStr n), Some (JBool r)) \<Rightarrow>
               EvidenceRequirement_init \<lparr>ev_name = n, ev_description = text_of f ''description'' [], ev_required = r\<rparr>
           | _ \<Rightarrow> Inl (KeyError ''name''))
      | _ \<Rightarrow> Inl (TypeError ''not a mapping''))"

definition mitre_of_json :: "json \<Rightarrow> py_error + MitreMapping" where
  "mitre_of_json j =
     (case j of
        JObj f \<Rightarrow>
          (case dict_get f ''technique_id'' of
             Some (JStr t) \<Rightarrow>
               MitreMapping_init \<lparr>mm_technique_id = t, mm_tactic = text_of f ''tactic'' [],
                 mm_mapping_confidence = (case dict_get f ''mapping_confidence'' of
                    Some (JFloat q) \<Rightarrow> q | Some (JInt i) \<Rightarrow> of_int i | _ \<Rightarrow> 1 / 2),
                 mm_mapping_evidence = text_of f ''mapping_evidence'' []\<rparr>
           | _ \<Rightarrow> Inl (KeyError ''technique_id''))
      | _ \<Rightarrow> Inl (TypeError ''not a mapping''))"

definition cve_of_json :: "json \<Rightarrow> py_error + CveReference" where
  "cve_of_json j =
     (case j of
        JObj f \<Rightarrow>
          (case dict_get f ''cve_id'' of
             Some (JStr c) \<Rightarrow> CveReference_init \<lparr>ce_cve_id = c, ce_applicable_versions = text_of f ''applicable_versions'' []\<rparr>
           | _ \<Rightarrow> Inl (KeyError ''cve_id''))
      | _ \<Rightarrow> Inl (TypeError ''not a mapping''))"

text \<open>\<open>EscalationPolicy(**row.escalation_policy) if row.escalation_policy else None\<close>.\<close>

definition escalation_of_dict :: "dict option \<Rightarrow> py_error + EscalationPolicy option" where
  "escalation_of_dict policy =
     (case policy of
        None \<Rightarrow> Inr None
      | Some [] \<Rightarrow> Inr None
      | Some f \<Rightarrow>
          (case (dict_get f ''condition'', list_all (\<lambda>(k, _). k \<in> {''condition'', ''escalate_to_role'', ''priority''}) f) of
             (Some (JStr c), True) \<Rightarrow>
               map_sum id Some (EscalationPolicy_init \<lparr>ep_condition = c,
                 ep_escalate_to_role = text_of f ''escalate_to_role'' ''admin'', ep_priority = text_of f ''priority'' ''normal''\<rparr>)
           | _ \<Rightarrow> Inl (TypeError ''unexpected keyword argument'')))"

definition issue_definition_from_row :: "IssueDefinitionRow \<Rightarrow> py_error + IssueDefinition" where
  "issue_definition_from_row r =
     (case traverse evidence_of_json (is_evidence_requirements r) of Inl e \<Rightarrow> Inl e | Inr evidence \<Rightarrow>
     (case traverse mitre_of_json (is_mitre_mappings r) of Inl e \<Rightarrow> Inl e | Inr mitre \<Rightarrow>
     (case traverse cve_of_json (is_cve_references r) of Inl e \<Rightarrow> Inl e | Inr cve \<Rightarrow>
     (case escalation_of_dict (is_escalation_policy r) of Inl e \<Rightarrow> Inl e | Inr escalation \<Rightarrow>
        IssueDefinition_init
          \<lparr>id_issue_key = is_issue_key r, id_version = is_version r, id_title = is_title r, id_description = is_description r,
           id_category = is_category r, id_applicable_os = set (is_applicable_os r), id_source_id = is_source_id r,
           id_applicable_software_versions = is_applicable_software_versions r, id_evidence_requirements = evidence,
           id_mitre_mappings = mitre, id_cve_references = cve, id_escalation_policy = escalation\<rparr>))))"

definition issue_definition_json :: "server \<Rightarrow> IssueDefinitionRow \<Rightarrow> dict" where
  "issue_definition_json sv r =
     [(''id'', JStr (is_id r)), (''issue_key'', JStr (is_issue_key r)), (''version'', JInt (is_version r)),
      (''title'', JStr (is_title r)), (''description'', JStr (is_description r)), (''category'', JStr (is_category r)),
      (''applicable_os'', JList (map JStr (is_applicable_os r))),
      (''applicable_software_versions'', JObj (is_applicable_software_versions r)),
      (''evidence_requirements'', JList (is_evidence_requirements r)), (''mitre_mappings'', JList (is_mitre_mappings r)),
      (''cve_references'', JList (is_cve_references r)),
      (''escalation_policy'', case is_escalation_policy r of None \<Rightarrow> JNull | Some f \<Rightarrow> JObj f),
      (''source_id'', opt_str (is_source_id r)), (''validated'', JBool (is_validated r)),
      (''content_hash'', JStr (is_content_hash r)), (''active'', JBool (is_active r)),
      (''created_by'', JStr (is_created_by r)), (''created_at'', iso sv (is_created_at r))]"

section \<open>Registering and reading issue definitions\<close>

record IssueDefinitionCreate =
  ib_issue_key :: string
  ib_title :: string
  ib_description :: string
  ib_category :: string
  ib_applicable_os :: "string list"
  ib_applicable_software_versions :: dict
  ib_evidence_requirements :: "EvidenceRequirement list"
  ib_mitre_mappings :: "MitreMapping list"
  ib_cve_references :: "CveReference list"
  ib_escalation_policy :: "EscalationPolicy option"
  ib_source_id :: "string option"

definition previous_issue :: "string \<Rightarrow> db \<Rightarrow> IssueDefinitionRow option" where
  "previous_issue key d = first_max is_version (filter (\<lambda>r. is_issue_key r = key) (issue_definitions d))"

definition issue_of_body :: "IssueDefinitionCreate \<Rightarrow> int \<Rightarrow> py_error + IssueDefinition" where
  "issue_of_body b version =
     (case traverse EvidenceRequirement_init (ib_evidence_requirements b) of Inl e \<Rightarrow> Inl e | Inr evidence \<Rightarrow>
     (case traverse MitreMapping_init (ib_mitre_mappings b) of Inl e \<Rightarrow> Inl e | Inr mitre \<Rightarrow>
     (case traverse CveReference_init (ib_cve_references b) of Inl e \<Rightarrow> Inl e | Inr cve \<Rightarrow>
     (case (case ib_escalation_policy b of None \<Rightarrow> Inr None | Some p \<Rightarrow> map_sum id Some (EscalationPolicy_init p)) of
        Inl e \<Rightarrow> Inl e
      | Inr escalation \<Rightarrow>
        IssueDefinition_init
          \<lparr>id_issue_key = ib_issue_key b, id_version = version, id_title = ib_title b, id_description = ib_description b,
           id_category = ib_category b, id_applicable_os = set (ib_applicable_os b), id_source_id = ib_source_id b,
           id_applicable_software_versions = ib_applicable_software_versions b, id_evidence_requirements = evidence,
           id_mitre_mappings = mitre, id_cve_references = cve, id_escalation_policy = escalation\<rparr>))))"

definition issue_row ::
  "server \<Rightarrow> time \<Rightarrow> Principal \<Rightarrow> IssueDefinitionCreate \<Rightarrow> IssueDefinition \<Rightarrow> string \<Rightarrow> IssueDefinitionRow" where
  "issue_row sv now p b i row_id =
     \<lparr>is_id = row_id, is_issue_key = ib_issue_key b, is_version = id_version i, is_title = ib_title b,
      is_description = ib_description b, is_category = ib_category b, is_applicable_os = ib_applicable_os b,
      is_applicable_software_versions = ib_applicable_software_versions b,
      is_evidence_requirements = map evidence_json (ib_evidence_requirements b),
      is_mitre_mappings = map mitre_json (ib_mitre_mappings b), is_cve_references = map cve_json (ib_cve_references b),
      is_escalation_policy = map_option escalation_dict (ib_escalation_policy b), is_source_id = ib_source_id b,
      is_validated = True, is_content_hash = content_hash (sv_host sv) i, is_active = True,
      is_created_by = pr_actor_id p, is_created_at = now\<rparr>"

definition create_issue_definition ::
  "server \<Rightarrow> time \<Rightarrow> Principal \<Rightarrow> IssueDefinitionCreate \<Rightarrow> db \<Rightarrow> (dict \<times> db) http" where
  "create_issue_definition sv now p b d =
     (let previous = previous_issue (ib_issue_key b) d;
          version = (case previous of None \<Rightarrow> 1 | Some q \<Rightarrow> is_version q + 1)
      in case issue_of_body b version of
           Inl (ValueError text) \<Rightarrow> Inl (HTTPException 422 text)
         | Inl _ \<Rightarrow> Inl unhandled
         | Inr i \<Rightarrow>
             let (row_id, d1) = new_id sv d;
                 retired = (case previous of
                    Some q \<Rightarrow> if is_active q
                      then update_where (\<lambda>r. is_id r = is_id q) (\<lambda>r. r\<lparr>is_active := False\<rparr>) (issue_definitions d)
                      else issue_definitions d
                  | None \<Rightarrow> issue_definitions d);
                 row = issue_row sv now p b i row_id
             in Inr (issue_definition_json sv row,
                  audit sv now (pr_tenant_id p) row_id ''issue_definition.registered'' (pr_actor_id p)
                    [(''issue_key'', JStr (is_issue_key row)), (''version'', JInt (is_version row)),
                     (''category'', JStr (is_category row))]
                    (d1\<lparr>issue_definitions := retired @ [row]\<rparr>)))"

definition list_issue_definitions :: "server \<Rightarrow> bool \<Rightarrow> db \<Rightarrow> dict list" where
  "list_issue_definitions sv active_only d =
     map (issue_definition_json sv) (filter (\<lambda>r. active_only \<longrightarrow> is_active r)
       (order_by is_issue_key (order_desc is_version (issue_definitions d))))"

definition step_json :: "DiagnosticStepRow \<Rightarrow> dict" where
  "step_json s =
     [(''id'', JStr (ds_id s)), (''step_order'', JInt (ds_step_order s)), (''step_type'', JStr (ds_step_type s)),
      (''description'', JStr (ds_description s)), (''remediation_skill_id'', opt_str (ds_remediation_skill_id s)),
      (''verification_description'', JStr (ds_verification_description s)),
      (''rollback_skill_id'', opt_str (ds_rollback_skill_id s)),
      (''reference_description'', JStr (ds_reference_description s))]"

definition workflow_json :: "db \<Rightarrow> DiagnosticWorkflowRow \<Rightarrow> dict" where
  "workflow_json d w =
     [(''id'', JStr (dw_id w)), (''version'', JInt (dw_version w)), (''active'', JBool (dw_active w)),
      (''steps'', objs (map step_json (order_by ds_step_order
         (filter (\<lambda>s. ds_workflow_id s = dw_id w) (diagnostic_steps d)))))]"

definition get_issue_definition :: "server \<Rightarrow> string \<Rightarrow> db \<Rightarrow> dict http" where
  "get_issue_definition sv issue_definition_id d =
     (case scalar (\<lambda>r. is_id r = issue_definition_id) (issue_definitions d) of
        None \<Rightarrow> Inl (HTTPException 404 ''issue definition not found'')
      | Some row \<Rightarrow>
          (case issue_definition_from_row row of
             Inl _ \<Rightarrow> Inl unhandled
           | Inr i \<Rightarrow>
               if content_hash (sv_host sv) i \<noteq> is_content_hash row
               then Inl (HTTPException 500 (''knowledge integrity check failed for '' @ repr_str (is_issue_key row)))
               else Inr (issue_definition_json sv row @
                 [(''workflows'', objs (map (workflow_json d)
                    (filter (\<lambda>w. dw_issue_definition_id w = issue_definition_id) (diagnostic_workflows d))))])))"

section \<open>Registering workflows\<close>

definition previous_workflow :: "string \<Rightarrow> db \<Rightarrow> DiagnosticWorkflowRow option" where
  "previous_workflow issue_id d =
     first_max dw_version (filter (\<lambda>w. dw_issue_definition_id w = issue_id) (diagnostic_workflows d))"

definition step_row :: "string \<Rightarrow> DiagnosticStep \<Rightarrow> string \<Rightarrow> DiagnosticStepRow" where
  "step_row workflow_id s step_id =
     \<lparr>ds_id = step_id, ds_workflow_id = workflow_id, ds_step_order = dt_step_order s, ds_step_type = dt_step_type s,
      ds_description = dt_description s, ds_remediation_skill_id = dt_remediation_skill_id s,
      ds_verification_description = dt_verification_description s, ds_rollback_skill_id = dt_rollback_skill_id s,
      ds_reference_description = dt_reference_description s\<rparr>"

fun add_steps :: "server \<Rightarrow> string \<Rightarrow> DiagnosticStep list \<Rightarrow> db \<Rightarrow> db" where
  "add_steps sv workflow_id [] d = d"
| "add_steps sv workflow_id (s # ss) d =
     (let (step_id, d1) = new_id sv d in
      add_steps sv workflow_id ss (d1\<lparr>diagnostic_steps := diagnostic_steps d1 @ [step_row workflow_id s step_id]\<rparr>))"

definition create_diagnostic_workflow ::
  "server \<Rightarrow> time \<Rightarrow> Principal \<Rightarrow> string \<Rightarrow> DiagnosticStep list \<Rightarrow> db \<Rightarrow> (dict \<times> db) http" where
  "create_diagnostic_workflow sv now p issue_id body d =
     (if scalar (\<lambda>r. is_id r = issue_id) (issue_definitions d) = None
      then Inl (HTTPException 404 ''issue definition not found'')
      else case load_active_skill_manifests sv d of
        Inl e \<Rightarrow> Inl e
      | Inr manifests \<Rightarrow>
          (case (case traverse DiagnosticStep_init body of Inl e \<Rightarrow> Inl e
                 | Inr steps \<Rightarrow> validate_remediation_skill_references steps (mf_skill_id ` set manifests)) of
             Inl (ValueError text) \<Rightarrow> Inl (HTTPException 422 text)
           | Inl _ \<Rightarrow> Inl unhandled
           | Inr _ \<Rightarrow>
               let previous = previous_workflow issue_id d;
                   version = (case previous of None \<Rightarrow> 1 | Some q \<Rightarrow> dw_version q + 1);
                   retired = (case previous of
                      Some q \<Rightarrow> if dw_active q
                        then update_where (\<lambda>w. dw_id w = dw_id q) (\<lambda>w. w\<lparr>dw_active := False\<rparr>) (diagnostic_workflows d)
                        else diagnostic_workflows d
                    | None \<Rightarrow> diagnostic_workflows d);
                   (workflow_id, d1) = new_id sv d;
                   d2 = add_steps sv workflow_id body (d1\<lparr>diagnostic_workflows := retired @
                     [\<lparr>dw_id = workflow_id, dw_issue_definition_id = issue_id, dw_version = version, dw_active = True,
                       dw_created_by = pr_actor_id p, dw_created_at = now\<rparr>]\<rparr>)
               in Inr ([(''id'', JStr workflow_id), (''issue_definition_id'', JStr issue_id), (''version'', JInt version)],
                    audit sv now (pr_tenant_id p) workflow_id ''diagnostic_workflow.registered'' (pr_actor_id p)
                      [(''issue_definition_id'', JStr issue_id), (''version'', JInt version),
                       (''step_count'', JInt (int (length body)))] d2)))"

section \<open>Reading back\<close>

lemma evidence_of_json_json [simp]: "evidence_of_json (evidence_json e) = EvidenceRequirement_init e"
  by (cases e) (simp add: evidence_of_json_def evidence_json_def dict_get_def text_of_def)

lemma mitre_of_json_json [simp]: "mitre_of_json (mitre_json m) = MitreMapping_init m"
  by (cases m) (simp add: mitre_of_json_def mitre_json_def dict_get_def text_of_def)

lemma cve_of_json_json [simp]: "cve_of_json (cve_json c) = CveReference_init c"
  by (cases c) (simp add: cve_of_json_def cve_json_def dict_get_def text_of_def)

lemma escalation_of_dict_dict [simp]:
  "escalation_of_dict (map_option escalation_dict x)
     = (case x of None \<Rightarrow> Inr None | Some p \<Rightarrow> map_sum id Some (EscalationPolicy_init p))"
  by (cases x; cases "the x") (simp_all add: escalation_of_dict_def escalation_dict_def dict_get_def text_of_def)

lemma traverse_map: "traverse f (map g xs) = traverse (\<lambda>x. f (g x)) xs"
  by (induction xs) (auto split: sum.split)

lemma issue_row_from_row:
  "issue_definition_from_row (issue_row sv now p b i row_id) = issue_of_body b (id_version i)"
  by (simp add: issue_definition_from_row_def issue_of_body_def issue_row_def traverse_map cong: sum.case_cong)

lemma issue_of_body_version: "issue_of_body b v = Inr i \<Longrightarrow> id_version i = v"
  by (auto simp: issue_of_body_def IssueDefinition_init_def split: sum.splits if_splits)

text \<open>A row passes the check of reading; the active row of an issue is its only newest one.\<close>

definition row_intact :: "server \<Rightarrow> IssueDefinitionRow \<Rightarrow> bool" where
  "row_intact sv r \<longleftrightarrow> (\<exists>i. issue_definition_from_row r = Inr i \<and> content_hash (sv_host sv) i = is_content_hash r)"

definition active_newest :: "IssueDefinitionRow list \<Rightarrow> bool" where
  "active_newest rows \<longleftrightarrow> (\<forall>r \<in> set rows. is_active r \<longrightarrow>
     (\<forall>s \<in> set rows. is_issue_key s = is_issue_key r \<longrightarrow> is_version s < is_version r \<or> s = r))"

definition knowledge_ok :: "server \<Rightarrow> db \<Rightarrow> bool" where
  "knowledge_ok sv d \<longleftrightarrow> distinct (map is_id (issue_definitions d))
     \<and> (\<forall>r \<in> set (issue_definitions d). row_intact sv r) \<and> active_newest (issue_definitions d)"

lemma row_intact_deactivate [simp]: "row_intact sv (r\<lparr>is_active := a\<rparr>) = row_intact sv r"
  by (simp add: row_intact_def issue_definition_from_row_def cong: sum.case_cong)

lemma get_issue_intact:
  assumes "knowledge_ok sv d"
  shows "get_issue_definition sv i d = Inl (HTTPException 404 ''issue definition not found'')
     \<or> (\<exists>res. get_issue_definition sv i d = Inr res)"
proof (cases "scalar (\<lambda>r. is_id r = i) (issue_definitions d)")
  case (Some row)
  with assms have "row_intact sv row" by (auto simp: knowledge_ok_def dest: scalar_SomeD)
  with Some show ?thesis by (auto simp: get_issue_definition_def row_intact_def)
qed (simp add: get_issue_definition_def)

text \<open>Retiring the previous version, and adding a newer one, keeps the rows in order.\<close>

lemma previous_issue_Some:
  assumes "previous_issue key d = Some q"
  shows "q \<in> set (issue_definitions d)" and "is_issue_key q = key"
    and "\<And>r. r \<in> set (issue_definitions d) \<Longrightarrow> is_issue_key r = key \<Longrightarrow> is_version r \<le> is_version q"
  using assms first_max_in [of is_version _ q] first_max_ge [of is_version _ q]
  by (fastforce simp: previous_issue_def)+

lemma previous_issue_None: "previous_issue key d = None \<Longrightarrow> r \<in> set (issue_definitions d) \<Longrightarrow> is_issue_key r \<noteq> key"
  by (auto simp: previous_issue_def filter_empty_conv)

definition retire_issue :: "IssueDefinitionRow option \<Rightarrow> IssueDefinitionRow list \<Rightarrow> IssueDefinitionRow list" where
  "retire_issue previous rows =
     (case previous of
        Some q \<Rightarrow> if is_active q then update_where (\<lambda>r. is_id r = is_id q) (\<lambda>r. r\<lparr>is_active := False\<rparr>) rows else rows
      | None \<Rightarrow> rows)"

lemma retire_issue_ids: "map is_id (retire_issue previous rows) = map is_id rows"
  by (auto simp: retire_issue_def map_update_where_id split: option.split)

lemma retire_issue_row:
  assumes "r \<in> set (retire_issue previous rows)"
  obtains q where "q \<in> set rows" and "r = q \<or> r = q\<lparr>is_active := False\<rparr>"
  using assms by (auto simp: retire_issue_def set_update_where split: option.splits if_splits)

lemma retired_inactive:
  assumes ok: "active_newest (issue_definitions d)" and ids: "distinct (map is_id (issue_definitions d))"
    and r: "r \<in> set (retire_issue (previous_issue key d) (issue_definitions d))" and key: "is_issue_key r = key"
  shows "\<not> is_active r"
proof (cases "previous_issue key d")
  case None
  with r key previous_issue_None [OF None] show ?thesis by (auto simp: retire_issue_def)
next
  case (Some q)
  note q = previous_issue_Some [OF Some]
  show ?thesis
  proof
    assume act: "is_active r"
    show False
    proof (cases "is_active q")
      case True
      with r Some act obtain r0 where r0: "r0 \<in> set (issue_definitions d)" "is_id r0 \<noteq> is_id q" "r = r0"
        by (auto simp: retire_issue_def set_update_where split: if_splits dest: arg_cong [where f = is_active])
      with q(3) [of r0] key ok act q(1,2) have "r0 = q" by (force simp: active_newest_def)
      with r0 show False by simp
    next
      case False
      with r Some have "r \<in> set (issue_definitions d)" by (simp add: retire_issue_def)
      with q key ok act have "q = r" by (force simp: active_newest_def)
      with False act show False by simp
    qed
  qed
qed

text \<open>The row that retiring deactivates: no active row of the result has its identifier.\<close>

lemma retire_issue_active:
  assumes "r \<in> set (retire_issue previous rows)" and "is_active r"
  shows "r \<in> set rows" and "previous = Some q \<Longrightarrow> is_active q \<Longrightarrow> is_id r \<noteq> is_id q"
  using assms by (auto simp: retire_issue_def set_update_where split: option.splits if_splits dest: arg_cong [where f = is_active])

lemma retire_issue_unchanged:
  assumes "s \<in> set (retire_issue previous rows)"
    and "\<And>q. previous = Some q \<Longrightarrow> is_active q \<Longrightarrow> is_id s \<noteq> is_id q"
  shows "s \<in> set rows"
  using assms by (auto simp: retire_issue_def set_update_where split: option.splits if_splits)

lemma retire_issue_newest:
  assumes "active_newest rows" and ids: "distinct (map is_id rows)"
  shows "active_newest (retire_issue previous rows)"
  unfolding active_newest_def
proof (intro ballI impI)
  fix r s
  assume r: "r \<in> set (retire_issue previous rows)" "is_active r" and s: "s \<in> set (retire_issue previous rows)"
    and key: "is_issue_key s = is_issue_key r"
  note r' = retire_issue_active [OF r]
  from s obtain q where q: "q \<in> set rows" "s = q \<or> s = q\<lparr>is_active := False\<rparr>" by (rule retire_issue_row)
  then have q': "is_issue_key q = is_issue_key s" "is_version q = is_version s" "is_id q = is_id s" by auto
  show "is_version s < is_version r \<or> s = r"
  proof (cases "q = r")
    case True
    with q' r'(2) s have "s \<in> set rows" by (metis retire_issue_unchanged)
    with ids q(1) q'(3) have "s = q" by (auto simp: distinct_map dest: inj_onD)
    with True show ?thesis by simp
  next
    case False
    with assms(1) r'(1) r(2) q(1) q' key have "is_version q < is_version r" by (fastforce simp: active_newest_def)
    with q'(2) show ?thesis by simp
  qed
qed

lemma create_issue_rows:
  assumes "create_issue_definition sv now p b d = Inr (res, d')"
  obtains i where "issue_of_body b (case previous_issue (ib_issue_key b) d of None \<Rightarrow> 1 | Some q \<Rightarrow> is_version q + 1) = Inr i"
    and "issue_definitions d' = retire_issue (previous_issue (ib_issue_key b) d) (issue_definitions d)
           @ [issue_row sv now p b i (sv_uuid sv (next_id d))]"
  using assms
  by (auto simp: create_issue_definition_def retire_issue_def Let_def case_prod_beta split: sum.splits py_error.splits)

text \<open>
  C23.  Registering an issue definition keeps the knowledge base in order: every stored definition passes
  the integrity check of reading, so that reading any identifier either finds the definition or
  answers 404, and of each issue only the newest version can be active; the new version is.
\<close>

theorem knowledge_always_readable:
  assumes ok: "knowledge_ok sv d" and new: "sv_uuid sv (next_id d) \<notin> is_id ` set (issue_definitions d)"
    and create: "create_issue_definition sv now p b d = Inr (res, d')"
  shows "knowledge_ok sv d'
     \<and> (\<exists>r \<in> set (issue_definitions d'). is_id r = sv_uuid sv (next_id d) \<and> is_active r \<and> is_issue_key r = ib_issue_key b
          \<and> (\<exists>f. get_issue_definition sv (is_id r) d' = Inr f))
     \<and> (\<forall>i. get_issue_definition sv i d' = Inl (HTTPException 404 ''issue definition not found'')
          \<or> (\<exists>f. get_issue_definition sv i d' = Inr f))"
proof -
  let ?key = "ib_issue_key b" and ?prev = "previous_issue (ib_issue_key b) d"
  from create obtain i where
    i: "issue_of_body b (case ?prev of None \<Rightarrow> 1 | Some q \<Rightarrow> is_version q + 1) = Inr i"
    and rows: "issue_definitions d' = retire_issue ?prev (issue_definitions d) @ [issue_row sv now p b i (sv_uuid sv (next_id d))]"
    by (rule create_issue_rows)
  let ?row = "issue_row sv now p b i (sv_uuid sv (next_id d))"
  have version: "is_version ?row = (case ?prev of None \<Rightarrow> 1 | Some q \<Rightarrow> is_version q + 1)"
    using issue_of_body_version [OF i] by (simp add: issue_row_def)
  have row: "row_intact sv ?row"
    using i issue_of_body_version [OF i] by (auto simp: row_intact_def issue_row_from_row) (simp add: issue_row_def)
  have row_fields: "is_id ?row = sv_uuid sv (next_id d)" "is_active ?row" "is_issue_key ?row = ?key"
    by (simp_all add: issue_row_def)
  have ids: "distinct (map is_id (issue_definitions d'))"
    using ok new unfolding rows knowledge_ok_def by (simp add: retire_issue_ids row_fields flip: image_set)
  have intact: "\<forall>r \<in> set (issue_definitions d'). row_intact sv r"
    using ok row unfolding rows knowledge_ok_def by (auto elim!: retire_issue_row)
  have newer: "is_version s < is_version ?row" if s: "s \<in> set (retire_issue ?prev (issue_definitions d))" "is_issue_key s = ?key" for s
  proof -
    from s(1) obtain q where q: "q \<in> set (issue_definitions d)" "s = q \<or> s = q\<lparr>is_active := False\<rparr>" by (rule retire_issue_row)
    with s(2) have k: "is_issue_key q = ?key" "is_version s = is_version q" by auto
    show ?thesis
    proof (cases ?prev)
      case None
      from previous_issue_None [OF None q(1)] k show ?thesis by simp
    next
      case (Some m)
      from previous_issue_Some(3) [OF Some q(1) k(1)] show ?thesis unfolding version by (simp add: Some k(2))
    qed
  qed
  have "active_newest (retire_issue ?prev (issue_definitions d))"
    using ok unfolding knowledge_ok_def by (blast intro: retire_issue_newest)
  moreover have "\<not> is_active r" if "r \<in> set (retire_issue ?prev (issue_definitions d))" "is_issue_key r = ?key" for r
    using ok that unfolding knowledge_ok_def by (blast dest: retired_inactive)
  ultimately have "active_newest (issue_definitions d')"
    using newer unfolding rows active_newest_def by (auto simp: row_fields)
  with ids intact have ok': "knowledge_ok sv d'" by (simp add: knowledge_ok_def)
  have "?row \<in> set (issue_definitions d')" by (simp add: rows)
  moreover have "\<exists>f. get_issue_definition sv (is_id ?row) d' = Inr f"
  proof -
    have "scalar (\<lambda>r. is_id r = is_id ?row) (issue_definitions d') = Some ?row"
      using ids by (rule scalar_unique) (simp_all add: rows)
    with row show ?thesis by (auto simp: get_issue_definition_def row_intact_def)
  qed
  ultimately show ?thesis using ok' get_issue_intact [OF ok'] row_fields by blast
qed

definition disk_issue :: IssueDefinitionCreate where
  "disk_issue = \<lparr>ib_issue_key = ''k'', ib_title = ''t'', ib_description = [], ib_category = ''c'', ib_applicable_os = [''linux''],
     ib_applicable_software_versions = [], ib_evidence_requirements = [], ib_mitre_mappings = [], ib_cve_references = [],
     ib_escalation_policy = None, ib_source_id = None\<rparr>"

theorem knowledge_always_readable_witness:
  "\<exists>res d'. create_issue_definition demo_server 5 demo_admin disk_issue empty_db = Inr (res, d')
     \<and> knowledge_ok demo_server d' \<and> issue_definitions d' \<noteq> []"
proof -
  have ok: "knowledge_ok demo_server empty_db" by (simp add: knowledge_ok_def active_newest_def empty_db_def)
  have new: "sv_uuid demo_server (next_id empty_db) \<notin> is_id ` set (issue_definitions empty_db)" by (simp add: empty_db_def)
  have strips: "strip ''k'' \<noteq> []" "strip ''t'' \<noteq> []" by code_simp+
  have i: "is_ok (issue_of_body disk_issue 1)"
    by (simp add: issue_of_body_def disk_issue_def IssueDefinition_init_def strips)
  have p: "previous_issue (ib_issue_key disk_issue) empty_db = None" by (simp add: previous_issue_def empty_db_def)
  obtain res d' where r: "create_issue_definition demo_server 5 demo_admin disk_issue empty_db = Inr (res, d')"
    using i by (cases "create_issue_definition demo_server 5 demo_admin disk_issue empty_db")
      (auto simp: create_issue_definition_def p Let_def case_prod_beta is_ok_iff)
  from knowledge_always_readable [OF ok new r] r show ?thesis by force
qed

section \<open>Workflows and the skill registry\<close>

lemma add_steps_rows:
  "\<exists>new. diagnostic_steps (add_steps sv w ss d) = diagnostic_steps d @ new \<and> list_all2 (\<lambda>s r. \<exists>i. r = step_row w s i) ss new"
proof (induction ss arbitrary: d)
  case (Cons s ss)
  let ?r = "step_row w s (sv_uuid sv (next_id d))"
  let ?d = "d\<lparr>next_id := Suc (next_id d), diagnostic_steps := diagnostic_steps d @ [?r]\<rparr>"
  from Cons.IH [of ?d] obtain new where "diagnostic_steps (add_steps sv w ss ?d) = diagnostic_steps d @ ?r # new"
    and "list_all2 (\<lambda>s r. \<exists>i. r = step_row w s i) ss new" by auto
  then show ?case by (intro exI [of _ "?r # new"]) (auto simp: case_prod_beta)
qed simp

lemma add_steps_rest:
  "actions (add_steps sv w ss d) = actions d" "skills (add_steps sv w ss d) = skills d"
  "diagnostic_workflows (add_steps sv w ss d) = diagnostic_workflows d"
  by (induction ss arbitrary: d) (simp_all add: case_prod_beta)

lemma validated_references:
  "validate_remediation_skill_references ss known = Inr u \<Longrightarrow> s \<in> set ss \<Longrightarrow> dt_remediation_skill_id s = Some i \<Longrightarrow> i \<in> known"
  by (induction ss) (auto split: option.splits if_splits)

lemma DiagnosticStep_init_Inr:
  assumes "traverse DiagnosticStep_init body = Inr steps"
  shows "steps = body" and "s \<in> set body \<Longrightarrow> DiagnosticStep_init s = Inr s"
proof -
  have "t = s" if "DiagnosticStep_init s = Inr t" for s t using that by (auto simp: DiagnosticStep_init_def split: if_splits)
  with assms show "steps = body" and "s \<in> set body \<Longrightarrow> DiagnosticStep_init s = Inr s"
    by (induction body arbitrary: steps) (auto split: sum.splits)
qed

lemma created_workflow:
  assumes "create_diagnostic_workflow sv now p issue_id body d = Inr (res, d')"
  obtains w wf new where "diagnostic_steps d' = diagnostic_steps d @ new" and "list_all2 (\<lambda>s r. \<exists>i. r = step_row w s i) body new"
    and "wf \<in> set (diagnostic_workflows d')" and "dw_id wf = w" and "dw_issue_definition_id wf = issue_id" and "dw_active wf"
    and "dict_get res ''id'' = Some (JStr w)" and "actions d' = actions d" and "skills d' = skills d"
proof -
  let ?w = "sv_uuid sv (next_id d)"
  have "\<exists>rows wf a. d' = audit sv now (pr_tenant_id p) ?w ''diagnostic_workflow.registered'' (pr_actor_id p) a
        (add_steps sv ?w body (d\<lparr>next_id := Suc (next_id d), diagnostic_workflows := rows @ [wf]\<rparr>))
      \<and> dw_id wf = ?w \<and> dw_issue_definition_id wf = issue_id \<and> dw_active wf"
    using assms by (auto simp: create_diagnostic_workflow_def Let_def case_prod_beta split: if_splits sum.splits py_error.splits intro!: exI)
  then obtain rows wf a where d': "d' = audit sv now (pr_tenant_id p) ?w ''diagnostic_workflow.registered'' (pr_actor_id p) a
        (add_steps sv ?w body (d\<lparr>next_id := Suc (next_id d), diagnostic_workflows := rows @ [wf]\<rparr>))"
    and wf: "dw_id wf = ?w" "dw_issue_definition_id wf = issue_id" "dw_active wf" by blast
  have id: "dict_get res ''id'' = Some (JStr ?w)"
    using assms by (auto simp: create_diagnostic_workflow_def dict_get_def Let_def case_prod_beta split: if_splits sum.splits py_error.splits)
  from add_steps_rows [of sv ?w body "d\<lparr>next_id := Suc (next_id d), diagnostic_workflows := rows @ [wf]\<rparr>"] obtain new where
    "diagnostic_steps d' = diagnostic_steps d @ new" "list_all2 (\<lambda>s r. \<exists>i. r = step_row ?w s i) body new"
    unfolding d' by auto
  with wf id show thesis by (intro that [of new ?w wf]) (simp_all add: d' add_steps_rest)
qed

text \<open>
  C22.  Knowledge never invents a remediation.  When a workflow is registered, a new active workflow of the issue is
  stored, and the steps stored with it are those of the request, in order and in every field: order, type, description, remediation and
  rollback skill, verification and reference text.  Each has a known type and an order that is not negative, its remediation skill, if it
  names one, is a skill of the registry as loaded and checked, and a remediate step names one.  Neither the registry nor
  any action changes.  (The rollback skill is stored as given, registered or not: \<open>unregistered_rollback_stored\<close>.)
\<close>

theorem workflow_names_registered_skills:
  assumes create: "create_diagnostic_workflow sv now p issue_id body d = Inr (res, d')"
  shows "\<exists>manifests new w. load_active_skill_manifests sv d = Inr manifests
     \<and> (\<exists>wf \<in> set (diagnostic_workflows d'). dw_id wf = w \<and> dw_issue_definition_id wf = issue_id \<and> dw_active wf
          \<and> dict_get res ''id'' = Some (JStr w))
     \<and> diagnostic_steps d' = diagnostic_steps d @ new
     \<and> list_all2 (\<lambda>s r. ds_workflow_id r = w \<and> ds_step_order r = dt_step_order s \<and> ds_step_type r = dt_step_type s
          \<and> ds_description r = dt_description s \<and> ds_remediation_skill_id r = dt_remediation_skill_id s
          \<and> ds_verification_description r = dt_verification_description s
          \<and> ds_rollback_skill_id r = dt_rollback_skill_id s \<and> ds_reference_description r = dt_reference_description s) body new
     \<and> (\<forall>s \<in> set body. dt_step_type s \<in> STEP_TYPES \<and> 0 \<le> dt_step_order s
          \<and> (\<forall>i. dt_remediation_skill_id s = Some i \<longrightarrow> i \<in> mf_skill_id ` set manifests)
          \<and> (dt_step_type s = ''remediate'' \<longrightarrow> dt_remediation_skill_id s \<noteq> None))
     \<and> actions d' = actions d \<and> skills d' = skills d"
proof -
  from create obtain manifests steps u where m: "load_active_skill_manifests sv d = Inr manifests"
    and s: "traverse DiagnosticStep_init body = Inr steps"
    and u: "validate_remediation_skill_references steps (mf_skill_id ` set manifests) = Inr u"
    by (auto simp: create_diagnostic_workflow_def split: if_splits sum.splits py_error.splits)
  note init = s [unfolded DiagnosticStep_init_Inr(1) [OF s]] and v = u [unfolded DiagnosticStep_init_Inr(1) [OF s]]
  have step: "\<forall>s \<in> set body. dt_step_type s \<in> STEP_TYPES \<and> 0 \<le> dt_step_order s
      \<and> (\<forall>i. dt_remediation_skill_id s = Some i \<longrightarrow> i \<in> mf_skill_id ` set manifests)
      \<and> (dt_step_type s = ''remediate'' \<longrightarrow> dt_remediation_skill_id s \<noteq> None)"
    using DiagnosticStep_init_Inr(2) [OF init] v
    by (fastforce simp: DiagnosticStep_init_def truthy_def dest: validated_references split: if_splits option.splits)
  from create obtain w wf new where
    n: "diagnostic_steps d' = diagnostic_steps d @ new" and l: "list_all2 (\<lambda>s r. \<exists>i. r = step_row w s i) body new"
    and wf: "wf \<in> set (diagnostic_workflows d')" "dw_id wf = w" "dw_issue_definition_id wf = issue_id" "dw_active wf"
      "dict_get res ''id'' = Some (JStr w)"
    and rest: "actions d' = actions d" "skills d' = skills d" by (rule created_workflow)
  from l have "list_all2 (\<lambda>s r. ds_workflow_id r = w \<and> ds_step_order r = dt_step_order s \<and> ds_step_type r = dt_step_type s
          \<and> ds_description r = dt_description s \<and> ds_remediation_skill_id r = dt_remediation_skill_id s
          \<and> ds_verification_description r = dt_verification_description s
          \<and> ds_rollback_skill_id r = dt_rollback_skill_id s \<and> ds_reference_description r = dt_reference_description s) body new"
    by (rule list_all2_mono) (auto simp: step_row_def)
  then show ?thesis
    using m n wf rest step by (intro exI [of _ manifests] exI [of _ new] exI [of _ w] conjI) auto
qed

definition collect_step :: DiagnosticStep where
  "collect_step = \<lparr>dt_step_order = 0, dt_step_type = ''collect_evidence'', dt_description = ''look'', dt_remediation_skill_id = None,
     dt_verification_description = [], dt_rollback_skill_id = Some ''ghost'', dt_reference_description = []\<rparr>"

definition described_db :: db where
  "described_db = empty_db\<lparr>issue_definitions :=
     [\<lparr>is_id = ''i'', is_issue_key = ''k'', is_version = 1, is_title = ''t'', is_description = [], is_category = ''c'',
       is_applicable_os = [''linux''], is_applicable_software_versions = [], is_evidence_requirements = [], is_mitre_mappings = [],
       is_cve_references = [], is_escalation_policy = None, is_source_id = None, is_validated = True, is_content_hash = [],
       is_active = True, is_created_by = ''u'', is_created_at = 0\<rparr>]\<rparr>"

lemma collect_step_stored:
  "\<exists>res d'. create_diagnostic_workflow demo_server 5 demo_admin ''i'' [collect_step] described_db = Inr (res, d')"
  and described_db_rows: "skills described_db = []" "actions described_db = []" "diagnostic_steps described_db = []"
    "load_active_skill_manifests demo_server described_db = Inr []"
proof -
  show k: "skills described_db = []" "actions described_db = []" "diagnostic_steps described_db = []"
    by (simp_all add: described_db_def empty_db_def)
  show m: "load_active_skill_manifests demo_server described_db = Inr []"
    by (simp add: load_active_skill_manifests_def k)
  have i: "scalar (\<lambda>r. is_id r = ''i'') (issue_definitions described_db) \<noteq> None"
    by (simp add: described_db_def scalar_def)
  have s: "DiagnosticStep_init collect_step = Inr collect_step"
    by (simp add: DiagnosticStep_init_def collect_step_def STEP_TYPES_def)
  have r: "dt_remediation_skill_id collect_step = None" by (simp add: collect_step_def)
  show "\<exists>res d'. create_diagnostic_workflow demo_server 5 demo_admin ''i'' [collect_step] described_db = Inr (res, d')"
    by (cases "create_diagnostic_workflow demo_server 5 demo_admin ''i'' [collect_step] described_db")
      (auto simp: create_diagnostic_workflow_def m i s r Let_def case_prod_beta)
qed

theorem workflow_names_registered_skills_witness:
  "\<exists>res d' new. create_diagnostic_workflow demo_server 5 demo_admin ''i'' [collect_step] described_db = Inr (res, d')
     \<and> diagnostic_steps d' = [new] \<and> ds_step_type new \<in> STEP_TYPES \<and> ds_description new = ''look'' \<and> actions d' = []"
proof -
  obtain res d' where c: "create_diagnostic_workflow demo_server 5 demo_admin ''i'' [collect_step] described_db = Inr (res, d')"
    using collect_step_stored by blast
  from workflow_names_registered_skills [OF c] obtain w new where
    n: "diagnostic_steps d' = diagnostic_steps described_db @ new" and a: "actions d' = actions described_db"
    and t: "\<forall>s \<in> set [collect_step]. dt_step_type s \<in> STEP_TYPES"
    and l: "list_all2 (\<lambda>s r. ds_workflow_id r = w \<and> ds_step_order r = dt_step_order s \<and> ds_step_type r = dt_step_type s
          \<and> ds_description r = dt_description s \<and> ds_remediation_skill_id r = dt_remediation_skill_id s
          \<and> ds_verification_description r = dt_verification_description s
          \<and> ds_rollback_skill_id r = dt_rollback_skill_id s \<and> ds_reference_description r = dt_reference_description s)
          [collect_step] new"
    by blast
  from l obtain x where "new = [x]" "ds_step_type x = dt_step_type collect_step" "ds_description x = dt_description collect_step"
    by (auto simp: list_all2_Cons1)
  with c n a t show ?thesis by (auto simp: described_db_rows) (simp add: collect_step_def)
qed

text \<open>A rollback skill is not checked: with an empty registry, a step that names one is stored.\<close>

lemma unregistered_rollback_stored:
  "\<exists>res d'. create_diagnostic_workflow demo_server 5 demo_admin ''i'' [collect_step] described_db = Inr (res, d')
     \<and> map ds_rollback_skill_id (diagnostic_steps d') = [Some ''ghost'']
     \<and> load_active_skill_manifests demo_server described_db = Inr []"
proof -
  obtain res d' where c: "create_diagnostic_workflow demo_server 5 demo_admin ''i'' [collect_step] described_db = Inr (res, d')"
    using collect_step_stored by blast
  from c obtain w new where
    "diagnostic_steps d' = diagnostic_steps described_db @ new" "list_all2 (\<lambda>s r. \<exists>i. r = step_row w s i) [collect_step] new"
    by (rule created_workflow)
  then have "map ds_rollback_skill_id (diagnostic_steps d') = [Some ''ghost'']"
    by (auto simp: described_db_rows list_all2_Cons1 step_row_def) (simp add: collect_step_def)
  with c described_db_rows(4) show ?thesis by (intro exI conjI)
qed

end
