(* ===== verification/Migrations.thy ===== *)
theory Migrations
  imports Knowledge
begin

text \<open>
  The data that a fresh database starts with: the built-in skills of the migrations \<open>0008\<close>, \<open>0011\<close> and \<open>0016\<close> and
  the reference knowledge of \<open>0013\<close> and \<open>0017\<close> (\<open>migrations/versions\<close>).  They compute the content hashes of
  their rows with the functions of the program, before the columns and defaults of later migrations exist.
  The result: after all of them the registry loads, every issue definition passes the integrity check of reading, and every
  step of a workflow could have been registered.
\<close>

section \<open>Skills\<close>

definition SYSTEM_ACTOR :: string where
  "SYSTEM_ACTOR = ''00000000-0000-0000-0000-000000000000''"

definition SUPPORTED_OS :: "string list" where
  "SUPPORTED_OS = [''linux'', ''windows'']"

text \<open>
  What is hashed when a row is seeded: the keyword arguments given, and the defaults of
  \<open>compute_manifest_hash\<close> for the rest.
\<close>

definition seed_manifest ::
  "string \<Rightarrow> RiskLevel \<Rightarrow> int \<Rightarrow> string option \<Rightarrow> (string \<times> ParameterSpec) list \<Rightarrow> bool \<Rightarrow> SkillManifest" where
  "seed_manifest skill_id risk timeout_seconds rollback parameters reversible =
     \<lparr>mf_skill_id = skill_id, mf_version = 1, mf_risk = risk, mf_supported_os = set SUPPORTED_OS,
      mf_timeout_seconds = timeout_seconds, mf_rollback_skill_id = rollback, mf_parameters = parameters,
      mf_command_type = LOW_RISK_CHANGE, mf_requires_user_approval = False, mf_requires_admin_approval = False,
      mf_security_sensitive = False, mf_reversible = reversible, mf_required_privilege = [], mf_preconditions = [],
      mf_expected_output = [], mf_success_condition = [], mf_failure_condition = [], mf_side_effects = [],
      mf_requires_reboot = False, mf_allowed_execution_context = []\<rparr>"

text \<open>The row, whose columns of migration \<open>0011\<close> have the server defaults given there unless the insertion sets them.\<close>

definition seed_row :: "server \<Rightarrow> time \<Rightarrow> SkillManifest \<Rightarrow> dict \<Rightarrow> string \<Rightarrow> SkillManifestRow" where
  "seed_row sv now m parameters row_id =
     \<lparr>sm_id = row_id, sm_skill_id = mf_skill_id m, sm_version = 1, sm_risk = RiskLevel_value (mf_risk m),
      sm_supported_os = SUPPORTED_OS, sm_timeout_seconds = mf_timeout_seconds m,
      sm_rollback_skill_id = mf_rollback_skill_id m, sm_parameters = parameters, sm_command_type = ''low_risk_change'',
      sm_requires_user_approval = False, sm_requires_admin_approval = False, sm_security_sensitive = False,
      sm_reversible = mf_reversible m, sm_required_privilege = [], sm_preconditions = [], sm_expected_output = [],
      sm_success_condition = [], sm_failure_condition = [], sm_side_effects = [], sm_requires_reboot = False,
      sm_allowed_execution_context = [], sm_content_hash = compute_manifest_hash (sv_host sv) m, sm_active = True,
      sm_created_by = SYSTEM_ACTOR, sm_created_at = now\<rparr>"

definition insert_skill :: "server \<Rightarrow> time \<Rightarrow> SkillManifest \<Rightarrow> dict \<Rightarrow> db \<Rightarrow> db" where
  "insert_skill sv now m parameters d =
     (let (row_id, d1) = new_id sv d in d1\<lparr>skills := skills d1 @ [seed_row sv now m parameters row_id]\<rparr>)"

definition upgrade_0008 :: "server \<Rightarrow> time \<Rightarrow> db \<Rightarrow> db" where
  "upgrade_0008 sv now d =
     insert_skill sv now (seed_manifest ''service.restart'' RISK_MEDIUM 30 (Some ''service.restore'')
         [(''service'', \<lparr>ps_type = ''string'', ps_required = True\<rparr>)] True)
       [(''service'', JObj [(''type'', JStr ''string''), (''required'', JBool True)])]
     (insert_skill sv now (seed_manifest ''diagnostics.collect'' RISK_READ_ONLY 30 None [] True) [] d)"

definition upgrade_0016 :: "server \<Rightarrow> time \<Rightarrow> db \<Rightarrow> db" where
  "upgrade_0016 sv now d = insert_skill sv now (seed_manifest ''dns.flush_cache'' RISK_LOW 15 None [] False) [] d"

section \<open>Reference issues\<close>

text \<open>An issue of the list with the steps of its workflow.\<close>

type_synonym reference_issue = "IssueDefinitionCreate \<times> DiagnosticStep list"

definition knowledge_step :: "int \<Rightarrow> string \<Rightarrow> string \<Rightarrow> DiagnosticStep" where
  "knowledge_step order step_type description =
     \<lparr>dt_step_order = order, dt_step_type = step_type, dt_description = description, dt_remediation_skill_id = None,
      dt_verification_description = [], dt_rollback_skill_id = None, dt_reference_description = []\<rparr>"

definition DISK_EVIDENCE :: "EvidenceRequirement list" where
  "DISK_EVIDENCE = [\<lparr>ev_name = ''filesystems.free_bytes'', ev_description = [], ev_required = True\<rparr>,
     \<lparr>ev_name = ''filesystems.total_bytes'', ev_description = [], ev_required = True\<rparr>]"

definition disk_space_issue :: "string \<Rightarrow> string \<Rightarrow> string \<Rightarrow> reference_issue" where
  "disk_space_issue issue_key os_name title =
     (\<lparr>ib_issue_key = issue_key, ib_title = title,
       ib_description = ''Free disk space on a monitored filesystem has dropped below the tenant-configured low-disk threshold.'',
       ib_category = ''disk'', ib_applicable_os = [os_name], ib_applicable_software_versions = [],
       ib_evidence_requirements = DISK_EVIDENCE,
       ib_mitre_mappings = [], ib_cve_references = [],
       ib_escalation_policy = Some \<lparr>ep_condition = ''no automated remediation is available for this issue'',
       ep_escalate_to_role = ''operator'', ep_priority = ''normal''\<rparr>,
       ib_source_id = None\<rparr>,
      [knowledge_step 0 ''collect_evidence''
         (''Collect filesystems[].free_bytes and filesystems[].total_bytes for the affected volume from device ''
           @ ''inventory.''),
       knowledge_step 1 ''check_precondition''
         (''Confirm the low-space reading is sustained across the correlation window, not a single transient ''
           @ ''sample.''),
       (knowledge_step 2 ''verify''
         ''Re-check filesystems[].free_bytes to confirm space has not already recovered since detection.'')
         \<lparr>dt_verification_description := ''filesystems[].free_bytes / filesystems[].total_bytes still below threshold''\<rparr>,
       knowledge_step 3 ''escalate''
         (''No generic disk-cleanup remediation skill is registered (deliberate -- see CLAUDE.md); escalate to an ''
           @ ''operator to investigate and free space manually.'')])"

definition service_failure_issue :: "string \<Rightarrow> string \<Rightarrow> string \<Rightarrow> EvidenceRequirement list \<Rightarrow> reference_issue" where
  "service_failure_issue issue_key os_name title evidence =
     (\<lparr>ib_issue_key = issue_key, ib_title = title,
       ib_description = ''A monitored service is not in its expected running state.'',
       ib_category = ''service'', ib_applicable_os = [os_name], ib_applicable_software_versions = [],
       ib_evidence_requirements = evidence,
       ib_mitre_mappings = [], ib_cve_references = [],
       ib_escalation_policy = Some \<lparr>ep_condition = ''restart fails, or the service fails again within a short window after a successful restart'',
       ep_escalate_to_role = ''operator'', ep_priority = ''high''\<rparr>,
       ib_source_id = None\<rparr>,
      [knowledge_step 0 ''collect_evidence''
         ''Collect the monitored service's current state from device inventory.'',
       knowledge_step 1 ''check_precondition''
         (''Confirm the service is genuinely stopped/failed and not intentionally disabled by policy or scheduled ''
           @ ''maintenance.''),
       (knowledge_step 2 ''remediate''
         ''Restart the failed service via the registered service.restart skill.'')
         \<lparr>dt_remediation_skill_id := Some ''service.restart'', dt_rollback_skill_id := Some ''service.restore''\<rparr>,
       (knowledge_step 3 ''verify''
         ''Confirm the service is running after restart.'')
         \<lparr>dt_verification_description := ''service state is active/running post-restart''\<rparr>,
       knowledge_step 4 ''escalate''
         (''If the restart fails, or the service fails again shortly after, escalate for manual investigation ''
           @ ''rather than retrying indefinitely.'')])"

definition WINDOWS_UPDATE_ISSUE :: reference_issue where
  "WINDOWS_UPDATE_ISSUE =
     (\<lparr>ib_issue_key = ''windows_update_failure'', ib_title = ''Windows Update failure'',
       ib_description = (''Windows Update is failing to install or has left the device in a prolonged ''
         @ ''pending-reboot/pending-update state.''),
       ib_category = ''updates'', ib_applicable_os = [''windows''], ib_applicable_software_versions = [],
       ib_evidence_requirements = [\<lparr>ev_name = ''pending_reboot'', ev_description = [], ev_required = False\<rparr>,
        \<lparr>ev_name = ''installed_applications'', ev_description = [], ev_required = False\<rparr>],
       ib_mitre_mappings = [], ib_cve_references = [],
       ib_escalation_policy = Some \<lparr>ep_condition = ''always -- no remediation skill exists yet for this issue'',
       ep_escalate_to_role = ''operator'', ep_priority = ''normal''\<rparr>,
       ib_source_id = None\<rparr>,
      [knowledge_step 0 ''collect_evidence''
         (''Collect the update-adjacent telemetry that is actually available (pending_reboot, ''
           @ ''installed_applications). No dedicated Windows Update history/error-code collector exists yet in ''
           @ ''windows_agent/collectors.py -- this workflow does not claim otherwise.''),
       knowledge_step 1 ''check_precondition''
         (''Confirm this reflects a genuine, sustained failure pattern (e.g. pending_reboot persisting across ''
           @ ''multiple heartbeats) rather than a single in-progress update cycle.''),
       (knowledge_step 2 ''verify''
         (''No automated verification is possible without update-history telemetry; this step documents what a ''
           @ ''human should check.''))
         \<lparr>dt_verification_description := ''Manually review Windows Update history and error codes on the device.''\<rparr>,
       knowledge_step 3 ''escalate''
         ''No registered remediation skill exists for Windows Update; escalate to an operator.''])"

definition DNS_ISSUE :: reference_issue where
  "DNS_ISSUE =
     (\<lparr>ib_issue_key = ''dns_resolution_failure'', ib_title = ''DNS resolution failure'',
       ib_description = ''A device is failing to resolve DNS queries.'',
       ib_category = ''network'', ib_applicable_os = [''linux'', ''windows''], ib_applicable_software_versions = [],
       ib_evidence_requirements = [\<lparr>ev_name = ''network.dns_servers'', ev_description = [], ev_required = True\<rparr>],
       ib_mitre_mappings = [], ib_cve_references = [],
       ib_escalation_policy = Some \<lparr>ep_condition = (''configured DNS servers deviate from the organization's own baseline, or resolution fails against the ''
         @ ''organization's actual resolvers''),
       ep_escalate_to_role = ''operator'', ep_priority = ''high''\<rparr>,
       ib_source_id = None\<rparr>,
      [knowledge_step 0 ''collect_evidence''
         ''Collect network.dns_servers from device inventory.'',
       knowledge_step 1 ''check_precondition''
         (''Compare configured DNS servers against the organization's known-good ''
           @ ''DEVICE_BASELINE/ORGANIZATIONAL_POLICY DNS configuration. Do NOT assume the correct fix is a public ''
           @ ''resolver such as 8.8.8.8/1.1.1.1 just because resolution is failing -- see ''
           @ ''docs/KNOWLEDGE_BASE_AUDIT.md's explicit correction on this exact anti-pattern.''),
       knowledge_step 2 ''verify''
         (''Confirm resolution succeeds against the organization's actual configured resolvers, never a ''
           @ ''substituted public resolver.''),
       knowledge_step 3 ''escalate''
         ''No registered remediation skill exists for DNS reconfiguration; escalate to an operator/network team.''])"

definition SSH_AUTH_ISSUE :: reference_issue where
  "SSH_AUTH_ISSUE =
     (\<lparr>ib_issue_key = ''ssh_auth_failure'', ib_title = ''SSH authentication failure pattern'',
       ib_description = ''Repeated SSH authentication failures observed against a Linux endpoint.'',
       ib_category = ''auth'', ib_applicable_os = [''linux''], ib_applicable_software_versions = [],
       ib_evidence_requirements = [],
       ib_mitre_mappings = [\<lparr>mm_technique_id = ''T1110'', mm_tactic = ''Credential Access'', mm_mapping_confidence = 3 / 10,
        mm_mapping_evidence = (''A repeated-authentication-failure pattern is CONTEXTUAL metadata consistent with Brute Force, never ''
          @ ''proof on its own -- correlate with other signals via security_classification.classify_security_state ''
          @ ''before treating this as suspicious.'')\<rparr>], ib_cve_references = [],
       ib_escalation_policy = Some \<lparr>ep_condition = (''the failure pattern correlates with other suspicious signals (multiple source IPs, off-hours timing, ''
         @ ''targeted privileged accounts)''),
       ep_escalate_to_role = ''security_team'', ep_priority = ''high''\<rparr>,
       ib_source_id = None\<rparr>,
      [knowledge_step 0 ''collect_evidence''
         (''Collect authentication-failure evidence from whatever sources are available. No dedicated SSH ''
           @ ''auth-failure collector exists yet in linux_agent/collectors.py -- this workflow is ''
           @ ''diagnosis/escalation-only until such telemetry exists.''),
       knowledge_step 1 ''check_precondition''
         (''Distinguish a single failed login from a genuinely correlated pattern (repeated failures, multiple ''
           @ ''source IPs, off-hours timing) before treating this as security-relevant -- a single signal must never ''
           @ ''alone justify a SUSPICIOUS classification.''),
       knowledge_step 2 ''verify''
         ''No automated verification applies; this workflow is diagnosis/escalation only.'',
       knowledge_step 3 ''escalate''
         (''Escalate to security_team if the pattern correlates with other suspicious signals; otherwise escalate ''
           @ ''to an operator as a routine account-lockout issue.'')])"

definition HIGH_CPU_ISSUE :: reference_issue where
  "HIGH_CPU_ISSUE =
     (\<lparr>ib_issue_key = ''high_cpu_usage'', ib_title = ''Sustained high CPU usage'',
       ib_description = ''A device is showing sustained high CPU utilization.'',
       ib_category = ''performance'', ib_applicable_os = [''linux'', ''windows''], ib_applicable_software_versions = [],
       ib_evidence_requirements = [\<lparr>ev_name = ''cpu.utilization_percent'', ev_description = [], ev_required = True\<rparr>],
       ib_mitre_mappings = [], ib_cve_references = [],
       ib_escalation_policy = Some \<lparr>ep_condition = ''sustained high CPU with no operator-approved remediation available'',
       ep_escalate_to_role = ''operator'', ep_priority = ''normal''\<rparr>,
       ib_source_id = None\<rparr>,
      [knowledge_step 0 ''collect_evidence''
         ''Collect cpu.utilization_percent and, where available, top_processes_by_memory/process inventory.'',
       knowledge_step 1 ''check_precondition''
         (''Confirm sustained high utilization across multiple samples, not a single transient spike. High CPU ''
           @ ''ALONE -- even alongside a single other signal such as an open mining port -- is insufficient evidence ''
           @ ''of compromise; see docs/KNOWLEDGE_BASE_AUDIT.md's explicit correction.''),
       knowledge_step 2 ''verify''
         ''Re-check cpu.utilization_percent after the observation window to confirm the condition persists.'',
       knowledge_step 3 ''escalate''
         (''No generic process-management remediation skill is registered; escalate to an operator. If correlated ''
           @ ''with other genuinely suspicious signals, route through ''
           @ ''security_classification.classify_security_state rather than an automatic security escalation based on ''
           @ ''CPU alone.'')])"

definition UNAUTHORIZED_SOFTWARE_ISSUE :: reference_issue where
  "UNAUTHORIZED_SOFTWARE_ISSUE =
     (\<lparr>ib_issue_key = ''unauthorized_software_detected'', ib_title = ''Unauthorized software detected'',
       ib_description = ''Installed software was found that is not present in the organization's approved baseline.'',
       ib_category = ''security'', ib_applicable_os = [''linux'', ''windows''], ib_applicable_software_versions = [],
       ib_evidence_requirements = [\<lparr>ev_name = ''installed_applications'', ev_description = [], ev_required = True\<rparr>],
       ib_mitre_mappings = [\<lparr>mm_technique_id = ''T1204'', mm_tactic = ''Execution'', mm_mapping_confidence = 3 / 10,
        mm_mapping_evidence = (''Unauthorized software presence is contextual metadata, not proof of technique execution -- correlate ''
          @ ''with other signals before elevating security classification.'')\<rparr>], ib_cve_references = [],
       ib_escalation_policy = Some \<lparr>ep_condition = ''installed application is not present in the organizational baseline'',
       ep_escalate_to_role = ''security_team'', ep_priority = ''high''\<rparr>,
       ib_source_id = None\<rparr>,
      [knowledge_step 0 ''collect_evidence''
         ''Collect installed_applications inventory from device telemetry.'',
       knowledge_step 1 ''check_precondition''
         (''Compare against the organization's own approved-software baseline/allowlist ''
           @ ''(DEVICE_BASELINE/ORGANIZATIONAL_POLICY), not a generic public 'known good' list -- an application ''
           @ ''unfamiliar in general is not automatically unauthorized for this specific organization.''),
       knowledge_step 2 ''verify''
         ''No automated verification applies; this workflow is diagnosis/escalation only.'',
       knowledge_step 3 ''escalate''
         (''Escalate to security_team for review. Never autonomously uninstall software -- no such remediation ''
           @ ''skill is registered, and removing unknown software without review is exactly the kind of irreversible ''
           @ ''action this system never performs autonomously.'')])"

definition SECURITY_AGENT_HEALTH_ISSUE :: reference_issue where
  "SECURITY_AGENT_HEALTH_ISSUE =
     (\<lparr>ib_issue_key = ''security_agent_health_degraded'', ib_title = ''Security agent health degraded'',
       ib_description = ''A monitored security agent (EDR/AV) service is not in its expected running state.'',
       ib_category = ''security'', ib_applicable_os = [''linux'', ''windows''], ib_applicable_software_versions = [],
       ib_evidence_requirements = [\<lparr>ev_name = ''services[].active'', ev_description = [], ev_required = False\<rparr>],
       ib_mitre_mappings = [\<lparr>mm_technique_id = ''T1562.001'', mm_tactic = ''Defense Evasion'', mm_mapping_confidence = 2 / 5,
        mm_mapping_evidence = (''A disabled/degraded security agent is consistent with Impair Defenses: Disable or Modify Tools, but ''
          @ ''this alone does not confirm malicious tampering versus e.g. a legitimate update or crash -- correlate ''
          @ ''with other signals before treating as compromise.'')\<rparr>], ib_cve_references = [],
       ib_escalation_policy = Some \<lparr>ep_condition = ''the agent remains degraded after restart, or restart is not applicable'',
       ep_escalate_to_role = ''security_team'', ep_priority = ''critical''\<rparr>,
       ib_source_id = None\<rparr>,
      [knowledge_step 0 ''collect_evidence''
         ''Collect the security agent's service health status, if it is registered as a monitored service.'',
       knowledge_step 1 ''check_precondition''
         (''Distinguish an intentional/approved maintenance state (e.g. a scheduled agent update) from an ''
           @ ''unexpected disablement before treating this as security-relevant.''),
       (knowledge_step 2 ''remediate''
         ''Restart the security agent service, if it is registered as a monitored systemd/Windows service.'')
         \<lparr>dt_remediation_skill_id := Some ''service.restart'', dt_rollback_skill_id := Some ''service.restore''\<rparr>,
       knowledge_step 3 ''verify''
         ''Confirm the security agent service is active/running after restart.'',
       knowledge_step 4 ''escalate''
         (''If the agent remains down after restart, or the degradation is a process crash rather than a stopped ''
           @ ''service, escalate to security_team immediately. A single degraded-health signal alone must never be ''
           @ ''treated as CONFIRMED_COMPROMISE -- that classification is reachable only via an explicit, ''
           @ ''independently-set authoritative confirmation (see security_classification.py).'')])"

definition ISSUES :: "reference_issue list" where
  "ISSUES =
     [disk_space_issue ''windows_disk_space_low'' ''windows'' ''Windows disk space low'',
      disk_space_issue ''linux_disk_space_low'' ''linux'' ''Linux disk space low'',
      service_failure_issue ''windows_service_failure'' ''windows'' ''Windows service failure''
        [\<lparr>ev_name = ''services[].state'', ev_description = [], ev_required = True\<rparr>,
         \<lparr>ev_name = ''services[].exists'', ev_description = [], ev_required = True\<rparr>],
      service_failure_issue ''linux_systemd_service_failure'' ''linux'' ''Linux systemd service failure''
        [\<lparr>ev_name = ''services[].active'', ev_description = [], ev_required = True\<rparr>,
         \<lparr>ev_name = ''services[].sub'', ev_description = [], ev_required = True\<rparr>],
      WINDOWS_UPDATE_ISSUE, DNS_ISSUE, SSH_AUTH_ISSUE, HIGH_CPU_ISSUE, UNAUTHORIZED_SOFTWARE_ISSUE,
      SECURITY_AGENT_HEALTH_ISSUE]"

section \<open>Inserting them\<close>

definition reference_source :: "time \<Rightarrow> string \<Rightarrow> KnowledgeSourceRow" where
  "reference_source now source_id =
     \<lparr>ks_id = source_id, ks_source_organization = ''Helpdesktool Engineering (internal reference knowledge)'',
      ks_source_url = [], ks_retrieval_date = now, ks_last_verified_date = None, ks_source_reliability = 3 / 4,
      ks_deprecated = False, ks_superseded_by = None, ks_created_by = SYSTEM_ACTOR, ks_created_at = now\<rparr>"

definition reference_row :: "server \<Rightarrow> time \<Rightarrow> string \<Rightarrow> IssueDefinitionCreate \<Rightarrow> string \<Rightarrow> IssueDefinitionRow" where
  "reference_row sv now source_id b row_id =
     \<lparr>is_id = row_id, is_issue_key = ib_issue_key b, is_version = 1, is_title = ib_title b,
      is_description = ib_description b, is_category = ib_category b, is_applicable_os = ib_applicable_os b,
      is_applicable_software_versions = [],
      is_evidence_requirements = map evidence_json (ib_evidence_requirements b),
      is_mitre_mappings = map mitre_json (ib_mitre_mappings b), is_cve_references = map cve_json (ib_cve_references b),
      is_escalation_policy = map_option escalation_dict (ib_escalation_policy b), is_source_id = Some source_id,
      is_validated = True,
      is_content_hash = compute_issue_definition_hash (sv_host sv) (ib_issue_key b) 1 (ib_category b) (set (ib_applicable_os b))
        (map (\<lambda>e. (ev_name e, ev_required e)) (ib_evidence_requirements b)) (map mm_technique_id (ib_mitre_mappings b))
        (map ce_cve_id (ib_cve_references b)),
      is_active = True, is_created_by = SYSTEM_ACTOR, is_created_at = now\<rparr>"

definition add_reference :: "server \<Rightarrow> time \<Rightarrow> string \<Rightarrow> reference_issue \<Rightarrow> db \<Rightarrow> db" where
  "add_reference sv now source_id issue d =
     (let (issue_id, d1) = new_id sv d;
          (workflow_id, d2) = new_id sv d1
      in add_steps sv workflow_id (snd issue)
           (d2\<lparr>issue_definitions := issue_definitions d2 @ [reference_row sv now source_id (fst issue) issue_id],
               diagnostic_workflows := diagnostic_workflows d2 @
                 [\<lparr>dw_id = workflow_id, dw_issue_definition_id = issue_id, dw_version = 1, dw_active = True,
                   dw_created_by = SYSTEM_ACTOR, dw_created_at = now\<rparr>]\<rparr>))"

definition upgrade_0013 :: "server \<Rightarrow> time \<Rightarrow> db \<Rightarrow> db" where
  "upgrade_0013 sv now d =
     (let (source_id, d1) = new_id sv d
      in fold (add_reference sv now source_id) ISSUES
           (d1\<lparr>knowledge_sources := knowledge_sources d1 @ [reference_source now source_id]\<rparr>))"

section \<open>The DNS workflow\<close>

text \<open>\<open>scalar_one()\<close>: there must be exactly one such row.\<close>

definition workflow_id_of :: "string \<Rightarrow> db \<Rightarrow> string option" where
  "workflow_id_of key d =
     (case filter (\<lambda>w. dw_active w \<and> (\<exists>i \<in> set (issue_definitions d). is_id i = dw_issue_definition_id w \<and> is_issue_key i = key))
             (diagnostic_workflows d) of
        [w] \<Rightarrow> Some (dw_id w) | _ \<Rightarrow> None)"

definition upgrade_0017 :: "server \<Rightarrow> db \<Rightarrow> db option" where
  "upgrade_0017 sv d =
     (case workflow_id_of ''dns_resolution_failure'' d of
        None \<Rightarrow> None
      | Some workflow_id \<Rightarrow>
          let moved = update_where (\<lambda>s. ds_workflow_id s = workflow_id \<and> ds_step_order s = 3)
                (\<lambda>s. s\<lparr>ds_step_order := 4, ds_description :=
                   ''Escalate to an operator/network team if configured DNS servers ''
                   @ ''deviate from the organization's baseline, or if resolution still ''
                   @ ''fails after a cache flush -- no registered skill can reconfigure DNS ''
                   @ ''servers themselves.''\<rparr>) (diagnostic_steps d);
              remedied = update_where (\<lambda>s. ds_workflow_id s = workflow_id \<and> ds_step_order s = 2)
                (\<lambda>s. s\<lparr>ds_step_type := ''remediate'', ds_description :=
                   ''Configured DNS servers already match the organization's known-good ''
                   @ ''baseline, but resolution is still failing -- attempt dns.flush_cache ''
                   @ ''to rule out a stale local resolver cache before escalating. This ''
                   @ ''never reconfigures DNS servers themselves.'',
                   ds_remediation_skill_id := Some ''dns.flush_cache''\<rparr>) moved;
              (step_id, d1) = new_id sv d
          in Some (d1\<lparr>diagnostic_steps := remedied @
               [step_row workflow_id (knowledge_step 3 ''verify''
                  (''Confirm resolution succeeds against the organization's actual ''
                   @ ''configured resolvers after the cache flush, never a substituted ''
                   @ ''public resolver.'')) step_id]\<rparr>))"

text \<open>The migrations in their order, on an empty database.\<close>

definition fresh_database :: "server \<Rightarrow> time \<Rightarrow> db option" where
  "fresh_database sv now = upgrade_0017 sv (upgrade_0016 sv now (upgrade_0013 sv now (upgrade_0008 sv now empty_db)))"

section \<open>The reference issues are well formed\<close>

definition step_ok :: "string set \<Rightarrow> string \<Rightarrow> int \<Rightarrow> string option \<Rightarrow> bool" where
  "step_ok known type order skill \<longleftrightarrow> type \<in> STEP_TYPES \<and> 0 \<le> order
     \<and> (case skill of None \<Rightarrow> type \<noteq> ''remediate'' | Some i \<Rightarrow> i \<in> known)"

definition reference_ok :: "reference_issue \<Rightarrow> bool" where
  "reference_ok x \<longleftrightarrow> is_ok (issue_of_body (fst x) 1)
     \<and> list_all (\<lambda>s. step_ok {''service.restart''} (dt_step_type s) (dt_step_order s) (dt_remediation_skill_id s)) (snd x)"

lemmas reference_defs = disk_space_issue_def service_failure_issue_def WINDOWS_UPDATE_ISSUE_def DNS_ISSUE_def SSH_AUTH_ISSUE_def
  HIGH_CPU_ISSUE_def UNAUTHORIZED_SOFTWARE_ISSUE_def SECURITY_AGENT_HEALTH_ISSUE_def

lemma ISSUES_ok: "list_all reference_ok ISSUES"
  by code_simp

lemma ISSUES_keys: "distinct (map (ib_issue_key \<circ> fst) ISSUES)"
  by code_simp

lemma traverse_same:
  assumes "\<And>x y. f x = Inr y \<Longrightarrow> y = x"
  shows "traverse f xs = Inr ys \<Longrightarrow> ys = xs"
  using assms by (induction xs arbitrary: ys) (auto split: sum.splits)

lemma issue_of_body_hash:
  assumes "issue_of_body b v = Inr i"
  shows "content_hash h i = compute_issue_definition_hash h (ib_issue_key b) v (ib_category b) (set (ib_applicable_os b))
        (map (\<lambda>e. (ev_name e, ev_required e)) (ib_evidence_requirements b)) (map mm_technique_id (ib_mitre_mappings b))
        (map ce_cve_id (ib_cve_references b))"
proof -
  have same: "traverse EvidenceRequirement_init es = Inr es' \<Longrightarrow> es' = es"
    "traverse MitreMapping_init ms = Inr ms' \<Longrightarrow> ms' = ms" "traverse CveReference_init cs = Inr cs' \<Longrightarrow> cs' = cs"
    for es es' ms ms' cs cs'
    by (erule traverse_same [rotated];
      simp add: EvidenceRequirement_init_def MitreMapping_init_def CveReference_init_def split: if_splits)+
  from assms obtain evidence mitre cve where t: "traverse EvidenceRequirement_init (ib_evidence_requirements b) = Inr evidence"
    "traverse MitreMapping_init (ib_mitre_mappings b) = Inr mitre" "traverse CveReference_init (ib_cve_references b) = Inr cve"
    and i: "id_issue_key i = ib_issue_key b" "id_version i = v" "id_category i = ib_category b"
    "id_applicable_os i = set (ib_applicable_os b)" "id_evidence_requirements i = evidence" "id_mitre_mappings i = mitre"
    "id_cve_references i = cve"
    by (auto simp: issue_of_body_def IssueDefinition_init_def split: sum.splits if_splits)
  from same(1) [OF t(1)] same(2) [OF t(2)] same(3) [OF t(3)] show ?thesis by (simp add: content_hash_def i)
qed

lemma reference_row_intact:
  assumes "reference_ok x"
  shows "row_intact sv (reference_row sv now sid (fst x) rid)"
proof -
  let ?b = "(fst x)\<lparr>ib_source_id := Some sid, ib_applicable_software_versions := []\<rparr>"
  have "issue_definition_from_row (reference_row sv now sid (fst x) rid) = issue_of_body ?b 1"
    by (simp add: issue_definition_from_row_def issue_of_body_def reference_row_def traverse_map cong: sum.case_cong)
  moreover from assms have "is_ok (issue_of_body ?b 1)"
    by (auto simp: reference_ok_def issue_of_body_def IssueDefinition_init_def is_ok_iff split: sum.splits if_splits)
  then obtain i where "issue_of_body ?b 1 = Inr i" by (auto simp: is_ok_iff)
  moreover from issue_of_body_hash [OF this] have "content_hash (sv_host sv) i = is_content_hash (reference_row sv now sid (fst x) rid)"
    by (simp add: reference_row_def)
  ultimately show ?thesis by (simp add: row_intact_def)
qed

section \<open>The fresh database\<close>

text \<open>What holds after each issue: fresh identifiers, one active workflow for each issue, and steps that could be registered.\<close>

definition reference_inv :: "server \<Rightarrow> db \<Rightarrow> bool" where
  "reference_inv sv d \<longleftrightarrow> knowledge_ok sv d
     \<and> (\<forall>r \<in> set (issue_definitions d). \<exists>n < next_id d. is_id r = sv_uuid sv n)
     \<and> distinct (map is_issue_key (issue_definitions d))
     \<and> map dw_issue_definition_id (diagnostic_workflows d) = map is_id (issue_definitions d)
     \<and> (\<forall>w \<in> set (diagnostic_workflows d). dw_active w)
     \<and> (\<forall>s \<in> set (diagnostic_steps d). step_ok {''service.restart''} (ds_step_type s) (ds_step_order s) (ds_remediation_skill_id s))"

lemma add_steps_more:
  "issue_definitions (add_steps sv w ss d) = issue_definitions d"
  "diagnostic_workflows (add_steps sv w ss d) = diagnostic_workflows d" "next_id (add_steps sv w ss d) = next_id d + length ss"
  by (induction ss arbitrary: d) (simp_all add: case_prod_beta)

lemma active_newest_snoc:
  assumes "active_newest rows" and "is_issue_key r \<notin> is_issue_key ` set rows"
  shows "active_newest (rows @ [r])"
  using assms by (fastforce simp: active_newest_def image_iff)

lemma add_reference_inv:
  assumes inj: "inj (sv_uuid sv)" and inv: "reference_inv sv d" and x: "reference_ok x"
    and key: "ib_issue_key (fst x) \<notin> is_issue_key ` set (issue_definitions d)"
  shows "reference_inv sv (add_reference sv now sid x d)"
    and "map is_issue_key (issue_definitions (add_reference sv now sid x d))
       = map is_issue_key (issue_definitions d) @ [ib_issue_key (fst x)]"
    and "skills (add_reference sv now sid x d) = skills d"
proof -
  let ?d = "add_reference sv now sid x d" and ?row = "reference_row sv now sid (fst x) (sv_uuid sv (next_id d))"
  let ?w = "sv_uuid sv (Suc (next_id d))"
  let ?base = "d\<lparr>next_id := Suc (Suc (next_id d)), issue_definitions := issue_definitions d @ [?row],
      diagnostic_workflows := diagnostic_workflows d @ [\<lparr>dw_id = ?w, dw_issue_definition_id = sv_uuid sv (next_id d), dw_version = 1,
        dw_active = True, dw_created_by = SYSTEM_ACTOR, dw_created_at = now\<rparr>]\<rparr>"
  have d: "?d = add_steps sv ?w (snd x) ?base" by (simp add: add_reference_def case_prod_beta)
  have issues: "issue_definitions ?d = issue_definitions d @ [?row]" and nexts: "next_id d < next_id ?d"
    by (simp_all add: d add_steps_more)
  have row: "is_id ?row = sv_uuid sv (next_id d)" "is_issue_key ?row = ib_issue_key (fst x)" by (simp_all add: reference_row_def)
  have fresh: "sv_uuid sv (next_id d) \<notin> is_id ` set (issue_definitions d)"
    using inv inj by (fastforce simp: reference_inv_def dest: injD)
  have ok: "knowledge_ok sv ?d"
    using inv x key fresh unfolding knowledge_ok_def reference_inv_def issues
    by (auto simp: row reference_row_intact intro!: active_newest_snoc)
  obtain new where new: "diagnostic_steps ?d = diagnostic_steps d @ new"
    and l: "list_all2 (\<lambda>s r. \<exists>i. r = step_row ?w s i) (snd x) new"
    using add_steps_rows [of sv ?w "snd x" ?base] by (auto simp: d)
  from l x have "\<forall>s \<in> set new. step_ok {''service.restart''} (ds_step_type s) (ds_step_order s) (ds_remediation_skill_id s)"
    unfolding reference_ok_def by (induction rule: list_all2_induct) (auto simp: step_row_def)
  with inv new have steps: "\<forall>s \<in> set (diagnostic_steps ?d). step_ok {''service.restart''} (ds_step_type s) (ds_step_order s) (ds_remediation_skill_id s)"
    by (auto simp: reference_inv_def)
  have flows: "map dw_issue_definition_id (diagnostic_workflows ?d) = map is_id (issue_definitions ?d)"
    "\<forall>w \<in> set (diagnostic_workflows ?d). dw_active w"
    using inv by (auto simp: reference_inv_def issues row d add_steps_more)
  have ids: "\<forall>r \<in> set (issue_definitions ?d). \<exists>n < next_id ?d. is_id r = sv_uuid sv n"
    using inv nexts unfolding issues reference_inv_def by (auto simp: row) (meson less_trans)
  have keys: "map is_issue_key (issue_definitions ?d) = map is_issue_key (issue_definitions d) @ [ib_issue_key (fst x)]"
    by (simp add: issues row)
  then show "map is_issue_key (issue_definitions ?d) = map is_issue_key (issue_definitions d) @ [ib_issue_key (fst x)]" .
  from inv key have "distinct (map is_issue_key (issue_definitions ?d))" unfolding keys by (simp add: reference_inv_def)
  with ok ids flows steps show "reference_inv sv ?d" by (simp add: reference_inv_def)
  show "skills ?d = skills d" by (simp add: d add_steps_rest)
qed

lemma fold_reference_inv:
  assumes "inj (sv_uuid sv)" and "reference_inv sv d" and "list_all reference_ok xs"
    and "distinct (map is_issue_key (issue_definitions d) @ map (ib_issue_key \<circ> fst) xs)"
  shows "reference_inv sv (fold (add_reference sv now sid) xs d)
    \<and> map is_issue_key (issue_definitions (fold (add_reference sv now sid) xs d))
       = map is_issue_key (issue_definitions d) @ map (ib_issue_key \<circ> fst) xs
    \<and> skills (fold (add_reference sv now sid) xs d) = skills d"
  using assms(2-)
proof (induction xs arbitrary: d)
  case (Cons x xs)
  then have x: "reference_ok x" "ib_issue_key (fst x) \<notin> is_issue_key ` set (issue_definitions d)" by auto
  note A = add_reference_inv [OF assms(1) Cons.prems(1) x, of now sid]
  from Cons.prems have "distinct (map is_issue_key (issue_definitions (add_reference sv now sid x d)) @ map (ib_issue_key \<circ> fst) xs)"
    unfolding A(2) by (auto simp: comp_def)
  from Cons.IH [OF A(1) _ this] Cons.prems(2) A(2,3) show ?case by simp
qed simp

lemma filter_one: "distinct xs \<Longrightarrow> x \<in> set xs \<Longrightarrow> filter (\<lambda>y. y = x) xs = [x]"
  by (induction xs) (auto simp: filter_empty_conv)

lemma one_workflow:
  assumes flows: "map f ws = map g rows" and ids: "distinct (map g rows)" and keys: "distinct (map k rows)" and key: "x \<in> k ` set rows"
  shows "\<exists>w. filter (\<lambda>w. \<exists>i \<in> set rows. g i = f w \<and> k i = x) ws = [w]"
proof -
  let ?Q = "\<lambda>y. \<exists>i \<in> set rows. g i = y \<and> k i = x"
  have "length (filter (\<lambda>w. ?Q (f w)) ws) = length (filter ?Q (map f ws))" by (simp add: filter_map comp_def)
  also have "\<dots> = length (filter (\<lambda>r. ?Q (g r)) rows)" unfolding flows by (simp add: filter_map comp_def)
  also have "filter (\<lambda>r. ?Q (g r)) rows = filter (\<lambda>r. k r = x) rows"
    using ids by (intro filter_cong) (auto simp: distinct_map dest: inj_onD)
  also have "length (filter (\<lambda>r. k r = x) rows) = 1"
  proof -
    have "length (filter (\<lambda>y. y = x) (map k rows)) = 1" using filter_one [of "map k rows" x] keys key by simp
    then show ?thesis by (simp add: filter_map comp_def)
  qed
  finally show ?thesis by (simp add: length_Suc_conv)
qed

lemma seed_verifies:
  "verified_manifest (sv_host sv) (seed_row sv now (seed_manifest i r t b [] c) [] rid) = Inr (seed_manifest i r t b [] c)"
  "verified_manifest (sv_host sv) (seed_row sv now (seed_manifest i r t b [(''service'', \<lparr>ps_type = ''string'', ps_required = True\<rparr>)] c)
     [(''service'', JObj [(''type'', JStr ''string''), (''required'', JBool True)])] rid)
   = Inr (seed_manifest i r t b [(''service'', \<lparr>ps_type = ''string'', ps_required = True\<rparr>)] c)"
proof -
  have c: "parse_CommandType ''low_risk_change'' = Some LOW_RISK_CHANGE" using parse_CommandType_value [of LOW_RISK_CHANGE] by simp
  have p: "parse_spec (JObj [(''type'', JStr ''string''), (''required'', JBool True)]) = Some \<lparr>ps_type = ''string'', ps_required = True\<rparr>"
    by (simp add: parse_spec_def dict_get_def ParameterSpec_init_def ALLOWED_PARAMETER_TYPES_def)
  show "verified_manifest (sv_host sv) (seed_row sv now (seed_manifest i r t b [] c) [] rid) = Inr (seed_manifest i r t b [] c)"
    and "verified_manifest (sv_host sv) (seed_row sv now (seed_manifest i r t b [(''service'', \<lparr>ps_type = ''string'', ps_required = True\<rparr>)] c)
     [(''service'', JObj [(''type'', JStr ''string''), (''required'', JBool True)])] rid)
   = Inr (seed_manifest i r t b [(''service'', \<lparr>ps_type = ''string'', ps_required = True\<rparr>)] c)" for c
    by (simp_all add: verified_manifest_def manifest_from_row_def seed_row_def seed_manifest_def c p)
qed

text \<open>What the skills leave alone.\<close>

lemma insert_skill_frame [simp]:
  "issue_definitions (insert_skill sv now m ps d) = issue_definitions d"
  "diagnostic_workflows (insert_skill sv now m ps d) = diagnostic_workflows d"
  "diagnostic_steps (insert_skill sv now m ps d) = diagnostic_steps d"
  "skills (insert_skill sv now m ps d) = skills d @ [seed_row sv now m ps (sv_uuid sv (next_id d))]"
  by (simp_all add: insert_skill_def case_prod_beta)

lemma reference_inv_empty: "reference_inv sv (upgrade_0008 sv now empty_db)"
  by (simp add: reference_inv_def knowledge_ok_def active_newest_def upgrade_0008_def) (simp add: empty_db_def)

lemma dns_key: "''dns_resolution_failure'' \<in> ib_issue_key ` fst ` set ISSUES"
  by code_simp

lemma step_ok_mono: "step_ok a t n k \<Longrightarrow> a \<subseteq> b \<Longrightarrow> step_ok b t n k"
  by (auto simp: step_ok_def split: option.splits)

lemma update_where_all:
  assumes "s \<in> set (update_where P f rows)" and "\<And>r. r \<in> set rows \<Longrightarrow> Q r" and "\<And>r. Q r \<Longrightarrow> Q (f r)"
  shows "Q s"
  using assms by (auto simp: set_update_where)

lemma upgrade_0017_steps:
  assumes up: "upgrade_0017 sv d = Some d'"
    and ok: "\<And>s. s \<in> set (diagnostic_steps d) \<Longrightarrow> step_ok known (ds_step_type s) (ds_step_order s) (ds_remediation_skill_id s)"
    and dns: "''dns.flush_cache'' \<in> known" and s: "s \<in> set (diagnostic_steps d')"
  shows "step_ok known (ds_step_type s) (ds_step_order s) (ds_remediation_skill_id s)"
proof -
  let ?Q = "\<lambda>s. step_ok known (ds_step_type s) (ds_step_order s) (ds_remediation_skill_id s)"
  from up obtain P1 P2 t1 t2 w t3 rid where d': "diagnostic_steps d' =
      update_where P2 (\<lambda>s. s\<lparr>ds_step_type := ''remediate'', ds_description := t2, ds_remediation_skill_id := Some ''dns.flush_cache''\<rparr>)
        (update_where P1 (\<lambda>s. s\<lparr>ds_step_order := 4, ds_description := t1\<rparr>) (diagnostic_steps d))
      @ [step_row w (knowledge_step 3 ''verify'' t3) rid]"
    unfolding upgrade_0017_def Let_def case_prod_beta by (cases "workflow_id_of ''dns_resolution_failure'' d") auto
  have row: "?Q (step_row w (knowledge_step 3 ''verify'' t3) rid)"
    by (simp add: step_row_def knowledge_step_def step_ok_def STEP_TYPES_def)
  have "?Q r" if "r \<in> set (update_where P1 (\<lambda>s. s\<lparr>ds_step_order := 4, ds_description := t1\<rparr>) (diagnostic_steps d))" for r
    by (rule update_where_all [OF that, of ?Q, OF ok]) (auto simp: step_ok_def)
  note moved = this
  have "?Q r" if "r \<in> set (update_where P2 (\<lambda>s. s\<lparr>ds_step_type := ''remediate'', ds_description := t2,
        ds_remediation_skill_id := Some ''dns.flush_cache''\<rparr>)
      (update_where P1 (\<lambda>s. s\<lparr>ds_step_order := 4, ds_description := t1\<rparr>) (diagnostic_steps d)))" for r
    by (rule update_where_all [OF that, of ?Q, OF moved]) (auto simp: step_ok_def STEP_TYPES_def dns)
  with row s show ?thesis unfolding d' by auto
qed

text \<open>The skills of a fresh database, and what the registry loads them as.\<close>

definition seeded_skills :: "server \<Rightarrow> time \<Rightarrow> string \<Rightarrow> string \<Rightarrow> string \<Rightarrow> SkillManifestRow list" where
  "seeded_skills sv now i j k =
     [seed_row sv now (seed_manifest ''diagnostics.collect'' RISK_READ_ONLY 30 None [] True) [] i,
      seed_row sv now (seed_manifest ''service.restart'' RISK_MEDIUM 30 (Some ''service.restore'')
         [(''service'', \<lparr>ps_type = ''string'', ps_required = True\<rparr>)] True)
       [(''service'', JObj [(''type'', JStr ''string''), (''required'', JBool True)])] j,
      seed_row sv now (seed_manifest ''dns.flush_cache'' RISK_LOW 15 None [] False) [] k]"

lemma seeded_skills_load:
  assumes "skills d = seeded_skills sv now i j k"
  shows "load_active_skill_manifests sv d = Inr [seed_manifest ''diagnostics.collect'' RISK_READ_ONLY 30 None [] True,
      seed_manifest ''service.restart'' RISK_MEDIUM 30 (Some ''service.restore'') [(''service'', \<lparr>ps_type = ''string'', ps_required = True\<rparr>)] True,
      seed_manifest ''dns.flush_cache'' RISK_LOW 15 None [] False]"
  by (simp add: load_active_skill_manifests_def assms seeded_skills_def seed_verifies) (simp add: seed_row_def seed_verifies [unfolded seed_row_def])

lemma reference_dns_workflow:
  assumes inv: "reference_inv sv d" and key: "k \<in> is_issue_key ` set (issue_definitions d)"
  shows "\<exists>w. workflow_id_of k d = Some w"
proof -
  from inv have "map dw_issue_definition_id (diagnostic_workflows d) = map is_id (issue_definitions d)"
    "distinct (map is_id (issue_definitions d))" "distinct (map is_issue_key (issue_definitions d))"
    by (simp_all add: reference_inv_def knowledge_ok_def)
  from one_workflow [OF this key] obtain w where
    "filter (\<lambda>w. \<exists>i \<in> set (issue_definitions d). is_id i = dw_issue_definition_id w \<and> is_issue_key i = k) (diagnostic_workflows d) = [w]"
    by blast
  moreover have "filter (\<lambda>w. dw_active w \<and> P w) (diagnostic_workflows d) = filter P (diagnostic_workflows d)" for P
    using inv by (intro filter_cong) (auto simp: reference_inv_def)
  ultimately show ?thesis by (simp add: workflow_id_of_def)
qed

text \<open>The rollback skills the steps name, which nothing checks.\<close>

lemma add_reference_rollbacks:
  "map ds_rollback_skill_id (diagnostic_steps (add_reference sv now sid x d))
     = map ds_rollback_skill_id (diagnostic_steps d) @ map dt_rollback_skill_id (snd x)"
proof -
  obtain w base where d: "add_reference sv now sid x d = add_steps sv w (snd x) base" "diagnostic_steps base = diagnostic_steps d"
    by (simp add: add_reference_def case_prod_beta)
  obtain new where new: "diagnostic_steps (add_steps sv w (snd x) base) = diagnostic_steps base @ new"
    and l: "list_all2 (\<lambda>s r. \<exists>i. r = step_row w s i) (snd x) new"
    using add_steps_rows [of sv w "snd x" base] by blast
  from l have "map ds_rollback_skill_id new = map dt_rollback_skill_id (snd x)"
    by (induction rule: list_all2_induct) (auto simp: step_row_def)
  with d new show ?thesis by simp
qed

lemma fold_reference_rollbacks:
  "map ds_rollback_skill_id (diagnostic_steps (fold (add_reference sv now sid) xs d))
     = map ds_rollback_skill_id (diagnostic_steps d) @ concat (map (map dt_rollback_skill_id \<circ> snd) xs)"
  by (induction xs arbitrary: d) (simp_all add: add_reference_rollbacks)

lemma map_update_where_same: "(\<And>r. g (f r) = g r) \<Longrightarrow> map g (update_where P f rows) = map g rows"
  by (simp add: update_where_def)

lemma upgrade_0017_rollbacks:
  assumes "upgrade_0017 sv d = Some d'"
  shows "map ds_rollback_skill_id (diagnostic_steps d') = map ds_rollback_skill_id (diagnostic_steps d) @ [None]"
  using assms unfolding upgrade_0017_def Let_def case_prod_beta
  by (cases "workflow_id_of ''dns_resolution_failure'' d") (auto simp: map_update_where_same step_row_def knowledge_step_def)

lemma ISSUES_rollbacks: "set (concat (map (map dt_rollback_skill_id \<circ> snd) ISSUES)) = {None, Some ''service.restore''}"
  by code_simp

text \<open>
  C27.  A fresh database is consistent.  If identifiers are never given twice, all data migrations apply to an
  empty database, one after the other; then the skill registry loads without an integrity failure and has the
  three built-in skills, every one of the ten reference issues passes the integrity check of reading, and every step of
  the workflows has a known type, remediates only with a registered skill, and names one if it is a remediation.
  Rollbacks are another matter: the only rollback skill that steps name, and some do, is \<open>service.restore\<close>, which is not in the registry.
\<close>

theorem fresh_database_consistent:
  assumes "inj (sv_uuid sv)"
  shows "\<exists>d manifests. fresh_database sv now = Some d \<and> load_active_skill_manifests sv d = Inr manifests
     \<and> map mf_skill_id manifests = [''diagnostics.collect'', ''service.restart'', ''dns.flush_cache'']
     \<and> knowledge_ok sv d \<and> map is_issue_key (issue_definitions d) = map (ib_issue_key \<circ> fst) ISSUES
     \<and> (\<forall>s \<in> set (diagnostic_steps d). step_ok (mf_skill_id ` set manifests) (ds_step_type s) (ds_step_order s)
          (ds_remediation_skill_id s))
     \<and> ds_rollback_skill_id ` set (diagnostic_steps d) = {None, Some ''service.restore''}
     \<and> ''service.restore'' \<notin> mf_skill_id ` set manifests"
proof -
  let ?d0 = "upgrade_0008 sv now empty_db" and ?d1 = "upgrade_0013 sv now (upgrade_0008 sv now empty_db)"
  let ?sid = "sv_uuid sv (next_id ?d0)"
  let ?base = "?d0\<lparr>next_id := Suc (next_id ?d0), knowledge_sources := knowledge_sources ?d0 @ [reference_source now ?sid]\<rparr>"
  have d1: "?d1 = fold (add_reference sv now ?sid) ISSUES ?base" by (simp add: upgrade_0013_def case_prod_beta)
  have e: "issue_definitions ?base = []" "diagnostic_workflows ?base = []" "diagnostic_steps ?base = []" "skills ?base = skills ?d0"
    by (simp_all add: upgrade_0008_def empty_db_def)
  have "reference_inv sv ?base" by (simp add: reference_inv_def knowledge_ok_def active_newest_def e del: select_convs)
  from fold_reference_inv [OF assms this ISSUES_ok, of now ?sid] ISSUES_keys
  have inv: "reference_inv sv ?d1" and keys: "map is_issue_key (issue_definitions ?d1) = map (ib_issue_key \<circ> fst) ISSUES"
    and sk: "skills ?d1 = skills ?d0"
    unfolding d1 e by simp_all
  let ?d2 = "upgrade_0016 sv now ?d1"
  have d2: "issue_definitions ?d2 = issue_definitions ?d1" "diagnostic_workflows ?d2 = diagnostic_workflows ?d1"
    "diagnostic_steps ?d2 = diagnostic_steps ?d1" by (simp_all add: upgrade_0016_def)
  have key: "''dns_resolution_failure'' \<in> is_issue_key ` set (issue_definitions ?d1)"
    using dns_key arg_cong [OF keys, of set] by (simp add: image_comp)
  from reference_dns_workflow [OF inv key] obtain w where w: "workflow_id_of ''dns_resolution_failure'' ?d2 = Some w"
    by (auto simp: workflow_id_of_def d2)
  then obtain d where d: "fresh_database sv now = Some d" and f: "upgrade_0017 sv ?d2 = Some d"
    by (simp add: fresh_database_def upgrade_0017_def case_prod_beta Let_def)
  have same: "issue_definitions d = issue_definitions ?d1" "skills d = skills ?d2"
    using f by (auto simp: upgrade_0017_def w case_prod_beta Let_def d2)
  have steps: "step_ok {''service.restart'', ''dns.flush_cache''} (ds_step_type s) (ds_step_order s) (ds_remediation_skill_id s)"
    if "s \<in> set (diagnostic_steps d)" for s
  proof (rule upgrade_0017_steps [OF f _ _ that])
    fix s assume "s \<in> set (diagnostic_steps ?d2)"
    with inv have "step_ok {''service.restart''} (ds_step_type s) (ds_step_order s) (ds_remediation_skill_id s)"
      by (auto simp: reference_inv_def d2)
    then show "step_ok {''service.restart'', ''dns.flush_cache''} (ds_step_type s) (ds_step_order s) (ds_remediation_skill_id s)"
      by (rule step_ok_mono) simp
  qed simp
  have sm: "skills d = seeded_skills sv now (sv_uuid sv 0) (sv_uuid sv 1) (sv_uuid sv (next_id ?d1))"
    unfolding same by (simp add: upgrade_0016_def sk seeded_skills_def)
      (simp add: upgrade_0008_def empty_db_def insert_skill_def case_prod_beta)
  let ?ms = "[seed_manifest ''diagnostics.collect'' RISK_READ_ONLY 30 None [] True,
      seed_manifest ''service.restart'' RISK_MEDIUM 30 (Some ''service.restore'') [(''service'', \<lparr>ps_type = ''string'', ps_required = True\<rparr>)] True,
      seed_manifest ''dns.flush_cache'' RISK_LOW 15 None [] False]"
  have "load_active_skill_manifests sv d = Inr ?ms" using sm by (rule seeded_skills_load)
  moreover have "map mf_skill_id ?ms = [''diagnostics.collect'', ''service.restart'', ''dns.flush_cache'']" by (simp add: seed_manifest_def)
  moreover have "knowledge_ok sv d" using inv same(1) by (simp add: reference_inv_def knowledge_ok_def)
  moreover have "step_ok (mf_skill_id ` set ?ms) (ds_step_type s) (ds_step_order s) (ds_remediation_skill_id s)"
    if "s \<in> set (diagnostic_steps d)" for s
    using steps [OF that] by (auto simp: step_ok_def seed_manifest_def split: option.splits)
  moreover have "map is_issue_key (issue_definitions d) = map (ib_issue_key \<circ> fst) ISSUES" using keys same(1) by simp
  moreover have "ds_rollback_skill_id ` set (diagnostic_steps d) = {None, Some ''service.restore''}"
  proof -
    have "map ds_rollback_skill_id (diagnostic_steps d) = concat (map (map dt_rollback_skill_id \<circ> snd) ISSUES) @ [None]"
      unfolding upgrade_0017_rollbacks [OF f] d2 unfolding d1 fold_reference_rollbacks e by simp
    from arg_cong [OF this, of set] ISSUES_rollbacks show ?thesis by (simp del: set_concat)
  qed
  moreover have "''service.restore'' \<notin> mf_skill_id ` set ?ms" by (simp add: seed_manifest_def)
  ultimately show ?thesis using d by (intro exI [of _ d] exI [of _ ?ms] conjI ballI) (assumption | simp only:)+
qed

definition counting_server :: server where
  "counting_server = demo_server\<lparr>sv_uuid := \<lambda>n. replicate n CHR ''i''\<rparr>"

theorem fresh_database_consistent_witness:
  "\<exists>d. fresh_database counting_server 5 = Some d \<and> length (issue_definitions d) = 10"
proof -
  have "inj (sv_uuid counting_server)" by (auto simp: counting_server_def inj_def dest: arg_cong [where f = length])
  from fresh_database_consistent [OF this, of 5] obtain d where d: "fresh_database counting_server 5 = Some d"
    and k: "map is_issue_key (issue_definitions d) = map (ib_issue_key \<circ> fst) ISSUES" by blast
  from arg_cong [OF k, of length] have "length (issue_definitions d) = length ISSUES" by simp
  with d show ?thesis by (simp add: ISSUES_def)
qed

end
