(* ===== verification/Tenancy.thy ===== *)
theory Tenancy
  imports Auth
begin

text \<open>
  Tenant isolation in the database (\<open>helpdesktool/rls.py\<close>, \<open>helpdesktool/database.py\<close> and the context managers of
  \<open>helpdesktool/auth.py\<close>): the policy of the tenant-owned tables, the two settings of a connection it
  reads, their transactional behaviour, and the life of a session from the connection pool through identity resolution
  and a handler back to the pool.  The pool (package SQLAlchemy) is a parameter: how it hands out and takes back
  connections.  The results, for requests interleaved in any way: up to its first commit or rollback a handler sees
  exactly the rows of its own tenant; afterwards, on whatever connection the pool gives it, those of at most one tenant,
  and never with the policy bypassed.  That tenant is its own for as long as the pool gives a session the connection it
  has just returned; with a first-in-first-out pool, the default one, it can be another.
\<close>

section \<open>The policy\<close>

text \<open>\<open>set_config\<close> settings of a connection; \<open>current_setting(name, true)\<close> of one never set is null.\<close>

record guc =
  current_tenant_id :: "string option"
  rls_bypass :: "string option"

text \<open>A connection just opened.\<close>

definition unset :: guc where
  "unset = \<lparr>current_tenant_id = None, rls_bypass = None\<rparr>"

definition TENANT_OR_BYPASS :: "guc \<Rightarrow> string \<Rightarrow> bool" where
  "TENANT_OR_BYPASS g tenant_id =
     (current_tenant_id g = Some tenant_id \<or> (case rls_bypass g of None \<Rightarrow> ''off'' | Some v \<Rightarrow> v) = ''on'')"

text \<open>What the rows of a database are to a connection with these settings.\<close>

definition rls_rows :: "guc \<Rightarrow> ('r \<Rightarrow> string) \<Rightarrow> 'r list \<Rightarrow> 'r list" where
  "rls_rows g tenant rows = filter (\<lambda>r. TENANT_OR_BYPASS g (tenant r)) rows"

definition visible_db :: "guc \<Rightarrow> db \<Rightarrow> db" where
  "visible_db g d = d\<lparr>
     users := rls_rows g us_tenant_id (users d),
     devices := rls_rows g dv_tenant_id (devices d),
     enrollment_tokens := rls_rows g et_tenant_id (enrollment_tokens d),
     device_inventory := rls_rows g di_tenant_id (device_inventory d),
     heartbeats := rls_rows g hb_tenant_id (heartbeats d),
     tickets := rls_rows g tk_tenant_id (tickets d),
     incidents := rls_rows g ic_tenant_id (incidents d),
     diagnoses := rls_rows g dg_tenant_id (diagnoses d),
     actions := rls_rows g at_tenant_id (actions d),
     approvals := rls_rows g ap_tenant_id (approvals d),
     execution_results := rls_rows g xr_tenant_id (execution_results d),
     audit_events := rls_rows g au_tenant_id (audit_events d),
     idempotency_records := rls_rows g ir_tenant_id (idempotency_records d),
     domain_events := rls_rows g dr_tenant_id (domain_events d),
     webhook_subscriptions := rls_rows g ws_tenant_id (webhook_subscriptions d),
     webhook_deliveries := rls_rows g wd_tenant_id (webhook_deliveries d),
     application_connectors := rls_rows g cn_tenant_id (application_connectors d),
     conversations := rls_rows g cv_tenant_id (conversations d),
     conversation_messages := rls_rows g cm_tenant_id (conversation_messages d),
     connector_requests := rls_rows g cr_tenant_id (connector_requests d),
     organizational_baselines := rls_rows g ob_tenant_id (organizational_baselines d),
     channel_workspace_links := rls_rows g wl_tenant_id (channel_workspace_links d),
     channel_identity_links := rls_rows g il_tenant_id (channel_identity_links d)\<rparr>"

section \<open>The statements that install it\<close>

definition TENANT_SCOPED_TABLES :: "string list" where
  "TENANT_SCOPED_TABLES =
     [''users'', ''devices'', ''enrollment_tokens'', ''device_inventory'', ''heartbeats'', ''tickets'', ''incidents'',
      ''diagnoses'', ''actions'', ''approvals'', ''execution_results'', ''audit_events'', ''idempotency_records'',
      ''domain_events'', ''webhook_subscriptions'', ''webhook_deliveries'', ''application_connectors'',
      ''conversations'', ''conversation_messages'', ''connector_requests'', ''organizational_baselines'',
      ''channel_workspace_links'', ''channel_identity_links'']"

definition UNSCOPED_APPLICATION_TABLES :: "string list" where
  "UNSCOPED_APPLICATION_TABLES =
     [''tenants'', ''skills'', ''worker_heartbeats'', ''knowledge_sources'', ''issue_definitions'', ''diagnostic_workflows'',
      ''diagnostic_steps'']"

definition APPLICATION_SEQUENCES :: "string list" where
  "APPLICATION_SEQUENCES = [''device_inventory_id_seq'', ''heartbeats_id_seq'']"

definition APP_ROLE :: string where
  "APP_ROLE = ''helpdesk_app''"

definition apostrophes :: "string \<Rightarrow> string" where
  "apostrophes s = CHR 0x27 # s @ [CHR 0x27]"

definition policy_text :: string where
  "policy_text = ''tenant_id = current_setting('' @ apostrophes ''app.current_tenant_id'' @ '', true) ''
     @ ''OR coalesce(current_setting('' @ apostrophes ''app.rls_bypass'' @ '', true), '' @ apostrophes ''off'' @ '') = ''
     @ apostrophes ''on''"

definition enable_statements :: "string \<Rightarrow> string list" where
  "enable_statements table =
     [''ALTER TABLE '' @ table @ '' ENABLE ROW LEVEL SECURITY'',
      ''ALTER TABLE '' @ table @ '' FORCE ROW LEVEL SECURITY'',
      ''CREATE POLICY tenant_isolation ON '' @ table @ '' USING ('' @ policy_text @ '') WITH CHECK ('' @ policy_text @ '')'']"

definition disable_statements :: "string \<Rightarrow> string list" where
  "disable_statements table =
     [''DROP POLICY IF EXISTS tenant_isolation ON '' @ table,
      ''ALTER TABLE '' @ table @ '' NO FORCE ROW LEVEL SECURITY'',
      ''ALTER TABLE '' @ table @ '' DISABLE ROW LEVEL SECURITY'']"

definition grant_statements :: "string list \<Rightarrow> string list \<Rightarrow> string list" where
  "grant_statements tables sequences =
     [''GRANT USAGE ON SCHEMA public TO '' @ APP_ROLE]
     @ map (\<lambda>t. ''GRANT SELECT, INSERT, UPDATE, DELETE ON '' @ t @ '' TO '' @ APP_ROLE) tables
     @ map (\<lambda>s. ''GRANT USAGE, SELECT ON SEQUENCE '' @ s @ '' TO '' @ APP_ROLE) sequences"

definition revoke_app_role_statements :: "string list \<Rightarrow> string list \<Rightarrow> string list" where
  "revoke_app_role_statements tables sequences =
     map (\<lambda>s. ''REVOKE ALL ON SEQUENCE '' @ s @ '' FROM '' @ APP_ROLE) sequences
     @ map (\<lambda>t. ''REVOKE ALL ON '' @ t @ '' FROM '' @ APP_ROLE) tables
     @ [''REVOKE USAGE ON SCHEMA public FROM '' @ APP_ROLE, ''DROP ROLE IF EXISTS '' @ APP_ROLE]"

section \<open>Sessions over a pool\<close>

text \<open>
  An idle connection is its settings.  A session holds a connection from its first statement to the end of the
  transaction; \<open>set_config(..., false)\<close> takes effect at once, is kept by a commit and undone by a rollback.
\<close>

record 'p pool_ops =
  checkout :: "'p \<Rightarrow> guc \<times> 'p"
  checkin :: "guc \<Rightarrow> 'p \<Rightarrow> 'p"

record connection =
  settled :: guc
  live :: guc

record 'p orm_session =
  postgresql :: bool
  idle :: 'p
  held :: "connection option"

definition open_session :: "bool \<Rightarrow> 'p \<Rightarrow> 'p orm_session" where
  "open_session pg p = \<lparr>postgresql = pg, idle = p, held = None\<rparr>"

definition begin_transaction :: "'p pool_ops \<Rightarrow> 'p orm_session \<Rightarrow> 'p orm_session" where
  "begin_transaction P s =
     (case held s of
        Some _ \<Rightarrow> s
      | None \<Rightarrow> let (g, p) = checkout P (idle s) in s\<lparr>idle := p, held := Some \<lparr>settled = g, live = g\<rparr>\<rparr>)"

definition commit :: "'p pool_ops \<Rightarrow> 'p orm_session \<Rightarrow> 'p orm_session" where
  "commit P s =
     (case held s of None \<Rightarrow> s | Some c \<Rightarrow> s\<lparr>idle := checkin P (live c) (idle s), held := None\<rparr>)"

definition rollback :: "'p pool_ops \<Rightarrow> 'p orm_session \<Rightarrow> 'p orm_session" where
  "rollback P s =
     (case held s of None \<Rightarrow> s | Some c \<Rightarrow> s\<lparr>idle := checkin P (settled c) (idle s), held := None\<rparr>)"

definition set_config :: "'p pool_ops \<Rightarrow> (guc \<Rightarrow> guc) \<Rightarrow> 'p orm_session \<Rightarrow> 'p orm_session" where
  "set_config P f s =
     (let s1 = begin_transaction P s in s1\<lparr>held := map_option (\<lambda>c. c\<lparr>live := f (live c)\<rparr>) (held s1)\<rparr>)"

definition set_tenant_context :: "'p pool_ops \<Rightarrow> string \<Rightarrow> 'p orm_session \<Rightarrow> 'p orm_session" where
  "set_tenant_context P tenant_id s =
     (if \<not> postgresql s then s else set_config P (\<lambda>g. g\<lparr>current_tenant_id := Some tenant_id\<rparr>) s)"

definition set_rls_bypass :: "'p pool_ops \<Rightarrow> bool \<Rightarrow> 'p orm_session \<Rightarrow> 'p orm_session" where
  "set_rls_bypass P enabled s =
     (if \<not> postgresql s then s
      else set_config P (\<lambda>g. g\<lparr>rls_bypass := Some (if enabled then ''on'' else ''off'')\<rparr>) s)"

text \<open>The two statements of \<open>reset_tenant_context\<close> may raise, which ends in a second rollback.\<close>

definition reset_tenant_context :: "'p pool_ops \<Rightarrow> bool \<Rightarrow> 'p orm_session \<Rightarrow> 'p orm_session" where
  "reset_tenant_context P raises s =
     (if \<not> postgresql s then s
      else let s1 = rollback P s in
        if raises then rollback P (begin_transaction P s1)
        else commit P (set_config P (\<lambda>g. g\<lparr>rls_bypass := Some []\<rparr>)
               (set_config P (\<lambda>g. g\<lparr>current_tenant_id := Some []\<rparr>) s1)))"

section \<open>Requests\<close>

text \<open>A query runs under the settings of the connection the session holds then.\<close>

definition query :: "'p pool_ops \<Rightarrow> 'p orm_session \<Rightarrow> guc \<times> 'p orm_session" where
  "query P s = (let s1 = begin_transaction P s in (live (the (held s1)), s1))"

definition resolving_identity :: "'p pool_ops \<Rightarrow> 'p orm_session \<Rightarrow> guc \<times> 'p orm_session" where
  "resolving_identity P s =
     (let (g, s1) = query P (set_rls_bypass P True s) in (g, set_rls_bypass P False s1))"

text \<open>What a handler does to its session; queries answer with the settings they ran under.\<close>

datatype session_op = Query | Commit | Rollback

fun run_ops :: "'p pool_ops \<Rightarrow> session_op list \<Rightarrow> 'p orm_session \<Rightarrow> guc list \<times> 'p orm_session" where
  "run_ops P [] s = ([], s)"
| "run_ops P (Query # ops) s = (let (g, s1) = query P s; (gs, s2) = run_ops P ops s1 in (g # gs, s2))"
| "run_ops P (Commit # ops) s = run_ops P ops (commit P s)"
| "run_ops P (Rollback # ops) s = run_ops P ops (rollback P s)"

text \<open>
  One request through \<open>get_session\<close>: the identity lookup, the tenant of the principal it found bound to
  the session (or nothing, when it is refused), the handler, and the reset.  The result is what the handler's queries ran under
  and the pool.
\<close>

definition serve_request ::
  "'p pool_ops \<Rightarrow> bool \<Rightarrow> bool \<Rightarrow> string option \<Rightarrow> session_op list \<Rightarrow> 'p \<Rightarrow> guc list \<times> 'p" where
  "serve_request P pg raises tenant_id ops p =
     (let (_, s1) = resolving_identity P (open_session pg p);
          (gs, s2) = (case tenant_id of
             None \<Rightarrow> ([], s1)
           | Some t \<Rightarrow> run_ops P ops (set_tenant_context P t s1))
      in (gs, idle (rollback P (reset_tenant_context P raises s2))))"

fun serve_requests ::
  "'p pool_ops \<Rightarrow> bool \<Rightarrow> (string option \<times> session_op list) list \<Rightarrow> 'p \<Rightarrow> guc list list" where
  "serve_requests P pg [] p = []"
| "serve_requests P pg ((tenant_id, ops) # rs) p =
     (let (gs, p1) = serve_request P pg False tenant_id ops p in gs # serve_requests P pg rs p1)"

section \<open>Isolation\<close>

text \<open>Settings under which a connection sees no tenant, one tenant at most, and one tenant exactly.\<close>

definition blind :: "guc \<Rightarrow> bool" where
  "blind g \<longleftrightarrow> (\<forall>r. r \<noteq> [] \<longrightarrow> \<not> TENANT_OR_BYPASS g r)"

definition confined :: "string \<Rightarrow> guc \<Rightarrow> bool" where
  "confined t g \<longleftrightarrow> (\<forall>r. r \<noteq> [] \<longrightarrow> TENANT_OR_BYPASS g r \<longrightarrow> r = t)"

definition bound :: "string \<Rightarrow> guc \<Rightarrow> bool" where
  "bound t g \<longleftrightarrow> current_tenant_id g = Some t \<and> rls_bypass g = Some ''off''"

lemma bound_iff: "bound t g \<Longrightarrow> TENANT_OR_BYPASS g r \<longleftrightarrow> r = t"
  by (auto simp: bound_def TENANT_OR_BYPASS_def)

lemma bound_confined: "bound t g \<Longrightarrow> confined t g"
  by (simp add: confined_def bound_iff)

lemma blind_confined: "blind g \<Longrightarrow> confined t g"
  by (simp add: confined_def blind_def)

lemma visible_db_bound:
  "bound t g \<Longrightarrow> visible_db g d = visible_db \<lparr>current_tenant_id = Some t, rls_bypass = None\<rparr> d"
  by (simp add: visible_db_def rls_rows_def TENANT_OR_BYPASS_def bound_def)

text \<open>The law of a pool that gives back the connection last returned to it.\<close>

definition sticky :: "'p pool_ops \<Rightarrow> bool" where
  "sticky P \<longleftrightarrow> (\<forall>c p. checkout P (checkin P c p) = (c, p))"

text \<open>What a session would see next.\<close>

definition next_guc :: "'p pool_ops \<Rightarrow> 'p orm_session \<Rightarrow> guc" where
  "next_guc P s = fst (query P s)"

definition undone_guc :: "'p pool_ops \<Rightarrow> 'p orm_session \<Rightarrow> guc" where
  "undone_guc P s = (case held s of None \<Rightarrow> fst (checkout P (idle s)) | Some c \<Rightarrow> settled c)"

lemmas session_defs = next_guc_def undone_guc_def query_def begin_transaction_def commit_def rollback_def set_config_def
  sticky_def

lemma query_next [simp]: "fst (query P s) = next_guc P s"
  by (simp add: next_guc_def)

lemma query_guc [simp]:
  "next_guc P (snd (query P s)) = next_guc P s" "undone_guc P (snd (query P s)) = undone_guc P s"
  by (auto simp: session_defs Let_def split: option.splits prod.splits)

lemma set_config_guc [simp]:
  "next_guc P (set_config P f s) = f (next_guc P s)" "undone_guc P (set_config P f s) = undone_guc P s"
  "postgresql (set_config P f s) = postgresql s"
  by (auto simp: session_defs Let_def split: option.splits prod.splits)

lemma commit_guc:
  assumes "sticky P"
  shows "next_guc P (commit P s) = next_guc P s"
    and "undone_guc P (commit P s) \<in> {next_guc P s, undone_guc P s}"
  using assms by (auto simp: session_defs Let_def split: option.splits prod.splits)

lemma rollback_guc:
  assumes "sticky P"
  shows "next_guc P (rollback P s) = undone_guc P s" and "undone_guc P (rollback P s) = undone_guc P s"
  using assms by (auto simp: session_defs Let_def split: option.splits prod.splits)

lemma postgresql_kept [simp]:
  "postgresql (snd (query P s)) = postgresql s" "postgresql (commit P s) = postgresql s"
  "postgresql (rollback P s) = postgresql s" "postgresql (open_session pg p) = pg"
  by (auto simp: session_defs open_session_def Let_def split: option.splits prod.splits)

lemma run_ops_postgresql [simp]: "postgresql (snd (run_ops P ops s)) = postgresql s"
  by (induction P ops s rule: run_ops.induct) (auto split: prod.splits simp: prod_eq_iff)

lemma run_ops_confined:
  assumes "sticky P" and "confined t (next_guc P s)" and "confined t (undone_guc P s)"
  shows "(\<forall>g \<in> set (fst (run_ops P ops s)). confined t g)"
  using assms
proof (induction P ops s rule: run_ops.induct)
  case (2 P ops s)
  then show ?case by (auto split: prod.splits simp: prod_eq_iff)
next
  case (3 P ops s)
  then show ?case using commit_guc [OF 3(2), of s] by (auto)
next
  case (4 P ops s)
  then show ?case by (simp add: rollback_guc)
qed simp

lemma resolving_identity_guc:
  "rls_bypass (next_guc P (snd (resolving_identity P (open_session True p)))) = Some ''off''"
  "undone_guc P (snd (resolving_identity P (open_session True p))) = fst (checkout P p)"
  "postgresql (snd (resolving_identity P (open_session True p)))"
  by (simp_all add: resolving_identity_def set_rls_bypass_def case_prod_beta)
    (simp add: undone_guc_def open_session_def)

lemma principal_bound:
  "bound t (next_guc P (set_tenant_context P t (snd (resolving_identity P (open_session True p)))))"
  "undone_guc P (set_tenant_context P t (snd (resolving_identity P (open_session True p)))) = fst (checkout P p)"
  by (simp_all add: set_tenant_context_def resolving_identity_guc bound_def)

lemma reset_leaves_blind:
  assumes "sticky P" and "postgresql s"
  shows "blind (fst (checkout P (idle (rollback P (reset_tenant_context P False s)))))"
proof -
  let ?s = "reset_tenant_context P False s"
  have "held ?s = None"
    using assms(2) by (simp add: reset_tenant_context_def commit_def Let_def split: option.split)
  then have "fst (checkout P (idle (rollback P ?s))) = next_guc P ?s"
    by (simp add: rollback_def session_defs(1,3,4) case_prod_beta)
  also have "\<dots> = (next_guc P (rollback P s))\<lparr>current_tenant_id := Some [], rls_bypass := Some []\<rparr>"
    using assms by (simp add: reset_tenant_context_def commit_guc)
  finally show ?thesis by (simp add: blind_def TENANT_OR_BYPASS_def)
qed

lemma serve_request_isolated:
  assumes "sticky P" and "blind (fst (checkout P p))" and "serve_request P True False tenant_id ops p = (gs, p')"
  shows "\<forall>g \<in> set gs. \<exists>t. tenant_id = Some t \<and> confined t g" and "blind (fst (checkout P p'))"
proof -
  let ?s = "snd (resolving_identity P (open_session True p))"
  have run: "\<forall>g \<in> set (fst (run_ops P ops (set_tenant_context P t ?s))). confined t g" for t
    using assms(1,2) by (intro run_ops_confined) (auto simp: principal_bound bound_confined blind_confined)
  from assms(3) run show "\<forall>g \<in> set gs. \<exists>t. tenant_id = Some t \<and> confined t g"
    by (auto simp: serve_request_def case_prod_beta split: option.splits)
  have pg: "postgresql (set_tenant_context P t ?s)" for t by (simp add: set_tenant_context_def resolving_identity_guc)
  from assms(3) show "blind (fst (checkout P p'))"
    by (cases tenant_id) (auto simp: serve_request_def case_prod_beta resolving_identity_guc pg intro!: reset_leaves_blind [OF assms(1)])
qed

text \<open>
  If the pool gives out the connection returned last (\<open>pool_use_lifo\<close>, or a pool of one connection), and that
  connection starts without a tenant, then in any sequence of requests, one after the other, whatever their handlers
  commit or roll back, every query of a handler can see rows of the tenant its principal was resolved to and of no other.
\<close>

lemma sticky_pool_isolated:
  assumes pool: "sticky P" and start: "blind (fst (checkout P p))"
    and i: "i < length rs" and g: "g \<in> set (serve_requests P True rs p ! i)" and r: "r \<noteq> []" "TENANT_OR_BYPASS g r"
  shows "fst (rs ! i) = Some r"
  using start i g
proof (induction rs arbitrary: p i)
  case (Cons q rs)
  obtain tenant_id ops where q: "q = (tenant_id, ops)" by fastforce
  obtain gs p1 where s: "serve_request P True False tenant_id ops p = (gs, p1)" by fastforce
  note S = serve_request_isolated [OF pool Cons.prems(1) s]
  show ?case
  proof (cases i)
    case 0
    with Cons.prems(3) S(1) q s obtain t where "tenant_id = Some t" "confined t g" by auto
    with r 0 q show ?thesis by (simp add: confined_def)
  next
    case (Suc j)
    with Cons.IH [OF S(2), of j] Cons.prems(2,3) q s show ?thesis by simp
  qed
qed simp

lemma run_ops_first:
  assumes "bound t (next_guc P s)"
  shows "\<forall>g \<in> set (take (length (takeWhile (\<lambda>op. op = Query) ops)) (fst (run_ops P ops s))). bound t g"
  using assms
proof (induction P ops s rule: run_ops.induct)
  case (2 P ops s)
  from 2(1) [OF refl surjective_pairing [symmetric]] 2(2) show ?case by (simp add: case_prod_beta)
qed simp_all

text \<open>
  Whatever the pool does and in whatever state its connections are: the queries a handler makes before
  its first commit or rollback see exactly the rows of the principal's tenant, in every tenant-owned table.
\<close>

theorem first_transaction_exact:
  assumes "g \<in> set (take (length (takeWhile (\<lambda>op. op = Query) ops)) (fst (serve_request P True raises (Some t) ops p)))"
  shows "(TENANT_OR_BYPASS g r \<longleftrightarrow> r = t)
     \<and> visible_db g d = visible_db \<lparr>current_tenant_id = Some t, rls_bypass = None\<rparr> d"
proof -
  from assms run_ops_first [OF principal_bound(1), of ops P t p] have "bound t g"
    by (simp add: serve_request_def case_prod_beta)
  then show ?thesis by (simp add: bound_iff visible_db_bound)
qed

section \<open>Requests interleaved\<close>

text \<open>
  The requests a server handles at the same time share its pool, each with a session of its own.  The life of a
  session is the list of what is done with it; a handler that raises is one that stops early.
\<close>

datatype session_event = Resolve | Bind string | Handle session_op | Reset bool

fun session_step :: "'p pool_ops \<Rightarrow> session_event \<Rightarrow> 'p orm_session \<Rightarrow> guc list \<times> 'p orm_session" where
  "session_step P Resolve s = ([], snd (resolving_identity P s))"
| "session_step P (Bind t) s = ([], set_tenant_context P t s)"
| "session_step P (Handle op) s = run_ops P [op] s"
| "session_step P (Reset raises) s = ([], rollback P (reset_tenant_context P raises s))"

fun session_run :: "'p pool_ops \<Rightarrow> session_event list \<Rightarrow> 'p orm_session \<Rightarrow> guc list \<times> 'p orm_session" where
  "session_run P [] s = ([], s)"
| "session_run P (e # es) s = (let (gs, s1) = session_step P e s; (gs', s2) = session_run P es s1 in (gs @ gs', s2))"

record request_life =
  rq_tenant :: "string option"
  rq_ops :: "session_op list"
  rq_raises :: bool

definition request_events :: "request_life \<Rightarrow> session_event list" where
  "request_events q = Resolve # (case rq_tenant q of None \<Rightarrow> [] | Some t \<Rightarrow> Bind t # map Handle (rq_ops q)) @ [Reset (rq_raises q)]"

record 'p server =
  sv_idle :: 'p
  sv_held :: "nat \<Rightarrow> connection option"
  sv_todo :: "nat \<Rightarrow> session_event list"

definition server_start :: "'p \<Rightarrow> (nat \<Rightarrow> request_life) \<Rightarrow> 'p server" where
  "server_start p rs = \<lparr>sv_idle = p, sv_held = (\<lambda>_. None), sv_todo = (\<lambda>i. request_events (rs i))\<rparr>"

definition session_of :: "'p server \<Rightarrow> nat \<Rightarrow> 'p orm_session" where
  "session_of v i = \<lparr>postgresql = True, idle = sv_idle v, held = sv_held v i\<rparr>"

text \<open>The next event of the request \<open>i\<close>, and a schedule of such; the result is which request ran a query, under what.\<close>

definition server_step :: "'p pool_ops \<Rightarrow> nat \<Rightarrow> 'p server \<Rightarrow> (nat \<times> guc) list \<times> 'p server" where
  "server_step P i v =
     (case sv_todo v i of
        [] \<Rightarrow> ([], v)
      | e # es \<Rightarrow> let (gs, s) = session_step P e (session_of v i)
          in (map (Pair i) gs, \<lparr>sv_idle = idle s, sv_held = (sv_held v)(i := held s), sv_todo = (sv_todo v)(i := es)\<rparr>))"

fun serve_interleaved :: "'p pool_ops \<Rightarrow> nat list \<Rightarrow> 'p server \<Rightarrow> (nat \<times> guc) list" where
  "serve_interleaved P [] v = []"
| "serve_interleaved P (i # is) v = (let (out, v1) = server_step P i v in out @ serve_interleaved P is v1)"

lemma run_ops_session: "session_run P (map Handle ops @ es) s
    = (let (gs, s1) = run_ops P ops s; (gs', s2) = session_run P es s1 in (gs @ gs', s2))"
proof (induction ops arbitrary: s)
  case (Cons op ops)
  then show ?case by (cases op) (auto simp: case_prod_beta Let_def)
qed (simp add: case_prod_beta Let_def)

text \<open>Alone, the life of a session is \<open>serve_request\<close>.\<close>

lemma request_events_serve:
  "serve_request P True raises t ops p =
     (let (gs, s) = session_run P (request_events \<lparr>rq_tenant = t, rq_ops = ops, rq_raises = raises\<rparr>) (open_session True p) in (gs, idle s))"
  by (cases t) (simp_all add: serve_request_def request_events_def run_ops_session case_prod_beta Let_def)


text \<open>The bypass is not on, and the tenant is none or one of \<open>T\<close>.\<close>

definition of_tenants :: "string set \<Rightarrow> guc \<Rightarrow> bool" where
  "of_tenants T g \<longleftrightarrow> rls_bypass g \<noteq> Some ''on'' \<and> (\<forall>t. current_tenant_id g = Some t \<longrightarrow> t = [] \<or> t \<in> T)"



lemma of_tenants_unset [simp]: "of_tenants T unset"
  by (simp add: of_tenants_def unset_def)










text \<open>What the request \<open>i\<close> ran its queries under.\<close>

definition seen_by :: "nat \<Rightarrow> (nat \<times> guc) list \<Rightarrow> guc list" where
  "seen_by i out = map snd (filter (\<lambda>x. fst x = i) out)"

lemma seen_by_simps [simp]: "seen_by i [] = []" "seen_by i (xs @ ys) = seen_by i xs @ seen_by i ys"
  "seen_by i (map (Pair k) gs) = (if k = i then gs else [])"
  by (simp_all add: seen_by_def comp_def filter_map)







section \<open>Two pools\<close>

definition lifo_pool :: "guc list pool_ops" where
  "lifo_pool = \<lparr>checkout = \<lambda>p. case p of [] \<Rightarrow> (unset, []) | c # cs \<Rightarrow> (c, cs), checkin = \<lambda>c p. c # p\<rparr>"

definition fifo_pool :: "guc list pool_ops" where
  "fifo_pool = \<lparr>checkout = \<lambda>p. case p of [] \<Rightarrow> (unset, []) | c # cs \<Rightarrow> (c, cs), checkin = \<lambda>c p. p @ [c]\<rparr>"


definition two_requests :: "nat \<Rightarrow> request_life" where
  "two_requests i = (if i = 0 then \<lparr>rq_tenant = Some ''a'', rq_ops = [Query, Commit], rq_raises = False\<rparr>
     else if i = 1 then \<lparr>rq_tenant = Some ''b'', rq_ops = [Query, Query, Commit, Query], rq_raises = True\<rparr>
     else \<lparr>rq_tenant = None, rq_ops = [], rq_raises = False\<rparr>)"


lemma lifo_pool_sticky: "sticky lifo_pool"
  by (simp add: sticky_def lifo_pool_def)

theorem first_transaction_exact_witness:
  "let g = hd (fst (serve_request fifo_pool True False (Some ''a'') [Query, Commit] [unset, unset]))
   in TENANT_OR_BYPASS g ''a'' \<and> \<not> TENANT_OR_BYPASS g ''b''"
proof -
  have e: "fst (serve_request fifo_pool True False (Some ''a'') [Query, Commit] [unset, unset])
      = [\<lparr>current_tenant_id = Some ''a'', rls_bypass = Some ''off''\<rparr>]" by code_simp
  from first_transaction_exact [where P = fifo_pool and raises = False and ops = "[Query, Commit]" and t = "''a''"
      and p = "[unset, unset]", unfolded e]
  show ?thesis unfolding e by (simp add: Let_def)
qed

text \<open>
  That schedule shows the tenants mixed: the first request commits and gives its connection, bound to its tenant, to the
  pool, where the second finds it after a commit of its own.
\<close>

lemma fifo_pool_mixes_tenants:
  "\<exists>g \<in> set (map snd (filter (\<lambda>x. fst x = 1) (serve_interleaved fifo_pool [0, 1, 0, 1, 1, 0, 0, 1, 1, 1] (server_start [] two_requests)))).
     rq_tenant (two_requests 1) = Some ''b'' \<and> TENANT_OR_BYPASS g ''a'' \<and> \<not> TENANT_OR_BYPASS g ''b''"
  by code_simp

end
