(* ===== verification/Schema.thy ===== *)
theory Schema
  imports Tenancy
begin

text \<open>
  The database schema as the migrations build it (\<open>migrations/versions\<close>),
    and as \<open>helpdesktool/db_models.py\<close> declares
  it.  A migration is the list of the operations that it gives to the database; their effect on the schema is
  the usual one of SQL, with \<open>None\<close> for a statement that the database refuses.  The results: every migration
  can be undone, the migrated tables are the declared ones, and row-level security protects exactly the
  tables that belong to tenants.
\<close>

section \<open>Columns\<close>

datatype column_type = String nat | Text | Integer | Boolean | Float | DateTime | JSON

datatype on_delete = NO_ACTION | CASCADE | SET_NULL

record column =
  cl_name :: string
  cl_type :: column_type
  cl_nullable :: bool
  cl_primary :: bool
  cl_serial :: bool
  cl_unique :: bool
  cl_references :: "(string \<times> string \<times> on_delete) option"
  cl_default :: "string option"

definition Column :: "string \<Rightarrow> column_type \<Rightarrow> column" where
  "Column n t = \<lparr>cl_name = n, cl_type = t, cl_nullable = True, cl_primary = False, cl_serial = False,
    cl_unique = False,
     cl_references = None, cl_default = None\<rparr>"

definition required :: "column \<Rightarrow> column" where
  "required c = c\<lparr>cl_nullable := False\<rparr>"

definition unique :: "column \<Rightarrow> column" where
  "unique c = c\<lparr>cl_unique := True\<rparr>"

definition primary_key :: "column \<Rightarrow> column" where
  "primary_key c = c\<lparr>cl_nullable := False, cl_primary := True\<rparr>"

definition serial_key :: "column \<Rightarrow> column" where
  "serial_key c = c\<lparr>cl_nullable := False, cl_primary := True, cl_serial := True\<rparr>"

definition references :: "string \<Rightarrow> on_delete \<Rightarrow> column \<Rightarrow> column" where
  "references t d c = c\<lparr>cl_references := Some (t, ''id'', d)\<rparr>"

definition defaulting :: "string \<Rightarrow> column \<Rightarrow> column" where
  "defaulting v c = c\<lparr>cl_default := Some v\<rparr>"

definition tenant_column :: column where
  "tenant_column = required (references ''tenants'' CASCADE (Column ''tenant_id'' (String 36)))"

lemmas column_defs = Column_def required_def unique_def primary_key_def serial_key_def references_def defaulting_def
  tenant_column_def

definition names_of :: "column list \<Rightarrow> string list" where
  "names_of cols = map cl_name cols"

definition targets :: "column list \<Rightarrow> (string \<times> string) list" where
  "targets cols = concat (map (\<lambda>c. case cl_references c of None \<Rightarrow> [] | Some (t, k,
    _) \<Rightarrow> [(t, k)]) cols)"

definition serials :: "column list \<Rightarrow> string list" where
  "serials cols = map cl_name (filter cl_serial cols)"

section \<open>Statements\<close>

datatype ddl =
    CreateTable string "column list" "string list list"
  | DropTable string
  | AddColumn string column
  | DropColumn string string
  | CreateIndex string string "string list" bool
  | DropIndex string string
  | EnableRowSecurity string
  | ForceRowSecurity string
  | CreatePolicy string
  | DropPolicy string
  | NoForceRowSecurity string
  | DisableRowSecurity string
  | StagePassword string
  | CreateRole
  | GrantUsage
  | Grant string
  | GrantSequence string
  | RevokeSequence string
  | Revoke string
  | RevokeUsage
  | DropRole

record relation =
  tb_columns :: "column list"
  tb_uniques :: "string list list"
  tb_indexes :: "(string \<times> string list \<times> bool) list"
  tb_enabled :: bool
  tb_forced :: bool
  tb_policy :: bool
  tb_granted :: bool

text \<open>The application role, with its password, and what it is granted beside the tables.\<close>

record schema =
  sc_tables :: "(string \<times> relation) list"
  sc_sequences :: "(string \<times> bool) list"
  sc_usage :: bool
  sc_role :: "string option"
  sc_staged :: string

definition empty_schema :: schema where
  "empty_schema = \<lparr>sc_tables = [], sc_sequences = [], sc_usage = False, sc_role = None, sc_staged = []\<rparr>"

definition new_relation :: "column list \<Rightarrow> string list list \<Rightarrow> relation" where
  "new_relation cols us = \<lparr>tb_columns = cols, tb_uniques = us, tb_indexes = [], tb_enabled = False, tb_forced =
    False,
     tb_policy = False, tb_granted = False\<rparr>"

definition has_table :: "schema \<Rightarrow> string \<Rightarrow> bool" where
  "has_table s t \<longleftrightarrow> map_of (sc_tables s) t \<noteq> None"

definition has_column :: "schema \<Rightarrow> string \<Rightarrow> string \<Rightarrow> bool" where
  "has_column s t c \<longleftrightarrow> (case map_of (sc_tables s) t of None \<Rightarrow> False | Some r \<Rightarrow>
    c \<in> set (names_of (tb_columns r)))"

definition alter :: "string \<Rightarrow> ('r \<Rightarrow> 'r) \<Rightarrow> (string \<times> 'r) list \<Rightarrow>
  (string \<times> 'r) list" where
  "alter k f xs = map (\<lambda>(k', r). (k', if k' = k then f r else r)) xs"

definition on_table :: "string \<Rightarrow> (relation \<Rightarrow> bool) \<Rightarrow> (relation \<Rightarrow>
  relation) \<Rightarrow> schema \<Rightarrow> schema option" where
  "on_table t allowed f s =
     (case map_of (sc_tables s) t of
        None \<Rightarrow> None
      | Some r \<Rightarrow> if allowed r then Some (s\<lparr>sc_tables := alter t f (sc_tables s)\<rparr>) else None)"

definition on_sequence :: "string \<Rightarrow> bool \<Rightarrow> schema \<Rightarrow> schema option" where
  "on_sequence q granted s =
     (if map_of (sc_sequences s) q = None then None
      else Some (s\<lparr>sc_sequences := alter q (\<lambda>_. granted) (sc_sequences s)\<rparr>))"

definition unprivileged :: "schema \<Rightarrow> bool" where
  "unprivileged s \<longleftrightarrow> \<not> sc_usage s \<and> list_all (\<lambda>(_,
    r). \<not> tb_granted r) (sc_tables s) \<and> list_all (\<lambda>(_, g). \<not> g) (sc_sequences s)"

definition without_column :: "string \<Rightarrow> relation \<Rightarrow> relation" where
  "without_column c r = r\<lparr>tb_columns := filter (\<lambda>k. cl_name k \<noteq> c) (tb_columns r),
     tb_uniques := filter (\<lambda>u. c \<notin> set u) (tb_uniques r),
     tb_indexes := filter (\<lambda>(_, cs, _). c \<notin> set cs) (tb_indexes r)\<rparr>"

text \<open>
  A referenced table or column cannot be dropped, and a role that still has privileges cannot either.  The
  statements of the application role need the role, those of a table the table.  The name of an index starts with
  that of its table, so it is compared with those of the same table only.
\<close>

fun apply_ddl :: "ddl \<Rightarrow> schema \<Rightarrow> schema option" where
  "apply_ddl (CreateTable t cols us) s =
     (if has_table s t \<or> \<not> distinct (names_of cols)
         \<or> \<not> list_all (\<lambda>(t',
           c). if t' = t then c \<in> set (names_of cols) else has_column s t' c) (targets cols)
         \<or> \<not> list_all (\<lambda>u. set u \<subseteq> set (names_of cols)) us
         \<or> list_ex (\<lambda>c. t @ ''_'' @ c @ ''_seq'' \<in> fst ` set (sc_sequences s)) (serials cols)
      then None
      else Some (s\<lparr>sc_tables := sc_tables s @ [(t, new_relation cols us)],
             sc_sequences := sc_sequences s @ map (\<lambda>c. (t @ ''_'' @ c @ ''_seq'', False)) (serials cols)\<rparr>))"
| "apply_ddl (DropTable t) s =
     (case map_of (sc_tables s) t of
        None \<Rightarrow> None
      | Some r \<Rightarrow>
          if list_ex (\<lambda>(t', r'). t' \<noteq> t \<and> list_ex (\<lambda>(q,
            _). q = t) (targets (tb_columns r'))) (sc_tables s) then None
          else Some (s\<lparr>sc_tables := filter (\<lambda>(t', _). t' \<noteq> t) (sc_tables s),
                 sc_sequences := filter (\<lambda>(q,
                   _). q \<notin> set (map (\<lambda>c. t @ ''_'' @ c @ ''_seq'') (serials (tb_columns r))))
                   (sc_sequences s)\<rparr>))"
| "apply_ddl (AddColumn t c) s =
     (if list_all (\<lambda>(t', k). has_column s t' k) (targets [c])
      then on_table t (\<lambda>r. cl_name c \<notin> set (names_of (tb_columns r))) (\<lambda>r. r\<lparr>tb_columns :=
        tb_columns r @ [c]\<rparr>) s
      else None)"
| "apply_ddl (DropColumn t c) s =
     (if list_ex (\<lambda>(_, r). (t, c) \<in> set (targets (tb_columns r))) (sc_tables s) then None
      else on_table t (\<lambda>r. c \<in> set (names_of (tb_columns r))) (without_column c) s)"
| "apply_ddl (CreateIndex n t cs u) s =
     on_table t (\<lambda>r. n \<notin> fst ` set (tb_indexes r) \<and> set cs \<subseteq> set (names_of (tb_columns r)))
       (\<lambda>r. r\<lparr>tb_indexes := tb_indexes r @ [(n, cs, u)]\<rparr>) s"
| "apply_ddl (DropIndex n t) s =
     on_table t (\<lambda>r. n \<in> fst ` set (tb_indexes r)) (\<lambda>r. r\<lparr>tb_indexes := filter (\<lambda>(m,
       _). m \<noteq> n) (tb_indexes r)\<rparr>) s"
| "apply_ddl (EnableRowSecurity t) s = on_table t (\<lambda>_. True) (\<lambda>r. r\<lparr>tb_enabled := True\<rparr>) s"
| "apply_ddl (ForceRowSecurity t) s = on_table t (\<lambda>_. True) (\<lambda>r. r\<lparr>tb_forced := True\<rparr>) s"
| "apply_ddl (CreatePolicy t) s = on_table t (\<lambda>r. \<not> tb_policy r) (\<lambda>r. r\<lparr>tb_policy :=
  True\<rparr>) s"
| "apply_ddl (DropPolicy t) s = on_table t (\<lambda>_. True) (\<lambda>r. r\<lparr>tb_policy := False\<rparr>) s"
| "apply_ddl (NoForceRowSecurity t) s = on_table t (\<lambda>_. True) (\<lambda>r. r\<lparr>tb_forced := False\<rparr>) s"
| "apply_ddl (DisableRowSecurity t) s = on_table t (\<lambda>_. True) (\<lambda>r. r\<lparr>tb_enabled := False\<rparr>) s"
| "apply_ddl (StagePassword p) s = Some (s\<lparr>sc_staged := p\<rparr>)"
| "apply_ddl CreateRole s = (if sc_staged s = [] then None else Some (s\<lparr>sc_role := Some (sc_staged s)\<rparr>))"
| "apply_ddl GrantUsage s = (if sc_role s = None then None else Some (s\<lparr>sc_usage := True\<rparr>))"
| "apply_ddl (Grant t) s = (if sc_role s = None then None else on_table t (\<lambda>_. True) (\<lambda>r.
  r\<lparr>tb_granted := True\<rparr>) s)"
| "apply_ddl (GrantSequence q) s = (if sc_role s = None then None else on_sequence q True s)"
| "apply_ddl (RevokeSequence q) s = (if sc_role s = None then None else on_sequence q False s)"
| "apply_ddl (Revoke t) s = (if sc_role s = None then None else on_table t (\<lambda>_. True) (\<lambda>r.
  r\<lparr>tb_granted := False\<rparr>) s)"
| "apply_ddl RevokeUsage s = (if sc_role s = None then None else Some (s\<lparr>sc_usage := False\<rparr>))"
| "apply_ddl DropRole s = (if sc_role s \<noteq> None \<and> \<not> unprivileged s then None else Some (s\<lparr>sc_role
  := None\<rparr>))"

fun run_ddl :: "ddl list \<Rightarrow> schema \<Rightarrow> schema option" where
  "run_ddl [] s = Some s"
| "run_ddl (x # xs) s = (case apply_ddl x s of None \<Rightarrow> None | Some s' \<Rightarrow> run_ddl xs s')"

text \<open>The raw statements among them, as text.\<close>

fun statement_text :: "ddl \<Rightarrow> string option" where
  "statement_text (EnableRowSecurity t) = Some (''ALTER TABLE '' @ t @ '' ENABLE ROW LEVEL SECURITY'')"
| "statement_text (ForceRowSecurity t) = Some (''ALTER TABLE '' @ t @ '' FORCE ROW LEVEL SECURITY'')"
| "statement_text (CreatePolicy t) =
     Some (''CREATE POLICY tenant_isolation ON '' @ t @ '' USING ('' @ policy_text @ '') WITH CHECK ('' @ policy_text @
       '')'')"
| "statement_text (DropPolicy t) = Some (''DROP POLICY IF EXISTS tenant_isolation ON '' @ t)"
| "statement_text (NoForceRowSecurity t) = Some (''ALTER TABLE '' @ t @ '' NO FORCE ROW LEVEL SECURITY'')"
| "statement_text (DisableRowSecurity t) = Some (''ALTER TABLE '' @ t @ '' DISABLE ROW LEVEL SECURITY'')"
| "statement_text GrantUsage = Some (''GRANT USAGE ON SCHEMA public TO '' @ APP_ROLE)"
| "statement_text (Grant t) = Some (''GRANT SELECT, INSERT, UPDATE, DELETE ON '' @ t @ '' TO '' @ APP_ROLE)"
| "statement_text (GrantSequence q) = Some (''GRANT USAGE, SELECT ON SEQUENCE '' @ q @ '' TO '' @ APP_ROLE)"
| "statement_text (RevokeSequence q) = Some (''REVOKE ALL ON SEQUENCE '' @ q @ '' FROM '' @ APP_ROLE)"
| "statement_text (Revoke t) = Some (''REVOKE ALL ON '' @ t @ '' FROM '' @ APP_ROLE)"
| "statement_text RevokeUsage = Some (''REVOKE USAGE ON SCHEMA public FROM '' @ APP_ROLE)"
| "statement_text DropRole = Some (''DROP ROLE IF EXISTS '' @ APP_ROLE)"
| "statement_text _ = None"

definition enable_row_security :: "string \<Rightarrow> ddl list" where
  "enable_row_security t = [EnableRowSecurity t, ForceRowSecurity t, CreatePolicy t]"

definition disable_row_security :: "string \<Rightarrow> ddl list" where
  "disable_row_security t = [DropPolicy t, NoForceRowSecurity t, DisableRowSecurity t]"

definition provision_app_role :: "string list \<Rightarrow> string list \<Rightarrow> ddl list" where
  "provision_app_role tables sequences = [CreateRole, GrantUsage] @ map Grant tables @ map GrantSequence sequences"

definition revoke_app_role :: "string list \<Rightarrow> string list \<Rightarrow> ddl list" where
  "revoke_app_role tables sequences = map RevokeSequence sequences @ map Revoke tables @ [RevokeUsage, DropRole]"

lemma statements_are_those_of_rls:
  "map statement_text (enable_row_security t) = map Some (enable_statements t)"
  "map statement_text (disable_row_security t) = map Some (disable_statements t)"
  "map statement_text (tl (provision_app_role ts qs)) = map Some (grant_statements ts qs)"
  "map statement_text (revoke_app_role ts qs) = map Some (revoke_app_role_statements ts qs)"
  by (simp_all add: enable_row_security_def enable_statements_def disable_row_security_def disable_statements_def
      provision_app_role_def grant_statements_def revoke_app_role_def revoke_app_role_statements_def)

section \<open>Tables\<close>

text \<open>The columns that a table is created with.\<close>

definition tenants_columns :: "column list" where
  "tenants_columns =
    [primary_key (Column ''id'' (String 36)), unique (required (Column ''name'' (String 200))),
     defaulting ''now()'' (required (Column ''created_at'' DateTime))]"

definition users_columns :: "column list" where
  "users_columns =
    [primary_key (Column ''id'' (String 36)), tenant_column, required (Column ''email'' (String 320)),
     required (Column ''role'' (String 30)), defaulting ''true'' (required (Column ''active'' Boolean))]"

definition devices_columns :: "column list" where
  "devices_columns =
    [primary_key (Column ''id'' (String 36)), tenant_column, required (Column ''external_id'' (String 200)),
     required (Column ''hostname'' (String 255)), required (Column ''os'' (String 30)),
     required (Column ''agent_key_hash'' (String 64)), defaulting ''now()'' (required (Column ''enrolled_at'' DateTime)),
     Column ''last_seen_at'' DateTime]"

definition device_inventory_columns :: "column list" where
  "device_inventory_columns =
    [serial_key (Column ''id'' Integer), tenant_column,
     required (references ''devices'' CASCADE (Column ''device_id'' (String 36))),
     required (Column ''collected_at'' DateTime), required (Column ''payload'' JSON)]"

definition heartbeats_columns :: "column list" where
  "heartbeats_columns =
    [serial_key (Column ''id'' Integer), tenant_column,
     required (references ''devices'' CASCADE (Column ''device_id'' (String 36))),
     defaulting ''now()'' (required (Column ''received_at'' DateTime)), required (Column ''status'' JSON)]"

definition tickets_columns :: "column list" where
  "tickets_columns =
    [primary_key (Column ''id'' (String 36)), tenant_column,
     references ''devices'' SET_NULL (Column ''device_id'' (String 36)), required (Column ''title'' (String 300)),
     defaulting [] (required (Column ''description'' Text)), defaulting ''open'' (required (Column ''status'' (String 30))),
     defaulting ''normal'' (required (Column ''priority'' (String 30))),
     required (references ''users'' NO_ACTION (Column ''created_by'' (String 36))),
     defaulting ''now()'' (required (Column ''created_at'' DateTime)),
     defaulting ''now()'' (required (Column ''updated_at'' DateTime))]"

definition actions_columns :: "column list" where
  "actions_columns =
    [primary_key (Column ''id'' (String 36)), tenant_column,
     required (references ''devices'' NO_ACTION (Column ''device_id'' (String 36))),
     references ''tickets'' SET_NULL (Column ''ticket_id'' (String 36)), required (Column ''skill_id'' (String 200)),
     required (references ''users'' NO_ACTION (Column ''requested_by'' (String 36))), required (Column ''parameters'' JSON),
     required (Column ''device_os'' (String 30)), required (Column ''risk'' (String 30)),
     required (Column ''status'' (String 30)), references ''users'' NO_ACTION (Column ''approved_by'' (String 36)),
     defaulting ''now()'' (required (Column ''created_at'' DateTime)),
     defaulting ''now()'' (required (Column ''updated_at'' DateTime))]"

definition approvals_columns :: "column list" where
  "approvals_columns =
    [primary_key (Column ''id'' (String 36)), tenant_column,
     required (references ''actions'' CASCADE (Column ''action_id'' (String 36))),
     required (references ''users'' NO_ACTION (Column ''decided_by'' (String 36))),
     required (Column ''decision'' (String 20)), Column ''reason'' Text,
     defaulting ''now()'' (required (Column ''decided_at'' DateTime))]"

definition execution_results_columns :: "column list" where
  "execution_results_columns =
    [primary_key (Column ''id'' (String 36)), tenant_column,
     required (references ''actions'' CASCADE (Column ''action_id'' (String 36))), required (Column ''success'' Boolean),
     required (Column ''output'' JSON), Column ''error'' Text,
     defaulting ''now()'' (required (Column ''created_at'' DateTime))]"

definition audit_events_columns :: "column list" where
  "audit_events_columns =
    [primary_key (Column ''id'' (String 36)), required (Column ''sequence'' Integer),
     defaulting ''now()'' (required (Column ''occurred_at'' DateTime)), tenant_column,
     required (Column ''correlation_id'' (String 100)), required (Column ''event_type'' (String 100)),
     required (Column ''actor_id'' (String 100)), required (Column ''details'' JSON),
     required (Column ''previous_hash'' (String 64)), unique (required (Column ''event_hash'' (String 64)))]"

definition idempotency_records_columns :: "column list" where
  "idempotency_records_columns =
    [primary_key (Column ''id'' (String 36)), tenant_column, required (Column ''scope'' (String 100)),
     required (Column ''key'' (String 200)), required (Column ''request_hash'' (String 64)),
     required (Column ''response'' JSON), required (Column ''status_code'' Integer),
     defaulting ''now()'' (required (Column ''created_at'' DateTime))]"

definition domain_events_columns :: "column list" where
  "domain_events_columns =
    [primary_key (Column ''id'' (String 36)), tenant_column, required (Column ''event_type'' (String 100)),
     required (Column ''subject_id'' (String 100)), defaulting ''1'' (required (Column ''schema_version'' Integer)),
     required (Column ''data'' JSON), required (Column ''occurred_at'' DateTime)]"

definition webhook_subscriptions_columns :: "column list" where
  "webhook_subscriptions_columns =
    [primary_key (Column ''id'' (String 36)), tenant_column, required (Column ''name'' (String 100)),
     required (Column ''url'' (String 2048)), required (Column ''secret_ref'' (String 255)),
     required (Column ''event_types'' JSON), defaulting ''true'' (required (Column ''active'' Boolean)),
     required (references ''users'' NO_ACTION (Column ''created_by'' (String 36))),
     defaulting ''now()'' (required (Column ''created_at'' DateTime))]"

definition webhook_deliveries_columns :: "column list" where
  "webhook_deliveries_columns =
    [primary_key (Column ''id'' (String 36)), tenant_column,
     required (references ''domain_events'' CASCADE (Column ''event_id'' (String 36))),
     required (references ''webhook_subscriptions'' CASCADE (Column ''subscription_id'' (String 36))),
     defaulting ''pending'' (required (Column ''status'' (String 30))),
     defaulting ''0'' (required (Column ''attempt_count'' Integer)),
     defaulting ''now()'' (required (Column ''next_attempt_at'' DateTime)), Column ''last_attempt_at'' DateTime,
     Column ''delivered_at'' DateTime, Column ''response_status'' Integer, Column ''last_error'' Text]"

definition incidents_columns :: "column list" where
  "incidents_columns =
    [primary_key (Column ''id'' (String 36)), tenant_column,
     required (references ''devices'' CASCADE (Column ''device_id'' (String 36))),
     references ''tickets'' SET_NULL (Column ''ticket_id'' (String 36)), required (Column ''incident_type'' (String 100)),
     required (Column ''severity'' (String 30)), defaulting ''open'' (required (Column ''status'' (String 30))),
     required (Column ''summary'' (String 300)), required (Column ''evidence'' JSON),
     required (Column ''correlation_key'' (String 255)), defaulting ''1'' (required (Column ''occurrence_count'' Integer)),
     required (Column ''first_observed_at'' DateTime), required (Column ''last_observed_at'' DateTime),
     Column ''resolved_at'' DateTime, defaulting ''now()'' (required (Column ''created_at'' DateTime)),
     defaulting ''now()'' (required (Column ''updated_at'' DateTime))]"

definition enrollment_tokens_columns :: "column list" where
  "enrollment_tokens_columns =
    [primary_key (Column ''id'' (String 36)), tenant_column, unique (required (Column ''token_hash'' (String 64))),
     required (references ''users'' NO_ACTION (Column ''created_by'' (String 36))),
     defaulting [] (required (Column ''label'' (String 200))), required (Column ''expires_at'' DateTime),
     Column ''used_at'' DateTime, references ''devices'' SET_NULL (Column ''used_by_device_id'' (String 36)),
     Column ''revoked_at'' DateTime, defaulting ''now()'' (required (Column ''created_at'' DateTime))]"

definition diagnoses_columns :: "column list" where
  "diagnoses_columns =
    [primary_key (Column ''id'' (String 36)), tenant_column,
     required (references ''incidents'' CASCADE (Column ''incident_id'' (String 36))),
     required (references ''users'' NO_ACTION (Column ''requested_by'' (String 36))),
     required (Column ''provider_name'' (String 100)), required (Column ''model'' (String 200)),
     defaulting ''false'' (required (Column ''fallback_used'' Boolean)), required (Column ''summary'' Text),
     defaulting [] (required (Column ''likely_root_cause'' Text)),
     defaulting ''0'' (required (Column ''confidence'' Float)), Column ''suggested_skill_id'' (String 200),
     defaulting ''{}'' (required (Column ''suggested_parameters'' JSON)),
     defaulting ''false'' (required (Column ''escalate'' Boolean)),
     defaulting [] (required (Column ''escalation_reason'' Text)),
     defaulting ''0'' (required (Column ''latency_ms'' Integer)),
     defaulting ''now()'' (required (Column ''created_at'' DateTime))]"

definition skills_columns :: "column list" where
  "skills_columns =
    [primary_key (Column ''id'' (String 36)), required (Column ''skill_id'' (String 200)),
     required (Column ''version'' Integer), required (Column ''risk'' (String 30)), required (Column ''supported_os'' JSON),
     defaulting ''30'' (required (Column ''timeout_seconds'' Integer)), Column ''rollback_skill_id'' (String 200),
     defaulting ''{}'' (required (Column ''parameters'' JSON)), required (Column ''content_hash'' (String 64)),
     defaulting ''true'' (required (Column ''active'' Boolean)), required (Column ''created_by'' (String 36)),
     defaulting ''now()'' (required (Column ''created_at'' DateTime))]"

definition worker_heartbeats_columns :: "column list" where
  "worker_heartbeats_columns =
    [primary_key (Column ''worker_name'' (String 100)), required (Column ''last_heartbeat_at'' DateTime),
     defaulting ''0'' (required (Column ''last_batch_size'' Integer))]"

definition application_connectors_columns :: "column list" where
  "application_connectors_columns =
    [primary_key (Column ''id'' (String 36)), tenant_column, required (Column ''application_id'' (String 100)),
     required (Column ''display_name'' (String 200)), required (Column ''connector_type'' (String 50)),
     defaulting ''{}'' (required (Column ''config'' JSON)),
     defaulting [] (required (Column ''credential_ref'' (String 255))),
     defaulting ''true'' (required (Column ''active'' Boolean)),
     required (references ''users'' NO_ACTION (Column ''created_by'' (String 36))),
     defaulting ''now()'' (required (Column ''created_at'' DateTime))]"

definition conversations_columns :: "column list" where
  "conversations_columns =
    [primary_key (Column ''id'' (String 36)), tenant_column, required (Column ''channel'' (String 30)),
     defaulting [] (required (Column ''channel_thread_id'' (String 255))),
     required (references ''users'' NO_ACTION (Column ''user_id'' (String 36))),
     defaulting ''open'' (required (Column ''status'' (String 30))),
     references ''tickets'' SET_NULL (Column ''ticket_id'' (String 36)),
     defaulting ''now()'' (required (Column ''created_at'' DateTime)),
     defaulting ''now()'' (required (Column ''updated_at'' DateTime))]"

definition conversation_messages_columns :: "column list" where
  "conversation_messages_columns =
    [primary_key (Column ''id'' (String 36)), tenant_column,
     required (references ''conversations'' CASCADE (Column ''conversation_id'' (String 36))),
     required (Column ''role'' (String 20)), required (Column ''content'' Text), Column ''intent'' (String 50),
     defaulting ''now()'' (required (Column ''created_at'' DateTime))]"

definition connector_requests_columns :: "column list" where
  "connector_requests_columns =
    [primary_key (Column ''id'' (String 36)), tenant_column,
     references ''conversations'' SET_NULL (Column ''conversation_id'' (String 36)),
     required (references ''application_connectors'' CASCADE (Column ''connector_id'' (String 36))),
     required (Column ''operation'' (String 50)), required (Column ''target_email'' (String 320)),
     required (references ''users'' NO_ACTION (Column ''requested_by'' (String 36))),
     required (Column ''risk'' (String 30)), defaulting ''pending_approval'' (required (Column ''status'' (String 30))),
     references ''users'' NO_ACTION (Column ''decided_by'' (String 36)), Column ''decision_reason'' Text,
     Column ''decided_at'' DateTime, Column ''result_success'' Boolean, Column ''result_detail'' Text,
     defaulting ''false'' (required (Column ''verified'' Boolean)),
     defaulting ''now()'' (required (Column ''created_at'' DateTime)),
     defaulting ''now()'' (required (Column ''updated_at'' DateTime))]"

definition knowledge_sources_columns :: "column list" where
  "knowledge_sources_columns =
    [primary_key (Column ''id'' (String 36)), required (Column ''source_organization'' (String 200)),
     defaulting [] (required (Column ''source_url'' (String 2048))), required (Column ''retrieval_date'' DateTime),
     Column ''last_verified_date'' DateTime, defaulting ''0.5'' (required (Column ''source_reliability'' Float)),
     defaulting ''false'' (required (Column ''deprecated'' Boolean)),
     references ''knowledge_sources'' SET_NULL (Column ''superseded_by'' (String 36)),
     required (Column ''created_by'' (String 36)), defaulting ''now()'' (required (Column ''created_at'' DateTime))]"

definition issue_definitions_columns :: "column list" where
  "issue_definitions_columns =
    [primary_key (Column ''id'' (String 36)), required (Column ''issue_key'' (String 200)),
     required (Column ''version'' Integer), required (Column ''title'' (String 300)),
     defaulting [] (required (Column ''description'' Text)), required (Column ''category'' (String 50)),
     required (Column ''applicable_os'' JSON), defaulting ''{}'' (required (Column ''applicable_software_versions'' JSON)),
     defaulting ''[]'' (required (Column ''evidence_requirements'' JSON)),
     defaulting ''[]'' (required (Column ''mitre_mappings'' JSON)),
     defaulting ''[]'' (required (Column ''cve_references'' JSON)), Column ''escalation_policy'' JSON,
     references ''knowledge_sources'' SET_NULL (Column ''source_id'' (String 36)),
     defaulting ''false'' (required (Column ''validated'' Boolean)), required (Column ''content_hash'' (String 64)),
     defaulting ''true'' (required (Column ''active'' Boolean)), required (Column ''created_by'' (String 36)),
     defaulting ''now()'' (required (Column ''created_at'' DateTime))]"

definition diagnostic_workflows_columns :: "column list" where
  "diagnostic_workflows_columns =
    [primary_key (Column ''id'' (String 36)),
     required (references ''issue_definitions'' CASCADE (Column ''issue_definition_id'' (String 36))),
     defaulting ''1'' (required (Column ''version'' Integer)), defaulting ''true'' (required (Column ''active'' Boolean)),
     required (Column ''created_by'' (String 36)), defaulting ''now()'' (required (Column ''created_at'' DateTime))]"

definition diagnostic_steps_columns :: "column list" where
  "diagnostic_steps_columns =
    [primary_key (Column ''id'' (String 36)),
     required (references ''diagnostic_workflows'' CASCADE (Column ''workflow_id'' (String 36))),
     required (Column ''step_order'' Integer), required (Column ''step_type'' (String 30)),
     defaulting [] (required (Column ''description'' Text)), Column ''remediation_skill_id'' (String 200),
     defaulting [] (required (Column ''verification_description'' Text)), Column ''rollback_skill_id'' (String 200),
     defaulting [] (required (Column ''reference_description'' Text))]"

definition organizational_baselines_columns :: "column list" where
  "organizational_baselines_columns =
    [primary_key (Column ''id'' (String 36)), tenant_column, required (Column ''scope'' (String 30)),
     required (Column ''key'' (String 200)), required (Column ''value'' JSON),
     references ''devices'' CASCADE (Column ''device_id'' (String 36)),
     references ''users'' CASCADE (Column ''user_id'' (String 36)), defaulting [] (required (Column ''description'' Text)),
     defaulting ''true'' (required (Column ''active'' Boolean)), required (Column ''created_by'' (String 36)),
     defaulting ''now()'' (required (Column ''created_at'' DateTime))]"

definition channel_workspace_links_columns :: "column list" where
  "channel_workspace_links_columns =
    [primary_key (Column ''id'' (String 36)), tenant_column, required (Column ''channel'' (String 30)),
     required (Column ''workspace_id'' (String 200)), required (Column ''signing_secret_ref'' (String 255)),
     defaulting ''true'' (required (Column ''active'' Boolean)), required (Column ''created_by'' (String 36)),
     defaulting ''now()'' (required (Column ''created_at'' DateTime))]"

definition channel_identity_links_columns :: "column list" where
  "channel_identity_links_columns =
    [primary_key (Column ''id'' (String 36)), tenant_column, required (Column ''channel'' (String 30)),
     required (Column ''provider_user_id'' (String 200)),
     required (references ''users'' CASCADE (Column ''user_id'' (String 36))), required (Column ''created_by'' (String 36)),
     defaulting ''now()'' (required (Column ''created_at'' DateTime))]"

section \<open>Migrations\<close>

definition upgrade_schema_0001 :: "ddl list" where
  "upgrade_schema_0001 =
     [CreateTable ''tenants'' tenants_columns [],
      CreateTable ''users'' users_columns [[''tenant_id'', ''email'']],
      CreateIndex ''ix_users_tenant_id'' ''users'' [''tenant_id''] False,
      CreateTable ''devices'' devices_columns [[''tenant_id'', ''external_id'']],
      CreateIndex ''ix_devices_tenant_id'' ''devices'' [''tenant_id''] False,
      CreateTable ''device_inventory'' device_inventory_columns [],
      CreateIndex ''ix_device_inventory_tenant_id'' ''device_inventory'' [''tenant_id''] False,
      CreateIndex ''ix_device_inventory_device_id'' ''device_inventory'' [''device_id''] False,
      CreateTable ''heartbeats'' heartbeats_columns [],
      CreateIndex ''ix_heartbeats_tenant_id'' ''heartbeats'' [''tenant_id''] False,
      CreateIndex ''ix_heartbeats_device_id'' ''heartbeats'' [''device_id''] False,
      CreateTable ''tickets'' tickets_columns [],
      CreateIndex ''ix_tickets_tenant_id'' ''tickets'' [''tenant_id''] False,
      CreateTable ''actions'' actions_columns [],
      CreateIndex ''ix_actions_tenant_id'' ''actions'' [''tenant_id''] False,
      CreateIndex ''ix_actions_device_id'' ''actions'' [''device_id''] False,
      CreateTable ''approvals'' approvals_columns [],
      CreateIndex ''ix_approvals_tenant_id'' ''approvals'' [''tenant_id''] False,
      CreateIndex ''ix_approvals_action_id'' ''approvals'' [''action_id''] False,
      CreateTable ''execution_results'' execution_results_columns [],
      CreateIndex ''ix_execution_results_tenant_id'' ''execution_results'' [''tenant_id''] False,
      CreateIndex ''ix_execution_results_action_id'' ''execution_results'' [''action_id''] False,
      CreateTable ''audit_events'' audit_events_columns [],
      CreateIndex ''ix_audit_events_tenant_id'' ''audit_events'' [''tenant_id''] False,
      CreateIndex ''ix_audit_events_correlation_id'' ''audit_events'' [''correlation_id''] False,
      CreateIndex ''ix_audit_tenant_sequence'' ''audit_events'' [''tenant_id'', ''sequence''] True,
      CreateTable ''idempotency_records'' idempotency_records_columns [[''tenant_id'', ''scope'', ''key'']],
      CreateIndex ''ix_idempotency_records_tenant_id'' ''idempotency_records'' [''tenant_id''] False]"

definition downgrade_schema_0001 :: "ddl list" where
  "downgrade_schema_0001 =
     map (\<lambda>table. DropTable table) [''idempotency_records'', ''audit_events'', ''execution_results'',
       ''approvals'', ''actions'', ''tickets'', ''heartbeats'', ''device_inventory'', ''devices'', ''users'', ''tenants'']"

definition upgrade_schema_0002 :: "ddl list" where
  "upgrade_schema_0002 =
     [AddColumn ''actions'' (Column ''claim_token_hash'' (String 64)),
      AddColumn ''actions'' (Column ''claimed_at'' DateTime),
      AddColumn ''actions'' (Column ''lease_expires_at'' DateTime),
      AddColumn ''actions'' (defaulting ''0'' (required (Column ''attempt'' Integer))),
      AddColumn ''execution_results'' (defaulting ''false'' (required (Column ''verified'' Boolean))),
      AddColumn ''execution_results'' (defaulting ''false'' (required (Column ''rollback_attempted'' Boolean))),
      AddColumn ''execution_results'' (Column ''rollback_succeeded'' Boolean)]"

definition downgrade_schema_0002 :: "ddl list" where
  "downgrade_schema_0002 =
     [DropColumn ''execution_results'' ''rollback_succeeded'',
      DropColumn ''execution_results'' ''rollback_attempted'',
      DropColumn ''execution_results'' ''verified'',
      DropColumn ''actions'' ''attempt'',
      DropColumn ''actions'' ''lease_expires_at'',
      DropColumn ''actions'' ''claimed_at'',
      DropColumn ''actions'' ''claim_token_hash'']"

definition upgrade_schema_0003 :: "ddl list" where
  "upgrade_schema_0003 =
     [CreateTable ''domain_events'' domain_events_columns [],
      CreateIndex ''ix_domain_events_tenant_id'' ''domain_events'' [''tenant_id''] False,
      CreateIndex ''ix_domain_events_event_type'' ''domain_events'' [''event_type''] False,
      CreateIndex ''ix_domain_events_subject_id'' ''domain_events'' [''subject_id''] False,
      CreateTable ''webhook_subscriptions'' webhook_subscriptions_columns [[''tenant_id'', ''name'']],
      CreateIndex ''ix_webhook_subscriptions_tenant_id'' ''webhook_subscriptions'' [''tenant_id''] False,
      CreateTable ''webhook_deliveries'' webhook_deliveries_columns [[''event_id'', ''subscription_id'']],
      CreateIndex ''ix_webhook_deliveries_tenant_id'' ''webhook_deliveries'' [''tenant_id''] False,
      CreateIndex ''ix_webhook_deliveries_event_id'' ''webhook_deliveries'' [''event_id''] False,
      CreateIndex ''ix_webhook_deliveries_subscription_id'' ''webhook_deliveries'' [''subscription_id''] False,
      CreateIndex ''ix_webhook_deliveries_status'' ''webhook_deliveries'' [''status''] False,
      CreateIndex ''ix_webhook_deliveries_next_attempt_at'' ''webhook_deliveries'' [''next_attempt_at''] False]"

definition downgrade_schema_0003 :: "ddl list" where
  "downgrade_schema_0003 =
     [DropTable ''webhook_deliveries'',
      DropTable ''webhook_subscriptions'',
      DropTable ''domain_events'']"

definition upgrade_schema_0004 :: "ddl list" where
  "upgrade_schema_0004 =
     [CreateTable ''incidents'' incidents_columns []]
     @ map (\<lambda>column. CreateIndex (''ix_incidents_'' @ column) ''incidents'' [column] False) [''tenant_id'',
       ''device_id'', ''ticket_id'', ''incident_type'', ''status'']
     @ [CreateIndex ''ix_incidents_tenant_device_correlation'' ''incidents'' [''tenant_id'', ''device_id'',
       ''correlation_key''] False]"

definition downgrade_schema_0004 :: "ddl list" where
  "downgrade_schema_0004 =
     [DropTable ''incidents'']"

definition TABLES_0005 :: "string list" where
  "TABLES_0005 =
     [''users'', ''devices'', ''device_inventory'', ''heartbeats'', ''tickets'', ''incidents'', ''actions'',
       ''approvals'', ''execution_results'', ''audit_events'', ''idempotency_records'', ''domain_events'',
         ''webhook_subscriptions'', ''webhook_deliveries'']"

definition UNSCOPED_TABLES_0005 :: "string list" where
  "UNSCOPED_TABLES_0005 =
     [''tenants'']"

definition upgrade_schema_0005 :: "settings \<Rightarrow> ddl list" where
  "upgrade_schema_0005 st =
     concat (map (\<lambda>table. enable_row_security table) TABLES_0005)
     @ [StagePassword (app_role_password st)]
     @ provision_app_role (TABLES_0005 @ UNSCOPED_TABLES_0005) APPLICATION_SEQUENCES
     @ [StagePassword []]"

definition downgrade_schema_0005 :: "ddl list" where
  "downgrade_schema_0005 =
     revoke_app_role (TABLES_0005 @ UNSCOPED_TABLES_0005) APPLICATION_SEQUENCES
     @ concat (map (\<lambda>table. disable_row_security table) TABLES_0005)"

definition upgrade_schema_0006 :: "ddl list" where
  "upgrade_schema_0006 =
     [AddColumn ''devices'' (defaulting ''true'' (required (Column ''active'' Boolean))),
      AddColumn ''devices'' (Column ''revoked_at'' DateTime),
      AddColumn ''devices'' (Column ''revoked_reason'' (String 200)),
      AddColumn ''devices'' (Column ''credential_rotated_at'' DateTime),
      CreateTable ''enrollment_tokens'' enrollment_tokens_columns [],
      CreateIndex ''ix_enrollment_tokens_tenant_id'' ''enrollment_tokens'' [''tenant_id''] False]
     @ enable_row_security ''enrollment_tokens''
     @ [Grant ''enrollment_tokens'']"

definition downgrade_schema_0006 :: "ddl list" where
  "downgrade_schema_0006 =
     [Revoke ''enrollment_tokens'']
     @ disable_row_security ''enrollment_tokens''
     @ [DropIndex ''ix_enrollment_tokens_tenant_id'' ''enrollment_tokens'',
        DropTable ''enrollment_tokens'',
        DropColumn ''devices'' ''credential_rotated_at'',
        DropColumn ''devices'' ''revoked_reason'',
        DropColumn ''devices'' ''revoked_at'',
        DropColumn ''devices'' ''active'']"

definition upgrade_schema_0007 :: "ddl list" where
  "upgrade_schema_0007 =
     [CreateTable ''diagnoses'' diagnoses_columns [],
      CreateIndex ''ix_diagnoses_tenant_id'' ''diagnoses'' [''tenant_id''] False,
      CreateIndex ''ix_diagnoses_incident_id'' ''diagnoses'' [''incident_id''] False]
     @ enable_row_security ''diagnoses''
     @ [Grant ''diagnoses'']"

definition downgrade_schema_0007 :: "ddl list" where
  "downgrade_schema_0007 =
     [Revoke ''diagnoses'']
     @ disable_row_security ''diagnoses''
     @ [DropIndex ''ix_diagnoses_incident_id'' ''diagnoses'',
        DropIndex ''ix_diagnoses_tenant_id'' ''diagnoses'',
        DropTable ''diagnoses'']"

definition upgrade_schema_0008 :: "ddl list" where
  "upgrade_schema_0008 =
     [CreateTable ''skills'' skills_columns [[''skill_id'', ''version'']],
      CreateIndex ''ix_skills_skill_id'' ''skills'' [''skill_id''] False,
      Grant ''skills'']"

definition downgrade_schema_0008 :: "ddl list" where
  "downgrade_schema_0008 =
     [Revoke ''skills'',
      DropIndex ''ix_skills_skill_id'' ''skills'',
      DropTable ''skills'']"

definition upgrade_schema_0009 :: "ddl list" where
  "upgrade_schema_0009 =
     [CreateTable ''worker_heartbeats'' worker_heartbeats_columns [],
      Grant ''worker_heartbeats'']"

definition downgrade_schema_0009 :: "ddl list" where
  "downgrade_schema_0009 =
     [Revoke ''worker_heartbeats'',
      DropTable ''worker_heartbeats'']"

definition NEW_TABLES_0010 :: "string list" where
  "NEW_TABLES_0010 =
     [''application_connectors'', ''conversations'', ''conversation_messages'', ''connector_requests'']"

definition upgrade_schema_0010 :: "ddl list" where
  "upgrade_schema_0010 =
     [CreateTable ''application_connectors'' application_connectors_columns [[''tenant_id'', ''application_id'']],
      CreateIndex ''ix_application_connectors_tenant_id'' ''application_connectors'' [''tenant_id''] False,
      CreateTable ''conversations'' conversations_columns []]
     @ map (\<lambda>column. CreateIndex (''ix_conversations_'' @ column) ''conversations'' [column] False)
       [''tenant_id'', ''channel'', ''user_id'', ''status'']
     @ [CreateTable ''conversation_messages'' conversation_messages_columns []]
     @ map (\<lambda>column. CreateIndex (''ix_conversation_messages_'' @ column) ''conversation_messages'' [column]
       False) [''tenant_id'', ''conversation_id'']
     @ [CreateTable ''connector_requests'' connector_requests_columns []]
     @ map (\<lambda>column. CreateIndex (''ix_connector_requests_'' @ column) ''connector_requests'' [column] False)
       [''tenant_id'', ''conversation_id'', ''connector_id'', ''status'']
     @ concat (map (\<lambda>table. enable_row_security table @ [Grant table]) NEW_TABLES_0010)"

definition downgrade_schema_0010 :: "ddl list" where
  "downgrade_schema_0010 =
     concat (map (\<lambda>table. [Revoke table] @ disable_row_security table) (rev NEW_TABLES_0010))
     @ map (\<lambda>column. DropIndex (''ix_connector_requests_'' @ column) ''connector_requests'') [''tenant_id'',
       ''conversation_id'', ''connector_id'', ''status'']
     @ [DropTable ''connector_requests'']
     @ map (\<lambda>column. DropIndex (''ix_conversation_messages_'' @ column) ''conversation_messages'')
       [''tenant_id'', ''conversation_id'']
     @ [DropTable ''conversation_messages'']
     @ map (\<lambda>column. DropIndex (''ix_conversations_'' @ column) ''conversations'') [''tenant_id'', ''channel'',
       ''user_id'', ''status'']
     @ [DropTable ''conversations'',
        DropIndex ''ix_application_connectors_tenant_id'' ''application_connectors'',
        DropTable ''application_connectors'']"

definition upgrade_schema_0011 :: "ddl list" where
  "upgrade_schema_0011 =
     [AddColumn ''skills'' (defaulting ''low_risk_change'' (required (Column ''command_type'' (String 30)))),
      AddColumn ''skills'' (defaulting ''false'' (required (Column ''requires_user_approval'' Boolean))),
      AddColumn ''skills'' (defaulting ''false'' (required (Column ''requires_admin_approval'' Boolean))),
      AddColumn ''skills'' (defaulting ''false'' (required (Column ''security_sensitive'' Boolean))),
      AddColumn ''skills'' (defaulting ''true'' (required (Column ''reversible'' Boolean))),
      AddColumn ''skills'' (defaulting [] (required (Column ''required_privilege'' (String 100)))),
      AddColumn ''skills'' (defaulting ''{}'' (required (Column ''preconditions'' JSON))),
      AddColumn ''skills'' (defaulting [] (required (Column ''expected_output'' Text))),
      AddColumn ''skills'' (defaulting [] (required (Column ''success_condition'' Text))),
      AddColumn ''skills'' (defaulting [] (required (Column ''failure_condition'' Text))),
      AddColumn ''skills'' (defaulting [] (required (Column ''side_effects'' Text))),
      AddColumn ''skills'' (defaulting ''false'' (required (Column ''requires_reboot'' Boolean))),
      AddColumn ''skills'' (defaulting [] (required (Column ''allowed_execution_context'' (String 100))))]"

definition downgrade_schema_0011 :: "ddl list" where
  "downgrade_schema_0011 =
     map (\<lambda>column. DropColumn ''skills'' column) [''allowed_execution_context'', ''requires_reboot'',
       ''side_effects'', ''failure_condition'', ''success_condition'', ''expected_output'', ''preconditions'',
         ''required_privilege'', ''reversible'', ''security_sensitive'', ''requires_admin_approval'',
           ''requires_user_approval'', ''command_type'']"

definition TABLES_0012 :: "string list" where
  "TABLES_0012 =
     [''knowledge_sources'', ''issue_definitions'', ''diagnostic_workflows'', ''diagnostic_steps'']"

definition upgrade_schema_0012 :: "ddl list" where
  "upgrade_schema_0012 =
     [CreateTable ''knowledge_sources'' knowledge_sources_columns [],
      CreateTable ''issue_definitions'' issue_definitions_columns [[''issue_key'', ''version'']],
      CreateIndex ''ix_issue_definitions_issue_key'' ''issue_definitions'' [''issue_key''] False,
      CreateTable ''diagnostic_workflows'' diagnostic_workflows_columns [],
      CreateIndex ''ix_diagnostic_workflows_issue_definition_id'' ''diagnostic_workflows'' [''issue_definition_id''] False,
      CreateTable ''diagnostic_steps'' diagnostic_steps_columns [],
      CreateIndex ''ix_diagnostic_steps_workflow_id'' ''diagnostic_steps'' [''workflow_id''] False]
     @ map (\<lambda>table. Grant table) TABLES_0012"

definition downgrade_schema_0012 :: "ddl list" where
  "downgrade_schema_0012 =
     map (\<lambda>table. Revoke table) (rev TABLES_0012)
     @ [DropIndex ''ix_diagnostic_steps_workflow_id'' ''diagnostic_steps'',
        DropTable ''diagnostic_steps'',
        DropIndex ''ix_diagnostic_workflows_issue_definition_id'' ''diagnostic_workflows'',
        DropTable ''diagnostic_workflows'',
        DropIndex ''ix_issue_definitions_issue_key'' ''issue_definitions'',
        DropTable ''issue_definitions'',
        DropTable ''knowledge_sources'']"

definition upgrade_schema_0014 :: "ddl list" where
  "upgrade_schema_0014 =
     [CreateTable ''organizational_baselines'' organizational_baselines_columns [],
      CreateIndex ''ix_organizational_baselines_tenant_id'' ''organizational_baselines'' [''tenant_id''] False,
      CreateIndex ''ix_organizational_baselines_key'' ''organizational_baselines'' [''key''] False]
     @ enable_row_security ''organizational_baselines''
     @ [Grant ''organizational_baselines'']"

definition downgrade_schema_0014 :: "ddl list" where
  "downgrade_schema_0014 =
     [Revoke ''organizational_baselines'']
     @ disable_row_security ''organizational_baselines''
     @ [DropIndex ''ix_organizational_baselines_key'' ''organizational_baselines'',
        DropIndex ''ix_organizational_baselines_tenant_id'' ''organizational_baselines'',
        DropTable ''organizational_baselines'']"

definition TABLES_0015 :: "string list" where
  "TABLES_0015 =
     [''channel_workspace_links'', ''channel_identity_links'']"

definition upgrade_schema_0015 :: "ddl list" where
  "upgrade_schema_0015 =
     [CreateTable ''channel_workspace_links'' channel_workspace_links_columns [[''channel'', ''workspace_id'']],
      CreateIndex ''ix_channel_workspace_links_tenant_id'' ''channel_workspace_links'' [''tenant_id''] False,
      CreateTable ''channel_identity_links'' channel_identity_links_columns [[''tenant_id'', ''channel'',
        ''provider_user_id'']],
      CreateIndex ''ix_channel_identity_links_tenant_id'' ''channel_identity_links'' [''tenant_id''] False]
     @ concat (map (\<lambda>table. enable_row_security table @ [Grant table]) TABLES_0015)"

definition downgrade_schema_0015 :: "ddl list" where
  "downgrade_schema_0015 =
     concat (map (\<lambda>table. [Revoke table] @ disable_row_security table) (rev TABLES_0015))
     @ [DropIndex ''ix_channel_identity_links_tenant_id'' ''channel_identity_links'',
        DropTable ''channel_identity_links'',
        DropIndex ''ix_channel_workspace_links_tenant_id'' ''channel_workspace_links'',
        DropTable ''channel_workspace_links'']"

definition upgrade_schema_0018 :: "ddl list" where
  "upgrade_schema_0018 =
     [AddColumn ''connector_requests'' (Column ''step_up_code_hash'' (String 64)),
      AddColumn ''connector_requests'' (Column ''step_up_code_expires_at'' DateTime)]"

definition downgrade_schema_0018 :: "ddl list" where
  "downgrade_schema_0018 =
     [DropColumn ''connector_requests'' ''step_up_code_expires_at'',
      DropColumn ''connector_requests'' ''step_up_code_hash'']"

lemmas table_columns = tenants_columns_def users_columns_def devices_columns_def device_inventory_columns_def
  heartbeats_columns_def tickets_columns_def actions_columns_def approvals_columns_def execution_results_columns_def
  audit_events_columns_def idempotency_records_columns_def domain_events_columns_def webhook_subscriptions_columns_def
  webhook_deliveries_columns_def incidents_columns_def enrollment_tokens_columns_def diagnoses_columns_def
  skills_columns_def worker_heartbeats_columns_def application_connectors_columns_def conversations_columns_def
  conversation_messages_columns_def connector_requests_columns_def knowledge_sources_columns_def
  issue_definitions_columns_def diagnostic_workflows_columns_def diagnostic_steps_columns_def
  organizational_baselines_columns_def channel_workspace_links_columns_def channel_identity_links_columns_def

lemmas migration_defs = upgrade_schema_0001_def downgrade_schema_0001_def upgrade_schema_0002_def
  downgrade_schema_0002_def upgrade_schema_0003_def downgrade_schema_0003_def upgrade_schema_0004_def
  downgrade_schema_0004_def TABLES_0005_def UNSCOPED_TABLES_0005_def upgrade_schema_0005_def downgrade_schema_0005_def
  upgrade_schema_0006_def downgrade_schema_0006_def upgrade_schema_0007_def downgrade_schema_0007_def
  upgrade_schema_0008_def downgrade_schema_0008_def upgrade_schema_0009_def downgrade_schema_0009_def
  NEW_TABLES_0010_def upgrade_schema_0010_def downgrade_schema_0010_def upgrade_schema_0011_def
  downgrade_schema_0011_def TABLES_0012_def upgrade_schema_0012_def downgrade_schema_0012_def upgrade_schema_0014_def
  downgrade_schema_0014_def TABLES_0015_def upgrade_schema_0015_def downgrade_schema_0015_def upgrade_schema_0018_def
  downgrade_schema_0018_def
  enable_row_security_def disable_row_security_def provision_app_role_def revoke_app_role_def APPLICATION_SEQUENCES_def

section \<open>The declared tables\<close>

text \<open>The classes of \<open>db_models.py\<close>: a table with its columns, unique constraints and indexes.\<close>

definition indexed :: "string \<Rightarrow> string list \<Rightarrow> (string \<times> string list \<times> bool) list"
  where
  "indexed t cs = map (\<lambda>c. (''ix_'' @ t @ ''_'' @ c, [c], False)) cs"

definition built :: "column list \<Rightarrow> string list list \<Rightarrow> (string \<times> string list \<times> bool)
  list \<Rightarrow> relation" where
  "built cols us ixs = (new_relation cols us)\<lparr>tb_indexes := ixs\<rparr>"

definition Tenant_table :: relation where
  "Tenant_table =
     built
      [primary_key (Column ''id'' (String 36)), unique (required (Column ''name'' (String 200))),
       required (Column ''created_at'' DateTime)]
      [] (indexed ''tenants'' [])"

definition SkillManifestRow_table :: relation where
  "SkillManifestRow_table =
     built
      [primary_key (Column ''id'' (String 36)), required (Column ''skill_id'' (String 200)),
       required (Column ''version'' Integer), required (Column ''risk'' (String 30)),
       required (Column ''supported_os'' JSON), required (Column ''timeout_seconds'' Integer),
       Column ''rollback_skill_id'' (String 200), required (Column ''parameters'' JSON),
       required (Column ''command_type'' (String 30)), required (Column ''requires_user_approval'' Boolean),
       required (Column ''requires_admin_approval'' Boolean), required (Column ''security_sensitive'' Boolean),
       required (Column ''reversible'' Boolean), required (Column ''required_privilege'' (String 100)),
       required (Column ''preconditions'' JSON), required (Column ''expected_output'' Text),
       required (Column ''success_condition'' Text), required (Column ''failure_condition'' Text),
       required (Column ''side_effects'' Text), required (Column ''requires_reboot'' Boolean),
       required (Column ''allowed_execution_context'' (String 100)), required (Column ''content_hash'' (String 64)),
       required (Column ''active'' Boolean), required (Column ''created_by'' (String 36)),
       required (Column ''created_at'' DateTime)]
      [[''skill_id'', ''version'']] (indexed ''skills'' [''skill_id''])"

definition WorkerHeartbeatRow_table :: relation where
  "WorkerHeartbeatRow_table =
     built
      [primary_key (Column ''worker_name'' (String 100)), required (Column ''last_heartbeat_at'' DateTime),
       required (Column ''last_batch_size'' Integer)]
      [] (indexed ''worker_heartbeats'' [])"

definition User_table :: relation where
  "User_table =
     built
      [primary_key (Column ''id'' (String 36)), tenant_column, required (Column ''email'' (String 320)),
       required (Column ''role'' (String 30)), required (Column ''active'' Boolean)]
      [[''tenant_id'', ''email'']] (indexed ''users'' [''tenant_id''])"

definition Device_table :: relation where
  "Device_table =
     built
      [primary_key (Column ''id'' (String 36)), tenant_column, required (Column ''external_id'' (String 200)),
       required (Column ''hostname'' (String 255)), required (Column ''os'' (String 30)),
       required (Column ''agent_key_hash'' (String 64)), required (Column ''active'' Boolean),
       Column ''revoked_at'' DateTime, Column ''revoked_reason'' (String 200), Column ''credential_rotated_at'' DateTime,
       required (Column ''enrolled_at'' DateTime), Column ''last_seen_at'' DateTime]
      [[''tenant_id'', ''external_id'']] (indexed ''devices'' [''tenant_id''])"

definition EnrollmentToken_table :: relation where
  "EnrollmentToken_table =
     built
      [primary_key (Column ''id'' (String 36)), tenant_column, unique (required (Column ''token_hash'' (String 64))),
       required (references ''users'' NO_ACTION (Column ''created_by'' (String 36))),
       required (Column ''label'' (String 200)), required (Column ''expires_at'' DateTime), Column ''used_at'' DateTime,
       references ''devices'' SET_NULL (Column ''used_by_device_id'' (String 36)), Column ''revoked_at'' DateTime,
       required (Column ''created_at'' DateTime)]
      [] (indexed ''enrollment_tokens'' [''tenant_id''])"

definition DeviceInventory_table :: relation where
  "DeviceInventory_table =
     built
      [serial_key (Column ''id'' Integer), tenant_column,
       required (references ''devices'' CASCADE (Column ''device_id'' (String 36))),
       required (Column ''collected_at'' DateTime), required (Column ''payload'' JSON)]
      [] (indexed ''device_inventory'' [''tenant_id'', ''device_id''])"

definition Heartbeat_table :: relation where
  "Heartbeat_table =
     built
      [serial_key (Column ''id'' Integer), tenant_column,
       required (references ''devices'' CASCADE (Column ''device_id'' (String 36))),
       required (Column ''received_at'' DateTime), required (Column ''status'' JSON)]
      [] (indexed ''heartbeats'' [''tenant_id'', ''device_id''])"

definition Ticket_table :: relation where
  "Ticket_table =
     built
      [primary_key (Column ''id'' (String 36)), tenant_column,
       references ''devices'' SET_NULL (Column ''device_id'' (String 36)), required (Column ''title'' (String 300)),
       required (Column ''description'' Text), required (Column ''status'' (String 30)),
       required (Column ''priority'' (String 30)),
       required (references ''users'' NO_ACTION (Column ''created_by'' (String 36))),
       required (Column ''created_at'' DateTime), required (Column ''updated_at'' DateTime)]
      [] (indexed ''tickets'' [''tenant_id''])"

definition Incident_table :: relation where
  "Incident_table =
     built
      [primary_key (Column ''id'' (String 36)), tenant_column,
       required (references ''devices'' CASCADE (Column ''device_id'' (String 36))),
       references ''tickets'' SET_NULL (Column ''ticket_id'' (String 36)),
       required (Column ''incident_type'' (String 100)), required (Column ''severity'' (String 30)),
       required (Column ''status'' (String 30)), required (Column ''summary'' (String 300)),
       required (Column ''evidence'' JSON), required (Column ''correlation_key'' (String 255)),
       required (Column ''occurrence_count'' Integer), required (Column ''first_observed_at'' DateTime),
       required (Column ''last_observed_at'' DateTime), Column ''resolved_at'' DateTime,
       required (Column ''created_at'' DateTime), required (Column ''updated_at'' DateTime)]
      [] (indexed ''incidents'' [''tenant_id'', ''device_id'', ''ticket_id'', ''incident_type'',
        ''status''] @ [(''ix_incidents_tenant_device_correlation'', [''tenant_id'', ''device_id'',
        ''correlation_key''], False)])"

definition Action_table :: relation where
  "Action_table =
     built
      [primary_key (Column ''id'' (String 36)), tenant_column,
       required (references ''devices'' NO_ACTION (Column ''device_id'' (String 36))),
       references ''tickets'' SET_NULL (Column ''ticket_id'' (String 36)), required (Column ''skill_id'' (String 200)),
       required (references ''users'' NO_ACTION (Column ''requested_by'' (String 36))),
       required (Column ''parameters'' JSON), required (Column ''device_os'' (String 30)),
       required (Column ''risk'' (String 30)), required (Column ''status'' (String 30)),
       references ''users'' NO_ACTION (Column ''approved_by'' (String 36)), Column ''claim_token_hash'' (String 64),
       Column ''claimed_at'' DateTime, Column ''lease_expires_at'' DateTime, required (Column ''attempt'' Integer),
       required (Column ''created_at'' DateTime), required (Column ''updated_at'' DateTime)]
      [] (indexed ''actions'' [''tenant_id'', ''device_id''])"

definition Approval_table :: relation where
  "Approval_table =
     built
      [primary_key (Column ''id'' (String 36)), tenant_column,
       required (references ''actions'' CASCADE (Column ''action_id'' (String 36))),
       required (references ''users'' NO_ACTION (Column ''decided_by'' (String 36))),
       required (Column ''decision'' (String 20)), Column ''reason'' Text, required (Column ''decided_at'' DateTime)]
      [] (indexed ''approvals'' [''tenant_id'', ''action_id''])"

definition Diagnosis_table :: relation where
  "Diagnosis_table =
     built
      [primary_key (Column ''id'' (String 36)), tenant_column,
       required (references ''incidents'' CASCADE (Column ''incident_id'' (String 36))),
       required (references ''users'' NO_ACTION (Column ''requested_by'' (String 36))),
       required (Column ''provider_name'' (String 100)), required (Column ''model'' (String 200)),
       required (Column ''fallback_used'' Boolean), required (Column ''summary'' Text),
       required (Column ''likely_root_cause'' Text), required (Column ''confidence'' Float),
       Column ''suggested_skill_id'' (String 200), required (Column ''suggested_parameters'' JSON),
       required (Column ''escalate'' Boolean), required (Column ''escalation_reason'' Text),
       required (Column ''latency_ms'' Integer), required (Column ''created_at'' DateTime)]
      [] (indexed ''diagnoses'' [''tenant_id'', ''incident_id''])"

definition ExecutionResultRow_table :: relation where
  "ExecutionResultRow_table =
     built
      [primary_key (Column ''id'' (String 36)), tenant_column,
       required (references ''actions'' CASCADE (Column ''action_id'' (String 36))),
       required (Column ''success'' Boolean), required (Column ''output'' JSON), Column ''error'' Text,
       required (Column ''verified'' Boolean), required (Column ''rollback_attempted'' Boolean),
       Column ''rollback_succeeded'' Boolean, required (Column ''created_at'' DateTime)]
      [] (indexed ''execution_results'' [''tenant_id'', ''action_id''])"

definition AuditEventRow_table :: relation where
  "AuditEventRow_table =
     built
      [primary_key (Column ''id'' (String 36)), required (Column ''sequence'' Integer),
       required (Column ''occurred_at'' DateTime), tenant_column, required (Column ''correlation_id'' (String 100)),
       required (Column ''event_type'' (String 100)), required (Column ''actor_id'' (String 100)),
       required (Column ''details'' JSON), required (Column ''previous_hash'' (String 64)),
       unique (required (Column ''event_hash'' (String 64)))]
      [] (indexed ''audit_events'' [''tenant_id'', ''correlation_id''] @ [(''ix_audit_tenant_sequence'',
        [''tenant_id'', ''sequence''], True)])"

definition IdempotencyRecord_table :: relation where
  "IdempotencyRecord_table =
     built
      [primary_key (Column ''id'' (String 36)), tenant_column, required (Column ''scope'' (String 100)),
       required (Column ''key'' (String 200)), required (Column ''request_hash'' (String 64)),
       required (Column ''response'' JSON), required (Column ''status_code'' Integer),
       required (Column ''created_at'' DateTime)]
      [[''tenant_id'', ''scope'', ''key'']] (indexed ''idempotency_records'' [''tenant_id''])"

definition DomainEventRow_table :: relation where
  "DomainEventRow_table =
     built
      [primary_key (Column ''id'' (String 36)), tenant_column, required (Column ''event_type'' (String 100)),
       required (Column ''subject_id'' (String 100)), required (Column ''schema_version'' Integer),
       required (Column ''data'' JSON), required (Column ''occurred_at'' DateTime)]
      [] (indexed ''domain_events'' [''tenant_id'', ''event_type'', ''subject_id''])"

definition WebhookSubscription_table :: relation where
  "WebhookSubscription_table =
     built
      [primary_key (Column ''id'' (String 36)), tenant_column, required (Column ''name'' (String 100)),
       required (Column ''url'' (String 2048)), required (Column ''secret_ref'' (String 255)),
       required (Column ''event_types'' JSON), required (Column ''active'' Boolean),
       required (references ''users'' NO_ACTION (Column ''created_by'' (String 36))),
       required (Column ''created_at'' DateTime)]
      [[''tenant_id'', ''name'']] (indexed ''webhook_subscriptions'' [''tenant_id''])"

definition WebhookDelivery_table :: relation where
  "WebhookDelivery_table =
     built
      [primary_key (Column ''id'' (String 36)), tenant_column,
       required (references ''domain_events'' CASCADE (Column ''event_id'' (String 36))),
       required (references ''webhook_subscriptions'' CASCADE (Column ''subscription_id'' (String 36))),
       required (Column ''status'' (String 30)), required (Column ''attempt_count'' Integer),
       required (Column ''next_attempt_at'' DateTime), Column ''last_attempt_at'' DateTime,
       Column ''delivered_at'' DateTime, Column ''response_status'' Integer, Column ''last_error'' Text]
      [[''event_id'', ''subscription_id'']] (indexed ''webhook_deliveries'' [''tenant_id'', ''event_id'',
        ''subscription_id'', ''status'', ''next_attempt_at''])"

definition ApplicationConnectorConfig_table :: relation where
  "ApplicationConnectorConfig_table =
     built
      [primary_key (Column ''id'' (String 36)), tenant_column, required (Column ''application_id'' (String 100)),
       required (Column ''display_name'' (String 200)), required (Column ''connector_type'' (String 50)),
       required (Column ''config'' JSON), required (Column ''credential_ref'' (String 255)),
       required (Column ''active'' Boolean),
       required (references ''users'' NO_ACTION (Column ''created_by'' (String 36))),
       required (Column ''created_at'' DateTime)]
      [[''tenant_id'', ''application_id'']] (indexed ''application_connectors'' [''tenant_id''])"

definition Conversation_table :: relation where
  "Conversation_table =
     built
      [primary_key (Column ''id'' (String 36)), tenant_column, required (Column ''channel'' (String 30)),
       required (Column ''channel_thread_id'' (String 255)),
       required (references ''users'' NO_ACTION (Column ''user_id'' (String 36))),
       required (Column ''status'' (String 30)), references ''tickets'' SET_NULL (Column ''ticket_id'' (String 36)),
       required (Column ''created_at'' DateTime), required (Column ''updated_at'' DateTime)]
      [] (indexed ''conversations'' [''tenant_id'', ''channel'', ''user_id'', ''status''])"

definition ConversationMessage_table :: relation where
  "ConversationMessage_table =
     built
      [primary_key (Column ''id'' (String 36)), tenant_column,
       required (references ''conversations'' CASCADE (Column ''conversation_id'' (String 36))),
       required (Column ''role'' (String 20)), required (Column ''content'' Text), Column ''intent'' (String 50),
       required (Column ''created_at'' DateTime)]
      [] (indexed ''conversation_messages'' [''tenant_id'', ''conversation_id''])"

definition ConnectorRequest_table :: relation where
  "ConnectorRequest_table =
     built
      [primary_key (Column ''id'' (String 36)), tenant_column,
       references ''conversations'' SET_NULL (Column ''conversation_id'' (String 36)),
       required (references ''application_connectors'' CASCADE (Column ''connector_id'' (String 36))),
       required (Column ''operation'' (String 50)), required (Column ''target_email'' (String 320)),
       required (references ''users'' NO_ACTION (Column ''requested_by'' (String 36))),
       required (Column ''risk'' (String 30)), required (Column ''status'' (String 30)),
       references ''users'' NO_ACTION (Column ''decided_by'' (String 36)), Column ''decision_reason'' Text,
       Column ''decided_at'' DateTime, Column ''result_success'' Boolean, Column ''result_detail'' Text,
       required (Column ''verified'' Boolean), Column ''step_up_code_hash'' (String 64),
       Column ''step_up_code_expires_at'' DateTime, required (Column ''created_at'' DateTime),
       required (Column ''updated_at'' DateTime)]
      [] (indexed ''connector_requests'' [''tenant_id''])"

definition KnowledgeSourceRow_table :: relation where
  "KnowledgeSourceRow_table =
     built
      [primary_key (Column ''id'' (String 36)), required (Column ''source_organization'' (String 200)),
       required (Column ''source_url'' (String 2048)), required (Column ''retrieval_date'' DateTime),
       Column ''last_verified_date'' DateTime, required (Column ''source_reliability'' Float),
       required (Column ''deprecated'' Boolean),
       references ''knowledge_sources'' SET_NULL (Column ''superseded_by'' (String 36)),
       required (Column ''created_by'' (String 36)), required (Column ''created_at'' DateTime)]
      [] (indexed ''knowledge_sources'' [])"

definition IssueDefinitionRow_table :: relation where
  "IssueDefinitionRow_table =
     built
      [primary_key (Column ''id'' (String 36)), required (Column ''issue_key'' (String 200)),
       required (Column ''version'' Integer), required (Column ''title'' (String 300)),
       required (Column ''description'' Text), required (Column ''category'' (String 50)),
       required (Column ''applicable_os'' JSON), required (Column ''applicable_software_versions'' JSON),
       required (Column ''evidence_requirements'' JSON), required (Column ''mitre_mappings'' JSON),
       required (Column ''cve_references'' JSON), Column ''escalation_policy'' JSON,
       references ''knowledge_sources'' SET_NULL (Column ''source_id'' (String 36)),
       required (Column ''validated'' Boolean), required (Column ''content_hash'' (String 64)),
       required (Column ''active'' Boolean), required (Column ''created_by'' (String 36)),
       required (Column ''created_at'' DateTime)]
      [[''issue_key'', ''version'']] (indexed ''issue_definitions'' [''issue_key''])"

definition DiagnosticWorkflowRow_table :: relation where
  "DiagnosticWorkflowRow_table =
     built
      [primary_key (Column ''id'' (String 36)),
       required (references ''issue_definitions'' CASCADE (Column ''issue_definition_id'' (String 36))),
       required (Column ''version'' Integer), required (Column ''active'' Boolean),
       required (Column ''created_by'' (String 36)), required (Column ''created_at'' DateTime)]
      [] (indexed ''diagnostic_workflows'' [''issue_definition_id''])"

definition DiagnosticStepRow_table :: relation where
  "DiagnosticStepRow_table =
     built
      [primary_key (Column ''id'' (String 36)),
       required (references ''diagnostic_workflows'' CASCADE (Column ''workflow_id'' (String 36))),
       required (Column ''step_order'' Integer), required (Column ''step_type'' (String 30)),
       required (Column ''description'' Text), Column ''remediation_skill_id'' (String 200),
       required (Column ''verification_description'' Text), Column ''rollback_skill_id'' (String 200),
       required (Column ''reference_description'' Text)]
      [] (indexed ''diagnostic_steps'' [''workflow_id''])"

definition OrganizationalBaselineRow_table :: relation where
  "OrganizationalBaselineRow_table =
     built
      [primary_key (Column ''id'' (String 36)), tenant_column, required (Column ''scope'' (String 30)),
       required (Column ''key'' (String 200)), required (Column ''value'' JSON),
       references ''devices'' CASCADE (Column ''device_id'' (String 36)),
       references ''users'' CASCADE (Column ''user_id'' (String 36)), required (Column ''description'' Text),
       required (Column ''active'' Boolean), required (Column ''created_by'' (String 36)),
       required (Column ''created_at'' DateTime)]
      [] (indexed ''organizational_baselines'' [''tenant_id'', ''key''])"

definition ChannelWorkspaceLink_table :: relation where
  "ChannelWorkspaceLink_table =
     built
      [primary_key (Column ''id'' (String 36)), tenant_column, required (Column ''channel'' (String 30)),
       required (Column ''workspace_id'' (String 200)), required (Column ''signing_secret_ref'' (String 255)),
       required (Column ''active'' Boolean), required (Column ''created_by'' (String 36)),
       required (Column ''created_at'' DateTime)]
      [[''channel'', ''workspace_id'']] (indexed ''channel_workspace_links'' [''tenant_id''])"

definition ChannelIdentityLink_table :: relation where
  "ChannelIdentityLink_table =
     built
      [primary_key (Column ''id'' (String 36)), tenant_column, required (Column ''channel'' (String 30)),
       required (Column ''provider_user_id'' (String 200)),
       required (references ''users'' CASCADE (Column ''user_id'' (String 36))),
       required (Column ''created_by'' (String 36)), required (Column ''created_at'' DateTime)]
      [[''tenant_id'', ''channel'', ''provider_user_id'']] (indexed ''channel_identity_links'' [''tenant_id''])"

definition DB_MODELS :: "(string \<times> relation) list" where
  "DB_MODELS = [(''tenants'', Tenant_table), (''skills'', SkillManifestRow_table), (''worker_heartbeats'',
     WorkerHeartbeatRow_table), (''users'', User_table), (''devices'', Device_table), (''enrollment_tokens'',
     EnrollmentToken_table), (''device_inventory'', DeviceInventory_table), (''heartbeats'', Heartbeat_table),
     (''tickets'', Ticket_table), (''incidents'', Incident_table), (''actions'', Action_table), (''approvals'',
     Approval_table), (''diagnoses'', Diagnosis_table), (''execution_results'', ExecutionResultRow_table),
     (''audit_events'', AuditEventRow_table), (''idempotency_records'', IdempotencyRecord_table), (''domain_events'',
     DomainEventRow_table), (''webhook_subscriptions'', WebhookSubscription_table), (''webhook_deliveries'',
     WebhookDelivery_table), (''application_connectors'', ApplicationConnectorConfig_table), (''conversations'',
     Conversation_table), (''conversation_messages'', ConversationMessage_table), (''connector_requests'',
     ConnectorRequest_table), (''knowledge_sources'', KnowledgeSourceRow_table), (''issue_definitions'',
     IssueDefinitionRow_table), (''diagnostic_workflows'', DiagnosticWorkflowRow_table), (''diagnostic_steps'',
     DiagnosticStepRow_table), (''organizational_baselines'', OrganizationalBaselineRow_table),
     (''channel_workspace_links'', ChannelWorkspaceLink_table), (''channel_identity_links'',
     ChannelIdentityLink_table)]"

lemmas model_tables = Tenant_table_def SkillManifestRow_table_def WorkerHeartbeatRow_table_def User_table_def
  Device_table_def EnrollmentToken_table_def DeviceInventory_table_def Heartbeat_table_def Ticket_table_def
  Incident_table_def Action_table_def Approval_table_def Diagnosis_table_def ExecutionResultRow_table_def
  AuditEventRow_table_def IdempotencyRecord_table_def DomainEventRow_table_def WebhookSubscription_table_def
  WebhookDelivery_table_def ApplicationConnectorConfig_table_def Conversation_table_def
  ConversationMessage_table_def ConnectorRequest_table_def KnowledgeSourceRow_table_def
  IssueDefinitionRow_table_def DiagnosticWorkflowRow_table_def DiagnosticStepRow_table_def
  OrganizationalBaselineRow_table_def ChannelWorkspaceLink_table_def ChannelIdentityLink_table_def

end
