(* ===== verification/SchemaLaws.thy ===== *)
theory SchemaLaws
  imports Schema
begin

text \<open>
  Laws of the statements: a schema stays well-formed, columns that were added can be dropped again, and a statement given for
  each of several tables changes exactly these.
\<close>

section \<open>Well-formed schemas\<close>

definition table_names :: "schema \<Rightarrow> string list" where
  "table_names s = map fst (sc_tables s)"

definition relation_ok :: "relation \<Rightarrow> bool" where
  "relation_ok r \<longleftrightarrow> (\<forall>u \<in> set (tb_uniques r). set u \<subseteq> set (names_of (tb_columns
    r)))
     \<and> (\<forall>(_, cs, _) \<in> set (tb_indexes r). set cs \<subseteq> set (names_of (tb_columns r)))"

definition schema_ok :: "schema \<Rightarrow> bool" where
  "schema_ok s \<longleftrightarrow> distinct (table_names s)
     \<and> (\<forall>t r. map_of (sc_tables s) t = Some r \<longrightarrow>
          relation_ok r \<and> (\<forall>(t', c) \<in> set (targets (tb_columns r)). has_column s t' c))"

lemma names_alter [simp]: "map fst (alter k f xs) = map fst xs"
  by (induction xs) (auto simp: alter_def)

lemma alter_Nil [simp]: "alter k f [] = []"
  by (simp add: alter_def)

lemma alter_Cons [simp]: "alter k f ((k', r) # xs) = (k', if k' = k then f r else r) # alter k f xs"
  by (simp add: alter_def)

lemma alter_append [simp]: "alter k f (xs @ ys) = alter k f xs @ alter k f ys"
  by (simp add: alter_def)

lemma alter_other: "map_of xs k = None \<Longrightarrow> alter k f xs = xs"
  by (induction xs) (auto split: if_splits)

lemma map_of_alter [simp]: "map_of (alter k f xs) k' = (if k' = k then map_option f (map_of xs k) else map_of xs k')"
  by (induction xs) (auto split: if_splits)

lemma filter_other: "map_of xs k = None \<Longrightarrow> filter (\<lambda>(k', _). k' \<noteq> k) xs = xs"
  by (induction xs) (auto split: if_splits)

lemma map_of_without: "map_of (filter (\<lambda>(t', _). t' \<noteq> t) xs) k = (if k = t then None else map_of xs k)"
  by (induction xs) auto

lemma has_column_iff: "has_column s t c \<longleftrightarrow> (\<exists>r. map_of (sc_tables s) t = Some r \<and> c \<in>
  set (names_of (tb_columns r)))"
  by (auto simp: has_column_def split: option.splits)

lemma on_table_Some:
  "on_table t P f s = Some s' \<longleftrightarrow> (\<exists>r. map_of (sc_tables s) t = Some r \<and> P r \<and> s' =
    s\<lparr>sc_tables := alter t f (sc_tables s)\<rparr>)"
  by (auto simp: on_table_def split: option.splits)

lemma on_tableI:
  "map_of (sc_tables s) t = Some r \<Longrightarrow> P r \<Longrightarrow> on_table t P f s = Some (s\<lparr>sc_tables :=
    alter t f (sc_tables s)\<rparr>)"
  by (simp add: on_table_def)

lemma targets_append [simp]: "targets (a @ b) = targets a @ targets b"
  by (simp add: targets_def)

lemma names_append [simp]: "names_of (a @ b) = names_of a @ names_of b"
  by (simp add: names_of_def)

lemma targets_without: "set (targets (filter P cols)) \<subseteq> set (targets cols)"
  by (auto simp: targets_def)

lemma names_without: "set (names_of (filter (\<lambda>k. cl_name k \<noteq> c) cols)) = set (names_of cols) - {c}"
  by (auto simp: names_of_def)

lemma schema_okI:
  assumes "distinct (table_names s)" and "\<And>t r. map_of (sc_tables s) t = Some r \<Longrightarrow> relation_ok r"
    and "\<And>t r t' c. map_of (sc_tables s) t = Some r \<Longrightarrow> (t', c) \<in> set (targets (tb_columns r))
      \<Longrightarrow> has_column s t' c"
  shows "schema_ok s"
  using assms by (auto simp: schema_ok_def)

lemma schema_okD:
  assumes "schema_ok s"
  shows "distinct (map fst (sc_tables s))"
    and "map_of (sc_tables s) t = Some r \<Longrightarrow> relation_ok r"
    and "map_of (sc_tables s) t = Some r \<Longrightarrow> (t', c) \<in> set (targets (tb_columns r)) \<Longrightarrow>
      has_column s t' c"
proof -
  show "distinct (map fst (sc_tables s))" using assms by (simp add: schema_ok_def table_names_def)
  have "map_of (sc_tables s) t = Some r \<Longrightarrow> relation_ok r \<and> (\<forall>(t', c) \<in> set (targets
    (tb_columns r)). has_column s t' c)"
    using assms unfolding schema_ok_def by blast
  then show "map_of (sc_tables s) t = Some r \<Longrightarrow> relation_ok r"
    and "map_of (sc_tables s) t = Some r \<Longrightarrow> (t', c) \<in> set (targets (tb_columns r)) \<Longrightarrow>
      has_column s t' c"
    by auto
qed

lemma referenced_exists:
  assumes "schema_ok s" and "(t', r) \<in> set (sc_tables s)" and "(q, c) \<in> set (targets (tb_columns r))"
  shows "has_column s q c"
  using assms schema_okD [OF assms(1)] by (metis map_of_is_SomeI)

lemma unreferenced:
  "schema_ok s \<Longrightarrow> map_of (sc_tables s) t = None \<Longrightarrow>
     \<not> list_ex (\<lambda>(t', r'). t' \<noteq> t \<and> list_ex (\<lambda>(q, _). q = t) (targets (tb_columns r')))
       (sc_tables s)"
  by (auto simp: list_ex_iff has_column_iff dest!: referenced_exists)

lemma alter_ok:
  assumes "schema_ok s" and "map_of (sc_tables s) t = Some r" and "relation_ok (f r)"
    and "set (names_of (tb_columns r)) \<subseteq> set (names_of (tb_columns (f r)))"
    and "\<And>t' c. (t', c) \<in> set (targets (tb_columns (f r))) \<Longrightarrow> has_column s t' c"
  shows "schema_ok (s\<lparr>sc_tables := alter t f (sc_tables s)\<rparr>)"
proof (rule schema_okI)
  let ?s = "s\<lparr>sc_tables := alter t f (sc_tables s)\<rparr>"
  have more: "has_column s t' c \<Longrightarrow> has_column ?s t' c" for t' c
    using assms(2,4) by (auto simp: has_column_iff)
  show "distinct (table_names ?s)" using schema_okD(1) [OF assms(1)] by (simp add: table_names_def)
  fix k q assume k: "map_of (sc_tables ?s) k = Some q"
  then show "relation_ok q" using assms(2,3) schema_okD(2) [OF assms(1)] by (auto split: if_splits)
  fix t' c assume "(t', c) \<in> set (targets (tb_columns q))"
  with k show "has_column ?s t' c" using assms(2,5) schema_okD(3) [OF assms(1)] more by (auto split: if_splits)
qed

lemma new_relation_simps [simp]:
  "tb_columns (new_relation cols us) = cols" "tb_uniques (new_relation cols us) = us" "tb_indexes (new_relation cols us)
    = []"
  by (simp_all add: new_relation_def)

lemma create_ok:
  assumes "schema_ok s" and "map_of (sc_tables s) t = None"
    and "list_all (\<lambda>(t', c). if t' = t then c \<in> set (names_of cols) else has_column s t' c) (targets cols)"
    and "list_all (\<lambda>u. set u \<subseteq> set (names_of cols)) us"
  shows "schema_ok (s\<lparr>sc_tables := sc_tables s @ [(t, new_relation cols us)], sc_sequences := qs\<rparr>)"
proof (rule schema_okI)
  let ?s = "s\<lparr>sc_tables := sc_tables s @ [(t, new_relation cols us)], sc_sequences := qs\<rparr>"
  have look: "map_of (sc_tables s @ [(t, new_relation cols us)]) k = (if k = t then Some (new_relation cols us) else
    map_of (sc_tables s) k)" for k
    using assms(2) by (simp add: map_add_def split: option.split)
  have more: "has_column s t' c \<Longrightarrow> has_column ?s t' c" for t' c
    using assms(2) by (auto simp: has_column_iff look simp del: map_of_append)
  show "distinct (table_names ?s)"
    using schema_okD(1) [OF assms(1)] assms(2) by (simp add: table_names_def map_of_eq_None_iff)
  fix k q assume "map_of (sc_tables ?s) k = Some q"
  then have k: "k = t \<and> q = new_relation cols us \<or> map_of (sc_tables s) k = Some q" by (auto simp: look simp
    del: map_of_append split: if_splits)
  have "relation_ok (new_relation cols us)" using assms(4) by (simp add: relation_ok_def list_all_iff)
  with k show "relation_ok q" using schema_okD(2) [OF assms(1)] by blast
  fix t' c assume c: "(t', c) \<in> set (targets (tb_columns q))"
  have self: "c \<in> set (names_of cols) \<Longrightarrow> has_column ?s t c" by (simp add: has_column_iff look del:
    map_of_append)
  from k show "has_column ?s t' c"
  proof
    assume "k = t \<and> q = new_relation cols us"
    with c have "(t', c) \<in> set (targets cols)" by simp
    with assms(3) show ?thesis using more self by (auto simp: list_all_iff split: if_splits)
  qed (use c more schema_okD(3) [OF assms(1)] in blast)
qed

lemma drop_ok:
  assumes "schema_ok s" and "\<not> list_ex (\<lambda>(t', r'). t' \<noteq> t \<and> list_ex (\<lambda>(q, _). q = t)
    (targets (tb_columns r'))) (sc_tables s)"
  shows "schema_ok (s\<lparr>sc_tables := filter (\<lambda>(t', _). t' \<noteq> t) (sc_tables s), sc_sequences :=
    qs\<rparr>)"
proof (rule schema_okI)
  let ?s = "s\<lparr>sc_tables := filter (\<lambda>(t', _). t' \<noteq> t) (sc_tables s), sc_sequences := qs\<rparr>"
  show "distinct (table_names ?s)"
    using schema_okD(1) [OF assms(1)] by (auto simp: table_names_def distinct_map intro: inj_on_subset)
  fix k q assume "map_of (sc_tables ?s) k = Some q"
  then have k: "k \<noteq> t" "map_of (sc_tables s) k = Some q" by (auto simp: map_of_without split: if_splits)
  then show "relation_ok q" using schema_okD(2) [OF assms(1)] by blast
  fix t' c assume c: "(t', c) \<in> set (targets (tb_columns q))"
  with k assms(2) have "t' \<noteq> t" by (force simp: list_ex_iff dest: map_of_SomeD)
  with schema_okD(3) [OF assms(1) k(2) c] show "has_column ?s t' c" by (auto simp: has_column_iff map_of_without)
qed

lemma drop_column_ok:
  assumes "schema_ok s" and "\<not> list_ex (\<lambda>(_, r). (t, c) \<in> set (targets (tb_columns r))) (sc_tables s)"
  shows "schema_ok (s\<lparr>sc_tables := alter t (without_column c) (sc_tables s)\<rparr>)"
proof (rule schema_okI)
  let ?s = "s\<lparr>sc_tables := alter t (without_column c) (sc_tables s)\<rparr>"
  show "distinct (table_names ?s)" using schema_okD(1) [OF assms(1)] by (simp add: table_names_def)
  fix k q assume "map_of (sc_tables ?s) k = Some q"
  then obtain q0 where k: "map_of (sc_tables s) k = Some q0" "q = q0 \<or> q = without_column c q0" by (auto split:
    if_splits)
  from schema_okD(2) [OF assms(1) k(1)] have "relation_ok (without_column c q0)"
    by (fastforce simp: relation_ok_def without_column_def names_without)
  with schema_okD(2) [OF assms(1) k(1)] k(2) show "relation_ok q" by auto
  fix t' c' assume "(t', c') \<in> set (targets (tb_columns q))"
  with k(2) have c: "(t', c') \<in> set (targets (tb_columns q0))"
    by (auto simp: without_column_def dest: subsetD [OF targets_without])
  with k(1) assms(2) have "(t', c') \<noteq> (t, c)" by (auto simp: list_ex_iff dest!: map_of_SomeD)
  with schema_okD(3) [OF assms(1) k(1) c] show "has_column ?s t' c'"
    by (auto simp: has_column_iff without_column_def names_without)
qed

section \<open>Every statement keeps a schema well-formed\<close>

lemma schema_ok_frame [simp]:
  "schema_ok (s\<lparr>sc_sequences := qs\<rparr>) = schema_ok s" "schema_ok (s\<lparr>sc_usage := u\<rparr>) = schema_ok s"
  "schema_ok (s\<lparr>sc_role := r\<rparr>) = schema_ok s" "schema_ok (s\<lparr>sc_staged := p\<rparr>) = schema_ok s"
  by (simp_all add: schema_ok_def table_names_def has_column_def)

lemma on_table_ok:
  assumes "schema_ok s" and "on_table t P f s = Some s'" and "\<And>r. P r \<Longrightarrow> relation_ok r
    \<Longrightarrow> relation_ok (f r)"
    and "\<And>r. set (names_of (tb_columns r)) \<subseteq> set (names_of (tb_columns (f r)))"
    and "\<And>r. tb_columns (f r) = tb_columns r \<or> tb_columns (f r) = tb_columns r @ [k]"
    and "\<And>t' c. (t', c) \<in> set (targets [k]) \<Longrightarrow> has_column s t' c"
  shows "schema_ok s'"
proof -
  obtain r where r: "map_of (sc_tables s) t = Some r" "P r" "s' = s\<lparr>sc_tables := alter t f (sc_tables s)\<rparr>"
    using assms(2) by (auto simp: on_table_Some)
  have c: "has_column s t' c" if "(t', c) \<in> set (targets (tb_columns (f r)))" for t' c
    using assms(5) [of r] assms(6) schema_okD(3) [OF assms(1) r(1)] that by auto
  show ?thesis unfolding r(3) using assms(1) r(1) assms(3) [OF r(2) schema_okD(2) [OF assms(1) r(1)]] assms(4) c by (rule
    alter_ok)
qed

lemma flag_ok:
  assumes "on_table t P f s = Some s'" and "schema_ok s" and "\<And>r. tb_columns (f r) = tb_columns r"
    and "\<And>r. P r \<Longrightarrow> relation_ok r \<Longrightarrow> relation_ok (f r)"
  shows "schema_ok s'"
  by (rule on_table_ok [OF assms(2,1,4), where k = "Column [] Text"]) (simp_all add: assms(3) targets_def Column_def)

lemma add_column_ok:
  assumes "apply_ddl (AddColumn t c) s = Some s'" and "schema_ok s"
  shows "schema_ok s'"
proof -
  from assms(1) have c: "list_all (\<lambda>(t', k). has_column s t' k) (targets [c])"
    and s': "on_table t (\<lambda>r. cl_name c \<notin> set (names_of (tb_columns r))) (\<lambda>r. r\<lparr>tb_columns
      := tb_columns r @ [c]\<rparr>) s = Some s'"
    by (auto split: if_splits)
  show ?thesis
    by (rule on_table_ok [OF assms(2) s', where k = c]) (use c in \<open>auto simp: relation_ok_def list_all_iff\<close>)
qed

lemma create_table_ok: "apply_ddl (CreateTable t cols us) s = Some s' \<Longrightarrow> schema_ok s \<Longrightarrow>
  schema_ok s'"
  using create_ok [of s t cols us] by (auto simp: has_table_def split: if_splits)

lemma drop_table_ok: "apply_ddl (DropTable t) s = Some s' \<Longrightarrow> schema_ok s \<Longrightarrow> schema_ok s'"
  using drop_ok [of s t] by (auto split: if_splits option.splits)

lemma drop_column_applied: "apply_ddl (DropColumn t c) s = Some s' \<Longrightarrow> schema_ok s \<Longrightarrow>
  schema_ok s'"
  using drop_column_ok [of s t c] by (auto simp: on_table_Some split: if_splits)

lemma apply_ddl_ok: "apply_ddl x s = Some s' \<Longrightarrow> schema_ok s \<Longrightarrow> schema_ok s'"
proof (cases x)
  case (CreateTable t cols us)
  then show "apply_ddl x s = Some s' \<Longrightarrow> schema_ok s \<Longrightarrow> schema_ok s'" using create_table_ok
    by blast
next
  case (DropTable t)
  then show "apply_ddl x s = Some s' \<Longrightarrow> schema_ok s \<Longrightarrow> schema_ok s'" using drop_table_ok by
    blast
next
  case (AddColumn t c)
  then show "apply_ddl x s = Some s' \<Longrightarrow> schema_ok s \<Longrightarrow> schema_ok s'" using add_column_ok by
    blast
next
  case (DropColumn t c)
  then show "apply_ddl x s = Some s' \<Longrightarrow> schema_ok s \<Longrightarrow> schema_ok s'" using
    drop_column_applied by blast
next
  case (CreateIndex n t cs u)
  then show "apply_ddl x s = Some s' \<Longrightarrow> schema_ok s \<Longrightarrow> schema_ok s'" by (auto simp:
    relation_ok_def elim!: flag_ok)
next
  case (DropIndex n t)
  then show "apply_ddl x s = Some s' \<Longrightarrow> schema_ok s \<Longrightarrow> schema_ok s'" by (auto simp:
    relation_ok_def elim!: flag_ok)
qed (auto simp: relation_ok_def on_sequence_def split: if_splits elim!: flag_ok)

lemma run_ddl_ok: "run_ddl xs s = Some s' \<Longrightarrow> schema_ok s \<Longrightarrow> schema_ok s'"
  by (induction xs arbitrary: s) (auto split: option.splits dest: apply_ddl_ok)

lemma run_ddl_append: "run_ddl (xs @ ys) s = (case run_ddl xs s of None \<Rightarrow> None | Some s' \<Rightarrow>
  run_ddl ys s')"
  by (induction xs arbitrary: s) (auto split: option.split)

section \<open>Columns added and dropped\<close>

definition with_columns :: "column list \<Rightarrow> relation \<Rightarrow> relation" where
  "with_columns cs = (\<lambda>r. r\<lparr>tb_columns := tb_columns r @ cs\<rparr>)"

lemma alter_alter: "alter t f (alter t g xs) = alter t (\<lambda>r. f (g r)) xs"
  by (induction xs) auto

lemma alter_cong_key: "(\<And>r. (t, r) \<in> set xs \<Longrightarrow> f r = g r) \<Longrightarrow> alter t f xs = alter
  t g xs"
  by (induction xs) auto

lemma alter_id: "alter t (\<lambda>r. r) xs = xs"
  by (induction xs) auto

lemma with_columns_Nil [simp]: "with_columns [] = (\<lambda>r. r)"
  by (simp add: with_columns_def fun_eq_iff)

lemma with_columns_twice: "with_columns ds (with_columns cs r) = with_columns (cs @ ds) r"
  by (simp add: with_columns_def)

lemma names_Cons [simp]: "names_of (c # cs) = cl_name c # names_of cs" "names_of [] = []"
  by (simp_all add: names_of_def)

lemma targets_Cons: "targets (c # cs) = [] \<longleftrightarrow> targets [c] = [] \<and> targets cs = []"
  by (simp add: targets_def)

lemma add_columns:
  assumes "map_of (sc_tables s) t = Some r" and "distinct (names_of cs)"
    and "set (names_of cs) \<inter> set (names_of (tb_columns r)) = {}" and "targets cs = []"
  shows "run_ddl (map (AddColumn t) cs @ xs) s = run_ddl xs (s\<lparr>sc_tables := alter t (with_columns cs) (sc_tables
    s)\<rparr>)"
  using assms
proof (induction cs arbitrary: s r)
  case Nil
  then show ?case by (simp add: alter_id)
next
  case (Cons c cs)
  let ?s = "s\<lparr>sc_tables := alter t (with_columns [c]) (sc_tables s)\<rparr>"
  from Cons.prems(4) have tg: "targets [c] = []" "targets cs = []" by (simp_all only: targets_Cons [of c cs])
  have "apply_ddl (AddColumn t c) s = Some ?s"
    using Cons.prems(1,3) tg(1) by (auto simp: on_table_def with_columns_def)
  moreover have "run_ddl (map (AddColumn t) cs @ xs) ?s = run_ddl xs (?s\<lparr>sc_tables := alter t (with_columns cs)
    (sc_tables ?s)\<rparr>)"
    by (rule Cons.IH [of _ "with_columns [c] r"]) (use Cons.prems tg in \<open>auto simp: with_columns_def\<close>)
  ultimately show ?case by (simp add: alter_alter with_columns_twice)
qed

lemma dropped_column:
  assumes "relation_ok r" and "cl_name c \<notin> set (names_of (tb_columns r))" and "cl_name c \<notin> set (names_of cs)"
  shows "without_column (cl_name c) (with_columns (cs @ [c]) r) = with_columns cs r"
proof -
  have "filter (\<lambda>k. cl_name k \<noteq> cl_name c) ds = ds" if "cl_name c \<notin> set (names_of ds)" for ds
    using that by (intro filter_True) (auto simp: names_of_def image_iff)
  moreover have "filter (\<lambda>u. cl_name c \<notin> set u) (tb_uniques r) = tb_uniques r"
    using assms(1,2) by (intro filter_True) (auto simp: relation_ok_def)
  moreover have "filter (\<lambda>(_, cs, _). cl_name c \<notin> set cs) (tb_indexes r) = tb_indexes r"
    using assms(1,2) by (intro filter_True) (auto simp: relation_ok_def)
  ultimately show ?thesis using assms(2,3) by (simp add: without_column_def with_columns_def)
qed

lemma not_referenced:
  assumes "schema_ok s" and "\<not> has_column s t c" and "targets cs = []"
  shows "\<not> list_ex (\<lambda>(_, r). (t, c) \<in> set (targets (tb_columns r))) (alter t (with_columns cs)
    (sc_tables s))"
  using assms(2,3) referenced_exists [OF assms(1)]
  by (auto simp: list_ex_iff alter_def with_columns_def split: if_splits)

lemma drop_columns:
  assumes "schema_ok s" and "map_of (sc_tables s) t = Some r" and "distinct (names_of cs)"
    and "set (names_of cs) \<inter> set (names_of (tb_columns r)) = {}" and "targets cs = []"
  shows "run_ddl (map (DropColumn t) (rev (names_of cs)) @ xs) (s\<lparr>sc_tables := alter t (with_columns cs)
    (sc_tables s)\<rparr>) = run_ddl xs s"
  using assms(3-)
proof (induction cs rule: rev_induct)
  case Nil
  then show ?case by (simp add: alter_id)
next
  case (snoc c cs)
  let ?s = "\<lambda>cs. s\<lparr>sc_tables := alter t (with_columns cs) (sc_tables s)\<rparr>"
  from snoc.prems have c: "cl_name c \<notin> set (names_of (tb_columns r))" "cl_name c \<notin> set (names_of cs)" by auto
  have one: "q = r" if "(t, q) \<in> set (sc_tables s)" for q
    using that assms(2) schema_okD(1) [OF assms(1)] by (metis map_of_is_SomeI option.inject)
  have "alter t (without_column (cl_name c)) (alter t (with_columns (cs @ [c])) (sc_tables s)) = alter t (with_columns
    cs) (sc_tables s)"
    unfolding alter_alter
    by (rule alter_cong_key) (use one dropped_column [OF schema_okD(2) [OF assms(1,2)] c] in blast)
  moreover have "\<not> has_column s t (cl_name c)" using assms(2) c(1) by (simp add: has_column_iff)
  ultimately have "apply_ddl (DropColumn t (cl_name c)) (?s (cs @ [c])) = Some (?s cs)"
    using not_referenced [OF assms(1), of t "cl_name c" "cs @ [c]"] snoc.prems(3) assms(2)
    by (simp add: on_table_def with_columns_def)
  moreover have "run_ddl (map (DropColumn t) (rev (names_of cs)) @ xs) (?s cs) = run_ddl xs s"
    by (rule snoc.IH) (use snoc.prems in auto)
  ultimately show ?case by simp
qed

section \<open>A statement for each of several tables\<close>

definition alter_all :: "string list \<Rightarrow> ('r \<Rightarrow> 'r) \<Rightarrow> (string \<times> 'r) list
  \<Rightarrow> (string \<times> 'r) list" where
  "alter_all ts f xs = map (\<lambda>(k, r). (k, if k \<in> set ts then f r else r)) xs"

lemma alter_all_Cons: "t \<notin> set ts \<Longrightarrow> alter_all ts f (alter t f xs) = alter_all (t # ts) f xs"
  by (induction xs) (auto simp: alter_all_def)

lemma alter_all_Nil [simp]: "alter_all [] f xs = xs"
  by (induction xs) (auto simp: alter_all_def)

lemma map_of_alter_all: "map_of (alter_all ts f xs) k = (if k \<in> set ts then map_option f (map_of xs k) else map_of xs
  k)"
  by (induction xs) (auto simp: alter_all_def)

lemma run_each:
  assumes "\<And>t s xs. sc_role s = role \<Longrightarrow>
      run_ddl (ops t @ xs) s = (case on_table t P f s of None \<Rightarrow> None | Some s' \<Rightarrow> run_ddl xs s')"
    and "sc_role s = role" and "distinct ts" and "\<And>t. t \<in> set ts \<Longrightarrow> \<exists>r. map_of (sc_tables
      s) t = Some r \<and> P r"
  shows "run_ddl (concat (map ops ts) @ xs) s = run_ddl xs (s\<lparr>sc_tables := alter_all ts f (sc_tables s)\<rparr>)"
  using assms(2-)
proof (induction ts arbitrary: s)
  case (Cons t ts)
  obtain r where r: "map_of (sc_tables s) t = Some r" "P r" using Cons.prems(3) [of t] by auto
  let ?s = "s\<lparr>sc_tables := alter t f (sc_tables s)\<rparr>"
  have "run_ddl (concat (map ops ts) @ xs) ?s = run_ddl xs (?s\<lparr>sc_tables := alter_all ts f (sc_tables ?s)\<rparr>)"
    by (rule Cons.IH) (use Cons.prems in auto)
  with Cons.prems(1,2) show ?case by (simp add: assms(1) on_tableI [of s t r P f, OF r] alter_all_Cons)
qed simp

lemma run_each_sequence:
  assumes "\<And>q s. sc_role s = role \<Longrightarrow> apply_ddl (op q) s = on_sequence q g s"
    and "sc_role s = role" and "distinct qs" and "\<And>q. q \<in> set qs \<Longrightarrow> map_of (sc_sequences s) q
      \<noteq> None"
  shows "run_ddl (map op qs @ xs) s = run_ddl xs (s\<lparr>sc_sequences := alter_all qs (\<lambda>_. g) (sc_sequences
    s)\<rparr>)"
  using assms(2-)
proof (induction qs arbitrary: s)
  case (Cons q qs)
  let ?s = "s\<lparr>sc_sequences := alter q (\<lambda>_. g) (sc_sequences s)\<rparr>"
  have "run_ddl (map op qs @ xs) ?s = run_ddl xs (?s\<lparr>sc_sequences := alter_all qs (\<lambda>_. g) (sc_sequences
    ?s)\<rparr>)"
    by (rule Cons.IH) (use Cons.prems in auto)
  moreover have "apply_ddl (op q) s = Some ?s" using Cons.prems(3) [of q] by (simp add: assms(1) [OF Cons.prems(1)]
    on_sequence_def)
  ultimately show ?case using Cons.prems(2) by (simp add: alter_all_Cons)
qed simp

end
