(* ===== verification/SchemaSteps.thy ===== *)
theory SchemaSteps
  imports SchemaLaws
begin

text \<open>
  What each migration does to a schema that it applies to, and that its downgrade undoes exactly that; then the schema of every
  revision, from the empty database on.
\<close>

section \<open>The columns of the tables\<close>

lemma column_names:
  "names_of tenants_columns = [''id'', ''name'', ''created_at'']"
  "names_of users_columns = [''id'', ''tenant_id'', ''email'', ''role'', ''active'']"
  "names_of devices_columns = [''id'', ''tenant_id'', ''external_id'', ''hostname'', ''os'', ''agent_key_hash'',
    ''enrolled_at'', ''last_seen_at'']"
  "names_of device_inventory_columns = [''id'', ''tenant_id'', ''device_id'', ''collected_at'', ''payload'']"
  "names_of heartbeats_columns = [''id'', ''tenant_id'', ''device_id'', ''received_at'', ''status'']"
  "names_of tickets_columns = [''id'', ''tenant_id'', ''device_id'', ''title'', ''description'', ''status'',
    ''priority'', ''created_by'', ''created_at'', ''updated_at'']"
  "names_of actions_columns = [''id'', ''tenant_id'', ''device_id'', ''ticket_id'', ''skill_id'', ''requested_by'',
    ''parameters'', ''device_os'', ''risk'', ''status'', ''approved_by'', ''created_at'', ''updated_at'']"
  "names_of approvals_columns = [''id'', ''tenant_id'', ''action_id'', ''decided_by'', ''decision'', ''reason'',
    ''decided_at'']"
  "names_of execution_results_columns = [''id'', ''tenant_id'', ''action_id'', ''success'', ''output'', ''error'',
    ''created_at'']"
  "names_of audit_events_columns = [''id'', ''sequence'', ''occurred_at'', ''tenant_id'', ''correlation_id'',
    ''event_type'', ''actor_id'', ''details'', ''previous_hash'', ''event_hash'']"
  "names_of idempotency_records_columns = [''id'', ''tenant_id'', ''scope'', ''key'', ''request_hash'', ''response'',
    ''status_code'', ''created_at'']"
  "names_of domain_events_columns = [''id'', ''tenant_id'', ''event_type'', ''subject_id'', ''schema_version'', ''data'',
    ''occurred_at'']"
  "names_of webhook_subscriptions_columns = [''id'', ''tenant_id'', ''name'', ''url'', ''secret_ref'', ''event_types'',
    ''active'', ''created_by'', ''created_at'']"
  "names_of webhook_deliveries_columns = [''id'', ''tenant_id'', ''event_id'', ''subscription_id'', ''status'',
    ''attempt_count'', ''next_attempt_at'', ''last_attempt_at'', ''delivered_at'', ''response_status'', ''last_error'']"
  "names_of incidents_columns = [''id'', ''tenant_id'', ''device_id'', ''ticket_id'', ''incident_type'', ''severity'',
    ''status'', ''summary'', ''evidence'', ''correlation_key'', ''occurrence_count'', ''first_observed_at'',
    ''last_observed_at'', ''resolved_at'', ''created_at'', ''updated_at'']"
  "names_of enrollment_tokens_columns = [''id'', ''tenant_id'', ''token_hash'', ''created_by'', ''label'',
    ''expires_at'', ''used_at'', ''used_by_device_id'', ''revoked_at'', ''created_at'']"
  "names_of diagnoses_columns = [''id'', ''tenant_id'', ''incident_id'', ''requested_by'', ''provider_name'', ''model'',
    ''fallback_used'', ''summary'', ''likely_root_cause'', ''confidence'', ''suggested_skill_id'',
    ''suggested_parameters'', ''escalate'', ''escalation_reason'', ''latency_ms'', ''created_at'']"
  "names_of skills_columns = [''id'', ''skill_id'', ''version'', ''risk'', ''supported_os'', ''timeout_seconds'',
    ''rollback_skill_id'', ''parameters'', ''content_hash'', ''active'', ''created_by'', ''created_at'']"
  "names_of worker_heartbeats_columns = [''worker_name'', ''last_heartbeat_at'', ''last_batch_size'']"
  "names_of application_connectors_columns = [''id'', ''tenant_id'', ''application_id'', ''display_name'',
    ''connector_type'', ''config'', ''credential_ref'', ''active'', ''created_by'', ''created_at'']"
  "names_of conversations_columns = [''id'', ''tenant_id'', ''channel'', ''channel_thread_id'', ''user_id'', ''status'',
    ''ticket_id'', ''created_at'', ''updated_at'']"
  "names_of conversation_messages_columns = [''id'', ''tenant_id'', ''conversation_id'', ''role'', ''content'',
    ''intent'', ''created_at'']"
  "names_of connector_requests_columns = [''id'', ''tenant_id'', ''conversation_id'', ''connector_id'', ''operation'',
    ''target_email'', ''requested_by'', ''risk'', ''status'', ''decided_by'', ''decision_reason'', ''decided_at'',
    ''result_success'', ''result_detail'', ''verified'', ''created_at'', ''updated_at'']"
  "names_of knowledge_sources_columns = [''id'', ''source_organization'', ''source_url'', ''retrieval_date'',
    ''last_verified_date'', ''source_reliability'', ''deprecated'', ''superseded_by'', ''created_by'', ''created_at'']"
  "names_of issue_definitions_columns = [''id'', ''issue_key'', ''version'', ''title'', ''description'', ''category'',
    ''applicable_os'', ''applicable_software_versions'', ''evidence_requirements'', ''mitre_mappings'',
    ''cve_references'', ''escalation_policy'', ''source_id'', ''validated'', ''content_hash'', ''active'',
    ''created_by'', ''created_at'']"
  "names_of diagnostic_workflows_columns = [''id'', ''issue_definition_id'', ''version'', ''active'', ''created_by'',
    ''created_at'']"
  "names_of diagnostic_steps_columns = [''id'', ''workflow_id'', ''step_order'', ''step_type'', ''description'',
    ''remediation_skill_id'', ''verification_description'', ''rollback_skill_id'', ''reference_description'']"
  "names_of organizational_baselines_columns = [''id'', ''tenant_id'', ''scope'', ''key'', ''value'', ''device_id'',
    ''user_id'', ''description'', ''active'', ''created_by'', ''created_at'']"
  "names_of channel_workspace_links_columns = [''id'', ''tenant_id'', ''channel'', ''workspace_id'',
    ''signing_secret_ref'', ''active'', ''created_by'', ''created_at'']"
  "names_of channel_identity_links_columns = [''id'', ''tenant_id'', ''channel'', ''provider_user_id'', ''user_id'',
    ''created_by'', ''created_at'']"
  by (simp_all add: names_of_def table_columns column_defs)

lemma column_targets:
  "targets tenants_columns = []"
  "targets users_columns = [(''tenants'', ''id'')]"
  "targets devices_columns = [(''tenants'', ''id'')]"
  "targets device_inventory_columns = [(''tenants'', ''id''), (''devices'', ''id'')]"
  "targets heartbeats_columns = [(''tenants'', ''id''), (''devices'', ''id'')]"
  "targets tickets_columns = [(''tenants'', ''id''), (''devices'', ''id''), (''users'', ''id'')]"
  "targets actions_columns = [(''tenants'', ''id''), (''devices'', ''id''), (''tickets'', ''id''), (''users'', ''id''),
    (''users'', ''id'')]"
  "targets approvals_columns = [(''tenants'', ''id''), (''actions'', ''id''), (''users'', ''id'')]"
  "targets execution_results_columns = [(''tenants'', ''id''), (''actions'', ''id'')]"
  "targets audit_events_columns = [(''tenants'', ''id'')]"
  "targets idempotency_records_columns = [(''tenants'', ''id'')]"
  "targets domain_events_columns = [(''tenants'', ''id'')]"
  "targets webhook_subscriptions_columns = [(''tenants'', ''id''), (''users'', ''id'')]"
  "targets webhook_deliveries_columns = [(''tenants'', ''id''), (''domain_events'', ''id''), (''webhook_subscriptions'',
    ''id'')]"
  "targets incidents_columns = [(''tenants'', ''id''), (''devices'', ''id''), (''tickets'', ''id'')]"
  "targets enrollment_tokens_columns = [(''tenants'', ''id''), (''users'', ''id''), (''devices'', ''id'')]"
  "targets diagnoses_columns = [(''tenants'', ''id''), (''incidents'', ''id''), (''users'', ''id'')]"
  "targets skills_columns = []"
  "targets worker_heartbeats_columns = []"
  "targets application_connectors_columns = [(''tenants'', ''id''), (''users'', ''id'')]"
  "targets conversations_columns = [(''tenants'', ''id''), (''users'', ''id''), (''tickets'', ''id'')]"
  "targets conversation_messages_columns = [(''tenants'', ''id''), (''conversations'', ''id'')]"
  "targets connector_requests_columns = [(''tenants'', ''id''), (''conversations'', ''id''), (''application_connectors'',
    ''id''), (''users'', ''id''), (''users'', ''id'')]"
  "targets knowledge_sources_columns = [(''knowledge_sources'', ''id'')]"
  "targets issue_definitions_columns = [(''knowledge_sources'', ''id'')]"
  "targets diagnostic_workflows_columns = [(''issue_definitions'', ''id'')]"
  "targets diagnostic_steps_columns = [(''diagnostic_workflows'', ''id'')]"
  "targets organizational_baselines_columns = [(''tenants'', ''id''), (''devices'', ''id''), (''users'', ''id'')]"
  "targets channel_workspace_links_columns = [(''tenants'', ''id'')]"
  "targets channel_identity_links_columns = [(''tenants'', ''id''), (''users'', ''id'')]"
  by (simp_all add: targets_def table_columns column_defs)

lemma column_serials:
  "serials tenants_columns = []"
  "serials users_columns = []"
  "serials devices_columns = []"
  "serials device_inventory_columns = [''id'']"
  "serials heartbeats_columns = [''id'']"
  "serials tickets_columns = []"
  "serials actions_columns = []"
  "serials approvals_columns = []"
  "serials execution_results_columns = []"
  "serials audit_events_columns = []"
  "serials idempotency_records_columns = []"
  "serials domain_events_columns = []"
  "serials webhook_subscriptions_columns = []"
  "serials webhook_deliveries_columns = []"
  "serials incidents_columns = []"
  "serials enrollment_tokens_columns = []"
  "serials diagnoses_columns = []"
  "serials skills_columns = []"
  "serials worker_heartbeats_columns = []"
  "serials application_connectors_columns = []"
  "serials conversations_columns = []"
  "serials conversation_messages_columns = []"
  "serials connector_requests_columns = []"
  "serials knowledge_sources_columns = []"
  "serials issue_definitions_columns = []"
  "serials diagnostic_workflows_columns = []"
  "serials diagnostic_steps_columns = []"
  "serials organizational_baselines_columns = []"
  "serials channel_workspace_links_columns = []"
  "serials channel_identity_links_columns = []"
  by (simp_all add: serials_def table_columns column_defs)

section \<open>The tables each migration creates\<close>

definition protect :: "relation \<Rightarrow> relation" where
  "protect = (\<lambda>r. r\<lparr>tb_enabled := True, tb_forced := True, tb_policy := True\<rparr>)"

definition grant :: "relation \<Rightarrow> relation" where
  "grant = (\<lambda>r. r\<lparr>tb_granted := True\<rparr>)"

definition tables_0001 :: "(string \<times> relation) list" where
  "tables_0001 =
     [(''tenants'', built tenants_columns [] (indexed ''tenants'' [])),
      (''users'', built users_columns [[''tenant_id'', ''email'']] (indexed ''users'' [''tenant_id''])),
      (''devices'', built devices_columns [[''tenant_id'', ''external_id'']] (indexed ''devices'' [''tenant_id''])),
      (''device_inventory'', built device_inventory_columns [] (indexed ''device_inventory'' [''tenant_id'',
        ''device_id''])),
      (''heartbeats'', built heartbeats_columns [] (indexed ''heartbeats'' [''tenant_id'', ''device_id''])),
      (''tickets'', built tickets_columns [] (indexed ''tickets'' [''tenant_id''])),
      (''actions'', built actions_columns [] (indexed ''actions'' [''tenant_id'', ''device_id''])),
      (''approvals'', built approvals_columns [] (indexed ''approvals'' [''tenant_id'', ''action_id''])),
      (''execution_results'', built execution_results_columns [] (indexed ''execution_results'' [''tenant_id'',
        ''action_id''])),
      (''audit_events'', built audit_events_columns [] (indexed ''audit_events'' [''tenant_id'', ''correlation_id''] @
        [(''ix_audit_tenant_sequence'', [''tenant_id'', ''sequence''], True)])),
      (''idempotency_records'', built idempotency_records_columns [[''tenant_id'', ''scope'', ''key'']] (indexed
        ''idempotency_records'' [''tenant_id'']))]"

definition tables_0003 :: "(string \<times> relation) list" where
  "tables_0003 =
     [(''domain_events'', built domain_events_columns [] (indexed ''domain_events'' [''tenant_id'', ''event_type'',
       ''subject_id''])),
      (''webhook_subscriptions'', built webhook_subscriptions_columns [[''tenant_id'', ''name'']] (indexed
        ''webhook_subscriptions'' [''tenant_id''])),
      (''webhook_deliveries'', built webhook_deliveries_columns [[''event_id'', ''subscription_id'']] (indexed
        ''webhook_deliveries'' [''tenant_id'', ''event_id'', ''subscription_id'', ''status'', ''next_attempt_at'']))]"

definition tables_0004 :: "(string \<times> relation) list" where
  "tables_0004 =
     [(''incidents'', built incidents_columns [] (indexed ''incidents'' [''tenant_id'', ''device_id'', ''ticket_id'',
       ''incident_type'', ''status''] @ [(''ix_incidents_tenant_device_correlation'', [''tenant_id'', ''device_id'',
         ''correlation_key''], False)]))]"

definition tables_0006 :: "(string \<times> relation) list" where
  "tables_0006 =
     [(''enrollment_tokens'', grant (protect (built enrollment_tokens_columns [] (indexed ''enrollment_tokens''
       [''tenant_id'']))))]"

definition tables_0007 :: "(string \<times> relation) list" where
  "tables_0007 =
     [(''diagnoses'', grant (protect (built diagnoses_columns [] (indexed ''diagnoses'' [''tenant_id'',
       ''incident_id'']))))]"

definition tables_0008 :: "(string \<times> relation) list" where
  "tables_0008 =
     [(''skills'', grant (built skills_columns [[''skill_id'', ''version'']] (indexed ''skills'' [''skill_id''])))]"

definition tables_0009 :: "(string \<times> relation) list" where
  "tables_0009 =
     [(''worker_heartbeats'', grant (built worker_heartbeats_columns [] (indexed ''worker_heartbeats'' [])))]"

definition tables_0010 :: "(string \<times> relation) list" where
  "tables_0010 =
     [(''application_connectors'', grant (protect (built application_connectors_columns [[''tenant_id'',
       ''application_id'']] (indexed ''application_connectors'' [''tenant_id''])))),
      (''conversations'', grant (protect (built conversations_columns [] (indexed ''conversations'' [''tenant_id'',
        ''channel'', ''user_id'', ''status''])))),
      (''conversation_messages'', grant (protect (built conversation_messages_columns [] (indexed
        ''conversation_messages'' [''tenant_id'', ''conversation_id''])))),
      (''connector_requests'', grant (protect (built connector_requests_columns [] (indexed ''connector_requests''
        [''tenant_id'', ''conversation_id'', ''connector_id'', ''status'']))))]"

definition tables_0012 :: "(string \<times> relation) list" where
  "tables_0012 =
     [(''knowledge_sources'', grant (built knowledge_sources_columns [] (indexed ''knowledge_sources'' []))),
      (''issue_definitions'', grant (built issue_definitions_columns [[''issue_key'', ''version'']] (indexed
        ''issue_definitions'' [''issue_key'']))),
      (''diagnostic_workflows'', grant (built diagnostic_workflows_columns [] (indexed ''diagnostic_workflows''
        [''issue_definition_id'']))),
      (''diagnostic_steps'', grant (built diagnostic_steps_columns [] (indexed ''diagnostic_steps'' [''workflow_id''])))]"

definition tables_0014 :: "(string \<times> relation) list" where
  "tables_0014 =
     [(''organizational_baselines'', grant (protect (built organizational_baselines_columns [] (indexed
       ''organizational_baselines'' [''tenant_id'', ''key'']))))]"

definition tables_0015 :: "(string \<times> relation) list" where
  "tables_0015 =
     [(''channel_workspace_links'', grant (protect (built channel_workspace_links_columns [[''channel'',
       ''workspace_id'']] (indexed ''channel_workspace_links'' [''tenant_id''])))),
      (''channel_identity_links'', grant (protect (built channel_identity_links_columns [[''tenant_id'', ''channel'',
        ''provider_user_id'']] (indexed ''channel_identity_links'' [''tenant_id'']))))]"

lemma lookup_append: "map_of xs t = None \<Longrightarrow> map_of (xs @ ys) t = map_of ys t"
  by (simp add: map_add_def split: option.split)

lemma has_column_more: "has_column s t c \<Longrightarrow> has_column (s\<lparr>sc_tables := sc_tables s @ xs\<rparr>) t c"
  by (auto simp: has_column_iff)

lemma has_column_new:
  "map_of (sc_tables s) t = None \<Longrightarrow> has_column (s\<lparr>sc_tables := sc_tables s @ xs\<rparr>) t c
    \<longleftrightarrow>
     (case map_of xs t of None \<Rightarrow> False | Some r \<Rightarrow> c \<in> set (names_of (tb_columns r)))"
  by (simp add: has_column_def lookup_append del: map_of_append)

lemmas up_simps = has_table_def on_table_def alter_other filter_other lookup_append has_column_more has_column_new
  column_names column_targets column_serials indexed_def built_def protect_def grant_def new_relation_def

lemma up_0003:
  assumes "schema_ok s"
    and "map_of (sc_tables s) ''domain_events'' = None"
    and "map_of (sc_tables s) ''webhook_subscriptions'' = None"
    and "map_of (sc_tables s) ''webhook_deliveries'' = None"
    and "has_column s ''tenants'' ''id''"
    and "has_column s ''users'' ''id''"
  shows "run_ddl upgrade_schema_0003 s = Some (s\<lparr>sc_tables := sc_tables s @ tables_0003\<rparr>)"
  using assms by (simp add: migration_defs tables_0003_def up_simps del: map_of_append)

lemma down_0003:
  assumes "schema_ok s"
    and "map_of (sc_tables s) ''domain_events'' = None"
    and "map_of (sc_tables s) ''webhook_subscriptions'' = None"
    and "map_of (sc_tables s) ''webhook_deliveries'' = None"
    and "has_column s ''tenants'' ''id''"
    and "has_column s ''users'' ''id''"
  shows "run_ddl downgrade_schema_0003 (s\<lparr>sc_tables := sc_tables s @ tables_0003\<rparr>) = Some s"
  using assms by (simp add: migration_defs tables_0003_def up_simps unreferenced del: map_of_append)

lemma up_0004:
  assumes "schema_ok s"
    and "map_of (sc_tables s) ''incidents'' = None"
    and "has_column s ''tenants'' ''id''"
    and "has_column s ''devices'' ''id''"
    and "has_column s ''tickets'' ''id''"
  shows "run_ddl upgrade_schema_0004 s = Some (s\<lparr>sc_tables := sc_tables s @ tables_0004\<rparr>)"
  using assms by (simp add: migration_defs tables_0004_def up_simps del: map_of_append)

lemma down_0004:
  assumes "schema_ok s"
    and "map_of (sc_tables s) ''incidents'' = None"
    and "has_column s ''tenants'' ''id''"
    and "has_column s ''devices'' ''id''"
    and "has_column s ''tickets'' ''id''"
  shows "run_ddl downgrade_schema_0004 (s\<lparr>sc_tables := sc_tables s @ tables_0004\<rparr>) = Some s"
  using assms by (simp add: migration_defs tables_0004_def up_simps unreferenced del: map_of_append)

lemma up_0007:
  assumes "schema_ok s"
    and "map_of (sc_tables s) ''diagnoses'' = None"
    and "has_column s ''tenants'' ''id''"
    and "has_column s ''incidents'' ''id''"
    and "has_column s ''users'' ''id''"
    and "sc_role s \<noteq> None"
  shows "run_ddl upgrade_schema_0007 s = Some (s\<lparr>sc_tables := sc_tables s @ tables_0007\<rparr>)"
  using assms by (simp add: migration_defs tables_0007_def up_simps del: map_of_append)

lemma down_0007:
  assumes "schema_ok s"
    and "map_of (sc_tables s) ''diagnoses'' = None"
    and "has_column s ''tenants'' ''id''"
    and "has_column s ''incidents'' ''id''"
    and "has_column s ''users'' ''id''"
    and "sc_role s \<noteq> None"
  shows "run_ddl downgrade_schema_0007 (s\<lparr>sc_tables := sc_tables s @ tables_0007\<rparr>) = Some s"
  using assms by (simp add: migration_defs tables_0007_def up_simps unreferenced del: map_of_append)

lemma up_0008:
  assumes "schema_ok s"
    and "map_of (sc_tables s) ''skills'' = None"
    and "sc_role s \<noteq> None"
  shows "run_ddl upgrade_schema_0008 s = Some (s\<lparr>sc_tables := sc_tables s @ tables_0008\<rparr>)"
  using assms by (simp add: migration_defs tables_0008_def up_simps del: map_of_append)

lemma down_0008:
  assumes "schema_ok s"
    and "map_of (sc_tables s) ''skills'' = None"
    and "sc_role s \<noteq> None"
  shows "run_ddl downgrade_schema_0008 (s\<lparr>sc_tables := sc_tables s @ tables_0008\<rparr>) = Some s"
  using assms by (simp add: migration_defs tables_0008_def up_simps unreferenced del: map_of_append)

lemma up_0009:
  assumes "schema_ok s"
    and "map_of (sc_tables s) ''worker_heartbeats'' = None"
    and "sc_role s \<noteq> None"
  shows "run_ddl upgrade_schema_0009 s = Some (s\<lparr>sc_tables := sc_tables s @ tables_0009\<rparr>)"
  using assms by (simp add: migration_defs tables_0009_def up_simps del: map_of_append)

lemma down_0009:
  assumes "schema_ok s"
    and "map_of (sc_tables s) ''worker_heartbeats'' = None"
    and "sc_role s \<noteq> None"
  shows "run_ddl downgrade_schema_0009 (s\<lparr>sc_tables := sc_tables s @ tables_0009\<rparr>) = Some s"
  using assms by (simp add: migration_defs tables_0009_def up_simps unreferenced del: map_of_append)

lemma up_0010:
  assumes "schema_ok s"
    and "map_of (sc_tables s) ''application_connectors'' = None"
    and "map_of (sc_tables s) ''conversations'' = None"
    and "map_of (sc_tables s) ''conversation_messages'' = None"
    and "map_of (sc_tables s) ''connector_requests'' = None"
    and "has_column s ''tenants'' ''id''"
    and "has_column s ''users'' ''id''"
    and "has_column s ''tickets'' ''id''"
    and "sc_role s \<noteq> None"
  shows "run_ddl upgrade_schema_0010 s = Some (s\<lparr>sc_tables := sc_tables s @ tables_0010\<rparr>)"
  using assms by (simp add: migration_defs tables_0010_def up_simps del: map_of_append)

lemma down_0010:
  assumes "schema_ok s"
    and "map_of (sc_tables s) ''application_connectors'' = None"
    and "map_of (sc_tables s) ''conversations'' = None"
    and "map_of (sc_tables s) ''conversation_messages'' = None"
    and "map_of (sc_tables s) ''connector_requests'' = None"
    and "has_column s ''tenants'' ''id''"
    and "has_column s ''users'' ''id''"
    and "has_column s ''tickets'' ''id''"
    and "sc_role s \<noteq> None"
  shows "run_ddl downgrade_schema_0010 (s\<lparr>sc_tables := sc_tables s @ tables_0010\<rparr>) = Some s"
  using assms by (simp add: migration_defs tables_0010_def up_simps unreferenced del: map_of_append)

lemma up_0012:
  assumes "schema_ok s"
    and "map_of (sc_tables s) ''knowledge_sources'' = None"
    and "map_of (sc_tables s) ''issue_definitions'' = None"
    and "map_of (sc_tables s) ''diagnostic_workflows'' = None"
    and "map_of (sc_tables s) ''diagnostic_steps'' = None"
    and "sc_role s \<noteq> None"
  shows "run_ddl upgrade_schema_0012 s = Some (s\<lparr>sc_tables := sc_tables s @ tables_0012\<rparr>)"
  using assms by (simp add: migration_defs tables_0012_def up_simps del: map_of_append)

lemma down_0012:
  assumes "schema_ok s"
    and "map_of (sc_tables s) ''knowledge_sources'' = None"
    and "map_of (sc_tables s) ''issue_definitions'' = None"
    and "map_of (sc_tables s) ''diagnostic_workflows'' = None"
    and "map_of (sc_tables s) ''diagnostic_steps'' = None"
    and "sc_role s \<noteq> None"
  shows "run_ddl downgrade_schema_0012 (s\<lparr>sc_tables := sc_tables s @ tables_0012\<rparr>) = Some s"
  using assms by (simp add: migration_defs tables_0012_def up_simps unreferenced del: map_of_append)

lemma up_0014:
  assumes "schema_ok s"
    and "map_of (sc_tables s) ''organizational_baselines'' = None"
    and "has_column s ''tenants'' ''id''"
    and "has_column s ''devices'' ''id''"
    and "has_column s ''users'' ''id''"
    and "sc_role s \<noteq> None"
  shows "run_ddl upgrade_schema_0014 s = Some (s\<lparr>sc_tables := sc_tables s @ tables_0014\<rparr>)"
  using assms by (simp add: migration_defs tables_0014_def up_simps del: map_of_append)

lemma down_0014:
  assumes "schema_ok s"
    and "map_of (sc_tables s) ''organizational_baselines'' = None"
    and "has_column s ''tenants'' ''id''"
    and "has_column s ''devices'' ''id''"
    and "has_column s ''users'' ''id''"
    and "sc_role s \<noteq> None"
  shows "run_ddl downgrade_schema_0014 (s\<lparr>sc_tables := sc_tables s @ tables_0014\<rparr>) = Some s"
  using assms by (simp add: migration_defs tables_0014_def up_simps unreferenced del: map_of_append)

lemma up_0015:
  assumes "schema_ok s"
    and "map_of (sc_tables s) ''channel_workspace_links'' = None"
    and "map_of (sc_tables s) ''channel_identity_links'' = None"
    and "has_column s ''tenants'' ''id''"
    and "has_column s ''users'' ''id''"
    and "sc_role s \<noteq> None"
  shows "run_ddl upgrade_schema_0015 s = Some (s\<lparr>sc_tables := sc_tables s @ tables_0015\<rparr>)"
  using assms by (simp add: migration_defs tables_0015_def up_simps del: map_of_append)

lemma down_0015:
  assumes "schema_ok s"
    and "map_of (sc_tables s) ''channel_workspace_links'' = None"
    and "map_of (sc_tables s) ''channel_identity_links'' = None"
    and "has_column s ''tenants'' ''id''"
    and "has_column s ''users'' ''id''"
    and "sc_role s \<noteq> None"
  shows "run_ddl downgrade_schema_0015 (s\<lparr>sc_tables := sc_tables s @ tables_0015\<rparr>) = Some s"
  using assms by (simp add: migration_defs tables_0015_def up_simps unreferenced del: map_of_append)

definition schema_0001 :: schema where
  "schema_0001 = empty_schema\<lparr>sc_tables := tables_0001,
     sc_sequences := [(''device_inventory_id_seq'', False), (''heartbeats_id_seq'', False)]\<rparr>"

lemma up_0001: "run_ddl upgrade_schema_0001 empty_schema = Some schema_0001"
  by (simp add: migration_defs tables_0001_def schema_0001_def empty_schema_def has_table_def on_table_def has_column_def
      column_names column_targets column_serials indexed_def built_def new_relation_def)

lemma down_0001: "run_ddl downgrade_schema_0001 schema_0001 = Some empty_schema"
  by (simp add: migration_defs tables_0001_def schema_0001_def empty_schema_def has_table_def on_table_def has_column_def
      column_names column_targets column_serials indexed_def built_def new_relation_def)

section \<open>Migrations that add columns\<close>

definition added_0002_actions :: "column list" where
  "added_0002_actions =
     [Column ''claim_token_hash'' (String 64), Column ''claimed_at'' DateTime, Column ''lease_expires_at'' DateTime,
      defaulting ''0'' (required (Column ''attempt'' Integer))]"

definition added_0002_results :: "column list" where
  "added_0002_results =
     [defaulting ''false'' (required (Column ''verified'' Boolean)),
      defaulting ''false'' (required (Column ''rollback_attempted'' Boolean)), Column ''rollback_succeeded'' Boolean]"

definition added_0006 :: "column list" where
  "added_0006 =
     [defaulting ''true'' (required (Column ''active'' Boolean)), Column ''revoked_at'' DateTime,
      Column ''revoked_reason'' (String 200), Column ''credential_rotated_at'' DateTime]"

definition added_0011 :: "column list" where
  "added_0011 =
     [defaulting ''low_risk_change'' (required (Column ''command_type'' (String 30))),
      defaulting ''false'' (required (Column ''requires_user_approval'' Boolean)),
      defaulting ''false'' (required (Column ''requires_admin_approval'' Boolean)),
      defaulting ''false'' (required (Column ''security_sensitive'' Boolean)),
      defaulting ''true'' (required (Column ''reversible'' Boolean)),
      defaulting [] (required (Column ''required_privilege'' (String 100))),
      defaulting ''{}'' (required (Column ''preconditions'' JSON)),
      defaulting [] (required (Column ''expected_output'' Text)),
      defaulting [] (required (Column ''success_condition'' Text)),
      defaulting [] (required (Column ''failure_condition'' Text)),
      defaulting [] (required (Column ''side_effects'' Text)),
      defaulting ''false'' (required (Column ''requires_reboot'' Boolean)),
      defaulting [] (required (Column ''allowed_execution_context'' (String 100)))]"

definition added_0018 :: "column list" where
  "added_0018 = [Column ''step_up_code_hash'' (String 64), Column ''step_up_code_expires_at'' DateTime]"

lemmas added_defs = added_0002_actions_def added_0002_results_def added_0006_def added_0011_def added_0018_def

lemma added_names:
  "names_of added_0002_actions = [''claim_token_hash'', ''claimed_at'', ''lease_expires_at'', ''attempt'']"
  "names_of added_0002_results = [''verified'', ''rollback_attempted'', ''rollback_succeeded'']"
  "names_of added_0006 = [''active'', ''revoked_at'', ''revoked_reason'', ''credential_rotated_at'']"
  "names_of added_0011 = [''command_type'', ''requires_user_approval'', ''requires_admin_approval'', ''security_sensitive'',
     ''reversible'', ''required_privilege'', ''preconditions'', ''expected_output'', ''success_condition'',
       ''failure_condition'',
     ''side_effects'', ''requires_reboot'', ''allowed_execution_context'']"
  "names_of added_0018 = [''step_up_code_hash'', ''step_up_code_expires_at'']"
  by (simp_all add: added_defs column_defs)

lemma added_targets:
  "targets added_0002_actions = []" "targets added_0002_results = []" "targets added_0006 = []" "targets added_0011 = []"
  "targets added_0018 = []"
  by (simp_all add: added_defs column_defs targets_def)

text \<open>Columns added to one table and dropped again.\<close>

definition addable :: "string \<Rightarrow> column list \<Rightarrow> schema \<Rightarrow> bool" where
  "addable t cs s \<longleftrightarrow> distinct (names_of cs) \<and> targets cs = []
     \<and> (case map_of (sc_tables s) t of None \<Rightarrow> False | Some r \<Rightarrow> set (names_of cs) \<inter>
       set (names_of (tb_columns r)) = {})"

definition widen :: "string \<Rightarrow> column list \<Rightarrow> schema \<Rightarrow> schema" where
  "widen t cs s = s\<lparr>sc_tables := alter t (with_columns cs) (sc_tables s)\<rparr>"

lemma widen_up: "addable t cs s \<Longrightarrow> run_ddl (map (AddColumn t) cs @ xs) s = run_ddl xs (widen t cs s)"
  unfolding addable_def widen_def by (auto split: option.splits intro: add_columns)

lemma widen_down:
  "addable t cs s \<Longrightarrow> schema_ok s \<Longrightarrow> run_ddl (map (DropColumn t) (rev (names_of cs)) @ xs)
    (widen t cs s) = run_ddl xs s"
  unfolding addable_def widen_def by (auto split: option.splits intro: drop_columns)

lemma widen_ok: "addable t cs s \<Longrightarrow> schema_ok s \<Longrightarrow> schema_ok (widen t cs s)"
  using run_ddl_ok [of "map (AddColumn t) cs" s] widen_up [of t cs s "[]"] by simp

lemma up_0002:
  assumes "addable ''actions'' added_0002_actions s"
    and "addable ''execution_results'' added_0002_results (widen ''actions'' added_0002_actions s)"
  shows "run_ddl upgrade_schema_0002 s =
    Some (widen ''execution_results'' added_0002_results (widen ''actions'' added_0002_actions s))"
proof -
  have eq: "upgrade_schema_0002 = map (AddColumn ''actions'') added_0002_actions
      @ map (AddColumn ''execution_results'') added_0002_results @ []"
    by (simp add: upgrade_schema_0002_def added_defs)
  show ?thesis unfolding eq widen_up [OF assms(1)] widen_up [OF assms(2)] by simp
qed

lemma down_0002:
  assumes "addable ''actions'' added_0002_actions s" and "schema_ok s"
    and "addable ''execution_results'' added_0002_results (widen ''actions'' added_0002_actions s)"
  shows "run_ddl downgrade_schema_0002
    (widen ''execution_results'' added_0002_results (widen ''actions'' added_0002_actions s)) = Some s"
proof -
  have eq: "downgrade_schema_0002 = map (DropColumn ''execution_results'') (rev (names_of added_0002_results))
      @ map (DropColumn ''actions'') (rev (names_of added_0002_actions)) @ []"
    by (simp add: downgrade_schema_0002_def added_names)
  show ?thesis unfolding eq widen_down [OF assms(3) widen_ok [OF assms(1,2)]] widen_down [OF assms(1,2)] by simp
qed

lemma up_0011:
  "addable ''skills'' added_0011 s \<Longrightarrow> run_ddl upgrade_schema_0011 s = Some (widen ''skills'' added_0011 s)"
  using widen_up [of "''skills''" added_0011 s "[]"] by (simp add: upgrade_schema_0011_def added_defs)

lemma down_0011:
  "addable ''skills'' added_0011 s \<Longrightarrow> schema_ok s \<Longrightarrow> run_ddl downgrade_schema_0011 (widen
    ''skills'' added_0011 s) = Some s"
  using widen_down [of "''skills''" added_0011 s "[]"] by (simp add: downgrade_schema_0011_def added_names)

lemma up_0018:
  "addable ''connector_requests'' added_0018 s \<Longrightarrow>
     run_ddl upgrade_schema_0018 s = Some (widen ''connector_requests'' added_0018 s)"
  using widen_up [of "''connector_requests''" added_0018 s "[]"] by (simp add: upgrade_schema_0018_def added_defs)

lemma down_0018:
  "addable ''connector_requests'' added_0018 s \<Longrightarrow> schema_ok s \<Longrightarrow>
     run_ddl downgrade_schema_0018 (widen ''connector_requests'' added_0018 s) = Some s"
  using widen_down [of "''connector_requests''" added_0018 s "[]"] by (simp add: downgrade_schema_0018_def added_names)

section \<open>Row-level security and privileges\<close>

definition bare :: "schema \<Rightarrow> bool" where
  "bare s \<longleftrightarrow> unprivileged s \<and> sc_role s = None \<and> sc_staged s = []
     \<and> list_all (\<lambda>(_, r). \<not> tb_enabled r \<and> \<not> tb_forced r \<and> \<not> tb_policy r)
       (sc_tables s)"

definition secured :: "settings \<Rightarrow> schema \<Rightarrow> schema" where
  "secured st s = s\<lparr>sc_tables := alter_all (TABLES_0005 @ UNSCOPED_TABLES_0005) grant (alter_all TABLES_0005
    protect (sc_tables s)),
     sc_sequences := alter_all APPLICATION_SEQUENCES (\<lambda>_. True) (sc_sequences s),
     sc_usage := True, sc_role := Some (app_role_password st)\<rparr>"

definition securable :: "schema \<Rightarrow> bool" where
  "securable s \<longleftrightarrow> bare s \<and> (\<forall>t \<in> set (TABLES_0005 @ UNSCOPED_TABLES_0005). map_of
    (sc_tables s) t \<noteq> None)
     \<and> (\<forall>q \<in> set APPLICATION_SEQUENCES. map_of (sc_sequences s) q \<noteq> None)"

lemma tables_0005_distinct: "distinct (TABLES_0005 @ UNSCOPED_TABLES_0005)" "distinct TABLES_0005" "distinct
  APPLICATION_SEQUENCES"
  by (simp_all add: TABLES_0005_def UNSCOPED_TABLES_0005_def APPLICATION_SEQUENCES_def)

lemma enable_step:
  "run_ddl (enable_row_security t @ xs) s =
     (case on_table t (\<lambda>r. \<not> tb_policy r) protect s of None \<Rightarrow> None | Some s' \<Rightarrow>
       run_ddl xs s')"
  by (auto simp: enable_row_security_def on_table_def alter_alter protect_def split: option.split)

lemma disable_step:
  "run_ddl (disable_row_security t @ xs) s =
     (case on_table t (\<lambda>_. True) (\<lambda>r. r\<lparr>tb_policy := False, tb_forced := False, tb_enabled :=
       False\<rparr>) s of
        None \<Rightarrow> None | Some s' \<Rightarrow> run_ddl xs s')"
  by (auto simp: disable_row_security_def on_table_def alter_alter split: option.split)

lemma grant_step:
  "sc_role s = Some p \<Longrightarrow> run_ddl ([Grant t] @ xs) s =
     (case on_table t (\<lambda>_. True) grant s of None \<Rightarrow> None | Some s' \<Rightarrow> run_ddl xs s')"
  by (simp add: grant_def)

lemma revoke_step:
  "sc_role s = Some p \<Longrightarrow> run_ddl ([Revoke t] @ xs) s =
     (case on_table t (\<lambda>_. True) (\<lambda>r. r\<lparr>tb_granted := False\<rparr>) s of None \<Rightarrow> None
       | Some s' \<Rightarrow> run_ddl xs s')"
  by simp

lemma up_0005:
  assumes "securable s" and "app_role_password st \<noteq> []"
  shows "run_ddl (upgrade_schema_0005 st) s = Some (secured st s)"
proof -
  let ?T = TABLES_0005 and ?U = "TABLES_0005 @ UNSCOPED_TABLES_0005" and ?Q = APPLICATION_SEQUENCES
  let ?p = "app_role_password st"
  have tables: "\<exists>r. map_of (sc_tables s) t = Some r \<and> \<not> tb_policy r" if "t \<in> set ?T" for t
    using assms(1) that by (fastforce simp: securable_def bare_def list_all_iff dest: map_of_SomeD)
  let ?a = "s\<lparr>sc_tables := alter_all ?T protect (sc_tables s)\<rparr>"
  let ?b = "?a\<lparr>sc_staged := ?p, sc_role := Some ?p, sc_usage := True\<rparr>"
  let ?c = "?b\<lparr>sc_tables := alter_all ?U grant (sc_tables ?b)\<rparr>"
  have 1: "run_ddl (concat (map enable_row_security ?T) @ xs) s = run_ddl xs ?a" for xs
    by (rule run_each [where role = "sc_role s", OF enable_step refl tables_0005_distinct(2) tables])
  have 2: "run_ddl (concat (map (\<lambda>t. [Grant t]) ?U) @ xs) ?b = run_ddl xs ?c" for xs
    by (rule run_each [where role = "Some ?p" and P = "\<lambda>_. True"])
      (use tables_0005_distinct assms(1) grant_step in \<open>auto simp: map_of_alter_all securable_def\<close>)
  have 3: "run_ddl (map GrantSequence ?Q @ xs) ?c = run_ddl xs (?c\<lparr>sc_sequences := alter_all ?Q (\<lambda>_. True)
    (sc_sequences ?c)\<rparr>)" for xs
    by (rule run_each_sequence [where role = "Some ?p"]) (use tables_0005_distinct assms(1) in \<open>auto simp:
      securable_def\<close>)
  show ?thesis
    using assms 1 2 [of "map GrantSequence ?Q @ [StagePassword []]"] 3 [of "[StagePassword []]"]
    by (simp add: upgrade_schema_0005_def provision_app_role_def securable_def bare_def secured_def concat_map_singleton)
qed

lemma down_0005:
  assumes "securable s"
  shows "run_ddl downgrade_schema_0005 (secured st s) = Some s"
proof -
  let ?T = TABLES_0005 and ?U = "TABLES_0005 @ UNSCOPED_TABLES_0005" and ?Q = APPLICATION_SEQUENCES
  let ?off = "\<lambda>r. r\<lparr>tb_policy := False, tb_forced := False, tb_enabled := False\<rparr>" and ?un =
    "\<lambda>r. r\<lparr>tb_granted := False\<rparr>"
  let ?s = "secured st s"
  let ?a = "?s\<lparr>sc_sequences := alter_all ?Q (\<lambda>_. False) (sc_sequences ?s)\<rparr>"
  let ?b = "?a\<lparr>sc_tables := alter_all ?U ?un (sc_tables ?a)\<rparr>"
  let ?c = "?b\<lparr>sc_usage := False, sc_role := None\<rparr>"
  have bare: "\<not> sc_usage s" "sc_role s = None" "\<And>t r. (t, r) \<in> set (sc_tables s) \<Longrightarrow>
      \<not> tb_granted r \<and> \<not> tb_enabled r \<and> \<not> tb_forced r \<and> \<not> tb_policy r" "\<And>q. (q,
        True) \<notin> set (sc_sequences s)"
    using assms by (auto simp: securable_def bare_def unprivileged_def list_all_iff)
  have 1: "run_ddl (map RevokeSequence ?Q @ xs) ?s = run_ddl xs ?a" for xs
    by (rule run_each_sequence [where role = "Some (app_role_password st)"])
      (use tables_0005_distinct assms(1) in \<open>auto simp: securable_def secured_def map_of_alter_all\<close>)
  have 2: "run_ddl (concat (map (\<lambda>t. [Revoke t]) ?U) @ xs) ?a = run_ddl xs ?b" for xs
    by (rule run_each [where role = "Some (app_role_password st)" and P = "\<lambda>_. True"])
      (use tables_0005_distinct assms(1) revoke_step in \<open>auto simp: map_of_alter_all securable_def
        secured_def\<close>)
  have sequences: "alter_all ?Q (\<lambda>_. False) (alter_all ?Q (\<lambda>_. True) (sc_sequences s)) = sc_sequences s"
    using bare(4) by (auto simp: alter_all_def intro!: map_idI)
  have tables: "alter_all ?U ?un (alter_all ?U grant (alter_all ?T protect (sc_tables s))) = alter_all ?T protect
    (sc_tables s)"
    using bare(3) by (auto simp: alter_all_def grant_def protect_def)
  have "unprivileged (?b\<lparr>sc_usage := False\<rparr>)"
    using bare by (auto simp: unprivileged_def secured_def sequences tables list_all_iff) (auto simp: alter_all_def
      protect_def split: if_splits)
  then have 3: "run_ddl ([RevokeUsage, DropRole] @ xs) ?b = run_ddl xs ?c" for xs by (simp add: secured_def)
  have 4: "run_ddl (concat (map disable_row_security ?T) @ xs) ?c = run_ddl xs (?c\<lparr>sc_tables := alter_all ?T ?off
    (sc_tables ?c)\<rparr>)" for xs
    by (rule run_each [where role = None, OF disable_step])
      (use tables_0005_distinct assms(1) in \<open>auto simp: map_of_alter_all securable_def secured_def\<close>)
  have "alter_all ?T ?off (alter_all ?T protect (sc_tables s)) = sc_tables s"
    using bare(3) by (auto simp: alter_all_def protect_def intro!: map_idI)
  with bare(1,2) have "?c\<lparr>sc_tables := alter_all ?T ?off (sc_tables ?c)\<rparr> = s" by (simp add: secured_def
    sequences tables)
  with 4 [of "[]"] show ?thesis
    using 1 2 [of "[RevokeUsage, DropRole] @ concat (map disable_row_security ?T)"] 3
    by (simp add: downgrade_schema_0005_def revoke_app_role_def concat_map_singleton)
qed

definition attach :: "(string \<times> relation) list \<Rightarrow> schema \<Rightarrow> schema" where
  "attach ts s = s\<lparr>sc_tables := sc_tables s @ ts\<rparr>"

lemma up_0006:
  assumes "addable ''devices'' added_0006 s" and "map_of (sc_tables s) ''enrollment_tokens'' = None"
    and "has_column s ''tenants'' ''id''" and "has_column s ''users'' ''id''" and "has_column s ''devices'' ''id''"
    and "sc_role s \<noteq> None"
  shows "run_ddl upgrade_schema_0006 s = Some (attach tables_0006 (widen ''devices'' added_0006 s))"
proof -
  let ?s = "widen ''devices'' added_0006 s"
  have eq: "upgrade_schema_0006 = map (AddColumn ''devices'') added_0006
     @ CreateTable ''enrollment_tokens'' enrollment_tokens_columns []
     # CreateIndex ''ix_enrollment_tokens_tenant_id'' ''enrollment_tokens'' [''tenant_id''] False
     # enable_row_security ''enrollment_tokens'' @ [Grant ''enrollment_tokens'']"
    by (simp add: upgrade_schema_0006_def added_defs)
  have more: "has_column ?s t c" if "has_column s t c" for t c
    using that by (auto simp: has_column_iff widen_def with_columns_def)
  have "map_of (sc_tables ?s) ''enrollment_tokens'' = None" "sc_role ?s \<noteq> None"
    using assms(2,6) by (simp_all add: widen_def)
  then show ?thesis
    unfolding eq widen_up [OF assms(1)] attach_def using more [OF assms(3)] more [OF assms(4)] more [OF assms(5)]
    by (simp add: tables_0006_def enable_row_security_def up_simps del: map_of_append)
qed

lemma down_0006:
  assumes "addable ''devices'' added_0006 s" and "map_of (sc_tables s) ''enrollment_tokens'' = None" and "schema_ok s"
    and "sc_role s \<noteq> None"
  shows "run_ddl downgrade_schema_0006 (attach tables_0006 (widen ''devices'' added_0006 s)) = Some s"
proof -
  let ?s = "widen ''devices'' added_0006 s"
  let ?drop = "\<lambda>rest. Revoke ''enrollment_tokens''
     # disable_row_security ''enrollment_tokens'' @ DropIndex ''ix_enrollment_tokens_tenant_id'' ''enrollment_tokens''
     # DropTable ''enrollment_tokens'' # rest"
  have eq: "downgrade_schema_0006 = ?drop (map (DropColumn ''devices'') (rev (names_of added_0006)) @ [])"
    by (simp add: downgrade_schema_0006_def added_names)
  obtain p where "sc_role ?s = Some p" using assms(4) by (auto simp: widen_def)
  moreover have "map_of (sc_tables ?s) ''enrollment_tokens'' = None" using assms(2) by (simp add: widen_def)
  ultimately have "run_ddl (?drop rest) (attach tables_0006 ?s) = run_ddl rest ?s" for rest
    unfolding attach_def using unreferenced [OF widen_ok [OF assms(1,3)], of "''enrollment_tokens''"]
    by (simp add: tables_0006_def disable_row_security_def up_simps del: map_of_append)
  then show ?thesis unfolding eq by (simp add: widen_down [OF assms(1,3), of "[]", simplified])
qed

section \<open>The columns of a schema\<close>

definition columns_at :: "schema \<Rightarrow> string \<Rightarrow> string list option" where
  "columns_at s t = map_option (\<lambda>r. names_of (tb_columns r)) (map_of (sc_tables s) t)"

lemma absent_iff: "map_of (sc_tables s) t = None \<longleftrightarrow> columns_at s t = None"
  by (simp add: columns_at_def)

lemma has_column_at: "has_column s t c \<longleftrightarrow> (case columns_at s t of None \<Rightarrow> False | Some ns
  \<Rightarrow> c \<in> set ns)"
  by (simp add: has_column_def columns_at_def split: option.split)

lemma addable_at:
  "addable t cs s \<longleftrightarrow> distinct (names_of cs) \<and> targets cs = []
     \<and> (case columns_at s t of None \<Rightarrow> False | Some ns \<Rightarrow> set (names_of cs) \<inter> set ns =
       {})"
  by (simp add: addable_def columns_at_def split: option.split)

lemma columns_at_attach:
  "columns_at (attach ts s) t =
     (case columns_at s t of None \<Rightarrow> map_option (\<lambda>r. names_of (tb_columns r)) (map_of ts t) | Some ns
       \<Rightarrow> Some ns)"
  by (simp add: columns_at_def attach_def map_add_def split: option.split)

lemma columns_at_widen:
  "columns_at (widen k cs s) t = (if t = k then map_option (\<lambda>ns. ns @ names_of cs) (columns_at s t) else
    columns_at s t)"
  by (auto simp: columns_at_def widen_def with_columns_def option.map_comp comp_def)

lemma columns_at_secured: "columns_at (secured st s) t = columns_at s t"
  by (simp add: columns_at_def secured_def map_of_alter_all grant_def protect_def option.map_comp comp_def)

lemma columns_at_0001: "columns_at schema_0001 t = map_option (\<lambda>r. names_of (tb_columns r)) (map_of tables_0001 t)"
  by (simp add: columns_at_def schema_0001_def)

lemma role_frame [simp]: "sc_role (attach ts s) = sc_role s" "sc_role (widen t cs s) = sc_role s"
    "sc_role (secured st s) = Some (app_role_password st)" "sc_role schema_0001 = None"
  by (simp_all add: attach_def widen_def secured_def schema_0001_def empty_schema_def)

lemma built_columns: "tb_columns (built cols us ixs) = cols" "tb_columns (protect r) = tb_columns r" "tb_columns (grant
  r) = tb_columns r"
  by (simp_all add: built_def protect_def grant_def)

lemmas columns_simps = absent_iff has_column_at addable_at columns_at_attach columns_at_widen columns_at_secured columns_at_0001
  built_columns column_names added_names added_targets

section \<open>The schema at each revision\<close>

definition schema_0002 :: "schema" where
  "schema_0002 = widen ''execution_results'' added_0002_results (widen ''actions'' added_0002_actions schema_0001)"

definition schema_0003 :: "schema" where
  "schema_0003 = attach tables_0003 schema_0002"

definition schema_0004 :: "schema" where
  "schema_0004 = attach tables_0004 schema_0003"

definition schema_0005 :: "settings \<Rightarrow> schema" where
  "schema_0005 st = secured st schema_0004"

definition schema_0006 :: "settings \<Rightarrow> schema" where
  "schema_0006 st = attach tables_0006 (widen ''devices'' added_0006 (schema_0005 st))"

definition schema_0007 :: "settings \<Rightarrow> schema" where
  "schema_0007 st = attach tables_0007 (schema_0006 st)"

definition schema_0008 :: "settings \<Rightarrow> schema" where
  "schema_0008 st = attach tables_0008 (schema_0007 st)"

definition schema_0009 :: "settings \<Rightarrow> schema" where
  "schema_0009 st = attach tables_0009 (schema_0008 st)"

definition schema_0010 :: "settings \<Rightarrow> schema" where
  "schema_0010 st = attach tables_0010 (schema_0009 st)"

definition schema_0011 :: "settings \<Rightarrow> schema" where
  "schema_0011 st = widen ''skills'' added_0011 (schema_0010 st)"

definition schema_0012 :: "settings \<Rightarrow> schema" where
  "schema_0012 st = attach tables_0012 (schema_0011 st)"

definition schema_0014 :: "settings \<Rightarrow> schema" where
  "schema_0014 st = attach tables_0014 (schema_0012 st)"

definition schema_0015 :: "settings \<Rightarrow> schema" where
  "schema_0015 st = attach tables_0015 (schema_0014 st)"

definition schema_0018 :: "settings \<Rightarrow> schema" where
  "schema_0018 st = widen ''connector_requests'' added_0018 (schema_0015 st)"

lemmas schema_steps = schema_0002_def schema_0003_def schema_0004_def schema_0005_def schema_0006_def schema_0007_def
  schema_0008_def schema_0009_def schema_0010_def schema_0011_def schema_0012_def schema_0014_def schema_0015_def
    schema_0018_def

lemma schema_ok_empty: "schema_ok empty_schema"
  by (rule schema_okI) (simp_all add: empty_schema_def table_names_def)

lemmas schema_ok_0001 = run_ddl_ok [OF up_0001 schema_ok_empty]

lemmas tables_defs = tables_0001_def tables_0003_def tables_0004_def tables_0006_def tables_0007_def tables_0008_def
  tables_0009_def tables_0010_def tables_0012_def tables_0014_def tables_0015_def

lemmas chain_simps = columns_simps schema_steps tables_defs

lemma step_0002:
  "run_ddl upgrade_schema_0002 schema_0001 = Some schema_0002" "run_ddl downgrade_schema_0002 schema_0002 = Some
    schema_0001"
proof -
  have a: "addable ''actions'' added_0002_actions schema_0001"
    and b: "addable ''execution_results'' added_0002_results (widen ''actions'' added_0002_actions schema_0001)"
    by (simp_all add: chain_simps)
  show "run_ddl upgrade_schema_0002 schema_0001 = Some schema_0002" by (simp add: up_0002 [OF a b] schema_0002_def)
  show "run_ddl downgrade_schema_0002 schema_0002 = Some schema_0001"
    by (simp add: down_0002 [OF a schema_ok_0001 b] schema_0002_def)
qed

lemmas schema_ok_0002 = run_ddl_ok [OF step_0002(1) schema_ok_0001]

lemma step_0003:
  shows "run_ddl upgrade_schema_0003 schema_0002 = Some schema_0003"
    and "run_ddl downgrade_schema_0003 schema_0003 = Some schema_0002"
proof -
  note ok = schema_ok_0002
  have h: "map_of (sc_tables schema_0002) ''domain_events'' = None"
    "map_of (sc_tables schema_0002) ''webhook_subscriptions'' = None"
    "map_of (sc_tables schema_0002) ''webhook_deliveries'' = None"
    "has_column schema_0002 ''tenants'' ''id''"
    "has_column schema_0002 ''users'' ''id''"
    by (simp_all add: chain_simps)
  show "run_ddl upgrade_schema_0003 schema_0002 = Some schema_0003" by (simp add: up_0003 [OF ok h] schema_0003_def
    attach_def)
  show "run_ddl downgrade_schema_0003 schema_0003 = Some schema_0002"
    using down_0003 [OF ok h] by (simp add: schema_0003_def attach_def)
qed

lemmas schema_ok_0003 = run_ddl_ok [OF step_0003(1) schema_ok_0002]

lemma step_0004:
  shows "run_ddl upgrade_schema_0004 schema_0003 = Some schema_0004"
    and "run_ddl downgrade_schema_0004 schema_0004 = Some schema_0003"
proof -
  note ok = schema_ok_0003
  have h: "map_of (sc_tables schema_0003) ''incidents'' = None"
    "has_column schema_0003 ''tenants'' ''id''"
    "has_column schema_0003 ''devices'' ''id''"
    "has_column schema_0003 ''tickets'' ''id''"
    by (simp_all add: chain_simps)
  show "run_ddl upgrade_schema_0004 schema_0003 = Some schema_0004" by (simp add: up_0004 [OF ok h] schema_0004_def
    attach_def)
  show "run_ddl downgrade_schema_0004 schema_0004 = Some schema_0003"
    using down_0004 [OF ok h] by (simp add: schema_0004_def attach_def)
qed

lemmas schema_ok_0004 = run_ddl_ok [OF step_0004(1) schema_ok_0003]

lemma securable_0004: "securable schema_0004"
proof -
  have "sc_sequences schema_0004 = [(''device_inventory_id_seq'', False), (''heartbeats_id_seq'', False)]"
    "\<not> sc_usage schema_0004" "sc_role schema_0004 = None" "sc_staged schema_0004 = []"
    by (simp_all add: schema_0004_def schema_0003_def schema_0002_def schema_0001_def attach_def widen_def empty_schema_def)
  moreover have "list_all (\<lambda>(_, r). \<not> tb_granted r \<and> \<not> tb_enabled r \<and> \<not> tb_forced r
    \<and> \<not> tb_policy r) (sc_tables schema_0004)"
    by (simp add: schema_0004_def schema_0003_def schema_0002_def schema_0001_def attach_def widen_def
        with_columns_def built_def new_relation_def tables_defs)
  moreover have "\<forall>t \<in> set (TABLES_0005 @ UNSCOPED_TABLES_0005). map_of (sc_tables schema_0004) t \<noteq> None"
    by (simp add: chain_simps TABLES_0005_def UNSCOPED_TABLES_0005_def)
  ultimately show ?thesis
    by (auto simp: securable_def bare_def unprivileged_def list_all_iff APPLICATION_SEQUENCES_def)
qed

lemma step_0005:
  assumes "app_role_password st \<noteq> []"
  shows "run_ddl (upgrade_schema_0005 st) schema_0004 = Some (schema_0005 st)"
    and "run_ddl downgrade_schema_0005 (schema_0005 st) = Some schema_0004"
  using up_0005 [OF securable_0004 assms] down_0005 [OF securable_0004] by (simp_all add: schema_0005_def)

lemmas schema_ok_0005 = run_ddl_ok [OF step_0005(1) schema_ok_0004]

lemma step_0006:
  assumes "app_role_password st \<noteq> []"
  shows "run_ddl upgrade_schema_0006 (schema_0005 st) = Some (schema_0006 st)"
    and "run_ddl downgrade_schema_0006 (schema_0006 st) = Some (schema_0005 st)"
proof -
  note ok = schema_ok_0005 [OF assms]
  have h: "addable ''devices'' added_0006 (schema_0005 st)"
    "map_of (sc_tables (schema_0005 st)) ''enrollment_tokens'' = None"
    "sc_role (schema_0005 st) \<noteq> None"
    "has_column (schema_0005 st) ''tenants'' ''id''"
    "has_column (schema_0005 st) ''users'' ''id''"
    "has_column (schema_0005 st) ''devices'' ''id''"
    by (simp_all add: chain_simps)
  show "run_ddl upgrade_schema_0006 (schema_0005 st) = Some (schema_0006 st)" by (simp add: up_0006 [OF h(1,2,4,5,6,3)]
    schema_0006_def attach_def)
  show "run_ddl downgrade_schema_0006 (schema_0006 st) = Some (schema_0005 st)"
    using down_0006 [OF h(1,2) ok h(3)] by (simp add: schema_0006_def attach_def)
qed

lemma schema_ok_0006: "app_role_password st \<noteq> [] \<Longrightarrow> schema_ok (schema_0006 st)"
  by (rule run_ddl_ok [OF step_0006(1) schema_ok_0005])

lemma step_0007:
  assumes "app_role_password st \<noteq> []"
  shows "run_ddl upgrade_schema_0007 (schema_0006 st) = Some (schema_0007 st)"
    and "run_ddl downgrade_schema_0007 (schema_0007 st) = Some (schema_0006 st)"
proof -
  note ok = schema_ok_0006 [OF assms]
  have h: "map_of (sc_tables (schema_0006 st)) ''diagnoses'' = None"
    "has_column (schema_0006 st) ''tenants'' ''id''"
    "has_column (schema_0006 st) ''incidents'' ''id''"
    "has_column (schema_0006 st) ''users'' ''id''"
    "sc_role (schema_0006 st) \<noteq> None"
    by (simp_all add: chain_simps)
  show "run_ddl upgrade_schema_0007 (schema_0006 st) = Some (schema_0007 st)" by (simp add: up_0007 [OF ok h]
    schema_0007_def attach_def)
  show "run_ddl downgrade_schema_0007 (schema_0007 st) = Some (schema_0006 st)"
    using down_0007 [OF ok h] by (simp add: schema_0007_def attach_def)
qed

lemma schema_ok_0007: "app_role_password st \<noteq> [] \<Longrightarrow> schema_ok (schema_0007 st)"
  by (rule run_ddl_ok [OF step_0007(1) schema_ok_0006])

lemma step_0008:
  assumes "app_role_password st \<noteq> []"
  shows "run_ddl upgrade_schema_0008 (schema_0007 st) = Some (schema_0008 st)"
    and "run_ddl downgrade_schema_0008 (schema_0008 st) = Some (schema_0007 st)"
proof -
  note ok = schema_ok_0007 [OF assms]
  have h: "map_of (sc_tables (schema_0007 st)) ''skills'' = None"
    "sc_role (schema_0007 st) \<noteq> None"
    by (simp_all add: chain_simps)
  show "run_ddl upgrade_schema_0008 (schema_0007 st) = Some (schema_0008 st)" by (simp add: up_0008 [OF ok h]
    schema_0008_def attach_def)
  show "run_ddl downgrade_schema_0008 (schema_0008 st) = Some (schema_0007 st)"
    using down_0008 [OF ok h] by (simp add: schema_0008_def attach_def)
qed

lemma schema_ok_0008: "app_role_password st \<noteq> [] \<Longrightarrow> schema_ok (schema_0008 st)"
  by (rule run_ddl_ok [OF step_0008(1) schema_ok_0007])

lemma step_0009:
  assumes "app_role_password st \<noteq> []"
  shows "run_ddl upgrade_schema_0009 (schema_0008 st) = Some (schema_0009 st)"
    and "run_ddl downgrade_schema_0009 (schema_0009 st) = Some (schema_0008 st)"
proof -
  note ok = schema_ok_0008 [OF assms]
  have h: "map_of (sc_tables (schema_0008 st)) ''worker_heartbeats'' = None"
    "sc_role (schema_0008 st) \<noteq> None"
    by (simp_all add: chain_simps)
  show "run_ddl upgrade_schema_0009 (schema_0008 st) = Some (schema_0009 st)" by (simp add: up_0009 [OF ok h]
    schema_0009_def attach_def)
  show "run_ddl downgrade_schema_0009 (schema_0009 st) = Some (schema_0008 st)"
    using down_0009 [OF ok h] by (simp add: schema_0009_def attach_def)
qed

lemma schema_ok_0009: "app_role_password st \<noteq> [] \<Longrightarrow> schema_ok (schema_0009 st)"
  by (rule run_ddl_ok [OF step_0009(1) schema_ok_0008])

lemma step_0010:
  assumes "app_role_password st \<noteq> []"
  shows "run_ddl upgrade_schema_0010 (schema_0009 st) = Some (schema_0010 st)"
    and "run_ddl downgrade_schema_0010 (schema_0010 st) = Some (schema_0009 st)"
proof -
  note ok = schema_ok_0009 [OF assms]
  have h: "map_of (sc_tables (schema_0009 st)) ''application_connectors'' = None"
    "map_of (sc_tables (schema_0009 st)) ''conversations'' = None"
    "map_of (sc_tables (schema_0009 st)) ''conversation_messages'' = None"
    "map_of (sc_tables (schema_0009 st)) ''connector_requests'' = None"
    "has_column (schema_0009 st) ''tenants'' ''id''"
    "has_column (schema_0009 st) ''users'' ''id''"
    "has_column (schema_0009 st) ''tickets'' ''id''"
    "sc_role (schema_0009 st) \<noteq> None"
    by (simp_all add: chain_simps)
  show "run_ddl upgrade_schema_0010 (schema_0009 st) = Some (schema_0010 st)" by (simp add: up_0010 [OF ok h]
    schema_0010_def attach_def)
  show "run_ddl downgrade_schema_0010 (schema_0010 st) = Some (schema_0009 st)"
    using down_0010 [OF ok h] by (simp add: schema_0010_def attach_def)
qed

lemma schema_ok_0010: "app_role_password st \<noteq> [] \<Longrightarrow> schema_ok (schema_0010 st)"
  by (rule run_ddl_ok [OF step_0010(1) schema_ok_0009])

lemma step_0011:
  assumes "app_role_password st \<noteq> []"
  shows "run_ddl upgrade_schema_0011 (schema_0010 st) = Some (schema_0011 st)"
    and "run_ddl downgrade_schema_0011 (schema_0011 st) = Some (schema_0010 st)"
proof -
  note ok = schema_ok_0010 [OF assms]
  have h: "addable ''skills'' added_0011 (schema_0010 st)"
    by (simp_all add: chain_simps)
  show "run_ddl upgrade_schema_0011 (schema_0010 st) = Some (schema_0011 st)" by (simp add: up_0011 [OF h]
    schema_0011_def attach_def)
  show "run_ddl downgrade_schema_0011 (schema_0011 st) = Some (schema_0010 st)"
    using down_0011 [OF h ok] by (simp add: schema_0011_def attach_def)
qed

lemma schema_ok_0011: "app_role_password st \<noteq> [] \<Longrightarrow> schema_ok (schema_0011 st)"
  by (rule run_ddl_ok [OF step_0011(1) schema_ok_0010])

lemma step_0012:
  assumes "app_role_password st \<noteq> []"
  shows "run_ddl upgrade_schema_0012 (schema_0011 st) = Some (schema_0012 st)"
    and "run_ddl downgrade_schema_0012 (schema_0012 st) = Some (schema_0011 st)"
proof -
  note ok = schema_ok_0011 [OF assms]
  have h: "map_of (sc_tables (schema_0011 st)) ''knowledge_sources'' = None"
    "map_of (sc_tables (schema_0011 st)) ''issue_definitions'' = None"
    "map_of (sc_tables (schema_0011 st)) ''diagnostic_workflows'' = None"
    "map_of (sc_tables (schema_0011 st)) ''diagnostic_steps'' = None"
    "sc_role (schema_0011 st) \<noteq> None"
    by (simp_all add: chain_simps)
  show "run_ddl upgrade_schema_0012 (schema_0011 st) = Some (schema_0012 st)" by (simp add: up_0012 [OF ok h]
    schema_0012_def attach_def)
  show "run_ddl downgrade_schema_0012 (schema_0012 st) = Some (schema_0011 st)"
    using down_0012 [OF ok h] by (simp add: schema_0012_def attach_def)
qed

lemma schema_ok_0012: "app_role_password st \<noteq> [] \<Longrightarrow> schema_ok (schema_0012 st)"
  by (rule run_ddl_ok [OF step_0012(1) schema_ok_0011])

lemma step_0014:
  assumes "app_role_password st \<noteq> []"
  shows "run_ddl upgrade_schema_0014 (schema_0012 st) = Some (schema_0014 st)"
    and "run_ddl downgrade_schema_0014 (schema_0014 st) = Some (schema_0012 st)"
proof -
  note ok = schema_ok_0012 [OF assms]
  have h: "map_of (sc_tables (schema_0012 st)) ''organizational_baselines'' = None"
    "has_column (schema_0012 st) ''tenants'' ''id''"
    "has_column (schema_0012 st) ''devices'' ''id''"
    "has_column (schema_0012 st) ''users'' ''id''"
    "sc_role (schema_0012 st) \<noteq> None"
    by (simp_all add: chain_simps)
  show "run_ddl upgrade_schema_0014 (schema_0012 st) = Some (schema_0014 st)" by (simp add: up_0014 [OF ok h]
    schema_0014_def attach_def)
  show "run_ddl downgrade_schema_0014 (schema_0014 st) = Some (schema_0012 st)"
    using down_0014 [OF ok h] by (simp add: schema_0014_def attach_def)
qed

lemma schema_ok_0014: "app_role_password st \<noteq> [] \<Longrightarrow> schema_ok (schema_0014 st)"
  by (rule run_ddl_ok [OF step_0014(1) schema_ok_0012])

lemma step_0015:
  assumes "app_role_password st \<noteq> []"
  shows "run_ddl upgrade_schema_0015 (schema_0014 st) = Some (schema_0015 st)"
    and "run_ddl downgrade_schema_0015 (schema_0015 st) = Some (schema_0014 st)"
proof -
  note ok = schema_ok_0014 [OF assms]
  have h: "map_of (sc_tables (schema_0014 st)) ''channel_workspace_links'' = None"
    "map_of (sc_tables (schema_0014 st)) ''channel_identity_links'' = None"
    "has_column (schema_0014 st) ''tenants'' ''id''"
    "has_column (schema_0014 st) ''users'' ''id''"
    "sc_role (schema_0014 st) \<noteq> None"
    by (simp_all add: chain_simps)
  show "run_ddl upgrade_schema_0015 (schema_0014 st) = Some (schema_0015 st)" by (simp add: up_0015 [OF ok h]
    schema_0015_def attach_def)
  show "run_ddl downgrade_schema_0015 (schema_0015 st) = Some (schema_0014 st)"
    using down_0015 [OF ok h] by (simp add: schema_0015_def attach_def)
qed

lemma schema_ok_0015: "app_role_password st \<noteq> [] \<Longrightarrow> schema_ok (schema_0015 st)"
  by (rule run_ddl_ok [OF step_0015(1) schema_ok_0014])

lemma step_0018:
  assumes "app_role_password st \<noteq> []"
  shows "run_ddl upgrade_schema_0018 (schema_0015 st) = Some (schema_0018 st)"
    and "run_ddl downgrade_schema_0018 (schema_0018 st) = Some (schema_0015 st)"
proof -
  note ok = schema_ok_0015 [OF assms]
  have h: "addable ''connector_requests'' added_0018 (schema_0015 st)"
    by (simp_all add: chain_simps)
  show "run_ddl upgrade_schema_0018 (schema_0015 st) = Some (schema_0018 st)" by (simp add: up_0018 [OF h]
    schema_0018_def attach_def)
  show "run_ddl downgrade_schema_0018 (schema_0018 st) = Some (schema_0015 st)"
    using down_0018 [OF h ok] by (simp add: schema_0018_def attach_def)
qed

lemmas migration_steps = up_0001 down_0001 step_0002 step_0003 step_0004 step_0005 step_0006 step_0007 step_0008 step_0009
  step_0010 step_0011 step_0012 step_0014 step_0015 step_0018

end
