(* ===== verification/SchemaProps.thy ===== *)
theory SchemaProps
  imports SchemaSteps
begin

text \<open>
  What the migrations guarantee together: they can be undone, they build the tables that the models declare, and row-level
  security covers exactly the tables that belong to tenants.
\<close>

section \<open>Agreement with the models\<close>

text \<open>
  The same columns with the same types, nullability, keys, references and uniqueness; values that the database fills in
  by itself are not compared.
\<close>

definition without_default :: "column \<Rightarrow> column" where
  "without_default c = c\<lparr>cl_default := None\<rparr>"

definition declares :: "string \<Rightarrow> relation \<Rightarrow> relation \<Rightarrow> bool" where
  "declares t d r \<longleftrightarrow> set (map without_default (tb_columns r)) = set (tb_columns d)
     \<and> tb_uniques r = tb_uniques d
     \<and> set (tb_indexes r) = set (tb_indexes d) \<union>
         (if t = ''connector_requests'' then set (indexed t [''conversation_id'', ''connector_id'', ''status'']) else {})"

section \<open>The migrated schema\<close>

definition migrated_tables :: "(string \<times> relation) list" where
  "migrated_tables =
     [(''tenants'', grant (built tenants_columns [] (indexed ''tenants'' []))),
      (''users'', grant (protect (built users_columns [[''tenant_id'', ''email'']] (indexed ''users'' [''tenant_id''])))),
      (''devices'', grant (protect (built (devices_columns @ added_0006) [[''tenant_id'', ''external_id'']] (indexed
        ''devices'' [''tenant_id''])))),
      (''device_inventory'', grant (protect (built device_inventory_columns [] (indexed ''device_inventory''
        [''tenant_id'', ''device_id''])))),
      (''heartbeats'', grant (protect (built heartbeats_columns [] (indexed ''heartbeats'' [''tenant_id'',
        ''device_id''])))),
      (''tickets'', grant (protect (built tickets_columns [] (indexed ''tickets'' [''tenant_id''])))),
      (''actions'', grant (protect (built (actions_columns @ added_0002_actions) [] (indexed ''actions''
        [''tenant_id'', ''device_id''])))),
      (''approvals'', grant (protect (built approvals_columns [] (indexed ''approvals'' [''tenant_id'',
        ''action_id''])))),
      (''execution_results'', grant (protect (built (execution_results_columns @ added_0002_results) [] (indexed
        ''execution_results'' [''tenant_id'', ''action_id''])))),
      (''audit_events'', grant (protect (built audit_events_columns [] (indexed ''audit_events'' [''tenant_id'',
        ''correlation_id''] @ [(''ix_audit_tenant_sequence'', [''tenant_id'', ''sequence''], True)])))),
      (''idempotency_records'', grant (protect (built idempotency_records_columns [[''tenant_id'', ''scope'', ''key'']]
        (indexed ''idempotency_records'' [''tenant_id''])))),
      (''domain_events'', grant (protect (built domain_events_columns [] (indexed ''domain_events'' [''tenant_id'',
        ''event_type'', ''subject_id''])))),
      (''webhook_subscriptions'', grant (protect (built webhook_subscriptions_columns [[''tenant_id'', ''name'']]
        (indexed ''webhook_subscriptions'' [''tenant_id''])))),
      (''webhook_deliveries'', grant (protect (built webhook_deliveries_columns [[''event_id'', ''subscription_id'']]
        (indexed ''webhook_deliveries'' [''tenant_id'', ''event_id'', ''subscription_id'', ''status'',
        ''next_attempt_at''])))),
      (''incidents'', grant (protect (built incidents_columns [] (indexed ''incidents'' [''tenant_id'', ''device_id'',
        ''ticket_id'', ''incident_type'', ''status''] @ [(''ix_incidents_tenant_device_correlation'', [''tenant_id'',
        ''device_id'', ''correlation_key''], False)])))),
      (''enrollment_tokens'', grant (protect (built enrollment_tokens_columns [] (indexed ''enrollment_tokens''
        [''tenant_id''])))),
      (''diagnoses'', grant (protect (built diagnoses_columns [] (indexed ''diagnoses'' [''tenant_id'',
        ''incident_id''])))),
      (''skills'', grant (built (skills_columns @ added_0011) [[''skill_id'', ''version'']] (indexed ''skills''
        [''skill_id'']))),
      (''worker_heartbeats'', grant (built worker_heartbeats_columns [] (indexed ''worker_heartbeats'' []))),
      (''application_connectors'', grant (protect (built application_connectors_columns [[''tenant_id'',
        ''application_id'']] (indexed ''application_connectors'' [''tenant_id''])))),
      (''conversations'', grant (protect (built conversations_columns [] (indexed ''conversations'' [''tenant_id'',
        ''channel'', ''user_id'', ''status''])))),
      (''conversation_messages'', grant (protect (built conversation_messages_columns [] (indexed
        ''conversation_messages'' [''tenant_id'', ''conversation_id''])))),
      (''connector_requests'', grant (protect (built (connector_requests_columns @ added_0018) [] (indexed
        ''connector_requests'' [''tenant_id'', ''conversation_id'', ''connector_id'', ''status''])))),
      (''knowledge_sources'', grant (built knowledge_sources_columns [] (indexed ''knowledge_sources'' []))),
      (''issue_definitions'', grant (built issue_definitions_columns [[''issue_key'', ''version'']] (indexed
        ''issue_definitions'' [''issue_key'']))),
      (''diagnostic_workflows'', grant (built diagnostic_workflows_columns [] (indexed ''diagnostic_workflows''
        [''issue_definition_id'']))),
      (''diagnostic_steps'', grant (built diagnostic_steps_columns [] (indexed ''diagnostic_steps'' [''workflow_id'']))),
      (''organizational_baselines'', grant (protect (built organizational_baselines_columns [] (indexed
        ''organizational_baselines'' [''tenant_id'', ''key''])))),
      (''channel_workspace_links'', grant (protect (built channel_workspace_links_columns [[''channel'',
        ''workspace_id'']] (indexed ''channel_workspace_links'' [''tenant_id''])))),
      (''channel_identity_links'', grant (protect (built channel_identity_links_columns [[''tenant_id'', ''channel'',
        ''provider_user_id'']] (indexed ''channel_identity_links'' [''tenant_id'']))))]"

lemma schema_0018_tables: "sc_tables (schema_0018 st) = migrated_tables"
  by (simp add: schema_steps attach_def widen_def secured_def schema_0001_def tables_defs migrated_tables_def alter_all_def
      TABLES_0005_def UNSCOPED_TABLES_0005_def with_columns_def built_def protect_def grant_def new_relation_def)

section \<open>Upgrading and downgrading\<close>

definition migrations :: "settings \<Rightarrow> (ddl list \<times> ddl list) list" where
  "migrations st =
     [(upgrade_schema_0001, downgrade_schema_0001), (upgrade_schema_0002, downgrade_schema_0002),
      (upgrade_schema_0003, downgrade_schema_0003), (upgrade_schema_0004, downgrade_schema_0004),
      (upgrade_schema_0005 st, downgrade_schema_0005), (upgrade_schema_0006, downgrade_schema_0006),
      (upgrade_schema_0007, downgrade_schema_0007), (upgrade_schema_0008, downgrade_schema_0008),
      (upgrade_schema_0009, downgrade_schema_0009), (upgrade_schema_0010, downgrade_schema_0010),
      (upgrade_schema_0011, downgrade_schema_0011), (upgrade_schema_0012, downgrade_schema_0012),
      ([], []), (upgrade_schema_0014, downgrade_schema_0014), (upgrade_schema_0015, downgrade_schema_0015),
      ([], []), ([], []), (upgrade_schema_0018, downgrade_schema_0018)]"

definition upgrade_to :: "settings \<Rightarrow> nat \<Rightarrow> schema option" where
  "upgrade_to st n = run_ddl (concat (map fst (take n (migrations st)))) empty_schema"

definition downgrade_from :: "settings \<Rightarrow> nat \<Rightarrow> nat \<Rightarrow> ddl list" where
  "downgrade_from st n m = concat (map snd (rev (drop m (take n (migrations st)))))"

fun undone :: "(ddl list \<times> ddl list) list \<Rightarrow> schema \<Rightarrow> bool" where
  "undone [] s \<longleftrightarrow> True"
| "undone ((up, down) # ms) s \<longleftrightarrow>
     (case run_ddl up s of None \<Rightarrow> False | Some s' \<Rightarrow> run_ddl down s' = Some s \<and> undone ms s')"

lemma undone_take: "undone ms s \<Longrightarrow> undone (take n ms) s"
  by (induction ms s arbitrary: n rule: undone.induct) (auto simp: take_Cons' split: option.splits)

lemma undone_append:
  "undone (ms @ ks) s \<Longrightarrow> \<exists>s'. run_ddl (concat (map fst ms)) s = Some s' \<and> undone ks s'"
  by (induction ms s rule: undone.induct) (auto simp: run_ddl_append split: option.splits)

lemma undone_down:
  "undone ms s \<Longrightarrow> \<exists>s'. run_ddl (concat (map fst ms)) s = Some s' \<and> run_ddl (concat (map snd
    (rev ms))) s' = Some s"
  by (induction ms s rule: undone.induct) (fastforce simp: run_ddl_append split: option.splits)+

lemma migrations_undone: "app_role_password st \<noteq> [] \<Longrightarrow> undone (migrations st) empty_schema"
  by (simp add: migrations_def migration_steps)

lemma upgraded_last: "app_role_password st \<noteq> [] \<Longrightarrow> upgrade_to st (length (migrations st)) = Some
  (schema_0018 st)"
  by (simp add: upgrade_to_def migrations_def run_ddl_append migration_steps)

lemma declared_in_order:
  "tb_columns Tenant_table = map without_default tenants_columns"
  "tb_columns WorkerHeartbeatRow_table = map without_default worker_heartbeats_columns"
  "tb_columns User_table = map without_default users_columns"
  "tb_columns EnrollmentToken_table = map without_default enrollment_tokens_columns"
  "tb_columns DeviceInventory_table = map without_default device_inventory_columns"
  "tb_columns Heartbeat_table = map without_default heartbeats_columns"
  "tb_columns Ticket_table = map without_default tickets_columns"
  "tb_columns Incident_table = map without_default incidents_columns"
  "tb_columns Approval_table = map without_default approvals_columns"
  "tb_columns Diagnosis_table = map without_default diagnoses_columns"
  "tb_columns AuditEventRow_table = map without_default audit_events_columns"
  "tb_columns IdempotencyRecord_table = map without_default idempotency_records_columns"
  "tb_columns DomainEventRow_table = map without_default domain_events_columns"
  "tb_columns WebhookSubscription_table = map without_default webhook_subscriptions_columns"
  "tb_columns WebhookDelivery_table = map without_default webhook_deliveries_columns"
  "tb_columns ApplicationConnectorConfig_table = map without_default application_connectors_columns"
  "tb_columns Conversation_table = map without_default conversations_columns"
  "tb_columns ConversationMessage_table = map without_default conversation_messages_columns"
  "tb_columns KnowledgeSourceRow_table = map without_default knowledge_sources_columns"
  "tb_columns IssueDefinitionRow_table = map without_default issue_definitions_columns"
  "tb_columns DiagnosticWorkflowRow_table = map without_default diagnostic_workflows_columns"
  "tb_columns DiagnosticStepRow_table = map without_default diagnostic_steps_columns"
  "tb_columns OrganizationalBaselineRow_table = map without_default organizational_baselines_columns"
  "tb_columns ChannelWorkspaceLink_table = map without_default channel_workspace_links_columns"
  "tb_columns ChannelIdentityLink_table = map without_default channel_identity_links_columns"
  by (simp_all add: model_tables table_columns column_defs without_default_def built_columns)

lemma set_inserted: "set (take k xs @ as @ drop k xs) = set (xs @ as)"
  by (metis append_take_drop_id set_append sup_assoc sup_commute)

lemma declared_inserted:
  "tb_columns SkillManifestRow_table = map without_default (take 8 skills_columns @ added_0011 @ drop 8 skills_columns)"
  "tb_columns Device_table = map without_default (take 6 devices_columns @ added_0006 @ drop 6 devices_columns)"
  "tb_columns Action_table = map without_default (take 11 actions_columns @ added_0002_actions @ drop 11 actions_columns)"
  "tb_columns ExecutionResultRow_table = map without_default (take 6 execution_results_columns @ added_0002_results @
    drop 6 execution_results_columns)"
  "tb_columns ConnectorRequest_table = map without_default (take 15 connector_requests_columns @ added_0018 @ drop 15
    connector_requests_columns)"
  by (simp_all add: model_tables table_columns added_defs column_defs without_default_def built_columns numeral_eq_Suc)

lemma declared_columns:
  "set (tb_columns SkillManifestRow_table) = set (map without_default (skills_columns @ added_0011))"
  "set (tb_columns Device_table) = set (map without_default (devices_columns @ added_0006))"
  "set (tb_columns Action_table) = set (map without_default (actions_columns @ added_0002_actions))"
  "set (tb_columns ExecutionResultRow_table) = set (map without_default (execution_results_columns @ added_0002_results))"
  "set (tb_columns ConnectorRequest_table) = set (map without_default (connector_requests_columns @ added_0018))"
  unfolding declared_inserted set_map set_inserted by (rule refl)+

lemma declared_uniques:
  "tb_uniques Tenant_table = []"
  "tb_uniques SkillManifestRow_table = [[''skill_id'', ''version'']]"
  "tb_uniques WorkerHeartbeatRow_table = []"
  "tb_uniques User_table = [[''tenant_id'', ''email'']]"
  "tb_uniques Device_table = [[''tenant_id'', ''external_id'']]"
  "tb_uniques EnrollmentToken_table = []"
  "tb_uniques DeviceInventory_table = []"
  "tb_uniques Heartbeat_table = []"
  "tb_uniques Ticket_table = []"
  "tb_uniques Incident_table = []"
  "tb_uniques Action_table = []"
  "tb_uniques Approval_table = []"
  "tb_uniques Diagnosis_table = []"
  "tb_uniques ExecutionResultRow_table = []"
  "tb_uniques AuditEventRow_table = []"
  "tb_uniques IdempotencyRecord_table = [[''tenant_id'', ''scope'', ''key'']]"
  "tb_uniques DomainEventRow_table = []"
  "tb_uniques WebhookSubscription_table = [[''tenant_id'', ''name'']]"
  "tb_uniques WebhookDelivery_table = [[''event_id'', ''subscription_id'']]"
  "tb_uniques ApplicationConnectorConfig_table = [[''tenant_id'', ''application_id'']]"
  "tb_uniques Conversation_table = []"
  "tb_uniques ConversationMessage_table = []"
  "tb_uniques ConnectorRequest_table = []"
  "tb_uniques KnowledgeSourceRow_table = []"
  "tb_uniques IssueDefinitionRow_table = [[''issue_key'', ''version'']]"
  "tb_uniques DiagnosticWorkflowRow_table = []"
  "tb_uniques DiagnosticStepRow_table = []"
  "tb_uniques OrganizationalBaselineRow_table = []"
  "tb_uniques ChannelWorkspaceLink_table = [[''channel'', ''workspace_id'']]"
  "tb_uniques ChannelIdentityLink_table = [[''tenant_id'', ''channel'', ''provider_user_id'']]"
  by (simp_all add: model_tables built_def)

lemma declared_indexes:
  "tb_indexes Tenant_table = indexed ''tenants'' []"
  "tb_indexes SkillManifestRow_table = indexed ''skills'' [''skill_id'']"
  "tb_indexes WorkerHeartbeatRow_table = indexed ''worker_heartbeats'' []"
  "tb_indexes User_table = indexed ''users'' [''tenant_id'']"
  "tb_indexes Device_table = indexed ''devices'' [''tenant_id'']"
  "tb_indexes EnrollmentToken_table = indexed ''enrollment_tokens'' [''tenant_id'']"
  "tb_indexes DeviceInventory_table = indexed ''device_inventory'' [''tenant_id'', ''device_id'']"
  "tb_indexes Heartbeat_table = indexed ''heartbeats'' [''tenant_id'', ''device_id'']"
  "tb_indexes Ticket_table = indexed ''tickets'' [''tenant_id'']"
  "tb_indexes Incident_table = indexed ''incidents'' [''tenant_id'', ''device_id'', ''ticket_id'', ''incident_type'',
     ''status''] @ [(''ix_incidents_tenant_device_correlation'', [''tenant_id'', ''device_id'', ''correlation_key''],
     False)]"
  "tb_indexes Action_table = indexed ''actions'' [''tenant_id'', ''device_id'']"
  "tb_indexes Approval_table = indexed ''approvals'' [''tenant_id'', ''action_id'']"
  "tb_indexes Diagnosis_table = indexed ''diagnoses'' [''tenant_id'', ''incident_id'']"
  "tb_indexes ExecutionResultRow_table = indexed ''execution_results'' [''tenant_id'', ''action_id'']"
  "tb_indexes AuditEventRow_table = indexed ''audit_events'' [''tenant_id'',
     ''correlation_id''] @ [(''ix_audit_tenant_sequence'', [''tenant_id'', ''sequence''], True)]"
  "tb_indexes IdempotencyRecord_table = indexed ''idempotency_records'' [''tenant_id'']"
  "tb_indexes DomainEventRow_table = indexed ''domain_events'' [''tenant_id'', ''event_type'', ''subject_id'']"
  "tb_indexes WebhookSubscription_table = indexed ''webhook_subscriptions'' [''tenant_id'']"
  "tb_indexes WebhookDelivery_table = indexed ''webhook_deliveries'' [''tenant_id'', ''event_id'',
     ''subscription_id'', ''status'', ''next_attempt_at'']"
  "tb_indexes ApplicationConnectorConfig_table = indexed ''application_connectors'' [''tenant_id'']"
  "tb_indexes Conversation_table = indexed ''conversations'' [''tenant_id'', ''channel'', ''user_id'', ''status'']"
  "tb_indexes ConversationMessage_table = indexed ''conversation_messages'' [''tenant_id'', ''conversation_id'']"
  "tb_indexes ConnectorRequest_table = indexed ''connector_requests'' [''tenant_id'']"
  "tb_indexes KnowledgeSourceRow_table = indexed ''knowledge_sources'' []"
  "tb_indexes IssueDefinitionRow_table = indexed ''issue_definitions'' [''issue_key'']"
  "tb_indexes DiagnosticWorkflowRow_table = indexed ''diagnostic_workflows'' [''issue_definition_id'']"
  "tb_indexes DiagnosticStepRow_table = indexed ''diagnostic_steps'' [''workflow_id'']"
  "tb_indexes OrganizationalBaselineRow_table = indexed ''organizational_baselines'' [''tenant_id'', ''key'']"
  "tb_indexes ChannelWorkspaceLink_table = indexed ''channel_workspace_links'' [''tenant_id'']"
  "tb_indexes ChannelIdentityLink_table = indexed ''channel_identity_links'' [''tenant_id'']"
  by (simp_all add: model_tables built_def)

lemma connector_indexes:
  "set (indexed t [a, b, c, d]) = set (indexed t [a]) \<union> set (indexed t [b, c, d])"
  by (auto simp: indexed_def)

lemma built_simps:
  "tb_uniques (built cols us ixs) = us" "tb_uniques (protect r) = tb_uniques r" "tb_uniques (grant r) = tb_uniques r"
  "tb_indexes (built cols us ixs) = ixs" "tb_indexes (protect r) = tb_indexes r" "tb_indexes (grant r) = tb_indexes r"
  by (simp_all add: built_def protect_def grant_def)

lemma tables_declared:
  "list_all (\<lambda>(t, r). case map_of DB_MODELS t of None \<Rightarrow> False | Some d \<Rightarrow> declares t d r)
    migrated_tables"
  by (simp add: migrated_tables_def DB_MODELS_def declares_def declared_in_order declared_columns
      declared_uniques declared_indexes built_columns built_simps connector_indexes image_Un)

lemma tables_scoped: "list_all (\<lambda>(t, r). t \<in> set TENANT_SCOPED_TABLES \<longleftrightarrow> tb_policy r)
  migrated_tables"
  by (simp add: migrated_tables_def TENANT_SCOPED_TABLES_def protect_def grant_def built_def new_relation_def)

lemma tables_secured:
  "list_all (\<lambda>(t, r). (''tenant_id'' \<in> set (names_of (tb_columns r)) \<longleftrightarrow> tb_policy r)
    \<and> (tb_enabled r \<longleftrightarrow> tb_policy r)
     \<and> (tb_forced r \<longleftrightarrow> tb_policy r) \<and> tb_granted r) migrated_tables"
  by (simp add: migrated_tables_def built_columns column_names added_names)
    (simp add: protect_def grant_def built_def new_relation_def)

lemma unprovisioned: "app_role_password st = [] \<Longrightarrow> run_ddl (upgrade_schema_0005 st) s = None"
  by (simp add: upgrade_schema_0005_def provision_app_role_def run_ddl_append split: option.split)

lemma upgraded:
  assumes "upgrade_to st (length (migrations st)) = Some s"
  shows "s = schema_0018 st" and "app_role_password st \<noteq> []"
proof -
  show pw: "app_role_password st \<noteq> []"
  proof
    assume "app_role_password st = []"
    with assms show False
      by (simp add: upgrade_to_def migrations_def run_ddl_append migration_steps unprovisioned)
  qed
  show "s = schema_0018 st" using upgraded_last [OF pw] assms by simp
qed

lemma demo_password: "app_role_password demo_settings \<noteq> []"
  by (simp add: demo_settings_def default_settings_def placeholder_def)

lemma distinct_migrated: "distinct (map fst migrated_tables)"
proof -
  from run_ddl_ok [OF step_0018(1) schema_ok_0015, OF demo_password demo_password] have "schema_ok (schema_0018
    demo_settings)" .
  from schema_okD(1) [OF this] show ?thesis by (simp add: schema_0018_tables)
qed

lemma names_declared: "set (map fst migrated_tables) = set (map fst DB_MODELS)"
proof (rule card_seteq)
  show "set (map fst migrated_tables) \<subseteq> set (map fst DB_MODELS)"
    using tables_declared by (fastforce simp: list_all_iff split: option.splits dest: map_of_SomeD intro: rev_image_eqI)
  have "card (set (map fst DB_MODELS)) \<le> length DB_MODELS" using card_length [of "map fst DB_MODELS"] by simp
  also have "length DB_MODELS = length migrated_tables" by (simp add: DB_MODELS_def migrated_tables_def)
  also have "\<dots> = card (set (map fst migrated_tables))" using distinct_card [OF distinct_migrated] by simp
  finally show "card (set (map fst DB_MODELS)) \<le> card (set (map fst migrated_tables))" .
qed simp

lemma sequences_granted: "sc_sequences (schema_0018 st) = map (\<lambda>q. (q, True)) APPLICATION_SEQUENCES"
  by (simp add: schema_steps attach_def widen_def secured_def schema_0001_def alter_all_def APPLICATION_SEQUENCES_def)

section \<open>Results\<close>

text \<open>
  C26.  Every migration can be undone.  With a password for the application role configured, the migrations can be
    applied one after
  the other to an empty database, and from the schema of any revision the downgrades lead back to the schema of any
  earlier one: the same tables, columns, constraints, indexes, policies, sequences and privileges.
\<close>

theorem every_migration_reversible:
  assumes "app_role_password st \<noteq> []" and "m \<le> n"
  shows "\<exists>s s'. upgrade_to st n = Some s \<and> upgrade_to st m = Some s' \<and> run_ddl (downgrade_from st n m)
    s = Some s'"
proof -
  let ?ms = "take n (migrations st)"
  have e: "take m ?ms @ drop m ?ms = ?ms" by (rule append_take_drop_id)
  have m: "take m ?ms = take m (migrations st)" using assms(2) by (simp add: min_def)
  have "undone (take m ?ms @ drop m ?ms) empty_schema"
    unfolding e by (rule undone_take [OF migrations_undone [OF assms(1)]])
  from undone_append [OF this] obtain s' where s': "upgrade_to st m = Some s'" "undone (drop m ?ms) s'"
    unfolding upgrade_to_def m by blast
  from undone_down [OF s'(2)] obtain s where s: "run_ddl (concat (map fst (drop m ?ms))) s' = Some s"
    "run_ddl (downgrade_from st n m) s = Some s'" unfolding downgrade_from_def by blast
  have "concat (map fst ?ms) = concat (map fst (take m ?ms)) @ concat (map fst (drop m ?ms))"
    by (metis e map_append concat_append)
  with s s'(1) have "upgrade_to st n = Some s" using assms(2) by (simp add: upgrade_to_def run_ddl_append min_def)
  with s s' show ?thesis by blast
qed

theorem every_migration_reversible_witness:
  "\<exists>s s'. upgrade_to demo_settings 18 = Some s \<and> upgrade_to demo_settings 4 = Some s'
     \<and> run_ddl (downgrade_from demo_settings 18 4) s = Some s'"
  by (rule every_migration_reversible) (simp_all add: demo_password)

text \<open>
  C25.  The migrated schema is the declared one.  Applying all migrations to an empty database gives exactly the tables
    that
  the models declare, and each has the columns, with their types, nullability, keys and references, and the unique
  constraints of its model.  The indexes are those of the model too, but for three on \<open>connector_requests\<close>
    that no model declares.
\<close>

theorem migrated_schema_is_declared:
  assumes "upgrade_to st (length (migrations st)) = Some s"
  shows "set (map fst (sc_tables s)) = set (map fst DB_MODELS)
    \<and> (\<forall>(t, r) \<in> set (sc_tables s). \<exists>d. map_of DB_MODELS t = Some d \<and> declares t d r)"
  unfolding upgraded(1) [OF assms] schema_0018_tables
  using tables_declared names_declared by (auto simp: list_all_iff split: option.splits)

theorem migrated_schema_is_declared_witness:
  "\<exists>s. upgrade_to demo_settings (length (migrations demo_settings)) = Some s \<and> set (map fst (sc_tables s)) =
    set (map fst DB_MODELS)"
proof -
  have u: "upgrade_to demo_settings (length (migrations demo_settings)) = Some (schema_0018 demo_settings)"
    by (rule upgraded_last) (simp add: demo_password)
  from u migrated_schema_is_declared [OF u] show ?thesis by blast
qed

text \<open>
  C24.  Row-level security covers exactly what belongs to tenants.  In the schema that the migrations build, a table has
    a tenant
  column if and only if it is in the list of tenant-scoped tables, and if and only if row-level security is enabled,
    forced and
  given its policy on it; and the application role may use every table.
\<close>

theorem tenant_tables_protected:
  assumes "upgrade_to st (length (migrations st)) = Some s"
  shows "\<forall>(t, r) \<in> set (sc_tables s).
      (''tenant_id'' \<in> set (names_of (tb_columns r)) \<longleftrightarrow> t \<in> set TENANT_SCOPED_TABLES)
      \<and> (tb_enabled r \<and> tb_forced r \<and> tb_policy r \<longleftrightarrow> t \<in> set TENANT_SCOPED_TABLES)
        \<and> tb_granted r"
  unfolding upgraded(1) [OF assms] schema_0018_tables
  using tables_scoped tables_secured by (auto simp: list_all_iff)

theorem tenant_tables_protected_witness:
  "\<exists>s r. upgrade_to demo_settings (length (migrations demo_settings)) = Some s \<and> (''tickets'', r) \<in> set
    (sc_tables s)
     \<and> tb_enabled r \<and> tb_forced r \<and> tb_policy r \<and> tb_granted r"
proof -
  have u: "upgrade_to demo_settings (length (migrations demo_settings)) = Some (schema_0018 demo_settings)"
    by (rule upgraded_last) (simp add: demo_password)
  have "\<exists>r. (''tickets'', r) \<in> set (sc_tables (schema_0018 demo_settings))"
    by (simp add: schema_0018_tables migrated_tables_def)
  moreover have "''tickets'' \<in> set TENANT_SCOPED_TABLES" by (simp add: TENANT_SCOPED_TABLES_def)
  ultimately show ?thesis using u tenant_tables_protected [OF u] by blast
qed

end
