(* ===== verification/WinServices.thy ===== *)
theory WinServices
  imports Executors
begin

text \<open>
  The Windows service manager and resolver (\<open>windows_agent/win32_service_manager.py\<close>,
  \<open>windows_agent/win32_dns_resolver.py\<close>), which the executors of \<open>Executors.thy\<close> use, over the functions of pywin32 and the
  clock, which are parameters.  The waiting loop polls until the service is in the wanted state or the deadline
  has passed; it is a partial function, and the results are that it ends for every clock that sleeping
  advances, and that a restart reported as successful was seen stopped and then seen running.
\<close>

section \<open>The interface of Windows\<close>

text \<open>
  An opened service is named by its service.  The functions raise \<open>pywintypes.error\<close>, here \<open>Win32Error\<close> with
  its code and text.
\<close>

record 'w win32 =
  OpenSCManager :: "('w, unit) io"
  OpenService :: "string \<Rightarrow> ('w, unit) io"
  QueryServiceStatus :: "string \<Rightarrow> ('w, nat) io"
  ControlService_stop :: "string \<Rightarrow> ('w, unit) io"
  StartService :: "string \<Rightarrow> ('w, unit) io"
  CloseServiceHandle :: "('w, unit) io"
  monotonic :: "'w \<Rightarrow> rat"
  sleep :: "rat \<Rightarrow> 'w \<Rightarrow> 'w"

definition SERVICE_STOPPED :: nat where "SERVICE_STOPPED = 1"

definition SERVICE_RUNNING :: nat where "SERVICE_RUNNING = 4"

definition ERROR_SERVICE_DOES_NOT_EXIST :: nat where "ERROR_SERVICE_DOES_NOT_EXIST = 1060"

definition STATE_NAMES :: "(nat \<times> string) list" where
  "STATE_NAMES = [(1, ''stopped''), (2, ''start_pending''), (3, ''stop_pending''), (4, ''running''),
     (5, ''continue_pending''), (6, ''pause_pending''), (7, ''paused'')]"

definition POLL_INTERVAL_SECONDS :: rat where
  "POLL_INTERVAL_SECONDS = 1 / 4"

text \<open>\<open>try: m finally: c\<close>.\<close>

definition finally_do :: "('w, 'a) io \<Rightarrow> ('w, unit) io \<Rightarrow> ('w, 'a) io" where
  "finally_do m c w =
     (case m w of
        (Crashed, w1) \<Rightarrow> (Crashed, w1)
      | (r, w1) \<Rightarrow> (case c w1 of (Done _, w2) \<Rightarrow> (r, w2) | (Raised e, w2) \<Rightarrow> (Raised e, w2) | (Crashed, w2) \<Rightarrow> (Crashed, w2)))"

definition win32_failed :: "py_error \<Rightarrow> bool" where
  "win32_failed e = (case e of Win32Error _ _ \<Rightarrow> True | _ \<Rightarrow> False)"

definition win32_text :: "py_error \<Rightarrow> string" where
  "win32_text e = (case e of Win32Error _ s \<Rightarrow> s | _ \<Rightarrow> [])"

text \<open>\<open>except pywintypes.error as exc: raise ServiceControlError(str(exc)) from exc\<close>.\<close>

definition controlled :: "('w, 'a) io \<Rightarrow> ('w, 'a) io" where
  "controlled m = catch win32_failed m (\<lambda>e. raise (ServiceControlError (win32_text e)))"

definition open_scm :: "'w win32 \<Rightarrow> ('w, unit) io" where
  "open_scm A = controlled (OpenSCManager A)"

text \<open>Whether there is such a service.\<close>

definition open_service :: "'w win32 \<Rightarrow> string \<Rightarrow> ('w, bool) io" where
  "open_service A service =
     catch win32_failed (bind (OpenService A service) (\<lambda>_. ret True))
       (\<lambda>e. case e of
          Win32Error code _ \<Rightarrow> if code = ERROR_SERVICE_DOES_NOT_EXIST then ret False
            else raise (ServiceControlError (win32_text e))
        | _ \<Rightarrow> raise (ServiceControlError (win32_text e)))"

section \<open>Observing and waiting\<close>

definition state_from_handle :: "'w win32 \<Rightarrow> string \<Rightarrow> ('w, WinServiceState) io" where
  "state_from_handle A service =
     bind (controlled (QueryServiceStatus A service)) (\<lambda>current.
       ret \<lparr>wss_exists = True, wss_state = (case map_of STATE_NAMES current of Some n \<Rightarrow> n | None \<Rightarrow> ''unknown'')\<rparr>)"

definition win32_query_state :: "'w win32 \<Rightarrow> string \<Rightarrow> ('w, WinServiceState) io" where
  "win32_query_state A service =
     seq (open_scm A) (finally_do
       (bind (open_service A service) (\<lambda>found.
          if \<not> found then ret \<lparr>wss_exists = False, wss_state = ''unknown''\<rparr>
          else finally_do (state_from_handle A service) (CloseServiceHandle A)))
       (CloseServiceHandle A))"

partial_function (option) wait_loop ::
  "'w win32 \<Rightarrow> string \<Rightarrow> nat \<Rightarrow> rat \<Rightarrow> 'w \<Rightarrow> (unit outcome \<times> 'w) option" where
  "wait_loop A service target deadline w =
     (if monotonic A w < deadline then
        (case controlled (QueryServiceStatus A service) w of
           (Done current, w1) \<Rightarrow>
             if current = target then Some (Done (), w1)
             else wait_loop A service target deadline (sleep A POLL_INTERVAL_SECONDS w1)
         | (Raised e, w1) \<Rightarrow> Some (Raised e, w1)
         | (Crashed, w1) \<Rightarrow> Some (Crashed, w1))
      else Some (Raised (ServiceControlError
        (''timed out waiting for service state in ['' @ show_nat target @ '']'')), w))"

text \<open>A loop that never ends leaves the process running for ever, which nothing after it observes.\<close>

definition wait_for :: "'w win32 \<Rightarrow> string \<Rightarrow> nat \<Rightarrow> rat \<Rightarrow> ('w, unit) io" where
  "wait_for A service target timeout_seconds w =
     (case wait_loop A service target (monotonic A w + timeout_seconds) w of Some r \<Rightarrow> r | None \<Rightarrow> (Crashed, w))"

section \<open>Stopping, starting, restarting\<close>

text \<open>
  \<open>stop\<close> and \<open>start\<close> are the same text but for the state wanted and the request made.  The first query of the status
  is not guarded: its \<open>pywintypes.error\<close> leaves the method as it is.
\<close>

definition bring_to :: "'w win32 \<Rightarrow> string \<Rightarrow> nat \<Rightarrow> ('w, unit) io \<Rightarrow> rat \<Rightarrow> ('w, unit) io" where
  "bring_to A service target request timeout_seconds =
     seq (open_scm A) (finally_do
       (bind (open_service A service) (\<lambda>found.
          if \<not> found then raise (ServiceControlError ''service is not installed'')
          else finally_do
            (bind (QueryServiceStatus A service) (\<lambda>current.
               seq (if current \<noteq> target then controlled request else ret ())
                 (wait_for A service target timeout_seconds)))
            (CloseServiceHandle A)))
       (CloseServiceHandle A))"

definition win32_stop :: "'w win32 \<Rightarrow> string \<Rightarrow> rat \<Rightarrow> ('w, unit) io" where
  "win32_stop A service timeout_seconds =
     bring_to A service SERVICE_STOPPED (ControlService_stop A service) timeout_seconds"

definition win32_start :: "'w win32 \<Rightarrow> string \<Rightarrow> rat \<Rightarrow> ('w, unit) io" where
  "win32_start A service timeout_seconds =
     bring_to A service SERVICE_RUNNING (StartService A service) timeout_seconds"

definition win32_restart :: "'w win32 \<Rightarrow> string \<Rightarrow> rat \<Rightarrow> ('w, unit) io" where
  "win32_restart A service timeout_seconds =
     (let half = max (timeout_seconds / 2) 1
      in seq (win32_stop A service half) (win32_start A service half))"

definition Win32ServiceManager :: "'w win32 \<Rightarrow> 'w service_manager" where
  "Win32ServiceManager A = \<lparr>wm_query_state = win32_query_state A, wm_restart = win32_restart A,
     wm_stop = win32_stop A, wm_start = win32_start A\<rparr>"

text \<open>The resolver: loading the library may fail, and so may the call.\<close>

definition Win32DnsResolver :: "('w, unit) io \<Rightarrow> ('w, int) io \<Rightarrow> 'w dns_resolver" where
  "Win32DnsResolver load DnsFlushResolverCache =
     seq (catch (\<lambda>e. case e of AttributeError _ \<Rightarrow> True | OSError _ \<Rightarrow> True | _ \<Rightarrow> False) load
            (\<lambda>e. raise (ServiceControlError (''dnsapi.dll unavailable: '' @
               (case e of AttributeError s \<Rightarrow> s | OSError s \<Rightarrow> s | _ \<Rightarrow> [])))))
       (bind (catch (\<lambda>e. case e of OSError _ \<Rightarrow> True | _ \<Rightarrow> False) DnsFlushResolverCache
            (\<lambda>e. raise (ServiceControlError (''DnsFlushResolverCache call failed: '' @
               (case e of OSError s \<Rightarrow> s | _ \<Rightarrow> [])))))
          (\<lambda>result. ret (result \<noteq> 0)))"

section \<open>Waiting ends\<close>

text \<open>What the documentation of \<open>time.monotonic\<close> and \<open>time.sleep\<close> promises.\<close>

definition clock_advances :: "'w win32 \<Rightarrow> bool" where
  "clock_advances A \<longleftrightarrow> (\<forall>w. monotonic A w + POLL_INTERVAL_SECONDS \<le> monotonic A (sleep A POLL_INTERVAL_SECONDS w))
     \<and> (\<forall>service w. monotonic A w \<le> monotonic A (snd (QueryServiceStatus A service w)))"

lemma controlled_clock:
  assumes "clock_advances A" and "controlled (QueryServiceStatus A service) w = (r, w1)"
  shows "monotonic A w \<le> monotonic A w1"
proof -
  have "w1 = snd (QueryServiceStatus A service w)"
    using assms(2) by (auto simp: controlled_def catch_def raise_def split: prod.splits outcome.splits if_splits)
  with assms(1) show ?thesis by (simp add: clock_advances_def)
qed

lemma wait_loop_ends:
  assumes "clock_advances A"
  shows "deadline - monotonic A w < of_nat n * POLL_INTERVAL_SECONDS \<Longrightarrow> \<exists>r. wait_loop A service target deadline w = Some r"
proof (induction n arbitrary: w)
  case 0
  then show ?case by (subst wait_loop.simps) simp
next
  case (Suc n)
  obtain r w1 where q: "controlled (QueryServiceStatus A service) w = (r, w1)" by (cases "controlled (QueryServiceStatus A service) w")
  have "monotonic A w + POLL_INTERVAL_SECONDS \<le> monotonic A (sleep A POLL_INTERVAL_SECONDS w1)"
    using controlled_clock [OF assms q] assms unfolding clock_advances_def by (meson add_right_mono order_trans)
  with Suc.prems have "deadline - monotonic A (sleep A POLL_INTERVAL_SECONDS w1) < of_nat n * POLL_INTERVAL_SECONDS"
    by (simp add: algebra_simps)
  with Suc.IH [of "sleep A POLL_INTERVAL_SECONDS w1"] q show ?case
    by (subst wait_loop.simps) (auto split: outcome.split)
qed

text \<open>
  C29.  Waiting for a service ends.  If sleeping advances the clock and asking for the status does not turn
  it back, the polling loop of the service manager returns or raises for every service, wanted state, timeout and
  start, so \<open>wait_for\<close> has the outcome of the loop.
\<close>

theorem waiting_ends:
  assumes "clock_advances A"
  shows "\<exists>r. wait_loop A service target (monotonic A w + timeout_seconds) w = Some r
     \<and> wait_for A service target timeout_seconds w = r"
proof -
  obtain n :: nat where "timeout_seconds / POLL_INTERVAL_SECONDS < of_nat n" using reals_Archimedean2 by blast
  then have "monotonic A w + timeout_seconds - monotonic A w < of_nat n * POLL_INTERVAL_SECONDS"
    by (simp add: POLL_INTERVAL_SECONDS_def field_simps)
  from wait_loop_ends [OF assms this] obtain r where "wait_loop A service target (monotonic A w + timeout_seconds) w = Some r"
    by blast
  then show ?thesis by (simp add: wait_for_def)
qed

section \<open>What success means\<close>

lemma finally_do_Done:
  "finally_do m c w = (Done a, w') \<Longrightarrow> \<exists>w1. m w = (Done a, w1) \<and> c w1 = (Done (), w')"
  by (auto simp: finally_do_def split: prod.splits outcome.splits)

lemma controlled_Done [simp]: "controlled m w = (Done a, w') \<longleftrightarrow> m w = (Done a, w')"
  by (auto simp: controlled_def catch_Done)

lemma wait_loop_Done:
  assumes "wait_loop A service target deadline w = Some (Done (), w')"
  shows "\<exists>q. QueryServiceStatus A service q = (Done target, w')"
proof -
  have "fst r = Done () \<longrightarrow> (\<exists>q. QueryServiceStatus A service q = (Done target, snd r))"
    if "wait_loop A service target deadline w = Some r" for r
    using that
  proof (induction rule: wait_loop.raw_induct [rotated 1, consumes 1])
    case (1 loop A service target deadline w r)
    show ?case
    proof (cases "monotonic A w < deadline")
      case False
      with 1(2) show ?thesis by auto
    next
      case True
      obtain o1 w1 where q: "controlled (QueryServiceStatus A service) w = (o1, w1)"
        by (cases "controlled (QueryServiceStatus A service) w")
      with True 1 show ?thesis by (cases o1) (auto split: if_splits)
    qed
  qed
  from this [OF assms] show ?thesis by simp
qed

text \<open>The two handles are closed.\<close>

definition closed :: "'w win32 \<Rightarrow> 'w \<Rightarrow> 'w \<Rightarrow> bool" where
  "closed A u v \<longleftrightarrow> (\<exists>m. CloseServiceHandle A u = (Done (), m) \<and> CloseServiceHandle A m = (Done (), v))"

definition seen_in :: "'w win32 \<Rightarrow> string \<Rightarrow> nat \<Rightarrow> 'w \<Rightarrow> bool" where
  "seen_in A service target v \<longleftrightarrow> (\<exists>q u. QueryServiceStatus A service q = (Done target, u) \<and> closed A u v)"

lemma bring_to_Done:
  assumes "bring_to A service target request t w = (Done (), v)"
  shows "seen_in A service target v"
proof -
  let ?body = "bind (open_service A service) (\<lambda>found.
          if \<not> found then raise (ServiceControlError ''service is not installed'')
          else finally_do
            (bind (QueryServiceStatus A service) (\<lambda>current.
               seq (if current \<noteq> target then controlled request else ret ()) (wait_for A service target t)))
            (CloseServiceHandle A))"
  from assms obtain w0 where "finally_do ?body (CloseServiceHandle A) w0 = (Done (), v)"
    by (auto simp: bring_to_def seq_def bind_Done)
  from finally_do_Done [OF this] obtain m where c: "CloseServiceHandle A m = (Done (), v)" and b: "?body w0 = (Done (), m)" by blast
  from b obtain u w2 where m: "CloseServiceHandle A u = (Done (), m)" and w: "wait_for A service target t w2 = (Done (), u)"
    by (auto simp: bind_Done seq_def split: if_splits dest!: finally_do_Done)
  from w have "wait_loop A service target (monotonic A w2 + t) w2 = Some (Done (), u)"
    by (auto simp: wait_for_def split: option.splits)
  with c m wait_loop_Done show ?thesis by (fastforce simp: seen_in_def closed_def)
qed

lemma query_running:
  assumes "win32_query_state A service w = (Done after, v)" and "wss_state after = ''running''"
  shows "seen_in A service SERVICE_RUNNING v"
proof -
  from assms(1) obtain m found w1 w2 where c: "CloseServiceHandle A m = (Done (), v)" and "open_service A service w1 = (Done found, w2)"
    and f: "(if \<not> found then ret \<lparr>wss_exists = False, wss_state = ''unknown''\<rparr>
          else finally_do (state_from_handle A service) (CloseServiceHandle A)) w2 = (Done after, m)"
    by (auto simp: win32_query_state_def seq_def bind_Done dest!: finally_do_Done)
  from f assms(2) obtain u where m: "CloseServiceHandle A u = (Done (), m)" and s: "state_from_handle A service w2 = (Done after, u)"
    by (auto split: if_splits dest!: finally_do_Done)
  from s obtain c where q: "QueryServiceStatus A service w2 = (Done c, u)"
    and "wss_state after = (case map_of STATE_NAMES c of Some n \<Rightarrow> n | None \<Rightarrow> ''unknown'')"
    by (auto simp: state_from_handle_def bind_Done)
  with assms(2) have "c = SERVICE_RUNNING" by (auto simp: STATE_NAMES_def SERVICE_RUNNING_def split: if_splits)
  with c m q show ?thesis by (auto simp: seen_in_def closed_def)
qed

text \<open>
  C28.  A successful restart on Windows happened.  If \<open>service.restart\<close> over this service manager reports success,
  then an allowlisted service was first seen stopped, then seen running, and after that the verification, which
  ended the job, saw it running once more.
\<close>

theorem windows_restart_really_restarts:
  assumes "win_restart_execute x ps w = (Done r, w')" and "we_manager x = Win32ServiceManager A" and "jr_success r"
  shows "\<exists>service half v1 v2 after. service \<in> set (we_allowed x) \<and> dict_get ps ''service'' = Some (JStr service)
     \<and> seen_in A service SERVICE_STOPPED v1
     \<and> win32_start A service half v1 = (Done (), v2) \<and> seen_in A service SERVICE_RUNNING v2
     \<and> win32_query_state A service v2 = (Done after, w') \<and> wss_state after = ''running''
     \<and> seen_in A service SERVICE_RUNNING w'"
proof -
  from windows_restart_success_observed [OF assms(1)] assms(2,3) obtain service w1 v2 after where
    s: "service \<in> set (we_allowed x)" "dict_get ps ''service'' = Some (JStr service)"
    and r: "win32_restart A service (we_timeout x) w1 = (Done (), v2)"
    and q: "win32_query_state A service v2 = (Done after, w')" "wss_state after = ''running''"
    by (auto simp: Win32ServiceManager_def)
  let ?half = "max (we_timeout x / 2) 1"
  from r obtain v1 where "win32_stop A service ?half w1 = (Done (), v1)" and start: "win32_start A service ?half v1 = (Done (), v2)"
    by (auto simp: win32_restart_def Let_def seq_def bind_Done)
  then have "seen_in A service SERVICE_STOPPED v1" "seen_in A service SERVICE_RUNNING v2"
    by (auto simp: win32_stop_def win32_start_def dest: bring_to_Done)
  with s start q query_running [OF q] show ?thesis by blast
qed

section \<open>A scripted machine\<close>

text \<open>The state of the one service, what it will be after the next moment, and the time.\<close>

definition demo_win32 :: "(nat \<times> nat \<times> rat) win32" where
  "demo_win32 = \<lparr>OpenSCManager = ret (), OpenService = \<lambda>_. ret (),
     QueryServiceStatus = \<lambda>_ (s, n, t). (Done s, (s, n, t)),
     ControlService_stop = \<lambda>_ (s, n, t). (Done (), (3, 1, t)),
     StartService = \<lambda>_ (s, n, t). (Done (), (2, 4, t)),
     CloseServiceHandle = ret (), monotonic = \<lambda>(s, n, t). t, sleep = \<lambda>d (s, n, t). (n, n, t + d)\<rparr>"

definition demo_spooler :: "(nat \<times> nat \<times> rat) win_restart_executor" where
  "demo_spooler = \<lparr>we_allowed = [''Spooler''], we_manager = Win32ServiceManager demo_win32, we_timeout = 20\<rparr>"

lemma demo_win32_simps [simp]:
  "OpenSCManager demo_win32 w = (Done (), w)" "OpenService demo_win32 service w = (Done (), w)"
  "QueryServiceStatus demo_win32 service w = (Done (fst w), w)" "CloseServiceHandle demo_win32 w = (Done (), w)"
  "monotonic demo_win32 w = snd (snd w)" "sleep demo_win32 d w = (fst (snd w), fst (snd w), snd (snd w) + d)"
  "ControlService_stop demo_win32 service w = (Done (), (3, 1, snd (snd w)))"
  "StartService demo_win32 service w = (Done (), (2, 4, snd (snd w)))"
  by (cases w; simp add: demo_win32_def ret_def)+

lemma demo_open [simp]: "open_scm demo_win32 w = (Done (), w)" "open_service demo_win32 service w = (Done True, w)"
  "controlled (QueryServiceStatus demo_win32 service) w = (Done (fst w), w)"
  by (simp_all add: open_scm_def open_service_def catch_def bind_def ret_def)

lemma demo_wait:
  assumes "n0 \<noteq> n" and "1 \<le> k"
  shows "wait_loop demo_win32 service n (t + k) (n0, n, t) = Some (Done (), (n, n, t + 1 / 4))"
proof -
  have "wait_loop demo_win32 service n (t + k) (n, n, t + 1 / 4) = Some (Done (), (n, n, t + 1 / 4))"
    using assms by (subst wait_loop.simps) simp
  with assms show ?thesis by (subst wait_loop.simps) (simp add: POLL_INTERVAL_SECONDS_def)
qed

theorem waiting_ends_witness:
  "wait_for demo_win32 ''Spooler'' 4 1 (2, 4, 0) = (Done (), (4, 4, 1 / 4))
   \<and> (\<exists>r. wait_loop demo_win32 ''Spooler'' 7 1 (4, 4, 0) = Some r)"
proof -
  have c: "clock_advances demo_win32" by (simp add: clock_advances_def)
  have "wait_loop demo_win32 ''Spooler'' 4 1 (2, 4, 0) = Some (Done (), (4, 4, 1 / 4))"
    using demo_wait [of 2 4 1 "''Spooler''" 0] by simp
  with waiting_ends [OF c, of "''Spooler''" 4 "(2, 4, 0)" 1] waiting_ends [OF c, of "''Spooler''" 7 "(4, 4, 0)" 1]
  show ?thesis by auto
qed

lemma demo_bring:
  assumes "n0 \<noteq> n" and "1 \<le> k" and "request (s, n1, t) = (Done (), (n0, n, t))" and "s \<noteq> n"
  shows "bring_to demo_win32 service n request k (s, n1, t) = (Done (), (n, n, t + 1 / 4))"
proof -
  have r: "controlled request (s, n1, t) = (Done (), (n0, n, t))" using assms(3) by simp
  have w: "wait_for demo_win32 service n k (n0, n, t) = (Done (), (n, n, t + 1 / 4))"
    using demo_wait [OF assms(1,2), of service t] by (simp add: wait_for_def)
  show ?thesis using assms(4) by (simp add: bring_to_def seq_def bind_def finally_do_def r w)
qed

theorem windows_restart_really_restarts_witness:
  "\<exists>r w'. win_restart_execute demo_spooler [(''service'', JStr ''Spooler'')] (4, 4, 0) = (Done r, w')
     \<and> jr_success r \<and> (\<exists>v. seen_in demo_win32 ''Spooler'' SERVICE_STOPPED v)"
proof -
  have q: "win32_query_state demo_win32 service (4, 4, t) = (Done \<lparr>wss_exists = True, wss_state = ''running''\<rparr>, (4, 4, t))" for service t
    by (simp add: win32_query_state_def seq_def bind_def ret_def finally_do_def state_from_handle_def STATE_NAMES_def)
  have r: "win32_restart demo_win32 service 20 (4, 4, 0) = (Done (), (4, 4, 1 / 2))" for service
    using demo_bring [of 3 1 10 "ControlService_stop demo_win32 service" 4 4 0 service]
      demo_bring [of 2 4 10 "StartService demo_win32 service" 1 1 "1 / 4" service]
    by (simp add: win32_restart_def win32_stop_def win32_start_def SERVICE_STOPPED_def SERVICE_RUNNING_def io_defs)
  obtain r where e: "win_restart_execute demo_spooler [(''service'', JStr ''Spooler'')] (4, 4, 0) = (Done r, (4, 4, 1 / 2))"
    and s: "jr_success r"
    using q r by (simp add: win_restart_execute_def dict_get_def demo_spooler_def Win32ServiceManager_def attempt_def
        win_apply_def win_check_def io_defs success_report_def)
  have "\<exists>v. seen_in demo_win32 ''Spooler'' SERVICE_STOPPED v"
    using windows_restart_really_restarts [OF e _ s, of demo_win32] by (auto simp: demo_spooler_def)
  with e s show ?thesis by blast
qed

text \<open>The first status query of a stop is not guarded, so its error is not one the executor handles.\<close>

lemma unguarded_query:
  assumes "OpenSCManager A w = (Done (), w1)" and "OpenService A service w1 = (Done (), w2)"
    and "QueryServiceStatus A service w2 = (Raised (Win32Error code text), w3)"
    and "CloseServiceHandle A w3 = (Done (), w4)" and "CloseServiceHandle A w4 = (Done (), w5)"
  shows "win32_stop A service t w = (Raised (Win32Error code text), w5) \<and> \<not> control_failed (Win32Error code text)"
  using assms by (simp add: win32_stop_def bring_to_def open_scm_def open_service_def controlled_def finally_do_def io_defs
      control_failed_def)

end
