(* ===== verification/Collectors.thy ===== *)
theory Collectors
  imports Executors Incidents
begin

text \<open>
  The inventory collector of the Linux agent (\<open>linux_agent/collectors.py\<close>): what it reads from \<open>/proc\<close> and the
  other interfaces of the system, parsed into the inventory payload.  The system at one moment is a parameter, the
  record \<open>os_view\<close>; a collector that samples twice takes two of them.  The results: the figures reported are within
  their bounds, the filesystems reported are those mounted, one for each mountpoint, and the
  incident detection of the control plane reads every one of them that has a size.
\<close>

section \<open>The system\<close>

text \<open>A file that does not exist or cannot be read is \<open>None\<close>; so are a call that raises \<open>OSError\<close> and a command that fails.\<close>

record os_view =
  read_text :: "string \<Rightarrow> string option"
  statvfs :: "string \<Rightarrow> (int \<times> int \<times> int) option"
  proc_entries :: "string list option"
  if_nameindex :: "string list"
  if_address :: "string \<Rightarrow> string option"
  inet_ntop6 :: "string \<Rightarrow> py_error + string"
  to_float :: "string \<Rightarrow> py_error + rat"
  command_output :: "string list \<Rightarrow> rat \<Rightarrow> string option"
  os_cpu_count :: "int option"
  clock_ticks :: int
  os_hostname :: string
  os_kernel :: string
  os_machine :: string

definition and_then :: "'e + 'a \<Rightarrow> ('a \<Rightarrow> 'e + 'b) \<Rightarrow> 'e + 'b" where
  "and_then r f = (case r of Inl e \<Rightarrow> Inl e | Inr a \<Rightarrow> f a)"

lemma and_then_Inr: "and_then r f = Inr b \<longleftrightarrow> (\<exists>a. r = Inr a \<and> f a = Inr b)"
  by (auto simp: and_then_def split: sum.split)

text \<open>\<open>xs[i]\<close> and \<open>s.split()\<close>.\<close>

definition at_index :: "'a list \<Rightarrow> nat \<Rightarrow> py_error + 'a" where
  "at_index xs i = (if i < length xs then Inr (xs ! i) else Inl (IndexError ''list index out of range''))"

fun words_from :: "string \<Rightarrow> string \<Rightarrow> string list" where
  "words_from word [] = (if word = [] then [] else [rev word])"
| "words_from word (c # cs) =
     (if is_space c then (if word = [] then [] else [rev word]) @ words_from [] cs else words_from (c # word) cs)"

definition words :: "string \<Rightarrow> string list" where
  "words s = words_from [] s"

definition split_at :: "char \<Rightarrow> string \<Rightarrow> string \<times> string" where
  "split_at c line = (takeWhile (\<lambda>x. x \<noteq> c) line, tl (dropWhile (\<lambda>x. x \<noteq> c) line))"

definition read_file :: "os_view \<Rightarrow> string \<Rightarrow> py_error + string" where
  "read_file v path = (case read_text v path of None \<Rightarrow> Inl (OSError path) | Some s \<Rightarrow> Inr s)"

definition read_key_values :: "os_view \<Rightarrow> string \<Rightarrow> string \<Rightarrow> string option" where
  "read_key_values v path =
     (case read_text v path of
        None \<Rightarrow> (\<lambda>_. None)
      | Some s \<Rightarrow> map_of (rev (map (map_prod id strip \<circ> split_at CHR '':'') (filter (\<lambda>l. CHR '':'' \<in> set l) (splitlines s)))))"

section \<open>Processor and memory\<close>

definition cpu_sample :: "os_view \<Rightarrow> py_error + int \<times> int" where
  "cpu_sample v =
     and_then (read_file v ''/proc/stat'') (\<lambda>s.
     and_then (at_index (splitlines s) 0) (\<lambda>line.
     and_then (traverse parse_int (drop 1 (words line))) (\<lambda>ns.
     and_then (at_index ns 3) (\<lambda>i.
       Inr (sum_list ns, i + (if length ns > 4 then ns ! 4 else 0))))))"

definition cpu_utilization :: "os_view \<Rightarrow> os_view \<Rightarrow> py_error + rat" where
  "cpu_utilization v1 v2 =
     and_then (cpu_sample v1) (\<lambda>(first_total, first_idle).
     and_then (cpu_sample v2) (\<lambda>(second_total, second_idle).
       let total_delta = max (second_total - first_total) 1;
           utilization = 100 * (1 - of_int (second_idle - first_idle) / of_int total_delta)
       in Inr (py_round 2 (max 0 (min 100 utilization)))))"

definition cpu_inventory :: "os_view \<Rightarrow> os_view \<Rightarrow> py_error + dict" where
  "cpu_inventory v1 v2 =
     and_then (cpu_utilization v1 v2) (\<lambda>u.
       Inr [(''logical_cpus'', case os_cpu_count v2 of None \<Rightarrow> JNull | Some n \<Rightarrow> JInt n),
            (''model'', JStr (get_or ''unknown'' (read_key_values v1 ''/proc/cpuinfo'' ''model name''))),
            (''utilization_percent'', JFloat u)])"

definition meminfo_bytes :: "os_view \<Rightarrow> string \<Rightarrow> py_error + int" where
  "meminfo_bytes v key =
     and_then (at_index (words (get_or ''0 kB'' (read_key_values v ''/proc/meminfo'' key))) 0) (\<lambda>w.
     and_then (parse_int w) (\<lambda>n. Inr (n * 1024)))"

definition memory_inventory :: "os_view \<Rightarrow> py_error + dict" where
  "memory_inventory v =
     and_then (meminfo_bytes v ''MemTotal'') (\<lambda>total.
     and_then (meminfo_bytes v ''MemAvailable'') (\<lambda>available.
     and_then (meminfo_bytes v ''SwapTotal'') (\<lambda>swap_total.
     and_then (meminfo_bytes v ''SwapFree'') (\<lambda>swap_free.
       Inr [(''total_bytes'', JInt total), (''available_bytes'', JInt available),
            (''swap_total_bytes'', JInt swap_total), (''swap_free_bytes'', JInt swap_free)]))))"

section \<open>Filesystems\<close>

record filesystem =
  fs_device :: string
  fs_mountpoint :: string
  fs_type :: string
  fs_total_bytes :: int
  fs_free_bytes :: int

definition pseudo_filesystems :: "string set" where
  "pseudo_filesystems = {''proc'', ''sysfs'', ''devpts'', ''cgroup'', ''cgroup2''}"

fun filesystem_rows :: "os_view \<Rightarrow> string set \<Rightarrow> string list \<Rightarrow> py_error + filesystem list" where
  "filesystem_rows v known [] = Inr []"
| "filesystem_rows v known (line # ls) =
     (case words line of
        device # mountpoint # type # _ \<Rightarrow>
          if mountpoint \<in> known \<or> type \<in> pseudo_filesystems then filesystem_rows v known ls
          else (case statvfs v mountpoint of
                  None \<Rightarrow> filesystem_rows v (insert mountpoint known) ls
                | Some (blocks, frsize, bavail) \<Rightarrow>
                    and_then (filesystem_rows v (insert mountpoint known) ls) (\<lambda>rows.
                      Inr (\<lparr>fs_device = device, fs_mountpoint = mountpoint, fs_type = type,
                            fs_total_bytes = blocks * frsize, fs_free_bytes = bavail * frsize\<rparr> # rows)))
      | _ \<Rightarrow> Inl (ValueError ''not enough values to unpack''))"

definition filesystem_inventory :: "os_view \<Rightarrow> py_error + filesystem list" where
  "filesystem_inventory v = and_then (read_file v ''/proc/mounts'') (\<lambda>s. filesystem_rows v {} (splitlines s))"

definition filesystem_json :: "filesystem \<Rightarrow> json" where
  "filesystem_json f =
     JObj [(''device'', JStr (fs_device f)), (''mountpoint'', JStr (fs_mountpoint f)), (''filesystem'', JStr (fs_type f)),
           (''total_bytes'', JInt (fs_total_bytes f)), (''free_bytes'', JInt (fs_free_bytes f))]"

section \<open>Network\<close>

text \<open>The IPv6 addresses of each interface, as pairs in the order of the file.\<close>

definition inet6_line :: "os_view \<Rightarrow> string \<Rightarrow> py_error + string \<times> string" where
  "inet6_line v line =
     (case words line of
        [address, _, _, _, _, n] \<Rightarrow> and_then (inet_ntop6 v address) (\<lambda>rendered. Inr (n, rendered))
      | _ \<Rightarrow> Inl (ValueError ''wrong number of values to unpack''))"

definition inet6_addresses :: "os_view \<Rightarrow> py_error + (string \<times> string) list" where
  "inet6_addresses v =
     (case read_text v ''/proc/net/if_inet6'' of None \<Rightarrow> Inr [] | Some s \<Rightarrow> traverse (inet6_line v) (splitlines s))"

definition interface_json :: "os_view \<Rightarrow> (string \<times> string) list \<Rightarrow> string \<Rightarrow> json" where
  "interface_json v ipv6 n =
     JObj [(''name'', JStr n),
       (''addresses'', JList (map JStr (map snd (filter (\<lambda>(i, _). i = n) ipv6)
          @ (case if_address v n of None \<Rightarrow> [] | Some a \<Rightarrow> [a]))))]"

definition dns_servers :: "os_view \<Rightarrow> py_error + string list" where
  "dns_servers v =
     (case read_text v ''/etc/resolv.conf'' of
        None \<Rightarrow> Inr []
      | Some s \<Rightarrow> traverse (\<lambda>line. at_index (words line) 1)
          (filter (\<lambda>line. starts_with (strip line) ''nameserver '') (splitlines s)))"

definition network_inventory :: "os_view \<Rightarrow> py_error + dict" where
  "network_inventory v =
     and_then (inet6_addresses v) (\<lambda>ipv6.
     and_then (dns_servers v) (\<lambda>dns.
       Inr [(''interfaces'', JList (map (interface_json v ipv6) (if_nameindex v))),
            (''dns_servers'', JList (map JStr dns))]))"

section \<open>Processes and services\<close>

text \<open>\<open>raw.rsplit(")", 1)[-1]\<close>.\<close>

definition after_last :: "char \<Rightarrow> string \<Rightarrow> string" where
  "after_last c s = rev (takeWhile (\<lambda>x. x \<noteq> c) (rev s))"

definition process_cpu_ticks :: "os_view \<Rightarrow> string \<Rightarrow> int option" where
  "process_cpu_ticks v pid =
     (case read_text v (''/proc/'' @ pid @ ''/stat'') of
        None \<Rightarrow> None
      | Some raw \<Rightarrow>
          let ws = words (after_last (CHR '')'') raw)
          in (case and_then (at_index ws 11) (\<lambda>u. and_then (parse_int u) (\<lambda>utime.
                   and_then (at_index ws 12) (\<lambda>s. and_then (parse_int s) (\<lambda>stime. Inr (utime + stime))))) of
                Inl _ \<Rightarrow> None
              | Inr n \<Rightarrow> Some n))"

definition process_name :: "os_view \<Rightarrow> string \<Rightarrow> string" where
  "process_name v pid =
     (case read_text v (''/proc/'' @ pid @ ''/comm'') of
        None \<Rightarrow> ''unknown''
      | Some s \<Rightarrow> if strip s = [] then ''unknown'' else strip s)"

record process =
  pc_pid :: int
  pc_name :: string
  pc_cpu_percent :: rat

definition pid_entries :: "os_view \<Rightarrow> string list option" where
  "pid_entries v = map_option (filter (\<lambda>n. n \<noteq> [] \<and> list_all is_digit n)) (proc_entries v)"

definition process_row :: "os_view \<Rightarrow> os_view \<Rightarrow> rat \<Rightarrow> string \<Rightarrow> process option" where
  "process_row v1 v2 sample_seconds pid =
     (case (process_cpu_ticks v1 pid, process_cpu_ticks v2 pid) of
        (Some first, Some second) \<Rightarrow>
          let cpu_count = max (case os_cpu_count v2 of None \<Rightarrow> 1 | Some n \<Rightarrow> if n = 0 then 1 else n) 1;
              delta_ticks = max (second - first) 0;
              cpu_percent = 100 * (of_int delta_ticks / of_int (clock_ticks v2)) / sample_seconds
          in Some \<lparr>pc_pid = int (val_nat pid), pc_name = process_name v2 pid,
                   pc_cpu_percent = py_round 2 (max 0 (min cpu_percent (100 * of_int cpu_count)))\<rparr>
      | _ \<Rightarrow> None)"

text \<open>\<open>sort(key=..., reverse=True)\<close> keeps the order of equal keys.\<close>

definition process_inventory :: "os_view \<Rightarrow> os_view \<Rightarrow> nat \<Rightarrow> rat \<Rightarrow> process list" where
  "process_inventory v1 v2 limit sample_seconds =
     (case pid_entries v1 of
        None \<Rightarrow> []
      | Some pids \<Rightarrow> take limit (sort_key (\<lambda>r. - pc_cpu_percent r) (List.map_filter (process_row v1 v2 sample_seconds) pids)))"

definition process_json :: "process \<Rightarrow> json" where
  "process_json r = JObj [(''pid'', JInt (pc_pid r)), (''name'', JStr (pc_name r)), (''cpu_percent'', JFloat (pc_cpu_percent r))]"

definition service_row :: "os_view \<Rightarrow> string \<Rightarrow> json" where
  "service_row v service =
     (let st = (case command_output v (show_command service) 3 of None \<Rightarrow> unknown_state | Some out \<Rightarrow> parse_state out)
      in JObj [(''service'', JStr service), (''load'', JStr (ss_load st)), (''active'', JStr (ss_active st)),
               (''sub'', JStr (ss_sub st))])"

definition service_inventory :: "os_view \<Rightarrow> string list \<Rightarrow> json list" where
  "service_inventory v services = map (service_row v) services"

section \<open>The payload\<close>

definition strip_quotes :: "string \<Rightarrow> string" where
  "strip_quotes s = rev (dropWhile (\<lambda>c. c = CHR 0x22) (rev (dropWhile (\<lambda>c. c = CHR 0x22) s)))"

definition os_release :: "os_view \<Rightarrow> string \<Rightarrow> string option" where
  "os_release v =
     (case read_text v ''/etc/os-release'' of
        None \<Rightarrow> (\<lambda>_. None)
      | Some s \<Rightarrow> map_of (rev (map (map_prod id strip_quotes \<circ> split_at CHR ''='') (filter (\<lambda>l. CHR ''='' \<in> set l) (splitlines s)))))"

definition uptime_seconds :: "os_view \<Rightarrow> py_error + rat" where
  "uptime_seconds v =
     and_then (read_file v ''/proc/uptime'') (\<lambda>s. and_then (at_index (words s) 0) (to_float v))"

text \<open>The four moments are the two samples of the processor and the two of the processes.\<close>

definition collect_inventory :: "os_view \<Rightarrow> os_view \<Rightarrow> os_view \<Rightarrow> os_view \<Rightarrow> string list \<Rightarrow> py_error + dict" where
  "collect_inventory v1 v2 v3 v4 monitored_services =
     and_then (uptime_seconds v1) (\<lambda>uptime.
     and_then (cpu_inventory v1 v2) (\<lambda>cpu.
     and_then (memory_inventory v2) (\<lambda>mem.
     and_then (filesystem_inventory v2) (\<lambda>filesystems.
     and_then (network_inventory v2) (\<lambda>network.
     and_then (case pid_entries v2 of None \<Rightarrow> Inl (OSError ''/proc'') | Some ps \<Rightarrow> Inr (length ps)) (\<lambda>process_count.
       Inr [(''hostname'', JStr (os_hostname v1)),
            (''distribution'', JStr (get_or ''Linux'' (os_release v1 ''NAME''))),
            (''distribution_version'', JStr (get_or ''unknown'' (os_release v1 ''VERSION_ID''))),
            (''kernel'', JStr (os_kernel v1)), (''architecture'', JStr (os_machine v1)),
            (''cpu'', JObj cpu), (''memory'', JObj mem),
            (''filesystems'', JList (map filesystem_json filesystems)),
            (''uptime_seconds'', JFloat uptime), (''network'', JObj network),
            (''services'', JList (service_inventory v2 monitored_services)),
            (''process_count'', JInt (int process_count)),
            (''top_processes_by_cpu'', JList (map process_json (process_inventory v3 v4 25 (1 / 10))))]))))))"

section \<open>Bounds\<close>

lemma py_round_bounds: "0 \<le> q \<Longrightarrow> q \<le> of_int m \<Longrightarrow> 0 \<le> py_round n q \<and> py_round n q \<le> of_int m"
proof -
  have "py_round n (of_int m) = of_int m"
    using round_even_int [of "m * 10 ^ n"] by (simp add: py_round_def)
  then show "0 \<le> q \<Longrightarrow> q \<le> of_int m \<Longrightarrow> ?thesis" using py_round_mono [of 0 q n] py_round_mono [of q "of_int m" n] by simp
qed

lemma process_row_bounds:
  assumes "process_row v1 v2 s pid = Some r"
  shows "0 \<le> pc_cpu_percent r
     \<and> pc_cpu_percent r \<le> 100 * of_int (max (case os_cpu_count v2 of None \<Rightarrow> 1 | Some n \<Rightarrow> n) 1)"
proof -
  let ?c = "max (case os_cpu_count v2 of None \<Rightarrow> 1 | Some n \<Rightarrow> n) 1"
  have c: "max (case os_cpu_count v2 of None \<Rightarrow> 1 | Some n \<Rightarrow> if n = 0 then 1 else n) 1 = ?c" by (auto split: option.split)
  from assms obtain q where "pc_cpu_percent r = py_round 2 (max 0 (min q (100 * of_int ?c)))"
    unfolding process_row_def Let_def c by (auto split: option.splits)
  moreover have "max 0 (min q (100 * rat_of_int ?c)) \<le> of_int (100 * ?c)" by simp
  ultimately show ?thesis using py_round_bounds [of "max 0 (min q (100 * rat_of_int ?c))" "100 * ?c" 2] by simp
qed

text \<open>
  The figures of the collector are within bounds: the utilization of the processor between 0 and 100 percent;
  of the processes at most as many as asked for, busiest first, each between 0 and 100 percent for every
  processor; whatever the files contain.
\<close>

theorem inventory_bounds:
  shows "(case cpu_utilization v1 v2 of Inl _ \<Rightarrow> True | Inr u \<Rightarrow> 0 \<le> u \<and> u \<le> 100)
     \<and> length (process_inventory v1 v2 limit s) \<le> limit
     \<and> sorted_wrt (\<lambda>p q. pc_cpu_percent p \<ge> pc_cpu_percent q) (process_inventory v1 v2 limit s)
     \<and> (\<forall>p \<in> set (process_inventory v1 v2 limit s). 0 \<le> pc_cpu_percent p
          \<and> pc_cpu_percent p \<le> 100 * of_int (max (case os_cpu_count v2 of None \<Rightarrow> 1 | Some n \<Rightarrow> n) 1))"
proof (intro conjI)
  have "0 \<le> u \<and> u \<le> 100" if u: "cpu_utilization v1 v2 = Inr u" for u
  proof -
    from u obtain q where "u = py_round 2 (max 0 (min 100 q))"
      by (auto simp: cpu_utilization_def and_then_Inr Let_def)
    then show ?thesis using py_round_bounds [of "max 0 (min 100 q)" 100 2] by simp
  qed
  then show "case cpu_utilization v1 v2 of Inl _ \<Rightarrow> True | Inr u \<Rightarrow> 0 \<le> u \<and> u \<le> 100" by (auto split: sum.split)
  show "length (process_inventory v1 v2 limit s) \<le> limit" by (simp add: process_inventory_def split: option.split)
  have "sorted_wrt (\<lambda>p q. pc_cpu_percent p \<ge> pc_cpu_percent q) (sort_key (\<lambda>r. - pc_cpu_percent r) ps)" for ps
    using sorted_sort_key [of "\<lambda>r. - pc_cpu_percent r" ps] by (simp add: sorted_map)
  note sorted_wrt_take [OF this]
  then show "sorted_wrt (\<lambda>p q. pc_cpu_percent p \<ge> pc_cpu_percent q) (process_inventory v1 v2 limit s)"
    by (cases "pid_entries v1") (simp_all add: process_inventory_def)
  have "0 \<le> pc_cpu_percent p \<and> pc_cpu_percent p \<le> 100 * of_int (max (case os_cpu_count v2 of None \<Rightarrow> 1 | Some n \<Rightarrow> n) 1)"
    if "p \<in> set (process_inventory v1 v2 limit s)" for p
  proof -
    from that obtain pid where "process_row v1 v2 s pid = Some p"
      by (cases "pid_entries v1") (auto simp: process_inventory_def List.map_filter_def dest!: in_set_takeD)
    then show ?thesis by (rule process_row_bounds)
  qed
  then show "\<forall>p \<in> set (process_inventory v1 v2 limit s). 0 \<le> pc_cpu_percent p
          \<and> pc_cpu_percent p \<le> 100 * of_int (max (case os_cpu_count v2 of None \<Rightarrow> 1 | Some n \<Rightarrow> n) 1)" by blast
qed

section \<open>What is mounted is reported, and read\<close>

definition mounted :: "os_view \<Rightarrow> string list \<Rightarrow> string \<Rightarrow> bool" where
  "mounted v ls mountpoint \<longleftrightarrow> statvfs v mountpoint \<noteq> None
     \<and> (\<exists>line \<in> set ls. \<exists>device type rest. words line = device # mountpoint # type # rest \<and> type \<notin> pseudo_filesystems)"

lemma mounted_Cons:
  "words line = device # mp # type # rest \<Longrightarrow> mounted v (line # ls) x \<longleftrightarrow>
     mounted v ls x \<or> (x = mp \<and> statvfs v mp \<noteq> None \<and> type \<notin> pseudo_filesystems)"
  unfolding mounted_def by (simp add: ex_disj_distrib) blast

lemma filesystem_rows_exact:
  "filesystem_rows v known ls = Inr rows
   \<Longrightarrow> distinct (map fs_mountpoint rows) \<and> fs_mountpoint ` set rows = {m. m \<notin> known \<and> mounted v ls m}"
proof (induction ls arbitrary: known rows)
  case (Cons line ls)
  then obtain device mp type rest where w: "words line = device # mp # type # rest" by (auto split: list.splits)
  note m = mounted_Cons [OF w, of v ls]
  show ?case
  proof (cases "mp \<in> known \<or> type \<in> pseudo_filesystems")
    case True
    with Cons.prems w have "filesystem_rows v known ls = Inr rows" by simp
    from Cons.IH [OF this] True show ?thesis unfolding m by blast
  next
    case False
    show ?thesis
    proof (cases "statvfs v mp")
      case None
      with Cons.prems w False have "filesystem_rows v (insert mp known) ls = Inr rows" by simp
      from Cons.IH [OF this] None have "\<not> mounted v ls mp" "distinct (map fs_mountpoint rows)"
        "fs_mountpoint ` set rows = {m. m \<notin> insert mp known \<and> mounted v ls m}" by (auto simp: mounted_def)
      with None show ?thesis unfolding m by auto
    next
      case (Some q)
      obtain b f a where q: "q = (b, f, a)" by (cases q)
      with Cons.prems w False Some obtain rs where r: "filesystem_rows v (insert mp known) ls = Inr rs"
        "rows = \<lparr>fs_device = device, fs_mountpoint = mp, fs_type = type, fs_total_bytes = b * f, fs_free_bytes = a * f\<rparr> # rs"
        by (auto simp: and_then_Inr)
      from Cons.IH [OF r(1)] have "distinct (map fs_mountpoint rs)"
        "fs_mountpoint ` set rs = {m. m \<notin> insert mp known \<and> mounted v ls m}" by auto
      with r(2) Some False show ?thesis unfolding m by auto
    qed
  qed
qed (simp add: mounted_def)

text \<open>
  Filesystems reach the incident detection.  When the mounts can be read, the inventory reports each
  mountpoint of a real filesystem whose size the system tells, exactly once, and nothing else; and the detection of
  low disk space reads every reported filesystem with a size and a sensible amount of free space, with its mountpoint
  and its use in percent.
\<close>

theorem filesystems_reach_detection:
  assumes "filesystem_inventory v = Inr rows" and "read_text v ''/proc/mounts'' = Some mounts"
  shows "distinct (map fs_mountpoint rows) \<and> fs_mountpoint ` set rows = {m. mounted v (splitlines mounts) m}
     \<and> (\<forall>f \<in> set rows. 0 < fs_total_bytes f \<and> 0 \<le> fs_free_bytes f \<and> fs_free_bytes f \<le> fs_total_bytes f \<longrightarrow>
          disk_reading sv (filesystem_json f) = Some (take 180 (fs_mountpoint f),
            py_round 2 (of_int (fs_total_bytes f - fs_free_bytes f) * 100 / of_int (fs_total_bytes f)),
            of_int (fs_free_bytes f), of_int (fs_total_bytes f)))"
proof (intro conjI ballI impI)
  from assms have r: "filesystem_rows v {} (splitlines mounts) = Inr rows"
    by (simp add: filesystem_inventory_def read_file_def and_then_Inr)
  from filesystem_rows_exact [OF r] show "distinct (map fs_mountpoint rows)"
    and "fs_mountpoint ` set rows = {m. mounted v (splitlines mounts) m}" by simp_all
  fix f :: filesystem assume "0 < fs_total_bytes f \<and> 0 \<le> fs_free_bytes f \<and> fs_free_bytes f \<le> fs_total_bytes f"
  then show "disk_reading sv (filesystem_json f) = Some (take 180 (fs_mountpoint f),
            py_round 2 (of_int (fs_total_bytes f - fs_free_bytes f) * 100 / of_int (fs_total_bytes f)),
            of_int (fs_free_bytes f), of_int (fs_total_bytes f))"
    by (simp add: disk_reading_def filesystem_json_def dict_get_def number_def py_str_def)
qed

definition demo_view :: os_view where
  "demo_view = \<lparr>read_text = \<lambda>p. if p = ''/proc/mounts'' then Some ''/dev/vda1 / ext4 rw'' else None,
     statvfs = \<lambda>p. if p = ''/'' then Some (100, 4096, 9) else None, proc_entries = None, if_nameindex = [],
     if_address = \<lambda>_. None, inet_ntop6 = \<lambda>s. Inr s, to_float = \<lambda>_. Inr 0, command_output = \<lambda>_ _. None,
     os_cpu_count = None, clock_ticks = 100, os_hostname = ''h'', os_kernel = ''k'', os_machine = ''m''\<rparr>"

theorem filesystems_reach_detection_witness:
  "\<exists>f. filesystem_inventory demo_view = Inr [f] \<and> fs_mountpoint f = ''/''
     \<and> disk_reading demo_server (filesystem_json f) = Some (''/'', 91, 36864, 409600)"
proof -
  let ?f = "\<lparr>fs_device = ''/dev/vda1'', fs_mountpoint = ''/'', fs_type = ''ext4'', fs_total_bytes = 409600, fs_free_bytes = 36864\<rparr>"
  have l: "splitlines ''/dev/vda1 / ext4 rw'' = [''/dev/vda1 / ext4 rw'']" by code_simp
  have w: "words ''/dev/vda1 / ext4 rw'' = [''/dev/vda1'', ''/'', ''ext4'', ''rw'']" by code_simp
  have m: "read_text demo_view ''/proc/mounts'' = Some ''/dev/vda1 / ext4 rw''" by (simp add: demo_view_def)
  have i: "filesystem_inventory demo_view = Inr [?f]"
    by (simp add: filesystem_inventory_def read_file_def and_then_def m l w)
      (simp add: demo_view_def pseudo_filesystems_def and_then_def)
  have "py_round 2 (rat_of_int (409600 - 36864) * 100 / rat_of_int 409600) = 91" by (simp add: py_round_def round_even_def)
  with filesystems_reach_detection [OF i m, of demo_server] i show ?thesis by auto
qed

definition busy_view :: "string \<Rightarrow> os_view" where
  "busy_view stat = demo_view\<lparr>read_text := \<lambda>p. if p = ''/proc/7/stat'' then Some stat else None, proc_entries := Some [''7'', ''self'']\<rparr>"

theorem inventory_bounds_witness:
  "\<exists>p. process_inventory (busy_view ''7 (a b) S 1 1 1 1 1 1 1 1 1 1 5 6'') (busy_view ''7 (a b) S 1 1 1 1 1 1 1 1 1 1 5 90'') 25 (1 / 10) = [p]
     \<and> 0 \<le> pc_cpu_percent p \<and> pc_cpu_percent p \<le> 100"
proof -
  let ?v = "busy_view ''7 (a b) S 1 1 1 1 1 1 1 1 1 1 5 6''" and ?w = "busy_view ''7 (a b) S 1 1 1 1 1 1 1 1 1 1 5 90''"
  have "words (after_last CHR '')'' ''7 (a b) S 1 1 1 1 1 1 1 1 1 1 5 6'')
      = [''S'', ''1'', ''1'', ''1'', ''1'', ''1'', ''1'', ''1'', ''1'', ''1'', ''1'', ''5'', ''6'']"
    "words (after_last CHR '')'' ''7 (a b) S 1 1 1 1 1 1 1 1 1 1 5 90'')
      = [''S'', ''1'', ''1'', ''1'', ''1'', ''1'', ''1'', ''1'', ''1'', ''1'', ''1'', ''5'', ''90'']"
    "parse_int ''5'' = Inr 5" "parse_int ''6'' = Inr 6" "parse_int ''90'' = Inr 90" by code_simp+
  then have "process_cpu_ticks ?v ''7'' = Some 11" "process_cpu_ticks ?w ''7'' = Some 95"
    by (simp_all add: process_cpu_ticks_def busy_view_def at_index_def and_then_def)
  then obtain q where q: "process_row ?v ?w (1 / 10) ''7'' = Some q" by (simp add: process_row_def Let_def)
  have e: "pid_entries ?v = Some [''7'']" by (simp add: pid_entries_def busy_view_def is_digit_def)
  have i: "process_inventory ?v ?w 25 (1 / 10) = [q]"
    by (simp add: process_inventory_def e List.map_filter_def q)
  have "os_cpu_count ?w = None" by (simp add: busy_view_def demo_view_def)
  with inventory_bounds [of ?v ?w 25 "1 / 10"] i show ?thesis by simp
qed

text \<open>The collector for Linux reports no applications, which the knowledge base asks for on Linux too.\<close>

lemma linux_reports_no_applications:
  "collect_inventory v1 v2 v3 v4 services = Inr d \<Longrightarrow> dict_get d ''installed_applications'' = None"
  by (auto simp: collect_inventory_def and_then_Inr dict_get_def)

end
