(* ===== verification/Lifecycle.thy ===== *)
theory Lifecycle
  imports Jobs
begin

text \<open>
  The life of an action row across the handlers of Jobs: a step relation on rows, the
  refinement of every handler to it, the invariants of the table \<open>actions\<close>, and what follows
  for claims, reports, retries and the audit trail.
\<close>

section \<open>Idempotency records\<close>

text \<open>The contract a handler relies on when it looks a key up first and stores its response last.\<close>

locale idempotency =
  fixes lookup :: "string \<Rightarrow> string \<Rightarrow> string \<Rightarrow> dict \<Rightarrow> 'd \<Rightarrow> dict option http"
    and store :: "string \<Rightarrow> string \<Rightarrow> string \<Rightarrow> dict \<Rightarrow> dict \<Rightarrow> 'd \<Rightarrow> 'd"
    and same :: "dict \<Rightarrow> dict \<Rightarrow> bool"
  assumes hit: "lookup t s k p d = Inr None \<Longrightarrow> lookup t s k p (store t s k p r d) = Inr (Some r)"
    and other: "(t', s', k') \<noteq> (t, s, k) \<Longrightarrow>
      lookup t' s' k' q (store t s k p r d) = lookup t' s' k' q d"
    and conflict: "lookup t s k p d = Inr None \<Longrightarrow> \<not> same p q \<Longrightarrow>
      lookup t s k q (store t s k p r d)
        = Inl (HTTPException 409 ''idempotency key reused with different payload'')"
begin

lemma hit_later:
  assumes "lookup t s k p d = Inr None" and "(t', s', k') \<noteq> (t, s, k)"
  shows "lookup t s k p (store t' s' k' q r' (store t s k p r d)) = Inr (Some r)"
  using other [of t s k t' s' k' p q r' "store t s k p r d"] hit [OF assms(1)] assms(2) by force

end

definition same_payload :: "server \<Rightarrow> dict \<Rightarrow> dict \<Rightarrow> bool" where
  "same_payload sv p q \<longleftrightarrow> payload_digest sv p = payload_digest sv q"

lemma lookup_None:
  "idempotency_lookup sv t s k p d = Inr None \<longleftrightarrow> scalar (ir_match t s k) (idempotency_records d) = None"
  by (auto simp: idempotency_lookup_def split: option.split)

lemma remember_records:
  "\<exists>rec. idempotency_records (remember sv now t s k p r c d) = idempotency_records d @ [rec]
     \<and> ir_match t s k rec \<and> ir_request_hash rec = payload_digest sv p \<and> ir_response rec = r"
  by (simp add: remember_def ir_match_def)

interpretation idem: idempotency "idempotency_lookup sv" "\<lambda>t s k p r. remember sv now t s k p r c" "same_payload sv"
  for sv now c
proof
  fix t s k p d r
  assume "idempotency_lookup sv t s k p d = Inr None"
  then have n: "scalar (ir_match t s k) (idempotency_records d) = None" by (simp add: lookup_None)
  then show "idempotency_lookup sv t s k p (remember sv now t s k p r c d) = Inr (Some r)"
    using remember_records [of sv now t s k p r c d]
    by (auto simp: idempotency_lookup_def row_simps)
  fix q
  assume "\<not> same_payload sv p q"
  with n show "idempotency_lookup sv t s k q (remember sv now t s k p r c d)
      = Inl (HTTPException 409 ''idempotency key reused with different payload'')"
    using remember_records [of sv now t s k p r c d]
    by (auto simp: idempotency_lookup_def row_simps same_payload_def)
next
  fix t' s' k' t s k :: string and p q r d
  assume ne: "(t', s', k') \<noteq> (t, s, k)"
  obtain rec where rec: "idempotency_records (remember sv now t s k p r c d) = idempotency_records d @ [rec]"
    "ir_match t s k rec" using remember_records [of sv now t s k p r c d] by blast
  with ne have "\<not> ir_match t' s' k' rec" by (auto simp: ir_match_def)
  with rec(1) show "idempotency_lookup sv t' s' k' q (remember sv now t s k p r c d)
      = idempotency_lookup sv t' s' k' q d"
    by (auto simp: idempotency_lookup_def row_simps split: option.split)
qed

section \<open>Steps of a row\<close>

inductive row_step :: "server \<Rightarrow> Action \<Rightarrow> Action \<Rightarrow> bool" for sv where
  row_decide: "at_status r = ActionStatus_value PENDING_APPROVAL \<Longrightarrow> s \<in> {QUEUED, DENIED} \<Longrightarrow>
    row_step sv r (r\<lparr>at_status := ActionStatus_value s, at_approved_by := a, at_updated_at := now\<rparr>)"
| row_claim: "at_status r = ActionStatus_value QUEUED \<Longrightarrow> row_step sv r (claim_update sv now token r)"
| row_report: "at_status r = ActionStatus_value CLAIMED \<Longrightarrow>
    s \<in> {SUCCEEDED, FAILED, ROLLED_BACK, ROLLBACK_FAILED} \<Longrightarrow>
    row_step sv r (r\<lparr>at_status := ActionStatus_value s, at_updated_at := now\<rparr>)"
| row_reap: "lease_expired now r \<Longrightarrow> row_step sv r (reaped sv now r)"

inductive_cases row_stepE: "row_step sv r r'"

definition fresh_row :: "Action \<Rightarrow> bool" where
  "fresh_row r \<longleftrightarrow> at_attempt r = 0
     \<and> at_status r \<in> ActionStatus_value ` {PENDING_APPROVAL, QUEUED, DENIED}"

text \<open>
  The table after an operation: the old rows, each moved by steps, followed by new ones.
\<close>

definition table_step :: "server \<Rightarrow> Action list \<Rightarrow> Action list \<Rightarrow> bool" where
  "table_step sv rows rows' \<longleftrightarrow> (\<exists>old new. rows' = old @ new
     \<and> list_all2 (row_step sv)\<^sup>*\<^sup>* rows old \<and> (\<forall>r \<in> set new. fresh_row r))"

lemma table_step_refl [simp]: "table_step sv rows rows"
  unfolding table_step_def by (rule exI [of _ rows], rule exI [of _ "[]"]) (simp add: list_all2_refl)

lemma table_step_update:
  assumes "\<And>r. r \<in> set rows \<Longrightarrow> P r \<Longrightarrow> row_step sv r (f r)"
  shows "table_step sv rows (update_where P f rows)"
proof -
  have "list_all2 (row_step sv)\<^sup>*\<^sup>* rows (update_where P f rows)"
    using assms by (auto simp: update_where_def list_all2_conv_all_nth)
  then show ?thesis unfolding table_step_def by (metis append_Nil2 empty_iff empty_set)
qed

lemma table_step_add: "fresh_row r \<Longrightarrow> table_step sv rows (rows @ [r])"
  unfolding table_step_def
  by (rule exI [of _ rows], rule exI [of _ "[r]"]) (simp add: list_all2_refl)

section \<open>Handlers refine to steps\<close>

lemma appends_frame [simp]:
  "actions (appends (sql_append sv) ms d) = actions d"
  "idempotency_records (appends (sql_append sv) ms d) = idempotency_records d"
  "skills (appends (sql_append sv) ms d) = skills d"
  by (induction ms arbitrary: d) auto

lemma remember_frame [simp]:
  "actions (remember sv now t s k p r c d) = actions d"
  "audit_events (remember sv now t s k p r c d) = audit_events d"
  "skills (remember sv now t s k p r c d) = skills d"
  by (simp_all add: remember_def)

lemma claim_fresh_actions:
  assumes "claim_fresh sv now p device_id action_id key v n d = Inr (resp, d')"
  shows "actions d' = update_where (claimable p device_id action_id)
      (claim_update sv now (claim_token sv action_id n key)) (actions d)"
    and "length (filter (claimable p device_id action_id) (actions d)) = 1"
  using assms unfolding claim_fresh_def Let_def
  by (auto split: if_splits option.splits sum.splits)

lemma claim_job_actions:
  assumes "claim_job sv now p device_id action_id key d = Inr (resp, d')"
  shows "d' = d \<or> (\<exists>n. actions d' = update_where (claimable p device_id action_id)
      (claim_update sv now (claim_token sv action_id n key)) (actions d))"
  using assms unfolding claim_job_def Let_def
  by (auto split: option.splits sum.splits json.splits dest!: claim_fresh_actions(1))

lemma claim_job_table:
  "claim_job sv now p device_id action_id key d = Inr (resp, d') \<Longrightarrow> table_step sv (actions d) (actions d')"
  by (auto dest!: claim_job_actions intro!: table_step_update row_claim simp: claimable_def)

lemma report_guard_row:
  assumes "report_guard sv now p device_id action_id token d = Inr row"
  shows "row \<in> set (actions d)" and "at_id row = action_id" and "at_tenant_id row = pr_tenant_id p"
    and "at_device_id row = device_id" and "at_status row = ''claimed''"
    and "at_claim_token_hash row = Some (sha256_hex (sv_host sv) token)"
    and "case at_lease_expires_at row of None \<Rightarrow> True | Some t \<Rightarrow> now \<le> t"
  using assms by (auto simp: report_guard_def split: sum.splits if_splits option.splits dest: tenant_row_Inr)

lemma report_job_actions:
  assumes "report_job_result sv now p device_id action_id token key b d = Inr (resp, d')"
  shows "d' = d \<or> (\<exists>row. report_guard sv now p device_id action_id token d = Inr row
     \<and> actions d' = update_where (\<lambda>r. at_id r = action_id \<and> at_tenant_id r = pr_tenant_id p)
            (\<lambda>r. r\<lparr>at_status := ActionStatus_value (report_status b), at_updated_at := now\<rparr>) (actions d))"
  using assms unfolding report_job_result_def Let_def
  by (auto split: option.splits sum.splits simp: apply_report_def Let_def)

lemma report_status_final:
  "report_status b \<in> {SUCCEEDED, FAILED, ROLLED_BACK, ROLLBACK_FAILED}"
  by (simp add: report_status_def)

lemma keyed_unique:
  "actions_keyed d \<Longrightarrow> r \<in> set (actions d) \<Longrightarrow> q \<in> set (actions d) \<Longrightarrow> at_id r = at_id q \<Longrightarrow> r = q"
  by (auto simp: actions_keyed_def distinct_map inj_on_def)

lemma report_job_table:
  assumes "actions_keyed d" and "report_job_result sv now p device_id action_id token key b d = Inr (resp, d')"
  shows "table_step sv (actions d) (actions d')"
  using report_job_actions [OF assms(2)]
proof
  assume "\<exists>row. report_guard sv now p device_id action_id token d = Inr row
     \<and> actions d' = update_where (\<lambda>r. at_id r = action_id \<and> at_tenant_id r = pr_tenant_id p)
            (\<lambda>r. r\<lparr>at_status := ActionStatus_value (report_status b), at_updated_at := now\<rparr>) (actions d)"
  then obtain row where row: "report_guard sv now p device_id action_id token d = Inr row"
    and a: "actions d' = update_where (\<lambda>r. at_id r = action_id \<and> at_tenant_id r = pr_tenant_id p)
            (\<lambda>r. r\<lparr>at_status := ActionStatus_value (report_status b), at_updated_at := now\<rparr>) (actions d)"
    by blast
  note g = report_guard_row [OF row]
  have "r = row" if "r \<in> set (actions d)" "at_id r = action_id" for r
    using keyed_unique [OF assms(1) that(1) g(1)] that g(2) by simp
  then show ?thesis
    unfolding a using g(5) report_status_final
    by (intro table_step_update row_report) auto
qed simp

lemma mset_insert_by: "mset (insert_by k r rs) = add_mset r (mset rs)"
  by (induction rs) auto

lemma mset_order_by [simp]: "mset (order_by k rs) = mset rs"
  unfolding order_by_def by (induction rs) (auto simp: mset_insert_by)

lemma set_order_by [simp]: "set (order_by k rs) = set rs"
  by (metis mset_order_by set_mset_mset)

lemma length_order_by [simp]: "length (order_by k rs) = length rs"
  by (metis mset_order_by size_mset)

lemma distinct_order_by: "distinct (map f (order_by k rs)) = distinct (map f rs)"
  by (metis mset_eq_imp_distinct_iff mset_map mset_order_by)

lemma expired_claims_props:
  assumes "actions_keyed d"
  shows "set (expired_claims now limit d) \<subseteq> {r \<in> set (actions d). lease_expired now r}"
    and "distinct (map at_id (expired_claims now limit d))"
proof -
  show "set (expired_claims now limit d) \<subseteq> {r \<in> set (actions d). lease_expired now r}"
    unfolding expired_claims_def by (auto dest!: in_set_takeD)
  have "distinct (map at_id (filter (lease_expired now) (actions d)))"
    using assms by (simp add: actions_keyed_def distinct_map_filter)
  then show "distinct (map at_id (expired_claims now limit d))"
    unfolding expired_claims_def by (simp add: distinct_order_by flip: take_map)
qed

lemma update_where_twice:
  assumes "\<And>r. P r \<Longrightarrow> \<not> Q r" and "\<And>r. Q (f r) = Q r"
  shows "update_where Q f (update_where P f rows) = update_where (\<lambda>r. P r \<or> Q r) f rows"
  using assms by (induction rows) (auto simp: row_simps)

lemma reap_actions [simp]:
  "actions (reap sv now r d) = update_where (action_key (at_id r)) (reaped sv now) (actions d)"
  "idempotency_records (reap sv now r d) = idempotency_records d"
  by (simp_all add: reap_def)

lemma fold_reap_actions:
  "distinct (map at_id rs) \<Longrightarrow> actions (fold (reap sv now) rs d) =
     update_where (\<lambda>q. at_id q \<in> at_id ` set rs) (reaped sv now) (actions d)"
proof (induction rs arbitrary: d)
  case Nil
  then show ?case by (simp add: update_where_def)
next
  case (Cons r rs)
  then have "actions (fold (reap sv now) (r # rs) d) =
      update_where (\<lambda>q. at_id q \<in> at_id ` set rs) (reaped sv now)
        (update_where (action_key (at_id r)) (reaped sv now) (actions d))" by simp
  also have "\<dots> = update_where (\<lambda>q. action_key (at_id r) q \<or> at_id q \<in> at_id ` set rs) (reaped sv now) (actions d)"
    using Cons.prems by (intro update_where_twice) (auto simp: action_key_def reaped_def)
  finally show ?case by (simp add: action_key_def)
qed

lemma process_batch_actions:
  assumes "actions_keyed d"
  shows "actions (snd (process_batch sv now limit d)) =
    update_where (\<lambda>q. at_id q \<in> at_id ` set (expired_claims now limit d)) (reaped sv now) (actions d)"
  using fold_reap_actions [OF expired_claims_props(2) [OF assms]]
  by (simp add: process_batch_def Let_def)

lemma process_batch_table:
  assumes "actions_keyed d"
  shows "table_step sv (actions d) (actions (snd (process_batch sv now limit d)))"
  unfolding process_batch_actions [OF assms]
proof (rule table_step_update)
  fix r assume r: "r \<in> set (actions d)" "at_id r \<in> at_id ` set (expired_claims now limit d)"
  then obtain q where q: "q \<in> set (expired_claims now limit d)" "at_id r = at_id q" by blast
  with expired_claims_props(1) [OF assms] have "q \<in> set (actions d)" "lease_expired now q" by auto
  with keyed_unique [OF assms r(1)] q(2) have "lease_expired now r" by blast
  then show "row_step sv r (reaped sv now r)" by (rule row_reap)
qed

lemma request_orchestrator_fields:
  assumes "request_orchestrator sv now tk d = Inr o'"
  shows "oe_store o' = Some (sql_store_ops sv now tk)" and "\<not> oe_execute_immediately o'"
    and "oe_audit o' = sql_append sv"
  using assms by (auto simp: request_orchestrator_def split: sum.splits)

lemma sql_update_actions:
  "sql_update sv now r d = Inr d' \<Longrightarrow> actions d' =
     update_where (\<lambda>q. at_id q = rq_correlation_id (ac_request r))
       (\<lambda>q. q\<lparr>at_status := ActionStatus_value (ac_status r),
              at_approved_by := ac_approved_by r, at_updated_at := now\<rparr>) (actions d)"
  by (auto simp: sql_update_def Let_def split: option.splits if_splits)

lemma session_simps [simp]:
  "os_store (session_state d) = d" "os_audit (session_state d) = d"
  "os_actions (session_state d) c = None"
  by (simp_all add: session_state_def)

lemma merge_actions [simp]:
  "actions (merge_session st) = actions (os_store st)"
  "audit_events (merge_session st) = audit_events (os_audit st)"
  "idempotency_records (merge_session st) = idempotency_records (os_audit st)"
  "skills (merge_session st) = skills (os_audit st)"
  by (simp_all add: merge_session_def)

lemma get_for_tenant_session:
  assumes "oe_store o' = Some (sql_store_ops sv now tk)"
    and "get_for_tenant o' t c (session_state d) = Inr r"
  shows "sql_get t c d = Inr (Some r)"
  using sqlstore.get_for_tenant_store [OF assms(1) _ assms(2)] by (simp add: sql_store_ops_def)

lemma persist_session:
  assumes "oe_store o' = Some (sql_store_ops sv now tk)" and "persist o' r st = (Inr r', st')"
  shows "r' = r \<and> sql_update sv now r (os_store st) = Inr (os_store st') \<and> os_audit st' = os_audit st"
  using assms by (auto simp: persist_def sql_store_ops_def split: sum.splits)

lemma approve_session:
  assumes o: "oe_store o' = Some (sql_store_ops sv now tk)" "\<not> oe_execute_immediately o'"
    and r: "approve o' now t c a (session_state d) = (Inr r', st)"
  shows "\<exists>r0. sql_get t c d = Inr (Some r0) \<and> ac_status r0 = PENDING_APPROVAL
     \<and> ac_request r' = ac_request r0 \<and> ac_status r' \<in> {QUEUED, DENIED}
     \<and> sql_update sv now r' d = Inr (os_store st)"
  using r get_for_tenant_session [OF o(1), of t c d] o(2)
  unfolding approve_def Let_def execute_or_queue_def then_persist_def
  by (auto split: sum.splits if_splits dest!: persist_session [OF o(1)])

lemma deny_session:
  assumes o: "oe_store o' = Some (sql_store_ops sv now tk)"
    and r: "deny o' now t c a reason (session_state d) = (Inr r', st)"
  shows "\<exists>r0. sql_get t c d = Inr (Some r0) \<and> ac_status r0 = PENDING_APPROVAL
     \<and> ac_request r' = ac_request r0 \<and> ac_status r' = DENIED
     \<and> sql_update sv now r' d = Inr (os_store st)"
  using r get_for_tenant_session [OF o(1), of t c d]
  unfolding deny_def Let_def
  by (auto split: sum.splits if_splits dest!: persist_session [OF o(1)])

lemma decide_action_actions:
  assumes "decide_action sv now p action_id b d = Inr (resp, d')"
  shows "\<exists>r0 (r' :: ActionRecord). sql_get (pr_tenant_id p) action_id d = Inr (Some r0) \<and> ac_status r0 = PENDING_APPROVAL
     \<and> ac_status r' \<in> {QUEUED, DENIED} \<and> ac_request r' = ac_request r0
     \<and> (\<not> ad_approve b \<longrightarrow> ac_status r' = DENIED)
     \<and> actions d' = update_where (\<lambda>q. at_id q = action_id)
       (\<lambda>q. q\<lparr>at_status := ActionStatus_value (ac_status r'),
              at_approved_by := ac_approved_by r', at_updated_at := now\<rparr>) (actions d)"
proof -
  from assms obtain o' rec st where o: "request_orchestrator sv now None d = Inr o'"
    and r: "(if ad_approve b
             then approve o' now (pr_tenant_id p) action_id (pr_actor_id p) (session_state d)
             else deny o' now (pr_tenant_id p) action_id (pr_actor_id p) (ad_reason b)
                    (session_state d)) = (Inr rec, st)"
    and a: "actions d' = actions (os_store st)"
    unfolding decide_action_def by (auto simp: Let_def split: sum.splits option.splits prod.splits)
  note f = request_orchestrator_fields [OF o]
  from r approve_session [OF f(1,2)] deny_session [OF f(1)]
  obtain r0 where r0: "sql_get (pr_tenant_id p) action_id d = Inr (Some r0)"
    "ac_status r0 = PENDING_APPROVAL" "ac_request rec = ac_request r0"
    "ac_status rec \<in> {QUEUED, DENIED}" "\<not> ad_approve b \<longrightarrow> ac_status rec = DENIED"
    "sql_update sv now rec d = Inr (os_store st)"
    by (cases "ad_approve b") (simp_all, blast+)
  from r0(1) have "rq_correlation_id (ac_request r0) = action_id"
    using sqlstore.get_key [of sv now None "pr_tenant_id p" action_id d r0] by (simp add: sql_store_ops_def)
  with r0 a sql_update_actions [OF r0(6)] show ?thesis by auto
qed

lemma decide_action_table:
  assumes "actions_keyed d" and "decide_action sv now p action_id b d = Inr (resp, d')"
  shows "table_step sv (actions d) (actions d')"
proof -
  from decide_action_actions [OF assms(2)] obtain r0 and r' :: ActionRecord
    where r0: "sql_get (pr_tenant_id p) action_id d = Inr (Some r0)" "ac_status r0 = PENDING_APPROVAL" "ac_status r' \<in> {QUEUED, DENIED}"
    and a: "actions d' = update_where (\<lambda>q. at_id q = action_id)
       (\<lambda>q. q\<lparr>at_status := ActionStatus_value (ac_status r'),
              at_approved_by := ac_approved_by r', at_updated_at := now\<rparr>) (actions d)" by blast
  from r0(1) obtain row res where row: "action_of_row row res = Inr r0" "row \<in> set (actions d)" "at_id row = action_id"
    by (rule sql_getE)
  have "parse_ActionStatus (at_status row) = Some PENDING_APPROVAL"
    using action_of_row_Inr(5) [OF row(1)] r0(2) by simp
  then have pend: "at_status row = ActionStatus_value PENDING_APPROVAL"
    by (auto simp: parse_ActionStatus_def find_Some_iff)
  have "r = row" if "r \<in> set (actions d)" "at_id r = action_id" for r
    using keyed_unique [OF assms(1) that(1) row(2)] that row(3) by simp
  with pend r0(3) show ?thesis
    unfolding a by (intro table_step_update row_decide) auto
qed

lemma submit_session:
  assumes o: "oe_store o' = Some (sql_store_ops sv now tk)" "\<not> oe_execute_immediately o'"
    and r: "submit o' now rq os (session_state d) = (Inr r', st)"
  shows "\<exists>r s. sql_add sv now tk r d = Inr s \<and> ac_request r = rq \<and> ac_request r' = rq
     \<and> ac_status r' \<in> {PENDING_APPROVAL, QUEUED, DENIED} \<and> ac_approved_by r' = None
     \<and> sql_update sv now r' s = Inr (os_store st)"
proof -
  let ?d = "evaluate (oe_policy o') rq os"
  let ?r = "new_record rq os (decision_risk ?d) (decision_status ?d)"
  from r o(1) obtain s where s: "sql_add sv now tk ?r d = Inr s"
    by (auto simp: submit_def Let_def sql_store_ops_def split: sum.splits)
  have "ac_request r' = rq \<and> ac_status r' \<in> {PENDING_APPROVAL, QUEUED, DENIED}
     \<and> ac_approved_by r' = None \<and> sql_update sv now r' s = Inr (os_store st)"
  proof (cases "decision_status ?d = APPROVED")
    case True
    with r s o show ?thesis
      by (auto simp: submit_def Let_def sql_store_ops_def execute_or_queue_def then_persist_def
          dest!: persist_session [OF o(1)])
  next
    case False
    then have "decision_status ?d \<in> {PENDING_APPROVAL, DENIED}"
      by (auto simp: decision_status_def split: if_splits)
    with False r s o(1) show ?thesis
      by (auto simp: submit_def Let_def sql_store_ops_def dest!: persist_session [OF o(1)])
  qed
  with s show ?thesis by (metis new_record_simps(1))
qed

lemma submit_session_actions:
  assumes "sql_add sv now tk r d = Inr s" and "ac_request r = rq" and "ac_request r' = rq"
    and "ac_status r' \<in> {PENDING_APPROVAL, QUEUED, DENIED}"
    and "sql_update sv now' r' s = Inr d'"
  shows "\<exists>row. actions d' = actions d @ [row] \<and> fresh_row row \<and> at_id row = rq_correlation_id rq
    \<and> at_tenant_id row = rq_tenant_id rq \<and> rq_correlation_id rq \<notin> at_id ` set (actions d)
    \<and> at_status row = ActionStatus_value (ac_status r')"
proof -
  from assms(1,2) have new: "rq_correlation_id rq \<notin> at_id ` set (actions d)"
    and s: "\<exists>row. actions s = actions d @ [row] \<and> at_id row = rq_correlation_id rq
       \<and> at_tenant_id row = rq_tenant_id rq \<and> at_attempt row = 0"
    by (auto simp: sql_add_def split: if_splits)
  from s obtain row where row: "actions s = actions d @ [row]" "at_id row = rq_correlation_id rq"
    "at_tenant_id row = rq_tenant_id rq" "at_attempt row = 0" by blast
  have same: "update_where (\<lambda>q. at_id q = rq_correlation_id rq) f (actions d) = actions d" for f
    using new by (intro update_where_none) (metis imageI)
  show ?thesis
    using sql_update_actions [OF assms(5)] row new assms(3,4)
    by (auto simp: row_simps same fresh_row_def)
qed

lemma create_action_actions:
  assumes "create_action sv now p key b d = Inr (resp, d')"
  shows "d' = d \<or> (\<exists>row. actions d' = actions d @ [row] \<and> fresh_row row
     \<and> at_tenant_id row = pr_tenant_id p \<and> at_id row = sv_uuid sv (next_id d)
     \<and> at_id row \<notin> at_id ` set (actions d) \<and> resp = action_json sv row)"
proof (cases "d' = d")
  case False
  define d0 where "d0 = snd (new_id sv d)"
  from False assms obtain dev :: Device and rq o' rec st row
    where rq: "ActionRequest_init \<lparr>rq_tenant_id = pr_tenant_id p, rq_device_id = dv_id dev,
                     rq_skill_id = ac_body_skill_id b, rq_requested_by = pr_actor_id p,
                     rq_parameters = ac_body_parameters b, rq_correlation_id = fst (new_id sv d)\<rparr> = Inr rq"
      and o: "request_orchestrator sv now (ac_body_ticket_id b) d0 = Inr o'"
      and st: "submit o' now rq (dv_os dev) (session_state d0) = (Inr rec, st)"
      and row: "scalar (action_key (rq_correlation_id (ac_request rec))) (actions (merge_session st)) = Some row"
      and d': "resp = action_json sv row" "actions d' = actions (merge_session st)"
    unfolding create_action_def Let_def d0_def [symmetric]
    by (auto split: sum.splits option.splits prod.splits if_splits)
  note f = request_orchestrator_fields [OF o]
  from submit_session [OF f(1,2) st] obtain r s where r: "sql_add sv now (ac_body_ticket_id b) r d0 = Inr s"
    "ac_request r = rq" "ac_request rec = rq" "ac_status rec \<in> {PENDING_APPROVAL, QUEUED, DENIED}"
    "sql_update sv now rec s = Inr (os_store st)" by blast
  have k: "rq_correlation_id rq = sv_uuid sv (next_id d)" "rq_tenant_id rq = pr_tenant_id p"
    using ActionRequest_init_same [OF rq] by simp_all
  from submit_session_actions [OF r] obtain row' where row': "actions (os_store st) = actions d @ [row']"
    "fresh_row row'" "at_id row' = rq_correlation_id rq" "at_tenant_id row' = rq_tenant_id rq"
    "rq_correlation_id rq \<notin> at_id ` set (actions d)"
    by (auto simp: d0_def)
  have "scalar (action_key (rq_correlation_id rq)) (actions d) = None"
    using row'(5) by (auto simp: scalar_None_iff action_key_def image_iff)
  with row row' r(3) have "row = row'" by (auto simp: row_simps action_key_def)
  with row' d' k show ?thesis by auto
qed simp

lemma create_action_table:
  "create_action sv now p key b d = Inr (resp, d') \<Longrightarrow> table_step sv (actions d) (actions d')"
  by (auto dest!: create_action_actions intro: table_step_add)

section \<open>Operations on the database\<close>

inductive job_op :: "server \<Rightarrow> db \<Rightarrow> db \<Rightarrow> bool" for sv where
  op_create: "create_action sv now p key b d = Inr (resp, d') \<Longrightarrow> job_op sv d d'"
| op_decide: "decide_action sv now p action_id dec d = Inr (resp, d') \<Longrightarrow> job_op sv d d'"
| op_claim: "claim_job sv now p device_id action_id key d = Inr (resp, d') \<Longrightarrow> job_op sv d d'"
| op_report: "report_job_result sv now p device_id action_id token key res d = Inr (resp, d') \<Longrightarrow> job_op sv d d'"
| op_reap: "job_op sv d (snd (process_batch sv now limit d))"

inductive_cases job_opE: "job_op sv d d'"

lemma list_all2_ids:
  assumes "list_all2 R rows old" and "\<And>r r'. R r r' \<Longrightarrow> at_id r' = at_id r"
  shows "map at_id old = map at_id rows"
  using assms by (induction) auto

lemma row_step_fields:
  "row_step sv r r' \<Longrightarrow> at_id r' = at_id r \<and> at_tenant_id r' = at_tenant_id r
     \<and> at_device_id r' = at_device_id r \<and> at_skill_id r' = at_skill_id r
     \<and> at_requested_by r' = at_requested_by r \<and> at_parameters r' = at_parameters r
     \<and> at_risk r' = at_risk r"
  by (cases rule: row_step.cases) (auto simp: claim_update_def reaped_def)

lemma row_steps_fields:
  "(row_step sv)\<^sup>*\<^sup>* r r' \<Longrightarrow> at_id r' = at_id r \<and> at_tenant_id r' = at_tenant_id r
     \<and> at_device_id r' = at_device_id r \<and> at_skill_id r' = at_skill_id r
     \<and> at_requested_by r' = at_requested_by r \<and> at_parameters r' = at_parameters r
     \<and> at_risk r' = at_risk r"
  by (induction rule: rtranclp_induct) (auto dest: row_step_fields)

lemma update_where_ids:
  "(\<And>r. at_id (f r) = at_id r) \<Longrightarrow> map at_id (update_where P f rows) = map at_id rows"
  by (rule map_update_where_id)

lemma job_op_keyed:
  assumes "job_op sv d d'" and "actions_keyed d"
  shows "actions_keyed d'"
  using assms(1)
proof cases
  case (op_create now p key b resp)
  from create_action_actions [OF this] assms(2) show ?thesis by (auto simp: actions_keyed_def)
next
  case (op_decide now p action_id dec resp)
  from decide_action_actions [OF this] assms(2) show ?thesis
    by (auto simp: actions_keyed_def update_where_ids)
next
  case (op_claim now p device_id action_id key resp)
  from claim_job_actions [OF this] assms(2) show ?thesis
    by (auto simp: actions_keyed_def update_where_ids claim_update_def)
next
  case (op_report now p device_id action_id token key res resp)
  from report_job_actions [OF this] assms(2) show ?thesis
    by (auto simp: actions_keyed_def update_where_ids)
next
  case (op_reap now limit)
  show ?thesis unfolding op_reap
    using process_batch_actions [OF assms(2), of sv now limit] assms(2)
    by (simp add: actions_keyed_def update_where_ids reaped_def)
qed

lemma job_op_table:
  assumes "job_op sv d d'" and "actions_keyed d"
  shows "table_step sv (actions d) (actions d')"
  using assms(1)
  by cases (auto intro: create_action_table decide_action_table [OF assms(2)] claim_job_table
      report_job_table [OF assms(2)] process_batch_table [OF assms(2)])

lemma job_ops_keyed: "(job_op sv)\<^sup>*\<^sup>* d d' \<Longrightarrow> actions_keyed d \<Longrightarrow> actions_keyed d'"
  by (induction rule: rtranclp_induct) (auto dest: job_op_keyed)

lemma table_step_row:
  assumes "table_step sv rows rows'" and "r \<in> set rows"
  shows "\<exists>r' \<in> set rows'. (row_step sv)\<^sup>*\<^sup>* r r'"
proof -
  from assms(1) obtain old new where rows': "rows' = old @ new" "list_all2 (row_step sv)\<^sup>*\<^sup>* rows old"
    by (auto simp: table_step_def)
  from rows'(2) assms(2) have "\<exists>r' \<in> set old. (row_step sv)\<^sup>*\<^sup>* r r'"
    by (induction) auto
  with rows'(1) show ?thesis by auto
qed

lemma table_step_origin:
  assumes "table_step sv rows rows'" and "r' \<in> set rows'"
  shows "fresh_row r' \<or> (\<exists>r \<in> set rows. (row_step sv)\<^sup>*\<^sup>* r r')"
proof -
  from assms(1) obtain old new where rows': "rows' = old @ new" "list_all2 (row_step sv)\<^sup>*\<^sup>* rows old"
    "\<forall>r \<in> set new. fresh_row r"
    by (auto simp: table_step_def)
  from rows'(2) have "r' \<in> set old \<Longrightarrow> \<exists>r \<in> set rows. (row_step sv)\<^sup>*\<^sup>* r r'"
    by (induction) auto
  with rows'(1,3) assms(2) show ?thesis by auto
qed

lemma job_ops_row:
  assumes "(job_op sv)\<^sup>*\<^sup>* d d'" and "actions_keyed d" and "r \<in> set (actions d)"
  shows "\<exists>r' \<in> set (actions d'). (row_step sv)\<^sup>*\<^sup>* r r'"
  using assms
proof (induction rule: rtranclp_induct)
  case (step y z)
  then obtain r' where r': "r' \<in> set (actions y)" "(row_step sv)\<^sup>*\<^sup>* r r'" by blast
  have "actions_keyed y" using job_ops_keyed step.hyps(1) step.prems(1) by blast
  from table_step_row [OF job_op_table [OF step.hyps(2) this] r'(1)] r'(2)
  show ?case by (meson rtranclp_trans)
qed auto

section \<open>Invariants of the rows\<close>

definition terminal :: "ActionStatus set" where
  "terminal = {SUCCEEDED, FAILED, ROLLED_BACK, ROLLBACK_FAILED, DENIED}"

lemma terminal_stuck: "at_status r \<in> ActionStatus_value ` terminal \<Longrightarrow> \<not> row_step sv r r'"
  by (auto elim!: row_stepE simp: terminal_def lease_expired_def)

lemma terminal_steps:
  "(row_step sv)\<^sup>*\<^sup>* r r' \<Longrightarrow> at_status r \<in> ActionStatus_value ` terminal \<Longrightarrow> r' = r"
  by (metis converse_rtranclpE terminal_stuck)

text \<open>
  \<open>row_ok\<close>: a queued action has attempts left, a claimed one holds a token and a lease and is on
  one of its attempts, and no action is ever claimed more often than the limit.
\<close>

definition row_ok :: "int \<Rightarrow> Action \<Rightarrow> bool" where
  "row_ok m r \<longleftrightarrow> at_status r \<in> ActionStatus_value ` ({PENDING_APPROVAL, QUEUED, CLAIMED} \<union> terminal)
     \<and> 0 \<le> at_attempt r \<and> at_attempt r \<le> m
     \<and> (at_status r \<in> {''pending_approval'', ''queued''} \<longrightarrow> at_attempt r < m)
     \<and> (at_status r = ''claimed'' \<longrightarrow> 1 \<le> at_attempt r
          \<and> at_claim_token_hash r \<noteq> None \<and> at_lease_expires_at r \<noteq> None)"

lemma fresh_row_ok: "1 \<le> m \<Longrightarrow> fresh_row r \<Longrightarrow> row_ok m r"
  by (auto simp: fresh_row_def row_ok_def terminal_def)

lemma row_step_ok:
  assumes "row_step sv r r'" and "row_ok (lease_reaper_max_attempts (sv_settings sv)) r"
  shows "row_ok (lease_reaper_max_attempts (sv_settings sv)) r'"
  using assms
  by (cases rule: row_step.cases)
     (auto simp: row_ok_def claim_update_def reaped_def lease_expired_def terminal_def)

lemma row_steps_ok:
  "(row_step sv)\<^sup>*\<^sup>* r r' \<Longrightarrow> row_ok (lease_reaper_max_attempts (sv_settings sv)) r
   \<Longrightarrow> row_ok (lease_reaper_max_attempts (sv_settings sv)) r'"
  by (induction rule: rtranclp_induct) (auto dest: row_step_ok)

lemma job_ops_ok:
  assumes "(job_op sv)\<^sup>*\<^sup>* d d'" and "actions_keyed d"
    and "1 \<le> lease_reaper_max_attempts (sv_settings sv)"
    and "\<forall>r \<in> set (actions d). row_ok (lease_reaper_max_attempts (sv_settings sv)) r"
  shows "\<forall>r \<in> set (actions d'). row_ok (lease_reaper_max_attempts (sv_settings sv)) r"
  using assms
proof (induction rule: rtranclp_induct)
  case (step y z)
  have k: "actions_keyed y" using job_ops_keyed step.hyps(1) step.prems(1) by blast
  show ?case
    using table_step_origin [OF job_op_table [OF step.hyps(2) k]] step.IH [OF step.prems]
      fresh_row_ok [OF step.prems(2)] row_steps_ok by blast
qed auto

section \<open>The audit trail of the handlers\<close>

definition chains_ok :: "server \<Rightarrow> db \<Rightarrow> bool" where
  "chains_ok sv d \<longleftrightarrow> sql_audit_ok d \<and> (\<forall>t. verify_chain (sv_host sv) (sql_trail sv t d))"

definition trails_extend :: "server \<Rightarrow> db \<Rightarrow> db \<Rightarrow> bool" where
  "trails_extend sv d d' \<longleftrightarrow> (\<forall>t. \<exists>es. sql_trail sv t d' = sql_trail sv t d @ es)"

text \<open>An operation that changes the audit table by appends only.\<close>

definition audit_grows :: "server \<Rightarrow> db \<Rightarrow> db \<Rightarrow> bool" where
  "audit_grows sv d d' \<longleftrightarrow> (\<exists>base ms. audit_events base = audit_events d
     \<and> audit_events d' = audit_events (appends (sql_append sv) ms base))"

lemma trail_cong:
  "audit_events a = audit_events b \<Longrightarrow> sql_trail sv t a = sql_trail sv t b"
  "audit_events a = audit_events b \<Longrightarrow> sql_audit_ok a = sql_audit_ok b"
  by (simp_all add: sql_trail_def tenant_audit_def sql_audit_ok_def)

lemma trails_extend_refl [simp]: "trails_extend sv d d"
  by (simp add: trails_extend_def)

lemma trails_extend_trans: "trails_extend sv a b \<Longrightarrow> trails_extend sv b c \<Longrightarrow> trails_extend sv a c"
  unfolding trails_extend_def by (metis append_assoc)

lemma audit_grows_ok:
  assumes "audit_grows sv d d'" and "chains_ok sv d"
  shows "chains_ok sv d' \<and> trails_extend sv d d'"
proof -
  from assms(1) obtain base ms where b: "audit_events base = audit_events d"
    and d': "audit_events d' = audit_events (appends (sql_append sv) ms base)"
    by (auto simp: audit_grows_def)
  have ok: "sql_audit_ok base" "\<And>t. verify_chain (sv_host sv) (sql_trail sv t base)"
    using assms(2) trail_cong [OF b] by (auto simp: chains_ok_def)
  have "sql_trail sv t d' = sql_trail sv t (appends (sql_append sv) ms base)" for t
    by (rule trail_cong(1) [OF d'])
  then show ?thesis
    using sqllog.appends_ok [OF ok(1)] sqllog.appends_verify [OF ok(1) ok(2)]
      sqllog.appends_prefix [OF ok(1)] trail_cong(2) [OF d'] trail_cong(1) [OF b]
    by (simp add: chains_ok_def trails_extend_def)
qed

lemma audit_grows_same: "audit_events d' = audit_events d \<Longrightarrow> audit_grows sv d d'"
  unfolding audit_grows_def by (rule exI [of _ d], rule exI [of _ "[]"]) simp

lemma audit_grows_appends:
  "audit_events base = audit_events d \<Longrightarrow> audit_events d' = audit_events (appends (sql_append sv) ms base)
   \<Longrightarrow> audit_grows sv d d'"
  unfolding audit_grows_def by blast

lemma audit_grows_push: "audit_events x = audit_events d \<Longrightarrow> audit_grows sv d (sql_append sv now m x)"
  by (rule audit_grows_appends [where ms = "[(now, m)]" and base = x]) (simp_all only: appends_simps)

lemma audit_grows_frame:
  "audit_events y = audit_events x \<Longrightarrow> audit_grows sv d x \<Longrightarrow> audit_grows sv d y"
  unfolding audit_grows_def by auto

lemma audit_grows_remember: "audit_grows sv d x \<Longrightarrow> audit_grows sv d (remember sv now t s k p r c x)"
  by (rule audit_grows_frame [rotated]) simp_all

lemma claim_job_audit:
  assumes "claim_job sv now p device_id action_id key d = Inr (resp, d')"
  shows "audit_grows sv d d'"
  using assms unfolding claim_job_def claim_fresh_def Let_def
  by (auto split: option.splits sum.splits json.splits if_splits
      intro: audit_grows_same intro!: audit_grows_remember audit_grows_push)

lemma report_job_audit:
  assumes "report_job_result sv now p device_id action_id token key b d = Inr (resp, d')"
  shows "audit_grows sv d d'"
  using assms unfolding report_job_result_def apply_report_def Let_def
  by (auto split: option.splits sum.splits intro: audit_grows_same
      intro!: audit_grows_remember audit_grows_appends [OF _ refl])

lemma session_logs:
  assumes "oe_audit o' = sql_append sv" and "logs (oe_audit o') (os_audit (session_state d)) (os_audit st)"
    and "audit_events d' = audit_events (merge_session st)"
  shows "audit_grows sv d d'"
  using assms unfolding logs_def session_simps merge_actions by (metis audit_grows_appends)

lemma decide_action_audit:
  assumes "decide_action sv now p action_id b d = Inr (resp, d')"
  shows "audit_grows sv d d'"
proof -
  from assms obtain o' rec st where o: "request_orchestrator sv now None d = Inr o'"
    and r: "(if ad_approve b
             then approve o' now (pr_tenant_id p) action_id (pr_actor_id p) (session_state d)
             else deny o' now (pr_tenant_id p) action_id (pr_actor_id p) (ad_reason b)
                    (session_state d)) = (Inr rec, st)"
    and a: "audit_events d' = audit_events (merge_session st)"
    unfolding decide_action_def by (auto simp: Let_def split: sum.splits option.splits prod.splits)
  have "logs (oe_audit o') (os_audit (session_state d)) (os_audit st)"
    using logs_approve [of o' "session_state d" now "pr_tenant_id p" action_id "pr_actor_id p"]
      logs_deny [of o' "session_state d" now "pr_tenant_id p" action_id "pr_actor_id p" "ad_reason b"] r
    by (cases "ad_approve b") (simp_all del: session_simps)
  with a request_orchestrator_fields(3) [OF o] show ?thesis by (intro session_logs)
qed

lemma create_action_audit:
  assumes "create_action sv now p key b d = Inr (resp, d')"
  shows "audit_grows sv d d'"
proof (cases "d' = d")
  case False
  define d0 where "d0 = snd (new_id sv d)"
  from False assms obtain dev :: Device and rq o' rec st
    where o: "request_orchestrator sv now (ac_body_ticket_id b) d0 = Inr o'"
      and st: "submit o' now rq (dv_os dev) (session_state d0) = (Inr rec, st)"
      and a: "audit_events d' = audit_events (merge_session st)"
    unfolding create_action_def Let_def d0_def [symmetric]
    by (auto split: sum.splits option.splits prod.splits if_splits)
  have "logs (oe_audit o') (os_audit (session_state d0)) (os_audit st)"
    using logs_submit [of o' "session_state d0" now rq "dv_os dev"] st by simp
  with a request_orchestrator_fields(3) [OF o] have "audit_grows sv d0 d'" by (intro session_logs)
  then show ?thesis by (simp add: audit_grows_def d0_def)
qed (simp add: audit_grows_same)

lemma fold_reap_audit:
  "chains_ok sv d \<Longrightarrow> chains_ok sv (fold (reap sv now) rs d) \<and> trails_extend sv d (fold (reap sv now) rs d)"
proof (induction rs arbitrary: d)
  case (Cons r rs)
  have "audit_grows sv d (reap sv now r d)" unfolding reap_def by (rule audit_grows_push) simp
  from audit_grows_ok [OF this Cons.prems] Cons.IH [of "reap sv now r d"]
  show ?case by (auto intro: trails_extend_trans)
qed simp

lemma job_op_audit:
  assumes "job_op sv d d'" and "chains_ok sv d"
  shows "chains_ok sv d' \<and> trails_extend sv d d'"
  using assms(1)
proof cases
  case (op_create now p key b resp)
  from audit_grows_ok [OF create_action_audit [OF this] assms(2)] show ?thesis .
next
  case (op_decide now p action_id dec resp)
  from audit_grows_ok [OF decide_action_audit [OF this] assms(2)] show ?thesis .
next
  case (op_claim now p device_id action_id key resp)
  from audit_grows_ok [OF claim_job_audit [OF this] assms(2)] show ?thesis .
next
  case (op_report now p device_id action_id token key res resp)
  from audit_grows_ok [OF report_job_audit [OF this] assms(2)] show ?thesis .
next
  case (op_reap now limit)
  with fold_reap_audit [OF assms(2)] show ?thesis by (simp add: process_batch_def Let_def)
qed

lemma job_ops_audit:
  "(job_op sv)\<^sup>*\<^sup>* d d' \<Longrightarrow> chains_ok sv d \<Longrightarrow> chains_ok sv d' \<and> trails_extend sv d d'"
  by (induction rule: rtranclp_induct) (auto dest: job_op_audit intro: trails_extend_trans)

end
