(* ===== verification/Connectors.thy ===== *)
theory Connectors
  imports Enrollment Lifecycle
begin

text \<open>
  Application connectors and the requests decided over them (\<open>helpdesktool/connectors\<close>, the
  connector handlers of \<open>helpdesktool/api.py\<close>, \<open>helpdesktool/connector_request_reaper.py\<close>): the
  in-memory connector, registering a connector, the step-up code of the requester, the decision of
  an approver, and the reaper that expires requests nobody decided.  The result: an account is
  changed only by an approval of somebody else who holds the requester's current code, and what a
  request reports as verified was observed.
\<close>

section \<open>The connector interface\<close>

record ConnectorResult =
  ct_success :: bool
  ct_detail :: string
  ct_data :: dict

definition connector_result :: "bool \<Rightarrow> string \<Rightarrow> ConnectorResult" where
  "connector_result success detail = \<lparr>ct_success = success, ct_detail = detail, ct_data = []\<rparr>"

definition READ_ONLY_OPERATIONS :: "string set" where
  "READ_ONLY_OPERATIONS = {''resolve_user'', ''check_account'', ''check_permissions'', ''verify_result''}"

definition HIGH_RISK_OPERATIONS :: "string set" where
  "HIGH_RISK_OPERATIONS = {''reset_password'', ''unlock_account'', ''reset_mfa''}"

text \<open>
  What the control plane relies on in a connector over accounts \<open>'w\<close>: an operation that reports
  failure changed nothing, and a high-risk operation that reports success is confirmed by
  \<open>verify_result\<close> on the accounts it left.
\<close>

locale application_connector =
  fixes operate :: "string \<Rightarrow> string \<Rightarrow> 'w \<Rightarrow> string \<Rightarrow> (ConnectorResult \<times> 'w) option"
    and verify :: "'w \<Rightarrow> string \<Rightarrow> string \<Rightarrow> ConnectorResult"
  assumes failure_changes_nothing: "operate op tok w uid = Some (r, w') \<Longrightarrow> \<not> ct_success r \<Longrightarrow> w' = w"
    and success_verifies: "operate op tok w uid = Some (r, w') \<Longrightarrow> ct_success r \<Longrightarrow> op \<in> HIGH_RISK_OPERATIONS
      \<Longrightarrow> ct_success (verify w' uid op)"
begin

lemma unverified_changed_nothing:
  assumes "operate op tok w uid = Some (r, w')" and "op \<in> HIGH_RISK_OPERATIONS" and "\<not> ct_success (verify w' uid op)"
  shows "w' = w"
  using assms failure_changes_nothing success_verifies by blast

end

section \<open>The in-memory connector\<close>

record MockAccount =
  ma_external_user_id :: string
  ma_email :: string
  ma_active :: bool
  ma_locked :: bool
  ma_mfa_enrolled :: bool
  ma_permissions :: "string list"
  ma_last_reset_token :: "string option"

definition mock_account :: "string \<Rightarrow> string \<Rightarrow> MockAccount" where
  "mock_account uid email = \<lparr>ma_external_user_id = uid, ma_email = email, ma_active = True, ma_locked = False,
     ma_mfa_enrolled = True, ma_permissions = [''standard_user''], ma_last_reset_token = None\<rparr>"

text \<open>
  The account objects of \<open>_DEMO_ACCOUNTS\<close> belong to the module, so every connector instance of a
  process works on the same accounts: they are threaded through the handlers as a state.
\<close>

definition DEMO_ACCOUNTS :: "MockAccount list" where
  "DEMO_ACCOUNTS = [mock_account ''mock-ext-001'' ''owner@example.com'', mock_account ''mock-ext-002'' ''admin@example.com'']"

definition mock_resolve_user :: "MockAccount list \<Rightarrow> string \<Rightarrow> ConnectorResult" where
  "mock_resolve_user accounts email =
     (case scalar (\<lambda>a. ma_email a = email) accounts of
        None \<Rightarrow> connector_result False ''no account found for this email''
      | Some a \<Rightarrow> \<lparr>ct_success = True, ct_detail = ''account resolved'',
                  ct_data = [(''external_user_id'', JStr (ma_external_user_id a))]\<rparr>)"

definition by_id :: "MockAccount list \<Rightarrow> string \<Rightarrow> MockAccount option" where
  "by_id accounts uid = scalar (\<lambda>a. ma_external_user_id a = uid) accounts"

text \<open>Mutating the object \<open>_by_id\<close> found: the first account with the identifier.\<close>

fun set_account :: "string \<Rightarrow> (MockAccount \<Rightarrow> MockAccount) \<Rightarrow> MockAccount list \<Rightarrow> MockAccount list" where
  "set_account uid f [] = []"
| "set_account uid f (a # as) = (if ma_external_user_id a = uid then f a # as else a # set_account uid f as)"

definition mock_check_account :: "MockAccount list \<Rightarrow> string \<Rightarrow> ConnectorResult" where
  "mock_check_account accounts uid =
     (case by_id accounts uid of
        None \<Rightarrow> connector_result False ''account not found''
      | Some a \<Rightarrow> \<lparr>ct_success = True, ct_detail = ''account status retrieved'',
                  ct_data = [(''active'', JBool (ma_active a)), (''locked'', JBool (ma_locked a))]\<rparr>)"

definition mock_reset_password :: "string \<Rightarrow> MockAccount list \<Rightarrow> string \<Rightarrow> ConnectorResult \<times> MockAccount list" where
  "mock_reset_password token accounts uid =
     (case by_id accounts uid of
        None \<Rightarrow> (connector_result False ''account not found'', accounts)
      | Some a \<Rightarrow>
          if \<not> ma_active a then (connector_result False ''account is not active'', accounts)
          else (connector_result True ''password reset initiated'',
                set_account uid (\<lambda>a. a\<lparr>ma_last_reset_token := Some token\<rparr>) accounts))"

definition mock_unlock_account :: "MockAccount list \<Rightarrow> string \<Rightarrow> ConnectorResult \<times> MockAccount list" where
  "mock_unlock_account accounts uid =
     (case by_id accounts uid of
        None \<Rightarrow> (connector_result False ''account not found'', accounts)
      | Some _ \<Rightarrow> (connector_result True ''account unlocked'', set_account uid (\<lambda>a. a\<lparr>ma_locked := False\<rparr>) accounts))"

definition mock_reset_mfa :: "MockAccount list \<Rightarrow> string \<Rightarrow> ConnectorResult \<times> MockAccount list" where
  "mock_reset_mfa accounts uid =
     (case by_id accounts uid of
        None \<Rightarrow> (connector_result False ''account not found'', accounts)
      | Some _ \<Rightarrow> (connector_result True ''MFA factors cleared; re-enrollment required'',
                  set_account uid (\<lambda>a. a\<lparr>ma_mfa_enrolled := False\<rparr>) accounts))"

definition mock_check_permissions :: "MockAccount list \<Rightarrow> string \<Rightarrow> ConnectorResult" where
  "mock_check_permissions accounts uid =
     (case by_id accounts uid of
        None \<Rightarrow> connector_result False ''account not found''
      | Some a \<Rightarrow> \<lparr>ct_success = True, ct_detail = ''permissions retrieved'',
                  ct_data = [(''permissions'', JList (map JStr (ma_permissions a)))]\<rparr>)"

definition mock_verify_result :: "MockAccount list \<Rightarrow> string \<Rightarrow> string \<Rightarrow> ConnectorResult" where
  "mock_verify_result accounts uid action =
     (case by_id accounts uid of
        None \<Rightarrow> connector_result False ''account not found''
      | Some a \<Rightarrow>
          if action = ''reset_password''
          then (if ma_last_reset_token a \<noteq> None then connector_result True ''reset token present''
                else connector_result False ''no reset recorded'')
          else if action = ''unlock_account'' then connector_result (\<not> ma_locked a) ''lock state verified''
          else if action = ''reset_mfa'' then connector_result (\<not> ma_mfa_enrolled a) ''mfa state verified''
          else connector_result False (''unknown action to verify: '' @ action))"

text \<open>
  \<open>getattr(connector, operation)(uid)\<close>; \<open>None\<close> stands for the exception of a name that is no
  operation with one argument.
\<close>

definition mock_operation :: "string \<Rightarrow> string \<Rightarrow> MockAccount list \<Rightarrow> string \<Rightarrow> (ConnectorResult \<times> MockAccount list) option" where
  "mock_operation operation token accounts uid =
     (if operation = ''reset_password'' then Some (mock_reset_password token accounts uid)
      else if operation = ''unlock_account'' then Some (mock_unlock_account accounts uid)
      else if operation = ''reset_mfa'' then Some (mock_reset_mfa accounts uid)
      else if operation = ''check_account'' then Some (mock_check_account accounts uid, accounts)
      else if operation = ''check_permissions'' then Some (mock_check_permissions accounts uid, accounts)
      else if operation = ''resolve_user'' then Some (mock_resolve_user accounts uid, accounts)
      else None)"

lemma by_id_set_account:
  assumes "\<And>a. ma_external_user_id (f a) = ma_external_user_id a"
  shows "by_id (set_account uid f accounts) uid = map_option f (by_id accounts uid)"
  by (induction accounts) (auto simp: by_id_def row_simps assms)

lemmas mock_defs = mock_operation_def mock_reset_password_def mock_unlock_account_def mock_reset_mfa_def
  mock_check_account_def mock_check_permissions_def mock_resolve_user_def connector_result_def

interpretation mock: application_connector mock_operation mock_verify_result
proof
  fix op tok accounts uid r w'
  assume a: "mock_operation op tok accounts uid = Some (r, w')"
  { assume "\<not> ct_success r"
    with a show "w' = accounts" by (auto simp: mock_defs split: if_splits option.splits) }
  { assume "ct_success r" and "op \<in> HIGH_RISK_OPERATIONS"
    with a show "ct_success (mock_verify_result w' uid op)"
      by (auto simp: mock_defs mock_verify_result_def HIGH_RISK_OPERATIONS_def by_id_set_account
          split: if_splits option.splits) }
qed

section \<open>Handlers\<close>

definition known_connector_types :: "string list" where
  "known_connector_types = [''mock'']"

record ConnectorConfigCreate =
  cc_application_id :: string
  cc_display_name :: string
  cc_connector_type :: string
  cc_config :: dict
  cc_credential_ref :: string

definition connector_json :: "server \<Rightarrow> ApplicationConnectorConfig \<Rightarrow> dict" where
  "connector_json sv r =
     [(''id'', JStr (cn_id r)), (''application_id'', JStr (cn_application_id r)),
      (''display_name'', JStr (cn_display_name r)), (''connector_type'', JStr (cn_connector_type r)),
      (''active'', JBool (cn_active r)), (''created_at'', iso sv (cn_created_at r))]"

definition create_connector ::
  "server \<Rightarrow> time \<Rightarrow> Principal \<Rightarrow> ConnectorConfigCreate \<Rightarrow> db \<Rightarrow> (dict \<times> db) http" where
  "create_connector sv now p b d =
     (if cc_connector_type b \<notin> set known_connector_types
      then Inl (HTTPException 422 (''unknown connector_type; must be one of ['' @ [CHR 0x27] @ ''mock'' @ [CHR 0x27] @ '']''))
      else if \<exists>c \<in> set (application_connectors d). cn_tenant_id c = pr_tenant_id p \<and> cn_application_id c = cc_application_id b
      then Inl (HTTPException 409 ''a connector for this application already exists'')
      else
        let (row_id, d1) = new_id sv d;
            row = \<lparr>cn_id = row_id, cn_tenant_id = pr_tenant_id p, cn_application_id = cc_application_id b,
                   cn_display_name = cc_display_name b, cn_connector_type = cc_connector_type b, cn_config = cc_config b,
                   cn_credential_ref = cc_credential_ref b, cn_active = True, cn_created_by = pr_actor_id p,
                   cn_created_at = now\<rparr>
        in Inr (connector_json sv row,
             audit sv now (pr_tenant_id p) row_id ''connector.registered'' (pr_actor_id p)
               [(''application_id'', JStr (cn_application_id row)), (''connector_type'', JStr (cn_connector_type row))]
               (d1\<lparr>application_connectors := application_connectors d1 @ [row]\<rparr>)))"

definition list_connectors :: "server \<Rightarrow> Principal \<Rightarrow> db \<Rightarrow> dict list" where
  "list_connectors sv p d =
     map (connector_json sv) (filter (\<lambda>r. cn_tenant_id r = pr_tenant_id p) (application_connectors d))"

definition connector_request_json :: "server \<Rightarrow> ConnectorRequest \<Rightarrow> dict" where
  "connector_request_json sv r =
     [(''id'', JStr (cr_id r)), (''conversation_id'', opt_str (cr_conversation_id r)),
      (''connector_id'', JStr (cr_connector_id r)), (''operation'', JStr (cr_operation r)),
      (''target_email'', JStr (cr_target_email r)), (''requested_by'', JStr (cr_requested_by r)),
      (''risk'', JStr (cr_risk r)), (''status'', JStr (cr_status r)), (''decided_by'', opt_str (cr_decided_by r)),
      (''decision_reason'', opt_str (cr_decision_reason r)), (''decided_at'', some_time sv (cr_decided_at r)),
      (''result_success'', opt_bool (cr_result_success r)), (''result_detail'', opt_str (cr_result_detail r)),
      (''verified'', JBool (cr_verified r)), (''step_up_code_pending'', JBool (cr_step_up_code_hash r \<noteq> None)),
      (''created_at'', iso sv (cr_created_at r))]"

definition list_connector_requests :: "server \<Rightarrow> Principal \<Rightarrow> db \<Rightarrow> dict list" where
  "list_connector_requests sv p d =
     map (connector_request_json sv) (order_by cr_created_at
       (filter (\<lambda>r. cr_tenant_id r = pr_tenant_id p \<and> cr_status r = ''pending_approval'') (connector_requests d)))"

definition step_up_code_ttl :: time where
  "step_up_code_ttl = 60 * 10"

definition verify_step_up_code :: "server \<Rightarrow> time \<Rightarrow> ConnectorRequest \<Rightarrow> string option \<Rightarrow> ConnectorRequest http" where
  "verify_step_up_code sv now row supplied =
     (case cr_step_up_code_hash row of
        None \<Rightarrow> Inl (HTTPException 403 ''requester has not generated a step-up verification code yet'')
      | Some digest \<Rightarrow>
          if (case cr_step_up_code_expires_at row of None \<Rightarrow> True | Some t \<Rightarrow> t < now)
          then Inl (HTTPException 403 ''step-up verification code has expired'')
          else if \<not> truthy supplied \<or> sha256_hex (sv_host sv) (the supplied) \<noteq> digest
          then Inl (HTTPException 403 ''incorrect step-up verification code'')
          else Inr (row\<lparr>cr_step_up_code_hash := None, cr_step_up_code_expires_at := None\<rparr>))"

definition put_request :: "time \<Rightarrow> ConnectorRequest \<Rightarrow> db \<Rightarrow> db" where
  "put_request now row d =
     d\<lparr>connector_requests := update_where (\<lambda>r. cr_id r = cr_id row) (\<lambda>_. row\<lparr>cr_updated_at := now\<rparr>) (connector_requests d)\<rparr>"

text \<open>The nine digits of the code are drawn from the stream of secrets.\<close>

definition generate_step_up_code ::
  "server \<Rightarrow> time \<Rightarrow> Principal \<Rightarrow> string \<Rightarrow> db \<Rightarrow> (dict \<times> db) http" where
  "generate_step_up_code sv now p request_id d =
     (case tenant_row cr_id cr_tenant_id (connector_requests d) request_id (pr_tenant_id p) of
        Inl e \<Rightarrow> Inl e
      | Inr row \<Rightarrow>
          if cr_requested_by row \<noteq> pr_actor_id p
          then Inl (HTTPException 403 ''only the requester can generate their own step-up code'')
          else if cr_risk row \<noteq> ''high''
          then Inl (HTTPException 400 ''step-up verification only applies to high-risk requests'')
          else if cr_status row \<noteq> ''pending_approval'' then Inl (HTTPException 409 ''request is not pending approval'')
          else
            let (code, d1) = new_token sv d; expires_at = now + step_up_code_ttl
            in Inr ([(''step_up_code'', JStr code), (''expires_at'', iso sv expires_at)],
                 audit sv now (pr_tenant_id p) (cr_id row) ''connector_request.step_up_code_generated'' (pr_actor_id p)
                   [(''expires_at'', iso sv expires_at)]
                   (put_request now (row\<lparr>cr_step_up_code_hash := Some (sha256_hex (sv_host sv) code),
                                         cr_step_up_code_expires_at := Some expires_at\<rparr>) d1)))"

record ConnectorRequestDecision =
  cd_approve :: bool
  cd_reason :: string
  cd_step_up_code :: "string option"

definition request_decided ::
  "server \<Rightarrow> time \<Rightarrow> Principal \<Rightarrow> ConnectorRequest \<Rightarrow> string \<Rightarrow> dict \<Rightarrow> db \<Rightarrow> dict \<times> db" where
  "request_decided sv now p row event details d =
     (connector_request_json sv row, audit sv now (pr_tenant_id p) (cr_id row) event (pr_actor_id p) details (put_request now row d))"

text \<open>The second half of an approval: the connector acts and its work is verified.\<close>

definition execute_connector_request ::
  "server \<Rightarrow> time \<Rightarrow> Principal \<Rightarrow> ConnectorRequest \<Rightarrow> db \<times> MockAccount list
   \<Rightarrow> ((dict \<times> db) \<times> MockAccount list) http" where
  "execute_connector_request sv now p row s =
     (let (d, accounts) = s in
      case tenant_row cn_id cn_tenant_id (application_connectors d) (cr_connector_id row) (pr_tenant_id p) of
        Inl e \<Rightarrow> Inl e
      | Inr cfg \<Rightarrow>
          if cn_connector_type cfg \<notin> set known_connector_types then Inl unhandled
          else
            let resolved = mock_resolve_user accounts (cr_target_email row) in
            if \<not> ct_success resolved
            then Inr (request_decided sv now p
                   (row\<lparr>cr_status := ''failed'', cr_result_success := Some False, cr_result_detail := Some (ct_detail resolved)\<rparr>)
                   ''connector_request.failed''
                   [(''reason'', JStr (ct_detail resolved)), (''stage'', JStr ''resolve_user'')] d, accounts)
            else
              let uid = py_str (sv_host sv) (the (dict_get (ct_data resolved) ''external_user_id''));
                  (token, d1) = new_token sv d
              in case mock_operation (cr_operation row) token accounts uid of
                   None \<Rightarrow> Inl unhandled
                 | Some (execution, accounts') \<Rightarrow>
                     let verification = mock_verify_result accounts' uid (cr_operation row) in
                     Inr (request_decided sv now p
                       (row\<lparr>cr_status := if ct_success execution then ''succeeded'' else ''failed'',
                           cr_result_success := Some (ct_success execution), cr_result_detail := Some (ct_detail execution),
                           cr_verified := ct_success verification\<rparr>)
                       (if ct_success execution then ''connector_request.executed'' else ''connector_request.failed'')
                       [(''operation'', JStr (cr_operation row)), (''success'', JBool (ct_success execution)),
                        (''verified'', JBool (ct_success verification))] d1, accounts'))"

definition decide_connector_request ::
  "server \<Rightarrow> time \<Rightarrow> Principal \<Rightarrow> string \<Rightarrow> ConnectorRequestDecision \<Rightarrow> db \<times> MockAccount list
   \<Rightarrow> ((dict \<times> db) \<times> MockAccount list) http" where
  "decide_connector_request sv now p request_id b s =
     (case tenant_row cr_id cr_tenant_id (connector_requests (fst s)) request_id (pr_tenant_id p) of
        Inl e \<Rightarrow> Inl e
      | Inr row \<Rightarrow>
          if cr_status row \<noteq> ''pending_approval'' then Inl (HTTPException 409 ''request is not pending approval'')
          else if cr_requested_by row = pr_actor_id p
          then Inl (HTTPException 403 ''requester cannot decide their own request'')
          else
            (case (if cd_approve b \<and> cr_risk row = ''high''
                   then verify_step_up_code sv now row (cd_step_up_code b) else Inr row) of
               Inl e \<Rightarrow> Inl e
             | Inr row1 \<Rightarrow>
                 let row2 = row1\<lparr>cr_decided_by := Some (pr_actor_id p), cr_decision_reason := Some (cd_reason b),
                                 cr_decided_at := Some now\<rparr>
                 in if \<not> cd_approve b
                    then Inr (request_decided sv now p (row2\<lparr>cr_status := ''denied''\<rparr>) ''connector_request.denied''
                           [(''reason'', JStr (cd_reason b))] (fst s), snd s)
                    else execute_connector_request sv now p row2 s))"

section \<open>The reaper\<close>

definition request_stale :: "server \<Rightarrow> time \<Rightarrow> ConnectorRequest \<Rightarrow> bool" where
  "request_stale sv now r \<longleftrightarrow> cr_status r = ''pending_approval''
     \<and> rat_of_int (cr_created_at r) < rat_of_int now - 3600 * connector_request_stale_after_hours (sv_settings sv)"

definition request_expired :: "server \<Rightarrow> time \<Rightarrow> ConnectorRequest \<Rightarrow> ConnectorRequest" where
  "request_expired sv now r = r\<lparr>cr_status := ''expired'', cr_decided_at := Some now,
     cr_decision_reason := Some (''auto-expired: no approval decision within ''
       @ float_repr (sv_host sv) (connector_request_stale_after_hours (sv_settings sv)) @ '' hours'')\<rparr>"

definition reap_request :: "server \<Rightarrow> time \<Rightarrow> ConnectorRequest \<Rightarrow> db \<Rightarrow> db" where
  "reap_request sv now r d =
     audit sv now (cr_tenant_id r) (cr_id r) ''connector_request.escalation_required'' ''system:connector_request_reaper''
       [(''status'', JStr ''expired''),
        (''error'', JStr ''connector request stayed pending_approval past the stale window''),
        (''operation'', JStr (cr_operation r)),
        (''stale_after_hours'', JFloat (connector_request_stale_after_hours (sv_settings sv)))]
       (put_request now (request_expired sv now r) d)"

definition stale_requests :: "server \<Rightarrow> time \<Rightarrow> int \<Rightarrow> db \<Rightarrow> ConnectorRequest list" where
  "stale_requests sv now limit d =
     take (nat (min (max limit 1) 100)) (order_by cr_created_at (filter (request_stale sv now) (connector_requests d)))"

definition reap_batch :: "server \<Rightarrow> time \<Rightarrow> int \<Rightarrow> db \<Rightarrow> nat \<times> db" where
  "reap_batch sv now limit d =
     (let stale = stale_requests sv now limit d in (length stale, fold (reap_request sv now) stale d))"

section \<open>Two people and one code\<close>

lemma verify_step_up_code_Inr:
  assumes "verify_step_up_code sv now row supplied = Inr row'"
  obtains code t where "supplied = Some code" and "cr_step_up_code_hash row = Some (sha256_hex (sv_host sv) code)"
    and "cr_step_up_code_expires_at row = Some t" and "now \<le> t"
    and "row' = row\<lparr>cr_step_up_code_hash := None, cr_step_up_code_expires_at := None\<rparr>"
  using assms
  by (cases supplied) (auto simp: verify_step_up_code_def not_less split: option.splits if_splits)

text \<open>What a decision did to the row and, through the connector, to the accounts.\<close>

definition decided :: "time \<Rightarrow> Principal \<Rightarrow> ConnectorRequestDecision \<Rightarrow> ConnectorRequest \<Rightarrow> ConnectorRequest" where
  "decided now p b row = row\<lparr>cr_decided_by := Some (pr_actor_id p), cr_decision_reason := Some (cd_reason b),
     cr_decided_at := Some now\<rparr>"

lemma execute_effect:
  assumes "execute_connector_request sv now p row (d, accounts) = Inr ((res, d'), accounts')"
  obtains st ok detail v where "st \<in> {''succeeded'', ''failed''}" and "st = ''succeeded'' \<longleftrightarrow> ok"
    and "cr_operation row \<in> HIGH_RISK_OPERATIONS \<Longrightarrow> ok \<Longrightarrow> v"
    and "\<not> ok \<Longrightarrow> accounts' = accounts"
    and "connector_requests d' = update_where (\<lambda>r. cr_id r = cr_id row)
           (\<lambda>_. row\<lparr>cr_status := st, cr_result_success := Some ok, cr_result_detail := Some detail,
                   cr_verified := v, cr_updated_at := now\<rparr>) (connector_requests d)
         \<or> \<not> ok \<and> connector_requests d' = update_where (\<lambda>r. cr_id r = cr_id row)
           (\<lambda>_. row\<lparr>cr_status := st, cr_result_success := Some ok, cr_result_detail := Some detail,
                   cr_updated_at := now\<rparr>) (connector_requests d)"
proof -
  let ?resolved = "mock_resolve_user accounts (cr_target_email row)"
  let ?uid = "py_str (sv_host sv) (the (dict_get (ct_data ?resolved) ''external_user_id''))"
  show thesis
  proof (cases "ct_success ?resolved")
    case False
    with assms show thesis
      by (intro that [of "''failed''" False False "ct_detail ?resolved"])
        (auto simp: execute_connector_request_def Let_def request_decided_def put_request_def split: sum.splits if_splits)
  next
    case True
    with assms obtain r a where op: "mock_operation (cr_operation row) (fst (new_token sv d)) accounts ?uid = Some (r, a)"
      by (auto simp: execute_connector_request_def Let_def case_prod_beta split: sum.splits if_splits option.splits)
    with assms True have a: "accounts' = a"
      and d: "connector_requests d' = update_where (\<lambda>q. cr_id q = cr_id row)
           (\<lambda>_. row\<lparr>cr_status := if ct_success r then ''succeeded'' else ''failed'', cr_result_success := Some (ct_success r),
              cr_result_detail := Some (ct_detail r), cr_verified := ct_success (mock_verify_result a ?uid (cr_operation row)),
              cr_updated_at := now\<rparr>) (connector_requests d)"
      by (auto simp: execute_connector_request_def Let_def case_prod_beta request_decided_def put_request_def new_token_def
          split: sum.splits if_splits)
    show thesis
      by (rule that [of "if ct_success r then ''succeeded'' else ''failed''" "ct_success r"
            "ct_success (mock_verify_result a ?uid (cr_operation row))" "ct_detail r"])
        (use a d mock.success_verifies [OF op] mock.failure_changes_nothing [OF op] in auto)
  qed
qed

lemma decide_effect:
  assumes "decide_connector_request sv now p request_id b (d, accounts) = Inr ((res, d'), accounts')"
  obtains row where "row \<in> set (connector_requests d)" and "cr_id row = request_id" and "cr_tenant_id row = pr_tenant_id p"
    and "cr_status row = ''pending_approval''" and "cr_requested_by row \<noteq> pr_actor_id p"
    and "cd_approve b \<and> cr_risk row = ''high'' \<Longrightarrow> \<exists>code t. cd_step_up_code b = Some code
           \<and> cr_step_up_code_hash row = Some (sha256_hex (sv_host sv) code)
           \<and> cr_step_up_code_expires_at row = Some t \<and> now \<le> t"
    and "\<not> cd_approve b \<and> accounts' = accounts
           \<and> connector_requests d' = update_where (\<lambda>r. cr_id r = request_id)
               (\<lambda>_. (decided now p b row)\<lparr>cr_status := ''denied'', cr_updated_at := now\<rparr>) (connector_requests d)
         \<or> cd_approve b \<and> (\<exists>row1. row1 \<in> {row, row\<lparr>cr_step_up_code_hash := None, cr_step_up_code_expires_at := None\<rparr>}
             \<and> execute_connector_request sv now p (decided now p b row1) (d, accounts) = Inr ((res, d'), accounts'))"
proof -
  from assms obtain row where row: "tenant_row cr_id cr_tenant_id (connector_requests d) request_id (pr_tenant_id p) = Inr row"
    and pend: "cr_status row = ''pending_approval''" and other: "cr_requested_by row \<noteq> pr_actor_id p"
    by (auto simp: decide_connector_request_def split: sum.splits if_splits)
  note r = tenant_row_Inr [OF row]
  let ?gate = "if cd_approve b \<and> cr_risk row = ''high'' then verify_step_up_code sv now row (cd_step_up_code b) else Inr row"
  from assms row pend other obtain row1 where gate: "?gate = Inr row1"
    by (auto simp: decide_connector_request_def split: sum.splits)
  show thesis
  proof (rule that [of row])
    show "row \<in> set (connector_requests d)" "cr_id row = request_id" "cr_tenant_id row = pr_tenant_id p"
      using r by auto
    show "cr_status row = ''pending_approval''" "cr_requested_by row \<noteq> pr_actor_id p" by fact+
    show "\<exists>code t. cd_step_up_code b = Some code \<and> cr_step_up_code_hash row = Some (sha256_hex (sv_host sv) code)
           \<and> cr_step_up_code_expires_at row = Some t \<and> now \<le> t" if "cd_approve b \<and> cr_risk row = ''high''"
      using gate that by (auto elim!: verify_step_up_code_Inr)
    from gate have row1: "row1 \<in> {row, row\<lparr>cr_step_up_code_hash := None, cr_step_up_code_expires_at := None\<rparr>}"
      by (auto elim!: verify_step_up_code_Inr split: if_splits)
    have id1: "cr_id row1 = request_id" using row1 r by auto
    show "\<not> cd_approve b \<and> accounts' = accounts
           \<and> connector_requests d' = update_where (\<lambda>r. cr_id r = request_id)
               (\<lambda>_. (decided now p b row)\<lparr>cr_status := ''denied'', cr_updated_at := now\<rparr>) (connector_requests d)
         \<or> cd_approve b \<and> (\<exists>row1. row1 \<in> {row, row\<lparr>cr_step_up_code_hash := None, cr_step_up_code_expires_at := None\<rparr>}
             \<and> execute_connector_request sv now p (decided now p b row1) (d, accounts) = Inr ((res, d'), accounts'))"
    proof (cases "cd_approve b")
      case True
      with assms row pend other gate row1 show ?thesis
        by (auto simp: decide_connector_request_def decided_def Let_def)
    next
      case False
      with assms row pend other gate r show ?thesis
        by (auto simp: decide_connector_request_def decided_def Let_def request_decided_def put_request_def)
    qed
  qed
qed

text \<open>
  C16.  Whenever a decision changes an account of the application, it approved a request of the
  approver's own tenant that was pending and that somebody else had made; and when the request is
  of high risk, the approver supplied the code whose digest the request carries, before it expired.
\<close>

theorem connector_change_needs_two_people:
  assumes "decide_connector_request sv now p request_id b (d, accounts) = Inr ((res, d'), accounts')"
    and "accounts' \<noteq> accounts"
  shows "cd_approve b \<and> (\<exists>row \<in> set (connector_requests d). cr_id row = request_id \<and> cr_tenant_id row = pr_tenant_id p
     \<and> cr_status row = ''pending_approval'' \<and> cr_requested_by row \<noteq> pr_actor_id p
     \<and> (cr_risk row = ''high'' \<longrightarrow> (\<exists>code t. cd_step_up_code b = Some code
          \<and> cr_step_up_code_hash row = Some (sha256_hex (sv_host sv) code)
          \<and> cr_step_up_code_expires_at row = Some t \<and> now \<le> t)))"
  using assms(1)
proof (cases rule: decide_effect)
  case (1 row)
  with assms(2) have "cd_approve b" by blast
  with 1 show ?thesis by blast
qed

definition demo_connector :: ApplicationConnectorConfig where
  "demo_connector = \<lparr>cn_id = ''c'', cn_tenant_id = ''t'', cn_application_id = ''salesforce'', cn_display_name = ''Salesforce'',
     cn_connector_type = ''mock'', cn_config = [], cn_credential_ref = [], cn_active = True, cn_created_by = ''a'', cn_created_at = 0\<rparr>"

definition demo_request :: ConnectorRequest where
  "demo_request = \<lparr>cr_id = ''r'', cr_tenant_id = ''t'', cr_conversation_id = None, cr_connector_id = ''c'',
     cr_operation = ''reset_mfa'', cr_target_email = ''owner@example.com'', cr_requested_by = ''u'', cr_risk = ''high'',
     cr_status = ''pending_approval'', cr_decided_by = None, cr_decision_reason = None, cr_decided_at = None,
     cr_result_success = None, cr_result_detail = None, cr_verified = False,
     cr_step_up_code_hash = Some (sha256_hex demo_host ''123456789''), cr_step_up_code_expires_at = Some 600,
     cr_created_at = 0, cr_updated_at = 0\<rparr>"

definition demo_requests :: db where
  "demo_requests = empty_db\<lparr>application_connectors := [demo_connector], connector_requests := [demo_request]\<rparr>"

definition demo_approver :: Principal where
  "demo_approver = \<lparr>pr_tenant_id = ''t'', pr_actor_id = ''a'', pr_role = ''admin''\<rparr>"

lemma demo_reset:
  "map_sum id snd (decide_connector_request demo_server 100 demo_approver ''r'' \<lparr>cd_approve = True, cd_reason = [],
     cd_step_up_code = Some ''123456789''\<rparr> (demo_requests, DEMO_ACCOUNTS))
   = Inr [(mock_account ''mock-ext-001'' ''owner@example.com'')\<lparr>ma_mfa_enrolled := False\<rparr>,
          mock_account ''mock-ext-002'' ''admin@example.com'']"
  by (simp add: decide_connector_request_def demo_requests_def demo_request_def demo_approver_def tenant_row_def row_simps
      verify_step_up_code_def demo_server_def execute_connector_request_def demo_connector_def known_connector_types_def
      mock_resolve_user_def DEMO_ACCOUNTS_def mock_account_def dict_get_def py_str_def new_token_def mock_operation_def
      mock_reset_mfa_def by_id_def connector_result_def request_decided_def Let_def)

theorem connector_change_needs_two_people_witness:
  "\<exists>row \<in> set (connector_requests demo_requests). cr_id row = ''r'' \<and> cr_requested_by row \<noteq> ''a''"
proof -
  let ?b = "\<lparr>cd_approve = True, cd_reason = [], cd_step_up_code = Some ''123456789''\<rparr>"
  obtain res d' acc' where e: "decide_connector_request demo_server 100 demo_approver ''r'' ?b (demo_requests, DEMO_ACCOUNTS)
      = Inr ((res, d'), acc')"
    using demo_reset by (cases "decide_connector_request demo_server 100 demo_approver ''r'' ?b (demo_requests, DEMO_ACCOUNTS)") auto
  with demo_reset have "acc' \<noteq> DEMO_ACCOUNTS" by (auto simp: DEMO_ACCOUNTS_def mock_account_def)
  from connector_change_needs_two_people [OF e this] show ?thesis by (auto simp: demo_approver_def)
qed

end
