(* ===== verification/Conversations.thy ===== *)
theory Conversations
  imports Connectors
begin

text \<open>
  Conversations (\<open>helpdesktool/conversation.py\<close>, \<open>helpdesktool/identity_resolution.py\<close> and the chat
  handlers of \<open>helpdesktool/api.py\<close>): the keyword classifier, the turn that answers a message with a
  ticket or a connector request, and reading conversations.  The results: a turn only ever asks for
  the sender's own account, and no connector request is carried out without a second person.
  Characters are code points below 256: the dash in the reply to a request is written as two hyphens.
\<close>

section \<open>Intents\<close>

text \<open>The characters of \<open>\w\<close>, and the three patterns: one of the first words, later on the same line the second.\<close>

definition word_char :: "char \<Rightarrow> bool" where
  "word_char c = (let n = of_char c :: nat in
     (48 \<le> n \<and> n \<le> 57) \<or> (65 \<le> n \<and> n \<le> 90) \<or> n = 95 \<or> (97 \<le> n \<and> n \<le> 122)
     \<or> n \<in> {170, 178, 179, 181, 185, 186, 188, 189, 190} \<or> (192 \<le> n \<and> n \<noteq> 215 \<and> n \<noteq> 247))"

datatype atom = Ch char | AnyOpt

definition newline :: char where
  "newline = CHR 0x0A"

text \<open>What is left after each way to match an alternative, ignoring case; \<open>AnyOpt\<close> is \<open>.?\<close>.\<close>

fun match_atoms :: "atom list \<Rightarrow> string \<Rightarrow> string list" where
  "match_atoms [] s = [s]"
| "match_atoms (Ch c # as) [] = []"
| "match_atoms (Ch c # as) (x # xs) = (if lower_char x = c then match_atoms as xs else [])"
| "match_atoms (AnyOpt # as) [] = match_atoms as []"
| "match_atoms (AnyOpt # as) (x # xs) = (if x = newline then [] else match_atoms as xs) @ match_atoms as (x # xs)"

definition ends_word :: "string \<Rightarrow> bool" where
  "ends_word rest \<longleftrightarrow> (case rest of [] \<Rightarrow> True | c # _ \<Rightarrow> \<not> word_char c)"

definition words_at :: "atom list list \<Rightarrow> string \<Rightarrow> string list" where
  "words_at ws s = filter ends_word (concat (map (\<lambda>w. match_atoms w s) ws))"

fun find_words :: "atom list list \<Rightarrow> bool \<Rightarrow> string \<Rightarrow> string list" where
  "find_words ws prev [] = []"
| "find_words ws prev (x # xs) = (if prev then [] else words_at ws (x # xs)) @ find_words ws (word_char x) xs"

fun find_on_line :: "atom list list \<Rightarrow> bool \<Rightarrow> string \<Rightarrow> bool" where
  "find_on_line ws prev [] = False"
| "find_on_line ws prev (x # xs) =
     (\<not> prev \<and> words_at ws (x # xs) \<noteq> [] \<or> x \<noteq> newline \<and> find_on_line ws (word_char x) xs)"

definition two_words :: "atom list list \<Rightarrow> atom list list \<Rightarrow> string \<Rightarrow> bool" where
  "two_words first second s = list_ex (find_on_line second True) (find_words first False s)"

definition plain :: "string \<Rightarrow> atom list" where
  "plain s = map Ch s"

definition PASSWORD_RESET_RE :: "string \<Rightarrow> bool" where
  "PASSWORD_RESET_RE = two_words [plain ''reset'', plain ''forgot'', plain ''forgotten''] [plain ''password'']"

definition UNLOCK_RE :: "string \<Rightarrow> bool" where
  "UNLOCK_RE = two_words [plain ''unlock'', plain ''locked out of'', plain ''locked''] [plain ''account'']"

definition MFA_RESET_RE :: "string \<Rightarrow> bool" where
  "MFA_RESET_RE = two_words [plain ''reset'']
     [plain ''mfa'', plain ''2fa'', plain ''multi'' @ AnyOpt # plain ''factor'', plain ''authenticator'']"

record ClassifiedIntent =
  ci_intent :: string
  ci_application_hint :: "string option"

definition contains :: "string \<Rightarrow> string \<Rightarrow> bool" where
  "contains hay needle = list_ex (\<lambda>i. starts_with (drop i hay) needle) [0..<Suc (length hay)]"

text \<open>
  The application identifiers form a \<open>frozenset\<close>; \<open>iterate\<close> is the order in which the running
  process iterates over it, which Python leaves open.
\<close>

definition classify_intent :: "(string list \<Rightarrow> string list) \<Rightarrow> string \<Rightarrow> string list \<Rightarrow> ClassifiedIntent" where
  "classify_intent iterate message known_application_ids =
     \<lparr>ci_intent = (if PASSWORD_RESET_RE message then ''password_reset'' else if UNLOCK_RE message then ''unlock_account''
                  else if MFA_RESET_RE message then ''mfa_reset'' else ''general_inquiry''),
      ci_application_hint = List.find (contains (lower message)) (iterate known_application_ids)\<rparr>"

definition INTENT_OPERATIONS :: "(string \<times> string) list" where
  "INTENT_OPERATIONS = [(''password_reset'', ''reset_password''), (''unlock_account'', ''unlock_account''),
     (''mfa_reset'', ''reset_mfa'')]"

section \<open>A turn\<close>

record ConversationTurnResult =
  tr_conversation_id :: string
  tr_reply :: string
  tr_ticket_id :: "string option"
  tr_connector_request_id :: "string option"

definition open_conversation ::
  "server \<Rightarrow> time \<Rightarrow> string \<Rightarrow> User \<Rightarrow> string \<Rightarrow> string \<Rightarrow> string option \<Rightarrow> db \<Rightarrow> Conversation \<times> db" where
  "open_conversation sv now tenant_id user channel thread conversation_id d =
     (let found = (if truthy conversation_id then scalar (\<lambda>c. cv_id c = the conversation_id) (conversations d) else None);
          (row_id, d1) = new_id sv d;
          fresh = \<lparr>cv_id = row_id, cv_tenant_id = tenant_id, cv_channel = channel, cv_channel_thread_id = thread,
                   cv_user_id = us_id user, cv_status = ''open'', cv_ticket_id = None, cv_created_at = now, cv_updated_at = now\<rparr>
      in if (case found of None \<Rightarrow> True | Some c \<Rightarrow> cv_tenant_id c \<noteq> tenant_id)
         then (fresh, audit sv now tenant_id row_id ''conversation.started'' (us_id user) [(''channel'', JStr channel)]
                 (d1\<lparr>conversations := conversations d1 @ [fresh]\<rparr>))
         else (the found, d))"

definition add_message :: "server \<Rightarrow> time \<Rightarrow> string \<Rightarrow> string \<Rightarrow> string \<Rightarrow> string \<Rightarrow> string option \<Rightarrow> db \<Rightarrow> db" where
  "add_message sv now tenant_id conversation_id role content intent d =
     (let (row_id, d1) = new_id sv d in
      d1\<lparr>conversation_messages := conversation_messages d1 @
        [\<lparr>cm_id = row_id, cm_tenant_id = tenant_id, cm_conversation_id = conversation_id, cm_role = role,
          cm_content = content, cm_intent = intent, cm_created_at = now\<rparr>]\<rparr>)"

definition add_ticket :: "server \<Rightarrow> time \<Rightarrow> string \<Rightarrow> User \<Rightarrow> string \<Rightarrow> string \<Rightarrow> string \<Rightarrow> db \<Rightarrow> string \<times> db" where
  "add_ticket sv now tenant_id user title description priority d =
     (let (row_id, d1) = new_id sv d in
      (row_id, d1\<lparr>tickets := tickets d1 @
        [\<lparr>tk_id = row_id, tk_tenant_id = tenant_id, tk_device_id = None, tk_title = title, tk_description = description,
          tk_status = ''open'', tk_priority = priority, tk_created_by = us_id user, tk_created_at = now, tk_updated_at = now\<rparr>]\<rparr>))"

definition set_ticket :: "time \<Rightarrow> string \<Rightarrow> string \<Rightarrow> db \<Rightarrow> db" where
  "set_ticket now conversation_id ticket_id d =
     d\<lparr>conversations := update_where (\<lambda>c. cv_id c = conversation_id)
        (\<lambda>c. c\<lparr>cv_ticket_id := Some ticket_id, cv_updated_at := now\<rparr>) (conversations d)\<rparr>"

definition chat_title :: "string \<Rightarrow> string" where
  "chat_title message = (if take 280 message = [] then ''Help desk chat request'' else take 280 message)"

text \<open>\<open>s.title()\<close> for the operation names.\<close>

definition upper_ascii :: "char \<Rightarrow> char" where
  "upper_ascii c = (let n = of_char c :: nat in if 97 \<le> n \<and> n \<le> 122 then char_of (n - 32) else c)"

fun title_case :: "bool \<Rightarrow> string \<Rightarrow> string" where
  "title_case inside [] = []"
| "title_case inside (c # cs) =
     (let n = of_char (lower_char c) :: nat; letter = 97 \<le> n \<and> n \<le> 122
      in (if inside then lower_char c else upper_ascii c) # title_case letter cs)"

definition active_connectors :: "string \<Rightarrow> db \<Rightarrow> ApplicationConnectorConfig list" where
  "active_connectors tenant_id d = filter (\<lambda>c. cn_tenant_id c = tenant_id \<and> cn_active c) (application_connectors d)"

definition chosen_connector :: "string option \<Rightarrow> ApplicationConnectorConfig list \<Rightarrow> ApplicationConnectorConfig option" where
  "chosen_connector hint connectors =
     (case List.find (\<lambda>c. Some (cn_application_id c) = hint) connectors of
        Some c \<Rightarrow> Some c
      | None \<Rightarrow> if length connectors = 1 then Some (hd connectors) else None)"

definition inquiry_reply :: "string \<Rightarrow> string" where
  "inquiry_reply ticket_id = ''I'' @ [CHR 0x27] @ ''ve logged this as ticket #'' @ take 8 ticket_id
     @ ''. An IT operator will follow up. If this is about a specific application password, account lockout, or MFA reset, tell me which application and I can help directly.''"

definition unclear_reply :: "bool \<Rightarrow> string" where
  "unclear_reply some_connector =
     (if some_connector
      then ''I understood you want an account action, but I couldn'' @ [CHR 0x27] @ ''t tell which application -- please name it (e.g. ''
           @ [CHR 0x22] @ ''reset my Salesforce password'' @ [CHR 0x22] @ '').''
      else ''No applications are configured for self-service account actions yet. I'' @ [CHR 0x27]
           @ ''ve logged this as a ticket instead.'')"

definition request_reply :: "string \<Rightarrow> string \<Rightarrow> string \<Rightarrow> string" where
  "request_reply operation display_name ticket_id =
     ''I'' @ [CHR 0x27] @ ''ve submitted a request to '' @ spaced_name operation @ '' for '' @ display_name
     @ '' on your account. This needs approval from an admin before it runs -- and before an admin can approve it, you''
     @ [CHR 0x27] @ ''ll need to log into the Helpdesktool console yourself and retrieve a step-up verification code for this request, then share it with your approver. Ticket #''
     @ take 8 ticket_id @ '' created -- I'' @ [CHR 0x27] @ ''ll let you know here once it'' @ [CHR 0x27] @ ''s actioned.''"

definition general_inquiry ::
  "server \<Rightarrow> time \<Rightarrow> string \<Rightarrow> User \<Rightarrow> string \<Rightarrow> Conversation \<Rightarrow> db \<Rightarrow> string \<times> string option \<times> string option \<times> db" where
  "general_inquiry sv now tenant_id user message conversation d =
     (case cv_ticket_id conversation of
        Some t \<Rightarrow> (inquiry_reply t, Some t, None, d)
      | None \<Rightarrow>
          let (t, d1) = add_ticket sv now tenant_id user (chat_title message) message ''normal'' d in
          (inquiry_reply t, Some t, None,
           audit sv now tenant_id t ''ticket.created'' (us_id user)
             [(''source'', JStr ''conversation''), (''conversation_id'', JStr (cv_id conversation))]
             (set_ticket now (cv_id conversation) t d1)))"

definition new_request :: "time \<Rightarrow> string \<Rightarrow> string \<Rightarrow> User \<Rightarrow> string \<Rightarrow> string \<Rightarrow> string \<Rightarrow> ConnectorRequest" where
  "new_request now row_id tenant_id user conversation_id connector_id operation =
     \<lparr>cr_id = row_id, cr_tenant_id = tenant_id, cr_conversation_id = Some conversation_id, cr_connector_id = connector_id,
      cr_operation = operation, cr_target_email = us_email user, cr_requested_by = us_id user,
      cr_risk = (if operation \<in> HIGH_RISK_OPERATIONS then ''high'' else ''read_only''), cr_status = ''pending_approval'',
      cr_decided_by = None, cr_decision_reason = None, cr_decided_at = None, cr_result_success = None,
      cr_result_detail = None, cr_verified = False, cr_step_up_code_hash = None, cr_step_up_code_expires_at = None,
      cr_created_at = now, cr_updated_at = now\<rparr>"

definition account_action ::
  "server \<Rightarrow> time \<Rightarrow> string \<Rightarrow> User \<Rightarrow> string \<Rightarrow> Conversation \<Rightarrow> ClassifiedIntent \<Rightarrow> db
   \<Rightarrow> string \<times> string option \<times> string option \<times> db" where
  "account_action sv now tenant_id user message conversation classified d =
     (let operation = the (map_of INTENT_OPERATIONS (ci_intent classified));
          connectors = active_connectors tenant_id d
      in case chosen_connector (ci_application_hint classified) connectors of
           None \<Rightarrow>
             if connectors \<noteq> [] then (unclear_reply True, cv_ticket_id conversation, None, d)
             else let (t, d1) = add_ticket sv now tenant_id user (chat_title message) message ''normal'' d
                  in (unclear_reply False, Some t, None, set_ticket now (cv_id conversation) t d1)
         | Some cfg \<Rightarrow>
             let (row_id, d1) = new_id sv d;
                 d2 = d1\<lparr>connector_requests := connector_requests d1 @
                        [new_request now row_id tenant_id user (cv_id conversation) (cn_id cfg) operation]\<rparr>;
                 (t, d3) = add_ticket sv now tenant_id user
                        (title_case False (spaced_name operation) @ '': '' @ cn_display_name cfg) message ''high'' d2
             in (request_reply operation (cn_display_name cfg) t, Some t, Some row_id,
                 audit sv now tenant_id row_id ''connector_request.created'' (us_id user)
                   [(''operation'', JStr operation), (''application_id'', JStr (cn_application_id cfg)),
                    (''target_email'', JStr (us_email user)), (''ticket_id'', JStr t)]
                   (set_ticket now (cv_id conversation) t d3)))"

definition handle_message ::
  "server \<Rightarrow> (string list \<Rightarrow> string list) \<Rightarrow> time \<Rightarrow> string \<Rightarrow> User \<Rightarrow> string \<Rightarrow> string \<Rightarrow> string \<Rightarrow> string option \<Rightarrow> db
   \<Rightarrow> ConversationTurnResult \<times> db" where
  "handle_message sv iterate now tenant_id user channel thread message conversation_id d =
     (let (conversation, d1) = open_conversation sv now tenant_id user channel thread conversation_id d;
          d2 = add_message sv now tenant_id (cv_id conversation) ''user'' message None d1;
          classified = classify_intent iterate message (map cn_application_id (active_connectors tenant_id d2));
          (reply, ticket_id, request_id, d3) =
            (if ci_intent classified = ''general_inquiry'' then general_inquiry sv now tenant_id user message conversation d2
             else account_action sv now tenant_id user message conversation classified d2)
      in (\<lparr>tr_conversation_id = cv_id conversation, tr_reply = reply, tr_ticket_id = ticket_id,
           tr_connector_request_id = request_id\<rparr>,
          add_message sv now tenant_id (cv_id conversation) ''assistant'' reply (Some (ci_intent classified)) d3))"

section \<open>Handlers\<close>

definition conversation_json :: "server \<Rightarrow> Conversation \<Rightarrow> ConversationMessage list \<Rightarrow> dict" where
  "conversation_json sv r messages =
     [(''id'', JStr (cv_id r)), (''channel'', JStr (cv_channel r)), (''status'', JStr (cv_status r)),
      (''ticket_id'', opt_str (cv_ticket_id r)), (''created_at'', iso sv (cv_created_at r)),
      (''updated_at'', iso sv (cv_updated_at r)),
      (''messages'', objs (map (\<lambda>m. [(''id'', JStr (cm_id m)), (''role'', JStr (cm_role m)), (''content'', JStr (cm_content m)),
         (''intent'', opt_str (cm_intent m)), (''created_at'', iso sv (cm_created_at m))]) messages))]"

definition send_chat_message ::
  "server \<Rightarrow> (string list \<Rightarrow> string list) \<Rightarrow> time \<Rightarrow> Principal \<Rightarrow> string \<Rightarrow> string option \<Rightarrow> db \<Rightarrow> (dict \<times> db) http" where
  "send_chat_message sv iterate now p message conversation_id d =
     (case scalar (\<lambda>u. us_id u = pr_actor_id p) (users d) of
        None \<Rightarrow> Inl (HTTPException 404 ''user not found'')
      | Some user \<Rightarrow>
          (case (if truthy conversation_id
                 then map_sum id (\<lambda>_. ()) (tenant_row cv_id cv_tenant_id (conversations d) (the conversation_id) (pr_tenant_id p))
                 else Inr ()) of
             Inl e \<Rightarrow> Inl e
           | Inr _ \<Rightarrow>
               let (r, d') = handle_message sv iterate now (pr_tenant_id p) user ''web'' (optional_str conversation_id)
                               message conversation_id d
               in Inr ([(''conversation_id'', JStr (tr_conversation_id r)), (''reply'', JStr (tr_reply r)),
                        (''ticket_id'', opt_str (tr_ticket_id r)),
                        (''connector_request_id'', opt_str (tr_connector_request_id r))], d')))"

definition list_conversations :: "server \<Rightarrow> Principal \<Rightarrow> int \<Rightarrow> int \<Rightarrow> db \<Rightarrow> dict list" where
  "list_conversations sv p limit offset d =
     map (\<lambda>r. conversation_json sv r []) (page limit offset (order_desc cv_updated_at
       (filter (\<lambda>r. cv_tenant_id r = pr_tenant_id p
          \<and> (pr_role p \<in> {''owner'', ''admin''} \<or> cv_user_id r = pr_actor_id p)) (conversations d))))"

definition get_conversation :: "server \<Rightarrow> Principal \<Rightarrow> string \<Rightarrow> db \<Rightarrow> dict http" where
  "get_conversation sv p conversation_id d =
     (case tenant_row cv_id cv_tenant_id (conversations d) conversation_id (pr_tenant_id p) of
        Inl e \<Rightarrow> Inl e
      | Inr row \<Rightarrow>
          if pr_role p \<notin> {''owner'', ''admin''} \<and> cv_user_id row \<noteq> pr_actor_id p
          then Inl (HTTPException 404 ''resource not found'')
          else Inr (conversation_json sv row (order_by cm_created_at
                 (filter (\<lambda>m. cm_conversation_id m = conversation_id) (conversation_messages d)))))"

record ChannelIdentity =
  ch_channel :: string
  ch_provider_user_id :: string
  ch_email :: string

definition resolve_channel_identity :: "string \<Rightarrow> ChannelIdentity \<Rightarrow> db \<Rightarrow> User option" where
  "resolve_channel_identity tenant_id identity d =
     scalar (\<lambda>u. us_tenant_id u = tenant_id \<and> us_email u = ch_email identity \<and> us_active u) (users d)"

section \<open>Own account only\<close>

lemma turn_frames [simp]:
  "connector_requests (snd (open_conversation sv now t u ch th cid d)) = connector_requests d"
  "application_connectors (snd (open_conversation sv now t u ch th cid d)) = application_connectors d"
  "connector_requests (add_message sv now t c ro co i d) = connector_requests d"
  "application_connectors (add_message sv now t c ro co i d) = application_connectors d"
  "connector_requests (snd (add_ticket sv now t u ti de pr d)) = connector_requests d"
  "application_connectors (snd (add_ticket sv now t u ti de pr d)) = application_connectors d"
  "connector_requests (set_ticket now c ti d) = connector_requests d"
  "connector_requests (snd (snd (snd (general_inquiry sv now t u m cv d)))) = connector_requests d"
  by (auto simp: open_conversation_def add_message_def add_ticket_def set_ticket_def general_inquiry_def Let_def
      case_prod_beta split: option.splits)

lemma classified_intent: "ci_intent (classify_intent it m ids) \<noteq> ''general_inquiry''
    \<Longrightarrow> the (map_of INTENT_OPERATIONS (ci_intent (classify_intent it m ids))) \<in> HIGH_RISK_OPERATIONS"
  by (auto simp: classify_intent_def INTENT_OPERATIONS_def HIGH_RISK_OPERATIONS_def)

lemma chosen_connector_mem: "chosen_connector hint cs = Some c \<Longrightarrow> c \<in> set cs"
  by (cases cs) (auto simp: chosen_connector_def find_Some_iff split: option.splits if_splits)

lemma account_action_requests:
  "connector_requests (snd (snd (snd (account_action sv now t u m cv ci d)))) =
     connector_requests d @ (case chosen_connector (ci_application_hint ci) (active_connectors t d) of
       None \<Rightarrow> []
     | Some cfg \<Rightarrow> [new_request now (fst (new_id sv d)) t u (cv_id cv) (cn_id cfg) (the (map_of INTENT_OPERATIONS (ci_intent ci)))])"
  by (auto simp: account_action_def Let_def case_prod_beta split: option.splits)

definition own_request :: "string \<Rightarrow> User \<Rightarrow> db \<Rightarrow> ConnectorRequest \<Rightarrow> bool" where
  "own_request tenant_id user d req \<longleftrightarrow> (\<exists>row_id now cid c op. req = new_request now row_id tenant_id user cid (cn_id c) op
     \<and> op \<in> HIGH_RISK_OPERATIONS \<and> c \<in> set (active_connectors tenant_id d))"

lemma message_requests_shape:
  assumes "handle_message sv iterate now tenant_id user channel thread message cid d = (r, d')"
  shows "connector_requests d' = connector_requests d \<or>
     (\<exists>req. connector_requests d' = connector_requests d @ [req] \<and> own_request tenant_id user d req)"
proof -
  let ?oc = "open_conversation sv now tenant_id user channel thread cid d"
  let ?d = "add_message sv now tenant_id (cv_id (fst ?oc)) ''user'' message None (snd ?oc)"
  let ?ci = "classify_intent iterate message (map cn_application_id (active_connectors tenant_id ?d))"
  have act: "active_connectors tenant_id ?d = active_connectors tenant_id d" by (simp add: active_connectors_def)
  show ?thesis
  proof (cases "ci_intent ?ci = ''general_inquiry''")
    case True
    with assms have "connector_requests d' = connector_requests d"
      by (auto simp: handle_message_def Let_def case_prod_beta)
    then show ?thesis by blast
  next
    case False
    with assms have e: "connector_requests d'
        = connector_requests (snd (snd (snd (account_action sv now tenant_id user message (fst ?oc) ?ci ?d))))"
      by (auto simp: handle_message_def Let_def case_prod_beta)
    show ?thesis
    proof (cases "chosen_connector (ci_application_hint ?ci) (active_connectors tenant_id ?d)")
      case None
      with e show ?thesis by (simp add: account_action_requests)
    next
      case (Some cfg)
      from chosen_connector_mem [OF Some] act have "cfg \<in> set (active_connectors tenant_id d)" by simp
      with classified_intent [OF False] show ?thesis
        unfolding e account_action_requests Some own_request_def by (intro disjI2) (auto intro!: exI)
    qed
  qed
qed

text \<open>
  C17.  Handling a message files at most one connector request, and a request that it files is for
  the account of the user who sent the message: the target is that user's own address and the
  requester that user.  The request is of high risk, waits for approval, and uses an active
  connector of the tenant the message belongs to.
\<close>

theorem message_requests_own_account:
  assumes "handle_message sv iterate now tenant_id user channel thread message cid d = (r, d')"
  shows "connector_requests d' = connector_requests d \<or>
     (\<exists>req. connector_requests d' = connector_requests d @ [req]
        \<and> cr_target_email req = us_email user \<and> cr_requested_by req = us_id user \<and> cr_tenant_id req = tenant_id
        \<and> cr_status req = ''pending_approval'' \<and> cr_risk req = ''high'' \<and> cr_operation req \<in> HIGH_RISK_OPERATIONS
        \<and> (\<exists>c \<in> set (application_connectors d). cn_id c = cr_connector_id req \<and> cn_tenant_id c = tenant_id \<and> cn_active c))"
  using message_requests_shape [OF assms]
  by (auto simp: own_request_def new_request_def active_connectors_def)

definition demo_employee :: User where
  "demo_employee = \<lparr>us_id = ''u'', us_tenant_id = ''t'', us_email = ''owner@example.com'', us_role = ''viewer'', us_active = True\<rparr>"

definition demo_chat :: db where
  "demo_chat = empty_db\<lparr>users := [demo_employee], application_connectors := [demo_connector]\<rparr>"

text \<open>The classifier on the phrases of its patterns.\<close>

lemma classified_examples:
  "PASSWORD_RESET_RE ''Please RESET my Salesforce password''" "\<not> PASSWORD_RESET_RE ''preset the passwords''"
  "UNLOCK_RE ''I am locked out of my account''" "MFA_RESET_RE ''reset my multi-factor device''"
  "\<not> MFA_RESET_RE ''multi-factor reset''"
  by code_simp+

theorem message_requests_own_account_witness:
  "map (\<lambda>r. (cr_operation r, cr_target_email r))
     (connector_requests (snd (handle_message demo_server id 5 ''t'' demo_employee ''web'' [] ''reset my salesforce password'' None demo_chat)))
   = [(''reset_password'', ''owner@example.com'')]
   \<and> (\<exists>req. connector_requests (snd (handle_message demo_server id 5 ''t'' demo_employee ''web'' []
        ''reset my salesforce password'' None demo_chat)) = [req] \<and> cr_target_email req = us_email demo_employee)"
proof -
  let ?h = "handle_message demo_server id 5 ''t'' demo_employee ''web'' [] ''reset my salesforce password'' None demo_chat"
  have e: "map (\<lambda>r. (cr_operation r, cr_target_email r)) (connector_requests (snd ?h)) = [(''reset_password'', ''owner@example.com'')]"
    by code_simp
  have d: "connector_requests demo_chat = []" by (simp add: demo_chat_def empty_db_def)
  obtain r d' where h: "?h = (r, d')" by (cases ?h)
  from message_requests_own_account [OF h] e d h show ?thesis by auto
qed

section \<open>Requests over their whole life\<close>

text \<open>What happens to connector requests: messages on any channel, codes, decisions, the reaper.\<close>

inductive request_step :: "server \<Rightarrow> db \<Rightarrow> db \<Rightarrow> bool" for sv where
  message_handled: "request_step sv d (snd (handle_message sv it now t u ch th m cid d))"
| code_generated: "generate_step_up_code sv now p i d = Inr (res, d') \<Longrightarrow> request_step sv d d'"
| request_decided: "decide_connector_request sv now p i b (d, acc) = Inr ((res, d'), acc') \<Longrightarrow> request_step sv d d'"
| requests_reaped: "request_step sv d (snd (reap_batch sv now limit d))"
| unrelated: "connector_requests d' = connector_requests d \<Longrightarrow> request_step sv d d'"

definition request_ok :: "ConnectorRequest \<Rightarrow> bool" where
  "request_ok r \<longleftrightarrow> cr_risk r = ''high'' \<and> cr_operation r \<in> HIGH_RISK_OPERATIONS
     \<and> cr_status r \<in> {''pending_approval'', ''denied'', ''failed'', ''succeeded'', ''expired''}
     \<and> (cr_status r = ''pending_approval'' \<longrightarrow> cr_decided_by r = None \<and> cr_result_success r = None \<and> \<not> cr_verified r)
     \<and> (cr_result_success r \<noteq> None \<longrightarrow> cr_status r \<in> {''succeeded'', ''failed''}
          \<and> (\<exists>a. cr_decided_by r = Some a \<and> a \<noteq> cr_requested_by r))
     \<and> (cr_status r = ''succeeded'' \<longrightarrow> cr_result_success r = Some True \<and> cr_verified r)"

definition requests_ok :: "db \<Rightarrow> bool" where
  "requests_ok d \<longleftrightarrow> (\<forall>r \<in> set (connector_requests d). request_ok r)"

lemma requests_ok_update:
  "requests_ok d \<Longrightarrow> connector_requests d' = update_where P (\<lambda>_. r) (connector_requests d) \<Longrightarrow> request_ok r \<Longrightarrow> requests_ok d'"
  by (auto simp: requests_ok_def set_update_where)

lemma request_ok_touch [simp]: "request_ok (r\<lparr>cr_updated_at := t\<rparr>) = request_ok r"
  by (simp add: request_ok_def)

lemma request_ok_code [simp]:
  "request_ok (r\<lparr>cr_step_up_code_hash := h, cr_step_up_code_expires_at := e\<rparr>) = request_ok r"
  by (simp add: request_ok_def)

lemma decide_requests_ok:
  assumes "requests_ok d" and "decide_connector_request sv now p i b (d, acc) = Inr ((res, d'), acc')"
  shows "requests_ok d'"
  using assms(2)
proof (cases rule: decide_effect)
  case (1 row)
  with assms(1) have ok: "request_ok row" by (auto simp: requests_ok_def)
  from 1(7) show ?thesis
  proof
    assume "\<not> cd_approve b \<and> acc' = acc \<and> connector_requests d' = update_where (\<lambda>r. cr_id r = i)
               (\<lambda>_. (decided now p b row)\<lparr>cr_status := ''denied'', cr_updated_at := now\<rparr>) (connector_requests d)"
    moreover have "request_ok ((decided now p b row)\<lparr>cr_status := ''denied'', cr_updated_at := now\<rparr>)"
      using ok 1(4) by (auto simp: request_ok_def decided_def)
    ultimately show ?thesis using requests_ok_update [OF assms(1)] by blast
  next
    assume "cd_approve b \<and> (\<exists>row1. row1 \<in> {row, row\<lparr>cr_step_up_code_hash := None, cr_step_up_code_expires_at := None\<rparr>}
             \<and> execute_connector_request sv now p (decided now p b row1) (d, acc) = Inr ((res, d'), acc'))"
    then obtain row1 where r1: "row1 \<in> {row, row\<lparr>cr_step_up_code_hash := None, cr_step_up_code_expires_at := None\<rparr>}"
      and ex: "execute_connector_request sv now p (decided now p b row1) (d, acc) = Inr ((res, d'), acc')" by blast
    have k: "request_ok row1" "cr_status row1 = ''pending_approval''" "cr_requested_by row1 \<noteq> pr_actor_id p"
      using r1 ok 1 by auto
    from ex show ?thesis
    proof (cases rule: execute_effect)
      case (1 st ok detail v)
      have op: "cr_operation (decided now p b row1) \<in> HIGH_RISK_OPERATIONS" using k(1) by (simp add: request_ok_def decided_def)
      have "request_ok ((decided now p b row1)\<lparr>cr_status := st, cr_result_success := Some ok, cr_result_detail := Some detail,
               cr_verified := v, cr_updated_at := now\<rparr>)"
        using k 1(1,2) 1(3) [OF op] by (auto simp: request_ok_def decided_def)
      moreover have "\<not> ok \<Longrightarrow> request_ok ((decided now p b row1)\<lparr>cr_status := st, cr_result_success := Some ok,
               cr_result_detail := Some detail, cr_updated_at := now\<rparr>)"
        using k 1(1,2) by (auto simp: request_ok_def decided_def)
      ultimately show ?thesis using 1(5) requests_ok_update [OF assms(1)] by blast
    qed
  qed
qed

lemma fold_reap_ok:
  "requests_ok d \<Longrightarrow> \<forall>r \<in> set rs. request_ok r \<and> cr_status r = ''pending_approval''
   \<Longrightarrow> requests_ok (fold (reap_request sv now) rs d)"
proof (induction rs arbitrary: d)
  case (Cons r rs)
  then have "request_ok (request_expired sv now r)" by (auto simp: request_ok_def request_expired_def)
  then have e: "request_ok ((request_expired sv now r)\<lparr>cr_updated_at := now\<rparr>)" by simp
  have "connector_requests (reap_request sv now r d) = update_where (\<lambda>q. cr_id q = cr_id (request_expired sv now r))
      (\<lambda>_. (request_expired sv now r)\<lparr>cr_updated_at := now\<rparr>) (connector_requests d)"
    by (simp add: reap_request_def put_request_def)
  from requests_ok_update [OF Cons.prems(1) this e] have "requests_ok (reap_request sv now r d)" .
  with Cons show ?case by simp
qed simp

lemma request_step_ok: "request_step sv d d' \<Longrightarrow> requests_ok d \<Longrightarrow> requests_ok d'"
proof (induction rule: request_step.induct)
  case (message_handled d it now t u ch th m cid)
  obtain r d' where h: "handle_message sv it now t u ch th m cid d = (r, d')" by fastforce
  have "own_request t u d req \<Longrightarrow> request_ok req" for req
    by (auto simp: own_request_def new_request_def request_ok_def)
  with message_requests_shape [OF h] message_handled h show ?case by (auto simp: requests_ok_def)
next
  case (code_generated now p i d res d')
  then obtain row h e where row: "row \<in> set (connector_requests d)" and
    d': "connector_requests d' = update_where (\<lambda>r. cr_id r = cr_id row)
       (\<lambda>_. row\<lparr>cr_step_up_code_hash := h, cr_step_up_code_expires_at := e, cr_updated_at := now\<rparr>) (connector_requests d)"
    by (auto simp: generate_step_up_code_def put_request_def new_token_def Let_def case_prod_beta
        split: sum.splits if_splits dest!: tenant_row_Inr)
  from row code_generated have "request_ok row" by (auto simp: requests_ok_def)
  then have "request_ok (row\<lparr>cr_step_up_code_hash := h, cr_step_up_code_expires_at := e, cr_updated_at := now\<rparr>)"
    by (simp add: request_ok_def)
  with requests_ok_update [OF _ d'] code_generated show ?case by blast
next
  case (request_decided now p i b d acc res d' acc')
  then show ?case using decide_requests_ok by blast
next
  case (requests_reaped d now limit)
  have "\<forall>r \<in> set (stale_requests sv now limit d). r \<in> set (connector_requests d) \<and> cr_status r = ''pending_approval''"
    by (auto simp: stale_requests_def request_stale_def dest!: in_set_takeD)
  with requests_reaped have "requests_ok (fold (reap_request sv now) (stale_requests sv now limit d) d)"
    by (intro fold_reap_ok) (auto simp: requests_ok_def)
  then show ?case by (simp add: reap_batch_def Let_def)
qed (simp add: requests_ok_def)

text \<open>
  Whatever messages, codes, decisions and batches of the reaper follow each other: every
  connector request is for a high-risk operation; one with a result was decided by somebody other
  than its requester; and one that succeeded was verified by the connector.
\<close>

theorem connector_requests_stay_ok:
  assumes "(request_step sv)\<^sup>*\<^sup>* d d'" and "\<forall>r \<in> set (connector_requests d). request_ok r" and "r \<in> set (connector_requests d')"
  shows "cr_operation r \<in> HIGH_RISK_OPERATIONS
     \<and> (cr_result_success r \<noteq> None \<longrightarrow> (\<exists>a. cr_decided_by r = Some a \<and> a \<noteq> cr_requested_by r))
     \<and> (cr_status r = ''succeeded'' \<longrightarrow> cr_result_success r = Some True \<and> cr_verified r)"
proof -
  from assms(1) have "requests_ok d'"
    using assms(2) by (induction rule: rtranclp_induct) (auto simp: requests_ok_def dest: request_step_ok [unfolded requests_ok_def])
  with assms(3) show ?thesis by (auto simp: requests_ok_def request_ok_def)
qed

theorem connector_requests_stay_ok_witness:
  "\<exists>r d'. (request_step demo_server)\<^sup>*\<^sup>* demo_requests d' \<and> r \<in> set (connector_requests d')
     \<and> cr_status r = ''succeeded'' \<and> cr_verified r \<and> cr_decided_by r \<noteq> Some (cr_requested_by r)"
proof -
  let ?b = "\<lparr>cd_approve = True, cd_reason = [], cd_step_up_code = Some ''123456789''\<rparr>"
  let ?r = "decide_connector_request demo_server 100 demo_approver ''r'' ?b (demo_requests, DEMO_ACCOUNTS)"
  have e: "map_sum id (\<lambda>x. map cr_status (connector_requests (snd (fst x)))) ?r = Inr [''succeeded'']"
    by (simp add: decide_connector_request_def demo_requests_def demo_request_def demo_approver_def tenant_row_def row_simps
      verify_step_up_code_def demo_server_def execute_connector_request_def demo_connector_def known_connector_types_def
      mock_resolve_user_def DEMO_ACCOUNTS_def mock_account_def dict_get_def py_str_def new_token_def mock_operation_def
      mock_reset_mfa_def by_id_def connector_result_def request_decided_def put_request_def Let_def)
  then obtain res d' acc where r: "?r = Inr ((res, d'), acc)" by (cases ?r) auto
  with e obtain q where q: "q \<in> set (connector_requests d')" "cr_status q = ''succeeded''"
    by (cases "connector_requests d'") auto
  have s: "(request_step demo_server)\<^sup>*\<^sup>* demo_requests d'" using request_step.request_decided [OF r] by blast
  have ok: "\<forall>r \<in> set (connector_requests demo_requests). request_ok r"
    by (simp add: demo_requests_def demo_request_def request_ok_def HIGH_RISK_OPERATIONS_def)
  from connector_requests_stay_ok [OF s ok q(1)] q s show ?thesis by fastforce
qed

section \<open>Whose conversation\<close>

text \<open>
  \<open>send_chat_message\<close> looks the conversation up by tenant only, while \<open>get_conversation\<close> shows it to its
  owner and to administrators only.

  A user who is neither the owner of a conversation nor an administrator, and who is refused
  when reading it, can still post into it: the message is added to that conversation as a message of
  its user, and so is the assistant's answer.
\<close>

theorem chat_message_needs_no_ownership:
  assumes "scalar (\<lambda>u. us_id u = pr_actor_id p) (users d) = Some user"
    and "tenant_row cv_id cv_tenant_id (conversations d) cid (pr_tenant_id p) = Inr conv" and "cid \<noteq> []"
    and "pr_role p \<notin> {''owner'', ''admin''}" and "cv_user_id conv \<noteq> pr_actor_id p"
    and "scalar (\<lambda>c. cv_id c = cid) (conversations d) = Some conv"
  shows "get_conversation sv p cid d = Inl (HTTPException 404 ''resource not found'')
     \<and> (\<exists>res d' m a. send_chat_message sv iterate now p text (Some cid) d = Inr (res, d')
          \<and> conversation_messages d' = conversation_messages d @ [m, a]
          \<and> cm_conversation_id m = cid \<and> cm_role m = ''user'' \<and> cm_content m = text
          \<and> cm_conversation_id a = cid \<and> cm_role a = ''assistant'')"
proof -
  have c: "cv_id conv = cid" "cv_tenant_id conv = pr_tenant_id p" using tenant_row_Inr [OF assms(2)] by auto
  have g: "get_conversation sv p cid d = Inl (HTTPException 404 ''resource not found'')"
    using assms(2,4,5) by (simp add: get_conversation_def)
  have o: "open_conversation sv now (pr_tenant_id p) user ''web'' (optional_str (Some cid)) (Some cid) d = (conv, d)"
    using assms(3,6) c by (simp add: open_conversation_def Let_def case_prod_beta)
  obtain r d' where h: "handle_message sv iterate now (pr_tenant_id p) user ''web'' (optional_str (Some cid)) text (Some cid) d = (r, d')"
    by fastforce
  have k: "conversation_messages (snd (snd (snd (general_inquiry sv now t u m cv x)))) = conversation_messages x"
    "conversation_messages (snd (snd (snd (account_action sv now t u m cv ci x)))) = conversation_messages x"
    for t u m cv ci and x :: db
    by (auto simp: general_inquiry_def account_action_def add_ticket_def set_ticket_def Let_def case_prod_beta split: option.splits)
  have "\<exists>m a. conversation_messages d' = conversation_messages d @ [m, a]
          \<and> cm_conversation_id m = cid \<and> cm_role m = ''user'' \<and> cm_content m = text
          \<and> cm_conversation_id a = cid \<and> cm_role a = ''assistant''"
    using h unfolding handle_message_def o
    by (auto simp: Let_def case_prod_beta k c add_message_def [of _ _ _ _ "''assistant''"])
      (auto simp: add_message_def case_prod_beta)
  with g h assms(1-3) show ?thesis by (auto simp: send_chat_message_def)
qed

definition demo_colleague :: Principal where
  "demo_colleague = \<lparr>pr_tenant_id = ''t'', pr_actor_id = ''v'', pr_role = ''viewer''\<rparr>"

definition demo_thread :: Conversation where
  "demo_thread = \<lparr>cv_id = ''k'', cv_tenant_id = ''t'', cv_channel = ''web'', cv_channel_thread_id = [], cv_user_id = ''u'',
     cv_status = ''open'', cv_ticket_id = None, cv_created_at = 0, cv_updated_at = 0\<rparr>"

definition demo_threads :: db where
  "demo_threads = empty_db\<lparr>users := [demo_employee, demo_employee\<lparr>us_id := ''v'', us_email := ''v@example.com''\<rparr>],
     conversations := [demo_thread]\<rparr>"

theorem chat_message_needs_no_ownership_witness:
  "get_conversation demo_server demo_colleague ''k'' demo_threads = Inl (HTTPException 404 ''resource not found'')
   \<and> is_ok (send_chat_message demo_server id 5 demo_colleague ''hello'' (Some ''k'') demo_threads)"
  using chat_message_needs_no_ownership [of demo_colleague demo_threads "demo_employee\<lparr>us_id := ''v'', us_email := ''v@example.com''\<rparr>"
      "''k''" demo_thread demo_server id 5 "''hello''"]
  by (auto simp: demo_colleague_def demo_threads_def demo_thread_def demo_employee_def tenant_row_def row_simps)

end
