(* ===== verification/WinCollectors.thy ===== *)
theory WinCollectors
  imports WinServices Collectors Conversations
begin

text \<open>
  The inventory collectors of the Windows agent (\<open>windows_agent/collectors.py\<close>).  What psutil, the registry, the
  platform and socket modules answer at one moment is a parameter, the record \<open>win_view\<close>; a collector that samples
  twice takes two of them.  The walk over the subkeys of a registry key is a partial function.  The results:
  it ends for every key with finitely many subkeys and visits each of them once; the figures are within
  bounds; and the incident detection reads the payload of Windows as it reads the one of Linux.
\<close>

section \<open>The system\<close>

text \<open>
  A registry key under \<open>HKEY_LOCAL_MACHINE\<close> is named by the paths it was opened with.  \<open>OpenKey\<close> fails with an
  \<open>OSError\<close> or succeeds; \<open>EnumKey\<close> answers the name of a subkey or an \<open>OSError\<close>, here \<open>None\<close>; \<open>QueryValueEx\<close> fails with a
  \<open>FileNotFoundError\<close>, with another \<open>OSError\<close>, or answers a value, of which the code uses only \<open>str(value)\<close>.
\<close>

type_synonym reg_key = "string list"

datatype reg_answer = NotFound | Refused | RegValue string

datatype address_family = AF_INET | AF_INET6 | AF_OTHER

record win_partition =
  pt_device :: string
  pt_mountpoint :: string
  pt_fstype :: string
  pt_opts :: string

text \<open>
  A process of \<open>psutil.process_iter\<close>: whether the priming call succeeds, and what the later calls answer, \<open>None\<close> where
  they raise \<open>NoSuchProcess\<close> or \<open>AccessDenied\<close>; \<open>memory_percent\<close> may answer Python's \<open>None\<close>.
\<close>

record win_proc =
  wp_pid :: int
  wp_primes :: bool
  wp_name :: "string option"
  wp_memory_percent :: "rat option option"
  wp_cpu_percent :: "rat option"

record win_view =
  ps_cpu_percent :: rat
  ps_cpu_count :: "int option"
  ps_virtual_memory :: "int \<times> int"
  ps_swap_memory :: "int \<times> int"
  ps_disk_partitions :: "win_partition list"
  ps_disk_usage :: "string \<Rightarrow> (int \<times> int) option"
  ps_net_if_addrs :: "(string \<times> (address_family \<times> string) list) list"
  ps_process_iter :: "win_proc list"
  ps_pids :: "int list"
  ps_boot_time :: rat
  time_time :: rat
  platform_processor :: string
  platform_win32_ver :: "string \<times> string"
  platform_version :: string
  platform_machine :: string
  socket_gethostname :: string
  OpenKey :: "reg_key \<Rightarrow> bool"
  EnumKey :: "reg_key \<Rightarrow> nat \<Rightarrow> string option"
  QueryValueEx :: "reg_key \<Rightarrow> string \<Rightarrow> reg_answer"

text \<open>\<open>s or default\<close> for a string.\<close>

definition str_or :: "string \<Rightarrow> string \<Rightarrow> string" where
  "str_or s d = (if s = [] then d else s)"

section \<open>Processor, memory and filesystems\<close>

definition win_utilization :: "win_view \<Rightarrow> rat" where
  "win_utilization v = py_round 2 (max 0 (min 100 (ps_cpu_percent v)))"

definition win_cpu_inventory :: "win_view \<Rightarrow> dict" where
  "win_cpu_inventory v =
     [(''logical_cpus'', JInt (case ps_cpu_count v of None \<Rightarrow> 0 | Some n \<Rightarrow> n)),
      (''model'', JStr (str_or (platform_processor v) ''unknown'')),
      (''utilization_percent'', JFloat (win_utilization v))]"

definition win_memory_inventory :: "win_view \<Rightarrow> dict" where
  "win_memory_inventory v =
     [(''total_bytes'', JInt (fst (ps_virtual_memory v))), (''available_bytes'', JInt (snd (ps_virtual_memory v))),
      (''swap_total_bytes'', JInt (fst (ps_swap_memory v))), (''swap_free_bytes'', JInt (snd (ps_swap_memory v)))]"

fun partition_rows :: "win_view \<Rightarrow> win_partition list \<Rightarrow> filesystem list" where
  "partition_rows v [] = []"
| "partition_rows v (part # ps) =
     (if pt_fstype part = [] \<or> contains (pt_opts part) ''cdrom'' then partition_rows v ps
      else (case ps_disk_usage v (pt_mountpoint part) of
              None \<Rightarrow> partition_rows v ps
            | Some (total_bytes, free_bytes) \<Rightarrow>
                \<lparr>fs_device = pt_device part, fs_mountpoint = pt_mountpoint part, fs_type = pt_fstype part,
                 fs_total_bytes = total_bytes, fs_free_bytes = free_bytes\<rparr> # partition_rows v ps))"

definition win_filesystem_inventory :: "win_view \<Rightarrow> filesystem list" where
  "win_filesystem_inventory v = partition_rows v (ps_disk_partitions v)"

section \<open>The registry\<close>

text \<open>\<open>while True: try: name = EnumKey(key, index) except OSError: break; index += 1; body(name)\<close>.\<close>

partial_function (option) each_subkey ::
  "win_view \<Rightarrow> reg_key \<Rightarrow> (string \<Rightarrow> 'a \<Rightarrow> 'a) \<Rightarrow> nat \<Rightarrow> 'a \<Rightarrow> 'a option" where
  "each_subkey v key body index acc =
     (case EnumKey v key index of
        None \<Rightarrow> Some acc
      | Some subkey_name \<Rightarrow> each_subkey v key body (Suc index) (body subkey_name acc))"

definition INTERFACES_PATH :: string where
  "INTERFACES_PATH = ''SYSTEM'' @ [CHR 0x5C] @ ''CurrentControlSet'' @ [CHR 0x5C] @ ''Services'' @ [CHR 0x5C] @ ''Tcpip''
     @ [CHR 0x5C] @ ''Parameters'' @ [CHR 0x5C] @ ''Interfaces''"

text \<open>\<open>if server and server not in servers: servers.append(server)\<close>.\<close>

definition add_new :: "string \<Rightarrow> string list \<Rightarrow> string list" where
  "add_new server servers = (if server \<noteq> [] \<and> server \<notin> set servers then servers @ [server] else servers)"

definition comma_to_space :: "string \<Rightarrow> string" where
  "comma_to_space s = map (\<lambda>c. if c = CHR '','' then CHR '' '' else c) s"

text \<open>An \<open>OSError\<close> other than \<open>FileNotFoundError\<close> leaves the subkey, with what was appended before.\<close>

fun add_values :: "win_view \<Rightarrow> reg_key \<Rightarrow> string list \<Rightarrow> string list \<Rightarrow> string list" where
  "add_values v key [] servers = servers"
| "add_values v key (value_name # ns) servers =
     (case QueryValueEx v key value_name of
        NotFound \<Rightarrow> add_values v key ns servers
      | Refused \<Rightarrow> servers
      | RegValue s \<Rightarrow> add_values v key ns (fold add_new (words (comma_to_space s)) servers))"

definition add_interface :: "win_view \<Rightarrow> string \<Rightarrow> string list \<Rightarrow> string list" where
  "add_interface v subkey_name servers =
     (if OpenKey v [INTERFACES_PATH, subkey_name]
      then add_values v [INTERFACES_PATH, subkey_name] [''NameServer'', ''DhcpNameServer''] servers else servers)"

definition dns_servers_from_registry :: "win_view \<Rightarrow> string list option" where
  "dns_servers_from_registry v =
     (if OpenKey v [INTERFACES_PATH] then each_subkey v [INTERFACES_PATH] (add_interface v) 0 [] else Some [])"

definition win_addresses :: "(address_family \<times> string) list \<Rightarrow> string list" where
  "win_addresses addrs = map snd (filter (\<lambda>(family, _). family = AF_INET \<or> family = AF_INET6) addrs)"

definition win_network_inventory :: "win_view \<Rightarrow> dict option" where
  "win_network_inventory v =
     map_option (\<lambda>servers.
       [(''interfaces'', JList (map (\<lambda>(n, addrs). JObj [(''name'', JStr n), (''addresses'', JList (map JStr (win_addresses addrs)))])
           (ps_net_if_addrs v))),
        (''dns_servers'', JList (map JStr servers))])
     (dns_servers_from_registry v)"

record application =
  ap_name :: string
  ap_version :: string

definition UNINSTALL_PATHS :: "string list" where
  "UNINSTALL_PATHS =
     (let tail = ''Microsoft'' @ [CHR 0x5C] @ ''Windows'' @ [CHR 0x5C] @ ''CurrentVersion'' @ [CHR 0x5C] @ ''Uninstall''
      in [''SOFTWARE'' @ [CHR 0x5C] @ tail, ''SOFTWARE'' @ [CHR 0x5C] @ ''WOW6432Node'' @ [CHR 0x5C] @ tail])"

text \<open>A subkey that cannot be opened, has no name, or whose version cannot be read for another reason than its absence is left out.\<close>

definition application_of :: "win_view \<Rightarrow> reg_key \<Rightarrow> application option" where
  "application_of v key =
     (if \<not> OpenKey v key then None
      else (case QueryValueEx v key ''DisplayName'' of
              RegValue n \<Rightarrow>
                (case QueryValueEx v key ''DisplayVersion'' of
                   RegValue version \<Rightarrow> Some \<lparr>ap_name = n, ap_version = version\<rparr>
                 | NotFound \<Rightarrow> Some \<lparr>ap_name = n, ap_version = []\<rparr>
                 | Refused \<Rightarrow> None)
            | _ \<Rightarrow> None))"

definition add_application :: "win_view \<Rightarrow> string \<Rightarrow> string \<Rightarrow> application list \<Rightarrow> application list" where
  "add_application v path subkey_name apps =
     (case application_of v [path, subkey_name] of None \<Rightarrow> apps | Some app \<Rightarrow> apps @ [app])"

fun applications_under :: "win_view \<Rightarrow> string list \<Rightarrow> application list \<Rightarrow> application list option" where
  "applications_under v [] apps = Some apps"
| "applications_under v (path # ps) apps =
     (if \<not> OpenKey v [path] then applications_under v ps apps
      else (case each_subkey v [path] (add_application v path) 0 apps of
              None \<Rightarrow> None
            | Some apps' \<Rightarrow> applications_under v ps apps'))"

definition installed_applications :: "win_view \<Rightarrow> application list option" where
  "installed_applications v = applications_under v UNINSTALL_PATHS []"

definition REBOOT_KEYS :: "string list" where
  "REBOOT_KEYS =
     (let stem = ''SOFTWARE'' @ [CHR 0x5C] @ ''Microsoft'' @ [CHR 0x5C] @ ''Windows'' @ [CHR 0x5C] @ ''CurrentVersion'' @ [CHR 0x5C]
      in [stem @ ''Component Based Servicing'' @ [CHR 0x5C] @ ''RebootPending'',
          stem @ ''WindowsUpdate'' @ [CHR 0x5C] @ ''Auto Update'' @ [CHR 0x5C] @ ''RebootRequired''])"

definition SESSION_MANAGER :: string where
  "SESSION_MANAGER = ''SYSTEM'' @ [CHR 0x5C] @ ''CurrentControlSet'' @ [CHR 0x5C] @ ''Control'' @ [CHR 0x5C] @ ''Session Manager''"

definition pending_reboot :: "win_view \<Rightarrow> bool" where
  "pending_reboot v =
     (if list_ex (\<lambda>path. OpenKey v [path]) REBOOT_KEYS then True
      else if \<not> OpenKey v [SESSION_MANAGER] then False
      else (case QueryValueEx v [SESSION_MANAGER] ''PendingFileRenameOperations'' of RegValue _ \<Rightarrow> True | _ \<Rightarrow> False))"

section \<open>Services and processes\<close>

text \<open>\<open>except Exception\<close> takes every exception; the death of the process is none.\<close>

definition win_service_state :: "'w win32 \<Rightarrow> string \<Rightarrow> ('w, WinServiceState) io" where
  "win_service_state A service = catch (\<lambda>_. True) (win32_query_state A service) (\<lambda>_. ret win_unknown)"

definition win_service_row :: "string \<Rightarrow> WinServiceState \<Rightarrow> json" where
  "win_service_row service st =
     JObj [(''service'', JStr service), (''exists'', JBool (wss_exists st)), (''state'', JStr (wss_state st))]"

fun win_service_inventory :: "'w win32 \<Rightarrow> string list \<Rightarrow> ('w, json list) io" where
  "win_service_inventory A [] = ret []"
| "win_service_inventory A (service # ss) =
     bind (win_service_state A service) (\<lambda>st.
     bind (win_service_inventory A ss) (\<lambda>rows. ret (win_service_row service st # rows)))"

record win_process =
  wr_pid :: int
  wr_name :: string
  wr_memory_percent :: rat
  wr_cpu_percent :: rat

definition sampled_process :: "win_proc \<Rightarrow> win_process option" where
  "sampled_process p =
     (if \<not> wp_primes p then None
      else (case (wp_name p, wp_memory_percent p, wp_cpu_percent p) of
              (Some n, Some mem, Some cpu) \<Rightarrow>
                Some \<lparr>wr_pid = wp_pid p, wr_name = n,
                      wr_memory_percent = py_round 2 (case mem of None \<Rightarrow> 0 | Some q \<Rightarrow> q), wr_cpu_percent = py_round 2 cpu\<rparr>
            | _ \<Rightarrow> None))"

definition sampled_processes :: "win_view \<Rightarrow> win_process list" where
  "sampled_processes v = List.map_filter sampled_process (ps_process_iter v)"

text \<open>\<open>sorted(..., key=..., reverse=True)[:limit]\<close>: equal keys keep their order.\<close>

definition top_by :: "(win_process \<Rightarrow> rat) \<Rightarrow> nat \<Rightarrow> win_process list \<Rightarrow> win_process list" where
  "top_by key limit rows = take limit (sort_key (\<lambda>r. - key r) rows)"

definition win_process_inventory :: "win_view \<Rightarrow> nat \<Rightarrow> win_process list" where
  "win_process_inventory v limit = top_by wr_memory_percent limit (sampled_processes v)"

definition win_process_json :: "win_process \<Rightarrow> json" where
  "win_process_json r =
     JObj [(''pid'', JInt (wr_pid r)), (''name'', JStr (wr_name r)), (''memory_percent'', JFloat (wr_memory_percent r)),
           (''cpu_percent'', JFloat (wr_cpu_percent r))]"

definition application_json :: "application \<Rightarrow> json" where
  "application_json a = JObj [(''name'', JStr (ap_name a)), (''version'', JStr (ap_version a))]"

section \<open>The payload\<close>

text \<open>
  The services are asked through the service manager, which acts on the system \<open>'w\<close>.  A walk over the registry that
  does not end leaves the collector running for ever.
\<close>

definition returning :: "'a option \<Rightarrow> ('w, 'a) io" where
  "returning r w = (case r of None \<Rightarrow> (Crashed, w) | Some a \<Rightarrow> (Done a, w))"

definition win_collect_inventory :: "'w win32 \<Rightarrow> win_view \<Rightarrow> string list \<Rightarrow> ('w, dict) io" where
  "win_collect_inventory A v monitored_services =
     bind (returning (win_network_inventory v)) (\<lambda>network.
     bind (win_service_inventory A monitored_services) (\<lambda>services.
     bind (returning (installed_applications v)) (\<lambda>apps.
       ret [(''hostname'', JStr (socket_gethostname v)),
            (''distribution'', JStr (strip (''Windows '' @ fst (platform_win32_ver v)))),
            (''distribution_version'', JStr (str_or (snd (platform_win32_ver v)) ''unknown'')),
            (''kernel'', JStr (platform_version v)), (''architecture'', JStr (platform_machine v)),
            (''cpu'', JObj (win_cpu_inventory v)), (''memory'', JObj (win_memory_inventory v)),
            (''filesystems'', JList (map filesystem_json (win_filesystem_inventory v))),
            (''uptime_seconds'', JFloat (max 0 (time_time v - ps_boot_time v))), (''network'', JObj network),
            (''services'', JList services),
            (''installed_applications'', JList (map application_json apps)),
            (''pending_reboot'', JBool (pending_reboot v)),
            (''process_count'', JInt (int (length (ps_pids v)))),
            (''top_processes_by_memory'', JList (map win_process_json (top_by wr_memory_percent 25 (sampled_processes v)))),
            (''top_processes_by_cpu'', JList (map win_process_json (top_by wr_cpu_percent 25 (sampled_processes v))))])))"

section \<open>The walk over a key\<close>

definition lists_subkeys :: "win_view \<Rightarrow> reg_key \<Rightarrow> string list \<Rightarrow> bool" where
  "lists_subkeys v key names \<longleftrightarrow> (\<forall>i. EnumKey v key i = (if i < length names then Some (names ! i) else None))"

lemma each_subkey_fold:
  assumes "lists_subkeys v key names" and "index \<le> length names"
  shows "each_subkey v key body index acc = Some (fold body (drop index names) acc)"
  using assms(2)
proof (induction "length names - index" arbitrary: index acc)
  case 0
  with assms(1) have "EnumKey v key index = None" "drop index names = []" by (simp_all add: lists_subkeys_def)
  then show ?case by (simp add: each_subkey.simps)
next
  case (Suc n)
  then have i: "index < length names" by simp
  with assms(1) have "EnumKey v key index = Some (names ! index)" by (simp add: lists_subkeys_def)
  moreover have "drop index names = names ! index # drop (Suc index) names" using i by (simp add: Cons_nth_drop_Suc)
  ultimately show ?case using Suc(1) [of "Suc index"] Suc(2) i by (subst each_subkey.simps) simp
qed

text \<open>The walk ends exactly when the registry at some index has no further subkey.\<close>

lemma each_subkey_ends: "(\<exists>r. each_subkey v key body index acc = Some r) \<longleftrightarrow> (\<exists>n \<ge> index. EnumKey v key n = None)"
proof
  have "\<exists>n \<ge> index. EnumKey v key n = None" if "each_subkey v key body index acc = Some r" for r
    using that
  proof (induction rule: each_subkey.raw_induct [rotated 1, consumes 1])
    case (1 walk v key body index acc r)
    show ?case
    proof (cases "EnumKey v key index")
      case None
      then show ?thesis by auto
    next
      case (Some n)
      with 1 have "\<exists>n \<ge> Suc index. EnumKey v key n = None" by simp
      then show ?thesis using Suc_leD by blast
    qed
  qed
  then show "\<exists>r. each_subkey v key body index acc = Some r \<Longrightarrow> \<exists>n \<ge> index. EnumKey v key n = None" by blast
next
  assume "\<exists>n \<ge> index. EnumKey v key n = None"
  then obtain n where "index \<le> n" "EnumKey v key n = None" by blast
  then show "\<exists>r. each_subkey v key body index acc = Some r"
  proof (induction "n - index" arbitrary: index acc)
    case 0
    then show ?case by (simp add: each_subkey.simps)
  next
    case (Suc m)
    then show ?case using Suc(1) [of "Suc index"] by (subst each_subkey.simps) (auto split: option.split)
  qed
qed

section \<open>The name servers\<close>

definition server_list :: "string list \<Rightarrow> bool" where
  "server_list servers \<longleftrightarrow> distinct servers \<and> [] \<notin> set servers"

lemma add_new_servers: "server_list servers \<Longrightarrow> server_list (add_new s servers)"
  by (auto simp: server_list_def add_new_def)

lemma fold_preserves: "(\<And>x a. P a \<Longrightarrow> P (f x a)) \<Longrightarrow> P a \<Longrightarrow> P (fold f xs a)"
  by (induction xs arbitrary: a) simp_all

lemma add_values_servers: "server_list servers \<Longrightarrow> server_list (add_values v key ns servers)"
  by (induction ns arbitrary: servers) (auto split: reg_answer.split intro!: fold_preserves [where P = server_list] add_new_servers)

lemma add_interface_servers: "server_list servers \<Longrightarrow> server_list (add_interface v n servers)"
  by (simp add: add_interface_def add_values_servers del: add_values.simps)

theorem registry_servers:
  assumes "lists_subkeys v [INTERFACES_PATH] names"
  shows "\<exists>servers. dns_servers_from_registry v = Some servers \<and> distinct servers \<and> [] \<notin> set servers"
proof -
  have "server_list (fold (add_interface v) names [])"
    by (rule fold_preserves [where P = server_list, OF add_interface_servers]) (simp_all add: server_list_def)
  then show ?thesis
    using each_subkey_fold [OF assms, of 0 "add_interface v" "[]"] by (auto simp: dns_servers_from_registry_def server_list_def)
qed

section \<open>The applications\<close>

lemma fold_add_application: "fold (add_application v path) ns apps = apps @ List.map_filter (\<lambda>n. application_of v [path, n]) ns"
  by (induction ns arbitrary: apps) (auto simp: add_application_def List.map_filter_def split: option.split)

lemma applications_exact:
  assumes "\<And>path. path \<in> set paths \<Longrightarrow> lists_subkeys v [path] (names path)"
  shows "applications_under v paths apps
    = Some (apps @ concat (map (\<lambda>path. if OpenKey v [path] then List.map_filter (\<lambda>n. application_of v [path, n]) (names path) else []) paths))"
  using assms
proof (induction paths arbitrary: apps)
  case (Cons path ps)
  then show ?case
    using each_subkey_fold [OF Cons.prems [of path], of 0 "add_application v path" apps]
    by (simp add: fold_add_application)
qed simp

section \<open>The payload\<close>

definition never_raises :: "('w, 'a) io \<Rightarrow> bool" where
  "never_raises m \<longleftrightarrow> (\<forall>w e. fst (m w) \<noteq> Raised e)"

lemma never_raises_bind:
  assumes "never_raises m" and "\<And>a. never_raises (f a)"
  shows "never_raises (bind m f)"
  unfolding never_raises_def
proof (intro allI)
  fix w e
  obtain r w' where m: "m w = (r, w')" by (cases "m w")
  show "fst (bind m f w) \<noteq> Raised e"
    using assms m by (cases r) (auto simp: never_raises_def bind_def dest: spec [of _ w])
qed

lemma never_raises_basic [simp]:
  "never_raises (ret a)" "never_raises (returning r)" "never_raises (win_service_state A service)"
  by (auto simp: never_raises_def ret_def returning_def win_service_state_def catch_def split: prod.splits outcome.splits option.splits)

lemma never_raises_services: "never_raises (win_service_inventory A ss)"
  by (induction ss) (auto intro!: never_raises_bind)

lemma win_service_rows: "win_service_inventory A ss w = (Done rows, w') \<Longrightarrow> list_all2 (\<lambda>s r. \<exists>st. r = win_service_row s st) ss rows"
  by (induction A ss arbitrary: w rows rule: win_service_inventory.induct) (auto simp: bind_Done)

text \<open>The collector raises no exception, whatever the system answers.\<close>

theorem windows_inventory_never_raises: "fst (win_collect_inventory A v services w) \<noteq> Raised e"
proof -
  have "never_raises (win_collect_inventory A v services)"
    unfolding win_collect_inventory_def by (intro never_raises_bind never_raises_services never_raises_basic)
  then show ?thesis by (simp add: never_raises_def)
qed

text \<open>
  Every entry of the payload of Linux is in the one of Windows, and the detection of the control plane handles the filesystems of
  a Windows endpoint as the same rows of a Linux one.
\<close>

theorem windows_payload_as_linux:
  assumes "win_collect_inventory A v services w = (Done win, w')" and "collect_inventory v1 v2 v3 v4 services' = Inr linux"
  shows "fst ` set linux \<subseteq> fst ` set win"
    and "detect_inventory_incidents sv now t dev win ts d
      = detect_filesystems sv now t dev ts (map filesystem_json (win_filesystem_inventory v)) d"
  using assms by (auto simp: win_collect_inventory_def collect_inventory_def and_then_Inr bind_Done
    detect_inventory_incidents_def dict_get_def)

lemma partition_rows_mem:
  "f \<in> set (partition_rows v ps) \<longleftrightarrow> (\<exists>p \<in> set ps. pt_fstype p \<noteq> [] \<and> \<not> contains (pt_opts p) ''cdrom''
     \<and> ps_disk_usage v (pt_mountpoint p) = Some (fs_total_bytes f, fs_free_bytes f)
     \<and> fs_device f = pt_device p \<and> fs_mountpoint f = pt_mountpoint p \<and> fs_type f = pt_fstype p)"
  by (induction ps) (auto split: option.splits)

lemma top_by_bounds:
  "length (top_by key limit rows) \<le> limit" "set (top_by key limit rows) \<subseteq> set rows"
  "sorted_wrt (\<lambda>p q. key p \<ge> key q) (top_by key limit rows)"
proof -
  have "sorted_wrt (\<lambda>p q. key p \<ge> key q) (sort_key (\<lambda>r. - key r) rows)"
    using sorted_sort_key [of "\<lambda>r. - key r" rows] by (simp add: sorted_map)
  from sorted_wrt_take [OF this] show "sorted_wrt (\<lambda>p q. key p \<ge> key q) (top_by key limit rows)" by (simp add: top_by_def)
qed (auto simp: top_by_def dest: in_set_takeD)

lemma win_utilization_bounds: "0 \<le> win_utilization v \<and> win_utilization v \<le> 100"
  using py_round_bounds [of "max 0 (min 100 (ps_cpu_percent v))" 100 2] by (simp add: win_utilization_def)

end
