(* ===== verification/Oidc.thy ===== *)
theory Oidc
  imports Auth
begin

text \<open>
  Verification of OpenID Connect tokens (\<open>helpdesktool/oidc.py\<close>) over the functions of package PyJWT that find
  the signing key and decode a token, which are parameters: a \<open>PyJWTError\<close> is its text.  With it the verifier that
  \<open>Auth.thy\<close> takes as an argument is the one of the program; the result is what an admitted bearer of
  a token has shown.
\<close>

record 'k jwt =
  get_signing_key_from_jwt :: "string \<Rightarrow> string + 'k"
  jwt_decode :: "string \<Rightarrow> 'k \<Rightarrow> string list \<Rightarrow> string \<Rightarrow> string \<Rightarrow> int \<Rightarrow> string list \<Rightarrow> string + dict"

record VerifiedIdentity =
  vi_subject :: string
  vi_issuer :: string
  vi_email :: "string option"
  vi_claims :: dict

record OIDCVerifier =
  ov_issuer :: string
  ov_audience :: string
  ov_jwks_url :: string
  ov_algorithms :: "string list"
  ov_leeway_seconds :: int

definition OIDCVerifier_init :: "string \<Rightarrow> string \<Rightarrow> string \<Rightarrow> py_error + OIDCVerifier" where
  "OIDCVerifier_init issuer audience jwks_url =
     (if issuer = [] \<or> audience = [] \<or> jwks_url = []
      then Inl (ValueError ''issuer, audience, and jwks_url are all required'')
      else Inr \<lparr>ov_issuer = issuer, ov_audience = audience, ov_jwks_url = jwks_url,
                ov_algorithms = [''RS256'', ''ES256''], ov_leeway_seconds = 30\<rparr>)"

text \<open>A failure is an \<open>InvalidIdentityToken\<close> with its text.\<close>

definition verify_identity :: "'k jwt \<Rightarrow> OIDCVerifier \<Rightarrow> string \<Rightarrow> string + VerifiedIdentity" where
  "verify_identity J v token =
     (case get_signing_key_from_jwt J token of
        Inl e \<Rightarrow> Inl e
      | Inr key \<Rightarrow>
          (case jwt_decode J token key (ov_algorithms v) (ov_audience v) (ov_issuer v) (ov_leeway_seconds v) [''exp'', ''iat'', ''sub''] of
             Inl e \<Rightarrow> Inl e
           | Inr claims \<Rightarrow>
               (case dict_get claims ''sub'' of
                  Some (JStr subject) \<Rightarrow>
                    if strip subject = [] then Inl ''token is missing a subject claim''
                    else Inr \<lparr>vi_subject = subject, vi_issuer = ov_issuer v,
                      vi_email = (case dict_get claims ''email'' of
                         Some (JStr email) \<Rightarrow> if strip email = [] then None else Some email
                       | _ \<Rightarrow> None),
                      vi_claims = claims\<rparr>
                | _ \<Rightarrow> Inl ''token is missing a subject claim'')))"

text \<open>\<open>get_oidc_verifier().verify(token)\<close>, which is called only when the provider is configured.\<close>

definition oidc_verifier_of :: "'k jwt \<Rightarrow> settings \<Rightarrow> oidc_verifier" where
  "oidc_verifier_of J st token =
     (case OIDCVerifier_init (oidc_issuer st) (oidc_audience st) (oidc_jwks_url st) of
        Inl _ \<Rightarrow> None
      | Inr v \<Rightarrow> (case verify_identity J v token of Inl _ \<Rightarrow> None | Inr i \<Rightarrow> Some (vi_email i)))"

lemma configured_verifier: "oidc_configured st \<Longrightarrow>
   \<exists>v. OIDCVerifier_init (oidc_issuer st) (oidc_audience st) (oidc_jwks_url st) = Inr v"
  by (simp add: oidc_configured_def OIDCVerifier_init_def)

text \<open>
  Outside development, whoever is admitted with a bearer token has presented one that decodes with the provider's
  key, issuer and audience, whose claims name a subject and an email, and the principal is an active user with that
  email: the only one, or the one of the tenant the request names.
\<close>

lemma bearer_identity_verified:
  assumes adm: "require_user sv (oidc_verifier_of J (sv_settings sv)) now tid uid (Some (''Bearer '' @ token)) d = Inr p"
    and env: "environment (sv_settings sv) \<noteq> ''development''"
  shows "\<exists>key claims subject email u.
     get_signing_key_from_jwt J token = Inr key
     \<and> jwt_decode J token key [''RS256'', ''ES256''] (oidc_audience (sv_settings sv)) (oidc_issuer (sv_settings sv)) 30
         [''exp'', ''iat'', ''sub''] = Inr claims
     \<and> dict_get claims ''sub'' = Some (JStr subject) \<and> strip subject \<noteq> []
     \<and> dict_get claims ''email'' = Some (JStr email) \<and> strip email \<noteq> []
     \<and> u \<in> set (users d) \<and> us_active u \<and> us_email u = email \<and> p = user_principal u
     \<and> (filter (\<lambda>w. us_email w = email \<and> us_active w) (users d) = [u] \<or> tid = Some (us_tenant_id u))"
proof -
  let ?st = "sv_settings sv"
  have "bearer (Some (''Bearer '' @ token)) = Some token" by (simp add: bearer_def starts_with_def)
  with adm env have r: "resolve_oidc_principal ?st (oidc_verifier_of J ?st) token tid d = Inr p"
    by (simp add: require_user_def Let_def)
  then have "oidc_configured ?st" by (auto simp: resolve_oidc_principal_def split: if_splits)
  then obtain v where v: "OIDCVerifier_init (oidc_issuer ?st) (oidc_audience ?st) (oidc_jwks_url ?st) = Inr v"
    using configured_verifier by blast
  then have vf: "ov_audience v = oidc_audience ?st" "ov_issuer v = oidc_issuer ?st" "ov_leeway_seconds v = 30"
    "ov_algorithms v = [''RS256'', ''ES256'']" by (auto simp: OIDCVerifier_init_def split: if_splits)
  from r obtain i email where i: "verify_identity J v token = Inr i" and e: "vi_email i = Some email"
    by (auto simp: resolve_oidc_principal_def oidc_verifier_of_def v truthy_def split: if_splits option.splits sum.splits)
  have "\<exists>u. u \<in> set (users d) \<and> us_active u \<and> us_email u = email \<and> p = user_principal u
     \<and> (filter (\<lambda>w. us_email w = email \<and> us_active w) (users d) = [u] \<or> tid = Some (us_tenant_id u))"
  proof -
    let ?c = "filter (\<lambda>w. us_email w = email \<and> us_active w) (users d)"
    have in_c: "u \<in> set (users d) \<and> us_active u \<and> us_email u = email" if "u \<in> set ?c" for u using that by auto
    from r i e v consider u where "?c = [u]" "p = user_principal u"
      | u us where "filter (\<lambda>u. Some (us_tenant_id u) = tid) ?c = u # us" "p = user_principal u"
      by (auto simp: resolve_oidc_principal_def oidc_verifier_of_def simp del: filter.simps filter_filter split: if_splits list.splits)
    then show ?thesis
    proof cases
      case 1
      with in_c [of u] show ?thesis by auto
    next
      case 2
      then have "u \<in> set (filter (\<lambda>u. Some (us_tenant_id u) = tid) ?c)" by simp
      then have "u \<in> set ?c" "tid = Some (us_tenant_id u)" by auto
      with in_c [of u] 2(2) show ?thesis by blast
    qed
  qed
  then obtain u where "u \<in> set (users d)" "us_active u" "us_email u = email" "p = user_principal u"
    "filter (\<lambda>w. us_email w = email \<and> us_active w) (users d) = [u] \<or> tid = Some (us_tenant_id u)" by blast
  moreover from i e vf obtain key claims subject where "get_signing_key_from_jwt J token = Inr key"
    "jwt_decode J token key [''RS256'', ''ES256''] (oidc_audience ?st) (oidc_issuer ?st) 30 [''exp'', ''iat'', ''sub''] = Inr claims"
    "dict_get claims ''sub'' = Some (JStr subject)" "strip subject \<noteq> []"
    "dict_get claims ''email'' = Some (JStr email)" "strip email \<noteq> []"
    by (auto simp: verify_identity_def split: sum.splits option.splits json.splits if_splits)
  ultimately show ?thesis by blast
qed

end
