(* ===== verification/Retention.thy ===== *)
theory Retention
  imports Lifecycle
begin

text \<open>
  The retention worker (\<open>helpdesktool/retention_worker.py\<close>): one batch deletes the heartbeats, the
  inventory snapshots and the idempotency records that are older than their retention.  The result: it
  deletes nothing else, in particular no audit event, and requests are replayed from their records as
  long as the records are kept.
\<close>

definition day :: time where
  "day = 86400"

text \<open>\<open>_purge\<close>: \<open>DELETE ... WHERE column < cutoff\<close> and the number of rows it removed.\<close>

definition purge :: "('r \<Rightarrow> time) \<Rightarrow> time \<Rightarrow> 'r list \<Rightarrow> nat \<times> 'r list" where
  "purge column cutoff rows =
     (let kept = filter (\<lambda>r. \<not> column r < cutoff) rows in (length rows - length kept, kept))"

definition retention_batch :: "server \<Rightarrow> time \<Rightarrow> db \<Rightarrow> nat \<times> db" where
  "retention_batch sv now d =
     (let st = sv_settings sv;
          (h, heartbeats') = purge hb_received_at (now - heartbeat_retention_days st * day) (heartbeats d);
          (i, inventory') = purge di_collected_at (now - inventory_retention_days st * day) (device_inventory d);
          (k, records') = purge ir_created_at (now - idempotency_record_retention_days st * day) (idempotency_records d)
      in (h + i + k, d\<lparr>heartbeats := heartbeats', device_inventory := inventory', idempotency_records := records'\<rparr>))"

lemma snd_purge: "snd (purge column cutoff rows) = filter (\<lambda>r. cutoff \<le> column r) rows"
  by (simp add: purge_def Let_def not_less)

lemma fst_purge: "fst (purge column cutoff rows) = length (filter (\<lambda>r. column r < cutoff) rows)"
  using sum_length_filter_compl [of "\<lambda>r. column r < cutoff" rows] by (simp add: purge_def Let_def)

lemma scalar_filter:
  "(\<And>r. r \<in> set rows \<Longrightarrow> P r \<Longrightarrow> Q r) \<Longrightarrow> scalar P (filter Q rows) = scalar P rows"
  by (induction rows) (auto simp: row_simps)

text \<open>
  A retention batch removes exactly the heartbeats, inventory snapshots and idempotency records
  that are older than their retention and counts them; every other table, with the audit trail of every
  tenant, stays as it is.  A retried request whose records are all within the retention is answered as
  before the batch; one whose records have all expired is treated as new.
\<close>

theorem retention_only_expired:
  assumes "retention_batch sv now d = (n, d')"
  shows "d' = d\<lparr>heartbeats := filter (\<lambda>r. now - heartbeat_retention_days (sv_settings sv) * day \<le> hb_received_at r) (heartbeats d),
               device_inventory := filter (\<lambda>r. now - inventory_retention_days (sv_settings sv) * day \<le> di_collected_at r) (device_inventory d),
               idempotency_records := filter (\<lambda>r. now - idempotency_record_retention_days (sv_settings sv) * day \<le> ir_created_at r)
                 (idempotency_records d)\<rparr>
     \<and> n + length (heartbeats d') + length (device_inventory d') + length (idempotency_records d')
        = length (heartbeats d) + length (device_inventory d) + length (idempotency_records d)
     \<and> sql_trail sv tenant d' = sql_trail sv tenant d
     \<and> ((\<forall>r \<in> set (idempotency_records d). ir_match t scope key r \<longrightarrow>
            now - idempotency_record_retention_days (sv_settings sv) * day \<le> ir_created_at r)
        \<longrightarrow> idempotency_lookup sv t scope key payload d' = idempotency_lookup sv t scope key payload d)
     \<and> ((\<forall>r \<in> set (idempotency_records d). ir_match t scope key r \<longrightarrow>
            ir_created_at r < now - idempotency_record_retention_days (sv_settings sv) * day)
        \<longrightarrow> idempotency_lookup sv t scope key payload d' = Inr None)"
proof -
  let ?fresh = "\<lambda>r. now - idempotency_record_retention_days (sv_settings sv) * day \<le> ir_created_at r"
  from assms have d': "d' = d\<lparr>heartbeats := filter (\<lambda>r. now - heartbeat_retention_days (sv_settings sv) * day \<le> hb_received_at r) (heartbeats d),
      device_inventory := filter (\<lambda>r. now - inventory_retention_days (sv_settings sv) * day \<le> di_collected_at r) (device_inventory d),
      idempotency_records := filter ?fresh (idempotency_records d)\<rparr>"
    by (auto simp: retention_batch_def Let_def case_prod_beta snd_purge)
  have n: "n + length (heartbeats d') + length (device_inventory d') + length (idempotency_records d')
      = length (heartbeats d) + length (device_inventory d) + length (idempotency_records d)"
    using assms sum_length_filter_compl [of "\<lambda>r. hb_received_at r < now - heartbeat_retention_days (sv_settings sv) * day" "heartbeats d"]
      sum_length_filter_compl [of "\<lambda>r. di_collected_at r < now - inventory_retention_days (sv_settings sv) * day" "device_inventory d"]
      sum_length_filter_compl [of "\<lambda>r. ir_created_at r < now - idempotency_record_retention_days (sv_settings sv) * day" "idempotency_records d"]
    by (auto simp: retention_batch_def Let_def case_prod_beta snd_purge fst_purge not_less)
  have trail: "sql_trail sv tenant d' = sql_trail sv tenant d" by (simp add: d' sql_trail_def tenant_audit_def)
  have same: "scalar (ir_match t scope key) (idempotency_records d') = scalar (ir_match t scope key) (idempotency_records d)"
    if "\<forall>r \<in> set (idempotency_records d). ir_match t scope key r \<longrightarrow> ?fresh r"
    using that by (simp add: d' scalar_filter)
  have gone: "scalar (ir_match t scope key) (idempotency_records d') = None"
    if "\<forall>r \<in> set (idempotency_records d). ir_match t scope key r \<longrightarrow> \<not> ?fresh r"
    using that by (auto simp: d' scalar_None_iff)
  from d' n trail same gone show ?thesis
    by (simp add: idempotency_lookup_def not_le)
qed

definition old_record :: "time \<Rightarrow> IdempotencyRecord" where
  "old_record made = \<lparr>ir_id = ''r'', ir_tenant_id = ''t'', ir_scope = ''action'', ir_key = ''k'', ir_request_hash = [],
     ir_response = [], ir_status_code = 201, ir_created_at = made\<rparr>"

theorem retention_only_expired_witness:
  "\<exists>d'. retention_batch demo_server (8 * day) (empty_db\<lparr>idempotency_records := [old_record 0]\<rparr>) = (1, d')
     \<and> idempotency_lookup demo_server ''t'' ''action'' ''k'' [] d' = Inr None"
proof -
  let ?d = "empty_db\<lparr>idempotency_records := [old_record 0]\<rparr>"
  obtain n d' where r: "retention_batch demo_server (8 * day) ?d = (n, d')" by (cases "retention_batch demo_server (8 * day) ?d")
  have st: "idempotency_record_retention_days (sv_settings demo_server) = 7"
    by (simp add: demo_server_def demo_settings_def default_settings_def)
  have e: "heartbeats ?d = []" "device_inventory ?d = []" "idempotency_records ?d = [old_record 0]"
    by (simp_all add: empty_db_def)
  note R = retention_only_expired [OF r, unfolded e st, of "''t''" "''t''" "''action''" "''k''" "[]"]
  have c: "ir_created_at (old_record 0) = 0" by (simp add: old_record_def)
  from R have "n = 1" by (auto simp: c day_def)
  moreover from R have "idempotency_lookup demo_server ''t'' ''action'' ''k'' [] d' = Inr None"
    by (clarsimp simp: c day_def)
  ultimately show ?thesis using r by auto
qed

end
