(* ===== verification/Webhooks.thy ===== *)
theory Webhooks
  imports Enrollment Lifecycle
begin

text \<open>
  Outgoing webhooks (\<open>helpdesktool/integrations.py\<close>, \<open>helpdesktool/webhook_worker.py\<close> and the
  subscription handlers of \<open>helpdesktool/api.py\<close>): the check of a destination, the signed request,
  and the worker that delivers the outbox in batches with a bounded number of attempts.  The
  results: what may leave the process, and that the outbox drains.
\<close>

section \<open>Payload\<close>

text \<open>\<open>json.dumps(..., sort_keys=True, separators=(",", ":"), ensure_ascii=False).encode()\<close>.\<close>

definition esc_min :: "char \<Rightarrow> string" where
  "esc_min c = (let n = of_char c :: nat in if n < 32 \<or> n = 34 \<or> n = 92 then esc c else [c])"

definition quote_raw :: "string \<Rightarrow> string" where
  "quote_raw s = CHR 0x22 # concat (map esc_min s) @ [CHR 0x22]"

primrec render_raw :: "(rat \<Rightarrow> string) \<Rightarrow> json \<Rightarrow> string" where
  "render_raw fr JNull = ''null''"
| "render_raw fr (JBool b) = (if b then ''true'' else ''false'')"
| "render_raw fr (JInt i) = show_int i"
| "render_raw fr (JFloat q) = fr q"
| "render_raw fr (JStr s) = quote_raw s"
| "render_raw fr (JList xs) = ''['' @ join '','' (map (render_raw fr) xs) @ '']''"
| "render_raw fr (JObj kvs) =
     ''{'' @ join '','' (map (\<lambda>(k, t). quote_raw k @ '':'' @ t) (map (map_prod id (render_raw fr)) kvs)) @ ''}''"

definition utf8_char :: "char \<Rightarrow> string" where
  "utf8_char c = (let n = of_char c :: nat in
     if n < 128 then [c] else [char_of (192 + n div 64), char_of (128 + n mod 64)])"

definition utf8 :: "string \<Rightarrow> string" where
  "utf8 s = concat (map utf8_char s)"

definition webhook_canonical_payload :: "host \<Rightarrow> dict \<Rightarrow> string" where
  "webhook_canonical_payload h kvs = utf8 (render_raw (float_repr h) (canon (JObj kvs)))"

section \<open>Destinations\<close>

text \<open>
  \<open>urllib.parse.urlsplit\<close> and the parts of its result.  The checks it makes on brackets and on the
  normalisation of the network location are the parameter \<open>netloc_ok\<close>.
\<close>

record SplitResult =
  sr_scheme :: string
  sr_netloc :: string
  sr_path :: string
  sr_query :: string
  sr_fragment :: string

definition cut :: "char \<Rightarrow> string \<Rightarrow> string \<times> string" where
  "cut c s = (takeWhile (\<lambda>x. x \<noteq> c) s, drop (Suc (length (takeWhile (\<lambda>x. x \<noteq> c) s))) s)"

definition is_alpha :: "char \<Rightarrow> bool" where
  "is_alpha c = (let n = of_char c :: nat in (65 \<le> n \<and> n \<le> 90) \<or> (97 \<le> n \<and> n \<le> 122))"

definition scheme_char :: "char \<Rightarrow> bool" where
  "scheme_char c \<longleftrightarrow> is_alpha c \<or> is_digit c \<or> c \<in> set ''+-.''"

definition split_scheme :: "string \<Rightarrow> string \<times> string" where
  "split_scheme url =
     (let p = takeWhile (\<lambda>x. x \<noteq> CHR '':'') url in
      if p \<noteq> [] \<and> length p < length url \<and> is_alpha (hd p) \<and> list_all scheme_char p
      then (lower p, drop (Suc (length p)) url) else ([], url))"

definition urlsplit :: "(string \<Rightarrow> bool) \<Rightarrow> string \<Rightarrow> py_error + SplitResult" where
  "urlsplit netloc_ok url =
     (let clean = filter (\<lambda>c. c \<notin> {CHR 0x09, CHR 0x0A, CHR 0x0D}) (dropWhile (\<lambda>c. (of_char c :: nat) \<le> 32) url);
          (scheme, rest) = split_scheme clean;
          netloc = (if starts_with rest ''//'' then takeWhile (\<lambda>c. c \<notin> set ''/?#'') (drop 2 rest) else []);
          tail = (if starts_with rest ''//'' then drop (2 + length netloc) rest else rest);
          (before_fragment, fragment) = cut (CHR ''#'') tail;
          (path, query) = cut (CHR ''?'') before_fragment
      in if \<not> netloc_ok netloc then Inl (ValueError ''invalid network location'')
         else Inr \<lparr>sr_scheme = scheme, sr_netloc = netloc, sr_path = path, sr_query = query, sr_fragment = fragment\<rparr>)"

text \<open>\<open>netloc.rpartition('@')\<close>: the user information, when there is any, and the host.\<close>

definition userinfo :: "SplitResult \<Rightarrow> string" where
  "userinfo p = (let n = sr_netloc p; host = rev (takeWhile (\<lambda>c. c \<noteq> CHR 0x40) (rev n))
     in take (length n - length host - 1) n)"

definition hostinfo :: "SplitResult \<Rightarrow> string" where
  "hostinfo p = rev (takeWhile (\<lambda>c. c \<noteq> CHR 0x40) (rev (sr_netloc p)))"

definition username :: "SplitResult \<Rightarrow> string" where
  "username p = fst (cut (CHR '':'') (userinfo p))"

definition password :: "SplitResult \<Rightarrow> string" where
  "password p = snd (cut (CHR '':'') (userinfo p))"

definition host_port :: "SplitResult \<Rightarrow> string \<times> string" where
  "host_port p =
     (let h = hostinfo p in
      if CHR ''['' \<in> set h
      then (let (hostname, rest) = cut (CHR '']'') (snd (cut (CHR ''['') h)) in (hostname, snd (cut (CHR '':'') rest)))
      else cut (CHR '':'') h)"

definition hostname :: "SplitResult \<Rightarrow> string" where
  "hostname p = (let h = fst (host_port p); name = takeWhile (\<lambda>c. c \<noteq> CHR ''%'') h in lower name @ drop (length name) h)"

definition port :: "SplitResult \<Rightarrow> py_error + int option" where
  "port p =
     (let t = snd (host_port p) in
      if t = [] then Inr None
      else if \<not> list_all is_digit t then Inl (ValueError ''port could not be cast to integer'')
      else if val_nat t > 65535 then Inl (ValueError ''port out of range'')
      else Inr (Some (int (val_nat t))))"

text \<open>
  The network as a delivery sees it: name resolution (\<open>getaddrinfo\<close>; its \<open>gaierror\<close> is
  \<open>OSError ''gaierror''\<close>), \<open>ipaddress.ip_address(a).is_global\<close> (\<open>None\<close> for a \<open>ValueError\<close>), the
  exchange of one HTTP request without following redirects, and \<open>bytes.decode(errors="replace")\<close>.
\<close>

record WebhookRequest =
  wr_url :: string
  wr_method :: string
  wr_data :: string
  wr_headers :: "(string \<times> string) list"
  wr_timeout :: rat

datatype http_reply = Reply int string | HTTPErrorReply int string | Raises py_error

record webhook_net =
  netloc_ok :: "string \<Rightarrow> bool"
  resolve :: "string \<Rightarrow> int \<Rightarrow> py_error + string list"
  ip_is_global :: "string \<Rightarrow> bool option"
  exchange :: "WebhookRequest \<Rightarrow> http_reply"
  decode_replace :: "string \<Rightarrow> string"

fun check_addresses :: "webhook_net \<Rightarrow> string list \<Rightarrow> py_error + unit" where
  "check_addresses net [] = Inr ()"
| "check_addresses net (a # as) =
     (case ip_is_global net a of
        None \<Rightarrow> Inl (ValueError ''not an IP address'')
      | Some g \<Rightarrow> if g then check_addresses net as
                  else Inl (ValueError ''webhook destination must resolve to public IP addresses''))"

definition validate_webhook_url :: "webhook_net \<Rightarrow> bool \<Rightarrow> string \<Rightarrow> py_error + unit" where
  "validate_webhook_url net allow_http url =
     (case urlsplit (netloc_ok net) url of
        Inl e \<Rightarrow> Inl e
      | Inr p \<Rightarrow>
          if sr_scheme p \<notin> (if allow_http then {''https'', ''http''} else {''https''})
          then Inl (ValueError ''webhook URL must use HTTPS'')
          else if hostname p = [] \<or> username p \<noteq> [] \<or> password p \<noteq> [] \<or> sr_fragment p \<noteq> []
          then Inl (ValueError ''webhook URL contains prohibited components'')
          else (case port p of
                  Inl e \<Rightarrow> Inl e
                | Inr n \<Rightarrow>
                    (case resolve net (hostname p) (case n of None \<Rightarrow> 443 | Some k \<Rightarrow> if k = 0 then 443 else k) of
                       Inl e \<Rightarrow> Inl (if e = OSError ''gaierror''
                                     then ValueError ''webhook hostname cannot be resolved'' else e)
                     | Inr addresses \<Rightarrow> check_addresses net addresses)))"

section \<open>Secrets and the signed request\<close>

definition secret_prefix :: string where
  "secret_prefix = ''HELPDESK_WEBHOOK_SECRET_''"

definition get_secret :: "(string \<Rightarrow> string option) \<Rightarrow> string \<Rightarrow> py_error + string" where
  "get_secret env reference =
     (if \<not> starts_with reference ''env:'' then Inl (ValueError ''unsupported secret reference'')
      else let name = remove_prefix reference ''env:'' in
        if \<not> starts_with name secret_prefix
        then Inl (ValueError ''webhook secret environment variable has invalid prefix'')
        else if \<not> truthy (env name) then Inl (KeyError ''webhook signing secret is unavailable'')
        else Inr (the (env name)))"

definition signed_request :: "host \<Rightarrow> string \<Rightarrow> string \<Rightarrow> string \<Rightarrow> string \<Rightarrow> rat \<Rightarrow> WebhookRequest" where
  "signed_request h url event_id payload secret timeout_seconds =
     \<lparr>wr_url = url, wr_method = ''POST'', wr_data = payload,
      wr_headers = [(''Content-Type'', ''application/json''), (''User-Agent'', ''helpdesktool-webhook/1''),
        (''X-Helpdesk-Event-ID'', event_id),
        (''X-Helpdesk-Signature-256'', ''sha256='' @ hmac_sha256_hex h (utf8 secret) payload)],
      wr_timeout = timeout_seconds\<rparr>"

record DeliveryResponse =
  rs_status_code :: int
  rs_body :: string

definition signed_deliver :: "webhook_net \<Rightarrow> WebhookRequest \<Rightarrow> py_error + DeliveryResponse" where
  "signed_deliver net request =
     (case exchange net request of
        Reply code body \<Rightarrow> Inr \<lparr>rs_status_code = code, rs_body = decode_replace net (take 4096 body)\<rparr>
      | HTTPErrorReply code body \<Rightarrow> Inr \<lparr>rs_status_code = code, rs_body = decode_replace net (take 4096 body)\<rparr>
      | Raises e \<Rightarrow> Inl e)"

section \<open>Subscriptions\<close>

record WebhookSubscriptionCreate =
  wc_name :: string
  wc_url :: string
  wc_secret_ref :: string
  wc_event_types :: "EventType list"

definition create_webhook_subscription ::
  "server \<Rightarrow> webhook_net \<Rightarrow> time \<Rightarrow> Principal \<Rightarrow> WebhookSubscriptionCreate \<Rightarrow> db \<Rightarrow> (dict \<times> db) http" where
  "create_webhook_subscription sv net now p b d =
     (case validate_webhook_url net (webhook_allow_http (sv_settings sv)) (wc_url b) of
        Inl (ValueError text) \<Rightarrow> Inl (HTTPException 422 text)
      | Inl _ \<Rightarrow> Inl unhandled
      | Inr _ \<Rightarrow>
          let (row_id, d1) = new_id sv d;
              row = \<lparr>ws_id = row_id, ws_tenant_id = pr_tenant_id p, ws_name = wc_name b, ws_url = wc_url b,
                     ws_secret_ref = wc_secret_ref b,
                     ws_event_types = sort (remdups (map EventType_value (wc_event_types b))),
                     ws_active = True, ws_created_by = pr_actor_id p, ws_created_at = now\<rparr>
          in if \<exists>s \<in> set (webhook_subscriptions d). ws_tenant_id s = pr_tenant_id p \<and> ws_name s = wc_name b
             then Inl (HTTPException 409 ''webhook name already exists'')
             else Inr (webhook_json sv row,
                    audit sv now (pr_tenant_id p) row_id ''integration.webhook.created'' (pr_actor_id p)
                      [(''name'', JStr (ws_name row)), (''event_types'', JList (map JStr (ws_event_types row)))]
                      (d1\<lparr>webhook_subscriptions := webhook_subscriptions d1 @ [row]\<rparr>)))"

definition disable_webhook_subscription ::
  "server \<Rightarrow> time \<Rightarrow> Principal \<Rightarrow> string \<Rightarrow> db \<Rightarrow> db http" where
  "disable_webhook_subscription sv now p subscription_id d =
     (case tenant_row ws_id ws_tenant_id (webhook_subscriptions d) subscription_id (pr_tenant_id p) of
        Inl e \<Rightarrow> Inl e
      | Inr row \<Rightarrow>
          Inr (audit sv now (pr_tenant_id p) (ws_id row) ''integration.webhook.disabled'' (pr_actor_id p)
                 [(''name'', JStr (ws_name row))]
                 (d\<lparr>webhook_subscriptions := update_where (\<lambda>s. ws_id s = subscription_id)
                    (\<lambda>s. s\<lparr>ws_active := False\<rparr>) (webhook_subscriptions d)\<rparr>)))"

section \<open>The worker\<close>

text \<open>\<open>type(exc).__name__\<close>; the text of an \<open>OSError\<close> names the class that was raised.\<close>

fun exception_name :: "py_error \<Rightarrow> string" where
  "exception_name (ValueError _) = ''ValueError''"
| "exception_name (PermissionError _) = ''PermissionError''"
| "exception_name (KeyError _) = ''KeyError''"
| "exception_name (RuntimeError _) = ''RuntimeError''"
| "exception_name (TypeError _) = ''TypeError''"
| "exception_name (IntegrityError _) = ''IntegrityError''"
| "exception_name (AttributeError _) = ''AttributeError''"
| "exception_name (OSError name) = name"
| "exception_name (TimeoutExpired _) = ''TimeoutExpired''"
| "exception_name (ServiceControlError _) = ''ServiceControlError''"
| "exception_name (ApiError _) = ''ApiError''"

definition retry_delay :: "int \<Rightarrow> time" where
  "retry_delay attempts = min 3600 (2 ^ nat (min attempts 11))"

definition delivery_failed :: "server \<Rightarrow> time \<Rightarrow> string \<Rightarrow> bool \<Rightarrow> WebhookDelivery \<Rightarrow> WebhookDelivery" where
  "delivery_failed sv now error retryable row =
     (let r = row\<lparr>wd_last_error := Some (take 200 error)\<rparr> in
      if \<not> retryable \<or> wd_attempt_count r \<ge> webhook_max_attempts (sv_settings sv)
      then r\<lparr>wd_status := ''dead_letter''\<rparr>
      else r\<lparr>wd_next_attempt_at := now + retry_delay (wd_attempt_count r)\<rparr>)"

definition event_envelope :: "server \<Rightarrow> DomainEventRow \<Rightarrow> dict" where
  "event_envelope sv e =
     [(''id'', JStr (dr_id e)), (''tenant_id'', JStr (dr_tenant_id e)), (''type'', JStr (dr_event_type e)),
      (''subject_id'', JStr (dr_subject_id e)), (''occurred_at'', iso sv (dr_occurred_at e)),
      (''schema_version'', JInt (dr_schema_version e)), (''data'', JObj (dr_data e))]"

definition event_request :: "server \<Rightarrow> WebhookSubscription \<Rightarrow> DomainEventRow \<Rightarrow> string \<Rightarrow> WebhookRequest" where
  "event_request sv s e secret =
     signed_request (sv_host sv) (ws_url s) (dr_id e)
       (webhook_canonical_payload (sv_host sv) (event_envelope sv e)) secret
       (webhook_timeout_seconds (sv_settings sv))"

definition answered :: "server \<Rightarrow> time \<Rightarrow> int \<Rightarrow> WebhookDelivery \<Rightarrow> WebhookDelivery" where
  "answered sv now code row =
     (let r = row\<lparr>wd_response_status := Some code\<rparr> in
      if 200 \<le> code \<and> code < 300
      then r\<lparr>wd_status := ''delivered'', wd_delivered_at := Some now, wd_last_error := None\<rparr>
      else delivery_failed sv now (''HTTP '' @ show_int code) (code \<in> {408, 425, 429} \<or> code \<ge> 500) r)"

definition attempt_delivery ::
  "server \<Rightarrow> (string \<Rightarrow> string option) \<Rightarrow> webhook_net \<Rightarrow> time \<Rightarrow> WebhookSubscription \<Rightarrow> DomainEventRow
   \<Rightarrow> WebhookDelivery \<Rightarrow> WebhookDelivery \<times> WebhookRequest list" where
  "attempt_delivery sv env net now s e row =
     (case validate_webhook_url net (webhook_allow_http (sv_settings sv)) (ws_url s) of
        Inl x \<Rightarrow> (delivery_failed sv now (exception_name x) True row, [])
      | Inr _ \<Rightarrow>
          (case get_secret env (ws_secret_ref s) of
             Inl x \<Rightarrow> (delivery_failed sv now (exception_name x) True row, [])
           | Inr secret \<Rightarrow>
               (case signed_deliver net (event_request sv s e secret) of
                  Inl x \<Rightarrow> (delivery_failed sv now (exception_name x) True row, [event_request sv s e secret])
                | Inr response \<Rightarrow>
                    (answered sv now (rs_status_code response) row, [event_request sv s e secret]))))"

definition cancelled :: "WebhookDelivery \<Rightarrow> WebhookDelivery" where
  "cancelled row = row\<lparr>wd_status := ''cancelled'', wd_last_error := Some ''subscription or event unavailable''\<rparr>"

definition attempted :: "time \<Rightarrow> WebhookDelivery \<Rightarrow> WebhookDelivery" where
  "attempted now row = row\<lparr>wd_attempt_count := wd_attempt_count row + 1, wd_last_attempt_at := Some now\<rparr>"

definition deliver_row ::
  "server \<Rightarrow> (string \<Rightarrow> string option) \<Rightarrow> webhook_net \<Rightarrow> time \<Rightarrow> db \<Rightarrow> WebhookDelivery
   \<Rightarrow> WebhookDelivery \<times> WebhookRequest list" where
  "deliver_row sv env net now d row =
     (case (scalar (\<lambda>s. ws_id s = wd_subscription_id row) (webhook_subscriptions d),
            scalar (\<lambda>e. dr_id e = wd_event_id row) (domain_events d)) of
        (Some s, Some e) \<Rightarrow>
          if ws_active s then attempt_delivery sv env net now s e (attempted now row)
          else (cancelled (attempted now row), [])
      | _ \<Rightarrow> (cancelled (attempted now row), []))"

definition due :: "time \<Rightarrow> int \<Rightarrow> db \<Rightarrow> WebhookDelivery list" where
  "due now limit d =
     take (nat (min (max limit 1) 100)) (order_by wd_next_attempt_at
       (filter (\<lambda>r. wd_status r = ''pending'' \<and> wd_next_attempt_at r \<le> now) (webhook_deliveries d)))"

definition put_delivery :: "WebhookDelivery \<Rightarrow> db \<Rightarrow> db" where
  "put_delivery r d = d\<lparr>webhook_deliveries := update_where (\<lambda>w. wd_id w = wd_id r) (\<lambda>_. r) (webhook_deliveries d)\<rparr>"

fun deliver_each ::
  "server \<Rightarrow> (string \<Rightarrow> string option) \<Rightarrow> (nat \<Rightarrow> webhook_net) \<Rightarrow> time \<Rightarrow> WebhookDelivery list \<Rightarrow> db
   \<Rightarrow> WebhookRequest list \<times> db" where
  "deliver_each sv env nets now [] d = ([], d)"
| "deliver_each sv env nets now (r # rs) d =
     (let (r', sent) = deliver_row sv env (nets 0) now d r;
          (more, d') = deliver_each sv env (\<lambda>i. nets (Suc i)) now rs (put_delivery r' d)
      in (sent @ more, d'))"

definition webhook_batch ::
  "server \<Rightarrow> (string \<Rightarrow> string option) \<Rightarrow> (nat \<Rightarrow> webhook_net) \<Rightarrow> time \<Rightarrow> int \<Rightarrow> db
   \<Rightarrow> nat \<times> WebhookRequest list \<times> db" where
  "webhook_batch sv env nets now limit d =
     (let rows = due now limit d in (length rows, deliver_each sv env nets now rows d))"

section \<open>What leaves the process\<close>

lemma check_addresses_global:
  "check_addresses net as = Inr () \<longleftrightarrow> (\<forall>a \<in> set as. ip_is_global net a = Some True)"
  by (induction as) (auto split: option.splits)

text \<open>A URL that passed the check, with the addresses its host had at that moment.\<close>

lemma validated_destination:
  assumes "validate_webhook_url net allow url = Inr ()"
  obtains p n addresses where "urlsplit (netloc_ok net) url = Inr p"
    and "sr_scheme p = ''https'' \<or> allow \<and> sr_scheme p = ''http''"
    and "username p = []" and "password p = []" and "hostname p \<noteq> []"
    and "resolve net (hostname p) n = Inr addresses" and "\<forall>a \<in> set addresses. ip_is_global net a = Some True"
  using assms
  by (auto simp: validate_webhook_url_def check_addresses_global split: sum.splits if_splits)

lemma get_secret_Inr:
  assumes "get_secret env reference = Inr secret"
  obtains name where "reference = ''env:'' @ secret_prefix @ name" and "env (secret_prefix @ name) = Some secret"
    and "secret \<noteq> []"
proof -
  from assms have a: "starts_with reference ''env:''"
    and b: "starts_with (remove_prefix reference ''env:'') secret_prefix"
    and c: "truthy (env (remove_prefix reference ''env:''))"
    and d: "the (env (remove_prefix reference ''env:'')) = secret"
    by (auto simp: get_secret_def Let_def split: if_splits)
  from a obtain t where t: "reference = ''env:'' @ t" by (rule starts_withE)
  then have r: "remove_prefix reference ''env:'' = t" by (metis remove_prefix_append)
  with b obtain u where "t = secret_prefix @ u" using starts_withE by metis
  with that [of u] t r c d show thesis by (cases "env t") auto
qed

text \<open>Why a request was made: the delivery is for an active subscription and a stored event.\<close>

definition justified :: "server \<Rightarrow> (string \<Rightarrow> string option) \<Rightarrow> webhook_net \<Rightarrow> db \<Rightarrow> WebhookRequest \<Rightarrow> bool" where
  "justified sv env net d q \<longleftrightarrow>
     (\<exists>s e secret. s \<in> set (webhook_subscriptions d) \<and> ws_active s \<and> e \<in> set (domain_events d)
        \<and> validate_webhook_url net (webhook_allow_http (sv_settings sv)) (ws_url s) = Inr ()
        \<and> get_secret env (ws_secret_ref s) = Inr secret \<and> q = event_request sv s e secret)"

lemma deliver_row_justified:
  "q \<in> set (snd (deliver_row sv env net now d r)) \<Longrightarrow> justified sv env net d q"
  unfolding deliver_row_def attempt_delivery_def justified_def
  by (auto split: option.splits if_splits sum.splits dest!: scalar_SomeD)

lemma deliver_row_once: "length (snd (deliver_row sv env net now d r)) \<le> 1"
  by (auto simp: deliver_row_def attempt_delivery_def split: option.splits sum.splits)

lemma justified_cong:
  "webhook_subscriptions d' = webhook_subscriptions d \<Longrightarrow> domain_events d' = domain_events d
   \<Longrightarrow> justified sv env net d' q = justified sv env net d q"
  by (simp add: justified_def)

lemma deliver_each_Cons:
  "fst (deliver_each sv env nets now (r # rs) d) = snd (deliver_row sv env (nets 0) now d r)
     @ fst (deliver_each sv env (\<lambda>i. nets (Suc i)) now rs (put_delivery (fst (deliver_row sv env (nets 0) now d r)) d))"
  "snd (deliver_each sv env nets now (r # rs) d) =
     snd (deliver_each sv env (\<lambda>i. nets (Suc i)) now rs (put_delivery (fst (deliver_row sv env (nets 0) now d r)) d))"
  by (simp_all add: case_prod_beta Let_def)

declare deliver_each.simps(2) [simp del]

lemma put_delivery_frame [simp]:
  "webhook_subscriptions (put_delivery r d) = webhook_subscriptions d"
  "domain_events (put_delivery r d) = domain_events d"
  by (simp_all add: put_delivery_def)

lemma deliver_each_sent:
  "q \<in> set (fst (deliver_each sv env nets now rs d)) \<Longrightarrow> \<exists>i < length rs. justified sv env (nets i) d q"
proof (induction rs arbitrary: nets d)
  case (Cons r rs)
  let ?d = "put_delivery (fst (deliver_row sv env (nets 0) now d r)) d"
  from Cons.prems consider (here) "q \<in> set (snd (deliver_row sv env (nets 0) now d r))"
    | (later) "q \<in> set (fst (deliver_each sv env (\<lambda>i. nets (Suc i)) now rs ?d))"
    unfolding deliver_each_Cons by auto
  then show ?case
  proof cases
    case here
    then show ?thesis using deliver_row_justified by (intro exI [of _ 0]) simp
  next
    case later
    from Cons.IH [OF this] obtain i where "i < length rs" "justified sv env (nets (Suc i)) ?d q" by auto
    then show ?thesis
      using justified_cong [of ?d d sv env "nets (Suc i)" q] by (intro exI [of _ "Suc i"]) simp
  qed
qed simp

lemma deliver_each_count: "length (fst (deliver_each sv env nets now rs d)) \<le> length rs"
proof (induction rs arbitrary: nets d)
  case (Cons r rs)
  show ?case
    using deliver_row_once [of sv env "nets 0" now d r]
      Cons.IH [of "\<lambda>i. nets (Suc i)" "put_delivery (fst (deliver_row sv env (nets 0) now d r)) d"]
    by (simp add: deliver_each_Cons)
qed simp

text \<open>
  C20.  Every request a batch of the webhook worker sends is for an active subscription and a
  stored event: it goes to the URL of the subscription, which uses HTTPS (or HTTP where the
  settings allow it), names no credentials, and whose host resolved to global addresses only when
  it was checked for this delivery; and its signature header is the HMAC of its body under a secret
  read from an environment variable with the prefix reserved for webhook secrets.  A batch sends at
  most one request for each delivery it takes up.
\<close>

theorem webhook_requests_confined:
  assumes "webhook_batch sv env nets now limit d = (n, sent, d')"
  shows "length sent \<le> n \<and> (\<forall>q \<in> set sent. \<exists>i s e p k addresses name secret.
           s \<in> set (webhook_subscriptions d) \<and> ws_active s \<and> wr_url q = ws_url s
         \<and> e \<in> set (domain_events d) \<and> wr_data q = webhook_canonical_payload (sv_host sv) (event_envelope sv e)
         \<and> urlsplit (netloc_ok (nets i)) (wr_url q) = Inr p
         \<and> (sr_scheme p = ''https'' \<or> webhook_allow_http (sv_settings sv) \<and> sr_scheme p = ''http'')
         \<and> username p = [] \<and> password p = []
         \<and> resolve (nets i) (hostname p) k = Inr addresses
         \<and> (\<forall>a \<in> set addresses. ip_is_global (nets i) a = Some True)
         \<and> ws_secret_ref s = ''env:'' @ secret_prefix @ name \<and> env (secret_prefix @ name) = Some secret
         \<and> (''X-Helpdesk-Signature-256'', ''sha256='' @ hmac_sha256_hex (sv_host sv) (utf8 secret) (wr_data q))
             \<in> set (wr_headers q))"
proof -
  from assms have n: "n = length (due now limit d)" and sent: "sent = fst (deliver_each sv env nets now (due now limit d) d)"
    by (auto simp: webhook_batch_def Let_def dest: arg_cong [of _ _ fst])
  show ?thesis
  proof (intro conjI ballI)
    show "length sent \<le> n" unfolding n sent by (rule deliver_each_count)
  next
    fix q assume "q \<in> set sent"
    from deliver_each_sent [OF this [unfolded sent]] obtain i where "justified sv env (nets i) d q" by blast
    then obtain s e secret where s: "s \<in> set (webhook_subscriptions d)" "ws_active s"
      and e: "e \<in> set (domain_events d)"
      and v: "validate_webhook_url (nets i) (webhook_allow_http (sv_settings sv)) (ws_url s) = Inr ()"
      and g: "get_secret env (ws_secret_ref s) = Inr secret" and q: "q = event_request sv s e secret"
      unfolding justified_def by blast
    obtain name where name: "ws_secret_ref s = ''env:'' @ secret_prefix @ name" "env (secret_prefix @ name) = Some secret"
      using get_secret_Inr [OF g] by metis
    obtain p k addresses where p: "urlsplit (netloc_ok (nets i)) (ws_url s) = Inr p"
      "sr_scheme p = ''https'' \<or> webhook_allow_http (sv_settings sv) \<and> sr_scheme p = ''http''"
      "username p = []" "password p = []" "resolve (nets i) (hostname p) k = Inr addresses"
      "\<forall>a \<in> set addresses. ip_is_global (nets i) a = Some True"
      using validated_destination [OF v] by metis
    show "\<exists>i s e p k addresses name secret.
           s \<in> set (webhook_subscriptions d) \<and> ws_active s \<and> wr_url q = ws_url s
         \<and> e \<in> set (domain_events d) \<and> wr_data q = webhook_canonical_payload (sv_host sv) (event_envelope sv e)
         \<and> urlsplit (netloc_ok (nets i)) (wr_url q) = Inr p
         \<and> (sr_scheme p = ''https'' \<or> webhook_allow_http (sv_settings sv) \<and> sr_scheme p = ''http'')
         \<and> username p = [] \<and> password p = []
         \<and> resolve (nets i) (hostname p) k = Inr addresses
         \<and> (\<forall>a \<in> set addresses. ip_is_global (nets i) a = Some True)
         \<and> ws_secret_ref s = ''env:'' @ secret_prefix @ name \<and> env (secret_prefix @ name) = Some secret
         \<and> (''X-Helpdesk-Signature-256'', ''sha256='' @ hmac_sha256_hex (sv_host sv) (utf8 secret) (wr_data q))
             \<in> set (wr_headers q)"
      by (intro exI [of _ i] exI [of _ s] exI [of _ e] exI [of _ p] exI [of _ k] exI [of _ addresses]
            exI [of _ name] exI [of _ secret]) (use s e p name q in \<open>simp add: event_request_def signed_request_def\<close>)
  qed
qed

definition demo_hook :: WebhookSubscription where
  "demo_hook = \<lparr>ws_id = ''w'', ws_tenant_id = ''t'', ws_name = ''n8n'', ws_url = ''https://hooks.example.com/x'',
     ws_secret_ref = ''env:HELPDESK_WEBHOOK_SECRET_A'', ws_event_types = [''device.enrolled''], ws_active = True,
     ws_created_by = ''u'', ws_created_at = 0\<rparr>"

definition demo_outbox :: db where
  "demo_outbox = empty_db\<lparr>webhook_subscriptions := [demo_hook],
     domain_events := [\<lparr>dr_id = ''e'', dr_tenant_id = ''t'', dr_event_type = ''device.enrolled'', dr_subject_id = ''d'',
       dr_schema_version = 1, dr_data = [], dr_occurred_at = 5\<rparr>],
     webhook_deliveries := [\<lparr>wd_id = ''x'', wd_tenant_id = ''t'', wd_event_id = ''e'', wd_subscription_id = ''w'',
       wd_status = ''pending'', wd_attempt_count = 0, wd_next_attempt_at = 5, wd_last_attempt_at = None,
       wd_delivered_at = None, wd_response_status = None, wd_last_error = None\<rparr>]\<rparr>"

definition demo_net :: "int \<Rightarrow> webhook_net" where
  "demo_net code = \<lparr>netloc_ok = \<lambda>_. True, resolve = \<lambda>_ _. Inr [''93.184.216.34''],
     ip_is_global = \<lambda>a. Some (a = ''93.184.216.34''), exchange = \<lambda>_. Reply code ''ok'', decode_replace = id\<rparr>"

definition demo_env :: "string \<Rightarrow> string option" where
  "demo_env name = (if name = ''HELPDESK_WEBHOOK_SECRET_A'' then Some ''s3cret'' else None)"

lemma demo_batch:
  "length (fst (snd (webhook_batch demo_server demo_env (\<lambda>_. demo_net 200) 10 50 demo_outbox))) = 1"
  by code_simp

theorem webhook_requests_confined_witness:
  "\<exists>q s. q \<in> set (fst (snd (webhook_batch demo_server demo_env (\<lambda>_. demo_net 200) 10 50 demo_outbox)))
     \<and> s \<in> set (webhook_subscriptions demo_outbox) \<and> wr_url q = ws_url s"
proof -
  obtain n sent d' where b: "webhook_batch demo_server demo_env (\<lambda>_. demo_net 200) 10 50 demo_outbox = (n, sent, d')"
    by (cases "webhook_batch demo_server demo_env (\<lambda>_. demo_net 200) 10 50 demo_outbox") auto
  with demo_batch obtain q where q: "q \<in> set sent" by (cases sent) auto
  with webhook_requests_confined [OF b] obtain s where "s \<in> set (webhook_subscriptions demo_outbox)" "wr_url q = ws_url s"
    by blast
  with q b show ?thesis by auto
qed

section \<open>The outbox drains\<close>

text \<open>The attempts a delivery may still have.\<close>

definition attempts_left :: "server \<Rightarrow> WebhookDelivery \<Rightarrow> nat" where
  "attempts_left sv r =
     (if wd_status r = ''pending'' then nat (max 1 (webhook_max_attempts (sv_settings sv) - wd_attempt_count r)) else 0)"

definition backlog :: "server \<Rightarrow> db \<Rightarrow> nat" where
  "backlog sv d = sum_list (map (attempts_left sv) (webhook_deliveries d))"

definition pending_by :: "time \<Rightarrow> db \<Rightarrow> bool" where
  "pending_by t d \<longleftrightarrow> (\<forall>r \<in> set (webhook_deliveries d). wd_status r = ''pending'' \<longrightarrow> wd_next_attempt_at r \<le> t)"

lemma attempts_left_pos: "attempts_left sv r = 0 \<longleftrightarrow> wd_status r \<noteq> ''pending''"
  by (auto simp: attempts_left_def)

lemma retry_delay_le: "retry_delay a \<le> 2048"
proof -
  have "(2::int) ^ nat (min a 11) \<le> 2 ^ 11" by (rule power_increasing) auto
  then show ?thesis by (simp add: retry_delay_def)
qed

lemma delivery_failed_progress:
  "wd_id (delivery_failed sv now e b r) = wd_id r"
  "wd_status r = ''pending'' \<Longrightarrow> wd_status (delivery_failed sv now e b r) = ''pending''
     \<Longrightarrow> wd_attempt_count r < webhook_max_attempts (sv_settings sv)
         \<and> wd_attempt_count (delivery_failed sv now e b r) = wd_attempt_count r
         \<and> wd_next_attempt_at (delivery_failed sv now e b r) \<le> now + 2048"
  using retry_delay_le [of "wd_attempt_count r"] by (auto simp: delivery_failed_def Let_def split: if_splits)

lemma attempt_progress:
  "wd_id (fst (deliver_row sv env net now d r)) = wd_id r"
  "wd_status r = ''pending'' \<Longrightarrow> wd_status (fst (deliver_row sv env net now d r)) = ''pending''
     \<Longrightarrow> wd_attempt_count r + 1 < webhook_max_attempts (sv_settings sv)
         \<and> wd_attempt_count (fst (deliver_row sv env net now d r)) = wd_attempt_count r + 1
         \<and> wd_next_attempt_at (fst (deliver_row sv env net now d r)) \<le> now + 2048"
  using delivery_failed_progress(2) [where sv = sv and now = now and r = "attempted now r\<lparr>wd_response_status := x\<rparr>" for x]
    delivery_failed_progress(2) [where sv = sv and now = now and r = "attempted now r"]
  by (auto simp: deliver_row_def attempt_delivery_def answered_def cancelled_def Let_def attempted_def
      delivery_failed_progress split: option.splits sum.splits if_splits)

lemma deliver_row_left:
  assumes "wd_status r = ''pending''"
  shows "attempts_left sv (fst (deliver_row sv env net now d r)) < attempts_left sv r"
  using attempt_progress(2) [OF assms, where sv = sv and env = env and net = net and now = now and d = d] assms by (auto simp: attempts_left_def)

definition deliveries_keyed :: "db \<Rightarrow> bool" where
  "deliveries_keyed d \<longleftrightarrow> distinct (map wd_id (webhook_deliveries d))"

lemma put_delivery_keyed: "deliveries_keyed (put_delivery r d) = deliveries_keyed d"
proof -
  have "map wd_id (webhook_deliveries (put_delivery r d)) = map wd_id (webhook_deliveries d)"
    by (auto simp: put_delivery_def update_where_def)
  then show ?thesis by (simp only: deliveries_keyed_def)
qed

lemma sum_list_update:
  fixes f :: "'r \<Rightarrow> nat"
  assumes "distinct (map k rows)" and "r \<in> set rows" and "k r' = k r"
  shows "sum_list (map f (update_where (\<lambda>w. k w = k r') (\<lambda>_. r') rows)) + f r = sum_list (map f rows) + f r'"
  using assms
proof (induction rows)
  case (Cons a rows)
  show ?case
  proof (cases "a = r")
    case True
    with Cons.prems have "update_where (\<lambda>w. k w = k r') (\<lambda>_. r') rows = rows"
      by (intro update_where_none) (force simp: image_iff)
    with True Cons.prems(3) show ?thesis by (simp add: row_simps)
  next
    case False
    with Cons.prems have "k a \<noteq> k r'" by (auto simp: image_iff)
    moreover from False Cons.prems have "r \<in> set rows" "distinct (map k rows)" by auto
    then have "sum_list (map f (update_where (\<lambda>w. k w = k r') (\<lambda>_. r') rows)) + f r = sum_list (map f rows) + f r'"
      using Cons.prems(3) by (intro Cons.IH)
    ultimately show ?thesis by (simp add: row_simps)
  qed
qed simp

lemma deliver_each_backlog:
  assumes "deliveries_keyed d" and "set rs \<subseteq> set (webhook_deliveries d)" and "distinct (map wd_id rs)"
    and "\<forall>r \<in> set rs. wd_status r = ''pending''"
  shows "backlog sv (snd (deliver_each sv env nets now rs d)) + length rs \<le> backlog sv d
     \<and> deliveries_keyed (snd (deliver_each sv env nets now rs d))"
  using assms
proof (induction rs arbitrary: nets d)
  case (Cons r rs)
  let ?r = "fst (deliver_row sv env (nets 0) now d r)"
  have id: "wd_id ?r = wd_id r" by (rule attempt_progress(1))
  have left: "attempts_left sv ?r < attempts_left sv r" using Cons.prems(4) by (intro deliver_row_left) simp
  have "backlog sv (put_delivery ?r d) + attempts_left sv r = backlog sv d + attempts_left sv ?r"
    using sum_list_update [of wd_id "webhook_deliveries d" r ?r "attempts_left sv"] id Cons.prems
    by (simp add: backlog_def put_delivery_def deliveries_keyed_def)
  with left have less: "backlog sv (put_delivery ?r d) + 1 \<le> backlog sv d" by simp
  have "q \<in> set (webhook_deliveries (put_delivery ?r d))" if "q \<in> set rs" for q
  proof -
    from that Cons.prems id have "wd_id q \<noteq> wd_id ?r" "q \<in> set (webhook_deliveries d)" by (auto simp: image_iff)
    then show ?thesis unfolding put_delivery_def by (auto simp: set_update_where)
  qed
  then show ?case
    using Cons.IH [of "put_delivery ?r d" "\<lambda>i. nets (Suc i)"] Cons.prems less put_delivery_keyed [of ?r d]
    by (simp add: deliver_each_Cons subset_iff)
qed simp

lemma due_props:
  "set (due now limit d) \<subseteq> set (webhook_deliveries d)"
  "deliveries_keyed d \<Longrightarrow> distinct (map wd_id (due now limit d))"
  "r \<in> set (due now limit d) \<Longrightarrow> wd_status r = ''pending''"
  by (auto simp: due_def deliveries_keyed_def distinct_order_by distinct_map_filter take_map [symmetric]
      intro!: distinct_take dest!: in_set_takeD)

lemma batch_backlog:
  assumes "deliveries_keyed d"
  shows "backlog sv (snd (snd (webhook_batch sv env nets now limit d))) + fst (webhook_batch sv env nets now limit d)
       \<le> backlog sv d"
    and "deliveries_keyed (snd (snd (webhook_batch sv env nets now limit d)))"
  using deliver_each_backlog [OF assms due_props(1) due_props(2) [OF assms], of now limit sv env nets now] due_props(3)
  by (auto simp: webhook_batch_def Let_def)

lemma due_nonempty: "pending_by now d \<Longrightarrow> 0 < backlog sv d \<Longrightarrow> due now limit d \<noteq> []"
proof -
  assume p: "pending_by now d" and "0 < backlog sv d"
  then obtain r where "r \<in> set (webhook_deliveries d)" "attempts_left sv r \<noteq> 0"
    unfolding backlog_def by (metis (no_types, lifting) image_iff less_irrefl list.set_map sum_list_eq_0_iff)
  with p have "r \<in> set (filter (\<lambda>r. wd_status r = ''pending'' \<and> wd_next_attempt_at r \<le> now) (webhook_deliveries d))"
    by (auto simp: pending_by_def attempts_left_pos)
  then have "r \<in> set (order_by wd_next_attempt_at (filter (\<lambda>r. wd_status r = ''pending'' \<and> wd_next_attempt_at r \<le> now)
      (webhook_deliveries d)))" by simp
  then show "due now limit d \<noteq> []" unfolding due_def by (auto simp del: set_order_by)
qed

lemma put_delivery_pending:
  assumes "pending_by t d" and "wd_status r = ''pending'' \<longrightarrow> wd_next_attempt_at r \<le> t"
  shows "pending_by t (put_delivery r d)"
  using assms by (auto simp: pending_by_def put_delivery_def set_update_where)

lemma deliver_each_pending:
  assumes "pending_by (now + 2048) d" and "\<forall>r \<in> set rs. wd_status r = ''pending''"
  shows "pending_by (now + 2048) (snd (deliver_each sv env nets now rs d))"
  using assms
proof (induction rs arbitrary: nets d)
  case (Cons r rs)
  have "pending_by (now + 2048) (put_delivery (fst (deliver_row sv env (nets 0) now d r)) d)"
    using Cons.prems attempt_progress(2) [of r] by (intro put_delivery_pending) auto
  with Cons show ?case by (simp add: deliver_each_Cons)
qed simp

lemma batch_pending:
  assumes "pending_by now d"
  shows "pending_by (now + 2048) (snd (snd (webhook_batch sv env nets now limit d)))"
proof -
  have "pending_by (now + 2048) d" using assms by (auto simp: pending_by_def)
  then show ?thesis
    using deliver_each_pending [of now d "due now limit d"] due_props(3) by (simp add: webhook_batch_def Let_def)
qed

text \<open>
  Successive batches of the worker, each with the time, the limit and the network it finds.  They are
  \<open>spaced\<close> from \<open>t\<close> on when each comes at least the longest retry delay after the one before.
\<close>

type_synonym batch_run = "(time \<times> int \<times> (nat \<Rightarrow> webhook_net)) list"

fun webhook_batches :: "server \<Rightarrow> (string \<Rightarrow> string option) \<Rightarrow> batch_run \<Rightarrow> db \<Rightarrow> nat \<times> db" where
  "webhook_batches sv env [] d = (0, d)"
| "webhook_batches sv env ((now, limit, nets) # bs) d =
     (let (n, sent, d') = webhook_batch sv env nets now limit d; (m, d'') = webhook_batches sv env bs d'
      in (n + m, d''))"

fun spaced :: "time \<Rightarrow> batch_run \<Rightarrow> bool" where
  "spaced t [] = True"
| "spaced t ((now, limit, nets) # bs) = (t \<le> now \<and> spaced (now + 2048) bs)"

lemma batches_Cons:
  "webhook_batches sv env ((now, limit, nets) # bs) d =
     (let b = webhook_batch sv env nets now limit d; r = webhook_batches sv env bs (snd (snd b)) in (fst b + fst r, snd r))"
  by (simp add: case_prod_beta Let_def)

declare webhook_batches.simps(2) [simp del]

lemma batches_bounded:
  "deliveries_keyed d \<Longrightarrow> fst (webhook_batches sv env bs d) + backlog sv (snd (webhook_batches sv env bs d)) \<le> backlog sv d"
proof (induction bs arbitrary: d)
  case (Cons b bs)
  obtain now limit nets where b: "b = (now, limit, nets)" by (cases b)
  show ?case
    using batch_backlog [OF Cons.prems, of sv env nets now limit]
      Cons.IH [of "snd (snd (webhook_batch sv env nets now limit d))"]
    by (simp add: b batches_Cons Let_def)
qed simp

lemma batches_drain:
  "deliveries_keyed d \<Longrightarrow> pending_by t d \<Longrightarrow> spaced t bs \<Longrightarrow> backlog sv d \<le> length bs
   \<Longrightarrow> backlog sv (snd (webhook_batches sv env bs d)) = 0"
proof (induction bs arbitrary: d t)
  case (Cons b bs)
  obtain now limit nets where b: "b = (now, limit, nets)" by (cases b)
  let ?b = "webhook_batch sv env nets now limit d"
  from Cons.prems b have t: "t \<le> now" and sp: "spaced (now + 2048) bs" by auto
  with Cons.prems have p: "pending_by now d" by (auto simp: pending_by_def)
  have "backlog sv (snd (snd ?b)) \<le> length bs"
  proof (cases "backlog sv d = 0")
    case True
    then show ?thesis using batch_backlog(1) [OF Cons.prems(1), of sv env nets now limit] by simp
  next
    case False
    then have "fst ?b \<noteq> 0" using due_nonempty [OF p, of sv limit] by (simp add: webhook_batch_def Let_def)
    then show ?thesis
      using batch_backlog(1) [OF Cons.prems(1), of sv env nets now limit] Cons.prems(4) by simp
  qed
  then show ?case
    using Cons.IH [OF batch_backlog(2) [OF Cons.prems(1)] batch_pending [OF p] sp] by (simp add: b batches_Cons Let_def)
qed simp

text \<open>
  C19.  The outbox drains.  Whatever the network does, batches of the worker take up deliveries no
  more often in all than the attempts they have left, counted over the pending deliveries; and once
  there have been as many batches as that, the first when every pending delivery is due and each
  at least 2048 seconds (the longest retry delay) after the one before, no delivery is pending.
\<close>

theorem webhook_outbox_drains:
  assumes "deliveries_keyed d"
  shows "fst (webhook_batches sv env bs d) \<le> backlog sv d
     \<and> (pending_by t d \<and> spaced t bs \<and> backlog sv d \<le> length bs
         \<longrightarrow> (\<forall>r \<in> set (webhook_deliveries (snd (webhook_batches sv env bs d))). wd_status r \<noteq> ''pending''))"
proof (intro conjI impI)
  show "fst (webhook_batches sv env bs d) \<le> backlog sv d" using batches_bounded [OF assms, of sv env bs] by simp
  assume "pending_by t d \<and> spaced t bs \<and> backlog sv d \<le> length bs"
  with batches_drain [OF assms, of t bs sv env] have "backlog sv (snd (webhook_batches sv env bs d)) = 0" by blast
  then show "\<forall>r \<in> set (webhook_deliveries (snd (webhook_batches sv env bs d))). wd_status r \<noteq> ''pending''"
    by (simp add: backlog_def attempts_left_pos)
qed

definition stubborn :: batch_run where
  "stubborn = [(10, 50, \<lambda>_. demo_net 503), (2058, 50, \<lambda>_. demo_net 503)]"

definition two_attempts :: server where
  "two_attempts = demo_server\<lparr>sv_settings := (sv_settings demo_server)\<lparr>webhook_max_attempts := 2\<rparr>\<rparr>"

theorem webhook_outbox_drains_witness:
  "backlog two_attempts demo_outbox = 2
   \<and> map wd_status (webhook_deliveries (snd (webhook_batches two_attempts demo_env stubborn demo_outbox))) = [''dead_letter'']
   \<and> wd_status (hd (webhook_deliveries (snd (webhook_batches two_attempts demo_env stubborn demo_outbox)))) \<noteq> ''pending''"
proof -
  have k: "deliveries_keyed demo_outbox" by code_simp
  have p: "pending_by 10 demo_outbox" by code_simp
  have s: "spaced 10 stubborn" by (simp add: stubborn_def)
  have b: "backlog two_attempts demo_outbox = 2" by code_simp
  have e: "map wd_status (webhook_deliveries (snd (webhook_batches two_attempts demo_env stubborn demo_outbox))) = [''dead_letter'']"
    by code_simp
  then have "hd (webhook_deliveries (snd (webhook_batches two_attempts demo_env stubborn demo_outbox)))
      \<in> set (webhook_deliveries (snd (webhook_batches two_attempts demo_env stubborn demo_outbox)))"
    by (intro hd_in_set) auto
  with webhook_outbox_drains [OF k, of two_attempts demo_env stubborn 10] p s b e show ?thesis
    by (simp add: stubborn_def)
qed

end
