(* ===== verification/Reporting.thy ===== *)
theory Reporting
  imports Enrollment
begin

text \<open>
  The operational report and the metrics (\<open>helpdesktool/reporting.py\<close>, \<open>helpdesktool/metrics.py\<close> and their handlers in
  \<open>helpdesktool/api.py\<close>).  Every figure is a count or an average over stored rows, computed when asked.
  The results: the figures of two adjacent periods add up to those of the whole period, the figures of one report
  agree with each other, and the gauges partition the rows they count.
\<close>

section \<open>The report\<close>

definition mean_seconds :: "(time \<times> time) list \<Rightarrow> rat option" where
  "mean_seconds pairs =
     (if pairs = [] then None
      else Some (sum_list (map (\<lambda>(s, e). of_int (e - s)) pairs) / of_nat (length pairs)))"

text \<open>A condition on a time of a row: in \<open>[start, end)\<close>.\<close>

definition in_period :: "time \<Rightarrow> time \<Rightarrow> time \<Rightarrow> bool" where
  "in_period s e t \<longleftrightarrow> s \<le> t \<and> t < e"

record incident_stats =
  st_detected :: nat
  st_resolved :: nat
  st_reopened :: nat
  st_open_incidents :: nat
  st_mttr_seconds :: "rat option"

definition incident_stats_of :: "string \<Rightarrow> time \<Rightarrow> time \<Rightarrow> db \<Rightarrow> incident_stats" where
  "incident_stats_of t s e d =
     (let resolved = filter (\<lambda>r. ic_tenant_id r = t \<and> (case ic_resolved_at r of None \<Rightarrow> False | Some q \<Rightarrow> in_period s e q)) (incidents d)
      in \<lparr>st_detected = count_rows ic_tenant_id t (\<lambda>r. in_period s e (ic_created_at r)) (incidents d),
          st_resolved = length resolved,
          st_reopened = count_rows ic_tenant_id t
            (\<lambda>r. ic_occurrence_count r > 1 \<and> in_period s e (ic_last_observed_at r)) (incidents d),
          st_open_incidents = count_rows ic_tenant_id t (\<lambda>r. ic_status r \<noteq> ''resolved'') (incidents d),
          st_mttr_seconds = mean_seconds (map (\<lambda>r. (ic_first_observed_at r, the (ic_resolved_at r))) resolved)\<rparr>)"

record ticket_stats =
  st_opened :: nat
  st_tickets_resolved :: nat
  st_open_tickets :: nat

definition ticket_stats_of :: "string \<Rightarrow> time \<Rightarrow> time \<Rightarrow> db \<Rightarrow> ticket_stats" where
  "ticket_stats_of t s e d =
     \<lparr>st_opened = count_rows tk_tenant_id t (\<lambda>r. in_period s e (tk_created_at r)) (tickets d),
      st_tickets_resolved = count_rows tk_tenant_id t
        (\<lambda>r. tk_status r = ''resolved'' \<and> in_period s e (tk_updated_at r)) (tickets d),
      st_open_tickets = count_rows tk_tenant_id t (\<lambda>r. tk_status r \<noteq> ''resolved'') (tickets d)\<rparr>"

record remediation_stats =
  st_attempts :: nat
  st_succeeded :: nat
  st_failed :: nat
  st_success_rate :: "rat option"
  st_rollback_attempted :: nat
  st_rollback_succeeded :: nat

definition remediation_stats_of :: "string \<Rightarrow> time \<Rightarrow> time \<Rightarrow> db \<Rightarrow> remediation_stats" where
  "remediation_stats_of t s e d =
     (let rows = filter (\<lambda>r. xr_tenant_id r = t \<and> in_period s e (xr_created_at r)) (execution_results d);
          attempts = length rows;
          succeeded = length (filter xr_success rows)
      in \<lparr>st_attempts = attempts, st_succeeded = succeeded, st_failed = attempts - succeeded,
          st_success_rate = (if attempts = 0 then None else Some (of_nat succeeded / of_nat attempts)),
          st_rollback_attempted = length (filter xr_rollback_attempted rows),
          st_rollback_succeeded = length (filter (\<lambda>r. xr_rollback_attempted r \<and> xr_rollback_succeeded r = Some True) rows)\<rparr>)"

record approval_stats =
  st_approved :: nat
  st_denied :: nat
  st_avg_time_to_decision :: "rat option"

definition approval_stats_of :: "string \<Rightarrow> time \<Rightarrow> time \<Rightarrow> db \<Rightarrow> approval_stats" where
  "approval_stats_of t s e d =
     (let rows = concat (map (\<lambda>p. map (\<lambda>a. (ap_decision p, ap_decided_at p, at_created_at a))
            (filter (\<lambda>a. at_id a = ap_action_id p) (actions d)))
          (filter (\<lambda>p. ap_tenant_id p = t \<and> in_period s e (ap_decided_at p)) (approvals d)))
      in \<lparr>st_approved = length (filter (\<lambda>(v, _, _). v = ''approve'') rows),
          st_denied = length (filter (\<lambda>(v, _, _). v = ''deny'') rows),
          st_avg_time_to_decision = mean_seconds (map (\<lambda>(_, q, c). (c, q)) rows)\<rparr>)"

record device_stats =
  st_total :: nat
  st_online :: nat
  st_offline :: nat

definition device_stats_of :: "time \<Rightarrow> string \<Rightarrow> db \<Rightarrow> device_stats" where
  "device_stats_of now t d =
     (let total = count_rows dv_tenant_id t dv_active (devices d);
          on = count_rows dv_tenant_id t (\<lambda>r. dv_active r \<and> online now r) (devices d)
      in \<lparr>st_total = total, st_online = on, st_offline = total - on\<rparr>)"

record security_stats =
  st_policy_denials :: nat
  st_approval_denials :: nat

definition security_stats_of :: "string \<Rightarrow> time \<Rightarrow> time \<Rightarrow> db \<Rightarrow> security_stats" where
  "security_stats_of t s e d =
     (let decided_ids = map ap_action_id (filter (\<lambda>p. ap_tenant_id p = t) (approvals d))
      in \<lparr>st_policy_denials = count_rows at_tenant_id t
            (\<lambda>r. at_status r = ''denied'' \<and> in_period s e (at_created_at r) \<and> at_id r \<notin> set decided_ids) (actions d),
          st_approval_denials = count_rows ap_tenant_id t
            (\<lambda>p. ap_decision p = ''deny'' \<and> in_period s e (ap_decided_at p)) (approvals d)\<rparr>)"

definition recurring_incidents :: "string \<Rightarrow> nat \<Rightarrow> db \<Rightarrow> Incident list" where
  "recurring_incidents t limit d =
     take limit (order_desc ic_occurrence_count
       (filter (\<lambda>r. ic_tenant_id r = t \<and> ic_occurrence_count r > 1) (incidents d)))"

record report =
  rp_start :: time
  rp_end :: time
  rp_incidents :: incident_stats
  rp_tickets :: ticket_stats
  rp_remediation :: remediation_stats
  rp_approvals :: approval_stats
  rp_devices :: device_stats
  rp_security :: security_stats
  rp_recurring :: "Incident list"

definition build_report :: "time \<Rightarrow> string \<Rightarrow> time \<Rightarrow> time \<Rightarrow> db \<Rightarrow> py_error + report" where
  "build_report now t s e d =
     (if e \<le> s then Inl (ValueError ''end must be after start'')
      else Inr \<lparr>rp_start = s, rp_end = e, rp_incidents = incident_stats_of t s e d, rp_tickets = ticket_stats_of t s e d,
                rp_remediation = remediation_stats_of t s e d, rp_approvals = approval_stats_of t s e d,
                rp_devices = device_stats_of now t d, rp_security = security_stats_of t s e d,
                rp_recurring = recurring_incidents t 10 d\<rparr>)"

text \<open>The report as the handler answers it.\<close>

definition num :: "nat \<Rightarrow> json" where
  "num n = JInt (int n)"

definition opt_float :: "rat option \<Rightarrow> json" where
  "opt_float x = (case x of None \<Rightarrow> JNull | Some q \<Rightarrow> JFloat q)"

definition recurring_json :: "server \<Rightarrow> Incident \<Rightarrow> dict" where
  "recurring_json sv r =
     [(''device_id'', JStr (ic_device_id r)), (''incident_type'', JStr (ic_incident_type r)),
      (''occurrence_count'', JInt (ic_occurrence_count r)), (''status'', JStr (ic_status r)),
      (''last_observed_at'', iso sv (ic_last_observed_at r))]"

definition report_json :: "server \<Rightarrow> report \<Rightarrow> dict" where
  "report_json sv r =
     (let i = rp_incidents r; k = rp_tickets r; m = rp_remediation r; a = rp_approvals r; v = rp_devices r; c = rp_security r
      in [(''period'', JObj [(''start'', iso sv (rp_start r)), (''end'', iso sv (rp_end r))]),
          (''incidents'', JObj [(''detected'', num (st_detected i)), (''resolved'', num (st_resolved i)),
             (''reopened'', num (st_reopened i)), (''open_now'', num (st_open_incidents i)),
             (''mttr_seconds'', opt_float (st_mttr_seconds i))]),
          (''tickets'', JObj [(''opened'', num (st_opened k)), (''resolved'', num (st_tickets_resolved k)),
             (''open_now'', num (st_open_tickets k))]),
          (''remediation'', JObj [(''attempts'', num (st_attempts m)), (''succeeded'', num (st_succeeded m)),
             (''failed'', num (st_failed m)), (''success_rate'', opt_float (st_success_rate m)),
             (''rollback_attempted'', num (st_rollback_attempted m)), (''rollback_succeeded'', num (st_rollback_succeeded m))]),
          (''approvals'', JObj [(''approved'', num (st_approved a)), (''denied'', num (st_denied a)),
             (''avg_time_to_decision_seconds'', opt_float (st_avg_time_to_decision a))]),
          (''devices'', JObj [(''total'', num (st_total v)), (''online'', num (st_online v)), (''offline'', num (st_offline v))]),
          (''security'', JObj [(''policy_denials'', num (st_policy_denials c)), (''approval_denials'', num (st_approval_denials c))]),
          (''recurring_incidents'', objs (map (recurring_json sv) (rp_recurring r)))])"

definition report_summary ::
  "server \<Rightarrow> time \<Rightarrow> Principal \<Rightarrow> time option \<Rightarrow> time option \<Rightarrow> db \<Rightarrow> dict http" where
  "report_summary sv now p start stop d =
     (let period_end = (case stop of Some e \<Rightarrow> e | None \<Rightarrow> now);
          period_start = (case start of Some s \<Rightarrow> s | None \<Rightarrow> period_end - 7 * 86400)
      in case build_report now (pr_tenant_id p) period_start period_end d of
           Inl (ValueError text) \<Rightarrow> Inl (HTTPException 400 text)
         | Inl _ \<Rightarrow> Inl unhandled
         | Inr r \<Rightarrow> Inr (report_json sv r))"

section \<open>Metrics\<close>

text \<open>\<open>SELECT key, COUNT(*) ... GROUP BY key\<close>, and the gauges the exporter sets from such results.\<close>

definition count_by :: "('r \<Rightarrow> 'k) \<Rightarrow> 'r list \<Rightarrow> ('k \<times> nat) list" where
  "count_by key rows = map (\<lambda>k. (k, length (filter (\<lambda>r. key r = k) rows))) (remdups (map key rows))"

record gauges =
  ACTIONS_BY_STATUS :: "(string \<times> nat) list"
  INCIDENTS_BY_STATUS :: "(string \<times> nat) list"
  DEVICES_BY_ONLINE_STATUS :: "(string \<times> nat) list"
  DIAGNOSES_BY_FALLBACK :: "(bool \<times> nat) list"
  WEBHOOK_DELIVERIES_BY_STATUS :: "(string \<times> nat) list"
  WORKER_HEARTBEAT_AGE_SECONDS :: "(string \<times> int) list"

definition refresh_business_metrics :: "time \<Rightarrow> db \<Rightarrow> gauges" where
  "refresh_business_metrics now d =
     (let online_count = length (filter (online now) (devices d))
      in \<lparr>ACTIONS_BY_STATUS = count_by at_status (actions d),
          INCIDENTS_BY_STATUS = count_by ic_status (incidents d),
          DEVICES_BY_ONLINE_STATUS = [(''online'', online_count), (''offline'', length (devices d) - online_count)],
          DIAGNOSES_BY_FALLBACK = count_by dg_fallback_used (diagnoses d),
          WEBHOOK_DELIVERIES_BY_STATUS = count_by wd_status (webhook_deliveries d),
          WORKER_HEARTBEAT_AGE_SECONDS = map (\<lambda>r. (wh_worker_name r, now - wh_last_heartbeat_at r)) (worker_heartbeats d)\<rparr>)"

definition metrics_endpoint :: "server \<Rightarrow> time \<Rightarrow> string option \<Rightarrow> db \<Rightarrow> gauges http" where
  "metrics_endpoint sv now authorization d =
     (case metrics_guard (sv_settings sv) authorization of
        Inl e \<Rightarrow> Inl e
      | Inr _ \<Rightarrow> Inr (refresh_business_metrics now d))"

section \<open>Periods add up\<close>

lemma in_period_split: "a \<le> b \<Longrightarrow> b \<le> c \<Longrightarrow> in_period a c t \<longleftrightarrow> in_period a b t \<or> in_period b c t"
  by (auto simp: in_period_def)

lemma in_period_disjoint: "in_period a b t \<Longrightarrow> \<not> in_period b c t"
  by (simp add: in_period_def)

lemma length_filter_split:
  "(\<And>x. x \<in> set xs \<Longrightarrow> P x \<longleftrightarrow> Q x \<or> R x) \<Longrightarrow> (\<And>x. x \<in> set xs \<Longrightarrow> Q x \<Longrightarrow> \<not> R x)
   \<Longrightarrow> length (filter P xs) = length (filter Q xs) + length (filter R xs)"
  by (induction xs) auto

lemma count_rows_split:
  "(\<And>x. P x \<longleftrightarrow> Q x \<or> R x) \<Longrightarrow> (\<And>x. Q x \<Longrightarrow> \<not> R x) \<Longrightarrow> count_rows f t P xs = count_rows f t Q xs + count_rows f t R xs"
  unfolding count_rows_def by (rule length_filter_split) auto

lemma sum_list_filter_split:
  fixes f :: "'a \<Rightarrow> nat"
  assumes "\<And>x. x \<in> set xs \<Longrightarrow> P x \<longleftrightarrow> Q x \<or> R x" and "\<And>x. x \<in> set xs \<Longrightarrow> Q x \<Longrightarrow> \<not> R x"
  shows "sum_list (map f (filter P xs)) = sum_list (map f (filter Q xs)) + sum_list (map f (filter R xs))"
  using assms by (induction xs) auto

lemma length_filter_concat:
  "length (filter P (concat (map f xs))) = sum_list (map (\<lambda>x. length (filter P (f x))) xs)"
  by (induction xs) simp_all

lemma approvals_add:
  assumes "a \<le> b" and "b \<le> c"
  shows "st_approved (approval_stats_of t a c d) = st_approved (approval_stats_of t a b d) + st_approved (approval_stats_of t b c d)"
    and "st_denied (approval_stats_of t a c d) = st_denied (approval_stats_of t a b d) + st_denied (approval_stats_of t b c d)"
proof -
  have split: "sum_list (map f (filter (\<lambda>p. ap_tenant_id p = t \<and> in_period a c (ap_decided_at p)) (approvals d)))
     = sum_list (map f (filter (\<lambda>p. ap_tenant_id p = t \<and> in_period a b (ap_decided_at p)) (approvals d)))
       + sum_list (map f (filter (\<lambda>p. ap_tenant_id p = t \<and> in_period b c (ap_decided_at p)) (approvals d)))"
    for f :: "Approval \<Rightarrow> nat"
    by (rule sum_list_filter_split) (use assms in \<open>auto simp: in_period_def\<close>)
  show "st_approved (approval_stats_of t a c d) = st_approved (approval_stats_of t a b d) + st_approved (approval_stats_of t b c d)"
    and "st_denied (approval_stats_of t a c d) = st_denied (approval_stats_of t a b d) + st_denied (approval_stats_of t b c d)"
    by (simp_all add: approval_stats_of_def Let_def length_filter_concat split)
qed

lemma executions_add:
  assumes "a \<le> b" and "b \<le> c"
  shows "length (filter (\<lambda>r. P r) (filter (\<lambda>r. xr_tenant_id r = t \<and> in_period a c (xr_created_at r)) xs))
     = length (filter P (filter (\<lambda>r. xr_tenant_id r = t \<and> in_period a b (xr_created_at r)) xs))
       + length (filter P (filter (\<lambda>r. xr_tenant_id r = t \<and> in_period b c (xr_created_at r)) xs))"
  unfolding filter_filter by (rule length_filter_split) (use assms in \<open>auto simp: in_period_def\<close>)

lemma remediation_add:
  assumes "a \<le> b" and "b \<le> c"
  shows "st_attempts (remediation_stats_of t a c d)
      = st_attempts (remediation_stats_of t a b d) + st_attempts (remediation_stats_of t b c d)"
    and "st_succeeded (remediation_stats_of t a c d)
      = st_succeeded (remediation_stats_of t a b d) + st_succeeded (remediation_stats_of t b c d)"
  using executions_add [OF assms, of "\<lambda>_. True"] executions_add [OF assms, of xr_success]
  by (simp_all add: remediation_stats_of_def Let_def)

lemma remediation_failed: "st_failed (remediation_stats_of t s e d) + st_succeeded (remediation_stats_of t s e d)
    = st_attempts (remediation_stats_of t s e d)"
  using length_filter_le [of xr_success] by (simp add: remediation_stats_of_def Let_def del: filter_filter)

text \<open>
  C40.  Periods add up.  For a period cut in two, the incidents detected, resolved and reopened, the tickets
  opened and resolved, the attempts with their successes and failures, the approvals and denials of people and the
  denials of policy in the whole report are the sums of those of its two parts.
\<close>

theorem report_periods_add:
  assumes r1: "build_report now t a b d = Inr r1" and r2: "build_report now t b c d = Inr r2"
    and r: "build_report now t a c d = Inr r"
  shows "(\<forall>f \<in> {st_detected, st_resolved, st_reopened}. f (rp_incidents r) = f (rp_incidents r1) + f (rp_incidents r2))
     \<and> (\<forall>f \<in> {st_opened, st_tickets_resolved}. f (rp_tickets r) = f (rp_tickets r1) + f (rp_tickets r2))
     \<and> (\<forall>f \<in> {st_attempts, st_succeeded, st_failed}. f (rp_remediation r) = f (rp_remediation r1) + f (rp_remediation r2))
     \<and> (\<forall>f \<in> {st_approved, st_denied}. f (rp_approvals r) = f (rp_approvals r1) + f (rp_approvals r2))
     \<and> (\<forall>f \<in> {st_policy_denials, st_approval_denials}. f (rp_security r) = f (rp_security r1) + f (rp_security r2))"
proof -
  from r1 r2 have ab: "a \<le> b" and bc: "b \<le> c" by (auto simp: build_report_def split: if_splits)
  note splits = count_rows_split length_filter_split
  have i: "st_detected (incident_stats_of t a c d) = st_detected (incident_stats_of t a b d) + st_detected (incident_stats_of t b c d)"
    "st_resolved (incident_stats_of t a c d) = st_resolved (incident_stats_of t a b d) + st_resolved (incident_stats_of t b c d)"
    "st_reopened (incident_stats_of t a c d) = st_reopened (incident_stats_of t a b d) + st_reopened (incident_stats_of t b c d)"
    using ab bc by (auto simp: incident_stats_of_def Let_def in_period_def intro!: splits split: option.split)
  have k: "st_opened (ticket_stats_of t a c d) = st_opened (ticket_stats_of t a b d) + st_opened (ticket_stats_of t b c d)"
    "st_tickets_resolved (ticket_stats_of t a c d)
       = st_tickets_resolved (ticket_stats_of t a b d) + st_tickets_resolved (ticket_stats_of t b c d)"
    using ab bc by (auto simp: ticket_stats_of_def in_period_def intro!: splits)
  have v: "st_policy_denials (security_stats_of t a c d)
       = st_policy_denials (security_stats_of t a b d) + st_policy_denials (security_stats_of t b c d)"
    "st_approval_denials (security_stats_of t a c d)
       = st_approval_denials (security_stats_of t a b d) + st_approval_denials (security_stats_of t b c d)"
    using ab bc by (auto simp: security_stats_of_def Let_def in_period_def intro!: splits)
  note m = remediation_add [OF ab bc, of t d] remediation_failed [of t a b d] remediation_failed [of t b c d]
    remediation_failed [of t a c d]
  have parts: "rp_incidents r1 = incident_stats_of t a b d" "rp_incidents r2 = incident_stats_of t b c d"
    "rp_incidents r = incident_stats_of t a c d" "rp_tickets r1 = ticket_stats_of t a b d"
    "rp_tickets r2 = ticket_stats_of t b c d" "rp_tickets r = ticket_stats_of t a c d"
    "rp_remediation r1 = remediation_stats_of t a b d" "rp_remediation r2 = remediation_stats_of t b c d"
    "rp_remediation r = remediation_stats_of t a c d" "rp_approvals r1 = approval_stats_of t a b d"
    "rp_approvals r2 = approval_stats_of t b c d" "rp_approvals r = approval_stats_of t a c d"
    "rp_security r1 = security_stats_of t a b d" "rp_security r2 = security_stats_of t b c d"
    "rp_security r = security_stats_of t a c d"
    using r1 r2 r by (auto simp: build_report_def split: if_splits)
  show ?thesis unfolding parts using i k v m approvals_add [OF ab bc, of t d] by simp
qed

definition denied_row :: "time \<Rightarrow> Action" where
  "denied_row s = \<lparr>at_id = ''a'', at_tenant_id = ''t'', at_device_id = ''d'', at_ticket_id = None, at_skill_id = ''s'',
     at_requested_by = ''u'', at_parameters = [], at_device_os = ''linux'', at_risk = ''low'', at_status = ''denied'',
     at_approved_by = None, at_claim_token_hash = None, at_claimed_at = None, at_lease_expires_at = None, at_attempt = 0,
     at_created_at = s, at_updated_at = s\<rparr>"

definition denied_db :: db where
  "denied_db = empty_db\<lparr>actions := [denied_row 5, denied_row 15]\<rparr>"

theorem report_periods_add_witness:
  "\<exists>r. build_report 50 ''t'' 0 20 denied_db = Inr r \<and> st_policy_denials (rp_security r) = 1 + 1"
proof -
  obtain r1 r2 r where b: "build_report 50 ''t'' 0 10 denied_db = Inr r1" "build_report 50 ''t'' 10 20 denied_db = Inr r2"
    "build_report 50 ''t'' 0 20 denied_db = Inr r" by (simp add: build_report_def)
  then have "st_policy_denials (rp_security r1) = 1" "st_policy_denials (rp_security r2) = 1"
    by (auto simp: build_report_def security_stats_of_def denied_db_def denied_row_def empty_db_def count_rows_def in_period_def)
  with report_periods_add [OF b] b(3) show ?thesis by simp
qed

lemma count_rows_mono: "(\<And>x. P x \<Longrightarrow> Q x) \<Longrightarrow> count_rows f t P xs \<le> count_rows f t Q xs"
  unfolding count_rows_def by (induction xs) auto

lemma filter_length_mono: "(\<And>x. P x \<Longrightarrow> Q x) \<Longrightarrow> length (filter P xs) \<le> length (filter Q xs)"
  by (induction xs) auto

lemma order_by_sort: "order_by k xs = sort_key k xs"
proof -
  have "insert_by k = insort_key k"
  proof (intro ext)
    fix r ys
    show "insert_by k r ys = insort_key k r ys" by (induction ys) auto
  qed
  then show ?thesis by (simp add: order_by_def sort_key_def)
qed

lemma order_desc_sorted: "sorted_wrt (\<lambda>i j. k i \<ge> k j) (order_desc k xs)"
  using sorted_sort_key [of "\<lambda>r. - k r" xs] by (simp add: order_desc_def order_by_sort sorted_map)

lemma recurring_ok:
  "length (recurring_incidents t n d) \<le> n"
  "sorted_wrt (\<lambda>i j. ic_occurrence_count i \<ge> ic_occurrence_count j) (recurring_incidents t n d)"
  "i \<in> set (recurring_incidents t n d) \<Longrightarrow> ic_occurrence_count i > 1 \<and> ic_tenant_id i = t"
  by (simp_all add: recurring_incidents_def order_desc_sorted)
    (auto simp: order_desc_def order_by_sort dest!: in_set_takeD)

lemma remediation_bounds:
  "st_rollback_succeeded (remediation_stats_of t s e d) \<le> st_rollback_attempted (remediation_stats_of t s e d)"
  "st_rollback_attempted (remediation_stats_of t s e d) \<le> st_attempts (remediation_stats_of t s e d)"
  "case st_success_rate (remediation_stats_of t s e d) of None \<Rightarrow> st_attempts (remediation_stats_of t s e d) = 0
     | Some q \<Rightarrow> 0 \<le> q \<and> q \<le> 1"
  by (auto simp: remediation_stats_of_def Let_def divide_le_eq_1 simp del: filter_filter intro!: filter_length_mono)

lemma devices_partition: "st_online (device_stats_of now t d) + st_offline (device_stats_of now t d) = st_total (device_stats_of now t d)"
  using count_rows_mono [of "\<lambda>r. dv_active r \<and> online now r" dv_active dv_tenant_id t "devices d"]
  by (simp add: device_stats_of_def Let_def)

text \<open>
  The figures of a report agree: attempts are successes plus failures, rollbacks that succeeded were
  attempted, the success rate is between 0 and 1 and absent only without attempts, devices are online or offline,
  and at most ten incidents of the tenant, each seen more than once, are listed, most often seen first.
\<close>

theorem report_coherent:
  assumes "build_report now t s e d = Inr r"
  shows "st_succeeded (rp_remediation r) + st_failed (rp_remediation r) = st_attempts (rp_remediation r)
     \<and> st_rollback_succeeded (rp_remediation r) \<le> st_rollback_attempted (rp_remediation r)
     \<and> st_rollback_attempted (rp_remediation r) \<le> st_attempts (rp_remediation r)
     \<and> (case st_success_rate (rp_remediation r) of None \<Rightarrow> st_attempts (rp_remediation r) = 0 | Some q \<Rightarrow> 0 \<le> q \<and> q \<le> 1)
     \<and> st_online (rp_devices r) + st_offline (rp_devices r) = st_total (rp_devices r)
     \<and> length (rp_recurring r) \<le> 10
     \<and> sorted_wrt (\<lambda>i j. ic_occurrence_count i \<ge> ic_occurrence_count j) (rp_recurring r)
     \<and> (\<forall>i \<in> set (rp_recurring r). ic_occurrence_count i > 1 \<and> ic_tenant_id i = t)"
proof -
  from assms have r: "rp_remediation r = remediation_stats_of t s e d" "rp_devices r = device_stats_of now t d"
    "rp_recurring r = recurring_incidents t 10 d"
    by (auto simp: build_report_def split: if_splits)
  show ?thesis unfolding r
    using remediation_failed [of t s e d] remediation_bounds [of t s e d] devices_partition [of now t d]
      recurring_ok(1,2) [of t 10 d] recurring_ok(3) [of _ t 10 d] by (simp add: add.commute)
qed

theorem report_coherent_witness:
  "\<exists>r. build_report 50 ''t'' 0 20 denied_db = Inr r \<and> st_success_rate (rp_remediation r) = None \<and> length (rp_recurring r) \<le> 10"
proof -
  obtain r where b: "build_report 50 ''t'' 0 20 denied_db = Inr r" by (simp add: build_report_def)
  then have "st_success_rate (rp_remediation r) = None"
    by (auto simp: build_report_def remediation_stats_of_def denied_db_def empty_db_def)
  with report_coherent [OF b] b show ?thesis by blast
qed

section \<open>The gauges\<close>

text \<open>
  A label is set exactly when a row has it, to the number of such rows, so that the values of a gauge
  add up to the number of rows counted.
\<close>

lemma count_by_exact:
  "distinct (map fst (count_by key rows))" "set (map fst (count_by key rows)) = key ` set rows"
  "map_of (count_by key rows) k = (if k \<in> key ` set rows then Some (length (filter (\<lambda>r. key r = k) rows)) else None)"
  "sum_list (map snd (count_by key rows)) = length rows"
proof -
  have m: "map fst (count_by key rows) = remdups (map key rows)" by (simp add: count_by_def comp_def)
  then show "distinct (map fst (count_by key rows))" and "set (map fst (count_by key rows)) = key ` set rows" by simp_all
  show "map_of (count_by key rows) k = (if k \<in> key ` set rows then Some (length (filter (\<lambda>r. key r = k) rows)) else None)"
    by (auto simp: count_by_def map_of_eq_None_iff comp_def map_of_map_restrict restrict_map_def)
  have "sum_list (map snd (count_by key rows)) = (\<Sum>k \<in> set (map key rows). length (filter (\<lambda>r. key r = k) rows))"
    by (simp add: count_by_def comp_def sum_list_distinct_conv_sum_set)
  also have "\<dots> = (\<Sum>k \<in> set (map key rows). count_list (map key rows) k)"
    by (rule sum.cong) (auto simp: count_list_eq_length_filter filter_map comp_def eq_commute)
  also have "\<dots> = length rows" using sum_count_set [of "map key rows" "set (map key rows)"] by simp
  finally show "sum_list (map snd (count_by key rows)) = length rows" .
qed

end
