(* ===== verification/Workers.thy ===== *)
theory Workers
  imports Retention Webhooks Connectors Reporting
begin

text \<open>
  The background processes (\<open>main\<close> of \<open>helpdesktool/lease_reaper.py\<close>, \<open>helpdesktool/webhook_worker.py\<close>,
  \<open>helpdesktool/retention_worker.py\<close> and \<open>helpdesktool/connector_request_reaper.py\<close>): one iteration is a batch and
  the heartbeat that reports it, each committed on its own, then a pause.  An exception may interrupt
  either; what was not committed is rolled back when the session is closed.  The locale states what the
  loop needs of a batch; the result is what the metrics then show of a worker.
\<close>

section \<open>One iteration\<close>

datatype interruption = Uninterrupted | In_batch | In_heartbeat

record background_worker =
  wk_name :: string
  wk_batch :: "time \<Rightarrow> db \<Rightarrow> nat \<times> db"
  wk_pause :: "nat \<Rightarrow> rat"
  wk_failed_pause :: rat

definition worker_iteration :: "background_worker \<Rightarrow> time \<Rightarrow> interruption \<Rightarrow> db \<Rightarrow> rat \<times> db" where
  "worker_iteration w now stopped d =
     (let (processed, d1) = wk_batch w now d in
      case stopped of
        In_batch \<Rightarrow> (wk_failed_pause w, d)
      | In_heartbeat \<Rightarrow> (wk_failed_pause w, d1)
      | Uninterrupted \<Rightarrow> (wk_pause w processed, record_worker_heartbeat now (wk_name w) (int processed) d1))"

definition lease_reaper_main :: "server \<Rightarrow> background_worker" where
  "lease_reaper_main sv =
     \<lparr>wk_name = ''lease_reaper'', wk_batch = \<lambda>now. process_batch sv now 50,
      wk_pause = \<lambda>n. if n = 0 then lease_reaper_poll_seconds (sv_settings sv) else 0, wk_failed_pause = 5\<rparr>"

definition webhook_worker_main :: "server \<Rightarrow> (string \<Rightarrow> string option) \<Rightarrow> (time \<Rightarrow> nat \<Rightarrow> webhook_net) \<Rightarrow> background_worker" where
  "webhook_worker_main sv env nets =
     \<lparr>wk_name = ''webhook_worker'',
      wk_batch = \<lambda>now d. map_prod id snd (webhook_batch sv env (nets now) now 50 d),
      wk_pause = \<lambda>n. if n = 0 then 2 else 0, wk_failed_pause = 5\<rparr>"

definition retention_worker_main :: "server \<Rightarrow> background_worker" where
  "retention_worker_main sv =
     \<lparr>wk_name = ''retention_worker'', wk_batch = retention_batch sv,
      wk_pause = \<lambda>_. retention_worker_poll_seconds (sv_settings sv),
      wk_failed_pause = retention_worker_poll_seconds (sv_settings sv)\<rparr>"

definition connector_request_reaper_main :: "server \<Rightarrow> background_worker" where
  "connector_request_reaper_main sv =
     \<lparr>wk_name = ''connector_request_reaper'', wk_batch = \<lambda>now. reap_batch sv now 50,
      wk_pause = \<lambda>n. if n = 0 then connector_request_reaper_poll_seconds (sv_settings sv) else 0, wk_failed_pause = 5\<rparr>"

lemmas worker_mains = lease_reaper_main_def webhook_worker_main_def retention_worker_main_def connector_request_reaper_main_def

section \<open>What a batch promises the loop\<close>

definition beats :: "string \<Rightarrow> db \<Rightarrow> WorkerHeartbeatRow list" where
  "beats worker_name d = filter (\<lambda>r. wh_worker_name r = worker_name) (worker_heartbeats d)"

definition beats_keyed :: "db \<Rightarrow> bool" where
  "beats_keyed d \<longleftrightarrow> distinct (map wh_worker_name (worker_heartbeats d))"

lemma record_worker_heartbeat_beats:
  assumes "beats_keyed d"
  shows "beats_keyed (record_worker_heartbeat now n k d)"
    and "beats n (record_worker_heartbeat now n k d)
      = [\<lparr>wh_worker_name = n, wh_last_heartbeat_at = now, wh_last_batch_size = k\<rparr>]"
    and "m \<noteq> n \<Longrightarrow> beats m (record_worker_heartbeat now n k d) = beats m d"
proof -
  have ids: "map wh_worker_name (update_where (\<lambda>w. wh_worker_name w = n)
      (\<lambda>w. w\<lparr>wh_last_heartbeat_at := now, wh_last_batch_size := k\<rparr>) (worker_heartbeats d))
      = map wh_worker_name (worker_heartbeats d)" by (rule map_update_where_id) simp
  from assms ids show "beats_keyed (record_worker_heartbeat now n k d)"
    by (auto simp: beats_keyed_def record_worker_heartbeat_def scalar_None_iff)
  have one: "filter (\<lambda>r. wh_worker_name r = n) (update_where (\<lambda>w. wh_worker_name w = n)
      (\<lambda>w. w\<lparr>wh_last_heartbeat_at := now, wh_last_batch_size := k\<rparr>) rows)
      = [\<lparr>wh_worker_name = n, wh_last_heartbeat_at = now, wh_last_batch_size = k\<rparr>]"
    if "distinct (map wh_worker_name rows)" and "\<exists>r \<in> set rows. wh_worker_name r = n" for rows
    using that
  proof (induction rows)
    case (Cons r rows)
    show ?case
    proof (cases "wh_worker_name r = n")
      case True
      with Cons.prems(1) have "n \<notin> wh_worker_name ` set rows" by auto
      then have "\<forall>q \<in> set rows. wh_worker_name q \<noteq> n" by auto
      with True show ?thesis by (cases r) (simp add: row_simps update_where_none filter_empty_conv)
    next
      case False
      with Cons show ?thesis by (auto simp: row_simps)
    qed
  qed simp
  show "beats n (record_worker_heartbeat now n k d)
      = [\<lparr>wh_worker_name = n, wh_last_heartbeat_at = now, wh_last_batch_size = k\<rparr>]"
    using one [of "worker_heartbeats d"] assms
    by (auto simp: beats_def beats_keyed_def record_worker_heartbeat_def scalar_None_iff filter_empty_conv)
  assume "m \<noteq> n"
  then show "beats m (record_worker_heartbeat now n k d) = beats m d"
    by (simp add: beats_def record_worker_heartbeat_def filter_update_where_other)
qed

locale worker =
  fixes w :: background_worker
  assumes batch_keeps_beats: "worker_heartbeats (snd (wk_batch w now d)) = worker_heartbeats d"
begin

lemma beats_of_batch: "beats n (snd (wk_batch w now d)) = beats n d" "beats_keyed (snd (wk_batch w now d)) = beats_keyed d"
  by (simp_all add: beats_def beats_keyed_def batch_keeps_beats)

lemma iteration_beats:
  assumes "beats_keyed d"
  shows "beats_keyed (snd (worker_iteration w now stopped d))"
    and "beats (wk_name w) (snd (worker_iteration w now stopped d)) =
      (if stopped = Uninterrupted
       then [\<lparr>wh_worker_name = wk_name w, wh_last_heartbeat_at = now, wh_last_batch_size = int (fst (wk_batch w now d))\<rparr>]
       else beats (wk_name w) d)"
    and "m \<noteq> wk_name w \<Longrightarrow> beats m (snd (worker_iteration w now stopped d)) = beats m d"
  using assms beats_of_batch record_worker_heartbeat_beats [of "snd (wk_batch w now d)"]
  by (auto simp: worker_iteration_def case_prod_beta split: interruption.split)

end

lemma fold_frame: "(\<And>r d. f (g r d) = f d) \<Longrightarrow> f (fold g rs d) = f d"
  by (induction rs arbitrary: d) simp_all

lemma reap_beats: "worker_heartbeats (reap sv now r d) = worker_heartbeats d"
  by (simp add: reap_def sql_append_def publish_rest Let_def split: option.split)

interpretation reaper: worker "lease_reaper_main sv" for sv
  by unfold_locales (simp add: lease_reaper_main_def process_batch_def Let_def fold_frame reap_beats)

lemma deliver_each_beats: "worker_heartbeats (snd (deliver_each sv env nets now rs d)) = worker_heartbeats d"
  by (induction rs arbitrary: nets d) (simp_all add: deliver_each_Cons case_prod_beta put_delivery_def del: deliver_each.simps(2))

interpretation webhooks: worker "webhook_worker_main sv env nets" for sv env nets
  by unfold_locales (simp add: webhook_worker_main_def webhook_batch_def Let_def deliver_each_beats)

interpretation retention: worker "retention_worker_main sv" for sv
  by unfold_locales (simp add: retention_worker_main_def retention_batch_def Let_def case_prod_beta)

interpretation requests: worker "connector_request_reaper_main sv" for sv
  by unfold_locales (simp add: connector_request_reaper_main_def reap_batch_def Let_def fold_frame reap_request_def put_request_def)

section \<open>What the metrics show\<close>

definition reported_ages :: "string \<Rightarrow> time \<Rightarrow> db \<Rightarrow> int list" where
  "reported_ages n t d = map snd (filter (\<lambda>(m, _). m = n) (WORKER_HEARTBEAT_AGE_SECONDS (refresh_business_metrics t d)))"

lemma reported_ages_beats: "reported_ages n t d = map (\<lambda>r. t - wh_last_heartbeat_at r) (beats n d)"
  by (simp add: reported_ages_def beats_def refresh_business_metrics_def filter_map comp_def Let_def)

definition platform_workers :: "server \<Rightarrow> (string \<Rightarrow> string option) \<Rightarrow> (time \<Rightarrow> nat \<Rightarrow> webhook_net) \<Rightarrow> background_worker set" where
  "platform_workers sv env nets =
     {lease_reaper_main sv, webhook_worker_main sv env nets, retention_worker_main sv, connector_request_reaper_main sv}"

text \<open>
  C38.  A silent worker shows.  After an iteration of any of the four background processes that ran through, the metrics report one
  age for it, the time since then; after an iteration that was interrupted they report what they
  reported before, so that its age goes on growing; and the ages of the others are not touched.
\<close>

theorem worker_health_observable:
  assumes "w \<in> platform_workers sv env nets" and "beats_keyed d"
  shows "reported_ages (wk_name w) t (snd (worker_iteration w now stopped d)) =
      (if stopped = Uninterrupted then [t - now] else reported_ages (wk_name w) t d)
    \<and> (m \<noteq> wk_name w \<longrightarrow> reported_ages m t (snd (worker_iteration w now stopped d)) = reported_ages m t d)
    \<and> beats_keyed (snd (worker_iteration w now stopped d))"
  using assms reaper.iteration_beats [OF assms(2)] webhooks.iteration_beats [OF assms(2)]
    retention.iteration_beats [OF assms(2)] requests.iteration_beats [OF assms(2)]
  by (auto simp: platform_workers_def reported_ages_beats)

theorem worker_health_observable_witness:
  "reported_ages ''retention_worker'' 130 (snd (worker_iteration (retention_worker_main demo_server) 100 Uninterrupted empty_db)) = [30]"
  using worker_health_observable [of "retention_worker_main demo_server" demo_server "\<lambda>_. None" undefined empty_db 130 100
      Uninterrupted]
  by (simp add: platform_workers_def beats_keyed_def empty_db_def retention_worker_main_def)

end
