(* ===== verification/Channels.thy ===== *)
theory Channels
  imports Conversations Webhooks
begin

text \<open>
  Chat channels (\<open>helpdesktool/channels\<close> and the channel handlers of \<open>helpdesktool/api.py\<close>): linking a
  workspace and the identities in it, and the inbound events of Slack, Google Chat and Teams.  The
  check of a Google or Bot Framework token is the work of the JWT package and a parameter; Slack's
  signature is checked here.  The results: an event is acted on only if it is authentic and only
  for the user linked to its sender, and a redelivered event is answered without acting again.
\<close>

section \<open>Links\<close>

definition workspace_link_json :: "server \<Rightarrow> ChannelWorkspaceLink \<Rightarrow> dict" where
  "workspace_link_json sv r =
     [(''id'', JStr (wl_id r)), (''channel'', JStr (wl_channel r)), (''workspace_id'', JStr (wl_workspace_id r)),
      (''signing_secret_ref'', JStr (wl_signing_secret_ref r)), (''active'', JBool (wl_active r)),
      (''created_by'', JStr (wl_created_by r)), (''created_at'', iso sv (wl_created_at r))]"

record ChannelWorkspaceLinkCreate =
  wlc_channel :: string
  wlc_workspace_id :: string
  wlc_signing_secret_ref :: string

definition create_channel_workspace_link ::
  "server \<Rightarrow> time \<Rightarrow> Principal \<Rightarrow> ChannelWorkspaceLinkCreate \<Rightarrow> db \<Rightarrow> (dict \<times> db) http" where
  "create_channel_workspace_link sv now p b d =
     (let (row_id, d1) = new_id sv d;
          row = \<lparr>wl_id = row_id, wl_tenant_id = pr_tenant_id p, wl_channel = wlc_channel b,
                 wl_workspace_id = wlc_workspace_id b, wl_signing_secret_ref = wlc_signing_secret_ref b, wl_active = True,
                 wl_created_by = pr_actor_id p, wl_created_at = now\<rparr>
      in if \<exists>l \<in> set (channel_workspace_links d). wl_channel l = wlc_channel b \<and> wl_workspace_id l = wlc_workspace_id b
         then Inl (HTTPException 409 ''this workspace is already linked to a tenant'')
         else Inr (workspace_link_json sv row,
                audit sv now (pr_tenant_id p) row_id ''channel_workspace_link.registered'' (pr_actor_id p)
                  [(''channel'', JStr (wl_channel row)), (''workspace_id'', JStr (wl_workspace_id row))]
                  (d1\<lparr>channel_workspace_links := channel_workspace_links d1 @ [row]\<rparr>)))"

definition list_channel_workspace_links :: "server \<Rightarrow> Principal \<Rightarrow> db \<Rightarrow> dict list" where
  "list_channel_workspace_links sv p d =
     map (workspace_link_json sv) (filter (\<lambda>r. wl_tenant_id r = pr_tenant_id p) (channel_workspace_links d))"

definition identity_link_json :: "server \<Rightarrow> ChannelIdentityLink \<Rightarrow> dict" where
  "identity_link_json sv r =
     [(''id'', JStr (il_id r)), (''channel'', JStr (il_channel r)), (''provider_user_id'', JStr (il_provider_user_id r)),
      (''user_id'', JStr (il_user_id r)), (''created_by'', JStr (il_created_by r)), (''created_at'', iso sv (il_created_at r))]"

record ChannelIdentityLinkCreate =
  ilc_channel :: string
  ilc_provider_user_id :: string
  ilc_user_id :: string

definition create_channel_identity_link ::
  "server \<Rightarrow> time \<Rightarrow> Principal \<Rightarrow> ChannelIdentityLinkCreate \<Rightarrow> db \<Rightarrow> (dict \<times> db) http" where
  "create_channel_identity_link sv now p b d =
     (case tenant_row us_id us_tenant_id (users d) (ilc_user_id b) (pr_tenant_id p) of
        Inl e \<Rightarrow> Inl e
      | Inr _ \<Rightarrow>
          let (row_id, d1) = new_id sv d;
              row = \<lparr>il_id = row_id, il_tenant_id = pr_tenant_id p, il_channel = ilc_channel b,
                     il_provider_user_id = ilc_provider_user_id b, il_user_id = ilc_user_id b,
                     il_created_by = pr_actor_id p, il_created_at = now\<rparr>
          in if \<exists>l \<in> set (channel_identity_links d). il_tenant_id l = pr_tenant_id p \<and> il_channel l = ilc_channel b
                  \<and> il_provider_user_id l = ilc_provider_user_id b
             then Inl (HTTPException 409 ''this provider identity is already linked for this tenant'')
             else Inr (identity_link_json sv row,
                    audit sv now (pr_tenant_id p) row_id ''channel_identity_link.registered'' (pr_actor_id p)
                      [(''channel'', JStr (il_channel row)), (''provider_user_id'', JStr (il_provider_user_id row))]
                      (d1\<lparr>channel_identity_links := channel_identity_links d1 @ [row]\<rparr>)))"

definition list_channel_identity_links :: "server \<Rightarrow> Principal \<Rightarrow> db \<Rightarrow> dict list" where
  "list_channel_identity_links sv p d =
     map (identity_link_json sv) (filter (\<lambda>r. il_tenant_id r = pr_tenant_id p) (channel_identity_links d))"

section \<open>Payloads\<close>

text \<open>Python's truth value of a JSON value, \<open>v.get(k)\<close> of a value that may be no dictionary, and \<open>str(v)\<close>.\<close>

definition json_true :: "json \<Rightarrow> bool" where
  "json_true v = (case v of JNull \<Rightarrow> False | JBool b \<Rightarrow> b | JInt n \<Rightarrow> n \<noteq> 0 | JFloat q \<Rightarrow> q \<noteq> 0 | JStr s \<Rightarrow> s \<noteq> []
     | JList xs \<Rightarrow> xs \<noteq> [] | JObj kvs \<Rightarrow> kvs \<noteq> [])"

definition get_item :: "dict \<Rightarrow> string \<Rightarrow> json" where
  "get_item d k = (case dict_get d k of None \<Rightarrow> JNull | Some v \<Rightarrow> v)"

definition get_in :: "json \<Rightarrow> string \<Rightarrow> json" where
  "get_in v k = (case v of JObj d \<Rightarrow> get_item d k | _ \<Rightarrow> JNull)"

fun is_dict :: "json \<Rightarrow> bool" where
  "is_dict (JObj _) = True"
| "is_dict _ = False"

section \<open>Slack\<close>

definition MAX_TIMESTAMP_SKEW_SECONDS :: int where
  "MAX_TIMESTAMP_SKEW_SECONDS = 300"

definition slack_basestring :: "string \<Rightarrow> string \<Rightarrow> string" where
  "slack_basestring timestamp body = ''v0:'' @ utf8 timestamp @ '':'' @ body"

definition slack_signature :: "host \<Rightarrow> string \<Rightarrow> string \<Rightarrow> string \<Rightarrow> string" where
  "slack_signature h secret timestamp body = ''v0='' @ hmac_sha256_hex h (utf8 secret) (slack_basestring timestamp body)"

text \<open>
  \<open>ChannelSigningError\<close> is the \<open>ValueError\<close> of this function; \<open>hmac.compare_digest\<close> raises a
  \<open>TypeError\<close> for text with a character outside ASCII.
\<close>

definition verify_slack_signature :: "host \<Rightarrow> time \<Rightarrow> string \<Rightarrow> string \<Rightarrow> string \<Rightarrow> string \<Rightarrow> py_error + unit" where
  "verify_slack_signature h now secret timestamp body signature =
     (case parse_int timestamp of
        Inl _ \<Rightarrow> Inl (ValueError ''malformed X-Slack-Request-Timestamp'')
      | Inr ts \<Rightarrow>
          if \<bar>now - ts\<bar> > MAX_TIMESTAMP_SKEW_SECONDS
          then Inl (ValueError ''request timestamp is outside the allowed skew'')
          else if \<exists>c \<in> set signature. (of_char c :: nat) \<ge> 128
          then Inl (TypeError ''comparing strings with non-ASCII characters is not supported'')
          else if slack_signature h secret timestamp body \<noteq> signature then Inl (ValueError ''signature mismatch'')
          else Inr ())"

definition slack_secret_prefix :: string where
  "slack_secret_prefix = ''HELPDESK_SLACK_SIGNING_SECRET_''"

definition resolve_slack_signing_secret :: "(string \<Rightarrow> string option) \<Rightarrow> string \<Rightarrow> py_error + string" where
  "resolve_slack_signing_secret env reference =
     (if \<not> starts_with reference ''env:'' then Inl (ValueError ''unsupported signing secret reference'')
      else let name = remove_prefix reference ''env:'' in
        if \<not> starts_with name slack_secret_prefix
        then Inl (ValueError ''slack signing secret reference has invalid prefix'')
        else if \<not> truthy (env name) then Inl (ValueError ''slack signing secret is unavailable'')
        else Inr (the (env name)))"

record SlackEventEnvelope =
  se_event_id :: string
  se_team_id :: string
  se_user_id :: string
  se_channel_id :: string
  se_text :: string
  se_thread_ts :: json

definition parse_slack_event :: "host \<Rightarrow> dict \<Rightarrow> SlackEventEnvelope option" where
  "parse_slack_event h payload =
     (let event = get_item payload ''event''; user_id = get_in event ''user''; txt = get_in event ''text'';
          channel_id = get_in event ''channel''; event_id = get_item payload ''event_id''; team_id = get_item payload ''team_id''
      in if get_item payload ''type'' \<noteq> JStr ''event_callback'' then None
         else if \<not> is_dict event then None
         else if get_in event ''type'' \<noteq> JStr ''message'' then None
         else if json_true (get_in event ''bot_id'') \<or> get_in event ''subtype'' = JStr ''bot_message'' then None
         else if \<not> (json_true user_id \<and> json_true txt \<and> json_true channel_id \<and> json_true event_id \<and> json_true team_id)
         then None
         else Some \<lparr>se_event_id = py_str h event_id, se_team_id = py_str h team_id, se_user_id = py_str h user_id,
                    se_channel_id = py_str h channel_id, se_text = py_str h txt,
                    se_thread_ts = get_in event ''thread_ts''\<rparr>)"

section \<open>Google Chat and Teams\<close>

text \<open>\<open>authorization.removeprefix("Bearer ").strip()\<close>, when there is such a token.\<close>

definition bearer_token :: "string \<Rightarrow> py_error + string" where
  "bearer_token authorization =
     (if \<not> starts_with authorization ''Bearer '' then Inl (ValueError ''missing bearer token'')
      else let token = strip (remove_prefix authorization ''Bearer '') in
        if token = [] then Inl (ValueError ''missing bearer token'') else Inr token)"

text \<open>
  The token checks of the JWT package: for an audience (Google) or an application identifier
  (Teams) and a token, the text of the error or the claims of the token.
\<close>

type_synonym jwt_check = "string \<Rightarrow> string \<Rightarrow> string + dict"

definition verify_google_chat_request :: "jwt_check \<Rightarrow> string \<Rightarrow> string \<Rightarrow> py_error + unit" where
  "verify_google_chat_request check audience authorization =
     (case bearer_token authorization of
        Inl e \<Rightarrow> Inl e
      | Inr token \<Rightarrow> (case check audience token of Inl e \<Rightarrow> Inl (ValueError e) | Inr _ \<Rightarrow> Inr ()))"

record GoogleChatEventEnvelope =
  ge_event_id :: string
  ge_space_name :: string
  ge_user_name :: string
  ge_text :: string

definition parse_google_chat_event :: "host \<Rightarrow> dict \<Rightarrow> GoogleChatEventEnvelope option" where
  "parse_google_chat_event h payload =
     (let message = get_item payload ''message''; space = get_item payload ''space''; txt = get_in message ''text'';
          space_name = get_in space ''name''; user_name = get_in (get_in message ''sender'') ''name'';
          event_id = get_in message ''name''
      in if get_item payload ''type'' \<noteq> JStr ''MESSAGE'' then None
         else if \<not> is_dict message then None
         else if \<not> is_dict space then None
         else if \<not> (json_true txt \<and> json_true space_name \<and> json_true user_name \<and> json_true event_id) then None
         else Some \<lparr>ge_event_id = py_str h event_id, ge_space_name = py_str h space_name,
                    ge_user_name = py_str h user_name, ge_text = py_str h txt\<rparr>)"

definition build_google_chat_reply :: "string \<Rightarrow> dict" where
  "build_google_chat_reply t = [(''text'', JStr t)]"

definition rstrip_slash :: "string \<Rightarrow> string" where
  "rstrip_slash s = rev (dropWhile (\<lambda>c. c = CHR ''/'') (rev s))"

definition verify_teams_bot_framework_token :: "jwt_check \<Rightarrow> string \<Rightarrow> string \<Rightarrow> string option \<Rightarrow> py_error + unit" where
  "verify_teams_bot_framework_token check authorization app_id activity_service_url =
     (case bearer_token authorization of
        Inl e \<Rightarrow> Inl e
      | Inr token \<Rightarrow>
          (case check app_id token of
             Inl e \<Rightarrow> Inl (ValueError e)
           | Inr claims \<Rightarrow>
               (case (get_item claims ''serviceurl'', activity_service_url) of
                  (JStr claimed, Some url) \<Rightarrow>
                    if rstrip_slash claimed \<noteq> rstrip_slash url
                    then Inl (ValueError (''serviceUrl claim does not match the activity'' @ [CHR 0x27] @ ''s serviceUrl'')) else Inr ()
                | _ \<Rightarrow> Inr ())))"

record TeamsActivityEnvelope =
  te_activity_id :: string
  te_tenant_id :: string
  te_user_id :: string
  te_conversation_id :: string
  te_text :: string
  te_service_url :: string

definition parse_teams_activity :: "host \<Rightarrow> dict \<Rightarrow> TeamsActivityEnvelope option" where
  "parse_teams_activity h payload =
     (let txt = get_item payload ''text''; activity_id = get_item payload ''id''; service_url = get_item payload ''serviceUrl'';
          conversation_id = get_in (get_item payload ''conversation'') ''id''; sender = get_item payload ''from'';
          user_id = (if json_true (get_in sender ''aadObjectId'') then get_in sender ''aadObjectId'' else get_in sender ''id'');
          tenant_id = get_in (get_in (get_item payload ''channelData'') ''tenant'') ''id''
      in if get_item payload ''type'' \<noteq> JStr ''message'' then None
         else if \<not> (json_true txt \<and> json_true activity_id \<and> json_true service_url \<and> json_true conversation_id
                    \<and> json_true user_id \<and> json_true tenant_id) then None
         else Some \<lparr>te_activity_id = py_str h activity_id, te_tenant_id = py_str h tenant_id, te_user_id = py_str h user_id,
                    te_conversation_id = py_str h conversation_id, te_text = py_str h txt,
                    te_service_url = py_str h service_url\<rparr>)"

section \<open>Events\<close>

definition linked_user :: "string \<Rightarrow> string \<Rightarrow> string \<Rightarrow> db \<Rightarrow> User option" where
  "linked_user tenant_id channel provider_user_id d =
     (case scalar (\<lambda>l. il_tenant_id l = tenant_id \<and> il_channel l = channel \<and> il_provider_user_id l = provider_user_id)
             (channel_identity_links d) of
        None \<Rightarrow> None
      | Some l \<Rightarrow>
          (case scalar (\<lambda>u. us_id u = il_user_id l) (users d) of
             None \<Rightarrow> None | Some u \<Rightarrow> if us_active u then Some u else None))"

text \<open>The turn of an event, with the reply when its sender is linked to an active user.\<close>

definition channel_turn ::
  "server \<Rightarrow> (string list \<Rightarrow> string list) \<Rightarrow> time \<Rightarrow> ChannelWorkspaceLink \<Rightarrow> string \<Rightarrow> string \<Rightarrow> string \<Rightarrow> string \<Rightarrow> string \<Rightarrow> db
   \<Rightarrow> string option \<times> db" where
  "channel_turn sv iterate now link channel adapter provider_user_id thread message d =
     (case linked_user (wl_tenant_id link) channel provider_user_id d of
        None \<Rightarrow> (None, audit sv now (wl_tenant_id link) (wl_id link) ''channel_message.unresolved_identity'' adapter
                  [(''provider_user_id'', JStr provider_user_id), (''channel'', JStr channel)] d)
      | Some user \<Rightarrow>
          let (r, d1) = handle_message sv iterate now (wl_tenant_id link) user channel thread message None d
          in (Some (tr_reply r), d1))"

text \<open>A \<open>ChannelSigningError\<close> is answered with 401, any other exception with 500.\<close>

definition signing_error :: "py_error \<Rightarrow> http_error" where
  "signing_error e = (case e of ValueError t \<Rightarrow> HTTPException 401 t | _ \<Rightarrow> unhandled)"

text \<open>The response is \<open>None\<close> for 204 without a body.\<close>

definition slack_event ::
  "server \<Rightarrow> (string list \<Rightarrow> string list) \<Rightarrow> time \<Rightarrow> ChannelWorkspaceLink \<Rightarrow> dict \<Rightarrow> db \<Rightarrow> (dict option \<times> db) http" where
  "slack_event sv iterate now link payload d =
     (if get_item payload ''type'' = JStr ''url_verification''
      then Inr (Some [(''challenge'', case dict_get payload ''challenge'' of None \<Rightarrow> JStr [] | Some v \<Rightarrow> v)], d)
      else case parse_slack_event (sv_host sv) payload of
             None \<Rightarrow> Inr (None, d)
           | Some e \<Rightarrow>
               if se_team_id e \<noteq> wl_workspace_id link then Inl (HTTPException 401 ''workspace mismatch'')
               else (case idempotency_lookup sv (wl_tenant_id link) ''slack_event'' (se_event_id e) payload d of
                       Inl err \<Rightarrow> Inl err
                     | Inr (Some _) \<Rightarrow> Inr (None, d)
                     | Inr None \<Rightarrow>
                         Inr (None, remember sv now (wl_tenant_id link) ''slack_event'' (se_event_id e) payload [] 200
                           (snd (channel_turn sv iterate now link ''slack'' ''system:slack_adapter'' (se_user_id e)
                              (se_channel_id e) (se_text e) d)))))"

definition slack_events ::
  "server \<Rightarrow> (string \<Rightarrow> string option) \<Rightarrow> (string list \<Rightarrow> string list) \<Rightarrow> time \<Rightarrow> string \<Rightarrow> string \<Rightarrow> string \<Rightarrow> string \<Rightarrow> db
   \<Rightarrow> (dict option \<times> db) http" where
  "slack_events sv env iterate now link_id timestamp signature body d =
     (case scalar (\<lambda>l. wl_id l = link_id) (channel_workspace_links d) of
        None \<Rightarrow> Inl (HTTPException 404 ''unknown channel link'')
      | Some link \<Rightarrow>
          if \<not> wl_active link then Inl (HTTPException 404 ''unknown channel link'')
          else (case resolve_slack_signing_secret env (wl_signing_secret_ref link) of
                  Inl e \<Rightarrow> Inl (signing_error e)
                | Inr secret \<Rightarrow>
                    (case verify_slack_signature (sv_host sv) now secret timestamp body signature of
                       Inl e \<Rightarrow> Inl (signing_error e)
                     | Inr _ \<Rightarrow>
                         (case json_loads (sv_host sv) body of
                            Some (JObj payload) \<Rightarrow> slack_event sv iterate now link payload d
                          | _ \<Rightarrow> Inl unhandled))))"

definition unlinked_reply :: string where
  "unlinked_reply = ''I couldn'' @ [CHR 0x27] @ ''t match your Google Chat account to a Helpdesktool user. Please ask an administrator to link your account.''"

definition google_chat_events ::
  "server \<Rightarrow> jwt_check \<Rightarrow> (string list \<Rightarrow> string list) \<Rightarrow> time \<Rightarrow> string \<Rightarrow> string \<Rightarrow> string \<Rightarrow> db
   \<Rightarrow> (dict option \<times> db) http" where
  "google_chat_events sv check iterate now link_id authorization body d =
     (case scalar (\<lambda>l. wl_id l = link_id) (channel_workspace_links d) of
        None \<Rightarrow> Inl (HTTPException 404 ''unknown channel link'')
      | Some link \<Rightarrow>
          if \<not> wl_active link \<or> wl_channel link \<noteq> ''google_chat'' then Inl (HTTPException 404 ''unknown channel link'')
          else (case verify_google_chat_request check (wl_workspace_id link) authorization of
                  Inl e \<Rightarrow> Inl (signing_error e)
                | Inr _ \<Rightarrow>
                    (case json_loads (sv_host sv) body of
                       Some (JObj payload) \<Rightarrow>
                         (case parse_google_chat_event (sv_host sv) payload of
                            None \<Rightarrow> Inr (None, d)
                          | Some e \<Rightarrow>
                              (case idempotency_lookup sv (wl_tenant_id link) ''google_chat_event'' (ge_event_id e) payload d of
                                 Inl err \<Rightarrow> Inl err
                               | Inr (Some cached) \<Rightarrow> Inr (Some cached, d)
                               | Inr None \<Rightarrow>
                                   let (reply, d1) = channel_turn sv iterate now link ''google_chat'' ''system:google_chat_adapter''
                                                       (ge_user_name e) (ge_space_name e) (ge_text e) d;
                                       reply_body = build_google_chat_reply (case reply of None \<Rightarrow> unlinked_reply | Some t \<Rightarrow> t)
                                   in Inr (Some reply_body, remember sv now (wl_tenant_id link) ''google_chat_event''
                                             (ge_event_id e) payload reply_body 200 d1)))
                     | _ \<Rightarrow> Inl unhandled)))"

definition teams_event ::
  "server \<Rightarrow> (string list \<Rightarrow> string list) \<Rightarrow> time \<Rightarrow> ChannelWorkspaceLink \<Rightarrow> dict \<Rightarrow> db \<Rightarrow> (dict option \<times> db) http" where
  "teams_event sv iterate now link payload d =
     (case parse_teams_activity (sv_host sv) payload of
        None \<Rightarrow> Inr (None, d)
      | Some e \<Rightarrow>
          if te_tenant_id e \<noteq> wl_workspace_id link then Inl (HTTPException 401 ''workspace mismatch'')
          else (case idempotency_lookup sv (wl_tenant_id link) ''teams_event'' (te_activity_id e) payload d of
                  Inl err \<Rightarrow> Inl err
                | Inr (Some _) \<Rightarrow> Inr (None, d)
                | Inr None \<Rightarrow>
                    Inr (None, remember sv now (wl_tenant_id link) ''teams_event'' (te_activity_id e) payload [] 200
                      (snd (channel_turn sv iterate now link ''teams'' ''system:teams_adapter'' (te_user_id e)
                         (te_conversation_id e) (te_text e) d)))))"

definition teams_events ::
  "server \<Rightarrow> jwt_check \<Rightarrow> (string list \<Rightarrow> string list) \<Rightarrow> time \<Rightarrow> string \<Rightarrow> string \<Rightarrow> string \<Rightarrow> db
   \<Rightarrow> (dict option \<times> db) http" where
  "teams_events sv check iterate now link_id authorization body d =
     (case scalar (\<lambda>l. wl_id l = link_id) (channel_workspace_links d) of
        None \<Rightarrow> Inl (HTTPException 404 ''unknown channel link'')
      | Some link \<Rightarrow>
          if \<not> wl_active link \<or> wl_channel link \<noteq> ''teams'' then Inl (HTTPException 404 ''unknown channel link'')
          else (case json_loads (sv_host sv) body of
                  Some (JObj payload) \<Rightarrow>
                    if teams_bot_app_id (sv_settings sv) = [] then Inl (HTTPException 503 ''Teams channel is not configured'')
                    else (case verify_teams_bot_framework_token check authorization (teams_bot_app_id (sv_settings sv))
                                 (case get_item payload ''serviceUrl'' of JStr u \<Rightarrow> Some u | _ \<Rightarrow> None) of
                            Inl e \<Rightarrow> Inl (signing_error e)
                          | Inr _ \<Rightarrow> teams_event sv iterate now link payload d)
                | _ \<Rightarrow> Inl (HTTPException 400 ''malformed request body'')))"

section \<open>Authentic and once\<close>

text \<open>What a turn may do to connector requests: one request, of the linked user.\<close>

definition acts_for :: "ChannelWorkspaceLink \<Rightarrow> string \<Rightarrow> string \<Rightarrow> db \<Rightarrow> db \<Rightarrow> bool" where
  "acts_for link channel provider_user_id d d' \<longleftrightarrow>
     (case linked_user (wl_tenant_id link) channel provider_user_id d of
        None \<Rightarrow> connector_requests d' = connector_requests d \<and> conversation_messages d' = conversation_messages d
      | Some user \<Rightarrow> connector_requests d' = connector_requests d
          \<or> (\<exists>req. connector_requests d' = connector_requests d @ [req] \<and> cr_requested_by req = us_id user
               \<and> cr_target_email req = us_email user \<and> cr_tenant_id req = wl_tenant_id link))"

lemma channel_turn_acts_for:
  "acts_for link channel pid d (remember sv now' t sc k pl rs c (snd (channel_turn sv it now link channel ad pid th m d)))"
proof (cases "linked_user (wl_tenant_id link) channel pid d")
  case None
  then show ?thesis by (simp add: acts_for_def channel_turn_def)
next
  case (Some user)
  obtain r d' where h: "handle_message sv it now (wl_tenant_id link) user channel th m None d = (r, d')" by fastforce
  from message_requests_shape [OF h] Some h show ?thesis
    by (auto simp: acts_for_def channel_turn_def own_request_def new_request_def)
qed

lemma linked_userE:
  assumes "linked_user t ch pid d = Some u"
  obtains l where "l \<in> set (channel_identity_links d)" and "il_tenant_id l = t" and "il_channel l = ch"
    and "il_provider_user_id l = pid" and "us_id u = il_user_id l" and "us_active u" and "u \<in> set (users d)"
  using assms by (auto simp: linked_user_def split: option.splits if_splits dest!: scalar_SomeD)

lemma slack_event_changes:
  assumes "slack_event sv it now link payload d = Inr (res, d')" and "d' \<noteq> d"
  obtains e where "parse_slack_event (sv_host sv) payload = Some e" and "se_team_id e = wl_workspace_id link"
    and "idempotency_lookup sv (wl_tenant_id link) ''slack_event'' (se_event_id e) payload d = Inr None" and "res = None"
    and "d' = remember sv now (wl_tenant_id link) ''slack_event'' (se_event_id e) payload []
       200 (snd (channel_turn sv it now link ''slack'' ''system:slack_adapter'' (se_user_id e) (se_channel_id e) (se_text e) d))"
  using assms by (auto simp: slack_event_def split: if_splits option.splits sum.splits)

lemma slack_events_changes:
  assumes "slack_events sv env it now link_id timestamp signature body d = Inr (res, d')"
  obtains link secret ts payload where "scalar (\<lambda>l. wl_id l = link_id) (channel_workspace_links d) = Some link"
    and "wl_active link" and "resolve_slack_signing_secret env (wl_signing_secret_ref link) = Inr secret"
    and "signature = slack_signature (sv_host sv) secret timestamp body" and "parse_int timestamp = Inr ts"
    and "\<bar>now - ts\<bar> \<le> 300" and "json_loads (sv_host sv) body = Some (JObj payload)"
    and "slack_event sv it now link payload d = Inr (res, d')"
  using assms
  by (auto simp: slack_events_def verify_slack_signature_def MAX_TIMESTAMP_SKEW_SECONDS_def
      split: option.splits if_splits sum.splits json.splits)

text \<open>
  C18.  When a Slack event changes anything, its link is active, its signature is the HMAC of the
  timestamp and the body under the secret the link refers to, the timestamp is within 300 seconds
  of the clock, the payload is not a message of a bot and comes from the linked workspace; and the
  only connector request it may file is one for the account of the user linked to its sender.
\<close>

theorem slack_event_authentic:
  assumes "slack_events sv env it now link_id timestamp signature body d = Inr (res, d')" and "d' \<noteq> d"
  shows "\<exists>link secret ts payload e. link \<in> set (channel_workspace_links d) \<and> wl_id link = link_id \<and> wl_active link
     \<and> resolve_slack_signing_secret env (wl_signing_secret_ref link) = Inr secret
     \<and> signature = slack_signature (sv_host sv) secret timestamp body
     \<and> parse_int timestamp = Inr ts \<and> \<bar>now - ts\<bar> \<le> 300
     \<and> json_loads (sv_host sv) body = Some (JObj payload)
     \<and> \<not> json_true (get_in (get_item payload ''event'') ''bot_id'')
     \<and> parse_slack_event (sv_host sv) payload = Some e \<and> se_team_id e = wl_workspace_id link
     \<and> acts_for link ''slack'' (se_user_id e) d d'"
  using assms(1)
proof (cases rule: slack_events_changes)
  case (1 link secret ts payload)
  from 1(8) assms(2) obtain e where e: "parse_slack_event (sv_host sv) payload = Some e" "se_team_id e = wl_workspace_id link"
    and d': "d' = remember sv now (wl_tenant_id link) ''slack_event'' (se_event_id e) payload []
       200 (snd (channel_turn sv it now link ''slack'' ''system:slack_adapter'' (se_user_id e) (se_channel_id e) (se_text e) d))"
    by (rule slack_event_changes)
  have "acts_for link ''slack'' (se_user_id e) d d'" unfolding d' by (rule channel_turn_acts_for)
  moreover have "\<not> json_true (get_in (get_item payload ''event'') ''bot_id'')"
    using e(1) by (auto simp: parse_slack_event_def Let_def split: if_splits)
  moreover have "link \<in> set (channel_workspace_links d)" "wl_id link = link_id" using scalar_SomeD [OF 1(1)] by auto
  ultimately show ?thesis using 1(2-7) e by blast
qed

lemma lookup_grows:
  assumes "idempotency_lookup sv t s k p d = Inr (Some r)" and "idempotency_records later = idempotency_records d @ es"
  shows "idempotency_lookup sv t s k p later = Inr (Some r)"
  using assms by (auto simp: idempotency_lookup_def row_simps split: option.splits)

lemma turn_records:
  "idempotency_records (snd (open_conversation sv now t u ch th cid d)) = idempotency_records d"
  "idempotency_records (add_message sv now t c ro co i d) = idempotency_records d"
  "idempotency_records (snd (snd (snd (general_inquiry sv now t u m cv d)))) = idempotency_records d"
  "idempotency_records (snd (snd (snd (account_action sv now t u m cv ci d)))) = idempotency_records d"
  "channel_workspace_links (snd (open_conversation sv now t u ch th cid d)) = channel_workspace_links d"
  "channel_workspace_links (add_message sv now t c ro co i d) = channel_workspace_links d"
  "channel_workspace_links (snd (snd (snd (general_inquiry sv now t u m cv d)))) = channel_workspace_links d"
  "channel_workspace_links (snd (snd (snd (account_action sv now t u m cv ci d)))) = channel_workspace_links d"
  by (auto simp: open_conversation_def add_message_def add_ticket_def set_ticket_def general_inquiry_def
      account_action_def Let_def case_prod_beta split: option.splits)

lemma channel_turn_frame:
  "idempotency_records (snd (channel_turn sv it now link ch ad pid th m d)) = idempotency_records d"
  "channel_workspace_links (snd (channel_turn sv it now link ch ad pid th m d)) = channel_workspace_links d"
  by (auto simp: channel_turn_def handle_message_def case_prod_beta Let_def turn_records split: option.splits)

text \<open>
  A Slack event that changed something is answered without acting when Slack delivers it
  again: on any later database that still has the links and the idempotency records (and perhaps
  more of them), the same body with a signature that is valid at that time gives 204 and leaves the
  database as it is.
\<close>

theorem slack_event_once:
  assumes "slack_events sv env it now link_id timestamp signature body d = Inr (res, d1)" and "d1 \<noteq> d"
    and "channel_workspace_links d2 = channel_workspace_links d"
    and "idempotency_records d2 = idempotency_records d1 @ es"
    and "slack_events sv env it now2 link_id timestamp2 signature2 body d2 = Inr (res2, d3)"
  shows "res2 = None \<and> d3 = d2"
  using assms(1)
proof (cases rule: slack_events_changes)
  case first: (1 link secret ts payload)
  from first(8) assms(2) obtain e where e: "parse_slack_event (sv_host sv) payload = Some e"
    and lookup: "idempotency_lookup sv (wl_tenant_id link) ''slack_event'' (se_event_id e) payload d = Inr None"
    and d1: "d1 = remember sv now (wl_tenant_id link) ''slack_event'' (se_event_id e) payload []
       200 (snd (channel_turn sv it now link ''slack'' ''system:slack_adapter'' (se_user_id e) (se_channel_id e) (se_text e) d))"
    by (rule slack_event_changes)
  from lookup have "idempotency_lookup sv (wl_tenant_id link) ''slack_event'' (se_event_id e) payload
      (snd (channel_turn sv it now link ''slack'' ''system:slack_adapter'' (se_user_id e) (se_channel_id e) (se_text e) d)) = Inr None"
    by (simp add: lookup_None channel_turn_frame)
  from idem.hit [OF this] have "idempotency_lookup sv (wl_tenant_id link) ''slack_event'' (se_event_id e) payload d1 = Inr (Some [])"
    by (simp add: d1)
  from lookup_grows [OF this assms(4)]
  have hit: "idempotency_lookup sv (wl_tenant_id link) ''slack_event'' (se_event_id e) payload d2 = Inr (Some [])" .
  have event: "get_item payload ''type'' \<noteq> JStr ''url_verification''"
    using e by (auto simp: parse_slack_event_def Let_def split: if_splits)
  from assms(5) show ?thesis
  proof (cases rule: slack_events_changes)
    case (1 link2 secret2 ts2 payload2)
    with first assms(3) have "link2 = link" "payload2 = payload" by auto
    with 1(8) hit e event show ?thesis by (auto simp: slack_event_def split: if_splits)
  qed
qed

section \<open>An example\<close>

definition demo_link :: ChannelWorkspaceLink where
  "demo_link = \<lparr>wl_id = ''l'', wl_tenant_id = ''t'', wl_channel = ''slack'', wl_workspace_id = ''T1'',
     wl_signing_secret_ref = ''env:HELPDESK_SLACK_SIGNING_SECRET_A'', wl_active = True, wl_created_by = ''a'', wl_created_at = 0\<rparr>"

definition demo_slack :: db where
  "demo_slack = demo_chat\<lparr>channel_workspace_links := [demo_link],
     channel_identity_links := [\<lparr>il_id = ''i'', il_tenant_id = ''t'', il_channel = ''slack'', il_provider_user_id = ''U1'',
       il_user_id = ''u'', il_created_by = ''a'', il_created_at = 0\<rparr>]\<rparr>"

definition demo_payload :: dict where
  "demo_payload = [(''type'', JStr ''event_callback''), (''team_id'', JStr ''T1''), (''event_id'', JStr ''E1''),
     (''event'', JObj [(''type'', JStr ''message''), (''user'', JStr ''U1''), (''channel'', JStr ''C1''), (''text'', JStr ''hello'')])]"

definition slack_server :: server where
  "slack_server = demo_server\<lparr>sv_host := demo_host\<lparr>json_loads := \<lambda>_. Some (JObj demo_payload),
     hmac_sha256_hex := \<lambda>_ _. ''ab''\<rparr>\<rparr>"

definition slack_env :: "string \<Rightarrow> string option" where
  "slack_env name = (if name = ''HELPDESK_SLACK_SIGNING_SECRET_A'' then Some ''s'' else None)"

definition demo_slack_event :: "time \<Rightarrow> string \<Rightarrow> db \<Rightarrow> (dict option \<times> db) http" where
  "demo_slack_event now timestamp d = slack_events slack_server slack_env id now ''l'' timestamp ''v0=ab'' [] d"

lemma demo_verified: "verify_slack_signature (sv_host slack_server) 120 ''s'' ''100'' [] ''v0=ab'' = Inr ()"
  by code_simp

lemma demo_parsed: "parse_slack_event (sv_host slack_server) demo_payload
    = Some \<lparr>se_event_id = ''E1'', se_team_id = ''T1'', se_user_id = ''U1'', se_channel_id = ''C1'', se_text = ''hello'', se_thread_ts = JNull\<rparr>"
  by code_simp

lemma demo_event_processed:
  obtains d1 rec where "demo_slack_event 120 ''100'' demo_slack = Inr (None, d1)" and "channel_workspace_links d1 = [demo_link]"
    and "idempotency_records d1 = [rec]" and "ir_match ''t'' ''slack_event'' ''E1'' rec"
    and "ir_request_hash rec = payload_digest slack_server demo_payload"
proof -
  let ?turn = "snd (channel_turn slack_server id 120 demo_link ''slack'' ''system:slack_adapter'' ''U1'' ''C1'' ''hello'' demo_slack)"
  have host: "json_loads (sv_host slack_server) [] = Some (JObj demo_payload)" by (simp add: slack_server_def)
  have link: "channel_workspace_links demo_slack = [demo_link]" "idempotency_records demo_slack = []"
    by (simp_all add: demo_slack_def demo_chat_def empty_db_def)
  have secret: "resolve_slack_signing_secret slack_env (wl_signing_secret_ref demo_link) = Inr ''s''" by code_simp
  have ty: "get_item demo_payload ''type'' \<noteq> JStr ''url_verification''" by code_simp
  have e: "demo_slack_event 120 ''100'' demo_slack
      = Inr (None, remember slack_server 120 ''t'' ''slack_event'' ''E1'' demo_payload [] 200 ?turn)"
    using secret ty link
    by (simp add: demo_slack_event_def slack_events_def row_simps demo_verified host slack_event_def demo_parsed
        idempotency_lookup_def) (simp add: demo_link_def)
  show thesis
    by (rule that [OF e], simp add: channel_turn_frame link, simp add: channel_turn_frame link remember_def,
        simp add: ir_match_def, simp)
qed

lemma demo_redelivered:
  assumes "demo_slack_event 120 ''100'' demo_slack = Inr (None, d1)" and "channel_workspace_links d1 = [demo_link]"
    and "idempotency_records d1 = [r]" and "ir_match ''t'' ''slack_event'' ''E1'' r" and "ir_request_hash r = payload_digest slack_server demo_payload"
  shows "is_ok (demo_slack_event 120 ''100'' d1)"
proof -
  have host: "json_loads (sv_host slack_server) [] = Some (JObj demo_payload)" by (simp add: slack_server_def)
  have secret: "resolve_slack_signing_secret slack_env (wl_signing_secret_ref demo_link) = Inr ''s''" by code_simp
  have ty: "get_item demo_payload ''type'' \<noteq> JStr ''url_verification''" by code_simp
  have link: "wl_tenant_id demo_link = ''t''" "wl_workspace_id demo_link = ''T1''" "wl_id demo_link = ''l''" "wl_active demo_link"
    by (simp_all add: demo_link_def)
  show ?thesis
    using assms(2-5) secret ty link
    by (simp add: demo_slack_event_def slack_events_def row_simps demo_verified host slack_event_def demo_parsed
        idempotency_lookup_def)
qed

theorem slack_event_authentic_witness:
  "\<exists>d1 e. demo_slack_event 120 ''100'' demo_slack = Inr (None, d1)
     \<and> parse_slack_event (sv_host slack_server) demo_payload = Some e \<and> acts_for demo_link ''slack'' (se_user_id e) demo_slack d1"
proof (rule demo_event_processed)
  fix d1 rec assume p: "demo_slack_event 120 ''100'' demo_slack = Inr (None, d1)" "idempotency_records d1 = [rec]"
  then have "d1 \<noteq> demo_slack" by (auto simp: demo_slack_def demo_chat_def empty_db_def)
  from slack_event_authentic [OF p(1) [unfolded demo_slack_event_def] this]
  obtain link payload e where "link \<in> set (channel_workspace_links demo_slack)"
    and "json_loads (sv_host slack_server) [] = Some (JObj payload)"
    and "parse_slack_event (sv_host slack_server) payload = Some e" and "acts_for link ''slack'' (se_user_id e) demo_slack d1"
    by blast
  with p(1) show ?thesis by (auto simp: demo_slack_def slack_server_def)
qed

theorem slack_event_once_witness:
  "\<exists>d1. demo_slack_event 120 ''100'' demo_slack = Inr (None, d1) \<and> demo_slack_event 120 ''100'' d1 = Inr (None, d1)"
proof (rule demo_event_processed)
  fix d1 rec assume p: "demo_slack_event 120 ''100'' demo_slack = Inr (None, d1)" "channel_workspace_links d1 = [demo_link]"
    "idempotency_records d1 = [rec]" "ir_match ''t'' ''slack_event'' ''E1'' rec"
    "ir_request_hash rec = payload_digest slack_server demo_payload"
  then have n: "d1 \<noteq> demo_slack" by (auto simp: demo_slack_def demo_chat_def empty_db_def)
  have links: "channel_workspace_links d1 = channel_workspace_links demo_slack" using p(2) by (simp add: demo_slack_def)
  have "is_ok (demo_slack_event 120 ''100'' d1)"
    by (rule demo_redelivered [OF p])
  then obtain r d2 where q: "demo_slack_event 120 ''100'' d1 = Inr (r, d2)"
    by (cases "demo_slack_event 120 ''100'' d1") auto
  have "idempotency_records d1 = idempotency_records d1 @ []" by simp
  from slack_event_once [OF p(1) [unfolded demo_slack_event_def] n links this q [unfolded demo_slack_event_def]] p(1) q
  show ?thesis by auto
qed

end
