(* ===== verification/Baselines.thy ===== *)
theory Baselines
  imports Enrollment
begin

text \<open>
  Known-good configuration (\<open>helpdesktool/baseline.py\<close> and the \<open>/v1/baselines\<close> handlers of
  \<open>helpdesktool/api.py\<close>): the check of an entry, the resolution of a key by the precedence of
  scopes, and registering, listing and resolving the entries of a tenant.  The results: the
  resolution agrees with its reading as a sequence of tiers, and a resolved value is always one
  that the tenant itself declared.
\<close>

section \<open>Entries\<close>

text \<open>\<open>_PRECEDENCE\<close>; \<open>CURRENT_STATE\<close> has no entry.\<close>

fun PRECEDENCE :: "BaselineScope \<Rightarrow> nat option" where
  "PRECEDENCE DEVICE_BASELINE = Some 0"
| "PRECEDENCE USER_BASELINE = Some 1"
| "PRECEDENCE ORGANIZATIONAL_POLICY = Some 2"
| "PRECEDENCE GENERIC_BEST_PRACTICE = Some 3"
| "PRECEDENCE CURRENT_STATE = None"

record BaselineEntry =
  be_scope :: BaselineScope
  be_key :: string
  be_value :: json
  be_device_id :: "string option"
  be_user_id :: "string option"
  be_description :: string

text \<open>\<open>__post_init__\<close> on the scope as it is stored (a string) and the other fields.\<close>

definition BaselineEntry_init ::
  "string \<Rightarrow> string \<Rightarrow> json \<Rightarrow> string option \<Rightarrow> string option \<Rightarrow> string \<Rightarrow> py_error + BaselineEntry" where
  "BaselineEntry_init scope key v device_id user_id description =
     (case parse_BaselineScope scope of
        None \<Rightarrow> Inl (ValueError ''not a valid BaselineScope'')
      | Some s \<Rightarrow>
          if strip key = [] then Inl (ValueError ''key must not be empty'')
          else if s = DEVICE_BASELINE \<and> \<not> truthy device_id
          then Inl (ValueError ''a device_baseline entry must carry a device_id'')
          else if s = USER_BASELINE \<and> \<not> truthy user_id
          then Inl (ValueError ''a user_baseline entry must carry a user_id'')
          else if s \<in> {GENERIC_BEST_PRACTICE, ORGANIZATIONAL_POLICY, CURRENT_STATE}
               \<and> (truthy device_id \<or> truthy user_id)
          then Inl (ValueError (''a '' @ BaselineScope_value s @
                 '' entry must not carry a device_id/user_id -- it is not scoped to one device or user''))
          else Inr \<lparr>be_scope = s, be_key = key, be_value = v, be_device_id = device_id,
                    be_user_id = user_id, be_description = description\<rparr>)"

section \<open>Resolution\<close>

definition candidate :: "string \<Rightarrow> string option \<Rightarrow> string option \<Rightarrow> BaselineEntry \<Rightarrow> bool" where
  "candidate key device_id user_id e \<longleftrightarrow>
     be_key e = key \<and> be_scope e \<noteq> CURRENT_STATE
     \<and> (be_scope e \<noteq> DEVICE_BASELINE \<or> be_device_id e = device_id)
     \<and> (be_scope e \<noteq> USER_BASELINE \<or> be_user_id e = user_id)"

text \<open>\<open>min(candidates, key=lambda entry: _PRECEDENCE[entry.scope])\<close>: the first of the least.\<close>

definition resolve_known_good ::
  "BaselineEntry list \<Rightarrow> string \<Rightarrow> string option \<Rightarrow> string option \<Rightarrow> BaselineEntry option" where
  "resolve_known_good entries key device_id user_id =
     (let candidates = filter (candidate key device_id user_id) entries in
      if candidates = [] then None
      else Some (arg_min_list (\<lambda>e. the (PRECEDENCE (be_scope e))) candidates))"

section \<open>Handlers\<close>

definition baseline_json :: "server \<Rightarrow> OrganizationalBaselineRow \<Rightarrow> dict" where
  "baseline_json sv r =
     [(''id'', JStr (ob_id r)), (''scope'', JStr (ob_scope r)), (''key'', JStr (ob_key r)), (''value'', ob_value r),
      (''device_id'', opt_str (ob_device_id r)), (''user_id'', opt_str (ob_user_id r)),
      (''description'', JStr (ob_description r)), (''active'', JBool (ob_active r)),
      (''created_by'', JStr (ob_created_by r)), (''created_at'', iso sv (ob_created_at r))]"

record OrganizationalBaselineCreate =
  bc_scope :: BaselineScope
  bc_key :: string
  bc_value :: json
  bc_device_id :: "string option"
  bc_user_id :: "string option"
  bc_description :: string

definition of_tenant ::
  "('r \<Rightarrow> string) \<Rightarrow> ('r \<Rightarrow> string) \<Rightarrow> 'r list \<Rightarrow> string option \<Rightarrow> string \<Rightarrow> unit http" where
  "of_tenant rid rtenant rows row_id tenant_id =
     (case row_id of None \<Rightarrow> Inr () | Some i \<Rightarrow> map_sum id (\<lambda>_. ()) (tenant_row rid rtenant rows i tenant_id))"

definition create_organizational_baseline ::
  "server \<Rightarrow> time \<Rightarrow> Principal \<Rightarrow> OrganizationalBaselineCreate \<Rightarrow> db \<Rightarrow> (dict \<times> db) http" where
  "create_organizational_baseline sv now p b d =
     (case of_tenant dv_id dv_tenant_id (devices d) (bc_device_id b) (pr_tenant_id p) of
        Inl e \<Rightarrow> Inl e
      | Inr _ \<Rightarrow>
     (case of_tenant us_id us_tenant_id (users d) (bc_user_id b) (pr_tenant_id p) of
        Inl e \<Rightarrow> Inl e
      | Inr _ \<Rightarrow>
     (case BaselineEntry_init (BaselineScope_value (bc_scope b)) (bc_key b) (bc_value b) (bc_device_id b)
             (bc_user_id b) (bc_description b) of
        Inl (ValueError text) \<Rightarrow> Inl (HTTPException 422 text)
      | Inl _ \<Rightarrow> Inl unhandled
      | Inr _ \<Rightarrow>
          let (row_id, d1) = new_id sv d;
              row = \<lparr>ob_id = row_id, ob_tenant_id = pr_tenant_id p, ob_scope = BaselineScope_value (bc_scope b),
                     ob_key = bc_key b, ob_value = bc_value b, ob_device_id = bc_device_id b,
                     ob_user_id = bc_user_id b, ob_description = bc_description b, ob_active = True,
                     ob_created_by = pr_actor_id p, ob_created_at = now\<rparr>
          in Inr (baseline_json sv row,
               audit sv now (pr_tenant_id p) row_id ''baseline.registered'' (pr_actor_id p)
                 [(''scope'', JStr (ob_scope row)), (''key'', JStr (ob_key row))]
                 (d1\<lparr>organizational_baselines := organizational_baselines d1 @ [row]\<rparr>)))))"

definition list_organizational_baselines ::
  "server \<Rightarrow> Principal \<Rightarrow> string option \<Rightarrow> bool \<Rightarrow> db \<Rightarrow> dict list" where
  "list_organizational_baselines sv p key active_only d =
     map (baseline_json sv) (order_by ob_key
       (filter (\<lambda>r. ob_tenant_id r = pr_tenant_id p \<and> (key = None \<or> key = Some (ob_key r))
          \<and> (active_only \<longrightarrow> ob_active r)) (organizational_baselines d)))"

definition entry_of_row :: "OrganizationalBaselineRow \<Rightarrow> py_error + BaselineEntry" where
  "entry_of_row r = BaselineEntry_init (ob_scope r) (ob_key r) (ob_value r) (ob_device_id r) (ob_user_id r)
     (ob_description r)"

definition declared :: "Principal \<Rightarrow> string \<Rightarrow> db \<Rightarrow> OrganizationalBaselineRow list" where
  "declared p key d =
     filter (\<lambda>r. ob_tenant_id r = pr_tenant_id p \<and> ob_key r = key \<and> ob_active r) (organizational_baselines d)"

definition resolve_organizational_baseline ::
  "Principal \<Rightarrow> string \<Rightarrow> string option \<Rightarrow> string option \<Rightarrow> db \<Rightarrow> dict http" where
  "resolve_organizational_baseline p key device_id user_id d =
     (case traverse entry_of_row (declared p key d) of
        Inl _ \<Rightarrow> Inl unhandled
      | Inr entries \<Rightarrow>
          Inr [(''resolved'', case resolve_known_good entries key device_id user_id of
                  None \<Rightarrow> JNull
                | Some e \<Rightarrow> JObj
                    [(''scope'', JStr (BaselineScope_value (be_scope e))), (''key'', JStr (be_key e)),
                     (''value'', be_value e), (''device_id'', opt_str (be_device_id e)),
                     (''user_id'', opt_str (be_user_id e)), (''description'', JStr (be_description e))])])"

section \<open>The tiers\<close>

text \<open>
  The reference reading of the module's documentation, on its own terms: first what is declared under the key for
  the device, then for the user, then the organisation's policy, then the generic practice.
\<close>

fun first_some :: "'a option list \<Rightarrow> 'a option" where
  "first_some [] = None"
| "first_some (None # xs) = first_some xs"
| "first_some (Some x # xs) = Some x"

fun in_tier :: "BaselineScope \<Rightarrow> string \<Rightarrow> string option \<Rightarrow> string option \<Rightarrow> BaselineEntry \<Rightarrow> bool" where
  "in_tier DEVICE_BASELINE key device_id user_id e \<longleftrightarrow> be_scope e = DEVICE_BASELINE \<and> be_key e = key \<and> be_device_id e = device_id"
| "in_tier USER_BASELINE key device_id user_id e \<longleftrightarrow> be_scope e = USER_BASELINE \<and> be_key e = key \<and> be_user_id e = user_id"
| "in_tier s key device_id user_id e \<longleftrightarrow> be_scope e = s \<and> be_key e = key"

definition tiers :: "BaselineScope list" where
  "tiers = [DEVICE_BASELINE, USER_BASELINE, ORGANIZATIONAL_POLICY, GENERIC_BEST_PRACTICE]"

definition resolve_by_tiers ::
  "BaselineEntry list \<Rightarrow> string \<Rightarrow> string option \<Rightarrow> string option \<Rightarrow> BaselineEntry option" where
  "resolve_by_tiers entries key device_id user_id =
     first_some (map (\<lambda>s. List.find (in_tier s key device_id user_id) entries) tiers)"

lemma arg_min_list_first:
  "xs \<noteq> [] \<Longrightarrow> List.find (\<lambda>x. f x = f (arg_min_list f xs)) xs = Some (arg_min_list f xs)
     \<and> (\<forall>y \<in> set xs. f (arg_min_list f xs) \<le> f y)"
proof (induction f xs rule: arg_min_list.induct)
  case (2 f x y zs)
  let ?m = "arg_min_list f (y # zs)"
  from 2 have IH: "List.find (\<lambda>v. f v = f ?m) (y # zs) = Some ?m" "\<forall>v \<in> set (y # zs). f ?m \<le> f v"
    by blast+
  show ?case
  proof (cases "f x \<le> f ?m")
    case True
    with IH(2) show ?thesis by (auto simp: Let_def)
  next
    case False
    then have "arg_min_list f (x # y # zs) = ?m" by (simp add: Let_def)
    with False IH show ?thesis by auto
  qed
qed simp_all

lemma find_filter: "List.find P (filter Q xs) = List.find (\<lambda>x. P x \<and> Q x) xs"
  by (induction xs) auto

lemma candidate_rank:
  "candidate key device_id user_id e \<Longrightarrow> PRECEDENCE s \<noteq> None \<Longrightarrow>
     be_scope e = s \<longleftrightarrow> the (PRECEDENCE (be_scope e)) = the (PRECEDENCE s)"
  by (cases "be_scope e"; cases s) (auto simp: candidate_def)

lemma tier_candidate:
  "PRECEDENCE s \<noteq> None \<Longrightarrow> in_tier s key device_id user_id e \<longleftrightarrow> be_scope e = s \<and> candidate key device_id user_id e"
  by (cases s) (auto simp: candidate_def)

lemma tier_rank:
  assumes "PRECEDENCE s = Some k"
  shows "List.find (in_tier s key device_id user_id) entries
    = List.find (\<lambda>e. the (PRECEDENCE (be_scope e)) = k) (filter (candidate key device_id user_id) entries)"
proof -
  have "in_tier s key device_id user_id e \<longleftrightarrow> the (PRECEDENCE (be_scope e)) = k \<and> candidate key device_id user_id e" for e
    using candidate_rank [of key device_id user_id e s] tier_candidate [of s key device_id user_id e] assms by auto
  then have "in_tier s key device_id user_id = (\<lambda>e. the (PRECEDENCE (be_scope e)) = k \<and> candidate key device_id user_id e)" by blast
  then show ?thesis by (simp add: find_filter)
qed

lemma rank_small: "the (PRECEDENCE (be_scope e)) \<le> 3" if "candidate key device_id user_id e"
  using that by (cases "be_scope e") (auto simp: candidate_def)

lemma resolve_tiers: "resolve_known_good entries key device_id user_id = resolve_by_tiers entries key device_id user_id"
proof -
  let ?cs = "filter (candidate key device_id user_id) entries"
  let ?f = "\<lambda>e. the (PRECEDENCE (be_scope e))"
  let ?find = "\<lambda>k. List.find (\<lambda>e. ?f e = k) ?cs"
  have tiers: "resolve_by_tiers entries key device_id user_id = first_some [?find 0, ?find 1, ?find 2, ?find 3]"
    by (simp add: resolve_by_tiers_def tiers_def tier_rank)
  show ?thesis
  proof (cases "?cs = []")
    case True
    then show ?thesis by (simp add: tiers resolve_known_good_def)
  next
    case False
    let ?a = "arg_min_list ?f ?cs"
    from arg_min_list_first [OF False, of ?f]
    have a: "?find (?f ?a) = Some ?a" and least: "\<forall>y \<in> set ?cs. ?f ?a \<le> ?f y" by auto
    have none: "?find k = None" if "k < ?f ?a" for k
      using least that by (fastforce simp: find_None_iff)
    have "?a \<in> set ?cs" using False by (rule arg_min_list_in)
    then have "?f ?a \<le> 3" by (auto intro: rank_small)
    then have "?f ?a = 0 \<or> ?f ?a = 1 \<or> ?f ?a = 2 \<or> ?f ?a = 3" by linarith
    then have "first_some [?find 0, ?find 1, ?find 2, ?find 3] = Some ?a"
      using a none by (elim disjE) simp_all
    with False show ?thesis by (simp add: tiers resolve_known_good_def)
  qed
qed

section \<open>What a resolved value is\<close>

lemma resolve_Some:
  assumes "resolve_known_good entries key device_id user_id = Some e"
  shows "e \<in> set entries" and "candidate key device_id user_id e"
  using assms arg_min_list_in [of "filter (candidate key device_id user_id) entries"]
  by (fastforce simp: resolve_known_good_def Let_def split: if_splits)+

lemma parse_BaselineScope_Some: "parse_BaselineScope scope = Some m \<Longrightarrow> scope = BaselineScope_value m"
  by (auto simp: parse_BaselineScope_def find_Some_iff)

lemma entry_init_Inr:
  assumes "BaselineEntry_init scope key v device_id user_id description = Inr e"
  shows "scope = BaselineScope_value (be_scope e)" "be_key e = key" "be_value e = v" "be_device_id e = device_id"
    "be_user_id e = user_id" "be_scope e = DEVICE_BASELINE \<Longrightarrow> truthy device_id"
    "be_scope e = USER_BASELINE \<Longrightarrow> truthy user_id"
  using assms by (auto simp: BaselineEntry_init_def dest!: parse_BaselineScope_Some split: option.splits if_splits)

lemma entry_init_description: "BaselineEntry_init scope key v device_id user_id description = Inr e \<Longrightarrow> be_description e = description"
  by (auto simp: BaselineEntry_init_def split: option.splits if_splits)

lemma entry_loaded:
  assumes "entry_of_row r = Inr e"
  shows "ob_scope r = BaselineScope_value (be_scope e) \<and> be_key e = ob_key r \<and> be_value e = ob_value r
    \<and> be_device_id e = ob_device_id r \<and> be_user_id e = ob_user_id r \<and> be_description e = ob_description r"
  using entry_init_Inr(1-5) [OF assms [unfolded entry_of_row_def]] entry_init_description [OF assms [unfolded entry_of_row_def]] by simp

text \<open>A row and the entry it loads as are in the same tier.\<close>

definition row_in_tier :: "Principal \<Rightarrow> BaselineScope \<Rightarrow> string \<Rightarrow> string option \<Rightarrow> string option \<Rightarrow> OrganizationalBaselineRow \<Rightarrow> bool" where
  "row_in_tier p s key device_id user_id r \<longleftrightarrow>
     ob_tenant_id r = pr_tenant_id p \<and> ob_active r \<and> ob_key r = key \<and> ob_scope r = BaselineScope_value s
     \<and> (s = DEVICE_BASELINE \<longrightarrow> ob_device_id r = device_id) \<and> (s = USER_BASELINE \<longrightarrow> ob_user_id r = user_id)"

lemma find_loaded:
  assumes "traverse f rows = Inr es" and "\<And>r e. r \<in> set rows \<Longrightarrow> f r = Inr e \<Longrightarrow> P r \<longleftrightarrow> Q e"
  shows "rel_option (\<lambda>r e. f r = Inr e) (List.find P rows) (List.find Q es)"
  using assms by (induction rows arbitrary: es) (auto split: sum.splits)

lemma first_some_rel: "list_all2 (rel_option R) xs ys \<Longrightarrow> rel_option R (first_some xs) (first_some ys)"
proof (induction rule: list_all2_induct)
  case (Cons x xs y ys)
  then show ?case by (cases x; cases y) auto
qed simp

lemma first_some_in: "first_some xs = Some x \<Longrightarrow> Some x \<in> set xs"
  by (induction xs rule: first_some.induct) auto

lemma declared_tier:
  assumes "traverse entry_of_row (declared p key d) = Inr entries" and "s \<in> set tiers"
  shows "rel_option (\<lambda>r e. entry_of_row r = Inr e) (List.find (row_in_tier p s key device_id user_id) (organizational_baselines d))
    (List.find (in_tier s key device_id user_id) entries)"
proof -
  have "rel_option (\<lambda>r e. entry_of_row r = Inr e)
      (List.find (\<lambda>r. ob_scope r = BaselineScope_value s \<and> (s = DEVICE_BASELINE \<longrightarrow> ob_device_id r = device_id)
        \<and> (s = USER_BASELINE \<longrightarrow> ob_user_id r = user_id)) (declared p key d))
      (List.find (in_tier s key device_id user_id) entries)"
  proof (rule find_loaded [OF assms(1)])
    fix r e
    assume r: "r \<in> set (declared p key d)" "entry_of_row r = Inr e"
    note i = entry_init_Inr [OF r(2) [unfolded entry_of_row_def]]
    have scope: "ob_scope r = BaselineScope_value s \<longleftrightarrow> be_scope e = s" unfolding i(1) by (rule BaselineScope_value_inj)
    from r(1) have "ob_key r = key" by (simp add: declared_def)
    then show "(ob_scope r = BaselineScope_value s \<and> (s = DEVICE_BASELINE \<longrightarrow> ob_device_id r = device_id)
        \<and> (s = USER_BASELINE \<longrightarrow> ob_user_id r = user_id)) = in_tier s key device_id user_id e"
      using assms(2) i(2,4,5) scope by (cases s) (auto simp: tiers_def)
  qed
  moreover have "List.find (\<lambda>r. ob_scope r = BaselineScope_value s \<and> (s = DEVICE_BASELINE \<longrightarrow> ob_device_id r = device_id)
        \<and> (s = USER_BASELINE \<longrightarrow> ob_user_id r = user_id)) (declared p key d)
      = List.find (row_in_tier p s key device_id user_id) (organizational_baselines d)"
    unfolding declared_def find_filter by (rule arg_cong [where f = "\<lambda>P. List.find P _"]) (auto simp: row_in_tier_def fun_eq_iff)
  ultimately show ?thesis by simp
qed

definition tier_row :: "Principal \<Rightarrow> string \<Rightarrow> string option \<Rightarrow> string option \<Rightarrow> db \<Rightarrow> OrganizationalBaselineRow option" where
  "tier_row p key device_id user_id d =
     first_some (map (\<lambda>s. List.find (row_in_tier p s key device_id user_id) (organizational_baselines d)) tiers)"

lemma tier_row_key: "tier_row p key device_id user_id d = Some r \<Longrightarrow> ob_key r = key"
proof -
  assume "tier_row p key device_id user_id d = Some r"
  from first_some_in [OF this [unfolded tier_row_def]]
  obtain s where "List.find (row_in_tier p s key device_id user_id) (organizational_baselines d) = Some r" by (auto dest: sym)
  then show "ob_key r = key" by (auto simp: find_Some_iff row_in_tier_def)
qed

lemma handler_tier_row:
  assumes v: "resolve_organizational_baseline p key device_id user_id d = Inr [(''resolved'', v)]"
  shows "v = (case tier_row p key device_id user_id d of None \<Rightarrow> JNull
          | Some r \<Rightarrow> JObj [(''scope'', JStr (ob_scope r)), (''key'', JStr key), (''value'', ob_value r),
              (''device_id'', opt_str (ob_device_id r)), (''user_id'', opt_str (ob_user_id r)), (''description'', JStr (ob_description r))])"
proof -
  from v obtain entries where es: "traverse entry_of_row (declared p key d) = Inr entries"
    by (auto simp: resolve_organizational_baseline_def split: sum.splits)
  have "rel_option (\<lambda>r e. entry_of_row r = Inr e) (tier_row p key device_id user_id d) (resolve_known_good entries key device_id user_id)"
    unfolding resolve_tiers resolve_by_tiers_def tier_row_def
    by (rule first_some_rel) (simp add: list_all2_map1 list_all2_map2 list_all2_same declared_tier [OF es])
  with v es show ?thesis
    by (cases "tier_row p key device_id user_id d"; cases "resolve_known_good entries key device_id user_id")
      (auto simp: resolve_organizational_baseline_def tier_row_key dest!: entry_loaded)
qed

lemma tier_row_spelled:
  "first_some (map (\<lambda>(scope, theirs). List.find (\<lambda>r. ob_tenant_id r = pr_tenant_id p \<and> ob_active r
                 \<and> ob_key r = key \<and> ob_scope r = scope \<and> theirs r) (organizational_baselines d))
              [(''device_baseline'', \<lambda>r. ob_device_id r = device_id), (''user_baseline'', \<lambda>r. ob_user_id r = user_id),
               (''organizational_policy'', \<lambda>_. True), (''generic_best_practice'', \<lambda>_. True)])
     = tier_row p key device_id user_id d"
  by (simp add: tier_row_def tiers_def row_in_tier_def [abs_def])

text \<open>
  C31.  Known-good values are resolved tier by tier.  For every list of entries \<open>resolve_known_good\<close> returns the first
  entry with the key that is declared for the very device; if there is none, the first declared for the very user;
  then the first policy of the organisation; then the first generic practice; otherwise nothing.  And the value the
  handler answers with is that of the first row, of the caller's tenant, still active and under the key, that the same tiers give on the
  table (a row of a device or user tier only for that device or user), or null if there is none.
\<close>

theorem known_good_by_tiers:
  "resolve_known_good entries key device_id user_id = first_some
      [List.find (\<lambda>e. be_scope e = DEVICE_BASELINE \<and> be_key e = key \<and> be_device_id e = device_id) entries,
       List.find (\<lambda>e. be_scope e = USER_BASELINE \<and> be_key e = key \<and> be_user_id e = user_id) entries,
       List.find (\<lambda>e. be_scope e = ORGANIZATIONAL_POLICY \<and> be_key e = key) entries,
       List.find (\<lambda>e. be_scope e = GENERIC_BEST_PRACTICE \<and> be_key e = key) entries]
   \<and> (\<forall>v. resolve_organizational_baseline p key device_id user_id d = Inr [(''resolved'', v)] \<longrightarrow>
       v = (case first_some (map (\<lambda>(scope, theirs). List.find (\<lambda>r. ob_tenant_id r = pr_tenant_id p \<and> ob_active r
                 \<and> ob_key r = key \<and> ob_scope r = scope \<and> theirs r) (organizational_baselines d))
              [(''device_baseline'', \<lambda>r. ob_device_id r = device_id), (''user_baseline'', \<lambda>r. ob_user_id r = user_id),
               (''organizational_policy'', \<lambda>_. True), (''generic_best_practice'', \<lambda>_. True)]) of
            None \<Rightarrow> JNull
          | Some r \<Rightarrow> JObj [(''scope'', JStr (ob_scope r)), (''key'', JStr key), (''value'', ob_value r),
              (''device_id'', opt_str (ob_device_id r)), (''user_id'', opt_str (ob_user_id r)), (''description'', JStr (ob_description r))]))"
  unfolding tier_row_spelled using handler_tier_row [of p key device_id user_id d]
  by (simp add: resolve_tiers resolve_by_tiers_def tiers_def in_tier.simps [abs_def])

text \<open>The scope of the resolved entry does not depend on the order in which the rows come back.\<close>

lemma scope_order_independent:
  assumes "set entries = set entries'"
  shows "map_option be_scope (resolve_known_good entries key device_id user_id)
       = map_option be_scope (resolve_known_good entries' key device_id user_id)"
proof -
  let ?c = "candidate key device_id user_id" and ?f = "\<lambda>e. the (PRECEDENCE (be_scope e))"
  let ?a = "arg_min_list ?f (filter ?c entries)" and ?b = "arg_min_list ?f (filter ?c entries')"
  have same: "set (filter ?c entries) = set (filter ?c entries')" using assms by auto
  then have none: "filter ?c entries = [] \<longleftrightarrow> filter ?c entries' = []" by (metis set_empty)
  show ?thesis
  proof (cases "filter ?c entries = []")
    case False
    with none have ne: "filter ?c entries' \<noteq> []" by simp
    have "?f ?a = ?f ?b"
      using arg_min_list_first [OF False, of ?f] arg_min_list_first [OF ne, of ?f]
        arg_min_list_in [OF False, of ?f] arg_min_list_in [OF ne, of ?f] same
      by (metis order_antisym)
    moreover have "?c ?a" "?c ?b"
      using arg_min_list_in [OF False, of ?f] arg_min_list_in [OF ne, of ?f] by auto
    ultimately have "be_scope ?a = be_scope ?b"
      by (cases "be_scope ?a"; cases "be_scope ?b") (auto simp: candidate_def)
    with False ne show ?thesis by (simp add: resolve_known_good_def)
  qed (use none in \<open>simp add: resolve_known_good_def\<close>)
qed

lemma registered_baseline_loads:
  assumes "create_organizational_baseline sv now p b d = Inr (res, d')"
  shows "\<exists>row e. organizational_baselines d' = organizational_baselines d @ [row] \<and> ob_tenant_id row = pr_tenant_id p
     \<and> entry_of_row row = Inr e \<and> be_scope e = bc_scope b \<and> be_value e = bc_value b"
proof -
  from assms obtain e where e: "BaselineEntry_init (BaselineScope_value (bc_scope b)) (bc_key b) (bc_value b)
      (bc_device_id b) (bc_user_id b) (bc_description b) = Inr e"
    by (auto simp: create_organizational_baseline_def split: sum.splits py_error.splits)
  with assms e entry_init_Inr [OF e] show ?thesis
    by (auto simp: create_organizational_baseline_def entry_of_row_def Let_def case_prod_beta split: sum.splits)
qed

text \<open>
  A value that the handler resolves for a key is one that the tenant of the caller registered
  under that key and that is still active; it is never an entry that records the current state, and
  an entry for a device or a user is only returned for that device or that user.  No value is
  resolved only when no such entry applies.
\<close>

theorem resolved_baseline_declared:
  assumes "resolve_organizational_baseline p key device_id user_id d = Inr [(''resolved'', v)]"
  shows "(case v of
            JObj f \<Rightarrow> (\<exists>row \<in> set (organizational_baselines d).
                ob_tenant_id row = pr_tenant_id p \<and> ob_key row = key \<and> ob_active row
                \<and> dict_get f ''value'' = Some (ob_value row) \<and> dict_get f ''scope'' = Some (JStr (ob_scope row))
                \<and> ob_scope row \<noteq> ''current_state''
                \<and> (ob_scope row = ''device_baseline'' \<longrightarrow> truthy device_id \<and> ob_device_id row = device_id)
                \<and> (ob_scope row = ''user_baseline'' \<longrightarrow> truthy user_id \<and> ob_user_id row = user_id))
          | _ \<Rightarrow> (\<forall>row \<in> set (declared p key d).
                ob_scope row = ''current_state''
                \<or> ob_scope row = ''device_baseline'' \<and> ob_device_id row \<noteq> device_id
                \<or> ob_scope row = ''user_baseline'' \<and> ob_user_id row \<noteq> user_id))"
proof -
  from assms obtain entries where es: "traverse entry_of_row (declared p key d) = Inr entries"
    by (auto simp: resolve_organizational_baseline_def split: sum.splits)
  show ?thesis
  proof (cases "resolve_known_good entries key device_id user_id")
    case None
    with assms es have v: "v = JNull" by (simp add: resolve_organizational_baseline_def)
    have "ob_scope row = ''current_state'' \<or> ob_scope row = ''device_baseline'' \<and> ob_device_id row \<noteq> device_id
        \<or> ob_scope row = ''user_baseline'' \<and> ob_user_id row \<noteq> user_id" if row: "row \<in> set (declared p key d)" for row
    proof -
      from traverse_all [OF es row] obtain e where e: "e \<in> set entries" "entry_of_row row = Inr e" by blast
      have "\<not> candidate key device_id user_id e"
        using None e(1) by (auto simp: resolve_known_good_def Let_def filter_empty_conv split: if_splits)
      moreover have "be_key e = key"
        using entry_init_Inr(2) e(2) row unfolding entry_of_row_def by (fastforce simp: declared_def)
      ultimately show ?thesis
        using entry_init_Inr(1,4,5) [OF e(2) [unfolded entry_of_row_def]] by (auto simp: candidate_def)
    qed
    with v show ?thesis by simp
  next
    case (Some e)
    with assms es have v: "v = JObj
        [(''scope'', JStr (BaselineScope_value (be_scope e))), (''key'', JStr (be_key e)), (''value'', be_value e),
         (''device_id'', opt_str (be_device_id e)), (''user_id'', opt_str (be_user_id e)),
         (''description'', JStr (be_description e))]"
      by (simp add: resolve_organizational_baseline_def)
    from traverse_in [OF es resolve_Some(1) [OF Some]]
    obtain row where row: "row \<in> set (declared p key d)" "entry_of_row row = Inr e" by blast
    note i = entry_init_Inr [OF row(2) [unfolded entry_of_row_def]]
    have c: "candidate key device_id user_id e" using Some by (rule resolve_Some)
    have s: "BaselineScope_value (be_scope e) = ''current_state'' \<longleftrightarrow> be_scope e = CURRENT_STATE"
      "BaselineScope_value (be_scope e) = ''device_baseline'' \<longleftrightarrow> be_scope e = DEVICE_BASELINE"
      "BaselineScope_value (be_scope e) = ''user_baseline'' \<longleftrightarrow> be_scope e = USER_BASELINE"
      by (cases "be_scope e"; simp)+
    have "\<exists>r \<in> set (organizational_baselines d).
        ob_tenant_id r = pr_tenant_id p \<and> ob_key r = key \<and> ob_active r
        \<and> be_value e = ob_value r \<and> BaselineScope_value (be_scope e) = ob_scope r
        \<and> ob_scope r \<noteq> ''current_state''
        \<and> (ob_scope r = ''device_baseline'' \<longrightarrow> truthy device_id \<and> ob_device_id r = device_id)
        \<and> (ob_scope r = ''user_baseline'' \<longrightarrow> truthy user_id \<and> ob_user_id r = user_id)"
      using row(1) c i(4-7) by (intro bexI [of _ row]) (auto simp: declared_def candidate_def s i(1,3))
    then show ?thesis by (simp add: v dict_get_def)
  qed
qed

definition dns_policy :: OrganizationalBaselineRow where
  "dns_policy = \<lparr>ob_id = ''b1'', ob_tenant_id = ''t'', ob_scope = ''organizational_policy'', ob_key = ''dns.servers'',
     ob_value = JStr ''10.0.0.53'', ob_device_id = None, ob_user_id = None, ob_description = [], ob_active = True,
     ob_created_by = ''bob'', ob_created_at = 0\<rparr>"

definition dns_baselines :: db where
  "dns_baselines = empty_db\<lparr>organizational_baselines :=
     [dns_policy\<lparr>ob_id := ''b0'', ob_scope := ''generic_best_practice'', ob_value := JStr ''8.8.8.8''\<rparr>, dns_policy]\<rparr>"

lemma dns_resolved:
  "resolve_organizational_baseline demo_admin ''dns.servers'' (Some ''d'') None dns_baselines
      = Inr [(''resolved'', JObj [(''scope'', JStr ''organizational_policy''), (''key'', JStr ''dns.servers''),
        (''value'', JStr ''10.0.0.53''), (''device_id'', JNull), (''user_id'', JNull), (''description'', JStr [])])]"
  by code_simp

theorem known_good_by_tiers_witness:
  "\<exists>v. resolve_organizational_baseline demo_admin ''dns.servers'' (Some ''d'') None dns_baselines = Inr [(''resolved'', v)]
     \<and> v = JObj [(''scope'', JStr ''organizational_policy''), (''key'', JStr ''dns.servers''), (''value'', ob_value dns_policy),
         (''device_id'', JNull), (''user_id'', JNull), (''description'', JStr [])]"
  using known_good_by_tiers [THEN conjunct2, rule_format, OF dns_resolved] dns_resolved
  by (simp add: dns_baselines_def dns_policy_def demo_admin_def opt_str_def)

theorem resolved_baseline_declared_witness:
  "\<exists>v. resolve_organizational_baseline demo_admin ''dns.servers'' (Some ''d'') None dns_baselines = Inr [(''resolved'', v)]
     \<and> v \<noteq> JNull"
  using resolved_baseline_declared [OF dns_resolved] dns_resolved by blast

end
