(* ===== verification/Tickets.thy ===== *)
theory Tickets
  imports Enrollment
begin

text \<open>
  Tickets that people write (\<open>create_ticket\<close> and \<open>update_ticket\<close> of \<open>helpdesktool/api.py\<close>); the tickets
  of incidents and conversations are in their own theories.  A field of an update is \<open>None\<close> when the
  request leaves it out and \<open>Some None\<close> when it sends \<open>null\<close>: all four columns refuse \<open>NULL\<close>, which the
  handler does not check.
\<close>

record TicketCreate =
  tc_title :: string
  tc_description :: string
  tc_device_id :: "string option"
  tc_priority :: string

definition create_ticket :: "server \<Rightarrow> time \<Rightarrow> Principal \<Rightarrow> TicketCreate \<Rightarrow> db \<Rightarrow> (dict \<times> db) http" where
  "create_ticket sv now p b d =
     (case (if truthy (tc_device_id b)
            then map_sum id (\<lambda>_. ()) (tenant_row dv_id dv_tenant_id (devices d) (the (tc_device_id b)) (pr_tenant_id p))
            else Inr ()) of
        Inl e \<Rightarrow> Inl e
      | Inr _ \<Rightarrow>
          let (row_id, d1) = new_id sv d;
              row = \<lparr>tk_id = row_id, tk_tenant_id = pr_tenant_id p, tk_device_id = tc_device_id b, tk_title = tc_title b,
                     tk_description = tc_description b, tk_status = ''open'', tk_priority = tc_priority b,
                     tk_created_by = pr_actor_id p, tk_created_at = now, tk_updated_at = now\<rparr>
          in Inr (ticket_json sv row,
               audit sv now (pr_tenant_id p) row_id ''ticket.created'' (pr_actor_id p)
                 [(''title'', JStr (tk_title row)), (''priority'', JStr (tk_priority row))]
                 (d1\<lparr>tickets := tickets d1 @ [row]\<rparr>)))"

record TicketUpdate =
  tu_title :: "string option option"
  tu_description :: "string option option"
  tu_status :: "string option option"
  tu_priority :: "string option option"

text \<open>\<open>body.model_dump(exclude_unset=True)\<close>.\<close>

definition ticket_changes :: "TicketUpdate \<Rightarrow> dict" where
  "ticket_changes b = concat (map (\<lambda>(k, v). case v of None \<Rightarrow> [] | Some x \<Rightarrow> [(k, opt_str x)])
     [(''title'', tu_title b), (''description'', tu_description b), (''status'', tu_status b), (''priority'', tu_priority b)])"

definition new_value :: "string option option \<Rightarrow> string \<Rightarrow> string" where
  "new_value change old = (case change of Some (Some v) \<Rightarrow> v | _ \<Rightarrow> old)"

text \<open>The row after the assignments; \<open>updated_at\<close> moves when an \<open>UPDATE\<close> is issued.\<close>

definition ticket_updated :: "time \<Rightarrow> TicketUpdate \<Rightarrow> Ticket \<Rightarrow> Ticket" where
  "ticket_updated now b t =
     (let t' = t\<lparr>tk_title := new_value (tu_title b) (tk_title t), tk_description := new_value (tu_description b) (tk_description t),
                 tk_status := new_value (tu_status b) (tk_status t), tk_priority := new_value (tu_priority b) (tk_priority t)\<rparr>
      in if t' = t then t else t'\<lparr>tk_updated_at := now\<rparr>)"

definition sends_null :: "TicketUpdate \<Rightarrow> bool" where
  "sends_null b \<longleftrightarrow> Some None \<in> {tu_title b, tu_description b, tu_status b, tu_priority b}"

definition update_ticket :: "server \<Rightarrow> time \<Rightarrow> Principal \<Rightarrow> string \<Rightarrow> TicketUpdate \<Rightarrow> db \<Rightarrow> (dict \<times> db) http" where
  "update_ticket sv now p ticket_id b d =
     (case tenant_row tk_id tk_tenant_id (tickets d) ticket_id (pr_tenant_id p) of
        Inl e \<Rightarrow> Inl e
      | Inr row \<Rightarrow>
          if sends_null b then Inl unhandled
          else Inr (ticket_json sv (ticket_updated now b row),
                 audit sv now (pr_tenant_id p) (tk_id row) ''ticket.updated'' (pr_actor_id p)
                   [(''changes'', JObj (ticket_changes b))]
                   (d\<lparr>tickets := update_where (\<lambda>t. tk_id t = tk_id row) (ticket_updated now b) (tickets d)\<rparr>)))"

section \<open>What an update changes\<close>

lemma ticket_updated_fields:
  "tk_id (ticket_updated now b t) = tk_id t" "tk_tenant_id (ticket_updated now b t) = tk_tenant_id t"
  "tk_device_id (ticket_updated now b t) = tk_device_id t" "tk_created_by (ticket_updated now b t) = tk_created_by t"
  "tk_created_at (ticket_updated now b t) = tk_created_at t"
  "tk_status (ticket_updated now b t) = new_value (tu_status b) (tk_status t)"
  "tk_title (ticket_updated now b t) = new_value (tu_title b) (tk_title t)"
  "tk_priority (ticket_updated now b t) = new_value (tu_priority b) (tk_priority t)"
  "tk_description (ticket_updated now b t) = new_value (tu_description b) (tk_description t)"
proof -
  define t' where "t' = t\<lparr>tk_title := new_value (tu_title b) (tk_title t),
    tk_description := new_value (tu_description b) (tk_description t),
    tk_status := new_value (tu_status b) (tk_status t), tk_priority := new_value (tu_priority b) (tk_priority t)\<rparr>"
  have u: "ticket_updated now b t = (if t' = t then t else t'\<lparr>tk_updated_at := now\<rparr>)"
    by (simp add: ticket_updated_def t'_def)
  have f: "tk_id t' = tk_id t" "tk_tenant_id t' = tk_tenant_id t" "tk_device_id t' = tk_device_id t"
    "tk_created_by t' = tk_created_by t" "tk_created_at t' = tk_created_at t"
    "tk_status t' = new_value (tu_status b) (tk_status t)" "tk_title t' = new_value (tu_title b) (tk_title t)"
    "tk_priority t' = new_value (tu_priority b) (tk_priority t)"
    "tk_description t' = new_value (tu_description b) (tk_description t)"
    by (simp_all add: t'_def)
  show "tk_id (ticket_updated now b t) = tk_id t" "tk_tenant_id (ticket_updated now b t) = tk_tenant_id t"
    "tk_device_id (ticket_updated now b t) = tk_device_id t" "tk_created_by (ticket_updated now b t) = tk_created_by t"
    "tk_created_at (ticket_updated now b t) = tk_created_at t"
    "tk_status (ticket_updated now b t) = new_value (tu_status b) (tk_status t)"
    "tk_title (ticket_updated now b t) = new_value (tu_title b) (tk_title t)"
    "tk_priority (ticket_updated now b t) = new_value (tu_priority b) (tk_priority t)"
    "tk_description (ticket_updated now b t) = new_value (tu_description b) (tk_description t)"
    using f by (auto simp: u)
qed

text \<open>A request that sends \<open>null\<close> for a field is answered with an unhandled error, and nothing changes.\<close>

lemma null_update_fails:
  "tenant_row tk_id tk_tenant_id (tickets d) ticket_id (pr_tenant_id p) = Inr row \<Longrightarrow> tu_status b = Some None
   \<Longrightarrow> update_ticket sv now p ticket_id b d = Inl unhandled"
  by (simp add: update_ticket_def sends_null_def)

text \<open>
  A successful update of a ticket concerns a ticket of the caller's tenant; afterwards it has the
  fields that the request sends and keeps the others, its identity, creator and device; every other
  ticket is as before, and the tenant's audit trail has one more event, which records the changes.
\<close>

theorem ticket_update_exact:
  assumes "update_ticket sv now p ticket_id b d = Inr (res, d')"
    and "distinct (map tk_id (tickets d))"
  shows "\<exists>t t'. t \<in> set (tickets d) \<and> tk_id t = ticket_id \<and> tk_tenant_id t = pr_tenant_id p
     \<and> tickets d' = map (\<lambda>u. if u = t then t' else u) (tickets d)
     \<and> tk_status t' = new_value (tu_status b) (tk_status t) \<and> tk_title t' = new_value (tu_title b) (tk_title t)
     \<and> tk_priority t' = new_value (tu_priority b) (tk_priority t)
     \<and> tk_description t' = new_value (tu_description b) (tk_description t)
     \<and> tk_id t' = tk_id t \<and> tk_tenant_id t' = tk_tenant_id t \<and> tk_created_by t' = tk_created_by t
     \<and> tk_device_id t' = tk_device_id t
     \<and> (\<exists>a. audit_events d' = audit_events d @ [a] \<and> au_tenant_id a = pr_tenant_id p
          \<and> au_correlation_id a = ticket_id \<and> au_details a = [(''changes'', JObj (ticket_changes b))])"
proof -
  from assms(1) obtain row where t: "tenant_row tk_id tk_tenant_id (tickets d) ticket_id (pr_tenant_id p) = Inr row"
    and d': "d' = audit sv now (pr_tenant_id p) (tk_id row) ''ticket.updated'' (pr_actor_id p)
       [(''changes'', JObj (ticket_changes b))]
       (d\<lparr>tickets := update_where (\<lambda>t. tk_id t = tk_id row) (ticket_updated now b) (tickets d)\<rparr>)"
    by (auto simp: update_ticket_def split: sum.splits if_splits)
  note row = tenant_row_Inr [OF t]
  have "tk_id u = tk_id row \<longleftrightarrow> u = row" if "u \<in> set (tickets d)" for u
    using assms(2) row that by (metis distinct_map inj_onD)
  then have "tickets d' = map (\<lambda>u. if u = row then ticket_updated now b row else u) (tickets d)"
    unfolding d' by (auto simp: update_where_def)
  moreover have "\<exists>a. audit_events d' = audit_events d @ [a] \<and> au_tenant_id a = pr_tenant_id p
      \<and> au_correlation_id a = ticket_id \<and> au_details a = [(''changes'', JObj (ticket_changes b))]"
    unfolding d' using row by (simp add: audit_def new_audit_row_def msg_def Let_def)
  ultimately show ?thesis
    using row by (intro exI [of _ row] exI [of _ "ticket_updated now b row"]) (simp add: ticket_updated_fields)
qed

definition printer_ticket :: Ticket where
  "printer_ticket = \<lparr>tk_id = ''k'', tk_tenant_id = ''t'', tk_device_id = None, tk_title = ''Printer'', tk_description = [],
     tk_status = ''open'', tk_priority = ''normal'', tk_created_by = ''bob'', tk_created_at = 0, tk_updated_at = 0\<rparr>"

theorem ticket_update_exact_witness:
  "\<exists>res d' t'. update_ticket demo_server 9 demo_admin ''k''
       \<lparr>tu_title = None, tu_description = None, tu_status = Some (Some ''resolved''), tu_priority = None\<rparr>
       (empty_db\<lparr>tickets := [printer_ticket]\<rparr>) = Inr (res, d')
     \<and> tickets d' = [t'] \<and> tk_status t' = ''resolved'' \<and> tk_title t' = ''Printer''"
proof -
  let ?b = "\<lparr>tu_title = None, tu_description = None, tu_status = Some (Some ''resolved''), tu_priority = None\<rparr>"
  let ?d = "empty_db\<lparr>tickets := [printer_ticket]\<rparr>"
  obtain res d' where r: "update_ticket demo_server 9 demo_admin ''k'' ?b ?d = Inr (res, d')"
    by (auto simp: update_ticket_def tenant_row_def row_simps printer_ticket_def demo_admin_def sends_null_def)
  have "distinct (map tk_id (tickets ?d))" by simp
  from ticket_update_exact [OF r this] have "\<exists>t'. tickets d' = [t'] \<and> tk_status t' = ''resolved'' \<and> tk_title t' = ''Printer''"
    by (auto simp: new_value_def printer_ticket_def)
  with r show ?thesis by blast
qed

end
