(* ===== verification/JobProps.thy ===== *)
theory JobProps
  imports Lifecycle
begin

text \<open>
  What the control plane promises about jobs, stated over the handlers of Jobs: final states,
  bounded attempts, exclusive claims, reports accepted once, replayed retries, the reaper's
  work, tenant isolation, four-eyes approval and the audit trail, with two behaviours of the
  code that differ from what its event names and its retry design mean to say.
\<close>

section \<open>Concrete states for the witnesses\<close>

definition demo_action :: "string \<Rightarrow> string \<Rightarrow> int \<Rightarrow> Action" where
  "demo_action aid st n = \<lparr>at_id = aid, at_tenant_id = ''t'', at_device_id = ''d'', at_ticket_id = None,
     at_skill_id = ''service.restart'', at_requested_by = ''alice'', at_parameters = [],
     at_device_os = ''linux'', at_risk = ''low'', at_status = st, at_approved_by = None,
     at_claim_token_hash = Some (sha256_hex demo_host ''tok''), at_claimed_at = Some 0,
     at_lease_expires_at = Some 60, at_attempt = n, at_created_at = 0, at_updated_at = 0\<rparr>"

definition demo_db :: db where
  "demo_db = empty_db\<lparr>actions := [demo_action ''a'' ''succeeded'' 1, demo_action ''b'' ''claimed'' 1]\<rparr>"

definition demo_agent :: Principal where
  "demo_agent = \<lparr>pr_tenant_id = ''t'', pr_actor_id = ''d'', pr_role = ''agent''\<rparr>"

lemma demo_db_keyed: "actions_keyed demo_db"
  by (simp add: actions_keyed_def demo_db_def demo_action_def)

lemma empty_db_keyed: "actions_keyed empty_db"
  by (simp add: actions_keyed_def empty_db_def)

lemma empty_chains: "chains_ok sv empty_db"
  by (simp add: chains_ok_def sql_audit_ok_def tenant_audit_def sql_trail_def empty_db_def)

lemma demo_chains: "chains_ok sv demo_db"
  by (simp add: chains_ok_def sql_audit_ok_def tenant_audit_def sql_trail_def demo_db_def empty_db_def)

section \<open>Final states, attempts, audit\<close>

text \<open>
  Final states are final: once an action has succeeded, failed, been rolled back, failed
  its rollback or been denied, no sequence of creations, decisions, claims, reports and reaper
  runs changes its row again.
\<close>

theorem terminal_actions_final:
  assumes "(job_op sv)\<^sup>*\<^sup>* d d'" and "actions_keyed d" and "r \<in> set (actions d)"
    and "at_status r \<in> ActionStatus_value ` {SUCCEEDED, FAILED, ROLLED_BACK, ROLLBACK_FAILED, DENIED}"
  shows "r \<in> set (actions d')"
proof -
  from job_ops_row [OF assms(1-3)] obtain r' where "r' \<in> set (actions d')" "(row_step sv)\<^sup>*\<^sup>* r r'" by blast
  moreover from this terminal_steps assms(4) have "r' = r" by (simp add: terminal_def)
  ultimately show ?thesis by simp
qed

theorem terminal_actions_final_witness:
  "demo_action ''a'' ''succeeded'' 1 \<in> set (actions (snd (process_batch demo_server 100 50 demo_db)))"
proof -
  have "(job_op demo_server)\<^sup>*\<^sup>* demo_db (snd (process_batch demo_server 100 50 demo_db))"
    using op_reap by blast
  then show ?thesis
    by (rule terminal_actions_final) (simp_all add: demo_db_keyed, simp_all add: demo_db_def demo_action_def)
qed

text \<open>
  Attempts are bounded.  From a table whose rows are in order (the empty table is), every
  reachable state has only actions with a known status and an attempt count between 0 and the
  configured maximum; an action that waits for approval or for a claim has an attempt left; and
  a claimed action has used at least one and holds a claim token and a lease.  So no action is ever claimed more often than the
  maximum, whatever agents and reaper do.
\<close>

theorem attempts_bounded:
  assumes "(job_op sv)\<^sup>*\<^sup>* d d'" and "actions_keyed d"
    and "\<And>q. q \<in> set (actions d) \<Longrightarrow> row_ok (lease_reaper_max_attempts (sv_settings sv)) q"
    and "1 \<le> lease_reaper_max_attempts (sv_settings sv)" and "r \<in> set (actions d')"
  shows "0 \<le> at_attempt r \<and> at_attempt r \<le> lease_reaper_max_attempts (sv_settings sv)
    \<and> (at_status r \<in> {''pending_approval'', ''queued''}
         \<longrightarrow> at_attempt r < lease_reaper_max_attempts (sv_settings sv))
    \<and> (at_status r = ''claimed'' \<longrightarrow> 1 \<le> at_attempt r \<and> at_claim_token_hash r \<noteq> None
         \<and> at_lease_expires_at r \<noteq> None)
    \<and> at_status r \<in> {''pending_approval'', ''queued'', ''claimed'', ''succeeded'', ''failed'',
         ''rolled_back'', ''rollback_failed'', ''denied''}"
proof -
  from job_ops_ok [OF assms(1,2,4)] assms(3,5)
  have "row_ok (lease_reaper_max_attempts (sv_settings sv)) r" by simp
  then show ?thesis by (auto simp: row_ok_def terminal_def)
qed

theorem attempts_bounded_witness:
  "at_attempt (reaped demo_server 100 (demo_action ''b'' ''claimed'' 1)) < 3"
proof -
  have ops: "(job_op demo_server)\<^sup>*\<^sup>* demo_db (snd (process_batch demo_server 100 50 demo_db))"
    using op_reap by blast
  have ok: "row_ok (lease_reaper_max_attempts (sv_settings demo_server)) q" if "q \<in> set (actions demo_db)" for q
    using that by (auto simp: demo_db_def demo_action_def demo_server_def demo_settings_def default_settings_def row_ok_def
        terminal_def demo_host_def)
  have one: "1 \<le> lease_reaper_max_attempts (sv_settings demo_server)"
    by (simp add: demo_server_def demo_settings_def default_settings_def)
  have ex: "expired_claims 100 50 demo_db = [demo_action ''b'' ''claimed'' 1]"
    by (simp add: expired_claims_def demo_db_def demo_action_def lease_expired_def order_by_def)
  have "reaped demo_server 100 (demo_action ''b'' ''claimed'' 1)
      \<in> set (actions (snd (process_batch demo_server 100 50 demo_db)))"
    unfolding process_batch_actions [OF demo_db_keyed] ex
    by (simp add: demo_db_def demo_action_def update_where_def)
  from attempts_bounded [OF ops demo_db_keyed ok one this] show ?thesis
    by (simp add: reaped_def demo_action_def demo_server_def demo_settings_def default_settings_def)
qed

text \<open>
  The audit trail of the handlers.  Any sequence of handler calls and reaper runs keeps
  every tenant's trail a verified hash chain with consecutive sequence numbers, and every
  trail only grows.
\<close>

theorem handler_audit_chains:
  assumes "(job_op sv)\<^sup>*\<^sup>* d d'" and "sql_audit_ok d" and "\<And>t. verify_chain (sv_host sv) (sql_trail sv t d)"
  shows "verify_chain (sv_host sv) (sql_trail sv t d')
    \<and> map au_sequence (tenant_audit t d') = map int [1..<Suc (length (tenant_audit t d'))]
    \<and> (\<exists>es. sql_trail sv t d' = sql_trail sv t d @ es)"
proof -
  have "chains_ok sv d" using assms(2,3) by (simp add: chains_ok_def)
  from job_ops_audit [OF assms(1) this] show ?thesis
    by (auto simp: chains_ok_def sql_audit_ok_def trails_extend_def simp del: upt_Suc)
qed

theorem handler_audit_chains_witness:
  "verify_chain demo_host (sql_trail demo_server ''t'' (snd (process_batch demo_server 100 50 demo_db)))"
proof -
  have r: "(job_op demo_server)\<^sup>*\<^sup>* demo_db (snd (process_batch demo_server 100 50 demo_db))"
    using op_reap by blast
  have "sql_audit_ok demo_db" "\<And>t. verify_chain (sv_host demo_server) (sql_trail demo_server t demo_db)"
    using demo_chains by (simp_all add: chains_ok_def)
  from handler_audit_chains [OF r this] show ?thesis by (simp add: demo_server_def)
qed

section \<open>Claims\<close>

lemma claim_job_cases:
  assumes "claim_job sv now p device_id action_id key d = Inr (resp, d')" and "d' \<noteq> d"
  obtains v n where "claim_fresh sv now p device_id action_id key v n d = Inr (resp, d')"
    and "n = (case scalar (action_key action_id) (actions d) of None \<Rightarrow> 1 | Some r \<Rightarrow> at_attempt r + 1)"
    and "idempotency_lookup sv (pr_tenant_id p) ''job-claim'' key (claim_payload action_id device_id) d = Inr None"
  using assms unfolding claim_job_def Let_def
  by (auto split: sum.splits json.splits) (auto split: option.splits sum.splits json.splits)

lemma claimed_rows:
  assumes "actions_keyed d" and "claim_fresh sv now p device_id action_id key v n d = Inr (resp, d')"
    and "r \<in> set (actions d')" and "at_id r = action_id"
  shows "at_status r = ''claimed''"
proof -
  from claim_fresh_actions [OF assms(2)] obtain q where q: "q \<in> set (actions d)" "claimable p device_id action_id q"
    and a: "actions d' = update_where (claimable p device_id action_id)
      (claim_update sv now (claim_token sv action_id n key)) (actions d)"
  proof -
    from claim_fresh_actions(2) [OF assms(2)] have "filter (claimable p device_id action_id) (actions d) \<noteq> []"
      by (metis length_0_conv zero_neq_one)
    then show thesis using that claim_fresh_actions(1) [OF assms(2)] by (auto simp: filter_empty_conv)
  qed
  from assms(3) a obtain s where s: "s \<in> set (actions d)"
    "r = (if claimable p device_id action_id s
          then claim_update sv now (claim_token sv action_id n key) s else s)"
    by (auto simp: set_update_where)
  then have "at_id s = action_id" using assms(4) by (auto simp: claim_update_def split: if_splits)
  with q s keyed_unique [OF assms(1) s(1) q(1)] have "s = q" by (simp add: claimable_def)
  with s q show ?thesis by (simp add: claim_update_def)
qed

text \<open>When a queued action of the agent's device is there and its skill is registered, a claim succeeds.\<close>

lemma job_envelope_signs:
  "\<exists>sig. sign_envelope h c (job_envelope sv now p row v t nonce) seed ver = Inr sig"
proof -
  have "\<forall>k \<in> set ENVELOPE_SIGNED_FIELDS. dict_get (job_envelope sv now p row v t nonce) k \<noteq> None"
    by (simp add: ENVELOPE_SIGNED_FIELDS_def job_envelope_def dict_get_def)
  then show ?thesis by (auto simp: sign_envelope_def canonical_payload_def)
qed

lemma filter_single:
  "distinct xs \<Longrightarrow> (\<And>q. q \<in> set xs \<Longrightarrow> P q \<Longrightarrow> q = x) \<Longrightarrow> x \<in> set xs \<Longrightarrow> P x \<Longrightarrow> filter P xs = [x]"
proof (induction xs)
  case (Cons y xs)
  show ?case
  proof (cases "y = x")
    case True
    have "\<not> P q" if "q \<in> set xs" for q
      using Cons.prems(1) Cons.prems(2) [of q] that True by auto
    then have "filter P xs = []" by (simp add: filter_empty_conv)
    with True Cons.prems(4) show ?thesis by simp
  next
    case False
    then have "filter P xs = [x]"
      using Cons.IH Cons.prems by (metis distinct.simps(2) list.set_intros(2) set_ConsD)
    moreover have "\<not> P y" using Cons.prems(2) [of y] False by auto
    ultimately show ?thesis by simp
  qed
qed simp

lemma claim_job_succeeds:
  assumes "actions_keyed d" and "row \<in> set (actions d)" and "claimable p device_id action_id row"
    and "get_active_manifest sv (at_skill_id row) d = Inr (Some m)"
    and "idempotency_lookup sv (pr_tenant_id p) ''job-claim'' key (claim_payload action_id device_id) d = Inr None"
  shows "\<exists>resp d'. claim_job sv now p device_id action_id key d = Inr (resp, d') \<and> d' \<noteq> d"
proof -
  let ?tok = "claim_token sv action_id (at_attempt row + 1) key"
  have k: "at_id row = action_id" "at_tenant_id row = pr_tenant_id p"
    using assms(3) by (simp_all add: claimable_def)
  have cur: "scalar (action_key action_id) (actions d) = Some row"
    using scalar_unique [of at_id "actions d" row action_id] assms(1,2) k
    by (simp add: actions_keyed_def action_key_def [abs_def])
  have one: "filter (claimable p device_id action_id) (actions d) = [row]"
  proof -
    have u: "q = row" if "q \<in> set (actions d)" "claimable p device_id action_id q" for q
      using that keyed_unique [OF assms(1) that(1) assms(2)] k by (simp add: claimable_def)
    have "distinct (actions d)" using assms(1) by (simp add: actions_keyed_def distinct_map)
    with u assms(2,3) show ?thesis
      by (intro filter_single)
  qed
  have sc: "scalar (action_key action_id) (update_where (claimable p device_id action_id)
      (claim_update sv now ?tok) (actions d)) = Some (claim_update sv now ?tok row)"
  proof -
    have "scalar (action_key action_id) (update_where (claimable p device_id action_id) f rows)
        = map_option (\<lambda>r. if claimable p device_id action_id r then f r else r)
            (scalar (action_key action_id) rows)" if "\<And>r. at_id (f r) = at_id r" for f and rows :: "Action list"
      using that by (induction rows) (auto simp: row_simps action_key_def)
    from this [of "claim_update sv now ?tok" "actions d"] cur assms(3) show ?thesis
      by (simp add: claim_update_def)
  qed
  obtain sig where sig: "sign_envelope (sv_host sv) (sv_crypto sv)
      (job_envelope sv now p (claim_update sv now ?tok row) (mf_version m) (now + lease_seconds)
        (sv_token sv (next_id d)))
      (job_signing_seed (sv_settings sv)) (job_signing_key_version (sv_settings sv)) = Inr sig"
    using job_envelope_signs by blast
  have v: "claim_skill_version sv p (Some row) d = Inr (mf_version m)"
    using assms(4) k by (simp add: claim_skill_version_def)
  have "\<exists>resp d'. claim_fresh sv now p device_id action_id key (mf_version m) (at_attempt row + 1) d = Inr (resp, d')
      \<and> length (idempotency_records d') = Suc (length (idempotency_records d))"
  proof -
    have l: "at_lease_expires_at (claim_update sv now ?tok row) = Some (now + lease_seconds)"
      by (simp add: claim_update_def)
    show ?thesis using sig unfolding claim_fresh_def Let_def by (simp add: one sc l remember_def)
  qed
  then obtain resp d' where "claim_fresh sv now p device_id action_id key (mf_version m) (at_attempt row + 1) d
      = Inr (resp, d')" "length (idempotency_records d') = Suc (length (idempotency_records d))" by blast
  with assms(5) cur v show ?thesis
    by (intro exI [of _ resp] exI [of _ d']) (auto simp: claim_job_def)
qed

text \<open>
  C3.  A claim is exclusive.  After a claim that took an action off the queue, every other
  claim of the action, by any agent, device or tenant and with any idempotency key not used
  before, is refused, so no two attempts hold the action at once.
\<close>

theorem claim_exclusive:
  assumes "actions_keyed d" and "claim_job sv now p device_id action_id key d = Inr (resp, d')" and "d' \<noteq> d"
    and "idempotency_lookup sv (pr_tenant_id p') ''job-claim'' key' (claim_payload action_id dev') d' = Inr None"
  shows "\<exists>e. claim_job sv now' p' dev' action_id key' d' = Inl e"
proof -
  from claim_job_cases [OF assms(2,3)] obtain v n where
    c: "claim_fresh sv now p device_id action_id key v n d = Inr (resp, d')" by blast
  have "filter (claimable p' dev' action_id) (actions d') = []"
    using claimed_rows [OF assms(1) c] by (auto simp: filter_empty_conv claimable_def)
  then have "claim_fresh sv now' p' dev' action_id key' v' n' d' = Inl (HTTPException 409 ''job is unavailable'')"
    for v' n' by (simp add: claim_fresh_def)
  with assms(4) show ?thesis by (auto simp: claim_job_def Let_def split: sum.split)
qed

text \<open>A registry with one verified skill, a queued and a pending action, for the witnesses.\<close>

definition demo_manifest_row :: SkillManifestRow where
  "demo_manifest_row = manifest_row demo_server 1 demo_admin demo_manifest [''linux''] empty_db"

definition demo_queue :: db where
  "demo_queue = empty_db\<lparr>skills := [demo_manifest_row],
     actions := [demo_action ''q'' ''queued'' 0, demo_action ''p'' ''pending_approval'' 0,
                 (demo_action ''o'' ''queued'' 0)\<lparr>at_tenant_id := ''u''\<rparr>]\<rparr>"

lemma demo_manifest_verifies: "verified_manifest demo_host demo_manifest_row = Inr demo_manifest"
  using manifest_row_verifies [of demo_manifest "[''linux'']" demo_server 1 demo_admin empty_db]
  by (simp add: demo_manifest_row_def demo_manifest_def body_ok_def ALLOWED_PARAMETER_TYPES_def demo_server_def)

lemma demo_queue_manifest: "get_active_manifest demo_server ''service.restart'' demo_queue = Inr (Some demo_manifest)"
  using demo_manifest_verifies
  by (simp add: get_active_manifest_def demo_queue_def demo_server_def row_simps)
     (simp add: demo_manifest_row_def demo_manifest_def)

lemma demo_queue_keyed: "actions_keyed demo_queue"
  by (simp add: actions_keyed_def demo_queue_def demo_action_def)

lemma demo_queue_lookup: "idempotency_lookup sv t s k p demo_queue = Inr None"
  by (simp add: lookup_None demo_queue_def empty_db_def row_simps)

lemma demo_claim:
  "\<exists>resp d'. claim_job demo_server now demo_agent ''d'' ''q'' key demo_queue = Inr (resp, d') \<and> d' \<noteq> demo_queue"
  by (rule claim_job_succeeds [OF demo_queue_keyed, where row = "demo_action ''q'' ''queued'' 0" and m = demo_manifest])
     (simp_all add: demo_queue_lookup demo_queue_manifest demo_action_def,
      simp_all add: demo_queue_def demo_action_def claimable_def demo_agent_def)

lemma lookup_other_key:
  assumes "claim_job sv now p device_id action_id key d = Inr (resp, d')" and "k' \<noteq> key"
  shows "idempotency_lookup sv t ''job-claim'' k' q d' = idempotency_lookup sv t ''job-claim'' k' q d"
proof (cases "d' = d")
  case False
  from claim_job_cases [OF assms(1) this] obtain v n where
    "claim_fresh sv now p device_id action_id key v n d = Inr (resp, d')" by blast
  then have "\<exists>x r. d' = remember sv now (pr_tenant_id p) ''job-claim'' key (claim_payload action_id device_id) r 200 x
      \<and> idempotency_records x = idempotency_records d"
    unfolding claim_fresh_def Let_def
    by (auto split: if_splits option.splits sum.splits)
  then obtain x r where x: "d' = remember sv now (pr_tenant_id p) ''job-claim'' key (claim_payload action_id device_id) r 200 x"
    "idempotency_records x = idempotency_records d" by blast
  have "idempotency_lookup sv t ''job-claim'' k' q d' = idempotency_lookup sv t ''job-claim'' k' q x"
    unfolding x(1) using assms(2) by (intro idem.other) simp
  with x(2) show ?thesis by (simp add: idempotency_lookup_def)
qed simp

theorem claim_exclusive_witness:
  "\<exists>resp d'. claim_job demo_server 1 demo_agent ''d'' ''q'' ''k1'' demo_queue = Inr (resp, d')
     \<and> (\<exists>e. claim_job demo_server 2 demo_agent ''d'' ''q'' ''k2'' d' = Inl e)"
proof -
  obtain resp d' where c: "claim_job demo_server 1 demo_agent ''d'' ''q'' ''k1'' demo_queue = Inr (resp, d')"
    "d' \<noteq> demo_queue" using demo_claim by blast
  have "idempotency_lookup demo_server (pr_tenant_id demo_agent) ''job-claim'' ''k2'' (claim_payload ''q'' ''d'') d' = Inr None"
    using lookup_other_key [OF c(1), of "''k2''"] demo_queue_lookup by simp
  from claim_exclusive [OF demo_queue_keyed c this] c(1) show ?thesis by blast
qed

section \<open>Reports\<close>

lemma report_effect:
  assumes "report_job_result sv now p device_id action_id token key b d = Inr (resp, d')"
    and "idempotency_lookup sv (pr_tenant_id p) ''job-result'' key (report_payload action_id device_id b) d = Inr None"
  shows "\<exists>row. report_guard sv now p device_id action_id token d = Inr row"
    and "resp = [(''accepted'', JBool True), (''action_id'', JStr action_id),
                 (''status'', JStr (ActionStatus_value (report_status b)))]"
    and "d' = remember sv now (pr_tenant_id p) ''job-result'' key (report_payload action_id device_id b) resp 200
                (apply_report sv now p device_id action_id b d)"
  using assms unfolding report_job_result_def Let_def by (auto split: sum.splits)

lemma apply_report_actions [simp]:
  "actions (apply_report sv now p device_id action_id b d) =
     update_where (\<lambda>r. at_id r = action_id \<and> at_tenant_id r = pr_tenant_id p)
       (\<lambda>r. r\<lparr>at_status := ActionStatus_value (report_status b), at_updated_at := now\<rparr>) (actions d)"
  by (simp add: apply_report_def Let_def)

text \<open>
  C4.  A report is accepted exactly for a held claim and exactly once.  A report with a fresh
  idempotency key is accepted only if the tenant has the action, the action belongs to the
  reporting device and is claimed, the supplied token is the claim's and the lease has not run
  out; it ends the action as succeeded (only on success and verification), rolled back,
  rollback failed or failed; and afterwards every other report of the action is refused.
\<close>

theorem report_accepted_once:
  assumes "actions_keyed d"
    and "idempotency_lookup sv (pr_tenant_id p) ''job-result'' key (report_payload action_id device_id b) d = Inr None"
    and "report_job_result sv now p device_id action_id token key b d = Inr (resp, d')"
  shows "(\<exists>row row'. row \<in> set (actions d) \<and> at_id row = action_id \<and> at_tenant_id row = pr_tenant_id p
      \<and> at_device_id row = device_id \<and> at_status row = ''claimed''
      \<and> at_claim_token_hash row = Some (sha256_hex (sv_host sv) token)
      \<and> (\<forall>t. at_lease_expires_at row = Some t \<longrightarrow> now \<le> t)
      \<and> row' \<in> set (actions d') \<and> row' = row\<lparr>at_status := ActionStatus_value (report_status b), at_updated_at := now\<rparr>
      \<and> (at_status row' = ''succeeded'' \<longleftrightarrow> jr_success b \<and> jr_verified b))
    \<and> (\<forall>now' (p' :: Principal) dev' token' key' b'.
        idempotency_lookup sv (pr_tenant_id p') ''job-result'' key' (report_payload action_id dev' b') d' = Inr None
        \<longrightarrow> (\<exists>e. report_job_result sv now' p' dev' action_id token' key' b' d' = Inl e))"
proof (intro conjI allI impI)
  from report_effect [OF assms(3,2)] obtain row where row: "report_guard sv now p device_id action_id token d = Inr row"
    and acts: "actions d' = update_where (\<lambda>r. at_id r = action_id \<and> at_tenant_id r = pr_tenant_id p)
       (\<lambda>r. r\<lparr>at_status := ActionStatus_value (report_status b), at_updated_at := now\<rparr>) (actions d)"
    by auto
  note g = report_guard_row [OF row]
  let ?row' = "row\<lparr>at_status := ActionStatus_value (report_status b), at_updated_at := now\<rparr>"
  have row': "?row' \<in> set (actions d')"
    unfolding acts set_update_where using g(1-3) by (intro bexI [of _ row]) simp_all
  have final: "at_status q = ActionStatus_value (report_status b)" if q: "q \<in> set (actions d')" "at_id q = action_id" for q
  proof -
    from q(1) acts obtain s where s: "s \<in> set (actions d)"
      "q = (if at_id s = action_id \<and> at_tenant_id s = pr_tenant_id p
            then s\<lparr>at_status := ActionStatus_value (report_status b), at_updated_at := now\<rparr> else s)"
      by (auto simp: set_update_where)
    then have "at_id s = action_id" using q(2) by (auto split: if_splits)
    then have "s = row" using keyed_unique [OF assms(1) s(1) g(1)] g(2) by simp
    with s(2) g(2,3) show ?thesis by simp
  qed
  have "at_status ?row' = ''succeeded'' \<longleftrightarrow> jr_success b \<and> jr_verified b"
    by (simp add: report_status_def)
  with g row' show "\<exists>row row'. row \<in> set (actions d) \<and> at_id row = action_id \<and> at_tenant_id row = pr_tenant_id p
      \<and> at_device_id row = device_id \<and> at_status row = ''claimed''
      \<and> at_claim_token_hash row = Some (sha256_hex (sv_host sv) token)
      \<and> (\<forall>t. at_lease_expires_at row = Some t \<longrightarrow> now \<le> t)
      \<and> row' \<in> set (actions d') \<and> row' = row\<lparr>at_status := ActionStatus_value (report_status b), at_updated_at := now\<rparr>
      \<and> (at_status row' = ''succeeded'' \<longleftrightarrow> jr_success b \<and> jr_verified b)"
    by (intro exI [of _ row] exI [of _ ?row']) auto
  fix now' dev' token' key' b' and p' :: Principal
  assume l: "idempotency_lookup sv (pr_tenant_id p') ''job-result'' key' (report_payload action_id dev' b') d' = Inr None"
  have "\<exists>e. report_guard sv now' p' dev' action_id token' d' = Inl e"
  proof (cases "report_guard sv now' p' dev' action_id token' d'")
    case (Inr q)
    from report_guard_row(1,2,5) [OF Inr] final show ?thesis using report_status_final [of b] by fastforce
  qed blast
  with l show "\<exists>e. report_job_result sv now' p' dev' action_id token' key' b' d' = Inl e"
    by (auto simp: report_job_result_def)
qed

definition demo_report :: JobResult where
  "demo_report = \<lparr>jr_success = False, jr_verified = True, jr_output = [], jr_error = None,
     jr_rollback_attempted = True, jr_rollback_succeeded = Some False\<rparr>"

lemma demo_guard: "report_guard demo_server 50 demo_agent ''d'' ''b'' ''tok'' demo_db = Inr (demo_action ''b'' ''claimed'' 1)"
  by (simp add: report_guard_def tenant_row_def demo_db_def demo_action_def demo_agent_def demo_server_def
      row_simps demo_host_def)

lemma demo_db_lookup: "idempotency_lookup sv t s k p demo_db = Inr None"
  by (simp add: lookup_None demo_db_def empty_db_def row_simps)

lemma demo_report_accepted:
  "\<exists>resp d'. report_job_result demo_server 50 demo_agent ''d'' ''b'' ''tok'' ''k'' demo_report demo_db = Inr (resp, d')"
  by (simp add: report_job_result_def demo_guard demo_db_lookup Let_def)

theorem report_accepted_once_witness:
  "\<exists>resp d'. report_job_result demo_server 50 demo_agent ''d'' ''b'' ''tok'' ''k'' demo_report demo_db = Inr (resp, d')
     \<and> (\<exists>row' \<in> set (actions d'). at_status row' \<noteq> ''succeeded'' \<and> at_id row' = ''b'')"
proof -
  obtain resp d' where r: "report_job_result demo_server 50 demo_agent ''d'' ''b'' ''tok'' ''k'' demo_report demo_db = Inr (resp, d')"
    using demo_report_accepted by blast
  from report_accepted_once [OF demo_db_keyed demo_db_lookup r]
  obtain row row' where row': "row' \<in> set (actions d')" "at_id row = ''b''"
    "row' = row\<lparr>at_status := ActionStatus_value (report_status demo_report), at_updated_at := 50\<rparr>"
    "at_status row' = ''succeeded'' \<longleftrightarrow> jr_success demo_report \<and> jr_verified demo_report" by blast
  then have "at_status row' \<noteq> ''succeeded'' \<and> at_id row' = ''b''" by (simp add: demo_report_def)
  with r row'(1) show ?thesis by blast
qed

text \<open>
  What a report publishes.  A report flagged as verified emits \<open>execution.verified\<close> whatever
  it says about success, so a report of a failed execution with verification set ends the
  action in a state other than \<open>succeeded\<close> while the domain event \<open>remediation.succeeded\<close> about
  it is published.
\<close>

theorem failed_report_publishes_success:
  assumes "idempotency_lookup sv (pr_tenant_id p) ''job-result'' key (report_payload action_id device_id b) d = Inr None"
    and "report_job_result sv now p device_id action_id token key b d = Inr (resp, d')"
    and "\<not> jr_success b" and "jr_verified b"
  shows "dict_get resp ''status'' \<noteq> Some (JStr ''succeeded'')
    \<and> (\<exists>e \<in> set (domain_events d'). dr_event_type e = ''remediation.succeeded''
         \<and> dr_subject_id e = action_id \<and> dr_tenant_id e = pr_tenant_id p)"
proof -
  have de: "set (domain_events d) \<subseteq> set (domain_events (sql_append sv now m d))" for m d
    by (auto simp: sql_append_def publish_msg_def publish_def Let_def split: option.split)
  have des: "set (domain_events d) \<subseteq> set (domain_events (appends (sql_append sv) (map (Pair now) ms) d))" for ms d
    by (induction ms arbitrary: d) (auto dest: subsetD [OF de])
  let ?m = "msg (pr_tenant_id p) action_id ''execution.verified'' device_id [(''success'', JBool (jr_success b))]"
  have ev: "\<exists>e \<in> set (domain_events (sql_append sv now ?m x)). dr_event_type e = ''remediation.succeeded''
         \<and> dr_subject_id e = action_id \<and> dr_tenant_id e = pr_tenant_id p" for x
    by (auto simp: sql_append_def msg_def AUDIT_EVENT_MAPPING_def publish_msg_def publish_def Let_def
        DomainEvent_create_def)
  obtain m0 rest where ms: "report_msgs p device_id action_id b = m0 # ?m # rest"
    using assms(4) by (simp add: report_msgs_def Let_def)
  have "\<exists>y. apply_report sv now p device_id action_id b d
      = appends (sql_append sv) (map (Pair now) rest) (sql_append sv now ?m y)"
    unfolding apply_report_def Let_def ms by (simp only: list.map appends_simps) blast
  then obtain y where y: "apply_report sv now p device_id action_id b d
      = appends (sql_append sv) (map (Pair now) rest) (sql_append sv now ?m y)" by blast
  have "domain_events d' = domain_events (apply_report sv now p device_id action_id b d)"
    using report_effect(3) [OF assms(2,1)] by (simp add: remember_def)
  with ev [of y] des [of "sql_append sv now ?m y" rest] y
  have "\<exists>e \<in> set (domain_events d'). dr_event_type e = ''remediation.succeeded''
         \<and> dr_subject_id e = action_id \<and> dr_tenant_id e = pr_tenant_id p" by auto
  moreover have "dict_get resp ''status'' \<noteq> Some (JStr ''succeeded'')"
    using report_effect(2) [OF assms(2,1)] assms(3) by (simp add: dict_get_def report_status_def)
  ultimately show ?thesis by blast
qed

theorem failed_report_publishes_success_witness:
  "\<exists>resp d'. report_job_result demo_server 50 demo_agent ''d'' ''b'' ''tok'' ''k'' demo_report demo_db = Inr (resp, d')
     \<and> (\<exists>e \<in> set (domain_events d'). dr_event_type e = ''remediation.succeeded'' \<and> dr_subject_id e = ''b'')"
proof -
  obtain resp d' where r: "report_job_result demo_server 50 demo_agent ''d'' ''b'' ''tok'' ''k'' demo_report demo_db = Inr (resp, d')"
    using demo_report_accepted by blast
  have "\<not> jr_success demo_report" "jr_verified demo_report" by (simp_all add: demo_report_def)
  from failed_report_publishes_success [OF demo_db_lookup r this] r show ?thesis by blast
qed

section \<open>The reaper\<close>

text \<open>When all expired claims fit the batch, none is left.\<close>

lemma reaper_leaves_none:
  fixes now :: time
  assumes "actions_keyed d" and few: "int (length (filter (lease_expired now) (actions d))) \<le> min (max limit 1) 100"
  shows "\<forall>r \<in> set (actions (snd (process_batch sv now limit d))). \<not> lease_expired now r"
proof
  let ?batch = "expired_claims now limit d"
  fix r assume "r \<in> set (actions (snd (process_batch sv now limit d)))"
  then obtain q where q: "q \<in> set (actions d)"
    "r = (if at_id q \<in> at_id ` set ?batch then reaped sv now q else q)"
    unfolding process_batch_actions [OF assms(1)] set_update_where by blast
  have "length (filter (lease_expired now) (actions d)) \<le> nat (min (max limit 1) 100)"
    using few by linarith
  then have "?batch = order_by claimed_key (filter (lease_expired now) (actions d))"
    unfolding expired_claims_def by (intro take_all) simp
  then have "lease_expired now q \<Longrightarrow> q \<in> set ?batch" using q(1) by simp
  with q(2) show "\<not> lease_expired now r" by (auto simp: reaped_def lease_expired_def)
qed

text \<open>
  C32.  The reaper.  A batch recovers claims whose lease has run out, and nothing else: as many of them as there are, up to the
  limit (between 1 and 100).  Each recovered action is put back in the queue, or failed when its attempts are used up;
  its claim token, the time of the claim and the lease are cleared, the time of the update is set, and all its other
  fields stay; every other action keeps its row as it is.  The batch reports how many it recovered, and when the expired claims fit the batch
  none is left.
\<close>

theorem reaper_recovers_expired_claims:
  fixes now :: time and limit :: int and sv :: server
  assumes "actions_keyed d" and run: "process_batch sv now limit d = (recovered, d')"
  shows "\<exists>batch. distinct (map at_id batch)
    \<and> (\<forall>r \<in> set batch. r \<in> set (actions d) \<and> at_status r = ''claimed'' \<and> (\<exists>t. at_lease_expires_at r = Some t \<and> t < now))
    \<and> length batch = min (nat (min (max limit 1) 100))
        (length (filter (\<lambda>r. at_status r = ''claimed'' \<and> (\<exists>t. at_lease_expires_at r = Some t \<and> t < now)) (actions d)))
    \<and> actions d' = map (\<lambda>r. if at_id r \<in> set (map at_id batch)
          then r\<lparr>at_claim_token_hash := None, at_claimed_at := None, at_lease_expires_at := None,
                 at_status := (if at_attempt r \<ge> lease_reaper_max_attempts (sv_settings sv) then ''failed'' else ''queued''),
                 at_updated_at := now\<rparr>
          else r) (actions d)
    \<and> recovered = length batch
    \<and> (int (length (filter (\<lambda>r. at_status r = ''claimed'' \<and> (\<exists>t. at_lease_expires_at r = Some t \<and> t < now)) (actions d)))
          \<le> min (max limit 1) 100
         \<longrightarrow> (\<forall>r \<in> set (actions d'). \<not> (at_status r = ''claimed'' \<and> (\<exists>t. at_lease_expires_at r = Some t \<and> t < now))))"
proof -
  let ?batch = "expired_claims now limit d"
  note ex = expired_claims_props [OF assms(1), of now limit]
  have ls: "at_status r = ''claimed'' \<and> (\<exists>t. at_lease_expires_at r = Some t \<and> t < now) \<longleftrightarrow> lease_expired now r" for r
    by (auto simp: lease_expired_def split: option.splits)
  have acts: "actions d' = update_where (\<lambda>q. at_id q \<in> at_id ` set ?batch) (reaped sv now) (actions d)"
    using process_batch_actions [OF assms(1), of sv now limit] run by simp
  note few = reaper_leaves_none [OF assms(1), of now limit sv, unfolded run snd_conv]
  have mapped: "actions d' = map (\<lambda>r. if at_id r \<in> set (map at_id ?batch)
          then r\<lparr>at_claim_token_hash := None, at_claimed_at := None, at_lease_expires_at := None,
                 at_status := (if at_attempt r \<ge> lease_reaper_max_attempts (sv_settings sv) then ''failed'' else ''queued''),
                 at_updated_at := now\<rparr>
          else r) (actions d)"
    unfolding acts update_where_def by (simp add: reaped_def)
  have len: "length ?batch = min (nat (min (max limit 1) 100)) (length (filter (lease_expired now) (actions d)))"
    by (simp add: expired_claims_def min.commute)
  have rec: "recovered = length ?batch" using run by (simp add: process_batch_def Let_def)
  have ids: "distinct (map at_id ?batch)" using ex(2) by simp
  have each: "\<forall>r \<in> set ?batch. r \<in> set (actions d) \<and> lease_expired now r" using ex(1) by auto
  show ?thesis unfolding ls by (rule exI [of _ ?batch]) (intro conjI ids each len mapped rec impI few)
qed

theorem reaper_recovers_witness:
  "\<exists>d'. process_batch demo_server 100 50 demo_db = (1, d') \<and> length (actions d') = length (actions demo_db)
     \<and> (\<exists>r \<in> set (actions d'). at_id r = ''b'' \<and> at_status r = ''queued'' \<and> at_lease_expires_at r = None)"
proof -
  obtain n d' where run: "process_batch demo_server 100 50 demo_db = (n, d')" by fastforce
  from reaper_recovers_expired_claims [OF demo_db_keyed run] obtain batch where
    b: "\<forall>r \<in> set batch. r \<in> set (actions demo_db) \<and> at_status r = ''claimed''"
    and l: "length batch = min (nat (min (max 50 1) 100)) (length (filter (\<lambda>r. at_status r = ''claimed''
        \<and> (\<exists>t. at_lease_expires_at r = Some t \<and> t < 100)) (actions demo_db)))"
    and a: "actions d' = map (\<lambda>r. if at_id r \<in> set (map at_id batch)
          then r\<lparr>at_claim_token_hash := None, at_claimed_at := None, at_lease_expires_at := None,
                 at_status := (if at_attempt r \<ge> lease_reaper_max_attempts (sv_settings demo_server) then ''failed'' else ''queued''),
                 at_updated_at := 100\<rparr>
          else r) (actions demo_db)"
    and n: "n = length batch" by blast
  have "length batch = 1" unfolding l by (simp add: demo_db_def demo_action_def)
  then obtain r where r: "batch = [r]" by (cases batch) auto
  with b have "r = demo_action ''b'' ''claimed'' 1" by (auto simp: demo_db_def demo_action_def)
  with r have i: "set (map at_id batch) = {''b''}" by (simp add: demo_action_def)
  have "lease_reaper_max_attempts (sv_settings demo_server) = 3" by (simp add: demo_server_def demo_settings_def default_settings_def)
  then have "\<exists>r \<in> set (actions d'). at_id r = ''b'' \<and> at_status r = ''queued'' \<and> at_lease_expires_at r = None"
    unfolding a i by (simp add: demo_db_def demo_action_def)
  with run n r a show ?thesis by simp
qed

section \<open>Retries\<close>

lemma fold_reap_records [simp]: "idempotency_records (fold (reap sv now) rs d) = idempotency_records d"
  by (induction rs arbitrary: d) auto

lemma session_records:
  assumes "request_orchestrator sv now tk d = Inr o'"
    and "logs (oe_audit o') (os_audit (session_state d)) (os_audit st)"
  shows "idempotency_records (os_audit st) = idempotency_records d"
  using assms request_orchestrator_fields(3) [OF assms(1)] by (auto simp: logs_def)

lemma decide_records:
  assumes "decide_action sv now p action_id b d = Inr (resp, d')"
  shows "idempotency_records d' = idempotency_records d"
proof -
  from assms obtain o' rec st where o: "request_orchestrator sv now None d = Inr o'"
    and r: "(if ad_approve b
             then approve o' now (pr_tenant_id p) action_id (pr_actor_id p) (session_state d)
             else deny o' now (pr_tenant_id p) action_id (pr_actor_id p) (ad_reason b)
                    (session_state d)) = (Inr rec, st)"
    and a: "idempotency_records d' = idempotency_records (merge_session st)"
    unfolding decide_action_def by (auto simp: Let_def split: sum.splits option.splits prod.splits)
  have "logs (oe_audit o') (os_audit (session_state d)) (os_audit st)"
    using logs_approve [of o' "session_state d" now "pr_tenant_id p" action_id "pr_actor_id p"]
      logs_deny [of o' "session_state d" now "pr_tenant_id p" action_id "pr_actor_id p" "ad_reason b"] r
    by (cases "ad_approve b") (simp_all del: session_simps)
  from session_records [OF o this] a show ?thesis by simp
qed

lemma create_remembers:
  assumes "create_action sv now p key b d = Inr (resp, d')"
    and "idempotency_lookup sv (pr_tenant_id p) ''action'' key (action_create_json b) d = Inr None"
  shows "\<exists>x. d' = remember sv now (pr_tenant_id p) ''action'' key (action_create_json b) resp 201 x
     \<and> idempotency_records x = idempotency_records d \<and> resp \<noteq> []"
proof -
  define d0 where "d0 = snd (new_id sv d)"
  from assms obtain dev :: Device and rq o' rec st row
    where o: "request_orchestrator sv now (ac_body_ticket_id b) d0 = Inr o'"
      and st: "submit o' now rq (dv_os dev) (session_state d0) = (Inr rec, st)"
      and a: "resp = action_json sv row"
        "d' = remember sv now (pr_tenant_id p) ''action'' key (action_create_json b) resp 201 (merge_session st)"
    unfolding create_action_def Let_def d0_def [symmetric]
    by (auto split: sum.splits option.splits prod.splits if_splits)
  have "logs (oe_audit o') (os_audit (session_state d0)) (os_audit st)"
    using logs_submit [of o' "session_state d0" now rq "dv_os dev"] st by simp
  from session_records [OF o this] have "idempotency_records (merge_session st) = idempotency_records d"
    by (simp add: d0_def)
  moreover have "resp \<noteq> []" using a(1) by (simp add: action_json_def)
  ultimately show ?thesis using a(2) by blast
qed

lemma create_cached:
  assumes "create_action sv now p key b d = Inr (resp, d')"
    and "idempotency_lookup sv (pr_tenant_id p) ''action'' key (action_create_json b) d = Inr (Some c)"
  shows "(\<exists>es. idempotency_records d' = idempotency_records d @ es)"
proof (cases "c = []")
  case True
  define d0 where "d0 = snd (new_id sv d)"
  from True assms obtain dev :: Device and rq o' rec st r
    where o: "request_orchestrator sv now (ac_body_ticket_id b) d0 = Inr o'"
      and st: "submit o' now rq (dv_os dev) (session_state d0) = (Inr rec, st)"
      and a: "d' = remember sv now (pr_tenant_id p) ''action'' key (action_create_json b) r 201 (merge_session st)"
    unfolding create_action_def Let_def d0_def [symmetric]
    by (auto split: sum.splits option.splits prod.splits if_splits)
  have "logs (oe_audit o') (os_audit (session_state d0)) (os_audit st)"
    using logs_submit [of o' "session_state d0" now rq "dv_os dev"] st by simp
  from session_records [OF o this] show ?thesis by (simp add: a remember_def d0_def)
next
  case False
  with assms show ?thesis by (simp add: create_action_def Let_def)
qed

lemma job_op_records:
  assumes "job_op sv d d'"
  shows "\<exists>es. idempotency_records d' = idempotency_records d @ es"
  using assms
proof cases
  case (op_create now p key b resp)
  show ?thesis
  proof (cases "idempotency_lookup sv (pr_tenant_id p) ''action'' key (action_create_json b) d")
    case (Inl e)
    with op_create show ?thesis by (simp add: create_action_def Let_def)
  next
    case (Inr c)
    show ?thesis
    proof (cases c)
      case None
      with Inr create_remembers [OF op_create] show ?thesis by (auto simp: remember_def)
    next
      case (Some r)
      with Inr create_cached [OF op_create] show ?thesis by simp
    qed
  qed
next
  case (op_decide now p action_id dec resp)
  from decide_records [OF this] show ?thesis by simp
next
  case (op_claim now p device_id action_id key resp)
  then show ?thesis unfolding claim_job_def claim_fresh_def Let_def
    by (auto split: option.splits sum.splits json.splits if_splits simp: remember_def)
next
  case (op_report now p device_id action_id token key res resp)
  then show ?thesis unfolding report_job_result_def Let_def apply_report_def
    by (auto split: option.splits sum.splits simp: remember_def)
next
  case (op_reap now limit)
  then show ?thesis by (simp add: process_batch_def Let_def)
qed

lemma job_ops_records: "(job_op sv)\<^sup>*\<^sup>* d d' \<Longrightarrow> \<exists>es. idempotency_records d' = idempotency_records d @ es"
proof (induction rule: rtranclp_induct)
  case (step y z)
  from job_op_records [OF step.hyps(2)] step.IH show ?case by auto
qed simp

lemma lookup_persists:
  assumes "idempotency_lookup sv t s k p d = Inr (Some r)" and "(job_op sv)\<^sup>*\<^sup>* d d'"
  shows "idempotency_lookup sv t s k p d' = Inr (Some r)"
  using job_ops_records [OF assms(2)] assms(1)
  by (auto simp: idempotency_lookup_def row_simps split: option.splits)

text \<open>
  Retries are replayed.  After a creation or a report that was served for the first time,
  the same request with the same idempotency key gets the same response and changes nothing,
  at any later time and whatever other operations ran in between.
\<close>

theorem retries_replayed:
  assumes "(job_op sv)\<^sup>*\<^sup>* d' d''"
  shows "(create_action sv now p key b d = Inr (resp, d')
      \<and> idempotency_lookup sv (pr_tenant_id p) ''action'' key (action_create_json b) d = Inr None
      \<longrightarrow> create_action sv now' p key b d'' = Inr (resp, d''))
    \<and> (report_job_result sv now p device_id action_id token key res d = Inr (resp, d')
      \<and> idempotency_lookup sv (pr_tenant_id p) ''job-result'' key (report_payload action_id device_id res) d = Inr None
      \<longrightarrow> report_job_result sv now' p device_id action_id token' key res d'' = Inr (resp, d''))"
proof (intro conjI impI; elim conjE)
  assume c: "create_action sv now p key b d = Inr (resp, d')"
    and l: "idempotency_lookup sv (pr_tenant_id p) ''action'' key (action_create_json b) d = Inr None"
  from create_remembers [OF c l] obtain x where
    x: "d' = remember sv now (pr_tenant_id p) ''action'' key (action_create_json b) resp 201 x"
    "idempotency_records x = idempotency_records d" "resp \<noteq> []" by blast
  from x(2) l have "idempotency_lookup sv (pr_tenant_id p) ''action'' key (action_create_json b) x = Inr None"
    by (simp add: lookup_None)
  from idem.hit [OF this] x(1) have "idempotency_lookup sv (pr_tenant_id p) ''action'' key (action_create_json b) d' = Inr (Some resp)"
    by simp
  from lookup_persists [OF this assms] x(3) show "create_action sv now' p key b d'' = Inr (resp, d'')"
    by (simp add: create_action_def Let_def)
next
  assume c: "report_job_result sv now p device_id action_id token key res d = Inr (resp, d')"
    and l: "idempotency_lookup sv (pr_tenant_id p) ''job-result'' key (report_payload action_id device_id res) d = Inr None"
  let ?x = "apply_report sv now p device_id action_id res d"
  have "idempotency_lookup sv (pr_tenant_id p) ''job-result'' key (report_payload action_id device_id res) ?x = Inr None"
    using l by (simp add: lookup_None apply_report_def Let_def)
  from idem.hit [OF this] report_effect(3) [OF c l]
  have "idempotency_lookup sv (pr_tenant_id p) ''job-result'' key (report_payload action_id device_id res) d' = Inr (Some resp)"
    by simp
  from lookup_persists [OF this assms] show "report_job_result sv now' p device_id action_id token' key res d'' = Inr (resp, d'')"
    by (simp add: report_job_result_def Let_def)
qed

theorem retries_replayed_witness:
  "\<exists>resp d'. report_job_result demo_server 50 demo_agent ''d'' ''b'' ''tok'' ''k'' demo_report demo_db = Inr (resp, d')
     \<and> report_job_result demo_server 90 demo_agent ''d'' ''b'' ''tok'' ''k'' demo_report d' = Inr (resp, d')"
proof -
  obtain resp d' where r: "report_job_result demo_server 50 demo_agent ''d'' ''b'' ''tok'' ''k'' demo_report demo_db = Inr (resp, d')"
    using demo_report_accepted by blast
  from retries_replayed [of demo_server d' d'] r demo_db_lookup show ?thesis by blast
qed

lemma dict_set_new: "dict_get d k = None \<Longrightarrow> dict_set d k v = d @ [(k, v)]"
  by (induction d) (auto simp: dict_get_def split: if_splits)

lemma claim_fresh_response:
  assumes "actions_keyed d" and "claim_fresh sv now p device_id action_id key v n d = Inr (resp, d')"
    and "n = (case scalar (action_key action_id) (actions d) of None \<Rightarrow> 1 | Some r \<Rightarrow> at_attempt r + 1)"
  shows "\<exists>stored x. resp = dict_set stored ''claim_token'' (JStr (claim_token sv action_id n key))
    \<and> dict_get stored ''attempt'' = Some (JInt n)
    \<and> d' = remember sv now (pr_tenant_id p) ''job-claim'' key (claim_payload action_id device_id) stored 200 x
    \<and> idempotency_records x = idempotency_records d"
proof -
  let ?f = "claim_update sv now (claim_token sv action_id n key)"
  from claim_fresh_actions(2) [OF assms(2)] have "filter (claimable p device_id action_id) (actions d) \<noteq> []"
    by (metis length_0_conv zero_neq_one)
  then obtain row where row: "row \<in> set (actions d)" "claimable p device_id action_id row"
    by (auto simp: filter_empty_conv)
  then have k: "at_id row = action_id" by (simp add: claimable_def)
  have cur: "scalar (action_key action_id) (actions d) = Some row"
    using scalar_unique [of at_id "actions d" row action_id] assms(1) row(1) k
    by (simp add: actions_keyed_def action_key_def [abs_def])
  have "scalar (action_key action_id) (update_where (claimable p device_id action_id) ?f rows)
      = map_option (\<lambda>r. if claimable p device_id action_id r then ?f r else r)
            (scalar (action_key action_id) rows)" for rows
    by (induction rows) (auto simp: row_simps action_key_def claim_update_def)
  with cur row(2) have sc: "scalar (action_key action_id)
      (update_where (claimable p device_id action_id) ?f (actions d)) = Some (?f row)" by simp
  have n: "n = at_attempt row + 1" using assms(3) cur by simp
  have at: "at_attempt (?f row) = n" "at_lease_expires_at (?f row) = Some (now + lease_seconds)" "at_id (?f row) = action_id"
    using n k by (simp_all add: claim_update_def)
  obtain sig where sig: "sign_envelope (sv_host sv) (sv_crypto sv)
      (job_envelope sv now p (?f row) v (now + lease_seconds) (sv_token sv (next_id d)))
      (job_signing_seed (sv_settings sv)) (job_signing_key_version (sv_settings sv)) = Inr sig"
    using job_envelope_signs by blast
  define stored where "stored = job_envelope sv now p (?f row) v (now + lease_seconds) (sv_token sv (next_id d))
     @ [(''signature'', JStr sig), (''id'', JStr action_id), (''attempt'', JInt n),
        (''lease_expires_at'', JStr (isoformat (sv_host sv) (now + lease_seconds)))]"
  have st: "dict_get stored ''attempt'' = Some (JInt n)" "dict_get stored ''claim_token'' = None"
    by (simp_all add: stored_def job_envelope_def dict_get_def)
  have len: "length (filter (claimable p device_id action_id) (actions d)) = 1"
    by (rule claim_fresh_actions(2) [OF assms(2)])
  define lease where "lease = JStr (isoformat (sv_host sv) (now + lease_seconds))"
  define x where "x = sql_append sv now
      (msg (pr_tenant_id p) action_id ''execution.claimed'' device_id
         [(''job_id'', JStr (action_id @ '':'' @ show_int n)), (''attempt'', JInt n), (''lease_expires_at'', lease),
          (''previous_status'', JStr ''queued''), (''new_status'', JStr ''claimed'')])
      (snd (new_id sv (d\<lparr>actions := update_where (claimable p device_id action_id) ?f (actions d)\<rparr>)))"
  have eq: "(resp, d') = (stored @ [(''claim_token'', JStr (claim_token sv action_id n key))],
      remember sv now (pr_tenant_id p) ''job-claim'' key (claim_payload action_id device_id) stored 200 x)"
    using assms(2) sig unfolding claim_fresh_def Let_def len x_def stored_def lease_def
    by (simp add: sc at)
  have x: "resp = stored @ [(''claim_token'', JStr (claim_token sv action_id n key))]"
      "d' = remember sv now (pr_tenant_id p) ''job-claim'' key (claim_payload action_id device_id) stored 200 x"
    using eq by simp_all
  have x3: "idempotency_records x = idempotency_records d" by (simp add: x_def)
  show ?thesis
    by (rule exI [of _ stored], rule exI [of _ x]) (simp add: x x3 st dict_set_new)
qed

text \<open>
  A claim key is good for one attempt only.  A claim repeated with its idempotency key gets
  the first attempt's envelope again and leaves the database as it is, at any later time: also
  after the reaper has put the action back in the queue, so an agent that uses one key for all
  attempts of an action (both agents send \<open>claim-<action id>\<close>) never claims it again.
\<close>

theorem claim_key_replays_first_attempt:
  assumes "actions_keyed d"
    and "idempotency_lookup sv (pr_tenant_id p) ''job-claim'' key (claim_payload action_id device_id) d = Inr None"
    and "claim_job sv now p device_id action_id key d = Inr (resp, d')"
    and "(job_op sv)\<^sup>*\<^sup>* d' d''"
  shows "claim_job sv now' p device_id action_id key d'' = Inr (resp, d'')"
proof -
  obtain v where f: "claim_fresh sv now p device_id action_id key v
      (case scalar (action_key action_id) (actions d) of None \<Rightarrow> 1 | Some r \<Rightarrow> at_attempt r + 1) d = Inr (resp, d')"
    using assms(2,3) by (auto simp: claim_job_def Let_def split: sum.splits)
  let ?n = "case scalar (action_key action_id) (actions d) of None \<Rightarrow> 1 | Some r \<Rightarrow> at_attempt r + 1"
  from claim_fresh_response [OF assms(1) f refl] obtain stored x where
    s: "resp = dict_set stored ''claim_token'' (JStr (claim_token sv action_id ?n key))"
    "dict_get stored ''attempt'' = Some (JInt ?n)"
    "d' = remember sv now (pr_tenant_id p) ''job-claim'' key (claim_payload action_id device_id) stored 200 x"
    "idempotency_records x = idempotency_records d" by blast
  have "idempotency_lookup sv (pr_tenant_id p) ''job-claim'' key (claim_payload action_id device_id) x = Inr None"
    using assms(2) s(4) by (simp add: lookup_None)
  from idem.hit [OF this] s(3)
  have "idempotency_lookup sv (pr_tenant_id p) ''job-claim'' key (claim_payload action_id device_id) d' = Inr (Some stored)"
    by simp
  from lookup_persists [OF this assms(4)] s(1,2) show ?thesis by (simp add: claim_job_def)
qed

theorem claim_key_replays_first_attempt_witness:
  "\<exists>resp d' d''. claim_job demo_server 1 demo_agent ''d'' ''q'' ''claim-q'' demo_queue = Inr (resp, d')
     \<and> d'' = snd (process_batch demo_server 1000 50 d')
     \<and> claim_job demo_server 1001 demo_agent ''d'' ''q'' ''claim-q'' d'' = Inr (resp, d'')"
proof -
  obtain resp d' where c: "claim_job demo_server 1 demo_agent ''d'' ''q'' ''claim-q'' demo_queue = Inr (resp, d')"
    using demo_claim by blast
  have "(job_op demo_server)\<^sup>*\<^sup>* d' (snd (process_batch demo_server 1000 50 d'))" using op_reap by blast
  from claim_key_replays_first_attempt [OF demo_queue_keyed demo_queue_lookup c this] c show ?thesis by blast
qed

section \<open>Tenants and decisions\<close>

text \<open>
  C13.  Tenant isolation of the job handlers.  Creating, deciding, claiming and reporting on
  behalf of one tenant leaves every action row of every other tenant as it was.
\<close>

theorem handlers_isolate_tenants:
  assumes "actions_keyed d" and "r \<in> set (actions d)" and "at_tenant_id r \<noteq> pr_tenant_id p"
    and "create_action sv now p key b d = Inr (resp, d') \<or> decide_action sv now p action_id dec d = Inr (resp, d')
      \<or> claim_job sv now p device_id action_id key d = Inr (resp, d')
      \<or> report_job_result sv now p device_id action_id token key res d = Inr (resp, d')"
  shows "r \<in> set (actions d')"
proof -
  have upd: "r \<in> set (update_where P f (actions d))" if "\<not> P r" for P f
    using assms(2) that by (auto simp: set_update_where intro!: bexI [of _ r])
  from assms(4) show ?thesis
  proof (elim disjE)
    assume "create_action sv now p key b d = Inr (resp, d')"
    from create_action_actions [OF this] assms(2) show ?thesis by auto
  next
    assume dec: "decide_action sv now p action_id dec d = Inr (resp, d')"
    from decide_action_actions [OF dec] obtain r0 and r' :: ActionRecord where
      r0: "sql_get (pr_tenant_id p) action_id d = Inr (Some r0)"
      and a: "actions d' = update_where (\<lambda>q. at_id q = action_id)
        (\<lambda>q. q\<lparr>at_status := ActionStatus_value (ac_status r'),
              at_approved_by := ac_approved_by r', at_updated_at := now\<rparr>) (actions d)" by blast
    from r0 obtain row res where "row \<in> set (actions d)" "at_id row = action_id" "at_tenant_id row = pr_tenant_id p"
      by (rule sql_getE)
    with keyed_unique [OF assms(1,2)] assms(3) have "at_id r \<noteq> action_id" by metis
    then show ?thesis unfolding a by (intro upd)
  next
    assume "claim_job sv now p device_id action_id key d = Inr (resp, d')"
    from claim_job_actions [OF this] assms(2,3) show ?thesis by (auto intro!: upd simp: claimable_def)
  next
    assume "report_job_result sv now p device_id action_id token key res d = Inr (resp, d')"
    from report_job_actions [OF this] assms(2,3) show ?thesis by (auto intro: upd)
  qed
qed

theorem handlers_isolate_tenants_witness:
  "\<exists>resp d'. claim_job demo_server 1 demo_agent ''d'' ''q'' ''k'' demo_queue = Inr (resp, d')
     \<and> (demo_action ''o'' ''queued'' 0)\<lparr>at_tenant_id := ''u''\<rparr> \<in> set (actions d')"
proof -
  obtain resp d' where c: "claim_job demo_server 1 demo_agent ''d'' ''q'' ''k'' demo_queue = Inr (resp, d')"
    using demo_claim by blast
  have "(demo_action ''o'' ''queued'' 0)\<lparr>at_tenant_id := ''u''\<rparr> \<in> set (actions demo_queue)"
    "at_tenant_id ((demo_action ''o'' ''queued'' 0)\<lparr>at_tenant_id := ''u''\<rparr>) \<noteq> pr_tenant_id demo_agent"
    by (simp_all add: demo_queue_def demo_agent_def)
  from handlers_isolate_tenants [OF demo_queue_keyed this] c show ?thesis by blast
qed

lemma approve_queued:
  assumes o: "oe_store o' = Some (sql_store_ops sv now tk)" "\<not> oe_execute_immediately o'"
    and r: "approve o' now t c a (session_state d) = (Inr r', st)" and "ac_status r' = QUEUED"
  shows "\<exists>r. sql_get t c d = Inr (Some r) \<and> a \<noteq> rq_requested_by (ac_request r)
    \<and> pd_allowed (evaluate (oe_policy o') (ac_request r) (ac_device_os r)) \<and> ac_approved_by r' = Some a"
  using r assms(4) get_for_tenant_session [OF o(1), of t c d] o(2)
  unfolding approve_def Let_def execute_or_queue_def then_persist_def
  by (auto split: sum.splits if_splits dest!: persist_session [OF o(1)])

lemma decide_action_effect:
  assumes "decide_action sv now p action_id b d = Inr (resp, d')"
  obtains o' r0 and r' :: ActionRecord where "request_orchestrator sv now None d = Inr o'"
    and "sql_get (pr_tenant_id p) action_id d = Inr (Some r0)" and "ac_status r0 = PENDING_APPROVAL"
    and "ac_status r' \<in> {QUEUED, DENIED}"
    and "actions d' = update_where (\<lambda>q. at_id q = action_id)
       (\<lambda>q. q\<lparr>at_status := ActionStatus_value (ac_status r'),
              at_approved_by := ac_approved_by r', at_updated_at := now\<rparr>) (actions d)"
    and "ac_status r' = QUEUED \<longrightarrow> ad_approve b \<and> pr_actor_id p \<noteq> rq_requested_by (ac_request r0)
       \<and> pd_allowed (evaluate (oe_policy o') (ac_request r0) (ac_device_os r0))
       \<and> ac_approved_by r' = Some (pr_actor_id p)"
    and "\<exists>a \<in> set (approvals d'). ap_action_id a = action_id \<and> ap_decided_by a = pr_actor_id p
       \<and> ap_decision a = (if ad_approve b then ''approve'' else ''deny'')"
proof -
  from assms obtain o' rec st where o: "request_orchestrator sv now None d = Inr o'"
    and r: "(if ad_approve b
             then approve o' now (pr_tenant_id p) action_id (pr_actor_id p) (session_state d)
             else deny o' now (pr_tenant_id p) action_id (pr_actor_id p) (ad_reason b)
                    (session_state d)) = (Inr rec, st)"
    and a: "actions d' = actions (os_store st)"
    and ap: "\<exists>a \<in> set (approvals d'). ap_action_id a = action_id \<and> ap_decided_by a = pr_actor_id p
       \<and> ap_decision a = (if ad_approve b then ''approve'' else ''deny'')"
    unfolding decide_action_def by (auto simp: Let_def split: sum.splits option.splits prod.splits)
  note f = request_orchestrator_fields [OF o]
  from r approve_session [OF f(1,2)] deny_session [OF f(1)]
  obtain r0 where r0: "sql_get (pr_tenant_id p) action_id d = Inr (Some r0)"
    "ac_status r0 = PENDING_APPROVAL" "ac_request rec = ac_request r0"
    "ac_status rec \<in> {QUEUED, DENIED}" "\<not> ad_approve b \<longrightarrow> ac_status rec = DENIED"
    "sql_update sv now rec d = Inr (os_store st)"
    by (cases "ad_approve b") (simp_all, blast+)
  from r0(1) have k: "rq_correlation_id (ac_request r0) = action_id"
    using sqlstore.get_key [of sv now None "pr_tenant_id p" action_id d r0] by (simp add: sql_store_ops_def)
  have q: "ac_status rec = QUEUED \<longrightarrow> ad_approve b \<and> pr_actor_id p \<noteq> rq_requested_by (ac_request r0)
       \<and> pd_allowed (evaluate (oe_policy o') (ac_request r0) (ac_device_os r0))
       \<and> ac_approved_by rec = Some (pr_actor_id p)"
  proof
    assume q: "ac_status rec = QUEUED"
    then have "ad_approve b" using r0(5) by auto
    with r have "approve o' now (pr_tenant_id p) action_id (pr_actor_id p) (session_state d) = (Inr rec, st)" by simp
    from approve_queued [OF f(1,2) this q] r0(1) \<open>ad_approve b\<close>
    show "ad_approve b \<and> pr_actor_id p \<noteq> rq_requested_by (ac_request r0)
       \<and> pd_allowed (evaluate (oe_policy o') (ac_request r0) (ac_device_os r0))
       \<and> ac_approved_by rec = Some (pr_actor_id p)" by auto
  qed
  from that [OF o r0(1,2,4) _ q ap] a sql_update_actions [OF r0(6)] r0(3) k show ?thesis by simp
qed

lemma pending_text: "action_of_row row res = Inr r \<Longrightarrow> at_status row = ActionStatus_value (ac_status r)"
  using action_of_row_Inr(5) [of row res r] by (auto simp: parse_ActionStatus_def find_Some_iff)

text \<open>
  C2.  A decision is made once, and an approval by someone else.  A decision is accepted only for
  an action of the tenant that waits for approval and leaves it queued or denied; it is queued
  only by an approval from someone other than the requester while the registered skills' policy
  still allows it, and then carries the approver; the decision is recorded; and every later
  decision on the action, by anyone, is refused.
\<close>

theorem decision_four_eyes_once:
  assumes "decide_action sv now p action_id b d = Inr (resp, d')"
  shows "(\<exists>row row' o'. row \<in> set (actions d) \<and> at_id row = action_id \<and> at_tenant_id row = pr_tenant_id p
      \<and> at_status row = ''pending_approval'' \<and> row' \<in> set (actions d') \<and> at_id row' = action_id
      \<and> at_status row' \<in> {''queued'', ''denied''} \<and> request_orchestrator sv now None d = Inr o'
      \<and> (at_status row' = ''queued'' \<longrightarrow> ad_approve b \<and> pr_actor_id p \<noteq> at_requested_by row
           \<and> at_approved_by row' = Some (pr_actor_id p)
           \<and> (\<exists>rq. pd_allowed (evaluate (oe_policy o') rq (at_device_os row)) \<and> rq_skill_id rq = at_skill_id row)))
    \<and> (\<exists>a \<in> set (approvals d'). ap_action_id a = action_id \<and> ap_decided_by a = pr_actor_id p
         \<and> ap_decision a = (if ad_approve b then ''approve'' else ''deny''))
    \<and> (\<forall>now' (p' :: Principal) b'. \<exists>e. decide_action sv now' p' action_id b' d' = Inl e)"
proof -
  obtain o' r0 and r' :: ActionRecord where o: "request_orchestrator sv now None d = Inr o'"
    and r0: "sql_get (pr_tenant_id p) action_id d = Inr (Some r0)" "ac_status r0 = PENDING_APPROVAL"
    and r': "ac_status r' \<in> {QUEUED, DENIED}"
    and acts: "actions d' = update_where (\<lambda>q. at_id q = action_id)
       (\<lambda>q. q\<lparr>at_status := ActionStatus_value (ac_status r'),
              at_approved_by := ac_approved_by r', at_updated_at := now\<rparr>) (actions d)"
    and q: "ac_status r' = QUEUED \<longrightarrow> ad_approve b \<and> pr_actor_id p \<noteq> rq_requested_by (ac_request r0)
       \<and> pd_allowed (evaluate (oe_policy o') (ac_request r0) (ac_device_os r0))
       \<and> ac_approved_by r' = Some (pr_actor_id p)"
    and ap: "\<exists>a \<in> set (approvals d'). ap_action_id a = action_id \<and> ap_decided_by a = pr_actor_id p
       \<and> ap_decision a = (if ad_approve b then ''approve'' else ''deny'')"
    using decide_action_effect [OF assms] .
  from r0(1) obtain row res where row: "action_of_row row res = Inr r0" "row \<in> set (actions d)"
    "at_id row = action_id" "at_tenant_id row = pr_tenant_id p" by (rule sql_getE)
  note ar = action_of_row_Inr [OF row(1)]
  let ?row' = "row\<lparr>at_status := ActionStatus_value (ac_status r'),
              at_approved_by := ac_approved_by r', at_updated_at := now\<rparr>"
  have row': "?row' \<in> set (actions d')"
    unfolding acts set_update_where using row(2,3) by (intro bexI [of _ row]) simp_all
  have st: "at_status ?row' \<in> {''queued'', ''denied''}" "at_status ?row' = ''queued'' \<longrightarrow> ac_status r' = QUEUED"
    using r' by auto
  have pend: "at_status row = ''pending_approval''" using pending_text [OF row(1)] r0(2) by simp
  have four: "at_status ?row' = ''queued'' \<longrightarrow> ad_approve b \<and> pr_actor_id p \<noteq> at_requested_by row
           \<and> at_approved_by ?row' = Some (pr_actor_id p)
           \<and> (\<exists>rq. pd_allowed (evaluate (oe_policy o') rq (at_device_os row)) \<and> rq_skill_id rq = at_skill_id row)"
    using st(2) q ar(1,3) by (auto intro!: exI [of _ "ac_request r0"])
  have once: "\<exists>e. decide_action sv now' p' action_id b' d' = Inl e" for now' and p' :: Principal and b'
  proof (cases "decide_action sv now' p' action_id b' d'")
    case (Inr x)
    obtain resp2 d2 where "x = (resp2, d2)" by (cases x)
    with Inr have "decide_action sv now' p' action_id b' d' = Inr (resp2, d2)" by simp
    from decide_action_actions [OF this] obtain r2 where r2: "sql_get (pr_tenant_id p') action_id d' = Inr (Some r2)"
      "ac_status r2 = PENDING_APPROVAL" by blast
    from r2(1) obtain row2 res2 where row2: "action_of_row row2 res2 = Inr r2" "row2 \<in> set (actions d')"
      "at_id row2 = action_id" by (rule sql_getE)
    from row2(2) obtain q1 where q1: "row2 = (if at_id q1 = action_id
      then q1\<lparr>at_status := ActionStatus_value (ac_status r'), at_approved_by := ac_approved_by r', at_updated_at := now\<rparr>
      else q1)" unfolding acts set_update_where by (rule bexE)
    have "at_id q1 = action_id" using q1 row2(3) by (cases "at_id q1 = action_id") simp_all
    with q1 have q2: "at_status row2 = ActionStatus_value (ac_status r')" by simp
    from pending_text [OF row2(1)] r2(2) have "at_status row2 = ''pending_approval''" by simp
    with q2 r' show ?thesis by (cases "ac_status r' = QUEUED") simp_all
  qed blast
  have id': "at_id ?row' = action_id" using row(3) by simp
  show ?thesis
    by (intro conjI exI [of _ row] exI [of _ ?row'] exI [of _ o'] allI)
       (fact row(2) row(3) row(4) pend row' id' st(1) o four ap once)+
qed

definition demo_restart_skill :: SkillDefinition where
  "demo_restart_skill = \<lparr>sk_skill_id = ''service.restart'', sk_risk = RISK_MEDIUM, sk_supported_os = {''linux''},
     sk_timeout_seconds = 30, sk_rollback_skill_id = None, sk_command_type = LOW_RISK_CHANGE,
     sk_requires_user_approval = False, sk_requires_admin_approval = False,
     sk_security_sensitive = False, sk_reversible = True\<rparr>"

lemma demo_restart_skill: "to_skill_definition demo_manifest = Inr demo_restart_skill"
  by (simp add: to_skill_definition_def SkillDefinition_init_def demo_manifest_def demo_restart_skill_def)

lemma demo_orchestrator:
  "\<exists>o'. request_orchestrator demo_server now None demo_queue = Inr o'
     \<and> oe_policy o' = [(''service.restart'', demo_restart_skill)]"
proof -
  have "load_active_skill_manifests demo_server demo_queue = Inr [demo_manifest]"
    using demo_manifest_verifies
    by (simp add: load_active_skill_manifests_def demo_queue_def demo_server_def demo_manifest_row_def
        manifest_row_def)
  then show ?thesis
    by (simp add: request_orchestrator_def demo_restart_skill PolicyEngine_init_def) (simp add: demo_restart_skill_def)
qed

lemma demo_sql_get:
  "sql_get ''t'' ''p'' demo_queue = Inr (Some \<lparr>ac_request = \<lparr>rq_tenant_id = ''t'', rq_device_id = ''d'',
       rq_skill_id = ''service.restart'', rq_requested_by = ''alice'', rq_parameters = [], rq_correlation_id = ''p''\<rparr>,
     ac_device_os = ''linux'', ac_risk = RISK_LOW, ac_status = PENDING_APPROVAL, ac_approved_by = None, ac_result = None\<rparr>)"
  by (simp add: sql_get_def demo_queue_def demo_action_def empty_db_def row_simps)
     (code_simp)

lemma demo_sql_update:
  assumes "rq_correlation_id (ac_request r) = ''p''" and "rq_tenant_id (ac_request r) = ''t''" and "ac_result r = None"
  obtains d' where "sql_update demo_server now r demo_queue = Inr d'" and "map at_id (actions d') = [''q'', ''p'', ''o'']"
  using assms that
  by (simp add: sql_update_def demo_queue_def demo_action_def empty_db_def row_simps)

lemma demo_approves:
  assumes "request_orchestrator demo_server now None demo_queue = Inr o'" and "oe_policy o' = [(''service.restart'', demo_restart_skill)]"
  shows "\<exists>r st. approve o' now ''t'' ''p'' ''bob'' (session_state demo_queue) = (Inr r, st)
     \<and> rq_correlation_id (ac_request r) = ''p'' \<and> map at_id (actions (os_store st)) = [''q'', ''p'', ''o'']"
proof -
  note f = request_orchestrator_fields [OF assms(1)]
  have low: "lower ''linux'' = ''linux''" by code_simp
  let ?r = "\<lparr>ac_request = \<lparr>rq_tenant_id = ''t'', rq_device_id = ''d'', rq_skill_id = ''service.restart'',
       rq_requested_by = ''alice'', rq_parameters = [], rq_correlation_id = ''p''\<rparr>,
     ac_device_os = ''linux'', ac_risk = RISK_LOW, ac_status = QUEUED, ac_approved_by = Some ''bob'', ac_result = None\<rparr>"
  obtain d' where u: "sql_update demo_server now ?r demo_queue = Inr d'" "map at_id (actions d') = [''q'', ''p'', ''o'']"
    by (rule demo_sql_update [of ?r]) simp_all
  show ?thesis
    by (simp add: approve_def get_for_tenant_def session_state_def f sql_store_ops_def demo_sql_get assms(2)
        evaluate_def demo_restart_skill_def os_supported_def low Let_def execute_or_queue_def then_persist_def persist_def
        orch_event_def touch_def u)
qed

lemma demo_decision:
  "\<exists>resp d'. decide_action demo_server 1 demo_admin ''p'' \<lparr>ad_approve = True, ad_reason = []\<rparr> demo_queue = Inr (resp, d')"
proof -
  obtain o' where o: "request_orchestrator demo_server 1 None demo_queue = Inr o'"
    "oe_policy o' = [(''service.restart'', demo_restart_skill)]" using demo_orchestrator by blast
  from demo_approves [OF o] obtain r :: ActionRecord and st where a: "approve o' 1 ''t'' ''p'' ''bob'' (session_state demo_queue) = (Inr r, st)"
    "rq_correlation_id (ac_request r) = ''p''" "map at_id (actions (os_store st)) = [''q'', ''p'', ''o'']" by (elim exE conjE)
  have t: "\<exists>q. tenant_row at_id at_tenant_id (actions demo_queue) ''p'' ''t'' = Inr q"
    by (simp add: tenant_row_def demo_queue_def demo_action_def row_simps)
  have "\<exists>row. scalar (action_key ''p'') (actions (os_store st)) = Some row"
  proof (cases "scalar (action_key ''p'') (actions (os_store st))")
    case None
    then have "''p'' \<notin> set (map at_id (actions (os_store st)))" by (auto simp: scalar_None_iff action_key_def)
    with a(3) show ?thesis by simp
  qed blast
  then show ?thesis using a(1,2) o(1) t
    by (auto simp: decide_action_def demo_admin_def merge_session_def Let_def)
qed

theorem decision_four_eyes_once_witness:
  "\<exists>resp d'. decide_action demo_server 1 demo_admin ''p'' \<lparr>ad_approve = True, ad_reason = []\<rparr> demo_queue = Inr (resp, d')
     \<and> (\<forall>now' (p' :: Principal) b'. \<exists>e. decide_action demo_server now' p' ''p'' b' d' = Inl e)"
proof -
  obtain resp d' where d: "decide_action demo_server 1 demo_admin ''p'' \<lparr>ad_approve = True, ad_reason = []\<rparr> demo_queue
    = Inr (resp, d')" using demo_decision by blast
  from decision_four_eyes_once [OF d] d show ?thesis by blast
qed

end
