(* ===== verification/Platform.thy ===== *)
theory Platform
  imports Workers Channels Knowledge Baselines Tickets JobProps
begin

text \<open>
  The control plane as a whole: every modelled handler that changes the database and every background
  process, in any order.  The results carry what the components guarantee on their own over to the
  composition: the audit trails stay verified chains that only grow, and the life of an action is
  changed by the job handlers and the lease reaper alone.
\<close>

section \<open>Operations that leave the actions alone\<close>

definition aside :: "server \<Rightarrow> db \<Rightarrow> db \<Rightarrow> bool" where
  "aside sv d d' \<longleftrightarrow> actions d' = actions d
     \<and> (chains_ok sv d \<longrightarrow> chains_ok sv d' \<and> trails_extend sv d d')"

lemma aside_refl [intro]: "aside sv d d"
  by (simp add: aside_def)

lemma aside_trans: "aside sv a b \<Longrightarrow> aside sv b c \<Longrightarrow> aside sv a c"
  by (auto simp: aside_def intro: trails_extend_trans)

lemma chains_frame:
  "audit_events y = audit_events x \<Longrightarrow> chains_ok sv y = chains_ok sv x"
  "audit_events y = audit_events x \<Longrightarrow> trails_extend sv d y = trails_extend sv d x"
  by (simp_all add: chains_ok_def trails_extend_def trail_cong [of y x])

lemma aside_frame: "audit_events y = audit_events x \<Longrightarrow> actions y = actions x \<Longrightarrow> aside sv d x \<Longrightarrow> aside sv d y"
  by (simp add: aside_def chains_frame [of y x])

lemma aside_append: "aside sv d x \<Longrightarrow> aside sv d (sql_append sv now m x)"
  by (rule aside_trans, assumption)
    (use audit_grows_ok [OF audit_grows_push [OF refl]] in \<open>simp add: aside_def sql_append_frame\<close>)

lemma aside_audit: "aside sv d x \<Longrightarrow> aside sv d (audit sv now t c ty a ds x)"
  unfolding audit_def by (rule aside_append)

lemma aside_remember: "aside sv d x \<Longrightarrow> aside sv d (remember sv now t s k p r c x)"
  by (rule aside_frame [rotated 2]) simp_all

lemma aside_fold: "(\<And>r x. aside sv x (f r x)) \<Longrightarrow> aside sv d (fold f rs d)"
  by (induction rs arbitrary: d) (auto intro: aside_trans)

lemma aside_same: "audit_events y = audit_events d \<Longrightarrow> actions y = actions d \<Longrightarrow> aside sv d y"
  by (rule aside_frame [OF _ _ aside_refl])

section \<open>The handlers\<close>

lemma add_steps_audit: "audit_events (add_steps sv w ss d) = audit_events d"
  by (induction ss arbitrary: d) (simp_all add: case_prod_beta)

lemma aside_create_tenant:
  "create_tenant sv now name admin_email token d = Inr (r, d') \<Longrightarrow> aside sv d d'"
  unfolding create_tenant_def Let_def new_id_def
  by (auto split: option.splits sum.splits if_splits prod.splits py_error.splits
      intro!: aside_audit aside_remember aside_append intro: aside_same)

lemma aside_enroll_device:
  "enroll_device sv now p b d = Inr (r, d') \<Longrightarrow> aside sv d d'"
  unfolding enroll_device_def add_device_def new_token_def Let_def new_id_def
  by (auto split: option.splits sum.splits if_splits prod.splits py_error.splits
      intro!: aside_audit aside_remember aside_append intro: aside_same)

lemma aside_create_enrollment_token:
  "create_enrollment_token sv now p label ttl d = Inr (r, d') \<Longrightarrow> aside sv d d'"
  unfolding create_enrollment_token_def new_token_def Let_def new_id_def
  by (auto split: option.splits sum.splits if_splits prod.splits py_error.splits
      intro!: aside_audit aside_remember aside_append intro: aside_same)

lemma aside_revoke_enrollment_token:
  "map_sum id (Pair ()) (revoke_enrollment_token sv now p token_id d) = Inr (r, d') \<Longrightarrow> aside sv d d'"
  unfolding revoke_enrollment_token_def Let_def new_id_def
  by (auto split: option.splits sum.splits if_splits prod.splits py_error.splits
      intro!: aside_audit aside_remember aside_append intro: aside_same)

lemma aside_enroll_device_with_token:
  "enroll_device_with_token sv now b token d = Inr (r, d') \<Longrightarrow> aside sv d d'"
  unfolding enroll_device_with_token_def add_device_def new_token_def Let_def new_id_def
  by (auto split: option.splits sum.splits if_splits prod.splits py_error.splits
      intro!: aside_audit aside_remember aside_append intro: aside_same)

lemma aside_rotate_device_credential:
  "rotate_device_credential sv now p device_id d = Inr (r, d') \<Longrightarrow> aside sv d d'"
  unfolding rotate_device_credential_def set_credential_def new_token_def Let_def new_id_def
  by (auto split: option.splits sum.splits if_splits prod.splits py_error.splits
      intro!: aside_audit aside_remember aside_append intro: aside_same)

lemma aside_renew_device_credential:
  "renew_device_credential sv now p device_id d = Inr (r, d') \<Longrightarrow> aside sv d d'"
  unfolding renew_device_credential_def set_credential_def new_token_def Let_def new_id_def
  by (auto split: option.splits sum.splits if_splits prod.splits py_error.splits
      intro!: aside_audit aside_remember aside_append intro: aside_same)

lemma aside_revoke_device:
  "revoke_device sv now p device_id reason d = Inr (r, d') \<Longrightarrow> aside sv d d'"
  unfolding revoke_device_def Let_def new_id_def
  by (auto split: option.splits sum.splits if_splits prod.splits py_error.splits
      intro!: aside_audit aside_remember aside_append intro: aside_same)

lemma aside_heartbeat:
  "heartbeat sv now p device_id status key d = Inr (r, d') \<Longrightarrow> aside sv d d'"
  unfolding heartbeat_def Let_def new_id_def
  by (auto split: option.splits sum.splits if_splits prod.splits py_error.splits
      intro!: aside_audit aside_remember aside_append intro: aside_same)

lemma aside_create_skill_manifest:
  "create_skill_manifest sv now p body os d = Inr (r, d') \<Longrightarrow> aside sv d d'"
  unfolding create_skill_manifest_def retire_previous_def Let_def new_id_def
  by (auto split: option.splits sum.splits if_splits prod.splits py_error.splits
      intro!: aside_audit aside_remember aside_append intro: aside_same)

lemma aside_create_diagnostic_workflow:
  "create_diagnostic_workflow sv now p issue_id steps d = Inr (r, d') \<Longrightarrow> aside sv d d'"
  unfolding create_diagnostic_workflow_def  Let_def new_id_def
  by (auto split: option.splits sum.splits if_splits prod.splits py_error.splits
      intro!: aside_audit aside_remember aside_append intro: aside_same simp: add_steps_rest add_steps_audit)

lemma aside_create_issue_definition:
  "create_issue_definition sv now p body d = Inr (r, d') \<Longrightarrow> aside sv d d'"
  unfolding create_issue_definition_def retire_issue_def Let_def new_id_def
  by (auto split: option.splits sum.splits if_splits prod.splits py_error.splits
      intro!: aside_audit aside_remember aside_append intro: aside_same)

lemma aside_create_organizational_baseline:
  "create_organizational_baseline sv now p body d = Inr (r, d') \<Longrightarrow> aside sv d d'"
  unfolding create_organizational_baseline_def Let_def new_id_def
  by (auto split: option.splits sum.splits if_splits prod.splits py_error.splits
      intro!: aside_audit aside_remember aside_append intro: aside_same)

lemma aside_create_ticket:
  "create_ticket sv now p body d = Inr (r, d') \<Longrightarrow> aside sv d d'"
  unfolding create_ticket_def Let_def new_id_def
  by (auto split: option.splits sum.splits if_splits prod.splits py_error.splits
      intro!: aside_audit aside_remember aside_append intro: aside_same)

lemma aside_update_ticket:
  "update_ticket sv now p ticket_id changes d = Inr (r, d') \<Longrightarrow> aside sv d d'"
  unfolding update_ticket_def Let_def new_id_def
  by (auto split: option.splits sum.splits if_splits prod.splits py_error.splits
      intro!: aside_audit aside_remember aside_append intro: aside_same)

lemma aside_create_connector:
  "create_connector sv now p conf d = Inr (r, d') \<Longrightarrow> aside sv d d'"
  unfolding create_connector_def Let_def new_id_def
  by (auto split: option.splits sum.splits if_splits prod.splits py_error.splits
      intro!: aside_audit aside_remember aside_append intro: aside_same)

lemma aside_generate_step_up_code:
  "generate_step_up_code sv now p request_id d = Inr (r, d') \<Longrightarrow> aside sv d d'"
  unfolding generate_step_up_code_def put_request_def new_token_def Let_def new_id_def
  by (auto split: option.splits sum.splits if_splits prod.splits py_error.splits
      intro!: aside_audit aside_remember aside_append intro: aside_same)

lemma aside_create_webhook_subscription:
  "create_webhook_subscription sv net now p w d = Inr (r, d') \<Longrightarrow> aside sv d d'"
  unfolding create_webhook_subscription_def Let_def new_id_def
  by (auto split: option.splits sum.splits if_splits prod.splits py_error.splits
      intro!: aside_audit aside_remember aside_append intro: aside_same)

lemma aside_disable_webhook_subscription:
  "map_sum id (Pair ()) (disable_webhook_subscription sv now p subscription_id d) = Inr (r, d') \<Longrightarrow> aside sv d d'"
  unfolding disable_webhook_subscription_def Let_def new_id_def
  by (auto split: option.splits sum.splits if_splits prod.splits py_error.splits
      intro!: aside_audit aside_remember aside_append intro: aside_same)

lemma aside_create_channel_workspace_link:
  "create_channel_workspace_link sv now p lnk d = Inr (r, d') \<Longrightarrow> aside sv d d'"
  unfolding create_channel_workspace_link_def Let_def new_id_def
  by (auto split: option.splits sum.splits if_splits prod.splits py_error.splits
      intro!: aside_audit aside_remember aside_append intro: aside_same)

lemma aside_create_channel_identity_link:
  "create_channel_identity_link sv now p ident d = Inr (r, d') \<Longrightarrow> aside sv d d'"
  unfolding create_channel_identity_link_def Let_def new_id_def
  by (auto split: option.splits sum.splits if_splits prod.splits py_error.splits
      intro!: aside_audit aside_remember aside_append intro: aside_same)

lemma aside_diagnose_incident:
  "diagnose_incident sv w now p incident_id d = Inr (r, d') \<Longrightarrow> aside sv d d'"
  unfolding diagnose_incident_def Let_def new_id_def
  by (auto split: option.splits sum.splits if_splits prod.splits py_error.splits
      intro!: aside_audit aside_remember aside_append intro: aside_same)


lemma aside_create_knowledge_source: "aside sv d (snd (create_knowledge_source sv now p b d))"
  by (auto simp: create_knowledge_source_def Let_def new_id_def intro!: aside_audit intro: aside_same)

text \<open>Detection of incidents.\<close>

lemma aside_correlate: "correlate_incident sv now t hours ob d = Inr (r, d') \<Longrightarrow> aside sv d d'"
  unfolding correlate_incident_def first_seen_def seen_again_def update_incident_def Let_def new_id_def
  by (auto split: option.splits intro!: aside_audit intro: aside_same)

lemma aside_resolve: "aside sv d (resolve_recovered_incident sv now t device_id key observed_at evidence d)"
  unfolding resolve_recovered_incident_def resolve_ticket_def update_incident_def Let_def
  by (auto split: option.splits intro!: aside_audit intro: aside_same)

lemma map_sum_Inr: "map_sum f g x = Inr y \<longleftrightarrow> (\<exists>z. x = Inr z \<and> y = g z)"
  by (cases x) auto

lemma aside_detect_filesystems:
  "detect_filesystems sv now t device_id observed_at fs d = Inr (r, d') \<Longrightarrow> aside sv d d'"
proof (induction fs arbitrary: d r)
  case (Cons f fs)
  then show ?case
    by (auto simp: Let_def map_sum_Inr split: option.splits prod.splits if_splits sum.splits
        dest!: aside_correlate intro: aside_trans [OF aside_resolve] aside_trans)
qed auto

lemma aside_detect: "detect_inventory_incidents sv now t device_id payload observed_at d = Inr (r, d') \<Longrightarrow> aside sv d d'"
  unfolding detect_inventory_incidents_def
  by (auto split: option.splits json.splits dest: aside_detect_filesystems)

lemma aside_add_inventory: "aside sv d (snd (add_inventory collected_at t device_id payload d))"
  by (auto simp: add_inventory_def intro: aside_same)

lemma aside_inventory:
  assumes "inventory sv now p device_id collected_at payload key d = Inr (r, d')"
  shows "aside sv d d'"
proof (cases "d' = d")
  case False
  then obtain ids d2 where "detect_inventory_incidents sv now (pr_tenant_id p) device_id payload collected_at
      (snd (add_inventory collected_at (pr_tenant_id p) device_id payload d)) = Inr (ids, d2)"
    and d': "aside sv d d2 \<Longrightarrow> aside sv d d'"
    using assms by (auto simp: inventory_def Let_def intro: aside_remember split: sum.splits option.splits prod.splits)
  from d' [OF aside_trans [OF aside_add_inventory aside_detect [OF this(1)]]] show ?thesis .
qed auto

lemma aside_simulate_low_disk:
  assumes "simulate_low_disk sv now p device_id mountpoint used_percent d = Inr (r, d')"
  shows "aside sv d d'"
proof -
  let ?payload = "simulated_payload mountpoint used_percent"
  from assms obtain i x c ty a ds where r: "detect_inventory_incidents sv now (pr_tenant_id p) i ?payload now
      (snd (add_inventory now (pr_tenant_id p) i ?payload d)) = Inr x"
    and d': "d' = audit sv now (pr_tenant_id p) c ty a ds (snd x)"
    unfolding simulate_low_disk_def Let_def case_prod_beta
    by (simp split: sum.splits if_splits prod.splits) blast
  from r have "aside sv (snd (add_inventory now (pr_tenant_id p) i ?payload d)) (snd x)"
    by (cases x) (simp add: aside_detect)
  then show ?thesis unfolding d' by (rule aside_audit [OF aside_trans [OF aside_add_inventory]])
qed

text \<open>Connector requests and conversations.\<close>

lemma aside_decide_connector_request:
  "decide_connector_request sv now p request_id b (d, accounts) = Inr ((r, d'), accounts') \<Longrightarrow> aside sv d d'"
  unfolding decide_connector_request_def execute_connector_request_def request_decided_def put_request_def new_token_def
    Let_def new_id_def
  by (auto split: option.splits sum.splits if_splits prod.splits intro!: aside_audit intro: aside_same)

lemma aside_open_conversation: "aside sv d (snd (open_conversation sv now t u ch th cid d))"
  by (auto simp: open_conversation_def Let_def new_id_def intro!: aside_audit intro: aside_same)

lemma aside_add_message: "aside sv d (add_message sv now t cid ro c i d)"
  by (auto simp: add_message_def Let_def new_id_def intro: aside_same)

lemma aside_general_inquiry: "aside sv d (snd (snd (snd (general_inquiry sv now t u m c d))))"
  by (auto simp: general_inquiry_def add_ticket_def set_ticket_def Let_def new_id_def split: option.splits
      intro!: aside_audit intro: aside_same)

lemma aside_account_action: "aside sv d (snd (snd (snd (account_action sv now t u m c i d))))"
  by (auto simp: account_action_def add_ticket_def set_ticket_def Let_def new_id_def split: option.splits
      intro!: aside_audit intro: aside_same)

lemma aside_handle_message: "aside sv d (snd (handle_message sv iterate now t u ch th m cid d))"
proof -
  let ?o = "open_conversation sv now t u ch th cid d"
  let ?a = "add_message sv now t (cv_id (fst ?o)) ''user'' m None (snd ?o)"
  have a: "aside sv d ?a" by (rule aside_trans [OF aside_open_conversation aside_add_message])
  show ?thesis
    using aside_trans [OF a aside_trans [OF aside_general_inquiry aside_add_message]]
      aside_trans [OF a aside_trans [OF aside_account_action aside_add_message]]
    by (simp add: handle_message_def Let_def case_prod_beta)
qed

lemma aside_send_chat_message:
  "send_chat_message sv iterate now p m cid d = Inr (r, d') \<Longrightarrow> aside sv d d'"
  using aside_handle_message
  by (auto simp: send_chat_message_def Let_def case_prod_beta split: option.splits sum.splits)

lemma aside_channel_turn: "aside sv d (snd (channel_turn sv iterate now link ch ad uid th m d))"
  by (auto simp: channel_turn_def case_prod_beta split: option.splits intro!: aside_audit intro: aside_handle_message)

lemma aside_slack_events:
  "slack_events sv env iterate now link_id timestamp signature body d = Inr (r, d') \<Longrightarrow> aside sv d d'"
  unfolding slack_events_def slack_event_def
  by (auto split: option.splits sum.splits if_splits json.splits intro!: aside_remember aside_channel_turn)

lemma aside_google_chat_events:
  "google_chat_events sv check iterate now link_id authorization body d = Inr (r, d') \<Longrightarrow> aside sv d d'"
  unfolding google_chat_events_def Let_def case_prod_beta
  by (auto split: option.splits sum.splits if_splits json.splits intro!: aside_remember aside_channel_turn)

lemma aside_teams_events:
  "teams_events sv check iterate now link_id authorization body d = Inr (r, d') \<Longrightarrow> aside sv d d'"
  unfolding teams_events_def teams_event_def Let_def case_prod_beta
  by (auto split: option.splits sum.splits if_splits json.splits intro!: aside_remember aside_channel_turn)

section \<open>The background processes\<close>

lemma aside_heartbeat_of_worker: "aside sv d (record_worker_heartbeat now n k d)"
  by (auto simp: record_worker_heartbeat_def intro: aside_same)

lemma aside_deliver_each: "aside sv d (snd (deliver_each sv env nets now rs d))"
proof (induction rs arbitrary: nets d)
  case (Cons r rs)
  show ?case unfolding deliver_each_Cons
    by (rule aside_trans [OF _ Cons.IH]) (auto simp: put_delivery_def intro: aside_same)
qed auto

lemma aside_webhook_batch: "aside sv d (snd (snd (webhook_batch sv env nets now limit d)))"
  by (simp add: webhook_batch_def Let_def aside_deliver_each)

lemma aside_retention_batch: "aside sv d (snd (retention_batch sv now d))"
  by (auto simp: retention_batch_def Let_def case_prod_beta intro: aside_same)

lemma aside_reap_request: "aside sv d (reap_request sv now r d)"
  unfolding reap_request_def put_request_def by (intro aside_audit aside_same) simp_all

lemma aside_reap_batch: "aside sv d (snd (reap_batch sv now limit d))"
  by (simp add: reap_batch_def Let_def aside_fold aside_reap_request)

section \<open>Every operation of the control plane\<close>

inductive platform_step :: "server \<Rightarrow> db \<Rightarrow> db \<Rightarrow> bool" for sv where
  job_step: "job_op sv d d' \<Longrightarrow> platform_step sv d d'"
| create_tenant_step: "create_tenant sv now name admin_email token d = Inr (r, d') \<Longrightarrow> platform_step sv d d'"
| enroll_device_step: "enroll_device sv now p b d = Inr (r, d') \<Longrightarrow> platform_step sv d d'"
| create_enrollment_token_step: "create_enrollment_token sv now p label ttl d = Inr (r, d') \<Longrightarrow> platform_step sv d d'"
| revoke_enrollment_token_step: "map_sum id (Pair ()) (revoke_enrollment_token sv now p token_id d) = Inr (r, d') \<Longrightarrow> platform_step sv d d'"
| enroll_device_with_token_step: "enroll_device_with_token sv now b token d = Inr (r, d') \<Longrightarrow> platform_step sv d d'"
| rotate_device_credential_step: "rotate_device_credential sv now p device_id d = Inr (r, d') \<Longrightarrow> platform_step sv d d'"
| renew_device_credential_step: "renew_device_credential sv now p device_id d = Inr (r, d') \<Longrightarrow> platform_step sv d d'"
| revoke_device_step: "revoke_device sv now p device_id reason d = Inr (r, d') \<Longrightarrow> platform_step sv d d'"
| heartbeat_step: "heartbeat sv now p device_id status key d = Inr (r, d') \<Longrightarrow> platform_step sv d d'"
| create_skill_manifest_step: "create_skill_manifest sv now p body os d = Inr (r, d') \<Longrightarrow> platform_step sv d d'"
| create_diagnostic_workflow_step: "create_diagnostic_workflow sv now p issue_id steps d = Inr (r, d') \<Longrightarrow> platform_step sv d d'"
| create_issue_definition_step: "create_issue_definition sv now p body d = Inr (r, d') \<Longrightarrow> platform_step sv d d'"
| create_organizational_baseline_step: "create_organizational_baseline sv now p body d = Inr (r, d') \<Longrightarrow> platform_step sv d d'"
| create_ticket_step: "create_ticket sv now p body d = Inr (r, d') \<Longrightarrow> platform_step sv d d'"
| update_ticket_step: "update_ticket sv now p ticket_id changes d = Inr (r, d') \<Longrightarrow> platform_step sv d d'"
| create_connector_step: "create_connector sv now p conf d = Inr (r, d') \<Longrightarrow> platform_step sv d d'"
| generate_step_up_code_step: "generate_step_up_code sv now p request_id d = Inr (r, d') \<Longrightarrow> platform_step sv d d'"
| create_webhook_subscription_step: "create_webhook_subscription sv net now p w d = Inr (r, d') \<Longrightarrow> platform_step sv d d'"
| disable_webhook_subscription_step: "map_sum id (Pair ()) (disable_webhook_subscription sv now p subscription_id d) = Inr (r, d') \<Longrightarrow> platform_step sv d d'"
| create_channel_workspace_link_step: "create_channel_workspace_link sv now p lnk d = Inr (r, d') \<Longrightarrow> platform_step sv d d'"
| create_channel_identity_link_step: "create_channel_identity_link sv now p ident d = Inr (r, d') \<Longrightarrow> platform_step sv d d'"
| diagnose_incident_step: "diagnose_incident sv w now p incident_id d = Inr (r, d') \<Longrightarrow> platform_step sv d d'"
| create_knowledge_source_step: "d' = snd (create_knowledge_source sv now p src d) \<Longrightarrow> platform_step sv d d'"
| inventory_step: "inventory sv now p device_id collected_at payload key d = Inr (r, d') \<Longrightarrow> platform_step sv d d'"
| simulate_low_disk_step: "simulate_low_disk sv now p device_id mountpoint used_percent d = Inr (r, d') \<Longrightarrow> platform_step sv d d'"
| decide_connector_request_step: "decide_connector_request sv now p request_id dec (d, accounts) = Inr ((r, d'), accounts') \<Longrightarrow> platform_step sv d d'"
| send_chat_message_step: "send_chat_message sv iterate now p message cid d = Inr (r, d') \<Longrightarrow> platform_step sv d d'"
| slack_events_step: "slack_events sv env iterate now link_id timestamp signature text d = Inr (answer, d') \<Longrightarrow> platform_step sv d d'"
| google_chat_events_step: "google_chat_events sv check iterate now link_id authorization text d = Inr (answer, d') \<Longrightarrow> platform_step sv d d'"
| teams_events_step: "teams_events sv check iterate now link_id authorization text d = Inr (answer, d') \<Longrightarrow> platform_step sv d d'"
| lease_reaper_step: "d' = snd (worker_iteration (lease_reaper_main sv) now stopped d) \<Longrightarrow> platform_step sv d d'"
| webhook_worker_step: "d' = snd (worker_iteration (webhook_worker_main sv env nets) now stopped d) \<Longrightarrow> platform_step sv d d'"
| retention_worker_step: "d' = snd (worker_iteration (retention_worker_main sv) now stopped d) \<Longrightarrow> platform_step sv d d'"
| connector_request_reaper_step: "d' = snd (worker_iteration (connector_request_reaper_main sv) now stopped d) \<Longrightarrow> platform_step sv d d'"

lemmas aside_handlers = aside_create_tenant
  aside_enroll_device
  aside_create_enrollment_token
  aside_revoke_enrollment_token
  aside_enroll_device_with_token
  aside_rotate_device_credential
  aside_renew_device_credential
  aside_revoke_device
  aside_heartbeat
  aside_create_skill_manifest
  aside_create_diagnostic_workflow
  aside_create_issue_definition
  aside_create_organizational_baseline
  aside_create_ticket
  aside_update_ticket
  aside_create_connector
  aside_generate_step_up_code
  aside_create_webhook_subscription
  aside_disable_webhook_subscription
  aside_create_channel_workspace_link
  aside_create_channel_identity_link
  aside_diagnose_incident
  aside_inventory aside_simulate_low_disk aside_decide_connector_request aside_send_chat_message
  aside_slack_events aside_google_chat_events aside_teams_events

lemma aside_iteration:
  "aside sv d (snd (wk_batch w now d)) \<Longrightarrow> aside sv d (snd (worker_iteration w now stopped d))"
  by (auto simp: worker_iteration_def case_prod_beta split: interruption.split intro: aside_trans aside_heartbeat_of_worker)

lemma lease_reaper_iteration:
  "snd (worker_iteration (lease_reaper_main sv) now stopped d) = d
   \<or> aside sv (snd (process_batch sv now 50 d)) (snd (worker_iteration (lease_reaper_main sv) now stopped d))"
  by (auto simp: worker_iteration_def lease_reaper_main_def case_prod_beta split: interruption.split
      intro: aside_heartbeat_of_worker)

text \<open>A step is one of the jobs, possibly followed by bookkeeping, or leaves the actions alone.\<close>

lemma platform_step_cases:
  assumes "platform_step sv d d'"
  shows "aside sv d d' \<or> (\<exists>d1. job_op sv d d1 \<and> aside sv d1 d')"
  using assms
proof cases
  case job_step
  then show ?thesis by blast
next
  case (lease_reaper_step now stopped)
  with lease_reaper_iteration [of sv now stopped d]
  have "d' = d \<or> aside sv (snd (process_batch sv now 50 d)) d'" by (simp only:)
  then show ?thesis using op_reap [of sv d now 50] aside_refl by metis
next
  case (webhook_worker_step env nets now stopped)
  then show ?thesis by (simp add: aside_iteration webhook_worker_main_def aside_webhook_batch)
next
  case (retention_worker_step now stopped)
  then show ?thesis by (simp add: aside_iteration retention_worker_main_def aside_retention_batch)
next
  case (connector_request_reaper_step now stopped)
  then show ?thesis by (simp add: aside_iteration connector_request_reaper_main_def aside_reap_batch)
next
  case (create_knowledge_source_step now p src)
  then show ?thesis by (simp add: aside_create_knowledge_source)
qed (blast dest: aside_handlers)+

lemma platform_step_keyed: "platform_step sv d d' \<Longrightarrow> actions_keyed d \<Longrightarrow> actions_keyed d'"
  using job_op_keyed by (fastforce dest: platform_step_cases simp: aside_def actions_keyed_def)

lemma platform_step_table:
  assumes "platform_step sv d d'" and "actions_keyed d"
  shows "table_step sv (actions d) (actions d')"
  using platform_step_cases [OF assms(1)] job_op_table [OF _ assms(2)] by (auto simp: aside_def)

lemma platform_keyed: "(platform_step sv)\<^sup>*\<^sup>* d d' \<Longrightarrow> actions_keyed d \<Longrightarrow> actions_keyed d'"
  by (induction rule: rtranclp_induct) (auto dest: platform_step_keyed)

lemma platform_row:
  assumes "(platform_step sv)\<^sup>*\<^sup>* d d'" and "actions_keyed d" and "r \<in> set (actions d)"
  shows "\<exists>r' \<in> set (actions d'). (row_step sv)\<^sup>*\<^sup>* r r'"
  using assms
proof (induction rule: rtranclp_induct)
  case (step y z)
  then obtain r' where r': "r' \<in> set (actions y)" "(row_step sv)\<^sup>*\<^sup>* r r'" by blast
  from table_step_row [OF platform_step_table [OF step.hyps(2) platform_keyed [OF step.hyps(1) step.prems(1)]] r'(1)] r'(2)
  show ?case by (meson rtranclp_trans)
qed auto

lemma platform_rows_ok:
  assumes "(platform_step sv)\<^sup>*\<^sup>* d d'" and "actions_keyed d"
    and "1 \<le> lease_reaper_max_attempts (sv_settings sv)"
    and "\<forall>r \<in> set (actions d). row_ok (lease_reaper_max_attempts (sv_settings sv)) r"
  shows "\<forall>r \<in> set (actions d'). row_ok (lease_reaper_max_attempts (sv_settings sv)) r"
  using assms
proof (induction rule: rtranclp_induct)
  case (step y z)
  show ?case
    using table_step_origin [OF platform_step_table [OF step.hyps(2) platform_keyed [OF step.hyps(1) step.prems(1)]]]
      step.IH [OF step.prems] fresh_row_ok [OF step.prems(2)] row_steps_ok by blast
qed auto

lemma platform_step_audit:
  assumes "platform_step sv d d'" and "chains_ok sv d"
  shows "chains_ok sv d' \<and> trails_extend sv d d'"
  using platform_step_cases [OF assms(1)] job_op_audit [OF _ assms(2)] assms(2)
  by (auto simp: aside_def intro: trails_extend_trans)

lemma platform_audit:
  "(platform_step sv)\<^sup>*\<^sup>* d d' \<Longrightarrow> chains_ok sv d \<Longrightarrow> chains_ok sv d' \<and> trails_extend sv d d'"
  by (induction rule: rtranclp_induct) (auto dest: platform_step_audit intro: trails_extend_trans)

section \<open>The composed guarantees\<close>

text \<open>
  C10.  The audit trail of the whole control plane.  Start from a database whose trails verify (the empty one does) and
  let any handlers and background processes run, in any order, with any of the processes interrupted: every tenant's trail is
  still a verified hash chain, numbered from one without gaps, and extends the trail it had before.
\<close>

theorem platform_audit_trails:
  assumes "(platform_step sv)\<^sup>*\<^sup>* d d'" and "sql_audit_ok d" and "\<And>t. verify_chain (sv_host sv) (sql_trail sv t d)"
  shows "verify_chain (sv_host sv) (sql_trail sv t d')
    \<and> map au_sequence (tenant_audit t d') = map int [1..<Suc (length (tenant_audit t d'))]
    \<and> (\<exists>es. sql_trail sv t d' = sql_trail sv t d @ es)"
proof -
  have "chains_ok sv d" using assms(2,3) by (simp add: chains_ok_def)
  from platform_audit [OF assms(1) this] show ?thesis
    by (auto simp: chains_ok_def sql_audit_ok_def trails_extend_def simp del: upt_Suc)
qed

text \<open>
  C5.  The life of an action in the whole control plane.  When at least one attempt is configured (the default is 3), from
  a table of actions in order (the empty one is), whatever handlers and background processes run: an action whose status is final keeps its row unchanged; and every action has been claimed at most
  as often as configured, waits or is queued only while an attempt is left, and holds a claim token and a lease while it
  is claimed.
\<close>

theorem platform_action_life:
  assumes "(platform_step sv)\<^sup>*\<^sup>* d d'" and "actions_keyed d"
    and "\<And>q. q \<in> set (actions d) \<Longrightarrow> row_ok (lease_reaper_max_attempts (sv_settings sv)) q"
    and "1 \<le> lease_reaper_max_attempts (sv_settings sv)"
  shows "(\<forall>r \<in> set (actions d). at_status r \<in> ActionStatus_value ` {SUCCEEDED, FAILED, ROLLED_BACK, ROLLBACK_FAILED, DENIED}
           \<longrightarrow> r \<in> set (actions d'))
    \<and> (\<forall>r \<in> set (actions d'). 0 \<le> at_attempt r \<and> at_attempt r \<le> lease_reaper_max_attempts (sv_settings sv)
         \<and> (at_status r \<in> {''pending_approval'', ''queued''} \<longrightarrow> at_attempt r < lease_reaper_max_attempts (sv_settings sv))
         \<and> (at_status r = ''claimed'' \<longrightarrow> 1 \<le> at_attempt r \<and> at_claim_token_hash r \<noteq> None \<and> at_lease_expires_at r \<noteq> None))"
proof -
  have "r \<in> set (actions d')" if "r \<in> set (actions d)" "at_status r \<in> ActionStatus_value ` terminal" for r
    using platform_row [OF assms(1,2) that(1)] terminal_steps [OF _ that(2)] by blast
  moreover have "\<forall>r \<in> set (actions d'). row_ok (lease_reaper_max_attempts (sv_settings sv)) r"
    using platform_rows_ok [OF assms(1,2,4)] assms(3) by blast
  ultimately show ?thesis by (auto simp: row_ok_def terminal_def)
qed

section \<open>Examples\<close>

text \<open>A run of two processes: the reaper returns the lapsed claim to the queue, and the retention worker dies before it reports.\<close>

definition reaped_db :: db where
  "reaped_db = snd (worker_iteration (lease_reaper_main demo_server) 100 Uninterrupted demo_db)"

lemma demo_run:
  "(platform_step demo_server)\<^sup>*\<^sup>* demo_db (snd (worker_iteration (retention_worker_main demo_server) 101 In_heartbeat reaped_db))"
proof -
  have "platform_step demo_server demo_db reaped_db" unfolding reaped_db_def by (rule lease_reaper_step [OF refl])
  moreover have "platform_step demo_server reaped_db (snd (worker_iteration (retention_worker_main demo_server) 101 In_heartbeat reaped_db))"
    by (rule retention_worker_step [OF refl])
  ultimately show ?thesis by simp
qed

theorem platform_audit_trails_witness:
  "verify_chain (sv_host demo_server) (sql_trail demo_server ''t''
     (snd (worker_iteration (retention_worker_main demo_server) 101 In_heartbeat reaped_db)))"
proof -
  have "sql_audit_ok demo_db" "\<And>t. verify_chain (sv_host demo_server) (sql_trail demo_server t demo_db)"
    using demo_chains by (simp_all add: chains_ok_def)
  from platform_audit_trails [OF demo_run this] show ?thesis by blast
qed

theorem platform_action_life_witness:
  "demo_action ''a'' ''succeeded'' 1
     \<in> set (actions (snd (worker_iteration (retention_worker_main demo_server) 101 In_heartbeat reaped_db)))"
proof -
  have ok: "row_ok (lease_reaper_max_attempts (sv_settings demo_server)) q" if "q \<in> set (actions demo_db)" for q
    using that by (auto simp: demo_db_def demo_action_def demo_server_def demo_settings_def default_settings_def row_ok_def
        terminal_def demo_host_def)
  have one: "1 \<le> lease_reaper_max_attempts (sv_settings demo_server)"
    by (simp add: demo_server_def demo_settings_def default_settings_def)
  have "demo_action ''a'' ''succeeded'' 1 \<in> set (actions demo_db)" by (simp add: demo_db_def)
  with platform_action_life [OF demo_run demo_db_keyed ok one] show ?thesis by (simp add: demo_action_def)
qed

end
