(* ===== verification/Downgrades.thy ===== *)
theory Downgrades
  imports Migrations
begin

text \<open>
  Taking the data migrations back (\<open>downgrade\<close> of \<open>migrations/versions/0013\<close>, \<open>0016\<close> and \<open>0017\<close>): the DNS workflow gets its
  steps back, and the seeded skill and the reference knowledge are deleted.
\<close>

section \<open>The downgrades\<close>

definition VERIFY_DNS :: string where
  "VERIFY_DNS = ''Confirm resolution succeeds against the organization's actual ''
     @ ''configured resolvers, never a substituted public resolver.''"

definition ESCALATE_DNS :: string where
  "ESCALATE_DNS = ''No registered remediation skill exists for DNS ''
     @ ''reconfiguration; escalate to an operator/network team.''"

definition downgrade_0017 :: "db \<Rightarrow> db option" where
  "downgrade_0017 d =
     (case workflow_id_of ''dns_resolution_failure'' d of
        None \<Rightarrow> None
      | Some workflow_id \<Rightarrow>
          let kept = filter (\<lambda>s. \<not> (ds_workflow_id s = workflow_id \<and> ds_step_order s = 3)) (diagnostic_steps d);
              restored = update_where (\<lambda>s. ds_workflow_id s = workflow_id \<and> ds_step_order s = 2)
                (\<lambda>s. s\<lparr>ds_step_type := ''verify'', ds_description := VERIFY_DNS, ds_remediation_skill_id := None\<rparr>) kept;
              moved = update_where (\<lambda>s. ds_workflow_id s = workflow_id \<and> ds_step_order s = 4)
                (\<lambda>s. s\<lparr>ds_step_order := 3, ds_description := ESCALATE_DNS\<rparr>) restored
          in Some (d\<lparr>diagnostic_steps := moved\<rparr>))"

definition downgrade_0016 :: "db \<Rightarrow> db" where
  "downgrade_0016 d = d\<lparr>skills := filter (\<lambda>r. sm_skill_id r \<noteq> ''dns.flush_cache'') (skills d)\<rparr>"

definition SOURCE_ORG :: string where
  "SOURCE_ORG = ''Helpdesktool Engineering (internal reference knowledge)''"

definition ISSUE_KEYS :: "string list" where
  "ISSUE_KEYS = map (ib_issue_key \<circ> fst) ISSUES"

definition downgrade_0013 :: "db \<Rightarrow> db" where
  "downgrade_0013 d =
     (let issue_ids = map is_id (filter (\<lambda>i. is_issue_key i \<in> set ISSUE_KEYS) (issue_definitions d));
          workflow_ids = map dw_id (filter (\<lambda>w. dw_issue_definition_id w \<in> set issue_ids) (diagnostic_workflows d))
      in d\<lparr>diagnostic_steps := filter (\<lambda>s. ds_workflow_id s \<notin> set workflow_ids) (diagnostic_steps d),
           diagnostic_workflows := filter (\<lambda>w. dw_issue_definition_id w \<notin> set issue_ids) (diagnostic_workflows d),
           issue_definitions := filter (\<lambda>i. is_issue_key i \<notin> set ISSUE_KEYS) (issue_definitions d),
           knowledge_sources := filter (\<lambda>k. ks_source_organization k \<noteq> SOURCE_ORG) (knowledge_sources d)\<rparr>)"

section \<open>The DNS workflow comes back\<close>

text \<open>The steps that the migrations \<open>0013\<close> wrote and \<open>0017\<close> changes.\<close>

definition original_dns_step :: "DiagnosticStepRow \<Rightarrow> bool" where
  "original_dns_step s \<longleftrightarrow> ds_step_order s \<noteq> 4
     \<and> (ds_step_order s = 2 \<longrightarrow> ds_step_type s = ''verify'' \<and> ds_remediation_skill_id s = None \<and> ds_description s = VERIFY_DNS)
     \<and> (ds_step_order s = 3 \<longrightarrow> ds_description s = ESCALATE_DNS)"

lemma dns_steps_are_original: "list_all (\<lambda>s. original_dns_step (step_row w s i)) (snd DNS_ISSUE)"
  by (simp add: DNS_ISSUE_def original_dns_step_def step_row_def knowledge_step_def VERIFY_DNS_def ESCALATE_DNS_def)

lemma workflow_id_of_cong:
  "issue_definitions d' = issue_definitions d \<Longrightarrow> diagnostic_workflows d' = diagnostic_workflows d \<Longrightarrow>
     workflow_id_of k d' = workflow_id_of k d"
  by (simp add: workflow_id_of_def)

theorem dns_workflow_restored:
  assumes "upgrade_0017 sv d = Some d'" and "workflow_id_of ''dns_resolution_failure'' d = Some w"
    and "\<And>s. s \<in> set (diagnostic_steps d) \<Longrightarrow> ds_workflow_id s = w \<Longrightarrow> original_dns_step s"
  shows "downgrade_0017 d' = Some (d\<lparr>next_id := Suc (next_id d)\<rparr>)"
proof -
  from assms(1,2) have same: "issue_definitions d' = issue_definitions d" "diagnostic_workflows d' = diagnostic_workflows d"
    by (auto simp: upgrade_0017_def case_prod_beta Let_def)
  have w: "workflow_id_of ''dns_resolution_failure'' d' = Some w" using assms(2) workflow_id_of_cong [OF same] by simp
  from assms(1,2) obtain t1 t2 t3 rid where d': "d' = d\<lparr>next_id := Suc (next_id d), diagnostic_steps :=
      update_where (\<lambda>s. ds_workflow_id s = w \<and> ds_step_order s = 2) (\<lambda>s. s\<lparr>ds_step_type := ''remediate'', ds_description := t2,
          ds_remediation_skill_id := Some ''dns.flush_cache''\<rparr>)
        (update_where (\<lambda>s. ds_workflow_id s = w \<and> ds_step_order s = 3) (\<lambda>s. s\<lparr>ds_step_order := 4, ds_description := t1\<rparr>)
          (diagnostic_steps d))
      @ [step_row w (knowledge_step 3 ''verify'' t3) rid]\<rparr>"
    unfolding upgrade_0017_def Let_def case_prod_beta by auto
  have undo: "update_where (\<lambda>s. ds_workflow_id s = w \<and> ds_step_order s = 4) (\<lambda>s. s\<lparr>ds_step_order := 3, ds_description := ESCALATE_DNS\<rparr>)
      (update_where (\<lambda>s. ds_workflow_id s = w \<and> ds_step_order s = 2) (\<lambda>s. s\<lparr>ds_step_type := ''verify'', ds_description := VERIFY_DNS,
          ds_remediation_skill_id := None\<rparr>)
        (filter (\<lambda>s. \<not> (ds_workflow_id s = w \<and> ds_step_order s = 3)) (diagnostic_steps d'))) = diagnostic_steps d"
    unfolding d' using assms(3)
    by (auto simp: update_where_def filter_map comp_def step_row_def knowledge_step_def original_dns_step_def intro!: map_idI)
  then show ?thesis unfolding downgrade_0017_def w by (simp add: Let_def d')
qed

section \<open>The reference knowledge goes\<close>

definition only_reference :: "db \<Rightarrow> bool" where
  "only_reference d \<longleftrightarrow> (\<forall>i \<in> set (issue_definitions d). is_issue_key i \<in> set ISSUE_KEYS)
     \<and> (\<forall>w \<in> set (diagnostic_workflows d). dw_issue_definition_id w \<in> is_id ` set (issue_definitions d))
     \<and> (\<forall>s \<in> set (diagnostic_steps d). ds_workflow_id s \<in> dw_id ` set (diagnostic_workflows d))
     \<and> (\<forall>k \<in> set (knowledge_sources d). ks_source_organization k = SOURCE_ORG)"

lemma only_reference_removed:
  assumes "only_reference d"
  shows "downgrade_0013 d = d\<lparr>diagnostic_steps := [], diagnostic_workflows := [], issue_definitions := [], knowledge_sources := []\<rparr>"
proof -
  have i: "filter (\<lambda>i. is_issue_key i \<in> set ISSUE_KEYS) (issue_definitions d) = issue_definitions d"
    using assms by (intro filter_True) (simp add: only_reference_def)
  have w: "filter (\<lambda>w. dw_issue_definition_id w \<in> is_id ` set (issue_definitions d)) (diagnostic_workflows d) = diagnostic_workflows d"
    using assms by (intro filter_True) (simp add: only_reference_def)
  have "filter (\<lambda>s. ds_workflow_id s \<notin> dw_id ` set (diagnostic_workflows d)) (diagnostic_steps d) = []"
    "filter (\<lambda>w. dw_issue_definition_id w \<notin> is_id ` set (issue_definitions d)) (diagnostic_workflows d) = []"
    "filter (\<lambda>i. is_issue_key i \<notin> set ISSUE_KEYS) (issue_definitions d) = []"
    "filter (\<lambda>k. ks_source_organization k \<noteq> SOURCE_ORG) (knowledge_sources d) = []"
    using assms by (simp_all add: only_reference_def filter_empty_conv)
  then show ?thesis by (simp add: downgrade_0013_def Let_def i w del: set_filter)
qed

text \<open>What the data migrations do not touch.\<close>

definition unseeded :: "db \<Rightarrow> db" where
  "unseeded d = d\<lparr>skills := [], knowledge_sources := [], issue_definitions := [], diagnostic_workflows := [], diagnostic_steps := [],
     next_id := 0\<rparr>"

lemma add_steps_sources: "knowledge_sources (add_steps sv w ss d) = knowledge_sources d"
  by (induction ss arbitrary: d) (simp_all add: case_prod_beta)

lemma add_steps_unseeded: "unseeded (add_steps sv w ss d) = unseeded d"
  by (induction ss arbitrary: d) (simp_all add: case_prod_beta unseeded_def)

lemma add_reference_unseeded: "unseeded (add_reference sv now sid x d) = unseeded d"
  by (simp add: add_reference_def case_prod_beta add_steps_unseeded) (simp add: unseeded_def)

lemma fold_reference_unseeded: "unseeded (fold (add_reference sv now sid) xs d) = unseeded d"
  by (induction xs arbitrary: d) (simp_all add: add_reference_unseeded)

lemma add_reference_only:
  assumes "only_reference d" and "ib_issue_key (fst x) \<in> set ISSUE_KEYS"
  shows "only_reference (add_reference sv now sid x d)"
proof -
  let ?w = "sv_uuid sv (Suc (next_id d))"
  let ?base = "d\<lparr>next_id := Suc (Suc (next_id d)),
      issue_definitions := issue_definitions d @ [reference_row sv now sid (fst x) (sv_uuid sv (next_id d))],
      diagnostic_workflows := diagnostic_workflows d @ [\<lparr>dw_id = ?w, dw_issue_definition_id = sv_uuid sv (next_id d), dw_version = 1,
        dw_active = True, dw_created_by = SYSTEM_ACTOR, dw_created_at = now\<rparr>]\<rparr>"
  have d: "add_reference sv now sid x d = add_steps sv ?w (snd x) ?base" by (simp add: add_reference_def case_prod_beta)
  obtain new where new: "diagnostic_steps (add_steps sv ?w (snd x) ?base) = diagnostic_steps d @ new"
    and l: "list_all2 (\<lambda>s r. \<exists>i. r = step_row ?w s i) (snd x) new"
    using add_steps_rows [of sv ?w "snd x" ?base] by auto
  from l have "\<forall>s \<in> set new. ds_workflow_id s = ?w" by (induction rule: list_all2_induct) (auto simp: step_row_def)
  with assms new show ?thesis
    unfolding d by (auto simp: only_reference_def add_steps_more add_steps_sources reference_row_def)
qed

lemma fold_reference_only:
  "only_reference d \<Longrightarrow> list_all (\<lambda>x. ib_issue_key (fst x) \<in> set ISSUE_KEYS) xs \<Longrightarrow>
     only_reference (fold (add_reference sv now sid) xs d)"
  by (induction xs arbitrary: d) (auto intro: add_reference_only)

lemma only_reference_steps:
  assumes "only_reference d" and "issue_definitions d' = issue_definitions d" and "diagnostic_workflows d' = diagnostic_workflows d"
    and "knowledge_sources d' = knowledge_sources d"
    and "\<And>s. s \<in> set (diagnostic_steps d') \<Longrightarrow> ds_workflow_id s \<in> dw_id ` set (diagnostic_workflows d)"
  shows "only_reference d'"
  using assms by (simp add: only_reference_def)

lemma workflow_id_of_mem: "workflow_id_of k d = Some w \<Longrightarrow> w \<in> dw_id ` set (diagnostic_workflows d)"
  unfolding workflow_id_of_def
  by (auto split: list.splits) (metis (no_types, lifting) filter_eq_Cons_iff in_set_conv_decomp rev_image_eqI)

lemma downgrade_0017_only:
  assumes "only_reference d" and "upgrade_0017 sv d = Some d'"
  shows "\<exists>d''. downgrade_0017 d' = Some d'' \<and> only_reference d''"
proof -
  obtain w where w: "workflow_id_of ''dns_resolution_failure'' d = Some w" using assms(2) by (auto simp: upgrade_0017_def split: option.splits)
  have same: "issue_definitions d' = issue_definitions d" "diagnostic_workflows d' = diagnostic_workflows d"
    "knowledge_sources d' = knowledge_sources d" using assms(2) w by (auto simp: upgrade_0017_def case_prod_beta Let_def)
  have ids: "ds_workflow_id s \<in> dw_id ` set (diagnostic_workflows d)" if "s \<in> set (diagnostic_steps d')" for s
    using assms w workflow_id_of_mem [OF w] that
    by (fastforce simp: upgrade_0017_def case_prod_beta Let_def only_reference_def set_update_where step_row_def)
  have w': "workflow_id_of ''dns_resolution_failure'' d' = Some w" using w workflow_id_of_cong [OF same(1,2)] by simp
  then obtain d'' where d'': "downgrade_0017 d' = Some d''" by (simp add: downgrade_0017_def Let_def)
  have "only_reference d''"
  proof (rule only_reference_steps [OF assms(1)])
    show "issue_definitions d'' = issue_definitions d" "diagnostic_workflows d'' = diagnostic_workflows d"
      "knowledge_sources d'' = knowledge_sources d"
      using d'' w' same by (auto simp: downgrade_0017_def Let_def)
    have "map ds_workflow_id (diagnostic_steps d'') =
        map ds_workflow_id (filter (\<lambda>s. \<not> (ds_workflow_id s = w \<and> ds_step_order s = 3)) (diagnostic_steps d'))"
      using d'' w' by (auto simp: downgrade_0017_def Let_def map_update_where_id)
    from arg_cong [OF this, of set] have "ds_workflow_id ` set (diagnostic_steps d'') \<subseteq> ds_workflow_id ` set (diagnostic_steps d')"
      by auto
    then obtain ws where ws: "ws = ds_workflow_id ` set (diagnostic_steps d')" "ds_workflow_id ` set (diagnostic_steps d'') \<subseteq> ws"
      by simp
    fix s assume "s \<in> set (diagnostic_steps d'')"
    then have "ds_workflow_id s \<in> ws" using ws(2) by (auto intro: imageI)
    then obtain t where "t \<in> set (diagnostic_steps d')" "ds_workflow_id t = ds_workflow_id s" unfolding ws(1) by (auto elim: imageE)
    with ids [of t] show "ds_workflow_id s \<in> dw_id ` set (diagnostic_workflows d)" by simp
  qed
  with d'' show ?thesis by blast
qed

lemma ISSUES_in_keys: "list_all (\<lambda>x. ib_issue_key (fst x) \<in> set ISSUE_KEYS) ISSUES"
  by (auto simp: ISSUE_KEYS_def list_all_iff)

lemma upgrade_0013_only:
  assumes "only_reference d"
  shows "only_reference (upgrade_0013 sv now d)"
proof -
  have "only_reference (d\<lparr>next_id := Suc (next_id d), knowledge_sources := knowledge_sources d @ [reference_source now sid]\<rparr>)" for sid
    using assms by (simp add: only_reference_def reference_source_def SOURCE_ORG_def)
  from fold_reference_only [OF this ISSUES_in_keys] show ?thesis by (simp add: upgrade_0013_def case_prod_beta)
qed

lemma unseeded_eqI:
  assumes "unseeded a = unseeded b" and "skills a = skills b" and "knowledge_sources a = knowledge_sources b"
    and "issue_definitions a = issue_definitions b" and "diagnostic_workflows a = diagnostic_workflows b"
    and "diagnostic_steps a = diagnostic_steps b" and "next_id a = next_id b"
  shows "a = b"
  using assms by (cases a; cases b) (simp add: unseeded_def)

lemma upgrades_unseeded:
  "unseeded (upgrade_0013 sv now d) = unseeded d" "unseeded (upgrade_0016 sv now d) = unseeded d"
  "upgrade_0017 sv d = Some d' \<Longrightarrow> unseeded d' = unseeded d" "downgrade_0017 d = Some d' \<Longrightarrow> unseeded d' = unseeded d"
  by (auto simp: upgrade_0013_def fold_reference_unseeded case_prod_beta upgrade_0016_def insert_skill_def upgrade_0017_def
      downgrade_0017_def Let_def split: option.splits) (simp_all add: unseeded_def)

lemma upgrades_skills:
  "skills (upgrade_0013 sv now d) = skills d"
  "upgrade_0017 sv d = Some d' \<Longrightarrow> skills d' = skills d" "downgrade_0017 d = Some d' \<Longrightarrow> skills d' = skills d \<and> next_id d' = next_id d"
proof -
  have "skills (add_reference sv now sid x d) = skills d" for sid x d by (simp add: add_reference_def case_prod_beta add_steps_rest)
  then have "skills (fold (add_reference sv now sid) xs d) = skills d" for sid xs d by (induction xs arbitrary: d) simp_all
  then show "skills (upgrade_0013 sv now d) = skills d" by (simp add: upgrade_0013_def case_prod_beta)
qed (auto simp: upgrade_0017_def downgrade_0017_def case_prod_beta Let_def split: option.splits)

text \<open>
  Taking the data migrations back.  After all data migrations on an empty database, the downgrades of \<open>0017\<close>, \<open>0016\<close> and \<open>0013\<close>
  lead back to the database as \<open>0008\<close> left it.
\<close>

theorem data_migrations_undone:
  assumes "inj (sv_uuid sv)"
  shows "\<exists>d d'. fresh_database sv now = Some d \<and> downgrade_0017 d = Some d'
    \<and> downgrade_0013 (downgrade_0016 d') = (upgrade_0008 sv now empty_db)\<lparr>next_id := next_id d\<rparr>"
proof -
  let ?a = "upgrade_0008 sv now empty_db"
  let ?b = "upgrade_0013 sv now ?a"
  let ?c = "upgrade_0016 sv now ?b"
  have a: "only_reference ?a" "knowledge_sources ?a = []" "issue_definitions ?a = []" "diagnostic_workflows ?a = []" "diagnostic_steps ?a = []"
    by (simp_all add: upgrade_0008_def empty_db_def only_reference_def insert_skill_def case_prod_beta)
  have "only_reference (upgrade_0016 sv now d) = only_reference d" for d
    by (simp add: only_reference_def upgrade_0016_def insert_skill_def case_prod_beta)
  with upgrade_0013_only [OF a(1)] have c: "only_reference ?c" by blast
  obtain d where d: "fresh_database sv now = Some d" using fresh_database_consistent [OF assms] by blast
  then have up: "upgrade_0017 sv ?c = Some d" by (simp add: fresh_database_def)
  from downgrade_0017_only [OF c this] obtain d' where d': "downgrade_0017 d = Some d'" "only_reference d'" by blast
  have keep: "filter (\<lambda>r. sm_skill_id r \<noteq> ''dns.flush_cache'') (skills ?a) = skills ?a"
    by (simp add: upgrade_0008_def empty_db_def seed_row_def seed_manifest_def)
  have new: "skills d' = skills ?a @ [seed_row sv now (seed_manifest ''dns.flush_cache'' RISK_LOW 15 None [] False) [] (sv_uuid sv (next_id ?b))]"
    using upgrades_skills(2) [OF up] upgrades_skills(3) [OF d'(1)] by (simp add: upgrade_0016_def upgrades_skills(1))
  have only: "only_reference (downgrade_0016 d')" using d'(2) by (simp add: only_reference_def downgrade_0016_def)
  have u: "unseeded d' = unseeded ?a"
    using upgrades_unseeded(3) [OF up] upgrades_unseeded(4) [OF d'(1)] by (simp add: upgrades_unseeded(1,2))
  have k: "skills (downgrade_0016 d') = skills ?a"
    using keep by (simp add: downgrade_0016_def new seed_row_def seed_manifest_def)
  have n: "next_id (downgrade_0016 d') = next_id d" using upgrades_skills(3) [OF d'(1)] by (simp add: downgrade_0016_def)
  have "downgrade_0013 (downgrade_0016 d') = ?a\<lparr>next_id := next_id d\<rparr>"
    unfolding only_reference_removed [OF only]
    by (rule unseeded_eqI) (use u k n a in \<open>simp_all add: downgrade_0016_def unseeded_def\<close>)
  with d d'(1) show ?thesis by blast
qed

end
