(* ===== verification/Seed.thy ===== *)
theory Seed
  imports Incidents
begin

text \<open>
  The development seed (\<open>helpdesktool/seed.py\<close>): the demonstration tenant with its users, devices, reports, ticket and the
  action that waits for approval, each created when it is not there.  The result: the seed always ends, and is
  idempotent: a second run changes nothing but when the devices were seen last.
\<close>

section \<open>Tenant and users\<close>

definition DEMO_USERS :: "(string \<times> string) list" where
  "DEMO_USERS = [(''owner@acme.local'', ''owner''), (''admin@acme.local'', ''admin''),
     (''operator@acme.local'', ''operator''), (''viewer@acme.local'', ''viewer'')]"

definition seed_tenant :: "server \<Rightarrow> time \<Rightarrow> db \<Rightarrow> string \<times> db" where
  "seed_tenant sv now d =
     (case scalar (\<lambda>t. tn_name t = ''Acme IT'') (tenants d) of
        Some t \<Rightarrow> (tn_id t, d)
      | None \<Rightarrow>
          let (tenant_id, d1) = new_id sv d
          in (tenant_id, d1\<lparr>tenants := tenants d1 @ [\<lparr>tn_id = tenant_id, tn_name = ''Acme IT'', tn_created_at = now\<rparr>]\<rparr>))"

definition user_named :: "string \<Rightarrow> string \<Rightarrow> User \<Rightarrow> bool" where
  "user_named tenant_id email u \<longleftrightarrow> us_tenant_id u = tenant_id \<and> us_email u = email"

definition seed_user :: "server \<Rightarrow> string \<Rightarrow> string \<times> string \<Rightarrow> db \<Rightarrow> string \<times> db" where
  "seed_user sv tenant_id spec d =
     (case spec of (email, role) \<Rightarrow>
        (case scalar (user_named tenant_id email) (users d) of
           None \<Rightarrow>
             let (user_id, d1) = new_id sv d
             in (user_id, d1\<lparr>users := users d1 @
                  [\<lparr>us_id = user_id, us_tenant_id = tenant_id, us_email = email, us_role = role, us_active = True\<rparr>]\<rparr>)
         | Some u \<Rightarrow>
             (us_id u, d\<lparr>users := update_where (\<lambda>r. us_id r = us_id u) (\<lambda>r. r\<lparr>us_role := role, us_active := True\<rparr>) (users d)\<rparr>)))"

text \<open>The identifiers of the users by their role.\<close>

fun seed_users :: "server \<Rightarrow> string \<Rightarrow> (string \<times> string) list \<Rightarrow> db \<Rightarrow> (string \<times> string) list \<times> db" where
  "seed_users sv tenant_id [] d = ([], d)"
| "seed_users sv tenant_id (spec # specs) d =
     (let (user_id, d1) = seed_user sv tenant_id spec d;
          (found, d2) = seed_users sv tenant_id specs d1
      in ((snd spec, user_id) # found, d2))"

section \<open>Devices\<close>

definition device_specs :: "time \<Rightarrow> (string \<times> string \<times> time) list" where
  "device_specs now =
     [(''web-prod-01'', ''linux'', now - 30), (''db-prod-01'', ''linux'', now - 120),
      (''employee-laptop-01'', ''windows'', now - 2 * 86400)]"

definition device_named :: "string \<Rightarrow> string \<Rightarrow> Device \<Rightarrow> bool" where
  "device_named tenant_id hostname v \<longleftrightarrow> dv_tenant_id v = tenant_id \<and> dv_external_id v = hostname"

definition demo_device :: "server \<Rightarrow> time \<Rightarrow> string \<Rightarrow> string \<Rightarrow> string \<times> string \<times> time \<Rightarrow> Device" where
  "demo_device sv now tenant_id device_id spec =
     (case spec of (hostname, os_name, last_seen) \<Rightarrow>
        \<lparr>dv_id = device_id, dv_tenant_id = tenant_id, dv_external_id = hostname, dv_hostname = hostname, dv_os = os_name,
         dv_agent_key_hash = sha256_hex (sv_host sv) (''demo:'' @ hostname), dv_active = True, dv_revoked_at = None,
         dv_revoked_reason = None, dv_credential_rotated_at = None, dv_enrolled_at = now, dv_last_seen_at = Some last_seen\<rparr>)"

definition seed_device :: "server \<Rightarrow> time \<Rightarrow> string \<Rightarrow> string \<Rightarrow> string \<times> string \<times> time \<Rightarrow> db \<Rightarrow> string \<times> db" where
  "seed_device sv now tenant_id admin_id spec d =
     (case spec of (hostname, os_name, last_seen) \<Rightarrow>
        (case scalar (device_named tenant_id hostname) (devices d) of
           None \<Rightarrow>
             let (device_id, d1) = new_id sv d
             in (device_id, audit sv now tenant_id device_id ''device.enrolled'' admin_id
                  [(''hostname'', JStr hostname), (''os'', JStr os_name), (''demo'', JBool True)]
                  (d1\<lparr>devices := devices d1 @ [demo_device sv now tenant_id device_id spec]\<rparr>))
         | Some v \<Rightarrow>
             (dv_id v, d\<lparr>devices := update_where (\<lambda>r. dv_id r = dv_id v) (\<lambda>r. r\<lparr>dv_last_seen_at := Some last_seen\<rparr>) (devices d)\<rparr>)))"

fun seed_devices ::
  "server \<Rightarrow> time \<Rightarrow> string \<Rightarrow> string \<Rightarrow> (string \<times> string \<times> time) list \<Rightarrow> db \<Rightarrow> (string \<times> string \<times> time) list \<times> db" where
  "seed_devices sv now tenant_id admin_id [] d = ([], d)"
| "seed_devices sv now tenant_id admin_id (spec # specs) d =
     (let (device_id, d1) = seed_device sv now tenant_id admin_id spec d;
          (found, d2) = seed_devices sv now tenant_id admin_id specs d1
      in ((fst spec, device_id, snd (snd spec)) # found, d2))"

section \<open>Heartbeats, inventories and incidents\<close>

definition inventory_payload :: "string \<Rightarrow> rat \<Rightarrow> dict" where
  "inventory_payload hostname used_percent =
     (let total_bytes = 100 * 1024 ^ 3 in
      [(''hostname'', JStr hostname),
       (''cpu'', JObj [(''logical_cpus'', JInt 4), (''utilization_percent'', JFloat (49 / 2))]),
       (''memory'', JObj [(''total_bytes'', JInt (8 * 1024 ^ 3)), (''available_bytes'', JInt (3 * 1024 ^ 3))]),
       (''filesystems'', JList [JObj [(''device'', JStr ''/dev/vda1''), (''mountpoint'', JStr ''/''), (''filesystem'', JStr ''ext4''),
          (''total_bytes'', JInt total_bytes), (''free_bytes'', JInt \<lfloor>of_int total_bytes * (100 - used_percent) / 100\<rfloor>)]]),
       (''services'', JList [JObj [(''service'', JStr ''nginx''), (''active'', JStr ''active'')]])])"

definition seed_heartbeat :: "string \<Rightarrow> string \<times> string \<times> time \<Rightarrow> db \<Rightarrow> db" where
  "seed_heartbeat tenant_id device d =
     (case device of (hostname, device_id, last_seen) \<Rightarrow>
        if scalar (\<lambda>h. hb_device_id h = device_id) (heartbeats d) \<noteq> None then d
        else d\<lparr>heartbeats := heartbeats d @ [\<lparr>hb_id = next_id d, hb_tenant_id = tenant_id, hb_device_id = device_id,
                 hb_received_at = last_seen,
                 hb_status = [(''agent_version'', JStr ''0.1.0-demo''),
                   (''health'', JStr (if hostname = ''employee-laptop-01'' then ''offline'' else ''healthy''))]\<rparr>],
               next_id := Suc (next_id d)\<rparr>)"

definition NO_ACTIVE_USER :: py_error where
  "NO_ACTIVE_USER = RuntimeError ''incident cannot create a ticket without an active tenant user''"

definition seed_report :: "server \<Rightarrow> time \<Rightarrow> string \<Rightarrow> string \<times> string \<times> time \<Rightarrow> db \<Rightarrow> py_error + db" where
  "seed_report sv now tenant_id device d =
     (case device of (hostname, device_id, last_seen) \<Rightarrow>
        let d1 = seed_heartbeat tenant_id device d in
        if scalar (\<lambda>i. di_device_id i = device_id) (device_inventory d1) \<noteq> None then Inr d1
        else let payload = inventory_payload hostname (if hostname = ''web-prod-01'' then 91 else 43);
                 (_, d2) = add_inventory now tenant_id device_id payload d1
             in case detect_inventory_incidents sv now tenant_id device_id payload now d2 of
                  Inl _ \<Rightarrow> Inl NO_ACTIVE_USER
                | Inr (_, d3) \<Rightarrow> Inr d3)"

fun seed_reports :: "server \<Rightarrow> time \<Rightarrow> string \<Rightarrow> (string \<times> string \<times> time) list \<Rightarrow> db \<Rightarrow> py_error + db" where
  "seed_reports sv now tenant_id [] d = Inr d"
| "seed_reports sv now tenant_id (device # ds) d =
     (case seed_report sv now tenant_id device d of Inl e \<Rightarrow> Inl e | Inr d1 \<Rightarrow> seed_reports sv now tenant_id ds d1)"

section \<open>Ticket and action\<close>

definition TICKET_TITLE :: string where
  "TICKET_TITLE = ''Database backup verification''"

definition seed_ticket :: "server \<Rightarrow> time \<Rightarrow> string \<Rightarrow> string \<Rightarrow> string \<Rightarrow> db \<Rightarrow> db" where
  "seed_ticket sv now tenant_id device_id operator_id d =
     (case scalar (\<lambda>t. tk_tenant_id t = tenant_id \<and> tk_title t = TICKET_TITLE) (tickets d) of
        Some _ \<Rightarrow> d
      | None \<Rightarrow>
          let (ticket_id, d1) = new_id sv d
          in d1\<lparr>tickets := tickets d1 @ [\<lparr>tk_id = ticket_id, tk_tenant_id = tenant_id, tk_device_id = Some device_id,
               tk_title = TICKET_TITLE,
               tk_description = ''Confirm the latest production backup completed and is restorable.'',
               tk_status = ''in_progress'', tk_priority = ''normal'', tk_created_by = operator_id,
               tk_created_at = now, tk_updated_at = now\<rparr>]\<rparr>)"

definition DEMO_ACTION :: string where
  "DEMO_ACTION = ''11111111-1111-4111-8111-111111111111''"

definition low_disk_incident :: "string \<Rightarrow> string \<Rightarrow> db \<Rightarrow> Incident option" where
  "low_disk_incident tenant_id device_id d =
     scalar (\<lambda>i. ic_tenant_id i = tenant_id \<and> ic_device_id i = device_id \<and> ic_incident_type i = ''low_disk_space'') (incidents d)"

definition new_demo_action :: "time \<Rightarrow> string \<Rightarrow> string \<Rightarrow> string \<Rightarrow> string option \<Rightarrow> Action" where
  "new_demo_action now tenant_id device_id operator_id ticket_id =
     \<lparr>at_id = DEMO_ACTION, at_tenant_id = tenant_id, at_device_id = device_id, at_ticket_id = ticket_id,
      at_skill_id = ''service.restart'', at_requested_by = operator_id,
      at_parameters = [(''service'', JStr ''helpdesk-demo.service'')], at_device_os = ''linux'', at_risk = ''medium'',
      at_status = ''pending_approval'', at_approved_by = None, at_claim_token_hash = None, at_claimed_at = None,
      at_lease_expires_at = None, at_attempt = 0, at_created_at = now, at_updated_at = now\<rparr>"

text \<open>A row whose column gets the value it has is not updated.\<close>

definition link_ticket :: "time \<Rightarrow> string option \<Rightarrow> Action \<Rightarrow> Action" where
  "link_ticket now ticket_id r = (if at_ticket_id r = ticket_id then r else r\<lparr>at_ticket_id := ticket_id, at_updated_at := now\<rparr>)"

definition seed_action :: "server \<Rightarrow> time \<Rightarrow> string \<Rightarrow> string \<Rightarrow> string \<Rightarrow> db \<Rightarrow> db" where
  "seed_action sv now tenant_id device_id operator_id d =
     (let incident = low_disk_incident tenant_id device_id d in
      case scalar (\<lambda>a. at_id a = DEMO_ACTION) (actions d) of
        None \<Rightarrow>
          audit sv now tenant_id DEMO_ACTION ''approval.required'' operator_id
            [(''device_id'', JStr device_id), (''skill_id'', JStr ''service.restart''), (''risk'', JStr ''medium'')]
            (d\<lparr>actions := actions d @ [new_demo_action now tenant_id device_id operator_id
                 (case incident of None \<Rightarrow> None | Some i \<Rightarrow> ic_ticket_id i)]\<rparr>)
      | Some _ \<Rightarrow>
          (case incident of
             None \<Rightarrow> d
           | Some i \<Rightarrow> d\<lparr>actions := update_where (\<lambda>r. at_id r = DEMO_ACTION) (link_ticket now (ic_ticket_id i)) (actions d)\<rparr>))"

section \<open>The command\<close>

text \<open>
  The command sets the context of its tenant, so row-level security shows it the rows of that tenant.  The
  queries for the reports of a device and for the action name no tenant; no other tenant is assumed to have
  an action with the fixed identifier.
\<close>

definition seed :: "server \<Rightarrow> time \<Rightarrow> db \<Rightarrow> py_error + db" where
  "seed sv now d =
     (if environment (sv_settings sv) \<noteq> ''development'' then Inl (RuntimeError ''demo seed is development-only'')
      else let (tenant_id, d1) = seed_tenant sv now d;
               (found, d2) = seed_users sv tenant_id DEMO_USERS d1;
               user = (\<lambda>role. the (map_of found role));
               (devs, d3) = seed_devices sv now tenant_id (user ''admin'') (device_specs now) d2;
               device = (\<lambda>hostname. fst (the (map_of devs hostname)))
           in case seed_reports sv now tenant_id devs d3 of
                Inl e \<Rightarrow> Inl e
              | Inr d4 \<Rightarrow>
                  Inr (seed_action sv now tenant_id (device ''web-prod-01'') (user ''operator'')
                    (seed_ticket sv now tenant_id (device ''db-prod-01'') (user ''operator'') d4)))"

section \<open>The users are there\<close>

lemma scalar_update_keeps:
  "(\<And>r. P (f r) = P r) \<Longrightarrow> scalar P (update_where Q f rows) = map_option (\<lambda>r. if Q r then f r else r) (scalar P rows)"
  by (induction rows) (auto simp: row_simps)

text \<open>The user of a demonstration account is found, and every row with its identifier has the role and is active.\<close>

definition demo_user :: "string \<Rightarrow> string \<times> string \<Rightarrow> db \<Rightarrow> bool" where
  "demo_user tenant_id spec d \<longleftrightarrow> (\<exists>u. scalar (user_named tenant_id (fst spec)) (users d) = Some u
     \<and> (\<forall>r \<in> set (users d). us_id r = us_id u \<longrightarrow> us_role r = snd spec \<and> us_active r))"

text \<open>Identifiers of users are unique, and none is given again.\<close>

definition user_ids_ok :: "server \<Rightarrow> db \<Rightarrow> bool" where
  "user_ids_ok sv d \<longleftrightarrow> inj (sv_uuid sv) \<and> distinct (map us_id (users d))
     \<and> (\<forall>u \<in> set (users d). \<forall>n \<ge> next_id d. us_id u \<noteq> sv_uuid sv n)"

lemma user_ids_distinct:
  "user_ids_ok sv d \<Longrightarrow> u \<in> set (users d) \<Longrightarrow> r \<in> set (users d) \<Longrightarrow> us_id r = us_id u \<Longrightarrow> r = u"
  by (auto simp: user_ids_ok_def distinct_map dest: inj_onD)

lemma user_id_fresh:
  "user_ids_ok sv d \<Longrightarrow> r \<in> set (users d) \<Longrightarrow> sv_uuid sv (next_id d) \<noteq> us_id r"
  by (metis order_refl user_ids_ok_def)

text \<open>Only the users differ.\<close>

definition only_users :: "db \<Rightarrow> db \<Rightarrow> bool" where
  "only_users d d' \<longleftrightarrow> (\<exists>us n. d' = d\<lparr>users := us, next_id := n\<rparr>)"

lemma only_users_trans: "only_users a b \<Longrightarrow> only_users b c \<Longrightarrow> only_users a c"
  unfolding only_users_def by (elim exE) (hypsubst, (rule exI)+, simp)

lemma only_users_refl: "only_users d d"
  unfolding only_users_def by (rule exI [of _ "users d"], rule exI [of _ "next_id d"]) simp

lemma user_named_update [simp]: "user_named t e (r\<lparr>us_role := x, us_active := y\<rparr>) = user_named t e r"
  by (simp add: user_named_def)

lemma seed_user_frame: "only_users d (snd (seed_user sv t spec d))"
proof -
  have "only_users d (d\<lparr>users := us\<rparr>)" for us
    unfolding only_users_def by (rule exI [of _ us], rule exI [of _ "next_id d"]) simp
  moreover have "only_users d (d\<lparr>next_id := n, users := us\<rparr>)" for us n
    unfolding only_users_def by (rule exI [of _ us], rule exI [of _ n]) simp
  ultimately show ?thesis by (simp add: seed_user_def case_prod_beta split: option.split)
qed

lemma seed_user_ids:
  assumes "user_ids_ok sv d"
  shows "user_ids_ok sv (snd (seed_user sv t spec d))"
proof (cases "scalar (user_named t (fst spec)) (users d)")
  case None
  then show ?thesis
    using assms user_id_fresh [OF assms] by (fastforce simp: seed_user_def case_prod_beta user_ids_ok_def dest: injD)
next
  case (Some u)
  then show ?thesis
    using assms by (auto simp: seed_user_def case_prod_beta user_ids_ok_def map_update_where_id set_update_where split: if_splits)
qed

lemma seed_user_there:
  assumes "user_ids_ok sv d"
  shows "demo_user t spec (snd (seed_user sv t spec d))"
proof (cases "scalar (user_named t (fst spec)) (users d)")
  case None
  moreover have "user_named t (fst spec) \<lparr>us_id = i, us_tenant_id = t, us_email = fst spec, us_role = r, us_active = a\<rparr>" for i r a
    by (simp add: user_named_def)
  ultimately show ?thesis
    using user_id_fresh [OF assms, symmetric] by (auto simp: demo_user_def seed_user_def case_prod_beta row_simps)
next
  case (Some u)
  then show ?thesis
    by (auto simp: demo_user_def seed_user_def case_prod_beta scalar_update_keeps set_update_where)
qed

lemma seed_user_others:
  assumes "user_ids_ok sv d" and "demo_user t spec d" and "fst spec' \<noteq> fst spec"
  shows "demo_user t spec (snd (seed_user sv t spec' d))"
proof -
  from assms(2) obtain u where u: "scalar (user_named t (fst spec)) (users d) = Some u"
    and r: "\<And>r. r \<in> set (users d) \<Longrightarrow> us_id r = us_id u \<Longrightarrow> us_role r = snd spec \<and> us_active r" by (auto simp: demo_user_def)
  from scalar_SomeD [OF u] have m: "u \<in> set (users d)" "user_named t (fst spec) u" by auto
  show ?thesis
  proof (cases "scalar (user_named t (fst spec')) (users d)")
    case None
    with u r user_id_fresh [OF assms(1) m(1)] show ?thesis
      by (auto simp: demo_user_def seed_user_def case_prod_beta row_simps)
  next
    case (Some v)
    from scalar_SomeD [OF this] have v: "v \<in> set (users d)" "user_named t (fst spec') v" by auto
    with m assms(3) have "u \<noteq> v" by (auto simp: user_named_def)
    with user_ids_distinct [OF assms(1) v(1) m(1)] have "us_id u \<noteq> us_id v" by blast
    with Some u r show ?thesis
      by (auto simp: demo_user_def seed_user_def case_prod_beta scalar_update_keeps set_update_where split: if_splits)
  qed
qed

lemma seed_users_there:
  assumes "user_ids_ok sv d" and "distinct (map fst specs)"
  shows "user_ids_ok sv (snd (seed_users sv t specs d))
    \<and> (\<forall>spec \<in> set specs. demo_user t spec (snd (seed_users sv t specs d)))
    \<and> (\<forall>spec. demo_user t spec d \<longrightarrow> fst spec \<notin> fst ` set specs \<longrightarrow> demo_user t spec (snd (seed_users sv t specs d)))
    \<and> only_users d (snd (seed_users sv t specs d))"
  using assms
proof (induction specs arbitrary: d)
  case (Cons spec specs)
  let ?d = "snd (seed_user sv t spec d)"
  let ?e = "snd (seed_users sv t specs ?d)"
  note ok = seed_user_ids [OF Cons.prems(1), of t spec]
  have e: "snd (seed_users sv t (spec # specs) d) = ?e" by (simp add: case_prod_beta)
  from Cons.IH [OF ok] Cons.prems(2) have IH: "user_ids_ok sv ?e" "\<forall>spec \<in> set specs. demo_user t spec ?e"
    "\<forall>spec. demo_user t spec ?d \<longrightarrow> fst spec \<notin> fst ` set specs \<longrightarrow> demo_user t spec ?e"
    "only_users ?d ?e" by simp_all
  have f: "only_users d ?e" using only_users_trans [OF seed_user_frame IH(4)] .
  have first: "demo_user t spec ?e"
    using IH(3) seed_user_there [OF Cons.prems(1), of t spec] Cons.prems(2) by (cases spec) auto
  have rest: "demo_user t spec' ?e" if "demo_user t spec' d" "fst spec' \<notin> fst ` set (spec # specs)" for spec'
    using IH(3) seed_user_others [OF Cons.prems(1) that(1), of spec] that(2) by (cases spec') auto
  show ?case unfolding e using IH(1,2) f first rest by auto
qed (simp add: only_users_refl)

text \<open>Where the users are there, seeding them changes nothing and finds the same identifiers.\<close>

lemma seed_user_again:
  assumes "demo_user t spec d"
  shows "snd (seed_user sv t spec d) = d"
proof -
  from assms obtain u where u: "scalar (user_named t (fst spec)) (users d) = Some u"
    and r: "\<And>r. r \<in> set (users d) \<Longrightarrow> us_id r = us_id u \<Longrightarrow> us_role r = snd spec \<and> us_active r" by (auto simp: demo_user_def)
  have "update_where (\<lambda>r. us_id r = us_id u) (\<lambda>r. r\<lparr>us_role := snd spec, us_active := True\<rparr>) (users d) = users d"
    unfolding update_where_def by (rule map_idI) (use r in fastforce)
  with u show ?thesis by (simp add: seed_user_def case_prod_beta)
qed

lemma seed_users_again: "\<forall>spec \<in> set specs. demo_user t spec d \<Longrightarrow> snd (seed_users sv t specs d) = d"
  by (induction specs) (auto simp: case_prod_beta seed_user_again)

section \<open>Later steps\<close>

text \<open>What every later step keeps: tenants, users, and the rows that the lookups of the seed find.\<close>

definition grows :: "db \<Rightarrow> db \<Rightarrow> bool" where
  "grows d d' \<longleftrightarrow> tenants d' = tenants d \<and> users d' = users d
     \<and> hb_device_id ` set (heartbeats d) \<subseteq> hb_device_id ` set (heartbeats d')
     \<and> di_device_id ` set (device_inventory d) \<subseteq> di_device_id ` set (device_inventory d')"

lemma grows_refl: "grows d d"
  by (simp add: grows_def)

lemma grows_trans: "grows a b \<Longrightarrow> grows b c \<Longrightarrow> grows a c"
  unfolding grows_def by (elim conjE) (intro conjI; (rule subset_trans, assumption, assumption | simp))

text \<open>The devices of the demonstration are found under their identifiers.\<close>

definition device_at :: "string \<Rightarrow> string \<Rightarrow> db \<Rightarrow> string option" where
  "device_at t h d = map_option dv_id (scalar (device_named t h) (devices d))"

definition demo_devices :: "string \<Rightarrow> (string \<times> string \<times> time) list \<Rightarrow> db \<Rightarrow> bool" where
  "demo_devices t devs d \<longleftrightarrow> (\<forall>v \<in> set devs. device_at t (fst v) d = Some (fst (snd v)))"

lemma device_named_update [simp]: "device_named t h (r\<lparr>dv_last_seen_at := x\<rparr>) = device_named t h r"
  by (simp add: device_named_def)

lemma seed_device_grows: "grows d (snd (seed_device sv now t a spec d))"
  by (auto simp: seed_device_def grows_def case_prod_beta Let_def split: option.split)

lemma seed_device_there:
  "device_at t (fst spec) (snd (seed_device sv now t a spec d)) = Some (fst (seed_device sv now t a spec d))"
proof (cases "scalar (device_named t (fst spec)) (devices d)")
  case None
  moreover have "device_named t (fst spec) (demo_device sv now t i spec)" "dv_id (demo_device sv now t i spec) = i" for i
    by (simp_all add: device_named_def demo_device_def case_prod_beta)
  ultimately show ?thesis by (simp add: device_at_def seed_device_def case_prod_beta Let_def row_simps)
next
  case (Some u)
  then show ?thesis by (simp add: device_at_def seed_device_def case_prod_beta scalar_update_keeps)
qed

lemma device_id_update:
  "(\<And>r. P (f r) = P r \<and> dv_id (f r) = dv_id r) \<Longrightarrow>
     map_option dv_id (scalar P (update_where Q f rows)) = map_option dv_id (scalar P rows)"
  by (induction rows) (auto simp: row_simps)

lemma seed_device_keeps:
  "device_at t h d = Some i \<Longrightarrow> device_at t h (snd (seed_device sv now t' a spec d)) = Some i"
  by (auto simp: device_at_def seed_device_def case_prod_beta Let_def row_simps device_id_update simp del: map_option_eq_Some
      split: option.split)

lemma seed_devices_there:
  "demo_devices t (fst (seed_devices sv now t a specs d)) (snd (seed_devices sv now t a specs d))
   \<and> grows d (snd (seed_devices sv now t a specs d))
   \<and> map (\<lambda>v. (fst v, snd (snd v))) (fst (seed_devices sv now t a specs d)) = map (\<lambda>v. (fst v, snd (snd v))) specs
   \<and> (\<forall>h i. device_at t h d = Some i \<longrightarrow> device_at t h (snd (seed_devices sv now t a specs d)) = Some i)"
proof (induction specs arbitrary: d)
  case (Cons spec specs)
  let ?d = "snd (seed_device sv now t a spec d)"
  let ?e = "snd (seed_devices sv now t a specs ?d)"
  let ?devs = "fst (seed_devices sv now t a specs ?d)"
  from Cons.IH [of ?d] have IH: "demo_devices t ?devs ?e" "grows ?d ?e"
    "map (\<lambda>v. (fst v, snd (snd v))) ?devs = map (\<lambda>v. (fst v, snd (snd v))) specs"
    and keep: "\<And>h i. device_at t h ?d = Some i \<Longrightarrow> device_at t h ?e = Some i" by blast+
  have e: "snd (seed_devices sv now t a (spec # specs) d) = ?e"
    "fst (seed_devices sv now t a (spec # specs) d) = (fst spec, fst (seed_device sv now t a spec d), snd (snd spec)) # ?devs"
    by (simp_all add: case_prod_beta)
  have "demo_devices t ((fst spec, fst (seed_device sv now t a spec d), snd (snd spec)) # ?devs) ?e"
    using IH(1) keep [OF seed_device_there [of t spec sv now a d]] by (simp add: demo_devices_def)
  moreover have "device_at t h ?e = Some i" if "device_at t h d = Some i" for h i
    by (rule keep) (rule seed_device_keeps [OF that])
  ultimately show ?case
    unfolding e using IH(3) grows_trans [OF seed_device_grows IH(2)] by simp
qed (simp add: demo_devices_def grows_refl)

text \<open>Where the devices are there, seeding them sets when they were seen last.\<close>

definition only_last_seen :: "db \<Rightarrow> db \<Rightarrow> bool" where
  "only_last_seen d d' \<longleftrightarrow> (\<exists>f. (\<forall>v. (f v)\<lparr>dv_last_seen_at := None\<rparr> = v\<lparr>dv_last_seen_at := None\<rparr>)
     \<and> d' = d\<lparr>devices := map f (devices d)\<rparr>)"

lemma only_last_seen_refl: "only_last_seen d d"
  unfolding only_last_seen_def by (rule exI [of _ id]) simp

lemma only_last_seen_trans: "only_last_seen a b \<Longrightarrow> only_last_seen b c \<Longrightarrow> only_last_seen a c"
  unfolding only_last_seen_def
proof (elim exE conjE)
  fix f g
  assume "\<forall>v. (f v)\<lparr>dv_last_seen_at := None\<rparr> = v\<lparr>dv_last_seen_at := None\<rparr>" "b = a\<lparr>devices := map f (devices a)\<rparr>"
    and "\<forall>v. (g v)\<lparr>dv_last_seen_at := None\<rparr> = v\<lparr>dv_last_seen_at := None\<rparr>" "c = b\<lparr>devices := map g (devices b)\<rparr>"
  then show "\<exists>f. (\<forall>v. (f v)\<lparr>dv_last_seen_at := None\<rparr> = v\<lparr>dv_last_seen_at := None\<rparr>) \<and> c = a\<lparr>devices := map f (devices a)\<rparr>"
    by (intro exI [of _ "g \<circ> f"]) simp
qed

lemma seed_device_again:
  assumes "device_at t (fst spec) d = Some i"
  shows "only_last_seen d (snd (seed_device sv now t a spec d))" and "fst (seed_device sv now t a spec d) = i"
proof -
  from assms obtain v where v: "scalar (device_named t (fst spec)) (devices d) = Some v" "dv_id v = i" by (auto simp: device_at_def)
  then show "fst (seed_device sv now t a spec d) = i" by (simp add: seed_device_def case_prod_beta)
  from v show "only_last_seen d (snd (seed_device sv now t a spec d))"
    unfolding only_last_seen_def seed_device_def update_where_def
    by (intro exI [of _ "\<lambda>r. if dv_id r = i then r\<lparr>dv_last_seen_at := Some (snd (snd spec))\<rparr> else r"]) (simp add: case_prod_beta)
qed

lemma seed_devices_again:
  "\<forall>v \<in> set devs. device_at t (fst v) d = Some (fst (snd v)) \<Longrightarrow> map fst devs = map fst specs \<Longrightarrow>
     only_last_seen d (snd (seed_devices sv now t a specs d))
     \<and> map (\<lambda>v. (fst v, fst (snd v))) (fst (seed_devices sv now t a specs d)) = map (\<lambda>v. (fst v, fst (snd v))) devs"
proof (induction specs arbitrary: d devs)
  case (Cons spec specs)
  then obtain v vs where devs: "devs = v # vs" "fst v = fst spec" "map fst vs = map fst specs" by (cases devs) auto
  with Cons.prems have v: "device_at t (fst spec) d = Some (fst (snd v))" by simp
  let ?d = "snd (seed_device sv now t a spec d)"
  have "\<forall>w \<in> set vs. device_at t (fst w) ?d = Some (fst (snd w))" using Cons.prems(1) devs(1) by (auto intro: seed_device_keeps)
  from Cons.IH [OF this devs(3)] show ?case
    using seed_device_again [OF v, of sv now a] devs by (auto simp: case_prod_beta intro: only_last_seen_trans)
qed (simp add: only_last_seen_refl)

section \<open>Reports\<close>

lemma detect_grows:
  assumes "tenant_owner t d \<noteq> None"
  shows "\<exists>r d'. detect_inventory_incidents sv now t dev pl ts d = Inr (r, d') \<and> users d' = users d \<and> tenants d' = tenants d
    \<and> devices d' = devices d \<and> heartbeats d' = heartbeats d \<and> device_inventory d' = device_inventory d"
proof -
  define same where "same d d' \<longleftrightarrow> users d' = users d \<and> tenants d' = tenants d
    \<and> devices d' = devices d \<and> heartbeats d' = heartbeats d \<and> device_inventory d' = device_inventory d" for d d' :: db
  have owner: "tenant_owner t d' = tenant_owner t d" if "same d d'" for d d' using that by (simp add: tenant_owner_def same_def)
  have correlate: "\<exists>i d'. correlate_incident sv now t hours ob d = Inr (i, d') \<and> same d d'" if "tenant_owner t d \<noteq> None" for hours ob d
    using that by (auto simp: correlate_incident_def seen_again_def update_incident_def first_seen_def Let_def same_def case_prod_beta split: option.split)
  have resolve: "same d (resolve_recovered_incident sv now t dev key ts ev d)" for key ev d
    by (auto simp: resolve_recovered_incident_def resolve_ticket_def update_incident_def Let_def same_def split: option.split)
  have "\<exists>r d'. detect_filesystems sv now t dev ts fs d = Inr (r, d') \<and> same d d'" if "tenant_owner t d \<noteq> None" for fs d
    using that
  proof (induction fs arbitrary: d)
    case (Cons f fs)
    show ?case
    proof (cases "disk_reading sv f")
      case None
      with Cons show ?thesis by simp
    next
      case (Some x)
      obtain mp used avail cap where x: "x = (mp, used, avail, cap)" by (metis prod_cases4)
      let ?e = "disk_evidence sv dev mp used avail cap ts"
      show ?thesis
      proof (cases "used < low_disk_threshold_percent (sv_settings sv)")
        case True
        let ?d = "resolve_recovered_incident sv now t dev (''low_disk_space:'' @ mp) ts ?e d"
        from Cons.IH [of ?d] Cons.prems owner [OF resolve [of d "''low_disk_space:'' @ mp" ?e]]
        obtain r d' where "detect_filesystems sv now t dev ts fs ?d = Inr (r, d')" "same ?d d'" by auto
        with True Some x resolve [of d "''low_disk_space:'' @ mp" ?e] show ?thesis by (auto simp: Let_def same_def)
      next
        case False
        from correlate [OF Cons.prems] obtain i d2 where
          c: "correlate_incident sv now t (incident_correlation_hours (sv_settings sv)) (low_disk_observation dev mp used ?e ts) d = Inr (i, d2)"
          and s: "same d d2" by blast
        from Cons.IH [of d2] Cons.prems owner [OF s] obtain r d' where "detect_filesystems sv now t dev ts fs d2 = Inr (r, d')" "same d2 d'"
          by auto
        with False Some x c s show ?thesis by (auto simp: Let_def same_def)
      qed
    qed
  qed (simp add: same_def)
  then show ?thesis using assms
    by (auto simp: detect_inventory_incidents_def same_def split: option.split json.split)
qed

lemma seed_heartbeat_there:
  "grows d (seed_heartbeat t v d) \<and> devices (seed_heartbeat t v d) = devices d
   \<and> fst (snd v) \<in> hb_device_id ` set (heartbeats (seed_heartbeat t v d))"
  by (cases v) (force simp: seed_heartbeat_def grows_def scalar_None_iff)

text \<open>A device that has reported.\<close>

definition has_reported :: "string \<times> string \<times> time \<Rightarrow> db \<Rightarrow> bool" where
  "has_reported v d \<longleftrightarrow> fst (snd v) \<in> hb_device_id ` set (heartbeats d) \<and> fst (snd v) \<in> di_device_id ` set (device_inventory d)"

lemma has_reported_grows: "has_reported v d \<Longrightarrow> grows d d' \<Longrightarrow> has_reported v d'"
  by (auto simp: has_reported_def grows_def)

lemma seed_report_there:
  assumes "tenant_owner t d \<noteq> None"
  shows "\<exists>d'. seed_report sv now t v d = Inr d' \<and> grows d d' \<and> devices d' = devices d \<and> has_reported v d'"
proof -
  obtain h i ls where v: "v = (h, i, ls)" by (cases v)
  let ?h = "seed_heartbeat t v d"
  note hb = seed_heartbeat_there [of d t v]
  show ?thesis
  proof (cases "scalar (\<lambda>r. di_device_id r = i) (device_inventory ?h)")
    case None
    let ?pl = "inventory_payload h (if h = ''web-prod-01'' then 91 else 43)"
    let ?d2 = "snd (add_inventory now t i ?pl ?h)"
    have d2: "tenants ?d2 = tenants ?h" "users ?d2 = users ?h" "devices ?d2 = devices ?h" "heartbeats ?d2 = heartbeats ?h"
      "di_device_id ` set (device_inventory ?d2) = insert i (di_device_id ` set (device_inventory ?h))"
      by (auto simp: add_inventory_def)
    have "tenant_owner t ?d2 \<noteq> None" using assms hb d2 by (simp add: tenant_owner_def grows_def)
    from detect_grows [OF this, of sv now i ?pl now] obtain r d' where
      "detect_inventory_incidents sv now t i ?pl now ?d2 = Inr (r, d')" "users d' = users ?d2" "tenants d' = tenants ?d2"
      "devices d' = devices ?d2" "heartbeats d' = heartbeats ?d2" "device_inventory d' = device_inventory ?d2" by blast
    with None hb d2 show ?thesis
      by (auto simp: seed_report_def v Let_def case_prod_beta grows_def has_reported_def)
  next
    case (Some r)
    then have "i \<in> di_device_id ` set (device_inventory ?h)" by (auto dest: scalar_SomeD)
    with Some hb show ?thesis by (auto simp: seed_report_def v Let_def has_reported_def)
  qed
qed

lemma seed_reports_there:
  assumes "tenant_owner t d \<noteq> None"
  shows "\<exists>d'. seed_reports sv now t devs d = Inr d' \<and> grows d d' \<and> devices d' = devices d \<and> (\<forall>v \<in> set devs. has_reported v d')"
  using assms
proof (induction devs arbitrary: d)
  case (Cons v devs)
  from seed_report_there [OF Cons.prems] obtain d1 where
    d1: "seed_report sv now t v d = Inr d1" "grows d d1" "devices d1 = devices d" "has_reported v d1" by blast
  then have "tenant_owner t d1 \<noteq> None" using Cons.prems by (simp add: tenant_owner_def grows_def)
  from Cons.IH [OF this] d1 show ?case by (auto intro: grows_trans has_reported_grows)
qed (simp add: grows_refl)

lemma seed_reports_again: "\<forall>v \<in> set devs. has_reported v d \<Longrightarrow> seed_reports sv now t devs d = Inr d"
proof (induction devs)
  case (Cons v devs)
  obtain h i ls where v: "v = (h, i, ls)" by (cases v)
  from Cons.prems have "seed_report sv now t v d = Inr d"
    by (auto simp: has_reported_def v seed_report_def seed_heartbeat_def Let_def scalar_None_iff)
  with Cons show ?case by simp
qed simp

section \<open>Ticket and action\<close>

definition ticket_there :: "string \<Rightarrow> db \<Rightarrow> bool" where
  "ticket_there t d \<longleftrightarrow> scalar (\<lambda>r. tk_tenant_id r = t \<and> tk_title r = TICKET_TITLE) (tickets d) \<noteq> None"

lemma seed_ticket_there:
  "ticket_there t (seed_ticket sv now t i u d) \<and> grows d (seed_ticket sv now t i u d)
   \<and> devices (seed_ticket sv now t i u d) = devices d"
  by (auto simp: seed_ticket_def ticket_there_def grows_def case_prod_beta row_simps split: option.split)

lemma seed_ticket_again: "ticket_there t d \<Longrightarrow> seed_ticket sv now t i u d = d"
  by (auto simp: seed_ticket_def ticket_there_def)

text \<open>The action is there, linked to the ticket of the incident when there is one.\<close>

definition action_there :: "string \<Rightarrow> string \<Rightarrow> db \<Rightarrow> bool" where
  "action_there t web d \<longleftrightarrow> scalar (\<lambda>a. at_id a = DEMO_ACTION) (actions d) \<noteq> None
     \<and> (\<forall>i. low_disk_incident t web d = Some i \<longrightarrow>
          (\<forall>r \<in> set (actions d). at_id r = DEMO_ACTION \<longrightarrow> at_ticket_id r = ic_ticket_id i))"

lemma seed_action_frame:
  "grows d (seed_action sv now t web u d) \<and> devices (seed_action sv now t web u d) = devices d
   \<and> tickets (seed_action sv now t web u d) = tickets d \<and> incidents (seed_action sv now t web u d) = incidents d"
  by (auto simp: seed_action_def grows_def Let_def split: option.split)

lemma seed_action_there: "action_there t web (seed_action sv now t web u d)"
proof (cases "scalar (\<lambda>a. at_id a = DEMO_ACTION) (actions d)")
  case None
  then have old: "\<forall>r \<in> set (actions d). at_id r \<noteq> DEMO_ACTION" by (simp add: scalar_None_iff)
  have l: "low_disk_incident t web (seed_action sv now t web u d) = low_disk_incident t web d"
    using seed_action_frame [of d sv now t web u] by (simp add: low_disk_incident_def)
  have a: "actions (seed_action sv now t web u d) = actions d @ [new_demo_action now t web u
      (case low_disk_incident t web d of None \<Rightarrow> None | Some i \<Rightarrow> ic_ticket_id i)]"
    using None by (simp add: seed_action_def Let_def)
  show ?thesis unfolding action_there_def l a using old None by (auto simp: row_simps new_demo_action_def)
next
  case (Some r)
  show ?thesis
  proof (cases "low_disk_incident t web d")
    case None
    with Some show ?thesis by (simp add: seed_action_def action_there_def)
  next
    case i: (Some i)
    have "at_id (link_ticket now k r) = at_id r" "at_ticket_id (link_ticket now k r) = k" for k r by (simp_all add: link_ticket_def)
    then show ?thesis using Some i
      by (auto simp: seed_action_def action_there_def low_disk_incident_def scalar_update_keeps set_update_where)
  qed
qed

lemma seed_action_again:
  assumes "action_there t web d"
  shows "seed_action sv now t web u d = d"
proof -
  have "update_where (\<lambda>r. at_id r = DEMO_ACTION) (link_ticket now (ic_ticket_id i)) (actions d) = actions d"
    if "low_disk_incident t web d = Some i" for i
    using assms that unfolding update_where_def by (intro map_idI) (simp add: action_there_def link_ticket_def)
  then show ?thesis using assms by (cases "low_disk_incident t web d") (auto simp: seed_action_def action_there_def)
qed

section \<open>Idempotence\<close>

lemma seed_tenant_there:
  "scalar (\<lambda>r. tn_name r = ''Acme IT'') (tenants (snd (seed_tenant sv now d))) \<noteq> None
   \<and> seed_tenant sv now' (snd (seed_tenant sv now d)) = (fst (seed_tenant sv now d), snd (seed_tenant sv now d))"
  by (auto simp: seed_tenant_def case_prod_beta row_simps split: option.split)

definition id_of :: "(string \<times> string \<times> time) list \<Rightarrow> string \<Rightarrow> string" where
  "id_of devs hostname = fst (the (map_of devs hostname))"

lemma id_of_map: "h \<in> fst ` set devs \<Longrightarrow> id_of devs h = the (map_of (map (\<lambda>v. (fst v, fst (snd v))) devs) h)"
  by (induction devs) (auto simp: id_of_def)

lemma hosts: "map fst (device_specs now) = [''web-prod-01'', ''db-prod-01'', ''employee-laptop-01'']"
  by (simp add: device_specs_def)

lemma seed_steps:
  assumes "environment (sv_settings sv) = ''development''" and "seed_tenant sv now d = (t, d1)"
    and "seed_users sv t DEMO_USERS d1 = (found, d2)"
    and "seed_devices sv now t (the (map_of found ''admin'')) (device_specs now) d2 = (devs, d3)"
    and "seed_reports sv now t devs d3 = Inr d4"
  shows "seed sv now d = Inr (seed_action sv now t (id_of devs ''web-prod-01'') (the (map_of found ''operator''))
    (seed_ticket sv now t (id_of devs ''db-prod-01'') (the (map_of found ''operator'')) d4))"
  using assms by (simp add: seed_def id_of_def)

lemma has_reported_id: "fst (snd w) = fst (snd v) \<Longrightarrow> has_reported w d = has_reported v d"
  by (simp add: has_reported_def)

text \<open>A database that has been seeded.\<close>

definition seeded :: "server \<Rightarrow> string \<Rightarrow> (string \<times> string \<times> time) list \<Rightarrow> db \<Rightarrow> bool" where
  "seeded sv t devs d \<longleftrightarrow> (\<forall>now. seed_tenant sv now d = (t, d)) \<and> (\<forall>spec \<in> set DEMO_USERS. demo_user t spec d)
     \<and> demo_devices t devs d \<and> (\<forall>now. map fst devs = map fst (device_specs now)) \<and> (\<forall>v \<in> set devs. has_reported v d)
     \<and> ticket_there t d \<and> action_there t (id_of devs ''web-prod-01'') d"

lemma only_last_seen_found:
  assumes "only_last_seen d d'"
  shows "has_reported v d' = has_reported v d" and "ticket_there t d' = ticket_there t d" and "action_there t web d' = action_there t web d"
proof -
  from assms obtain f where "d' = d\<lparr>devices := map f (devices d)\<rparr>" by (auto simp: only_last_seen_def)
  then show "has_reported v d' = has_reported v d" and "ticket_there t d' = ticket_there t d" and "action_there t web d' = action_there t web d"
    by (simp_all add: has_reported_def ticket_there_def action_there_def low_disk_incident_def)
qed

lemma seed_again:
  assumes "environment (sv_settings sv) = ''development''" and "seeded sv t devs d"
  shows "\<exists>d'. seed sv now d = Inr d' \<and> only_last_seen d d'"
proof -
  from assms(2) have s: "seed_tenant sv now d = (t, d)" "snd (seed_users sv t DEMO_USERS d) = d" "map fst devs = map fst (device_specs now)"
    "\<forall>v \<in> set devs. device_at t (fst v) d = Some (fst (snd v))" "\<forall>v \<in> set devs. has_reported v d" "ticket_there t d"
    "action_there t (id_of devs ''web-prod-01'') d"
    by (auto simp: seeded_def demo_devices_def seed_users_again)
  obtain found where users: "seed_users sv t DEMO_USERS d = (found, d)" using s(2) by (metis prod.collapse)
  obtain ds e where devices: "seed_devices sv now t (the (map_of found ''admin'')) (device_specs now) d = (ds, e)" by fastforce
  from seed_devices_again [OF s(4,3), of sv now "the (map_of found ''admin'')"] have l: "only_last_seen d e"
    and m: "map (\<lambda>v. (fst v, fst (snd v))) ds = map (\<lambda>v. (fst v, fst (snd v))) devs" by (simp_all add: devices)
  have fst_eq: "fst ` set ds = fst ` set devs"
    using arg_cong [OF m, of "\<lambda>l. fst ` set l"] by (simp add: image_image)
  have "\<forall>v \<in> set ds. has_reported v e"
  proof
    fix v assume "v \<in> set ds"
    then have "(fst v, fst (snd v)) \<in> set (map (\<lambda>v. (fst v, fst (snd v))) devs)" unfolding m [symmetric] by auto
    then obtain w where "w \<in> set devs" "fst (snd w) = fst (snd v)" by auto
    with s(5) has_reported_id [of w v d] have "has_reported v d" by blast
    then show "has_reported v e" by (simp add: only_last_seen_found(1) [OF l])
  qed
  note again = seed_reports_again [OF this]
  have "''web-prod-01'' \<in> fst ` set devs" using arg_cong [OF s(3), of set] by (simp add: hosts)
  then have web: "id_of ds ''web-prod-01'' = id_of devs ''web-prod-01''" using fst_eq by (simp add: id_of_map m)
  have "ticket_there t e" "action_there t (id_of ds ''web-prod-01'') e"
    using s(6,7) unfolding web by (simp_all add: only_last_seen_found(2,3) [OF l])
  with seed_steps [OF assms(1) s(1) users devices again] have "seed sv now d = Inr e"
    by (simp add: seed_ticket_again seed_action_again)
  with l show ?thesis by blast
qed

lemma demo_user_grows: "demo_user t spec d \<Longrightarrow> grows d d' \<Longrightarrow> demo_user t spec d'"
  by (simp add: demo_user_def grows_def)

lemma owner_from_users:
  assumes "demo_user t (''owner@acme.local'', ''owner'') d"
  shows "tenant_owner t d \<noteq> None"
proof -
  from assms obtain u where "scalar (user_named t ''owner@acme.local'') (users d) = Some u"
    and "\<And>r. r \<in> set (users d) \<Longrightarrow> us_id r = us_id u \<Longrightarrow> us_active r" by (auto simp: demo_user_def)
  then have "u \<in> set (filter (\<lambda>u. us_tenant_id u = t \<and> us_active u) (users d))"
    by (auto simp: user_named_def dest!: scalar_SomeD)
  then have "filter (\<lambda>u. us_tenant_id u = t \<and> us_active u) (users d) \<noteq> []" by fastforce
  then show ?thesis by (auto simp: tenant_owner_def Let_def split: option.split list.split)
qed

lemma seed_seeds:
  assumes "environment (sv_settings sv) = ''development''" and "user_ids_ok sv d"
  shows "\<exists>t devs d'. seed sv now d = Inr d' \<and> seeded sv t devs d'"
proof -
  obtain t d1 where step1: "seed_tenant sv now d = (t, d1)" by fastforce
  have ids: "user_ids_ok sv d1"
    using assms(2) step1 by (auto simp: seed_tenant_def case_prod_beta user_ids_ok_def split: option.splits)
  have tenant: "map_option tn_id (scalar (\<lambda>r. tn_name r = ''Acme IT'') (tenants d1)) = Some t"
    using step1 by (auto simp: seed_tenant_def case_prod_beta row_simps split: option.splits)
  obtain found d2 where step2: "seed_users sv t DEMO_USERS d1 = (found, d2)" by fastforce
  have u: "\<forall>spec \<in> set DEMO_USERS. demo_user t spec d2" and only: "only_users d1 d2"
    using seed_users_there [OF ids, of DEMO_USERS t] step2 by (simp_all add: DEMO_USERS_def)
  let ?admin = "the (map_of found ''admin'')" and ?operator = "the (map_of found ''operator'')"
  obtain devs d3 where step3: "seed_devices sv now t ?admin (device_specs now) d2 = (devs, d3)" by fastforce
  have dv: "demo_devices t devs d3" "grows d2 d3"
    and names: "map (\<lambda>v. (fst v, snd (snd v))) devs = map (\<lambda>v. (fst v, snd (snd v))) (device_specs now)"
    using seed_devices_there [of t sv now ?admin "device_specs now" d2] step3 by simp_all
  have fsts: "map fst devs = map fst (device_specs now')" for now'
    using arg_cong [OF names, of "map fst"] by (simp add: comp_def device_specs_def)
  have "demo_user t (''owner@acme.local'', ''owner'') d3" using u dv(2) by (auto intro: demo_user_grows simp: DEMO_USERS_def)
  from seed_reports_there [OF owner_from_users [OF this], of sv now devs] obtain d4 where
    d4: "seed_reports sv now t devs d3 = Inr d4" "grows d3 d4" "devices d4 = devices d3" "\<forall>v \<in> set devs. has_reported v d4" by blast
  define d5 where "d5 = seed_ticket sv now t (id_of devs ''db-prod-01'') ?operator d4"
  define d6 where "d6 = seed_action sv now t (id_of devs ''web-prod-01'') ?operator d5"
  have run: "seed sv now d = Inr d6" unfolding d5_def d6_def by (rule seed_steps [OF assms(1) step1 step2 step3 d4(1)])
  have g5: "ticket_there t d5" "grows d4 d5" "devices d5 = devices d4" by (simp_all add: d5_def seed_ticket_there)
  have g6: "grows d5 d6" "devices d6 = devices d5" "tickets d6 = tickets d5" by (simp_all add: d6_def seed_action_frame)
  have grown: "grows d2 d6" "grows d4 d6" using dv(2) d4(2) g5(2) g6(1) by (blast intro: grows_trans)+
  have "tenants d6 = tenants d1" using grown(1) only by (auto simp: grows_def only_users_def)
  with tenant have "seed_tenant sv now' d6 = (t, d6)" for now' by (auto simp: seed_tenant_def)
  moreover have "\<forall>spec \<in> set DEMO_USERS. demo_user t spec d6" using u grown(1) by (blast intro: demo_user_grows)
  moreover have "demo_devices t devs d6" using dv(1) d4(3) g5(3) g6(2) by (simp add: demo_devices_def device_at_def)
  moreover have "\<forall>v \<in> set devs. has_reported v d6" using d4(4) grown(2) by (blast intro: has_reported_grows)
  moreover have "ticket_there t d6" using g5(1) g6(3) by (simp add: ticket_there_def)
  moreover have "action_there t (id_of devs ''web-prod-01'') d6" unfolding d6_def by (rule seed_action_there)
  ultimately show ?thesis using run fsts unfolding seeded_def by blast
qed

text \<open>
  The seed is idempotent.  In the development environment, on a database whose users have unique identifiers that are never
  given again, the seed ends without an error; and run again, at whatever time, it changes nothing but the
  time when its devices were seen last.
\<close>

theorem seed_idempotent:
  assumes "environment (sv_settings sv) = ''development''" and "inj (sv_uuid sv)" and "distinct (map us_id (users d))"
    and "\<And>u n. u \<in> set (users d) \<Longrightarrow> next_id d \<le> n \<Longrightarrow> us_id u \<noteq> sv_uuid sv n"
  shows "\<exists>d' d''. seed sv now d = Inr d' \<and> seed sv now' d' = Inr d''
    \<and> (\<exists>f. (\<forall>v. (f v)\<lparr>dv_last_seen_at := None\<rparr> = v\<lparr>dv_last_seen_at := None\<rparr>) \<and> d'' = d'\<lparr>devices := map f (devices d')\<rparr>)"
proof -
  have "user_ids_ok sv d" using assms(2-4) by (simp add: user_ids_ok_def)
  from seed_seeds [OF assms(1) this, of now] obtain t devs d' where "seed sv now d = Inr d'" "seeded sv t devs d'" by blast
  with seed_again [OF assms(1), of t devs d' now'] show ?thesis unfolding only_last_seen_def by blast
qed

theorem seed_idempotent_witness:
  "\<exists>d' d''. seed demo_server 0 empty_db = Inr d' \<and> seed demo_server 60 d' = Inr d'' \<and> users d'' = users d' \<and> tickets d'' = tickets d'"
proof -
  have "environment (sv_settings demo_server) = ''development''" by (simp add: demo_server_def demo_settings_def default_settings_def)
  moreover have "inj (sv_uuid demo_server)" by (rule demo_uuid_inj)
  moreover have "users empty_db = []" by (simp add: empty_db_def)
  ultimately obtain d' d'' f where "seed demo_server 0 empty_db = Inr d'" "seed demo_server 60 d' = Inr d''"
    "d'' = d'\<lparr>devices := map f (devices d')\<rparr>" using seed_idempotent [of demo_server empty_db 0 60] by auto
  then show ?thesis by simp
qed

end
