(* ===== verification/Logging.thy ===== *)
theory Logging
  imports Domain
begin

text \<open>
  Structured logging (\<open>helpdesktool/logging_config.py\<close>): the line a log record becomes, and the handler the root logger is left
  with.  The results: whatever a record contains, a message taken from a client included, its line is one line of
  printable ASCII, and no attribute of the record changes its time, level, logger, message or request.
\<close>

section \<open>Records\<close>

text \<open>
  What the formatter reads of a \<open>LogRecord\<close>: \<open>getMessage()\<close> is \<open>lr_message\<close>, \<open>formatException(exc_info)\<close> is \<open>lr_exception\<close>,
  and \<open>lr_dict\<close> is \<open>__dict__\<close>, where a value that JSON does not know is the text that \<open>default=str\<close> makes of it.
\<close>

record log_record =
  lr_created :: time
  lr_levelname :: string
  lr_name :: string
  lr_message :: string
  lr_dict :: dict
  lr_exception :: "string option"

text \<open>The attributes of every \<open>LogRecord\<close> of Python 3.11.\<close>

definition RESERVED_LOG_RECORD_ATTRS :: "string list" where
  "RESERVED_LOG_RECORD_ATTRS = [''name'', ''msg'', ''args'', ''levelname'', ''levelno'', ''pathname'', ''filename'', ''module'',
     ''exc_info'', ''exc_text'', ''stack_info'', ''lineno'', ''funcName'', ''created'', ''msecs'', ''relativeCreated'', ''thread'',
     ''threadName'', ''processName'', ''process'']"

section \<open>The formatter\<close>

fun add_extras :: "dict \<Rightarrow> dict \<Rightarrow> dict" where
  "add_extras [] payload = payload"
| "add_extras ((key, v) # d) payload =
     add_extras d (if key \<notin> set RESERVED_LOG_RECORD_ATTRS \<and> dict_get payload key = None then dict_set payload key v else payload)"

definition base_payload :: "host \<Rightarrow> string option \<Rightarrow> log_record \<Rightarrow> dict" where
  "base_payload h current_request r =
     (let payload = [(''timestamp'', JStr (isoformat h (lr_created r))), (''level'', JStr (lr_levelname r)),
                     (''logger'', JStr (lr_name r)), (''message'', JStr (lr_message r))]
      in case current_request of None \<Rightarrow> payload | Some i \<Rightarrow> dict_set payload ''request_id'' (JStr i))"

definition log_payload :: "host \<Rightarrow> string option \<Rightarrow> log_record \<Rightarrow> dict" where
  "log_payload h current_request r =
     (let payload = add_extras (lr_dict r) (base_payload h current_request r)
      in case lr_exception r of None \<Rightarrow> payload | Some s \<Rightarrow> dict_set payload ''exception'' (JStr s))"

definition format_record :: "host \<Rightarrow> string option \<Rightarrow> log_record \<Rightarrow> string" where
  "format_record h current_request r = render '', '' '': '' (float_repr h) (JObj (log_payload h current_request r))"

text \<open>\<open>configure_logging\<close>: the handlers and the level of the root logger.\<close>

datatype log_handler = JsonStdout | OtherHandler string

record root_logger =
  rt_handlers :: "log_handler list"
  rt_level :: int

definition configure_logging :: "int \<Rightarrow> root_logger \<Rightarrow> root_logger" where
  "configure_logging lvl logger = logger\<lparr>rt_handlers := [] @ [JsonStdout], rt_level := lvl\<rparr>"

section \<open>One line\<close>

definition printable :: "string \<Rightarrow> bool" where
  "printable s \<longleftrightarrow> (\<forall>c \<in> set s. 32 \<le> (of_char c :: nat) \<and> (of_char c :: nat) \<le> 126)"

lemma printable_Nil [simp]: "printable []"
  by (simp add: printable_def)

lemma printable_Cons [simp]: "printable (c # s) \<longleftrightarrow> 32 \<le> (of_char c :: nat) \<and> (of_char c :: nat) \<le> 126 \<and> printable s"
  by (auto simp: printable_def)

lemma printable_append [simp]: "printable (s @ t) \<longleftrightarrow> printable s \<and> printable t"
  by (auto simp: printable_def)

lemma printable_concat: "printable (concat ss) \<longleftrightarrow> (\<forall>s \<in> set ss. printable s)"
  by (auto simp: printable_def)

lemma printable_hexdig: "d < 16 \<Longrightarrow> 32 \<le> (of_char (hexdig d) :: nat) \<and> (of_char (hexdig d) :: nat) \<le> 126"
  by (auto simp: hexdig_def of_char_of)

lemma printable_esc: "printable (esc c)"
proof -
  have "(of_char c :: nat) < 256" by (rule of_char_less_256)
  then have "(of_char c :: nat) div 16 < 16" "(of_char c :: nat) mod 16 < 16" by (simp_all add: less_mult_imp_div_less)
  then show ?thesis unfolding esc_def Let_def by (auto simp: printable_hexdig)
qed

lemma printable_quote: "printable (quote s)"
  by (simp add: quote_def printable_concat printable_esc)

lemma printable_join: "printable sep \<Longrightarrow> (\<And>s. s \<in> set ss \<Longrightarrow> printable s) \<Longrightarrow> printable (join sep ss)"
  by (induction sep ss rule: join.induct) auto

lemma printable_show_int: "printable (show_int i)"
  by (auto simp: printable_def is_digit_def Let_def dest!: show_int_chars)

lemma printable_render:
  assumes "printable isep" and "printable ksep" and "\<And>q. printable (fr q)"
  shows "printable (render isep ksep fr j)"
proof (induction j)
  case (JList xs)
  then show ?case using assms by (auto intro!: printable_join)
next
  case (JObj kvs)
  then show ?case using assms by (fastforce intro!: printable_join simp: printable_quote)
qed (use assms in \<open>simp_all add: printable_show_int printable_quote\<close>)

section \<open>What a record cannot change\<close>

lemma add_extras_keeps: "dict_get payload k = Some v \<Longrightarrow> dict_get (add_extras d payload) k = Some v"
proof (induction d payload rule: add_extras.induct)
  case (2 key w d payload)
  then have "dict_get (if key \<notin> set RESERVED_LOG_RECORD_ATTRS \<and> dict_get payload key = None then dict_set payload key w else payload) k = Some v"
    by auto
  from 2(1) [OF this] show ?case by (simp only: add_extras.simps)
qed simp

theorem log_line_not_forged:
  assumes "\<And>q. printable (float_repr h q)"
  shows "printable (format_record h current_request r)
     \<and> dict_get (log_payload h current_request r) ''timestamp'' = Some (JStr (isoformat h (lr_created r)))
     \<and> dict_get (log_payload h current_request r) ''level'' = Some (JStr (lr_levelname r))
     \<and> dict_get (log_payload h current_request r) ''logger'' = Some (JStr (lr_name r))
     \<and> dict_get (log_payload h current_request r) ''message'' = Some (JStr (lr_message r))
     \<and> (case current_request of None \<Rightarrow> True | Some i \<Rightarrow> dict_get (log_payload h current_request r) ''request_id'' = Some (JStr i))"
proof -
  have line: "printable (format_record h current_request r)"
    unfolding format_record_def using assms by (intro printable_render) simp_all
  have kept: "dict_get (log_payload h current_request r) k = Some v"
    if "dict_get (base_payload h current_request r) k = Some v" "k \<noteq> ''exception''" for k v
    using add_extras_keeps [OF that(1), of "lr_dict r"] that(2) by (simp add: log_payload_def Let_def split: option.split)
  have "dict_get (base_payload h current_request r) ''timestamp'' = Some (JStr (isoformat h (lr_created r)))"
    "dict_get (base_payload h current_request r) ''level'' = Some (JStr (lr_levelname r))"
    "dict_get (base_payload h current_request r) ''logger'' = Some (JStr (lr_name r))"
    "dict_get (base_payload h current_request r) ''message'' = Some (JStr (lr_message r))"
    "\<And>i. current_request = Some i \<Longrightarrow> dict_get (base_payload h current_request r) ''request_id'' = Some (JStr i)"
    by (auto simp: base_payload_def Let_def dict_get_def split: option.split)
  from this [THEN kept] show ?thesis using line by (auto split: option.split)
qed

end
