(* ===== verification/Spec2Isabelle.thy ===== *)
theory Spec2Isabelle
  imports AgentLife ServiceHost SqlAudit Classification Hardening Migrations SchemaProps WinCollectors Oidc Platform Downgrades Seed Logging
begin

text \<open>
  A model of the help desk platform in Python: the control plane (\<open>helpdesktool\<close>), the endpoint agents
  (\<open>linux_agent\<close>, \<open>windows_agent\<close>, \<open>agent_common\<close>) and the data its database starts with (\<open>migrations\<close>).  All
  paths are relative to \<open>src/\<close>.

  \<^bold>\<open>The program.\<close>  A device sends heartbeats and its inventory; the control plane detects incidents, opens
  tickets for them, diagnoses them with the help of a language model, and lets a user propose an action, which
  is a registered skill with parameters.  Policy decides whether the action is refused, runs or waits for the
  approval of somebody else.  An approved action is queued as a job; the agent of the device claims it under a
  lease, checks the signed envelope, executes it through one of four executors, journals every stage and
  reports the result.  Users also write messages, on the web or in a chat channel, and ask for operations on
  their accounts in connected applications, which two people approve.  Every change is audited in a chain of
  hashes for each tenant, and published to webhooks.  Four background processes clean up.

  \<^bold>\<open>The theories\<close>, each after those it uses.

  \<^item> Common ground.  \<open>Prelude\<close>: errors, Python's string helpers, the row operations that stand for SQL.
    \<open>Json\<close>: JSON values, their canonical text, redaction.  \<open>Settings\<close>: \<open>config.py\<close>.  \<open>Effects\<close>: code that acts on
    its surroundings and may be cut off in the middle.
  \<^item> The core of the control plane.  \<open>Domain\<close>, \<open>Events\<close>, \<open>Policy\<close>, \<open>AuditLog\<close>, \<open>Signing\<close>, \<open>Orchestrator\<close>:
    \<open>models.py\<close>, \<open>events.py\<close>, \<open>policy.py\<close>, \<open>audit.py\<close>, \<open>job_signing.py\<close> with \<open>agent_common/signing.py\<close>, \<open>orchestrator.py\<close>.
    \<open>Rows\<close>: one record for each table of \<open>db_models.py\<close>, and the database as a record of row lists.  \<open>Persistence\<close>:
    \<open>persistence.py\<close>; \<open>SqlAudit\<close> compares its audit log with the one in memory.  \<open>Skills\<close>: \<open>skills.py\<close>.
  \<^item> Actions and jobs.  \<open>Jobs\<close>: the handlers of \<open>api.py\<close> from \<open>create_action\<close> to \<open>report_job_result\<close>, and a batch of
    \<open>lease_reaper.py\<close>.  \<open>Lifecycle\<close>: a step relation on action rows that every handler refines, and its invariants.
    \<open>JobProps\<close>: what is promised about jobs.
  \<^item> People and devices.  \<open>Auth\<close>, \<open>Oidc\<close>: \<open>auth.py\<close>, \<open>development_auth.py\<close>, \<open>oidc.py\<close>.  \<open>Enrollment\<close>: tenants, logins,
    enrollment, credentials, heartbeats.  \<open>Tenancy\<close>: row-level security and the sessions bound to tenants (\<open>rls.py\<close>,
    \<open>database.py\<close>).  \<open>Views\<close>: the handlers that only read.  \<open>Hardening\<close>: the middleware of \<open>hardening.py\<close>.
  \<^item> Incidents.  \<open>Confidence\<close>, \<open>Incidents\<close>, \<open>Classification\<close>, \<open>Diagnosis\<close>, \<open>Tickets\<close>: \<open>confidence.py\<close>, \<open>incidents.py\<close>,
    \<open>security_classification.py\<close>, \<open>ai/provider.py\<close>, and their handlers.  \<open>Knowledge\<close>, \<open>Baselines\<close>: \<open>knowledge.py\<close>,
    \<open>baseline.py\<close>.
  \<^item> Conversations.  \<open>Connectors\<close>, \<open>Conversations\<close>, \<open>Channels\<close>: \<open>connectors\<close> with the handlers of connector requests,
    \<open>conversation.py\<close> with its regular expressions, \<open>channels\<close> for Slack, Google Chat and Teams.
  \<^item> Operation.  \<open>Webhooks\<close>: \<open>integrations.py\<close>, \<open>webhook_worker.py\<close>.  \<open>Retention\<close>: \<open>retention_worker.py\<close>.  \<open>Reporting\<close>:
    \<open>reporting.py\<close>, \<open>metrics.py\<close>.  \<open>Workers\<close>: the loops of the four background processes.  \<open>Platform\<close>: every
    handler that changes the database and every background process as one step relation.
    \<open>Logging\<close>: the lines of the log.  \<open>Seed\<close>: the development data.
  \<^item> The database.  \<open>Migrations\<close>, \<open>Downgrades\<close>: the rows that the migrations insert and delete.  \<open>Schema\<close>: the tables, indexes, row-level security and privileges
    that they build and take down; \<open>SchemaLaws\<close>, \<open>SchemaSteps\<close>, \<open>SchemaProps\<close>: what holds of them, and the comparison with 
    \<open>db_models.py\<close>.
  \<^item> The agents.  \<open>Executors\<close>, \<open>WinServices\<close>: the executors over a process runner, a service manager and a
    resolver.  \<open>Journal\<close>, \<open>AgentConfig\<close>: the two files an agent keeps.  \<open>Agent\<close>: an agent, from enrollment to its main
    loop; \<open>AgentProps\<close>, \<open>AgentLife\<close>: what it guarantees, the latter over restarts.  \<open>Collectors\<close>, \<open>WinCollectors\<close>: the inventories of a Linux and of a Windows
    device.  \<open>ServiceHost\<close>: the Windows service around the agent.

  \<^bold>\<open>How the code is rendered.\<close>  A handler is a function from the database to an error, which rolls back, or an
  answer and the new database; what it commits before an error is written out.  Its guards are those of the
  code in their order.  Rows without an \<open>ORDER BY\<close> come in the order of insertion.  Constraints of the
  database appear where a handler depends on them.  Identifiers and tokens are drawn from streams (\<open>uuid4\<close>,
  \<open>secrets\<close>) that the server record carries.  Times are whole seconds, and a handler that reads the clock more than
  once sees one reading.  Floats are exact rationals.  Characters are code points below 256, and the dashes in
  messages are written \<open>--\<close>.  An exception that no code handles is the answer 500.  Digests, signatures, the
  text of floats and timestamps, parsing JSON, name resolution, HTTP exchanges, the operating system and the
  packages (cryptography, pyjwt, pywin32, pydantic, sqlalchemy) are parameters: records of functions that the
  definitions take.  What a theorem assumes of them (collision freedom of a digest, a signature that only
  its key can make) is a hypothesis of that theorem.

  \<^bold>\<open>Interfaces\<close> are locales, each interpreted on the model of the code that provides it: \<open>audit_sink\<close> on the log
  in memory and the one in SQL, \<open>action_store\<close> on the SQL store, \<open>idempotency\<close> on the idempotency records,
  \<open>application_connector\<close> on the mock connector, \<open>job_executor\<close> on the four executors, \<open>worker\<close> on the four
  background processes.

  \<^bold>\<open>What is shown\<close>, by the numbers of the properties.  The numbered texts before the theorems state each; in
  short: nothing runs without policy and approval, a decision needs a second person, and claims and reports are
  exclusive; actions end, are claimed a bounded number of times, and terminal ones stay; agents change an
  endpoint for verified jobs only, do not repeat an interrupted one while their journal remembers it, and never replace a trusted key; the audit
  trails of the whole platform are verified chains that only grow, changes to them are detected, and the SQL log
  refines the log in memory; tenants are isolated in handlers and by row-level security, and in
  sessions up to the first commit, after which a query sees one tenant still, but which depends on the connection pool; channel
  events, principals and enrollment tokens are what they claim to be; the webhook outbox drains and its requests
  stay out of private networks; the knowledge base stays readable; waiting loops end; reports add up.

  \<^bold>\<open>Loops and fuel.\<close>  Recursion is structural, or by a measure, everywhere but in \<open>wait_loop\<close> of \<open>WinServices\<close> and \<open>each_subkey\<close> of
  \<open>WinCollectors\<close>, which are \<open>partial_function (option)\<close>s proved to return for every clock that reaches the deadline and
  for every key with finitely many subkeys, and in the main loops of the processes and the agents, which do not end: their iterations are the definitions.

  \<^bold>\<open>Not modelled.\<close>  What is logged where, and how the logging of Python delivers it; the text format of
  Prometheus and the two HTTP metrics; parsing command lines; registering the Windows service with its manager;
  Alembic's environment (\<open>migrations/env.py\<close>); sending replies to Slack, Google Chat and Teams, which only logs; writing
  files, beyond what the agents' effects say of it; the anonymous block that creates the database role.
\<close>

end
